(* ===== verification/Go_Prelude.thy ===== *)
theory Go_Prelude
  imports Main "HOL-Library.AList" "HOL-Library.State_Monad" "HOL-Library.Sublist"
    "HOL-Library.List_Lexorder" "HOL-Library.Char_ord" "HOL-Library.Multiset"
begin

text \<open>
  Shared vocabulary of the development: Go strings as byte lists with the functions of the
  standard package \<open>strings\<close> that the controller uses, Go errors with wrapping, Go maps as
  association lists (the list order is the iteration order, which Go leaves open), and the
  generic lemmas the component theories share.
\<close>

named_theorems go_string \<open>characteristic facts of the string functions\<close>
named_theorems go_map \<open>lookup facts of the map functions\<close>

section \<open>Errors\<close>

text \<open>
  A Go error value. \<open>Err\<close> is \<open>errors.New\<close> or \<open>fmt.Errorf\<close> without \<open>%w\<close>;
  \<open>Wrap p e\<close> is \<open>fmt.Errorf("p: %w", e)\<close>, \<open>Detail e s\<close> is
  \<open>fmt.Errorf("%w: s", e)\<close>; the other constructors are the sentinel and
  API-status errors the controller tells apart with \<open>errors.Is\<close> and the
  \<open>apierrors.Is...\<close> predicates (both look through wrapping).
\<close>

datatype go_error =
    Err string
  | Wrap string go_error
  | Detail go_error string
  | ErrConflict
  | ErrNotFound
  | ApiNotFound
  | ApiNoMatch
  | ApiAlreadyExists
  | ApiConflict
  | OsNotExist
  | Panic string

text \<open>
  \<open>Panic\<close> is a run-time panic (such as \<open>resource.MustParse\<close> on a malformed quantity): it
  leaves the function at once, as an error result does, and no branch of the code handles it.
\<close>

fun err_root :: "go_error \<Rightarrow> go_error" where
  "err_root (Wrap p e) = err_root e"
| "err_root (Detail e s) = err_root e"
| "err_root e = e"

definition is_api_not_found :: "go_error \<Rightarrow> bool" where
  "is_api_not_found e \<longleftrightarrow> err_root e = ApiNotFound"

definition is_api_no_match :: "go_error \<Rightarrow> bool" where
  "is_api_no_match e \<longleftrightarrow> err_root e = ApiNoMatch"

definition is_api_conflict :: "go_error \<Rightarrow> bool" where
  "is_api_conflict e \<longleftrightarrow> err_root e = ApiConflict"

definition is_api_exists :: "go_error \<Rightarrow> bool" where
  "is_api_exists e \<longleftrightarrow> err_root e = ApiAlreadyExists"

definition is_err_not_found :: "go_error \<Rightarrow> bool" where
  "is_err_not_found e \<longleftrightarrow> err_root e = ErrNotFound"

definition is_err_conflict :: "go_error \<Rightarrow> bool" where
  "is_err_conflict e \<longleftrightarrow> err_root e = ErrConflict"

text \<open>\<open>os.IsNotExist\<close> does not look through wrapping.\<close>

definition is_os_not_exist :: "go_error \<Rightarrow> bool" where
  "is_os_not_exist e \<longleftrightarrow> e = OsNotExist"

text \<open>\<open>kerrors.NewAggregate\<close> of the non-nil errors of a list.\<close>

definition aggregate :: "go_error option list \<Rightarrow> go_error option" where
  "aggregate errs =
     (case List.map_filter id errs of
        [] \<Rightarrow> None
      | [e] \<Rightarrow> Some e
      | e # es \<Rightarrow> Some (Wrap ''aggregate'' e))"

lemmas err_kind_defs = is_api_not_found_def is_api_no_match_def is_api_conflict_def
  is_api_exists_def is_err_not_found_def is_err_conflict_def

fun err_text :: "go_error \<Rightarrow> string" where
  "err_text (Err s) = s"
| "err_text (Wrap p e) = p @ '': '' @ err_text e"
| "err_text (Detail e s) = err_text e @ '': '' @ s"
| "err_text ErrConflict = ''resource already exists''"
| "err_text ErrNotFound = ''resource not found''"
| "err_text ApiNotFound = ''not found''"
| "err_text ApiNoMatch = ''no matches for kind''"
| "err_text ApiAlreadyExists = ''already exists''"
| "err_text ApiConflict = ''the object has been modified''"
| "err_text OsNotExist = ''file does not exist''"
| "err_text (Panic s) = s"

type_synonym 'a result = "go_error + 'a"

section \<open>Strings\<close>

text \<open>
  A Go string is a sequence of bytes. The case conversions and \<open>TrimSpace\<close> treat the
  ASCII range and leave every other byte alone.
\<close>

definition has_prefix :: "string \<Rightarrow> string \<Rightarrow> bool" where
  "has_prefix s p \<longleftrightarrow> take (length p) s = p"

definition has_suffix :: "string \<Rightarrow> string \<Rightarrow> bool" where
  "has_suffix s p \<longleftrightarrow> length p \<le> length s \<and> drop (length s - length p) s = p"

definition trim_prefix :: "string \<Rightarrow> string \<Rightarrow> string" where
  "trim_prefix s p = (if has_prefix s p then drop (length p) s else s)"

definition trim_suffix :: "string \<Rightarrow> string \<Rightarrow> string" where
  "trim_suffix s p = (if has_suffix s p then take (length s - length p) s else s)"

text \<open>\<open>strings.Index\<close> and \<open>strings.LastIndex\<close>; \<open>None\<close> is the result -1.\<close>

fun str_index :: "string \<Rightarrow> string \<Rightarrow> nat option" where
  "str_index [] sub = (if sub = [] then Some 0 else None)"
| "str_index (c # cs) sub =
     (if has_prefix (c # cs) sub then Some 0 else map_option Suc (str_index cs sub))"

fun str_last_index :: "string \<Rightarrow> string \<Rightarrow> nat option" where
  "str_last_index [] sub = (if sub = [] then Some 0 else None)"
| "str_last_index (c # cs) sub =
     (case str_last_index cs sub of
        Some i \<Rightarrow> Some (Suc i)
      | None \<Rightarrow> if has_prefix (c # cs) sub then Some 0 else None)"

definition str_contains :: "string \<Rightarrow> string \<Rightarrow> bool" where
  "str_contains s sub \<longleftrightarrow> str_index s sub \<noteq> None"

text \<open>\<open>strings.ReplaceAll\<close> for a non-empty pattern, which is the only use in the controller.\<close>

function replace_all :: "string \<Rightarrow> string \<Rightarrow> string \<Rightarrow> string" where
  "replace_all s old new =
     (if old = [] \<or> s = [] then s
      else if has_prefix s old then new @ replace_all (drop (length old) s) old new
      else hd s # replace_all (tl s) old new)"
  by pat_completeness auto
termination
  by (relation "measure (\<lambda>(s, old, new). length s)") (auto simp: length_greater_0_conv)

declare replace_all.simps [simp del]

definition is_space :: "char \<Rightarrow> bool" where
  "is_space c \<longleftrightarrow> c \<in> {CHR 0x20, CHR 0x09, CHR 0x0A, CHR 0x0B, CHR 0x0C, CHR 0x0D}"

definition newline :: string where
  "newline = [CHR 0x0A]"

definition trim_left :: "(char \<Rightarrow> bool) \<Rightarrow> string \<Rightarrow> string" where
  "trim_left f s = dropWhile f s"

definition trim_right :: "(char \<Rightarrow> bool) \<Rightarrow> string \<Rightarrow> string" where
  "trim_right f s = rev (dropWhile f (rev s))"

definition trim_both :: "(char \<Rightarrow> bool) \<Rightarrow> string \<Rightarrow> string" where
  "trim_both f s = trim_right f (trim_left f s)"

definition trim_space :: "string \<Rightarrow> string" where
  "trim_space s = trim_both is_space s"

definition is_newline :: "char \<Rightarrow> bool" where
  "is_newline c \<longleftrightarrow> c = CHR 0x0A"

text \<open>\<open>strings.Split\<close> with a one-byte separator, and \<open>strings.Join\<close>.\<close>

fun split_on :: "char \<Rightarrow> string \<Rightarrow> string list" where
  "split_on x [] = [[]]"
| "split_on x (c # cs) =
     (if c = x then [] # split_on x cs
      else (case split_on x cs of [] \<Rightarrow> [[c]] | w # ws \<Rightarrow> (c # w) # ws))"

fun join_with :: "string \<Rightarrow> string list \<Rightarrow> string" where
  "join_with sep [] = []"
| "join_with sep [w] = w"
| "join_with sep (w # v # ws) = w @ sep @ join_with sep (v # ws)"

definition to_lower_char :: "char \<Rightarrow> char" where
  "to_lower_char c =
     (let n = (of_char c :: nat) in if 65 \<le> n \<and> n \<le> 90 then char_of (n + 32) else c)"

definition to_upper_char :: "char \<Rightarrow> char" where
  "to_upper_char c =
     (let n = (of_char c :: nat) in if 97 \<le> n \<and> n \<le> 122 then char_of (n - 32) else c)"

definition to_lower :: "string \<Rightarrow> string" where
  "to_lower s = map to_lower_char s"

definition to_upper :: "string \<Rightarrow> string" where
  "to_upper s = map to_upper_char s"

definition equal_fold :: "string \<Rightarrow> string \<Rightarrow> bool" where
  "equal_fold s t \<longleftrightarrow> to_lower s = to_lower t"

text \<open>Decimal rendering of integers, as \<open>%d\<close> and \<open>strconv.Itoa\<close> produce it.\<close>

definition digit_char :: "nat \<Rightarrow> char" where
  "digit_char d = char_of (48 + d)"

fun show_nat :: "nat \<Rightarrow> string" where
  "show_nat n = (if n < 10 then [digit_char n] else show_nat (n div 10) @ [digit_char (n mod 10)])"

declare show_nat.simps [simp del]

definition show_int :: "int \<Rightarrow> string" where
  "show_int i = (if i < 0 then ''-'' @ show_nat (nat (- i)) else show_nat (nat i))"

text \<open>Numerals consist of digits and determine the number.\<close>

definition decimal_digits :: string where
  "decimal_digits = ''0123456789''"

lemma digit_char_digit: "d < 10 \<Longrightarrow> digit_char d \<in> set decimal_digits"
proof -
  have "\<forall>d \<in> set [0..<10]. digit_char d \<in> set decimal_digits"
    by code_simp
  then show "d < 10 \<Longrightarrow> digit_char d \<in> set decimal_digits"
    by simp
qed

lemma show_nat_digits: "set (show_nat n) \<subseteq> set decimal_digits"
proof (induction n rule: less_induct)
  case (less n)
  then show ?case
    using digit_char_digit [of n] digit_char_digit [of "n mod 10"]
    by (subst show_nat.simps) simp
qed

lemma show_nat_no_dash [simp]: "CHR ''-'' \<notin> set (show_nat n)"
  using show_nat_digits [of n] by (auto simp: decimal_digits_def)

definition digits_value :: "string \<Rightarrow> nat" where
  "digits_value s = foldl (\<lambda>acc c. 10 * acc + (of_char c - 48)) 0 s"

lemma of_digit_char: "d < 10 \<Longrightarrow> (of_char (digit_char d) :: nat) = 48 + d"
  by (simp add: digit_char_def)

lemma digits_value_show_nat: "digits_value (show_nat n) = n"
proof (induction n rule: less_induct)
  case (less n)
  then show ?case
    by (subst show_nat.simps) (auto simp: digits_value_def of_digit_char)
qed

lemma show_nat_inject: "show_nat m = show_nat n \<longleftrightarrow> m = n"
  by (metis digits_value_show_nat)

text \<open>\<open>strings.Cut\<close>: the text before and after the first separator, or \<open>None\<close> without one.\<close>

definition str_cut :: "string \<Rightarrow> string \<Rightarrow> (string \<times> string) option" where
  "str_cut s sep =
     map_option (\<lambda>i. (take i s, drop (i + length sep) s)) (str_index s sep)"

text \<open>\<open>sort.Strings\<close> orders by bytes, which is the lexicographic order of the library.\<close>

definition sort_strings :: "string list \<Rightarrow> string list" where
  "sort_strings = sort"

lemma set_sort_strings [simp]: "set (sort_strings xs) = set xs"
  by (simp add: sort_strings_def)

lemma sorted_sort_strings [simp]: "sorted (sort_strings xs)"
  by (simp add: sort_strings_def)

lemma distinct_sort_strings [simp]: "distinct (sort_strings xs) = distinct xs"
  by (simp add: sort_strings_def)

lemma sort_strings_perm: "mset xs = mset ys \<Longrightarrow> sort_strings xs = sort_strings ys"
  unfolding sort_strings_def by (rule properties_for_sort) simp_all

text \<open>Two iteration orders of one Go map.\<close>

lemma map_of_perm [go_map]:
  assumes "distinct (map fst xs)" "mset xs = mset ys"
  shows "map_of xs = map_of ys"
proof -
  have "mset (map fst xs) = mset (map fst ys)"
    using assms(2) by simp
  then have "distinct (map fst ys)"
    using assms(1) by (metis mset_eq_imp_distinct_iff)
  then show ?thesis
    using assms map_of_inject_set by (metis set_mset_mset)
qed

text \<open>Run-time panics that the controller does not recover from.\<close>

definition nil_deref :: go_error where
  "nil_deref = Panic ''invalid memory address or nil pointer dereference''"

text \<open>
  \<open>%q\<close> (\<open>strconv.Quote\<close>) on bytes: the named escapes, \<open>\xhh\<close> for the other control
  bytes, and everything else unchanged.
\<close>

definition dquote :: char where "dquote = CHR 0x22"
definition squote :: char where "squote = CHR 0x27"
definition backslash :: char where "backslash = CHR 0x5C"

definition hex_digit :: "nat \<Rightarrow> char" where
  "hex_digit d = (if d < 10 then char_of (48 + d) else char_of (87 + d))"

definition quote_char :: "char \<Rightarrow> string" where
  "quote_char c =
     (let n = (of_char c :: nat) in
      if c = dquote \<or> c = backslash then [backslash, c]
      else if n = 7 then [backslash, CHR ''a'']
      else if n = 8 then [backslash, CHR ''b'']
      else if n = 12 then [backslash, CHR ''f'']
      else if n = 10 then [backslash, CHR ''n'']
      else if n = 13 then [backslash, CHR ''r'']
      else if n = 9 then [backslash, CHR ''t'']
      else if n = 11 then [backslash, CHR ''v'']
      else if n < 32 \<or> n = 127 then [backslash, CHR ''x'', hex_digit (n div 16), hex_digit (n mod 16)]
      else [c])"

definition go_quote :: "string \<Rightarrow> string" where
  "go_quote s = [dquote] @ concat (map quote_char s) @ [dquote]"

end
