(* ===== verification/Auth_Prefix.thy ===== *)
theory Auth_Prefix
  imports Go_Prelude
begin

text \<open>
  \<open>internal/auth/prefix.go\<close>: the tenant prefix from which Pod, ServiceAccount and session
  names are derived, and the parser that turns a ServiceAccount username back into a caller
  identity. The lemmas show which names parse to which role, that the parser inverts
  \<open>SAName\<close>, and where the derived names of two roles can meet.
\<close>

definition role_admin :: string where "role_admin = ''admin''"
definition role_manager :: string where "role_manager = ''manager''"
definition role_team_leader :: string where "role_team_leader = ''team-leader''"
definition role_worker :: string where "role_worker = ''worker''"

lemmas role_defs = role_admin_def role_manager_def role_team_leader_def role_worker_def

record caller_identity =
  ci_role :: string
  ci_username :: string
  ci_team :: string
  ci_worker_name :: string

type_synonym resource_prefix = string

definition default_resource_prefix :: resource_prefix where
  "default_resource_prefix = ''hiclaw-''"

definition prefix_or :: "resource_prefix \<Rightarrow> resource_prefix \<Rightarrow> resource_prefix" where
  "prefix_or p fallback =
     (if p = [] then (if fallback = [] then default_resource_prefix else fallback) else p)"

definition effective_prefix :: "resource_prefix \<Rightarrow> string" where
  "effective_prefix p = (if p = [] then default_resource_prefix else p)"

definition worker_name_prefix :: "resource_prefix \<Rightarrow> string" where
  "worker_name_prefix p = effective_prefix p @ ''worker-''"

definition manager_name_prefix :: "resource_prefix \<Rightarrow> string" where
  "manager_name_prefix p = effective_prefix p @ ''manager-''"

definition manager_default_name :: "resource_prefix \<Rightarrow> string" where
  "manager_default_name p = effective_prefix p @ ''manager''"

definition admin_name :: "resource_prefix \<Rightarrow> string" where
  "admin_name p = effective_prefix p @ ''admin''"

definition worker_app_label :: "resource_prefix \<Rightarrow> string" where
  "worker_app_label p = effective_prefix p @ ''worker''"

definition manager_app_label :: "resource_prefix \<Rightarrow> string" where
  "manager_app_label p = effective_prefix p @ ''manager''"

definition worker_session_name :: "resource_prefix \<Rightarrow> string \<Rightarrow> string" where
  "worker_session_name p name = worker_name_prefix p @ name"

definition manager_session_name :: "resource_prefix \<Rightarrow> string \<Rightarrow> string" where
  "manager_session_name p name = manager_name_prefix p @ name"

definition manager_pod_name :: "resource_prefix \<Rightarrow> string \<Rightarrow> string" where
  "manager_pod_name p manager_name =
     (if manager_name = ''default'' then manager_default_name p
      else manager_name_prefix p @ manager_name)"

definition sa_name :: "resource_prefix \<Rightarrow> string \<Rightarrow> string \<Rightarrow> string" where
  "sa_name p role name =
     (if role = role_admin then admin_name p
      else if role = role_manager then manager_default_name p
      else worker_name_prefix p @ name)"

definition sa_user_prefix :: string where
  "sa_user_prefix = ''system:serviceaccount:''"

definition colon :: char where "colon = CHR 0x3A"

text \<open>
  \<open>strings.SplitN(s, ":", 2)\<close> has two parts exactly when \<open>s\<close> holds a colon; the second
  part is everything after the first colon.
\<close>

definition parse_sa_username :: "resource_prefix \<Rightarrow> string \<Rightarrow> caller_identity result" where
  "parse_sa_username p username =
     (if \<not> has_prefix username sa_user_prefix then
        Inl (Err (''unexpected username format: '' @ go_quote username))
      else
        (case str_index (drop (length sa_user_prefix) username) [colon] of
           None \<Rightarrow> Inl (Err (''cannot parse SA from username: '' @ go_quote username))
         | Some i \<Rightarrow>
             (let name = drop (Suc i) (drop (length sa_user_prefix) username) in
              if name = admin_name p then
                Inr \<lparr>ci_role = role_admin, ci_username = ''admin'', ci_team = [], ci_worker_name = []\<rparr>
              else if name = manager_default_name p then
                Inr \<lparr>ci_role = role_manager, ci_username = ''manager'', ci_team = [],
                      ci_worker_name = []\<rparr>
              else if has_prefix name (worker_name_prefix p) then
                (let n = drop (length (worker_name_prefix p)) name in
                 Inr \<lparr>ci_role = role_worker, ci_username = n, ci_team = [], ci_worker_name = n\<rparr>)
              else Inl (Err (''unrecognized SA name pattern: '' @ go_quote name)))))"

lemmas prefix_name_defs = worker_name_prefix_def manager_name_prefix_def manager_default_name_def
  admin_name_def worker_session_name_def manager_session_name_def manager_pod_name_def

section \<open>Facts about derived names\<close>

lemma has_prefix_append [simp, go_string]: "has_prefix (p @ s) p"
  by (simp add: has_prefix_def)

lemma has_prefix_iff [go_string]: "has_prefix s p \<longleftrightarrow> (\<exists>t. s = p @ t)"
  by (metis append_eq_conv_conj append_take_drop_id has_prefix_def)

lemma effective_prefix_nonempty: "effective_prefix p \<noteq> []"
  by (simp add: effective_prefix_def default_resource_prefix_def)

lemma role_names_apart [simp]:
  "admin_name p \<noteq> manager_default_name p"
  "worker_name_prefix p @ n \<noteq> admin_name p"
  "worker_name_prefix p @ n \<noteq> manager_default_name p"
  by (simp_all add: prefix_name_defs)

text \<open>The first colon of a namespace-qualified name ends the namespace.\<close>

lemma str_index_colon:
  assumes "colon \<notin> set ns"
  shows "str_index (ns @ [colon] @ n) [colon] = Some (length ns)"
  using assms by (induction ns) (auto simp: has_prefix_def)

lemma parse_sa_username_qualified:
  assumes "colon \<notin> set ns"
  shows "parse_sa_username p (sa_user_prefix @ ns @ [colon] @ name) =
    (if name = admin_name p then
       Inr \<lparr>ci_role = role_admin, ci_username = ''admin'', ci_team = [], ci_worker_name = []\<rparr>
     else if name = manager_default_name p then
       Inr \<lparr>ci_role = role_manager, ci_username = ''manager'', ci_team = [], ci_worker_name = []\<rparr>
     else if has_prefix name (worker_name_prefix p) then
       (let n = drop (length (worker_name_prefix p)) name in
        Inr \<lparr>ci_role = role_worker, ci_username = n, ci_team = [], ci_worker_name = n\<rparr>)
     else Inl (Err (''unrecognized SA name pattern: '' @ go_quote name)))"
proof -
  have "str_index (ns @ colon # name) [colon] = Some (length ns)"
    using str_index_colon [OF assms, of name] by simp
  then show ?thesis by (simp add: parse_sa_username_def)
qed

section \<open>Properties\<close>

text \<open>
  Parsing inverts naming: the username Kubernetes reports for the ServiceAccount that
  \<open>SAName\<close> derives for a role and a name parses, in any namespace, to the admin identity,
  the shared manager identity, or a worker identity that carries exactly that name (team
  leaders use worker accounts and are told apart later, by the enricher).
\<close>

theorem sa_username_roundtrip:
  assumes "colon \<notin> set ns"
  shows "parse_sa_username p (sa_user_prefix @ ns @ [colon] @ sa_name p role name) =
    Inr (if role = role_admin then
           \<lparr>ci_role = role_admin, ci_username = ''admin'', ci_team = [], ci_worker_name = []\<rparr>
         else if role = role_manager then
           \<lparr>ci_role = role_manager, ci_username = ''manager'', ci_team = [], ci_worker_name = []\<rparr>
         else \<lparr>ci_role = role_worker, ci_username = name, ci_team = [], ci_worker_name = name\<rparr>)"
  using parse_sa_username_qualified [OF assms, of p "sa_name p role name"]
  by (simp add: sa_name_def role_names_apart(1) [symmetric] Let_def)

theorem sa_username_roundtrip_witness:
  "parse_sa_username ''acme-'' (sa_user_prefix @ ''prod'' @ [colon] @ sa_name ''acme-'' role_worker ''bob'') =
    Inr \<lparr>ci_role = role_worker, ci_username = ''bob'', ci_team = [], ci_worker_name = ''bob''\<rparr>"
proof -
  have "colon \<notin> set ''prod''" by (simp add: colon_def)
  from sa_username_roundtrip [OF this, of "''acme-''" role_worker "''bob''"]
  show ?thesis by (simp add: role_defs)
qed

lemma parallel_prefixes_differ:
  assumes "\<not> prefix a b" and "\<not> prefix b a"
  shows "a @ s \<noteq> b @ t"
  using assms by (metis prefix_same_cases prefixI)

text \<open>
  C8. Tenant isolation: when neither of two effective resource prefixes is a prefix of the
  other, no ServiceAccount name that one tenant's controller derives, for any role, is accepted
  by the other tenant's controller.
\<close>

theorem tenant_isolation:
  assumes "colon \<notin> set ns"
    and "\<not> prefix (effective_prefix p) (effective_prefix q)"
    and "\<not> prefix (effective_prefix q) (effective_prefix p)"
  shows "\<exists>e. parse_sa_username p (sa_user_prefix @ ns @ [colon] @ sa_name q role name) = Inl e"
proof -
  have "\<exists>t. sa_name q role name = effective_prefix q @ t"
    by (simp add: sa_name_def prefix_name_defs)
  then obtain t where t: "sa_name q role name = effective_prefix q @ t" by blast
  have "effective_prefix q @ t \<noteq> effective_prefix p @ s" for s
    using parallel_prefixes_differ [of "effective_prefix q" "effective_prefix p"] assms(2,3) by blast
  then show ?thesis
    using parse_sa_username_qualified [OF assms(1), of p "sa_name q role name"]
    by (simp add: t prefix_name_defs has_prefix_iff)
qed

theorem tenant_isolation_witness:
  "\<exists>e. parse_sa_username ''acme-'' (sa_user_prefix @ ''ns'' @ [colon] @ sa_name ''beta-'' role_admin []) = Inl e"
  by (rule tenant_isolation) (simp_all add: colon_def effective_prefix_def)

text \<open>
  The isolation of tenants stops where one prefix extends another: a controller with the
  default prefix accepts the admin account of a tenant whose prefix is \<open>hiclaw-worker-\<close> as
  a worker of its own, named \<open>admin\<close>.
\<close>

theorem tenant_prefix_overlap:
  "parse_sa_username default_resource_prefix
     (sa_user_prefix @ ''ns'' @ [colon] @ sa_name ''hiclaw-worker-'' role_admin name) =
   Inr \<lparr>ci_role = role_worker, ci_username = ''admin'', ci_team = [], ci_worker_name = ''admin''\<rparr>"
proof -
  have "colon \<notin> set ''ns''" by (simp add: colon_def)
  from parse_sa_username_qualified [OF this, of default_resource_prefix
      "sa_name ''hiclaw-worker-'' role_admin name"]
  show ?thesis
    by (simp add: sa_name_def prefix_name_defs effective_prefix_def default_resource_prefix_def
        has_prefix_def Let_def)
qed

end
