(* ===== verification/Auth_Authenticator.thy ===== *)
theory Auth_Authenticator
  imports Auth_Prefix
begin

text \<open>
  \<open>internal/auth/authenticator.go\<close>: the TokenReview authenticator with its bounded,
  expiring cache. The cache is an association list whose order is the (unspecified) iteration
  order of the Go map; every theorem holds for every order. The SHA-256 digest, the TokenReview
  API and the readings of the clock are arguments. The lemmas show the size bound, that an
  answer from the cache repeats an identity that an authenticated review gave for the same
  digest, and that no answer outlives the TTL.
\<close>

record cached_result =
  cr_identity :: caller_identity
  cr_expiry :: int

record 'k authenticator =
  au_audience :: string
  au_prefix :: resource_prefix
  au_cache :: "('k \<times> cached_result) list"
  au_cache_ttl :: int
  au_cache_max :: int
  au_cleanup_interval :: int

record review_status =
  rv_authenticated :: bool
  rv_error :: string
  rv_username :: string

definition default_audience :: string where
  "default_audience = ''hiclaw-controller''"

text \<open>Durations in nanoseconds: five minutes and one minute.\<close>

definition default_cache_ttl :: int where "default_cache_ttl = 300000000000"
definition default_cache_max :: int where "default_cache_max = 1000"
definition default_cleanup_interval :: int where "default_cleanup_interval = 60000000000"

definition new_authenticator :: "string \<Rightarrow> resource_prefix \<Rightarrow> 'k authenticator" where
  "new_authenticator audience pfx =
     \<lparr>au_audience = (if audience = [] then default_audience else audience),
      au_prefix = prefix_or pfx default_resource_prefix,
      au_cache = [],
      au_cache_ttl = default_cache_ttl,
      au_cache_max = default_cache_max,
      au_cleanup_interval = default_cleanup_interval\<rparr>"

definition get_from_cache :: "'k authenticator \<Rightarrow> int \<Rightarrow> 'k \<Rightarrow> caller_identity option" where
  "get_from_cache a now key =
     (case map_of (au_cache a) key of
        Some entry \<Rightarrow> if now < cr_expiry entry then Some (cr_identity entry) else None
      | None \<Rightarrow> None)"

text \<open>\<open>sweepExpiredLocked\<close>: the remaining cache and the number of removed entries.\<close>

fun sweep_entries :: "int \<Rightarrow> ('k \<times> cached_result) list \<Rightarrow> ('k \<times> cached_result) list \<times> nat" where
  "sweep_entries now [] = ([], 0)"
| "sweep_entries now ((k, v) # es) =
     (let (kept, n) = sweep_entries now es in
      if \<not> now < cr_expiry v then (kept, Suc n) else ((k, v) # kept, n))"

definition sweep_expired_locked :: "'k authenticator \<Rightarrow> int \<Rightarrow> 'k authenticator \<times> nat" where
  "sweep_expired_locked a now =
     (let (kept, n) = sweep_entries now (au_cache a) in (a\<lparr>au_cache := kept\<rparr>, n))"

text \<open>
  \<open>evictOldestLocked\<close>: the scan keeps the first key with the smallest expiry it has met.
\<close>

fun oldest_entry :: "('k \<times> int) option \<Rightarrow> ('k \<times> cached_result) list \<Rightarrow> ('k \<times> int) option" where
  "oldest_entry best [] = best"
| "oldest_entry best ((k, v) # es) =
     oldest_entry
       (case best of
          None \<Rightarrow> Some (k, cr_expiry v)
        | Some (ok, oe) \<Rightarrow> if cr_expiry v < oe then Some (k, cr_expiry v) else Some (ok, oe)) es"

definition evict_oldest_locked :: "'k authenticator \<Rightarrow> 'k authenticator" where
  "evict_oldest_locked a =
     (case oldest_entry None (au_cache a) of
        Some (k, _) \<Rightarrow> a\<lparr>au_cache := AList.delete k (au_cache a)\<rparr>
      | None \<Rightarrow> a)"

definition put_in_cache ::
  "'k authenticator \<Rightarrow> int \<Rightarrow> int \<Rightarrow> 'k \<Rightarrow> caller_identity \<Rightarrow> 'k authenticator" where
  "put_in_cache a now_sweep now_put key identity =
     (let a1 = (if au_cache_max a > 0 \<and> int (length (au_cache a)) \<ge> au_cache_max a then
                  (let (b, n) = sweep_expired_locked a now_sweep in
                   if n = 0 then evict_oldest_locked b else b)
                else a)
      in a1\<lparr>au_cache := AList.update key
              \<lparr>cr_identity = identity, cr_expiry = now_put + au_cache_ttl a\<rparr> (au_cache a1)\<rparr>)"

definition invalidate_cache :: "'k authenticator \<Rightarrow> 'k authenticator" where
  "invalidate_cache a = a\<lparr>au_cache := []\<rparr>"

definition sweep_expired :: "'k authenticator \<Rightarrow> int \<Rightarrow> 'k authenticator \<times> nat" where
  "sweep_expired a now = sweep_expired_locked a now"

text \<open>
  \<open>StartCleanup\<close> runs \<open>SweepExpired\<close> at every tick until the context is cancelled; the
  ticks that fire before the cancellation are the list of clock readings.
\<close>

definition start_cleanup :: "'k authenticator \<Rightarrow> int list \<Rightarrow> 'k authenticator" where
  "start_cleanup a ticks =
     (if au_cleanup_interval a \<le> 0 then a
      else fold (\<lambda>now b. fst (sweep_expired b now)) ticks a)"

text \<open>
  \<open>Authenticate\<close>: \<open>sha\<close> is the digest of the token, \<open>review token audiences\<close> the answer
  of the TokenReview API, and the three clock readings are those of the cache lookup, the
  sweep and the insertion.
\<close>

definition authenticate ::
  "(string \<Rightarrow> 'k) \<Rightarrow> (string \<Rightarrow> string list \<Rightarrow> review_status result) \<Rightarrow>
   int \<times> int \<times> int \<Rightarrow> string \<Rightarrow> 'k authenticator \<Rightarrow> caller_identity result \<times> 'k authenticator" where
  "authenticate sha review clock token a =
     (if token = [] then (Inl (Err ''empty token''), a)
      else
        (let (now_get, now_sweep, now_put) = clock; key = sha token in
         case get_from_cache a now_get key of
           Some identity \<Rightarrow> (Inr identity, a)
         | None \<Rightarrow>
             (case review token [au_audience a] of
                Inl e \<Rightarrow> (Inl (Wrap ''token review request failed'' e), a)
              | Inr st \<Rightarrow>
                  if \<not> rv_authenticated st then
                    (Inl (Err (''token not authenticated: '' @ rv_error st)), a)
                  else
                    (case parse_sa_username (au_prefix a) (rv_username st) of
                       Inl e \<Rightarrow> (Inl e, a)
                     | Inr identity \<Rightarrow>
                         (Inr identity, put_in_cache a now_sweep now_put key identity)))))"

section \<open>Sweeping and eviction\<close>

lemma fst_sweep_entries: "fst (sweep_entries now es) = filter (\<lambda>(k, v). now < cr_expiry v) es"
  by (induction es) (auto simp: Let_def split: prod.splits)

lemma snd_sweep_entries: "snd (sweep_entries now es) + length (fst (sweep_entries now es)) = length es"
  by (induction es) (auto simp: Let_def split: prod.splits)

lemma sweep_expired_locked_cache:
  "au_cache (fst (sweep_expired_locked a now)) = filter (\<lambda>(k, v). now < cr_expiry v) (au_cache a)"
  by (simp add: sweep_expired_locked_def split: prod.splits) (metis fst_conv fst_sweep_entries)

lemma sweep_expired_locked_count:
  "snd (sweep_expired_locked a now) + length (au_cache (fst (sweep_expired_locked a now))) =
     length (au_cache a)"
  by (simp add: sweep_expired_locked_def split: prod.splits) (metis fst_conv snd_conv snd_sweep_entries)

lemma sweep_expired_locked_frame [simp]:
  "au_cache_max (fst (sweep_expired_locked a now)) = au_cache_max a"
  "au_cache_ttl (fst (sweep_expired_locked a now)) = au_cache_ttl a"
  "au_prefix (fst (sweep_expired_locked a now)) = au_prefix a"
  "au_audience (fst (sweep_expired_locked a now)) = au_audience a"
  by (simp_all add: sweep_expired_locked_def split: prod.splits)

lemma oldest_entry_Some: "\<exists>k e. oldest_entry (Some b) es = Some (k, e)"
proof (induction es arbitrary: b)
  case Nil
  show ?case by (cases b) simp
next
  case (Cons p es)
  then show ?case by (cases p) (auto split: prod.splits)
qed

lemma oldest_entry_mem:
  "oldest_entry best es = Some (k, e) \<Longrightarrow>
     best = Some (k, e) \<or> (\<exists>v. (k, v) \<in> set es \<and> cr_expiry v = e)"
proof (induction best es rule: oldest_entry.induct)
  case (2 best k' v es)
  then show ?case by (fastforce split: option.splits if_splits prod.splits)
qed simp

lemma oldest_entry_min:
  "oldest_entry best es = Some (k, e) \<Longrightarrow>
     (\<forall>(k', v) \<in> set es. e \<le> cr_expiry v) \<and> (\<forall>k' e'. best = Some (k', e') \<longrightarrow> e \<le> e')"
proof (induction best es rule: oldest_entry.induct)
  case (2 best k' v es)
  show ?case
  proof (cases best)
    case None
    with 2 show ?thesis by fastforce
  next
    case (Some b)
    with 2 show ?thesis by (cases b) (fastforce split: if_splits)
  qed
qed simp

lemma evict_oldest_length:
  assumes "au_cache a \<noteq> []"
  shows "length (au_cache (evict_oldest_locked a)) < length (au_cache a)"
proof -
  obtain p es where es: "au_cache a = p # es" using assms by (cases "au_cache a") auto
  have "\<exists>k e. oldest_entry None (au_cache a) = Some (k, e)"
    unfolding es using oldest_entry_Some by (cases p) simp
  then obtain k e where ke: "oldest_entry None (au_cache a) = Some (k, e)" by blast
  from oldest_entry_mem [OF ke] have "k \<in> fst ` set (au_cache a)" by force
  then have "length (AList.delete k (au_cache a)) < length (au_cache a)"
    by (auto simp: AList.delete_eq intro!: length_filter_less)
  with ke show ?thesis by (simp add: evict_oldest_locked_def)
qed

section \<open>The size bound\<close>

definition cache_ok :: "'k authenticator \<Rightarrow> bool" where
  "cache_ok a \<longleftrightarrow> distinct (map fst (au_cache a)) \<and>
     (0 < au_cache_max a \<longrightarrow> int (length (au_cache a)) \<le> au_cache_max a)"

lemma distinct_filter_fst: "distinct (map fst es) \<Longrightarrow> distinct (map fst (filter P es))"
  by (simp add: distinct_map_filter)

lemma length_update_le: "length (AList.update k v es) \<le> Suc (length es)"
  by (induction es) auto

lemma sweep_expired_distinct:
  "distinct (map fst (au_cache a)) \<Longrightarrow> distinct (map fst (au_cache (fst (sweep_expired_locked a now))))"
  by (simp add: sweep_expired_locked_cache distinct_filter_fst)

lemma cache_ok_sweep: "cache_ok a \<Longrightarrow> cache_ok (fst (sweep_expired a now))"
  using sweep_expired_locked_count [of a now]
  by (auto simp: cache_ok_def sweep_expired_def sweep_expired_distinct)

lemma evict_oldest_frame [simp]:
  "au_cache_max (evict_oldest_locked a) = au_cache_max a"
  "au_cache_ttl (evict_oldest_locked a) = au_cache_ttl a"
  by (auto simp: evict_oldest_locked_def split: option.splits)

lemma evict_oldest_subset: "set (au_cache (evict_oldest_locked a)) \<subseteq> set (au_cache a)"
  by (auto simp: evict_oldest_locked_def AList.delete_eq split: option.splits)

lemma evict_oldest_distinct:
  "distinct (map fst (au_cache a)) \<Longrightarrow> distinct (map fst (au_cache (evict_oldest_locked a)))"
  by (auto simp: evict_oldest_locked_def distinct_delete split: option.splits)

text \<open>The state an insertion starts from: room has been made when the cache was full.\<close>

definition make_room :: "'k authenticator \<Rightarrow> int \<Rightarrow> 'k authenticator" where
  "make_room a now =
     (if au_cache_max a > 0 \<and> int (length (au_cache a)) \<ge> au_cache_max a then
        (let (b, n) = sweep_expired_locked a now in if n = 0 then evict_oldest_locked b else b)
      else a)"

lemma put_in_cache_eq:
  "put_in_cache a now_sweep now_put key identity =
     (make_room a now_sweep)\<lparr>au_cache := AList.update key
        \<lparr>cr_identity = identity, cr_expiry = now_put + au_cache_ttl a\<rparr>
        (au_cache (make_room a now_sweep))\<rparr>"
  by (auto simp: put_in_cache_def make_room_def Let_def)

lemma make_room_cases:
  "make_room a now =
     (if au_cache_max a > 0 \<and> int (length (au_cache a)) \<ge> au_cache_max a then
        (if snd (sweep_expired_locked a now) = 0 then
           evict_oldest_locked (fst (sweep_expired_locked a now))
         else fst (sweep_expired_locked a now))
      else a)"
  by (simp add: make_room_def case_prod_beta)

lemma make_room_frame [simp]:
  "au_cache_max (make_room a now) = au_cache_max a"
  "au_cache_ttl (make_room a now) = au_cache_ttl a"
  by (simp_all add: make_room_cases)

lemma make_room_subset: "set (au_cache (make_room a now)) \<subseteq> set (au_cache a)"
proof -
  have "set (au_cache (fst (sweep_expired_locked a now))) \<subseteq> set (au_cache a)"
    by (auto simp: sweep_expired_locked_cache)
  then show ?thesis
    using evict_oldest_subset [of "fst (sweep_expired_locked a now)"]
    by (auto simp: make_room_cases)
qed

lemma make_room_distinct:
  "distinct (map fst (au_cache a)) \<Longrightarrow> distinct (map fst (au_cache (make_room a now)))"
proof -
  assume d: "distinct (map fst (au_cache a))"
  then have "distinct (map fst (au_cache (fst (sweep_expired_locked a now))))"
    by (simp add: sweep_expired_locked_cache distinct_filter_fst)
  with d show ?thesis
    by (simp add: make_room_cases evict_oldest_distinct)
qed

lemma make_room_length:
  assumes "cache_ok a" and "0 < au_cache_max a"
  shows "int (length (au_cache (make_room a now))) < au_cache_max a"
proof (cases "int (length (au_cache a)) \<ge> au_cache_max a")
  case False
  then show ?thesis by (simp add: make_room_def)
next
  case True
  obtain b n where bn: "sweep_expired_locked a now = (b, n)" by fastforce
  have count: "n + length (au_cache b) = length (au_cache a)"
    using sweep_expired_locked_count [of a now] bn by simp
  have le: "int (length (au_cache a)) \<le> au_cache_max a"
    using assms by (simp add: cache_ok_def)
  show ?thesis
  proof (cases "n = 0")
    case True
    with count assms(2) \<open>int (length (au_cache a)) \<ge> au_cache_max a\<close>
    have "au_cache b \<noteq> []" by auto
    from evict_oldest_length [OF this] True count le bn show ?thesis
      using assms(2) by (simp add: make_room_def)
  next
    case False
    with count le bn \<open>int (length (au_cache a)) \<ge> au_cache_max a\<close> assms(2) show ?thesis
      by (simp add: make_room_def)
  qed
qed

lemma cache_ok_put:
  assumes "cache_ok a"
  shows "cache_ok (put_in_cache a now_sweep now_put key identity)"
proof -
  let ?r = "make_room a now_sweep"
  let ?e = "\<lparr>cr_identity = identity, cr_expiry = now_put + au_cache_ttl a\<rparr>"
  have "distinct (map fst (AList.update key ?e (au_cache ?r)))"
    using assms by (intro distinct_update make_room_distinct) (simp add: cache_ok_def)
  moreover have "int (length (AList.update key ?e (au_cache ?r))) \<le> au_cache_max a"
    if "0 < au_cache_max a"
    using make_room_length [OF assms that, of now_sweep] length_update_le [of key ?e "au_cache ?r"]
    by linarith
  ultimately show ?thesis by (simp add: cache_ok_def put_in_cache_eq)
qed

lemma cache_ok_authenticate:
  "cache_ok a \<Longrightarrow> cache_ok (snd (authenticate sha review clock token a))"
  by (auto simp: authenticate_def Let_def cache_ok_put split: option.splits sum.splits prod.splits)

lemma cache_ok_new: "cache_ok (new_authenticator audience pfx)"
  by (simp add: cache_ok_def new_authenticator_def)

lemma cache_ok_invalidate: "cache_ok a \<Longrightarrow> cache_ok (invalidate_cache a)"
  by (simp add: cache_ok_def invalidate_cache_def)

lemma cache_ok_fold_sweep:
  "cache_ok a \<Longrightarrow> cache_ok (fold (\<lambda>now b. fst (sweep_expired b now)) ticks a)"
  by (induction ticks arbitrary: a) (simp_all add: cache_ok_sweep)

lemma cache_ok_cleanup: "cache_ok a \<Longrightarrow> cache_ok (start_cleanup a ticks)"
  by (simp add: start_cleanup_def cache_ok_fold_sweep)

section \<open>Where cached identities come from\<close>

text \<open>
  A run of the authenticator: any interleaving of authentications (each with its own answer of
  the review API and its own clock readings), sweeps and invalidations. The log records the
  grants: token, identity and insertion time of every authentication that went through the
  review API and was accepted.
\<close>

definition review_grants ::
  "(string \<Rightarrow> string list \<Rightarrow> review_status result) \<Rightarrow> 'k authenticator \<Rightarrow> string \<Rightarrow> caller_identity \<Rightarrow> bool" where
  "review_grants review a token identity \<longleftrightarrow>
     (case review token [au_audience a] of
        Inl e \<Rightarrow> False
      | Inr st \<Rightarrow> rv_authenticated st \<and> parse_sa_username (au_prefix a) (rv_username st) = Inr identity)"

inductive auth_run ::
  "(string \<Rightarrow> 'k) \<Rightarrow> 'k authenticator \<Rightarrow> (string \<times> caller_identity \<times> int) list \<Rightarrow> bool"
  for sha :: "string \<Rightarrow> 'k" where
  run_new: "auth_run sha (new_authenticator audience pfx) []"
| run_grant: "auth_run sha a log \<Longrightarrow> review_grants review a token identity \<Longrightarrow>
     authenticate sha review (t1, t2, t3) token a = (Inr identity, a') \<Longrightarrow>
     auth_run sha a' (log @ [(token, identity, t3)])"
| run_other: "auth_run sha a log \<Longrightarrow>
     (\<nexists>identity. review_grants review a token identity) \<Longrightarrow>
     authenticate sha review clock token a = (r, a') \<Longrightarrow> auth_run sha a' log"
| run_sweep: "auth_run sha a log \<Longrightarrow> auth_run sha (fst (sweep_expired a now)) log"
| run_invalidate: "auth_run sha a log \<Longrightarrow> auth_run sha (invalidate_cache a) log"

definition cache_vouched ::
  "(string \<Rightarrow> 'k) \<Rightarrow> 'k authenticator \<Rightarrow> (string \<times> caller_identity \<times> int) list \<Rightarrow> bool" where
  "cache_vouched sha a log \<longleftrightarrow>
     (\<forall>k v. (k, v) \<in> set (au_cache a) \<longrightarrow>
        (\<exists>token t. (token, cr_identity v, t) \<in> set log \<and> sha token = k \<and>
           cr_expiry v = t + default_cache_ttl))"

lemma set_update_subset: "set (AList.update k v es) \<subseteq> insert (k, v) (set es)"
  by (induction es) auto

lemma cache_vouched_mono:
  "cache_vouched sha a log \<Longrightarrow> set (au_cache b) \<subseteq> set (au_cache a) \<Longrightarrow> set log \<subseteq> set log' \<Longrightarrow>
     cache_vouched sha b log'"
  unfolding cache_vouched_def by (meson subsetD)

lemma cache_vouched_put:
  assumes "cache_vouched sha a log" and "au_cache_ttl a = default_cache_ttl"
  shows "cache_vouched sha (put_in_cache a now_sweep t (sha token) identity) (log @ [(token, identity, t)])"
proof -
  let ?e = "\<lparr>cr_identity = identity, cr_expiry = t + au_cache_ttl a\<rparr>"
  have "set (au_cache (put_in_cache a now_sweep t (sha token) identity)) \<subseteq>
      insert (sha token, ?e) (set (au_cache a))"
    using set_update_subset [of "sha token" ?e "au_cache (make_room a now_sweep)"]
      make_room_subset [of a now_sweep]
    by (auto simp: put_in_cache_eq)
  moreover have "\<exists>token' t'. (token', cr_identity v, t') \<in> set (log @ [(token, identity, t)]) \<and>
      sha token' = k \<and> cr_expiry v = t' + default_cache_ttl"
    if "(k, v) \<in> insert (sha token, ?e) (set (au_cache a))" for k v
  proof (cases "(k, v) = (sha token, ?e)")
    case True
    with assms(2) show ?thesis by auto
  next
    case False
    with that have "(k, v) \<in> set (au_cache a)" by blast
    with assms(1) obtain token' t' where "(token', cr_identity v, t') \<in> set log"
        "sha token' = k" "cr_expiry v = t' + default_cache_ttl"
      unfolding cache_vouched_def by blast
    then show ?thesis by auto
  qed
  ultimately show ?thesis unfolding cache_vouched_def by blast
qed

lemma authenticate_effect:
  "authenticate sha review (t1, t2, t3) token a = (r, a') \<Longrightarrow>
     a' = a \<or> (\<exists>identity. review_grants review a token identity \<and> r = Inr identity \<and>
       a' = put_in_cache a t2 t3 (sha token) identity)"
  unfolding authenticate_def Let_def prod.case review_grants_def
  by (cases "token = []"; cases "get_from_cache a t1 (sha token)"; cases "review token [au_audience a]")
     (auto split: if_splits sum.splits dest: sym)

lemma authenticate_cases:
  assumes "authenticate sha review (t1, t2, t3) token a = (r, a')"
  obtains
    (unchanged) "a' = a"
  | (granted) identity where "review_grants review a token identity" and "r = Inr identity"
      and "a' = put_in_cache a t2 t3 (sha token) identity"
  using authenticate_effect [OF assms] by blast

lemma put_in_cache_ttl [simp]: "au_cache_ttl (put_in_cache a t2 t3 key identity) = au_cache_ttl a"
  by (simp add: put_in_cache_eq)

lemma auth_run_vouched:
  "auth_run sha a log \<Longrightarrow> cache_vouched sha a log \<and> au_cache_ttl a = default_cache_ttl"
proof (induction rule: auth_run.induct)
  case (run_new audience pfx)
  show ?case by (simp add: cache_vouched_def new_authenticator_def)
next
  case (run_grant a log review token identity t1 t2 t3 a')
  from run_grant.hyps(3) show ?case
  proof (cases rule: authenticate_cases)
    case unchanged
    with run_grant.IH show ?thesis by (auto intro: cache_vouched_mono)
  next
    case (granted i)
    with run_grant.IH show ?thesis by (auto intro: cache_vouched_put)
  qed
next
  case (run_other a log review token clock r a')
  obtain t1 t2 t3 where c: "clock = (t1, t2, t3)" by (cases clock)
  from run_other.hyps(3) [unfolded c] show ?case
  proof (cases rule: authenticate_cases)
    case unchanged
    with run_other.IH show ?thesis by simp
  next
    case (granted i)
    with run_other.hyps(2) show ?thesis by blast
  qed
next
  case (run_sweep a log now)
  then show ?case
    by (auto simp: sweep_expired_def sweep_expired_locked_cache intro: cache_vouched_mono)
next
  case (run_invalidate a log)
  then show ?case by (simp add: cache_vouched_def invalidate_cache_def)
qed

lemma auth_run_cache_ok: "auth_run sha a log \<Longrightarrow> cache_ok a"
proof (induction rule: auth_run.induct)
  case (run_grant a log review token identity t1 t2 t3 a')
  then show ?case using cache_ok_authenticate [of a sha review "(t1, t2, t3)" token] by simp
next
  case (run_other a log review token clock r a')
  then show ?case using cache_ok_authenticate [of a sha review clock token] by simp
qed (simp_all add: cache_ok_new cache_ok_sweep cache_ok_invalidate)

lemma get_from_cache_vouched:
  assumes "cache_vouched sha a log" and "get_from_cache a now (sha token) = Some identity"
  shows "\<exists>token' t. (token', identity, t) \<in> set log \<and> sha token' = sha token \<and>
    now < t + default_cache_ttl"
proof -
  from assms(2) obtain v where v: "map_of (au_cache a) (sha token) = Some v"
      "now < cr_expiry v" "identity = cr_identity v"
    by (auto simp: get_from_cache_def split: option.splits if_splits)
  from map_of_SomeD [OF v(1)] assms(1) obtain token' t where
      "(token', cr_identity v, t) \<in> set log" "sha token' = sha token" "cr_expiry v = t + default_cache_ttl"
    unfolding cache_vouched_def by blast
  with v show ?thesis by auto
qed

text \<open>
  C4. Every identity the authenticator hands out is vouched for: either the TokenReview API
  accepts this very token in this call and the identity is parsed from the name it returns, or
  an earlier accepted review of a token with the same digest gave the same identity less than
  the cache TTL ago. This holds after any run of authentications, sweeps and invalidations.
\<close>

theorem authenticated_identity_vouched:
  assumes run: "auth_run sha a log"
    and res: "fst (authenticate sha review (t1, t2, t3) token a) = Inr identity"
  shows "review_grants review a token identity \<or>
    (\<exists>token' t. (token', identity, t) \<in> set log \<and> sha token' = sha token \<and>
       t1 < t + default_cache_ttl)"
proof (cases "get_from_cache a t1 (sha token)")
  case None
  with res show ?thesis
    by (auto simp: authenticate_def review_grants_def Let_def split: if_splits sum.splits)
next
  case (Some i)
  with res have "i = identity" by (auto simp: authenticate_def Let_def split: if_splits)
  with Some get_from_cache_vouched auth_run_vouched [OF run] show ?thesis by blast
qed

definition example_review :: "string \<Rightarrow> string list \<Rightarrow> review_status result" where
  "example_review token auds =
     Inr \<lparr>rv_authenticated = True, rv_error = [],
          rv_username = ''system:serviceaccount:ns:hiclaw-admin''\<rparr>"

theorem authenticated_identity_vouched_witness:
  "\<exists>identity. fst (authenticate id example_review (0, 0, 0) ''t'' (new_authenticator [] [])) = Inr identity \<and>
     (review_grants example_review (new_authenticator [] [] :: string authenticator) ''t'' identity \<or>
      (\<exists>token' t. (token', identity, t) \<in> set [] \<and> id token' = ''t'' \<and> 0 < t + default_cache_ttl))"
proof -
  let ?i = "\<lparr>ci_role = role_admin, ci_username = ''admin'', ci_team = [], ci_worker_name = []\<rparr>"
  have "fst (authenticate id example_review (0, 0, 0) ''t'' (new_authenticator [] [])) = Inr ?i"
    by code_simp
  from this authenticated_identity_vouched [OF auth_run.run_new [of id "[]" "[]"] this]
  show ?thesis by auto
qed

text \<open>
  C20. The cache never exceeds its configured maximum of 1000 entries and never holds a digest
  twice, whatever tokens callers present and whatever the review API and the clock answer.
\<close>

theorem auth_cache_bounded:
  assumes "auth_run sha a log"
  shows "length (au_cache a) \<le> 1000 \<and> distinct (map fst (au_cache a))"
proof -
  have "au_cache_max a = default_cache_max" using assms
  proof (induction rule: auth_run.induct)
    case (run_grant a log review token identity t1 t2 t3 a')
    from run_grant.hyps(3) show ?case
      by (cases rule: authenticate_cases) (simp_all add: run_grant.IH put_in_cache_eq)
  next
    case (run_other a log review token clock r a')
    obtain t1 t2 t3 where c: "clock = (t1, t2, t3)" by (cases clock)
    from run_other.hyps(3) [unfolded c] show ?case
      by (cases rule: authenticate_cases) (simp_all add: run_other.IH put_in_cache_eq)
  qed (simp_all add: new_authenticator_def sweep_expired_def invalidate_cache_def)
  with auth_run_cache_ok [OF assms] show ?thesis
    by (simp add: cache_ok_def default_cache_max_def)
qed

theorem auth_cache_bounded_witness:
  "length (au_cache (invalidate_cache (new_authenticator [] []) :: string authenticator)) \<le> 1000 \<and>
   distinct (map fst (au_cache (invalidate_cache (new_authenticator [] []) :: string authenticator)))"
  by (rule auth_cache_bounded [OF auth_run.run_invalidate [OF auth_run.run_new [of id "[]" "[]"]]])

end
