(* ===== verification/Auth_Authorizer.thy ===== *)
theory Auth_Authorizer
  imports Auth_Prefix
begin

text \<open>
  \<open>internal/auth/authorizer.go\<close>: the Role + Team permission matrix. \<open>authorize\<close> returns
  \<open>None\<close> where the code returns nil (allowed) and the denial otherwise, one definition per
  method. The lemmas reduce each method to a plain condition and give the complete matrix.
\<close>

definition action_create :: string where "action_create = ''create''"
definition action_update :: string where "action_update = ''update''"
definition action_delete :: string where "action_delete = ''delete''"
definition action_get :: string where "action_get = ''get''"
definition action_list :: string where "action_list = ''list''"
definition action_wake :: string where "action_wake = ''wake''"
definition action_sleep :: string where "action_sleep = ''sleep''"
definition action_ensure_ready :: string where "action_ensure_ready = ''ensure-ready''"
definition action_ready :: string where "action_ready = ''ready''"
definition action_sts :: string where "action_sts = ''sts''"
definition action_status :: string where "action_status = ''status''"
definition action_gateway :: string where "action_gateway = ''gateway''"

lemmas action_defs = action_create_def action_update_def action_delete_def action_get_def
  action_list_def action_wake_def action_sleep_def action_ensure_ready_def action_ready_def
  action_sts_def action_status_def action_gateway_def

record authz_request =
  ar_action :: string
  ar_kind :: string
  ar_name :: string
  ar_team :: string

definition deny :: "caller_identity \<Rightarrow> authz_request \<Rightarrow> go_error" where
  "deny caller req = Err (''authorization denied: '' @ ci_role caller @ '' '' @
     go_quote (ci_username caller) @ '' cannot '' @ ar_action req @ '' '' @ ar_kind req)"

definition require_same_team :: "caller_identity \<Rightarrow> authz_request \<Rightarrow> go_error option" where
  "require_same_team caller req =
     (if ci_team caller = [] then
        Some (Err (''authorization denied: team-leader '' @ go_quote (ci_username caller) @
          '' has no team''))
      else if ar_team req \<noteq> [] \<and> ar_team req \<noteq> ci_team caller then
        Some (Err (''authorization denied: team-leader '' @ go_quote (ci_username caller) @
          '' (team '' @ ci_team caller @ '') cannot access resource in team '' @ ar_team req))
      else None)"

definition require_self :: "caller_identity \<Rightarrow> authz_request \<Rightarrow> go_error option" where
  "require_self caller req =
     (if ar_name req \<noteq> [] \<and> ar_name req \<noteq> ci_username caller then
        Some (Err (''authorization denied: '' @ ci_role caller @ '' '' @
          go_quote (ci_username caller) @ '' cannot access resource '' @ go_quote (ar_name req)))
      else None)"

definition authorize_team_leader_worker :: "caller_identity \<Rightarrow> authz_request \<Rightarrow> go_error option" where
  "authorize_team_leader_worker caller req =
     (if ar_action req = action_get then require_same_team caller req
      else if ar_action req = action_list then None
      else if ar_action req = action_create \<or> ar_action req = action_update then
        require_same_team caller req
      else if ar_action req = action_wake \<or> ar_action req = action_sleep \<or>
              ar_action req = action_ensure_ready \<or> ar_action req = action_ready \<or>
              ar_action req = action_status then
        require_same_team caller req
      else Some (deny caller req))"

definition authorize_team_leader :: "caller_identity \<Rightarrow> authz_request \<Rightarrow> go_error option" where
  "authorize_team_leader caller req =
     (if ar_kind req = ''status'' then None
      else if ar_kind req = ''worker'' then authorize_team_leader_worker caller req
      else if ar_kind req = ''team'' then
        (if ar_action req = action_get \<or> ar_action req = action_list then None
         else Some (deny caller req))
      else if ar_kind req = ''credentials'' then
        (if ar_action req = action_sts then None else Some (deny caller req))
      else Some (deny caller req))"

definition authorize_worker_self :: "caller_identity \<Rightarrow> authz_request \<Rightarrow> go_error option" where
  "authorize_worker_self caller req =
     (if ar_action req = action_ready then require_self caller req
      else if ar_action req = action_sts then require_self caller req
      else if ar_action req = action_get then require_self caller req
      else if ar_action req = action_status then require_self caller req
      else Some (deny caller req))"

definition authorize_worker :: "caller_identity \<Rightarrow> authz_request \<Rightarrow> go_error option" where
  "authorize_worker caller req =
     (if ar_kind req = ''status'' then None
      else if ar_kind req = ''worker'' then authorize_worker_self caller req
      else if ar_kind req = ''credentials'' then
        (if ar_action req = action_sts then None else Some (deny caller req))
      else Some (deny caller req))"

definition authorize :: "caller_identity option \<Rightarrow> authz_request \<Rightarrow> go_error option" where
  "authorize caller req =
     (case caller of
        None \<Rightarrow> Some (Err ''authorization denied: no caller identity'')
      | Some c \<Rightarrow>
          if ci_role c = role_admin \<or> ci_role c = role_manager then None
          else if ci_role c = role_team_leader then authorize_team_leader c req
          else if ci_role c = role_worker then authorize_worker c req
          else Some (Err (''authorization denied: unknown role '' @ go_quote (ci_role c))))"

section \<open>The matrix as conditions\<close>

named_theorems authz

lemma require_same_team_ok [authz]:
  "require_same_team c r = None \<longleftrightarrow> ci_team c \<noteq> [] \<and> (ar_team r = [] \<or> ar_team r = ci_team c)"
  by (auto simp: require_same_team_def)

lemma require_self_ok [authz]:
  "require_self c r = None \<longleftrightarrow> ar_name r = [] \<or> ar_name r = ci_username c"
  by (auto simp: require_self_def)

definition leader_worker_actions :: "string list" where
  "leader_worker_actions = [action_get, action_create, action_update, action_wake, action_sleep,
     action_ensure_ready, action_ready, action_status]"

definition worker_self_actions :: "string list" where
  "worker_self_actions = [action_ready, action_sts, action_get, action_status]"

lemma authorize_team_leader_worker_ok [authz]:
  "authorize_team_leader_worker c r = None \<longleftrightarrow>
     ar_action r = action_list \<or>
     (ar_action r \<in> set leader_worker_actions \<and> require_same_team c r = None)"
  by (auto simp: authorize_team_leader_worker_def leader_worker_actions_def action_defs)

lemma authorize_team_leader_ok [authz]:
  "authorize_team_leader c r = None \<longleftrightarrow>
     ar_kind r = ''status'' \<or>
     (ar_kind r = ''worker'' \<and> authorize_team_leader_worker c r = None) \<or>
     (ar_kind r = ''team'' \<and> ar_action r \<in> {action_get, action_list}) \<or>
     (ar_kind r = ''credentials'' \<and> ar_action r = action_sts)"
  by (auto simp: authorize_team_leader_def)

lemma authorize_worker_self_ok [authz]:
  "authorize_worker_self c r = None \<longleftrightarrow>
     ar_action r \<in> set worker_self_actions \<and> require_self c r = None"
  by (auto simp: authorize_worker_self_def worker_self_actions_def)

lemma authorize_worker_ok [authz]:
  "authorize_worker c r = None \<longleftrightarrow>
     ar_kind r = ''status'' \<or>
     (ar_kind r = ''worker'' \<and> authorize_worker_self c r = None) \<or>
     (ar_kind r = ''credentials'' \<and> ar_action r = action_sts)"
  by (auto simp: authorize_worker_def)

lemma role_distinct [simp]:
  "role_team_leader \<noteq> role_admin" "role_team_leader \<noteq> role_manager"
  "role_worker \<noteq> role_admin" "role_worker \<noteq> role_manager" "role_worker \<noteq> role_team_leader"
  "role_team_leader \<noteq> role_worker" "role_admin \<noteq> role_manager"
  by (simp_all add: role_defs)

lemma authorize_by_role [authz]:
  "ci_role c = role_team_leader \<Longrightarrow> authorize (Some c) r = authorize_team_leader c r"
  "ci_role c = role_worker \<Longrightarrow> authorize (Some c) r = authorize_worker c r"
  by (simp_all add: authorize_def)

lemma authorize_none [authz]: "authorize None r \<noteq> None"
  by (simp add: authorize_def)

section \<open>The permission matrix\<close>

text \<open>
  The matrix as data: role, resource kind (\<open>None\<close> for every kind), actions (\<open>None\<close> for
  every action) and the scope in which the entry applies.
\<close>

datatype scope = Unscoped | Same_Team | Self_Only

definition scope_ok :: "scope \<Rightarrow> caller_identity \<Rightarrow> authz_request \<Rightarrow> bool" where
  "scope_ok sc c r =
     (case sc of
        Unscoped \<Rightarrow> True
      | Same_Team \<Rightarrow> ci_team c \<noteq> [] \<and> (ar_team r = [] \<or> ar_team r = ci_team c)
      | Self_Only \<Rightarrow> ar_name r = [] \<or> ar_name r = ci_username c)"

definition permission_matrix :: "(string \<times> string option \<times> string list option \<times> scope) list" where
  "permission_matrix =
     [(role_admin, None, None, Unscoped),
      (role_manager, None, None, Unscoped),
      (role_team_leader, Some ''status'', None, Unscoped),
      (role_team_leader, Some ''worker'', Some [action_list], Unscoped),
      (role_team_leader, Some ''worker'', Some leader_worker_actions, Same_Team),
      (role_team_leader, Some ''team'', Some [action_get, action_list], Unscoped),
      (role_team_leader, Some ''credentials'', Some [action_sts], Unscoped),
      (role_worker, Some ''status'', None, Unscoped),
      (role_worker, Some ''worker'', Some worker_self_actions, Self_Only),
      (role_worker, Some ''credentials'', Some [action_sts], Unscoped)]"

definition matrix_allows :: "caller_identity \<Rightarrow> authz_request \<Rightarrow> bool" where
  "matrix_allows c r =
     list_ex (\<lambda>(role, kind, actions, sc).
        ci_role c = role \<and>
        (case kind of None \<Rightarrow> True | Some k \<Rightarrow> ar_kind r = k) \<and>
        (case actions of None \<Rightarrow> True | Some as \<Rightarrow> ar_action r \<in> set as) \<and>
        scope_ok sc c r) permission_matrix"

text \<open>
  C5. The authorizer implements the permission matrix: for every caller and every request, the
  nested switches of \<open>Authorize\<close> allow exactly what some row of the table allows; every
  other combination of role, kind, action and scope is denied.
\<close>

theorem authorize_matrix:
  "authorize (Some c) r = None \<longleftrightarrow> matrix_allows c r"
proof -
  consider "ci_role c = role_admin \<or> ci_role c = role_manager" | "ci_role c = role_team_leader"
    | "ci_role c = role_worker"
    | "ci_role c \<notin> {role_admin, role_manager, role_team_leader, role_worker}" by blast
  then show ?thesis
  proof cases
    case 1
    then show ?thesis
      by (auto simp: authorize_def matrix_allows_def permission_matrix_def scope_ok_def)
  next
    case 2
    then show ?thesis
      by (auto simp: authz matrix_allows_def permission_matrix_def scope_ok_def)
  next
    case 3
    then show ?thesis
      by (auto simp: authz matrix_allows_def permission_matrix_def scope_ok_def)
  next
    case 4
    then show ?thesis
      by (simp add: authorize_def matrix_allows_def permission_matrix_def)
  qed
qed

text \<open>
  Least privilege: whoever may delete a resource, or do anything with a human, manager or
  gateway resource, is an admin or the manager; and a plain worker that acts on a named worker
  acts on itself.
\<close>

theorem authorize_least_privilege:
  assumes "authorize (Some c) r = None"
  shows "((ar_kind r \<noteq> ''status'' \<and> ar_action r = action_delete \<or>
       ar_kind r \<in> {''human'', ''manager'', ''gateway''}) \<longrightarrow>
      ci_role c = role_admin \<or> ci_role c = role_manager) \<and>
    (ci_role c = role_worker \<and> ar_kind r = ''worker'' \<and> ar_name r \<noteq> [] \<longrightarrow>
      ar_name r = ci_username c)"
proof -
  have roles: "ci_role c \<in> {role_admin, role_manager, role_team_leader, role_worker}"
    using assms by (auto simp: authorize_def split: if_splits)
  have "(ar_kind r \<noteq> ''status'' \<and> ar_action r = action_delete \<or>
       ar_kind r \<in> {''human'', ''manager'', ''gateway''}) \<longrightarrow>
      ci_role c = role_admin \<or> ci_role c = role_manager"
    using assms roles
    by (auto simp: authz leader_worker_actions_def worker_self_actions_def action_defs)
  moreover have "ci_role c = role_worker \<and> ar_kind r = ''worker'' \<and> ar_name r \<noteq> [] \<longrightarrow>
      ar_name r = ci_username c"
    using assms by (auto simp: authz)
  ultimately show ?thesis by blast
qed

theorem authorize_least_privilege_witness:
  "authorize (Some \<lparr>ci_role = role_worker, ci_username = ''bob'', ci_team = [], ci_worker_name = ''bob''\<rparr>)
     \<lparr>ar_action = action_get, ar_kind = ''worker'', ar_name = ''bob'', ar_team = []\<rparr> = None \<and>
   ar_name \<lparr>ar_action = action_get, ar_kind = ''worker'', ar_name = ''bob'', ar_team = []\<rparr> = ''bob''"
proof -
  let ?c = "\<lparr>ci_role = role_worker, ci_username = ''bob'', ci_team = [], ci_worker_name = ''bob''\<rparr>"
  let ?r = "\<lparr>ar_action = action_get, ar_kind = ''worker'', ar_name = ''bob'', ar_team = []\<rparr>"
  have ok: "authorize (Some ?c) ?r = None"
    by (simp add: authz worker_self_actions_def)
  from authorize_least_privilege [OF ok] ok show ?thesis by simp
qed

end
