(* ===== verification/Api_Types.thy ===== *)
theory Api_Types
  imports Go_Prelude
begin

text \<open>
  The custom resources of \<open>api/v1beta1/types.go\<close>: Worker, Team, Human and Manager with
  their specs and statuses as records, in the field order of the source, and the methods
  that compute effective values. Go maps are association lists, pointers are options.
\<close>

type_synonym smap = "(string \<times> string) list"

text \<open>\<open>m[k]\<close> on a \<open>map[string]string\<close>: the zero value for a missing key.\<close>

definition smap_get :: "smap \<Rightarrow> string \<Rightarrow> string" where
  "smap_get m k = (case map_of m k of None \<Rightarrow> [] | Some v \<Rightarrow> v)"

definition smap_put :: "string \<Rightarrow> string \<Rightarrow> smap \<Rightarrow> smap" where
  "smap_put k v m = AList.update k v m"

lemma map_of_smap_put [go_map, simp]: "map_of (smap_put k v m) = (map_of m)(k \<mapsto> v)"
  by (simp add: smap_put_def update_conv')

lemma smap_get_put [go_map, simp]: "smap_get (smap_put k v m) k' = (if k' = k then v else smap_get m k')"
  by (simp add: smap_get_def)

lemma distinct_smap_put [simp]: "distinct (map fst m) \<Longrightarrow> distinct (map fst (smap_put k v m))"
  by (simp add: smap_put_def distinct_update)

text \<open>\<open>for k, v := range src { dst[k] = v }\<close>\<close>

definition smap_put_all :: "smap \<Rightarrow> smap \<Rightarrow> smap" where
  "smap_put_all src dst = fold (\<lambda>(k, v). smap_put k v) src dst"

lemma map_of_smap_put_all [go_map]:
  "distinct (map fst src) \<Longrightarrow> map_of (smap_put_all src dst) = map_of dst ++ map_of src"
proof (induction src arbitrary: dst)
  case (Cons kv src)
  obtain k v where kv: "kv = (k, v)" by (cases kv)
  have "map_of src k = None"
    using Cons.prems kv by (simp add: map_of_eq_None_iff)
  with Cons kv show ?case
    by (auto simp: smap_put_all_def fun_eq_iff map_add_def split: option.splits)
qed (simp add: smap_put_all_def)

lemma distinct_smap_put_all [simp]:
  "distinct (map fst dst) \<Longrightarrow> distinct (map fst (smap_put_all src dst))"
  unfolding smap_put_all_def by (induction src arbitrary: dst) (auto simp: case_prod_beta)

lemma smap_get_put_all [go_map]:
  "distinct (map fst src) \<Longrightarrow>
   smap_get (smap_put_all src dst) k =
     (case map_of src k of Some v \<Rightarrow> v | None \<Rightarrow> smap_get dst k)"
  by (simp add: smap_get_def map_of_smap_put_all map_add_def split: option.splits)

section \<open>JSON documents\<close>

text \<open>
  A decoded JSON document. \<open>raw_json\<close> is the content of an \<open>apiextensionsv1.JSON\<close>: no
  bytes, bytes that are not a JSON text, or the document the bytes denote.
\<close>

datatype json =
    JNull
  | JBool bool
  | JNum int
  | JStr string
  | JArr "json list"
  | JObj "(string \<times> json) list"

datatype raw_json = RawEmpty | RawMalformed | RawJson json

section \<open>Object metadata and shared specs\<close>

record object_meta =
  om_name :: string
  om_namespace :: string
  om_labels :: smap
  om_annotations :: smap
  om_generation :: int
  om_finalizers :: "string list"
  om_deleting :: bool

record access_entry =
  ae_service :: string
  ae_permissions :: "string list"
  ae_scope :: "raw_json option"

record mcp_server =
  mcp_name :: string
  mcp_url :: string
  mcp_transport :: string

record remote_skill =
  rs_name :: string
  rs_version :: string
  rs_label :: string

record remote_skill_source =
  rss_source :: string
  rss_auth_type :: string
  rss_skills :: "remote_skill list"

record agent_resource_values =
  arv_cpu :: string
  arv_memory :: string

record agent_resource_requirements =
  arr_requests :: agent_resource_values
  arr_limits :: agent_resource_values

record expose_port =
  ep_port :: int
  ep_protocol :: string

record channel_policy_spec =
  cp_group_allow :: "string list"
  cp_group_deny :: "string list"
  cp_dm_allow :: "string list"
  cp_dm_deny :: "string list"

record exposed_port_status =
  eps_port :: int
  eps_domain :: string

section \<open>Workers\<close>

record worker_spec =
  ws_model :: string
  ws_model_provider :: string
  ws_runtime :: string
  ws_image :: string
  ws_worker_name :: string
  ws_identity :: string
  ws_soul :: string
  ws_agents :: string
  ws_skills :: "string list"
  ws_remote_skills :: "remote_skill_source list"
  ws_mcp_servers :: "mcp_server list"
  ws_package :: string
  ws_expose :: "expose_port list"
  ws_channel_policy :: "channel_policy_spec option"
  ws_resources :: "agent_resource_requirements option"
  ws_container_managed :: "bool option"
  ws_state :: "string option"
  ws_access_entries :: "access_entry list"
  ws_env :: smap
  ws_labels :: smap

definition desired_container_man :: "worker_spec \<Rightarrow> bool" where
  "desired_container_man s = (case ws_container_managed s of Some b \<Rightarrow> b | None \<Rightarrow> True)"

definition desired_state_of :: "string option \<Rightarrow> string" where
  "desired_state_of st =
     (case st of Some v \<Rightarrow> if v \<noteq> [] then v else ''Running'' | None \<Rightarrow> ''Running'')"

definition worker_desired_state :: "worker_spec \<Rightarrow> string" where
  "worker_desired_state s = desired_state_of (ws_state s)"

definition worker_effective_name :: "worker_spec \<Rightarrow> string \<Rightarrow> string" where
  "worker_effective_name s metadata_name =
     (if ws_worker_name s \<noteq> [] then ws_worker_name s else metadata_name)"

record worker_status =
  wst_observed_generation :: int
  wst_phase :: string
  wst_matrix_user_id :: string
  wst_room_id :: string
  wst_container_state :: string
  wst_last_heartbeat :: string
  wst_message :: string
  wst_exposed_ports :: "exposed_port_status list option"

record worker =
  w_meta :: object_meta
  w_spec :: worker_spec
  w_status :: worker_status

section \<open>Teams\<close>

record team_admin_spec =
  tas_name :: string
  tas_matrix_user_id :: string

record team_member_spec =
  tms_name :: string
  tms_matrix_user_id :: string
  tms_role :: string

record team_leader_heartbeat =
  hb_enabled :: bool
  hb_every :: string

record leader_spec =
  ls_name :: string
  ls_worker_name :: string
  ls_model :: string
  ls_model_provider :: string
  ls_identity :: string
  ls_soul :: string
  ls_agents :: string
  ls_package :: string
  ls_remote_skills :: "remote_skill_source list"
  ls_mcp_servers :: "mcp_server list"
  ls_heartbeat :: "team_leader_heartbeat option"
  ls_worker_idle_timeout :: string
  ls_channel_policy :: "channel_policy_spec option"
  ls_state :: "string option"
  ls_resources :: "agent_resource_requirements option"
  ls_access_entries :: "access_entry list"
  ls_env :: smap
  ls_labels :: smap

record team_worker_spec =
  tw_name :: string
  tw_worker_name :: string
  tw_model :: string
  tw_model_provider :: string
  tw_runtime :: string
  tw_image :: string
  tw_identity :: string
  tw_soul :: string
  tw_agents :: string
  tw_skills :: "string list"
  tw_remote_skills :: "remote_skill_source list"
  tw_mcp_servers :: "mcp_server list"
  tw_package :: string
  tw_expose :: "expose_port list"
  tw_channel_policy :: "channel_policy_spec option"
  tw_state :: "string option"
  tw_resources :: "agent_resource_requirements option"
  tw_access_entries :: "access_entry list"
  tw_env :: smap
  tw_labels :: smap

definition leader_effective_name :: "leader_spec \<Rightarrow> string" where
  "leader_effective_name s = (if ls_worker_name s \<noteq> [] then ls_worker_name s else ls_name s)"

definition team_worker_effective_name :: "team_worker_spec \<Rightarrow> string" where
  "team_worker_effective_name s = (if tw_worker_name s \<noteq> [] then tw_worker_name s else tw_name s)"

record team_spec =
  ts_description :: string
  ts_team_name :: string
  ts_admin :: "team_admin_spec option"
  ts_human_members :: "team_member_spec list"
  ts_leader :: leader_spec
  ts_workers :: "team_worker_spec list"
  ts_peer_mentions :: "bool option"
  ts_channel_policy :: "channel_policy_spec option"

definition effective_team_name :: "team_spec \<Rightarrow> string \<Rightarrow> string" where
  "effective_team_name s metadata_name =
     (if ts_team_name s \<noteq> [] then ts_team_name s else metadata_name)"

record team_member_status =
  ms_name :: string
  ms_runtime_name :: string
  ms_role :: string
  ms_room_id :: string
  ms_matrix_user_id :: string
  ms_spec_hash :: string
  ms_observed :: bool
  ms_ready :: bool
  ms_exposed_ports :: "exposed_port_status list option"

record team_status =
  tst_phase :: string
  tst_team_room_id :: string
  tst_leader_dm_room_id :: string
  tst_leader_ready :: bool
  tst_ready_workers :: int
  tst_total_workers :: int
  tst_message :: string
  tst_members :: "team_member_status list"

text \<open>
  \<open>MemberByName\<close> returns a pointer to the first entry with the name; the model returns the
  entry, and writes through the pointer are \<open>update_member\<close> on the same first entry.
\<close>

definition member_by_name :: "team_status \<Rightarrow> string \<Rightarrow> team_member_status option" where
  "member_by_name s name = List.find (\<lambda>m. ms_name m = name) (tst_members s)"

record team =
  t_meta :: object_meta
  t_spec :: team_spec
  t_status :: team_status

section \<open>Humans and managers\<close>

record human_spec =
  hs_display_name :: string
  hs_username :: string
  hs_email :: string
  hs_permission_level :: int
  hs_accessible_teams :: "string list"
  hs_accessible_workers :: "string list"
  hs_note :: string

record human_status =
  hst_phase :: string
  hst_matrix_user_id :: string
  hst_initial_password :: string
  hst_display_name_synced :: int
  hst_rooms :: "string list"
  hst_email_sent :: bool
  hst_message :: string

definition human_effective_username :: "human_spec \<Rightarrow> string \<Rightarrow> string" where
  "human_effective_username s metadata_name =
     (if hs_username s \<noteq> [] then hs_username s else metadata_name)"

record human =
  h_meta :: object_meta
  h_spec :: human_spec
  h_status :: human_status

record manager_config =
  mc_heartbeat_interval :: string
  mc_worker_idle_timeout :: string
  mc_notify_channel :: string

record manager_spec =
  mgs_model :: string
  mgs_model_provider :: string
  mgs_runtime :: string
  mgs_image :: string
  mgs_soul :: string
  mgs_agents :: string
  mgs_skills :: "string list"
  mgs_mcp_servers :: "mcp_server list"
  mgs_package :: string
  mgs_config :: manager_config
  mgs_resources :: "agent_resource_requirements option"
  mgs_state :: "string option"
  mgs_access_entries :: "access_entry list"
  mgs_env :: smap
  mgs_labels :: smap

definition manager_desired_state :: "manager_spec \<Rightarrow> string" where
  "manager_desired_state s = desired_state_of (mgs_state s)"

record manager_status =
  mst_observed_generation :: int
  mst_phase :: string
  mst_matrix_user_id :: string
  mst_room_id :: string
  mst_container_state :: string
  mst_version :: string
  mst_message :: string
  mst_welcome_sent :: bool

record manager =
  m_meta :: object_meta
  m_spec :: manager_spec
  m_status :: manager_status

section \<open>Zero values\<close>

definition zero_meta :: object_meta where
  "zero_meta = \<lparr>om_name = [], om_namespace = [], om_labels = [], om_annotations = [],
     om_generation = 0, om_finalizers = [], om_deleting = False\<rparr>"

definition zero_worker_spec :: worker_spec where
  "zero_worker_spec = \<lparr>ws_model = [], ws_model_provider = [], ws_runtime = [], ws_image = [],
     ws_worker_name = [], ws_identity = [], ws_soul = [], ws_agents = [], ws_skills = [],
     ws_remote_skills = [], ws_mcp_servers = [], ws_package = [], ws_expose = [],
     ws_channel_policy = None, ws_resources = None, ws_container_managed = None,
     ws_state = None, ws_access_entries = [], ws_env = [], ws_labels = []\<rparr>"

definition zero_worker_status :: worker_status where
  "zero_worker_status = \<lparr>wst_observed_generation = 0, wst_phase = [], wst_matrix_user_id = [],
     wst_room_id = [], wst_container_state = [], wst_last_heartbeat = [], wst_message = [],
     wst_exposed_ports = None\<rparr>"

definition zero_worker :: worker where
  "zero_worker = \<lparr>w_meta = zero_meta, w_spec = zero_worker_spec, w_status = zero_worker_status\<rparr>"

definition zero_leader :: leader_spec where
  "zero_leader = \<lparr>ls_name = [], ls_worker_name = [], ls_model = [], ls_model_provider = [],
     ls_identity = [], ls_soul = [], ls_agents = [], ls_package = [], ls_remote_skills = [],
     ls_mcp_servers = [], ls_heartbeat = None, ls_worker_idle_timeout = [],
     ls_channel_policy = None, ls_state = None, ls_resources = None, ls_access_entries = [],
     ls_env = [], ls_labels = []\<rparr>"

definition zero_team_worker :: team_worker_spec where
  "zero_team_worker = \<lparr>tw_name = [], tw_worker_name = [], tw_model = [], tw_model_provider = [],
     tw_runtime = [], tw_image = [], tw_identity = [], tw_soul = [], tw_agents = [],
     tw_skills = [], tw_remote_skills = [], tw_mcp_servers = [], tw_package = [], tw_expose = [],
     tw_channel_policy = None, tw_state = None, tw_resources = None, tw_access_entries = [],
     tw_env = [], tw_labels = []\<rparr>"

definition zero_team_spec :: team_spec where
  "zero_team_spec = \<lparr>ts_description = [], ts_team_name = [], ts_admin = None,
     ts_human_members = [], ts_leader = zero_leader, ts_workers = [], ts_peer_mentions = None,
     ts_channel_policy = None\<rparr>"

definition zero_team_status :: team_status where
  "zero_team_status = \<lparr>tst_phase = [], tst_team_room_id = [], tst_leader_dm_room_id = [],
     tst_leader_ready = False, tst_ready_workers = 0, tst_total_workers = 0, tst_message = [],
     tst_members = []\<rparr>"

definition zero_team :: team where
  "zero_team = \<lparr>t_meta = zero_meta, t_spec = zero_team_spec, t_status = zero_team_status\<rparr>"

definition zero_manager_spec :: manager_spec where
  "zero_manager_spec = \<lparr>mgs_model = [], mgs_model_provider = [], mgs_runtime = [], mgs_image = [],
     mgs_soul = [], mgs_agents = [], mgs_skills = [], mgs_mcp_servers = [], mgs_package = [],
     mgs_config = \<lparr>mc_heartbeat_interval = [], mc_worker_idle_timeout = [], mc_notify_channel = []\<rparr>,
     mgs_resources = None, mgs_state = None, mgs_access_entries = [], mgs_env = [], mgs_labels = []\<rparr>"

definition zero_manager :: manager where
  "zero_manager = \<lparr>m_meta = zero_meta, m_spec = zero_manager_spec,
     m_status = \<lparr>mst_observed_generation = 0, mst_phase = [], mst_matrix_user_id = [],
       mst_room_id = [], mst_container_state = [], mst_version = [], mst_message = [],
       mst_welcome_sent = False\<rparr>\<rparr>"

lemmas zero_defs = zero_meta_def zero_worker_spec_def zero_worker_status_def zero_worker_def
  zero_leader_def zero_team_worker_def zero_team_spec_def zero_team_status_def zero_team_def
  zero_manager_spec_def zero_manager_def

end
