(* ===== verification/Auth_Middleware.thy ===== *)
theory Auth_Middleware
  imports Auth_Authorizer Auth_Authenticator Api_Types
begin

text \<open>
  \<open>internal/auth/enricher.go\<close> and \<open>internal/auth/middleware.go\<close>: completing an
  authenticated identity from the Worker and Team resources, and the HTTP middleware that runs
  authentication, enrichment, team resolution and authorization in front of a handler. The
  Kubernetes reads are arguments; the authenticator is any state-passing function, so that
  \<open>authenticate\<close> can be plugged in. The outcome of a middleware is the rejection it writes
  or the identity it hands to the next handler.
\<close>

section \<open>Identity enrichment\<close>

definition team_leader_name_field :: string where
  "team_leader_name_field = ''spec.leader.name''"

definition team_worker_name_field :: string where
  "team_worker_name_field = ''spec.workerNames''"

definition lookup_team_by_field ::
  "(string \<Rightarrow> string \<Rightarrow> team list result) \<Rightarrow> string \<Rightarrow> string \<Rightarrow> team option result" where
  "lookup_team_by_field list_teams field value =
     (case list_teams field value of
        Inl e \<Rightarrow> Inl e
      | Inr [] \<Rightarrow> Inr None
      | Inr (t # _) \<Rightarrow> Inr (Some t))"

definition enrich_from_worker :: "worker \<Rightarrow> caller_identity \<Rightarrow> caller_identity" where
  "enrich_from_worker w identity =
     (let id1 = identity\<lparr>ci_worker_name :=
                  worker_effective_name (w_spec w) (om_name (w_meta w))\<rparr>;
          id2 = (if smap_get (om_annotations (w_meta w)) ''hiclaw.io/role'' = ''team_leader''
                 then id1\<lparr>ci_role := role_team_leader\<rparr> else id1);
          team = smap_get (om_annotations (w_meta w)) ''hiclaw.io/team''
      in if team \<noteq> [] then id2\<lparr>ci_team := team\<rparr> else id2)"

text \<open>
  \<open>EnrichIdentity\<close> mutates the identity it is given; the model returns the error value and
  the identity afterwards.
\<close>

definition enrich_identity ::
  "(string \<Rightarrow> worker result) \<Rightarrow> (string \<Rightarrow> string \<Rightarrow> team list result) \<Rightarrow>
   caller_identity option \<Rightarrow> go_error option \<times> caller_identity option" where
  "enrich_identity get_worker list_teams ident =
     (case ident of
        None \<Rightarrow> (None, None)
      | Some i \<Rightarrow>
          if ci_role i = role_admin \<or> ci_role i = role_manager then (None, Some i)
          else
            (case get_worker (ci_username i) of
               Inr w \<Rightarrow> (None, Some (enrich_from_worker w i))
             | Inl err \<Rightarrow>
                 if \<not> is_api_not_found err then
                   (Some (Wrap (''enrich identity: get worker '' @ go_quote (ci_username i)) err), Some i)
                 else
                   (case lookup_team_by_field list_teams team_leader_name_field (ci_username i) of
                      Inl e \<Rightarrow>
                        (Some (Wrap (''enrich identity: lookup team leader '' @
                           go_quote (ci_username i)) e), Some i)
                    | Inr (Some t) \<Rightarrow>
                        (None, Some (i\<lparr>ci_role := role_team_leader, ci_team := om_name (t_meta t),
                           ci_worker_name := leader_effective_name (ts_leader (t_spec t))\<rparr>))
                    | Inr None \<Rightarrow>
                        (case lookup_team_by_field list_teams team_worker_name_field (ci_username i) of
                           Inl e \<Rightarrow>
                             (Some (Wrap (''enrich identity: lookup team worker '' @
                                go_quote (ci_username i)) e), Some i)
                         | Inr (Some t) \<Rightarrow>
                             (None, Some
                               (case List.find (\<lambda>w. tw_name w = ci_username i) (ts_workers (t_spec t)) of
                                  Some w \<Rightarrow> i\<lparr>ci_team := om_name (t_meta t),
                                               ci_worker_name := team_worker_effective_name w\<rparr>
                                | None \<Rightarrow> i\<lparr>ci_team := om_name (t_meta t)\<rparr>))
                         | Inr None \<Rightarrow> (None, Some i)))))"

section \<open>Middleware\<close>

text \<open>The parts of an HTTP request the middleware reads.\<close>

record auth_request =
  rq_authorization :: string
  rq_path_name :: string

datatype outcome =
    Rejected nat string
  | PassedUnauthenticated
  | Passed caller_identity

definition extract_bearer_token :: "auth_request \<Rightarrow> string" where
  "extract_bearer_token r =
     (if rq_authorization r = [] then []
      else let token = trim_prefix (rq_authorization r) ''Bearer '' in
           if token = rq_authorization r then [] else token)"

text \<open>
  The collaborators: the authenticator (\<open>None\<close> when authentication is switched off), the
  enricher and the Kubernetes client (\<open>None\<close> when not configured).
\<close>

record 's middleware =
  mw_authenticator :: "(string \<Rightarrow> 's \<Rightarrow> caller_identity result \<times> 's) option"
  mw_enricher :: "(caller_identity option \<Rightarrow> go_error option \<times> caller_identity option) option"
  mw_get_worker :: "(string \<Rightarrow> worker result) option"

definition authenticate_and_enrich ::
  "'s middleware \<Rightarrow> (string \<Rightarrow> 's \<Rightarrow> caller_identity result \<times> 's) \<Rightarrow> auth_request \<Rightarrow> 's \<Rightarrow>
   caller_identity option \<times> 's" where
  "authenticate_and_enrich m auth r s =
     (let token = extract_bearer_token r in
      if token = [] then (None, s)
      else
        (case auth token s of
           (Inl e, s') \<Rightarrow> (None, s')
         | (Inr identity, s') \<Rightarrow>
             (case mw_enricher m of
                None \<Rightarrow> (Some identity, s')
              | Some enrich \<Rightarrow> (snd (enrich (Some identity)), s'))))"

definition resolve_resource_team :: "'s middleware \<Rightarrow> string \<Rightarrow> string \<Rightarrow> string" where
  "resolve_resource_team m kind name =
     (if name = [] then []
      else
        (case mw_get_worker m of
           None \<Rightarrow> []
         | Some get \<Rightarrow>
             if kind \<noteq> ''worker'' then []
             else
               (case get name of
                  Inl e \<Rightarrow> []
                | Inr w \<Rightarrow> smap_get (om_annotations (w_meta w)) ''hiclaw.io/team'')))"

definition unauthorized_message :: string where
  "unauthorized_message = ''invalid or missing bearer token''"

definition mw_authenticate :: "'s middleware \<Rightarrow> auth_request \<Rightarrow> 's \<Rightarrow> outcome \<times> 's" where
  "mw_authenticate m r s =
     (case mw_authenticator m of
        None \<Rightarrow> (PassedUnauthenticated, s)
      | Some auth \<Rightarrow>
          (case authenticate_and_enrich m auth r s of
             (None, s') \<Rightarrow> (Rejected 401 unauthorized_message, s')
           | (Some identity, s') \<Rightarrow> (Passed identity, s')))"

text \<open>\<open>name_fn\<close> is \<open>None\<close> for a nil \<open>ResourceNameFunc\<close>.\<close>

definition require_authz ::
  "'s middleware \<Rightarrow> string \<Rightarrow> string \<Rightarrow> (auth_request \<Rightarrow> string) option \<Rightarrow> auth_request \<Rightarrow> 's \<Rightarrow>
   outcome \<times> 's" where
  "require_authz m action kind name_fn r s =
     (case mw_authenticator m of
        None \<Rightarrow> (PassedUnauthenticated, s)
      | Some auth \<Rightarrow>
          (case authenticate_and_enrich m auth r s of
             (None, s') \<Rightarrow> (Rejected 401 unauthorized_message, s')
           | (Some identity, s') \<Rightarrow>
               (let name = (case name_fn of None \<Rightarrow> [] | Some f \<Rightarrow> f r);
                    req = \<lparr>ar_action = action, ar_kind = kind, ar_name = name,
                           ar_team = resolve_resource_team m kind name\<rparr>
                in case authorize (Some identity) req of
                     Some e \<Rightarrow> (Rejected 403 (err_text e), s')
                   | None \<Rightarrow> (Passed identity, s'))))"

definition name_from_path :: "auth_request \<Rightarrow> string" where
  "name_from_path r = rq_path_name r"

section \<open>Lemmas\<close>

lemma extract_bearer_token_bearer:
  "tok \<noteq> [] \<Longrightarrow> extract_bearer_token \<lparr>rq_authorization = ''Bearer '' @ tok, rq_path_name = n\<rparr> = tok"
  using has_prefix_append [of "''Bearer ''" tok]
  by (auto simp: extract_bearer_token_def trim_prefix_def)

lemma extract_bearer_token_other:
  "\<not> has_prefix (rq_authorization r) ''Bearer '' \<Longrightarrow> extract_bearer_token r = []"
  by (simp add: extract_bearer_token_def trim_prefix_def)

lemma authenticate_and_enrich_Some:
  assumes "authenticate_and_enrich m auth r s = (Some identity, s')"
  shows "extract_bearer_token r \<noteq> [] \<and>
    (\<exists>base. auth (extract_bearer_token r) s = (Inr base, s'))"
  using assms
  by (auto simp: authenticate_and_enrich_def Let_def split: if_splits prod.splits sum.splits option.splits)

lemma require_authz_passed:
  assumes "mw_authenticator m = Some auth"
    and "require_authz m action kind name_fn r s = (Passed identity, s')"
  shows "authenticate_and_enrich m auth r s = (Some identity, s') \<and>
    authorize (Some identity)
      \<lparr>ar_action = action, ar_kind = kind,
       ar_name = (case name_fn of None \<Rightarrow> [] | Some f \<Rightarrow> f r),
       ar_team = resolve_resource_team m kind (case name_fn of None \<Rightarrow> [] | Some f \<Rightarrow> f r)\<rparr> = None"
  using assms
  by (auto simp: require_authz_def Let_def split: prod.splits option.splits)

lemma enrich_role_cases:
  assumes "enrich_identity get_worker list_teams (Some i) = (e, Some j)"
  shows "ci_role j = ci_role i \<or> (ci_role j = role_team_leader \<and> ci_role i \<noteq> role_admin \<and>
    ci_role i \<noteq> role_manager)"
  using assms
  by (auto simp: enrich_identity_def enrich_from_worker_def Let_def
      split: if_splits sum.splits option.splits)

lemma enrich_username:
  "enrich_identity get_worker list_teams (Some i) = (e, Some j) \<Longrightarrow> ci_username j = ci_username i"
  by (auto simp: enrich_identity_def enrich_from_worker_def Let_def
      split: if_splits sum.splits option.splits)

lemma enrich_total: "\<exists>e j. enrich_identity get_worker list_teams (Some i) = (e, Some j)"
  by (auto simp: enrich_identity_def split: sum.splits option.splits)

end
