(* ===== verification/Backend_Core.thy ===== *)
theory Backend_Core
  imports Api_Types
begin

text \<open>
  \<open>internal/backend/interface.go\<close> and \<open>registry.go\<close>: worker statuses, runtimes, the
  create request, the interface every backend offers and its auto-detection. A backend is a
  record of operations on a world state \<open>'w\<close> in the state monad; the locale states what the
  reconcilers rely on, and the theories of the Kubernetes and Docker backends interpret it.
\<close>

datatype backend_status =
    Status_Running
  | Status_Ready
  | Status_Stopped
  | Status_Starting
  | Status_NotFound
  | Status_Unknown

fun status_text :: "backend_status \<Rightarrow> string" where
  "status_text Status_Running = ''running''"
| "status_text Status_Ready = ''ready''"
| "status_text Status_Stopped = ''stopped''"
| "status_text Status_Starting = ''starting''"
| "status_text Status_NotFound = ''not_found''"
| "status_text Status_Unknown = ''unknown''"

definition runtime_openclaw :: string where "runtime_openclaw = ''openclaw''"
definition runtime_copaw :: string where "runtime_copaw = ''copaw''"
definition runtime_hermes :: string where "runtime_hermes = ''hermes''"
definition runtime_openhuman :: string where "runtime_openhuman = ''openhuman''"

lemmas runtime_defs = runtime_openclaw_def runtime_copaw_def runtime_hermes_def runtime_openhuman_def

definition valid_runtime :: "string \<Rightarrow> bool" where
  "valid_runtime r \<longleftrightarrow> r = [] \<or> r = runtime_openclaw \<or> r = runtime_copaw \<or> r = runtime_hermes \<or>
     r = runtime_openhuman"

definition resolve_runtime :: "string \<Rightarrow> string \<Rightarrow> string" where
  "resolve_runtime req_runtime fallback =
     (if req_runtime \<noteq> [] then req_runtime
      else if fallback \<noteq> [] then fallback
      else runtime_openclaw)"

record resource_overrides =
  ro_cpu_request :: string
  ro_cpu_limit :: string
  ro_memory_request :: string
  ro_memory_limit :: string

record volume_mount =
  vm_host_path :: string
  vm_container_path :: string
  vm_read_only :: bool

record port_mapping =
  pm_host_ip :: string
  pm_host_port :: string
  pm_container_port :: string
  pm_protocol :: string

text \<open>
  \<open>Env\<close> may be a nil map, which matters for writes; the owner is the kind and name of the
  owning resource.
\<close>

record create_request =
  cq_name :: string
  cq_image :: string
  cq_env :: "smap option"
  cq_runtime :: string
  cq_runtime_fallback :: string
  cq_network :: string
  cq_extra_hosts :: "string list"
  cq_working_dir :: string
  cq_controller_url :: string
  cq_service_account :: string
  cq_auth_token :: string
  cq_auth_audience :: string
  cq_resources :: "resource_overrides option"
  cq_name_prefix :: string
  cq_container_name :: string
  cq_labels :: smap
  cq_volumes :: "volume_mount list"
  cq_network_aliases :: "string list"
  cq_ports :: "port_mapping list"
  cq_restart_policy :: string
  cq_owner :: "(string \<times> string) option"

definition zero_create_request :: create_request where
  "zero_create_request = \<lparr>cq_name = [], cq_image = [], cq_env = None, cq_runtime = [],
     cq_runtime_fallback = [], cq_network = [], cq_extra_hosts = [], cq_working_dir = [],
     cq_controller_url = [], cq_service_account = [], cq_auth_token = [], cq_auth_audience = [],
     cq_resources = None, cq_name_prefix = [], cq_container_name = [], cq_labels = [],
     cq_volumes = [], cq_network_aliases = [], cq_ports = [], cq_restart_policy = [],
     cq_owner = None\<rparr>"

definition deploy_local :: string where "deploy_local = ''local''"
definition deploy_cloud :: string where "deploy_cloud = ''cloud''"

record worker_result =
  wr_name :: string
  wr_backend :: string
  wr_deployment_mode :: string
  wr_status :: backend_status
  wr_container_id :: string
  wr_raw_status :: string
  wr_console_port :: string

record 'w worker_backend =
  wb_name :: string
  wb_available :: "('w, bool) state"
  wb_create :: "create_request \<Rightarrow> ('w, worker_result result) state"
  wb_delete :: "string \<Rightarrow> ('w, go_error option) state"
  wb_start :: "string \<Rightarrow> ('w, go_error option) state"
  wb_stop :: "string \<Rightarrow> ('w, go_error option) state"
  wb_status :: "string \<Rightarrow> ('w, worker_result result) state"

section \<open>Registry\<close>

text \<open>\<open>DetectWorkerBackend\<close>: the first backend of the registration order that is available.\<close>

fun detect_worker_backend :: "'w worker_backend list \<Rightarrow> ('w, 'w worker_backend option) state" where
  "detect_worker_backend [] = State_Monad.return None"
| "detect_worker_backend (b # bs) = do {
     ok \<leftarrow> wb_available b;
     if ok then State_Monad.return (Some b) else detect_worker_backend bs
   }"

definition get_worker_backend ::
  "'w worker_backend list \<Rightarrow> string \<Rightarrow> ('w, 'w worker_backend result) state" where
  "get_worker_backend bs name =
     (if name = [] then do {
        b \<leftarrow> detect_worker_backend bs;
        State_Monad.return
          (case b of
             None \<Rightarrow> Inl (Err ''no worker backend available'')
           | Some wb \<Rightarrow> Inr wb)
      }
      else State_Monad.return
        (case List.find (\<lambda>b. wb_name b = name) bs of
           Some b \<Rightarrow> Inr b
         | None \<Rightarrow> Inl (Err (''unknown worker backend: '' @ go_quote name))))"

lemma detect_worker_backend_mem:
  "run_state (detect_worker_backend bs) w = (Some b, w') \<Longrightarrow> b \<in> set bs"
  by (induction bs arbitrary: w) (auto split: prod.splits if_splits)

lemma resolve_runtime_nonempty: "resolve_runtime r f \<noteq> []"
  by (simp add: resolve_runtime_def runtime_defs)

section \<open>What the reconcilers rely on\<close>

text \<open>
  The contract of a backend for one worker name \<open>n\<close>. \<open>present w\<close> says that the world
  \<open>w\<close> holds the container or pod of that name, \<open>active w\<close> that it is running or about to,
  \<open>reachable w\<close> that the platform answers. A status query changes nothing and tells
  presence, deletion removes, creation for a good request of that name makes an absent worker
  active, stopping ends activity, and a backend named \<open>docker\<close> can start what is present.
\<close>

locale worker_backend_contract =
  fixes b :: "'w worker_backend"
    and n :: string
    and good :: "create_request \<Rightarrow> bool"
    and reachable :: "'w \<Rightarrow> bool"
    and present :: "'w \<Rightarrow> bool"
    and active :: "'w \<Rightarrow> bool"
  assumes status_ok: "reachable w \<Longrightarrow> \<exists>r. run_state (wb_status b n) w = (Inr r, w) \<and>
        (wr_status r = Status_NotFound \<longleftrightarrow> \<not> present w) \<and>
        (wr_status r \<in> {Status_Running, Status_Starting, Status_Ready} \<longrightarrow> active w)"
    and delete_ok: "reachable w \<Longrightarrow> \<exists>w'. run_state (wb_delete b n) w = (None, w') \<and>
        reachable w' \<and> \<not> present w'"
    and stop_ok: "reachable w \<Longrightarrow> \<exists>e w'. run_state (wb_stop b n) w = (e, w') \<and>
        reachable w' \<and> \<not> active w' \<and> (case e of None \<Rightarrow> True | Some x \<Rightarrow> is_err_not_found x)"
    and create_ok: "reachable w \<Longrightarrow> \<not> present w \<Longrightarrow> good q \<Longrightarrow>
        \<exists>r w'. run_state (wb_create b q) w = (Inr r, w') \<and> reachable w' \<and> active w'"
    and start_ok: "reachable w \<Longrightarrow> wb_name b = ''docker'' \<Longrightarrow> present w \<Longrightarrow>
        \<exists>w'. run_state (wb_start b n) w = (None, w') \<and> reachable w' \<and> active w'"
    and available_ok: "reachable w \<Longrightarrow> run_state (wb_available b) w = (True, w)"
    and active_present: "reachable w \<Longrightarrow> active w \<Longrightarrow> present w"
begin

lemma detect_first:
  "reachable w \<Longrightarrow> run_state (detect_worker_backend (b # bs)) w = (Some b, w)"
  by (simp add: available_ok)

end

end
