(* ===== verification/Worker_Env.thy ===== *)
theory Worker_Env
  imports Backend_Core
begin

text \<open>
  What goes into a worker or manager container besides its image: the environment of
  \<open>internal/service/worker_env.go\<close>, the user environment of \<open>controller/user_env.go\<close>, the
  label layers of \<open>controller/labels.go\<close> and the resources of \<open>controller/resources.go\<close>; with
  the credential bundles they read.
\<close>

record worker_provision_result =
  pr_matrix_user_id :: string
  pr_matrix_token :: string
  pr_room_id :: string
  pr_gateway_key :: string
  pr_minio_password :: string
  pr_matrix_password :: string

record refresh_result =
  rr_matrix_token :: string
  rr_gateway_key :: string
  rr_minio_password :: string
  rr_matrix_password :: string

record worker_env_defaults =
  wd_matrix_domain :: string
  wd_fs_endpoint :: string
  wd_fs_bucket :: string
  wd_storage_prefix :: string
  wd_controller_url :: string
  wd_ai_gateway_url :: string
  wd_matrix_url :: string
  wd_admin_user :: string
  wd_runtime :: string
  wd_default_worker_runtime :: string
  wd_yolo_mode :: bool
  wd_matrix_debug :: bool
  wd_cms_traces_enabled :: bool
  wd_cms_metrics_enabled :: bool
  wd_cms_endpoint :: string
  wd_cms_license_key :: string
  wd_cms_project :: string
  wd_cms_workspace :: string
  wd_skills_api_url :: string
  wd_nacos_auth_type :: string

section \<open>Labels, user environment, resources\<close>

definition merge_labels :: "smap list \<Rightarrow> smap" where
  "merge_labels layers = fold smap_put_all layers []"

fun merge_user_env_loop :: "smap \<Rightarrow> smap \<Rightarrow> string list \<Rightarrow> smap \<times> string list" where
  "merge_user_env_loop sys [] ignored = (sys, ignored)"
| "merge_user_env_loop sys ((k, v) # user) ignored =
     (case map_of sys k of
        Some taken \<Rightarrow> merge_user_env_loop sys user (ignored @ [k])
      | None \<Rightarrow> merge_user_env_loop (smap_put k v sys) user ignored)"

text \<open>The merged environment and the ignored keys as they are logged.\<close>

definition merge_user_env :: "smap \<Rightarrow> smap \<Rightarrow> smap \<times> string list" where
  "merge_user_env sys user =
     (let (env, ignored) = merge_user_env_loop sys user [] in (env, sort_strings ignored))"

definition agent_resources_to_backend ::
  "agent_resource_requirements option \<Rightarrow> resource_overrides option" where
  "agent_resources_to_backend r = map_option (\<lambda>x.
     \<lparr>ro_cpu_request = arv_cpu (arr_requests x), ro_cpu_limit = arv_cpu (arr_limits x),
      ro_memory_request = arv_memory (arr_requests x), ro_memory_limit = arv_memory (arr_limits x)\<rparr>) r"

definition pick :: "string \<Rightarrow> string \<Rightarrow> string" where
  "pick v d = (if v \<noteq> [] then v else d)"

definition merge_agent_resources_with_backend_defaults ::
  "resource_overrides option \<Rightarrow> agent_resource_requirements option \<Rightarrow> resource_overrides option" where
  "merge_agent_resources_with_backend_defaults defaults override =
     (case override of
        None \<Rightarrow> defaults
      | Some ov \<Rightarrow>
          let d = (case defaults of Some d \<Rightarrow> d
                   | None \<Rightarrow> \<lparr>ro_cpu_request = [], ro_cpu_limit = [], ro_memory_request = [],
                              ro_memory_limit = []\<rparr>)
          in Some \<lparr>ro_cpu_request = pick (arv_cpu (arr_requests ov)) (ro_cpu_request d),
                ro_cpu_limit = pick (arv_cpu (arr_limits ov)) (ro_cpu_limit d),
                ro_memory_request = pick (arv_memory (arr_requests ov)) (ro_memory_request d),
                ro_memory_limit = pick (arv_memory (arr_limits ov)) (ro_memory_limit d)\<rparr>)"

section \<open>The environment builder\<close>

definition put_nonempty :: "string \<times> string \<Rightarrow> smap \<Rightarrow> smap" where
  "put_nonempty kv env = (if snd kv \<noteq> [] then smap_put (fst kv) (snd kv) env else env)"

definition put_flag :: "bool \<Rightarrow> string \<Rightarrow> string \<Rightarrow> smap \<Rightarrow> smap" where
  "put_flag b k v env = (if b then smap_put k v env else env)"

definition apply_cluster_defaults :: "worker_env_defaults \<Rightarrow> smap \<Rightarrow> smap" where
  "apply_cluster_defaults b env =
     (let e1 = fold put_nonempty
            [(''HICLAW_MATRIX_DOMAIN'', wd_matrix_domain b),
             (''HICLAW_FS_ENDPOINT'', wd_fs_endpoint b),
             (''HICLAW_FS_BUCKET'', wd_fs_bucket b),
             (''HICLAW_STORAGE_PREFIX'', wd_storage_prefix b),
             (''HICLAW_CONTROLLER_URL'', wd_controller_url b),
             (''HICLAW_AI_GATEWAY_URL'', wd_ai_gateway_url b),
             (''HICLAW_MATRIX_URL'', wd_matrix_url b)] env;
          e2 = put_flag (wd_yolo_mode b) ''HICLAW_YOLO'' ''1'' e1;
          e3 = put_flag (wd_matrix_debug b) ''HICLAW_MATRIX_DEBUG'' ''1'' e2;
          e4 = put_flag (wd_cms_traces_enabled b) ''HICLAW_CMS_TRACES_ENABLED'' ''true'' e3;
          e5 = put_flag (wd_cms_metrics_enabled b) ''HICLAW_CMS_METRICS_ENABLED'' ''true'' e4
      in fold put_nonempty
            [(''HICLAW_CMS_ENDPOINT'', wd_cms_endpoint b),
             (''HICLAW_CMS_LICENSE_KEY'', wd_cms_license_key b),
             (''HICLAW_CMS_PROJECT'', wd_cms_project b),
             (''HICLAW_CMS_WORKSPACE'', wd_cms_workspace b),
             (''SKILLS_API_URL'', wd_skills_api_url b),
             (''NACOS_AUTH_TYPE'', wd_nacos_auth_type b)] e5)"

definition build_worker_env ::
  "worker_env_defaults \<Rightarrow> string \<Rightarrow> worker_provision_result \<Rightarrow> smap" where
  "build_worker_env b worker_name prov =
     apply_cluster_defaults b
       [(''HICLAW_WORKER_NAME'', worker_name),
        (''HICLAW_WORKER_GATEWAY_KEY'', pr_gateway_key prov),
        (''HICLAW_WORKER_MATRIX_TOKEN'', pr_matrix_token prov),
        (''HICLAW_WORKER_ROOM_ID'', pr_room_id prov),
        (''HICLAW_FS_ACCESS_KEY'', worker_name),
        (''HICLAW_FS_SECRET_KEY'', pr_minio_password prov),
        (''OPENCLAW_DISABLE_BONJOUR'', ''1''),
        (''OPENCLAW_MDNS_HOSTNAME'', ''hiclaw-w-'' @ worker_name),
        (''HICLAW_CONSOLE_PORT'', ''8088''),
        (''HOME'', ''/root/hiclaw-fs/agents/'' @ worker_name)]"

text \<open>The manager's credential bundle has the fields of the worker's.\<close>

definition build_manager_env ::
  "worker_env_defaults \<Rightarrow> string \<Rightarrow> worker_provision_result \<Rightarrow> manager_spec \<Rightarrow> smap" where
  "build_manager_env b manager_name prov spec =
     (let runtime = (if wd_runtime b = [] then ''k8s'' else wd_runtime b);
          env = [(''HICLAW_MANAGER_NAME'', manager_name),
             (''HICLAW_MANAGER_GATEWAY_KEY'', pr_gateway_key prov),
             (''HICLAW_MANAGER_PASSWORD'', pr_matrix_password prov),
             (''HICLAW_FS_ACCESS_KEY'', manager_name),
             (''HICLAW_FS_SECRET_KEY'', pr_minio_password prov),
             (''OPENCLAW_DISABLE_BONJOUR'', ''1''),
             (''OPENCLAW_MDNS_HOSTNAME'', ''hiclaw-manager''),
             (''HOME'', ''/root/manager-workspace''),
             (''HICLAW_RUNTIME'', runtime)];
          cfg = mgs_config spec
      in apply_cluster_defaults b (fold put_nonempty
            [(''HICLAW_DEFAULT_MODEL'', mgs_model spec),
             (''HICLAW_MANAGER_RUNTIME'', mgs_runtime spec),
             (''HICLAW_ADMIN_USER'', wd_admin_user b),
             (''HICLAW_DEFAULT_WORKER_RUNTIME'', wd_default_worker_runtime b),
             (''HICLAW_MANAGER_HEARTBEAT_INTERVAL'', mc_heartbeat_interval cfg),
             (''HICLAW_MANAGER_WORKER_IDLE_TIMEOUT'', mc_worker_idle_timeout cfg),
             (''HICLAW_MANAGER_NOTIFY_CHANNEL'', mc_notify_channel cfg)] env))"

section \<open>Lemmas\<close>

lemma distinct_put_nonempty [simp]:
  "distinct (map fst env) \<Longrightarrow> distinct (map fst (put_nonempty kv env))"
  by (simp add: put_nonempty_def)

lemma distinct_fold_put_nonempty:
  "distinct (map fst env) \<Longrightarrow> distinct (map fst (fold put_nonempty kvs env))"
  by (induction kvs arbitrary: env) auto

lemma distinct_put_flag [simp]:
  "distinct (map fst env) \<Longrightarrow> distinct (map fst (put_flag b k v env))"
  by (simp add: put_flag_def)

lemma map_of_put_nonempty [go_map]:
  "map_of (put_nonempty kv env) k =
     (if k = fst kv \<and> snd kv \<noteq> [] then Some (snd kv) else map_of env k)"
  by (simp add: put_nonempty_def)

lemma map_of_put_flag [go_map]:
  "map_of (put_flag b k v env) k' = (if b \<and> k' = k then Some v else map_of env k')"
  by (simp add: put_flag_def)

lemma map_of_fold_put_nonempty_other [go_map]:
  "k \<notin> fst ` set kvs \<Longrightarrow> map_of (fold put_nonempty kvs env) k = map_of env k"
  by (induction kvs arbitrary: env) (auto simp: map_of_put_nonempty)

lemma distinct_apply_cluster_defaults:
  "distinct (map fst env) \<Longrightarrow> distinct (map fst (apply_cluster_defaults b env))"
  by (simp only: apply_cluster_defaults_def Let_def)
    (intro distinct_fold_put_nonempty distinct_put_flag)

lemma distinct_build_worker_env: "distinct (map fst (build_worker_env b n prov))"
  unfolding build_worker_env_def by (rule distinct_apply_cluster_defaults) simp

definition cluster_keys :: "string list" where
  "cluster_keys = [''HICLAW_MATRIX_DOMAIN'', ''HICLAW_FS_ENDPOINT'', ''HICLAW_FS_BUCKET'',
     ''HICLAW_STORAGE_PREFIX'', ''HICLAW_CONTROLLER_URL'', ''HICLAW_AI_GATEWAY_URL'',
     ''HICLAW_MATRIX_URL'', ''HICLAW_YOLO'', ''HICLAW_MATRIX_DEBUG'', ''HICLAW_CMS_TRACES_ENABLED'',
     ''HICLAW_CMS_METRICS_ENABLED'', ''HICLAW_CMS_ENDPOINT'', ''HICLAW_CMS_LICENSE_KEY'',
     ''HICLAW_CMS_PROJECT'', ''HICLAW_CMS_WORKSPACE'', ''SKILLS_API_URL'', ''NACOS_AUTH_TYPE'']"

lemma apply_cluster_defaults_other:
  "k \<notin> set cluster_keys \<Longrightarrow> map_of (apply_cluster_defaults b env) k = map_of env k"
  by (simp add: apply_cluster_defaults_def Let_def cluster_keys_def map_of_put_flag
      map_of_put_nonempty)

lemma merge_user_env_loop_spec:
  "distinct (map fst user) \<Longrightarrow>
   map_of (fst (merge_user_env_loop sys user ign)) = map_of user ++ map_of sys \<and>
   snd (merge_user_env_loop sys user ign) = ign @ filter (\<lambda>k. map_of sys k \<noteq> None) (map fst user)"
proof (induction user arbitrary: sys ign)
  case (Cons kv user)
  obtain k v where kv: "kv = (k, v)" by (cases kv)
  have k: "map_of user k = None" and d: "distinct (map fst user)" "k \<notin> fst ` set user"
    using Cons.prems kv by (auto simp: map_of_eq_None_iff)
  show ?case
  proof (cases "map_of sys k")
    case None
    have "filter (\<lambda>x. map_of (smap_put k v sys) x \<noteq> None) (map fst user) =
        filter (\<lambda>x. map_of sys x \<noteq> None) (map fst user)"
      using d(2) by (auto intro!: filter_cong)
    then show ?thesis
      using Cons.IH [OF d(1), of "smap_put k v sys" ign] None kv k
      by (auto simp: fun_eq_iff map_add_def split: option.splits)
  next
    case (Some t)
    then show ?thesis
      using Cons.IH [OF d(1), of sys "ign @ [k]"] kv
      by (auto simp: fun_eq_iff map_add_def split: option.splits)
  qed
qed simp

lemma map_of_merge_labels_snoc:
  "distinct (map fst upper) \<Longrightarrow>
   map_of (merge_labels (layers @ [upper])) = map_of (merge_labels layers) ++ map_of upper"
  by (simp add: merge_labels_def map_of_smap_put_all)

lemma distinct_merge_labels: "distinct (map fst (merge_labels layers))"
proof -
  have "distinct (map fst acc) \<Longrightarrow> distinct (map fst (fold smap_put_all layers acc))" for acc
    by (induction layers arbitrary: acc) auto
  then show ?thesis by (simp add: merge_labels_def)
qed

section \<open>Properties\<close>

text \<open>
  System variables win over user variables: merging a user's environment keeps every
  system entry unchanged, adds exactly the user entries whose keys the system does not use, and
  reports the ignored keys sorted, each of them a key of both maps.
\<close>

theorem user_env_system_wins:
  assumes "distinct (map fst user)"
  shows "map_of (fst (merge_user_env sys user)) = map_of user ++ map_of sys \<and>
    sorted (snd (merge_user_env sys user)) \<and>
    set (snd (merge_user_env sys user)) = dom (map_of user) \<inter> dom (map_of sys)"
  using merge_user_env_loop_spec [OF assms, of sys "[]"]
  by (simp add: merge_user_env_def case_prod_beta flip: set_map dom_map_of_conv_image_fst)
    (auto simp: dom_map_of_conv_image_fst [of user])

theorem user_env_system_wins_witness:
  "map_of (fst (merge_user_env [(''HOME'', ''/root'')] [(''HOME'', ''/evil''), (''LANG'', ''C'')])) ''HOME'' =
     Some ''/root''"
  using user_env_system_wins [of "[(''HOME'', ''/evil''), (''LANG'', ''C'')]" "[(''HOME'', ''/root'')]"]
  by simp

text \<open>
  Label layers have the documented priority: on a key that several layers define the value
  of the last such layer wins, so the controller's system labels, merged last, can be
  overwritten neither by the resource's metadata labels nor by its spec labels; and a key that
  no layer defines is absent.
\<close>

theorem merge_labels_priority:
  assumes "distinct (map fst meta)" "distinct (map fst spec)" "distinct (map fst system)"
  shows "map_of (merge_labels [meta, spec, system]) = map_of meta ++ map_of spec ++ map_of system"
  using map_of_merge_labels_snoc [OF assms(3), of "[meta, spec]"]
    map_of_merge_labels_snoc [OF assms(2), of "[meta]"]
    map_of_merge_labels_snoc [OF assms(1), of "[]"]
  by (simp add: merge_labels_def)

theorem merge_labels_priority_witness:
  "map_of (merge_labels [[(''app'', ''x'')], [(''app'', ''y''), (''team'', ''t'')],
      [(''hiclaw.io/controller'', ''c''), (''app'', ''hiclaw-worker'')]]) ''app'' = Some ''hiclaw-worker''"
  using merge_labels_priority [of "[(''app'', ''x'')]" "[(''app'', ''y''), (''team'', ''t'')]"
      "[(''hiclaw.io/controller'', ''c''), (''app'', ''hiclaw-worker'')]"]
  by simp

end
