(* ===== verification/Pod_Template.thy ===== *)
theory Pod_Template
  imports Backend_Core
begin

text \<open>
  \<open>internal/backend/agent_pod_template.go\<close>: the PodTemplateSpec overlay an operator may put
  in a ConfigMap and its merge with the fields the controller owns. Pods are records of the
  fields the merge reads or writes; every other field of a Kubernetes object is kept in an
  opaque JSON component that the merge copies.
\<close>

record k8s_env_var =
  ev_name :: string
  ev_value :: string
  ev_value_from :: json

datatype volume_source = Projected_Token string int string | Other_Source json

record k8s_volume =
  kv_name :: string
  kv_source :: volume_source

record k8s_volume_mount =
  kvm_name :: string
  kvm_mount_path :: string
  kvm_read_only :: bool
  kvm_rest :: json

record k8s_resources =
  kr_limits :: smap
  kr_requests :: smap
  kr_claims :: "string list"

record k8s_container =
  kc_name :: string
  kc_image :: string
  kc_image_pull_policy :: string
  kc_env :: "k8s_env_var list"
  kc_working_dir :: string
  kc_resources :: k8s_resources
  kc_volume_mounts :: "k8s_volume_mount list"
  kc_rest :: json

record host_alias =
  ha_ip :: string
  ha_hostnames :: "string list"

record k8s_pod_spec =
  ps_containers :: "k8s_container list"
  ps_volumes :: "k8s_volume list"
  ps_service_account_name :: string
  ps_automount_token :: "bool option"
  ps_restart_policy :: string
  ps_host_aliases :: "host_alias list"
  ps_rest :: json

record pod_template =
  pt_labels :: smap
  pt_annotations :: smap
  pt_owner_references :: "(string \<times> string) list"
  pt_spec :: k8s_pod_spec

record k8s_pod =
  pod_name :: string
  pod_namespace :: string
  pod_labels :: smap
  pod_annotations :: smap
  pod_owner_references :: "(string \<times> string) list"
  pod_spec :: k8s_pod_spec
  pod_phase :: string

definition empty_resources :: k8s_resources where
  "empty_resources = \<lparr>kr_limits = [], kr_requests = [], kr_claims = []\<rparr>"

definition zero_container :: k8s_container where
  "zero_container = \<lparr>kc_name = [], kc_image = [], kc_image_pull_policy = [], kc_env = [],
     kc_working_dir = [], kc_resources = empty_resources, kc_volume_mounts = [], kc_rest = JNull\<rparr>"

definition zero_pod_template :: pod_template where
  "zero_pod_template = \<lparr>pt_labels = [], pt_annotations = [], pt_owner_references = [],
     pt_spec = \<lparr>ps_containers = [], ps_volumes = [], ps_service_account_name = [],
       ps_automount_token = None, ps_restart_policy = [], ps_host_aliases = [], ps_rest = JNull\<rparr>\<rparr>"

record pod_overlay =
  po_name :: string
  po_namespace :: string
  po_labels :: smap
  po_annotations :: smap
  po_service_account_name :: string
  po_container :: k8s_container
  po_resources_override :: "k8s_resources option"
  po_default_resources :: k8s_resources
  po_token_volume :: k8s_volume
  po_token_volume_mount :: k8s_volume_mount
  po_host_aliases :: "host_alias list"

section \<open>The merge\<close>

definition is_resources_empty :: "k8s_resources \<Rightarrow> bool" where
  "is_resources_empty r \<longleftrightarrow> kr_limits r = [] \<and> kr_requests r = [] \<and> kr_claims r = []"

definition merge_string_maps :: "smap \<Rightarrow> smap \<Rightarrow> smap" where
  "merge_string_maps base overrides =
     (if base = [] \<and> overrides = [] then []
      else smap_put_all overrides (smap_put_all base []))"

text \<open>
  \<open>splitAgentContainer\<close>: the loop state is the agent container once it is found and the
  sidecars seen so far.
\<close>

fun split_agent_loop ::
  "string \<Rightarrow> k8s_container list \<Rightarrow> k8s_container option \<Rightarrow> k8s_container list \<Rightarrow>
   k8s_container option \<times> k8s_container list" where
  "split_agent_loop nm [] base sidecars = (base, sidecars)"
| "split_agent_loop nm (c # cs) base sidecars =
     (if base = None \<and> kc_name c = nm then split_agent_loop nm cs (Some c) sidecars
      else split_agent_loop nm cs base (sidecars @ [c]))"

definition split_agent_container ::
  "k8s_container list \<Rightarrow> string \<Rightarrow> k8s_container \<times> k8s_container list" where
  "split_agent_container containers agent_name =
     (let nm = (if agent_name = [] then ''worker'' else agent_name);
          (base, sidecars) = split_agent_loop nm containers None []
      in ((case base of None \<Rightarrow> zero_container | Some c \<Rightarrow> c), sidecars))"

definition overlay_agent_container :: "k8s_container \<Rightarrow> pod_overlay \<Rightarrow> k8s_container" where
  "overlay_agent_container base ov =
     (let oc = po_container ov;
          c1 = (if kc_name base = [] then base\<lparr>kc_name := kc_name oc\<rparr> else base);
          c2 = (if kc_image oc \<noteq> [] then c1\<lparr>kc_image := kc_image oc\<rparr> else c1);
          c3 = (if kc_image_pull_policy oc \<noteq> []
                then c2\<lparr>kc_image_pull_policy := kc_image_pull_policy oc\<rparr>
                else if kc_image_pull_policy c2 = []
                then c2\<lparr>kc_image_pull_policy := ''IfNotPresent''\<rparr> else c2);
          c4 = (if kc_env oc \<noteq> [] then c3\<lparr>kc_env := kc_env oc\<rparr> else c3);
          c5 = (if kc_working_dir oc \<noteq> [] then c4\<lparr>kc_working_dir := kc_working_dir oc\<rparr> else c4);
          c6 = c5\<lparr>kc_volume_mounts := kc_volume_mounts c5 @ [po_token_volume_mount ov]\<rparr>
      in case po_resources_override ov of
           Some r \<Rightarrow> c6\<lparr>kc_resources := r\<rparr>
         | None \<Rightarrow> if is_resources_empty (kc_resources c6)
                   then c6\<lparr>kc_resources := po_default_resources ov\<rparr> else c6)"

definition apply_pod_template :: "pod_template \<Rightarrow> pod_overlay \<Rightarrow> k8s_pod" where
  "apply_pod_template tmpl ov =
     (let spec = pt_spec tmpl;
          (base, sidecars) = split_agent_container (ps_containers spec) (kc_name (po_container ov));
          agent = overlay_agent_container base ov
      in \<lparr>pod_name = po_name ov,
          pod_namespace = po_namespace ov,
          pod_labels = merge_string_maps (pt_labels tmpl) (po_labels ov),
          pod_annotations = merge_string_maps (pt_annotations tmpl) (po_annotations ov),
          pod_owner_references = [],
          pod_spec = spec\<lparr>ps_containers := agent # sidecars,
            ps_volumes := ps_volumes spec @ [po_token_volume ov],
            ps_service_account_name := po_service_account_name ov,
            ps_automount_token := Some False,
            ps_restart_policy := (if ps_restart_policy spec = [] then ''Always''
                                  else ps_restart_policy spec),
            ps_host_aliases := (if po_host_aliases ov \<noteq> []
                                then ps_host_aliases spec @ po_host_aliases ov
                                else ps_host_aliases spec)\<rparr>,
          pod_phase = []\<rparr>)"

section \<open>Lemmas\<close>

lemma split_agent_loop_found:
  "split_agent_loop nm cs (Some c) acc = (Some c, acc @ cs)"
  by (induction cs arbitrary: acc) auto

text \<open>The loop splits at the first container with the agent's name.\<close>

lemma split_agent_loop_spec:
  "split_agent_loop nm cs None acc =
     (case List.extract (\<lambda>c. kc_name c = nm) cs of
        None \<Rightarrow> (None, acc @ cs)
      | Some (xs, c, ys) \<Rightarrow> (Some c, acc @ xs @ ys))"
  by (induction cs arbitrary: acc)
     (auto simp: List.extract_Nil_code List.extract_Cons_code split_agent_loop_found
       split: option.splits)

lemma split_agent_container_spec:
  "nm \<noteq> [] \<Longrightarrow> split_agent_container cs nm =
     (case List.extract (\<lambda>c. kc_name c = nm) cs of
        None \<Rightarrow> (zero_container, cs)
      | Some (xs, c, ys) \<Rightarrow> (c, xs @ ys))"
  by (simp add: split_agent_container_def split_agent_loop_spec split: option.splits prod.splits)

lemma split_agent_loop_others:
  "filter (\<lambda>c. kc_name c \<noteq> nm) (snd (split_agent_loop nm cs b acc)) =
   filter (\<lambda>c. kc_name c \<noteq> nm) (acc @ cs)"
  by (induction cs arbitrary: b acc) auto

lemma split_agent_container_others:
  "nm \<noteq> [] \<Longrightarrow> filter (\<lambda>c. kc_name c \<noteq> nm) (snd (split_agent_container cs nm)) =
   filter (\<lambda>c. kc_name c \<noteq> nm) cs"
  using split_agent_loop_others [of nm cs None "[]"]
  by (simp add: split_agent_container_def case_prod_beta)

lemma split_agent_container_name:
  "nm \<noteq> [] \<Longrightarrow> kc_name (fst (split_agent_container cs nm)) \<in> {[], nm}"
  by (auto simp: split_agent_container_spec zero_container_def
      split: option.splits dest: extract_SomeE)

lemma map_of_merge_string_maps [go_map]:
  "distinct (map fst base) \<Longrightarrow> distinct (map fst overrides) \<Longrightarrow>
   map_of (merge_string_maps base overrides) = map_of base ++ map_of overrides"
  by (simp add: merge_string_maps_def map_of_smap_put_all)

lemma overlay_agent_container_simps:
  "kc_volume_mounts (overlay_agent_container base ov) =
     kc_volume_mounts base @ [po_token_volume_mount ov]"
  "kc_image (overlay_agent_container base ov) =
     (if kc_image (po_container ov) \<noteq> [] then kc_image (po_container ov) else kc_image base)"
  "kc_name (overlay_agent_container base ov) =
     (if kc_name base = [] then kc_name (po_container ov) else kc_name base)"
  "kc_env (overlay_agent_container base ov) =
     (if kc_env (po_container ov) \<noteq> [] then kc_env (po_container ov) else kc_env base)"
  "kc_rest (overlay_agent_container base ov) = kc_rest base"
  "kc_resources (overlay_agent_container base ov) =
     (case po_resources_override ov of
        Some r \<Rightarrow> r
      | None \<Rightarrow> if is_resources_empty (kc_resources base) then po_default_resources ov
                else kc_resources base)"
  by (auto simp: overlay_agent_container_def Let_def split: option.splits)

text \<open>
  Whatever the operator's pod template says, the pod the merge produces keeps what the
  controller's security rests on: its name, namespace and ServiceAccount are the controller's,
  the automatic ServiceAccount token mount is off and owner references of the template are
  dropped; the first container is the agent, with the controller's image (when one is given)
  and resources by precedence (request, template, default) and with the projected token volume
  mounted; controller labels win over template labels; and every template container with
  another name survives, in order, as a sidecar.
\<close>

theorem apply_pod_template_controlled:
  fixes tmpl ov
  defines "pod \<equiv> apply_pod_template tmpl ov"
    and "agent \<equiv> hd (ps_containers (pod_spec (apply_pod_template tmpl ov)))"
  assumes named: "kc_name (po_container ov) \<noteq> []"
    and maps: "distinct (map fst (pt_labels tmpl))" "distinct (map fst (po_labels ov))"
  shows "pod_name pod = po_name ov \<and> pod_namespace pod = po_namespace ov \<and>
    pod_owner_references pod = [] \<and>
    ps_service_account_name (pod_spec pod) = po_service_account_name ov \<and>
    ps_automount_token (pod_spec pod) = Some False \<and>
    ps_restart_policy (pod_spec pod) \<noteq> [] \<and>
    po_token_volume ov \<in> set (ps_volumes (pod_spec pod)) \<and>
    kc_name agent = kc_name (po_container ov) \<and>
    po_token_volume_mount ov \<in> set (kc_volume_mounts agent) \<and>
    (kc_image (po_container ov) \<noteq> [] \<longrightarrow> kc_image agent = kc_image (po_container ov)) \<and>
    (\<forall>r. po_resources_override ov = Some r \<longrightarrow> kc_resources agent = r) \<and>
    map_of (pod_labels pod) = map_of (pt_labels tmpl) ++ map_of (po_labels ov) \<and>
    filter (\<lambda>c. kc_name c \<noteq> kc_name agent) (ps_containers (pod_spec pod)) =
      filter (\<lambda>c. kc_name c \<noteq> kc_name agent) (ps_containers (pt_spec tmpl))"
proof -
  let ?nm = "kc_name (po_container ov)"
  let ?split = "split_agent_container (ps_containers (pt_spec tmpl)) ?nm"
  have agent: "agent = overlay_agent_container (fst ?split) ov"
    by (simp add: agent_def apply_pod_template_def case_prod_beta Let_def)
  have nm: "kc_name agent = ?nm"
    using split_agent_container_name [OF named, of "ps_containers (pt_spec tmpl)"] agent named
    by (auto simp: overlay_agent_container_simps)
  have "ps_containers (pod_spec pod) = agent # snd ?split"
    by (simp add: agent pod_def apply_pod_template_def case_prod_beta Let_def)
  then have "filter (\<lambda>c. kc_name c \<noteq> kc_name agent) (ps_containers (pod_spec pod)) =
      filter (\<lambda>c. kc_name c \<noteq> kc_name agent) (ps_containers (pt_spec tmpl))"
    using split_agent_container_others [OF named] nm by simp
  then show ?thesis
    using nm agent map_of_merge_string_maps [OF maps] named
    by (simp add: pod_def apply_pod_template_def case_prod_beta Let_def
        overlay_agent_container_simps)
qed

definition example_overlay :: pod_overlay where
  "example_overlay = \<lparr>po_name = ''hiclaw-worker-alice'', po_namespace = ''hiclaw'',
     po_labels = [(''app'', ''hiclaw-worker'')], po_annotations = [],
     po_service_account_name = ''hiclaw-worker-alice'',
     po_container = zero_container\<lparr>kc_name := ''worker'', kc_image := ''hiclaw/worker:1''\<rparr>,
     po_resources_override = None, po_default_resources = empty_resources,
     po_token_volume = \<lparr>kv_name = ''hiclaw-token'',
       kv_source = Projected_Token ''hiclaw-controller'' 3600 ''token''\<rparr>,
     po_token_volume_mount = \<lparr>kvm_name = ''hiclaw-token'',
       kvm_mount_path = ''/var/run/secrets/hiclaw'', kvm_read_only = True, kvm_rest = JNull\<rparr>,
     po_host_aliases = []\<rparr>"

theorem apply_pod_template_controlled_witness:
  "ps_automount_token (pod_spec (apply_pod_template zero_pod_template example_overlay)) = Some False"
  using apply_pod_template_controlled [of example_overlay zero_pod_template]
  by (simp add: example_overlay_def zero_container_def zero_pod_template_def)

end
