(* ===== verification/Backend_Kubernetes.thy ===== *)
theory Backend_Kubernetes
  imports Pod_Template
begin

text \<open>
  \<open>internal/backend/kubernetes.go\<close>: workers as Pods. The typed Kubernetes client, the
  parsers of quantities and of the template YAML, the owner-reference helper and the process
  environment are parameters (record fields); everything else is translated.
\<close>

record 'w k8s_core_client =
  cc_pod_get :: "string \<Rightarrow> string \<Rightarrow> ('w, k8s_pod result) state"
  cc_pod_create :: "string \<Rightarrow> k8s_pod \<Rightarrow> ('w, k8s_pod result) state"
  cc_pod_delete :: "string \<Rightarrow> string \<Rightarrow> ('w, go_error option) state"
  cc_configmap_get :: "string \<Rightarrow> string \<Rightarrow> ('w, smap result) state"

record k8s_config =
  kf_namespace :: string
  kf_worker_image :: string
  kf_copaw_worker_image :: string
  kf_hermes_worker_image :: string
  kf_openhuman_worker_image :: string
  kf_worker_cpu :: string
  kf_worker_memory :: string
  kf_controller_name :: string
  kf_resource_prefix :: string

text \<open>
  The scheme appears as the operation that needs it, \<open>controllerutil.SetControllerReference\<close>
  on an owner and a pod; \<open>None\<close> is a nil scheme. \<open>kb_getenv\<close> is \<open>os.Getenv\<close>,
  \<open>kb_parse_quantity\<close> is \<open>resource.ParseQuantity\<close> rendered back to its canonical text, and
  \<open>kb_parse_template\<close> is \<open>yaml.Unmarshal\<close> into a PodTemplateSpec.
\<close>

record 'w k8s_backend =
  kb_client :: "'w k8s_core_client option"
  kb_config :: k8s_config
  kb_container_prefix :: string
  kb_scheme :: "(string \<times> string \<Rightarrow> k8s_pod \<Rightarrow> k8s_pod result) option"
  kb_getenv :: "string \<Rightarrow> string"
  kb_parse_quantity :: "string \<Rightarrow> string result"
  kb_parse_template :: "string \<Rightarrow> pod_template result"

definition detect_k8s_namespace :: "(string \<Rightarrow> string) \<Rightarrow> string option \<Rightarrow> string" where
  "detect_k8s_namespace getenv namespace_file =
     (let ns = trim_space (getenv ''HICLAW_K8S_NAMESPACE'') in
      if ns \<noteq> [] then ns
      else case namespace_file of Some d \<Rightarrow> trim_space d | None \<Rightarrow> [])"

definition new_k8s_backend_with_client ::
  "'w k8s_core_client option \<Rightarrow> k8s_config \<Rightarrow> string \<Rightarrow>
   (string \<times> string \<Rightarrow> k8s_pod \<Rightarrow> k8s_pod result) option \<Rightarrow> (string \<Rightarrow> string) \<Rightarrow> string option \<Rightarrow>
   (string \<Rightarrow> string result) \<Rightarrow> (string \<Rightarrow> pod_template result) \<Rightarrow> 'w k8s_backend" where
  "new_k8s_backend_with_client client cfg pfx scheme getenv namespace_file pq pt =
     (let c1 = (if kf_namespace cfg = []
                then cfg\<lparr>kf_namespace := detect_k8s_namespace getenv namespace_file\<rparr> else cfg);
          c2 = (if kf_worker_cpu c1 = [] then c1\<lparr>kf_worker_cpu := ''1000m''\<rparr> else c1);
          c3 = (if kf_worker_memory c2 = [] then c2\<lparr>kf_worker_memory := ''2Gi''\<rparr> else c2)
      in \<lparr>kb_client = client, kb_config = c3, kb_container_prefix = pfx, kb_scheme = scheme,
          kb_getenv = getenv, kb_parse_quantity = pq, kb_parse_template = pt\<rparr>)"

definition k8s_with_prefix :: "'w k8s_backend \<Rightarrow> string \<Rightarrow> 'w k8s_backend" where
  "k8s_with_prefix k pfx = k\<lparr>kb_container_prefix := pfx\<rparr>"

definition k8s_available :: "'w k8s_backend \<Rightarrow> bool" where
  "k8s_available k \<longleftrightarrow> kb_client k \<noteq> None \<and> kf_namespace (kb_config k) \<noteq> []"

definition k8s_pod_name :: "'w k8s_backend \<Rightarrow> string \<Rightarrow> string \<Rightarrow> string" where
  "k8s_pod_name k pfx name =
     (if pfx \<noteq> [] then pfx @ name else kb_container_prefix k @ name)"

definition k8s_worker_pod_name :: "'w k8s_backend \<Rightarrow> string \<Rightarrow> string" where
  "k8s_worker_pod_name k name = kb_container_prefix k @ name"

definition k8s_worker_name_prefix :: "'w k8s_backend \<Rightarrow> string" where
  "k8s_worker_name_prefix k =
     (if kf_resource_prefix (kb_config k) = [] then ''hiclaw-worker-''
      else kf_resource_prefix (kb_config k) @ ''worker-'')"

section \<open>Resources\<close>

text \<open>\<open>resource.MustParse\<close> panics where \<open>ParseQuantity\<close> fails.\<close>

definition must_parse :: "(string \<Rightarrow> string result) \<Rightarrow> string \<Rightarrow> string result" where
  "must_parse pq s =
     (case pq s of
        Inr q \<Rightarrow> Inr q
      | Inl e \<Rightarrow> Inl (Panic (''cannot parse '' @ squote # s @ squote # '': '' @ err_text e)))"

definition build_default_resources ::
  "(string \<Rightarrow> string result) \<Rightarrow> string \<Rightarrow> string \<Rightarrow> k8s_resources result" where
  "build_default_resources pq worker_cpu worker_memory =
     (case must_parse pq (if worker_cpu = [] then ''1000m'' else worker_cpu) of
        Inl e \<Rightarrow> Inl e
      | Inr cpu_limit \<Rightarrow>
     (case must_parse pq (if worker_memory = [] then ''2Gi'' else worker_memory) of
        Inl e \<Rightarrow> Inl e
      | Inr memory_limit \<Rightarrow>
     (case must_parse pq ''100m'' of
        Inl e \<Rightarrow> Inl e
      | Inr cpu_request \<Rightarrow>
     (case must_parse pq ''256Mi'' of
        Inl e \<Rightarrow> Inl e
      | Inr memory_request \<Rightarrow>
          Inr \<lparr>kr_limits = [(''cpu'', cpu_limit), (''memory'', memory_limit)],
               kr_requests = [(''cpu'', cpu_request), (''memory'', memory_request)],
               kr_claims = []\<rparr>))))"

text \<open>One field of the override: skipped when empty, parsed and stored otherwise.\<close>

definition override_field ::
  "(string \<Rightarrow> string result) \<Rightarrow> string \<Rightarrow> string \<Rightarrow> (string \<Rightarrow> k8s_resources \<Rightarrow> k8s_resources) \<Rightarrow>
   k8s_resources result \<Rightarrow> k8s_resources result" where
  "override_field pq field v store out =
     (case out of
        Inl e \<Rightarrow> Inl e
      | Inr r \<Rightarrow>
          if v = [] then Inr r
          else case pq v of Inl e \<Rightarrow> Inl (Wrap field e) | Inr q \<Rightarrow> Inr (store q r))"

definition merge_resource_overrides ::
  "(string \<Rightarrow> string result) \<Rightarrow> k8s_resources \<Rightarrow> resource_overrides option \<Rightarrow> k8s_resources result"
where
  "merge_resource_overrides pq defaults override =
     (case override of
        None \<Rightarrow> Inr defaults
      | Some ov \<Rightarrow>
          override_field pq ''requests.memory'' (ro_memory_request ov)
            (\<lambda>q r. r\<lparr>kr_requests := smap_put ''memory'' q (kr_requests r)\<rparr>)
         (override_field pq ''requests.cpu'' (ro_cpu_request ov)
            (\<lambda>q r. r\<lparr>kr_requests := smap_put ''cpu'' q (kr_requests r)\<rparr>)
         (override_field pq ''limits.memory'' (ro_memory_limit ov)
            (\<lambda>q r. r\<lparr>kr_limits := smap_put ''memory'' q (kr_limits r)\<rparr>)
         (override_field pq ''limits.cpu'' (ro_cpu_limit ov)
            (\<lambda>q r. r\<lparr>kr_limits := smap_put ''cpu'' q (kr_limits r)\<rparr>)
         (Inr defaults)))))"

section \<open>Environment and host aliases\<close>

fun first_non_empty_trimmed :: "string list \<Rightarrow> string" where
  "first_non_empty_trimmed [] = []"
| "first_non_empty_trimmed (v # vs) =
     (if trim_space v \<noteq> [] then trim_space v else first_non_empty_trimmed vs)"

definition merge_oss_region :: "(string \<Rightarrow> string) \<Rightarrow> smap \<Rightarrow> smap" where
  "merge_oss_region getenv env =
     (let bucket = first_non_empty_trimmed
            [smap_get env ''HICLAW_FS_BUCKET'', getenv ''HICLAW_FS_BUCKET''];
          env1 = (if bucket \<noteq> [] \<and> trim_space (smap_get env ''HICLAW_FS_BUCKET'') = []
                  then smap_put ''HICLAW_FS_BUCKET'' bucket env else env);
          v = trim_space (getenv ''HICLAW_REGION'')
      in if v \<noteq> [] \<and> trim_space (smap_get env1 ''HICLAW_REGION'') = []
         then smap_put ''HICLAW_REGION'' v env1 else env1)"

definition build_k8s_env_vars :: "smap \<Rightarrow> k8s_env_var list" where
  "build_k8s_env_vars env =
     map (\<lambda>k. \<lparr>ev_name = k, ev_value = smap_get env k, ev_value_from = JNull\<rparr>)
       (sort_strings (filter (\<lambda>k. smap_get env k \<noteq> []) (map fst env)))"

definition add_host_alias ::
  "string \<Rightarrow> (string \<times> string list) list \<Rightarrow> (string \<times> string list) list" where
  "add_host_alias entry by_ip =
     (case str_cut (trim_space entry) '':'' of
        None \<Rightarrow> by_ip
      | Some (host, ip) \<Rightarrow>
          if host = [] \<or> ip = [] then by_ip
          else AList.update ip
            ((case map_of by_ip ip of None \<Rightarrow> [] | Some hs \<Rightarrow> hs) @ [host]) by_ip)"

definition build_host_aliases :: "string list \<Rightarrow> host_alias list" where
  "build_host_aliases extra_hosts =
     (let by_ip = fold add_host_alias extra_hosts []
      in map (\<lambda>ip. \<lparr>ha_ip = ip,
                    ha_hostnames = sort_strings (case map_of by_ip ip of None \<Rightarrow> [] | Some hs \<Rightarrow> hs)\<rparr>)
           (sort_strings (map fst by_ip)))"

definition put_if_set :: "string \<Rightarrow> string \<Rightarrow> smap \<Rightarrow> smap" where
  "put_if_set k v env = (if v \<noteq> [] then smap_put k v env else env)"

text \<open>The aliases the OpenHuman entrypoint expects.\<close>

definition openhuman_env :: "(string \<Rightarrow> string) \<Rightarrow> smap \<Rightarrow> smap" where
  "openhuman_env getenv env =
     (let e1 = put_if_set ''MATRIX_ACCESS_TOKEN'' (smap_get env ''HICLAW_WORKER_MATRIX_TOKEN'') env;
          e2 = put_if_set ''MATRIX_HOME_ROOM_ID'' (smap_get e1 ''HICLAW_WORKER_ROOM_ID'') e1;
          e3 = put_if_set ''MATRIX_HOMESERVER_URL'' (smap_get e2 ''HICLAW_MATRIX_URL'') e2;
          domain = smap_get e3 ''HICLAW_MATRIX_DOMAIN'';
          e4 = (if domain \<noteq> [] \<and> smap_get e3 ''HICLAW_WORKER_NAME'' \<noteq> []
                then smap_put ''MATRIX_USER_ID''
                       (''@'' @ smap_get e3 ''HICLAW_WORKER_NAME'' @ '':'' @ domain) e3
                else e3);
          domain' = smap_get e4 ''HICLAW_MATRIX_DOMAIN'';
          admin = getenv ''HICLAW_ADMIN_USER'';
          allowed = (if domain' \<noteq> []
                     then (if admin \<noteq> [] then [''@'' @ admin @ '':'' @ domain'] else []) @
                          [''@manager:'' @ domain']
                     else [])
      in if allowed \<noteq> [] then smap_put ''MATRIX_ALLOWED_USERS'' (join_with '','' allowed) e4 else e4)"

text \<open>The environment steps of \<open>Create\<close>, for the resolved runtime.\<close>

definition k8s_stamp_env :: "(string \<Rightarrow> string) \<Rightarrow> create_request \<Rightarrow> smap" where
  "k8s_stamp_env getenv req =
     (let e0 = (case cq_env req of None \<Rightarrow> [] | Some e \<Rightarrow> e);
          e1 = merge_oss_region getenv e0;
          rt = getenv ''HICLAW_RUNTIME'';
          e2 = smap_put ''HICLAW_RUNTIME'' (if rt \<noteq> [] then rt else ''k8s'') e1;
          e3 = put_if_set ''HICLAW_CONTROLLER_URL'' (cq_controller_url req) e2;
          e4 = smap_put ''HICLAW_AUTH_TOKEN_FILE'' ''/var/run/secrets/hiclaw/token'' e3
      in if cq_runtime req = runtime_openhuman then openhuman_env getenv e4 else e4)"

definition k8s_image :: "k8s_config \<Rightarrow> create_request \<Rightarrow> string" where
  "k8s_image cfg req =
     (if cq_image req \<noteq> [] then cq_image req
      else if cq_runtime req = runtime_copaw \<and> kf_copaw_worker_image cfg \<noteq> []
      then kf_copaw_worker_image cfg
      else if cq_runtime req = runtime_hermes \<and> kf_hermes_worker_image cfg \<noteq> []
      then kf_hermes_worker_image cfg
      else if cq_runtime req = runtime_openhuman \<and> kf_openhuman_worker_image cfg \<noteq> []
      then kf_openhuman_worker_image cfg
      else kf_worker_image cfg)"

text \<open>The working directory, and the environment with \<open>HOME\<close> set where the code sets it.\<close>

definition k8s_working_dir :: "create_request \<Rightarrow> smap \<Rightarrow> string \<times> smap" where
  "k8s_working_dir req env =
     (if cq_working_dir req \<noteq> [] then (cq_working_dir req, env)
      else if cq_runtime req = runtime_copaw then (''/root/.copaw-worker'', env)
      else if cq_runtime req = runtime_openhuman then (''/home/openhuman/.openhuman'', env)
      else if smap_get env ''HOME'' \<noteq> [] then (smap_get env ''HOME'', env)
      else let wd = ''/root/hiclaw-fs/agents/'' @ cq_name req in (wd, smap_put ''HOME'' wd env))"

definition raw_k8s_phase :: "string \<Rightarrow> string" where
  "raw_k8s_phase phase = (if phase = [] then ''Pending'' else phase)"

definition normalize_k8s_pod_phase :: "string \<Rightarrow> backend_status" where
  "normalize_k8s_pod_phase phase =
     (if phase = ''Running'' then Status_Running
      else if phase = ''Pending'' then Status_Starting
      else if phase = ''Succeeded'' \<or> phase = ''Failed'' then Status_Stopped
      else Status_Unknown)"

definition default_runtime :: "string \<Rightarrow> string" where
  "default_runtime runtime =
     (if runtime = runtime_copaw then runtime_copaw
      else if runtime = runtime_hermes then runtime_hermes
      else if runtime = runtime_openhuman then runtime_openhuman
      else runtime_openclaw)"

section \<open>The template ConfigMap\<close>

definition load_agent_pod_template ::
  "'w k8s_core_client option \<Rightarrow> (string \<Rightarrow> pod_template result) \<Rightarrow> string \<Rightarrow> string \<Rightarrow>
   ('w, pod_template) state" where
  "load_agent_pod_template client parse namespace name =
     (case client of
        None \<Rightarrow> State_Monad.return zero_pod_template
      | Some c \<Rightarrow>
          if namespace = [] \<or> name = [] then State_Monad.return zero_pod_template
          else do {
            cm \<leftarrow> cc_configmap_get c namespace name;
            State_Monad.return
              (case cm of
                 Inl e \<Rightarrow> zero_pod_template
               | Inr data \<Rightarrow>
                   (let raw = smap_get data ''pod-template.yaml'' in
                    if raw = [] then zero_pod_template
                    else case parse raw of Inl e \<Rightarrow> zero_pod_template | Inr t \<Rightarrow> t))
          })"

section \<open>Operations\<close>

definition k8s_token_volume :: "create_request \<Rightarrow> k8s_volume" where
  "k8s_token_volume req =
     \<lparr>kv_name = ''hiclaw-token'',
      kv_source = Projected_Token
        (if cq_auth_audience req = [] then ''hiclaw-controller'' else cq_auth_audience req)
        3600 ''token''\<rparr>"

definition k8s_token_mount :: k8s_volume_mount where
  "k8s_token_mount = \<lparr>kvm_name = ''hiclaw-token'', kvm_mount_path = ''/var/run/secrets/hiclaw'',
     kvm_read_only = True, kvm_rest = JNull\<rparr>"

text \<open>
  The overlay \<open>Create\<close> hands to \<open>ApplyPodTemplate\<close>, for a request whose runtime is already
  resolved; its error results are the two failures between the environment and the template.
\<close>

definition k8s_build_overlay ::
  "'w k8s_backend \<Rightarrow> create_request \<Rightarrow> string \<Rightarrow> pod_overlay result" where
  "k8s_build_overlay k req pname =
     (let cfg = kb_config k;
          pq = kb_parse_quantity k;
          env = k8s_stamp_env (kb_getenv k) req;
          image = k8s_image cfg req
      in if image = [] then Inl (Err ''no worker image configured for kubernetes backend'')
         else let (wd, env') = k8s_working_dir req env in
           (case build_default_resources pq (kf_worker_cpu cfg) (kf_worker_memory cfg) of
              Inl e \<Rightarrow> Inl e
            | Inr defaults \<Rightarrow>
           (case (case cq_resources req of
                    None \<Rightarrow> Inr None
                  | Some ov \<Rightarrow>
                      (case merge_resource_overrides pq defaults (Some ov) of
                         Inl e \<Rightarrow> Inl (Wrap (''invalid resource override for '' @ cq_name req) e)
                       | Inr r \<Rightarrow> Inr (Some r))) of
              Inl e \<Rightarrow> Inl e
            | Inr override \<Rightarrow>
                Inr \<lparr>po_name = pname,
                  po_namespace = kf_namespace cfg,
                  po_labels = smap_put_all (cq_labels req)
                    [(''hiclaw.io/runtime'', default_runtime (cq_runtime req))],
                  po_annotations = [],
                  po_service_account_name =
                    (if cq_service_account req = [] then k8s_worker_name_prefix k @ cq_name req
                     else cq_service_account req),
                  po_container = \<lparr>kc_name = ''worker'', kc_image = image,
                    kc_image_pull_policy = ''IfNotPresent'', kc_env = build_k8s_env_vars env',
                    kc_working_dir = wd, kc_resources = empty_resources, kc_volume_mounts = [],
                    kc_rest = JNull\<rparr>,
                  po_resources_override = override,
                  po_default_resources = defaults,
                  po_token_volume = k8s_token_volume req,
                  po_token_volume_mount = k8s_token_mount,
                  po_host_aliases = build_host_aliases (cq_extra_hosts req)\<rparr>)))"

definition k8s_owner_step ::
  "'w k8s_backend \<Rightarrow> create_request \<Rightarrow> string \<Rightarrow> k8s_pod \<Rightarrow> k8s_pod result" where
  "k8s_owner_step k req pname pod =
     (case cq_owner req of
        None \<Rightarrow> Inr pod
      | Some owner \<Rightarrow>
          (case kb_scheme k of
             None \<Rightarrow> Inl (Err
               ''kubernetes backend: scheme is required when CreateRequest.Owner is set'')
           | Some set_ref \<Rightarrow>
               (case set_ref owner pod of
                  Inl e \<Rightarrow> Inl (Wrap (''set owner reference on pod '' @ pname) e)
                | Inr pod' \<Rightarrow> Inr pod')))"

definition k8s_create_with ::
  "'w k8s_core_client \<Rightarrow> 'w k8s_backend \<Rightarrow> create_request \<Rightarrow> ('w, worker_result result) state" where
  "k8s_create_with c k req0 =
     (let req = req0\<lparr>cq_runtime := resolve_runtime (cq_runtime req0) (cq_runtime_fallback req0)\<rparr>;
          ns = kf_namespace (kb_config k);
          pname = (if cq_container_name req = [] then k8s_pod_name k (cq_name_prefix req) (cq_name req)
                   else cq_container_name req)
      in do {
        existing \<leftarrow> cc_pod_get c ns pname;
        (case existing of
           Inr p \<Rightarrow> State_Monad.return (Inl (Detail ErrConflict (''pod '' @ go_quote pname)))
         | Inl e \<Rightarrow>
             if \<not> is_api_not_found e
             then State_Monad.return (Inl (Wrap (''kubernetes get pod '' @ pname) e))
             else
               (case k8s_build_overlay k req pname of
                  Inl e \<Rightarrow> State_Monad.return (Inl e)
                | Inr ov \<Rightarrow> do {
                    tmpl \<leftarrow> load_agent_pod_template (Some c) (kb_parse_template k) ns
                              (kf_controller_name (kb_config k));
                    (case k8s_owner_step k req pname (apply_pod_template tmpl ov) of
                       Inl e \<Rightarrow> State_Monad.return (Inl e)
                     | Inr pod \<Rightarrow> do {
                         created \<leftarrow> cc_pod_create c ns pod;
                         State_Monad.return
                           (case created of
                              Inl e \<Rightarrow>
                                if is_api_exists e
                                then Inl (Detail ErrConflict (''pod '' @ go_quote pname))
                                else Inl (Wrap (''kubernetes create pod '' @ pname) e)
                            | Inr p \<Rightarrow>
                                Inr \<lparr>wr_name = cq_name req, wr_backend = ''k8s'',
                                  wr_deployment_mode = [], wr_status = Status_Starting,
                                  wr_container_id = [], wr_raw_status = raw_k8s_phase (pod_phase p),
                                  wr_console_port = []\<rparr>)
                       })
                  }))
      })"

definition k8s_delete_with ::
  "'w k8s_core_client \<Rightarrow> 'w k8s_backend \<Rightarrow> string \<Rightarrow> ('w, go_error option) state" where
  "k8s_delete_with c k name =
     (let pname = k8s_worker_pod_name k name in do {
        r \<leftarrow> cc_pod_delete c (kf_namespace (kb_config k)) pname;
        State_Monad.return
          (case r of
             None \<Rightarrow> None
           | Some e \<Rightarrow> if is_api_not_found e then None
                        else Some (Wrap (''kubernetes delete pod '' @ pname) e))
      })"

definition k8s_start_with ::
  "'w k8s_core_client \<Rightarrow> 'w k8s_backend \<Rightarrow> string \<Rightarrow> ('w, go_error option) state" where
  "k8s_start_with c k name = do {
     r \<leftarrow> cc_pod_get c (kf_namespace (kb_config k)) (k8s_worker_pod_name k name);
     State_Monad.return
       (case r of
          Inl e \<Rightarrow>
            if is_api_not_found e then Some (Detail ErrNotFound (''worker '' @ go_quote name))
            else Some (Wrap (''kubernetes get pod '' @ k8s_worker_pod_name k name) e)
        | Inr pod \<Rightarrow>
            if pod_phase pod = ''Running'' \<or> pod_phase pod = ''Pending'' then None
            else Some (Err (''kubernetes worker '' @ go_quote name @
              '' cannot be started from phase '' @ go_quote (pod_phase pod) @
              ''; recreate it instead'')))
   }"

definition k8s_status_with ::
  "'w k8s_core_client \<Rightarrow> 'w k8s_backend \<Rightarrow> string \<Rightarrow> ('w, worker_result result) state" where
  "k8s_status_with c k name = do {
     r \<leftarrow> cc_pod_get c (kf_namespace (kb_config k)) (k8s_worker_pod_name k name);
     State_Monad.return
       (case r of
          Inl e \<Rightarrow>
            if is_api_not_found e
            then Inr \<lparr>wr_name = name, wr_backend = ''k8s'', wr_deployment_mode = [],
                   wr_status = Status_NotFound, wr_container_id = [], wr_raw_status = [],
                   wr_console_port = []\<rparr>
            else Inl (Wrap (''kubernetes get pod '' @ k8s_worker_pod_name k name) e)
        | Inr pod \<Rightarrow>
            Inr \<lparr>wr_name = name, wr_backend = ''k8s'', wr_deployment_mode = deploy_cloud,
              wr_status = normalize_k8s_pod_phase (pod_phase pod), wr_container_id = [],
              wr_raw_status = raw_k8s_phase (pod_phase pod), wr_console_port = []\<rparr>)
   }"

text \<open>A backend without a client: every operation would dereference nil.\<close>

definition k8s_worker_backend :: "'w k8s_backend \<Rightarrow> 'w worker_backend" where
  "k8s_worker_backend k =
     (case kb_client k of
        Some c \<Rightarrow>
          \<lparr>wb_name = ''k8s'',
           wb_available = State_Monad.return (k8s_available k),
           wb_create = k8s_create_with c k,
           wb_delete = k8s_delete_with c k,
           wb_start = k8s_start_with c k,
           wb_stop = k8s_delete_with c k,
           wb_status = k8s_status_with c k\<rparr>
      | None \<Rightarrow>
          \<lparr>wb_name = ''k8s'',
           wb_available = State_Monad.return (k8s_available k),
           wb_create = (\<lambda>req. State_Monad.return (Inl nil_deref)),
           wb_delete = (\<lambda>name. State_Monad.return (Some nil_deref)),
           wb_start = (\<lambda>name. State_Monad.return (Some nil_deref)),
           wb_stop = (\<lambda>name. State_Monad.return (Some nil_deref)),
           wb_status = (\<lambda>name. State_Monad.return (Inl nil_deref))\<rparr>)"

section \<open>What the API server promises\<close>

text \<open>
  The documented behaviour of the typed Pod client on one namespace, for a cluster that answers
  (\<open>up\<close>) and completes deletions at once: \<open>pods\<close> is what the cluster holds.
\<close>

locale pod_api =
  fixes c :: "'w k8s_core_client"
    and ns :: string
    and pods :: "'w \<Rightarrow> string \<Rightarrow> k8s_pod option"
    and up :: "'w \<Rightarrow> bool"
  assumes pod_get: "up w \<Longrightarrow> run_state (cc_pod_get c ns m) w =
        ((case pods w m of None \<Rightarrow> Inl ApiNotFound | Some p \<Rightarrow> Inr p), w)"
    and pod_create: "up w \<Longrightarrow> pods w (pod_name p) = None \<Longrightarrow>
        \<exists>w'. run_state (cc_pod_create c ns p) w = (Inr (p\<lparr>pod_phase := ''Pending''\<rparr>), w') \<and> up w' \<and>
          pods w' = (pods w)(pod_name p \<mapsto> p\<lparr>pod_phase := ''Pending''\<rparr>)"
    and pod_delete: "up w \<Longrightarrow> \<exists>w'. run_state (cc_pod_delete c ns m) w =
        ((if pods w m = None then Some ApiNotFound else None), w') \<and> up w' \<and>
          pods w' = (pods w)(m := None)"
    and configmap_get: "up w \<Longrightarrow> \<exists>r. run_state (cc_configmap_get c ns m) w = (r, w)"
begin

lemma load_template_pure:
  "up w \<Longrightarrow> \<exists>t. run_state (load_agent_pod_template (Some c) parse ns nm) w = (t, w)"
  using configmap_get [of w nm] by (auto simp: load_agent_pod_template_def)

lemma k8s_delete_removes:
  assumes "up w" "kf_namespace (kb_config k) = ns"
  shows "\<exists>w'. run_state (k8s_delete_with c k name) w = (None, w') \<and> up w' \<and>
    pods w' = (pods w)(k8s_worker_pod_name k name := None)"
  using pod_delete [OF assms(1), of "k8s_worker_pod_name k name"] assms(2)
  by (auto simp: k8s_delete_with_def Let_def is_api_not_found_def)

lemma k8s_status_reads:
  assumes "up w" "kf_namespace (kb_config k) = ns"
  shows "\<exists>r. run_state (k8s_status_with c k name) w = (Inr r, w) \<and>
    wr_status r = (case pods w (k8s_worker_pod_name k name) of
        None \<Rightarrow> Status_NotFound | Some p \<Rightarrow> normalize_k8s_pod_phase (pod_phase p))"
  using pod_get [OF assms(1)] assms(2)
  by (auto simp: k8s_status_with_def is_api_not_found_def split: option.splits)

lemma k8s_create_occupied:
  assumes "up w" "kf_namespace (kb_config k) = ns" "cq_container_name q = []"
    and "pods w (k8s_pod_name k (cq_name_prefix q) (cq_name q)) = Some p"
  shows "\<exists>e. run_state (k8s_create_with c k q) w = (Inl e, w) \<and> is_err_conflict e"
  using pod_get [OF assms(1)] assms(2-)
  by (auto simp: k8s_create_with_def Let_def is_err_conflict_def)

end

lemma apply_pod_template_name [simp]: "pod_name (apply_pod_template t ov) = po_name ov"
  by (simp add: apply_pod_template_def case_prod_beta Let_def)

text \<open>
  What \<open>SetControllerReference\<close> promises for an owner of a registered kind and a fresh pod: it
  succeeds and changes owner references only, so the name stays.
\<close>

definition owner_settable ::
  "(string \<times> string \<Rightarrow> k8s_pod \<Rightarrow> k8s_pod result) option \<Rightarrow> (string \<times> string) option \<Rightarrow> bool" where
  "owner_settable scheme owner \<longleftrightarrow>
     (case owner of
        None \<Rightarrow> True
      | Some ow \<Rightarrow>
          (\<exists>set_ref. scheme = Some set_ref \<and>
             (\<forall>pod. \<exists>refs. set_ref ow pod = Inr (pod\<lparr>pod_owner_references := refs\<rparr>))))"

lemma owner_step_ok:
  assumes "owner_settable (kb_scheme k) (cq_owner q)"
  shows "\<exists>pod'. k8s_owner_step k q nm pod = Inr pod' \<and> pod_name pod' = pod_name pod"
proof (cases "cq_owner q")
  case (Some ow)
  with assms obtain set_ref where s: "kb_scheme k = Some set_ref"
      "\<forall>pod. \<exists>refs. set_ref ow pod = Inr (pod\<lparr>pod_owner_references := refs\<rparr>)"
    by (auto simp: owner_settable_def)
  then obtain refs where "set_ref ow pod = Inr (pod\<lparr>pod_owner_references := refs\<rparr>)" by blast
  with s(1) Some show ?thesis by (simp add: k8s_owner_step_def)
qed (simp add: k8s_owner_step_def)

text \<open>
  A request for the pod of \<open>n\<close> that the backend can serve: an image is known, quantities parse,
  and the owner reference can be set.
\<close>

definition k8s_target :: "'w k8s_backend \<Rightarrow> create_request \<Rightarrow> string" where
  "k8s_target k q =
     (if cq_container_name q = [] then k8s_pod_name k (cq_name_prefix q) (cq_name q) else cq_container_name q)"

definition k8s_request_for :: "'w k8s_backend \<Rightarrow> string \<Rightarrow> create_request \<Rightarrow> bool" where
  "k8s_request_for k n q \<longleftrightarrow>
     (case k8s_build_overlay k
        (q\<lparr>cq_runtime := resolve_runtime (cq_runtime q) (cq_runtime_fallback q)\<rparr>)
        (k8s_worker_pod_name k n) of Inl e \<Rightarrow> False | Inr ov \<Rightarrow> True) \<and>
     owner_settable (kb_scheme k) (cq_owner q) \<and> k8s_target k q = k8s_worker_pod_name k n"

definition k8s_request_ok :: "'w k8s_backend \<Rightarrow> create_request \<Rightarrow> bool" where
  "k8s_request_ok k q \<longleftrightarrow> k8s_request_for k (cq_name q) q"

locale k8s_pods = pod_api +
  fixes k :: "'a k8s_backend" and n :: string
  assumes client: "kb_client k = Some c"
    and namespace: "kf_namespace (kb_config k) = ns" "ns \<noteq> []"
begin

definition worker_present :: "'a \<Rightarrow> bool" where
  "worker_present w \<longleftrightarrow> pods w (k8s_worker_pod_name k n) \<noteq> None"

definition worker_active :: "'a \<Rightarrow> bool" where
  "worker_active w \<longleftrightarrow> (case pods w (k8s_worker_pod_name k n) of
     None \<Rightarrow> False | Some p \<Rightarrow> pod_phase p \<in> {''Running'', ''Pending''})"

lemma overlay_name: "k8s_build_overlay k q pname = Inr ov \<Longrightarrow> po_name ov = pname"
  by (auto simp: k8s_build_overlay_def Let_def split: if_splits prod.splits sum.splits option.splits)

lemma k8s_create_absent:
  assumes "up w" "\<not> worker_present w" "k8s_request_for k n q"
  shows "\<exists>r w'. run_state (k8s_create_with c k q) w = (Inr r, w') \<and> up w' \<and> worker_active w'"
proof -
  let ?q = "q\<lparr>cq_runtime := resolve_runtime (cq_runtime q) (cq_runtime_fallback q)\<rparr>"
  let ?name = "k8s_worker_pod_name k n"
  obtain ov where ov: "k8s_build_overlay k ?q ?name = Inr ov"
    using assms(3) by (auto simp: k8s_request_for_def split: sum.splits)
  obtain t where t: "run_state (load_agent_pod_template (Some c) (kb_parse_template k) ns
      (kf_controller_name (kb_config k))) w = (t, w)"
    using load_template_pure assms(1) by blast
  have "owner_settable (kb_scheme k) (cq_owner ?q)"
    using assms(3) by (simp add: k8s_request_for_def)
  then obtain pod where pod: "k8s_owner_step k ?q ?name (apply_pod_template t ov) = Inr pod"
      "pod_name pod = ?name"
    using owner_step_ok [of k ?q ?name "apply_pod_template t ov"] overlay_name [OF ov] by auto
  have none: "pods w ?name = None"
    using assms(2) by (simp add: worker_present_def)
  then obtain w' where w': "run_state (cc_pod_create c ns pod) w =
      (Inr (pod\<lparr>pod_phase := ''Pending''\<rparr>), w')" "up w'"
      "pods w' = (pods w)(?name \<mapsto> pod\<lparr>pod_phase := ''Pending''\<rparr>)"
    using pod_create [OF assms(1), of pod] pod(2) by auto
  have get: "run_state (cc_pod_get c ns ?name) w = (Inl ApiNotFound, w)"
    using pod_get [OF assms(1)] none by simp
  have name: "(if cq_container_name q = [] then k8s_pod_name k (cq_name_prefix q) (cq_name q)
      else cq_container_name q) = ?name"
    using assms(3) by (simp add: k8s_request_for_def k8s_target_def)
  show ?thesis
    using name get ov t pod w' namespace
    by (simp add: k8s_create_with_def Let_def is_api_not_found_def worker_active_def cong: if_cong)
qed

end

sublocale k8s_pods \<subseteq> worker_backend_contract
  "k8s_worker_backend k" n "k8s_request_for k n" up worker_present worker_active
proof
  fix w assume up: "up w"
  show "\<exists>r. run_state (wb_status (k8s_worker_backend k) n) w = (Inr r, w) \<and>
      (wr_status r = Status_NotFound \<longleftrightarrow> \<not> worker_present w) \<and>
      (wr_status r \<in> {Status_Running, Status_Starting, Status_Ready} \<longrightarrow> worker_active w)"
    using k8s_status_reads [OF up namespace(1), of n] client
    by (auto simp: k8s_worker_backend_def worker_present_def worker_active_def
        normalize_k8s_pod_phase_def split: option.splits if_splits)
  show "\<exists>w'. run_state (wb_delete (k8s_worker_backend k) n) w = (None, w') \<and> up w' \<and>
      \<not> worker_present w'"
    using k8s_delete_removes [OF up namespace(1), of n] client
    by (auto simp: k8s_worker_backend_def worker_present_def)
  show "\<exists>e w'. run_state (wb_stop (k8s_worker_backend k) n) w = (e, w') \<and> up w' \<and>
      \<not> worker_active w' \<and> (case e of None \<Rightarrow> True | Some x \<Rightarrow> is_err_not_found x)"
    using k8s_delete_removes [OF up namespace(1), of n] client
    by (auto simp: k8s_worker_backend_def worker_active_def)
  show "run_state (wb_available (k8s_worker_backend k)) w = (True, w)"
    using client namespace by (simp add: k8s_worker_backend_def k8s_available_def)
  show "worker_active w \<Longrightarrow> worker_present w"
    by (auto simp: worker_active_def worker_present_def split: option.splits)
next
  fix w q assume "up w" "\<not> worker_present w" "k8s_request_for k n q"
  then show "\<exists>r w'. run_state (wb_create (k8s_worker_backend k) q) w = (Inr r, w') \<and> up w' \<and>
      worker_active w'"
    using k8s_create_absent client by (simp add: k8s_worker_backend_def)
qed (simp add: k8s_worker_backend_def client)

section \<open>A cluster\<close>

text \<open>
  The API server as a store of pods and ConfigMaps by namespace and name; created pods start in
  phase Pending.
\<close>

record k8s_cluster =
  cl_pods :: "((string \<times> string) \<times> k8s_pod) list"
  cl_configmaps :: "((string \<times> string) \<times> smap) list"

definition cluster_pods :: "string \<Rightarrow> k8s_cluster \<Rightarrow> string \<Rightarrow> k8s_pod option" where
  "cluster_pods ns w m = map_of (cl_pods w) (ns, m)"

definition cluster_pod_get :: "string \<Rightarrow> string \<Rightarrow> (k8s_cluster, k8s_pod result) state" where
  "cluster_pod_get ns m = State (\<lambda>w.
     ((case cluster_pods ns w m of None \<Rightarrow> Inl ApiNotFound | Some p \<Rightarrow> Inr p), w))"

definition cluster_pod_create :: "string \<Rightarrow> k8s_pod \<Rightarrow> (k8s_cluster, k8s_pod result) state" where
  "cluster_pod_create ns p = State (\<lambda>w.
     (case cluster_pods ns w (pod_name p) of
        Some q \<Rightarrow> (Inl ApiAlreadyExists, w)
      | None \<Rightarrow> let p' = p\<lparr>pod_phase := ''Pending''\<rparr> in
          (Inr p', w\<lparr>cl_pods := AList.update (ns, pod_name p) p' (cl_pods w)\<rparr>)))"

definition cluster_pod_delete :: "string \<Rightarrow> string \<Rightarrow> (k8s_cluster, go_error option) state" where
  "cluster_pod_delete ns m = State (\<lambda>w.
     (case cluster_pods ns w m of
        None \<Rightarrow> (Some ApiNotFound, w)
      | Some p \<Rightarrow> (None, w\<lparr>cl_pods := AList.delete (ns, m) (cl_pods w)\<rparr>)))"

definition cluster_configmap_get :: "string \<Rightarrow> string \<Rightarrow> (k8s_cluster, smap result) state" where
  "cluster_configmap_get ns m = State (\<lambda>w.
     ((case map_of (cl_configmaps w) (ns, m) of None \<Rightarrow> Inl ApiNotFound | Some d \<Rightarrow> Inr d), w))"

definition cluster_client :: "k8s_cluster k8s_core_client" where
  "cluster_client = \<lparr>cc_pod_get = cluster_pod_get, cc_pod_create = cluster_pod_create,
     cc_pod_delete = cluster_pod_delete, cc_configmap_get = cluster_configmap_get\<rparr>"

lemmas cluster_defs = cluster_client_def cluster_pod_get_def cluster_pod_create_def
  cluster_pod_delete_def cluster_configmap_get_def cluster_pods_def

lemma cluster_pod_api: "pod_api cluster_client ns (cluster_pods ns) (\<lambda>w. True)"
  by unfold_locales
    (auto simp: cluster_defs fun_eq_iff update_conv' delete_conv' Let_def split: option.splits)

text \<open>
  A backend on that cluster in a non-empty namespace (written as first letter and rest) honours
  the worker contract, for every configuration, prefix and parser.
\<close>

definition cluster_backend ::
  "k8s_config \<Rightarrow> string \<Rightarrow> (string \<times> string \<Rightarrow> k8s_pod \<Rightarrow> k8s_pod result) option \<Rightarrow>
   (string \<Rightarrow> string) \<Rightarrow> (string \<Rightarrow> string result) \<Rightarrow> (string \<Rightarrow> pod_template result) \<Rightarrow>
   k8s_cluster k8s_backend" where
  "cluster_backend cfg pfx scheme getenv pq pt =
     new_k8s_backend_with_client (Some cluster_client) cfg pfx scheme getenv None pq pt"

lemma cluster_backend_simps [simp]:
  "kb_client (cluster_backend cfg pfx scheme getenv pq pt) = Some cluster_client"
  "kf_namespace cfg \<noteq> [] \<Longrightarrow>
     kf_namespace (kb_config (cluster_backend cfg pfx scheme getenv pq pt)) = kf_namespace cfg"
  "kb_container_prefix (cluster_backend cfg pfx scheme getenv pq pt) = pfx"
  "kb_scheme (cluster_backend cfg pfx scheme getenv pq pt) = scheme"
  by (simp_all add: cluster_backend_def new_k8s_backend_with_client_def Let_def)

interpretation k8s: k8s_pods cluster_client "x # ns" "cluster_pods (x # ns)" "\<lambda>w. True"
  "cluster_backend (cfg\<lparr>kf_namespace := x # ns\<rparr>) pfx scheme getenv pq pt" n
  for x ns cfg pfx scheme getenv pq pt n
  by (intro k8s_pods.intro k8s_pods_axioms.intro cluster_pod_api) auto

section \<open>Lemmas on the pure steps\<close>

lemma override_field_result:
  "override_field pq f v store out = Inr r \<longleftrightarrow>
   (\<exists>r0. out = Inr r0 \<and> (if v = [] then r = r0 else \<exists>q. pq v = Inr q \<and> r = store q r0))"
  by (auto simp: override_field_def split: sum.splits)

text \<open>The value of a resource slot after the merge.\<close>

definition slot_value :: "(string \<Rightarrow> string result) \<Rightarrow> string \<Rightarrow> string option \<Rightarrow> string option" where
  "slot_value pq v d = (if v = [] then d else case pq v of Inr q \<Rightarrow> Some q | Inl e \<Rightarrow> None)"

lemma override_limits_slot:
  "override_field pq f v (\<lambda>q r. r\<lparr>kr_limits := smap_put key q (kr_limits r)\<rparr>) (Inr d) = Inr r \<Longrightarrow>
   kr_requests r = kr_requests d \<and>
   map_of (kr_limits r) =
     (map_of (kr_limits d))(key := slot_value pq v (map_of (kr_limits d) key))"
  by (cases "pq v") (auto simp: override_field_result slot_value_def fun_eq_iff split: if_splits)

lemma override_requests_slot:
  "override_field pq f v (\<lambda>q r. r\<lparr>kr_requests := smap_put key q (kr_requests r)\<rparr>) (Inr d) = Inr r \<Longrightarrow>
   kr_limits r = kr_limits d \<and>
   map_of (kr_requests r) =
     (map_of (kr_requests d))(key := slot_value pq v (map_of (kr_requests d) key))"
  by (cases "pq v") (auto simp: override_field_result slot_value_def fun_eq_iff split: if_splits)

lemma override_field_chain:
  "override_field pq f v store out = Inr r \<Longrightarrow>
   \<exists>r0. out = Inr r0 \<and> override_field pq f v store (Inr r0) = Inr r"
  by (cases out) (auto simp: override_field_def)

lemma merge_resource_overrides_slots:
  assumes "merge_resource_overrides pq d (Some ov) = Inr r"
  shows "map_of (kr_limits r) = (map_of (kr_limits d))
      (''cpu'' := slot_value pq (ro_cpu_limit ov) (map_of (kr_limits d) ''cpu''),
       ''memory'' := slot_value pq (ro_memory_limit ov) (map_of (kr_limits d) ''memory'')) \<and>
    map_of (kr_requests r) = (map_of (kr_requests d))
      (''cpu'' := slot_value pq (ro_cpu_request ov) (map_of (kr_requests d) ''cpu''),
       ''memory'' := slot_value pq (ro_memory_request ov) (map_of (kr_requests d) ''memory''))"
proof -
  obtain r3 where r3: "override_field pq ''requests.memory'' (ro_memory_request ov)
      (\<lambda>q r. r\<lparr>kr_requests := smap_put ''memory'' q (kr_requests r)\<rparr>) (Inr r3) = Inr r"
    and o3: "override_field pq ''requests.cpu'' (ro_cpu_request ov)
            (\<lambda>q r. r\<lparr>kr_requests := smap_put ''cpu'' q (kr_requests r)\<rparr>)
         (override_field pq ''limits.memory'' (ro_memory_limit ov)
            (\<lambda>q r. r\<lparr>kr_limits := smap_put ''memory'' q (kr_limits r)\<rparr>)
         (override_field pq ''limits.cpu'' (ro_cpu_limit ov)
            (\<lambda>q r. r\<lparr>kr_limits := smap_put ''cpu'' q (kr_limits r)\<rparr>)
         (Inr d))) = Inr r3"
    using assms unfolding merge_resource_overrides_def option.case
    by (blast dest: override_field_chain)
  obtain r2 where r2: "override_field pq ''requests.cpu'' (ro_cpu_request ov)
      (\<lambda>q r. r\<lparr>kr_requests := smap_put ''cpu'' q (kr_requests r)\<rparr>) (Inr r2) = Inr r3"
    and o2: "override_field pq ''limits.memory'' (ro_memory_limit ov)
            (\<lambda>q r. r\<lparr>kr_limits := smap_put ''memory'' q (kr_limits r)\<rparr>)
         (override_field pq ''limits.cpu'' (ro_cpu_limit ov)
            (\<lambda>q r. r\<lparr>kr_limits := smap_put ''cpu'' q (kr_limits r)\<rparr>)
         (Inr d)) = Inr r2"
    using o3 by (blast dest: override_field_chain)
  obtain r1 where r1: "override_field pq ''limits.memory'' (ro_memory_limit ov)
      (\<lambda>q r. r\<lparr>kr_limits := smap_put ''memory'' q (kr_limits r)\<rparr>) (Inr r1) = Inr r2"
    and o1: "override_field pq ''limits.cpu'' (ro_cpu_limit ov)
            (\<lambda>q r. r\<lparr>kr_limits := smap_put ''cpu'' q (kr_limits r)\<rparr>) (Inr d) = Inr r1"
    using o2 by (blast dest: override_field_chain)
  show ?thesis
    using override_limits_slot [OF o1] override_limits_slot [OF r1]
      override_requests_slot [OF r2] override_requests_slot [OF r3] by simp
qed

lemma build_k8s_env_vars_perm:
  assumes "distinct (map fst env)" "mset env = mset env'"
  shows "build_k8s_env_vars env = build_k8s_env_vars env'"
proof -
  have eq: "smap_get env = smap_get env'"
    using map_of_perm [OF assms] by (simp add: smap_get_def fun_eq_iff)
  have "mset (filter (\<lambda>k. smap_get env k \<noteq> []) (map fst env)) =
      mset (filter (\<lambda>k. smap_get env k \<noteq> []) (map fst env'))"
    using assms(2) by (metis mset_filter mset_map)
  from sort_strings_perm [OF this] show ?thesis
    by (simp add: build_k8s_env_vars_def flip: eq)
qed

lemma build_k8s_env_vars_entries:
  assumes "distinct (map fst env)"
  shows "(a, v) \<in> set (map (\<lambda>e. (ev_name e, ev_value e)) (build_k8s_env_vars env)) \<longleftrightarrow>
    (a, v) \<in> set env \<and> v \<noteq> []"
proof
  assume "(a, v) \<in> set (map (\<lambda>e. (ev_name e, ev_value e)) (build_k8s_env_vars env))"
  then have "smap_get env a = v" "v \<noteq> []"
    by (auto simp: build_k8s_env_vars_def)
  then show "(a, v) \<in> set env \<and> v \<noteq> []"
    by (auto simp: smap_get_def map_of_SomeD split: option.splits)
next
  assume av: "(a, v) \<in> set env \<and> v \<noteq> []"
  then have "smap_get env a = v"
    using assms by (auto simp: smap_get_def dest: map_of_is_SomeI)
  with av show "(a, v) \<in> set (map (\<lambda>e. (ev_name e, ev_value e)) (build_k8s_env_vars env))"
    by (force simp: build_k8s_env_vars_def)
qed

lemma build_k8s_env_vars_get:
  assumes "smap_get env a \<noteq> []"
  shows "\<lparr>ev_name = a, ev_value = smap_get env a, ev_value_from = JNull\<rparr> \<in> set (build_k8s_env_vars env)"
proof -
  have "a \<in> fst ` set env"
    using assms by (force simp: smap_get_def dest: map_of_SomeD split: option.splits)
  then show ?thesis
    using assms by (auto simp: build_k8s_env_vars_def)
qed

lemma smap_get_put_if_set [go_map, simp]:
  "smap_get (put_if_set k v env) k' = (if k' = k \<and> v \<noteq> [] then v else smap_get env k')"
  by (simp add: put_if_set_def)

lemma openhuman_env_other:
  "k \<notin> {''MATRIX_ACCESS_TOKEN'', ''MATRIX_HOME_ROOM_ID'', ''MATRIX_HOMESERVER_URL'',
      ''MATRIX_USER_ID'', ''MATRIX_ALLOWED_USERS''} \<Longrightarrow>
   smap_get (openhuman_env getenv env) k = smap_get env k"
  by (simp add: openhuman_env_def Let_def)

lemma k8s_stamp_env_token_file:
  "smap_get (k8s_stamp_env getenv req) ''HICLAW_AUTH_TOKEN_FILE'' = ''/var/run/secrets/hiclaw/token''"
  by (simp add: k8s_stamp_env_def Let_def openhuman_env_other)

lemma k8s_working_dir_env:
  "a \<noteq> ''HOME'' \<Longrightarrow> smap_get (snd (k8s_working_dir req env)) a = smap_get env a"
  by (simp add: k8s_working_dir_def Let_def)

lemma k8s_build_overlay_fields:
  assumes "k8s_build_overlay k req pname = Inr ov"
  shows "po_token_volume ov = k8s_token_volume req" "po_token_volume_mount ov = k8s_token_mount"
    "kc_env (po_container ov) =
       build_k8s_env_vars (snd (k8s_working_dir req (k8s_stamp_env (kb_getenv k) req)))"
    "kc_image (po_container ov) = k8s_image (kb_config k) req" "k8s_image (kb_config k) req \<noteq> []"
    "kc_name (po_container ov) = ''worker''"
  using assms by (auto simp: k8s_build_overlay_def Let_def
      split: if_splits prod.splits sum.splits option.splits)

section \<open>Properties\<close>

text \<open>
  The controller token reaches the agent: whatever the request and the operator's template
  say, the pod \<open>Create\<close> submits has a projected ServiceAccount token volume for the requested
  audience, the agent container mounts it read-only, and the \<open>HICLAW_AUTH_TOKEN_FILE\<close>
  variable in the agent's environment is exactly the path of the token inside that mount; the
  agent runs a non-empty image.
\<close>

theorem k8s_worker_token_path:
  fixes t :: pod_template
  assumes ov: "k8s_build_overlay k req pname = Inr ov"
  shows "\<exists>vol mnt aud ttl file.
    vol \<in> set (ps_volumes (pod_spec (apply_pod_template t ov))) \<and>
    mnt \<in> set (kc_volume_mounts (hd (ps_containers (pod_spec (apply_pod_template t ov))))) \<and>
    kv_source vol = Projected_Token aud ttl file \<and> kvm_name mnt = kv_name vol \<and> kvm_read_only mnt \<and>
    aud = (if cq_auth_audience req = [] then ''hiclaw-controller'' else cq_auth_audience req) \<and>
    \<lparr>ev_name = ''HICLAW_AUTH_TOKEN_FILE'', ev_value = kvm_mount_path mnt @ ''/'' @ file,
      ev_value_from = JNull\<rparr>
      \<in> set (kc_env (hd (ps_containers (pod_spec (apply_pod_template t ov))))) \<and>
    kc_image (hd (ps_containers (pod_spec (apply_pod_template t ov)))) \<noteq> []"
proof -
  let ?env = "snd (k8s_working_dir req (k8s_stamp_env (kb_getenv k) req))"
  have tok: "smap_get ?env ''HICLAW_AUTH_TOKEN_FILE'' = ''/var/run/secrets/hiclaw/token''"
    by (simp add: k8s_working_dir_env k8s_stamp_env_token_file)
  then have env: "\<lparr>ev_name = ''HICLAW_AUTH_TOKEN_FILE'', ev_value = ''/var/run/secrets/hiclaw/token'',
      ev_value_from = JNull\<rparr> \<in> set (build_k8s_env_vars ?env)"
    using build_k8s_env_vars_get [of ?env "''HICLAW_AUTH_TOKEN_FILE''"] by simp
  then have "build_k8s_env_vars ?env \<noteq> []"
    by auto
  with env show ?thesis
    using k8s_build_overlay_fields [OF ov]
    by (intro exI [of _ "k8s_token_volume req"] exI [of _ k8s_token_mount])
      (simp add: apply_pod_template_def case_prod_beta Let_def overlay_agent_container_simps
        k8s_token_volume_def k8s_token_mount_def)
qed

definition example_parse_quantity :: "string \<Rightarrow> string result" where
  "example_parse_quantity s = (if s = [] then Inl (Err ''empty quantity'') else Inr s)"

definition example_k8s_config :: k8s_config where
  "example_k8s_config = \<lparr>kf_namespace = ''hiclaw'', kf_worker_image = ''hiclaw/worker:1'',
     kf_copaw_worker_image = [], kf_hermes_worker_image = [], kf_openhuman_worker_image = [],
     kf_worker_cpu = [], kf_worker_memory = [], kf_controller_name = ''ctl'',
     kf_resource_prefix = []\<rparr>"

definition example_k8s_backend :: "k8s_cluster k8s_backend" where
  "example_k8s_backend = cluster_backend example_k8s_config ''hiclaw-worker-''
     (Some (\<lambda>owner pod. Inr (pod\<lparr>pod_owner_references := [owner]\<rparr>))) (\<lambda>_. [])
     example_parse_quantity (\<lambda>_. Inr zero_pod_template)"

definition example_create_request :: create_request where
  "example_create_request = zero_create_request
     \<lparr>cq_name := ''alice'', cq_env := Some [(''HICLAW_AUTH_TOKEN_FILE'', ''/tmp/stolen'')]\<rparr>"

theorem k8s_worker_token_path_witness:
  "\<exists>ov. k8s_build_overlay example_k8s_backend example_create_request ''hiclaw-worker-alice'' = Inr ov \<and>
     kc_image (hd (ps_containers (pod_spec (apply_pod_template zero_pod_template ov)))) \<noteq> []"
proof -
  have "case k8s_build_overlay example_k8s_backend example_create_request ''hiclaw-worker-alice'' of
      Inl e \<Rightarrow> False | Inr ov \<Rightarrow> True"
    by code_simp
  then obtain ov where ov:
    "k8s_build_overlay example_k8s_backend example_create_request ''hiclaw-worker-alice'' = Inr ov"
    by (auto split: sum.splits)
  from k8s_worker_token_path [OF ov, of zero_pod_template] show ?thesis
    using ov by blast
qed

text \<open>
  The environment of a pod does not depend on the iteration order of Go's map: two listings
  of one map give the same variables, which are sorted by name and are exactly the entries with
  a non-empty value.
\<close>

theorem k8s_env_vars_deterministic:
  assumes "distinct (map fst env)" "mset env = mset env'"
  shows "build_k8s_env_vars env' = build_k8s_env_vars env \<and>
    sorted (map ev_name (build_k8s_env_vars env)) \<and>
    set (map (\<lambda>e. (ev_name e, ev_value e)) (build_k8s_env_vars env)) =
      {(a, v). (a, v) \<in> set env \<and> v \<noteq> []}"
proof -
  have "map ev_name (build_k8s_env_vars env) =
      sort_strings (filter (\<lambda>k. smap_get env k \<noteq> []) (map fst env))"
    by (simp add: build_k8s_env_vars_def comp_def)
  then show ?thesis
    using build_k8s_env_vars_perm [OF assms] build_k8s_env_vars_entries [OF assms(1)]
    by (auto simp only: sorted_sort_strings)
qed

theorem k8s_env_vars_deterministic_witness:
  "build_k8s_env_vars [(''A'', ''1''), (''B'', ''2'')] = build_k8s_env_vars [(''B'', ''2''), (''A'', ''1'')]"
  using k8s_env_vars_deterministic [of "[(''B'', ''2''), (''A'', ''1'')]" "[(''A'', ''1''), (''B'', ''2'')]"]
  by simp

text \<open>
  A resource override is applied field by field: each of the four slots holds the parsed
  quantity of its own override when that is given and the backend default otherwise, and no
  other slot changes.
\<close>

theorem k8s_resource_precedence:
  assumes "merge_resource_overrides pq d (Some ov) = Inr r"
  shows "map_of (kr_limits r) = (map_of (kr_limits d))
      (''cpu'' := slot_value pq (ro_cpu_limit ov) (map_of (kr_limits d) ''cpu''),
       ''memory'' := slot_value pq (ro_memory_limit ov) (map_of (kr_limits d) ''memory'')) \<and>
    map_of (kr_requests r) = (map_of (kr_requests d))
      (''cpu'' := slot_value pq (ro_cpu_request ov) (map_of (kr_requests d) ''cpu''),
       ''memory'' := slot_value pq (ro_memory_request ov) (map_of (kr_requests d) ''memory''))"
  by (rule merge_resource_overrides_slots [OF assms])

definition example_overrides :: resource_overrides where
  "example_overrides = \<lparr>ro_cpu_request = [], ro_cpu_limit = ''2'', ro_memory_request = ''1Gi'',
     ro_memory_limit = []\<rparr>"

theorem k8s_resource_precedence_witness:
  "\<exists>r. merge_resource_overrides example_parse_quantity empty_resources (Some example_overrides) = Inr r \<and>
     map_of (kr_limits r) ''cpu'' = Some ''2'' \<and> map_of (kr_limits r) ''memory'' = None"
proof -
  let ?r = "empty_resources\<lparr>kr_limits := [(''cpu'', ''2'')], kr_requests := [(''memory'', ''1Gi'')]\<rparr>"
  have r: "merge_resource_overrides example_parse_quantity empty_resources (Some example_overrides) = Inr ?r"
    by code_simp
  from k8s_resource_precedence [OF r] r show ?thesis
    by (intro exI [of _ ?r])
      (simp add: slot_value_def example_overrides_def example_parse_quantity_def empty_resources_def)
qed

end
