(* ===== verification/Backend_Docker.thy ===== *)
theory Backend_Docker
  imports Backend_Kubernetes
begin

text \<open>
  \<open>internal/backend/docker.go\<close>: workers as containers of a Docker engine. One constructor of
  \<open>docker_request\<close> per URL the backend builds; the HTTP round trip, the random port, the
  decoding of response bodies and the environment are parameters. Sleeps are left out.
\<close>

record docker_config =
  df_socket_path :: string
  df_worker_image :: string
  df_copaw_worker_image :: string
  df_hermes_worker_image :: string
  df_openhuman_worker_image :: string
  df_default_network :: string

record docker_port_binding =
  dp_host_ip :: string
  dp_host_port :: string

record docker_host_config =
  dh_network_mode :: string
  dh_extra_hosts :: "string list"
  dh_binds :: "string list"
  dh_port_bindings :: "(string \<times> docker_port_binding list) list"
  dh_restart_policy :: "string option"

record docker_create_payload =
  dc_image :: string
  dc_env :: "string list"
  dc_working_dir :: string
  dc_exposed_ports :: "string list"
  dc_host_config :: "docker_host_config option"
  dc_endpoints :: "(string \<times> string list) list"

datatype docker_request =
    Engine_Ping
  | Image_Inspect string
  | Image_Pull string
  | Container_Create string docker_create_payload
  | Container_Start string
  | Container_Stop string
  | Container_Delete string
  | Container_Inspect string

record docker_response =
  dr_status :: int
  dr_body :: string

record 'w docker_backend =
  db_config :: docker_config
  db_prefix :: string
  db_socket_exists :: "('w, bool) state"
  db_new_request :: "docker_request \<Rightarrow> go_error option"
  db_do :: "docker_request \<Rightarrow> ('w, docker_response result) state"
  db_rand :: "('w, int) state"
  db_getenv :: "string \<Rightarrow> string"
  db_parse_create :: "string \<Rightarrow> string result"
  db_parse_inspect :: "string \<Rightarrow> (string \<times> string) result"

definition docker_with_prefix :: "'w docker_backend \<Rightarrow> string \<Rightarrow> 'w docker_backend" where
  "docker_with_prefix d pfx = d\<lparr>db_prefix := pfx\<rparr>"

text \<open>
  Building the HTTP request and doing the round trip; the two wrappers are what the caller puts
  around the error of either step.
\<close>

definition docker_call ::
  "'w docker_backend \<Rightarrow> (go_error \<Rightarrow> go_error) \<Rightarrow> (go_error \<Rightarrow> go_error) \<Rightarrow> docker_request \<Rightarrow>
   ('w, docker_response result) state" where
  "docker_call d bw dw r =
     (case db_new_request d r of
        Some e \<Rightarrow> State_Monad.return (Inl (bw e))
      | None \<Rightarrow> do {
          x \<leftarrow> db_do d r;
          State_Monad.return (case x of Inl e \<Rightarrow> Inl (dw e) | Inr y \<Rightarrow> Inr y)
        })"

definition docker_available :: "'w docker_backend \<Rightarrow> ('w, bool) state" where
  "docker_available d = do {
     ex \<leftarrow> db_socket_exists d;
     if \<not> ex then State_Monad.return False
     else do {
       r \<leftarrow> docker_call d id id Engine_Ping;
       State_Monad.return (case r of Inl e \<Rightarrow> False | Inr y \<Rightarrow> dr_status y = 200)
     }
   }"

definition docker_start_container :: "'w docker_backend \<Rightarrow> string \<Rightarrow> ('w, go_error option) state" where
  "docker_start_container d name_or_id = do {
     r \<leftarrow> docker_call d id (Wrap ''docker start'') (Container_Start name_or_id);
     State_Monad.return
       (case r of
          Inl e \<Rightarrow> Some e
        | Inr y \<Rightarrow>
            if dr_status y = 304 then None
            else if dr_status y = 404
            then Some (Err ''docker start failed (status 404): container not found'')
            else if dr_status y \<noteq> 204 \<and> dr_status y \<noteq> 200
            then Some (Err (''docker start failed (status '' @ show_int (dr_status y) @ ''): '' @ dr_body y))
            else None)
   }"

definition docker_delete :: "'w docker_backend \<Rightarrow> string \<Rightarrow> ('w, go_error option) state" where
  "docker_delete d name = do {
     r \<leftarrow> docker_call d id (Wrap ''docker delete'') (Container_Delete (db_prefix d @ name));
     State_Monad.return
       (case r of
          Inl e \<Rightarrow> Some e
        | Inr y \<Rightarrow>
            if dr_status y = 404 then None
            else if dr_status y \<noteq> 204 \<and> dr_status y \<noteq> 200
            then Some (Err (''docker delete failed (status '' @ show_int (dr_status y) @ ''): '' @ dr_body y))
            else None)
   }"

definition docker_start :: "'w docker_backend \<Rightarrow> string \<Rightarrow> ('w, go_error option) state" where
  "docker_start d name = do {
     r \<leftarrow> docker_start_container d (db_prefix d @ name);
     State_Monad.return
       (case r of
          None \<Rightarrow> None
        | Some e \<Rightarrow>
            if str_contains (err_text e) ''status 404''
            then Some (Detail ErrNotFound (''worker '' @ go_quote name)) else Some e)
   }"

definition docker_stop :: "'w docker_backend \<Rightarrow> string \<Rightarrow> ('w, go_error option) state" where
  "docker_stop d name = do {
     r \<leftarrow> docker_call d id (Wrap ''docker stop'') (Container_Stop (db_prefix d @ name));
     State_Monad.return
       (case r of
          Inl e \<Rightarrow> Some e
        | Inr y \<Rightarrow>
            if dr_status y = 404 then Some (Detail ErrNotFound (''worker '' @ go_quote name))
            else if dr_status y = 304 then None
            else if dr_status y \<noteq> 204 \<and> dr_status y \<noteq> 200
            then Some (Err (''docker stop failed (status '' @ show_int (dr_status y) @ ''): '' @ dr_body y))
            else None)
   }"

definition normalize_docker_status :: "string \<Rightarrow> backend_status" where
  "normalize_docker_status status =
     (let s = to_lower status in
      if s = ''running'' then Status_Running
      else if s = ''exited'' \<or> s = ''dead'' then Status_Stopped
      else if s = ''created'' \<or> s = ''restarting'' then Status_Starting
      else Status_Unknown)"

definition docker_status :: "'w docker_backend \<Rightarrow> string \<Rightarrow> ('w, worker_result result) state" where
  "docker_status d name = do {
     r \<leftarrow> docker_call d id (Wrap ''docker inspect'') (Container_Inspect (db_prefix d @ name));
     State_Monad.return
       (case r of
          Inl e \<Rightarrow> Inl e
        | Inr y \<Rightarrow>
            if dr_status y = 404
            then Inr \<lparr>wr_name = name, wr_backend = ''docker'', wr_deployment_mode = deploy_local,
                   wr_status = Status_NotFound, wr_container_id = [], wr_raw_status = [],
                   wr_console_port = []\<rparr>
            else if dr_status y \<noteq> 200
            then Inl (Err (''docker inspect failed (status '' @ show_int (dr_status y) @ ''): '' @ dr_body y))
            else (case db_parse_inspect d (dr_body y) of
                    Inl e \<Rightarrow> Inl (Wrap ''parse inspect response'' e)
                  | Inr (cid, st) \<Rightarrow>
                      Inr \<lparr>wr_name = name, wr_backend = ''docker'', wr_deployment_mode = deploy_local,
                        wr_status = normalize_docker_status st, wr_container_id = cid,
                        wr_raw_status = st, wr_console_port = []\<rparr>))
   }"

definition docker_ensure_image :: "'w docker_backend \<Rightarrow> string \<Rightarrow> ('w, go_error option) state" where
  "docker_ensure_image d img = do {
     r \<leftarrow> docker_call d (Wrap ''build image inspect request'') (Wrap ''docker image inspect'')
            (Image_Inspect img);
     (case r of
        Inl e \<Rightarrow> State_Monad.return (Some e)
      | Inr y \<Rightarrow>
          if dr_status y = 200 then State_Monad.return None
          else do {
            p \<leftarrow> docker_call d (Wrap ''build image pull request'') (Wrap ''docker image pull'')
                   (Image_Pull img);
            (case p of
               Inl e \<Rightarrow> State_Monad.return (Some e)
             | Inr _ \<Rightarrow> do {
                 v \<leftarrow> docker_call d (Wrap ''build image verify request'')
                        (Wrap ''docker image verify'') (Image_Inspect img);
                 State_Monad.return
                   (case v of
                      Inl e \<Rightarrow> Some e
                    | Inr z \<Rightarrow>
                        if dr_status z \<noteq> 200 then Some (Err (''failed to pull image '' @ img))
                        else None)
               })
          })
   }"

section \<open>Create\<close>

definition add_port_mapping ::
  "port_mapping \<Rightarrow> string list \<times> (string \<times> docker_port_binding list) list \<Rightarrow>
   string list \<times> (string \<times> docker_port_binding list) list" where
  "add_port_mapping pm acc =
     (let (exposed, bindings) = acc;
          key = pm_container_port pm @ ''/'' @ (if pm_protocol pm = [] then ''tcp'' else pm_protocol pm);
          b = \<lparr>dp_host_ip = pm_host_ip pm, dp_host_port = pm_host_port pm\<rparr>
      in (List.insert key exposed,
          AList.update key ((case map_of bindings key of None \<Rightarrow> [] | Some bs \<Rightarrow> bs) @ [b]) bindings))"

definition docker_bind :: "volume_mount \<Rightarrow> string" where
  "docker_bind v = vm_host_path v @ '':'' @ vm_container_path v @ (if vm_read_only v then '':ro'' else [])"

definition build_create_payload ::
  "create_request \<Rightarrow> string \<Rightarrow> int \<Rightarrow> docker_create_payload" where
  "build_create_payload req console_port host_port =
     (let env = (case cq_env req of None \<Rightarrow> [] | Some e \<Rightarrow> e);
          env_list = map (\<lambda>k. k @ ''='' @ smap_get env k) (sort_strings (map fst env));
          console = (if console_port \<noteq> [] \<and> host_port > 0
             then ([console_port @ ''/tcp''],
                   [(console_port @ ''/tcp'', [\<lparr>dp_host_ip = [], dp_host_port = show_int host_port\<rparr>])])
             else ([], []));
          (exposed, bindings) = fold add_port_mapping (cq_ports req) console;
          hc = \<lparr>dh_network_mode = cq_network req, dh_extra_hosts = cq_extra_hosts req,
                dh_binds = map docker_bind (cq_volumes req), dh_port_bindings = bindings,
                dh_restart_policy =
                  (if cq_restart_policy req = [] then None else Some (cq_restart_policy req))\<rparr>
      in \<lparr>dc_image = cq_image req,
          dc_env = env_list,
          dc_working_dir = cq_working_dir req,
          dc_exposed_ports = exposed,
          dc_host_config =
            (if dh_network_mode hc \<noteq> [] \<or> dh_extra_hosts hc \<noteq> [] \<or> dh_port_bindings hc \<noteq> [] \<or>
                dh_binds hc \<noteq> [] \<or> dh_restart_policy hc \<noteq> None then Some hc else None),
          dc_endpoints =
            (if cq_network_aliases req \<noteq> [] \<and> cq_network req \<noteq> []
             then [(cq_network req, cq_network_aliases req)] else [])\<rparr>)"

text \<open>\<open>doCreate\<close>: the argument is \<open>retry = 0\<close>; a conflict of the first attempt removes the container.\<close>

definition docker_create_once ::
  "'w docker_backend \<Rightarrow> string \<Rightarrow> docker_create_payload \<Rightarrow> bool \<Rightarrow> ('w, string result) state \<Rightarrow>
   ('w, string result) state" where
  "docker_create_once d cname payload first next_retry = do {
     r \<leftarrow> docker_call d (Wrap ''build create request'') (Wrap ''docker create'')
            (Container_Create cname payload);
     (case r of
        Inl e \<Rightarrow> State_Monad.return (Inl e)
      | Inr y \<Rightarrow>
          if dr_status y = 409 \<and> first
          then do {
            del \<leftarrow> docker_delete d (trim_prefix cname (db_prefix d));
            (case del of
               Some e \<Rightarrow> State_Monad.return (Inl (Wrap ''delete existing container'' e))
             | None \<Rightarrow> next_retry)
          }
          else if dr_status y = 409
          then State_Monad.return (Inl (Detail ErrConflict (''container '' @ go_quote cname)))
          else if dr_status y \<noteq> 201
          then State_Monad.return
            (Inl (Err (''docker create failed (status '' @ show_int (dr_status y) @ ''): '' @ dr_body y)))
          else State_Monad.return
            (case db_parse_create d (dr_body y) of
               Inl e \<Rightarrow> Inl (Wrap ''parse create response'' e)
             | Inr cid \<Rightarrow> Inr cid))
   }"

definition docker_do_create ::
  "'w docker_backend \<Rightarrow> string \<Rightarrow> docker_create_payload \<Rightarrow> ('w, string result) state" where
  "docker_do_create d cname payload =
     docker_create_once d cname payload True
       (docker_create_once d cname payload False
          (State_Monad.return (Inl (Err ''docker create: exhausted retries''))))"

definition is_port_conflict :: "go_error \<Rightarrow> bool" where
  "is_port_conflict e \<longleftrightarrow>
     str_contains (err_text e) ''already allocated'' \<or>
     str_contains (err_text e) ''address already in use'' \<or>
     str_contains (err_text e) ''port is already''"

definition max_port_retries :: nat where "max_port_retries = 10"

text \<open>The creation loop; the first argument is the number of retries left.\<close>

fun docker_create_loop ::
  "nat \<Rightarrow> 'w docker_backend \<Rightarrow> create_request \<Rightarrow> string \<Rightarrow> string \<Rightarrow> int \<Rightarrow>
   ('w, worker_result result) state" where
  "docker_create_loop left d req cname console_port host_port = do {
     created \<leftarrow> docker_do_create d cname (build_create_payload req console_port host_port);
     (case created of
        Inl e \<Rightarrow> State_Monad.return (Inl e)
      | Inr cid \<Rightarrow> do {
          started \<leftarrow> docker_start_container d cid;
          (case started of
             None \<Rightarrow> State_Monad.return
               (Inr \<lparr>wr_name = cq_name req, wr_backend = ''docker'', wr_deployment_mode = deploy_local,
                  wr_status = Status_Running, wr_container_id = cid, wr_raw_status = ''running'',
                  wr_console_port =
                    (if console_port \<noteq> [] \<and> host_port > 0 then show_int host_port else [])\<rparr>)
           | Some e \<Rightarrow>
               (case left of
                  0 \<Rightarrow> State_Monad.return (Inl (Wrap ''start after create'' e))
                | Suc left' \<Rightarrow>
                    if console_port \<noteq> [] \<and> is_port_conflict e
                    then do {
                      _ \<leftarrow> docker_delete d (cq_name req);
                      docker_create_loop left' d req cname console_port (host_port + 1)
                    }
                    else State_Monad.return (Inl (Wrap ''start after create'' e))))
        })
   }"

definition docker_image :: "docker_config \<Rightarrow> create_request \<Rightarrow> string" where
  "docker_image cfg req =
     (if cq_image req \<noteq> [] then cq_image req
      else if cq_runtime req = runtime_copaw \<and> df_copaw_worker_image cfg \<noteq> []
      then df_copaw_worker_image cfg
      else if cq_runtime req = runtime_hermes \<and> df_hermes_worker_image cfg \<noteq> []
      then df_hermes_worker_image cfg
      else if cq_runtime req = runtime_openhuman \<and> df_openhuman_worker_image cfg \<noteq> []
      then df_openhuman_worker_image cfg
      else df_worker_image cfg)"

text \<open>
  The environment steps; writing the controller URL into a nil map is a panic. The request
  already has its runtime resolved.
\<close>

definition docker_stamp_env :: "(string \<Rightarrow> string) \<Rightarrow> create_request \<Rightarrow> smap option result" where
  "docker_stamp_env getenv req =
     (let e1 = (if cq_auth_token req \<noteq> []
                then Some (smap_put ''HICLAW_AUTH_TOKEN'' (cq_auth_token req)
                       (case cq_env req of None \<Rightarrow> [] | Some e \<Rightarrow> e))
                else cq_env req)
      in case e1 of
           None \<Rightarrow> if cq_controller_url req \<noteq> [] then Inl (Panic ''assignment to entry in nil map'')
                   else Inr None
         | Some e \<Rightarrow>
             let e2 = put_if_set ''HICLAW_CONTROLLER_URL'' (cq_controller_url req) e
             in Inr (Some (if cq_runtime req = runtime_openhuman then openhuman_env getenv e2 else e2)))"

definition docker_working_dir :: "create_request \<Rightarrow> smap option \<Rightarrow> string" where
  "docker_working_dir req env =
     (if cq_working_dir req \<noteq> [] then cq_working_dir req
      else if cq_runtime req = runtime_openhuman then ''/home/openhuman/.openhuman''
      else (case env of None \<Rightarrow> [] | Some e \<Rightarrow> smap_get e ''HOME''))"

definition docker_container_name :: "'w docker_backend \<Rightarrow> create_request \<Rightarrow> string" where
  "docker_container_name d req =
     (if cq_container_name req \<noteq> [] then cq_container_name req
      else (if cq_name_prefix req \<noteq> [] then cq_name_prefix req else db_prefix d) @ cq_name req)"

definition docker_create :: "'w docker_backend \<Rightarrow> create_request \<Rightarrow> ('w, worker_result result) state" where
  "docker_create d req0 =
     (let cname = docker_container_name d req0;
          req1 = req0\<lparr>cq_runtime := resolve_runtime (cq_runtime req0) (cq_runtime_fallback req0)\<rparr>;
          req2 = req1\<lparr>cq_image := docker_image (db_config d) req1,
                      cq_network := (if cq_network req1 = [] then df_default_network (db_config d)
                                     else cq_network req1)\<rparr>
      in case docker_stamp_env (db_getenv d) req2 of
           Inl e \<Rightarrow> State_Monad.return (Inl e)
         | Inr env \<Rightarrow>
             let req3 = req2\<lparr>cq_env := env, cq_working_dir := docker_working_dir req2 env\<rparr> in do {
               pulled \<leftarrow> docker_ensure_image d (cq_image req3);
               (case pulled of
                  Some e \<Rightarrow> State_Monad.return (Inl e)
                | None \<Rightarrow>
                    let console_port = (case env of None \<Rightarrow> [] | Some e \<Rightarrow> smap_get e ''HICLAW_CONSOLE_PORT'')
                    in do {
                      host_port \<leftarrow> (if console_port \<noteq> []
                                    then do { r \<leftarrow> db_rand d; State_Monad.return (10000 + r) }
                                    else State_Monad.return 0);
                      docker_create_loop max_port_retries d req3 cname console_port host_port
                    })
             })"

definition docker_worker_backend :: "'w docker_backend \<Rightarrow> 'w worker_backend" where
  "docker_worker_backend d =
     \<lparr>wb_name = ''docker'',
      wb_available = docker_available d,
      wb_create = docker_create d,
      wb_delete = docker_delete d,
      wb_start = docker_start d,
      wb_stop = docker_stop d,
      wb_status = docker_status d\<rparr>"

section \<open>What the engine promises\<close>

text \<open>
  The documented behaviour of the Docker Engine API while the daemon answers (\<open>up\<close>) and no
  host port is taken: \<open>containers\<close> gives the status text of each container by name,
  \<open>resolve\<close> the container a name or id denotes, \<open>has_image\<close> the local images.
\<close>

locale docker_engine_api =
  fixes d :: "'w docker_backend"
    and up :: "'w \<Rightarrow> bool"
    and containers :: "'w \<Rightarrow> string \<Rightarrow> string option"
    and resolve :: "'w \<Rightarrow> string \<Rightarrow> string option"
    and has_image :: "string \<Rightarrow> bool"
  assumes request_ok: "db_new_request d r = None"
    and socket: "up w \<Longrightarrow> run_state (db_socket_exists d) w = (True, w)"
    and ping: "up w \<Longrightarrow> \<exists>y. run_state (db_do d Engine_Ping) w = (Inr y, w) \<and> dr_status y = 200"
    and rand: "\<exists>r. run_state (db_rand d) w = (r, w)"
    and image_inspect: "up w \<Longrightarrow> has_image i \<Longrightarrow>
        \<exists>y. run_state (db_do d (Image_Inspect i)) w = (Inr y, w) \<and> dr_status y = 200"
    and names_resolve: "up w \<Longrightarrow> containers w m \<noteq> None \<Longrightarrow> resolve w m = Some m"
    and create_absent: "up w \<Longrightarrow> containers w m = None \<Longrightarrow>
        \<exists>y cid w'. run_state (db_do d (Container_Create m p)) w = (Inr y, w') \<and> dr_status y = 201 \<and>
          db_parse_create d (dr_body y) = Inr cid \<and> up w' \<and> resolve w' cid = Some m"
    and start_known: "up w \<Longrightarrow> resolve w x = Some m \<Longrightarrow>
        \<exists>y w'. run_state (db_do d (Container_Start x)) w = (Inr y, w') \<and> dr_status y \<in> {204, 304} \<and>
          up w' \<and> containers w' m = Some ''running''"
    and stop_any: "up w \<Longrightarrow> \<exists>y w'. run_state (db_do d (Container_Stop m)) w = (Inr y, w') \<and> up w' \<and>
          (if containers w m = None then dr_status y = 404 \<and> containers w' m = None
           else dr_status y \<in> {204, 304} \<and> containers w' m = Some ''exited'')"
    and delete_any: "up w \<Longrightarrow> \<exists>y w'. run_state (db_do d (Container_Delete m)) w = (Inr y, w') \<and>
          dr_status y = (if containers w m = None then 404 else 204) \<and> up w' \<and>
          containers w' m = None"
    and inspect_any: "up w \<Longrightarrow> \<exists>y. run_state (db_do d (Container_Inspect m)) w = (Inr y, w) \<and>
          (case containers w m of
             None \<Rightarrow> dr_status y = 404
           | Some st \<Rightarrow> dr_status y = 200 \<and> (\<exists>cid. db_parse_inspect d (dr_body y) = Inr (cid, st)))"
begin

lemma call_ok: "run_state (db_do d r) w = (Inr y, w') \<Longrightarrow>
  run_state (docker_call d bw dw r) w = (Inr y, w')"
  by (simp add: docker_call_def request_ok)

lemma available: "up w \<Longrightarrow> run_state (docker_available d) w = (True, w)"
  using ping [of w] call_ok [of Engine_Ping w] by (auto simp: docker_available_def socket)

lemma delete_absent:
  "up w \<Longrightarrow> \<exists>w'. run_state (docker_delete d name) w = (None, w') \<and> up w' \<and>
     containers w' (db_prefix d @ name) = None"
  using delete_any [of w "db_prefix d @ name"] call_ok [of "Container_Delete (db_prefix d @ name)" w]
  by (auto simp: docker_delete_def split: if_splits)

lemma start_running:
  "up w \<Longrightarrow> resolve w x = Some m \<Longrightarrow>
   \<exists>w'. run_state (docker_start_container d x) w = (None, w') \<and> up w' \<and>
     containers w' m = Some ''running''"
  using start_known [of w x m] call_ok [of "Container_Start x" w]
  by (auto simp: docker_start_container_def)

lemma stop_inactive:
  "up w \<Longrightarrow> \<exists>e w'. run_state (docker_stop d name) w = (e, w') \<and> up w' \<and>
     (e = None \<and> containers w' (db_prefix d @ name) = Some ''exited'' \<or>
      (\<exists>x. e = Some x \<and> is_err_not_found x) \<and> containers w' (db_prefix d @ name) = None)"
  using stop_any [of w "db_prefix d @ name"] call_ok [of "Container_Stop (db_prefix d @ name)" w]
  by (auto simp: docker_stop_def is_err_not_found_def split: if_splits)

lemma status_reads:
  "up w \<Longrightarrow> \<exists>r. run_state (docker_status d name) w = (Inr r, w) \<and>
     wr_status r = (case containers w (db_prefix d @ name) of
       None \<Rightarrow> Status_NotFound | Some st \<Rightarrow> normalize_docker_status st)"
  using inspect_any [of w "db_prefix d @ name"] call_ok [of "Container_Inspect (db_prefix d @ name)" w]
  by (fastforce simp: docker_status_def split: option.splits)

lemma do_create_absent:
  "up w \<Longrightarrow> containers w m = None \<Longrightarrow>
   \<exists>cid w'. run_state (docker_do_create d m p) w = (Inr cid, w') \<and> up w' \<and> resolve w' cid = Some m"
  using create_absent [of w m p] call_ok [of "Container_Create m p" w]
  by (fastforce simp: docker_do_create_def docker_create_once_def)

lemma create_loop_absent:
  assumes "up w" "containers w m = None"
  shows "\<exists>r w'. run_state (docker_create_loop left d req m cp hp) w = (Inr r, w') \<and> up w' \<and>
    containers w' m = Some ''running'' \<and> wr_status r = Status_Running"
proof -
  obtain cid w1 where w1: "run_state (docker_do_create d m (build_create_payload req cp hp)) w = (Inr cid, w1)"
      "up w1" "resolve w1 cid = Some m"
    using do_create_absent [OF assms] by blast
  obtain w2 where "run_state (docker_start_container d cid) w1 = (None, w2)" "up w2"
      "containers w2 m = Some ''running''"
    using start_running [OF w1(2,3)] by blast
  then show ?thesis
    using w1 by (subst docker_create_loop.simps) simp
qed

lemma ensure_image_present:
  "up w \<Longrightarrow> has_image i \<Longrightarrow> run_state (docker_ensure_image d i) w = (None, w)"
  using image_inspect [of w i] call_ok [of "Image_Inspect i" w] by (auto simp: docker_ensure_image_def)

end

text \<open>A request for the container of \<open>n\<close> that the backend can serve without pulling or panicking.\<close>

definition docker_request_ok :: "(string \<Rightarrow> bool) \<Rightarrow> 'w docker_backend \<Rightarrow> string \<Rightarrow> create_request \<Rightarrow> bool" where
  "docker_request_ok has_image d n q \<longleftrightarrow>
     has_image (docker_image (db_config d)
       (q\<lparr>cq_runtime := resolve_runtime (cq_runtime q) (cq_runtime_fallback q)\<rparr>)) \<and>
     (cq_env q \<noteq> None \<or> cq_auth_token q \<noteq> [] \<or> cq_controller_url q = []) \<and>
     docker_container_name d q = db_prefix d @ n"

locale docker_workers = docker_engine_api +
  fixes n :: string
begin

definition container_present :: "'a \<Rightarrow> bool" where
  "container_present w \<longleftrightarrow> containers w (db_prefix d @ n) \<noteq> None"

definition container_active :: "'a \<Rightarrow> bool" where
  "container_active w \<longleftrightarrow> (case containers w (db_prefix d @ n) of
     None \<Rightarrow> False | Some st \<Rightarrow> normalize_docker_status st \<in> {Status_Running, Status_Starting})"

lemma stamp_env_ok: "docker_request_ok has_image d n q \<Longrightarrow>
  \<exists>env. docker_stamp_env g (q\<lparr>cq_runtime := r, cq_image := i, cq_network := t\<rparr>) = Inr env"
  by (auto simp: docker_request_ok_def docker_stamp_env_def Let_def split: option.splits)

lemma running_active: "containers w (db_prefix d @ n) = Some ''running'' \<Longrightarrow> container_active w"
  by (simp add: container_active_def normalize_docker_status_def to_lower_def to_lower_char_def)

lemma docker_create_absent:
  assumes "up w" "\<not> container_present w" "docker_request_ok has_image d n q"
  shows "\<exists>r w'. run_state (docker_create d q) w = (Inr r, w') \<and> up w' \<and> container_active w'"
proof -
  let ?rt = "resolve_runtime (cq_runtime q) (cq_runtime_fallback q)"
  let ?req1 = "q\<lparr>cq_runtime := ?rt\<rparr>"
  let ?img = "docker_image (db_config d) ?req1"
  let ?net = "if cq_network ?req1 = [] then df_default_network (db_config d) else cq_network ?req1"
  let ?req2 = "?req1\<lparr>cq_image := ?img, cq_network := ?net\<rparr>"
  obtain env where env: "docker_stamp_env (db_getenv d) ?req2 = Inr env"
    using stamp_env_ok [OF assms(3)] by blast
  have img: "run_state (docker_ensure_image d ?img) w = (None, w)"
    using ensure_image_present [OF assms(1)] assms(3) by (simp add: docker_request_ok_def)
  have cname: "docker_container_name d q = db_prefix d @ n"
    using assms(3) by (simp add: docker_request_ok_def)
  have none: "containers w (db_prefix d @ n) = None"
    using assms(2) by (simp add: container_present_def)
  define cp where "cp = (case env of None \<Rightarrow> [] | Some e \<Rightarrow> smap_get e ''HICLAW_CONSOLE_PORT'')"
  obtain rnd where rnd: "run_state (db_rand d) w = (rnd, w)"
    using rand by blast
  have port: "\<exists>hp. run_state (if cp \<noteq> [] then do { r \<leftarrow> db_rand d; State_Monad.return (10000 + r) }
      else State_Monad.return 0) w = (hp, w)"
    by (simp add: rnd)
  then obtain hp where hp: "run_state (if cp \<noteq> [] then do { r \<leftarrow> db_rand d; State_Monad.return (10000 + r) }
      else State_Monad.return 0) w = (hp, w)" by blast
  let ?req3 = "?req2\<lparr>cq_env := env, cq_working_dir := docker_working_dir ?req2 env\<rparr>"
  obtain r w' where loop: "run_state (docker_create_loop max_port_retries d ?req3 (db_prefix d @ n) cp hp) w = (Inr r, w')"
      "up w'" "containers w' (db_prefix d @ n) = Some ''running''"
    using create_loop_absent [OF assms(1) none] by blast
  have "run_state (docker_create d q) w = (Inr r, w')"
    using loop(1) hp img unfolding docker_create_def Let_def cname env
    by (simp add: cp_def [symmetric])
  then show ?thesis
    using loop(2,3) running_active by blast
qed

end

sublocale docker_workers \<subseteq> worker_backend_contract
  "docker_worker_backend d" n "docker_request_ok has_image d n" up container_present container_active
proof
  fix w assume up: "up w"
  show "\<exists>r. run_state (wb_status (docker_worker_backend d) n) w = (Inr r, w) \<and>
      (wr_status r = Status_NotFound \<longleftrightarrow> \<not> container_present w) \<and>
      (wr_status r \<in> {Status_Running, Status_Starting, Status_Ready} \<longrightarrow> container_active w)"
    using status_reads [OF up, of n]
    by (auto simp: docker_worker_backend_def container_present_def container_active_def
        normalize_docker_status_def Let_def split: option.splits if_splits)
  show "\<exists>w'. run_state (wb_delete (docker_worker_backend d) n) w = (None, w') \<and> up w' \<and>
      \<not> container_present w'"
    using delete_absent [OF up, of n]
    by (auto simp: docker_worker_backend_def container_present_def)
  show "\<exists>e w'. run_state (wb_stop (docker_worker_backend d) n) w = (e, w') \<and> up w' \<and>
      \<not> container_active w' \<and> (case e of None \<Rightarrow> True | Some x \<Rightarrow> is_err_not_found x)"
    using stop_inactive [OF up, of n]
    by (auto simp: docker_worker_backend_def container_active_def normalize_docker_status_def
        to_lower_def to_lower_char_def)
  show "run_state (wb_available (docker_worker_backend d)) w = (True, w)"
    using available [OF up] by (simp add: docker_worker_backend_def)
  show "container_active w \<Longrightarrow> container_present w"
    by (auto simp: container_active_def container_present_def split: option.splits)
next
  fix w q assume "up w" "\<not> container_present w" "docker_request_ok has_image d n q"
  then show "\<exists>r w'. run_state (wb_create (docker_worker_backend d) q) w = (Inr r, w') \<and> up w' \<and>
      container_active w'"
    using docker_create_absent by (simp add: docker_worker_backend_def)
next
  fix w assume up: "up w" and "container_present w"
  then have "resolve w (db_prefix d @ n) = Some (db_prefix d @ n)"
    using names_resolve by (simp add: container_present_def)
  then show "\<exists>w'. run_state (wb_start (docker_worker_backend d) n) w = (None, w') \<and> up w' \<and>
      container_active w'"
    using start_running [OF up] running_active
    by (fastforce simp: docker_worker_backend_def docker_start_def)
qed

section \<open>An engine\<close>

text \<open>
  A Docker engine as a store of container states by name, with the container's name as its id;
  a response body is the plain text of what the JSON body carries.
\<close>

type_synonym engine = "(string \<times> string) list"

definition engine_do :: "docker_request \<Rightarrow> (engine, docker_response result) state" where
  "engine_do r = State (\<lambda>w.
     (case r of
        Engine_Ping \<Rightarrow> (Inr \<lparr>dr_status = 200, dr_body = ''OK''\<rparr>, w)
      | Image_Inspect i \<Rightarrow> (Inr \<lparr>dr_status = 200, dr_body = []\<rparr>, w)
      | Image_Pull i \<Rightarrow> (Inr \<lparr>dr_status = 200, dr_body = []\<rparr>, w)
      | Container_Create m p \<Rightarrow>
          (case map_of w m of
             Some st \<Rightarrow> (Inr \<lparr>dr_status = 409, dr_body = ''Conflict''\<rparr>, w)
           | None \<Rightarrow> (Inr \<lparr>dr_status = 201, dr_body = m\<rparr>, AList.update m ''created'' w))
      | Container_Start m \<Rightarrow>
          (case map_of w m of
             None \<Rightarrow> (Inr \<lparr>dr_status = 404, dr_body = ''No such container''\<rparr>, w)
           | Some st \<Rightarrow>
               (Inr \<lparr>dr_status = (if st = ''running'' then 304 else 204), dr_body = []\<rparr>,
                AList.update m ''running'' w))
      | Container_Stop m \<Rightarrow>
          (case map_of w m of
             None \<Rightarrow> (Inr \<lparr>dr_status = 404, dr_body = ''No such container''\<rparr>, w)
           | Some st \<Rightarrow>
               (Inr \<lparr>dr_status = (if st = ''exited'' then 304 else 204), dr_body = []\<rparr>,
                AList.update m ''exited'' w))
      | Container_Delete m \<Rightarrow>
          (case map_of w m of
             None \<Rightarrow> (Inr \<lparr>dr_status = 404, dr_body = ''No such container''\<rparr>, w)
           | Some st \<Rightarrow> (Inr \<lparr>dr_status = 204, dr_body = []\<rparr>, AList.delete m w))
      | Container_Inspect m \<Rightarrow>
          (case map_of w m of
             None \<Rightarrow> (Inr \<lparr>dr_status = 404, dr_body = ''No such container''\<rparr>, w)
           | Some st \<Rightarrow> (Inr \<lparr>dr_status = 200, dr_body = st\<rparr>, w))))"

definition engine_backend :: "docker_config \<Rightarrow> string \<Rightarrow> (string \<Rightarrow> string) \<Rightarrow> engine docker_backend" where
  "engine_backend cfg pfx getenv = \<lparr>db_config = cfg, db_prefix = pfx,
     db_socket_exists = State_Monad.return True, db_new_request = (\<lambda>_. None), db_do = engine_do,
     db_rand = State_Monad.return 0, db_getenv = getenv, db_parse_create = Inr,
     db_parse_inspect = (\<lambda>b. Inr ([], b))\<rparr>"

interpretation docker: docker_workers "engine_backend cfg pfx getenv" "\<lambda>w. True" map_of
  "\<lambda>w m. if map_of w m = None then None else Some m" "\<lambda>i. True" n
  for cfg pfx getenv n
  by unfold_locales
    (auto simp: engine_backend_def engine_do_def update_conv' delete_conv' split: option.splits if_splits)

section \<open>Properties of the payload\<close>

definition port_key :: "port_mapping \<Rightarrow> string" where
  "port_key pm = pm_container_port pm @ ''/'' @ (if pm_protocol pm = [] then ''tcp'' else pm_protocol pm)"

definition binding_of :: "(string \<times> docker_port_binding list) list \<Rightarrow> string \<Rightarrow> docker_port_binding list" where
  "binding_of bs key = (case map_of bs key of None \<Rightarrow> [] | Some x \<Rightarrow> x)"

lemma add_port_mapping_simps:
  "set (fst (add_port_mapping pm acc)) = insert (port_key pm) (set (fst acc))"
  "binding_of (snd (add_port_mapping pm acc)) key =
     binding_of (snd acc) key @
     (if key = port_key pm then [\<lparr>dp_host_ip = pm_host_ip pm, dp_host_port = pm_host_port pm\<rparr>] else [])"
  by (auto simp: add_port_mapping_def port_key_def binding_of_def Let_def case_prod_beta update_conv')

lemma fold_add_port_mapping:
  "set (fst (fold add_port_mapping pms acc)) = set (fst acc) \<union> port_key ` set pms"
  "binding_of (snd (fold add_port_mapping pms acc)) key =
     binding_of (snd acc) key @
     map (\<lambda>pm. \<lparr>dp_host_ip = pm_host_ip pm, dp_host_port = pm_host_port pm\<rparr>)
       (filter (\<lambda>pm. port_key pm = key) pms)"
  by (induction pms arbitrary: acc) (auto simp: add_port_mapping_simps)

text \<open>
  The Docker payload publishes exactly the requested ports: with port mappings and no
  console port, the exposed ports are the mappings' keys, the bindings of each key are its
  mappings in the order of the request (several mappings of one container port are all kept),
  and the host configuration is sent; the environment is one \<open>key=value\<close> line per variable,
  in the order of the sorted keys.
\<close>

theorem docker_payload_ports:
  assumes ports: "cq_ports req \<noteq> []" and console: "console_port = [] \<or> host_port \<le> 0"
  shows "(\<exists>hc. dc_host_config (build_create_payload req console_port host_port) = Some hc \<and>
      (\<forall>key. binding_of (dh_port_bindings hc) key =
         map (\<lambda>pm. \<lparr>dp_host_ip = pm_host_ip pm, dp_host_port = pm_host_port pm\<rparr>)
           (filter (\<lambda>pm. port_key pm = key) (cq_ports req)))) \<and>
    set (dc_exposed_ports (build_create_payload req console_port host_port)) =
      port_key ` set (cq_ports req) \<and>
    dc_env (build_create_payload req console_port host_port) =
      (let env = (case cq_env req of None \<Rightarrow> [] | Some e \<Rightarrow> e) in
       map (\<lambda>k. k @ ''='' @ smap_get env k) (sort_strings (map fst env)))"
proof -
  let ?acc = "fold add_port_mapping (cq_ports req) ([], [])"
  have no: "\<not> (console_port \<noteq> [] \<and> host_port > 0)"
    using console by auto
  have bind: "binding_of (snd ?acc) key =
      map (\<lambda>pm. \<lparr>dp_host_ip = pm_host_ip pm, dp_host_port = pm_host_port pm\<rparr>)
        (filter (\<lambda>pm. port_key pm = key) (cq_ports req))" for key
    by (simp add: fold_add_port_mapping) (simp add: binding_of_def)
  obtain pm where "pm \<in> set (cq_ports req)"
    using ports by (cases "cq_ports req") auto
  then have "binding_of (snd ?acc) (port_key pm) \<noteq> []"
    by (auto simp: bind filter_empty_conv)
  then have "snd ?acc \<noteq> []"
    by (auto simp: binding_of_def)
  then show ?thesis
    using bind fold_add_port_mapping(1) [of "cq_ports req" "([], [])"]
    unfolding build_create_payload_def Let_def case_prod_beta if_not_P [OF no] by simp
qed

theorem docker_payload_ports_witness:
  "set (dc_exposed_ports (build_create_payload (zero_create_request\<lparr>cq_ports :=
      [\<lparr>pm_host_ip = [], pm_host_port = ''18080'', pm_container_port = ''8080'', pm_protocol = []\<rparr>]\<rparr>)
      [] 0)) = {''8080/tcp''}"
  using docker_payload_ports [of "zero_create_request\<lparr>cq_ports :=
      [\<lparr>pm_host_ip = [], pm_host_port = ''18080'', pm_container_port = ''8080'', pm_protocol = []\<rparr>]\<rparr>" "[]" 0]
  by (simp add: port_key_def)

end
