(* ===== verification/Member_Reconcile.thy ===== *)
theory Member_Reconcile
  imports Worker_Env Auth_Prefix Backend_Docker
begin

text \<open>
  \<open>internal/controller/member_reconcile.go\<close>: the phases that converge one worker-like member
  (standalone worker, team leader, team worker). The provisioner and the deployer are records of
  the operations the phases call, over a world \<open>'w\<close>. \<open>reconcile.Result\<close> is always empty in
  these functions and is left out; a phase returns the updated member state and its error.
\<close>

datatype member_role = Role_Standalone | Role_Team_Leader | Role_Team_Worker

fun member_role_string :: "member_role \<Rightarrow> string" where
  "member_role_string Role_Standalone = ''standalone''"
| "member_role_string Role_Team_Leader = ''team_leader''"
| "member_role_string Role_Team_Worker = ''worker''"

record heartbeat_config =
  hc_enabled :: bool
  hc_every :: string

record model_provider_info =
  mpi_http_api_id :: string
  mpi_base_path :: string
  mpi_intranet_url :: string

record member_context =
  mx_name :: string
  mx_runtime_name :: string
  mx_namespace :: string
  mx_role :: member_role
  mx_spec :: worker_spec
  mx_generation :: int
  mx_observed_generation :: int
  mx_spec_changed :: bool
  mx_is_update :: bool
  mx_team_name :: string
  mx_team_leader_name :: string
  mx_team_admin_matrix_id :: string
  mx_team_coordinator_ids :: "string list"
  mx_heartbeat :: "heartbeat_config option"
  mx_existing_matrix_user_id :: string
  mx_existing_room_id :: string
  mx_current_exposed_ports :: "exposed_port_status list option"
  mx_pod_labels :: smap
  mx_owner :: "(string \<times> string) option"
  mx_model_provider :: "model_provider_info option"

record member_state =
  mt_matrix_user_id :: string
  mt_room_id :: string
  mt_container_state :: string
  mt_exposed_ports :: "exposed_port_status list option"
  mt_prov_result :: "worker_provision_result option"

definition zero_member_state :: member_state where
  "zero_member_state = \<lparr>mt_matrix_user_id = [], mt_room_id = [], mt_container_state = [],
     mt_exposed_ports = None, mt_prov_result = None\<rparr>"

record worker_provision_request =
  wq_name :: string
  wq_credential_name :: string
  wq_model_provider_id :: string
  wq_role :: string
  wq_team_name :: string
  wq_team_leader_name :: string

record worker_deprovision_request =
  dq_name :: string
  dq_is_team_worker :: bool
  dq_exposed_ports :: "exposed_port_status list option"
  dq_expose_spec :: "expose_port list"

record worker_deploy_request =
  yq_name :: string
  yq_spec :: worker_spec
  yq_role :: string
  yq_team_name :: string
  yq_team_leader_name :: string
  yq_matrix_token :: string
  yq_gateway_key :: string
  yq_matrix_password :: string
  yq_ai_gateway_url :: string
  yq_mcp_servers :: "mcp_server list"
  yq_team_admin_matrix_id :: string
  yq_team_coordinator_ids :: "string list"
  yq_heartbeat :: "heartbeat_config option"
  yq_is_update :: bool

record 'w worker_provisioner =
  wp_provision_worker :: "worker_provision_request \<Rightarrow> ('w, worker_provision_result result) state"
  wp_deprovision_worker :: "worker_deprovision_request \<Rightarrow> ('w, go_error option) state"
  wp_refresh_worker_credentials :: "string \<Rightarrow> string \<Rightarrow> ('w, refresh_result result) state"
  wp_reconcile_expose :: "string \<Rightarrow> expose_port list \<Rightarrow> exposed_port_status list option \<Rightarrow>
    ('w, exposed_port_status list option \<times> go_error option) state"
  wp_ensure_service_account :: "string \<Rightarrow> ('w, go_error option) state"
  wp_delete_service_account :: "string \<Rightarrow> ('w, go_error option) state"
  wp_delete_worker_credentials :: "string \<Rightarrow> ('w, go_error option) state"
  wp_request_sa_token :: "string \<Rightarrow> ('w, string \<times> go_error option) state"
  wp_leave_all_worker_rooms :: "string \<Rightarrow> ('w, go_error option) state"
  wp_delete_worker_room :: "string \<Rightarrow> ('w, go_error option) state"
  wp_delete_worker_room_alias :: "string \<Rightarrow> ('w, go_error option) state"

record 'w worker_deployer =
  wy_deploy_package :: "string \<Rightarrow> string \<Rightarrow> bool \<Rightarrow> ('w, go_error option) state"
  wy_write_inline_configs :: "string \<Rightarrow> worker_spec \<Rightarrow> ('w, go_error option) state"
  wy_deploy_worker_config :: "worker_deploy_request \<Rightarrow> ('w, go_error option) state"
  wy_push_on_demand_skills ::
    "string \<Rightarrow> string list \<Rightarrow> remote_skill_source list \<Rightarrow> ('w, go_error option) state"
  wy_cleanup_oss_data :: "string \<Rightarrow> ('w, go_error option) state"

text \<open>\<open>None\<close> as the registry or the gateway client is a nil pointer.\<close>

record 'w member_deps =
  md_provisioner :: "'w worker_provisioner"
  md_deployer :: "'w worker_deployer"
  md_backends :: "'w worker_backend list option"
  md_env_build :: "string \<Rightarrow> worker_provision_result \<Rightarrow> smap"
  md_authorize_ai_routes :: "(string \<Rightarrow> string \<Rightarrow> ('w, go_error option) state) option"
  md_resource_prefix :: resource_prefix
  md_default_runtime :: string

section \<open>Infrastructure, service account, configuration\<close>

definition prov_of_refresh :: "string \<Rightarrow> string \<Rightarrow> refresh_result \<Rightarrow> worker_provision_result" where
  "prov_of_refresh matrix_user_id room_id r = \<lparr>pr_matrix_user_id = matrix_user_id,
     pr_matrix_token = rr_matrix_token r, pr_room_id = room_id, pr_gateway_key = rr_gateway_key r,
     pr_minio_password = rr_minio_password r, pr_matrix_password = rr_matrix_password r\<rparr>"

definition reconcile_member_infra ::
  "'w member_deps \<Rightarrow> member_context \<Rightarrow> member_state \<Rightarrow> ('w, member_state \<times> go_error option) state" where
  "reconcile_member_infra d m st =
     (if mx_existing_matrix_user_id m \<noteq> []
      then do {
        r \<leftarrow> wp_refresh_worker_credentials (md_provisioner d) (mx_name m) (mx_runtime_name m);
        State_Monad.return
          (case r of
             Inl e \<Rightarrow> (st, Some (Wrap ''refresh credentials'' e))
           | Inr rr \<Rightarrow>
               (st\<lparr>mt_matrix_user_id := mx_existing_matrix_user_id m,
                   mt_room_id := mx_existing_room_id m,
                   mt_prov_result := Some (prov_of_refresh (mx_existing_matrix_user_id m)
                      (mx_existing_room_id m) rr)\<rparr>, None))
      }
      else do {
        r \<leftarrow> wp_provision_worker (md_provisioner d)
               \<lparr>wq_name = mx_runtime_name m, wq_credential_name = mx_name m,
                wq_model_provider_id =
                  (case mx_model_provider m of None \<Rightarrow> [] | Some i \<Rightarrow> mpi_http_api_id i),
                wq_role = member_role_string (mx_role m), wq_team_name = mx_team_name m,
                wq_team_leader_name = mx_team_leader_name m\<rparr>;
        State_Monad.return
          (case r of
             Inl e \<Rightarrow> (st, Some (Wrap ''provision worker'' e))
           | Inr p \<Rightarrow>
               (st\<lparr>mt_matrix_user_id := pr_matrix_user_id p, mt_room_id := pr_room_id p,
                   mt_prov_result := Some p\<rparr>, None))
      })"

definition ensure_model_provider_auth ::
  "'w member_deps \<Rightarrow> member_context \<Rightarrow> member_state \<Rightarrow> ('w, go_error option) state" where
  "ensure_model_provider_auth d m st =
     (case (mx_model_provider m, md_authorize_ai_routes d, mt_prov_result st) of
        (Some info, Some authorize_routes, Some prov) \<Rightarrow>
          if pr_gateway_key prov = [] then State_Monad.return None
          else do {
            e \<leftarrow> authorize_routes (''worker-'' @ mx_runtime_name m) (mpi_http_api_id info);
            State_Monad.return
              (map_option (Wrap (''authorize model provider '' @ mpi_http_api_id info)) e)
          }
      | _ \<Rightarrow> State_Monad.return None)"

definition ensure_member_service_account ::
  "'w member_deps \<Rightarrow> member_context \<Rightarrow> ('w, go_error option) state" where
  "ensure_member_service_account d m = do {
     e \<leftarrow> wp_ensure_service_account (md_provisioner d) (mx_name m);
     State_Monad.return (map_option (Wrap ''ServiceAccount'') e)
   }"

text \<open>
  The deploy request has no coordinator ids: the composite literal in the code does not set the
  field, so it is nil whatever the member context carries.
\<close>

definition member_deploy_request :: "member_context \<Rightarrow> worker_provision_result \<Rightarrow> worker_deploy_request" where
  "member_deploy_request m prov =
     \<lparr>yq_name = mx_runtime_name m, yq_spec = mx_spec m, yq_role = member_role_string (mx_role m),
      yq_team_name = mx_team_name m, yq_team_leader_name = mx_team_leader_name m,
      yq_matrix_token = pr_matrix_token prov, yq_gateway_key = pr_gateway_key prov,
      yq_matrix_password = pr_matrix_password prov,
      yq_ai_gateway_url = (case mx_model_provider m of None \<Rightarrow> [] | Some i \<Rightarrow> mpi_intranet_url i),
      yq_mcp_servers = ws_mcp_servers (mx_spec m),
      yq_team_admin_matrix_id = mx_team_admin_matrix_id m, yq_team_coordinator_ids = [],
      yq_heartbeat = mx_heartbeat m, yq_is_update = mx_is_update m\<rparr>"

definition reconcile_member_config ::
  "'w member_deps \<Rightarrow> member_context \<Rightarrow> member_state \<Rightarrow> ('w, go_error option) state" where
  "reconcile_member_config d m st =
     (case mt_prov_result st of
        None \<Rightarrow> State_Monad.return None
      | Some prov \<Rightarrow> do {
          e1 \<leftarrow> wy_deploy_package (md_deployer d) (mx_runtime_name m) (ws_package (mx_spec m))
                 (mx_is_update m);
          (case e1 of
             Some e \<Rightarrow> State_Monad.return (Some (Wrap ''deploy package'' e))
           | None \<Rightarrow> do {
               e2 \<leftarrow> wy_write_inline_configs (md_deployer d) (mx_runtime_name m) (mx_spec m);
               (case e2 of
                  Some e \<Rightarrow> State_Monad.return (Some (Wrap ''write inline configs'' e))
                | None \<Rightarrow> do {
                    e3 \<leftarrow> wy_deploy_worker_config (md_deployer d) (member_deploy_request m prov);
                    (case e3 of
                       Some e \<Rightarrow> State_Monad.return (Some (Wrap ''deploy worker config'' e))
                     | None \<Rightarrow> do {
                         _ \<leftarrow> wy_push_on_demand_skills (md_deployer d) (mx_runtime_name m)
                                (ws_skills (mx_spec m)) (ws_remote_skills (mx_spec m));
                         State_Monad.return None
                       })
                  })
             })
        })"

section \<open>Container\<close>

definition docker_host_internal :: string where
  "docker_host_internal = ''host.docker.internal:host-gateway''"

definition extra_hosts_for_backend :: "string \<Rightarrow> string list" where
  "extra_hosts_for_backend backend_name =
     (if backend_name = ''docker'' then [docker_host_internal] else [])"

definition member_env :: "'w member_deps \<Rightarrow> member_context \<Rightarrow> worker_provision_result \<Rightarrow> smap" where
  "member_env d m prov =
     (let e1 = smap_put ''HICLAW_WORKER_CR_NAME'' (mx_name m) (md_env_build d (mx_runtime_name m) prov);
          e2 = (case mx_model_provider m of
                  Some i \<Rightarrow> if mpi_intranet_url i \<noteq> []
                             then smap_put ''HICLAW_AI_GATEWAY_URL'' (mpi_intranet_url i) e1 else e1
                | None \<Rightarrow> e1)
      in fst (merge_user_env e2 (ws_env (mx_spec m))))"

definition member_labels :: "'w member_deps \<Rightarrow> member_context \<Rightarrow> smap" where
  "member_labels d m =
     smap_put ''hiclaw.io/worker'' (mx_name m)
       (smap_put ''app'' (worker_app_label (md_resource_prefix d))
          (smap_put_all (mx_pod_labels m) []))"

definition member_create_request ::
  "'w member_deps \<Rightarrow> member_context \<Rightarrow> worker_provision_result \<Rightarrow> string \<Rightarrow> string \<Rightarrow> create_request" where
  "member_create_request d m prov backend_name auth_token = zero_create_request
     \<lparr>cq_name := mx_name m, cq_image := ws_image (mx_spec m), cq_runtime := ws_runtime (mx_spec m),
      cq_runtime_fallback := md_default_runtime d, cq_env := Some (member_env d m prov),
      cq_extra_hosts := extra_hosts_for_backend backend_name,
      cq_service_account := sa_name (md_resource_prefix d) role_worker (mx_name m),
      cq_resources := agent_resources_to_backend (ws_resources (mx_spec m)),
      cq_labels := member_labels d m, cq_owner := mx_owner m, cq_auth_token := auth_token\<rparr>"

definition create_member_container ::
  "'w member_deps \<Rightarrow> member_context \<Rightarrow> member_state \<Rightarrow> 'w worker_backend \<Rightarrow>
   ('w, member_state \<times> go_error option) state" where
  "create_member_container d m st wb = do {
     pr \<leftarrow> (if (case mt_prov_result st of None \<Rightarrow> True | Some p \<Rightarrow> pr_matrix_token p = [])
           then do {
             r \<leftarrow> wp_refresh_worker_credentials (md_provisioner d) (mx_name m) (mx_runtime_name m);
             State_Monad.return
               (case r of
                  Inl e \<Rightarrow> Inl (Wrap ''refresh credentials for container'' e)
                | Inr rr \<Rightarrow> Inr (prov_of_refresh (mt_matrix_user_id st) (mt_room_id st) rr))
           }
           else State_Monad.return (Inr (the (mt_prov_result st))));
     (case pr of
        Inl e \<Rightarrow> State_Monad.return (st, Some e)
      | Inr prov \<Rightarrow> do {
          token \<leftarrow> (if wb_name wb \<noteq> ''k8s''
                   then do {
                     t \<leftarrow> wp_request_sa_token (md_provisioner d) (mx_name m);
                     State_Monad.return (fst t)
                   }
                   else State_Monad.return []);
          c \<leftarrow> wb_create wb (member_create_request d m prov (wb_name wb) token);
          State_Monad.return
            (st\<lparr>mt_prov_result := Some prov\<rparr>,
             (case c of
                Inr r \<Rightarrow> None
              | Inl e \<Rightarrow> if is_err_conflict e then None else Some (Wrap ''create container'' e)))
        })
   }"

text \<open>Deleting before a recreate, with the wrapper of the branch.\<close>

definition delete_then_create ::
  "'w member_deps \<Rightarrow> member_context \<Rightarrow> member_state \<Rightarrow> 'w worker_backend \<Rightarrow> string \<Rightarrow>
   ('w, member_state \<times> go_error option) state" where
  "delete_then_create d m st wb what = do {
     e \<leftarrow> wb_delete wb (mx_name m);
     (case e of
        Some x \<Rightarrow>
          if is_err_not_found x then create_member_container d m st wb
          else State_Monad.return (st, Some (Wrap what x))
      | None \<Rightarrow> create_member_container d m st wb)
   }"

definition detect_backend :: "'w member_deps \<Rightarrow> ('w, 'w worker_backend option) state" where
  "detect_backend d =
     (case md_backends d of None \<Rightarrow> State_Monad.return None | Some bs \<Rightarrow> detect_worker_backend bs)"

definition ensure_member_container_present ::
  "'w member_deps \<Rightarrow> member_context \<Rightarrow> member_state \<Rightarrow> ('w, member_state \<times> go_error option) state" where
  "ensure_member_container_present d m st = do {
     b \<leftarrow> detect_backend d;
     (case b of
        None \<Rightarrow> State_Monad.return (st, None)
      | Some wb \<Rightarrow> do {
          r \<leftarrow> wb_status wb (mx_name m);
          (case r of
             Inl e \<Rightarrow> State_Monad.return (st, Some (Wrap ''query container status'' e))
           | Inr res \<Rightarrow>
               (let st' = st\<lparr>mt_container_state := status_text (wr_status res)\<rparr> in
                if wr_status res \<in> {Status_Running, Status_Starting, Status_Ready}
                then if \<not> mx_spec_changed m then State_Monad.return (st', None)
                     else delete_then_create d m st' wb ''delete container for recreate''
                else if wr_status res = Status_Stopped
                then if wb_name wb = ''docker'' \<and> \<not> mx_spec_changed m
                     then do {
                       e \<leftarrow> wb_start wb (mx_name m);
                       State_Monad.return (st', map_option (Wrap ''start container'') e)
                     }
                     else delete_then_create d m st' wb ''delete stale container''
                else if wr_status res = Status_NotFound
                then create_member_container d m st wb
                else delete_then_create d m st' wb ''delete container in unknown state''))
        })
   }"

definition ensure_member_container_absent ::
  "'w member_deps \<Rightarrow> member_context \<Rightarrow> bool \<Rightarrow> ('w, go_error option) state" where
  "ensure_member_container_absent d m remove = do {
     b \<leftarrow> detect_backend d;
     (case b of
        None \<Rightarrow> State_Monad.return None
      | Some wb \<Rightarrow> do {
          e \<leftarrow> (if remove then wb_delete wb (mx_name m) else wb_stop wb (mx_name m));
          State_Monad.return
            (case e of
               None \<Rightarrow> None
             | Some x \<Rightarrow> if is_err_not_found x then None
                         else Some (Wrap (if remove then ''delete container'' else ''stop container'') x))
        })
   }"

definition reconcile_member_container ::
  "'w member_deps \<Rightarrow> member_context \<Rightarrow> member_state \<Rightarrow> ('w, member_state \<times> go_error option) state" where
  "reconcile_member_container d m st =
     (if mt_prov_result st = None then State_Monad.return (st, None)
      else if \<not> desired_container_man (mx_spec m) then State_Monad.return (st, None)
      else let desired = worker_desired_state (mx_spec m) in
        if desired = ''Stopped''
        then do { e \<leftarrow> ensure_member_container_absent d m True; State_Monad.return (st, e) }
        else if desired = ''Sleeping''
        then do { e \<leftarrow> ensure_member_container_absent d m False; State_Monad.return (st, e) }
        else ensure_member_container_present d m st)"

section \<open>Exposed ports and deletion\<close>

definition reconcile_member_expose ::
  "'w member_deps \<Rightarrow> member_context \<Rightarrow> member_state \<Rightarrow> ('w, member_state) state" where
  "reconcile_member_expose d m st =
     (if ws_expose (mx_spec m) = [] \<and>
         (case mx_current_exposed_ports m of None \<Rightarrow> True | Some ps \<Rightarrow> ps = [])
      then State_Monad.return (st\<lparr>mt_exposed_ports := None\<rparr>)
      else do {
        r \<leftarrow> wp_reconcile_expose (md_provisioner d) (mx_name m) (ws_expose (mx_spec m))
               (mx_current_exposed_ports m);
        State_Monad.return
          (case snd r of
             Some e \<Rightarrow> st\<lparr>mt_exposed_ports := mx_current_exposed_ports m\<rparr>
           | None \<Rightarrow> st\<lparr>mt_exposed_ports := fst r\<rparr>)
      })"

text \<open>Every step of the deletion is attempted; errors are only logged and the result is nil.\<close>

definition reconcile_member_delete ::
  "'w member_deps \<Rightarrow> member_context \<Rightarrow> ('w, go_error option) state" where
  "reconcile_member_delete d m = do {
     _ \<leftarrow> wp_leave_all_worker_rooms (md_provisioner d) (mx_runtime_name m);
     _ \<leftarrow> (if mx_existing_room_id m \<noteq> []
          then wp_delete_worker_room (md_provisioner d) (mx_existing_room_id m)
          else State_Monad.return None);
     _ \<leftarrow> wp_deprovision_worker (md_provisioner d)
            \<lparr>dq_name = mx_runtime_name m,
             dq_is_team_worker = (mx_role m = Role_Team_Worker \<or> mx_role m = Role_Team_Leader),
             dq_exposed_ports = mx_current_exposed_ports m,
             dq_expose_spec = ws_expose (mx_spec m)\<rparr>;
     b \<leftarrow> detect_backend d;
     _ \<leftarrow> (case b of
            Some wb \<Rightarrow> wb_delete wb (mx_name m)
          | None \<Rightarrow> State_Monad.return None);
     _ \<leftarrow> wy_cleanup_oss_data (md_deployer d) (mx_runtime_name m);
     _ \<leftarrow> wp_delete_worker_credentials (md_provisioner d) (mx_name m);
     _ \<leftarrow> wp_delete_service_account (md_provisioner d) (mx_name m);
     _ \<leftarrow> wp_delete_worker_room_alias (md_provisioner d) (mx_runtime_name m);
     State_Monad.return None
   }"

end
