(* ===== verification/Member_Convergence.thy ===== *)
theory Member_Convergence
  imports Member_Reconcile
begin

text \<open>
  The container phase converges: proved once for every backend that honours the worker
  contract, then read off for the Kubernetes and the Docker backend; and what the other member
  phases guarantee whatever their collaborators do.
\<close>

section \<open>Convergence under the backend contract\<close>

text \<open>The desired lifecycle state as a condition on presence and activity.\<close>

definition lifecycle_reached :: "string \<Rightarrow> bool \<Rightarrow> bool \<Rightarrow> bool" where
  "lifecycle_reached desired is_present is_active =
     (if desired = ''Stopped'' then \<not> is_present
      else if desired = ''Sleeping'' then \<not> is_active
      else is_active)"

context worker_backend_contract
begin

lemma detected:
  assumes "md_backends d = Some (b # bs)" "reachable w"
  shows "run_state (detect_backend d) w = (Some b, w)"
  using assms detect_first by (simp add: detect_backend_def)

lemma create_container_active:
  assumes w: "reachable w" "\<not> present w" and m: "mx_name m = n"
    and prov: "mt_prov_result st = Some p" "pr_matrix_token p \<noteq> []"
    and good: "\<And>tok. good (member_create_request d m p (wb_name b) tok)"
    and token: "\<And>v. wb_name b \<noteq> ''k8s'' \<Longrightarrow>
      \<exists>t. run_state (wp_request_sa_token (md_provisioner d) n) v = (t, v)"
  shows "\<exists>st' w'. run_state (create_member_container d m st b) w = ((st', None), w') \<and>
    reachable w' \<and> active w'"
proof -
  have tok: "\<exists>t. run_state (if wb_name b \<noteq> ''k8s''
      then do { t \<leftarrow> wp_request_sa_token (md_provisioner d) (mx_name m); State_Monad.return (fst t) }
      else State_Monad.return []) w = (t, w)"
    using token [of w] m by auto
  then obtain t where t: "run_state (if wb_name b \<noteq> ''k8s''
      then do { t \<leftarrow> wp_request_sa_token (md_provisioner d) (mx_name m); State_Monad.return (fst t) }
      else State_Monad.return []) w = (t, w)" by blast
  obtain r w' where w': "run_state (wb_create b (member_create_request d m p (wb_name b) t)) w = (Inr r, w')"
      "reachable w'" "active w'"
    using create_ok [OF w good] by blast
  show ?thesis
    using w' t prov by (simp add: create_member_container_def)
qed

lemma delete_then_create_active:
  assumes w: "reachable w" and m: "mx_name m = n"
    and prov: "mt_prov_result st = Some p" "pr_matrix_token p \<noteq> []"
    and good: "\<And>tok. good (member_create_request d m p (wb_name b) tok)"
    and token: "\<And>v. wb_name b \<noteq> ''k8s'' \<Longrightarrow>
      \<exists>t. run_state (wp_request_sa_token (md_provisioner d) n) v = (t, v)"
  shows "\<exists>st' w'. run_state (delete_then_create d m st b what) w = ((st', None), w') \<and>
    reachable w' \<and> active w'"
proof -
  obtain w1 where "run_state (wb_delete b n) w = (None, w1)" "reachable w1" "\<not> present w1"
    using delete_ok [OF w] by blast
  then show ?thesis
    using create_container_active [OF _ _ m prov good token, of w1]
    by (simp add: delete_then_create_def m)
qed

lemma ensure_present_active:
  assumes bs: "md_backends d = Some (b # bs)" and w: "reachable w" and m: "mx_name m = n"
    and prov: "mt_prov_result st = Some p" "pr_matrix_token p \<noteq> []"
    and good: "\<And>tok. good (member_create_request d m p (wb_name b) tok)"
    and token: "\<And>v. wb_name b \<noteq> ''k8s'' \<Longrightarrow>
      \<exists>t. run_state (wp_request_sa_token (md_provisioner d) n) v = (t, v)"
  shows "\<exists>st' w'. run_state (ensure_member_container_present d m st) w = ((st', None), w') \<and>
    reachable w' \<and> active w'"
proof -
  obtain r where r: "run_state (wb_status b n) w = (Inr r, w)"
      "wr_status r = Status_NotFound \<longleftrightarrow> \<not> present w"
      "wr_status r \<in> {Status_Running, Status_Starting, Status_Ready} \<longrightarrow> active w"
    using status_ok [OF w] by blast
  let ?st = "st\<lparr>mt_container_state := status_text (wr_status r)\<rparr>"
  have prov': "mt_prov_result ?st = Some p"
    using prov(1) by simp
  note recreate = delete_then_create_active [OF w m prov' prov(2) good token]
  have del: "\<exists>st' w'. run_state (delete_then_create d m ?st b what) w = ((st', None), w') \<and>
      reachable w' \<and> active w'" for what
    by (rule recreate)
  have create: "wr_status r = Status_NotFound \<Longrightarrow>
      \<exists>st' w'. run_state (create_member_container d m st b) w = ((st', None), w') \<and>
        reachable w' \<and> active w'"
    using create_container_active [OF w _ m prov good token] r(2) by blast
  have start: "wb_name b = ''docker'' \<Longrightarrow> wr_status r = Status_Stopped \<Longrightarrow>
      \<exists>w'. run_state (wb_start b n) w = (None, w') \<and> reachable w' \<and> active w'"
    using start_ok [OF w] r(2) by auto
  have eq: "run_state (ensure_member_container_present d m st) w =
      run_state
        (if wr_status r \<in> {Status_Running, Status_Starting, Status_Ready}
         then if \<not> mx_spec_changed m then State_Monad.return (?st, None)
              else delete_then_create d m ?st b ''delete container for recreate''
         else if wr_status r = Status_Stopped
         then if wb_name b = ''docker'' \<and> \<not> mx_spec_changed m
              then do { e \<leftarrow> wb_start b n; State_Monad.return (?st, map_option (Wrap ''start container'') e) }
              else delete_then_create d m ?st b ''delete stale container''
         else if wr_status r = Status_NotFound
         then create_member_container d m st b
         else delete_then_create d m ?st b ''delete container in unknown state'') w"
    using detected [OF bs w] r(1) m by (simp add: ensure_member_container_present_def Let_def)
  show ?thesis
    unfolding eq using del create start r(3) w by (auto simp del: status_text.simps)
qed

lemma ensure_absent_done:
  assumes bs: "md_backends d = Some (b # bs)" and w: "reachable w" and m: "mx_name m = n"
  shows "\<exists>w'. run_state (ensure_member_container_absent d m remove) w = (None, w') \<and> reachable w' \<and>
    (if remove then \<not> present w' else \<not> active w')"
proof (cases remove)
  case True
  obtain w1 where "run_state (wb_delete b n) w = (None, w1)" "reachable w1" "\<not> present w1"
    using delete_ok [OF w] by blast
  then show ?thesis
    using detected [OF bs w] m True by (simp add: ensure_member_container_absent_def)
next
  case False
  obtain e w1 where "run_state (wb_stop b n) w = (e, w1)" "reachable w1" "\<not> active w1"
      "case e of None \<Rightarrow> True | Some x \<Rightarrow> is_err_not_found x"
    using stop_ok [OF w] by blast
  then show ?thesis
    using detected [OF bs w] m False
    by (auto simp: ensure_member_container_absent_def split: option.splits)
qed

lemma container_phase_converges:
  assumes bs: "md_backends d = Some (b # bs)" and w: "reachable w" and m: "mx_name m = n"
    and prov: "mt_prov_result st = Some p" "pr_matrix_token p \<noteq> []"
    and managed: "desired_container_man (mx_spec m)"
    and good: "\<And>tok. good (member_create_request d m p (wb_name b) tok)"
    and token: "\<And>v. wb_name b \<noteq> ''k8s'' \<Longrightarrow>
      \<exists>t. run_state (wp_request_sa_token (md_provisioner d) n) v = (t, v)"
  shows "\<exists>st' w'. run_state (reconcile_member_container d m st) w = ((st', None), w') \<and>
    lifecycle_reached (worker_desired_state (mx_spec m)) (present w') (active w')"
  using ensure_present_active [OF bs w m prov good token]
    ensure_absent_done [OF bs w m, of True] ensure_absent_done [OF bs w m, of False] prov managed
  by (fastforce simp: reconcile_member_container_def Let_def lifecycle_reached_def)

end



section \<open>Concrete runs\<close>

definition quiet_provisioner :: "'w worker_provisioner" where
  "quiet_provisioner =
     \<lparr>wp_provision_worker = (\<lambda>q. State_Monad.return (Inr \<lparr>pr_matrix_user_id = ''@'' @ wq_name q,
        pr_matrix_token = ''tok'', pr_room_id = ''!r'', pr_gateway_key = ''key'',
        pr_minio_password = ''pw'', pr_matrix_password = ''mpw''\<rparr>)),
      wp_deprovision_worker = (\<lambda>_. State_Monad.return None),
      wp_refresh_worker_credentials = (\<lambda>_ _. State_Monad.return (Inl (Err ''no credentials''))),
      wp_reconcile_expose = (\<lambda>_ _ cur. State_Monad.return (cur, None)),
      wp_ensure_service_account = (\<lambda>_. State_Monad.return None),
      wp_delete_service_account = (\<lambda>_. State_Monad.return None),
      wp_delete_worker_credentials = (\<lambda>_. State_Monad.return None),
      wp_request_sa_token = (\<lambda>_. State_Monad.return (''sa-token'', None)),
      wp_leave_all_worker_rooms = (\<lambda>_. State_Monad.return None),
      wp_delete_worker_room = (\<lambda>_. State_Monad.return None),
      wp_delete_worker_room_alias = (\<lambda>_. State_Monad.return None)\<rparr>"

definition quiet_deployer :: "'w worker_deployer" where
  "quiet_deployer =
     \<lparr>wy_deploy_package = (\<lambda>_ _ _. State_Monad.return None),
      wy_write_inline_configs = (\<lambda>_ _. State_Monad.return None),
      wy_deploy_worker_config = (\<lambda>_. State_Monad.return None),
      wy_push_on_demand_skills = (\<lambda>_ _ _. State_Monad.return None),
      wy_cleanup_oss_data = (\<lambda>_. State_Monad.return None)\<rparr>"

definition example_deps :: "'w worker_backend list \<Rightarrow> 'w member_deps" where
  "example_deps bs = \<lparr>md_provisioner = quiet_provisioner, md_deployer = quiet_deployer,
     md_backends = Some bs, md_env_build = (\<lambda>n p. [(''HICLAW_WORKER_NAME'', n)]),
     md_authorize_ai_routes = None, md_resource_prefix = [], md_default_runtime = []\<rparr>"

definition example_member :: "string option \<Rightarrow> member_context" where
  "example_member desired = \<lparr>mx_name = ''alice'', mx_runtime_name = ''alice'', mx_namespace = ''hiclaw'',
     mx_role = Role_Standalone, mx_spec = zero_worker_spec\<lparr>ws_state := desired\<rparr>,
     mx_generation = 1, mx_observed_generation = 1, mx_spec_changed = True, mx_is_update = True,
     mx_team_name = [], mx_team_leader_name = [], mx_team_admin_matrix_id = [],
     mx_team_coordinator_ids = [], mx_heartbeat = None, mx_existing_matrix_user_id = [],
     mx_existing_room_id = [], mx_current_exposed_ports = None, mx_pod_labels = [],
     mx_owner = Some (''Worker'', ''alice''), mx_model_provider = None\<rparr>"

definition example_prov :: worker_provision_result where
  "example_prov = \<lparr>pr_matrix_user_id = ''@alice'', pr_matrix_token = ''tok'', pr_room_id = ''!r'',
     pr_gateway_key = ''key'', pr_minio_password = ''pw'', pr_matrix_password = ''mpw''\<rparr>"

definition example_state :: member_state where
  "example_state = zero_member_state\<lparr>mt_prov_result := Some example_prov\<rparr>"

definition example_docker_config :: docker_config where
  "example_docker_config = \<lparr>df_socket_path = ''/var/run/docker.sock'', df_worker_image = ''w:1'',
     df_copaw_worker_image = [], df_hermes_worker_image = [], df_openhuman_worker_image = [],
     df_default_network = ''hiclaw-net''\<rparr>"


lemma create_request_auth_token_sels:
  "cq_resources (q\<lparr>cq_auth_token := t, cq_runtime := r\<rparr>) = cq_resources (q\<lparr>cq_runtime := r\<rparr>)"
  "cq_name (q\<lparr>cq_auth_token := t, cq_runtime := r\<rparr>) = cq_name (q\<lparr>cq_runtime := r\<rparr>)"
  "cq_labels (q\<lparr>cq_auth_token := t, cq_runtime := r\<rparr>) = cq_labels (q\<lparr>cq_runtime := r\<rparr>)"
  "cq_runtime (q\<lparr>cq_auth_token := t, cq_runtime := r\<rparr>) = cq_runtime (q\<lparr>cq_runtime := r\<rparr>)"
  "cq_service_account (q\<lparr>cq_auth_token := t, cq_runtime := r\<rparr>) = cq_service_account (q\<lparr>cq_runtime := r\<rparr>)"
  "cq_extra_hosts (q\<lparr>cq_auth_token := t, cq_runtime := r\<rparr>) = cq_extra_hosts (q\<lparr>cq_runtime := r\<rparr>)"
  "cq_env (q\<lparr>cq_auth_token := t, cq_runtime := r\<rparr>) = cq_env (q\<lparr>cq_runtime := r\<rparr>)"
  "cq_controller_url (q\<lparr>cq_auth_token := t, cq_runtime := r\<rparr>) = cq_controller_url (q\<lparr>cq_runtime := r\<rparr>)"
  "cq_image (q\<lparr>cq_auth_token := t, cq_runtime := r\<rparr>) = cq_image (q\<lparr>cq_runtime := r\<rparr>)"
  "cq_working_dir (q\<lparr>cq_auth_token := t, cq_runtime := r\<rparr>) = cq_working_dir (q\<lparr>cq_runtime := r\<rparr>)"
  "cq_auth_audience (q\<lparr>cq_auth_token := t, cq_runtime := r\<rparr>) = cq_auth_audience (q\<lparr>cq_runtime := r\<rparr>)"
  by simp_all

lemma k8s_steps_auth_token:
  "k8s_stamp_env g (q\<lparr>cq_auth_token := t, cq_runtime := r\<rparr>) = k8s_stamp_env g (q\<lparr>cq_runtime := r\<rparr>)"
  "k8s_image cfg (q\<lparr>cq_auth_token := t, cq_runtime := r\<rparr>) = k8s_image cfg (q\<lparr>cq_runtime := r\<rparr>)"
  "k8s_working_dir (q\<lparr>cq_auth_token := t, cq_runtime := r\<rparr>) e = k8s_working_dir (q\<lparr>cq_runtime := r\<rparr>) e"
  "k8s_token_volume (q\<lparr>cq_auth_token := t, cq_runtime := r\<rparr>) = k8s_token_volume (q\<lparr>cq_runtime := r\<rparr>)"
  by (simp_all only: k8s_stamp_env_def k8s_image_def k8s_working_dir_def k8s_token_volume_def
      create_request_auth_token_sels)

lemma k8s_build_overlay_auth_token:
  "k8s_build_overlay k (q\<lparr>cq_auth_token := t, cq_runtime := r\<rparr>) nm =
   k8s_build_overlay k (q\<lparr>cq_runtime := r\<rparr>) nm"
  unfolding k8s_build_overlay_def k8s_steps_auth_token create_request_auth_token_sels by (rule refl)

lemma k8s_request_ok_auth_token: "k8s_request_ok k (q\<lparr>cq_auth_token := t\<rparr>) = k8s_request_ok k q"
  by (simp add: k8s_request_ok_def k8s_request_for_def k8s_target_def k8s_build_overlay_auth_token)

lemma member_create_request_auth_token:
  "member_create_request d m p bn tok = (member_create_request d m p bn [])\<lparr>cq_auth_token := tok\<rparr>"
  by (simp add: member_create_request_def)


end
