(* ===== verification/Provisioner_Expose.thy ===== *)
theory Provisioner_Expose
  imports Member_Reconcile
begin

text \<open>
  \<open>internal/service/provisioner_expose.go\<close>: the auto domain of an exposed port and the diff
  between the desired ports and the ports recorded in the status. The gateway client is a record
  of the two operations used; a nil client is \<open>None\<close>.
\<close>

record port_expose_request =
  px_worker_name :: string
  px_service_host :: string
  px_port :: int
  px_domain :: string

record 'w expose_gateway =
  eg_expose :: "port_expose_request \<Rightarrow> ('w, go_error option) state"
  eg_unexpose :: "port_expose_request \<Rightarrow> ('w, go_error option) state"

definition domain_for_expose :: "string \<Rightarrow> int \<Rightarrow> string" where
  "domain_for_expose worker_name port =
     ''worker-'' @ worker_name @ ''-'' @ show_int port @ ''-local.hiclaw.io''"

definition container_dns_name :: "string \<Rightarrow> string" where
  "container_dns_name worker_name = worker_name @ ''.local''"

definition current_set :: "exposed_port_status list \<Rightarrow> (int \<times> exposed_port_status) list" where
  "current_set current = fold (\<lambda>ep. AList.update (eps_port ep) ep) current []"

definition desired_ports :: "expose_port list \<Rightarrow> int list" where
  "desired_ports desired = fold (\<lambda>ep. List.insert (ep_port ep)) desired []"

definition expose_request :: "string \<Rightarrow> int \<Rightarrow> port_expose_request" where
  "expose_request worker_name port =
     \<lparr>px_worker_name = worker_name, px_service_host = container_dns_name worker_name,
      px_port = port, px_domain = domain_for_expose worker_name port\<rparr>"

definition unexpose_request :: "string \<Rightarrow> exposed_port_status \<Rightarrow> port_expose_request" where
  "unexpose_request worker_name ep =
     \<lparr>px_worker_name = worker_name, px_service_host = [], px_port = eps_port ep,
      px_domain = eps_domain ep\<rparr>"

definition first_error :: "go_error option \<Rightarrow> string \<Rightarrow> go_error \<Rightarrow> go_error option" where
  "first_error old what e = (case old of None \<Rightarrow> Some (Wrap what e) | Some x \<Rightarrow> Some x)"

fun expose_loop ::
  "'w expose_gateway \<Rightarrow> string \<Rightarrow> (int \<times> exposed_port_status) list \<Rightarrow> expose_port list \<Rightarrow>
   exposed_port_status list \<Rightarrow> go_error option \<Rightarrow>
   ('w, exposed_port_status list \<times> go_error option) state" where
  "expose_loop g wn cur [] res err = State_Monad.return (res, err)"
| "expose_loop g wn cur (ep # eps) res err =
     (case map_of cur (ep_port ep) of
        Some st \<Rightarrow> expose_loop g wn cur eps (res @ [st]) err
      | None \<Rightarrow> do {
          e \<leftarrow> eg_expose g (expose_request wn (ep_port ep));
          (case e of
             Some x \<Rightarrow> expose_loop g wn cur eps res
                         (first_error err (''expose port '' @ show_int (ep_port ep)) x)
           | None \<Rightarrow> expose_loop g wn cur eps
                (res @ [\<lparr>eps_port = ep_port ep, eps_domain = domain_for_expose wn (ep_port ep)\<rparr>]) err)
        })"

fun unexpose_loop ::
  "'w expose_gateway \<Rightarrow> string \<Rightarrow> int list \<Rightarrow> exposed_port_status list \<Rightarrow> go_error option \<Rightarrow>
   ('w, go_error option) state" where
  "unexpose_loop g wn des [] err = State_Monad.return err"
| "unexpose_loop g wn des (ep # eps) err =
     (if eps_port ep \<in> set des then unexpose_loop g wn des eps err
      else do {
        e \<leftarrow> eg_unexpose g (unexpose_request wn ep);
        unexpose_loop g wn des eps
          (case e of
             None \<Rightarrow> err
           | Some x \<Rightarrow> first_error err (''unexpose port '' @ show_int (eps_port ep)) x)
      })"

text \<open>A nil slice and an empty one are told apart: the result starts as nil.\<close>

definition reconcile_expose ::
  "'w expose_gateway option \<Rightarrow> string \<Rightarrow> expose_port list \<Rightarrow> exposed_port_status list option \<Rightarrow>
   ('w, exposed_port_status list option \<times> go_error option) state" where
  "reconcile_expose gateway worker_name desired current =
     (case gateway of
        None \<Rightarrow> State_Monad.return (current, None)
      | Some g \<Rightarrow>
          let cur = (case current of None \<Rightarrow> [] | Some c \<Rightarrow> c) in do {
            r \<leftarrow> expose_loop g worker_name (current_set cur) desired [] None;
            err \<leftarrow> unexpose_loop g worker_name (desired_ports desired) cur (snd r);
            State_Monad.return ((if fst r = [] then None else Some (fst r)), err)
          })"

section \<open>Any gateway, seen through its calls\<close>

text \<open>
  A gateway that records its calls and fails where \<open>fails\<close> says: every deterministic pattern of
  failures is one such oracle.
\<close>

datatype gateway_call = Expose port_expose_request | Unexpose port_expose_request

definition oracle_gateway :: "(gateway_call \<Rightarrow> go_error option) \<Rightarrow> gateway_call list expose_gateway" where
  "oracle_gateway fails =
     \<lparr>eg_expose = (\<lambda>r. State (\<lambda>log. (fails (Expose r), log @ [Expose r]))),
      eg_unexpose = (\<lambda>r. State (\<lambda>log. (fails (Unexpose r), log @ [Unexpose r])))\<rparr>"

lemma desired_ports_set [simp]: "set (desired_ports desired) = ep_port ` set desired"
proof -
  have "set (fold (\<lambda>ep. List.insert (ep_port ep)) desired acc) = set acc \<union> ep_port ` set desired" for acc
    by (induction desired arbitrary: acc) auto
  then show ?thesis by (simp add: desired_ports_def)
qed

lemma current_set_ports: "dom (map_of (current_set current)) = eps_port ` set current"
proof -
  have "dom (map_of (fold (\<lambda>ep. AList.update (eps_port ep) ep) current acc)) =
      dom (map_of acc) \<union> eps_port ` set current" for acc
    by (induction current arbitrary: acc) (auto simp: update_conv')
  then show ?thesis by (simp add: current_set_def)
qed

lemma current_set_distinct:
  assumes "distinct (map eps_port current)" "ep \<in> set current"
  shows "map_of (current_set current) (eps_port ep) = Some ep"
proof -
  have other: "p \<notin> eps_port ` set cs \<Longrightarrow>
      map_of (fold (\<lambda>ep. AList.update (eps_port ep) ep) cs acc) p = map_of acc p" for cs acc p
    by (induction cs arbitrary: acc) (auto simp: update_conv')
  have "distinct (map eps_port cs) \<Longrightarrow> ep \<in> set cs \<Longrightarrow>
      map_of (fold (\<lambda>ep. AList.update (eps_port ep) ep) cs acc) (eps_port ep) = Some ep" for cs acc
    by (induction cs arbitrary: acc) (auto simp: other update_conv')
  with assms show ?thesis by (simp add: current_set_def)
qed

text \<open>The entry a desired port gets, and whether the port needs a gateway call.\<close>

definition port_entry ::
  "(gateway_call \<Rightarrow> go_error option) \<Rightarrow> string \<Rightarrow> (int \<times> exposed_port_status) list \<Rightarrow> int \<Rightarrow>
   exposed_port_status option" where
  "port_entry fails wn cur p =
     (case map_of cur p of
        Some st \<Rightarrow> Some st
      | None \<Rightarrow> if fails (Expose (expose_request wn p)) = None
                then Some \<lparr>eps_port = p, eps_domain = domain_for_expose wn p\<rparr> else None)"

lemma expose_loop_oracle:
  "\<exists>err'. run_state (expose_loop (oracle_gateway fails) wn cur eps res err) log =
     ((res @ List.map_filter (\<lambda>ep. port_entry fails wn cur (ep_port ep)) eps, err'),
      log @ map (\<lambda>ep. Expose (expose_request wn (ep_port ep)))
        (filter (\<lambda>ep. map_of cur (ep_port ep) = None) eps)) \<and>
     (err' = None \<longleftrightarrow> err = None \<and>
        (\<forall>ep \<in> set eps. map_of cur (ep_port ep) = None \<longrightarrow>
           fails (Expose (expose_request wn (ep_port ep))) = None))"
proof (induction eps arbitrary: res err log)
  case (Cons ep eps)
  let ?p = "ep_port ep" and ?call = "Expose (expose_request wn (ep_port ep))"
  show ?case
  proof (cases "map_of cur ?p")
    case (Some st)
    then show ?thesis
      using Cons.IH [of "res @ [st]" err log]
      by (auto simp: port_entry_def List.map_filter_simps)
  next
    case None
    show ?thesis
    proof (cases "fails ?call")
      case ok: None
      then show ?thesis
        using None Cons.IH [of "res @ [\<lparr>eps_port = ?p, eps_domain = domain_for_expose wn ?p\<rparr>]" err "log @ [?call]"]
        by (auto simp: port_entry_def List.map_filter_simps oracle_gateway_def)
    next
      case (Some x)
      then show ?thesis
        using None Cons.IH [of res "first_error err (''expose port '' @ show_int ?p) x" "log @ [?call]"]
        by (auto simp: port_entry_def List.map_filter_simps oracle_gateway_def first_error_def
            split: option.splits)
    qed
  qed
qed (simp add: List.map_filter_simps)

lemma unexpose_loop_oracle:
  "\<exists>err'. run_state (unexpose_loop (oracle_gateway fails) wn des eps err) log =
     (err', log @ map (\<lambda>ep. Unexpose (unexpose_request wn ep)) (filter (\<lambda>ep. eps_port ep \<notin> set des) eps)) \<and>
     (err' = None \<longleftrightarrow> err = None \<and>
        (\<forall>ep \<in> set eps. eps_port ep \<notin> set des \<longrightarrow> fails (Unexpose (unexpose_request wn ep)) = None))"
proof (induction eps arbitrary: err log)
  case (Cons ep eps)
  let ?call = "Unexpose (unexpose_request wn ep)"
  let ?err = "case fails ?call of None \<Rightarrow> err
    | Some x \<Rightarrow> first_error err (''unexpose port '' @ show_int (eps_port ep)) x"
  show ?case
    using Cons.IH [of err log] Cons.IH [of ?err "log @ [?call]"]
    by (cases "eps_port ep \<in> set des"; cases "fails ?call")
      (auto simp: oracle_gateway_def first_error_def split: option.splits)
qed simp

section \<open>Properties\<close>

text \<open>
  Port reconciliation, for every pattern of gateway failures: exactly the desired ports that
  the status does not record are exposed, in order, and exactly the recorded ports that are no
  longer desired are unexposed; the returned status lists, in the order of the spec, the recorded
  entry of a kept port and a fresh entry for a port whose exposure succeeded, and leaves out the
  failed ones; an error is returned exactly if one of the calls failed.
\<close>

theorem reconcile_expose_exact:
  fixes fails worker_name desired current
  defines "cur \<equiv> current_set current"
  shows "\<exists>err. run_state (reconcile_expose (Some (oracle_gateway fails)) worker_name desired (Some current)) [] =
    ((case List.map_filter (\<lambda>ep. port_entry fails worker_name cur (ep_port ep)) desired of
        [] \<Rightarrow> None | x # xs \<Rightarrow> Some (x # xs), err),
     map (\<lambda>ep. Expose (expose_request worker_name (ep_port ep)))
       (filter (\<lambda>ep. ep_port ep \<notin> eps_port ` set current) desired) @
     map (\<lambda>ep. Unexpose (unexpose_request worker_name ep))
       (filter (\<lambda>ep. eps_port ep \<notin> ep_port ` set desired) current)) \<and>
    (err = None \<longleftrightarrow>
      (\<forall>ep. ep \<in> set desired \<and> ep_port ep \<notin> eps_port ` set current \<longrightarrow>
         fails (Expose (expose_request worker_name (ep_port ep))) = None) \<and>
      (\<forall>ep. ep \<in> set current \<and> eps_port ep \<notin> ep_port ` set desired \<longrightarrow>
         fails (Unexpose (unexpose_request worker_name ep)) = None))"
proof -
  let ?res = "List.map_filter (\<lambda>ep. port_entry fails worker_name cur (ep_port ep)) desired"
  have known: "map_of cur p = None \<longleftrightarrow> p \<notin> eps_port ` set current" for p
    unfolding cur_def using current_set_ports by blast
  obtain e1 where e1: "run_state (expose_loop (oracle_gateway fails) worker_name cur desired [] None) [] =
      ((?res, e1), map (\<lambda>ep. Expose (expose_request worker_name (ep_port ep)))
        (filter (\<lambda>ep. ep_port ep \<notin> eps_port ` set current) desired))"
    "e1 = None \<longleftrightarrow> (\<forall>ep. ep \<in> set desired \<and> ep_port ep \<notin> eps_port ` set current \<longrightarrow>
         fails (Expose (expose_request worker_name (ep_port ep))) = None)"
    using expose_loop_oracle [of fails worker_name cur desired "[]" None "[]"] known by auto
  obtain e2 where e2: "run_state (unexpose_loop (oracle_gateway fails) worker_name (desired_ports desired) current e1)
      (map (\<lambda>ep. Expose (expose_request worker_name (ep_port ep)))
        (filter (\<lambda>ep. ep_port ep \<notin> eps_port ` set current) desired)) =
      (e2, map (\<lambda>ep. Expose (expose_request worker_name (ep_port ep)))
        (filter (\<lambda>ep. ep_port ep \<notin> eps_port ` set current) desired) @
       map (\<lambda>ep. Unexpose (unexpose_request worker_name ep))
        (filter (\<lambda>ep. eps_port ep \<notin> ep_port ` set desired) current))"
    "e2 = None \<longleftrightarrow> e1 = None \<and> (\<forall>ep. ep \<in> set current \<and> eps_port ep \<notin> ep_port ` set desired \<longrightarrow>
         fails (Unexpose (unexpose_request worker_name ep)) = None)"
    using unexpose_loop_oracle [of fails worker_name "desired_ports desired" current e1] by fastforce
  show ?thesis
    using e1 e2 by (intro exI [of _ e2])
      (simp add: reconcile_expose_def Let_def cur_def [symmetric] split: list.splits)
qed

theorem reconcile_expose_exact_witness:
  "snd (run_state (reconcile_expose (Some (oracle_gateway (\<lambda>_. None))) ''alice''
      [\<lparr>ep_port = 8080, ep_protocol = []\<rparr>] (Some [\<lparr>eps_port = 9090, eps_domain = ''d''\<rparr>])) []) =
    [Expose (expose_request ''alice'' 8080),
     Unexpose (unexpose_request ''alice'' \<lparr>eps_port = 9090, eps_domain = ''d''\<rparr>)]"
  using reconcile_expose_exact [of "\<lambda>_. None" "''alice''" "[\<lparr>ep_port = 8080, ep_protocol = []\<rparr>]"
      "[\<lparr>eps_port = 9090, eps_domain = ''d''\<rparr>]"]
  by auto

text \<open>Decimal numerals are injective and contain no dash.\<close>

lemma split_at_last_dash:
  assumes "u @ x # v = u' @ x # v'" "x \<notin> set v" "x \<notin> set v'"
  shows "u = u' \<and> v = v'"
proof -
  have rv: "takeWhile (\<lambda>c. c \<noteq> x) (rev (u @ x # v)) = rev v" if "x \<notin> set v" for u v
    using that takeWhile_append2 [of "rev v" "\<lambda>c. c \<noteq> x" "x # rev u"] by auto
  have "rev v = rev v'"
    using rv [OF assms(2), of u] rv [OF assms(3), of u'] assms(1) by simp
  then show ?thesis using assms(1) by simp
qed

text \<open>
  No two exposures share a domain: the auto domain determines both the worker and the port,
  for all worker names (dashes and digits included) and all ports that are not negative, so
  unexposing one port can never take down another.
\<close>

theorem expose_domain_injective:
  assumes "0 \<le> p" "0 \<le> q" "domain_for_expose w p = domain_for_expose v q"
  shows "w = v \<and> p = q"
proof -
  have "w @ CHR ''-'' # show_nat (nat p) = v @ CHR ''-'' # show_nat (nat q)"
    using assms by (simp add: domain_for_expose_def show_int_def)
  then have "w = v \<and> show_nat (nat p) = show_nat (nat q)"
    by (rule split_at_last_dash) (simp_all add: show_nat_no_dash)
  then show ?thesis
    using assms show_nat_inject [of "nat p" "nat q"] eq_nat_nat_iff by blast
qed

theorem expose_domain_injective_witness:
  "domain_for_expose ''a-1'' 2 \<noteq> domain_for_expose ''a'' 12"
  using expose_domain_injective [of 2 12 "''a-1''" "''a''"] by auto

text \<open>
  A partial failure leaks an exposure. With two desired ports of which the second fails, the
  member phase keeps the old (empty) status although the first port is now exposed; when the
  ports are then removed from the spec, the phase sees neither desired nor recorded ports and
  never unexposes the first one.
\<close>

theorem expose_leak_after_partial_failure:
  fixes d :: "gateway_call list member_deps" and m :: member_context
  defines "g \<equiv> oracle_gateway (\<lambda>c. if c = Expose (expose_request ''alice'' 9090) then Some (Err ''gateway'') else None)"
  defines "deps \<equiv> d\<lparr>md_provisioner := (md_provisioner d)\<lparr>wp_reconcile_expose := reconcile_expose (Some g)\<rparr>\<rparr>"
  defines "first_pass \<equiv> m\<lparr>mx_name := ''alice'', mx_current_exposed_ports := None,
      mx_spec := (mx_spec m)\<lparr>ws_expose := [\<lparr>ep_port = 8080, ep_protocol = []\<rparr>, \<lparr>ep_port = 9090, ep_protocol = []\<rparr>]\<rparr>\<rparr>"
  shows "run_state (do {
      s1 \<leftarrow> reconcile_member_expose deps first_pass st;
      s2 \<leftarrow> reconcile_member_expose deps (first_pass\<lparr>mx_current_exposed_ports := mt_exposed_ports s1,
               mx_spec := (mx_spec first_pass)\<lparr>ws_expose := []\<rparr>\<rparr>) s1;
      State_Monad.return (mt_exposed_ports s2)
    }) [] = (None, [Expose (expose_request ''alice'' 8080), Expose (expose_request ''alice'' 9090)])"
  by (simp add: assms(1) deps_def first_pass_def reconcile_member_expose_def reconcile_expose_def
      oracle_gateway_def current_set_def desired_ports_def Let_def first_error_def expose_request_def)

end
