(* ===== verification/Go_Strings.thy ===== *)
theory Go_Strings
  imports Go_Prelude
begin

text \<open>
  Facts on substring search that the marker-based editors share: where \<open>Index\<close> and \<open>LastIndex\<close>
  find a pattern whose first byte does not occur again in it, as is the case for the HTML
  comment markers.
\<close>

lemma has_prefix_conv: "has_prefix s p \<longleftrightarrow> (\<exists>t. s = p @ t)"
  by (metis append_eq_conv_conj append_take_drop_id has_prefix_def)

lemma str_index_iff:
  assumes "sub \<noteq> []"
  shows "str_index s sub = Some i \<longleftrightarrow>
    has_prefix (drop i s) sub \<and> (\<forall>j<i. \<not> has_prefix (drop j s) sub)"
  using assms
proof (induction s arbitrary: i)
  case Nil
  then show ?case by (simp add: has_prefix_def)
next
  case (Cons c cs)
  show ?case
  proof (cases "has_prefix (c # cs) sub")
    case True
    then show ?thesis by (cases i) auto
  next
    case False
    have less: "(\<forall>j<Suc k. \<not> has_prefix (drop j (c # cs)) sub) \<longleftrightarrow> (\<forall>j<k. \<not> has_prefix (drop j cs) sub)" for k
      using False by (auto simp: less_Suc_eq_0_disj)
    show ?thesis
    proof (cases i)
      case 0
      then show ?thesis using False by (cases "str_index cs sub") auto
    next
      case (Suc k)
      then show ?thesis using False Cons less [of k] by auto
    qed
  qed
qed

lemma str_index_none:
  assumes "sub \<noteq> []"
  shows "str_index s sub = None \<longleftrightarrow> (\<forall>j. \<not> has_prefix (drop j s) sub)"
  using assms
proof (induction s)
  case Nil
  then show ?case by (simp add: has_prefix_def)
next
  case (Cons c cs)
  have "(\<forall>j. \<not> has_prefix (drop j (c # cs)) sub) \<longleftrightarrow>
      \<not> has_prefix (c # cs) sub \<and> (\<forall>j. \<not> has_prefix (drop j cs) sub)"
    by (metis drop_0 drop_Suc_Cons not0_implies_Suc)
  then show ?case using Cons by auto
qed

lemma str_contains_iff:
  assumes "sub \<noteq> []"
  shows "str_contains s sub \<longleftrightarrow> (\<exists>x y. s = x @ sub @ y)"
proof -
  have "str_contains s sub \<longleftrightarrow> (\<exists>j. has_prefix (drop j s) sub)"
    using str_index_none [OF assms, of s] by (auto simp: str_contains_def)
  also have "\<dots> \<longleftrightarrow> (\<exists>x y. s = x @ sub @ y)"
    by (metis append_eq_conv_conj append_take_drop_id has_prefix_conv)
  finally show ?thesis .
qed

lemma str_last_index_some:
  assumes "sub \<noteq> []"
  shows "str_last_index s sub = Some i \<longleftrightarrow>
    has_prefix (drop i s) sub \<and> (\<forall>j>i. \<not> has_prefix (drop j s) sub)"
  using assms
proof (induction s arbitrary: i)
  case Nil
  then show ?case by (simp add: has_prefix_def)
next
  case (Cons c cs)
  have none: "str_last_index cs sub = None \<longleftrightarrow> (\<forall>j. \<not> has_prefix (drop j cs) sub)"
  proof (cases "\<exists>j. has_prefix (drop j cs) sub")
    case False
    then show ?thesis using Cons.IH Cons.prems by (metis not_None_eq)
  next
    case True
    have "\<forall>j. has_prefix (drop j cs) sub \<longrightarrow> j \<le> length cs"
      using Cons.prems by (auto simp: has_prefix_def intro: ccontr)
    then obtain m where "has_prefix (drop m cs) sub" "\<forall>j. has_prefix (drop j cs) sub \<longrightarrow> j \<le> m"
      using True by (metis (mono_tags) ex_has_greatest_nat [of "\<lambda>j. has_prefix (drop j cs) sub" _ "\<lambda>j. j" "Suc (length cs)"] less_Suc_eq_le)
    then have "has_prefix (drop m cs) sub" "\<forall>j>m. \<not> has_prefix (drop j cs) sub"
      by (auto simp: not_le [symmetric])
    then have "str_last_index cs sub = Some m" using Cons by blast
    then show ?thesis using True by simp
  qed
  have later: "(\<forall>j>Suc k. \<not> has_prefix (drop j (c # cs)) sub) \<longleftrightarrow> (\<forall>j>k. \<not> has_prefix (drop j cs) sub)" for k
    by (metis Suc_less_eq2 drop_Suc_Cons Suc_less_eq)
  have later0: "(\<forall>j>0. \<not> has_prefix (drop j (c # cs)) sub) \<longleftrightarrow> (\<forall>j. \<not> has_prefix (drop j cs) sub)"
    by (metis drop_Suc_Cons gr0_conv_Suc)
  show ?case
  proof (cases "str_last_index cs sub")
    case None
    then show ?thesis
      using none later later0 by (cases i) auto
  next
    case (Some m)
    then have m: "has_prefix (drop m cs) sub" "\<forall>j>m. \<not> has_prefix (drop j cs) sub"
      using Cons by blast+
    show ?thesis
    proof (cases i)
      case 0
      then show ?thesis using Some m later0 by auto
    next
      case (Suc k)
      then have "str_last_index (c # cs) sub = Some i \<longleftrightarrow> str_last_index cs sub = Some k"
        using Some by simp
      then show ?thesis
        using Suc later [of k] Cons.IH [OF Cons.prems, of k] by simp
    qed
  qed
qed

lemma str_index_bound: "str_index s sub = Some i \<Longrightarrow> i + length sub \<le> length s"
proof (induction s arbitrary: i)
  case Nil
  then show ?case by (auto split: if_splits)
next
  case (Cons c cs)
  then show ?case
    by (cases "has_prefix (c # cs) sub") (auto simp: has_prefix_conv dest: arg_cong [of _ _ length])
qed

text \<open>A pattern that cannot overlap itself.\<close>

definition marker :: "string \<Rightarrow> bool" where
  "marker sub \<longleftrightarrow> sub \<noteq> [] \<and> hd sub \<notin> set (tl sub)"

lemma marker_straddle:
  assumes "marker sub" "has_prefix (drop j x @ sub @ y) sub" "j < length x"
  shows "has_prefix (drop j x) sub"
proof -
  obtain t where t: "drop j x @ sub @ y = sub @ t"
    using assms(2) by (auto simp: has_prefix_conv)
  show ?thesis
  proof (cases "length sub \<le> length (drop j x)")
    case True
    then have "take (length sub) (drop j x) = sub"
      using t by (metis append_eq_conv_conj take_append append_Nil2 diff_is_0_eq' take_0)
    then show ?thesis by (simp add: has_prefix_def)
  next
    case False
    obtain n where len: "length (drop j x) = n" by blast
    then have n: "0 < n" "n < length sub" using assms(3) False by simp_all
    have "(drop j x @ sub @ y) ! n = hd sub"
      using assms(1) len by (simp add: nth_append marker_def hd_conv_nth del: length_drop)
    moreover have "(sub @ t) ! n = tl sub ! (n - 1)"
      using n by (simp add: nth_append nth_tl)
    ultimately have "hd sub = tl sub ! (n - 1)" using t by simp
    moreover have "tl sub ! (n - 1) \<in> set (tl sub)" using n by (intro nth_mem) auto
    ultimately show ?thesis using assms(1) by (simp add: marker_def)
  qed
qed

lemma str_index_marker:
  assumes "marker sub" "\<not> str_contains x sub"
  shows "str_index (x @ sub @ y) sub = Some (length x)"
proof -
  have ne: "sub \<noteq> []" using assms(1) by (simp add: marker_def)
  have "\<not> has_prefix (drop j (x @ sub @ y)) sub" if j: "j < length x" for j
  proof
    assume "has_prefix (drop j (x @ sub @ y)) sub"
    then have "has_prefix (drop j x @ sub @ y) sub"
      using j by simp
    then have "has_prefix (drop j x) sub"
      by (rule marker_straddle [OF assms(1) _ j])
    then have "str_contains x sub"
      using str_index_none [OF ne, of x] by (auto simp: str_contains_def)
    with assms(2) show False by simp
  qed
  then show ?thesis
    by (subst str_index_iff [OF ne]) (simp add: has_prefix_conv)
qed

lemma str_last_index_marker:
  assumes "marker sub" "\<not> str_contains y sub"
  shows "str_last_index (x @ sub @ y) sub = Some (length x)"
proof -
  have ne: "sub \<noteq> []" using assms(1) by (simp add: marker_def)
  have later: "\<not> has_prefix (drop j (sub @ y)) sub" if j: "0 < j" for j
  proof
    assume p: "has_prefix (drop j (sub @ y)) sub"
    show False
    proof (cases "j < length sub")
      case True
      then have "hd (drop j sub) = hd sub"
        using p ne by (auto simp: has_prefix_conv) (metis hd_append2 drop_eq_Nil linorder_not_le)
      moreover have "hd (drop j sub) \<in> set (tl sub)"
        using True j by (metis drop_Suc gr0_implies_Suc hd_in_set in_set_dropD drop_eq_Nil linorder_not_le)
      ultimately show False using assms(1) by (simp add: marker_def)
    next
      case False
      then have "has_prefix (drop (j - length sub) y) sub" using p by simp
      then have "str_contains y sub"
        using str_index_none [OF ne, of y] by (auto simp: str_contains_def)
      with assms(2) show False by simp
    qed
  qed
  have "\<not> has_prefix (drop j (x @ sub @ y)) sub" if "length x < j" for j
    using later [of "j - length x"] that by simp
  then show ?thesis
    by (subst str_last_index_some [OF ne]) (simp add: has_prefix_conv)
qed

text \<open>A match cannot span a byte that the pattern does not have.\<close>

lemma str_contains_sep:
  assumes "sub \<noteq> []" "c \<notin> set sub"
  shows "str_contains (x @ c # y) sub \<longleftrightarrow> str_contains x sub \<or> str_contains y sub"
proof
  assume "str_contains (x @ c # y) sub"
  then obtain u v where uv: "x @ c # y = u @ sub @ v"
    using str_contains_iff [OF assms(1)] by blast
  then consider us where "x = u @ us" "us @ c # y = sub @ v"
    | us where "u = x @ us" "c # y = us @ sub @ v"
    unfolding append_eq_append_conv2 by blast
  then show "str_contains x sub \<or> str_contains y sub"
  proof cases
    case 1
    from 1(2) consider w where "us = sub @ w" | w where "sub = us @ w" "w @ v = c # y" "w \<noteq> []"
      by (metis append_eq_append_conv2 append_Nil2)
    then show ?thesis
    proof cases
      case 1
      then show ?thesis using \<open>x = u @ us\<close> str_contains_iff [OF assms(1)] by fastforce
    next
      case 2
      then have "c \<in> set w" by (cases w) auto
      then show ?thesis using assms(2) 2 by simp
    qed
  next
    case 2
    show ?thesis
    proof (cases us)
      case Nil
      then have "c \<in> set sub" using 2 assms(1) by (cases sub) auto
      then show ?thesis using assms(2) by simp
    next
      case (Cons b bs)
      then show ?thesis using 2 str_contains_iff [OF assms(1)] by auto
    qed
  qed
next
  assume "str_contains x sub \<or> str_contains y sub"
  then show "str_contains (x @ c # y) sub"
    unfolding str_contains_iff [OF assms(1)] by (metis append_Cons append_assoc)
qed

lemma str_contains_Nil: "str_contains [] sub \<longleftrightarrow> sub = []"
  by (simp add: str_contains_def)

lemma str_contains_Cons:
  "str_contains (c # cs) sub \<longleftrightarrow> has_prefix (c # cs) sub \<or> str_contains cs sub"
  by (simp add: str_contains_def)

lemma str_contains_skip:
  "sub \<noteq> [] \<Longrightarrow> hd sub \<notin> set x \<Longrightarrow> str_contains (x @ y) sub = str_contains y sub"
  by (induction x) (simp_all add: str_contains_Cons has_prefix_conv, metis hd_append2 list.sel(1))

lemma str_contains_sep0:
  "sub \<noteq> [] \<Longrightarrow> c \<notin> set sub \<Longrightarrow> str_contains (c # y) sub = str_contains y sub"
  using str_contains_sep [of sub c "[]" y] by (simp add: str_contains_Nil)

text \<open>\<open>ReplaceAll\<close> around the first byte of the pattern.\<close>

lemma replace_all_Nil [simp]: "replace_all [] old new = []"
  by (simp add: replace_all.simps)

lemma replace_all_skip:
  "old \<noteq> [] \<Longrightarrow> hd old \<notin> set x \<Longrightarrow> replace_all (x @ y) old new = x @ replace_all y old new"
proof (induction x)
  case (Cons a x)
  then have "\<not> has_prefix (a # x @ y) old" by (cases old) (auto simp: has_prefix_def)
  then show ?case using Cons by (subst replace_all.simps) simp
qed simp

lemma replace_all_absent:
  "old \<noteq> [] \<Longrightarrow> hd old \<notin> set s \<Longrightarrow> replace_all s old new = s"
  using replace_all_skip [of old s "[]" new] by simp

lemma replace_all_hit: "old \<noteq> [] \<Longrightarrow> replace_all (old @ y) old new = new @ replace_all y old new"
  by (subst replace_all.simps) (simp add: has_prefix_def)

lemma replace_all_miss:
  "old \<noteq> [] \<Longrightarrow> \<not> has_prefix (c # y) old \<Longrightarrow> hd old \<notin> set y \<Longrightarrow> replace_all (c # y) old new = c # y"
  by (subst replace_all.simps) (simp add: replace_all_absent)

lemma trim_right_append: "u \<noteq> [] \<Longrightarrow> \<not> f (last u) \<Longrightarrow> trim_right f (x @ u) = x @ u"
  by (cases u rule: rev_cases) (simp_all add: trim_right_def)

lemma split_on_line: "c \<notin> set x \<Longrightarrow> split_on c (x @ c # y) = x # split_on c y"
  by (induction x) auto

end
