(* ===== verification/Storage.thy ===== *)
theory Storage
  imports Api_Types Go_Strings
begin

text \<open>
  The object store interface \<open>oss.StorageClient\<close> as far as the services use it, the in-memory
  store of \<open>internal/oss/ossfake/memory.go\<close> that implements it, access to decoded JSON
  objects and documents, and the local file system.
\<close>

record 'w storage_client =
  so_get :: "string \<Rightarrow> ('w, string result) state"
  so_put :: "string \<Rightarrow> string \<Rightarrow> ('w, go_error option) state"
  so_stat :: "string \<Rightarrow> ('w, go_error option) state"
  so_delete :: "string \<Rightarrow> ('w, go_error option) state"
  so_list :: "string \<Rightarrow> ('w, string list result) state"
  so_delete_prefix :: "string \<Rightarrow> ('w, go_error option) state"

section \<open>The in-memory store\<close>

type_synonym memory = smap

definition memory_put :: "string \<Rightarrow> string \<Rightarrow> (memory, go_error option) state" where
  "memory_put key data = State (\<lambda>m. (None, smap_put key data m))"

definition memory_get :: "string \<Rightarrow> (memory, string result) state" where
  "memory_get key = State (\<lambda>m.
     ((case map_of m key of None \<Rightarrow> Inl OsNotExist | Some d \<Rightarrow> Inr d), m))"

definition memory_stat :: "string \<Rightarrow> (memory, go_error option) state" where
  "memory_stat key = State (\<lambda>m. ((if map_of m key = None then Some OsNotExist else None), m))"

definition memory_delete :: "string \<Rightarrow> (memory, go_error option) state" where
  "memory_delete key = State (\<lambda>m. (None, AList.delete key m))"

definition memory_list :: "string \<Rightarrow> (memory, string list result) state" where
  "memory_list pfx = State (\<lambda>m.
     (Inr (sort_strings (filter (\<lambda>k. has_prefix k pfx) (map fst m))), m))"

definition memory_delete_prefix :: "string \<Rightarrow> (memory, go_error option) state" where
  "memory_delete_prefix pfx = State (\<lambda>m. (None, filter (\<lambda>kv. \<not> has_prefix (fst kv) pfx) m))"

definition memory_store :: "memory storage_client" where
  "memory_store = \<lparr>so_get = memory_get, so_put = memory_put, so_stat = memory_stat, so_delete = memory_delete,
     so_list = memory_list, so_delete_prefix = memory_delete_prefix\<rparr>"

section \<open>What the services rely on\<close>

text \<open>\<open>content w key\<close> is the object stored under a key; \<open>up w\<close> says the store answers.\<close>

locale object_store =
  fixes s :: "'w storage_client"
    and content :: "'w \<Rightarrow> string \<Rightarrow> string option"
    and up :: "'w \<Rightarrow> bool"
  assumes get_reads: "up w \<Longrightarrow> run_state (so_get s key) w =
        ((case content w key of None \<Rightarrow> Inl OsNotExist | Some d \<Rightarrow> Inr d), w)"
    and put_writes: "up w \<Longrightarrow> \<exists>w'. run_state (so_put s key data) w = (None, w') \<and> up w' \<and>
        content w' = (content w)(key \<mapsto> data)"
    and delete_removes: "up w \<Longrightarrow> \<exists>w'. run_state (so_delete s key) w = (None, w') \<and> up w' \<and>
        content w' = (content w)(key := None)"
begin

lemma get_after_put:
  "up w \<Longrightarrow> run_state (do { _ \<leftarrow> so_put s key data; so_get s key }) w =
     (Inr data, snd (run_state (so_put s key data) w))"
  using put_writes [of w key data] get_reads by fastforce

end

interpretation memory: object_store memory_store map_of "\<lambda>m. True"
  by unfold_locales
    (auto simp: memory_store_def memory_get_def memory_put_def memory_delete_def delete_conv' fun_eq_iff)

section \<open>JSON objects\<close>

text \<open>\<open>v.(map[string]interface{})\<close> and \<open>m[k]\<close>, which is nil for a missing key.\<close>

fun json_obj :: "json \<Rightarrow> (string \<times> json) list option" where
  "json_obj (JObj kvs) = Some kvs"
| "json_obj _ = None"

definition json_get :: "(string \<times> json) list \<Rightarrow> string \<Rightarrow> json" where
  "json_get kvs k = (case map_of kvs k of None \<Rightarrow> JNull | Some v \<Rightarrow> v)"

definition json_put :: "string \<Rightarrow> json \<Rightarrow> (string \<times> json) list \<Rightarrow> (string \<times> json) list" where
  "json_put k v kvs = AList.update k v kvs"

lemma json_get_put [simp]: "json_get (json_put k v kvs) k' = (if k' = k then v else json_get kvs k')"
  by (simp add: json_get_def json_put_def update_conv')

section \<open>Documents\<close>

text \<open>
  Documents decoded into \<open>map[string]interface{}\<close>, shared by the components that look at single
  members of a document.
\<close>

text \<open>The members of a document decoded into a map: later entries of a key count, null is the nil map.\<close>

definition document_map :: "raw_json \<Rightarrow> (string \<times> json) list option" where
  "document_map raw =
     (case raw of
        RawJson (JObj kvs) \<Rightarrow> Some (fold (\<lambda>(k, x) o1. json_put k x o1) kvs [])
      | RawJson JNull \<Rightarrow> Some []
      | _ \<Rightarrow> None)"

definition text_member :: "(string \<times> json) list \<Rightarrow> string \<Rightarrow> string" where
  "text_member kvs k = (case json_get kvs k of JStr s \<Rightarrow> s | _ \<Rightarrow> [])"

section \<open>Local files\<close>

text \<open>
  What the package resolver and the deployer use of the local file system and of the object store
  beyond \<open>storage_client\<close>: uploading a file and mirroring a directory. A walk is the list of what
  \<open>filepath.WalkDir\<close> visits, by paths relative to its root.
\<close>

datatype walk_item =
    Walk_Error go_error
  | Walk_Dir string
  | Walk_File string
  | Walk_Link string

record 'w local_files =
  lf_is_dir :: "string \<Rightarrow> ('w, bool result) state"
  lf_mkdir_all :: "string \<Rightarrow> ('w, go_error option) state"
  lf_read :: "string \<Rightarrow> ('w, string result) state"
  lf_write :: "string \<Rightarrow> string \<Rightarrow> ('w, go_error option) state"
  lf_walk :: "string \<Rightarrow> ('w, walk_item list) state"
  lf_read_dir :: "string \<Rightarrow> ('w, (string \<times> bool) list result) state"
  lf_temp_dir :: "string \<Rightarrow> ('w, string result) state"
  lf_remove_all :: "string \<Rightarrow> ('w, go_error option) state"

record 'w agent_storage = "'w storage_client" +
  so_put_file :: "string \<Rightarrow> string \<Rightarrow> ('w, go_error option) state"
  so_mirror :: "string \<Rightarrow> string \<Rightarrow> ('w, go_error option) state"

text \<open>\<open>filepath.Join\<close> and \<open>filepath.Dir\<close> of clean paths.\<close>

definition path_join :: "string \<Rightarrow> string \<Rightarrow> string" where
  "path_join dir name = (if name = ''.'' then dir else dir @ ''/'' @ name)"

definition path_dir :: "string \<Rightarrow> string" where
  "path_dir path =
     (case str_last_index path ''/'' of
        None \<Rightarrow> ''.''
      | Some 0 \<Rightarrow> ''/''
      | Some (Suc i) \<Rightarrow> take (Suc i) path)"

text \<open>The walk stops at the first error, of the walk or of the callback.\<close>

fun walk_each :: "(walk_item \<Rightarrow> ('w, go_error option) state) \<Rightarrow> walk_item list \<Rightarrow> ('w, go_error option) state" where
  "walk_each f [] = State_Monad.return None"
| "walk_each f (i # is) =
     (case i of
        Walk_Error e \<Rightarrow> State_Monad.return (Some e)
      | _ \<Rightarrow> do {
          e \<leftarrow> f i;
          (case e of Some err \<Rightarrow> State_Monad.return (Some err) | None \<Rightarrow> walk_each f is) })"

definition walk_dir :: "'w local_files \<Rightarrow> string \<Rightarrow> (walk_item \<Rightarrow> ('w, go_error option) state) \<Rightarrow> ('w, go_error option) state" where
  "walk_dir lf dir f = do { is \<leftarrow> lf_walk lf dir; walk_each f is }"

text \<open>The callback of the walks that only look at regular files.\<close>

definition on_file :: "(string \<Rightarrow> ('w, go_error option) state) \<Rightarrow> walk_item \<Rightarrow> ('w, go_error option) state" where
  "on_file f i = (case i of Walk_File rel \<Rightarrow> f rel | _ \<Rightarrow> State_Monad.return None)"

text \<open>A sequence of fallible steps, the first error ends it.\<close>

fun each_step :: "('a \<Rightarrow> ('w, go_error option) state) \<Rightarrow> 'a list \<Rightarrow> ('w, go_error option) state" where
  "each_step f [] = State_Monad.return None"
| "each_step f (x # xs) = do {
     e \<leftarrow> f x;
     (case e of Some err \<Rightarrow> State_Monad.return (Some err) | None \<Rightarrow> each_step f xs) }"

definition wrap_error :: "string \<Rightarrow> ('w, go_error option) state \<Rightarrow> ('w, go_error option) state" where
  "wrap_error what m = do { e \<leftarrow> m; State_Monad.return (map_option (Wrap what) e) }"

definition then_step :: "('w, go_error option) state \<Rightarrow> ('w, go_error option) state \<Rightarrow> ('w, go_error option) state" where
  "then_step m k = do { e \<leftarrow> m; (case e of Some err \<Rightarrow> State_Monad.return (Some err) | None \<Rightarrow> k) }"

end
