(* ===== verification/Go_Results.thy ===== *)
theory Go_Results
  imports Go_Prelude
begin

text \<open>
  The shapes of \<open>if err != nil { return err }\<close> that the clients of external services share: a
  value or an error, as a result or as a result of a stateful call; pairs of states; and the
  de-duplication loop several packages repeat.
\<close>

definition try_result :: "'a result \<Rightarrow> ('a \<Rightarrow> 'b result) \<Rightarrow> 'b result" where
  "try_result r k = (case r of Inl e \<Rightarrow> Inl e | Inr x \<Rightarrow> k x)"

definition try_state :: "('w, 'a result) state \<Rightarrow> ('a \<Rightarrow> ('w, 'b result) state) \<Rightarrow> ('w, 'b result) state" where
  "try_state m k = do {
     r \<leftarrow> m;
     (case r of Inl e \<Rightarrow> State_Monad.return (Inl e) | Inr x \<Rightarrow> k x) }"

text \<open>A step that only may fail, before one with a result, and one that returns no result.\<close>

definition check_state :: "('w, go_error option) state \<Rightarrow> ('w, 'b result) state \<Rightarrow> ('w, 'b result) state" where
  "check_state m k = do {
     r \<leftarrow> m;
     (case r of Some e \<Rightarrow> State_Monad.return (Inl e) | None \<Rightarrow> k) }"

definition use_state :: "('w, 'a result) state \<Rightarrow> ('a \<Rightarrow> ('w, go_error option) state) \<Rightarrow> ('w, go_error option) state" where
  "use_state m k = do {
     r \<leftarrow> m;
     (case r of Inl e \<Rightarrow> State_Monad.return (Some e) | Inr x \<Rightarrow> k x) }"

definition wrap_result :: "string \<Rightarrow> ('w, 'a result) state \<Rightarrow> ('w, 'a result) state" where
  "wrap_result what m = do { r \<leftarrow> m; State_Monad.return (map_sum (Wrap what) id r) }"

lemma try_result_simps [simp]:
  "try_result (Inl e) k = Inl e" "try_result (Inr x) k = k x"
  by (simp_all add: try_result_def)

lemma try_result_Inr: "try_result r k = Inr y \<longleftrightarrow> (\<exists>x. r = Inr x \<and> k x = Inr y)"
  by (cases r) simp_all

lemma map_sum_id_Inr [simp]: "map_sum f id x = Inr y \<longleftrightarrow> x = Inr y" "Inr y = map_sum f id x \<longleftrightarrow> x = Inr y"
  by (cases x; auto)+

lemma run_try_state:
  "run_state (try_state m k) w =
     (case run_state m w of (Inl e, v) \<Rightarrow> (Inl e, v) | (Inr x, v) \<Rightarrow> run_state (k x) v)"
  by (auto simp: try_state_def split: sum.splits prod.splits)

lemma run_check_state:
  "run_state (check_state m k) w =
     (case run_state m w of (Some e, v) \<Rightarrow> (Inl e, v) | (None, v) \<Rightarrow> run_state k v)"
  by (auto simp: check_state_def split: option.splits prod.splits)

lemma run_use_state:
  "run_state (use_state m k) w =
     (case run_state m w of (Inl e, v) \<Rightarrow> (Some e, v) | (Inr x, v) \<Rightarrow> run_state (k x) v)"
  by (auto simp: use_state_def split: sum.splits prod.splits)

lemma run_wrap_result:
  "run_state (wrap_result what m) w =
     (case run_state m w of (r, v) \<Rightarrow> (map_sum (Wrap what) id r, v))"
  by (auto simp: wrap_result_def split: prod.splits)

lemmas run_results = run_try_state run_check_state run_use_state run_wrap_result

section \<open>Two states\<close>

text \<open>
  Two collaborators with a state each: an operation of one runs on its component of the pair.
\<close>

definition on_first :: "('s, 'a) state \<Rightarrow> ('s \<times> 'x, 'a) state" where
  "on_first m = State (\<lambda>(s, x). let (a, s') = run_state m s in (a, (s', x)))"

definition on_second :: "('x, 'a) state \<Rightarrow> ('s \<times> 'x, 'a) state" where
  "on_second m = State (\<lambda>(s, x). let (a, x') = run_state m x in (a, (s, x')))"

lemma run_on_first:
  "run_state (on_first m) w = (fst (run_state m (fst w)), (snd (run_state m (fst w)), snd w))"
  by (simp add: on_first_def split_beta)

lemma run_on_second:
  "run_state (on_second m) w = (fst (run_state m (snd w)), (fst w, snd (run_state m (snd w))))"
  by (simp add: on_second_def split_beta)

section \<open>De-duplication\<close>

text \<open>
  The de-duplication loop that several packages repeat (\<open>uniqueTeamStrings\<close>,
  \<open>uniqueCoordinationIDs\<close>, \<open>uniqueStrings\<close>, the \<open>append...AllowExtra\<close> helpers): values are
  kept in order, skipped ones and repetitions are dropped. The locale is the contract of such a
  function; each package interprets it on its own definition.
\<close>

text \<open>The loop with the set of values seen so far.\<close>

fun dedup_loop :: "(string \<Rightarrow> bool) \<Rightarrow> string list \<Rightarrow> string list \<Rightarrow> string list" where
  "dedup_loop skip seen [] = []"
| "dedup_loop skip seen (x # xs) =
     (if skip x then dedup_loop skip seen xs
      else if x \<in> set seen then dedup_loop skip seen xs
      else x # dedup_loop skip (x # seen) xs)"

lemma dedup_loop_set:
  "set (dedup_loop skip seen xs) = {x \<in> set xs. \<not> skip x \<and> x \<notin> set seen}"
  by (induction skip seen xs rule: dedup_loop.induct) auto

lemma dedup_loop_distinct: "distinct (dedup_loop skip seen xs)"
  by (induction skip seen xs rule: dedup_loop.induct) (auto simp: dedup_loop_set)

lemma dedup_loop_subseq: "subseq (dedup_loop skip seen xs) xs"
  by (induction skip seen xs rule: dedup_loop.induct) auto

lemma subseq_distinct_left: "subseq xs ys \<Longrightarrow> distinct ys \<Longrightarrow> distinct xs \<and> set xs \<subseteq> set ys"
  by (induction rule: list_emb.induct) auto

lemma subseq_same_set:
  assumes "subseq xs ys" "distinct ys" "set xs = set ys"
  shows "xs = ys"
proof -
  have "distinct xs"
    using assms subseq_distinct_left by blast
  then have "length xs = length ys"
    using assms by (metis distinct_card)
  with assms(1) show ?thesis
    by (metis subseq_same_length)
qed

locale stable_dedup =
  fixes f :: "string list \<Rightarrow> string list"
    and skip :: "string \<Rightarrow> bool"
  assumes members: "set (f xs) = {x \<in> set xs. \<not> skip x}"
    and no_repeat: "distinct (f xs)"
    and in_order: "subseq (f xs) xs"
begin

lemma idempotent: "f (f xs) = f xs"
proof (rule subseq_same_set)
  show "subseq (f (f xs)) (f xs)" by (rule in_order)
  show "distinct (f xs)" by (rule no_repeat)
  show "set (f (f xs)) = set (f xs)" by (auto simp: members)
qed

lemma fixed: "distinct xs \<Longrightarrow> \<forall>x \<in> set xs. \<not> skip x \<Longrightarrow> f xs = xs"
  by (rule subseq_same_set [OF in_order]) (auto simp: members)

lemma empty_iff: "f xs = [] \<longleftrightarrow> (\<forall>x \<in> set xs. skip x)"
proof -
  have "f xs = [] \<longleftrightarrow> set (f xs) = {}" by simp
  then show ?thesis by (auto simp: members)
qed

lemma length_le: "length (f xs) \<le> length xs"
  using in_order by (rule list_emb_length)

end

end
