(* ===== verification/Legacy_Registry.thy ===== *)
theory Legacy_Registry
  imports Storage Go_Results
begin

text \<open>
  \<open>internal/service/legacy.go\<close>: the registry files the Manager agent reads in embedded mode
  and the Manager's group allow list. Registries are JSON objects keyed by name; the JSON
  encoding is a codec parameter (\<open>json.Unmarshal\<close> and \<open>json.MarshalIndent\<close>), the clock an
  argument, and the write of the local copy an operation of the world.
\<close>

record worker_registry_entry =
  re_name :: string
  re_matrix_user_id :: string
  re_room_id :: string
  re_runtime :: string
  re_deployment :: string
  re_skills :: "string list"
  re_role :: string
  re_team_id :: "string option"
  re_image :: "string option"
  re_created_at :: string
  re_skills_updated_at :: string

record team_admin_entry =
  tae_name :: string
  tae_matrix_user_id :: string

record team_member_entry =
  tme_name :: string
  tme_matrix_user_id :: string
  tme_role :: string

record team_registry_entry =
  te_name :: string
  te_leader :: string
  te_workers :: "string list"
  te_team_room_id :: string
  te_leader_dm_room_id :: string
  te_admin :: "team_admin_entry option"
  te_members :: "team_member_entry list"
  te_created_at :: string

record human_registry_entry =
  he_name :: string
  he_matrix_user_id :: string
  he_display_name :: string
  he_permission_level :: int
  he_accessible_teams :: "string list"
  he_created_at :: string

text \<open>The three registry types differ in their entries only.\<close>

record 'e registry =
  rg_version :: int
  rg_updated_at :: string
  rg_entries :: "(string \<times> 'e) list"

definition empty_registry :: "'e registry" where
  "empty_registry = \<lparr>rg_version = 1, rg_updated_at = [], rg_entries = []\<rparr>"

record 'r codec =
  cd_unmarshal :: "string \<Rightarrow> 'r result"
  cd_marshal :: "'r \<Rightarrow> string result"

record 'w legacy_compat =
  lc_oss :: "'w storage_client option"
  lc_matrix_domain :: string
  lc_manager_name :: string
  lc_agent_fs_dir :: string
  lc_write_file :: "string \<Rightarrow> string \<Rightarrow> ('w, go_error option) state"
  lc_workers_codec :: "worker_registry_entry registry codec"
  lc_teams_codec :: "team_registry_entry registry codec"
  lc_humans_codec :: "human_registry_entry registry codec"
  lc_config_codec :: "json codec"

definition legacy_manager_name :: "string \<Rightarrow> string" where
  "legacy_manager_name configured = (if configured = [] then ''manager'' else configured)"

definition legacy_matrix_user_id :: "'w legacy_compat \<Rightarrow> string \<Rightarrow> string" where
  "legacy_matrix_user_id l name = ''@'' @ name @ '':'' @ lc_matrix_domain l"

definition manager_agent_prefix :: "'w legacy_compat \<Rightarrow> string" where
  "manager_agent_prefix l = ''agents/'' @ lc_manager_name l"

definition manager_local_config_path :: "'w legacy_compat \<Rightarrow> string" where
  "manager_local_config_path l =
     (if lc_agent_fs_dir l = [] then []
      else lc_agent_fs_dir l @ ''/'' @ lc_manager_name l @ ''/openclaw.json'')"

definition write_manager_local_config :: "'w legacy_compat \<Rightarrow> string \<Rightarrow> ('w, unit) state" where
  "write_manager_local_config l data =
     (if manager_local_config_path l = [] then State_Monad.return ()
      else do { _ \<leftarrow> lc_write_file l (manager_local_config_path l) data; State_Monad.return () })"

section \<open>Registries\<close>

definition load_registry ::
  "'w storage_client \<Rightarrow> 'e registry codec \<Rightarrow> string \<Rightarrow> ('w, 'e registry result) state" where
  "load_registry s codec key = do {
     data \<leftarrow> so_get s key;
     State_Monad.return
       (case data of
          Inl e \<Rightarrow> if is_os_not_exist e then Inr empty_registry
                   else Inl (Wrap (''read registry '' @ key) e)
        | Inr d \<Rightarrow>
            (case cd_unmarshal codec d of
               Inl e \<Rightarrow> Inl (Wrap (''parse registry '' @ key) e)
             | Inr r \<Rightarrow> Inr r))
   }"

definition save_registry ::
  "'w storage_client \<Rightarrow> 'e registry codec \<Rightarrow> string \<Rightarrow> 'e registry \<Rightarrow> ('w, go_error option) state" where
  "save_registry s codec key r =
     (case cd_marshal codec r of
        Inl e \<Rightarrow> State_Monad.return (Some (Wrap ''marshal registry'' e))
      | Inr d \<Rightarrow> so_put s key d)"

text \<open>Read, modify, write of one registry file; the mutex makes the cycle atomic.\<close>

definition modify_registry ::
  "'w storage_client \<Rightarrow> 'e registry codec \<Rightarrow> string \<Rightarrow> ('e registry \<Rightarrow> 'e registry) \<Rightarrow>
   ('w, go_error option) state" where
  "modify_registry s codec key f = do {
     r \<leftarrow> load_registry s codec key;
     (case r of
        Inl e \<Rightarrow> State_Monad.return (Some e)
      | Inr reg \<Rightarrow> save_registry s codec key (f reg))
   }"

definition upsert_worker_entry ::
  "string \<Rightarrow> worker_registry_entry \<Rightarrow> worker_registry_entry registry \<Rightarrow> worker_registry_entry registry" where
  "upsert_worker_entry now entry reg =
     (let created =
            (case map_of (rg_entries reg) (re_name entry) of
               Some old \<Rightarrow> if re_created_at old \<noteq> [] then re_created_at old else now
             | None \<Rightarrow> now);
          e = entry\<lparr>re_created_at := created, re_skills_updated_at := now\<rparr>
      in reg\<lparr>rg_entries := AList.update (re_name entry) e (rg_entries reg), rg_updated_at := now\<rparr>)"

definition upsert_team_entry ::
  "string \<Rightarrow> team_registry_entry \<Rightarrow> team_registry_entry registry \<Rightarrow> team_registry_entry registry" where
  "upsert_team_entry now entry reg =
     (let created =
            (case map_of (rg_entries reg) (te_name entry) of
               Some old \<Rightarrow> if te_created_at old \<noteq> [] then te_created_at old else now
             | None \<Rightarrow> now);
          e = entry\<lparr>te_created_at := created\<rparr>
      in reg\<lparr>rg_entries := AList.update (te_name entry) e (rg_entries reg), rg_updated_at := now\<rparr>)"

definition upsert_human_entry ::
  "string \<Rightarrow> human_registry_entry \<Rightarrow> human_registry_entry registry \<Rightarrow> human_registry_entry registry" where
  "upsert_human_entry now entry reg =
     (let created =
            (case map_of (rg_entries reg) (he_name entry) of
               Some old \<Rightarrow> if he_created_at old \<noteq> [] then he_created_at old else now
             | None \<Rightarrow> now);
          e = entry\<lparr>he_created_at := created\<rparr>
      in reg\<lparr>rg_entries := AList.update (he_name entry) e (rg_entries reg), rg_updated_at := now\<rparr>)"

definition remove_entry :: "string \<Rightarrow> string \<Rightarrow> 'e registry \<Rightarrow> 'e registry" where
  "remove_entry now name reg =
     reg\<lparr>rg_entries := AList.delete name (rg_entries reg), rg_updated_at := now\<rparr>"

definition when_enabled ::
  "'w legacy_compat \<Rightarrow> ('w storage_client \<Rightarrow> ('w, go_error option) state) \<Rightarrow> ('w, go_error option) state" where
  "when_enabled l f = (case lc_oss l of None \<Rightarrow> State_Monad.return None | Some s \<Rightarrow> f s)"

definition update_workers_registry ::
  "'w legacy_compat \<Rightarrow> string \<Rightarrow> worker_registry_entry \<Rightarrow> ('w, go_error option) state" where
  "update_workers_registry l now entry = when_enabled l (\<lambda>s.
     modify_registry s (lc_workers_codec l) (manager_agent_prefix l @ ''/workers-registry.json'')
       (upsert_worker_entry now entry))"

definition remove_from_workers_registry ::
  "'w legacy_compat \<Rightarrow> string \<Rightarrow> string \<Rightarrow> ('w, go_error option) state" where
  "remove_from_workers_registry l now name = when_enabled l (\<lambda>s.
     modify_registry s (lc_workers_codec l) (manager_agent_prefix l @ ''/workers-registry.json'')
       (remove_entry now name))"

definition update_teams_registry ::
  "'w legacy_compat \<Rightarrow> string \<Rightarrow> team_registry_entry \<Rightarrow> ('w, go_error option) state" where
  "update_teams_registry l now entry = when_enabled l (\<lambda>s.
     modify_registry s (lc_teams_codec l) (manager_agent_prefix l @ ''/teams-registry.json'')
       (upsert_team_entry now entry))"

definition remove_from_teams_registry ::
  "'w legacy_compat \<Rightarrow> string \<Rightarrow> string \<Rightarrow> ('w, go_error option) state" where
  "remove_from_teams_registry l now name = when_enabled l (\<lambda>s.
     modify_registry s (lc_teams_codec l) (manager_agent_prefix l @ ''/teams-registry.json'')
       (remove_entry now name))"

definition update_humans_registry ::
  "'w legacy_compat \<Rightarrow> string \<Rightarrow> human_registry_entry \<Rightarrow> ('w, go_error option) state" where
  "update_humans_registry l now entry = when_enabled l (\<lambda>s.
     modify_registry s (lc_humans_codec l) (manager_agent_prefix l @ ''/humans-registry.json'')
       (upsert_human_entry now entry))"

definition remove_from_humans_registry ::
  "'w legacy_compat \<Rightarrow> string \<Rightarrow> string \<Rightarrow> ('w, go_error option) state" where
  "remove_from_humans_registry l now name = when_enabled l (\<lambda>s.
     modify_registry s (lc_humans_codec l) (manager_agent_prefix l @ ''/humans-registry.json'')
       (remove_entry now name))"

section \<open>The Manager's group allow list\<close>

text \<open>\<open>None\<close> is the nil slice, which is marshalled as null.\<close>

fun extract_string_slice :: "json \<Rightarrow> string list option" where
  "extract_string_slice (JArr items) =
     Some (List.map_filter (\<lambda>i. case i of JStr s \<Rightarrow> Some s | _ \<Rightarrow> None) items)"
| "extract_string_slice _ = None"

definition json_strings :: "string list option \<Rightarrow> json" where
  "json_strings xs = (case xs of None \<Rightarrow> JNull | Some ys \<Rightarrow> JArr (map JStr ys))"

definition slice :: "string list option \<Rightarrow> string list" where
  "slice xs = (case xs of None \<Rightarrow> [] | Some ys \<Rightarrow> ys)"

text \<open>\<open>append\<close> on a nil slice makes it non-nil only when something is appended.\<close>

definition slice_append :: "string list option \<Rightarrow> string list \<Rightarrow> string list option" where
  "slice_append xs ys = (if ys = [] then xs else Some (slice xs @ ys))"

text \<open>The matrix section of a configuration, when all the levels are objects.\<close>

definition matrix_section :: "json \<Rightarrow> ((string \<times> json) list \<times> (string \<times> json) list \<times> (string \<times> json) list) option" where
  "matrix_section cfg =
     (case json_obj cfg of
        None \<Rightarrow> None
      | Some root \<Rightarrow>
          (case json_obj (json_get root ''channels'') of
             None \<Rightarrow> None
           | Some channels \<Rightarrow>
               (case json_obj (json_get channels ''matrix'') of
                  None \<Rightarrow> None
                | Some matrix \<Rightarrow> Some (root, channels, matrix))))"

definition put_group_allow ::
  "(string \<times> json) list \<times> (string \<times> json) list \<times> (string \<times> json) list \<Rightarrow> string list option \<Rightarrow> json" where
  "put_group_allow sec allow =
     (let (root, channels, matrix) = sec in
      JObj (json_put ''channels'' (JObj (json_put ''matrix''
        (JObj (json_put ''groupAllowFrom'' (json_strings allow) matrix)) channels)) root))"

definition group_allow :: "json \<Rightarrow> string list" where
  "group_allow cfg =
     (case matrix_section cfg of
        None \<Rightarrow> []
      | Some (root, channels, matrix) \<Rightarrow> slice (extract_string_slice (json_get matrix ''groupAllowFrom'')))"

text \<open>\<open>mergeGroupAllowFrom\<close>: the new configuration with the old entries it lacks.\<close>

definition merge_group_allow_from :: "json \<Rightarrow> json \<Rightarrow> json" where
  "merge_group_allow_from old_cfg new_cfg =
     (case (matrix_section old_cfg, matrix_section new_cfg) of
        (Some (r1, c1, m1), Some (r2, c2, m2)) \<Rightarrow>
          (let old_allow = slice (extract_string_slice (json_get m1 ''groupAllowFrom''));
               new_allow = extract_string_slice (json_get m2 ''groupAllowFrom'')
           in put_group_allow (r2, c2, m2)
                (slice_append new_allow (dedup_loop (\<lambda>x. False) (slice new_allow) old_allow)))
      | _ \<Rightarrow> new_cfg)"

text \<open>\<open>None\<close> means that nothing is written.\<close>

definition change_group_allow :: "json \<Rightarrow> string \<Rightarrow> bool \<Rightarrow> json option" where
  "change_group_allow cfg matrix_id add =
     (case matrix_section cfg of
        None \<Rightarrow> None
      | Some (root, channels, matrix) \<Rightarrow>
          let allow = extract_string_slice (json_get matrix ''groupAllowFrom'') in
          if add
          then if matrix_id \<in> set (slice allow) then None
               else Some (put_group_allow (root, channels, matrix) (slice_append allow [matrix_id]))
          else Some (put_group_allow (root, channels, matrix)
                 (Some (filter (\<lambda>i. i \<noteq> matrix_id) (slice allow)))))"

definition manager_config_key :: "'w legacy_compat \<Rightarrow> string" where
  "manager_config_key l = manager_agent_prefix l @ ''/openclaw.json''"

definition update_manager_group_allow_from ::
  "'w legacy_compat \<Rightarrow> string \<Rightarrow> bool \<Rightarrow> ('w, go_error option) state" where
  "update_manager_group_allow_from l matrix_id add = when_enabled l (\<lambda>s. do {
     data \<leftarrow> so_get s (manager_config_key l);
     (case data of
        Inl e \<Rightarrow> State_Monad.return
          (if is_os_not_exist e then None else Some (Wrap ''read manager config from OSS'' e))
      | Inr d \<Rightarrow>
          (case cd_unmarshal (lc_config_codec l) d of
             Inl e \<Rightarrow> State_Monad.return (Some (Wrap ''parse manager config'' e))
           | Inr cfg \<Rightarrow>
               (case change_group_allow cfg matrix_id add of
                  None \<Rightarrow> State_Monad.return None
                | Some cfg' \<Rightarrow>
                    (case cd_marshal (lc_config_codec l) cfg' of
                       Inl e \<Rightarrow> State_Monad.return (Some (Wrap ''marshal manager config'' e))
                     | Inr out \<Rightarrow> do {
                         p \<leftarrow> so_put s (manager_config_key l) out;
                         (case p of
                            Some e \<Rightarrow> State_Monad.return (Some e)
                          | None \<Rightarrow> do {
                              _ \<leftarrow> write_manager_local_config l out;
                              State_Monad.return None
                            })
                       }))))
   })"

section \<open>The contract of an upsert\<close>

text \<open>
  What the reconcilers rely on: an upsert stores the entry under its name, keeps the creation
  time of an existing entry, and leaves every other entry alone.
\<close>

locale registry_upsert =
  fixes upsert :: "string \<Rightarrow> 'e \<Rightarrow> 'e registry \<Rightarrow> 'e registry"
    and name_of :: "'e \<Rightarrow> string"
    and created :: "'e \<Rightarrow> string"
    and same :: "'e \<Rightarrow> 'e \<Rightarrow> bool"
  assumes stored: "\<exists>e'. map_of (rg_entries (upsert now e reg)) (name_of e) = Some e' \<and> same e' e \<and>
      created e' = (case map_of (rg_entries reg) (name_of e) of
         Some old \<Rightarrow> if created old \<noteq> [] then created old else now | None \<Rightarrow> now)"
    and others: "n \<noteq> name_of e \<Longrightarrow> map_of (rg_entries (upsert now e reg)) n = map_of (rg_entries reg) n"
    and same_name: "same a b \<Longrightarrow> name_of a = name_of b"
begin

lemma created_at_stable:
  assumes "now1 \<noteq> []" "name_of e1 = name_of e2"
  shows "map_option created (map_of (rg_entries (upsert now2 e2 (upsert now1 e1 reg))) (name_of e1)) =
    map_option created (map_of (rg_entries (upsert now1 e1 reg)) (name_of e1))"
  using stored [of now1 e1 reg] stored [of now2 e2 "upsert now1 e1 reg"] assms
  by (auto split: option.splits if_splits)

lemma commute:
  assumes "name_of a \<noteq> name_of b"
  shows "map_option created (map_of (rg_entries (upsert now a (upsert now b reg))) n) =
    map_option created (map_of (rg_entries (upsert now b (upsert now a reg))) n)"
proof -
  obtain a1 a2 b1 b2 where
    "map_of (rg_entries (upsert now a (upsert now b reg))) (name_of a) = Some a1"
    "map_of (rg_entries (upsert now a reg)) (name_of a) = Some a2"
    "map_of (rg_entries (upsert now b reg)) (name_of b) = Some b1"
    "map_of (rg_entries (upsert now b (upsert now a reg))) (name_of b) = Some b2"
    "created a1 = created a2" "created b1 = created b2"
    using stored [of now a "upsert now b reg"] stored [of now a reg] stored [of now b reg]
      stored [of now b "upsert now a reg"] others [of "name_of a" b now reg] others [of "name_of b" a now reg]
      assms by metis
  then show ?thesis
    using others assms by (cases "n = name_of a"; cases "n = name_of b") auto
qed

end

definition same_worker_entry :: "worker_registry_entry \<Rightarrow> worker_registry_entry \<Rightarrow> bool" where
  "same_worker_entry a b \<longleftrightarrow>
     a\<lparr>re_created_at := [], re_skills_updated_at := []\<rparr> = b\<lparr>re_created_at := [], re_skills_updated_at := []\<rparr>"

interpretation workers_reg: registry_upsert upsert_worker_entry re_name re_created_at same_worker_entry
  by unfold_locales
    (auto simp: upsert_worker_entry_def Let_def update_conv' same_worker_entry_def
      elim: worker_registry_entry.equality dest: arg_cong [of _ _ re_name])

interpretation teams_reg: registry_upsert upsert_team_entry te_name te_created_at
  "\<lambda>a b. a\<lparr>te_created_at := []\<rparr> = b\<lparr>te_created_at := []\<rparr>"
  by unfold_locales (auto simp: upsert_team_entry_def Let_def update_conv' dest: arg_cong [of _ _ te_name])

interpretation humans_reg: registry_upsert upsert_human_entry he_name he_created_at
  "\<lambda>a b. a\<lparr>he_created_at := []\<rparr> = b\<lparr>he_created_at := []\<rparr>"
  by unfold_locales (auto simp: upsert_human_entry_def Let_def update_conv' dest: arg_cong [of _ _ he_name])

section \<open>Properties\<close>

lemma extract_json_strings [simp]: "slice (extract_string_slice (json_strings xs)) = slice xs"
  by (cases xs) (simp_all add: json_strings_def slice_def List.map_filter_def comp_def)

lemma group_allow_put [simp]: "group_allow (put_group_allow sec allow) = slice allow"
  by (cases sec) (simp add: put_group_allow_def group_allow_def matrix_section_def)

lemma slice_append_slice [simp]: "slice (slice_append xs ys) = slice xs @ ys"
  by (simp add: slice_append_def slice_def split: option.splits)

text \<open>
  The Manager's group allow list behaves as a set of ids: on a configuration with a Matrix
  section, adding an id that is missing appends exactly it, adding a present id writes nothing,
  and removing an id removes all its occurrences and nothing else.
\<close>

theorem group_allow_change:
  assumes "matrix_section cfg \<noteq> None"
  shows "(case change_group_allow cfg i True of
      None \<Rightarrow> i \<in> set (group_allow cfg)
    | Some cfg' \<Rightarrow> i \<notin> set (group_allow cfg) \<and> group_allow cfg' = group_allow cfg @ [i]) \<and>
    (\<exists>cfg'. change_group_allow cfg i False = Some cfg' \<and>
       group_allow cfg' = filter (\<lambda>x. x \<noteq> i) (group_allow cfg))"
proof -
  obtain r c m where sec: "matrix_section cfg = Some (r, c, m)"
    using assms by auto
  have allow: "group_allow cfg = slice (extract_string_slice (json_get m ''groupAllowFrom''))"
    by (simp add: group_allow_def sec)
  have "slice (Some xs) = xs" for xs
    by (simp add: slice_def)
  then show ?thesis
    by (simp add: change_group_allow_def sec Let_def allow)
qed

definition example_config :: json where
  "example_config = JObj [(''channels'', JObj [(''matrix'', JObj
     [(''groupAllowFrom'', JArr [JStr ''@lead:x'', JStr ''@bob:x'']), (''userId'', JStr ''@manager:x'')])])]"

theorem group_allow_change_witness:
  "\<exists>cfg'. change_group_allow example_config ''@bob:x'' False = Some cfg' \<and> group_allow cfg' = [''@lead:x'']"
proof -
  have "matrix_section example_config \<noteq> None" "group_allow example_config = [''@lead:x'', ''@bob:x'']"
    by code_simp+
  with group_allow_change [of example_config "''@bob:x''"] show ?thesis by auto
qed

text \<open>
  Redeploying the Manager's configuration never locks out a team leader: when both the
  stored and the generated configuration have a Matrix section, every id either of them allows
  is allowed in the merged one, nothing else is, and the generated order is kept as a prefix.
\<close>

theorem merge_group_allow_keeps_ids:
  assumes "matrix_section old_cfg \<noteq> None" "matrix_section new_cfg \<noteq> None"
  shows "set (group_allow (merge_group_allow_from old_cfg new_cfg)) =
      set (group_allow old_cfg) \<union> set (group_allow new_cfg) \<and>
    take (length (group_allow new_cfg)) (group_allow (merge_group_allow_from old_cfg new_cfg)) =
      group_allow new_cfg"
proof -
  obtain r1 c1 m1 r2 c2 m2 where sec: "matrix_section old_cfg = Some (r1, c1, m1)"
      "matrix_section new_cfg = Some (r2, c2, m2)"
    using assms by auto
  have allow: "group_allow old_cfg = slice (extract_string_slice (json_get m1 ''groupAllowFrom''))"
    "group_allow new_cfg = slice (extract_string_slice (json_get m2 ''groupAllowFrom''))"
    by (simp_all add: group_allow_def sec)
  have "group_allow (merge_group_allow_from old_cfg new_cfg) =
      group_allow new_cfg @ dedup_loop (\<lambda>x. False) (group_allow new_cfg) (group_allow old_cfg)"
    by (simp add: merge_group_allow_from_def sec Let_def allow)
  then show ?thesis by (auto simp: dedup_loop_set)
qed

theorem merge_group_allow_keeps_ids_witness:
  "set (group_allow (merge_group_allow_from example_config
      (JObj [(''channels'', JObj [(''matrix'', JObj [])])]))) = {''@lead:x'', ''@bob:x''}"
proof -
  let ?new = "JObj [(''channels'', JObj [(''matrix'', JObj [])])]"
  have "matrix_section example_config \<noteq> None" "matrix_section ?new \<noteq> None"
    "group_allow example_config = [''@lead:x'', ''@bob:x'']" "group_allow ?new = []"
    by code_simp+
  with merge_group_allow_keeps_ids [of example_config ?new] show ?thesis by simp
qed

text \<open>
  A registry write persists and keeps history: on the object store, after upserting a worker
  twice at different times the stored registry holds the second entry under the worker's name
  with the creation time of the first write, whatever else the registry holds; and an entry of
  any other worker is the one it held before. Assumed is that JSON encoding and decoding of the
  two registries written are inverse.
\<close>

theorem workers_registry_keeps_created_at:
  fixes l :: "memory legacy_compat" and w :: memory and e1 e2 :: worker_registry_entry and t1 t2 reg
  defines "key \<equiv> manager_agent_prefix l @ ''/workers-registry.json''"
    and "reg1 \<equiv> upsert_worker_entry t1 e1 reg"
    and "reg2 \<equiv> upsert_worker_entry t2 e2 (upsert_worker_entry t1 e1 reg)"
  assumes oss: "lc_oss l = Some memory_store"
    and start: "fst (run_state (load_registry memory_store (lc_workers_codec l) key) w) = Inr reg"
    and codec: "cd_marshal (lc_workers_codec l) reg1 = Inr d1" "cd_unmarshal (lc_workers_codec l) d1 = Inr reg1"
      "cd_marshal (lc_workers_codec l) reg2 = Inr d2" "cd_unmarshal (lc_workers_codec l) d2 = Inr reg2"
    and names: "re_name e1 = re_name e2" and time: "t1 \<noteq> []"
  shows "\<exists>w'. run_state (do { _ \<leftarrow> update_workers_registry l t1 e1; update_workers_registry l t2 e2 }) w =
      (None, w') \<and>
    fst (run_state (load_registry memory_store (lc_workers_codec l) key) w') = Inr reg2 \<and>
    map_option re_created_at (map_of (rg_entries reg2) (re_name e2)) =
      map_option re_created_at (map_of (rg_entries reg1) (re_name e1)) \<and>
    (n \<noteq> re_name e2 \<longrightarrow> map_of (rg_entries reg2) n = map_of (rg_entries reg) n)"
proof -
  have get: "run_state (so_get memory_store key) v =
      ((case map_of v key of None \<Rightarrow> Inl OsNotExist | Some d \<Rightarrow> Inr d), v)" for v
    using memory.get_reads by simp
  have put: "run_state (so_put memory_store key d) v = (None, smap_put key d v)" for v d
    by (simp add: memory_store_def memory_put_def)
  have pure: "snd (run_state (load_registry memory_store (lc_workers_codec l) key) v) = v" for v
    by (simp add: load_registry_def get)
  have load: "run_state (load_registry memory_store (lc_workers_codec l) key) (smap_put key d v) =
      (Inr r, smap_put key d v)" if "cd_unmarshal (lc_workers_codec l) d = Inr r" for d v r
    using that by (simp add: load_registry_def get)
  have start': "run_state (load_registry memory_store (lc_workers_codec l) key) w = (Inr reg, w)"
    using start pure [of w] by (metis prod.collapse)
  have step1: "run_state (update_workers_registry l t1 e1) w = (None, smap_put key d1 w)"
    using start' codec(1)
    by (simp add: update_workers_registry_def when_enabled_def oss modify_registry_def
        save_registry_def put key_def [symmetric] reg1_def [symmetric])
  have step2: "run_state (update_workers_registry l t2 e2) (smap_put key d1 w) =
      (None, smap_put key d2 (smap_put key d1 w))"
    using load [OF codec(2)] codec(3)
    by (simp add: update_workers_registry_def when_enabled_def oss modify_registry_def
        save_registry_def put key_def [symmetric] reg2_def reg1_def)
  have "map_option re_created_at (map_of (rg_entries reg2) (re_name e1)) =
      map_option re_created_at (map_of (rg_entries reg1) (re_name e1))"
    unfolding reg1_def reg2_def using workers_reg.created_at_stable time names by blast
  moreover have "n \<noteq> re_name e2 \<Longrightarrow> map_of (rg_entries reg2) n = map_of (rg_entries reg) n"
    using workers_reg.others names by (simp add: reg2_def)
  ultimately show ?thesis
    using step1 step2 load [OF codec(4)] names by simp
qed

definition example_worker_entry :: "string \<Rightarrow> worker_registry_entry" where
  "example_worker_entry room = \<lparr>re_name = ''bob'', re_matrix_user_id = ''@bob'', re_room_id = room,
     re_runtime = [], re_deployment = ''local'', re_skills = [], re_role = ''worker'',
     re_team_id = None, re_image = None, re_created_at = [], re_skills_updated_at = []\<rparr>"

definition example_reg1 :: "worker_registry_entry registry" where
  "example_reg1 = upsert_worker_entry ''t1'' (example_worker_entry ''!a'') empty_registry"

definition example_reg2 :: "worker_registry_entry registry" where
  "example_reg2 = upsert_worker_entry ''t2'' (example_worker_entry ''!b'') example_reg1"

definition example_legacy :: "memory legacy_compat" where
  "example_legacy = \<lparr>lc_oss = Some memory_store, lc_matrix_domain = ''x'', lc_manager_name = ''manager'',
     lc_agent_fs_dir = [], lc_write_file = (\<lambda>_ _. State_Monad.return None),
     lc_workers_codec = \<lparr>cd_unmarshal = (\<lambda>d. if d = ''1'' then Inr example_reg1 else Inr example_reg2),
       cd_marshal = (\<lambda>r. Inr (if rg_updated_at r = ''t1'' then ''1'' else ''2''))\<rparr>,
     lc_teams_codec = \<lparr>cd_unmarshal = (\<lambda>_. Inr empty_registry), cd_marshal = (\<lambda>_. Inr [])\<rparr>,
     lc_humans_codec = \<lparr>cd_unmarshal = (\<lambda>_. Inr empty_registry), cd_marshal = (\<lambda>_. Inr [])\<rparr>,
     lc_config_codec = \<lparr>cd_unmarshal = (\<lambda>_. Inr JNull), cd_marshal = (\<lambda>_. Inr [])\<rparr>\<rparr>"

theorem workers_registry_keeps_created_at_witness:
  "map_option re_created_at (map_of (rg_entries example_reg2) ''bob'') =
   map_option re_created_at (map_of (rg_entries example_reg1) ''bob'')"
proof -
  have oss: "lc_oss example_legacy = Some memory_store"
    by (simp add: example_legacy_def)
  have start: "fst (run_state (load_registry memory_store (lc_workers_codec example_legacy)
      (manager_agent_prefix example_legacy @ ''/workers-registry.json'')) []) = Inr empty_registry"
    by (simp add: load_registry_def memory_store_def memory_get_def is_os_not_exist_def)
  have updated: "rg_updated_at example_reg1 = ''t1''" "rg_updated_at example_reg2 = ''t2''"
    by (simp_all add: example_reg1_def example_reg2_def upsert_worker_entry_def Let_def)
  then have codec:
    "cd_marshal (lc_workers_codec example_legacy) example_reg1 = Inr ''1''"
    "cd_unmarshal (lc_workers_codec example_legacy) ''1'' = Inr example_reg1"
    "cd_marshal (lc_workers_codec example_legacy) example_reg2 = Inr ''2''"
    "cd_unmarshal (lc_workers_codec example_legacy) ''2'' = Inr example_reg2"
    by (simp_all add: example_legacy_def)
  have name: "re_name (example_worker_entry ''!a'') = ''bob''" "re_name (example_worker_entry ''!b'') = ''bob''"
    by (simp_all add: example_worker_entry_def)
  from workers_registry_keeps_created_at [OF oss start, where ?t1.0 = "''t1''" and ?t2.0 = "''t2''" and
      ?e1.0 = "example_worker_entry ''!a''" and ?e2.0 = "example_worker_entry ''!b''",
      folded example_reg1_def, folded example_reg2_def, OF codec, unfolded name, OF refl]
  show ?thesis by blast
qed

end
