(* ===== verification/Worker_Controller.thy ===== *)
theory Worker_Controller
  imports Member_Convergence Legacy_Registry
begin

text \<open>
  \<open>internal/controller/worker_controller.go\<close>: the reconciler of standalone Worker resources. The
  Kubernetes client is a record of the calls it makes; the deferred status patch is the tail of
  \<open>worker_reconcile\<close>. Durations are seconds, and 0 is no requeue.
\<close>

definition finalizer_name :: string where "finalizer_name = ''hiclaw.io/cleanup''"
definition reconcile_interval :: nat where "reconcile_interval = 300"
definition reconcile_retry_delay :: nat where "reconcile_retry_delay = 30"

record 'w worker_client =
  wc_get :: "string \<Rightarrow> string \<Rightarrow> ('w, worker result) state"
  wc_patch :: "worker \<Rightarrow> worker \<Rightarrow> ('w, go_error option) state"
  wc_status_patch :: "worker \<Rightarrow> worker \<Rightarrow> ('w, go_error option) state"

record 'w worker_reconciler =
  wr_client :: "'w worker_client"
  wr_deps :: "'w member_deps"
  wr_legacy :: "('w legacy_compat \<times> string) option"
  wr_resolve_model_provider :: "(string \<Rightarrow> ('w, model_provider_info result) state) option"
  wr_matrix_user_id :: "string \<Rightarrow> string"
  wr_controller_name :: string

text \<open>\<open>wr_legacy\<close> carries the clock reading the registry writes use.\<close>

definition nil_if_empty :: "string \<Rightarrow> string option" where
  "nil_if_empty s = (if s = [] then None else Some s)"

definition role_for_annotations :: "string \<Rightarrow> string \<Rightarrow> member_role" where
  "role_for_annotations role team_leader_name =
     (if role = ''team_leader'' then Role_Team_Leader
      else if team_leader_name \<noteq> [] then Role_Team_Worker
      else Role_Standalone)"

definition worker_annotation :: "worker \<Rightarrow> string \<Rightarrow> string" where
  "worker_annotation w key = smap_get (om_annotations (w_meta w)) key"

definition worker_member_context :: "string \<Rightarrow> worker \<Rightarrow> member_context" where
  "worker_member_context controller_name w =
     (let role = role_for_annotations (worker_annotation w ''hiclaw.io/role'')
            (worker_annotation w ''hiclaw.io/team-leader'');
          st = w_status w in
      \<lparr>mx_name = om_name (w_meta w),
       mx_runtime_name = worker_effective_name (w_spec w) (om_name (w_meta w)),
       mx_namespace = om_namespace (w_meta w), mx_role = role, mx_spec = w_spec w,
       mx_generation = om_generation (w_meta w),
       mx_observed_generation = wst_observed_generation st,
       mx_spec_changed = (wst_observed_generation st > 0 \<and>
          om_generation (w_meta w) \<noteq> wst_observed_generation st),
       mx_is_update = (wst_phase st \<noteq> [] \<and> wst_phase st \<noteq> ''Pending'' \<and> wst_phase st \<noteq> ''Failed''),
       mx_team_name = worker_annotation w ''hiclaw.io/team'',
       mx_team_leader_name = worker_annotation w ''hiclaw.io/team-leader'',
       mx_team_admin_matrix_id = worker_annotation w ''hiclaw.io/team-admin-id'',
       mx_team_coordinator_ids = [], mx_heartbeat = None,
       mx_existing_matrix_user_id = wst_matrix_user_id st, mx_existing_room_id = wst_room_id st,
       mx_current_exposed_ports = wst_exposed_ports st,
       mx_pod_labels = merge_labels [om_labels (w_meta w), ws_labels (w_spec w),
          [(''hiclaw.io/controller'', controller_name), (''hiclaw.io/role'', member_role_string role)]],
       mx_owner = Some (''Worker'', om_name (w_meta w)), mx_model_provider = None\<rparr>)"

definition apply_member_state_to_worker :: "member_state \<Rightarrow> worker \<Rightarrow> worker" where
  "apply_member_state_to_worker st w =
     (let s = w_status w;
          s1 = (if mt_matrix_user_id st \<noteq> [] then s\<lparr>wst_matrix_user_id := mt_matrix_user_id st\<rparr> else s);
          s2 = (if mt_room_id st \<noteq> [] then s1\<lparr>wst_room_id := mt_room_id st\<rparr> else s1);
          s3 = (if mt_container_state st \<noteq> [] then s2\<lparr>wst_container_state := mt_container_state st\<rparr> else s2);
          s4 = (if mt_exposed_ports st \<noteq> None \<or> ws_expose (w_spec w) = []
                then s3\<lparr>wst_exposed_ports := mt_exposed_ports st\<rparr> else s3)
      in w\<lparr>w_status := s4\<rparr>)"

definition compute_worker_phase :: "worker \<Rightarrow> go_error option \<Rightarrow> string" where
  "compute_worker_phase w err =
     (if err \<noteq> None
      then if wst_matrix_user_id (w_status w) = [] then ''Failed''
           else if wst_phase (w_status w) = [] then ''Pending''
           else wst_phase (w_status w)
      else worker_desired_state (w_spec w))"

definition legacy_enabled :: "('w legacy_compat \<times> string) option \<Rightarrow> bool" where
  "legacy_enabled l = (case l of None \<Rightarrow> False | Some (lc, now) \<Rightarrow> lc_oss lc \<noteq> None)"

definition worker_reconcile_legacy ::
  "'w worker_reconciler \<Rightarrow> worker \<Rightarrow> member_state \<Rightarrow> ('w, unit) state" where
  "worker_reconcile_legacy r w st =
     (case wr_legacy r of
        None \<Rightarrow> State_Monad.return ()
      | Some (lc, now) \<Rightarrow>
          if lc_oss lc = None then State_Monad.return ()
          else
            let role = worker_annotation w ''hiclaw.io/role'';
                member_role = role_for_annotations role (worker_annotation w ''hiclaw.io/team-leader'');
                runtime_name = worker_effective_name (w_spec w) (om_name (w_meta w))
            in do {
              _ \<leftarrow> (case mt_prov_result st of
                     Some prov \<Rightarrow>
                       if member_role = Role_Standalone
                       then update_manager_group_allow_from lc (pr_matrix_user_id prov) True
                       else State_Monad.return None
                   | None \<Rightarrow> State_Monad.return None);
              _ \<leftarrow> update_workers_registry lc now
                     \<lparr>re_name = runtime_name, re_matrix_user_id = wr_matrix_user_id r runtime_name,
                      re_room_id = wst_room_id (w_status w), re_runtime = ws_runtime (w_spec w),
                      re_deployment = ''local'', re_skills = ws_skills (w_spec w), re_role = role,
                      re_team_id = nil_if_empty (worker_annotation w ''hiclaw.io/team''),
                      re_image = nil_if_empty (ws_image (w_spec w)), re_created_at = [],
                      re_skills_updated_at = []\<rparr>;
              State_Monad.return ()
            })"

text \<open>The phases; the first error stops and the state reached so far is applied.\<close>

definition worker_phases ::
  "'w member_deps \<Rightarrow> member_context \<Rightarrow> ('w, member_state \<times> go_error option) state" where
  "worker_phases d m = do {
     r1 \<leftarrow> reconcile_member_infra d m zero_member_state;
     (case snd r1 of
        Some e \<Rightarrow> State_Monad.return r1
      | None \<Rightarrow> do {
          e2 \<leftarrow> ensure_model_provider_auth d m (fst r1);
          (case e2 of
             Some e \<Rightarrow> State_Monad.return (fst r1, Some e)
           | None \<Rightarrow> do {
               e3 \<leftarrow> ensure_member_service_account d m;
               (case e3 of
                  Some e \<Rightarrow> State_Monad.return (fst r1, Some e)
                | None \<Rightarrow> do {
                    e4 \<leftarrow> reconcile_member_config d m (fst r1);
                    (case e4 of
                       Some e \<Rightarrow> State_Monad.return (fst r1, Some e)
                     | None \<Rightarrow> do {
                         r5 \<leftarrow> reconcile_member_container d m (fst r1);
                         (case snd r5 of
                            Some e \<Rightarrow> State_Monad.return r5
                          | None \<Rightarrow> do {
                              st \<leftarrow> reconcile_member_expose d m (fst r5);
                              State_Monad.return (st, None)
                            })
                       })
                  })
             })
        })
   }"

definition worker_reconcile_normal ::
  "'w worker_reconciler \<Rightarrow> worker \<Rightarrow> ('w, worker \<times> nat \<times> go_error option) state" where
  "worker_reconcile_normal r w =
     (let m = worker_member_context (wr_controller_name r) w;
          provider = ws_model_provider (w_spec w)
      in do {
        info \<leftarrow> (case wr_resolve_model_provider r of
                  None \<Rightarrow> State_Monad.return (Inr None)
                | Some resolve \<Rightarrow>
                    if provider = [] then State_Monad.return (Inr None)
                    else do {
                      i \<leftarrow> resolve provider;
                      State_Monad.return
                        (case i of
                           Inl e \<Rightarrow> Inl (Wrap (''resolve model provider '' @ go_quote provider) e)
                         | Inr x \<Rightarrow> Inr (Some x))
                    });
        (case info of
           Inl e \<Rightarrow> State_Monad.return (w, 0, Some e)
         | Inr mi \<Rightarrow> do {
             p \<leftarrow> worker_phases (wr_deps r) (m\<lparr>mx_model_provider := mi\<rparr>);
             (let w' = apply_member_state_to_worker (fst p) w in
              case snd p of
                Some e \<Rightarrow> State_Monad.return (w', 0, Some e)
              | None \<Rightarrow> do {
                  _ \<leftarrow> worker_reconcile_legacy r w' (fst p);
                  State_Monad.return (w', reconcile_interval, None)
                })
           })
      })"

definition remove_finalizer :: "object_meta \<Rightarrow> object_meta" where
  "remove_finalizer m = m\<lparr>om_finalizers := filter (\<lambda>f. f \<noteq> finalizer_name) (om_finalizers m)\<rparr>"

definition has_finalizer :: "object_meta \<Rightarrow> bool" where
  "has_finalizer m \<longleftrightarrow> finalizer_name \<in> set (om_finalizers m)"

definition add_finalizer :: "object_meta \<Rightarrow> object_meta" where
  "add_finalizer m =
     (if has_finalizer m then m else m\<lparr>om_finalizers := om_finalizers m @ [finalizer_name]\<rparr>)"

definition worker_reconcile_delete ::
  "'w worker_reconciler \<Rightarrow> worker \<Rightarrow> ('w, go_error option) state" where
  "worker_reconcile_delete r w =
     (let m = worker_member_context (wr_controller_name r) w in do {
        _ \<leftarrow> reconcile_member_delete (wr_deps r) m;
        _ \<leftarrow> (case wr_legacy r of
               None \<Rightarrow> State_Monad.return ()
             | Some (lc, now) \<Rightarrow>
                 if lc_oss lc = None then State_Monad.return ()
                 else do {
                   _ \<leftarrow> (if mx_role m = Role_Standalone
                        then update_manager_group_allow_from lc
                               (wr_matrix_user_id r (om_name (w_meta w))) False
                        else State_Monad.return None);
                   _ \<leftarrow> remove_from_workers_registry lc now (mx_runtime_name m);
                   State_Monad.return ()
                 });
        wc_patch (wr_client r) w (w\<lparr>w_meta := remove_finalizer (w_meta w)\<rparr>)
      })"

text \<open>The deferred status patch of a reconcile that ends with \<open>err\<close>.\<close>

definition worker_finish ::
  "'w worker_reconciler \<Rightarrow> worker \<Rightarrow> worker \<Rightarrow> nat \<Rightarrow> go_error option \<Rightarrow>
   ('w, nat \<times> go_error option) state" where
  "worker_finish r base w requeue err =
     (let phase = compute_worker_phase w err;
          s1 = (w_status w)\<lparr>wst_phase := phase\<rparr>;
          s2 = (case err of
                  None \<Rightarrow> s1\<lparr>wst_observed_generation := om_generation (w_meta w), wst_message := []\<rparr>
                | Some e \<Rightarrow> s1\<lparr>wst_message := err_text e\<rparr>)
      in do {
        pe \<leftarrow> wc_status_patch (wr_client r) base (w\<lparr>w_status := s2\<rparr>);
        State_Monad.return
          (requeue, (case pe of None \<Rightarrow> err | Some e \<Rightarrow> aggregate [err, Some e]))
      })"

definition worker_reconcile ::
  "'w worker_reconciler \<Rightarrow> string \<Rightarrow> string \<Rightarrow> ('w, nat \<times> go_error option) state" where
  "worker_reconcile r namespace name = do {
     got \<leftarrow> wc_get (wr_client r) namespace name;
     (case got of
        Inl e \<Rightarrow> State_Monad.return (0, if is_api_not_found e then None else Some e)
      | Inr w \<Rightarrow>
          if om_deleting (w_meta w)
          then if has_finalizer (w_meta w)
               then do { e \<leftarrow> worker_reconcile_delete r w; State_Monad.return (0, e) }
               else State_Monad.return (0, None)
          else do {
            pe \<leftarrow> (if has_finalizer (w_meta w) then State_Monad.return None
                  else wc_patch (wr_client r) w (w\<lparr>w_meta := add_finalizer (w_meta w)\<rparr>));
            (let w1 = w\<lparr>w_meta := add_finalizer (w_meta w)\<rparr> in
             case pe of
               Some e \<Rightarrow> worker_finish r w w1 0 (Some e)
             | None \<Rightarrow> do {
                 n \<leftarrow> worker_reconcile_normal r w1;
                 worker_finish r w (fst n) (fst (snd n)) (snd (snd n))
               })
          })
   }"

section \<open>Pod events\<close>

datatype pod_event = Pod_Created smap | Pod_Deleted smap | Pod_Updated string smap string | Pod_Generic

text \<open>An update carries the old phase, the new labels and the new phase.\<close>

definition pod_matches :: "string \<Rightarrow> string \<Rightarrow> smap \<Rightarrow> bool" where
  "pod_matches label_key controller_name l \<longleftrightarrow>
     smap_get l label_key \<noteq> [] \<and> smap_get l ''hiclaw.io/controller'' = controller_name"

fun pod_lifecycle_predicate :: "string \<Rightarrow> string \<Rightarrow> pod_event \<Rightarrow> bool" where
  "pod_lifecycle_predicate k c (Pod_Created l) = pod_matches k c l"
| "pod_lifecycle_predicate k c (Pod_Deleted l) = pod_matches k c l"
| "pod_lifecycle_predicate k c (Pod_Updated old_phase l new_phase) =
     (pod_matches k c l \<and> old_phase \<noteq> new_phase)"
| "pod_lifecycle_predicate k c Pod_Generic = False"

text \<open>The mapping of a pod to the Worker to reconcile.\<close>

definition worker_pod_request :: "smap \<Rightarrow> string \<Rightarrow> (string \<times> string) option" where
  "worker_pod_request labels namespace =
     (if smap_get labels ''hiclaw.io/worker'' = [] then None
      else if smap_get labels ''hiclaw.io/team'' \<noteq> [] then None
      else Some (namespace, smap_get labels ''hiclaw.io/worker''))"

end
