(* ===== verification/Team_Policy.thy ===== *)
theory Team_Policy
  imports Go_Results Member_Reconcile "HOL-Library.Word"
begin

text \<open>
  The pure part of \<open>internal/controller/team_controller.go\<close>: channel policies, coordinators,
  runtime-name validation, the hash of a member's source spec and the projection of a Team into
  the contexts of its members.
\<close>

section \<open>Channel policies\<close>

definition empty_policy :: channel_policy_spec where
  "empty_policy = \<lparr>cp_group_allow = [], cp_group_deny = [], cp_dm_allow = [], cp_dm_deny = []\<rparr>"

definition policy_or_empty :: "channel_policy_spec option \<Rightarrow> channel_policy_spec" where
  "policy_or_empty p = (case p of None \<Rightarrow> empty_policy | Some x \<Rightarrow> x)"

definition merge_channel_policy ::
  "channel_policy_spec option \<Rightarrow> channel_policy_spec option \<Rightarrow> channel_policy_spec option" where
  "merge_channel_policy team_policy individual =
     (if team_policy = None \<and> individual = None then None
      else
        let t = policy_or_empty team_policy; i = policy_or_empty individual in
        Some \<lparr>cp_group_allow = cp_group_allow t @ cp_group_allow i,
              cp_group_deny = cp_group_deny t @ cp_group_deny i,
              cp_dm_allow = cp_dm_allow t @ cp_dm_allow i,
              cp_dm_deny = cp_dm_deny t @ cp_dm_deny i\<rparr>)"

text \<open>The loop of both append helpers: non-empty names that are not present yet.\<close>

definition append_new :: "string list \<Rightarrow> string list \<Rightarrow> string list" where
  "append_new existing names = existing @ dedup_loop (\<lambda>n. n = []) existing names"

definition append_group_allow_extra ::
  "channel_policy_spec option \<Rightarrow> string list \<Rightarrow> channel_policy_spec option" where
  "append_group_allow_extra policy names =
     (if names = [] then policy
      else let p = policy_or_empty policy in
        Some (p\<lparr>cp_group_allow := append_new (cp_group_allow p) names\<rparr>))"

definition append_dm_allow_extra ::
  "channel_policy_spec option \<Rightarrow> string list \<Rightarrow> channel_policy_spec option" where
  "append_dm_allow_extra policy names =
     (if names = [] then policy
      else let p = policy_or_empty policy in
        Some (p\<lparr>cp_dm_allow := append_new (cp_dm_allow p) names\<rparr>))"

section \<open>Coordinators and names\<close>

definition unique_team_strings :: "string list \<Rightarrow> string list" where
  "unique_team_strings values = dedup_loop (\<lambda>v. v = []) [] values"

interpretation unique_team: stable_dedup unique_team_strings "\<lambda>v. v = []"
  by unfold_locales
    (simp_all add: unique_team_strings_def dedup_loop_set dedup_loop_distinct dedup_loop_subseq)

definition team_admin_matrix_id :: "team_spec \<Rightarrow> string" where
  "team_admin_matrix_id s = (case ts_admin s of None \<Rightarrow> [] | Some a \<Rightarrow> tas_matrix_user_id a)"

definition team_member_is_coordinator :: "team_member_spec \<Rightarrow> bool" where
  "team_member_is_coordinator m \<longleftrightarrow> tms_role m = [] \<or> tms_role m = ''coordinator''"

fun coordinator_ids_loop :: "team_member_spec list \<Rightarrow> string list" where
  "coordinator_ids_loop [] = []"
| "coordinator_ids_loop (m # ms) =
     (if \<not> team_member_is_coordinator m then coordinator_ids_loop ms
      else if tms_matrix_user_id m \<noteq> [] then tms_matrix_user_id m # coordinator_ids_loop ms
      else if tms_name m \<noteq> [] then tms_name m # coordinator_ids_loop ms
      else coordinator_ids_loop ms)"

definition team_coordinator_ids :: "team_spec \<Rightarrow> string list" where
  "team_coordinator_ids s =
     unique_team_strings
       ((if team_admin_matrix_id s \<noteq> [] then [team_admin_matrix_id s] else []) @
        coordinator_ids_loop (ts_human_members s))"

definition leader_label :: "team_spec \<Rightarrow> string" where
  "leader_label s = ''leader['' @ ls_name (ts_leader s) @ '']''"

definition worker_label :: "team_worker_spec \<Rightarrow> string" where
  "worker_label w = ''worker['' @ tw_name w @ '']''"

fun validate_names_loop :: "smap \<Rightarrow> team_worker_spec list \<Rightarrow> go_error option" where
  "validate_names_loop seen [] = None"
| "validate_names_loop seen (w # ws) =
     (case map_of seen (team_worker_effective_name w) of
        Some owner \<Rightarrow> Some (Err (''duplicate team runtime workerName '' @
            go_quote (team_worker_effective_name w) @ '' between '' @ owner @ '' and '' @ worker_label w))
      | None \<Rightarrow> validate_names_loop (smap_put (team_worker_effective_name w) (worker_label w) seen) ws)"

definition validate_team_runtime_names :: "team_spec \<Rightarrow> go_error option" where
  "validate_team_runtime_names s =
     validate_names_loop [(leader_effective_name (ts_leader s), leader_label s)] (ts_workers s)"

fun conflicts_loop :: "smap \<Rightarrow> smap \<Rightarrow> worker list \<Rightarrow> go_error option" where
  "conflicts_loop names runtimes [] = None"
| "conflicts_loop names runtimes (w # ws) =
     (let name = om_name (w_meta w); ns = om_namespace (w_meta w);
          runtime = worker_effective_name (w_spec w) name in
      case map_of names name of
        Some owner \<Rightarrow> Some (Err (''team member '' @ owner @ '' name '' @ go_quote name @
            '' conflicts with existing standalone Worker '' @ ns @ ''/'' @ name))
      | None \<Rightarrow>
     (case map_of runtimes runtime of
        Some owner \<Rightarrow> Some (Err (''team member '' @ owner @ '' runtime workerName '' @ go_quote runtime @
            '' conflicts with existing standalone Worker '' @ ns @ ''/'' @ name))
      | None \<Rightarrow> conflicts_loop names runtimes ws))"

text \<open>The check on the listed workers; the list call and its error are in the reconciler.\<close>

definition standalone_worker_conflict :: "team_spec \<Rightarrow> worker list \<Rightarrow> go_error option" where
  "standalone_worker_conflict s workers =
     conflicts_loop
       (fold (\<lambda>w. smap_put (tw_name w) (worker_label w)) (ts_workers s)
          [(ls_name (ts_leader s), leader_label s)])
       (fold (\<lambda>w. smap_put (team_worker_effective_name w) (worker_label w)) (ts_workers s)
          [(leader_effective_name (ts_leader s), leader_label s)])
       workers"

section \<open>The spec hash\<close>

text \<open>64-bit FNV-1a of \<open>hash/fnv\<close>, and \<open>%x\<close>.\<close>

definition fnv_offset :: "64 word" where "fnv_offset = 14695981039346656037"
definition fnv_prime :: "64 word" where "fnv_prime = 1099511628211"

definition fnv_step :: "char \<Rightarrow> 64 word \<Rightarrow> 64 word" where
  "fnv_step c h = xor h (word_of_nat (of_char c)) * fnv_prime"

definition fnv64a :: "string \<Rightarrow> 64 word" where
  "fnv64a s = fold fnv_step s fnv_offset"

fun show_hex :: "nat \<Rightarrow> string" where
  "show_hex n = (if n < 16 then [hex_digit n] else show_hex (n div 16) @ [hex_digit (n mod 16)])"

declare show_hex.simps [simp del]

text \<open>
  The payloads that are marshalled; \<open>marshal\<close> is \<open>json.Marshal\<close> on them, \<open>None\<close> its failure.
\<close>

datatype hash_payload =
    Leader_Input leader_spec "channel_policy_spec option"
  | Worker_Input team_worker_spec "channel_policy_spec option" "bool option"

definition hash_payload_of :: "team_spec \<Rightarrow> member_role \<Rightarrow> string \<Rightarrow> hash_payload option" where
  "hash_payload_of s role name =
     (case role of
        Role_Team_Leader \<Rightarrow> Some (Leader_Input (ts_leader s) (ts_channel_policy s))
      | Role_Team_Worker \<Rightarrow>
          (case List.find (\<lambda>w. tw_name w = name) (ts_workers s) of
             None \<Rightarrow> None
           | Some w \<Rightarrow> Some (Worker_Input w (ts_channel_policy s) (ts_peer_mentions s)))
      | Role_Standalone \<Rightarrow> None)"

definition hash_member_source_spec ::
  "(hash_payload \<Rightarrow> string option) \<Rightarrow> team_spec \<Rightarrow> member_role \<Rightarrow> string \<Rightarrow> string" where
  "hash_member_source_spec marshal s role name =
     (case hash_payload_of s role name of
        None \<Rightarrow> []
      | Some p \<Rightarrow> (case marshal p of None \<Rightarrow> [] | Some buf \<Rightarrow> show_hex (unat (fnv64a buf))))"

definition member_spec_changed ::
  "(hash_payload \<Rightarrow> string option) \<Rightarrow> team \<Rightarrow> member_role \<Rightarrow> string \<Rightarrow> bool" where
  "member_spec_changed marshal t role name =
     (case member_by_name (t_status t) name of
        None \<Rightarrow> False
      | Some ms \<Rightarrow> ms_spec_hash ms \<noteq> [] \<and>
          ms_spec_hash ms \<noteq> hash_member_source_spec marshal (t_spec t) role name)"

section \<open>Projection into member specs\<close>

definition leader_worker_spec :: "team_spec \<Rightarrow> worker_spec" where
  "leader_worker_spec s =
     (let l = ts_leader s;
          p1 = merge_channel_policy (ts_channel_policy s) (ls_channel_policy l);
          p2 = append_group_allow_extra p1 (map team_worker_effective_name (ts_workers s));
          cs = team_coordinator_ids s;
          p3 = (if cs \<noteq> [] then append_group_allow_extra p2 cs else p2);
          admin = team_admin_matrix_id s;
          p4 = (if admin \<noteq> [] then append_dm_allow_extra p3 [admin] else p3)
      in zero_worker_spec
        \<lparr>ws_model := ls_model l, ws_model_provider := ls_model_provider l, ws_runtime := ''copaw'',
         ws_worker_name := ls_worker_name l, ws_identity := ls_identity l, ws_soul := ls_soul l,
         ws_agents := ls_agents l, ws_package := ls_package l, ws_remote_skills := ls_remote_skills l,
         ws_mcp_servers := ls_mcp_servers l, ws_channel_policy := p4, ws_state := ls_state l,
         ws_resources := ls_resources l, ws_env := ls_env l\<rparr>)"

definition peer_mentions :: "team_spec \<Rightarrow> bool" where
  "peer_mentions s = (case ts_peer_mentions s of None \<Rightarrow> True | Some b \<Rightarrow> b)"

fun append_peers ::
  "string \<Rightarrow> team_worker_spec list \<Rightarrow> channel_policy_spec option \<Rightarrow> channel_policy_spec option" where
  "append_peers me [] p = p"
| "append_peers me (peer # peers) p =
     append_peers me peers
       (if tw_name peer \<noteq> me then append_group_allow_extra p [team_worker_effective_name peer] else p)"

definition team_worker_spec_to_worker_spec :: "team_spec \<Rightarrow> team_worker_spec \<Rightarrow> worker_spec" where
  "team_worker_spec_to_worker_spec s w =
     (let p1 = merge_channel_policy (ts_channel_policy s) (tw_channel_policy w);
          p2 = append_group_allow_extra p1 [leader_effective_name (ts_leader s)];
          cs = team_coordinator_ids s;
          p3 = (if cs \<noteq> [] then append_group_allow_extra p2 cs else p2);
          p4 = (if peer_mentions s then append_peers (tw_name w) (ts_workers s) p3 else p3)
      in zero_worker_spec
        \<lparr>ws_model := tw_model w, ws_model_provider := tw_model_provider w, ws_runtime := tw_runtime w,
         ws_worker_name := tw_worker_name w, ws_image := tw_image w, ws_identity := tw_identity w,
         ws_soul := tw_soul w, ws_agents := tw_agents w, ws_skills := tw_skills w,
         ws_remote_skills := tw_remote_skills w, ws_mcp_servers := tw_mcp_servers w,
         ws_package := tw_package w, ws_expose := tw_expose w, ws_channel_policy := p4,
         ws_state := tw_state w, ws_resources := tw_resources w, ws_env := tw_env w\<rparr>)"

definition team_member_labels :: "team \<Rightarrow> string \<Rightarrow> member_role \<Rightarrow> smap \<Rightarrow> smap" where
  "team_member_labels t controller_name role per_member =
     merge_labels [om_labels (t_meta t), per_member,
       [(''hiclaw.io/team'', om_name (t_meta t)), (''hiclaw.io/role'', member_role_string role),
        (''hiclaw.io/controller'', controller_name)]]"

definition member_observed :: "team \<Rightarrow> string \<Rightarrow> bool" where
  "member_observed t name =
     (case member_by_name (t_status t) name of None \<Rightarrow> False | Some ms \<Rightarrow> ms_observed ms)"

definition leader_member :: "(hash_payload \<Rightarrow> string option) \<Rightarrow> string \<Rightarrow> team \<Rightarrow> member_context" where
  "leader_member marshal controller_name t =
     (let s = t_spec t; l = ts_leader s in
      \<lparr>mx_name = ls_name l, mx_runtime_name = leader_effective_name l,
       mx_namespace = om_namespace (t_meta t), mx_role = Role_Team_Leader,
       mx_spec = leader_worker_spec s, mx_generation = om_generation (t_meta t),
       mx_observed_generation = 0,
       mx_spec_changed = member_spec_changed marshal t Role_Team_Leader (ls_name l),
       mx_is_update = member_observed t (ls_name l),
       mx_team_name = effective_team_name s (om_name (t_meta t)), mx_team_leader_name = [],
       mx_team_admin_matrix_id = team_admin_matrix_id s,
       mx_team_coordinator_ids = team_coordinator_ids s,
       mx_heartbeat =
         (case ls_heartbeat l of
            None \<Rightarrow> None
          | Some h \<Rightarrow> if hb_enabled h then Some \<lparr>hc_enabled = True, hc_every = hb_every h\<rparr> else None),
       mx_existing_matrix_user_id = [], mx_existing_room_id = [], mx_current_exposed_ports = None,
       mx_pod_labels = team_member_labels t controller_name Role_Team_Leader (ls_labels l),
       mx_owner = Some (''Team'', om_name (t_meta t)), mx_model_provider = None\<rparr>)"

definition worker_member ::
  "(hash_payload \<Rightarrow> string option) \<Rightarrow> string \<Rightarrow> team \<Rightarrow> team_worker_spec \<Rightarrow> member_context" where
  "worker_member marshal controller_name t w =
     (let s = t_spec t in
      \<lparr>mx_name = tw_name w, mx_runtime_name = team_worker_effective_name w,
       mx_namespace = om_namespace (t_meta t), mx_role = Role_Team_Worker,
       mx_spec = team_worker_spec_to_worker_spec s w, mx_generation = om_generation (t_meta t),
       mx_observed_generation = 0,
       mx_spec_changed = member_spec_changed marshal t Role_Team_Worker (tw_name w),
       mx_is_update = member_observed t (tw_name w),
       mx_team_name = effective_team_name s (om_name (t_meta t)),
       mx_team_leader_name = leader_effective_name (ts_leader s),
       mx_team_admin_matrix_id = team_admin_matrix_id s,
       mx_team_coordinator_ids = team_coordinator_ids s, mx_heartbeat = None,
       mx_existing_matrix_user_id = [], mx_existing_room_id = [], mx_current_exposed_ports = None,
       mx_pod_labels = team_member_labels t controller_name Role_Team_Worker (tw_labels w),
       mx_owner = Some (''Team'', om_name (t_meta t)), mx_model_provider = None\<rparr>)"

definition build_desired_members ::
  "(hash_payload \<Rightarrow> string option) \<Rightarrow> team \<Rightarrow> string \<Rightarrow> member_context list" where
  "build_desired_members marshal t controller_name =
     leader_member marshal controller_name t #
     map (worker_member marshal controller_name t) (ts_workers (t_spec t))"

definition leader_heartbeat_every :: "team_spec \<Rightarrow> string" where
  "leader_heartbeat_every s = (case ls_heartbeat (ts_leader s) of None \<Rightarrow> [] | Some h \<Rightarrow> hb_every h)"

section \<open>Lemmas on policies\<close>

lemma set_append_new: "set (append_new xs ns) = set xs \<union> (set ns - {[]})"
  by (auto simp: append_new_def dedup_loop_set)

lemma append_new_Nil [simp]: "append_new xs [] = xs"
  by (simp add: append_new_def)

lemma distinct_append_new: "distinct xs \<Longrightarrow> distinct (append_new xs ns)"
  by (auto simp: append_new_def dedup_loop_set dedup_loop_distinct)

lemma append_group_allow_extra_fields [simp]:
  "cp_group_allow (policy_or_empty (append_group_allow_extra p ns)) =
     append_new (cp_group_allow (policy_or_empty p)) ns"
  "cp_group_deny (policy_or_empty (append_group_allow_extra p ns)) = cp_group_deny (policy_or_empty p)"
  "cp_dm_allow (policy_or_empty (append_group_allow_extra p ns)) = cp_dm_allow (policy_or_empty p)"
  "cp_dm_deny (policy_or_empty (append_group_allow_extra p ns)) = cp_dm_deny (policy_or_empty p)"
  by (simp_all add: append_group_allow_extra_def Let_def policy_or_empty_def)

lemma append_dm_allow_extra_fields [simp]:
  "cp_dm_allow (policy_or_empty (append_dm_allow_extra p ns)) =
     append_new (cp_dm_allow (policy_or_empty p)) ns"
  "cp_group_allow (policy_or_empty (append_dm_allow_extra p ns)) = cp_group_allow (policy_or_empty p)"
  "cp_group_deny (policy_or_empty (append_dm_allow_extra p ns)) = cp_group_deny (policy_or_empty p)"
  "cp_dm_deny (policy_or_empty (append_dm_allow_extra p ns)) = cp_dm_deny (policy_or_empty p)"
  by (simp_all add: append_dm_allow_extra_def Let_def policy_or_empty_def)

lemma merge_channel_policy_fields [simp]:
  "cp_group_allow (policy_or_empty (merge_channel_policy t i)) =
     cp_group_allow (policy_or_empty t) @ cp_group_allow (policy_or_empty i)"
  "cp_group_deny (policy_or_empty (merge_channel_policy t i)) =
     cp_group_deny (policy_or_empty t) @ cp_group_deny (policy_or_empty i)"
  "cp_dm_allow (policy_or_empty (merge_channel_policy t i)) =
     cp_dm_allow (policy_or_empty t) @ cp_dm_allow (policy_or_empty i)"
  "cp_dm_deny (policy_or_empty (merge_channel_policy t i)) =
     cp_dm_deny (policy_or_empty t) @ cp_dm_deny (policy_or_empty i)"
  by (simp_all add: merge_channel_policy_def Let_def policy_or_empty_def empty_policy_def)

lemma append_peers_fields:
  "set (cp_group_allow (policy_or_empty (append_peers me peers p))) =
     set (cp_group_allow (policy_or_empty p)) \<union>
     (team_worker_effective_name ` {w \<in> set peers. tw_name w \<noteq> me} - {[]})"
  "cp_group_deny (policy_or_empty (append_peers me peers p)) = cp_group_deny (policy_or_empty p)"
  "cp_dm_allow (policy_or_empty (append_peers me peers p)) = cp_dm_allow (policy_or_empty p)"
  "cp_dm_deny (policy_or_empty (append_peers me peers p)) = cp_dm_deny (policy_or_empty p)"
  by (induction peers arbitrary: p) (auto simp: set_append_new)

lemma team_coordinator_ids_nonempty: "[] \<notin> set (team_coordinator_ids s)"
  by (simp add: team_coordinator_ids_def unique_team.members)

section \<open>Lemmas on names and hashes\<close>

lemma validate_names_loop_None:
  "validate_names_loop seen ws = None \<longleftrightarrow>
   distinct (map team_worker_effective_name ws) \<and>
   set (map team_worker_effective_name ws) \<inter> dom (map_of seen) = {}"
  by (induction seen ws rule: validate_names_loop.induct) (auto simp: disjoint_iff split: option.splits if_splits simp del: set_map)

lemma dom_fold_smap_put:
  "map_of (fold (\<lambda>w. smap_put (f w) (g w)) ws acc) k = None \<longleftrightarrow> map_of acc k = None \<and> k \<notin> f ` set ws"
  by (induction ws arbitrary: acc) auto

lemma conflicts_loop_None:
  "conflicts_loop names runtimes ws = None \<longleftrightarrow>
   (\<forall>w \<in> set ws. map_of names (om_name (w_meta w)) = None \<and>
      map_of runtimes (worker_effective_name (w_spec w) (om_name (w_meta w))) = None)"
  by (induction names runtimes ws rule: conflicts_loop.induct) (auto simp: Let_def split: option.splits)

lemma find_append: "List.find P (xs @ ys) = (case List.find P xs of Some x \<Rightarrow> Some x | None \<Rightarrow> List.find P ys)"
  by (induction xs) auto

section \<open>Properties\<close>

text \<open>
  A team worker may be mentioned by exactly the right identities: its group-allow list holds
  the team's and its own configured entries, the leader, the team admin and coordinator members,
  and, unless peer mentions are switched off, every other worker of the team by its runtime name;
  the deny lists and the direct-message lists are the team's followed by its own, untouched.
\<close>

theorem team_worker_policy:
  fixes s :: team_spec and w :: team_worker_spec
  defines "pol \<equiv> policy_or_empty (ws_channel_policy (team_worker_spec_to_worker_spec s w))"
    and "team \<equiv> policy_or_empty (ts_channel_policy s)" and "own \<equiv> policy_or_empty (tw_channel_policy w)"
  shows "set (cp_group_allow pol) = set (cp_group_allow team) \<union> set (cp_group_allow own) \<union>
      ({leader_effective_name (ts_leader s)} \<union> set (team_coordinator_ids s) \<union>
       (if peer_mentions s
        then team_worker_effective_name ` {p. p \<in> set (ts_workers s) \<and> tw_name p \<noteq> tw_name w} else {}) - {[]}) \<and>
    cp_group_deny pol = cp_group_deny team @ cp_group_deny own \<and>
    cp_dm_allow pol = cp_dm_allow team @ cp_dm_allow own \<and>
    cp_dm_deny pol = cp_dm_deny team @ cp_dm_deny own"
  by (auto simp: pol_def team_def own_def team_worker_spec_to_worker_spec_def Let_def
      append_peers_fields set_append_new)

text \<open>
  The leader may be mentioned by every worker of the team and every coordinator besides the
  configured entries, and by direct message also by the team admin; deny lists are untouched.
\<close>

theorem team_leader_policy:
  fixes s :: team_spec
  defines "pol \<equiv> policy_or_empty (ws_channel_policy (leader_worker_spec s))"
    and "team \<equiv> policy_or_empty (ts_channel_policy s)"
    and "own \<equiv> policy_or_empty (ls_channel_policy (ts_leader s))"
  shows "set (cp_group_allow pol) = set (cp_group_allow team) \<union> set (cp_group_allow own) \<union>
      (team_worker_effective_name ` set (ts_workers s) \<union> set (team_coordinator_ids s) - {[]}) \<and>
    cp_group_deny pol = cp_group_deny team @ cp_group_deny own \<and>
    set (cp_dm_allow pol) = set (cp_dm_allow team) \<union> set (cp_dm_allow own) \<union>
      ({team_admin_matrix_id s} - {[]}) \<and>
    cp_dm_deny pol = cp_dm_deny team @ cp_dm_deny own"
  by (auto simp: pol_def team_def own_def leader_worker_spec_def Let_def set_append_new)

text \<open>
  Runtime names are validated exactly: the check succeeds if and only if the leader and the
  workers of the team have pairwise different runtime names.
\<close>

theorem validate_team_runtime_names_exact:
  "validate_team_runtime_names s = None \<longleftrightarrow>
   distinct (leader_effective_name (ts_leader s) # map team_worker_effective_name (ts_workers s))"
  by (simp add: validate_team_runtime_names_def validate_names_loop_None del: set_map) auto

text \<open>
  No team member shadows a standalone worker: the conflict check succeeds if and only if no
  listed Worker has the resource name or the runtime name of the leader or of a team worker.
\<close>

theorem standalone_worker_conflict_exact:
  "standalone_worker_conflict s workers = None \<longleftrightarrow>
   (om_name ` w_meta ` set workers) \<inter> ({ls_name (ts_leader s)} \<union> tw_name ` set (ts_workers s)) = {} \<and>
   ((\<lambda>w. worker_effective_name (w_spec w) (om_name (w_meta w))) ` set workers) \<inter>
     ({leader_effective_name (ts_leader s)} \<union> team_worker_effective_name ` set (ts_workers s)) = {}"
  by (auto simp: standalone_worker_conflict_def conflicts_loop_None dom_fold_smap_put
      disjoint_iff image_iff; metis)

text \<open>
  Changing the team does not restart bystanders: adding or removing another worker, and any
  change of the team admin or the human members, leaves the spec-changed flag of every other
  member as it was, although the derived channel policies of those members do change.
\<close>

theorem peers_do_not_restart_members:
  fixes t :: team and admin :: "team_admin_spec option" and humans :: "team_member_spec list"
  assumes "ts_workers (t_spec t) = before @ after" "role = Role_Team_Leader \<or> tw_name peer \<noteq> name"
  shows "member_spec_changed marshal
      (t\<lparr>t_spec := (t_spec t)\<lparr>ts_workers := before @ peer # after, ts_admin := admin,
         ts_human_members := humans\<rparr>\<rparr>) role name =
    member_spec_changed marshal t role name"
proof -
  have "hash_payload_of ((t_spec t)\<lparr>ts_workers := before @ peer # after, ts_admin := admin,
      ts_human_members := humans\<rparr>) role name = hash_payload_of (t_spec t) role name"
    using assms by (cases role) (auto simp: hash_payload_of_def find_append split: option.splits)
  then show ?thesis
    by (simp add: member_spec_changed_def hash_member_source_spec_def cong: option.case_cong)
qed

definition example_team :: team where
  "example_team = zero_team\<lparr>t_meta := zero_meta\<lparr>om_name := ''alpha'', om_namespace := ''hiclaw''\<rparr>,
     t_spec := zero_team_spec\<lparr>ts_leader := zero_leader\<lparr>ls_name := ''lead''\<rparr>,
       ts_workers := [zero_team_worker\<lparr>tw_name := ''bob''\<rparr>]\<rparr>,
     t_status := zero_team_status\<lparr>tst_members := [\<lparr>ms_name = ''bob'', ms_runtime_name = ''bob'',
       ms_role = ''worker'', ms_room_id = ''!b'', ms_matrix_user_id = ''@bob'', ms_spec_hash = ''1'',
       ms_observed = True, ms_ready = True, ms_exposed_ports = None\<rparr>]\<rparr>\<rparr>"

theorem peers_do_not_restart_members_witness:
  "member_spec_changed (\<lambda>_. None)
     (example_team\<lparr>t_spec := (t_spec example_team)\<lparr>ts_workers :=
        [zero_team_worker\<lparr>tw_name := ''bob''\<rparr>, zero_team_worker\<lparr>tw_name := ''carol''\<rparr>],
        ts_admin := None, ts_human_members := []\<rparr>\<rparr>) Role_Team_Worker ''bob'' =
   member_spec_changed (\<lambda>_. None) example_team Role_Team_Worker ''bob''"
  using peers_do_not_restart_members [of example_team "[zero_team_worker\<lparr>tw_name := ''bob''\<rparr>]" "[]"
      Role_Team_Worker "zero_team_worker\<lparr>tw_name := ''carol''\<rparr>" "''bob''" "\<lambda>_. None" "[]" None]
  by (simp add: example_team_def zero_team_worker_def)

text \<open>
  Every member of a team is addressed as such: the desired members are the leader and the
  workers in spec order, all owned by the Team, and the reserved labels for team, role and
  controller carry the controller's values whatever labels the user put on the team or the
  member.
\<close>

theorem desired_members_identity:
  "map mx_name (build_desired_members marshal t ctl) =
      ls_name (ts_leader (t_spec t)) # map tw_name (ts_workers (t_spec t)) \<and>
    list_all (\<lambda>m.
      mx_owner m = Some (''Team'', om_name (t_meta t)) \<and>
      map_of (mx_pod_labels m) ''hiclaw.io/team'' = Some (om_name (t_meta t)) \<and>
      map_of (mx_pod_labels m) ''hiclaw.io/role'' = Some (member_role_string (mx_role m)) \<and>
      map_of (mx_pod_labels m) ''hiclaw.io/controller'' = Some ctl) (build_desired_members marshal t ctl)"
proof -
  have labels: "map_of (team_member_labels t ctl role l) =
      map_of (merge_labels [om_labels (t_meta t), l]) ++
      map_of [(''hiclaw.io/team'', om_name (t_meta t)), (''hiclaw.io/role'', member_role_string role),
        (''hiclaw.io/controller'', ctl)]" for role l
    using map_of_merge_labels_snoc [of "[(''hiclaw.io/team'', om_name (t_meta t)),
        (''hiclaw.io/role'', member_role_string role), (''hiclaw.io/controller'', ctl)]"
        "[om_labels (t_meta t), l]"]
    by (simp add: team_member_labels_def)
  then show ?thesis
    by (auto simp: build_desired_members_def leader_member_def worker_member_def Let_def comp_def list_all_iff)
qed

end
