(* ===== verification/Team_Reconcile.thy ===== *)
theory Team_Reconcile
  imports Worker_Controller Team_Policy
begin

text \<open>
  \<open>internal/controller/team_controller.go\<close>, the reconciler of Team resources: preparation (name
  checks, admin actor, rooms, inline configs, model providers), removal of stale members, the
  member loop with its status bookkeeping, readiness, and deletion. The status entry that the
  code updates through a pointer is written back to the first entry of its name. Durations are
  seconds. The Kubernetes client answers with errors only; the resource version it writes back
  into the object is not modelled.
\<close>

record team_admin_actor =
  ta_matrix_user_id :: string
  ta_token :: string
  ta_username :: string

record team_room_request =
  tq_team_name :: string
  tq_leader_name :: string
  tq_leader_credential_name :: string
  tq_worker_names :: "string list"
  tq_admin_spec :: "team_admin_spec option"
  tq_human_members :: "team_member_spec list"
  tq_actor_token :: string
  tq_actor_name :: string

record team_room_result =
  tm_team_room_id :: string
  tm_leader_dm_room_id :: string

record coordination_deploy_request =
  cd_leader_name :: string
  cd_role :: string
  cd_team_name :: string
  cd_team_room_id :: string
  cd_leader_dm_room_id :: string
  cd_heartbeat_every :: string
  cd_worker_idle_timeout :: string
  cd_team_workers :: "string list"
  cd_team_admin_id :: string
  cd_team_coordinator_ids :: "string list"
  cd_leader_soul :: string

record 'w team_client =
  tc_get_team :: "string \<Rightarrow> string \<Rightarrow> ('w, team result) state"
  tc_update :: "team \<Rightarrow> ('w, go_error option) state"
  tc_status_patch :: "team \<Rightarrow> team \<Rightarrow> ('w, go_error option) state"
  tc_get_human :: "string \<Rightarrow> string \<Rightarrow> ('w, human result) state"
  tc_list_workers :: "string \<Rightarrow> ('w, worker list result) state"

text \<open>
  The operations the team reconciler calls beside those of \<open>member_deps\<close>. \<open>tr_marshal\<close> is
  \<open>json.Marshal\<close> of a hash payload, \<open>tr_order\<close> the order in which the deletion visits its map of
  names, and \<open>tr_legacy\<close> carries the clock reading of the registry writes.
\<close>

record 'w team_reconciler =
  tr_client :: "'w team_client"
  tr_deps :: "'w member_deps"
  tr_legacy :: "('w legacy_compat \<times> string) option"
  tr_resolve_model_provider :: "(string \<Rightarrow> ('w, model_provider_info result) state) option"
  tr_matrix_user_id :: "string \<Rightarrow> string"
  tr_login_as_human :: "string \<Rightarrow> string \<Rightarrow> ('w, string result) state"
  tr_provision_team_rooms :: "team_room_request \<Rightarrow> ('w, team_room_result result) state"
  tr_delete_team_room_aliases :: "string \<Rightarrow> string \<Rightarrow> ('w, go_error option) state"
  tr_inject_coordination :: "coordination_deploy_request \<Rightarrow> ('w, go_error option) state"
  tr_ensure_team_storage :: "string \<Rightarrow> ('w, go_error option) state"
  tr_write_inline ::
    "string \<Rightarrow> string \<Rightarrow> string \<Rightarrow> string \<Rightarrow> string \<Rightarrow> ('w, go_error option) state"
  tr_marshal :: "hash_payload \<Rightarrow> string option"
  tr_order :: "(string \<times> member_role) list \<Rightarrow> (string \<times> member_role) list"
  tr_agent_fs_dir :: string
  tr_controller_name :: string

section \<open>Status entries\<close>

fun update_first :: "string \<Rightarrow> (team_member_status \<Rightarrow> team_member_status) \<Rightarrow>
    team_member_status list \<Rightarrow> team_member_status list" where
  "update_first name f [] = []"
| "update_first name f (m # ms) = (if ms_name m = name then f m # ms else m # update_first name f ms)"

definition update_member :: "string \<Rightarrow> (team_member_status \<Rightarrow> team_member_status) \<Rightarrow> team_status \<Rightarrow> team_status" where
  "update_member name f s = s\<lparr>tst_members := update_first name f (tst_members s)\<rparr>"

definition new_member_status :: "string \<Rightarrow> member_role \<Rightarrow> team_member_status" where
  "new_member_status name role = \<lparr>ms_name = name, ms_runtime_name = [],
     ms_role = member_role_string role, ms_room_id = [], ms_matrix_user_id = [], ms_spec_hash = [],
     ms_observed = False, ms_ready = False, ms_exposed_ports = None\<rparr>"

text \<open>The status with the entry in place, and the entry.\<close>

definition member_status :: "team_status \<Rightarrow> string \<Rightarrow> member_role \<Rightarrow> team_status \<times> team_member_status" where
  "member_status s name role =
     (case member_by_name s name of
        Some e \<Rightarrow>
          (let e' = (if ms_role e = [] then e\<lparr>ms_role := member_role_string role\<rparr> else e)
           in (update_member name (\<lambda>_. e') s, e'))
      | None \<Rightarrow>
          (let e = new_member_status name role in (s\<lparr>tst_members := tst_members s @ [e]\<rparr>, e)))"

definition prune_members :: "string list \<Rightarrow> team_status \<Rightarrow> team_status" where
  "prune_members keep s = s\<lparr>tst_members := filter (\<lambda>m. ms_name m \<in> set keep) (tst_members s)\<rparr>"

definition sort_members :: "team_status \<Rightarrow> team_status" where
  "sort_members s = s\<lparr>tst_members := sort_key ms_name (tst_members s)\<rparr>"

section \<open>Preparation\<close>

definition no_actor :: team_admin_actor where
  "no_actor = \<lparr>ta_matrix_user_id = [], ta_token = [], ta_username = []\<rparr>"

definition resolve_team_admin_actor ::
  "'w team_reconciler \<Rightarrow> team \<Rightarrow> ('w, team_admin_actor result) state" where
  "resolve_team_admin_actor r t =
     (case ts_admin (t_spec t) of
        None \<Rightarrow> State_Monad.return (Inr no_actor)
      | Some admin \<Rightarrow>
          if trim_space (tas_name admin) = []
          then State_Monad.return (Inl (Err ''team admin human name is required''))
          else
            let ns = om_namespace (t_meta t); key = ns @ ''/'' @ tas_name admin in do {
              h \<leftarrow> tc_get_human (tr_client r) ns (tas_name admin);
              (case h of
                 Inl e \<Rightarrow> State_Monad.return (Inl (Wrap (''load team admin human '' @ key) e))
               | Inr human \<Rightarrow>
                   let username = human_effective_username (h_spec human) (om_name (h_meta human));
                       uid = tr_matrix_user_id r username;
                       password = hst_initial_password (h_status human) in
                   if tas_matrix_user_id admin \<noteq> [] \<and> tas_matrix_user_id admin \<noteq> uid
                   then State_Monad.return (Inl (Err (''team admin matrixUserId '' @
                          go_quote (tas_matrix_user_id admin) @ '' does not match Human '' @ key @
                          '' matrix user '' @ go_quote uid)))
                   else if password = []
                   then State_Monad.return (Inl (Err (''team admin human '' @ key @
                          '' has no initial password; cannot obtain Matrix token'')))
                   else do {
                     tok \<leftarrow> tr_login_as_human r username password;
                     State_Monad.return
                       (case tok of
                          Inl e \<Rightarrow> Inl (Wrap (''login as team admin human '' @ key) e)
                        | Inr token \<Rightarrow> Inr \<lparr>ta_matrix_user_id = uid, ta_token = token,
                            ta_username = username\<rparr>)
                   })
            })"

text \<open>The copy of the team that carries the actor's Matrix id.\<close>

definition derived_team :: "team \<Rightarrow> team_admin_actor \<Rightarrow> team" where
  "derived_team t actor =
     (if ta_matrix_user_id actor = [] then t
      else let admin = (case ts_admin (t_spec t) of
               None \<Rightarrow> \<lparr>tas_name = [], tas_matrix_user_id = []\<rparr> | Some a \<Rightarrow> a)
        in t\<lparr>t_spec := (t_spec t)\<lparr>ts_admin := Some (admin\<lparr>tas_matrix_user_id := ta_matrix_user_id actor\<rparr>)\<rparr>\<rparr>)"

fun write_worker_inline_configs ::
  "'w team_reconciler \<Rightarrow> team_worker_spec list \<Rightarrow> ('w, go_error option) state" where
  "write_worker_inline_configs r [] = State_Monad.return None"
| "write_worker_inline_configs r (w # ws) =
     (if tw_identity w = [] \<and> tw_soul w = [] \<and> tw_agents w = [] then write_worker_inline_configs r ws
      else do {
        e \<leftarrow> tr_write_inline r (tr_agent_fs_dir r @ ''/'' @ tw_name w)
               (if tw_runtime w = [] then ''copaw'' else tw_runtime w)
               (tw_identity w) (tw_soul w) (tw_agents w);
        (case e of
           Some x \<Rightarrow> State_Monad.return
             (Some (Wrap (''write worker '' @ tw_name w @ '' inline configs'') x))
         | None \<Rightarrow> write_worker_inline_configs r ws)
      })"

definition write_inline_configs :: "'w team_reconciler \<Rightarrow> team \<Rightarrow> ('w, go_error option) state" where
  "write_inline_configs r t =
     (let l = ts_leader (t_spec t) in do {
        e \<leftarrow> (if ls_identity l \<noteq> [] \<or> ls_soul l \<noteq> [] \<or> ls_agents l \<noteq> []
             then tr_write_inline r (tr_agent_fs_dir r @ ''/'' @ ls_name l) ''copaw''
                    (ls_identity l) (ls_soul l) (ls_agents l)
             else State_Monad.return None);
        (case e of
           Some x \<Rightarrow> State_Monad.return (Some (Wrap ''write leader inline configs'' x))
         | None \<Rightarrow> write_worker_inline_configs r (ts_workers (t_spec t)))
      })"

fun resolve_providers ::
  "(string \<Rightarrow> ('w, model_provider_info result) state) \<Rightarrow> member_context list \<Rightarrow>
   ('w, string + member_context list) state" where
  "resolve_providers f [] = State_Monad.return (Inr [])"
| "resolve_providers f (m # ms) =
     (let mp = ws_model_provider (mx_spec m) in
      if mp = []
      then do {
        rest \<leftarrow> resolve_providers f ms;
        State_Monad.return (map_sum id ((#) m) rest)
      }
      else do {
        i \<leftarrow> f mp;
        (case i of
           Inl e \<Rightarrow> State_Monad.return (Inl (''resolve model provider '' @ go_quote mp @ '' for '' @
             mx_name m @ '': '' @ err_text e))
         | Inr info \<Rightarrow> do {
             rest \<leftarrow> resolve_providers f ms;
             State_Monad.return (map_sum id ((#) (m\<lparr>mx_model_provider := Some info\<rparr>)) rest)
           })
      })"

text \<open>
  Steps 1 and 2 and the desired members. A failure carries the team as far as its status was
  changed, and the message of \<open>failTeam\<close>.
\<close>

record team_plan =
  tp_team :: team
  tp_derived :: team
  tp_rooms :: team_room_result
  tp_members :: "member_context list"

definition check_standalone_conflicts :: "'w team_reconciler \<Rightarrow> team \<Rightarrow> ('w, go_error option) state" where
  "check_standalone_conflicts r t = do {
     ws \<leftarrow> tc_list_workers (tr_client r) (om_namespace (t_meta t));
     State_Monad.return
       (case ws of
          Inl e \<Rightarrow> Some (Wrap ''list standalone workers'' e)
        | Inr workers \<Rightarrow> standalone_worker_conflict (t_spec t) workers)
   }"

definition team_rooms_request :: "team \<Rightarrow> team \<Rightarrow> team_admin_actor \<Rightarrow> team_room_request" where
  "team_rooms_request t derived actor =
     (let s = t_spec t in
      \<lparr>tq_team_name = effective_team_name s (om_name (t_meta t)),
       tq_leader_name = leader_effective_name (ts_leader s),
       tq_leader_credential_name = ls_name (ts_leader s),
       tq_worker_names = map team_worker_effective_name (ts_workers s),
       tq_admin_spec = ts_admin (t_spec derived), tq_human_members = ts_human_members s,
       tq_actor_token = ta_token actor, tq_actor_name = ta_username actor\<rparr>)"

definition team_members_step ::
  "'w team_reconciler \<Rightarrow> team \<Rightarrow> team \<Rightarrow> team_room_result \<Rightarrow> ('w, team \<times> string + team_plan) state" where
  "team_members_step r t derived rooms = do {
     e \<leftarrow> write_inline_configs r t;
     (case e of
        Some x \<Rightarrow> State_Monad.return (Inl (t, err_text x))
      | None \<Rightarrow> do {
          ms \<leftarrow> (let desired = build_desired_members (tr_marshal r) derived (tr_controller_name r) in
                case tr_resolve_model_provider r of
                  None \<Rightarrow> State_Monad.return (Inr desired)
                | Some f \<Rightarrow> resolve_providers f desired);
          State_Monad.return
            (case ms of
               Inl msg \<Rightarrow> Inl (t, msg)
             | Inr members \<Rightarrow> Inr \<lparr>tp_team = t, tp_derived = derived, tp_rooms = rooms,
                 tp_members = members\<rparr>)
        })
   }"

definition team_prepare :: "'w team_reconciler \<Rightarrow> team \<Rightarrow> ('w, team \<times> string + team_plan) state" where
  "team_prepare r t =
     (case validate_team_runtime_names (t_spec t) of
        Some e \<Rightarrow> State_Monad.return (Inl (t, err_text e))
      | None \<Rightarrow> do {
          c \<leftarrow> check_standalone_conflicts r t;
          (case c of
             Some e \<Rightarrow> State_Monad.return (Inl (t, err_text e))
           | None \<Rightarrow> do {
               a \<leftarrow> resolve_team_admin_actor r t;
               (case a of
                  Inl e \<Rightarrow> State_Monad.return (Inl (t, err_text e))
                | Inr actor \<Rightarrow>
                    let derived = derived_team t actor in do {
                      rr \<leftarrow> tr_provision_team_rooms r (team_rooms_request t derived actor);
                      (case rr of
                         Inl e \<Rightarrow> State_Monad.return (Inl (t, ''provision team rooms: '' @ err_text e))
                       | Inr rooms \<Rightarrow> do {
                           _ \<leftarrow> tr_ensure_team_storage r
                                  (effective_team_name (t_spec t) (om_name (t_meta t)));
                           team_members_step r
                             (t\<lparr>t_status := (t_status t)\<lparr>tst_team_room_id := tm_team_room_id rooms,
                                tst_leader_dm_room_id := tm_leader_dm_room_id rooms\<rparr>\<rparr>) derived rooms
                         })
                    })
             })
        })"

section \<open>Members\<close>

definition team_legacy ::
  "'w team_reconciler \<Rightarrow> ('w legacy_compat \<Rightarrow> string \<Rightarrow> ('w, unit) state) \<Rightarrow> ('w, unit) state" where
  "team_legacy r f =
     (case tr_legacy r of
        None \<Rightarrow> State_Monad.return ()
      | Some (lc, now) \<Rightarrow> if lc_oss lc = None then State_Monad.return () else f lc now)"

definition remove_legacy_member :: "'w team_reconciler \<Rightarrow> string \<Rightarrow> ('w, unit) state" where
  "remove_legacy_member r runtime_name = team_legacy r (\<lambda>lc now.
     if runtime_name = [] then State_Monad.return ()
     else do { _ \<leftarrow> remove_from_workers_registry lc now runtime_name; State_Monad.return () })"

definition team_legacy_entry :: "'w legacy_compat \<Rightarrow> team \<Rightarrow> member_context \<Rightarrow> team_member_status \<Rightarrow> worker_registry_entry" where
  "team_legacy_entry lc t m ms =
     (let runtime_name = (if mx_runtime_name m = [] then mx_name m else mx_runtime_name m) in
      \<lparr>re_name = runtime_name, re_matrix_user_id = legacy_matrix_user_id lc runtime_name,
       re_room_id = ms_room_id ms, re_runtime = ws_runtime (mx_spec m), re_deployment = ''local'',
       re_skills = ws_skills (mx_spec m), re_role = member_role_string (mx_role m),
       re_team_id = nil_if_empty (effective_team_name (t_spec t) (om_name (t_meta t))),
       re_image = nil_if_empty (ws_image (mx_spec m)), re_created_at = [],
       re_skills_updated_at = []\<rparr>)"

definition reconcile_legacy_member ::
  "'w team_reconciler \<Rightarrow> team \<Rightarrow> member_context \<Rightarrow> team_member_status \<Rightarrow> ('w, unit) state" where
  "reconcile_legacy_member r t m ms = team_legacy r (\<lambda>lc now. do {
     _ \<leftarrow> update_workers_registry lc now (team_legacy_entry lc t m ms);
     State_Monad.return ()
   })"

text \<open>A member context in which only the fields a deletion reads are set.\<close>

definition bare_member :: "string \<Rightarrow> string \<Rightarrow> string \<Rightarrow> member_role \<Rightarrow> member_context" where
  "bare_member name runtime_name ns role = \<lparr>mx_name = name, mx_runtime_name = runtime_name,
     mx_namespace = ns, mx_role = role, mx_spec = zero_worker_spec, mx_generation = 0,
     mx_observed_generation = 0, mx_spec_changed = False, mx_is_update = False, mx_team_name = [],
     mx_team_leader_name = [], mx_team_admin_matrix_id = [], mx_team_coordinator_ids = [],
     mx_heartbeat = None, mx_existing_matrix_user_id = [], mx_existing_room_id = [],
     mx_current_exposed_ports = None, mx_pod_labels = [], mx_owner = None, mx_model_provider = None\<rparr>"

definition stale_member :: "team \<Rightarrow> team_member_status \<Rightarrow> member_context" where
  "stale_member t ms =
     (let runtime_name = (if ms_runtime_name ms = [] then ms_name ms else ms_runtime_name ms);
          role = (if ms_role ms = member_role_string Role_Team_Leader \<or>
                     ms_name ms = ls_name (ts_leader (t_spec t)) then Role_Team_Leader
                  else Role_Team_Worker)
      in (bare_member (ms_name ms) runtime_name (om_namespace (t_meta t)) role)
           \<lparr>mx_team_name := effective_team_name (t_spec t) (om_name (t_meta t)),
            mx_team_leader_name := leader_effective_name (ts_leader (t_spec t)),
            mx_existing_room_id := ms_room_id ms, mx_current_exposed_ports := ms_exposed_ports ms\<rparr>)"

fun remove_stale_members ::
  "'w team_reconciler \<Rightarrow> team \<Rightarrow> string list \<Rightarrow> team_member_status list \<Rightarrow> ('w, unit) state" where
  "remove_stale_members r t keep [] = State_Monad.return ()"
| "remove_stale_members r t keep (ms # rest) =
     (if ms_name ms \<in> set keep then remove_stale_members r t keep rest
      else do {
        _ \<leftarrow> reconcile_member_delete (tr_deps r) (stale_member t ms);
        _ \<leftarrow> remove_legacy_member r (mx_runtime_name (stale_member t ms));
        remove_stale_members r t keep rest
      })"

text \<open>One member: the phases, and the entry as far as it was updated.\<close>

definition existing_matrix_context :: "'w team_reconciler \<Rightarrow> member_context \<Rightarrow> member_context" where
  "existing_matrix_context r m =
     (if mx_is_update m then m\<lparr>mx_existing_matrix_user_id := tr_matrix_user_id r (mx_runtime_name m)\<rparr> else m)"

definition observe_member :: "member_context \<Rightarrow> member_state \<Rightarrow> team_member_status \<Rightarrow> team_member_status" where
  "observe_member m st ms =
     (let m1 = ms\<lparr>ms_observed := True\<rparr>;
          m2 = (if mt_room_id st \<noteq> [] then m1\<lparr>ms_room_id := mt_room_id st\<rparr> else m1);
          m3 = (if mt_matrix_user_id st \<noteq> [] then m2\<lparr>ms_matrix_user_id := mt_matrix_user_id st\<rparr> else m2)
      in m3\<lparr>ms_runtime_name := mx_runtime_name m\<rparr>)"

definition member_after_infra ::
  "'w team_reconciler \<Rightarrow> member_context \<Rightarrow> member_state \<Rightarrow> team_member_status \<Rightarrow>
   ('w, team_member_status \<times> go_error option) state" where
  "member_after_infra r m st ms = do {
     e3 \<leftarrow> ensure_member_service_account (tr_deps r) m;
     (case e3 of
        Some e \<Rightarrow> State_Monad.return (ms, Some e)
      | None \<Rightarrow> do {
          e4 \<leftarrow> reconcile_member_config (tr_deps r) m st;
          (case e4 of
             Some e \<Rightarrow> State_Monad.return (ms, Some e)
           | None \<Rightarrow> do {
               r5 \<leftarrow> reconcile_member_container (tr_deps r) m st;
               (case snd r5 of
                  Some e \<Rightarrow> State_Monad.return (ms, Some e)
                | None \<Rightarrow> do {
                    st' \<leftarrow> reconcile_member_expose (tr_deps r) m (fst r5);
                    State_Monad.return
                      (ms\<lparr>ms_exposed_ports :=
                         (if mx_role m = Role_Team_Worker then mt_exposed_ports st' else None)\<rparr>, None)
                  })
             })
        })
   }"

definition reconcile_team_member ::
  "'w team_reconciler \<Rightarrow> member_context \<Rightarrow> team_member_status \<Rightarrow>
   ('w, team_member_status \<times> go_error option) state" where
  "reconcile_team_member r m0 ms =
     (let m = existing_matrix_context r m0 in do {
        r1 \<leftarrow> reconcile_member_infra (tr_deps r) m zero_member_state;
        (case snd r1 of
           Some e \<Rightarrow> State_Monad.return (ms, Some e)
         | None \<Rightarrow> do {
             e2 \<leftarrow> ensure_model_provider_auth (tr_deps r) m (fst r1);
             (case e2 of
                Some e \<Rightarrow> State_Monad.return (ms, Some e)
              | None \<Rightarrow> member_after_infra r m (fst r1) (observe_member m (fst r1) ms))
           })
      })"

definition with_current_ports :: "member_context \<Rightarrow> team_member_status \<Rightarrow> member_context" where
  "with_current_ports m ms =
     (case ms_exposed_ports ms of
        None \<Rightarrow> m
      | Some ps \<Rightarrow> if ps = [] then m else m\<lparr>mx_current_exposed_ports := Some ps\<rparr>)"

fun team_members_loop ::
  "'w team_reconciler \<Rightarrow> team \<Rightarrow> member_context list \<Rightarrow> team_status \<Rightarrow> string list \<Rightarrow>
   ('w, team_status \<times> string list) state" where
  "team_members_loop r t [] s errs = State_Monad.return (s, errs)"
| "team_members_loop r t (m # ms) s errs =
     (let (s1, entry) = member_status s (mx_name m) (mx_role m) in do {
        q \<leftarrow> reconcile_team_member r (with_current_ports m entry) entry;
        (case snd q of
           Some e \<Rightarrow>
             team_members_loop r t ms (update_member (mx_name m) (\<lambda>_. fst q) s1)
               (errs @ [mx_name m @ '': '' @ err_text e])
         | None \<Rightarrow>
             let entry' = (fst q)\<lparr>ms_spec_hash :=
                   hash_member_source_spec (tr_marshal r) (t_spec t) (mx_role m) (mx_name m)\<rparr> in do {
               _ \<leftarrow> reconcile_legacy_member r t m entry';
               team_members_loop r t ms (update_member (mx_name m) (\<lambda>_. entry') s1) errs
             })
      })"

section \<open>Readiness\<close>

definition set_ready :: "bool \<Rightarrow> team_member_status \<Rightarrow> team_member_status" where
  "set_ready b ms = ms\<lparr>ms_ready := b\<rparr>"

fun readiness_loop ::
  "'w worker_backend \<Rightarrow> member_context list \<Rightarrow> team_status \<Rightarrow> bool \<Rightarrow> int \<Rightarrow>
   ('w, team_status \<times> bool \<times> int) state" where
  "readiness_loop wb [] s leader_ready n = State_Monad.return (s, leader_ready, n)"
| "readiness_loop wb (m # ms) s leader_ready n = do {
     q \<leftarrow> wb_status wb (mx_name m);
     (case q of
        Inl e \<Rightarrow> readiness_loop wb ms s leader_ready n
      | Inr res \<Rightarrow>
          let ready = (wr_status res = Status_Running \<or> wr_status res = Status_Ready);
              s' = update_member (mx_name m) (set_ready ready) s in
          if mx_role m = Role_Team_Leader then readiness_loop wb ms s' ready n
          else readiness_loop wb ms s' leader_ready (if ready then n + 1 else n))
   }"

definition summarize_backend_readiness ::
  "'w team_reconciler \<Rightarrow> team_status \<Rightarrow> member_context list \<Rightarrow> ('w, team_status \<times> bool \<times> int) state" where
  "summarize_backend_readiness r s members = do {
     b \<leftarrow> detect_backend (tr_deps r);
     (case b of
        None \<Rightarrow> State_Monad.return (s, False, 0)
      | Some wb \<Rightarrow> readiness_loop wb members s False 0)
   }"

definition team_phase :: "string list \<Rightarrow> bool \<Rightarrow> int \<Rightarrow> int \<Rightarrow> string \<times> string" where
  "team_phase errs leader_ready ready_workers num_workers =
     (if errs \<noteq> [] then (''Degraded'', join_with ''; '' errs)
      else if leader_ready \<and> ready_workers = num_workers then (''Active'', [])
      else (''Pending'', []))"

section \<open>The pass\<close>

definition coordination_request :: "team_plan \<Rightarrow> coordination_deploy_request" where
  "coordination_request p =
     (let t = tp_team p; s = t_spec t; d = t_spec (tp_derived p) in
      \<lparr>cd_leader_name = leader_effective_name (ts_leader s), cd_role = member_role_string Role_Team_Leader,
       cd_team_name = effective_team_name s (om_name (t_meta t)),
       cd_team_room_id = tm_team_room_id (tp_rooms p),
       cd_leader_dm_room_id = tm_leader_dm_room_id (tp_rooms p),
       cd_heartbeat_every = leader_heartbeat_every s,
       cd_worker_idle_timeout = ls_worker_idle_timeout (ts_leader s),
       cd_team_workers = map team_worker_effective_name (ts_workers s),
       cd_team_admin_id = team_admin_matrix_id d, cd_team_coordinator_ids = team_coordinator_ids d,
       cd_leader_soul = ls_soul (ts_leader s)\<rparr>)"

definition team_admin_registry_entry :: "team_admin_spec option \<Rightarrow> team_admin_entry option" where
  "team_admin_registry_entry a = map_option (\<lambda>x.
     \<lparr>tae_name = tas_name x, tae_matrix_user_id = tas_matrix_user_id x\<rparr>) a"

definition team_member_registry_entries :: "team_member_spec list \<Rightarrow> team_member_entry list" where
  "team_member_registry_entries ms = map (\<lambda>m.
     \<lparr>tme_name = tms_name m, tme_matrix_user_id = tms_matrix_user_id m, tme_role = tms_role m\<rparr>) ms"

definition team_registry_update :: "'w team_reconciler \<Rightarrow> team_plan \<Rightarrow> ('w, unit) state" where
  "team_registry_update r p = team_legacy r (\<lambda>lc now.
     let t = tp_team p; s = t_spec t in do {
       _ \<leftarrow> update_manager_group_allow_from lc
              (legacy_matrix_user_id lc (leader_effective_name (ts_leader s))) True;
       _ \<leftarrow> update_teams_registry lc now
              \<lparr>te_name = effective_team_name s (om_name (t_meta t)), te_leader = ls_name (ts_leader s),
               te_workers = map tw_name (ts_workers s), te_team_room_id = tm_team_room_id (tp_rooms p),
               te_leader_dm_room_id = tm_leader_dm_room_id (tp_rooms p),
               te_admin = team_admin_registry_entry (ts_admin (t_spec (tp_derived p))),
               te_members = team_member_registry_entries (ts_human_members s), te_created_at = []\<rparr>;
       State_Monad.return ()
     })"

text \<open>Steps 3 to 6: the team with its final status, and the member errors.\<close>

definition team_converge :: "'w team_reconciler \<Rightarrow> team_plan \<Rightarrow> ('w, team \<times> string list) state" where
  "team_converge r p =
     (let t = tp_team p; keep = map mx_name (tp_members p) in do {
        _ \<leftarrow> remove_stale_members r t keep (tst_members (t_status t));
        q \<leftarrow> team_members_loop r t (tp_members p) (prune_members keep (t_status t)) [];
        _ \<leftarrow> tr_inject_coordination r (coordination_request p);
        _ \<leftarrow> team_registry_update r p;
        z \<leftarrow> summarize_backend_readiness r (fst q) (tp_members p);
        (let s = sort_members (fst z);
             num_workers = int (length (ts_workers (t_spec t)));
             ph = team_phase (snd q) (fst (snd z)) (snd (snd z)) num_workers
         in State_Monad.return
              (t\<lparr>t_status := s\<lparr>tst_total_workers := num_workers, tst_leader_ready := fst (snd z),
                 tst_ready_workers := snd (snd z), tst_phase := fst ph, tst_message := snd ph\<rparr>\<rparr>,
               snd q))
      })"

definition fail_team :: "'w team_reconciler \<Rightarrow> team \<Rightarrow> team \<Rightarrow> string \<Rightarrow> ('w, nat \<times> go_error option) state" where
  "fail_team r base t msg = do {
     _ \<leftarrow> tc_status_patch (tr_client r) base
            (t\<lparr>t_status := (t_status t)\<lparr>tst_phase := ''Failed'', tst_message := msg\<rparr>\<rparr>);
     State_Monad.return (reconcile_retry_delay, Some (Err msg))
   }"

definition team_pass :: "'w team_reconciler \<Rightarrow> team \<Rightarrow> ('w, nat \<times> go_error option) state" where
  "team_pass r t = do {
     p \<leftarrow> team_prepare r t;
     (case p of
        Inl (t', msg) \<Rightarrow> fail_team r t t' msg
      | Inr plan \<Rightarrow> do {
          q \<leftarrow> team_converge r plan;
          _ \<leftarrow> tc_status_patch (tr_client r) t (fst q);
          State_Monad.return
            (if snd q \<noteq> [] then reconcile_retry_delay else reconcile_interval, None)
        })
   }"

definition reconcile_team_normal :: "'w team_reconciler \<Rightarrow> team \<Rightarrow> ('w, nat \<times> go_error option) state" where
  "reconcile_team_normal r t =
     (if tst_phase (t_status t) = []
      then let t1 = t\<lparr>t_status := (t_status t)\<lparr>tst_phase := ''Pending''\<rparr>\<rparr> in do {
        e \<leftarrow> tc_status_patch (tr_client r) t t1;
        (case e of
           Some x \<Rightarrow> State_Monad.return (0, Some x)
         | None \<Rightarrow> team_pass r t1)
      }
      else team_pass r t)"

section \<open>Deletion\<close>

text \<open>The map of names to roles, built from the status and overridden from the spec.\<close>

definition delete_names :: "team \<Rightarrow> (string \<times> member_role) list" where
  "delete_names t =
     (let leader = ls_name (ts_leader (t_spec t));
          n1 = fold (\<lambda>ms acc. AList.update (ms_name ms)
                 (if ms_role ms = member_role_string Role_Team_Leader \<or> ms_name ms = leader
                  then Role_Team_Leader else Role_Team_Worker) acc) (tst_members (t_status t)) [];
          n2 = (if leader \<noteq> [] then AList.update leader Role_Team_Leader n1 else n1)
      in fold (\<lambda>w acc. AList.update (tw_name w) Role_Team_Worker acc) (ts_workers (t_spec t)) n2)"

definition delete_member_context :: "team \<Rightarrow> string \<Rightarrow> member_role \<Rightarrow> member_context" where
  "delete_member_context t name role =
     (let ms = member_by_name (t_status t) name;
          base = (bare_member name
              (case ms of Some e \<Rightarrow> if ms_runtime_name e \<noteq> [] then ms_runtime_name e else name
                | None \<Rightarrow> name)
              (om_namespace (t_meta t)) role)
            \<lparr>mx_team_name := effective_team_name (t_spec t) (om_name (t_meta t)),
             mx_team_leader_name := leader_effective_name (ts_leader (t_spec t)),
             mx_existing_room_id := (case ms of Some e \<Rightarrow> ms_room_id e | None \<Rightarrow> []),
             mx_current_exposed_ports := (case ms of Some e \<Rightarrow> ms_exposed_ports e | None \<Rightarrow> None)\<rparr>
      in if role = Role_Team_Leader
         then base\<lparr>mx_spec := leader_worker_spec (t_spec t),
                   mx_runtime_name := leader_effective_name (ts_leader (t_spec t))\<rparr>
         else (case List.find (\<lambda>w. tw_name w = name) (ts_workers (t_spec t)) of
                 Some w \<Rightarrow> base\<lparr>mx_spec := team_worker_spec_to_worker_spec (t_spec t) w\<rparr>
               | None \<Rightarrow> base))"

fun delete_members_loop ::
  "'w team_reconciler \<Rightarrow> team \<Rightarrow> (string \<times> member_role) list \<Rightarrow> ('w, go_error option list) state" where
  "delete_members_loop r t [] = State_Monad.return []"
| "delete_members_loop r t ((name, role) # rest) =
     (let m = delete_member_context t name role in do {
        e \<leftarrow> reconcile_member_delete (tr_deps r) m;
        _ \<leftarrow> remove_legacy_member r (mx_runtime_name m);
        es \<leftarrow> delete_members_loop r t rest;
        State_Monad.return (e # es)
      })"

definition team_handle_delete :: "'w team_reconciler \<Rightarrow> team \<Rightarrow> ('w, go_error option) state" where
  "team_handle_delete r t =
     (let s = t_spec t; team_name = effective_team_name s (om_name (t_meta t));
          leader = leader_effective_name (ts_leader s) in do {
        errs \<leftarrow> delete_members_loop r t (tr_order r (delete_names t));
        _ \<leftarrow> team_legacy r (\<lambda>lc now. do {
               _ \<leftarrow> (if ls_name (ts_leader s) \<noteq> []
                    then update_manager_group_allow_from lc (legacy_matrix_user_id lc leader) False
                    else State_Monad.return None);
               _ \<leftarrow> remove_from_teams_registry lc now team_name;
               State_Monad.return ()
             });
        _ \<leftarrow> tr_delete_team_room_aliases r team_name leader;
        State_Monad.return (aggregate errs)
      })"

definition team_reconcile ::
  "'w team_reconciler \<Rightarrow> string \<Rightarrow> string \<Rightarrow> ('w, nat \<times> go_error option) state" where
  "team_reconcile r namespace name = do {
     got \<leftarrow> tc_get_team (tr_client r) namespace name;
     (case got of
        Inl e \<Rightarrow> State_Monad.return (0, if is_api_not_found e then None else Some e)
      | Inr t \<Rightarrow>
          if om_deleting (t_meta t)
          then if has_finalizer (t_meta t)
               then do {
                 d \<leftarrow> team_handle_delete r t;
                 (case d of
                    Some e \<Rightarrow> State_Monad.return (30, Some e)
                  | None \<Rightarrow> do {
                      u \<leftarrow> tc_update (tr_client r) (t\<lparr>t_meta := remove_finalizer (t_meta t)\<rparr>);
                      State_Monad.return (0, u)
                    })
               }
               else State_Monad.return (0, None)
          else if has_finalizer (t_meta t) then reconcile_team_normal r t
          else let t1 = t\<lparr>t_meta := add_finalizer (t_meta t)\<rparr> in do {
            u \<leftarrow> tc_update (tr_client r) t1;
            (case u of
               Some e \<Rightarrow> State_Monad.return (0, Some e)
             | None \<Rightarrow> reconcile_team_normal r t1)
          })
   }"

definition team_pod_request :: "smap \<Rightarrow> string \<Rightarrow> (string \<times> string) option" where
  "team_pod_request labels namespace =
     (if smap_get labels ''hiclaw.io/team'' = [] then None
      else Some (namespace, smap_get labels ''hiclaw.io/team''))"

end
