(* ===== verification/Worker_Properties.thy ===== *)
theory Worker_Properties
  imports Worker_Controller
begin

text \<open>
  What the Worker reconciler guarantees whatever its collaborators answer: the status it writes,
  when a container is left alone, and what a deletion attempts.
\<close>

section \<open>The status patch\<close>

lemma apply_member_state_keeps:
  "w_meta (apply_member_state_to_worker st w) = w_meta w"
  "w_spec (apply_member_state_to_worker st w) = w_spec w"
  "wst_phase (w_status (apply_member_state_to_worker st w)) = wst_phase (w_status w)"
  "wst_observed_generation (w_status (apply_member_state_to_worker st w)) =
     wst_observed_generation (w_status w)"
  "wst_matrix_user_id (w_status w) \<noteq> [] \<Longrightarrow>
     wst_matrix_user_id (w_status (apply_member_state_to_worker st w)) \<noteq> []"
  by (simp_all add: apply_member_state_to_worker_def Let_def)

text \<open>A worker with the same identity, spec and reconcile bookkeeping.\<close>

definition same_bookkeeping :: "worker \<Rightarrow> worker \<Rightarrow> bool" where
  "same_bookkeeping w w' \<longleftrightarrow> w_meta w' = w_meta w \<and> w_spec w' = w_spec w \<and>
     wst_phase (w_status w') = wst_phase (w_status w) \<and>
     wst_observed_generation (w_status w') = wst_observed_generation (w_status w) \<and>
     (wst_matrix_user_id (w_status w) \<noteq> [] \<longrightarrow> wst_matrix_user_id (w_status w') \<noteq> [])"

lemma same_bookkeeping_refl [simp]: "same_bookkeeping w w"
  by (simp add: same_bookkeeping_def)

lemma same_bookkeeping_apply [simp]: "same_bookkeeping w (apply_member_state_to_worker st w)"
  by (simp add: same_bookkeeping_def apply_member_state_keeps)

lemma worker_reconcile_normal_keeps:
  "\<exists>w' q e v'. run_state (worker_reconcile_normal r w) v = ((w', q, e), v') \<and> same_bookkeeping w w'"
proof -
  let ?info = "case wr_resolve_model_provider r of
                  None \<Rightarrow> State_Monad.return (Inr None)
                | Some resolve \<Rightarrow>
                    if ws_model_provider (w_spec w) = [] then State_Monad.return (Inr None)
                    else do {
                      i \<leftarrow> resolve (ws_model_provider (w_spec w));
                      State_Monad.return
                        (case i of
                           Inl e \<Rightarrow> Inl (Wrap (''resolve model provider '' @ go_quote (ws_model_provider (w_spec w))) e)
                         | Inr x \<Rightarrow> Inr (Some x))
                    }"
  obtain i v1 where i: "run_state ?info v = (i, v1)"
    by (cases "run_state ?info v")
  show ?thesis
  proof (cases i)
    case (Inl e)
    then show ?thesis using i by (simp add: worker_reconcile_normal_def Let_def)
  next
    case (Inr mi)
    let ?p = "worker_phases (wr_deps r)
      ((worker_member_context (wr_controller_name r) w)\<lparr>mx_model_provider := mi\<rparr>)"
    obtain st e v2 where p: "run_state ?p v1 = ((st, e), v2)"
      by (metis surj_pair)
    obtain u v3 where l: "run_state (worker_reconcile_legacy r (apply_member_state_to_worker st w) st) v2 = (u, v3)"
      by (metis surj_pair)
    show ?thesis
      using i Inr p l by (cases e) (simp_all add: worker_reconcile_normal_def Let_def)
  qed
qed

lemma add_finalizer_meta [simp]:
  "has_finalizer (add_finalizer m)" "om_generation (add_finalizer m) = om_generation m"
  by (simp_all add: add_finalizer_def has_finalizer_def)

text \<open>The bookkeeping of a status that a reconcile ending with \<open>err\<close> writes.\<close>

definition status_for_outcome :: "worker \<Rightarrow> worker \<Rightarrow> go_error option \<Rightarrow> bool" where
  "status_for_outcome w w' err \<longleftrightarrow>
     (case err of
        None \<Rightarrow> wst_observed_generation (w_status w') = om_generation (w_meta w) \<and>
          wst_phase (w_status w') = worker_desired_state (w_spec w) \<and> wst_message (w_status w') = []
      | Some e \<Rightarrow> wst_observed_generation (w_status w') = wst_observed_generation (w_status w) \<and>
          wst_message (w_status w') = err_text e \<and>
          wst_phase (w_status w') =
            (if wst_matrix_user_id (w_status w') = [] then ''Failed''
             else if wst_phase (w_status w) = [] then ''Pending'' else wst_phase (w_status w)))"

text \<open>The object of the deferred patch.\<close>

definition patched_worker :: "worker \<Rightarrow> go_error option \<Rightarrow> worker" where
  "patched_worker w err =
     (let s1 = (w_status w)\<lparr>wst_phase := compute_worker_phase w err\<rparr>
      in w\<lparr>w_status :=
           (case err of
              None \<Rightarrow> s1\<lparr>wst_observed_generation := om_generation (w_meta w), wst_message := []\<rparr>
            | Some e \<Rightarrow> s1\<lparr>wst_message := err_text e\<rparr>)\<rparr>)"

lemma worker_finish_run:
  "run_state (worker_finish r base w q err) v =
     (case run_state (wc_status_patch (wr_client r) base (patched_worker w err)) v of (pe, v') \<Rightarrow>
        ((q, case pe of None \<Rightarrow> err | Some e \<Rightarrow> aggregate [err, Some e]), v'))"
  by (simp add: worker_finish_def patched_worker_def Let_def prod.case_eq_if)

lemma patched_worker_status:
  assumes "same_bookkeeping (w\<lparr>w_meta := add_finalizer (w_meta w)\<rparr>) w2"
  shows "w_spec (patched_worker w2 err) = w_spec w" "has_finalizer (w_meta (patched_worker w2 err))"
    "status_for_outcome w (patched_worker w2 err) err"
    "wst_matrix_user_id (w_status w) \<noteq> [] \<Longrightarrow>
       wst_matrix_user_id (w_status (patched_worker w2 err)) \<noteq> []"
  using assms
  by (cases err; simp add: patched_worker_def same_bookkeeping_def Let_def status_for_outcome_def
      compute_worker_phase_def)+


section \<open>Concrete reconcilers\<close>

text \<open>A client over a world that holds one worker and records the status patches.\<close>

definition example_client :: "(worker \<times> worker list) worker_client" where
  "example_client =
     \<lparr>wc_get = (\<lambda>ns n. State (\<lambda>s. (Inr (fst s), s))),
      wc_patch = (\<lambda>old new. State_Monad.return None),
      wc_status_patch = (\<lambda>old new. State (\<lambda>s. (None, (fst s, snd s @ [new]))))\<rparr>"

definition example_reconciler :: "(worker \<times> worker list) worker_reconciler" where
  "example_reconciler = \<lparr>wr_client = example_client, wr_deps = example_deps [], wr_legacy = None,
     wr_resolve_model_provider = None, wr_matrix_user_id = (\<lambda>n. ''@'' @ n),
     wr_controller_name = ''hiclaw''\<rparr>"

definition example_worker :: worker where
  "example_worker = zero_worker\<lparr>w_meta := zero_meta\<lparr>om_name := ''alice'', om_generation := 3\<rparr>,
     w_status := zero_worker_status\<lparr>wst_observed_generation := 2, wst_phase := ''Running'',
       wst_matrix_user_id := ''@alice'',
       wst_exposed_ports := Some [\<lparr>eps_port = 8080, eps_domain = ''d''\<rparr>]\<rparr>\<rparr>"


section \<open>Containers that are left alone\<close>

text \<open>
  A worker whose spec did not change since its last successful reconcile, or that was never
  reconciled successfully, keeps its running container: the container phase only asks the backend
  for the status and does nothing else.
\<close>

theorem unchanged_worker_not_restarted:
  assumes gen: "wst_observed_generation (w_status w) \<in> {0, om_generation (w_meta w)}"
    and "worker_desired_state (w_spec w) \<notin> {''Stopped'', ''Sleeping''}"
    and "mt_prov_result st \<noteq> None"
    and detected: "run_state (detect_backend d) v = (Some b, v1)"
    and status: "run_state (wb_status b (om_name (w_meta w))) v1 = (Inr res, v2)"
      "wr_status res \<in> {Status_Running, Status_Starting, Status_Ready}"
  shows "snd (run_state (reconcile_member_container d (worker_member_context c w) st) v) \<in> {v, v2} \<and>
    snd (fst (run_state (reconcile_member_container d (worker_member_context c w) st) v)) = None"
proof -
  let ?m = "worker_member_context c w"
  have m: "mx_name ?m = om_name (w_meta w)" "mx_spec ?m = w_spec w" "\<not> mx_spec_changed ?m"
    using gen by (auto simp: worker_member_context_def Let_def)
  have "run_state (ensure_member_container_present d ?m st) v =
      ((st\<lparr>mt_container_state := status_text (wr_status res)\<rparr>, None), v2)"
    using detected status m by (simp add: ensure_member_container_present_def Let_def del: status_text.simps)
  then show ?thesis
    using assms(2,3) m by (simp add: reconcile_member_container_def Let_def)
qed

text \<open>A backend whose world counts the operations that change it.\<close>

definition counting_backend :: "backend_status \<Rightarrow> nat worker_backend" where
  "counting_backend s = \<lparr>wb_name = ''k8s'', wb_available = State_Monad.return True,
     wb_create = (\<lambda>q. State (\<lambda>n. (Inl ErrConflict, n + 1))),
     wb_delete = (\<lambda>n. State (\<lambda>k. (None, k + 1))),
     wb_start = (\<lambda>n. State (\<lambda>k. (None, k + 1))), wb_stop = (\<lambda>n. State (\<lambda>k. (None, k + 1))),
     wb_status = (\<lambda>n. State_Monad.return (Inr \<lparr>wr_name = n, wr_backend = ''k8s'',
       wr_deployment_mode = ''cloud'', wr_status = s, wr_container_id = [], wr_raw_status = [],
       wr_console_port = []\<rparr>))\<rparr>"

theorem unchanged_worker_not_restarted_witness:
  "snd (run_state (reconcile_member_container (example_deps [counting_backend Status_Running])
     (worker_member_context ''hiclaw'' zero_worker) example_state) 0) = 0"
proof -
  let ?d = "example_deps [counting_backend Status_Running]"
  have "run_state (detect_backend ?d) 0 = (Some (counting_backend Status_Running), 0)"
    by (simp add: detect_backend_def example_deps_def counting_backend_def)
  moreover have "run_state (wb_status (counting_backend Status_Running) (om_name (w_meta zero_worker))) 0 =
      (Inr \<lparr>wr_name = [], wr_backend = ''k8s'', wr_deployment_mode = ''cloud'',
        wr_status = Status_Running, wr_container_id = [], wr_raw_status = [], wr_console_port = []\<rparr>, 0)"
    by (simp add: counting_backend_def zero_worker_def zero_meta_def)
  moreover have "wst_observed_generation (w_status zero_worker) \<in> {0, om_generation (w_meta zero_worker)}"
    "worker_desired_state (w_spec zero_worker) \<notin> {''Stopped'', ''Sleeping''}"
    "mt_prov_result example_state \<noteq> None"
    by code_simp+
  ultimately show ?thesis
    using unchanged_worker_not_restarted [of zero_worker example_state ?d 0] by fastforce
qed

section \<open>Exposed ports and failing passes\<close>

lemma infra_keeps_ports:
  "mt_exposed_ports (fst (fst (run_state (reconcile_member_infra d m st) v))) = mt_exposed_ports st"
  by (auto simp: reconcile_member_infra_def State_Monad.bind_def split: prod.splits sum.splits)

lemma create_keeps_ports:
  "mt_exposed_ports (fst (fst (run_state (create_member_container d m st b) v))) = mt_exposed_ports st"
  by (auto simp: create_member_container_def State_Monad.bind_def split: prod.splits sum.splits)

lemma delete_then_create_keeps_ports:
  "mt_exposed_ports (fst (fst (run_state (delete_then_create d m st b s) v))) = mt_exposed_ports st"
  by (auto simp: delete_then_create_def create_keeps_ports State_Monad.bind_def
      split: prod.splits option.splits)

lemma ensure_present_keeps_ports:
  "mt_exposed_ports (fst (fst (run_state (ensure_member_container_present d m st) v))) =
   mt_exposed_ports st"
  by (auto simp: ensure_member_container_present_def create_keeps_ports
      delete_then_create_keeps_ports Let_def State_Monad.bind_def simp del: status_text.simps
      split: prod.splits option.splits sum.splits)

lemma container_keeps_ports:
  "mt_exposed_ports (fst (fst (run_state (reconcile_member_container d m st) v))) = mt_exposed_ports st"
  by (auto simp: reconcile_member_container_def ensure_present_keeps_ports Let_def
      State_Monad.bind_def split: prod.splits)

lemma failed_phases_have_no_ports:
  assumes "run_state (worker_phases d m) v = ((st, Some e), v')"
  shows "mt_exposed_ports st = None"
proof -
  obtain s1 e1 v1 where i: "run_state (reconcile_member_infra d m zero_member_state) v = ((s1, e1), v1)"
    by (metis surj_pair)
  then have s1: "mt_exposed_ports s1 = None"
    using infra_keeps_ports [of d m zero_member_state v] by (simp add: zero_member_state_def)
  have c: "mt_exposed_ports (fst (fst (run_state (reconcile_member_container d m s1) x))) = None" for x
    using container_keeps_ports s1 by metis
  show ?thesis
    using assms i s1
    by (auto simp: worker_phases_def State_Monad.bind_def split: prod.splits option.splits)
      (use c in \<open>metis fst_conv\<close>)+
qed

text \<open>
  A pass that fails before the expose phase forgets the exposed ports of a worker whose spec
  no longer asks for any: the status it writes has no exposed ports, so the following passes do
  not call the gateway, and the routes opened earlier are never removed.
\<close>

theorem failed_pass_forgets_ports:
  assumes "run_state (worker_phases d m) v = ((st, Some e), v')" "ws_expose (w_spec w) = []"
  shows "wst_exposed_ports (w_status (apply_member_state_to_worker st w)) = None \<and>
    reconcile_member_expose d (worker_member_context c (apply_member_state_to_worker st w)) st' =
      State_Monad.return (st'\<lparr>mt_exposed_ports := None\<rparr>)"
  using failed_phases_have_no_ports [OF assms(1)] assms(2)
  by (simp add: apply_member_state_to_worker_def Let_def reconcile_member_expose_def
      worker_member_context_def)

theorem failed_pass_forgets_ports_witness:
  "\<exists>st. wst_exposed_ports (w_status example_worker) \<noteq> None \<and>
     wst_exposed_ports (w_status (apply_member_state_to_worker st example_worker)) = None"
proof -
  have run: "run_state (worker_phases (example_deps []) (worker_member_context ''hiclaw'' example_worker)) () =
      ((zero_member_state, Some (Wrap ''refresh credentials'' (Err ''no credentials''))), ())"
    by (simp add: worker_phases_def reconcile_member_infra_def worker_member_context_def Let_def
        example_worker_def example_deps_def quiet_provisioner_def zero_worker_def)
  have expose: "ws_expose (w_spec example_worker) = []"
    by (simp add: example_worker_def zero_worker_def zero_worker_spec_def)
  have "wst_exposed_ports (w_status (apply_member_state_to_worker zero_member_state example_worker)) = None"
    by (rule failed_pass_forgets_ports [OF run expose, THEN conjunct1])
  moreover have "wst_exposed_ports (w_status example_worker) \<noteq> None"
    by (simp add: example_worker_def)
  ultimately show ?thesis by blast
qed

section \<open>Deletion\<close>

text \<open>Collaborators that record the calls of a deletion and answer as \<open>f\<close> says.\<close>

datatype delete_call =
    Leave_Rooms string
  | Delete_Room string
  | Deprovision worker_deprovision_request
  | Delete_Container string
  | Cleanup_OSS string
  | Delete_Credentials string
  | Delete_Service_Account string
  | Delete_Room_Alias string

definition record_call :: "('c \<Rightarrow> 'r) \<Rightarrow> 'c \<Rightarrow> ('c list, 'r) state" where
  "record_call f c = State (\<lambda>log. (f c, log @ [c]))"

lemma run_record_call [simp]: "run_state (record_call f c) log = (f c, log @ [c])"
  by (simp add: record_call_def)

definition recording_provisioner ::
  "(delete_call \<Rightarrow> go_error option) \<Rightarrow> delete_call list worker_provisioner" where
  "recording_provisioner f = quiet_provisioner
     \<lparr>wp_leave_all_worker_rooms := \<lambda>n. record_call f (Leave_Rooms n),
      wp_delete_worker_room := \<lambda>i. record_call f (Delete_Room i),
      wp_deprovision_worker := \<lambda>q. record_call f (Deprovision q),
      wp_delete_worker_credentials := \<lambda>n. record_call f (Delete_Credentials n),
      wp_delete_service_account := \<lambda>n. record_call f (Delete_Service_Account n),
      wp_delete_worker_room_alias := \<lambda>n. record_call f (Delete_Room_Alias n)\<rparr>"

definition recording_deps :: "(delete_call \<Rightarrow> go_error option) \<Rightarrow> delete_call list member_deps" where
  "recording_deps f = (example_deps
       [\<lparr>wb_name = ''k8s'', wb_available = State_Monad.return True,
         wb_create = (\<lambda>q. State_Monad.return (Inl ErrConflict)),
         wb_delete = (\<lambda>n. record_call f (Delete_Container n)),
         wb_start = (\<lambda>n. State_Monad.return None), wb_stop = (\<lambda>n. State_Monad.return None),
         wb_status = (\<lambda>n. State_Monad.return (Inl ErrNotFound))\<rparr>])
     \<lparr>md_provisioner := recording_provisioner f,
      md_deployer := quiet_deployer\<lparr>wy_cleanup_oss_data := \<lambda>n. record_call f (Cleanup_OSS n)\<rparr>\<rparr>"

definition delete_calls :: "member_context \<Rightarrow> delete_call list" where
  "delete_calls m =
     [Leave_Rooms (mx_runtime_name m)] @
     (if mx_existing_room_id m \<noteq> [] then [Delete_Room (mx_existing_room_id m)] else []) @
     [Deprovision \<lparr>dq_name = mx_runtime_name m, dq_is_team_worker = (mx_role m \<noteq> Role_Standalone),
        dq_exposed_ports = mx_current_exposed_ports m, dq_expose_spec = ws_expose (mx_spec m)\<rparr>,
      Delete_Container (mx_name m), Cleanup_OSS (mx_runtime_name m),
      Delete_Credentials (mx_name m), Delete_Service_Account (mx_name m),
      Delete_Room_Alias (mx_runtime_name m)]"

lemma member_delete_attempts:
  "run_state (reconcile_member_delete (recording_deps f) m) log = (None, log @ delete_calls m)"
proof -
  have team: "(mx_role m = Role_Team_Worker \<or> mx_role m = Role_Team_Leader) = (mx_role m \<noteq> Role_Standalone)"
    by (cases "mx_role m") simp_all
  show ?thesis
    by (simp add: reconcile_member_delete_def recording_deps_def recording_provisioner_def
        example_deps_def detect_backend_def delete_calls_def team)
qed

text \<open>
  Deleting a member attempts every cleanup step, in this order and once each, whatever the
  steps before it answered, and always reports success: the rooms are left before the account is
  deprovisioned, and the credentials are deleted after the last step that logs in with them.
\<close>

theorem member_delete_attempts_everything:
  "run_state (reconcile_member_delete (recording_deps f) m) log = (None, log @ delete_calls m)"
  by (rule member_delete_attempts)

lemma member_delete_succeeds: "fst (run_state (reconcile_member_delete d m) v) = None"
  by (simp add: reconcile_member_delete_def State_Monad.bind_def prod.case_eq_if)

end
