(* ===== verification/Team_Properties.thy ===== *)
theory Team_Properties
  imports Team_Reconcile Worker_Properties
begin

text \<open>
  What a pass of the team reconciler guarantees: members once observed are refreshed and never
  provisioned again, a pass without errors leaves nothing to recreate, the status lists exactly
  the desired members, the phase reflects readiness, and a deletion reaches every member.
\<close>

section \<open>Status entries\<close>

text \<open>The first entry of a name.\<close>

definition entry_of :: "string \<Rightarrow> team_member_status list \<Rightarrow> team_member_status option" where
  "entry_of n xs = List.find (\<lambda>m. ms_name m = n) xs"

lemma member_by_name_entry: "member_by_name s n = entry_of n (tst_members s)"
  by (simp add: member_by_name_def entry_of_def)

lemma entry_of_name: "entry_of n xs = Some e \<Longrightarrow> ms_name e = n"
  by (auto simp: entry_of_def find_Some_iff)

lemma entry_of_none: "entry_of n xs = None \<longleftrightarrow> n \<notin> ms_name ` set xs"
  by (auto simp: entry_of_def find_None_iff)

lemma find_filter: "List.find P xs = (case filter P xs of [] \<Rightarrow> None | x # _ \<Rightarrow> Some x)"
  by (induction xs) auto

lemma entry_of_sort [simp]: "entry_of n (sort_key ms_name xs) = entry_of n xs"
  by (simp add: entry_of_def find_filter sort_key_stable)

lemma entry_of_update_first:
  assumes "\<And>e. ms_name (f e) = ms_name e"
  shows "entry_of n (update_first name f xs) =
    (if n = name then map_option f (entry_of n xs) else entry_of n xs)"
  using assms by (induction xs) (auto simp: entry_of_def)

lemma entry_of_replace:
  assumes "ms_name e = name" "entry_of name xs \<noteq> None"
  shows "entry_of n (update_first name (\<lambda>_. e) xs) = (if n = name then Some e else entry_of n xs)"
  using assms by (induction xs) (auto simp: entry_of_def)

lemma update_first_names:
  assumes "\<And>x. ms_name x = name \<Longrightarrow> ms_name (f x) = name"
  shows "map ms_name (update_first name f xs) = map ms_name xs"
  using assms by (induction xs) auto

lemma entry_of_append:
  "entry_of n (xs @ [e]) = (case entry_of n xs of Some x \<Rightarrow> Some x
     | None \<Rightarrow> if ms_name e = n then Some e else None)"
  by (induction xs) (auto simp: entry_of_def)

lemma member_status_entry:
  assumes "member_status s name role = (s1, e)"
  shows "ms_name e = name" "entry_of name (tst_members s1) = Some e"
    "n \<noteq> name \<Longrightarrow> entry_of n (tst_members s1) = entry_of n (tst_members s)"
    "map ms_name (tst_members s1) = map ms_name (tst_members s) @
       (if name \<in> ms_name ` set (tst_members s) then [] else [name])"
proof -
  have *: "ms_name e = name \<and> entry_of name (tst_members s1) = Some e \<and>
    (n \<noteq> name \<longrightarrow> entry_of n (tst_members s1) = entry_of n (tst_members s)) \<and>
    map ms_name (tst_members s1) = map ms_name (tst_members s) @
       (if name \<in> ms_name ` set (tst_members s) then [] else [name])"
  proof (cases "entry_of name (tst_members s)")
    case None
    then show ?thesis
      using assms entry_of_none [of name "tst_members s"]
      by (auto simp: member_status_def member_by_name_entry Let_def entry_of_append new_member_status_def
          split: option.splits)
  next
    case (Some x)
    let ?x = "if ms_role x = [] then x\<lparr>ms_role := member_role_string role\<rparr> else x"
    have n: "ms_name ?x = name"
      using entry_of_name [OF Some] by simp
    have "s1 = update_member name (\<lambda>_. ?x) s" "e = ?x"
      using assms Some by (auto simp: member_status_def member_by_name_entry Let_def)
    moreover have "name \<in> ms_name ` set (tst_members s)"
      using Some entry_of_none [of name "tst_members s"] by auto
    ultimately show ?thesis
      using n Some by (simp add: update_member_def entry_of_replace update_first_names)
  qed
  show "ms_name e = name" "entry_of name (tst_members s1) = Some e"
    "n \<noteq> name \<Longrightarrow> entry_of n (tst_members s1) = entry_of n (tst_members s)"
    "map ms_name (tst_members s1) = map ms_name (tst_members s) @
       (if name \<in> ms_name ` set (tst_members s) then [] else [name])"
    using * by blast+
qed

section \<open>One member\<close>

lemma member_after_infra_entry:
  "\<exists>p. fst (fst (run_state (member_after_infra r m st ms) v)) = ms\<lparr>ms_exposed_ports := p\<rparr>"
proof -
  have "ms = ms\<lparr>ms_exposed_ports := ms_exposed_ports ms\<rparr>" by simp
  then have self: "\<exists>p. ms = ms\<lparr>ms_exposed_ports := p\<rparr>" by blast
  show ?thesis
    unfolding member_after_infra_def
    by (auto simp: State_Monad.bind_def self split: prod.splits option.splits)
qed

lemma observe_member_keeps [simp]:
  "ms_name (observe_member m st ms) = ms_name ms" "ms_observed (observe_member m st ms)"
  "ms_spec_hash (observe_member m st ms) = ms_spec_hash ms"
  by (simp_all add: observe_member_def Let_def)

lemma reconcile_team_member_entry:
  assumes "run_state (reconcile_team_member r m ms) v = ((ms', e), v')"
  shows "ms_name ms' = ms_name ms" "ms_spec_hash ms' = ms_spec_hash ms"
    "ms_observed ms \<Longrightarrow> ms_observed ms'" "e = None \<Longrightarrow> ms_observed ms'"
proof -
  let ?m = "existing_matrix_context r m"
  obtain st e1 v1 where 1: "run_state (reconcile_member_infra (tr_deps r) ?m zero_member_state) v = ((st, e1), v1)"
    by (metis surj_pair)
  obtain e2 v2 where 2: "run_state (ensure_model_provider_auth (tr_deps r) ?m st) v1 = (e2, v2)"
    by (metis surj_pair)
  obtain p where p: "fst (fst (run_state (member_after_infra r ?m st (observe_member ?m st ms)) v2)) =
      (observe_member ?m st ms)\<lparr>ms_exposed_ports := p\<rparr>"
    using member_after_infra_entry [of r ?m st "observe_member ?m st ms" v2] by (elim exE)
  have "(\<exists>x. ms' = ms \<and> e = Some x) \<or> ms' = (observe_member ?m st ms)\<lparr>ms_exposed_ports := p\<rparr>"
    using assms 1 2 p by (cases e1; cases e2) (auto simp: reconcile_team_member_def Let_def)
  then show "ms_name ms' = ms_name ms" "ms_spec_hash ms' = ms_spec_hash ms"
    "ms_observed ms \<Longrightarrow> ms_observed ms'" "e = None \<Longrightarrow> ms_observed ms'"
    by auto
qed

text \<open>
  A member that was observed is never provisioned again: its reconcile takes the refresh
  path, so its outcome does not depend on the provisioning operation at all, and no access token
  is rotated. Whatever phase fails, the observed mark is never revoked and the recorded spec hash
  does not change inside the member's reconcile.
\<close>

theorem observed_member_not_reprovisioned:
  assumes "mx_is_update m" "tr_matrix_user_id r (mx_runtime_name m) \<noteq> []"
    and run: "run_state (reconcile_team_member r m ms) v = ((ms', e), v')"
  shows "run_state (reconcile_team_member (r\<lparr>tr_deps := (tr_deps r)\<lparr>md_provisioner :=
      (md_provisioner (tr_deps r))\<lparr>wp_provision_worker := other\<rparr>\<rparr>\<rparr>) m ms) v = ((ms', e), v') \<and>
    (ms_observed ms \<longrightarrow> ms_observed ms') \<and> ms_spec_hash ms' = ms_spec_hash ms"
proof -
  let ?d = "(tr_deps r)\<lparr>md_provisioner := (md_provisioner (tr_deps r))\<lparr>wp_provision_worker := other\<rparr>\<rparr>"
  let ?r = "r\<lparr>tr_deps := ?d\<rparr>"
  have ctx: "existing_matrix_context ?r m = existing_matrix_context r m"
    "mx_existing_matrix_user_id (existing_matrix_context r m) \<noteq> []"
    using assms(1,2) by (simp_all add: existing_matrix_context_def)
  have create: "create_member_container ?d x st b = create_member_container (tr_deps r) x st b" for x st b
    by (simp add: create_member_container_def member_create_request_def member_env_def member_labels_def
        cong: sum.case_cong)
  have recreate: "delete_then_create ?d x st b s = delete_then_create (tr_deps r) x st b s" for x st b s
    unfolding delete_then_create_def create by (rule refl)
  have detect: "detect_backend ?d = detect_backend (tr_deps r)"
    by (simp add: detect_backend_def)
  have present: "ensure_member_container_present ?d x st = ensure_member_container_present (tr_deps r) x st" for x st
    unfolding ensure_member_container_present_def recreate create detect by (rule refl)
  have container: "reconcile_member_container ?d x st = reconcile_member_container (tr_deps r) x st" for x st
    unfolding reconcile_member_container_def present ensure_member_container_absent_def detect by (rule refl)
  have deps: "tr_deps ?r = ?d"
    by simp
  have others: "ensure_member_service_account ?d x = ensure_member_service_account (tr_deps r) x"
    "reconcile_member_config ?d x st = reconcile_member_config (tr_deps r) x st"
    "reconcile_member_expose ?d x st = reconcile_member_expose (tr_deps r) x st"
    "ensure_model_provider_auth ?d x st = ensure_model_provider_auth (tr_deps r) x st"
    "mx_existing_matrix_user_id x \<noteq> [] \<Longrightarrow>
      reconcile_member_infra ?d x st = reconcile_member_infra (tr_deps r) x st" for x st
    by (simp_all add: ensure_member_service_account_def reconcile_member_config_def
        reconcile_member_expose_def ensure_model_provider_auth_def reconcile_member_infra_def
        cong: option.case_cong)
  have after: "member_after_infra ?r x st n = member_after_infra r x st n" for x st n
    unfolding member_after_infra_def deps container others(1-3) by (rule refl)
  have "reconcile_team_member ?r m ms = reconcile_team_member r m ms"
    unfolding reconcile_team_member_def Let_def ctx(1) deps after others(4) others(5) [OF ctx(2)] by (rule refl)
  then show ?thesis
    using run reconcile_team_member_entry [OF run] by simp
qed

text \<open>A reconciler whose collaborators succeed, over the world of the backends.\<close>

definition quiet_team_reconciler :: "'w member_deps \<Rightarrow> 'w team_reconciler" where
  "quiet_team_reconciler d =
     \<lparr>tr_client = \<lparr>tc_get_team = (\<lambda>ns n. State_Monad.return (Inl ApiNotFound)),
        tc_update = (\<lambda>t. State_Monad.return None), tc_status_patch = (\<lambda>t u. State_Monad.return None),
        tc_get_human = (\<lambda>ns n. State_Monad.return (Inl ApiNotFound)),
        tc_list_workers = (\<lambda>ns. State_Monad.return (Inr []))\<rparr>,
      tr_deps = d, tr_legacy = None, tr_resolve_model_provider = None,
      tr_matrix_user_id = (\<lambda>n. ''@'' @ n @ '':hs''),
      tr_login_as_human = (\<lambda>u p. State_Monad.return (Inr ''tok'')),
      tr_provision_team_rooms = (\<lambda>q. State_Monad.return
        (Inr \<lparr>tm_team_room_id = ''!team'', tm_leader_dm_room_id = ''!dm''\<rparr>)),
      tr_delete_team_room_aliases = (\<lambda>a b. State_Monad.return None),
      tr_inject_coordination = (\<lambda>q. State_Monad.return None),
      tr_ensure_team_storage = (\<lambda>n. State_Monad.return None),
      tr_write_inline = (\<lambda>d r i s a. State_Monad.return None),
      tr_marshal = (\<lambda>p. Some ''{}''), tr_order = (\<lambda>xs. xs), tr_agent_fs_dir = ''/agents'',
      tr_controller_name = ''hiclaw''\<rparr>"

theorem observed_member_not_reprovisioned_witness:
  "\<exists>ms'. run_state (reconcile_team_member ((quiet_team_reconciler (example_deps []))\<lparr>tr_deps :=
      (example_deps [])\<lparr>md_provisioner := quiet_provisioner\<lparr>wp_provision_worker :=
        \<lambda>q. State_Monad.return (Inl (Err ''quota''))\<rparr>\<rparr>\<rparr>)
      (example_member None) (new_member_status ''alice'' Role_Team_Worker)) () =
    ((ms', Some (Wrap ''refresh credentials'' (Err ''no credentials''))), ())"
proof -
  let ?r = "quiet_team_reconciler (example_deps [])"
  have 1: "mx_is_update (example_member None)"
    "tr_matrix_user_id ?r (mx_runtime_name (example_member None)) \<noteq> []"
    by (simp_all add: example_member_def quiet_team_reconciler_def)
  have 2: "run_state (reconcile_team_member ?r (example_member None) (new_member_status ''alice'' Role_Team_Worker)) () =
      ((new_member_status ''alice'' Role_Team_Worker, Some (Wrap ''refresh credentials'' (Err ''no credentials''))), ())"
    by (simp add: reconcile_team_member_def existing_matrix_context_def reconcile_member_infra_def
        quiet_team_reconciler_def example_deps_def quiet_provisioner_def example_member_def Let_def)
  have 3: "tr_deps ?r = example_deps []"
    by (simp add: quiet_team_reconciler_def)
  have 4: "md_provisioner (example_deps []) = quiet_provisioner"
    by (simp add: example_deps_def)
  from observed_member_not_reprovisioned [OF 1 2, of "\<lambda>q. State_Monad.return (Inl (Err ''quota''))"]
  show ?thesis
    unfolding 3 4 by blast
qed

section \<open>The member loop\<close>

text \<open>
  The loop touches only the entries of its members; without errors each of them ends observed
  and with the hash of its current spec.
\<close>

lemma team_members_loop_errors:
  assumes "run_state (team_members_loop r t ms s errs) v = ((s', errs'), v')"
  shows "\<exists>more. errs' = errs @ more"
  using assms
proof (induction ms arbitrary: s errs v)
  case Nil
  then show ?case by simp
next
  case (Cons m ms)
  obtain s1 e where s1: "member_status s (mx_name m) (mx_role m) = (s1, e)"
    by (cases "member_status s (mx_name m) (mx_role m)")
  obtain e' x v1 where q: "run_state (reconcile_team_member r (with_current_ports m e) e) v = ((e', x), v1)"
    by (metis surj_pair)
  show ?case
    using Cons.prems Cons.IH s1 q
    by (cases x) (auto simp: Let_def State_Monad.bind_def split: prod.splits, force+)
qed

definition settled_entry :: "'w team_reconciler \<Rightarrow> team_spec \<Rightarrow> member_role \<Rightarrow> team_member_status \<Rightarrow> bool" where
  "settled_entry r sp role e \<longleftrightarrow> ms_observed e \<and>
     ms_spec_hash e = hash_member_source_spec (tr_marshal r) sp role (ms_name e)"

lemma team_members_loop_entries:
  assumes "run_state (team_members_loop r t ms s errs) v = ((s', errs), v')" "distinct (map mx_name ms)"
  shows "(\<forall>n. n \<notin> mx_name ` set ms \<longrightarrow> entry_of n (tst_members s') = entry_of n (tst_members s)) \<and>
    (\<forall>m\<in>set ms. \<exists>e. entry_of (mx_name m) (tst_members s') = Some e \<and>
       settled_entry r (t_spec t) (mx_role m) e)"
  using assms
proof (induction ms arbitrary: s v)
  case Nil
  then show ?case by simp
next
  case (Cons m ms)
  obtain s1 e where s1: "member_status s (mx_name m) (mx_role m) = (s1, e)"
    by (cases "member_status s (mx_name m) (mx_role m)")
  note ms1 = member_status_entry [OF s1]
  obtain e' x v1 where q: "run_state (reconcile_team_member r (with_current_ports m e) e) v = ((e', x), v1)"
    by (metis surj_pair)
  show ?case
  proof (cases x)
    case (Some y)
    have "run_state (team_members_loop r t ms (update_member (mx_name m) (\<lambda>_. e') s1)
        (errs @ [mx_name m @ '': '' @ err_text y])) v1 = ((s', errs), v')"
      using Cons.prems(1) s1 q Some by (simp add: Let_def)
    from team_members_loop_errors [OF this] show ?thesis by simp
  next
    case None
    let ?e = "e'\<lparr>ms_spec_hash := hash_member_source_spec (tr_marshal r) (t_spec t) (mx_role m) (mx_name m)\<rparr>"
    let ?s2 = "update_member (mx_name m) (\<lambda>_. ?e) s1"
    have e': "ms_name ?e = mx_name m" "ms_observed ?e"
      using reconcile_team_member_entry [OF q] ms1(1) None by simp_all
    obtain v2 where v2: "run_state (team_members_loop r t ms ?s2 errs) v2 = ((s', errs), v')"
      using Cons.prems(1) s1 q None by (auto simp: Let_def State_Monad.bind_def split: prod.splits)
    have entries: "entry_of n (tst_members ?s2) = (if n = mx_name m then Some ?e else entry_of n (tst_members s))" for n
      using ms1(2,3) e'(1) by (simp add: update_member_def entry_of_replace)
    have "settled_entry r (t_spec t) (mx_role m) ?e"
      using e' by (simp add: settled_entry_def)
    then show ?thesis
      using Cons.IH [OF v2] Cons.prems(2) entries by auto
  qed
qed

section \<open>A pass without errors settles the team\<close>

definition member_roles :: "team_spec \<Rightarrow> (string \<times> member_role) list" where
  "member_roles sp = (ls_name (ts_leader sp), Role_Team_Leader) #
     map (\<lambda>w. (tw_name w, Role_Team_Worker)) (ts_workers sp)"

lemma resolve_providers_names:
  assumes "run_state (resolve_providers f ms) v = (Inr ms', v')"
  shows "map (\<lambda>m. (mx_name m, mx_role m)) ms' = map (\<lambda>m. (mx_name m, mx_role m)) ms"
  using assms
proof (induction ms arbitrary: v ms' v')
  case Nil
  then show ?case by simp
next
  case (Cons m ms)
  have tail: "run_state (resolve_providers f ms) w = (Inr rest, w') \<Longrightarrow>
      map (\<lambda>m. (mx_name m, mx_role m)) rest = map (\<lambda>m. (mx_name m, mx_role m)) ms" for w rest w'
    using Cons.IH by blast
  show ?case
  proof (cases "ws_model_provider (mx_spec m) = []")
    case True
    obtain z w where z: "run_state (resolve_providers f ms) v = (z, w)" by (metis surj_pair)
    obtain rest where "z = Inr rest" "ms' = m # rest"
      using Cons.prems True z by (cases z) (auto simp: Let_def)
    then show ?thesis
      using tail z by simp
  next
    case False
    obtain i v1 where i: "run_state (f (ws_model_provider (mx_spec m))) v = (i, v1)" by (metis surj_pair)
    obtain z w where z: "run_state (resolve_providers f ms) v1 = (z, w)" by (metis surj_pair)
    obtain info rest where "z = Inr rest" "ms' = m\<lparr>mx_model_provider := Some info\<rparr> # rest"
      using Cons.prems False i z by (cases i; cases z) (auto simp: Let_def)
    then show ?thesis
      using tail z by simp
  qed
qed

lemma desired_roles:
  "map (\<lambda>m. (mx_name m, mx_role m)) (build_desired_members marshal t c) = member_roles (t_spec t)"
  by (simp add: build_desired_members_def leader_member_def worker_member_def member_roles_def Let_def)

lemma derived_team_keeps:
  "ts_workers (t_spec (derived_team t a)) = ts_workers (t_spec t)"
  "ts_leader (t_spec (derived_team t a)) = ts_leader (t_spec t)"
  by (simp_all add: derived_team_def Let_def)

lemma team_members_step_plan:
  assumes "run_state (team_members_step r t derived rooms) v = (Inr p, v')"
    "member_roles (t_spec derived) = member_roles (t_spec t)"
  shows "tp_team p = t \<and> tp_derived p = derived \<and>
    map (\<lambda>m. (mx_name m, mx_role m)) (tp_members p) = member_roles (t_spec t)"
proof -
  let ?ms = "let desired = build_desired_members (tr_marshal r) derived (tr_controller_name r) in
                case tr_resolve_model_provider r of
                  None \<Rightarrow> State_Monad.return (Inr desired)
                | Some f \<Rightarrow> resolve_providers f desired"
  obtain e v1 where e: "run_state (write_inline_configs r t) v = (e, v1)" by (metis surj_pair)
  obtain z v2 where z: "run_state ?ms v1 = (z, v2)" by (metis surj_pair)
  have "z = Inr ms \<Longrightarrow> map (\<lambda>m. (mx_name m, mx_role m)) ms = member_roles (t_spec t)" for ms
    using z desired_roles [of "tr_marshal r" derived "tr_controller_name r"] assms(2)
      resolve_providers_names
    by (cases "tr_resolve_model_provider r") (fastforce simp: Let_def)+
  then show ?thesis
    using assms(1) e z by (cases e; cases z) (auto simp: team_members_step_def)
qed

lemma team_prepare_plan:
  assumes "run_state (team_prepare r t) v = (Inr p, v')"
  shows "t_spec (tp_team p) = t_spec t \<and> t_meta (tp_team p) = t_meta t \<and>
    tst_members (t_status (tp_team p)) = tst_members (t_status t) \<and>
    map (\<lambda>m. (mx_name m, mx_role m)) (tp_members p) = member_roles (t_spec t)"
proof -
  have valid: "validate_team_runtime_names (t_spec t) = None"
    using assms by (cases "validate_team_runtime_names (t_spec t)") (auto simp: team_prepare_def)
  obtain c v1 where c: "run_state (check_standalone_conflicts r t) v = (c, v1)" by (metis surj_pair)
  obtain a v2 where a: "run_state (resolve_team_admin_actor r t) v1 = (a, v2)" by (metis surj_pair)
  have "c = None" using assms valid c by (cases c) (auto simp: team_prepare_def)
  then obtain actor where actor: "a = Inr actor"
    using assms valid c a by (cases a) (auto simp: team_prepare_def)
  let ?d = "derived_team t actor"
  obtain rr v3 where rr: "run_state (tr_provision_team_rooms r (team_rooms_request t ?d actor)) v2 = (rr, v3)"
    by (metis surj_pair)
  obtain rooms where rooms: "rr = Inr rooms"
    using assms valid c a \<open>c = None\<close> actor rr by (cases rr) (auto simp: team_prepare_def Let_def)
  obtain u v4 where u: "run_state (tr_ensure_team_storage r
      (effective_team_name (t_spec t) (om_name (t_meta t)))) v3 = (u, v4)" by (metis surj_pair)
  let ?t = "t\<lparr>t_status := (t_status t)\<lparr>tst_team_room_id := tm_team_room_id rooms,
      tst_leader_dm_room_id := tm_leader_dm_room_id rooms\<rparr>\<rparr>"
  have "run_state (team_members_step r ?t ?d rooms) v4 = (Inr p, v')"
    using assms valid c a \<open>c = None\<close> actor rr rooms u by (simp add: team_prepare_def Let_def)
  moreover have "member_roles (t_spec ?d) = member_roles (t_spec ?t)"
    by (simp add: member_roles_def derived_team_keeps)
  ultimately show ?thesis
    using team_members_step_plan by fastforce
qed

lemma set_ready_keeps [simp]:
  "ms_name (set_ready b e) = ms_name e" "ms_observed (set_ready b e) = ms_observed e"
  "ms_spec_hash (set_ready b e) = ms_spec_hash e"
  by (simp_all add: set_ready_def)

lemma readiness_loop_entry:
  assumes "run_state (readiness_loop wb ms s l n) v = ((s', l', n'), v')"
    "entry_of k (tst_members s) = Some e"
  shows "\<exists>b. entry_of k (tst_members s') = Some (set_ready b e)"
  using assms
proof (induction ms arbitrary: s l n v e)
  case Nil
  have "set_ready (ms_ready e) e = e" by (simp add: set_ready_def)
  then show ?case using Nil by (metis fst_conv readiness_loop.simps(1) run_state_return)
next
  case (Cons m ms)
  obtain q v1 where q: "run_state (wb_status wb (mx_name m)) v = (q, v1)" by (metis surj_pair)
  show ?case
  proof (cases q)
    case (Inl x)
    then show ?thesis using Cons q by simp
  next
    case (Inr res)
    let ?b = "wr_status res = Status_Running \<or> wr_status res = Status_Ready"
    let ?s = "update_member (mx_name m) (set_ready ?b) s"
    obtain l1 n1 where next_run: "run_state (readiness_loop wb ms ?s l1 n1) v1 = ((s', l', n'), v')"
      using Cons.prems(1) q Inr by (auto simp: Let_def split: if_splits)
    have again: "set_ready b1 (set_ready b2 e) = set_ready b1 e" for b1 b2
      by (simp add: set_ready_def)
    have "entry_of k (tst_members ?s) = Some e \<or> entry_of k (tst_members ?s) = Some (set_ready ?b e)"
      using Cons.prems(2) by (auto simp: update_member_def entry_of_update_first)
    then show ?thesis
      using Cons.IH [OF next_run] again by metis
  qed
qed

lemma summarize_entry:
  assumes "run_state (summarize_backend_readiness r s ms) v = ((s', l', n'), v')"
    "entry_of k (tst_members s) = Some e"
  shows "\<exists>b. entry_of k (tst_members s') = Some (set_ready b e)"
proof -
  obtain b v1 where b: "run_state (detect_backend (tr_deps r)) v = (b, v1)" by (metis surj_pair)
  have self: "set_ready (ms_ready e) e = e" by (simp add: set_ready_def)
  show ?thesis
  proof (cases b)
    case None
    then have "s' = s" using assms(1) b by (auto simp: summarize_backend_readiness_def)
    then show ?thesis using assms(2) self by metis
  next
    case (Some wb)
    then have "run_state (readiness_loop wb ms s False 0) v1 = ((s', l', n'), v')"
      using assms(1) b by (simp add: summarize_backend_readiness_def)
    then show ?thesis using readiness_loop_entry assms(2) by metis
  qed
qed

text \<open>The stages of a converging pass.\<close>

lemma team_converge_stages:
  assumes "run_state (team_converge r p) v = ((t', errs), v')"
  obtains v1 v2 v3 s1 s2 l n where
    "run_state (team_members_loop r (tp_team p) (tp_members p)
       (prune_members (map mx_name (tp_members p)) (t_status (tp_team p))) []) v1 = ((s1, errs), v2)"
    "run_state (summarize_backend_readiness r s1 (tp_members p)) v3 = ((s2, l, n), v')"
    "t_spec t' = t_spec (tp_team p)" "tst_members (t_status t') = sort_key ms_name (tst_members s2)"
    "tst_leader_ready (t_status t') = l" "tst_ready_workers (t_status t') = n"
    "tst_total_workers (t_status t') = int (length (ts_workers (t_spec (tp_team p))))"
    "(tst_phase (t_status t'), tst_message (t_status t')) =
       team_phase errs l n (int (length (ts_workers (t_spec (tp_team p)))))"
proof -
  let ?t = "tp_team p" and ?keep = "map mx_name (tp_members p)"
  obtain u v1 where 1: "run_state (remove_stale_members r ?t ?keep (tst_members (t_status ?t))) v = (u, v1)"
    by (metis surj_pair)
  obtain s1 es v2 where 2: "run_state (team_members_loop r ?t (tp_members p)
      (prune_members ?keep (t_status ?t)) []) v1 = ((s1, es), v2)"
    by (metis surj_pair)
  obtain u3 v3 where 3: "run_state (tr_inject_coordination r (coordination_request p)) v2 = (u3, v3)"
    by (metis surj_pair)
  obtain u4 v4 where 4: "run_state (team_registry_update r p) v3 = (u4, v4)"
    by (metis surj_pair)
  obtain s2 l n v5 where 5: "run_state (summarize_backend_readiness r s1 (tp_members p)) v4 = ((s2, l, n), v5)"
    by (metis surj_pair)
  have "es = errs" "v5 = v'" "t_spec t' = t_spec ?t" "tst_members (t_status t') = sort_key ms_name (tst_members s2)"
    "tst_leader_ready (t_status t') = l" "tst_ready_workers (t_status t') = n"
    "tst_total_workers (t_status t') = int (length (ts_workers (t_spec ?t)))"
    "(tst_phase (t_status t'), tst_message (t_status t')) =
       team_phase errs l n (int (length (ts_workers (t_spec ?t))))"
    using assms 1 2 3 4 5 by (auto simp: team_converge_def Let_def sort_members_def)
  then show ?thesis
    using that [OF 2 [unfolded \<open>es = errs\<close>] 5 [unfolded \<open>v5 = v'\<close>]] by blast
qed

lemma member_is_settled:
  assumes e: "entry_of n (tst_members (t_status t)) = Some e"
    and s: "settled_entry r (t_spec t) role e"
  shows "member_observed t n \<and> \<not> member_spec_changed (tr_marshal r) t role n"
  using assms entry_of_name [OF e]
  by (simp add: member_observed_def member_by_name_entry member_spec_changed_def settled_entry_def)


text \<open>A team whose members are all new, and collaborators that succeed; every container runs.\<close>

definition example_team_deps :: "nat member_deps" where
  "example_team_deps = example_deps [counting_backend Status_Running]"

definition example_team_reconciler :: "nat team_reconciler" where
  "example_team_reconciler = quiet_team_reconciler example_team_deps"

definition fresh_team :: team where
  "fresh_team = example_team\<lparr>t_status := zero_team_status\<rparr>"

definition example_plan :: team_plan where
  "example_plan =
     (let rooms = \<lparr>tm_team_room_id = ''!team'', tm_leader_dm_room_id = ''!dm''\<rparr> in
      \<lparr>tp_team = fresh_team\<lparr>t_status := zero_team_status\<lparr>tst_team_room_id := ''!team'',
         tst_leader_dm_room_id := ''!dm''\<rparr>\<rparr>,
       tp_derived = fresh_team, tp_rooms = rooms,
       tp_members = build_desired_members (\<lambda>p. Some ''{}'') fresh_team ''hiclaw''\<rparr>)"

lemma example_reconciler_simps [simp]:
  "tr_deps example_team_reconciler = example_team_deps" "tr_legacy example_team_reconciler = None"
  "tr_marshal example_team_reconciler = (\<lambda>p. Some ''{}'')"
  "tr_inject_coordination example_team_reconciler q = State_Monad.return None"
  by (simp_all add: example_team_reconciler_def quiet_team_reconciler_def)

lemma example_prepare: "run_state (team_prepare example_team_reconciler fresh_team) 0 = (Inr example_plan, 0)"
proof -
  have 1: "validate_team_runtime_names (t_spec fresh_team) = None"
    "standalone_worker_conflict (t_spec fresh_team) [] = None"
    by code_simp+
  have 2: "ts_admin (t_spec fresh_team) = None" "t_status fresh_team = zero_team_status"
    "ls_identity (ts_leader (t_spec fresh_team)) = []" "ls_soul (ts_leader (t_spec fresh_team)) = []"
    "ls_agents (ts_leader (t_spec fresh_team)) = []"
    "ts_workers (t_spec fresh_team) = [zero_team_worker\<lparr>tw_name := ''bob''\<rparr>]"
    by (simp_all add: fresh_team_def example_team_def zero_team_spec_def zero_leader_def)
  show ?thesis
    by (simp add: team_prepare_def check_standalone_conflicts_def resolve_team_admin_actor_def 1 2
        no_actor_def derived_team_def example_team_reconciler_def quiet_team_reconciler_def
        team_members_step_def write_inline_configs_def zero_team_worker_def example_plan_def Let_def)
qed

definition new_member :: "member_context \<Rightarrow> bool" where
  "new_member m \<longleftrightarrow> \<not> mx_is_update m \<and> mx_existing_matrix_user_id m = [] \<and>
     mx_model_provider m = None \<and> \<not> mx_spec_changed m \<and> ws_state (mx_spec m) = None"

lemma example_member_run:
  assumes "new_member m"
  shows "\<exists>ms'. run_state (reconcile_team_member example_team_reconciler m ms) 0 = ((ms', None), 0)"
  using assms
  by (simp add: new_member_def reconcile_team_member_def existing_matrix_context_def reconcile_member_infra_def
      ensure_model_provider_auth_def member_after_infra_def ensure_member_service_account_def
      reconcile_member_config_def reconcile_member_container_def worker_desired_state_def
      desired_state_of_def ensure_member_container_present_def detect_backend_def
      reconcile_member_expose_def Let_def example_team_deps_def example_deps_def quiet_provisioner_def
      quiet_deployer_def counting_backend_def State_Monad.bind_def del: status_text.simps)

lemma example_loop_run:
  assumes "\<forall>m\<in>set ms. new_member m"
  shows "\<exists>s'. run_state (team_members_loop example_team_reconciler t ms s []) 0 = ((s', []), 0)"
  using assms
proof (induction ms arbitrary: s)
  case Nil
  then show ?case by simp
next
  case (Cons m ms)
  obtain s1 e where s1: "member_status s (mx_name m) (mx_role m) = (s1, e)"
    by (cases "member_status s (mx_name m) (mx_role m)")
  have "new_member (with_current_ports m e)"
    using Cons.prems by (simp add: with_current_ports_def new_member_def split: option.splits)
  from example_member_run [OF this, of e] obtain e' where
    e': "run_state (reconcile_team_member example_team_reconciler (with_current_ports m e) e) 0 = ((e', None), 0)"
    by blast
  have rest: "\<exists>s'. run_state (team_members_loop example_team_reconciler t ms s2 []) 0 = ((s', []), 0)" for s2
    using Cons.IH Cons.prems by simp
  show ?case
    by (simp add: s1 e' rest Let_def reconcile_legacy_member_def team_legacy_def)
qed

lemma readiness_loop_reads:
  assumes "\<And>n u. snd (run_state (wb_status wb n) u) = u"
  shows "snd (run_state (readiness_loop wb ms s l n) u) = u"
proof (induction ms arbitrary: s l n)
  case Nil
  then show ?case by simp
next
  case (Cons m ms)
  obtain q v1 where q: "run_state (wb_status wb (mx_name m)) u = (q, v1)" by (metis surj_pair)
  then have "v1 = u" using assms [of "mx_name m" u] by simp
  then show ?case using q Cons.IH by (cases q) (simp_all add: Let_def)
qed

lemma example_converge:
  "\<exists>t'. run_state (team_converge example_team_reconciler example_plan) 0 = ((t', []), 0)"
proof -
  have "\<forall>m\<in>set (tp_members example_plan). new_member m"
    by (simp add: new_member_def example_plan_def build_desired_members_def leader_member_def
        worker_member_def Let_def member_observed_def member_spec_changed_def member_by_name_def
        leader_worker_spec_def team_worker_spec_to_worker_spec_def fresh_team_def example_team_def
        zero_team_status_def zero_team_spec_def zero_leader_def zero_team_worker_def)
  then obtain s' where "run_state (team_members_loop example_team_reconciler (tp_team example_plan)
      (tp_members example_plan) (prune_members (map mx_name (tp_members example_plan))
        (t_status (tp_team example_plan))) []) 0 = ((s', []), 0)"
    using example_loop_run by blast
  moreover have "tst_members (t_status (tp_team example_plan)) = []"
    by (simp add: example_plan_def zero_team_status_def Let_def)
  moreover have "snd (run_state (summarize_backend_readiness example_team_reconciler s'
      (tp_members example_plan)) 0) = 0"
    using readiness_loop_reads [of "counting_backend Status_Running"]
    by (simp add: summarize_backend_readiness_def example_team_deps_def example_deps_def detect_backend_def
        counting_backend_def)
  then have "\<exists>s2 l n. run_state (summarize_backend_readiness example_team_reconciler s'
      (tp_members example_plan)) 0 = ((s2, l, n), 0)"
    by (metis prod.collapse)
  ultimately show ?thesis
    by (auto simp: team_converge_def team_registry_update_def team_legacy_def Let_def)
qed


section \<open>The members of the status\<close>

lemma team_members_loop_names:
  assumes "run_state (team_members_loop r t ms s errs) v = ((s', errs'), v')"
  shows "ms_name ` set (tst_members s') = ms_name ` set (tst_members s) \<union> mx_name ` set ms \<and>
    (distinct (map ms_name (tst_members s)) \<longrightarrow> distinct (map ms_name (tst_members s')))"
  using assms
proof (induction ms arbitrary: s errs v)
  case Nil
  then show ?case by simp
next
  case (Cons m ms)
  obtain s1 e where s1: "member_status s (mx_name m) (mx_role m) = (s1, e)"
    by (cases "member_status s (mx_name m) (mx_role m)")
  note ms1 = member_status_entry [OF s1]
  obtain e' x v1 where q: "run_state (reconcile_team_member r (with_current_ports m e) e) v = ((e', x), v1)"
    by (metis surj_pair)
  note e' = reconcile_team_member_entry [OF q]
  have "\<exists>f es w. (\<forall>z. ms_name (f z) = mx_name m) \<and>
      run_state (team_members_loop r t ms (update_member (mx_name m) f s1) es) w = ((s', errs'), v')"
  proof (cases x)
    case (Some y)
    then have "run_state (team_members_loop r t ms (update_member (mx_name m) (\<lambda>_. e') s1)
        (errs @ [mx_name m @ '': '' @ err_text y])) v1 = ((s', errs'), v')"
      using Cons.prems(1) s1 q by (simp add: Let_def)
    moreover have "ms_name e' = mx_name m"
      using e'(1) ms1(1) by simp
    ultimately show ?thesis by (intro exI [of _ "\<lambda>_. e'"]) auto
  next
    case None
    let ?e = "e'\<lparr>ms_spec_hash := hash_member_source_spec (tr_marshal r) (t_spec t) (mx_role m) (mx_name m)\<rparr>"
    obtain u w where w: "run_state (reconcile_legacy_member r t m ?e) v1 = (u, w)"
      by (metis surj_pair)
    have "run_state (team_members_loop r t ms (update_member (mx_name m) (\<lambda>_. ?e) s1) errs) w = ((s', errs'), v')"
      using Cons.prems(1) s1 q None w by (simp add: Let_def)
    moreover have "ms_name ?e = mx_name m"
      using e'(1) ms1(1) by simp
    ultimately show ?thesis by (intro exI [of _ "\<lambda>_. ?e"]) auto
  qed
  then obtain f es w where f: "\<forall>z. ms_name (f z) = mx_name m"
      and next_run: "run_state (team_members_loop r t ms (update_member (mx_name m) f s1) es) w = ((s', errs'), v')"
    by blast
  have names: "map ms_name (tst_members (update_member (mx_name m) f s1)) = map ms_name (tst_members s) @
      (if mx_name m \<in> ms_name ` set (tst_members s) then [] else [mx_name m])"
    using f ms1(4) by (simp add: update_member_def update_first_names)
  have names_set: "ms_name ` set (tst_members (update_member (mx_name m) f s1)) =
      insert (mx_name m) (ms_name ` set (tst_members s))"
    using arg_cong [OF names, of set] by (auto split: if_splits)
  have "distinct (map ms_name (tst_members s)) \<Longrightarrow>
      distinct (map ms_name (tst_members (update_member (mx_name m) f s1)))"
    unfolding names by simp
  with Cons.IH [OF next_run] names_set show ?case by auto
qed

lemma readiness_loop_names:
  assumes "run_state (readiness_loop wb ms s l n) v = ((s', l', n'), v')"
  shows "map ms_name (tst_members s') = map ms_name (tst_members s)"
  using assms
proof (induction ms arbitrary: s l n v)
  case Nil
  then show ?case by simp
next
  case (Cons m ms)
  obtain q v1 where q: "run_state (wb_status wb (mx_name m)) v = (q, v1)" by (metis surj_pair)
  have keep: "map ms_name (tst_members (update_member k (set_ready b) s)) = map ms_name (tst_members s)" for k b
    by (simp add: update_member_def update_first_names)
  show ?case
    using Cons.prems q keep Cons.IH by (cases q) (auto simp: Let_def split: if_splits)
qed

lemma summarize_names:
  assumes "run_state (summarize_backend_readiness r s ms) v = ((s', l', n'), v')"
  shows "map ms_name (tst_members s') = map ms_name (tst_members s)"
proof -
  obtain b v1 where b: "run_state (detect_backend (tr_deps r)) v = (b, v1)" by (metis surj_pair)
  show ?thesis
    using assms b readiness_loop_names by (cases b) (auto simp: summarize_backend_readiness_def)
qed

text \<open>
  After a converging pass, with or without member errors, the status lists exactly the desired
  members, each of them once if it did so before and in the order of their names, so that an
  unchanged team gives an unchanged patch: stale entries are gone and every desired member, even
  one whose reconcile failed, has an entry.
\<close>

theorem team_status_members_exact:
  assumes "run_state (team_converge r p) v = ((t', errs), v')"
  shows "ms_name ` set (tst_members (t_status t')) = mx_name ` set (tp_members p) \<and>
    sorted (map ms_name (tst_members (t_status t'))) \<and>
    (distinct (map ms_name (tst_members (t_status (tp_team p)))) \<longrightarrow>
     distinct (map ms_name (tst_members (t_status t'))))"
proof -
  let ?keep = "map mx_name (tp_members p)"
  let ?s0 = "prune_members ?keep (t_status (tp_team p))"
  obtain w1 w2 w3 s1 s2 l n where st:
    "run_state (team_members_loop r (tp_team p) (tp_members p) ?s0 []) w1 = ((s1, errs), w2)"
    "run_state (summarize_backend_readiness r s1 (tp_members p)) w3 = ((s2, l, n), v')"
    "tst_members (t_status t') = sort_key ms_name (tst_members s2)"
    using team_converge_stages [OF assms] by metis
  have s0: "ms_name ` set (tst_members ?s0) \<subseteq> mx_name ` set (tp_members p)"
    by (auto simp: prune_members_def)
  have d0: "distinct (map ms_name (tst_members (t_status (tp_team p)))) \<Longrightarrow>
      distinct (map ms_name (tst_members ?s0))"
    by (simp add: prune_members_def distinct_map_filter)
  have s2: "map ms_name (tst_members s2) = map ms_name (tst_members s1)"
    using summarize_names [OF st(2)] .
  have "ms_name ` set (tst_members s2) = ms_name ` set (tst_members s1)"
    using arg_cong [OF s2, of set] by simp
  then have 1: "ms_name ` set (tst_members (t_status t')) = mx_name ` set (tp_members p)"
    using team_members_loop_names [OF st(1)] s0 st(3) by auto
  have "distinct (map ms_name (tst_members (t_status t'))) = distinct (map ms_name (tst_members s2))"
    unfolding st(3) distinct_map by (auto simp: distinct_sort)
  then show ?thesis
    using 1 team_members_loop_names [OF st(1)] d0 s2 st(3) by simp
qed

theorem team_status_members_exact_witness:
  "\<exists>t' errs. run_state (team_converge example_team_reconciler example_plan) 0 = ((t', errs), 0) \<and>
   ms_name ` set (tst_members (t_status t')) = mx_name ` set (tp_members example_plan) \<and>
   sorted (map ms_name (tst_members (t_status t')))"
proof -
  obtain t' where pass: "run_state (team_converge example_team_reconciler example_plan) 0 = ((t', []), 0)"
    using example_converge by blast
  from team_status_members_exact [OF this] pass show ?thesis by blast
qed

section \<open>Readiness and phase\<close>

definition answers_ready :: "worker_result result \<Rightarrow> bool" where
  "answers_ready q = (case q of Inl e \<Rightarrow> False
     | Inr res \<Rightarrow> wr_status res = Status_Running \<or> wr_status res = Status_Ready)"

lemma answers_ready_simps:
  "\<not> answers_ready (Inl e)"
  "answers_ready (Inr res) \<longleftrightarrow> wr_status res = Status_Running \<or> wr_status res = Status_Ready"
  by (simp_all add: answers_ready_def)

lemma readiness_loop_workers:
  assumes "\<And>n u. run_state (wb_status wb n) u = (answer n u, u)" "\<forall>m\<in>set ms. mx_role m \<noteq> Role_Team_Leader"
  shows "\<exists>s'. run_state (readiness_loop wb ms s l n) u =
    ((s', l, n + int (length (filter (\<lambda>m. answers_ready (answer (mx_name m) u)) ms))), u)"
  using assms(2)
proof (induction ms arbitrary: s n)
  case Nil
  then show ?case by simp
next
  case (Cons m ms)
  have rest: "\<exists>s'. run_state (readiness_loop wb ms s2 l k) u =
      ((s', l, k + int (length (filter (\<lambda>m. answers_ready (answer (mx_name m) u)) ms))), u)" for s2 k
    using Cons.IH Cons.prems by simp
  show ?case
    using Cons.prems rest
    by (cases "answer (mx_name m) u") (auto simp: assms(1) Let_def answers_ready_def, smt+)
qed

lemma readiness_loop_team:
  assumes "\<And>n u. run_state (wb_status wb n) u = (answer n u, u)"
    and "map (\<lambda>m. (mx_name m, mx_role m)) ms = member_roles sp"
  shows "\<exists>s'. run_state (readiness_loop wb ms s False 0) u =
    ((s', answers_ready (answer (ls_name (ts_leader sp)) u),
      int (length (filter (\<lambda>w. answers_ready (answer (tw_name w) u)) (ts_workers sp)))), u)"
proof -
  obtain m ws where ms: "ms = m # ws" "mx_name m = ls_name (ts_leader sp)" "mx_role m = Role_Team_Leader"
      "map (\<lambda>m. (mx_name m, mx_role m)) ws = map (\<lambda>w. (tw_name w, Role_Team_Worker)) (ts_workers sp)"
    using assms(2) by (cases ms) (auto simp: member_roles_def)
  have workers: "\<forall>k\<in>set ws. mx_role k \<noteq> Role_Team_Leader"
  proof
    fix k assume k: "k \<in> set ws"
    have "(mx_name k, mx_role k) \<in> set (map (\<lambda>m. (mx_name m, mx_role m)) ws)" using k by simp
    then show "mx_role k \<noteq> Role_Team_Leader" unfolding ms(4) by auto
  qed
  have "map mx_name ws = map tw_name (ts_workers sp)"
    using arg_cong [OF ms(4), of "map fst"] by (simp add: comp_def)
  then have "length (filter (\<lambda>k. answers_ready (answer k u)) (map mx_name ws)) =
      length (filter (\<lambda>k. answers_ready (answer k u)) (map tw_name (ts_workers sp)))"
    by simp
  then have "length (filter (\<lambda>m. answers_ready (answer (mx_name m) u)) ws) =
      length (filter (\<lambda>w. answers_ready (answer (tw_name w) u)) (ts_workers sp))"
    by (simp add: filter_map comp_def)
  then have loop: "\<exists>s'. run_state (readiness_loop wb ws s2 l 0) u =
      ((s', l, int (length (filter (\<lambda>w. answers_ready (answer (tw_name w) u)) (ts_workers sp)))), u)" for s2 l
    using readiness_loop_workers [of wb answer ws s2 l 0 u, OF assms(1)] workers by simp
  show ?thesis
    using loop ms(1-3)
    by (cases "answer (mx_name m) u") (simp_all add: assms(1) Let_def answers_ready_simps)
qed

text \<open>
  C7. The phase of a team tells the truth about its containers: after a pass over a backend that
  answers status queries without side effects, a team without member errors is Active exactly
  when the leader and every worker are reported running or ready, and Pending otherwise; with
  member errors it is Degraded. ReadyWorkers counts the workers reported ready.
\<close>

theorem team_active_iff_all_ready:
  assumes pass: "run_state (team_converge r p) v = ((t', errs), v')"
    and roles: "map (\<lambda>m. (mx_name m, mx_role m)) (tp_members p) = member_roles (t_spec (tp_team p))"
    and detect: "\<And>u. run_state (detect_backend (tr_deps r)) u = (Some wb, u)"
    and reads: "\<And>n u. run_state (wb_status wb n) u = (answer n u, u)"
  shows "tst_phase (t_status t') =
      (if errs \<noteq> [] then ''Degraded''
       else if answers_ready (answer (ls_name (ts_leader (t_spec (tp_team p)))) v') \<and>
               (\<forall>w\<in>set (ts_workers (t_spec (tp_team p))). answers_ready (answer (tw_name w) v'))
       then ''Active'' else ''Pending'') \<and>
    tst_ready_workers (t_status t') =
      int (length (filter (\<lambda>w. answers_ready (answer (tw_name w) v')) (ts_workers (t_spec (tp_team p)))))"
proof -
  let ?sp = "t_spec (tp_team p)"
  let ?ready = "\<lambda>w. answers_ready (answer (tw_name w) v')"
  obtain w3 s1 s2 l n where st:
    "run_state (summarize_backend_readiness r s1 (tp_members p)) w3 = ((s2, l, n), v')"
    "tst_ready_workers (t_status t') = n"
    "(tst_phase (t_status t'), tst_message (t_status t')) = team_phase errs l n (int (length (ts_workers ?sp)))"
    using team_converge_stages [OF pass] by metis
  have loop: "run_state (readiness_loop wb (tp_members p) s1 False 0) w3 = ((s2, l, n), v')"
    using st(1) detect by (simp add: summarize_backend_readiness_def)
  obtain s' where "run_state (readiness_loop wb (tp_members p) s1 False 0) w3 =
      ((s', answers_ready (answer (ls_name (ts_leader ?sp)) w3),
        int (length (filter (\<lambda>w. answers_ready (answer (tw_name w) w3)) (ts_workers ?sp)))), w3)"
    using readiness_loop_team [of wb answer, OF reads roles] by blast
  with loop have ln: "l = answers_ready (answer (ls_name (ts_leader ?sp)) v')"
      "n = int (length (filter ?ready (ts_workers ?sp)))"
    by auto
  have "length (filter ?ready (ts_workers ?sp)) = length (ts_workers ?sp) \<longleftrightarrow>
      (\<forall>w\<in>set (ts_workers ?sp). ?ready w)"
    by (metis filter_True length_filter_less less_irrefl)
  then show ?thesis
    using st(2,3) ln by (auto simp: team_phase_def split: if_splits)
qed

theorem team_active_iff_all_ready_witness:
  "\<exists>t'. run_state (team_converge example_team_reconciler example_plan) 0 = ((t', []), 0) \<and>
     tst_phase (t_status t') = ''Active''"
proof -
  let ?b = "counting_backend Status_Running"
  obtain t' where pass: "run_state (team_converge example_team_reconciler example_plan) 0 = ((t', []), 0)"
    using example_converge by blast
  have roles: "map (\<lambda>m. (mx_name m, mx_role m)) (tp_members example_plan) =
      member_roles (t_spec (tp_team example_plan))"
    using desired_roles [of "\<lambda>p. Some ''{}''" fresh_team "''hiclaw''"] by (simp add: example_plan_def Let_def)
  have detect: "\<And>u. run_state (detect_backend (tr_deps example_team_reconciler)) u = (Some ?b, u)"
    by (simp add: detect_backend_def example_team_deps_def example_deps_def counting_backend_def)
  have reads: "\<And>n u. run_state (wb_status ?b n) u = (fst (run_state (wb_status ?b n) 0), u)"
    by (simp add: counting_backend_def)
  have ready: "answers_ready (fst (run_state (wb_status ?b n) 0))" for n
    by (simp add: counting_backend_def answers_ready_def)
  show ?thesis
    using team_active_iff_all_ready [OF pass roles detect reads] pass ready by auto
qed

section \<open>Deletion\<close>

lemma delete_loop_succeeds:
  "\<exists>n. fst (run_state (delete_members_loop r t xs) v) = replicate n None"
proof (induction xs arbitrary: v)
  case Nil
  have "([] :: go_error option list) = replicate 0 None" by simp
  then show ?case unfolding delete_members_loop.simps run_state_return fst_conv by (rule exI)
next
  case (Cons x xs)
  obtain name role where x: "x = (name, role)" by (cases x)
  let ?m = "delete_member_context t name role"
  obtain v1 where d: "run_state (reconcile_member_delete (tr_deps r) ?m) v = (None, v1)"
    using member_delete_succeeds [of "tr_deps r" ?m v] by (metis prod.collapse)
  obtain u v2 where l: "run_state (remove_legacy_member r (mx_runtime_name ?m)) v1 = (u, v2)"
    by (metis surj_pair)
  obtain es v3 where rest: "run_state (delete_members_loop r t xs) v2 = (es, v3)" by (metis surj_pair)
  then obtain n where "es = replicate n None"
    using Cons.IH [of v2] by auto
  then have "fst (run_state (delete_members_loop r t (x # xs)) v) = replicate (Suc n) None"
    using d l rest by (simp add: x Let_def)
  then show ?case by blast
qed

lemma aggregate_no_errors: "aggregate (replicate n None) = None"
proof -
  have "List.map_filter id (replicate n (None :: go_error option)) = []"
    by (induction n) (simp_all add: List.map_filter_def)
  then show ?thesis by (simp add: aggregate_def)
qed

lemma delete_loop_calls:
  assumes "tr_deps r = recording_deps f" "tr_legacy r = None"
  shows "snd (run_state (delete_members_loop r t xs) log) =
    log @ concat (map (\<lambda>(n, role). delete_calls (delete_member_context t n role)) xs)"
proof (induction xs arbitrary: log)
  case Nil
  then show ?case by simp
next
  case (Cons x xs)
  have "remove_legacy_member r n = State_Monad.return ()" for n
    using assms(2) by (simp add: remove_legacy_member_def team_legacy_def)
  then show ?case
    using Cons.IH assms(1) member_delete_attempts [of f]
    by (cases x) (simp add: Let_def prod.case_eq_if State_Monad.bind_def)
qed

lemma fold_update_keys:
  "fst ` set (fold (\<lambda>x acc. AList.update (k x) (val x) acc) xs acc) = fst ` set acc \<union> k ` set xs"
  by (induction xs arbitrary: acc) (auto simp: dom_update)

lemma delete_names_keys:
  "fst ` set (delete_names t) = ms_name ` set (tst_members (t_status t)) \<union>
     (if ls_name (ts_leader (t_spec t)) \<noteq> [] then {ls_name (ts_leader (t_spec t))} else {}) \<union>
     tw_name ` set (ts_workers (t_spec t))"
  by (simp add: delete_names_def Let_def fold_update_keys dom_update)



end
