(* ===== verification/Proxy_Security.thy ===== *)
theory Proxy_Security
  imports Go_Prelude
begin

text \<open>
  \<open>internal/proxy/security.go\<close> and \<open>proxy.go\<close>: the filter in front of the Docker socket. The
  regular expressions of the URL patterns are predicates on the segments of the path; forwarding
  to the engine is the outcome \<open>Forward\<close>, every answer the proxy gives itself is \<open>Reject\<close>.
\<close>

section \<open>Images\<close>

definition higress_registry_suffix :: string where
  "higress_registry_suffix = ''.cr.aliyuncs.com/''"

definition is_higress_registry :: "string \<Rightarrow> bool" where
  "is_higress_registry img =
     (case str_index img higress_registry_suffix of
        None \<Rightarrow> False
      | Some idx \<Rightarrow> has_prefix (take idx img) ''higress-registry'')"

definition is_local_image :: "string \<Rightarrow> bool" where
  "is_local_image img =
     (case str_index img ''/'' of
        None \<Rightarrow> True
      | Some i \<Rightarrow> \<not> str_contains (take i img) ''.'')"

definition is_localhost_image :: "string \<Rightarrow> bool" where
  "is_localhost_image img \<longleftrightarrow>
     has_prefix img ''localhost/'' \<or> has_prefix img ''localhost:'' \<or>
     has_prefix img ''127.0.0.1/'' \<or> has_prefix img ''127.0.0.1:''"

section \<open>The validator\<close>

record host_config =
  hc_binds :: "string list"
  hc_mount_types :: "string list"
  hc_privileged :: bool
  hc_network_mode :: string
  hc_pid_mode :: string
  hc_cap_add :: "string list"

text \<open>\<open>hc_mount_types\<close> are the \<open>Type\<close> fields of the mounts, the only field the code decodes.\<close>

record container_create_request =
  cr_image :: string
  cr_host_config :: "host_config option"

record security_validator =
  sv_allowed_registries :: "string list"
  sv_container_prefix :: string
  sv_dangerous_caps :: "string list"

definition true_word :: "string \<Rightarrow> bool" where
  "true_word v \<longleftrightarrow> v = ''1'' \<or> v = ''true'' \<or> v = ''True'' \<or> v = ''TRUE''"

definition new_security_validator :: "(string \<Rightarrow> string) \<Rightarrow> security_validator" where
  "new_security_validator getenv =
     (let env = getenv ''HICLAW_PROXY_ALLOWED_REGISTRIES'';
          registries = (if env = [] then []
             else filter (\<lambda>r. r \<noteq> []) (map trim_space (split_on (CHR '','') env)));
          auto = getenv ''HICLAW_RESOURCE_AUTOPREFIX'';
          auto_prefix = (if auto \<noteq> [] then true_word auto else True);
          explicit = getenv ''HICLAW_PROXY_CONTAINER_PREFIX'';
          rp = getenv ''HICLAW_RESOURCE_PREFIX'';
          pfx = (if explicit \<noteq> [] then explicit
             else if auto_prefix then (if rp = [] then ''hiclaw-'' else rp) @ ''worker-''
             else [])
      in \<lparr>sv_allowed_registries = registries, sv_container_prefix = pfx,
          sv_dangerous_caps = [''SYS_ADMIN'', ''SYS_PTRACE'', ''DAC_OVERRIDE'', ''NET_ADMIN'',
            ''SYS_RAWIO'', ''SYS_MODULE'']\<rparr>)"

definition is_image_allowed :: "security_validator \<Rightarrow> string \<Rightarrow> bool" where
  "is_image_allowed v img \<longleftrightarrow>
     is_higress_registry img \<or> is_local_image img \<or> is_localhost_image img \<or>
     list_ex (\<lambda>reg. has_prefix img (reg @ ''/'')) (sv_allowed_registries v)"

fun first_dangerous_cap :: "security_validator \<Rightarrow> string list \<Rightarrow> string option" where
  "first_dangerous_cap v [] = None"
| "first_dangerous_cap v (c # cs) =
     (if to_upper c \<in> set (sv_dangerous_caps v) then Some c else first_dangerous_cap v cs)"

definition validate_host_config :: "security_validator \<Rightarrow> host_config \<Rightarrow> go_error option" where
  "validate_host_config v h =
     (if hc_binds h \<noteq> [] then
        Some (Err (''bind mounts are not allowed (got '' @ show_nat (length (hc_binds h)) @ '' bind(s))''))
      else if list_ex (\<lambda>t. equal_fold t ''bind'') (hc_mount_types h) then
        Some (Err ''bind-type mounts are not allowed'')
      else if hc_privileged h then Some (Err ''privileged mode is not allowed'')
      else if hc_network_mode h = ''host'' then Some (Err ''host network mode is not allowed'')
      else if hc_pid_mode h = ''host'' then Some (Err ''host PID mode is not allowed'')
      else map_option (\<lambda>c. Err (''capability '' @ go_quote c @ '' is not allowed''))
             (first_dangerous_cap v (hc_cap_add h)))"

definition validate_container_create ::
  "security_validator \<Rightarrow> container_create_request \<Rightarrow> string \<Rightarrow> go_error option" where
  "validate_container_create v req name =
     (if name \<noteq> [] \<and> \<not> has_prefix name (sv_container_prefix v) then
        Some (Err (''container name '' @ go_quote name @ '' must start with '' @
          go_quote (sv_container_prefix v)))
      else if str_contains name ''/'' \<or> str_contains name ''..'' then
        Some (Err (''container name '' @ go_quote name @ '' contains invalid characters''))
      else if \<not> is_image_allowed v (cr_image req) then
        Some (Err (''image '' @ go_quote (cr_image req) @ '' is not allowed (not a local image, localhost, Higress registry, or configured registry)''))
      else (case cr_host_config req of None \<Rightarrow> None | Some h \<Rightarrow> validate_host_config v h))"

section \<open>The proxy\<close>

definition name_char :: "char \<Rightarrow> bool" where
  "name_char c \<longleftrightarrow>
     (let n = (of_char c :: nat) in
      (97 \<le> n \<and> n \<le> 122) \<or> (65 \<le> n \<and> n \<le> 90) \<or> (48 \<le> n \<and> n \<le> 57) \<or> c \<in> {CHR ''_'', CHR ''.'', CHR ''-''})"

definition alnum_char :: "char \<Rightarrow> bool" where
  "alnum_char c \<longleftrightarrow>
     (let n = (of_char c :: nat) in
      (97 \<le> n \<and> n \<le> 122) \<or> (65 \<le> n \<and> n \<le> 90) \<or> (48 \<le> n \<and> n \<le> 57))"

definition version_char :: "char \<Rightarrow> bool" where
  "version_char c \<longleftrightarrow> (let n = (of_char c :: nat) in (48 \<le> n \<and> n \<le> 57) \<or> c = CHR ''.'')"

definition non_empty_all :: "(char \<Rightarrow> bool) \<Rightarrow> string \<Rightarrow> bool" where
  "non_empty_all f s \<longleftrightarrow> s \<noteq> [] \<and> list_all f s"

text \<open>The path without the optional \<open>/v1.43\<close>, as segments; \<open>None\<close> without a leading slash.\<close>

definition api_segments :: "string \<Rightarrow> string list option" where
  "api_segments path =
     (case split_on (CHR ''/'') path of
        [] # (CHR ''v'' # ds) # rest \<Rightarrow>
          if non_empty_all version_char ds then Some rest else Some ((CHR ''v'' # ds) # rest)
      | [] # rest \<Rightarrow> Some rest
      | _ \<Rightarrow> None)"

definition container_actions :: "string list" where
  "container_actions = [''start'', ''stop'', ''kill'', ''restart'', ''wait'', ''resize'', ''attach'', ''logs'']"

definition container_create_path :: "string \<Rightarrow> bool" where
  "container_create_path path \<longleftrightarrow> api_segments path = Some [''containers'', ''create'']"

definition container_action_path :: "string \<Rightarrow> bool" where
  "container_action_path path =
     (case api_segments path of
        Some [c, n, a] \<Rightarrow> c = ''containers'' \<and> non_empty_all name_char n \<and> a \<in> set container_actions
      | _ \<Rightarrow> False)"

definition container_exec_path :: "string \<Rightarrow> bool" where
  "container_exec_path path =
     (case api_segments path of
        Some [c, n, a] \<Rightarrow> c = ''containers'' \<and> non_empty_all name_char n \<and> a = ''exec''
      | _ \<Rightarrow> False)"

definition container_delete_path :: "string \<Rightarrow> bool" where
  "container_delete_path path =
     (case api_segments path of
        Some [c, n] \<Rightarrow> c = ''containers'' \<and> non_empty_all name_char n
      | _ \<Rightarrow> False)"

definition exec_start_path :: "string \<Rightarrow> bool" where
  "exec_start_path path =
     (case api_segments path of
        Some [c, n, a] \<Rightarrow> c = ''exec'' \<and> non_empty_all alnum_char n \<and> a \<in> {''start'', ''resize'', ''json''}
      | _ \<Rightarrow> False)"

definition image_create_path :: "string \<Rightarrow> bool" where
  "image_create_path path \<longleftrightarrow> api_segments path = Some [''images'', ''create'']"

text \<open>A request; the body is an error when it cannot be read.\<close>

record proxy_request =
  px_method :: string
  px_path :: string
  px_name_param :: string
  px_body :: "string result"

datatype proxy_outcome = Forward | Reject nat string

definition handle_container_create ::
  "security_validator \<Rightarrow> (string \<Rightarrow> container_create_request result) \<Rightarrow> proxy_request \<Rightarrow> proxy_outcome" where
  "handle_container_create v unmarshal r =
     (case px_body r of
        Inl e \<Rightarrow> Reject 400 ''failed to read request body''
      | Inr body \<Rightarrow>
          (case unmarshal body of
             Inl e \<Rightarrow> Reject 400 ''invalid JSON in request body''
           | Inr req \<Rightarrow>
               (case validate_container_create v req (px_name_param r) of
                  Some e \<Rightarrow> Reject 403 (err_text e)
                | None \<Rightarrow> Forward)))"

definition serve_docker_http ::
  "security_validator \<Rightarrow> (string \<Rightarrow> container_create_request result) \<Rightarrow> proxy_request \<Rightarrow> proxy_outcome" where
  "serve_docker_http v unmarshal r =
     (let m = px_method r; path = px_path r in
      if m = ''GET'' \<or> m = ''HEAD'' then Forward
      else if m = ''POST'' \<and> container_create_path path then handle_container_create v unmarshal r
      else if m = ''POST'' \<and> container_action_path path then Forward
      else if m = ''POST'' \<and> container_exec_path path then Forward
      else if m = ''POST'' \<and> exec_start_path path then Forward
      else if m = ''POST'' \<and> image_create_path path then Forward
      else if m = ''DELETE'' \<and> container_delete_path path then Forward
      else Reject 403 (m @ '' '' @ path @ '' is not allowed''))"

section \<open>What the filter guarantees\<close>

text \<open>The policy, stated on the request without the order of the checks.\<close>

definition unprivileged :: "security_validator \<Rightarrow> host_config \<Rightarrow> bool" where
  "unprivileged v h \<longleftrightarrow> hc_binds h = [] \<and> (\<forall>t \<in> set (hc_mount_types h). to_lower t \<noteq> ''bind'') \<and>
     \<not> hc_privileged h \<and> hc_network_mode h \<noteq> ''host'' \<and> hc_pid_mode h \<noteq> ''host'' \<and>
     (\<forall>c \<in> set (hc_cap_add h). to_upper c \<notin> set (sv_dangerous_caps v))"

definition create_permitted :: "security_validator \<Rightarrow> container_create_request \<Rightarrow> string \<Rightarrow> bool" where
  "create_permitted v req name \<longleftrightarrow>
     (name = [] \<or> has_prefix name (sv_container_prefix v)) \<and>
     \<not> str_contains name ''/'' \<and> \<not> str_contains name ''..'' \<and>
     is_image_allowed v (cr_image req) \<and>
     (case cr_host_config req of None \<Rightarrow> True | Some h \<Rightarrow> unprivileged v h)"

lemma first_dangerous_cap_none:
  "first_dangerous_cap v cs = None \<longleftrightarrow> (\<forall>c \<in> set cs. to_upper c \<notin> set (sv_dangerous_caps v))"
  by (induction cs) simp_all

lemma to_lower_bind [simp]: "to_lower ''bind'' = ''bind''"
  by code_simp

lemma validate_host_config_none: "validate_host_config v h = None \<longleftrightarrow> unprivileged v h"
  by (auto simp: validate_host_config_def unprivileged_def first_dangerous_cap_none list_ex_iff
      equal_fold_def)

lemma validate_container_create_none:
  "validate_container_create v req name = None \<longleftrightarrow> create_permitted v req name"
  by (auto simp: validate_container_create_def create_permitted_def validate_host_config_none
      split: option.splits)

text \<open>The operations that are forwarded without looking at their body.\<close>

definition passes_unchecked :: "string \<Rightarrow> string \<Rightarrow> bool" where
  "passes_unchecked m path \<longleftrightarrow> m = ''GET'' \<or> m = ''HEAD'' \<or>
     m = ''POST'' \<and> (container_action_path path \<or> container_exec_path path \<or> exec_start_path path \<or>
       image_create_path path) \<or>
     m = ''DELETE'' \<and> container_delete_path path"

lemma create_path_is_no_other:
  "container_create_path path \<Longrightarrow> \<not> container_action_path path \<and> \<not> container_exec_path path \<and>
     \<not> exec_start_path path \<and> \<not> image_create_path path"
  by (simp add: container_create_path_def container_action_path_def container_exec_path_def
      exec_start_path_def image_create_path_def)

text \<open>
  C13. The Docker proxy forwards exactly the permitted requests: reads, the listed operations on
  existing containers, image pulls, and the creation of a container whose body decodes to a
  request with an allowed image, a name with the tenant's prefix (or none) and no bind mount,
  privileged mode, host namespace or dangerous capability. Everything else is rejected, whatever
  the order of the checks.
\<close>

theorem proxy_forwards_exactly:
  "serve_docker_http v unmarshal r = Forward \<longleftrightarrow>
     passes_unchecked (px_method r) (px_path r) \<or>
     (px_method r = ''POST'' \<and> container_create_path (px_path r) \<and>
      (\<exists>body req. px_body r = Inr body \<and> unmarshal body = Inr req \<and>
         create_permitted v req (px_name_param r)))"
proof (cases "px_method r = ''POST'' \<and> container_create_path (px_path r)")
  case True
  have "handle_container_create v unmarshal r = Forward \<longleftrightarrow>
      (\<exists>body req. px_body r = Inr body \<and> unmarshal body = Inr req \<and>
         create_permitted v req (px_name_param r))"
    unfolding validate_container_create_none [symmetric]
    by (auto simp: handle_container_create_def split: sum.splits option.splits)
  then show ?thesis
    using True create_path_is_no_other [of "px_path r"]
    by (simp add: serve_docker_http_def Let_def passes_unchecked_def)
next
  case False
  then show ?thesis
    by (auto simp: serve_docker_http_def Let_def passes_unchecked_def)
qed

text \<open>
  The image allowlist can be passed from any registry: the test for Higress registries accepts
  every host that starts with \<open>higress-registry\<close> as long as the suffix \<open>.cr.aliyuncs.com/\<close> occurs
  somewhere in the reference, and the test for local images accepts every registry host whose
  name has no dot, with any port.
\<close>

theorem image_allowlist_bypass:
  "is_image_allowed v (''higress-registry.evil.example/x.cr.aliyuncs.com/'' @ img) \<and>
   is_image_allowed v (''registry:5000/'' @ img)"
proof -
  have "str_index (''higress-registry.evil.example/x'' @ higress_registry_suffix @ img)
      higress_registry_suffix = Some 31"
    by (simp add: higress_registry_suffix_def has_prefix_def eval_nat_numeral)
  then have 1: "is_higress_registry (''higress-registry.evil.example/x.cr.aliyuncs.com/'' @ img)"
    by (simp add: is_higress_registry_def higress_registry_suffix_def has_prefix_def)
  have "str_index (''registry:5000/'' @ img) ''/'' = Some 13"
    by (simp add: has_prefix_def)
  then have 2: "is_local_image (''registry:5000/'' @ img)"
    by (simp add: is_local_image_def str_contains_def has_prefix_def)
  from 1 2 show ?thesis
    by (simp add: is_image_allowed_def)
qed

end
