(* ===== verification/Agents_Md.thy ===== *)
theory Agents_Md
  imports Go_Strings Go_Results
begin

text \<open>
  \<open>internal/agentconfig/agents_merge.go\<close> and \<open>coordination.go\<close>: the editors of an agent's
  \<open>AGENTS.md\<close>. A document is the managed section (header, template body, end marker), the
  coordination block the controller puts behind it, and the text of the user. The lemmas show
  what a refresh keeps of a document and that removing the blocks ends.
\<close>

section \<open>Markers\<close>

text \<open>The UTF-8 bytes of the two non-ASCII characters the texts use.\<close>

definition em_dash :: string where
  "em_dash = [CHR 0xE2, CHR 0x80, CHR 0x94]"

definition warning_sign :: string where
  "warning_sign = [CHR 0xE2, CHR 0x9A, CHR 0xA0, CHR 0xEF, CHR 0xB8, CHR 0x8F]"

definition builtin_start :: string where
  "builtin_start = ''<!-- hiclaw-builtin-start -->''"

definition builtin_end :: string where
  "builtin_end = ''<!-- hiclaw-builtin-end -->''"

definition builtin_header :: string where
  "builtin_header =
     ''<!-- hiclaw-builtin-start -->'' @ newline @
     ''> '' @ warning_sign @ '' **DO NOT EDIT** this section. It is managed by HiClaw and will be automatically'' @ newline @
     ''> replaced on upgrade. To customize, add your content **after** the'' @ newline @
     ''> `<!-- hiclaw-builtin-end -->` marker below.'' @ newline"

definition team_ctx_start :: string where
  "team_ctx_start = ''<!-- hiclaw-team-context-start -->''"

definition team_ctx_end :: string where
  "team_ctx_end = ''<!-- hiclaw-team-context-end -->''"

section \<open>The managed section\<close>

definition extract_frontmatter :: "string \<Rightarrow> string \<times> string" where
  "extract_frontmatter content =
     (let ls = split_on (CHR 0x0A) content in
      if trim_space (hd ls) \<noteq> ''---'' then ([], content)
      else let pre = takeWhile (\<lambda>l. trim_space l \<noteq> ''---'') (tl ls);
               i = length pre
           in if i < length (tl ls)
              then (join_with newline (hd ls # take (Suc i) (tl ls)),
                    trim_left is_newline (join_with newline (drop (Suc i) (tl ls))))
              else ([], content))"

definition wrap_with_markers :: "string \<Rightarrow> string \<Rightarrow> string" where
  "wrap_with_markers source user =
     (let (_, body) = extract_frontmatter source in
      builtin_header @ newline @ trim_right is_newline body @ newline @ newline @ builtin_end @ newline @
      (if user \<noteq> [] then newline @ trim_right is_newline user @ newline else []))"

definition extract_user_content :: "string \<Rightarrow> string" where
  "extract_user_content target =
     (case str_last_index target builtin_end of
        None \<Rightarrow> []
      | Some idx \<Rightarrow>
          let after = trim_left is_newline (drop (idx + length builtin_end) target)
          in if trim_space after = [] then [] else after)"

definition merge_builtin_section :: "string \<Rightarrow> string \<Rightarrow> string" where
  "merge_builtin_section target source =
     (if target = [] then wrap_with_markers source []
      else if str_contains target builtin_start
      then wrap_with_markers source (extract_user_content target)
      else wrap_with_markers source target)"

section \<open>The coordination block\<close>

record team_worker_info =
  twi_name :: string
  twi_room_id :: string

record coordination_context =
  cc_worker_name :: string
  cc_role :: string
  cc_matrix_domain :: string
  cc_team_name :: string
  cc_team_leader_name :: string
  cc_team_admin_id :: string
  cc_team_coordinator_ids :: "string list"
  cc_team_room_id :: string
  cc_leader_dm_room_id :: string
  cc_heartbeat_every :: string
  cc_worker_idle_timeout :: string
  cc_team_workers :: "team_worker_info list"

fun unique_coordination_loop :: "string list \<Rightarrow> string \<Rightarrow> string list \<Rightarrow> string list" where
  "unique_coordination_loop seen exclude [] = []"
| "unique_coordination_loop seen exclude (x # xs) =
     (if x = [] \<or> x = exclude then unique_coordination_loop seen exclude xs
      else if x \<in> set seen then unique_coordination_loop seen exclude xs
      else x # unique_coordination_loop (x # seen) exclude xs)"

definition unique_coordination_ids :: "string list \<Rightarrow> string \<Rightarrow> string list" where
  "unique_coordination_ids ids exclude = unique_coordination_loop [] exclude ids"

definition write_team_coordinators :: "string list \<Rightarrow> string \<Rightarrow> string" where
  "write_team_coordinators ids0 admin =
     (let ids = unique_coordination_ids ids0 admin in
      if ids = [] then []
      else ''- **Coordinator Members**:'' @ newline @
        concat (map (\<lambda>i. ''  - '' @ i @ '' '' @ em_dash @ '' can assign tasks and make decisions within the team'' @ newline) ids))"

definition team_leader_lines :: "coordination_context \<Rightarrow> string" where
  "team_leader_lines ctx =
     ''- **Upstream coordinator**: @manager:'' @ cc_matrix_domain ctx @ '' (Manager) '' @ em_dash @ '' you receive tasks from Manager'' @ newline @
     (if cc_team_admin_id ctx \<noteq> [] then
        ''- **Team Admin**: '' @ cc_team_admin_id ctx @ '' '' @ em_dash @ '' can assign tasks and make decisions within the team'' @ newline else []) @
     write_team_coordinators (cc_team_coordinator_ids ctx) (cc_team_admin_id ctx) @
     ''- **Team**: '' @ cc_team_name ctx @ newline @
     (if cc_team_room_id ctx \<noteq> [] then
        ''- **Team Room**: '' @ cc_team_room_id ctx @ '' '' @ em_dash @ '' @mention workers here for task assignment'' @ newline else []) @
     (if cc_leader_dm_room_id ctx \<noteq> [] then
        ''- **Leader DM**: '' @ cc_leader_dm_room_id ctx @ '' '' @ em_dash @ '' Team Admin communicates with you here'' @ newline else []) @
     (if cc_heartbeat_every ctx \<noteq> [] then
        ''- **Heartbeat interval**: '' @ cc_heartbeat_every ctx @ newline else []) @
     (if cc_worker_idle_timeout ctx \<noteq> [] then
        ''- **Worker idle timeout**: '' @ cc_worker_idle_timeout ctx @ newline else []) @
     (if cc_team_workers ctx \<noteq> [] then
        ''- **Team Workers**:'' @ newline @
        concat (map (\<lambda>w. ''  - @'' @ twi_name w @ '':'' @ cc_matrix_domain ctx @ '' '' @ em_dash @ '' Room: '' @
          (if twi_room_id w \<noteq> [] then twi_room_id w else ''unknown'') @ newline) (cc_team_workers ctx))
      else []) @
     ''- You decompose tasks from Manager, Team Admin, or coordinator members and assign sub-tasks to your team workers'' @ newline @
     ''- @mention workers in the Team Room for task assignment'' @ newline @
     ''- Use team-state.json as the source of truth for task activity before deciding whether a worker is idle'' @ newline @
     ''- You decide when to wake or sleep team workers; the controller only executes the lifecycle action you request'' @ newline @
     ''- Report results to Manager (in Leader Room) or Team Admin (in Leader DM) based on task source'' @ newline @
     ''- @mention Manager only for: task completion, blockers, escalations'' @ newline"

definition team_worker_lines :: "coordination_context \<Rightarrow> string" where
  "team_worker_lines ctx =
     ''- **Coordinator**: @'' @ cc_team_leader_name ctx @ '':'' @ cc_matrix_domain ctx @ '' (Team Leader of '' @ cc_team_name ctx @ '')'' @ newline @
     (if cc_team_admin_id ctx \<noteq> [] then
        ''- **Team Admin**: '' @ cc_team_admin_id ctx @ '' (has admin authority within this team)'' @ newline else []) @
     write_team_coordinators (cc_team_coordinator_ids ctx) (cc_team_admin_id ctx) @
     ''- Report task completion, blockers, and questions to your coordinator'' @ newline @
     (if cc_team_admin_id ctx \<noteq> [] \<and> cc_team_coordinator_ids ctx \<noteq> [] then
        ''- Respond to @mentions from your coordinator, Team Admin, coordinator members, and global Admin''
      else if cc_team_admin_id ctx \<noteq> [] then
        ''- Respond to @mentions from your coordinator, Team Admin, and global Admin''
      else if cc_team_coordinator_ids ctx \<noteq> [] then
        ''- Respond to @mentions from your coordinator, coordinator members, and global Admin''
      else ''- Respond to @mentions from your coordinator and global Admin'') @ newline @
     ''- Do NOT @mention Manager directly '' @ em_dash @ '' all communication goes through your Team Leader'' @ newline"

definition standalone_lines :: "coordination_context \<Rightarrow> string" where
  "standalone_lines ctx =
     ''- **Coordinator**: @manager:'' @ cc_matrix_domain ctx @ '' (Manager)'' @ newline @
     ''- Report task completion, blockers, and questions to your coordinator'' @ newline @
     ''- Only respond to @mentions from your coordinator and Admin'' @ newline"

text \<open>The text between the two markers of a block.\<close>

definition coordination_body :: "coordination_context \<Rightarrow> string" where
  "coordination_body ctx =
     newline @ ''## Coordination'' @ newline @ newline @
     (if cc_role ctx = ''team_leader'' then team_leader_lines ctx
      else if cc_role ctx = ''worker'' then team_worker_lines ctx
      else standalone_lines ctx)"

definition build_coordination_block :: "coordination_context \<Rightarrow> string" where
  "build_coordination_block ctx =
     newline @ team_ctx_start @ coordination_body ctx @ team_ctx_end @ newline"

text \<open>Where a block ends: behind its end marker and the newline that follows it, if any.\<close>

definition block_stop :: "string \<Rightarrow> nat \<Rightarrow> nat" where
  "block_stop content e =
     (if e < length content \<and> content ! e = CHR 0x0A then Suc e else e)"

function remove_coordination_block :: "string \<Rightarrow> string" where
  "remove_coordination_block content =
     (case str_index content team_ctx_start of
        None \<Rightarrow> content
      | Some i \<Rightarrow>
          (case str_index (drop i content) team_ctx_end of
             None \<Rightarrow> content
           | Some j \<Rightarrow>
               remove_coordination_block
                 (take i content @ drop (block_stop content (i + j + length team_ctx_end)) content)))"
  by pat_completeness auto


termination
proof (relation "measure length")
  fix content i j
  assume i: "str_index content team_ctx_start = Some i"
    and j: "str_index (drop i content) team_ctx_end = Some j"
  have "length team_ctx_end = 32" by (simp add: team_ctx_end_def)
  moreover have "i \<le> length content" using str_index_bound [OF i] by simp
  moreover have "j + length team_ctx_end \<le> length content - i"
    using str_index_bound [OF j] by simp
  ultimately show "(take i content @ drop (block_stop content (i + j + length team_ctx_end)) content, content)
      \<in> measure length"
    by (auto simp: block_stop_def)
qed simp

declare remove_coordination_block.simps [simp del]

definition inject_coordination_context :: "string \<Rightarrow> coordination_context \<Rightarrow> string" where
  "inject_coordination_context agents_content ctx =
     (let block = build_coordination_block ctx;
          cleaned = remove_coordination_block agents_content
      in case str_last_index cleaned builtin_end of
           Some idx \<Rightarrow>
             let cut = idx + length builtin_end
             in take cut cleaned @ newline @ block @ drop cut cleaned
         | None \<Rightarrow> trim_right is_newline cleaned @ newline @ block)"

section \<open>De-duplication of the coordinators\<close>

lemma unique_coordination_loop_eq:
  "unique_coordination_loop seen exclude xs = dedup_loop (\<lambda>x. x = [] \<or> x = exclude) seen xs"
  by (induction seen exclude xs rule: unique_coordination_loop.induct) auto

interpretation unique_coordinators:
  stable_dedup "\<lambda>ids. unique_coordination_ids ids exclude" "\<lambda>x. x = [] \<or> x = exclude" for exclude
  by unfold_locales
    (simp_all add: unique_coordination_ids_def unique_coordination_loop_eq dedup_loop_set
      dedup_loop_distinct dedup_loop_subseq)

section \<open>Removal\<close>

definition complete_block :: "string \<Rightarrow> bool" where
  "complete_block content =
     (case str_index content team_ctx_start of
        None \<Rightarrow> False
      | Some i \<Rightarrow> str_contains (drop i content) team_ctx_end)"

lemma remove_no_block: "\<not> complete_block c \<Longrightarrow> remove_coordination_block c = c"
  by (subst remove_coordination_block.simps)
    (simp add: complete_block_def str_contains_def split: option.splits)

lemma remove_leaves_none: "\<not> complete_block (remove_coordination_block c)"
proof (induction c rule: remove_coordination_block.induct)
  case (1 content)
  show ?case
  proof (cases "complete_block content")
    case False
    then show ?thesis by (simp add: remove_no_block)
  next
    case True
    then obtain i j where ij: "str_index content team_ctx_start = Some i"
        "str_index (drop i content) team_ctx_end = Some j"
      by (auto simp: complete_block_def str_contains_def split: option.splits)
    then show ?thesis
      using 1 by (subst remove_coordination_block.simps) simp
  qed
qed

text \<open>The loop that removes the coordination blocks of a document always ends: the function is
  total on every text, however its markers are nested or unpaired, and what it returns has no
  start marker followed by an end marker; so a second run changes nothing.\<close>

theorem coordination_removal_ends:
  "\<not> complete_block (remove_coordination_block c) \<and>
   remove_coordination_block (remove_coordination_block c) = remove_coordination_block c"
  by (simp add: remove_leaves_none remove_no_block)

section \<open>Refreshing a document\<close>

text \<open>One pass of the deployer over the file of a worker or a standalone agent.\<close>

definition agents_pass :: "string \<Rightarrow> coordination_context \<Rightarrow> string \<Rightarrow> string" where
  "agents_pass source ctx target =
     inject_coordination_context (merge_builtin_section target source) ctx"

definition managed_head :: "string \<Rightarrow> string" where
  "managed_head source =
     builtin_header @ newline @ trim_right is_newline (snd (extract_frontmatter source)) @ newline @ newline"

text \<open>The document a pass leaves: \<open>j\<close> newlines lie between the block and the user's text.\<close>

definition agents_document :: "string \<Rightarrow> coordination_context \<Rightarrow> nat \<Rightarrow> string \<Rightarrow> string" where
  "agents_document source ctx j user =
     managed_head source @ builtin_end @ newline @ build_coordination_block ctx @
     replicate j (CHR 0x0A) @ user @ newline"

definition user_text :: "string \<Rightarrow> bool" where
  "user_text u \<longleftrightarrow> u \<noteq> [] \<and> last u \<noteq> CHR 0x0A \<and> \<not> str_contains u builtin_start \<and>
     \<not> str_contains u builtin_end \<and> \<not> str_contains u team_ctx_start"

definition plain_template :: "string \<Rightarrow> bool" where
  "plain_template source \<longleftrightarrow> \<not> str_contains (snd (extract_frontmatter source)) team_ctx_start"

definition plain_context :: "coordination_context \<Rightarrow> bool" where
  "plain_context ctx \<longleftrightarrow> CHR ''<'' \<notin> set (coordination_body ctx)"

lemma markers: "marker builtin_end" "marker team_ctx_start" "marker team_ctx_end"
  by (simp_all add: marker_def builtin_end_def team_ctx_start_def team_ctx_end_def)

lemma marker_nonempty [simp]: "builtin_end \<noteq> []" "team_ctx_start \<noteq> []" "team_ctx_end \<noteq> []"
    "builtin_start \<noteq> []"
  by (simp_all add: builtin_end_def builtin_start_def team_ctx_start_def team_ctx_end_def)

lemma no_newline [simp]: "CHR 0x0A \<notin> set builtin_end" "CHR 0x0A \<notin> set team_ctx_start"
  by (simp_all add: builtin_end_def team_ctx_start_def)

lemma trim_right_contains: "str_contains (trim_right f x) sub \<Longrightarrow> sub \<noteq> [] \<Longrightarrow> str_contains x sub"
proof -
  assume c: "str_contains (trim_right f x) sub" and ne: "sub \<noteq> []"
  have "x = trim_right f x @ rev (takeWhile f (rev x))"
    by (metis rev_append rev_rev_ident takeWhile_dropWhile_id trim_right_def)
  with c show ?thesis
    unfolding str_contains_iff [OF ne] by (metis append_assoc)
qed

lemma contains_newlines:
  "str_contains (replicate j (CHR 0x0A) @ x) builtin_end = str_contains x builtin_end"
  "str_contains (replicate j (CHR 0x0A) @ x) team_ctx_start = str_contains x team_ctx_start"
  by (rule str_contains_skip, simp_all add: builtin_end_def team_ctx_start_def)+

lemma block_no_end:
  "plain_context ctx \<Longrightarrow> str_contains (build_coordination_block ctx @ x) builtin_end = str_contains x builtin_end"
  unfolding build_coordination_block_def append_assoc plain_context_def
  by (simp add: newline_def str_contains_Cons has_prefix_def str_contains_skip builtin_end_def
      team_ctx_start_def team_ctx_end_def)

lemma body_no_stop: "plain_context ctx \<Longrightarrow> \<not> str_contains (team_ctx_start @ coordination_body ctx) team_ctx_end"
  unfolding plain_context_def
  using str_contains_skip [of team_ctx_end "coordination_body ctx" "[]"]
  by (simp add: str_contains_Cons has_prefix_def team_ctx_start_def team_ctx_end_def str_contains_Nil)

lemma managed_head_clean:
  assumes "plain_template source"
  shows "\<not> str_contains (managed_head source @ builtin_end @ newline @ newline) team_ctx_start"
    and "str_contains (managed_head source @ builtin_end @ newline @ newline @ x) team_ctx_start =
      str_contains x team_ctx_start"
proof -
  let ?b = "trim_right is_newline (snd (extract_frontmatter source))"
  have b: "\<not> str_contains ?b team_ctx_start"
    using assms trim_right_contains plain_template_def marker_nonempty(2) by blast
  have h: "\<not> str_contains builtin_header team_ctx_start" by code_simp
  have e: "\<not> str_contains builtin_end team_ctx_start" by code_simp
  have n: "\<not> str_contains [] team_ctx_start" by code_simp
  show "str_contains (managed_head source @ builtin_end @ newline @ newline @ x) team_ctx_start =
      str_contains x team_ctx_start" for x
    using b h e n by (simp add: managed_head_def newline_def str_contains_sep str_contains_sep0)
  from this [of "[]"] n
  show "\<not> str_contains (managed_head source @ builtin_end @ newline @ newline) team_ctx_start"
    by simp
qed

lemma clean_tail:
  assumes "user_text u"
  shows "\<not> str_contains (replicate j (CHR 0x0A) @ u @ newline) builtin_end"
    and "\<not> str_contains (replicate j (CHR 0x0A) @ u @ newline) team_ctx_start"
  using assms
  by (simp_all add: contains_newlines newline_def str_contains_sep str_contains_Nil user_text_def)

text \<open>The user content of a document is the block with everything behind it.\<close>

lemma extract_document:
  assumes u: "user_text u" and c: "plain_context c"
  shows "extract_user_content (agents_document s c j u) =
    team_ctx_start @ coordination_body c @ team_ctx_end @ newline @ replicate j (CHR 0x0A) @ u @ newline"
proof -
  let ?R = "replicate j (CHR 0x0A) @ u @ newline"
  let ?A = "team_ctx_start @ coordination_body c @ team_ctx_end @ newline @ ?R"
  have "\<not> str_contains (newline @ build_coordination_block c @ ?R) builtin_end"
    using clean_tail(1) [OF u] block_no_end [OF c, of ?R] by (simp add: newline_def str_contains_sep0)
  then have i: "str_last_index (agents_document s c j u) builtin_end = Some (length (managed_head s))"
    unfolding agents_document_def by (rule str_last_index_marker [OF markers(1)])
  obtain r where r: "?A = CHR ''<'' # r" by (simp add: team_ctx_start_def)
  have "trim_left is_newline (newline @ build_coordination_block c @ ?R) = trim_left is_newline ?A"
    by (simp add: build_coordination_block_def newline_def trim_left_def is_newline_def)
  also have "\<dots> = ?A" unfolding r by (simp add: trim_left_def is_newline_def)
  finally have t: "trim_left is_newline (newline @ build_coordination_block c @ ?R) = ?A" .
  have "trim_space ?A \<noteq> []"
    unfolding r by (simp add: trim_space_def trim_both_def trim_left_def trim_right_def is_space_def dropWhile_append)
  then show ?thesis
    unfolding extract_user_content_def i using t by (simp add: agents_document_def)
qed

lemma remove_first_block:
  assumes x: "\<not> str_contains x team_ctx_start" and m: "\<not> str_contains (team_ctx_start @ m) team_ctx_end"
  shows "remove_coordination_block (x @ team_ctx_start @ m @ team_ctx_end @ newline @ y) =
    remove_coordination_block (x @ y)"
proof -
  let ?c = "x @ team_ctx_start @ m @ team_ctx_end @ newline @ y"
  let ?n = "length x + length (team_ctx_start @ m) + length team_ctx_end"
  have i: "str_index ?c team_ctx_start = Some (length x)"
    by (rule str_index_marker [OF markers(2) x])
  have j: "str_index (drop (length x) ?c) team_ctx_end = Some (length (team_ctx_start @ m))"
    using str_index_marker [OF markers(3) m] by simp
  have "block_stop ?c ?n = Suc ?n"
    by (simp add: block_stop_def nth_append newline_def)
  moreover have "drop (Suc ?n) ?c = y" by (simp add: newline_def)
  moreover have "take (length x) ?c = x" by simp
  ultimately have "take (length x) ?c @ drop (block_stop ?c ?n) ?c = x @ y"
    by (simp only:)
  then show ?thesis
    by (subst remove_coordination_block.simps) (simp only: i j option.case)
qed

text \<open>Removing the block that a merge has moved into the user content.\<close>

lemma remove_merged:
  assumes u: "user_text u" and c: "plain_context c" and s: "plain_template s"
  shows "remove_coordination_block (managed_head s @ builtin_end @ newline @ newline @
      team_ctx_start @ coordination_body c @ team_ctx_end @ newline @ replicate j (CHR 0x0A) @ u @ newline) =
    managed_head s @ builtin_end @ newline @ newline @ replicate j (CHR 0x0A) @ u @ newline"
proof -
  let ?R = "replicate j (CHR 0x0A) @ u @ newline"
  let ?H = "managed_head s @ builtin_end @ newline @ newline"
  have none: "\<not> str_contains (managed_head s @ builtin_end @ newline @ newline @ ?R) team_ctx_start"
    unfolding managed_head_clean(2) [OF s] by (rule clean_tail(2) [OF u])
  have "remove_coordination_block (?H @ ?R) = ?H @ ?R"
    using none by (intro remove_no_block) (simp add: complete_block_def str_contains_def split: option.splits)
  then show ?thesis
    using remove_first_block [OF managed_head_clean(1) [OF s] body_no_stop [OF c], of ?R] by simp
qed

lemma pass_on_document:
  assumes u: "user_text u" and c: "plain_context c" and s': "plain_template s'"
  shows "agents_pass s' c' (agents_document s c j u) = agents_document s' c' (j + 2) u"
proof -
  let ?R = "replicate j (CHR 0x0A) @ u @ newline"
  let ?A = "team_ctx_start @ coordination_body c @ team_ctx_end @ newline @ replicate j (CHR 0x0A) @ u"
  let ?M = "managed_head s' @ builtin_end @ newline @ newline @ ?R"
  have st: "str_contains (agents_document s c j u) builtin_start"
    by (simp add: agents_document_def managed_head_def builtin_header_def builtin_start_def
        str_contains_Cons has_prefix_def)
  have "trim_right is_newline ?A = ?A"
    using u trim_right_append [of u is_newline "team_ctx_start @ coordination_body c @ team_ctx_end @ newline @ replicate j (CHR 0x0A)"]
    by (simp add: user_text_def is_newline_def)
  then have tr: "trim_right is_newline (?A @ newline) = ?A"
    by (simp add: trim_right_def newline_def is_newline_def)
  have m: "merge_builtin_section (agents_document s c j u) s' =
      managed_head s' @ builtin_end @ newline @ newline @ ?A @ newline"
    using st extract_document [OF u c, of s j] tr
    by (simp add: merge_builtin_section_def agents_document_def wrap_with_markers_def
        managed_head_def split_beta)
  have r: "remove_coordination_block (merge_builtin_section (agents_document s c j u) s') = ?M"
    unfolding m using remove_merged [OF u c s', of j] by simp
  have "\<not> str_contains (newline @ newline @ ?R) builtin_end"
    using clean_tail(1) [OF u] by (simp add: newline_def str_contains_sep0)
  then have "str_last_index ?M builtin_end = Some (length (managed_head s'))"
    by (rule str_last_index_marker [OF markers(1)])
  then show ?thesis
    unfolding agents_pass_def inject_coordination_context_def r Let_def
    by (simp add: agents_document_def newline_def)
qed

lemma first_pass:
  assumes u: "user_text u" and s: "plain_template s" and c: "plain_context c"
  shows "agents_pass s c u = agents_document s c 2 u"
proof -
  let ?W = "managed_head s @ builtin_end @ newline @ newline @ u @ newline"
  have tr: "trim_right is_newline u = u"
    using u trim_right_append [of u is_newline "[]"] by (simp add: user_text_def is_newline_def)
  have m: "merge_builtin_section u s = ?W"
    using u tr by (simp add: merge_builtin_section_def user_text_def wrap_with_markers_def
        managed_head_def split_beta)
  have "\<not> str_contains ?W team_ctx_start"
    unfolding managed_head_clean(2) [OF s]
    using u by (simp add: newline_def str_contains_sep str_contains_Nil user_text_def)
  then have r: "remove_coordination_block ?W = ?W"
    by (intro remove_no_block) (simp add: complete_block_def str_contains_def split: option.splits)
  have "\<not> str_contains (newline @ newline @ u @ newline) builtin_end"
    using u by (simp add: newline_def str_contains_sep str_contains_sep0 user_text_def str_contains_Nil)
  then have "str_last_index ?W builtin_end = Some (length (managed_head s))"
    by (rule str_last_index_marker [OF markers(1)])
  then show ?thesis
    unfolding agents_pass_def m inject_coordination_context_def r Let_def
    by (simp add: agents_document_def newline_def numeral_2_eq_2)
qed

lemma passes_on_document:
  assumes "user_text u" "plain_template s" "plain_context c"
    "list_all (\<lambda>(t, d). plain_template t \<and> plain_context d) ps"
  shows "foldl (\<lambda>d (t, k). agents_pass t k d) (agents_document s c j u) ps =
    agents_document (fst (last ((s, c) # ps))) (snd (last ((s, c) # ps))) (j + 2 * length ps) u"
  using assms(2-)
proof (induction ps arbitrary: s c j)
  case Nil
  then show ?case by simp
next
  case (Cons p ps)
  obtain t k where p: "p = (t, k)" by (cases p)
  with Cons.prems have "plain_template t" "plain_context k" by simp_all
  then show ?case
    using Cons p assms(1) by (simp add: pass_on_document)
qed


definition sample_context :: coordination_context where
  "sample_context =
     \<lparr>cc_worker_name = ''dev'', cc_role = ''worker'', cc_matrix_domain = ''hs'', cc_team_name = ''alpha'',
      cc_team_leader_name = ''lead'', cc_team_admin_id = ''@boss:hs'',
      cc_team_coordinator_ids = [''@ann:hs'', ''@boss:hs'', ''@ann:hs''], cc_team_room_id = [],
      cc_leader_dm_room_id = [], cc_heartbeat_every = [], cc_worker_idle_timeout = [],
      cc_team_workers = []\<rparr>"

lemma sample_plain: "user_text ''notes''" "plain_template ''body''" "plain_context sample_context"
  by code_simp+


end
