(* ===== verification/Go_Json.thy ===== *)
theory Go_Json
  imports Go_Strings Api_Types
begin

text \<open>
  \<open>json.Unmarshal\<close> into a struct with string fields and string slices: field names match without
  regard to case, null leaves a string alone and empties a slice, a later duplicate of a key
  wins. The message of the decoder is not modelled.
\<close>

definition json_mismatch :: go_error where
  "json_mismatch = Err ''json: cannot unmarshal''"

fun decode_string :: "string \<Rightarrow> string \<Rightarrow> (string \<times> json) list \<Rightarrow> string result" where
  "decode_string field acc [] = Inr acc"
| "decode_string field acc ((k, v) # kvs) =
     (if \<not> equal_fold k field then decode_string field acc kvs
      else (case v of
              JStr s \<Rightarrow> decode_string field s kvs
            | JNull \<Rightarrow> decode_string field acc kvs
            | _ \<Rightarrow> Inl json_mismatch))"

fun decode_elements :: "json list \<Rightarrow> string list result" where
  "decode_elements [] = Inr []"
| "decode_elements (v # vs) =
     (case (case v of JStr s \<Rightarrow> Some s | JNull \<Rightarrow> Some [] | _ \<Rightarrow> None) of
        None \<Rightarrow> Inl json_mismatch
      | Some s \<Rightarrow> (case decode_elements vs of Inl e \<Rightarrow> Inl e | Inr r \<Rightarrow> Inr (s # r)))"

fun decode_strings :: "string \<Rightarrow> string list \<Rightarrow> (string \<times> json) list \<Rightarrow> string list result" where
  "decode_strings field acc [] = Inr acc"
| "decode_strings field acc ((k, v) # kvs) =
     (if \<not> equal_fold k field then decode_strings field acc kvs
      else (case v of
              JArr vs \<Rightarrow> (case decode_elements vs of Inl e \<Rightarrow> Inl e | Inr r \<Rightarrow> decode_strings field r kvs)
            | JNull \<Rightarrow> decode_strings field [] kvs
            | _ \<Rightarrow> Inl json_mismatch))"

text \<open>The value of a field that is decoded further: the last entry with its name, null if there is none.\<close>

fun decode_member :: "string \<Rightarrow> json \<Rightarrow> (string \<times> json) list \<Rightarrow> json" where
  "decode_member field acc [] = acc"
| "decode_member field acc ((k, v) # kvs) =
     decode_member field (if equal_fold k field then v else acc) kvs"

text \<open>The members of the document a struct is decoded from; null decodes to the zero struct.\<close>

definition decode_object :: "json \<Rightarrow> (string \<times> json) list result" where
  "decode_object v =
     (case v of JObj kvs \<Rightarrow> Inr kvs | JNull \<Rightarrow> Inr [] | _ \<Rightarrow> Inl json_mismatch)"

definition decode_raw :: "raw_json \<Rightarrow> (string \<times> json) list result" where
  "decode_raw raw =
     (case raw of
        RawEmpty \<Rightarrow> Inr []
      | RawMalformed \<Rightarrow> Inl (Err ''invalid JSON'')
      | RawJson v \<Rightarrow> decode_object v)"

end
