(* ===== verification/Access_Resolver.thy ===== *)
theory Access_Resolver
  imports Go_Json Auth_Prefix
begin

text \<open>
  \<open>internal/accessresolver\<close> and the embedded object-store administration of
  \<open>internal/oss/minio_admin.go\<close>: two ways to give an agent access to its part of the object
  store. The resolver turns the declarations of a custom resource, or the defaults, into the
  resolved entries of \<open>internal/credprovider/types.go\<close>; the administration client writes a
  MinIO policy. Kubernetes reads are arguments, the \<open>mc\<close> command line tool is a record of
  operations.
\<close>

section \<open>Resolved entries\<close>

definition service_object_storage :: string where "service_object_storage = ''object-storage''"
definition service_ai_gateway :: string where "service_ai_gateway = ''ai-gateway''"
definition service_ai_registry :: string where "service_ai_registry = ''ai-registry''"

lemmas service_defs = service_object_storage_def service_ai_gateway_def service_ai_registry_def

record access_scope =
  as_bucket :: string
  as_prefixes :: "string list"
  as_gateway_id :: string
  as_resources :: "string list"
  as_namespace_id :: string

record resolved_entry =
  re_service :: string
  re_permissions :: "string list"
  re_scope :: access_scope

definition zero_scope :: access_scope where
  "zero_scope = \<lparr>as_bucket = [], as_prefixes = [], as_gateway_id = [], as_resources = [],
     as_namespace_id = []\<rparr>"

section \<open>Decoding a scope\<close>

definition unmarshal_scope :: "raw_json option \<Rightarrow> (string \<times> json) list result" where
  "unmarshal_scope raw =
     (case raw of
        None \<Rightarrow> Inl (Err ''scope is empty'')
      | Some RawEmpty \<Rightarrow> Inl (Err ''scope is empty'')
      | Some RawMalformed \<Rightarrow> Inl (Wrap ''decode scope'' (Err ''invalid JSON''))
      | Some (RawJson JNull) \<Rightarrow> Inr []
      | Some (RawJson (JObj kvs)) \<Rightarrow> Inr kvs
      | Some (RawJson _) \<Rightarrow> Inl (Wrap ''decode scope'' json_mismatch))"

record object_storage_scope =
  oss_bucket_ref :: string
  oss_bucket :: string
  oss_prefixes :: "string list"

record ai_gateway_scope =
  ags_gateway_ref :: string
  ags_gateway_id :: string
  ags_resources :: "string list"

record ai_registry_scope =
  ars_namespace_id :: string
  ars_resources :: "string list"

definition decode_two ::
  "string \<Rightarrow> string \<Rightarrow> string \<Rightarrow> (string \<times> json) list \<Rightarrow> (string \<times> string \<times> string list) result" where
  "decode_two f1 f2 f3 kvs =
     (case (decode_string f1 [] kvs, decode_string f2 [] kvs, decode_strings f3 [] kvs) of
        (Inr a, Inr b, Inr c) \<Rightarrow> Inr (a, b, c)
      | _ \<Rightarrow> Inl (Wrap ''decode scope'' json_mismatch))"

definition object_storage_scope_of :: "raw_json option \<Rightarrow> object_storage_scope result" where
  "object_storage_scope_of raw =
     (case unmarshal_scope raw of
        Inl e \<Rightarrow> Inl e
      | Inr kvs \<Rightarrow>
          (case decode_two ''bucketRef'' ''bucket'' ''prefixes'' kvs of
             Inl e \<Rightarrow> Inl e
           | Inr (a, b, c) \<Rightarrow> Inr \<lparr>oss_bucket_ref = a, oss_bucket = b, oss_prefixes = c\<rparr>))"

definition ai_gateway_scope_of :: "raw_json option \<Rightarrow> ai_gateway_scope result" where
  "ai_gateway_scope_of raw =
     (case unmarshal_scope raw of
        Inl e \<Rightarrow> Inl e
      | Inr kvs \<Rightarrow>
          (case decode_two ''gatewayRef'' ''gatewayId'' ''resources'' kvs of
             Inl e \<Rightarrow> Inl e
           | Inr (a, b, c) \<Rightarrow> Inr \<lparr>ags_gateway_ref = a, ags_gateway_id = b, ags_resources = c\<rparr>))"

definition ai_registry_scope_of :: "raw_json option \<Rightarrow> ai_registry_scope result" where
  "ai_registry_scope_of raw =
     (case unmarshal_scope raw of
        Inl e \<Rightarrow> Inl e
      | Inr kvs \<Rightarrow>
          (case decode_two ''namespaceId'' ''namespaceId'' ''resources'' kvs of
             Inl e \<Rightarrow> Inl e
           | Inr (a, _, c) \<Rightarrow> Inr \<lparr>ars_namespace_id = a, ars_resources = c\<rparr>))"

section \<open>Templates\<close>

record template_ctx =
  tc_kind :: string
  tc_name :: string
  tc_namespace :: string
  tc_team :: string

definition expand :: "template_ctx \<Rightarrow> string \<Rightarrow> string" where
  "expand t s =
     replace_all (replace_all (replace_all (replace_all s
       ''${self.name}'' (tc_name t))
       ''${self.kind}'' (tc_kind t))
       ''${self.namespace}'' (tc_namespace t))
       ''${self.team}'' (tc_team t)"

section \<open>Entries\<close>

record resolver =
  rv_namespace :: string
  rv_default_bucket :: string
  rv_default_gateway_id :: string
  rv_prefix :: resource_prefix

definition new_resolver :: "string \<Rightarrow> string \<Rightarrow> string \<Rightarrow> resource_prefix \<Rightarrow> resolver" where
  "new_resolver namespace default_bucket default_gateway pfx =
     \<lparr>rv_namespace = namespace, rv_default_bucket = default_bucket,
      rv_default_gateway_id = default_gateway, rv_prefix = prefix_or pfx default_resource_prefix\<rparr>"

definition copy_permissions :: "string list \<Rightarrow> string list" where
  "copy_permissions perms = perms"

definition resolve_object_storage ::
  "resolver \<Rightarrow> access_entry \<Rightarrow> template_ctx \<Rightarrow> resolved_entry result" where
  "resolve_object_storage r e tmpl =
     (case object_storage_scope_of (ae_scope e) of
        Inl err \<Rightarrow> Inl (Wrap ''object-storage'' err)
      | Inr s \<Rightarrow>
          let given = trim_space (oss_bucket s);
              pfxs = map (expand tmpl) (oss_prefixes s)
          in if given = [] \<and> oss_bucket_ref s \<notin> {[], ''workspace''}
             then Inl (Err (''object-storage: unknown bucketRef '' @ go_quote (oss_bucket_ref s)))
             else if given = [] \<and> rv_default_bucket r = []
             then Inl (Err ''object-storage: bucketRef=workspace but controller has no OSS bucket configured'')
             else if pfxs = [] then Inl (Err ''object-storage: prefixes is empty'')
             else Inr \<lparr>re_service = service_object_storage,
                re_permissions = copy_permissions (ae_permissions e),
                re_scope = zero_scope\<lparr>as_bucket := (if given = [] then rv_default_bucket r else given),
                  as_prefixes := pfxs\<rparr>\<rparr>)"

definition resolve_ai_gateway ::
  "resolver \<Rightarrow> access_entry \<Rightarrow> template_ctx \<Rightarrow> resolved_entry result" where
  "resolve_ai_gateway r e tmpl =
     (case ai_gateway_scope_of (ae_scope e) of
        Inl err \<Rightarrow> Inl (Wrap ''ai-gateway'' err)
      | Inr s \<Rightarrow>
          let given = trim_space (ags_gateway_id s);
              resources = map (expand tmpl) (ags_resources s)
          in if given = [] \<and> ags_gateway_ref s \<notin> {[], ''default''}
             then Inl (Err (''ai-gateway: unknown gatewayRef '' @ go_quote (ags_gateway_ref s)))
             else if given = [] \<and> rv_default_gateway_id r = []
             then Inl (Err ''ai-gateway: gatewayRef=default but controller has no AI Gateway configured'')
             else Inr \<lparr>re_service = service_ai_gateway,
                re_permissions = copy_permissions (ae_permissions e),
                re_scope = zero_scope\<lparr>as_gateway_id := (if given = [] then rv_default_gateway_id r else given),
                  as_resources := (if resources = [] then [''*''] else resources)\<rparr>\<rparr>)"

definition resolve_ai_registry ::
  "resolver \<Rightarrow> access_entry \<Rightarrow> template_ctx \<Rightarrow> resolved_entry result" where
  "resolve_ai_registry r e tmpl =
     (case ai_registry_scope_of (ae_scope e) of
        Inl err \<Rightarrow> Inl (Wrap ''ai-registry'' err)
      | Inr s \<Rightarrow>
          let namespace_id = trim_space (expand tmpl (ars_namespace_id s));
              resources = map (expand tmpl) (ars_resources s)
          in if namespace_id = [] then Inl (Err ''ai-registry: namespaceId is required'')
             else Inr \<lparr>re_service = service_ai_registry,
                re_permissions = copy_permissions (ae_permissions e),
                re_scope = zero_scope\<lparr>as_namespace_id := namespace_id,
                  as_resources := (if resources = [] then [''agentSpec/*'', ''skill/*''] else resources)\<rparr>\<rparr>)"

definition resolve_entry ::
  "resolver \<Rightarrow> template_ctx \<Rightarrow> nat \<Rightarrow> access_entry \<Rightarrow> resolved_entry result" where
  "resolve_entry r tmpl i e =
     (let at = ''entry['' @ show_nat i @ '']'';
          wrapped = (\<lambda>x. case x of Inl err \<Rightarrow> Inl (Wrap at err) | Inr v \<Rightarrow> Inr v)
      in if ae_service e = service_object_storage then wrapped (resolve_object_storage r e tmpl)
         else if ae_service e = service_ai_gateway then wrapped (resolve_ai_gateway r e tmpl)
         else if ae_service e = service_ai_registry then wrapped (resolve_ai_registry r e tmpl)
         else if ae_service e = [] then Inl (Err (at @ '': missing service''))
         else Inl (Err (at @ '': unsupported service '' @ go_quote (ae_service e))))"

fun resolve_entries_loop ::
  "resolver \<Rightarrow> template_ctx \<Rightarrow> nat \<Rightarrow> access_entry list \<Rightarrow> resolved_entry list result" where
  "resolve_entries_loop r tmpl i [] = Inr []"
| "resolve_entries_loop r tmpl i (e # es) =
     (case resolve_entry r tmpl i e of
        Inl err \<Rightarrow> Inl err
      | Inr v \<Rightarrow>
          (case resolve_entries_loop r tmpl (Suc i) es of
             Inl err \<Rightarrow> Inl err
           | Inr vs \<Rightarrow> Inr (v # vs)))"

definition resolve_entries ::
  "resolver \<Rightarrow> access_entry list \<Rightarrow> template_ctx \<Rightarrow> resolved_entry list result" where
  "resolve_entries r es tmpl = resolve_entries_loop r tmpl 0 es"

definition has_service_entry :: "access_entry list \<Rightarrow> string \<Rightarrow> bool" where
  "has_service_entry entries service \<longleftrightarrow> list_ex (\<lambda>e. ae_service e = service) entries"

section \<open>Defaults\<close>

definition workspace_entry :: "string list \<Rightarrow> access_entry" where
  "workspace_entry pfxs =
     \<lparr>ae_service = service_object_storage,
      ae_permissions = [''read'', ''write'', ''list'', ''delete''],
      ae_scope = Some (RawJson (JObj [(''bucketRef'', JStr ''workspace''),
        (''prefixes'', JArr (map JStr pfxs))]))\<rparr>"

definition default_entries_for_worker :: "access_entry list" where
  "default_entries_for_worker = [workspace_entry [''agents/${self.name}/*'', ''shared/*'']]"

definition default_entries_for_team_member :: "access_entry list" where
  "default_entries_for_team_member =
     [workspace_entry [''agents/${self.name}/*'', ''shared/*'', ''teams/${self.team}/*'']]"

definition default_entries_for_manager :: "access_entry list" where
  "default_entries_for_manager =
     [workspace_entry [''agents/${self.name}/*'', ''shared/*'', ''manager/*'']]"

definition controller_defaults :: "string \<Rightarrow> string \<Rightarrow> resolved_entry list" where
  "controller_defaults bucket gateway_id =
     \<lparr>re_service = service_object_storage,
      re_permissions = [''read'', ''write'', ''list'', ''delete''],
      re_scope = zero_scope\<lparr>as_bucket := bucket, as_prefixes := [''*'']\<rparr>\<rparr> #
     (if gateway_id \<noteq> [] then
        [\<lparr>re_service = service_ai_gateway, re_permissions = [''read'', ''write''],
          re_scope = zero_scope\<lparr>as_gateway_id := gateway_id, as_resources := [''*'']\<rparr>\<rparr>]
      else [])"

text \<open>The three branches that put the defaults in front of the declared entries.\<close>

definition with_defaults :: "access_entry list \<Rightarrow> access_entry list \<Rightarrow> access_entry list" where
  "with_defaults defaults declared =
     (if declared = [] then defaults
      else if \<not> has_service_entry declared service_object_storage then defaults @ declared
      else declared)"

section \<open>Callers\<close>

text \<open>A read that is not found, or whose kind is not installed, leaves the zero resource.\<close>

definition got_or_zero :: "'a \<Rightarrow> string \<Rightarrow> string \<Rightarrow> 'a result \<Rightarrow> 'a result" where
  "got_or_zero zero kind name res =
     (case res of
        Inr x \<Rightarrow> Inr x
      | Inl e \<Rightarrow>
          if is_api_not_found e \<or> is_api_no_match e then Inr zero
          else Inl (Wrap (''get '' @ kind @ '' '' @ go_quote name) e))"

definition resolve_worker ::
  "resolver \<Rightarrow> (string \<Rightarrow> worker result) \<Rightarrow> string \<Rightarrow> (string \<times> resolved_entry list) result" where
  "resolve_worker r get_worker name =
     (if name = [] then Inl (Err ''accessresolver: empty worker name'')
      else
        (case got_or_zero zero_worker ''worker'' name (get_worker name) of
           Inl e \<Rightarrow> Inl e
         | Inr w \<Rightarrow>
             let entries = with_defaults default_entries_for_worker (ws_access_entries (w_spec w));
                 runtime_name = (if om_name (w_meta w) \<noteq> []
                   then worker_effective_name (w_spec w) (om_name (w_meta w)) else name);
                 tmpl = \<lparr>tc_kind = ''Worker'', tc_name = runtime_name,
                         tc_namespace = rv_namespace r, tc_team = []\<rparr>
             in (case resolve_entries r entries tmpl of
                   Inl e \<Rightarrow> Inl (Wrap (''worker '' @ go_quote name) e)
                 | Inr resolved \<Rightarrow> Inr (worker_session_name (rv_prefix r) name, resolved))))"

definition leader_matches :: "leader_spec \<Rightarrow> string \<Rightarrow> bool" where
  "leader_matches leader name \<longleftrightarrow>
     ls_name leader = name \<or> (ls_worker_name leader \<noteq> [] \<and> ls_worker_name leader = name)"

definition team_worker_matches :: "team_worker_spec \<Rightarrow> string \<Rightarrow> bool" where
  "team_worker_matches w name \<longleftrightarrow>
     tw_name w = name \<or> (tw_worker_name w \<noteq> [] \<and> tw_worker_name w = name)"

text \<open>The declared entries, the kind and the runtime name of a member.\<close>

definition member_declaration :: "team \<Rightarrow> string \<Rightarrow> access_entry list \<times> string \<times> string" where
  "member_declaration t name =
     (let leader = ts_leader (t_spec t) in
      if leader_matches leader name
      then (ls_access_entries leader, ''TeamLeader'', leader_effective_name leader)
      else (case List.find (\<lambda>w. team_worker_matches w name) (ts_workers (t_spec t)) of
              Some w \<Rightarrow> (tw_access_entries w, ''TeamWorker'', team_worker_effective_name w)
            | None \<Rightarrow> ([], ''TeamWorker'', name)))"

definition runtime_team_name :: "team \<Rightarrow> string \<Rightarrow> string" where
  "runtime_team_name t team_name =
     (if om_name (t_meta t) \<noteq> [] then effective_team_name (t_spec t) (om_name (t_meta t)) else team_name)"

definition resolve_team_member ::
  "resolver \<Rightarrow> (string \<Rightarrow> team result) \<Rightarrow> string \<Rightarrow> string \<Rightarrow> (string \<times> resolved_entry list) result" where
  "resolve_team_member r get_team name team_name =
     (if name = [] then Inl (Err ''accessresolver: empty team member name'')
      else if team_name = [] then Inl (Err ''accessresolver: empty team name'')
      else
        (case got_or_zero zero_team ''team'' team_name (get_team team_name) of
           Inl e \<Rightarrow> Inl e
         | Inr t \<Rightarrow>
             let (declared, kind, runtime_name) = member_declaration t name;
                 entries = with_defaults default_entries_for_team_member declared;
                 tmpl = \<lparr>tc_kind = kind, tc_name = runtime_name, tc_namespace = rv_namespace r,
                         tc_team = runtime_team_name t team_name\<rparr>
             in (case resolve_entries r entries tmpl of
                   Inl e \<Rightarrow> Inl (Wrap (''team member '' @ go_quote name @ '' (team '' @
                     go_quote team_name @ '')'') e)
                 | Inr resolved \<Rightarrow> Inr (worker_session_name (rv_prefix r) name, resolved))))"

definition resolve_manager ::
  "resolver \<Rightarrow> (string \<Rightarrow> manager result) \<Rightarrow> string \<Rightarrow> (string \<times> resolved_entry list) result" where
  "resolve_manager r get_manager given =
     (let name = (if given = [] then ''manager'' else given) in
      case got_or_zero zero_manager ''manager'' name (get_manager name) of
        Inl e \<Rightarrow> Inl e
      | Inr m \<Rightarrow>
          let entries = with_defaults default_entries_for_manager (mgs_access_entries (m_spec m));
              tmpl = \<lparr>tc_kind = ''Manager'', tc_name = name, tc_namespace = rv_namespace r,
                      tc_team = []\<rparr>
          in (case resolve_entries r entries tmpl of
                Inl e \<Rightarrow> Inl (Wrap (''manager '' @ go_quote name) e)
              | Inr resolved \<Rightarrow> Inr (manager_session_name (rv_prefix r) name, resolved)))"

definition resolve_for_caller ::
  "resolver \<Rightarrow> (string \<Rightarrow> worker result) \<Rightarrow> (string \<Rightarrow> team result) \<Rightarrow> (string \<Rightarrow> manager result) \<Rightarrow>
   caller_identity option \<Rightarrow> (string \<times> resolved_entry list) result" where
  "resolve_for_caller r get_worker get_team get_manager caller =
     (case caller of
        None \<Rightarrow> Inl (Err ''accessresolver: caller is nil'')
      | Some c \<Rightarrow>
          if ci_role c = role_worker \<or> ci_role c = role_team_leader then
            (if ci_team c \<noteq> [] then resolve_team_member r get_team (ci_username c) (ci_team c)
             else resolve_worker r get_worker (ci_username c))
          else if ci_role c = role_manager then resolve_manager r get_manager (ci_username c)
          else Inl (Err (''accessresolver: role '' @ go_quote (ci_role c) @
                 '' is not eligible for STS issuance'')))"

end
