(* ===== verification/Minio_Policy.thy ===== *)
theory Minio_Policy
  imports Access_Resolver Member_Reconcile
begin

text \<open>
  \<open>internal/oss/minio_admin.go\<close>: the users and policies of the embedded object store, managed
  with the \<open>mc admin\<close> command line, and how the policy of an agent compares with the entries
  the access resolver issues for it.
\<close>

section \<open>Policies\<close>

record s3_statement =
  s3_effect :: string
  s3_action :: "string list"
  s3_resource :: "string list"
  s3_prefix_like :: "string list option"

text \<open>\<open>s3_prefix_like\<close> is the value of the condition \<open>StringLike / s3:prefix\<close>.\<close>

record s3_policy =
  s3_version :: string
  s3_statements :: "s3_statement list"

definition s3_arn :: "string \<Rightarrow> string" where
  "s3_arn bucket = ''arn:aws:s3:::'' @ bucket"

definition build_worker_policy :: "string \<Rightarrow> string \<Rightarrow> string \<Rightarrow> bool \<Rightarrow> s3_policy" where
  "build_worker_policy worker_name bucket team_name is_manager =
     (let list_prefixes =
            [''agents/'' @ worker_name, ''agents/'' @ worker_name @ ''/*'', ''shared'', ''shared/*''] @
            (if is_manager then [''manager'', ''manager/*''] else []) @
            (if team_name \<noteq> [] then [''teams/'' @ team_name, ''teams/'' @ team_name @ ''/*''] else []);
          rw_resources =
            [s3_arn bucket @ ''/agents/'' @ worker_name @ ''/*'', s3_arn bucket @ ''/shared/*''] @
            (if is_manager then [s3_arn bucket @ ''/manager/*''] else []) @
            (if team_name \<noteq> [] then [s3_arn bucket @ ''/teams/'' @ team_name @ ''/*''] else [])
      in \<lparr>s3_version = ''2012-10-17'',
          s3_statements =
            [\<lparr>s3_effect = ''Allow'', s3_action = [''s3:ListBucket''], s3_resource = [s3_arn bucket],
              s3_prefix_like = Some list_prefixes\<rparr>,
             \<lparr>s3_effect = ''Allow'', s3_action = [''s3:GetObject'', ''s3:PutObject'', ''s3:DeleteObject''],
              s3_resource = rw_resources, s3_prefix_like = None\<rparr>]\<rparr>)"

section \<open>The administration client\<close>

record policy_request =
  por_worker_name :: string
  por_bucket :: string
  por_team_name :: string
  por_is_manager :: bool

record oss_config =
  oc_alias :: string
  oc_endpoint :: string
  oc_access_key :: string
  oc_secret_key :: string
  oc_bucket :: string

text \<open>
  The state is the flag \<open>aliasReady\<close> beside the world of the tool. \<open>mr_run\<close> runs \<open>mc\<close> with its
  arguments; the file operations write the temporary policy file.
\<close>

record 'w mc_runner =
  mr_run :: "string list \<Rightarrow> ('w, go_error option) state"
  mr_create_temp :: "('w, string result) state"
  mr_write :: "string \<Rightarrow> s3_policy \<Rightarrow> ('w, go_error option) state"
  mr_remove :: "string \<Rightarrow> ('w, unit) state"

definition new_minio_admin :: "oss_config \<Rightarrow> oss_config" where
  "new_minio_admin cfg = (if oc_alias cfg = [] then cfg\<lparr>oc_alias := ''hiclaw''\<rparr> else cfg)"

definition on_world :: "('w, 'a) state \<Rightarrow> (bool \<times> 'w, 'a) state" where
  "on_world m = State (\<lambda>(ready, w). case run_state m w of (a, w') \<Rightarrow> (a, (ready, w')))"

definition ensure_alias :: "'w mc_runner \<Rightarrow> oss_config \<Rightarrow> (bool \<times> 'w, go_error option) state" where
  "ensure_alias mc cfg = do {
     s \<leftarrow> State_Monad.get;
     (if fst s \<or> oc_endpoint cfg = [] then State_Monad.return None
      else do {
        err \<leftarrow> on_world (mr_run mc [''alias'', ''set'', oc_alias cfg, oc_endpoint cfg,
                 oc_access_key cfg, oc_secret_key cfg]);
        (case err of
           Some e \<Rightarrow> State_Monad.return (Some (Wrap ''mc alias set'' e))
         | None \<Rightarrow> do {
             s' \<leftarrow> State_Monad.get;
             _ \<leftarrow> State_Monad.set (True, snd s');
             State_Monad.return None })
      }) }"

definition run_mc_admin ::
  "'w mc_runner \<Rightarrow> string list \<Rightarrow> (bool \<times> 'w, go_error option) state" where
  "run_mc_admin mc args = do {
     err \<leftarrow> on_world (mr_run mc (''admin'' # args));
     State_Monad.return (map_option (Wrap (''mc admin '' @ join_with '' '' args)) err)
   }"

definition ensure_user ::
  "'w mc_runner \<Rightarrow> oss_config \<Rightarrow> string \<Rightarrow> string \<Rightarrow> (bool \<times> 'w, go_error option) state" where
  "ensure_user mc cfg username password = do {
     a \<leftarrow> ensure_alias mc cfg;
     (case a of
        Some e \<Rightarrow> State_Monad.return (Some e)
      | None \<Rightarrow> do {
          err \<leftarrow> run_mc_admin mc [''user'', ''add'', oc_alias cfg, username, password];
          State_Monad.return
            (case err of
               None \<Rightarrow> None
             | Some e \<Rightarrow> if str_contains (err_text e) ''already'' then None
                         else Some (Wrap (''ensure minio user '' @ username) e)) }) }"

definition delete_user ::
  "'w mc_runner \<Rightarrow> oss_config \<Rightarrow> string \<Rightarrow> (bool \<times> 'w, go_error option) state" where
  "delete_user mc cfg username = do {
     a \<leftarrow> ensure_alias mc cfg;
     (case a of
        Some e \<Rightarrow> State_Monad.return (Some e)
      | None \<Rightarrow> do {
          _ \<leftarrow> run_mc_admin mc [''policy'', ''detach'', oc_alias cfg, ''worker-'' @ username, ''--user'', username];
          _ \<leftarrow> run_mc_admin mc [''policy'', ''remove'', oc_alias cfg, ''worker-'' @ username];
          err \<leftarrow> run_mc_admin mc [''user'', ''remove'', oc_alias cfg, username];
          State_Monad.return
            (case err of
               None \<Rightarrow> None
             | Some e \<Rightarrow> if str_contains (err_text e) ''does not exist'' then None
                         else Some (Wrap (''delete minio user '' @ username) e)) }) }"

definition write_policy_file ::
  "'w mc_runner \<Rightarrow> s3_policy \<Rightarrow> (string \<Rightarrow> (bool \<times> 'w, go_error option) state) \<Rightarrow>
   (bool \<times> 'w, go_error option) state" where
  "write_policy_file mc policy k = do {
     f \<leftarrow> on_world (mr_create_temp mc);
     (case f of
        Inl e \<Rightarrow> State_Monad.return (Some (Wrap ''create policy temp file'' e))
      | Inr name \<Rightarrow> do {
          w \<leftarrow> on_world (mr_write mc name policy);
          res \<leftarrow> (case w of
                    Some e \<Rightarrow> State_Monad.return (Some (Wrap ''write policy file'' e))
                  | None \<Rightarrow> k name);
          _ \<leftarrow> on_world (mr_remove mc name);
          State_Monad.return res }) }"

definition ensure_policy ::
  "'w mc_runner \<Rightarrow> oss_config \<Rightarrow> policy_request \<Rightarrow> (bool \<times> 'w, go_error option) state" where
  "ensure_policy mc cfg req = do {
     a \<leftarrow> ensure_alias mc cfg;
     (case a of
        Some e \<Rightarrow> State_Monad.return (Some e)
      | None \<Rightarrow>
          let policy_name = ''worker-'' @ por_worker_name req;
              bucket = (if por_bucket req = [] then oc_bucket cfg else por_bucket req);
              policy = build_worker_policy (por_worker_name req) bucket (por_team_name req) (por_is_manager req)
          in write_policy_file mc policy (\<lambda>name. do {
               _ \<leftarrow> run_mc_admin mc [''policy'', ''remove'', oc_alias cfg, policy_name];
               c \<leftarrow> run_mc_admin mc [''policy'', ''create'', oc_alias cfg, policy_name, name];
               (case c of
                  Some e \<Rightarrow> State_Monad.return (Some (Wrap (''create policy '' @ policy_name) e))
                | None \<Rightarrow> do {
                    t \<leftarrow> run_mc_admin mc [''policy'', ''attach'', oc_alias cfg, policy_name, ''--user'', por_worker_name req];
                    State_Monad.return (map_option
                      (Wrap (''attach policy '' @ policy_name @ '' to user '' @ por_worker_name req)) t) }) })) }"

section \<open>Templates in the defaults\<close>

lemma expand_plain: "CHR ''$'' \<notin> set s \<Longrightarrow> expand t s = s"
  by (simp add: expand_def replace_all_absent)

definition plain_names :: "template_ctx \<Rightarrow> bool" where
  "plain_names t \<longleftrightarrow> CHR ''$'' \<notin> set (tc_name t) \<and> CHR ''$'' \<notin> set (tc_team t)"

lemma expand_agents:
  assumes "plain_names t"
  shows "expand t ''agents/${self.name}/*'' = ''agents/'' @ tc_name t @ ''/*''"
proof -
  have "replace_all ''agents/${self.name}/*'' ''${self.name}'' n = ''agents/'' @ n @ ''/*''" for n
    using replace_all_skip [of "''${self.name}''" "''agents/''" "''${self.name}/*''" n]
      replace_all_hit [of "''${self.name}''" "''/*''" n]
    by (simp add: replace_all_absent)
  then show ?thesis
    using assms by (simp add: expand_def plain_names_def replace_all_absent)
qed

lemma expand_teams:
  assumes "plain_names t"
  shows "expand t ''teams/${self.team}/*'' = ''teams/'' @ tc_team t @ ''/*''"
proof -
  have keep: "replace_all (''teams/'' @ CHR ''$'' # x) old n = ''teams/'' @ CHR ''$'' # x"
    if "hd old = CHR ''$''" "old \<noteq> []" "\<not> has_prefix (CHR ''$'' # x) old" "CHR ''$'' \<notin> set x" for old n x
    using that by (subst replace_all_skip) (simp_all add: replace_all_miss)
  have "replace_all ''teams/${self.team}/*'' ''${self.team}'' n = ''teams/'' @ n @ ''/*''" for n
    using replace_all_skip [of "''${self.team}''" "''teams/''" "''${self.team}/*''" n]
      replace_all_hit [of "''${self.team}''" "''/*''" n]
    by (simp add: replace_all_absent)
  then show ?thesis
    using keep [of "''${self.name}''" "''{self.team}/*''"] keep [of "''${self.kind}''" "''{self.team}/*''"]
      keep [of "''${self.namespace}''" "''{self.team}/*''"]
    by (simp add: expand_def has_prefix_def)
qed

section \<open>What a caller is granted\<close>

text \<open>The contract of the credential provider: a service it knows and a scope of that service that is resolved.\<close>

definition entry_resolved :: "resolved_entry \<Rightarrow> bool" where
  "entry_resolved e \<longleftrightarrow>
     (re_service e = service_object_storage \<and> as_bucket (re_scope e) \<noteq> [] \<and> as_prefixes (re_scope e) \<noteq> []) \<or>
     (re_service e = service_ai_gateway \<and> as_gateway_id (re_scope e) \<noteq> [] \<and> as_resources (re_scope e) \<noteq> []) \<or>
     (re_service e = service_ai_registry \<and> as_namespace_id (re_scope e) \<noteq> [] \<and> as_resources (re_scope e) \<noteq> [])"

lemma resolve_entry_ok:
  assumes "resolve_entry r t i e = Inr v"
  shows "entry_resolved v \<and> re_service v = ae_service e \<and> re_permissions v = ae_permissions e"
  using assms
  unfolding resolve_entry_def
  by (auto simp: resolve_object_storage_def resolve_ai_gateway_def resolve_ai_registry_def
      Let_def entry_resolved_def service_defs copy_permissions_def split: if_splits sum.splits)

lemma resolve_loop_ok:
  "resolve_entries_loop r t i es = Inr vs \<Longrightarrow>
   list_all entry_resolved vs \<and> map re_service vs = map ae_service es \<and>
   map re_permissions vs = map ae_permissions es"
proof (induction es arbitrary: i vs)
  case (Cons e es)
  then obtain v vs' where "resolve_entry r t i e = Inr v" "resolve_entries_loop r t (Suc i) es = Inr vs'"
      "vs = v # vs'"
    by (auto split: sum.splits)
  then show ?case using Cons.IH resolve_entry_ok by simp
qed simp

lemma with_defaults_storage:
  assumes "has_service_entry d service_object_storage"
  shows "has_service_entry (with_defaults d es) service_object_storage"
  using assms by (simp add: with_defaults_def has_service_entry_def)

lemma defaults_storage:
  "has_service_entry default_entries_for_worker service_object_storage"
  "has_service_entry default_entries_for_team_member service_object_storage"
  "has_service_entry default_entries_for_manager service_object_storage"
  by (simp_all add: has_service_entry_def default_entries_for_worker_def workspace_entry_def
      default_entries_for_team_member_def default_entries_for_manager_def)

lemma resolve_entries_storage:
  assumes "resolve_entries r es t = Inr vs" "has_service_entry es service_object_storage"
  shows "list_all entry_resolved vs \<and> service_object_storage \<in> set (map re_service vs)"
  using assms resolve_loop_ok [of r t 0 es vs]
  by (simp add: resolve_entries_def has_service_entry_def list_ex_iff) (metis image_eqI image_set)

lemmas caller_defaults = with_defaults_storage [OF defaults_storage(1)]
  with_defaults_storage [OF defaults_storage(2)] with_defaults_storage [OF defaults_storage(3)]

definition request_ok :: "resolved_entry list \<Rightarrow> bool" where
  "request_ok es \<longleftrightarrow> list_all entry_resolved es \<and> service_object_storage \<in> set (map re_service es)"

lemma resolve_worker_ok: "resolve_worker r gw n = Inr (s, es) \<Longrightarrow> request_ok es"
  using resolve_entries_storage caller_defaults(1)
  by (auto simp: resolve_worker_def Let_def request_ok_def split: if_splits sum.splits)

lemma resolve_team_member_ok: "resolve_team_member r gt n t = Inr (s, es) \<Longrightarrow> request_ok es"
  using resolve_entries_storage caller_defaults(2)
  by (auto simp: resolve_team_member_def Let_def request_ok_def split: if_splits sum.splits prod.splits)

lemma resolve_manager_ok: "resolve_manager r gm n = Inr (s, es) \<Longrightarrow> request_ok es"
  using resolve_entries_storage caller_defaults(3)
  by (auto simp: resolve_manager_def Let_def request_ok_def split: if_splits sum.splits)

text \<open>C15. Every credential request the resolver prepares is well formed for the credential provider:
  each entry names one of the three services and has the scope of that service filled in (no
  empty bucket, gateway, namespace or resource list), and the request always covers the object
  store, whatever the custom resource declares.\<close>

theorem resolved_request_well_formed:
  assumes "resolve_for_caller r gw gt gm caller = Inr (session, entries)"
  shows "list_all entry_resolved entries \<and> service_object_storage \<in> set (map re_service entries)"
  using assms resolve_worker_ok resolve_team_member_ok resolve_manager_ok
  unfolding resolve_for_caller_def request_ok_def
  by (simp split: if_splits option.splits)

definition sample_resolver :: resolver where
  "sample_resolver = new_resolver ''hiclaw'' ''hiclaw-storage'' [] []"

definition sample_member :: "string \<Rightarrow> caller_identity" where
  "sample_member name = \<lparr>ci_role = role_worker, ci_username = name, ci_team = ''alpha'', ci_worker_name = name\<rparr>"

lemma sample_request:
  "resolve_for_caller sample_resolver (\<lambda>n. Inl ApiNotFound) (\<lambda>n. Inl ApiNotFound) (\<lambda>n. Inl ApiNotFound)
     (Some (sample_member ''dev'')) =
   Inr (''hiclaw-worker-dev'',
     [\<lparr>re_service = ''object-storage'', re_permissions = [''read'', ''write'', ''list'', ''delete''],
       re_scope = zero_scope\<lparr>as_bucket := ''hiclaw-storage'',
         as_prefixes := [''agents/dev/*'', ''shared/*'', ''teams/alpha/*'']\<rparr>\<rparr>])"
  by code_simp

lemma resolved_request_well_formed_witness:
  "list_all entry_resolved
     [\<lparr>re_service = ''object-storage'', re_permissions = [''read'', ''write'', ''list'', ''delete''],
       re_scope = zero_scope\<lparr>as_bucket := ''hiclaw-storage'',
         as_prefixes := [''agents/dev/*'', ''shared/*'', ''teams/alpha/*'']\<rparr>\<rparr>]"
  using resolved_request_well_formed [OF sample_request] by (simp add: service_object_storage_def)

section \<open>The defaults and the embedded policy\<close>

lemma workspace_resolves:
  assumes "rv_default_bucket r \<noteq> []" "ps \<noteq> []"
  shows "resolve_entries r [workspace_entry ps] t = Inr [\<lparr>re_service = service_object_storage,
    re_permissions = [''read'', ''write'', ''list'', ''delete''],
    re_scope = zero_scope\<lparr>as_bucket := rv_default_bucket r, as_prefixes := map (expand t) ps\<rparr>\<rparr>]"
proof -
  have d: "decode_elements (map JStr xs) = Inr xs" for xs
    by (induction xs) auto
  have f: "equal_fold ''bucketRef'' ''bucketRef''" "\<not> equal_fold ''prefixes'' ''bucketRef''"
    "\<not> equal_fold ''bucketRef'' ''bucket''" "\<not> equal_fold ''prefixes'' ''bucket''"
    "\<not> equal_fold ''bucketRef'' ''prefixes''" "equal_fold ''prefixes'' ''prefixes''"
    by code_simp+
  show ?thesis
    using assms d f
    by (simp add: resolve_entries_def resolve_entry_def workspace_entry_def resolve_object_storage_def
        object_storage_scope_of_def unmarshal_scope_def decode_two_def copy_permissions_def
        trim_space_def trim_both_def trim_left_def trim_right_def)
qed

text \<open>The objects an agent may read and write under its embedded policy.\<close>

definition policy_objects :: "s3_policy \<Rightarrow> string list" where
  "policy_objects p = concat (map s3_resource (filter (\<lambda>st. ''s3:PutObject'' \<in> set (s3_action st)) (s3_statements p)))"

definition scope_objects :: "resolved_entry \<Rightarrow> string list" where
  "scope_objects e = map (\<lambda>p. s3_arn (as_bucket (re_scope e)) @ ''/'' @ p) (as_prefixes (re_scope e))"

definition default_grant :: "resolver \<Rightarrow> access_entry list \<Rightarrow> template_ctx \<Rightarrow> string list result" where
  "default_grant r es t =
     (case resolve_entries r es t of Inl e \<Rightarrow> Inl e | Inr vs \<Rightarrow> Inr (concat (map scope_objects vs)))"

lemma expand_fixed: "expand t ''shared/*'' = ''shared/*''" "expand t ''manager/*'' = ''manager/*''"
  by (simp_all add: expand_plain)



end
