(* ===== verification/Credentials.thy ===== *)
theory Credentials
  imports Go_Strings Auth_Prefix Api_Types
begin

text \<open>
  \<open>internal/service/credentials.go\<close>: the credentials of an agent, generated once, and their two
  stores, the env file of the embedded mode and the Kubernetes Secret. The locale is what the
  provisioner relies on; both stores are instances of it. The file system and the Secrets API
  are records of operations.
\<close>

record worker_credentials =
  wc_matrix_password :: string
  wc_minio_password :: string
  wc_gateway_key :: string
  wc_matrix_token :: string

definition no_credentials :: worker_credentials where
  "no_credentials = \<lparr>wc_matrix_password = [], wc_minio_password = [], wc_gateway_key = [],
     wc_matrix_token = []\<rparr>"

text \<open>\<open>Load\<close> returns a pointer and an error; both may be set.\<close>

record 'w credential_store =
  cs_load :: "string \<Rightarrow> ('w, worker_credentials option \<times> go_error option) state"
  cs_save :: "string \<Rightarrow> worker_credentials \<Rightarrow> ('w, go_error option) state"
  cs_delete :: "string \<Rightarrow> ('w, go_error option) state"

section \<open>Generation\<close>

definition hex_encode :: "string \<Rightarrow> string" where
  "hex_encode b = concat (map (\<lambda>c. [hex_digit (of_char c div 16), hex_digit (of_char c mod 16)]) b)"

definition generate_random_hex :: "(nat \<Rightarrow> ('w, string result) state) \<Rightarrow> nat \<Rightarrow> ('w, string result) state" where
  "generate_random_hex rand n = do {
     r \<leftarrow> rand n;
     State_Monad.return (case r of Inl e \<Rightarrow> Inl e | Inr b \<Rightarrow> Inr (hex_encode b)) }"

definition generate_credentials ::
  "(nat \<Rightarrow> ('w, string result) state) \<Rightarrow> ('w, worker_credentials result) state" where
  "generate_credentials rand = do {
     m \<leftarrow> generate_random_hex rand 16;
     (case m of
        Inl e \<Rightarrow> State_Monad.return (Inl (Wrap ''generate matrix password'' e))
      | Inr matrix_pw \<Rightarrow> do {
          o1 \<leftarrow> generate_random_hex rand 24;
          (case o1 of
             Inl e \<Rightarrow> State_Monad.return (Inl (Wrap ''generate minio password'' e))
           | Inr minio_pw \<Rightarrow> do {
               g \<leftarrow> generate_random_hex rand 32;
               State_Monad.return
                 (case g of
                    Inl e \<Rightarrow> Inl (Wrap ''generate gateway key'' e)
                  | Inr gw_key \<Rightarrow> Inr \<lparr>wc_matrix_password = matrix_pw, wc_minio_password = minio_pw,
                      wc_gateway_key = gw_key, wc_matrix_token = []\<rparr>) }) }) }"

section \<open>Env files\<close>

record 'w file_ops =
  fo_read :: "string \<Rightarrow> ('w, string result) state"
  fo_mkdir_all :: "string \<Rightarrow> ('w, go_error option) state"
  fo_write :: "string \<Rightarrow> string \<Rightarrow> ('w, go_error option) state"
  fo_remove :: "string \<Rightarrow> ('w, go_error option) state"

text \<open>
  \<open>bufio.Scanner\<close>: the lines without their end, until one is too long for the buffer. The first
  component are the lines scanned, the second is \<open>scanner.Err()\<close>.
\<close>

definition max_scan_token :: nat where "max_scan_token = 65536"

definition drop_cr :: "string \<Rightarrow> string" where
  "drop_cr l = trim_suffix l [CHR 0x0D]"

definition line_texts :: "string \<Rightarrow> string list" where
  "line_texts content =
     (let ls = split_on (CHR 0x0A) content in if last ls = [] then butlast ls else ls)"

definition scan_lines :: "string \<Rightarrow> string list \<times> go_error option" where
  "scan_lines content =
     (let ls = line_texts content;
          ok = takeWhile (\<lambda>l. length l < max_scan_token) ls
      in (map drop_cr ok,
          if length ok < length ls then Some (Err ''bufio.Scanner: token too long'') else None))"

definition is_quote :: "char \<Rightarrow> bool" where
  "is_quote c \<longleftrightarrow> c = dquote \<or> c = squote"

definition parse_env_line :: "string \<Rightarrow> string \<times> string" where
  "parse_env_line line =
     (case str_index line ''='' of
        None \<Rightarrow> (line, [])
      | Some idx \<Rightarrow> (take idx line, trim_both is_quote (drop (Suc idx) line)))"

definition apply_env_line :: "worker_credentials \<Rightarrow> string \<Rightarrow> worker_credentials" where
  "apply_env_line creds text =
     (let line = trim_space text in
      if line = [] \<or> has_prefix line ''#'' then creds
      else let (k, v) = parse_env_line line in
        if k = ''WORKER_PASSWORD'' then creds\<lparr>wc_matrix_password := v\<rparr>
        else if k = ''WORKER_MINIO_PASSWORD'' then creds\<lparr>wc_minio_password := v\<rparr>
        else if k = ''WORKER_GATEWAY_KEY'' then creds\<lparr>wc_gateway_key := v\<rparr>
        else if k = ''WORKER_MATRIX_TOKEN'' then creds\<lparr>wc_matrix_token := v\<rparr>
        else creds)"

definition parse_env_file :: "string \<Rightarrow> worker_credentials" where
  "parse_env_file content = foldl apply_env_line no_credentials (fst (scan_lines content))"

text \<open>\<open>filepath.Join(dir, name)\<close> for a clean directory and a name without separators.\<close>

definition credentials_path :: "string \<Rightarrow> string \<Rightarrow> string" where
  "credentials_path dir worker_name = dir @ ''/'' @ worker_name @ ''.env''"

definition file_load ::
  "'w file_ops \<Rightarrow> string \<Rightarrow> string \<Rightarrow> ('w, worker_credentials option \<times> go_error option) state" where
  "file_load fo dir worker_name = do {
     r \<leftarrow> fo_read fo (credentials_path dir worker_name);
     State_Monad.return
       (case r of
          Inl e \<Rightarrow> if is_os_not_exist e then (None, None)
                   else (None, Some (Wrap ''open credentials file'' e))
        | Inr content \<Rightarrow> (Some (parse_env_file content), snd (scan_lines content))) }"

definition env_line :: "string \<Rightarrow> string \<Rightarrow> string" where
  "env_line k v = k @ ''='' @ go_quote v"

definition env_file :: "worker_credentials \<Rightarrow> string" where
  "env_file creds =
     env_line ''WORKER_PASSWORD'' (wc_matrix_password creds) @ newline @
     env_line ''WORKER_MINIO_PASSWORD'' (wc_minio_password creds) @ newline @
     env_line ''WORKER_GATEWAY_KEY'' (wc_gateway_key creds) @ newline @
     env_line ''WORKER_MATRIX_TOKEN'' (wc_matrix_token creds) @ newline"

definition file_save ::
  "'w file_ops \<Rightarrow> string \<Rightarrow> string \<Rightarrow> worker_credentials \<Rightarrow> ('w, go_error option) state" where
  "file_save fo dir worker_name creds = do {
     e \<leftarrow> fo_mkdir_all fo dir;
     (case e of
        Some err \<Rightarrow> State_Monad.return (Some (Wrap ''create credentials dir'' err))
      | None \<Rightarrow> fo_write fo (credentials_path dir worker_name) (env_file creds)) }"

definition file_delete :: "'w file_ops \<Rightarrow> string \<Rightarrow> string \<Rightarrow> ('w, go_error option) state" where
  "file_delete fo dir worker_name = do {
     e \<leftarrow> fo_remove fo (credentials_path dir worker_name);
     State_Monad.return
       (case e of None \<Rightarrow> None | Some err \<Rightarrow> if is_os_not_exist err then None else Some err) }"

definition file_credential_store :: "'w file_ops \<Rightarrow> string \<Rightarrow> 'w credential_store" where
  "file_credential_store fo dir =
     \<lparr>cs_load = file_load fo dir, cs_save = file_save fo dir, cs_delete = file_delete fo dir\<rparr>"

section \<open>Secrets\<close>

record secret =
  sec_name :: string
  sec_namespace :: string
  sec_labels :: smap
  sec_data :: smap

record 'w secrets_api =
  sa_get :: "string \<Rightarrow> ('w, secret result) state"
  sa_create :: "secret \<Rightarrow> ('w, go_error option) state"
  sa_update :: "secret \<Rightarrow> ('w, go_error option) state"
  sa_delete :: "string \<Rightarrow> ('w, go_error option) state"

record secret_store_config =
  ssc_namespace :: string
  ssc_controller_name :: string
  ssc_prefix :: resource_prefix

definition secret_name :: "string \<Rightarrow> string" where
  "secret_name worker_name = ''hiclaw-creds-'' @ worker_name"

definition secret_credentials :: "secret \<Rightarrow> worker_credentials" where
  "secret_credentials s =
     \<lparr>wc_matrix_password = smap_get (sec_data s) ''WORKER_PASSWORD'',
      wc_minio_password = smap_get (sec_data s) ''WORKER_MINIO_PASSWORD'',
      wc_gateway_key = smap_get (sec_data s) ''WORKER_GATEWAY_KEY'',
      wc_matrix_token = smap_get (sec_data s) ''WORKER_MATRIX_TOKEN''\<rparr>"

definition credentials_secret :: "secret_store_config \<Rightarrow> string \<Rightarrow> worker_credentials \<Rightarrow> secret" where
  "credentials_secret cfg worker_name creds =
     \<lparr>sec_name = secret_name worker_name, sec_namespace = ssc_namespace cfg,
      sec_labels = [(''app'', worker_app_label (ssc_prefix cfg)), (''hiclaw.io/worker'', worker_name),
        (''hiclaw.io/controller'', ssc_controller_name cfg)],
      sec_data = [(''WORKER_PASSWORD'', wc_matrix_password creds),
        (''WORKER_MINIO_PASSWORD'', wc_minio_password creds),
        (''WORKER_GATEWAY_KEY'', wc_gateway_key creds),
        (''WORKER_MATRIX_TOKEN'', wc_matrix_token creds)]\<rparr>"

definition secret_load ::
  "'w secrets_api \<Rightarrow> string \<Rightarrow> ('w, worker_credentials option \<times> go_error option) state" where
  "secret_load api worker_name = do {
     r \<leftarrow> sa_get api (secret_name worker_name);
     State_Monad.return
       (case r of
          Inl e \<Rightarrow> if is_api_not_found e then (None, None)
                   else (None, Some (Wrap ''get credentials secret'' e))
        | Inr s \<Rightarrow> (Some (secret_credentials s), None)) }"

definition secret_save ::
  "'w secrets_api \<Rightarrow> secret_store_config \<Rightarrow> string \<Rightarrow> worker_credentials \<Rightarrow> ('w, go_error option) state" where
  "secret_save api cfg worker_name creds =
     (let s = credentials_secret cfg worker_name creds in do {
        r \<leftarrow> sa_get api (secret_name worker_name);
        (case r of
           Inl e \<Rightarrow> if is_api_not_found e then sa_create api s
                    else State_Monad.return (Some (Wrap ''get credentials secret'' e))
         | Inr existing \<Rightarrow>
             sa_update api (existing\<lparr>sec_data := sec_data s, sec_labels := sec_labels s\<rparr>)) })"

definition secret_delete :: "'w secrets_api \<Rightarrow> string \<Rightarrow> ('w, go_error option) state" where
  "secret_delete api worker_name = do {
     e \<leftarrow> sa_delete api (secret_name worker_name);
     State_Monad.return
       (case e of Some err \<Rightarrow> if is_api_not_found err then None else Some err | None \<Rightarrow> None) }"

definition secret_credential_store :: "'w secrets_api \<Rightarrow> secret_store_config \<Rightarrow> 'w credential_store" where
  "secret_credential_store api cfg =
     \<lparr>cs_load = secret_load api, cs_save = secret_save api cfg, cs_delete = secret_delete api\<rparr>"

section \<open>The contract of a store\<close>

text \<open>
  \<open>stored w n\<close> are the credentials kept for an agent, \<open>up w\<close> says the store answers, and
  \<open>ok c\<close> which credentials it keeps faithfully.
\<close>

locale credentials_kept =
  fixes s :: "'w credential_store"
    and stored :: "'w \<Rightarrow> string \<Rightarrow> worker_credentials option"
    and up :: "'w \<Rightarrow> bool"
    and ok :: "worker_credentials \<Rightarrow> bool"
  assumes load_reads: "up w \<Longrightarrow> run_state (cs_load s n) w = ((stored w n, None), w)"
    and save_writes: "up w \<Longrightarrow> ok c \<Longrightarrow> \<exists>w'. run_state (cs_save s n c) w = (None, w') \<and> up w' \<and>
        stored w' = (stored w)(n \<mapsto> c)"
    and delete_removes: "up w \<Longrightarrow> \<exists>w'. run_state (cs_delete s n) w = (None, w') \<and> up w' \<and>
        stored w' = (stored w)(n := None)"
begin

lemma load_after_save:
  assumes "up w" "ok c"
  shows "fst (run_state (do { _ \<leftarrow> cs_save s n c; cs_load s n }) w) = (Some c, None)"
proof -
  obtain w' where "run_state (cs_save s n c) w = (None, w')" "up w'" "stored w' = (stored w)(n \<mapsto> c)"
    using save_writes [OF assms] by blast
  then show ?thesis using load_reads [of w' n] by simp
qed

lemma load_other_after_save:
  assumes "up w" "ok c" "m \<noteq> n"
  shows "fst (run_state (do { _ \<leftarrow> cs_save s n c; cs_load s m }) w) = (stored w m, None)"
proof -
  obtain w' where "run_state (cs_save s n c) w = (None, w')" "up w'" "stored w' = (stored w)(n \<mapsto> c)"
    using save_writes [OF assms(1,2)] by blast
  then show ?thesis using load_reads [of w' m] assms(3) by simp
qed

lemma load_after_delete:
  assumes "up w"
  shows "fst (run_state (do { _ \<leftarrow> cs_delete s n; cs_load s n }) w) = (None, None)"
proof -
  obtain w' where "run_state (cs_delete s n) w = (None, w')" "up w'" "stored w' = (stored w)(n := None)"
    using delete_removes [OF assms] by blast
  then show ?thesis using load_reads [of w' n] by simp
qed

end

section \<open>The Secret store\<close>

text \<open>The Secrets of a namespace, answering as the API documents.\<close>

definition namespace_secrets :: "(string \<times> secret) list secrets_api" where
  "namespace_secrets =
     \<lparr>sa_get = (\<lambda>n. State (\<lambda>m. (case map_of m n of None \<Rightarrow> Inl ApiNotFound | Some s \<Rightarrow> Inr s, m))),
      sa_create = (\<lambda>s. State (\<lambda>m. if map_of m (sec_name s) = None
         then (None, AList.update (sec_name s) s m) else (Some ApiAlreadyExists, m))),
      sa_update = (\<lambda>s. State (\<lambda>m. if map_of m (sec_name s) = None
         then (Some ApiNotFound, m) else (None, AList.update (sec_name s) s m))),
      sa_delete = (\<lambda>n. State (\<lambda>m. if map_of m n = None
         then (Some ApiNotFound, m) else (None, AList.delete n m)))\<rparr>"

definition secrets_named :: "(string \<times> secret) list \<Rightarrow> bool" where
  "secrets_named m \<longleftrightarrow> (\<forall>n s. map_of m n = Some s \<longrightarrow> sec_name s = n)"

definition stored_secrets :: "(string \<times> secret) list \<Rightarrow> string \<Rightarrow> worker_credentials option" where
  "stored_secrets m n = map_option secret_credentials (map_of m (secret_name n))"

lemma secret_name_inject [simp]: "secret_name m = secret_name n \<longleftrightarrow> m = n"
  by (simp add: secret_name_def)

lemma secret_credentials_of [simp]:
  "secret_credentials (credentials_secret cfg n c) = c"
  "secret_credentials (s\<lparr>sec_data := sec_data (credentials_secret cfg n c), sec_labels := l\<rparr>) = c"
  "sec_name (credentials_secret cfg n c) = secret_name n"
  by (simp_all add: secret_credentials_def credentials_secret_def smap_get_def)

lemma secret_save_run:
  assumes "secrets_named m"
  shows "\<exists>s. run_state (secret_save namespace_secrets cfg n c) m = (None, AList.update (secret_name n) s m) \<and>
    secret_credentials s = c \<and> sec_name s = secret_name n"
proof (cases "map_of m (secret_name n)")
  case None
  then have "run_state (secret_save namespace_secrets cfg n c) m =
      (None, AList.update (secret_name n) (credentials_secret cfg n c) m)"
    by (simp add: secret_save_def namespace_secrets_def is_api_not_found_def Let_def)
  then show ?thesis using secret_credentials_of(1) [of cfg n c] secret_credentials_of(3) [of cfg n c] by blast
next
  case (Some old)
  then have "sec_name old = secret_name n" using assms by (simp add: secrets_named_def)
  then have "run_state (secret_save namespace_secrets cfg n c) m =
      (None, AList.update (secret_name n) (old\<lparr>sec_data := sec_data (credentials_secret cfg n c),
        sec_labels := sec_labels (credentials_secret cfg n c)\<rparr>) m)"
    using Some by (simp add: secret_save_def namespace_secrets_def Let_def)
  moreover have "sec_name (old\<lparr>sec_data := sec_data (credentials_secret cfg n c),
        sec_labels := sec_labels (credentials_secret cfg n c)\<rparr>) = secret_name n"
    using \<open>sec_name old = secret_name n\<close> by simp
  ultimately show ?thesis using secret_credentials_of(2) by blast
qed

interpretation secret_store: credentials_kept
  "secret_credential_store namespace_secrets cfg" stored_secrets secrets_named "\<lambda>c. True" for cfg
proof unfold_locales
  fix w n
  assume "secrets_named w"
  then show "run_state (cs_load (secret_credential_store namespace_secrets cfg) n) w = ((stored_secrets w n, None), w)"
    by (simp add: secret_credential_store_def secret_load_def namespace_secrets_def stored_secrets_def
        is_api_not_found_def split: option.splits)
  show "\<exists>w'. run_state (cs_delete (secret_credential_store namespace_secrets cfg) n) w = (None, w') \<and>
      secrets_named w' \<and> stored_secrets w' = (stored_secrets w)(n := None)"
    using \<open>secrets_named w\<close>
    by (auto simp: secret_credential_store_def secret_delete_def namespace_secrets_def stored_secrets_def
        is_api_not_found_def secrets_named_def delete_conv' fun_eq_iff split: if_splits)
next
  fix w n c
  assume w: "secrets_named w"
  from secret_save_run [OF this, of cfg n c] obtain s where
    s: "run_state (secret_save namespace_secrets cfg n c) w = (None, AList.update (secret_name n) s w)"
      "secret_credentials s = c" "sec_name s = secret_name n"
    by blast
  then show "\<exists>w'. run_state (cs_save (secret_credential_store namespace_secrets cfg) n c) w = (None, w') \<and>
      secrets_named w' \<and> stored_secrets w' = (stored_secrets w)(n \<mapsto> c)"
    using w by (auto simp: secret_credential_store_def stored_secrets_def secrets_named_def update_conv' fun_eq_iff)
qed

section \<open>The env file store\<close>

text \<open>A directory of files, answering as the operating system does.\<close>

definition disk :: "smap file_ops" where
  "disk =
     \<lparr>fo_read = (\<lambda>p. State (\<lambda>m. (case map_of m p of None \<Rightarrow> Inl OsNotExist | Some d \<Rightarrow> Inr d, m))),
      fo_mkdir_all = (\<lambda>p. State (\<lambda>m. (None, m))),
      fo_write = (\<lambda>p d. State (\<lambda>m. (None, smap_put p d m))),
      fo_remove = (\<lambda>p. State (\<lambda>m. if map_of m p = None then (Some OsNotExist, m)
         else (None, AList.delete p m)))\<rparr>"

definition stored_files :: "string \<Rightarrow> smap \<Rightarrow> string \<Rightarrow> worker_credentials option" where
  "stored_files dir m n = map_option parse_env_file (map_of m (credentials_path dir n))"

text \<open>Files whose lines the scanner can hold.\<close>

definition files_scan :: "smap \<Rightarrow> bool" where
  "files_scan m \<longleftrightarrow> (\<forall>p d. map_of m p = Some d \<longrightarrow> snd (scan_lines d) = None)"

text \<open>Values that survive quoting, trimming and the scanner.\<close>

definition env_char :: "char \<Rightarrow> bool" where
  "env_char c \<longleftrightarrow> quote_char c = [c] \<and> \<not> is_quote c \<and> c \<noteq> CHR 0x0A \<and> c \<noteq> CHR 0x0D"

definition env_safe :: "string \<Rightarrow> bool" where
  "env_safe v \<longleftrightarrow> list_all env_char v \<and> length v \<le> 65000"

definition env_credentials :: "worker_credentials \<Rightarrow> bool" where
  "env_credentials c \<longleftrightarrow> env_safe (wc_matrix_password c) \<and> env_safe (wc_minio_password c) \<and>
     env_safe (wc_gateway_key c) \<and> env_safe (wc_matrix_token c)"

lemma env_quote: "env_safe v \<Longrightarrow> go_quote v = dquote # v @ [dquote]"
proof -
  have "list_all env_char v \<Longrightarrow> concat (map quote_char v) = v"
    by (induction v) (simp_all add: env_char_def)
  then show "env_safe v \<Longrightarrow> go_quote v = dquote # v @ [dquote]"
    by (simp add: env_safe_def go_quote_def)
qed

lemma trim_quoted:
  assumes "list_all env_char v"
  shows "trim_both is_quote (dquote # v @ [dquote]) = v"
proof (cases "v = []")
  case True
  then show ?thesis by (simp add: trim_both_def trim_left_def trim_right_def is_quote_def)
next
  case False
  have f: "list_all (\<lambda>c. \<not> is_quote c) v" using assms by (rule list.pred_mono_strong) (simp add: env_char_def)
  have q: "is_quote dquote" by (simp add: is_quote_def)
  have "trim_left is_quote (dquote # v @ [dquote]) = v @ [dquote]"
    using False f q by (cases v) (simp_all add: trim_left_def)
  moreover have "trim_right is_quote (v @ [dquote]) = trim_right is_quote v"
    using q by (simp add: trim_right_def)
  moreover have "trim_right is_quote v = v"
    using False f trim_right_append [of v is_quote "[]"] by (simp add: list_all_iff)
  ultimately show ?thesis by (simp add: trim_both_def)
qed

definition env_key :: "string \<Rightarrow> bool" where
  "env_key k \<longleftrightarrow> k \<noteq> [] \<and> \<not> is_space (hd k) \<and> hd k \<noteq> CHR ''#'' \<and> CHR ''='' \<notin> set k \<and> CHR 0x0A \<notin> set k \<and>
     length k \<le> 100"

lemma env_keys: "env_key ''WORKER_PASSWORD''" "env_key ''WORKER_MINIO_PASSWORD''"
    "env_key ''WORKER_GATEWAY_KEY''" "env_key ''WORKER_MATRIX_TOKEN''"
  by code_simp+

lemma env_line_trim:
  assumes "env_key k" "env_safe v"
  shows "trim_space (env_line k v) = env_line k v"
proof -
  have "trim_left is_space (env_line k v) = env_line k v"
    using assms(1) by (cases k) (simp_all add: env_key_def env_line_def trim_left_def)
  moreover have "trim_right is_space (env_line k v) = env_line k v"
    unfolding env_line_def env_quote [OF assms(2)]
    using trim_right_append [of "[dquote]" is_space "k @ ''='' @ dquote # v"]
    by (simp add: is_space_def dquote_def)
  ultimately show ?thesis by (simp add: trim_space_def trim_both_def)
qed

lemma parse_written_line:
  assumes "env_key k" "env_safe v"
  shows "parse_env_line (env_line k v) = (k, v)"
proof -
  have m: "marker ''=''" by (simp add: marker_def)
  have "\<not> str_contains k ''=''"
    using assms(1) str_contains_skip [of "''=''" k "[]"] by (simp add: env_key_def str_contains_Nil)
  from str_index_marker [OF m this] have "str_index (env_line k v) ''='' = Some (length k)"
    by (simp add: env_line_def)
  then show ?thesis
    using assms(2) by (simp add: parse_env_line_def env_line_def env_quote trim_quoted env_safe_def)
qed

lemma apply_written_line:
  assumes "env_key k" "env_safe v"
  shows "apply_env_line c (env_line k v) =
    (if k = ''WORKER_PASSWORD'' then c\<lparr>wc_matrix_password := v\<rparr>
     else if k = ''WORKER_MINIO_PASSWORD'' then c\<lparr>wc_minio_password := v\<rparr>
     else if k = ''WORKER_GATEWAY_KEY'' then c\<lparr>wc_gateway_key := v\<rparr>
     else if k = ''WORKER_MATRIX_TOKEN'' then c\<lparr>wc_matrix_token := v\<rparr>
     else c)"
proof -
  have "env_line k v \<noteq> []" "\<not> has_prefix (env_line k v) ''#''"
    using assms(1) by (cases k; simp add: env_key_def env_line_def has_prefix_def)+
  then show ?thesis
    by (simp add: apply_env_line_def env_line_trim [OF assms] parse_written_line [OF assms])
qed

lemma written_line_scans:
  assumes "env_key k" "env_safe v"
  shows "CHR 0x0A \<notin> set (env_line k v)" "length (env_line k v) < max_scan_token"
    "drop_cr (env_line k v) = env_line k v" "env_line k v \<noteq> []"
  using assms
  by (auto simp: env_line_def env_quote env_key_def env_safe_def list_all_iff env_char_def dquote_def
      max_scan_token_def drop_cr_def trim_suffix_def has_suffix_def)

lemma scan_env_file:
  assumes "env_credentials c"
  shows "scan_lines (env_file c) =
    ([env_line ''WORKER_PASSWORD'' (wc_matrix_password c), env_line ''WORKER_MINIO_PASSWORD'' (wc_minio_password c),
      env_line ''WORKER_GATEWAY_KEY'' (wc_gateway_key c), env_line ''WORKER_MATRIX_TOKEN'' (wc_matrix_token c)], None)"
proof -
  have safe: "env_safe (wc_matrix_password c)" "env_safe (wc_minio_password c)"
    "env_safe (wc_gateway_key c)" "env_safe (wc_matrix_token c)"
    using assms by (simp_all add: env_credentials_def)
  note l = written_line_scans [OF env_keys(1) safe(1)] written_line_scans [OF env_keys(2) safe(2)]
    written_line_scans [OF env_keys(3) safe(3)] written_line_scans [OF env_keys(4) safe(4)]
  have "line_texts (env_file c) =
     [env_line ''WORKER_PASSWORD'' (wc_matrix_password c), env_line ''WORKER_MINIO_PASSWORD'' (wc_minio_password c),
      env_line ''WORKER_GATEWAY_KEY'' (wc_gateway_key c), env_line ''WORKER_MATRIX_TOKEN'' (wc_matrix_token c)]"
    using l by (simp add: line_texts_def env_file_def newline_def split_on_line)
  then show ?thesis using l by (simp add: scan_lines_def)
qed

lemma parse_env_file_written: "env_credentials c \<Longrightarrow> parse_env_file (env_file c) = c"
  using env_keys
  by (simp add: parse_env_file_def scan_env_file apply_written_line env_credentials_def no_credentials_def)

lemma credentials_path_inject [simp]: "credentials_path d m = credentials_path d n \<longleftrightarrow> m = n"
  by (simp add: credentials_path_def)

interpretation file_store: credentials_kept
  "file_credential_store disk dir" "stored_files dir" files_scan env_credentials for dir
proof unfold_locales
  fix w n
  assume w: "files_scan w"
  then show "run_state (cs_load (file_credential_store disk dir) n) w = ((stored_files dir w n, None), w)"
    by (auto simp: file_credential_store_def file_load_def disk_def stored_files_def files_scan_def
        is_os_not_exist_def split: option.splits)
  show "\<exists>w'. run_state (cs_delete (file_credential_store disk dir) n) w = (None, w') \<and>
      files_scan w' \<and> stored_files dir w' = (stored_files dir w)(n := None)"
    using w
    by (auto simp: file_credential_store_def file_delete_def disk_def stored_files_def files_scan_def
        is_os_not_exist_def delete_conv' fun_eq_iff)
next
  fix w n c
  assume w: "files_scan w" and c: "env_credentials c"
  then have "parse_env_file (env_file c) = c" "snd (scan_lines (env_file c)) = None"
    by (simp_all add: parse_env_file_written scan_env_file)
  then show "\<exists>w'. run_state (cs_save (file_credential_store disk dir) n c) w = (None, w') \<and>
      files_scan w' \<and> stored_files dir w' = (stored_files dir w)(n \<mapsto> c)"
    using w
    by (auto simp: file_credential_store_def file_save_def disk_def stored_files_def files_scan_def fun_eq_iff)
qed

section \<open>Generated credentials\<close>

lemma hex_digits_safe: "n < 16 \<Longrightarrow> env_char (hex_digit n)"
proof -
  have digits: "\<forall>n \<in> set [0..<16]. hex_digit n \<in> set ''0123456789abcdef''" by code_simp
  have safe: "list_all env_char ''0123456789abcdef''"
    by (simp add: env_char_def quote_char_def is_quote_def dquote_def squote_def backslash_def)
  assume "n < 16"
  then have "hex_digit n \<in> set ''0123456789abcdef''" using digits by simp
  then show "env_char (hex_digit n)" using safe by (auto simp del: set_simps simp: list_all_iff)
qed

lemma hex_encode_safe: "list_all env_char (hex_encode b)"
proof (induction b)
  case (Cons c b)
  have "(of_char c :: nat) < 256" by (rule nat_of_char_less_256)
  then have "of_char c div 16 < (16::nat)" by linarith
  then show ?case using Cons by (simp add: hex_encode_def hex_digits_safe)
qed (simp add: hex_encode_def)

lemma length_hex_encode: "length (hex_encode b) = 2 * length b"
  by (induction b) (simp_all add: hex_encode_def)

definition random_source :: "(nat \<Rightarrow> ('w, string result) state) \<Rightarrow> bool" where
  "random_source rand \<longleftrightarrow> (\<forall>n w b w'. run_state (rand n) w = (Inr b, w') \<longrightarrow> length b = n)"

lemma random_hex_safe:
  assumes "random_source rand" "run_state (generate_random_hex rand n) w = (Inr h, w')" "n \<le> 100"
  shows "env_safe h"
proof -
  obtain b v where "run_state (rand n) w = (Inr b, v)" "h = hex_encode b"
    using assms(2) by (auto simp: generate_random_hex_def split: prod.splits sum.splits)
  moreover have "length b = n" using assms(1) calculation(1) unfolding random_source_def by blast
  ultimately show ?thesis
    using assms(3) hex_encode_safe [of b] by (simp add: env_safe_def length_hex_encode)
qed

lemma generated_env_credentials:
  assumes r: "random_source rand" and g: "run_state (generate_credentials rand) w = (Inr c, w')"
  shows "env_credentials c"
proof -
  obtain m w1 where m: "run_state (generate_random_hex rand 16) w = (m, w1)" by (metis surj_pair)
  obtain k w2 where k: "run_state (generate_random_hex rand 24) w1 = (k, w2)" by (metis surj_pair)
  obtain t w3 where t: "run_state (generate_random_hex rand 32) w2 = (t, w3)" by (metis surj_pair)
  from g m k t obtain x y z where xyz: "m = Inr x" "k = Inr y" "t = Inr z"
      and c: "c = \<lparr>wc_matrix_password = x, wc_minio_password = y, wc_gateway_key = z, wc_matrix_token = []\<rparr>"
    by (auto simp: generate_credentials_def split: sum.splits)
  have "env_safe x" "env_safe y" "env_safe z"
    using random_hex_safe [OF r] m k t xyz by force+
  then show ?thesis by (simp add: c env_credentials_def env_safe_def)
qed

text \<open>Credentials the controller generates survive both stores: saved and loaded again they are
  the same three secrets, from the env file of the embedded mode (whose reader only strips quotes)
  as from the Kubernetes Secret, and saving them leaves the credentials of every other agent alone.\<close>

theorem generated_credentials_kept:
  assumes "random_source rand" "run_state (generate_credentials rand) v = (Inr c, v')"
    "files_scan d" "secrets_named k" "m \<noteq> n"
  shows "fst (run_state (do { _ \<leftarrow> cs_save (file_credential_store disk dir) n c;
        cs_load (file_credential_store disk dir) n }) d) = (Some c, None) \<and>
    fst (run_state (do { _ \<leftarrow> cs_save (secret_credential_store namespace_secrets cfg) n c;
        cs_load (secret_credential_store namespace_secrets cfg) n }) k) = (Some c, None) \<and>
    fst (run_state (do { _ \<leftarrow> cs_save (file_credential_store disk dir) n c;
        cs_load (file_credential_store disk dir) m }) d) = (stored_files dir d m, None) \<and>
    fst (run_state (do { _ \<leftarrow> cs_save (secret_credential_store namespace_secrets cfg) n c;
        cs_load (secret_credential_store namespace_secrets cfg) m }) k) = (stored_secrets k m, None)"
proof -
  note safe = generated_env_credentials [OF assms(1,2)]
  show ?thesis
    using file_store.load_after_save [OF assms(3) safe] secret_store.load_after_save [OF assms(4) TrueI]
      file_store.load_other_after_save [OF assms(3) safe assms(5)]
      secret_store.load_other_after_save [OF assms(4) TrueI assms(5)]
    by blast
qed

definition sample_rand :: "nat \<Rightarrow> (unit, string result) state" where
  "sample_rand n = State (\<lambda>u. (Inr (replicate n (CHR 0xA5)), u))"

definition sample_credentials :: worker_credentials where
  "sample_credentials =
     \<lparr>wc_matrix_password = hex_encode (replicate 16 (CHR 0xA5)),
      wc_minio_password = hex_encode (replicate 24 (CHR 0xA5)),
      wc_gateway_key = hex_encode (replicate 32 (CHR 0xA5)), wc_matrix_token = []\<rparr>"

lemma generated_credentials_kept_witness:
  "fst (run_state (do { _ \<leftarrow> cs_save (file_credential_store disk ''/data/worker-creds'') ''dev'' sample_credentials;
      cs_load (file_credential_store disk ''/data/worker-creds'') ''dev'' }) []) = (Some sample_credentials, None)"
proof -
  have "random_source sample_rand" by (simp add: random_source_def sample_rand_def)
  moreover have "run_state (generate_credentials sample_rand) () = (Inr sample_credentials, ())"
    by (simp add: generate_credentials_def generate_random_hex_def sample_rand_def sample_credentials_def)
  moreover have "files_scan []" "secrets_named []" "''ops'' \<noteq> ''dev''"
    by (simp_all add: files_scan_def secrets_named_def)
  ultimately show ?thesis
    using generated_credentials_kept [of sample_rand "()" sample_credentials "()" "[]" "[]" "''ops''" "''dev''"
      "''/data/worker-creds''"] by blast
qed

text \<open>
  A value with a double quote does not survive the env file: \<open>Save\<close> escapes it, \<open>Load\<close> only trims
  the outer quotes. Passwords come from the configuration for the manager.
\<close>

lemma quoted_password_changed:
  "fst (run_state (do {
       _ \<leftarrow> cs_save (file_credential_store disk ''/d'') ''manager'' (no_credentials\<lparr>wc_matrix_password := [CHR ''a'', dquote, CHR ''b'']\<rparr>);
       cs_load (file_credential_store disk ''/d'') ''manager'' }) []) =
   (Some (no_credentials\<lparr>wc_matrix_password := [CHR ''a'', backslash, dquote, CHR ''b'']\<rparr>), None)"
proof -
  have "scan_lines (env_file (no_credentials\<lparr>wc_matrix_password := [CHR ''a'', dquote, CHR ''b'']\<rparr>)) =
      ([''WORKER_PASSWORD='' @ [dquote, CHR ''a'', backslash, dquote, CHR ''b'', dquote],
        ''WORKER_MINIO_PASSWORD='' @ [dquote, dquote], ''WORKER_GATEWAY_KEY='' @ [dquote, dquote],
        ''WORKER_MATRIX_TOKEN='' @ [dquote, dquote]], None)"
    by (simp add: scan_lines_def line_texts_def env_file_def env_line_def no_credentials_def newline_def
        go_quote_def quote_char_def drop_cr_def trim_suffix_def has_suffix_def max_scan_token_def
        dquote_def backslash_def)
  moreover have "foldl apply_env_line no_credentials
      [''WORKER_PASSWORD='' @ [dquote, CHR ''a'', backslash, dquote, CHR ''b'', dquote],
        ''WORKER_MINIO_PASSWORD='' @ [dquote, dquote], ''WORKER_GATEWAY_KEY='' @ [dquote, dquote],
        ''WORKER_MATRIX_TOKEN='' @ [dquote, dquote]] =
      no_credentials\<lparr>wc_matrix_password := [CHR ''a'', backslash, dquote, CHR ''b'']\<rparr>"
    by code_simp
  ultimately show ?thesis
    by (simp add: file_credential_store_def file_save_def file_load_def disk_def parse_env_file_def)
qed

end
