(* ===== verification/Matrix_Client.thy ===== *)
theory Matrix_Client
  imports Go_Json
begin

text \<open>
  \<open>internal/matrix/client.go\<close> and \<open>types.go\<close>: the client of the Matrix homeserver. The HTTP
  transport is a record of operations; the state of the client is the cached admin token, the
  cached admin room and the counter of transaction ids. The client interface the services use
  is the record \<open>matrix_ops\<close>, which the Tuwunel client fills.
\<close>

section \<open>Requests and results\<close>

record matrix_config =
  mcf_server_url :: string
  mcf_domain :: string
  mcf_registration_token :: string
  mcf_admin_user :: string
  mcf_admin_password :: string
  mcf_e2ee :: bool

record ensure_user_request =
  eu_username :: string
  eu_password :: string

record user_credentials =
  uc_user_id :: string
  uc_access_token :: string
  uc_password :: string
  uc_created :: bool

record create_room_request =
  crr_name :: string
  crr_topic :: string
  crr_invite :: "string list"
  crr_power_levels :: "(string \<times> int) list"
  crr_creator_token :: string
  crr_e2ee :: bool
  crr_is_direct :: bool
  crr_alias :: string

record room_info =
  ri_room_id :: string
  ri_created :: bool

record room_member =
  rm_user_id :: string
  rm_membership :: string

text \<open>The interface \<open>matrix.Client\<close>.\<close>

record 'w matrix_ops =
  mo_ensure_user :: "ensure_user_request \<Rightarrow> ('w, user_credentials result) state"
  mo_create_room :: "create_room_request \<Rightarrow> ('w, room_info result) state"
  mo_resolve_alias :: "string \<Rightarrow> ('w, string option result) state"
  mo_delete_alias :: "string \<Rightarrow> ('w, go_error option) state"
  mo_join :: "string \<Rightarrow> string \<Rightarrow> ('w, go_error option) state"
  mo_leave :: "string \<Rightarrow> string \<Rightarrow> ('w, go_error option) state"
  mo_send :: "string \<Rightarrow> string \<Rightarrow> string \<Rightarrow> ('w, go_error option) state"
  mo_send_as_admin :: "string \<Rightarrow> string \<Rightarrow> ('w, go_error option) state"
  mo_login :: "string \<Rightarrow> string \<Rightarrow> ('w, string result) state"
  mo_set_display_name :: "string \<Rightarrow> string \<Rightarrow> string \<Rightarrow> ('w, go_error option) state"
  mo_admin_command :: "string \<Rightarrow> ('w, go_error option) state"
  mo_joined_rooms :: "string \<Rightarrow> ('w, string list result) state"
  mo_members :: "string \<Rightarrow> ('w, room_member list result) state"
  mo_members_as :: "string \<Rightarrow> string \<Rightarrow> ('w, room_member list result) state"
  mo_invite :: "string \<Rightarrow> string \<Rightarrow> ('w, go_error option) state"
  mo_invite_as :: "string \<Rightarrow> string \<Rightarrow> string \<Rightarrow> ('w, go_error option) state"
  mo_kick :: "string \<Rightarrow> string \<Rightarrow> string \<Rightarrow> ('w, go_error option) state"
  mo_kick_as :: "string \<Rightarrow> string \<Rightarrow> string \<Rightarrow> string \<Rightarrow> ('w, go_error option) state"
  mo_user_id :: "string \<Rightarrow> string"

section \<open>Transport\<close>

record http_request =
  rq_method :: string
  rq_path :: string
  rq_token :: string
  rq_body :: "json option"

text \<open>The body of a reply as bytes and as the document they denote.\<close>

record http_reply =
  rp_status :: nat
  rp_body :: string
  rp_json :: raw_json

record 'w transport =
  tp_do :: "http_request \<Rightarrow> ('w, http_reply result) state"
  tp_wait :: "nat \<Rightarrow> ('w, go_error option) state"
  tp_random :: "nat \<Rightarrow> ('w, string result) state"

text \<open>\<open>tp_wait\<close> is the wait between two attempts, with the error of a cancelled context.\<close>

record 'w matrix_state =
  mcs_world :: 'w
  mcs_admin_token :: string
  mcs_admin_room :: string
  mcs_txn :: int

definition on_transport :: "('w, 'a) state \<Rightarrow> ('w matrix_state, 'a) state" where
  "on_transport m = State (\<lambda>s. case run_state m (mcs_world s) of (a, w) \<Rightarrow> (a, s\<lparr>mcs_world := w\<rparr>))"

definition modify_state :: "('s \<Rightarrow> 's) \<Rightarrow> ('s, unit) state" where
  "modify_state f = State (\<lambda>s. ((), f s))"

definition truncate_body :: "string \<Rightarrow> nat \<Rightarrow> string" where
  "truncate_body b limit = (if length b \<le> limit then b else take limit b @ ''...'')"

definition status_ok :: "nat \<Rightarrow> bool" where
  "status_ok st \<longleftrightarrow> st = 200 \<or> st = 201"

text \<open>
  \<open>doJSON\<close>: an answer 401 or 403 to any request drops the cached admin token. The decoder is
  \<open>respOut\<close>; marshalling the request cannot fail for the values used.
\<close>

definition do_json ::
  "'w transport \<Rightarrow> http_request \<Rightarrow> ((string \<times> json) list \<Rightarrow> 'a result) \<Rightarrow>
   ('w matrix_state, (nat \<times> string \<times> 'a) result) state" where
  "do_json tp req decode = do {
     r \<leftarrow> on_transport (tp_do tp req);
     (case r of
        Inl e \<Rightarrow> State_Monad.return (Inl e)
      | Inr rep \<Rightarrow> do {
          _ \<leftarrow> modify_state (\<lambda>s. if rp_status rep = 401 \<or> rp_status rep = 403
                               then s\<lparr>mcs_admin_token := []\<rparr> else s);
          State_Monad.return
            (case (case decode_raw (rp_json rep) of Inl e \<Rightarrow> Inl e | Inr kvs \<Rightarrow> decode kvs) of
               Inl e \<Rightarrow> Inl (Wrap ''decode response''
                          (Detail e (''(body: '' @ truncate_body (rp_body rep) 200 @ '')'')))
             | Inr v \<Rightarrow> Inr (rp_status rep, rp_body rep, v)) }) }"

text \<open>A request without \<open>respOut\<close>.\<close>

definition do_json_plain ::
  "'w transport \<Rightarrow> http_request \<Rightarrow> ('w matrix_state, (nat \<times> string) result) state" where
  "do_json_plain tp req = do {
     r \<leftarrow> on_transport (tp_do tp req);
     (case r of
        Inl e \<Rightarrow> State_Monad.return (Inl e)
      | Inr rep \<Rightarrow> do {
          _ \<leftarrow> modify_state (\<lambda>s. if rp_status rep = 401 \<or> rp_status rep = 403
                               then s\<lparr>mcs_admin_token := []\<rparr> else s);
          State_Monad.return (Inr (rp_status rep, rp_body rep)) }) }"

definition encode_room_id :: "string \<Rightarrow> string" where
  "encode_room_id room_id = replace_all room_id ''!'' ''%21''"

definition encode_alias :: "string \<Rightarrow> string" where
  "encode_alias al = replace_all (replace_all al ''#'' ''%23'') '':'' ''%3A''"

definition room_alias_full_for :: "string \<Rightarrow> string \<Rightarrow> string" where
  "room_alias_full_for domain localpart = ''#'' @ localpart @ '':'' @ domain"

definition room_path :: "string \<Rightarrow> string \<Rightarrow> string" where
  "room_path room_id op = ''/_matrix/client/v3/rooms/'' @ encode_room_id room_id @ ''/'' @ op"

definition alias_path :: "string \<Rightarrow> string" where
  "alias_path al = ''/_matrix/client/v3/directory/room/'' @ encode_alias al"

text \<open>\<open>url.PathEscape\<close>.\<close>

definition upper_hex :: "nat \<Rightarrow> char" where
  "upper_hex d = (if d < 10 then char_of (48 + d) else char_of (55 + d))"

definition path_plain :: "char \<Rightarrow> bool" where
  "path_plain c \<longleftrightarrow>
     (let n = (of_char c :: nat) in
      (97 \<le> n \<and> n \<le> 122) \<or> (65 \<le> n \<and> n \<le> 90) \<or> (48 \<le> n \<and> n \<le> 57) \<or> c \<in> set ''-_.~$&+=:@'')"

definition path_escape :: "string \<Rightarrow> string" where
  "path_escape s =
     concat (map (\<lambda>c. if path_plain c then [c]
       else [CHR ''%'', upper_hex (of_char c div 16), upper_hex (of_char c mod 16)]) s)"

definition jstr_obj :: "(string \<times> string) list \<Rightarrow> json" where
  "jstr_obj kvs = JObj (map (\<lambda>(k, v). (k, JStr v)) kvs)"

definition http_status_text :: "nat \<Rightarrow> string \<Rightarrow> string" where
  "http_status_text st body = ''HTTP '' @ show_nat st @ '': '' @ truncate_body body 500"

definition http_error_text :: "nat \<Rightarrow> string \<Rightarrow> string \<Rightarrow> string \<Rightarrow> string" where
  "http_error_text st code msg body =
     ''HTTP '' @ show_nat st @ '' '' @ code @ '' '' @ msg @ '': '' @ truncate_body body 500"

record error_reply =
  er_code :: string
  er_error :: string

definition decode_error :: "(string \<times> json) list \<Rightarrow> error_reply result" where
  "decode_error kvs =
     (case (decode_string ''errcode'' [] kvs, decode_string ''error'' [] kvs) of
        (Inr c, Inr m) \<Rightarrow> Inr \<lparr>er_code = c, er_error = m\<rparr>
      | _ \<Rightarrow> Inl json_mismatch)"

text \<open>One string field together with the error fields.\<close>

definition decode_with_error ::
  "string \<Rightarrow> (string \<times> json) list \<Rightarrow> (string \<times> error_reply) result" where
  "decode_with_error field kvs =
     (case (decode_string field [] kvs, decode_error kvs) of
        (Inr v, Inr e) \<Rightarrow> Inr (v, e)
      | _ \<Rightarrow> Inl json_mismatch)"

section \<open>Tokens and accounts\<close>

definition user_id :: "matrix_config \<Rightarrow> string \<Rightarrow> string" where
  "user_id cfg localpart = ''@'' @ localpart @ '':'' @ mcf_domain cfg"

definition login_request :: "string \<Rightarrow> string \<Rightarrow> http_request" where
  "login_request username password =
     \<lparr>rq_method = ''POST'', rq_path = ''/_matrix/client/v3/login'', rq_token = [],
      rq_body = Some (JObj [(''type'', JStr ''m.login.password''),
        (''identifier'', jstr_obj [(''type'', ''m.id.user''), (''user'', username)]),
        (''password'', JStr password)])\<rparr>"

definition login :: "'w transport \<Rightarrow> string \<Rightarrow> string \<Rightarrow> ('w matrix_state, string result) state" where
  "login tp username password = do {
     r \<leftarrow> do_json tp (login_request username password) (decode_string ''access_token'' []);
     State_Monad.return
       (let at = ''login '' @ username in
        case r of
          Inl e \<Rightarrow> Inl (Wrap at e)
        | Inr (st, body, token) \<Rightarrow>
            if st \<noteq> 200 then Inl (Err (at @ '': '' @ http_status_text st body))
            else if token = [] then Inl (Err (at @ '': empty access token''))
            else Inr token) }"

definition ensure_admin_token ::
  "'w transport \<Rightarrow> matrix_config \<Rightarrow> ('w matrix_state, string result) state" where
  "ensure_admin_token tp cfg = do {
     s \<leftarrow> State_Monad.get;
     (if mcs_admin_token s \<noteq> [] then State_Monad.return (Inr (mcs_admin_token s))
      else do {
        r \<leftarrow> login tp (mcf_admin_user cfg) (mcf_admin_password cfg);
        (case r of
           Inl e \<Rightarrow> State_Monad.return (Inl (Wrap ''admin login'' e))
         | Inr token \<Rightarrow> do {
             _ \<leftarrow> modify_state (\<lambda>s. s\<lparr>mcs_admin_token := token\<rparr>);
             State_Monad.return (Inr token) }) }) }"

text \<open>Operations that need the admin token and report its failure under their own prefix.\<close>

definition with_admin_token ::
  "'w transport \<Rightarrow> matrix_config \<Rightarrow> (go_error \<Rightarrow> 'a) \<Rightarrow> (string \<Rightarrow> ('w matrix_state, 'a) state) \<Rightarrow>
   ('w matrix_state, 'a) state" where
  "with_admin_token tp cfg fail k = do {
     r \<leftarrow> ensure_admin_token tp cfg;
     (case r of Inl e \<Rightarrow> State_Monad.return (fail e) | Inr token \<Rightarrow> k token) }"

definition send_message ::
  "'w transport \<Rightarrow> string \<Rightarrow> string \<Rightarrow> string \<Rightarrow> ('w matrix_state, go_error option) state" where
  "send_message tp room_id token body = do {
     _ \<leftarrow> modify_state (\<lambda>s. s\<lparr>mcs_txn := mcs_txn s + 1\<rparr>);
     s \<leftarrow> State_Monad.get;
     r \<leftarrow> do_json_plain tp \<lparr>rq_method = ''PUT'',
            rq_path = room_path room_id (''send/m.room.message/hc-'' @ show_int (mcs_txn s)),
            rq_token = token,
            rq_body = Some (jstr_obj [(''msgtype'', ''m.text''), (''body'', body)])\<rparr>;
     State_Monad.return
       (let at = ''send message to '' @ room_id in
        case r of
          Inl e \<Rightarrow> Some (Wrap at e)
        | Inr (st, rb) \<Rightarrow> if status_ok st then None else Some (Err (at @ '': '' @ http_status_text st rb))) }"

definition ensure_admin_room_id ::
  "'w transport \<Rightarrow> matrix_config \<Rightarrow> ('w matrix_state, string result) state" where
  "ensure_admin_room_id tp cfg = do {
     s \<leftarrow> State_Monad.get;
     (if mcs_admin_room s \<noteq> [] then State_Monad.return (Inr (mcs_admin_room s))
      else
        let al = ''#admins:'' @ mcf_domain cfg;
            at = ''resolve admin room alias '' @ al
        in do {
          r \<leftarrow> do_json tp \<lparr>rq_method = ''GET'', rq_path = ''/_matrix/client/v3/directory/room/'' @ path_escape al,
                   rq_token = [], rq_body = None\<rparr>
                 (decode_string ''room_id'' []);
          (case r of
             Inl e \<Rightarrow> State_Monad.return (Inl (Wrap at e))
           | Inr (st, body, room) \<Rightarrow>
               if st \<noteq> 200 then State_Monad.return (Inl (Err (at @ '': '' @ http_status_text st body)))
               else if room = [] then State_Monad.return (Inl (Err (at @ '': empty room_id'')))
               else do {
                 _ \<leftarrow> modify_state (\<lambda>s. s\<lparr>mcs_admin_room := room\<rparr>);
                 State_Monad.return (Inr room) }) }) }"

definition send_message_as_admin ::
  "'w transport \<Rightarrow> matrix_config \<Rightarrow> string \<Rightarrow> string \<Rightarrow> ('w matrix_state, go_error option) state" where
  "send_message_as_admin tp cfg room_id body =
     with_admin_token tp cfg (\<lambda>e. Some (Wrap ''send admin message'' e)) (\<lambda>token. do {
       e \<leftarrow> send_message tp room_id token body;
       State_Monad.return (map_option (Wrap ''send admin message'') e) })"

definition admin_command ::
  "'w transport \<Rightarrow> matrix_config \<Rightarrow> string \<Rightarrow> ('w matrix_state, go_error option) state" where
  "admin_command tp cfg command =
     with_admin_token tp cfg (\<lambda>e. Some (Wrap ''admin command'' e)) (\<lambda>token. do {
       room \<leftarrow> ensure_admin_room_id tp cfg;
       (case room of
          Inl e \<Rightarrow> State_Monad.return (Some (Wrap ''admin command'' e))
        | Inr r \<Rightarrow> do {
            e \<leftarrow> send_message tp r token command;
            State_Monad.return (map_option (Wrap ''admin command'') e) }) })"

text \<open>The login attempts after an orphaned account was reset; \<open>left\<close> attempts remain.\<close>

fun login_retries ::
  "'w transport \<Rightarrow> matrix_config \<Rightarrow> string \<Rightarrow> string \<Rightarrow> nat \<Rightarrow> nat \<Rightarrow> go_error \<Rightarrow>
   ('w matrix_state, user_credentials result) state" where
  "login_retries tp cfg username password attempt 0 last_err =
     State_Monad.return (Inl (Wrap
       (''user '' @ username @ '' exists, orphan recovery issued but login still failing'') last_err))"
| "login_retries tp cfg username password attempt (Suc left) last_err = do {
     c \<leftarrow> on_transport (tp_wait tp attempt);
     (case c of
        Some e \<Rightarrow> State_Monad.return (Inl e)
      | None \<Rightarrow> do {
          r \<leftarrow> login tp username password;
          (case r of
             Inr token \<Rightarrow> State_Monad.return (Inr \<lparr>uc_user_id = user_id cfg username,
               uc_access_token = token, uc_password = password, uc_created = False\<rparr>)
           | Inl e \<Rightarrow> login_retries tp cfg username password (Suc attempt) left e) }) }"

definition max_attempts :: nat where "max_attempts = 5"

definition register_request :: "matrix_config \<Rightarrow> string \<Rightarrow> string \<Rightarrow> http_request" where
  "register_request cfg username password =
     \<lparr>rq_method = ''POST'', rq_path = ''/_matrix/client/v3/register'', rq_token = [],
      rq_body = Some (JObj [(''username'', JStr username), (''password'', JStr password),
        (''auth'', jstr_obj [(''type'', ''m.login.registration_token''),
           (''token'', mcf_registration_token cfg)])])\<rparr>"

definition decode_register ::
  "(string \<times> json) list \<Rightarrow> (string \<times> string \<times> error_reply) result" where
  "decode_register kvs =
     (case (decode_string ''user_id'' [] kvs, decode_with_error ''access_token'' kvs) of
        (Inr u, Inr (t, e)) \<Rightarrow> Inr (u, t, e)
      | _ \<Rightarrow> Inl json_mismatch)"

definition reset_password_command :: "matrix_config \<Rightarrow> string \<Rightarrow> string \<Rightarrow> string" where
  "reset_password_command cfg username password =
     ''!admin users reset-password '' @ user_id cfg username @ '' '' @ password"

text \<open>\<open>EnsureUser\<close> from the chosen password on.\<close>

definition register_or_login ::
  "'w transport \<Rightarrow> matrix_config \<Rightarrow> string \<Rightarrow> string \<Rightarrow> ('w matrix_state, user_credentials result) state" where
  "register_or_login tp cfg username password = do {
     r \<leftarrow> do_json tp (register_request cfg username password) decode_register;
     (case r of
        Inl e \<Rightarrow> State_Monad.return (Inl (Wrap (''register user '' @ username) e))
      | Inr (st, _, (uid, token, er)) \<Rightarrow>
          if status_ok st then State_Monad.return (Inr \<lparr>uc_user_id = uid, uc_access_token = token,
             uc_password = password, uc_created = True\<rparr>)
          else if er_code er \<noteq> [] \<and> er_code er \<noteq> ''M_USER_IN_USE'' then
            State_Monad.return (Inl (Err (''register user '' @ username @ '': '' @ er_code er @
              '' ('' @ er_error er @ '')'')))
          else do {
            l \<leftarrow> login tp username password;
            (case l of
               Inr tok \<Rightarrow> State_Monad.return (Inr \<lparr>uc_user_id = user_id cfg username,
                 uc_access_token = tok, uc_password = password, uc_created = False\<rparr>)
             | Inl login_err \<Rightarrow> do {
                 a \<leftarrow> admin_command tp cfg (reset_password_command cfg username password);
                 (case a of
                    Some admin_err \<Rightarrow> State_Monad.return (Inl (Wrap (''user '' @ username @
                      '' exists but login failed ('' @ err_text login_err @ '') and orphan recovery failed'') admin_err))
                  | None \<Rightarrow> login_retries tp cfg username password 1 max_attempts login_err) }) }) }"

definition generate_password :: "'w transport \<Rightarrow> nat \<Rightarrow> ('w matrix_state, string result) state" where
  "generate_password tp n = do {
     r \<leftarrow> on_transport (tp_random tp n);
     State_Monad.return (case r of Inl e \<Rightarrow> Inl e | Inr b \<Rightarrow>
       Inr (concat (map (\<lambda>c. [hex_digit (of_char c div 16), hex_digit (of_char c mod 16)]) b))) }"

definition ensure_user_account ::
  "'w transport \<Rightarrow> matrix_config \<Rightarrow> ensure_user_request \<Rightarrow> ('w matrix_state, user_credentials result) state" where
  "ensure_user_account tp cfg req =
     (if eu_password req \<noteq> [] then register_or_login tp cfg (eu_username req) (eu_password req)
      else do {
        p \<leftarrow> generate_password tp 16;
        (case p of
           Inl e \<Rightarrow> State_Monad.return (Inl (Wrap ''generate password'' e))
         | Inr password \<Rightarrow> register_or_login tp cfg (eu_username req) password) })"

section \<open>Rooms\<close>

text \<open>A request whose result is only an error, as most room operations are.\<close>

definition plain_call ::
  "'w transport \<Rightarrow> string \<Rightarrow> (nat \<Rightarrow> bool) \<Rightarrow> http_request \<Rightarrow> ('w matrix_state, go_error option) state" where
  "plain_call tp at ok req = do {
     r \<leftarrow> do_json_plain tp req;
     State_Monad.return
       (case r of
          Inl e \<Rightarrow> Some (Wrap at e)
        | Inr (st, body) \<Rightarrow> if ok st then None else Some (Err (at @ '': '' @ http_status_text st body))) }"

definition set_display_name ::
  "'w transport \<Rightarrow> string \<Rightarrow> string \<Rightarrow> string \<Rightarrow> ('w matrix_state, go_error option) state" where
  "set_display_name tp uid token name =
     plain_call tp (''set displayName for '' @ uid) (\<lambda>st. st = 200)
       \<lparr>rq_method = ''PUT'', rq_path = ''/_matrix/client/v3/profile/'' @ path_escape uid @ ''/displayname'',
        rq_token = token, rq_body = Some (jstr_obj [(''displayname'', name)])\<rparr>"

definition join_room :: "'w transport \<Rightarrow> string \<Rightarrow> string \<Rightarrow> ('w matrix_state, go_error option) state" where
  "join_room tp room_id token =
     plain_call tp (''join room '' @ room_id) status_ok
       \<lparr>rq_method = ''POST'', rq_path = room_path room_id ''join'', rq_token = token, rq_body = Some (JObj [])\<rparr>"

definition leave_room ::
  "'w transport \<Rightarrow> matrix_config \<Rightarrow> string \<Rightarrow> string \<Rightarrow> ('w matrix_state, go_error option) state" where
  "leave_room tp cfg room_id user_token =
     (let at = ''leave room '' @ room_id;
          leave = (\<lambda>token. plain_call tp at status_ok
            \<lparr>rq_method = ''POST'', rq_path = room_path room_id ''leave'', rq_token = token, rq_body = Some (JObj [])\<rparr>)
      in if user_token \<noteq> [] then leave user_token
         else with_admin_token tp cfg (\<lambda>e. Some (Wrap at e)) leave)"

definition resolve_room_alias ::
  "'w transport \<Rightarrow> matrix_config \<Rightarrow> string \<Rightarrow> ('w matrix_state, string option result) state" where
  "resolve_room_alias tp cfg al =
     (let at = ''resolve alias '' @ al in
      with_admin_token tp cfg (\<lambda>e. Inl (Wrap at e)) (\<lambda>token. do {
        r \<leftarrow> do_json tp \<lparr>rq_method = ''GET'', rq_path = alias_path al, rq_token = token, rq_body = None\<rparr>
               (decode_with_error ''room_id'');
        State_Monad.return
          (case r of
             Inl e \<Rightarrow> Inl (Wrap at e)
           | Inr (st, body, (room, er)) \<Rightarrow>
               if st = 200 then
                 (if room = [] then Inl (Err (at @ '': empty room_id in response'')) else Inr (Some room))
               else if st = 404 \<or> er_code er = ''M_NOT_FOUND'' then Inr None
               else Inl (Err (at @ '': '' @ http_error_text st (er_code er) (er_error er) body))) }))"

definition delete_room_alias ::
  "'w transport \<Rightarrow> matrix_config \<Rightarrow> string \<Rightarrow> ('w matrix_state, go_error option) state" where
  "delete_room_alias tp cfg al =
     (let at = ''delete alias '' @ al in
      with_admin_token tp cfg (\<lambda>e. Some (Wrap at e)) (\<lambda>token. do {
        r \<leftarrow> do_json tp \<lparr>rq_method = ''DELETE'', rq_path = alias_path al, rq_token = token, rq_body = None\<rparr>
               decode_error;
        State_Monad.return
          (case r of
             Inl e \<Rightarrow> Some (Wrap at e)
           | Inr (st, body, er) \<Rightarrow>
               if st = 200 \<or> st = 404 \<or> er_code er = ''M_NOT_FOUND'' then None
               else Some (Err (at @ '': '' @ http_error_text st (er_code er) (er_error er) body))) }))"

definition create_room_body :: "create_room_request \<Rightarrow> json" where
  "create_room_body req = JObj
     ([(''name'', JStr (crr_name req)), (''topic'', JStr (crr_topic req)),
       (''invite'', JArr (map JStr (crr_invite req))), (''preset'', JStr ''trusted_private_chat''),
       (''is_direct'', JBool (crr_is_direct req))] @
      (if crr_alias req \<noteq> [] then [(''room_alias_name'', JStr (crr_alias req))] else []) @
      (if crr_power_levels req \<noteq> [] then
         [(''power_level_content_override'',
           JObj [(''users'', JObj (map (\<lambda>(u, n). (u, JNum n)) (crr_power_levels req)))])] else []) @
      (if crr_e2ee req then
         [(''initial_state'', JArr [JObj [(''type'', JStr ''m.room.encryption''), (''state_key'', JStr []),
           (''content'', jstr_obj [(''algorithm'', ''m.megolm.v1.aes-sha2'')])]])] else []))"

definition create_room_with ::
  "'w transport \<Rightarrow> matrix_config \<Rightarrow> create_room_request \<Rightarrow> string \<Rightarrow> ('w matrix_state, room_info result) state" where
  "create_room_with tp cfg req token =
     (let at = ''create room '' @ go_quote (crr_name req) in do {
        r \<leftarrow> do_json tp \<lparr>rq_method = ''POST'', rq_path = ''/_matrix/client/v3/createRoom'',
               rq_token = token, rq_body = Some (create_room_body req)\<rparr> (decode_with_error ''room_id'');
        (case r of
           Inl e \<Rightarrow> State_Monad.return (Inl (Wrap at e))
         | Inr (st, body, (room, er)) \<Rightarrow>
             if status_ok st then State_Monad.return
               (if room = [] then Inl (Err (at @ '': empty room_id in response''))
                else Inr \<lparr>ri_room_id = room, ri_created = True\<rparr>)
             else if crr_alias req \<noteq> [] \<and> er_code er = ''M_ROOM_IN_USE'' then
               (let al = room_alias_full_for (mcf_domain cfg) (crr_alias req) in do {
                  x \<leftarrow> resolve_room_alias tp cfg al;
                  State_Monad.return
                    (case x of
                       Inl e \<Rightarrow> Inl (Wrap (at @ '': alias '' @ al @ '' in use, resolve failed'') e)
                     | Inr None \<Rightarrow> Inl (Err (at @ '': alias '' @ al @
                         '' reported in use but resolve returned not found''))
                     | Inr (Some existing) \<Rightarrow> Inr \<lparr>ri_room_id = existing, ri_created = False\<rparr>) })
             else State_Monad.return
               (Inl (Err (at @ '': '' @ http_error_text st (er_code er) (er_error er) body)))) })"

definition create_room ::
  "'w transport \<Rightarrow> matrix_config \<Rightarrow> create_room_request \<Rightarrow> ('w matrix_state, room_info result) state" where
  "create_room tp cfg req =
     (if crr_creator_token req \<noteq> [] then create_room_with tp cfg req (crr_creator_token req)
      else with_admin_token tp cfg (\<lambda>e. Inl (Wrap (''create room '' @ go_quote (crr_name req)) e))
             (create_room_with tp cfg req))"

section \<open>Membership\<close>

text \<open>The events of a \<open>chunk\<close>: \<open>state_key\<close> and \<open>content.membership\<close>.\<close>

definition decode_event :: "json \<Rightarrow> (string \<times> string) result" where
  "decode_event v =
     (case decode_object v of
        Inl e \<Rightarrow> Inl e
      | Inr kvs \<Rightarrow>
          (case (decode_string ''state_key'' [] kvs, decode_object (decode_member ''content'' JNull kvs)) of
             (Inr key, Inr c) \<Rightarrow>
               (case decode_string ''membership'' [] c of Inl e \<Rightarrow> Inl e | Inr m \<Rightarrow> Inr (key, m))
           | _ \<Rightarrow> Inl json_mismatch))"

fun decode_events :: "json list \<Rightarrow> (string \<times> string) list result" where
  "decode_events [] = Inr []"
| "decode_events (v # vs) =
     (case (decode_event v, decode_events vs) of
        (Inr e, Inr es) \<Rightarrow> Inr (e # es)
      | _ \<Rightarrow> Inl json_mismatch)"

definition decode_members ::
  "(string \<times> json) list \<Rightarrow> ((string \<times> string) list \<times> error_reply) result" where
  "decode_members kvs =
     (case (case decode_member ''chunk'' JNull kvs of
              JArr vs \<Rightarrow> decode_events vs | JNull \<Rightarrow> Inr [] | _ \<Rightarrow> Inl json_mismatch) of
        Inl e \<Rightarrow> Inl e
      | Inr es \<Rightarrow> (case decode_error kvs of Inl e \<Rightarrow> Inl e | Inr er \<Rightarrow> Inr (es, er)))"

definition present_members :: "(string \<times> string) list \<Rightarrow> room_member list" where
  "present_members evs =
     map (\<lambda>(k, m). \<lparr>rm_user_id = k, rm_membership = m\<rparr>)
       (filter (\<lambda>(k, m). k \<noteq> [] \<and> (m = ''join'' \<or> m = ''invite'')) evs)"

definition list_room_members_with_token ::
  "'w transport \<Rightarrow> string \<Rightarrow> string \<Rightarrow> ('w matrix_state, room_member list result) state" where
  "list_room_members_with_token tp room_id token =
     (let at = ''list members '' @ room_id in
      if token = [] then State_Monad.return (Inl (Err (at @ '': empty user token'')))
      else do {
        r \<leftarrow> do_json tp \<lparr>rq_method = ''GET'', rq_path = room_path room_id ''members'', rq_token = token,
               rq_body = None\<rparr> decode_members;
        State_Monad.return
          (case r of
             Inl e \<Rightarrow> Inl (Wrap at e)
           | Inr (st, body, (evs, er)) \<Rightarrow>
               if st \<noteq> 200 then Inl (Err (at @ '': '' @ http_error_text st (er_code er) (er_error er) body))
               else Inr (present_members evs)) })"

definition list_room_members ::
  "'w transport \<Rightarrow> matrix_config \<Rightarrow> string \<Rightarrow> ('w matrix_state, room_member list result) state" where
  "list_room_members tp cfg room_id =
     with_admin_token tp cfg (\<lambda>e. Inl (Wrap (''list members '' @ room_id) e))
       (list_room_members_with_token tp room_id)"

definition already_member_reply :: "error_reply \<Rightarrow> bool" where
  "already_member_reply er \<longleftrightarrow> er_code er = ''M_FORBIDDEN'' \<and>
     (str_contains (to_lower (er_error er)) ''already in'' \<or>
      str_contains (to_lower (er_error er)) ''already a member'')"

definition not_member_reply :: "error_reply \<Rightarrow> bool" where
  "not_member_reply er \<longleftrightarrow> er_code er = ''M_FORBIDDEN'' \<and>
     (str_contains (to_lower (er_error er)) ''not in'' \<or>
      str_contains (to_lower (er_error er)) ''not a member'' \<or>
      str_contains (to_lower (er_error er)) ''cannot kick'')"

definition invite_to_room_with_token ::
  "'w transport \<Rightarrow> string \<Rightarrow> string \<Rightarrow> string \<Rightarrow> ('w matrix_state, go_error option) state" where
  "invite_to_room_with_token tp room_id uid token =
     (let at = ''invite '' @ uid @ '' to '' @ room_id in
      if token = [] then State_Monad.return (Some (Err (at @ '': empty inviter token'')))
      else do {
        r \<leftarrow> do_json tp \<lparr>rq_method = ''POST'', rq_path = room_path room_id ''invite'', rq_token = token,
               rq_body = Some (jstr_obj [(''user_id'', uid)])\<rparr> decode_error;
        State_Monad.return
          (case r of
             Inl e \<Rightarrow> Some (Wrap at e)
           | Inr (st, body, er) \<Rightarrow>
               if status_ok st then None
               else if st = 403 \<and> already_member_reply er then None
               else Some (Err (at @ '': '' @ http_error_text st (er_code er) (er_error er) body))) })"

definition invite_to_room ::
  "'w transport \<Rightarrow> matrix_config \<Rightarrow> string \<Rightarrow> string \<Rightarrow> ('w matrix_state, go_error option) state" where
  "invite_to_room tp cfg room_id uid =
     with_admin_token tp cfg (\<lambda>e. Some (Wrap (''invite '' @ uid @ '' to '' @ room_id) e))
       (invite_to_room_with_token tp room_id uid)"

definition kick_from_room_with_token ::
  "'w transport \<Rightarrow> string \<Rightarrow> string \<Rightarrow> string \<Rightarrow> string \<Rightarrow> ('w matrix_state, go_error option) state" where
  "kick_from_room_with_token tp room_id uid reason token =
     (let at = ''kick '' @ uid @ '' from '' @ room_id in
      if token = [] then State_Monad.return (Some (Err (at @ '': empty kicker token'')))
      else do {
        r \<leftarrow> do_json tp \<lparr>rq_method = ''POST'', rq_path = room_path room_id ''kick'', rq_token = token,
               rq_body = Some (jstr_obj ((''user_id'', uid) # (if reason \<noteq> [] then [(''reason'', reason)] else [])))\<rparr>
               decode_error;
        State_Monad.return
          (case r of
             Inl e \<Rightarrow> Some (Wrap at e)
           | Inr (st, body, er) \<Rightarrow>
               if status_ok st \<or> st = 404 then None
               else if st = 403 \<and> not_member_reply er then None
               else Some (Err (at @ '': '' @ http_error_text st (er_code er) (er_error er) body))) })"

definition kick_from_room ::
  "'w transport \<Rightarrow> matrix_config \<Rightarrow> string \<Rightarrow> string \<Rightarrow> string \<Rightarrow> ('w matrix_state, go_error option) state" where
  "kick_from_room tp cfg room_id uid reason =
     with_admin_token tp cfg (\<lambda>e. Some (Wrap (''kick '' @ uid @ '' from '' @ room_id) e))
       (kick_from_room_with_token tp room_id uid reason)"

definition list_joined_rooms :: "'w transport \<Rightarrow> string \<Rightarrow> ('w matrix_state, string list result) state" where
  "list_joined_rooms tp token = do {
     r \<leftarrow> do_json tp \<lparr>rq_method = ''GET'', rq_path = ''/_matrix/client/v3/joined_rooms'', rq_token = token,
            rq_body = None\<rparr> (decode_strings ''joined_rooms'' []);
     State_Monad.return
       (case r of
          Inl e \<Rightarrow> Inl (Wrap ''list joined rooms'' e)
        | Inr (st, body, rooms) \<Rightarrow>
            if st \<noteq> 200 then Inl (Err (''list joined rooms: '' @ http_status_text st body)) else Inr rooms) }"

definition tuwunel_client :: "'w transport \<Rightarrow> matrix_config \<Rightarrow> 'w matrix_state matrix_ops" where
  "tuwunel_client tp cfg =
     \<lparr>mo_ensure_user = ensure_user_account tp cfg, mo_create_room = create_room tp cfg,
      mo_resolve_alias = resolve_room_alias tp cfg, mo_delete_alias = delete_room_alias tp cfg,
      mo_join = join_room tp, mo_leave = leave_room tp cfg, mo_send = send_message tp,
      mo_send_as_admin = send_message_as_admin tp cfg, mo_login = login tp,
      mo_set_display_name = set_display_name tp, mo_admin_command = admin_command tp cfg,
      mo_joined_rooms = list_joined_rooms tp, mo_members = list_room_members tp cfg,
      mo_members_as = list_room_members_with_token tp, mo_invite = invite_to_room tp cfg,
      mo_invite_as = invite_to_room_with_token tp, mo_kick = kick_from_room tp cfg,
      mo_kick_as = kick_from_room_with_token tp, mo_user_id = user_id cfg\<rparr>"

end
