(* ===== verification/Provisioner_Rooms.thy ===== *)
theory Provisioner_Rooms
  imports Agents_Md Matrix_Client Credentials Minio_Policy Provisioner_Expose Team_Reconcile
begin

text \<open>
  \<open>internal/service/provisioner.go\<close>, first part: the provisioner's collaborators, its cached Matrix
  tokens, the reconciliation of a room's members with a desired list, and the two rooms of a team.
  Matrix, gateway, object store administration and credential store are records of operations.
  Logging is left out.
\<close>

section \<open>Collaborators\<close>

record consumer_request =
  csr_name :: string
  csr_credential_key :: string
  csr_consumer_id :: string

record consumer_result =
  cso_status :: string
  cso_api_key :: string
  cso_consumer_id :: string

text \<open>The operations of \<open>gateway.Client\<close> that the provisioner calls.\<close>

record 'w gateway_ops =
  go_ensure_consumer :: "consumer_request \<Rightarrow> ('w, consumer_result result) state"
  go_delete_consumer :: "string \<Rightarrow> ('w, go_error option) state"
  go_authorize :: "string \<Rightarrow> string \<Rightarrow> ('w, go_error option) state"
  go_deauthorize :: "string \<Rightarrow> string \<Rightarrow> ('w, go_error option) state"
  go_ports :: "'w expose_gateway"

record 'w storage_admin =
  ad_ensure_user :: "string \<Rightarrow> string \<Rightarrow> ('w, go_error option) state"
  ad_ensure_policy :: "policy_request \<Rightarrow> ('w, go_error option) state"
  ad_delete_user :: "string \<Rightarrow> ('w, go_error option) state"

record service_account =
  svc_name :: string
  svc_namespace :: string
  svc_labels :: smap

record 'w service_accounts =
  sv_get :: "string \<Rightarrow> ('w, go_error option) state"
  sv_create :: "service_account \<Rightarrow> ('w, go_error option) state"
  sv_delete :: "string \<Rightarrow> ('w, go_error option) state"
  sv_token :: "string \<Rightarrow> string \<Rightarrow> int \<Rightarrow> ('w, string result) state"

text \<open>\<open>None\<close> as the object store administration or the Kubernetes client is nil.\<close>

record 'w provisioner =
  pv_matrix :: "'w matrix_ops"
  pv_gateway :: "'w gateway_ops"
  pv_oss_admin :: "'w storage_admin option"
  pv_creds :: "'w credential_store"
  pv_random :: "nat \<Rightarrow> ('w, string result) state"
  pv_accounts :: "'w service_accounts option"
  pv_namespace :: string
  pv_auth_audience :: string
  pv_matrix_domain :: string
  pv_admin_user :: string
  pv_prefix :: resource_prefix
  pv_controller_name :: string
  pv_manager_password :: string
  pv_manager_gateway_key :: string
  pv_manager_enabled :: bool

definition matrix_user_id :: "'w provisioner \<Rightarrow> string \<Rightarrow> string" where
  "matrix_user_id p name = mo_user_id (pv_matrix p) name"

definition admin_matrix_id :: "'w provisioner \<Rightarrow> string" where
  "admin_matrix_id p = matrix_user_id p (pv_admin_user p)"

definition room_alias_localpart :: "string \<Rightarrow> string \<Rightarrow> string" where
  "room_alias_localpart kind name = ''hiclaw-'' @ kind @ ''-'' @ name"

definition room_alias_full :: "'w provisioner \<Rightarrow> string \<Rightarrow> string" where
  "room_alias_full p localpart = ''#'' @ localpart @ '':'' @ pv_matrix_domain p"

section \<open>String lists\<close>

definition append_unique_strings :: "string list \<Rightarrow> string list \<Rightarrow> string list" where
  "append_unique_strings base values = dedup_loop (\<lambda>v. v = []) [] (base @ values)"

definition unique_strings :: "string list \<Rightarrow> string list" where
  "unique_strings values = append_unique_strings [] values"

definition without_string :: "string list \<Rightarrow> string \<Rightarrow> string list" where
  "without_string values target = filter (\<lambda>v. v \<noteq> target) values"

interpretation unique_strings: stable_dedup unique_strings "\<lambda>v. v = []"
  by unfold_locales
    (simp_all add: unique_strings_def append_unique_strings_def dedup_loop_set dedup_loop_distinct
      dedup_loop_subseq)

lemma append_unique_set [simp]: "set (append_unique_strings b v) = (set b \<union> set v) - {[]}"
  by (auto simp: append_unique_strings_def dedup_loop_set)

lemma append_unique_distinct [simp]: "distinct (append_unique_strings b v)"
  by (simp add: append_unique_strings_def dedup_loop_distinct)

section \<open>Tokens\<close>

text \<open>The credentials that the code updates through the pointer are returned beside the result.\<close>

definition ensure_matrix_token ::
  "'w provisioner \<Rightarrow> string \<Rightarrow> worker_credentials \<Rightarrow> ('w, string result \<times> worker_credentials) state" where
  "ensure_matrix_token p username creds =
     (if wc_matrix_token creds \<noteq> [] then State_Monad.return (Inr (wc_matrix_token creds), creds)
      else do {
        r \<leftarrow> mo_login (pv_matrix p) username (wc_matrix_password creds);
        State_Monad.return
          (case r of Inl e \<Rightarrow> (Inl e, creds) | Inr tok \<Rightarrow> (Inr tok, creds\<lparr>wc_matrix_token := tok\<rparr>)) })"

definition load_worker_credentials ::
  "'w provisioner \<Rightarrow> string \<Rightarrow> string \<Rightarrow> ('w, worker_credentials option \<times> go_error option) state" where
  "load_worker_credentials p credential_name worker_name = do {
     r \<leftarrow> cs_load (pv_creds p) credential_name;
     (if snd r \<noteq> None \<or> fst r \<noteq> None \<or> credential_name = worker_name then State_Monad.return r
      else do {
        l \<leftarrow> cs_load (pv_creds p) worker_name;
        (case l of
           (Some legacy, None) \<Rightarrow> do {
             e \<leftarrow> cs_save (pv_creds p) credential_name legacy;
             State_Monad.return
               (case e of
                  Some err \<Rightarrow> (None, Some (Wrap ''migrate legacy worker credentials'' err))
                | None \<Rightarrow> (Some legacy, None)) }
         | _ \<Rightarrow> State_Monad.return l) }) }"

definition refresh_of :: "string \<Rightarrow> worker_credentials \<Rightarrow> refresh_result" where
  "refresh_of token creds =
     \<lparr>rr_matrix_token = token, rr_gateway_key = wc_gateway_key creds,
      rr_minio_password = wc_minio_password creds, rr_matrix_password = wc_matrix_password creds\<rparr>"

text \<open>The part that workers and the manager share: token, and the credentials saved if it is new.\<close>

definition refresh_token ::
  "'w provisioner \<Rightarrow> string \<Rightarrow> string \<Rightarrow> worker_credentials \<Rightarrow> ('w, refresh_result result) state" where
  "refresh_token p key username creds = do {
     t \<leftarrow> ensure_matrix_token p username creds;
     (case t of
        (Inl e, _) \<Rightarrow> State_Monad.return (Inl (Wrap ''Matrix login failed'' e))
      | (Inr token, creds') \<Rightarrow>
          if wc_matrix_token creds \<noteq> [] then State_Monad.return (Inr (refresh_of token creds'))
          else do {
            e \<leftarrow> cs_save (pv_creds p) key creds';
            State_Monad.return
              (case e of
                 Some err \<Rightarrow> Inl (Wrap ''persist matrix token'' err)
               | None \<Rightarrow> Inr (refresh_of token creds')) }) }"

definition refresh_worker_credentials ::
  "'w provisioner \<Rightarrow> string \<Rightarrow> string \<Rightarrow> ('w, refresh_result result) state" where
  "refresh_worker_credentials p credential_name0 worker_name =
     (let credential_name = (if credential_name0 = [] then worker_name else credential_name0) in do {
        r \<leftarrow> load_worker_credentials p credential_name worker_name;
        (case r of
           (Some creds, None) \<Rightarrow> refresh_token p credential_name worker_name creds
         | _ \<Rightarrow> State_Monad.return (Inl (Err (''credentials not found for '' @ credential_name)))) })"

definition refresh_credentials :: "'w provisioner \<Rightarrow> string \<Rightarrow> ('w, refresh_result result) state" where
  "refresh_credentials p worker_name = refresh_worker_credentials p worker_name worker_name"

definition refresh_manager_credentials :: "'w provisioner \<Rightarrow> string \<Rightarrow> ('w, refresh_result result) state" where
  "refresh_manager_credentials p manager_name = do {
     r \<leftarrow> cs_load (pv_creds p) manager_name;
     (case r of
        (Some creds, None) \<Rightarrow> refresh_token p manager_name ''manager'' creds
      | _ \<Rightarrow> State_Monad.return (Inl (Err (''credentials not found for manager '' @ manager_name)))) }"

definition leader_invite_token :: "'w provisioner \<Rightarrow> string \<Rightarrow> string \<Rightarrow> ('w, string result) state" where
  "leader_invite_token p credential_name leader_name = do {
     r \<leftarrow> refresh_worker_credentials p (if credential_name = [] then leader_name else credential_name) leader_name;
     State_Monad.return
       (case r of
          Inl e \<Rightarrow> Inl e
        | Inr rr \<Rightarrow> if rr_matrix_token rr = [] then Inl (Err ''leader matrix token is empty'')
                    else Inr (rr_matrix_token rr)) }"

section \<open>Room membership\<close>

definition should_force_leave_after_kick_error :: "go_error \<Rightarrow> bool" where
  "should_force_leave_after_kick_error e \<longleftrightarrow>
     (let msg = to_lower (err_text e) in
      str_contains msg ''m_forbidden'' \<and>
      (str_contains msg ''not have enough power'' \<or> str_contains msg ''power''))"

definition force_leave_room :: "'w provisioner \<Rightarrow> string \<Rightarrow> string \<Rightarrow> ('w, go_error option) state" where
  "force_leave_room p uid room_id =
     mo_admin_command (pv_matrix p) (''!admin users force-leave-room '' @ uid @ '' '' @ room_id)"

definition observed_membership :: "room_member list \<Rightarrow> string \<Rightarrow> bool" where
  "observed_membership members uid \<longleftrightarrow> list_ex (\<lambda>m. rm_user_id m = uid) members"

definition observed_room_membership_with_token ::
  "'w provisioner \<Rightarrow> string \<Rightarrow> string \<Rightarrow> string \<Rightarrow> ('w, bool result) state" where
  "observed_room_membership_with_token p room_id uid token = do {
     r \<leftarrow> mo_members_as (pv_matrix p) room_id token;
     State_Monad.return (case r of Inl e \<Rightarrow> Inl e | Inr ms \<Rightarrow> Inr (observed_membership ms uid)) }"

definition list_members :: "'w provisioner \<Rightarrow> string \<Rightarrow> string \<Rightarrow> ('w, room_member list result) state" where
  "list_members p room_id actor_token =
     (if actor_token \<noteq> [] then mo_members_as (pv_matrix p) room_id actor_token
      else mo_members (pv_matrix p) room_id)"

definition invite_member :: "'w provisioner \<Rightarrow> string \<Rightarrow> string \<Rightarrow> string \<Rightarrow> ('w, go_error option) state" where
  "invite_member p room_id actor_token uid =
     (if actor_token \<noteq> [] then mo_invite_as (pv_matrix p) room_id uid actor_token
      else mo_invite (pv_matrix p) room_id uid)"

definition kick_member :: "'w provisioner \<Rightarrow> string \<Rightarrow> string \<Rightarrow> string \<Rightarrow> ('w, go_error option) state" where
  "kick_member p room_id actor_token uid =
     (if actor_token \<noteq> []
      then mo_kick_as (pv_matrix p) room_id uid ''removed from desired member set'' actor_token
      else mo_kick (pv_matrix p) room_id uid ''removed from desired member set'')"

definition keep_first :: "go_error option \<Rightarrow> go_error option \<Rightarrow> go_error option" where
  "keep_first old e = (case old of None \<Rightarrow> e | Some x \<Rightarrow> Some x)"

fun invite_loop ::
  "'w provisioner \<Rightarrow> string \<Rightarrow> string \<Rightarrow> string list \<Rightarrow> string list \<Rightarrow> go_error option \<Rightarrow>
   ('w, go_error option) state" where
  "invite_loop p room tok current [] err = State_Monad.return err"
| "invite_loop p room tok current (u # us) err =
     (if u \<in> set current then invite_loop p room tok current us err
      else do {
        e \<leftarrow> invite_member p room tok u;
        invite_loop p room tok current us (keep_first err e) })"

text \<open>
  The removal of one member: a refusal for lack of power falls back to the admin bot, whose
  result is only looked at for the log.
\<close>

definition remove_member :: "'w provisioner \<Rightarrow> string \<Rightarrow> string \<Rightarrow> string \<Rightarrow> ('w, go_error option) state" where
  "remove_member p room tok uid = do {
     e \<leftarrow> kick_member p room tok uid;
     (case e of
        None \<Rightarrow> State_Monad.return None
      | Some err \<Rightarrow>
          if should_force_leave_after_kick_error err then do {
            f \<leftarrow> force_leave_room p uid room;
            (case f of
               None \<Rightarrow> do { _ \<leftarrow> mo_members (pv_matrix p) room; State_Monad.return None }
             | Some ferr \<Rightarrow> State_Monad.return (Some ferr)) }
          else State_Monad.return (Some err)) }"

fun kick_loop ::
  "'w provisioner \<Rightarrow> string \<Rightarrow> string \<Rightarrow> string list \<Rightarrow> room_member list \<Rightarrow> go_error option \<Rightarrow>
   ('w, go_error option) state" where
  "kick_loop p room tok desired [] err = State_Monad.return err"
| "kick_loop p room tok desired (m # ms) err =
     (if rm_user_id m \<noteq> [] \<and> rm_user_id m \<in> set desired then kick_loop p room tok desired ms err
      else if rm_user_id m = admin_matrix_id p then kick_loop p room tok desired ms err
      else do {
        e \<leftarrow> remove_member p room tok (rm_user_id m);
        kick_loop p room tok desired ms (keep_first err e) })"

definition reconcile_room_membership_with ::
  "'w provisioner \<Rightarrow> string \<Rightarrow> string list \<Rightarrow> string \<Rightarrow> ('w, go_error option) state" where
  "reconcile_room_membership_with p room desired actor_token = do {
     r \<leftarrow> list_members p room actor_token;
     (case r of
        Inl e \<Rightarrow> State_Monad.return (Some (Wrap (''list members of '' @ room) e))
      | Inr current \<Rightarrow> do {
          err \<leftarrow> invite_loop p room actor_token (map rm_user_id current) desired None;
          kick_loop p room actor_token desired current err }) }"

definition reconcile_room_membership ::
  "'w provisioner \<Rightarrow> string \<Rightarrow> string list \<Rightarrow> ('w, go_error option) state" where
  "reconcile_room_membership p room desired = reconcile_room_membership_with p room desired []"

definition ensure_room_member :: "'w provisioner \<Rightarrow> string \<Rightarrow> string \<Rightarrow> ('w, go_error option) state" where
  "ensure_room_member p room uid = mo_invite (pv_matrix p) room uid"

definition ensure_room_non_member ::
  "'w provisioner \<Rightarrow> string \<Rightarrow> string \<Rightarrow> string \<Rightarrow> ('w, go_error option) state" where
  "ensure_room_non_member p room uid reason = mo_kick (pv_matrix p) room uid reason"

section \<open>Identities of a team\<close>

definition resolve_team_admin_matrix_id :: "'w provisioner \<Rightarrow> team_admin_spec option \<Rightarrow> string option" where
  "resolve_team_admin_matrix_id p admin =
     (case admin of
        None \<Rightarrow> None
      | Some a \<Rightarrow>
          if tas_matrix_user_id a \<noteq> [] then Some (tas_matrix_user_id a)
          else if tas_name a \<noteq> [] then Some (matrix_user_id p (tas_name a))
          else None)"

definition human_matrix_ids :: "'w provisioner \<Rightarrow> team_member_spec \<Rightarrow> string list" where
  "human_matrix_ids p m =
     (if tms_matrix_user_id m \<noteq> [] then [tms_matrix_user_id m]
      else if tms_name m \<noteq> [] then [matrix_user_id p (tms_name m)]
      else [])"

definition resolve_team_coordinator_matrix_ids ::
  "'w provisioner \<Rightarrow> team_admin_spec option \<Rightarrow> team_member_spec list \<Rightarrow> string list" where
  "resolve_team_coordinator_matrix_ids p admin members =
     unique_strings
       ((case resolve_team_admin_matrix_id p admin of Some i \<Rightarrow> [i] | None \<Rightarrow> []) @
        concat (map (human_matrix_ids p) (filter team_member_is_coordinator members)))"

definition resolve_team_member_matrix_ids :: "'w provisioner \<Rightarrow> team_member_spec list \<Rightarrow> string list" where
  "resolve_team_member_matrix_ids p members = unique_strings (concat (map (human_matrix_ids p) members))"

section \<open>The rooms of a team\<close>

type_synonym power_levels = "(string \<times> int) list"

definition set_level :: "string \<Rightarrow> power_levels \<Rightarrow> power_levels" where
  "set_level u m = AList.update u 100 m"

definition room_owner :: "'w provisioner \<Rightarrow> string option \<Rightarrow> string" where
  "room_owner p team_admin = (case team_admin of Some a \<Rightarrow> a | None \<Rightarrow> admin_matrix_id p)"

definition team_room_desired :: "'w provisioner \<Rightarrow> team_room_request \<Rightarrow> string list" where
  "team_room_desired p req =
     (let d0 = append_unique_strings [] [room_owner p (resolve_team_admin_matrix_id p (tq_admin_spec req))];
          d1 = append_unique_strings d0 [matrix_user_id p (tq_leader_name req)];
          d2 = append_unique_strings d1
                 (resolve_team_coordinator_matrix_ids p (tq_admin_spec req) (tq_human_members req));
          d3 = append_unique_strings d2 (resolve_team_member_matrix_ids p (tq_human_members req))
      in fold (\<lambda>wn d. append_unique_strings d [matrix_user_id p wn]) (tq_worker_names req) d3)"

definition room_power_levels :: "'w provisioner \<Rightarrow> string \<Rightarrow> string option \<Rightarrow> power_levels" where
  "room_power_levels p leader_id team_admin =
     set_level (room_owner p team_admin)
       (set_level leader_id (set_level (matrix_user_id p ''manager'') []))"

definition room_invites :: "string list \<Rightarrow> string option \<Rightarrow> string list" where
  "room_invites desired team_admin =
     (case team_admin of Some a \<Rightarrow> without_string desired a | None \<Rightarrow> desired)"

definition team_room_create :: "'w provisioner \<Rightarrow> team_room_request \<Rightarrow> create_room_request" where
  "team_room_create p req =
     (let team_admin = resolve_team_admin_matrix_id p (tq_admin_spec req) in
      \<lparr>crr_name = ''Team: '' @ tq_team_name req, crr_topic = ''Team room for '' @ tq_team_name req,
       crr_invite = room_invites (team_room_desired p req) team_admin,
       crr_power_levels = room_power_levels p (matrix_user_id p (tq_leader_name req)) team_admin,
       crr_creator_token = tq_actor_token req, crr_e2ee = False, crr_is_direct = False,
       crr_alias = room_alias_localpart ''team'' (tq_team_name req)\<rparr>)"

text \<open>Membership of the team room, as the team admin when there is one.\<close>

definition sync_team_room :: "'w provisioner \<Rightarrow> team_room_request \<Rightarrow> string \<Rightarrow> ('w, go_error option) state" where
  "sync_team_room p req room =
     (case resolve_team_admin_matrix_id p (tq_admin_spec req) of
        None \<Rightarrow> do {
          e \<leftarrow> reconcile_room_membership p room (team_room_desired p req);
          State_Monad.return (map_option (Wrap ''reconcile team room membership'') e) }
      | Some team_admin \<Rightarrow> do {
          j \<leftarrow> mo_join (pv_matrix p) room (tq_actor_token req);
          (case j of
             Some e \<Rightarrow> State_Monad.return (Some (Wrap ''team admin join team room'' e))
           | None \<Rightarrow> do {
               e \<leftarrow> reconcile_room_membership_with p room (team_room_desired p req) (tq_actor_token req);
               (case e of
                  Some err \<Rightarrow> State_Monad.return
                    (Some (Wrap ''reconcile team room membership as team admin'' err))
                | None \<Rightarrow>
                    if team_admin = admin_matrix_id p then State_Monad.return None
                    else do {
                      o1 \<leftarrow> observed_room_membership_with_token p room (admin_matrix_id p) (tq_actor_token req);
                      (case o1 of
                         Inl err \<Rightarrow> State_Monad.return
                           (Some (Wrap ''check global admin team room membership'' err))
                       | Inr present \<Rightarrow>
                           if \<not> present then State_Monad.return None
                           else do {
                             l \<leftarrow> mo_leave (pv_matrix p) room [];
                             State_Monad.return (map_option (Wrap ''global admin leave team room'') l) }) }) }) })"

definition ensure_team_admin_joined_leader_dm ::
  "'w provisioner \<Rightarrow> string \<Rightarrow> string \<Rightarrow> string \<Rightarrow> string \<Rightarrow> string \<Rightarrow> bool \<Rightarrow> ('w, go_error option) state" where
  "ensure_team_admin_joined_leader_dm p room team_admin token credential_name leader_name created = do {
     j \<leftarrow> mo_join (pv_matrix p) room token;
     (case j of
        None \<Rightarrow> State_Monad.return None
      | Some join_err \<Rightarrow>
          if created then State_Monad.return (Some (Wrap ''team admin join leader DM room'' join_err))
          else do {
            t \<leftarrow> leader_invite_token p credential_name leader_name;
            (case t of
               Inl _ \<Rightarrow> State_Monad.return (Some (Wrap ''team admin join leader DM room'' join_err))
             | Inr leader_token \<Rightarrow> do {
                 i \<leftarrow> mo_invite_as (pv_matrix p) room team_admin leader_token;
                 (case i of
                    Some e \<Rightarrow> State_Monad.return (Some (Wrap ''leader invite team admin to leader DM room'' e))
                  | None \<Rightarrow> do {
                      r \<leftarrow> mo_join (pv_matrix p) room token;
                      State_Monad.return
                        (map_option (Wrap ''team admin join leader DM room after leader invite'') r) }) }) }) }"

definition leader_dm_desired :: "'w provisioner \<Rightarrow> team_room_request \<Rightarrow> string list" where
  "leader_dm_desired p req =
     append_unique_strings [matrix_user_id p (tq_leader_name req)]
       [room_owner p (resolve_team_admin_matrix_id p (tq_admin_spec req))]"

definition leader_dm_create :: "'w provisioner \<Rightarrow> team_room_request \<Rightarrow> create_room_request" where
  "leader_dm_create p req =
     (let team_admin = resolve_team_admin_matrix_id p (tq_admin_spec req) in
      \<lparr>crr_name = ''Leader DM: '' @ tq_leader_name req,
       crr_topic = ''DM channel for team leader '' @ tq_leader_name req,
       crr_invite = room_invites (leader_dm_desired p req) team_admin,
       crr_power_levels = room_power_levels p (matrix_user_id p (tq_leader_name req)) team_admin,
       crr_creator_token = tq_actor_token req, crr_e2ee = False, crr_is_direct = False,
       crr_alias = room_alias_localpart ''leader-dm'' (tq_leader_name req)\<rparr>)"

text \<open>The token with which the members of the leader room are reconciled.\<close>

definition leader_dm_actor_token ::
  "'w provisioner \<Rightarrow> team_room_request \<Rightarrow> bool \<Rightarrow> ('w, string) state" where
  "leader_dm_actor_token p req created =
     (case resolve_team_admin_matrix_id p (tq_admin_spec req) of
        Some _ \<Rightarrow> State_Monad.return (tq_actor_token req)
      | None \<Rightarrow>
          if created then State_Monad.return []
          else do {
            t \<leftarrow> leader_invite_token p (tq_leader_credential_name req) (tq_leader_name req);
            State_Monad.return (case t of Inl _ \<Rightarrow> [] | Inr token \<Rightarrow> token) })"

definition leader_dm_admin_joined ::
  "'w provisioner \<Rightarrow> team_room_request \<Rightarrow> room_info \<Rightarrow> ('w, go_error option) state" where
  "leader_dm_admin_joined p req room =
     (case resolve_team_admin_matrix_id p (tq_admin_spec req) of
        None \<Rightarrow> State_Monad.return None
      | Some team_admin \<Rightarrow> ensure_team_admin_joined_leader_dm p (ri_room_id room) team_admin
          (tq_actor_token req) (tq_leader_credential_name req) (tq_leader_name req) (ri_created room))"

definition provision_leader_dm :: "'w provisioner \<Rightarrow> team_room_request \<Rightarrow> ('w, string result) state" where
  "provision_leader_dm p req = do {
     c \<leftarrow> mo_create_room (pv_matrix p) (leader_dm_create p req);
     (case c of
        Inl e \<Rightarrow> State_Monad.return (Inl (Wrap ''leader DM room creation failed'' e))
      | Inr room \<Rightarrow> do {
          j \<leftarrow> leader_dm_admin_joined p req room;
          (case j of
             Some e \<Rightarrow> State_Monad.return (Inl e)
           | None \<Rightarrow> do {
               token \<leftarrow> leader_dm_actor_token p req (ri_created room);
               e \<leftarrow> reconcile_room_membership_with p (ri_room_id room) (leader_dm_desired p req) token;
               State_Monad.return
                 (case e of
                    Some err \<Rightarrow> Inl (Wrap ''reconcile leader DM membership'' err)
                  | None \<Rightarrow> Inr (ri_room_id room)) }) }) }"

definition provision_team_rooms ::
  "'w provisioner \<Rightarrow> team_room_request \<Rightarrow> ('w, team_room_result result) state" where
  "provision_team_rooms p req =
     (let team_admin = resolve_team_admin_matrix_id p (tq_admin_spec req) in
      if tq_admin_spec req \<noteq> None \<and> team_admin = None
      then State_Monad.return (Inl (Err ''team admin is configured but has no matrix identity''))
      else if team_admin \<noteq> None \<and> tq_actor_token req = []
      then State_Monad.return (Inl (Err ''team admin actor token is required when team admin is configured''))
      else do {
        c \<leftarrow> mo_create_room (pv_matrix p) (team_room_create p req);
        (case c of
           Inl e \<Rightarrow> State_Monad.return (Inl (Wrap ''team room creation failed'' e))
         | Inr room \<Rightarrow> do {
             s \<leftarrow> sync_team_room p req (ri_room_id room);
             (case s of
                Some e \<Rightarrow> State_Monad.return (Inl e)
              | None \<Rightarrow> do {
                  d \<leftarrow> provision_leader_dm p req;
                  State_Monad.return
                    (case d of
                       Inl e \<Rightarrow> Inl e
                     | Inr dm \<Rightarrow> Inr \<lparr>tm_team_room_id = ri_room_id room, tm_leader_dm_room_id = dm\<rparr>) }) }) })"

definition delete_team_room_aliases ::
  "'w provisioner \<Rightarrow> string \<Rightarrow> string \<Rightarrow> ('w, go_error option) state" where
  "delete_team_room_aliases p team_name leader_name = do {
     _ \<leftarrow> mo_delete_alias (pv_matrix p) (room_alias_full p (room_alias_localpart ''team'' team_name));
     _ \<leftarrow> (if leader_name \<noteq> []
           then mo_delete_alias (pv_matrix p) (room_alias_full p (room_alias_localpart ''leader-dm'' leader_name))
           else State_Monad.return None);
     State_Monad.return None }"

end
