(* ===== verification/Provisioner_Agents.thy ===== *)
theory Provisioner_Agents
  imports Provisioner_Rooms Auth_Authenticator
begin

text \<open>
  \<open>internal/service/provisioner.go\<close>, second part, with \<open>provisioner_sa.go\<close> and
  \<open>provisioner_human.go\<close>: provisioning and removal of workers, managers and humans. The operations
  form the record of the member reconciler, so that its phases run on the real provisioner. The
  two-second waits for the gateway and logging are left out.
\<close>

section \<open>Leaving and deleting rooms\<close>

fun leave_loop :: "'w provisioner \<Rightarrow> string \<Rightarrow> string list \<Rightarrow> ('w, unit) state" where
  "leave_loop p token [] = State_Monad.return ()"
| "leave_loop p token (r # rs) = do { _ \<leftarrow> mo_leave (pv_matrix p) r token; leave_loop p token rs }"

definition leave_all_rooms :: "'w provisioner \<Rightarrow> string \<Rightarrow> string \<Rightarrow> ('w, go_error option) state" where
  "leave_all_rooms p creds_key username = do {
     r \<leftarrow> cs_load (pv_creds p) creds_key;
     (case r of
        (_, Some e) \<Rightarrow> State_Monad.return (Some (Wrap (''load credentials for '' @ creds_key) e))
      | (None, None) \<Rightarrow> State_Monad.return None
      | (Some creds, None) \<Rightarrow> do {
          t \<leftarrow> ensure_matrix_token p username creds;
          (case fst t of
             Inl e \<Rightarrow> State_Monad.return (Some (Wrap (''login '' @ username) e))
           | Inr token \<Rightarrow> do {
               rooms \<leftarrow> mo_joined_rooms (pv_matrix p) token;
               (case rooms of
                  Inl e \<Rightarrow> State_Monad.return (Some (Wrap (''list joined rooms for '' @ username) e))
                | Inr rs \<Rightarrow> do { _ \<leftarrow> leave_loop p token rs; State_Monad.return None }) }) }) }"

definition delete_room :: "'w provisioner \<Rightarrow> string \<Rightarrow> ('w, go_error option) state" where
  "delete_room p room_id =
     (if room_id = [] then State_Monad.return None
      else mo_admin_command (pv_matrix p) (''!admin rooms delete-room '' @ room_id))"

definition leave_all_worker_rooms :: "'w provisioner \<Rightarrow> string \<Rightarrow> ('w, go_error option) state" where
  "leave_all_worker_rooms p worker_name = leave_all_rooms p worker_name worker_name"

definition leave_all_manager_rooms :: "'w provisioner \<Rightarrow> string \<Rightarrow> ('w, go_error option) state" where
  "leave_all_manager_rooms p manager_name = leave_all_rooms p manager_name ''manager''"

definition delete_room_alias_of :: "'w provisioner \<Rightarrow> string \<Rightarrow> string \<Rightarrow> ('w, go_error option) state" where
  "delete_room_alias_of p kind name = do {
     _ \<leftarrow> mo_delete_alias (pv_matrix p) (room_alias_full p (room_alias_localpart kind name));
     State_Monad.return None }"

definition delete_worker_room_alias :: "'w provisioner \<Rightarrow> string \<Rightarrow> ('w, go_error option) state" where
  "delete_worker_room_alias p name = delete_room_alias_of p ''worker'' name"

definition delete_manager_room_alias :: "'w provisioner \<Rightarrow> string \<Rightarrow> ('w, go_error option) state" where
  "delete_manager_room_alias p name = delete_room_alias_of p ''manager'' name"

definition delete_worker_credentials :: "'w provisioner \<Rightarrow> string \<Rightarrow> ('w, go_error option) state" where
  "delete_worker_credentials p credential_name = cs_delete (pv_creds p) credential_name"

section \<open>Workers\<close>

text \<open>The chain of fallible steps: an error ends the operation.\<close>

definition step_or_fail :: "('w, 'a result) state \<Rightarrow> string \<Rightarrow> ('a \<Rightarrow> ('w, 'b result) state) \<Rightarrow> ('w, 'b result) state" where
  "step_or_fail m what k = do {
     r \<leftarrow> m;
     (case r of Inl e \<Rightarrow> State_Monad.return (Inl (Wrap what e)) | Inr v \<Rightarrow> k v) }"

definition check_or_fail :: "('w, go_error option) state \<Rightarrow> string \<Rightarrow> ('w, 'b result) state \<Rightarrow> ('w, 'b result) state" where
  "check_or_fail m what k = do {
     r \<leftarrow> m;
     (case r of Some e \<Rightarrow> State_Monad.return (Inl (Wrap what e)) | None \<Rightarrow> k) }"

definition load_result ::
  "('w, worker_credentials option \<times> go_error option) state \<Rightarrow> ('w, worker_credentials option result) state" where
  "load_result m = do {
     r \<leftarrow> m;
     State_Monad.return (case snd r of Some e \<Rightarrow> Inl e | None \<Rightarrow> Inr (fst r)) }"

definition provision_credentials ::
  "'w provisioner \<Rightarrow> string \<Rightarrow> string \<Rightarrow> (worker_credentials \<Rightarrow> ('w, 'b result) state) \<Rightarrow> ('w, 'b result) state" where
  "provision_credentials p credential_name worker_name k =
     step_or_fail (load_result (load_worker_credentials p credential_name worker_name)) ''load credentials''
       (\<lambda>c. case c of
          Some creds \<Rightarrow> k creds
        | None \<Rightarrow> step_or_fail (generate_credentials (pv_random p)) ''generate credentials'' (\<lambda>creds.
            check_or_fail (cs_save (pv_creds p) credential_name creds) ''save credentials'' (k creds)))"

definition with_user :: "worker_credentials \<Rightarrow> user_credentials \<Rightarrow> worker_credentials" where
  "with_user creds uc =
     (let c = creds\<lparr>wc_matrix_password := uc_password uc\<rparr>
      in if uc_access_token uc \<noteq> [] then c\<lparr>wc_matrix_token := uc_access_token uc\<rparr> else c)"

definition provision_storage ::
  "'w provisioner \<Rightarrow> policy_request \<Rightarrow> string \<Rightarrow> ('w, 'b result) state \<Rightarrow> ('w, 'b result) state" where
  "provision_storage p req minio_password k =
     (case pv_oss_admin p of
        None \<Rightarrow> k
      | Some ad \<Rightarrow>
          check_or_fail (ad_ensure_user ad (por_worker_name req) minio_password) ''MinIO user creation failed''
            (check_or_fail (ad_ensure_policy ad req) ''MinIO policy creation failed'' k))"

definition room_authority :: "'w provisioner \<Rightarrow> worker_provision_request \<Rightarrow> string" where
  "room_authority p req =
     (if wq_team_leader_name req \<noteq> [] then matrix_user_id p (wq_team_leader_name req)
      else if pv_manager_enabled p then matrix_user_id p ''manager''
      else admin_matrix_id p)"

definition worker_room_create :: "'w provisioner \<Rightarrow> worker_provision_request \<Rightarrow> create_room_request" where
  "worker_room_create p req =
     (let admin = admin_matrix_id p; authority = room_authority p req;
          worker = matrix_user_id p (wq_name req)
      in \<lparr>crr_name = ''Worker: '' @ wq_name req,
          crr_topic = ''Communication channel for '' @ wq_name req,
          crr_invite = admin # (if authority \<noteq> admin then [authority] else []) @ [worker],
          crr_power_levels = AList.update worker 0 (set_level authority (set_level admin
            (set_level (matrix_user_id p ''manager'') []))),
          crr_creator_token = [], crr_e2ee = False, crr_is_direct = False,
          crr_alias = room_alias_localpart ''worker'' (wq_name req)\<rparr>)"

text \<open>Room membership and the join on behalf of the worker; no error of these steps is returned.\<close>

definition settle_worker_room ::
  "'w provisioner \<Rightarrow> worker_provision_request \<Rightarrow> room_info \<Rightarrow> string \<Rightarrow> ('w, unit) state" where
  "settle_worker_room p req room token = do {
     _ \<leftarrow> (if ri_created room then State_Monad.return None
           else reconcile_room_membership p (ri_room_id room)
             [admin_matrix_id p, room_authority p req, matrix_user_id p (wq_name req)]);
     _ \<leftarrow> (if token \<noteq> [] \<and> ri_room_id room \<noteq> [] then mo_join (pv_matrix p) (ri_room_id room) token
           else State_Monad.return None);
     State_Monad.return () }"

text \<open>The gateway consumer; a key the gateway chose replaces the generated one and is saved.\<close>

definition provision_consumer ::
  "'w provisioner \<Rightarrow> string \<Rightarrow> string \<Rightarrow> string \<Rightarrow> worker_credentials \<Rightarrow>
   (worker_credentials \<Rightarrow> ('w, 'b result) state) \<Rightarrow> ('w, 'b result) state" where
  "provision_consumer p consumer credential_name provider creds k =
     step_or_fail (go_ensure_consumer (pv_gateway p) \<lparr>csr_name = consumer,
         csr_credential_key = wc_gateway_key creds, csr_consumer_id = []\<rparr>)
       ''gateway consumer creation failed'' (\<lambda>r. do {
         creds' \<leftarrow> (if cso_api_key r \<noteq> [] \<and> cso_api_key r \<noteq> wc_gateway_key creds
           then do {
             _ \<leftarrow> cs_save (pv_creds p) credential_name (creds\<lparr>wc_gateway_key := cso_api_key r\<rparr>);
             State_Monad.return (creds\<lparr>wc_gateway_key := cso_api_key r\<rparr>) }
           else State_Monad.return creds);
         check_or_fail (go_authorize (pv_gateway p) consumer provider) ''AI route authorization failed''
           (k creds') })"

definition provision_result :: "string \<Rightarrow> string \<Rightarrow> string \<Rightarrow> worker_credentials \<Rightarrow> worker_provision_result" where
  "provision_result uid token room creds =
     \<lparr>pr_matrix_user_id = uid, pr_matrix_token = token, pr_room_id = room,
      pr_gateway_key = wc_gateway_key creds, pr_minio_password = wc_minio_password creds,
      pr_matrix_password = wc_matrix_password creds\<rparr>"

definition provision_worker ::
  "'w provisioner \<Rightarrow> worker_provision_request \<Rightarrow> ('w, worker_provision_result result) state" where
  "provision_worker p req =
     (let name = wq_name req;
          credential_name = (if wq_credential_name req = [] then name else wq_credential_name req)
      in provision_credentials p credential_name name (\<lambda>creds0.
         step_or_fail (mo_ensure_user (pv_matrix p) \<lparr>eu_username = name, eu_password = wc_matrix_password creds0\<rparr>)
           ''Matrix registration failed'' (\<lambda>uc.
         let creds = with_user creds0 uc in
         provision_storage p \<lparr>por_worker_name = name, por_bucket = [], por_team_name = wq_team_name req,
             por_is_manager = False\<rparr> (wc_minio_password creds)
         (step_or_fail (mo_create_room (pv_matrix p) (worker_room_create p req)) ''Matrix room creation failed''
           (\<lambda>room. do {
             _ \<leftarrow> cs_save (pv_creds p) credential_name creds;
             _ \<leftarrow> settle_worker_room p req room (uc_access_token uc);
             provision_consumer p (''worker-'' @ name) credential_name (wq_model_provider_id req) creds
               (\<lambda>creds'. State_Monad.return (Inr (provision_result (matrix_user_id p name)
                  (uc_access_token uc) (ri_room_id room) creds'))) })))))"

definition exposed_for_cleanup :: "worker_deprovision_request \<Rightarrow> exposed_port_status list" where
  "exposed_for_cleanup req =
     (case dq_exposed_ports req of
        Some (e # es) \<Rightarrow> e # es
      | _ \<Rightarrow> map (\<lambda>ep. \<lparr>eps_port = ep_port ep, eps_domain = domain_for_expose (dq_name req) (ep_port ep)\<rparr>)
               (dq_expose_spec req))"

definition deprovision_consumer :: "'w provisioner \<Rightarrow> string \<Rightarrow> string \<Rightarrow> ('w, go_error option) state" where
  "deprovision_consumer p consumer user = do {
     _ \<leftarrow> go_deauthorize (pv_gateway p) consumer [];
     _ \<leftarrow> go_delete_consumer (pv_gateway p) consumer;
     _ \<leftarrow> (case pv_oss_admin p of None \<Rightarrow> State_Monad.return None | Some ad \<Rightarrow> ad_delete_user ad user);
     State_Monad.return None }"

definition deprovision_worker ::
  "'w provisioner \<Rightarrow> worker_deprovision_request \<Rightarrow> ('w, go_error option) state" where
  "deprovision_worker p req = do {
     _ \<leftarrow> (if exposed_for_cleanup req = [] then State_Monad.return (None, None)
           else reconcile_expose (Some (go_ports (pv_gateway p))) (dq_name req) []
             (Some (exposed_for_cleanup req)));
     deprovision_consumer p (''worker-'' @ dq_name req) (dq_name req) }"

definition ensure_gateway_auth ::
  "'w provisioner \<Rightarrow> string \<Rightarrow> string \<Rightarrow> string \<Rightarrow> ('w, go_error option) state" where
  "ensure_gateway_auth p consumer gateway_key provider = do {
     r \<leftarrow> go_ensure_consumer (pv_gateway p) \<lparr>csr_name = consumer, csr_credential_key = gateway_key,
            csr_consumer_id = []\<rparr>;
     (case r of
        Inl e \<Rightarrow> State_Monad.return (Some (Wrap ''ensure consumer'' e))
      | Inr _ \<Rightarrow> do {
          e \<leftarrow> go_authorize (pv_gateway p) consumer provider;
          State_Monad.return (map_option (Wrap ''authorize AI routes'') e) }) }"

definition ensure_manager_gateway_auth ::
  "'w provisioner \<Rightarrow> string \<Rightarrow> string \<Rightarrow> ('w, go_error option) state" where
  "ensure_manager_gateway_auth p gateway_key provider = ensure_gateway_auth p ''manager'' gateway_key provider"

definition ensure_worker_gateway_auth ::
  "'w provisioner \<Rightarrow> string \<Rightarrow> string \<Rightarrow> string \<Rightarrow> ('w, go_error option) state" where
  "ensure_worker_gateway_auth p worker_name gateway_key provider =
     ensure_gateway_auth p (''worker-'' @ worker_name) gateway_key provider"

section \<open>Service accounts\<close>

definition ensure_account :: "'w provisioner \<Rightarrow> service_account \<Rightarrow> ('w, go_error option) state" where
  "ensure_account p sa =
     (case pv_accounts p of
        None \<Rightarrow> State_Monad.return None
      | Some api \<Rightarrow> do {
          g \<leftarrow> sv_get api (svc_name sa);
          (case g of
             None \<Rightarrow> State_Monad.return None
           | Some e \<Rightarrow>
               if \<not> is_api_not_found e then State_Monad.return (Some (Wrap (''get SA '' @ svc_name sa) e))
               else do {
                 c \<leftarrow> sv_create api sa;
                 State_Monad.return
                   (case c of
                      None \<Rightarrow> None
                    | Some ce \<Rightarrow> if is_api_exists ce then None
                                 else Some (Wrap (''create SA '' @ svc_name sa) ce)) }) })"

definition delete_account :: "'w provisioner \<Rightarrow> string \<Rightarrow> ('w, go_error option) state" where
  "delete_account p name =
     (case pv_accounts p of
        None \<Rightarrow> State_Monad.return None
      | Some api \<Rightarrow> do {
          e \<leftarrow> sv_delete api name;
          State_Monad.return
            (case e of Some err \<Rightarrow> if is_api_not_found err then None else Some err | None \<Rightarrow> None) })"

definition sa_token_seconds :: int where "sa_token_seconds = 315360000"

definition request_token :: "'w provisioner \<Rightarrow> string \<Rightarrow> string \<Rightarrow> ('w, string \<times> go_error option) state" where
  "request_token p name what =
     (case pv_accounts p of
        None \<Rightarrow> State_Monad.return ([], None)
      | Some api \<Rightarrow> do {
          r \<leftarrow> sv_token api name (if pv_auth_audience p = [] then default_audience else pv_auth_audience p)
                 sa_token_seconds;
          State_Monad.return
            (case r of Inl e \<Rightarrow> ([], Some (Wrap (''request SA token for '' @ what) e)) | Inr t \<Rightarrow> (t, None)) })"

definition ensure_service_account :: "'w provisioner \<Rightarrow> string \<Rightarrow> ('w, go_error option) state" where
  "ensure_service_account p worker_name =
     ensure_account p \<lparr>svc_name = sa_name (pv_prefix p) role_worker worker_name, svc_namespace = pv_namespace p,
       svc_labels = [(''app'', worker_app_label (pv_prefix p)), (''hiclaw.io/worker'', worker_name),
         (''hiclaw.io/controller'', pv_controller_name p)]\<rparr>"

definition delete_service_account :: "'w provisioner \<Rightarrow> string \<Rightarrow> ('w, go_error option) state" where
  "delete_service_account p worker_name = delete_account p (sa_name (pv_prefix p) role_worker worker_name)"

definition ensure_manager_service_account :: "'w provisioner \<Rightarrow> string \<Rightarrow> ('w, go_error option) state" where
  "ensure_manager_service_account p manager_name =
     ensure_account p \<lparr>svc_name = sa_name (pv_prefix p) role_manager manager_name, svc_namespace = pv_namespace p,
       svc_labels = [(''app'', manager_app_label (pv_prefix p)), (''hiclaw.io/manager'', manager_name),
         (''hiclaw.io/controller'', pv_controller_name p)]\<rparr>"

definition delete_manager_service_account :: "'w provisioner \<Rightarrow> string \<Rightarrow> ('w, go_error option) state" where
  "delete_manager_service_account p manager_name = delete_account p (sa_name (pv_prefix p) role_manager manager_name)"

definition ensure_admin_service_account :: "'w provisioner \<Rightarrow> ('w, go_error option) state" where
  "ensure_admin_service_account p =
     ensure_account p \<lparr>svc_name = admin_name (pv_prefix p), svc_namespace = pv_namespace p,
       svc_labels = [(''hiclaw.io/role'', role_admin)]\<rparr>"

definition request_sa_token :: "'w provisioner \<Rightarrow> string \<Rightarrow> ('w, string \<times> go_error option) state" where
  "request_sa_token p worker_name =
     request_token p (sa_name (pv_prefix p) role_worker worker_name) worker_name"

definition request_manager_sa_token :: "'w provisioner \<Rightarrow> string \<Rightarrow> ('w, string \<times> go_error option) state" where
  "request_manager_sa_token p manager_name =
     request_token p (sa_name (pv_prefix p) role_manager manager_name) (''manager '' @ manager_name)"

definition request_admin_sa_token :: "'w provisioner \<Rightarrow> ('w, string \<times> go_error option) state" where
  "request_admin_sa_token p = request_token p (admin_name (pv_prefix p)) ''admin''"

section \<open>The provisioner of the member reconciler\<close>

definition member_provisioner :: "'w provisioner \<Rightarrow> 'w worker_provisioner" where
  "member_provisioner p =
     \<lparr>wp_provision_worker = provision_worker p, wp_deprovision_worker = deprovision_worker p,
      wp_refresh_worker_credentials = refresh_worker_credentials p,
      wp_reconcile_expose = reconcile_expose (Some (go_ports (pv_gateway p))),
      wp_ensure_service_account = ensure_service_account p,
      wp_delete_service_account = delete_service_account p,
      wp_delete_worker_credentials = delete_worker_credentials p,
      wp_request_sa_token = request_sa_token p,
      wp_leave_all_worker_rooms = leave_all_worker_rooms p,
      wp_delete_worker_room = delete_room p,
      wp_delete_worker_room_alias = delete_worker_room_alias p\<rparr>"

section \<open>The manager\<close>

record manager_provision_request =
  mpq_name :: string
  mpq_model_provider_id :: string

definition preset_secrets :: "'w provisioner \<Rightarrow> worker_credentials \<Rightarrow> worker_credentials" where
  "preset_secrets p creds =
     creds\<lparr>wc_matrix_password := (if pv_manager_password p \<noteq> [] then pv_manager_password p
              else wc_matrix_password creds),
           wc_gateway_key := (if pv_manager_gateway_key p \<noteq> [] then pv_manager_gateway_key p
              else wc_gateway_key creds)\<rparr>"

definition manager_credentials ::
  "'w provisioner \<Rightarrow> string \<Rightarrow> (worker_credentials \<Rightarrow> ('w, 'b result) state) \<Rightarrow> ('w, 'b result) state" where
  "manager_credentials p manager_name k =
     step_or_fail (load_result (cs_load (pv_creds p) manager_name)) ''load credentials''
       (\<lambda>c. case c of
          Some creds \<Rightarrow> k creds
        | None \<Rightarrow> step_or_fail (generate_credentials (pv_random p)) ''generate credentials'' (\<lambda>g.
            let creds = preset_secrets p g in
            check_or_fail (cs_save (pv_creds p) manager_name creds) ''save credentials'' (k creds)))"

definition manager_room_create :: "'w provisioner \<Rightarrow> string \<Rightarrow> create_room_request" where
  "manager_room_create p manager_name =
     \<lparr>crr_name = ''Manager: '' @ manager_name,
      crr_topic = ''Admin DM channel for Manager '' @ manager_name,
      crr_invite = [admin_matrix_id p, matrix_user_id p ''manager''],
      crr_power_levels = set_level (matrix_user_id p ''manager'') (set_level (admin_matrix_id p) []),
      crr_creator_token = [], crr_e2ee = False, crr_is_direct = True,
      crr_alias = room_alias_localpart ''manager'' manager_name\<rparr>"

definition provision_manager ::
  "'w provisioner \<Rightarrow> manager_provision_request \<Rightarrow> ('w, worker_provision_result result) state" where
  "provision_manager p req =
     (let name = mpq_name req in
      manager_credentials p name (\<lambda>creds0.
        step_or_fail (mo_ensure_user (pv_matrix p) \<lparr>eu_username = ''manager'', eu_password = wc_matrix_password creds0\<rparr>)
          ''Matrix registration failed'' (\<lambda>uc.
        let creds = with_user creds0 uc in
        provision_storage p \<lparr>por_worker_name = name, por_bucket = [], por_team_name = [],
            por_is_manager = True\<rparr> (wc_minio_password creds)
        (step_or_fail (mo_create_room (pv_matrix p) (manager_room_create p name)) ''Admin DM room creation failed''
          (\<lambda>room. do {
            _ \<leftarrow> cs_save (pv_creds p) name creds;
            provision_consumer p ''manager'' name (mpq_model_provider_id req) creds
              (\<lambda>creds'. State_Monad.return (Inr (provision_result (matrix_user_id p ''manager'')
                 (uc_access_token uc) (ri_room_id room) creds'))) })))))"

definition deprovision_manager :: "'w provisioner \<Rightarrow> string \<Rightarrow> ('w, go_error option) state" where
  "deprovision_manager p name = deprovision_consumer p ''manager'' name"

definition is_manager_joined_dm :: "'w provisioner \<Rightarrow> string \<Rightarrow> ('w, bool result) state" where
  "is_manager_joined_dm p room_id =
     (if room_id = [] then State_Monad.return (Inl (Err ''welcome: empty RoomID''))
      else do {
        r \<leftarrow> mo_members (pv_matrix p) room_id;
        State_Monad.return
          (case r of
             Inl e \<Rightarrow> Inl (Wrap (''welcome: list members of '' @ room_id) e)
           | Inr ms \<Rightarrow> Inr (list_ex (\<lambda>m. rm_user_id m = matrix_user_id p ''manager'' \<and>
               rm_membership m = ''join'') ms)) })"

text \<open>The probe of the gateway; \<open>post url key body\<close> is the HTTP call and returns the status.\<close>

definition llm_probe_body :: "string \<Rightarrow> string" where
  "llm_probe_body model =
     [CHR ''{'', dquote] @ ''model'' @ [dquote, CHR '':''] @ go_quote model @ '','' @ [dquote] @ ''messages'' @
     [dquote] @ '':[{'' @ [dquote] @ ''role'' @ [dquote, CHR '':'', dquote] @ ''user'' @ [dquote, CHR '','', dquote] @
     ''content'' @ [dquote, CHR '':'', dquote] @ ''Reply with only one word: ok'' @ [dquote] @ ''}]}''"

definition is_manager_llm_auth_ready ::
  "(string \<Rightarrow> string \<Rightarrow> string \<Rightarrow> ('w, nat result) state) \<Rightarrow> string \<Rightarrow> string \<Rightarrow> string \<Rightarrow> ('w, bool result) state" where
  "is_manager_llm_auth_ready post gateway_url model gateway_key =
     (if gateway_url = [] \<or> model = [] \<or> gateway_key = [] then State_Monad.return (Inr True)
      else
        let url = trim_right (\<lambda>c. c = CHR ''/'') gateway_url @ ''/v1/chat/completions'' in do {
          r \<leftarrow> post url gateway_key (llm_probe_body model);
          State_Monad.return
            (case r of
               Inl e \<Rightarrow> Inl (Wrap (''welcome: llm probe '' @ url) e)
             | Inr st \<Rightarrow>
                 if st = 200 then Inr True
                 else if st = 401 \<or> st = 403 then Inr False
                 else Inl (Err (''welcome: llm probe '' @ url @ '' returned HTTP '' @ show_nat st @
                   '' (model='' @ go_quote model @ '')''))) })"

record manager_welcome_request =
  mwr_room_id :: string
  mwr_language :: string
  mwr_timezone :: string

definition render_manager_welcome_body :: "string \<Rightarrow> string \<Rightarrow> string" where
  "render_manager_welcome_body language timezone =
     ''This is an automated message from the HiClaw setup. This is a fresh installation.'' @ newline @ newline @
     ''--- Installation Context ---'' @ newline @
     ''User Language: '' @ language @ ''  (zh = Chinese, en = English)'' @ newline @
     ''User Timezone: '' @ timezone @ ''  (IANA timezone identifier)'' @ newline @
     ''---'' @ newline @ newline @
     ''You are an AI agent that manages a team of worker agents. Your identity and personality have not been configured yet '' @
     em_dash @ '' the human admin is about to meet you for the first time.'' @ newline @ newline @
     ''Please begin the onboarding conversation:'' @ newline @ newline @
     ''1. Greet the admin warmly and briefly describe what you can do (coordinate workers, manage tasks, run multi-agent projects)'' @ newline @
     ''2. The user has selected '' @ [dquote] @ language @ [dquote] @
     '' as their preferred language during installation. Use this language for your greeting and all subsequent communication.'' @ newline @
     ''3. The user'' @ [squote] @ ''s timezone is '' @ timezone @
     ''. Based on this timezone, you may infer their likely region and suggest additional language options.'' @ newline @
     ''4. Ask them: a) What would they like to call you? b) Communication style preference? c) Any behavior guidelines? d) Confirm default language'' @ newline @
     ''5. After they reply, write their preferences to ~/SOUL.md'' @ newline @
     ''6. Confirm what you wrote, and ask if they would like to adjust anything'' @ newline @
     ''7. Once confirmed, run: touch ~/soul-configured'' @ newline @ newline @
     ''The human admin will start chatting shortly.''"

definition send_manager_welcome_message ::
  "'w provisioner \<Rightarrow> manager_welcome_request \<Rightarrow> ('w, go_error option) state" where
  "send_manager_welcome_message p req =
     (if mwr_room_id req = [] then State_Monad.return (Some (Err ''welcome: empty RoomID''))
      else do {
        e \<leftarrow> mo_send_as_admin (pv_matrix p) (mwr_room_id req)
          (render_manager_welcome_body
            (if mwr_language req = [] then ''zh'' else mwr_language req)
            (if mwr_timezone req = [] then ''Asia/Shanghai'' else mwr_timezone req));
        State_Monad.return (map_option (Wrap (''welcome: send to '' @ mwr_room_id req)) e) })"

section \<open>Humans\<close>

record human_credentials =
  hc_user_id :: string
  hc_access_token :: string
  hc_password :: string

definition ensure_human_user :: "'w provisioner \<Rightarrow> string \<Rightarrow> ('w, human_credentials result) state" where
  "ensure_human_user p username = do {
     r \<leftarrow> mo_ensure_user (pv_matrix p) \<lparr>eu_username = username, eu_password = []\<rparr>;
     State_Monad.return
       (case r of
          Inl e \<Rightarrow> Inl (Wrap (''ensure human matrix user '' @ username) e)
        | Inr uc \<Rightarrow> Inr \<lparr>hc_user_id = uc_user_id uc, hc_access_token = uc_access_token uc,
            hc_password = uc_password uc\<rparr>) }"

definition login_as_human :: "'w provisioner \<Rightarrow> string \<Rightarrow> string \<Rightarrow> ('w, string result) state" where
  "login_as_human p username password = mo_login (pv_matrix p) username password"

definition join_room_as :: "'w provisioner \<Rightarrow> string \<Rightarrow> string \<Rightarrow> ('w, go_error option) state" where
  "join_room_as p room_id token = mo_join (pv_matrix p) room_id token"

end
