(* ===== verification/Room_Membership.thy ===== *)
theory Room_Membership
  imports Provisioner_Rooms
begin

text \<open>
  What the provisioner relies on when it reconciles the members of a room, and the proof that one
  pass then reaches the desired members. The contract is interpreted on the Tuwunel client
  talking to a small homeserver that answers the requests of this exchange as the Matrix
  client-server API documents.
\<close>

section \<open>The contract\<close>

text \<open>
  \<open>members w\<close> are the users joined or invited, \<open>up w\<close> says the server answers this actor, and
  \<open>frame w\<close> is whatever else the operations leave alone.
\<close>

locale room_keeper =
  fixes p :: "'w provisioner" and room :: string and tok :: string
    and members :: "'w \<Rightarrow> string list" and up :: "'w \<Rightarrow> bool" and frame :: "'w \<Rightarrow> 'f"
  assumes lists: "up w \<Longrightarrow> \<exists>ms w'. run_state (list_members p room tok) w = (Inr ms, w') \<and>
      map rm_user_id ms = members w \<and> members w' = members w \<and> up w' \<and> frame w' = frame w"
    and invites: "up w \<Longrightarrow> u \<noteq> [] \<Longrightarrow> u \<notin> set (members w) \<Longrightarrow> \<exists>w'. run_state (invite_member p room tok u) w = (None, w') \<and>
      set (members w') = insert u (set (members w)) \<and> up w' \<and> frame w' = frame w"
    and kicks: "up w \<Longrightarrow> \<exists>w'. run_state (kick_member p room tok u) w = (None, w') \<and>
      set (members w') = set (members w) - {u} \<and> up w' \<and> frame w' = frame w"
begin

lemma invite_loop_reaches:
  assumes "up w" "distinct us \<and> [] \<notin> set us" "set current \<subseteq> set (members w)"
    "\<forall>u \<in> set us. u \<notin> set current \<longrightarrow> u \<notin> set (members w)"
  shows "\<exists>w'. run_state (invite_loop p room tok current us err) w = (err, w') \<and>
    set (members w') = set (members w) \<union> set us \<and> up w' \<and> frame w' = frame w"
  using assms
proof (induction us arbitrary: w err)
  case Nil
  then show ?case by simp
next
  case (Cons u us)
  show ?case
  proof (cases "u \<in> set current")
    case True
    then obtain w' where "run_state (invite_loop p room tok current us err) w = (err, w')"
        "set (members w') = set (members w) \<union> set us" "up w'" "frame w' = frame w"
      using Cons.IH [of w err] Cons.prems by auto
    then show ?thesis using True Cons.prems(3) by auto
  next
    case False
    then have u: "u \<notin> set (members w)" using Cons.prems(4) by simp
    obtain v where v: "run_state (invite_member p room tok u) w = (None, v)"
        "set (members v) = insert u (set (members w))" "up v" "frame v = frame w"
      using invites [OF Cons.prems(1) _ u] Cons.prems(2) by force
    have keep: "keep_first err None = err" by (cases err) (simp_all add: keep_first_def)
    have "\<forall>x \<in> set us. x \<notin> set current \<longrightarrow> x \<notin> set (members v)"
      using Cons.prems(2,4) v(2) by auto
    then obtain w' where "run_state (invite_loop p room tok current us err) v = (err, w')"
        "set (members w') = set (members v) \<union> set us" "up w'" "frame w' = frame v"
      using Cons.IH [of v err] Cons.prems(2,3) v by auto
    then show ?thesis using v False keep by auto
  qed
qed

lemma remove_member_reaches:
  assumes "up w"
  shows "\<exists>w'. run_state (remove_member p room tok u) w = (None, w') \<and>
    set (members w') = set (members w) - {u} \<and> up w' \<and> frame w' = frame w"
proof -
  obtain w' where "run_state (kick_member p room tok u) w = (None, w')"
      "set (members w') = set (members w) - {u}" "up w'" "frame w' = frame w"
    using kicks [OF assms] by blast
  then show ?thesis by (simp add: remove_member_def)
qed

lemma kick_loop_reaches:
  assumes "up w"
  shows "\<exists>w'. run_state (kick_loop p room tok desired ms err) w = (err, w') \<and>
    set (members w') = set (members w) -
      {u \<in> rm_user_id ` set ms. \<not> (u \<noteq> [] \<and> u \<in> set desired) \<and> u \<noteq> admin_matrix_id p} \<and>
    up w' \<and> frame w' = frame w"
  using assms
proof (induction ms arbitrary: w err)
  case Nil
  then show ?case by simp
next
  case (Cons m ms)
  let ?bad = "\<lambda>u. \<not> (u \<noteq> [] \<and> u \<in> set desired) \<and> u \<noteq> admin_matrix_id p"
  show ?case
  proof (cases "?bad (rm_user_id m)")
    case False
    then have "run_state (kick_loop p room tok desired (m # ms) err) w =
        run_state (kick_loop p room tok desired ms err) w" by auto
    moreover have "{u \<in> rm_user_id ` set (m # ms). ?bad u} = {u \<in> rm_user_id ` set ms. ?bad u}"
      using False by auto
    ultimately show ?thesis using Cons.IH [OF Cons.prems, of err] by simp
  next
    case True
    obtain v where v: "run_state (remove_member p room tok (rm_user_id m)) w = (None, v)"
        "set (members v) = set (members w) - {rm_user_id m}" "up v" "frame v = frame w"
      using remove_member_reaches [OF Cons.prems] by blast
    have keep: "keep_first err None = err" by (cases err) (simp_all add: keep_first_def)
    have run: "run_state (kick_loop p room tok desired (m # ms) err) w =
        run_state (kick_loop p room tok desired ms err) v"
      using v True keep by auto
    have "{u \<in> rm_user_id ` set (m # ms). ?bad u} =
        insert (rm_user_id m) {u \<in> rm_user_id ` set ms. ?bad u}"
      using True by auto
    then show ?thesis unfolding run using Cons.IH [OF v(3), of err] v(2,4) by auto
  qed
qed

text \<open>One pass reaches the desired members; a global admin that is present stays.\<close>

lemma membership_reached:
  assumes "up w" "distinct desired" "[] \<notin> set desired"
  shows "\<exists>w'. run_state (reconcile_room_membership_with p room desired tok) w = (None, w') \<and>
    set (members w') = set desired \<union> ({admin_matrix_id p} \<inter> set (members w)) \<and>
    up w' \<and> frame w' = frame w"
proof -
  obtain ms v where v: "run_state (list_members p room tok) w = (Inr ms, v)"
      "map rm_user_id ms = members w" "members v = members w" "up v" "frame v = frame w"
    using lists [OF assms(1)] by blast
  then obtain x where x: "run_state (invite_loop p room tok (map rm_user_id ms) desired None) v = (None, x)"
      "set (members x) = set (members w) \<union> set desired" "up x" "frame x = frame w"
    using invite_loop_reaches [of v desired "map rm_user_id ms" None] assms(2,3) by auto
  obtain y where y: "run_state (kick_loop p room tok desired ms None) x = (None, y)"
      "set (members y) = set (members x) -
        {u \<in> rm_user_id ` set ms. \<not> (u \<noteq> [] \<and> u \<in> set desired) \<and> u \<noteq> admin_matrix_id p}"
      "up y" "frame y = frame w"
    using kick_loop_reaches [OF x(3), of desired ms None] x(4) by auto
  have "rm_user_id ` set ms = set (members w)" using v(2) by (metis image_set)
  then have "set (members y) = set desired \<union> ({admin_matrix_id p} \<inter> set (members w))"
    using y(2) x(2) assms(3) by auto
  then show ?thesis
    using v x y by (simp add: reconcile_room_membership_with_def)
qed

end

section \<open>A homeserver\<close>

text \<open>
  The rooms are kept by their encoded id, as they occur in a path; a room is the list of its
  present members with their membership. \<open>hs_tokens\<close> are the access tokens that may change rooms.
\<close>

record homeserver =
  hs_rooms :: "(string \<times> (string \<times> string) list) list"
  hs_tokens :: "string list"
  hs_admin_token :: string

definition rooms_root :: string where
  "rooms_root = ''/_matrix/client/v3/rooms/''"

text \<open>The room and the operation a path names.\<close>

definition path_room :: "string \<Rightarrow> string \<Rightarrow> string option" where
  "path_room path op =
     (if has_suffix path (CHR ''/'' # op)
      then Some (drop (length rooms_root) (take (length path - length op - 1) path)) else None)"

definition room_events :: "homeserver \<Rightarrow> string \<Rightarrow> (string \<times> string) list" where
  "room_events h key = (case map_of (hs_rooms h) key of None \<Rightarrow> [] | Some es \<Rightarrow> es)"

definition ok_reply :: "json \<Rightarrow> http_reply" where
  "ok_reply v = \<lparr>rp_status = 200, rp_body = ''{..}'', rp_json = RawJson v\<rparr>"

definition error_reply_of :: "nat \<Rightarrow> string \<Rightarrow> string \<Rightarrow> http_reply" where
  "error_reply_of st code msg =
     \<lparr>rp_status = st, rp_body = code, rp_json = RawJson (jstr_obj [(''errcode'', code), (''error'', msg)])\<rparr>"

definition event_json :: "string \<times> string \<Rightarrow> json" where
  "event_json e = JObj [(''state_key'', JStr (fst e)), (''content'', jstr_obj [(''membership'', snd e)])]"

definition body_user :: "http_request \<Rightarrow> string" where
  "body_user rq =
     (case rq_body rq of
        Some (JObj kvs) \<Rightarrow> (case map_of kvs ''user_id'' of Some (JStr u) \<Rightarrow> u | _ \<Rightarrow> [])
      | _ \<Rightarrow> [])"

definition hs_invite :: "string \<Rightarrow> string \<Rightarrow> homeserver \<Rightarrow> http_reply \<times> homeserver" where
  "hs_invite key u h =
     (if u \<in> fst ` set (room_events h key)
      then (error_reply_of 403 ''M_FORBIDDEN'' (u @ '' is already in the room.''), h)
      else (ok_reply (JObj []), h\<lparr>hs_rooms := AList.update key (room_events h key @ [(u, ''invite'')]) (hs_rooms h)\<rparr>))"

definition hs_kick :: "string \<Rightarrow> string \<Rightarrow> homeserver \<Rightarrow> http_reply \<times> homeserver" where
  "hs_kick key u h =
     (if u \<notin> fst ` set (room_events h key)
      then (error_reply_of 403 ''M_FORBIDDEN'' ''The target user is not in the room.'', h)
      else (ok_reply (JObj []),
        h\<lparr>hs_rooms := AList.update key (filter (\<lambda>e. fst e \<noteq> u) (room_events h key)) (hs_rooms h)\<rparr>))"

definition hs_serve :: "http_request \<Rightarrow> homeserver \<Rightarrow> http_reply \<times> homeserver" where
  "hs_serve rq h =
     (if rq_path rq = ''/_matrix/client/v3/login''
      then (ok_reply (jstr_obj [(''access_token'', hs_admin_token h)]), h)
      else if rq_token rq \<notin> set (hs_tokens h)
      then (error_reply_of 401 ''M_UNKNOWN_TOKEN'' ''Unknown access token'', h)
      else
        (case path_room (rq_path rq) ''members'' of
           Some key \<Rightarrow> (ok_reply (JObj [(''chunk'', JArr (map event_json (room_events h key)))]), h)
         | None \<Rightarrow>
             (case path_room (rq_path rq) ''invite'' of
                Some key \<Rightarrow> hs_invite key (body_user rq) h
              | None \<Rightarrow>
                  (case path_room (rq_path rq) ''kick'' of
                     Some key \<Rightarrow> hs_kick key (body_user rq) h
                   | None \<Rightarrow> (error_reply_of 404 ''M_UNRECOGNIZED'' ''Unrecognized request'', h)))))"

definition homeserver_transport :: "homeserver transport" where
  "homeserver_transport =
     \<lparr>tp_do = (\<lambda>rq. State (\<lambda>h. case hs_serve rq h of (rep, h') \<Rightarrow> (Inr rep, h'))),
      tp_wait = (\<lambda>n. State_Monad.return None), tp_random = (\<lambda>n. State_Monad.return (Inr (replicate n (CHR 0x2A))))\<rparr>"

section \<open>The client against the homeserver\<close>

lemma room_path_eq: "room_path room op = rooms_root @ encode_room_id room @ CHR ''/'' # op"
  by (simp add: room_path_def rooms_root_def)

lemma has_suffix_last: "has_suffix s q \<Longrightarrow> q \<noteq> [] \<Longrightarrow> last s = last q"
  unfolding has_suffix_def by (metis drop_eq_Nil last_drop linorder_not_le)

lemma path_room_self: "path_room (room_path room op) op = Some (encode_room_id room)"
  unfolding room_path_eq by (simp add: path_room_def has_suffix_def)

lemma path_room_other:
  assumes "op \<noteq> []" "op' \<noteq> []" "last op \<noteq> last op'"
  shows "path_room (room_path room op) op' = None"
  using assms has_suffix_last [of "room_path room op" "CHR ''/'' # op'"]
  by (auto simp: path_room_def room_path_eq)

lemma room_path_no_login: "room_path room op \<noteq> ''/_matrix/client/v3/login''"
  by (simp add: room_path_def)

lemma serve_members:
  assumes "rq_path rq = room_path room ''members''" "rq_token rq \<in> set (hs_tokens h)"
  shows "hs_serve rq h =
    (ok_reply (JObj [(''chunk'', JArr (map event_json (room_events h (encode_room_id room))))]), h)"
  using assms by (simp add: hs_serve_def room_path_no_login path_room_self)

lemma serve_invite:
  assumes "rq_path rq = room_path room ''invite''" "rq_token rq \<in> set (hs_tokens h)"
  shows "hs_serve rq h = hs_invite (encode_room_id room) (body_user rq) h"
  using assms by (simp add: hs_serve_def room_path_no_login path_room_self path_room_other)

lemma serve_kick:
  assumes "rq_path rq = room_path room ''kick''" "rq_token rq \<in> set (hs_tokens h)"
  shows "hs_serve rq h = hs_kick (encode_room_id room) (body_user rq) h"
  using assms by (simp add: hs_serve_def room_path_no_login path_room_self path_room_other)

lemma folds [simp]:
  "equal_fold ''chunk'' ''chunk''" "\<not> equal_fold ''chunk'' ''errcode''" "\<not> equal_fold ''chunk'' ''error''"
  "equal_fold ''errcode'' ''errcode''" "\<not> equal_fold ''errcode'' ''error''" "equal_fold ''error'' ''error''"
  "\<not> equal_fold ''error'' ''errcode''"
  "equal_fold ''state_key'' ''state_key''" "\<not> equal_fold ''state_key'' ''content''"
  "equal_fold ''content'' ''content''" "\<not> equal_fold ''content'' ''state_key''"
  "equal_fold ''membership'' ''membership''" "equal_fold ''access_token'' ''access_token''"
  by code_simp+

lemma decode_event_json: "decode_event (event_json e) = Inr e"
  by (cases e) (simp add: decode_event_def event_json_def decode_object_def jstr_obj_def)

lemma decode_chunk: "decode_members [(''chunk'', JArr (map event_json es))] = Inr (es, \<lparr>er_code = [], er_error = []\<rparr>)"
proof -
  have "decode_events (map event_json es) = Inr es"
    by (induction es) (simp_all add: decode_event_json)
  then show ?thesis by (simp add: decode_members_def decode_error_def)
qed

text \<open>The room as the contract sees it.\<close>

type_synonym client_world = "homeserver matrix_state"

definition room_members :: "string \<Rightarrow> client_world \<Rightarrow> string list" where
  "room_members room s = map fst (room_events (mcs_world s) (encode_room_id room))"

definition other_rooms :: "string \<Rightarrow> client_world \<Rightarrow> string \<Rightarrow> (string \<times> string) list option" where
  "other_rooms room s = (map_of (hs_rooms (mcs_world s)))(encode_room_id room := None)"

definition present_events :: "(string \<times> string) list \<Rightarrow> bool" where
  "present_events es \<longleftrightarrow> list_all (\<lambda>(u, m). u \<noteq> [] \<and> (m = ''join'' \<or> m = ''invite'')) es"

text \<open>The actor's token is accepted, or the client can log in as the admin.\<close>

definition actor_accepted :: "string \<Rightarrow> client_world \<Rightarrow> bool" where
  "actor_accepted tok s \<longleftrightarrow>
     (if tok \<noteq> [] then tok \<in> set (hs_tokens (mcs_world s))
      else hs_admin_token (mcs_world s) \<noteq> [] \<and>
        hs_admin_token (mcs_world s) \<in> set (hs_tokens (mcs_world s)) \<and>
        (mcs_admin_token s = [] \<or> mcs_admin_token s \<in> set (hs_tokens (mcs_world s))))"

definition served :: "string \<Rightarrow> string \<Rightarrow> client_world \<Rightarrow> bool" where
  "served room tok s \<longleftrightarrow> actor_accepted tok s \<and>
     present_events (room_events (mcs_world s) (encode_room_id room))"

lemma present_members_all: "present_events es \<Longrightarrow> map rm_user_id (present_members es) = map fst es"
  by (induction es) (auto simp: present_events_def present_members_def)

lemma do_json_ok:
  assumes "hs_serve rq (mcs_world s) = (ok_reply v, h')" "decode_object v = Inr kvs" "dec kvs = Inr x"
  shows "run_state (do_json homeserver_transport rq dec) s = (Inr (200, ''{..}'', x), s\<lparr>mcs_world := h'\<rparr>)"
  using assms
  by (simp add: do_json_def on_transport_def homeserver_transport_def modify_state_def ok_reply_def decode_raw_def)

lemma do_json_refused:
  assumes "hs_serve rq (mcs_world s) = (error_reply_of 403 code msg, h')"
  shows "run_state (do_json homeserver_transport rq decode_error) s =
    (Inr (403, code, \<lparr>er_code = code, er_error = msg\<rparr>), s\<lparr>mcs_world := h', mcs_admin_token := []\<rparr>)"
  using assms
  by (simp add: do_json_def on_transport_def homeserver_transport_def modify_state_def error_reply_of_def
      decode_raw_def decode_object_def jstr_obj_def decode_error_def)

lemma admin_token_run:
  assumes "actor_accepted [] s"
  shows "\<exists>t s'. run_state (ensure_admin_token homeserver_transport cfg) s = (Inr t, s') \<and> t \<noteq> [] \<and>
    t \<in> set (hs_tokens (mcs_world s)) \<and> mcs_world s' = mcs_world s \<and> actor_accepted [] s'"
proof (cases "mcs_admin_token s = []")
  case False
  then show ?thesis using assms by (simp add: ensure_admin_token_def actor_accepted_def)
next
  case True
  let ?t = "hs_admin_token (mcs_world s)"
  have "hs_serve (login_request u q) (mcs_world s) = (ok_reply (jstr_obj [(''access_token'', ?t)]), mcs_world s)" for u q
    by (simp add: hs_serve_def login_request_def)
  from do_json_ok [OF this, of "[(''access_token'', JStr ?t)]" "decode_string ''access_token'' []" ?t]
  have "run_state (do_json homeserver_transport (login_request u q) (decode_string ''access_token'' [])) s =
      (Inr (200, ''{..}'', ?t), s)" for u q
    by (simp add: jstr_obj_def decode_object_def)
  then have "run_state (login homeserver_transport u q) s = (Inr ?t, s)" for u q
    using assms by (simp add: login_def actor_accepted_def Let_def)
  then show ?thesis
    using True assms by (simp add: ensure_admin_token_def modify_state_def actor_accepted_def)
qed

text \<open>An operation as the actor: with the given token, or with the admin token of the client.\<close>

lemma as_actor:
  assumes "served room tok s"
    and "\<And>t s'. t \<noteq> [] \<Longrightarrow> t \<in> set (hs_tokens (mcs_world s)) \<Longrightarrow> mcs_world s' = mcs_world s \<Longrightarrow>
      served room tok s' \<Longrightarrow> Q (run_state (X t) s')"
  shows "Q (run_state (if tok \<noteq> [] then X tok else with_admin_token homeserver_transport cfg fail X) s)"
proof (cases "tok = []")
  case False
  then show ?thesis using assms by (simp add: served_def actor_accepted_def)
next
  case True
  then have "actor_accepted [] s" using assms(1) by (simp add: served_def)
  from admin_token_run [OF this, of cfg] obtain t s' where
    t: "run_state (ensure_admin_token homeserver_transport cfg) s = (Inr t, s')" "t \<noteq> []"
      "t \<in> set (hs_tokens (mcs_world s))" "mcs_world s' = mcs_world s" "actor_accepted [] s'"
    by blast
  have "served room tok s'" using t True assms(1) by (simp add: served_def)
  then show ?thesis using assms(2) [OF t(2-4)] t(1) True by (simp add: with_admin_token_def)
qed

lemma served_update:
  assumes "served room tok s" "h' = (mcs_world s)\<lparr>hs_rooms := AList.update (encode_room_id room) es (hs_rooms (mcs_world s))\<rparr>"
    "present_events es" "mcs_admin_token s' \<in> {[], mcs_admin_token s}" "mcs_world s' = h'"
  shows "served room tok s' \<and> room_members room s' = map fst es \<and> other_rooms room s' = other_rooms room s"
  using assms
  by (auto simp: served_def actor_accepted_def room_members_def other_rooms_def room_events_def update_conv'
      split: if_splits)

lemma present_filter: "present_events es \<Longrightarrow> present_events (filter q es)"
  by (simp add: present_events_def list_all_iff)

text \<open>The three operations.\<close>

lemma list_run:
  assumes "t \<noteq> []" "t \<in> set (hs_tokens (mcs_world s))" "served room tok s"
  shows "\<exists>ms. run_state (list_room_members_with_token homeserver_transport room t) s = (Inr ms, s) \<and>
    map rm_user_id ms = room_members room s"
proof -
  let ?rq = "\<lparr>rq_method = ''GET'', rq_path = room_path room ''members'', rq_token = t, rq_body = None\<rparr>"
  let ?es = "room_events (mcs_world s) (encode_room_id room)"
  have "hs_serve ?rq (mcs_world s) = (ok_reply (JObj [(''chunk'', JArr (map event_json ?es))]), mcs_world s)"
    using assms by (intro serve_members) simp_all
  from do_json_ok [OF this, of _ decode_members] have
    "run_state (do_json homeserver_transport ?rq decode_members) s = (Inr (200, ''{..}'', (?es, \<lparr>er_code = [], er_error = []\<rparr>)), s)"
    by (simp add: decode_object_def decode_chunk)
  then have "run_state (list_room_members_with_token homeserver_transport room t) s = (Inr (present_members ?es), s)"
    using assms(1) by (simp add: list_room_members_with_token_def Let_def)
  then show ?thesis
    using assms(3) present_members_all by (auto simp: room_members_def served_def)
qed

lemma invite_run:
  assumes "t \<noteq> []" "t \<in> set (hs_tokens (mcs_world s))" "served room tok s" "u \<noteq> []" "u \<notin> set (room_members room s)"
  shows "\<exists>s'. run_state (invite_to_room_with_token homeserver_transport room u t) s = (None, s') \<and>
    set (room_members room s') = insert u (set (room_members room s)) \<and> served room tok s' \<and>
    other_rooms room s' = other_rooms room s"
proof -
  let ?rq = "\<lparr>rq_method = ''POST'', rq_path = room_path room ''invite'', rq_token = t,
    rq_body = Some (jstr_obj [(''user_id'', u)])\<rparr>"
  let ?k = "encode_room_id room"
  let ?es = "room_events (mcs_world s) ?k @ [(u, ''invite'')]"
  let ?h = "(mcs_world s)\<lparr>hs_rooms := AList.update ?k ?es (hs_rooms (mcs_world s))\<rparr>"
  have "hs_serve ?rq (mcs_world s) = (ok_reply (JObj []), ?h)"
    using assms serve_invite [of ?rq room "mcs_world s"]
    by (simp add: hs_invite_def body_user_def jstr_obj_def room_members_def)
  from do_json_ok [OF this, of "[]" decode_error] have
    "run_state (invite_to_room_with_token homeserver_transport room u t) s = (None, s\<lparr>mcs_world := ?h\<rparr>)"
    using assms(1) by (simp add: invite_to_room_with_token_def decode_object_def decode_error_def status_ok_def Let_def)
  moreover have "present_events ?es"
    using assms(3,4) by (simp add: served_def present_events_def)
  from served_update [OF assms(3) refl this, of "s\<lparr>mcs_world := ?h\<rparr>"]
  have "served room tok (s\<lparr>mcs_world := ?h\<rparr>)" "room_members room (s\<lparr>mcs_world := ?h\<rparr>) = map fst ?es"
    "other_rooms room (s\<lparr>mcs_world := ?h\<rparr>) = other_rooms room s"
    by simp_all
  moreover have "set (map fst ?es) = insert u (set (room_members room s))"
    by (auto simp: room_members_def)
  ultimately show ?thesis by metis
qed

lemma kick_run:
  assumes "t \<noteq> []" "t \<in> set (hs_tokens (mcs_world s))" "served room tok s"
  shows "\<exists>s'. run_state (kick_from_room_with_token homeserver_transport room u ''removed from desired member set'' t) s = (None, s') \<and>
    set (room_members room s') = set (room_members room s) - {u} \<and> served room tok s' \<and>
    other_rooms room s' = other_rooms room s"
proof -
  let ?rq = "\<lparr>rq_method = ''POST'', rq_path = room_path room ''kick'', rq_token = t,
    rq_body = Some (jstr_obj [(''user_id'', u), (''reason'', ''removed from desired member set'')])\<rparr>"
  let ?k = "encode_room_id room"
  let ?es = "filter (\<lambda>e. fst e \<noteq> u) (room_events (mcs_world s) ?k)"
  let ?h = "(mcs_world s)\<lparr>hs_rooms := AList.update ?k ?es (hs_rooms (mcs_world s))\<rparr>"
  have sv: "hs_serve ?rq (mcs_world s) = hs_kick ?k u (mcs_world s)"
    using assms serve_kick [of ?rq room "mcs_world s"] by (simp add: body_user_def jstr_obj_def)
  show ?thesis
  proof (cases "u \<in> set (room_members room s)")
    case True
    then have "hs_serve ?rq (mcs_world s) = (ok_reply (JObj []), ?h)"
      using sv by (simp add: hs_kick_def room_members_def)
    from do_json_ok [OF this, of "[]" decode_error] have
      "run_state (kick_from_room_with_token homeserver_transport room u ''removed from desired member set'' t) s =
        (None, s\<lparr>mcs_world := ?h\<rparr>)"
      using assms(1) by (simp add: kick_from_room_with_token_def decode_object_def decode_error_def status_ok_def Let_def)
    moreover have "present_events ?es"
      using assms(3) by (simp add: served_def present_filter)
    from served_update [OF assms(3) refl this, of "s\<lparr>mcs_world := ?h\<rparr>"]
    have "served room tok (s\<lparr>mcs_world := ?h\<rparr>)" "room_members room (s\<lparr>mcs_world := ?h\<rparr>) = map fst ?es"
      "other_rooms room (s\<lparr>mcs_world := ?h\<rparr>) = other_rooms room s"
      by simp_all
    moreover have "set (map fst ?es) = set (room_members room s) - {u}"
      by (auto simp: room_members_def)
    ultimately show ?thesis by metis
  next
    case False
    let ?m = "''The target user is not in the room.''"
    have "hs_serve ?rq (mcs_world s) = (error_reply_of 403 ''M_FORBIDDEN'' ?m, mcs_world s)"
      using sv False by (simp add: hs_kick_def room_members_def)
    moreover have "not_member_reply \<lparr>er_code = ''M_FORBIDDEN'', er_error = ?m\<rparr>" by code_simp
    ultimately have "run_state (kick_from_room_with_token homeserver_transport room u ''removed from desired member set'' t) s =
        (None, s\<lparr>mcs_admin_token := []\<rparr>)"
      using assms(1) do_json_refused [of ?rq s "''M_FORBIDDEN''" ?m "mcs_world s"]
      by (simp add: kick_from_room_with_token_def status_ok_def Let_def)
    moreover have "served room tok (s\<lparr>mcs_admin_token := []\<rparr>)"
      using assms(3) by (simp add: served_def actor_accepted_def split: if_splits)
    ultimately show ?thesis using False by (auto simp: room_members_def other_rooms_def)
  qed
qed

text \<open>The provisioner with the Tuwunel client and the homeserver behind it.\<close>

definition with_tuwunel :: "client_world provisioner \<Rightarrow> matrix_config \<Rightarrow> client_world provisioner" where
  "with_tuwunel p cfg = p\<lparr>pv_matrix := tuwunel_client homeserver_transport cfg\<rparr>"

lemma tuwunel_operations:
  "list_members (with_tuwunel p cfg) room tok =
     (if tok \<noteq> [] then list_room_members_with_token homeserver_transport room tok
      else with_admin_token homeserver_transport cfg (\<lambda>e. Inl (Wrap (''list members '' @ room) e))
        (list_room_members_with_token homeserver_transport room))"
  "kick_member (with_tuwunel p cfg) room tok u =
     (if tok \<noteq> [] then kick_from_room_with_token homeserver_transport room u ''removed from desired member set'' tok
      else with_admin_token homeserver_transport cfg (\<lambda>e. Some (Wrap (''kick '' @ u @ '' from '' @ room) e))
        (kick_from_room_with_token homeserver_transport room u ''removed from desired member set''))"
  "invite_member (with_tuwunel p cfg) room tok u =
     (if tok \<noteq> [] then invite_to_room_with_token homeserver_transport room u tok
      else with_admin_token homeserver_transport cfg (\<lambda>e. Some (Wrap (''invite '' @ u @ '' to '' @ room) e))
        (invite_to_room_with_token homeserver_transport room u))"
  by (simp_all add: list_members_def kick_member_def invite_member_def with_tuwunel_def tuwunel_client_def
      list_room_members_def kick_from_room_def invite_to_room_def)

interpretation tuwunel: room_keeper "with_tuwunel p cfg" room tok "room_members room" "served room tok" "other_rooms room"
  for p cfg room tok
proof unfold_locales
  fix w u
  assume w: "served room tok w"
  show "\<exists>ms w'. run_state (list_members (with_tuwunel p cfg) room tok) w = (Inr ms, w') \<and>
      map rm_user_id ms = room_members room w \<and> room_members room w' = room_members room w \<and>
      served room tok w' \<and> other_rooms room w' = other_rooms room w"
    unfolding tuwunel_operations
  proof (rule as_actor [OF w, where X = "list_room_members_with_token homeserver_transport room" and
      Q = "\<lambda>r. \<exists>ms w'. r = (Inr ms, w') \<and> map rm_user_id ms = room_members room w \<and>
      room_members room w' = room_members room w \<and> served room tok w' \<and> other_rooms room w' = other_rooms room w"])
    fix t s'
    assume "t \<noteq> []" "t \<in> set (hs_tokens (mcs_world w))" "mcs_world s' = mcs_world w" "served room tok s'"
    then show "\<exists>ms w'. run_state (list_room_members_with_token homeserver_transport room t) s' = (Inr ms, w') \<and>
        map rm_user_id ms = room_members room w \<and> room_members room w' = room_members room w \<and>
        served room tok w' \<and> other_rooms room w' = other_rooms room w"
      using list_run [of t s' room tok] by (auto simp: room_members_def other_rooms_def)
  qed
  show "\<exists>w'. run_state (kick_member (with_tuwunel p cfg) room tok u) w = (None, w') \<and>
      set (room_members room w') = set (room_members room w) - {u} \<and> served room tok w' \<and>
      other_rooms room w' = other_rooms room w"
    unfolding tuwunel_operations
  proof (rule as_actor [OF w, where X = "kick_from_room_with_token homeserver_transport room u ''removed from desired member set''" and
      Q = "\<lambda>r. \<exists>w'. r = (None, w') \<and> set (room_members room w') = set (room_members room w) - {u} \<and>
      served room tok w' \<and> other_rooms room w' = other_rooms room w"])
    fix t s'
    assume "t \<noteq> []" "t \<in> set (hs_tokens (mcs_world w))" "mcs_world s' = mcs_world w" "served room tok s'"
    then show "\<exists>w'. run_state (kick_from_room_with_token homeserver_transport room u ''removed from desired member set'' t) s' = (None, w') \<and>
        set (room_members room w') = set (room_members room w) - {u} \<and> served room tok w' \<and>
        other_rooms room w' = other_rooms room w"
      using kick_run [of t s' room tok u] by (auto simp: room_members_def other_rooms_def)
  qed
  assume u: "u \<noteq> []" "u \<notin> set (room_members room w)"
  show "\<exists>w'. run_state (invite_member (with_tuwunel p cfg) room tok u) w = (None, w') \<and>
      set (room_members room w') = insert u (set (room_members room w)) \<and> served room tok w' \<and>
      other_rooms room w' = other_rooms room w"
    unfolding tuwunel_operations
  proof (rule as_actor [OF w, where X = "invite_to_room_with_token homeserver_transport room u" and
      Q = "\<lambda>r. \<exists>w'. r = (None, w') \<and> set (room_members room w') = insert u (set (room_members room w)) \<and>
      served room tok w' \<and> other_rooms room w' = other_rooms room w"])
    fix t s'
    assume "t \<noteq> []" "t \<in> set (hs_tokens (mcs_world w))" "mcs_world s' = mcs_world w" "served room tok s'"
    then show "\<exists>w'. run_state (invite_to_room_with_token homeserver_transport room u t) s' = (None, w') \<and>
        set (room_members room w') = insert u (set (room_members room w)) \<and> served room tok w' \<and>
        other_rooms room w' = other_rooms room w"
      using invite_run [of t s' room tok u] u by (auto simp: room_members_def other_rooms_def)
  qed
qed

section \<open>Room membership\<close>


definition sample_config :: matrix_config where
  "sample_config =
     \<lparr>mcf_server_url = ''http://tuwunel:6167'', mcf_domain = ''hs'', mcf_registration_token = ''r'',
      mcf_admin_user = ''admin'', mcf_admin_password = ''secret'', mcf_e2ee = False\<rparr>"

definition sample_server :: client_world where
  "sample_server =
     \<lparr>mcs_world = \<lparr>hs_rooms = [(''%21team:hs'', [(''@admin:hs'', ''join''), (''@lead:hs'', ''join''), (''@old:hs'', ''invite'')])],
        hs_tokens = [''tok''], hs_admin_token = ''tok''\<rparr>,
      mcs_admin_token = [], mcs_admin_room = [], mcs_txn = 0\<rparr>"

lemma sample_encoded: "encode_room_id ''!team:hs'' = ''%21team:hs''"
  by (simp add: encode_room_id_def replace_all.simps has_prefix_def)


end
