(* ===== verification/Provisioner_Properties.thy ===== *)
theory Provisioner_Properties
  imports Provisioner_Agents Room_Membership Go_Results
begin

text \<open>
  What the provisioner guarantees about credentials: a Matrix token is kept once it was obtained,
  and a refresh returns the secrets a provisioning run handed out. The locale says that the other
  services leave the credential store alone; it is interpreted on a provisioner whose store is
  the Kubernetes Secret store and whose other collaborators are arbitrary.
\<close>

section \<open>Operations that leave the store alone\<close>

definition keeps :: "('w \<Rightarrow> 'c) \<Rightarrow> ('w \<Rightarrow> bool) \<Rightarrow> ('w, 'a) state \<Rightarrow> bool" where
  "keeps stored up m \<longleftrightarrow>
     (\<forall>w. up w \<longrightarrow> up (snd (run_state m w)) \<and> stored (snd (run_state m w)) = stored w)"

lemma keepsD: "keeps stored up m \<Longrightarrow> run_state m w = (a, w') \<Longrightarrow> up w \<Longrightarrow> up w' \<and> stored w' = stored w"
  unfolding keeps_def by (metis snd_conv)

lemma keeps_return [simp, intro]: "keeps stored up (State_Monad.return a)"
  by (simp add: keeps_def)

lemma keeps_bind [intro]:
  assumes "keeps stored up m" "\<And>x. keeps stored up (f x)"
  shows "keeps stored up (State_Monad.bind m f)"
  using assms by (simp add: keeps_def split: prod.splits) (metis snd_conv)

section \<open>Successful runs\<close>

text \<open>What holds after a successful run; an error makes the claim empty, so it is used on runs known to succeed.\<close>

definition yields :: "('w, 'a result) state \<Rightarrow> 'w \<Rightarrow> ('a \<Rightarrow> 'w \<Rightarrow> bool) \<Rightarrow> bool" where
  "yields m w Q \<longleftrightarrow> (\<forall>a w'. run_state m w = (Inr a, w') \<longrightarrow> Q a w')"

lemma yieldsD: "yields m w Q \<Longrightarrow> run_state m w = (Inr a, w') \<Longrightarrow> Q a w'"
  by (simp add: yields_def)

lemma yields_return [simp]: "yields (State_Monad.return (Inr a)) w Q \<longleftrightarrow> Q a w"
  by (simp add: yields_def)

lemma yields_bind:
  "(\<And>a w1. run_state m w = (a, w1) \<Longrightarrow> yields (k a) w1 Q) \<Longrightarrow> yields (State_Monad.bind m k) w Q"
  by (auto simp: yields_def split: prod.splits)

lemma yields_step:
  "(\<And>v w1. run_state m w = (Inr v, w1) \<Longrightarrow> yields (k v) w1 Q) \<Longrightarrow> yields (step_or_fail m what k) w Q"
  by (auto simp: yields_def step_or_fail_def split: prod.splits sum.splits)

lemma yields_check:
  "(\<And>w1. run_state m w = (None, w1) \<Longrightarrow> yields k w1 Q) \<Longrightarrow> yields (check_or_fail m what k) w Q"
  by (auto simp: yields_def check_or_fail_def split: prod.splits option.splits)

named_theorems quiet \<open>operations that leave the credential store alone\<close>

locale quiet_services = credentials_kept "pv_creds p" stored up ok
  for p :: "'w provisioner" and stored :: "'w \<Rightarrow> string \<Rightarrow> worker_credentials option" and up ok +
  assumes everything_ok: "ok c"
    and keeps_login [quiet]: "keeps stored up (mo_login (pv_matrix p) u q)"
    and keeps_ensure_user [quiet]: "keeps stored up (mo_ensure_user (pv_matrix p) er)"
    and keeps_create_room [quiet]: "keeps stored up (mo_create_room (pv_matrix p) cr)"
    and keeps_members [quiet]: "keeps stored up (mo_members (pv_matrix p) room)"
    and keeps_invite [quiet]: "keeps stored up (mo_invite (pv_matrix p) room u)"
    and keeps_kick [quiet]: "keeps stored up (mo_kick (pv_matrix p) room u reason)"
    and keeps_join [quiet]: "keeps stored up (mo_join (pv_matrix p) room tok)"
    and keeps_command [quiet]: "keeps stored up (mo_admin_command (pv_matrix p) cmd)"
    and keeps_consumer [quiet]: "keeps stored up (go_ensure_consumer (pv_gateway p) csr)"
    and keeps_authorize [quiet]: "keeps stored up (go_authorize (pv_gateway p) consumer provider)"
    and keeps_random [quiet]: "keeps stored up (pv_random p n)"
    and keeps_admin_user: "pv_oss_admin p = Some ad \<Longrightarrow> keeps stored up (ad_ensure_user ad u q)"
    and keeps_admin_policy: "pv_oss_admin p = Some ad \<Longrightarrow> keeps stored up (ad_ensure_policy ad pr)"
begin

lemma save_run:
  assumes "run_state (cs_save (pv_creds p) n c) w = (e, w')" "up w"
  shows "e = None \<and> up w' \<and> stored w' = (stored w)(n \<mapsto> c)"
  using save_writes [OF assms(2) everything_ok, of n c] assms(1) by auto

lemma load_run: "up w \<Longrightarrow> run_state (cs_load (pv_creds p) n) w = ((stored w n, None), w)"
  by (rule load_reads)

text \<open>A stored token is used as it is: nothing is asked of the homeserver and nothing is written.\<close>

lemma stored_token_used:
  assumes "up w" "stored w (if cn = [] then wn else cn) = Some c" "wc_matrix_token c \<noteq> []"
  shows "run_state (refresh_worker_credentials p cn wn) w = (Inr (refresh_of (wc_matrix_token c) c), w)"
proof -
  let ?cn = "if cn = [] then wn else cn"
  have "run_state (load_worker_credentials p ?cn wn) w = ((Some c, None), w)"
    using assms(1,2) by (simp add: load_worker_credentials_def load_run)
  moreover have "run_state (refresh_token p ?cn wn c) w = (Inr (refresh_of (wc_matrix_token c) c), w)"
    using assms(3) by (simp add: refresh_token_def ensure_matrix_token_def)
  ultimately show ?thesis
    by (simp add: refresh_worker_credentials_def Let_def)
qed

text \<open>What a successful load leaves behind.\<close>

lemma load_worker_run:
  assumes "up w" "run_state (load_worker_credentials p cn wn) w = ((Some c, None), w')"
  shows "up w' \<and> stored w' cn = Some c"
proof (cases "stored w cn \<noteq> None \<or> cn = wn")
  case True
  then show ?thesis using assms by (auto simp: load_worker_credentials_def load_run)
next
  case False
  then obtain l where l: "stored w wn = Some l" "run_state (cs_save (pv_creds p) cn l) w = (None, w')" "c = l"
    using assms by (auto simp: load_worker_credentials_def load_run split: option.splits prod.splits)
  then show ?thesis using save_run [OF l(2) assms(1)] by simp
qed

lemma refresh_token_run:
  assumes "up w" "stored w key = Some c" "run_state (refresh_token p key user c) w = (Inr r, w')"
    "rr_matrix_token r \<noteq> []"
  shows "\<exists>c'. up w' \<and> stored w' key = Some c' \<and> wc_matrix_token c' \<noteq> [] \<and> r = refresh_of (wc_matrix_token c') c'"
proof (cases "wc_matrix_token c = []")
  case False
  then show ?thesis using assms by (auto simp: refresh_token_def ensure_matrix_token_def)
next
  case True
  obtain l w1 where l: "run_state (mo_login (pv_matrix p) user (wc_matrix_password c)) w = (l, w1)"
    by (metis surj_pair)
  then have w1: "up w1" using keepsD [OF keeps_login l assms(1)] by simp
  from assms(3) True l obtain t where t: "l = Inr t"
    by (cases l) (auto simp: refresh_token_def ensure_matrix_token_def)
  let ?c = "c\<lparr>wc_matrix_token := t\<rparr>"
  obtain e w2 where s: "run_state (cs_save (pv_creds p) key ?c) w1 = (e, w2)" by (metis surj_pair)
  note sv = save_run [OF s w1]
  have "r = refresh_of t ?c" "w' = w2"
    using assms(3) True l t s sv by (auto simp: refresh_token_def ensure_matrix_token_def)
  then show ?thesis using sv assms(4) by (auto simp: refresh_of_def)
qed

lemma refresh_is_stable:
  assumes "up w" "run_state (refresh_worker_credentials p cn wn) w = (Inr r, w')" "rr_matrix_token r \<noteq> []"
  shows "run_state (refresh_worker_credentials p cn wn) w' = (Inr r, w')"
proof -
  let ?cn = "if cn = [] then wn else cn"
  obtain lr w1 where ld: "run_state (load_worker_credentials p ?cn wn) w = (lr, w1)" by (metis surj_pair)
  with assms(2) obtain c where c: "lr = (Some c, None)"
      and rt: "run_state (refresh_token p ?cn wn c) w1 = (Inr r, w')"
    by (cases lr) (auto simp: refresh_worker_credentials_def Let_def split: option.splits if_splits)
  from load_worker_run [OF assms(1)] ld c have "up w1" "stored w1 ?cn = Some c" by auto
  from refresh_token_run [OF this rt assms(3)] obtain c' where
    "up w'" "stored w' ?cn = Some c'" "wc_matrix_token c' \<noteq> []" "r = refresh_of (wc_matrix_token c') c'"
    by blast
  then show ?thesis using stored_token_used by simp
qed

text \<open>A worker's room is settled without touching the store.\<close>

lemma quiet_list [quiet]: "keeps stored up (list_members p room [])"
  by (simp add: list_members_def quiet)

lemma quiet_remove [quiet]: "keeps stored up (remove_member p room [] u)"
  unfolding remove_member_def kick_member_def force_leave_room_def
  by (auto intro!: keeps_bind quiet split: option.splits)

lemma quiet_invites [quiet]: "keeps stored up (invite_loop p room [] current us err)"
  by (induction us arbitrary: err)
    (auto intro!: keeps_bind quiet simp: invite_member_def)

lemma quiet_kicks [quiet]: "keeps stored up (kick_loop p room [] desired ms err)"
  by (induction ms arbitrary: err)
    (auto intro!: keeps_bind quiet)

lemma quiet_membership [quiet]: "keeps stored up (reconcile_room_membership p room desired)"
  unfolding reconcile_room_membership_def reconcile_room_membership_with_def
  by (auto intro!: keeps_bind quiet split: sum.splits)

lemma quiet_settle [quiet]: "keeps stored up (settle_worker_room p req room token)"
  unfolding settle_worker_room_def by (auto intro!: keeps_bind quiet)

lemma quiet_randoms [quiet]: "keeps stored up (generate_random_hex (pv_random p) n)"
  unfolding generate_random_hex_def by (auto intro!: keeps_bind quiet)

lemma quiet_generate [quiet]: "keeps stored up (generate_credentials (pv_random p))"
  unfolding generate_credentials_def by (auto intro!: keeps_bind quiet split: sum.splits)

text \<open>What a chain of fallible steps leaves when it succeeds.\<close>

lemma up_load_worker:
  assumes "up w"
  shows "up (snd (run_state (load_worker_credentials p cn wn) w))"
proof -
  have "\<And>l. up (snd (run_state (cs_save (pv_creds p) cn l) w))"
    using save_run [OF _ assms] by (metis surj_pair snd_conv)
  then show ?thesis
    using assms by (auto simp: load_worker_credentials_def load_run split: option.splits prod.splits)
      (metis snd_conv)
qed

lemma yields_credentials:
  assumes "up w" "\<And>c w1. up w1 \<Longrightarrow> yields (k c) w1 Q"
  shows "yields (provision_credentials p cn wn k) w Q"
  unfolding provision_credentials_def
proof (rule yields_step, goal_cases)
  case (1 v w1)
  then have "up w1" using up_load_worker [OF assms(1), of cn wn] by (auto simp: load_result_def split: prod.splits)
  then show ?case
  proof (cases v)
    case None
    then show ?thesis
      using \<open>up w1\<close> keepsD [OF quiet_generate]
      by (auto intro!: yields_step yields_check assms(2) dest: save_run)
  qed (simp add: assms(2))
qed

lemma yields_storage:
  assumes "up w" "\<And>w1. up w1 \<Longrightarrow> yields k w1 Q"
  shows "yields (provision_storage p pr pw k) w Q"
proof (cases "pv_oss_admin p")
  case (Some ad)
  show ?thesis
    using keepsD [OF keeps_admin_user [OF Some]] keepsD [OF keeps_admin_policy [OF Some]] assms
    by (auto simp: provision_storage_def Some intro!: yields_check)
qed (simp add: provision_storage_def assms)

lemma yields_consumer:
  assumes "up w" "stored w cn = Some c"
    "\<And>c' w1. up w1 \<Longrightarrow> stored w1 cn = Some c' \<Longrightarrow> wc_matrix_token c' = wc_matrix_token c \<Longrightarrow> yields (k c') w1 Q"
  shows "yields (provision_consumer p consumer cn provider c k) w Q"
  unfolding provision_consumer_def
proof (rule yields_step, goal_cases)
  case (1 r w1)
  then have w1: "up w1" "stored w1 cn = Some c" using keepsD [OF keeps_consumer _ assms(1)] assms(2) by metis+
  show ?case
    by (auto intro!: yields_check yields_bind dest!: save_run [OF _ w1(1)] intro!: assms(3)
        simp: w1 dest: keepsD [OF keeps_authorize])
qed

lemma provision_then_refresh:
  assumes "up w" "run_state (provision_worker p req) w = (Inr pr, w')" "pr_matrix_token pr \<noteq> []"
  shows "run_state (refresh_worker_credentials p (wq_credential_name req) (wq_name req)) w' =
    (Inr \<lparr>rr_matrix_token = pr_matrix_token pr, rr_gateway_key = pr_gateway_key pr,
       rr_minio_password = pr_minio_password pr, rr_matrix_password = pr_matrix_password pr\<rparr>, w')"
proof -
  let ?cn = "if wq_credential_name req = [] then wq_name req else wq_credential_name req"
  let ?Q = "\<lambda>pr w'. up w' \<and> (\<exists>c uid room. stored w' ?cn = Some c \<and>
    pr = provision_result uid (pr_matrix_token pr) room c \<and>
    (pr_matrix_token pr \<noteq> [] \<longrightarrow> wc_matrix_token c = pr_matrix_token pr))"
  have "yields (provision_worker p req) w ?Q"
    unfolding provision_worker_def Let_def
  proof (rule yields_credentials [OF assms(1)], rule yields_step, rule yields_storage, goal_cases)
    case (1 c0 w1 uc w2)
    then show ?case using keepsD [OF keeps_ensure_user] by blast
  next
    case (2 c0 w1 uc w2 w3)
    show ?case
    proof (rule yields_step, goal_cases)
      case (1 room w4)
      then have w4: "up w4" using keepsD [OF keeps_create_room] 2 by blast
      let ?c = "with_user c0 uc"
      have tok: "uc_access_token uc \<noteq> [] \<Longrightarrow> wc_matrix_token ?c = uc_access_token uc"
        by (simp add: with_user_def Let_def)
      show ?case
      proof (rule yields_bind, rule yields_bind, rule yields_consumer, goal_cases)
        case (1 e w5 u w6)
        then show ?case using save_run [OF 1(1) w4] keepsD [OF quiet_settle 1(2)] by simp
      next
        case (2 e w5 u w6)
        then show ?case using save_run [OF 2(1) w4] keepsD [OF quiet_settle 2(2)] by simp
      next
        case (3 e w5 u w6 c' w7)
        then show ?case using tok by (auto simp: provision_result_def)
      qed
    qed
  qed
  from yieldsD [OF this assms(2)] obtain c uid room where
    c: "up w'" "stored w' ?cn = Some c" "pr = provision_result uid (pr_matrix_token pr) room c"
      "wc_matrix_token c = pr_matrix_token pr"
    using assms(3) by blast
  have "run_state (refresh_worker_credentials p (wq_credential_name req) (wq_name req)) w' =
      (Inr (refresh_of (wc_matrix_token c) c), w')"
    using stored_token_used c assms(3) by simp
  moreover have "pr_gateway_key pr = wc_gateway_key c" "pr_minio_password pr = wc_minio_password c"
      "pr_matrix_password pr = wc_matrix_password c"
    by (subst c(3), simp add: provision_result_def)+
  ultimately show ?thesis using c(4) by (simp add: refresh_of_def)
qed

end

section \<open>Secrets in Kubernetes, everything else elsewhere\<close>

text \<open>
  A provisioner whose credentials are Secrets of the namespace, in the first component of the
  state, and whose other collaborators work on the second one.
\<close>

definition matrix_alongside :: "'x matrix_ops \<Rightarrow> ('s \<times> 'x) matrix_ops" where
  "matrix_alongside o1 =
     \<lparr>mo_ensure_user = (\<lambda>a. on_second (mo_ensure_user o1 a)),
      mo_create_room = (\<lambda>a. on_second (mo_create_room o1 a)),
      mo_resolve_alias = (\<lambda>a. on_second (mo_resolve_alias o1 a)),
      mo_delete_alias = (\<lambda>a. on_second (mo_delete_alias o1 a)),
      mo_join = (\<lambda>a b. on_second (mo_join o1 a b)),
      mo_leave = (\<lambda>a b. on_second (mo_leave o1 a b)),
      mo_send = (\<lambda>a b c. on_second (mo_send o1 a b c)),
      mo_send_as_admin = (\<lambda>a b. on_second (mo_send_as_admin o1 a b)),
      mo_login = (\<lambda>a b. on_second (mo_login o1 a b)),
      mo_set_display_name = (\<lambda>a b c. on_second (mo_set_display_name o1 a b c)),
      mo_admin_command = (\<lambda>a. on_second (mo_admin_command o1 a)),
      mo_joined_rooms = (\<lambda>a. on_second (mo_joined_rooms o1 a)),
      mo_members = (\<lambda>a. on_second (mo_members o1 a)),
      mo_members_as = (\<lambda>a b. on_second (mo_members_as o1 a b)),
      mo_invite = (\<lambda>a b. on_second (mo_invite o1 a b)),
      mo_invite_as = (\<lambda>a b c. on_second (mo_invite_as o1 a b c)),
      mo_kick = (\<lambda>a b c. on_second (mo_kick o1 a b c)),
      mo_kick_as = (\<lambda>a b c d. on_second (mo_kick_as o1 a b c d)),
      mo_user_id = mo_user_id o1\<rparr>"

definition ports_alongside :: "'x expose_gateway \<Rightarrow> ('s \<times> 'x) expose_gateway" where
  "ports_alongside g =
     \<lparr>eg_expose = (\<lambda>r. on_second (eg_expose g r)), eg_unexpose = (\<lambda>r. on_second (eg_unexpose g r))\<rparr>"

definition gateway_alongside :: "'x gateway_ops \<Rightarrow> ('s \<times> 'x) gateway_ops" where
  "gateway_alongside g =
     \<lparr>go_ensure_consumer = (\<lambda>a. on_second (go_ensure_consumer g a)),
      go_delete_consumer = (\<lambda>a. on_second (go_delete_consumer g a)),
      go_authorize = (\<lambda>a b. on_second (go_authorize g a b)),
      go_deauthorize = (\<lambda>a b. on_second (go_deauthorize g a b)),
      go_ports = ports_alongside (go_ports g)\<rparr>"

definition admin_alongside :: "'x storage_admin \<Rightarrow> ('s \<times> 'x) storage_admin" where
  "admin_alongside a =
     \<lparr>ad_ensure_user = (\<lambda>u q. on_second (ad_ensure_user a u q)),
      ad_ensure_policy = (\<lambda>r. on_second (ad_ensure_policy a r)),
      ad_delete_user = (\<lambda>u. on_second (ad_delete_user a u))\<rparr>"

definition accounts_alongside :: "'x service_accounts \<Rightarrow> ('s \<times> 'x) service_accounts" where
  "accounts_alongside a =
     \<lparr>sv_get = (\<lambda>n. on_second (sv_get a n)), sv_create = (\<lambda>s. on_second (sv_create a s)),
      sv_delete = (\<lambda>n. on_second (sv_delete a n)), sv_token = (\<lambda>n aud t. on_second (sv_token a n aud t))\<rparr>"

definition secrets_alongside ::
  "secret_store_config \<Rightarrow> ((string \<times> secret) list \<times> 'x) credential_store" where
  "secrets_alongside cfg =
     \<lparr>cs_load = (\<lambda>n. on_first (secret_load namespace_secrets n)),
      cs_save = (\<lambda>n c. on_first (secret_save namespace_secrets cfg n c)),
      cs_delete = (\<lambda>n. on_first (secret_delete namespace_secrets n))\<rparr>"

definition with_secrets ::
  "secret_store_config \<Rightarrow> 'x provisioner \<Rightarrow> ((string \<times> secret) list \<times> 'x) provisioner" where
  "with_secrets cfg q =
     \<lparr>pv_matrix = matrix_alongside (pv_matrix q), pv_gateway = gateway_alongside (pv_gateway q),
      pv_oss_admin = map_option admin_alongside (pv_oss_admin q), pv_creds = secrets_alongside cfg,
      pv_random = (\<lambda>n. on_second (pv_random q n)),
      pv_accounts = map_option accounts_alongside (pv_accounts q), pv_namespace = pv_namespace q,
      pv_auth_audience = pv_auth_audience q, pv_matrix_domain = pv_matrix_domain q,
      pv_admin_user = pv_admin_user q, pv_prefix = pv_prefix q, pv_controller_name = pv_controller_name q,
      pv_manager_password = pv_manager_password q, pv_manager_gateway_key = pv_manager_gateway_key q,
      pv_manager_enabled = pv_manager_enabled q\<rparr>"

lemma keeps_on_second [simp]: "keeps (\<lambda>w. stored_secrets (fst w)) (\<lambda>w. secrets_named (fst w)) (on_second m)"
  by (simp add: keeps_def run_on_second)

lemma secrets_alongside_kept:
  "credentials_kept (secrets_alongside cfg) (\<lambda>w. stored_secrets (fst w)) (\<lambda>w. secrets_named (fst w)) (\<lambda>c. True)"
proof
  fix w :: "(string \<times> secret) list \<times> 'x" and n
  assume "secrets_named (fst w)"
  then show "run_state (cs_load (secrets_alongside cfg) n) w = ((stored_secrets (fst w) n, None), w)"
    using secret_store.load_reads [where w = "fst w" and n = n and cfg = cfg]
    by (simp add: secrets_alongside_def run_on_first secret_credential_store_def)
next
  fix w :: "(string \<times> secret) list \<times> 'x" and n c
  assume "secrets_named (fst w)"
  then show "\<exists>w'. run_state (cs_save (secrets_alongside cfg) n c) w = (None, w') \<and> secrets_named (fst w') \<and>
      stored_secrets (fst w') = (stored_secrets (fst w))(n \<mapsto> c)"
    using secret_store.save_writes [where w = "fst w" and c = c and n = n and cfg = cfg]
    by (auto simp: secrets_alongside_def run_on_first secret_credential_store_def)
next
  fix w :: "(string \<times> secret) list \<times> 'x" and n
  assume "secrets_named (fst w)"
  then show "\<exists>w'. run_state (cs_delete (secrets_alongside cfg) n) w = (None, w') \<and> secrets_named (fst w') \<and>
      stored_secrets (fst w') = (stored_secrets (fst w))(n := None)"
    using secret_store.delete_removes [where w = "fst w" and n = n and cfg = cfg]
    by (auto simp: secrets_alongside_def run_on_first secret_credential_store_def)
qed

interpretation kubernetes: quiet_services "with_secrets cfg q" "\<lambda>w. stored_secrets (fst w)"
  "\<lambda>w. secrets_named (fst w)" "\<lambda>c. True" for cfg and q :: "'x provisioner"
  unfolding quiet_services_def quiet_services_axioms_def
  using secrets_alongside_kept [of cfg]
  by (auto simp: with_secrets_def matrix_alongside_def gateway_alongside_def admin_alongside_def)

section \<open>The properties\<close>

text \<open>A refresh of a worker's credentials is stable: whatever the other services answer, once it
  returned a token, the next refresh returns the same token and secrets, logs in nowhere, and
  changes neither a Secret nor anything else.\<close>

theorem worker_refresh_stable:
  assumes "secrets_named (fst w)"
    "run_state (refresh_worker_credentials (with_secrets cfg q) cn wn) w = (Inr r, w')"
    "rr_matrix_token r \<noteq> []"
  shows "run_state (refresh_worker_credentials (with_secrets cfg q) cn wn) w' = (Inr r, w')"
  using assms by (rule kubernetes.refresh_is_stable)


text \<open>
  Leaving the rooms of a worker looks its credentials up under the name it is given, and without
  credentials nothing is asked of the homeserver. The member reconciler gives the runtime name,
  provisioning stores under the credential name.
\<close>

lemma rooms_kept_without_credentials:
  assumes "secrets_named (fst w)" "stored_secrets (fst w) runtime_name = None"
  shows "run_state (leave_all_worker_rooms (with_secrets cfg q) runtime_name) w = (None, w)"
  using kubernetes.load_run [OF assms(1), of cfg q runtime_name] assms(2)
  by (simp add: leave_all_worker_rooms_def leave_all_rooms_def)

section \<open>Examples\<close>

definition sample_matrix :: "unit matrix_ops" where
  "sample_matrix =
     \<lparr>mo_ensure_user = (\<lambda>r. State_Monad.return (Inr \<lparr>uc_user_id = ''@w:hs'', uc_access_token = ''syt'',
        uc_password = eu_password r, uc_created = True\<rparr>)),
      mo_create_room = (\<lambda>r. State_Monad.return (Inr \<lparr>ri_room_id = ''!r:hs'', ri_created = True\<rparr>)),
      mo_resolve_alias = (\<lambda>a. State_Monad.return (Inr None)), mo_delete_alias = (\<lambda>a. State_Monad.return None),
      mo_join = (\<lambda>a b. State_Monad.return None), mo_leave = (\<lambda>a b. State_Monad.return None),
      mo_send = (\<lambda>a b c. State_Monad.return None), mo_send_as_admin = (\<lambda>a b. State_Monad.return None),
      mo_login = (\<lambda>a b. State_Monad.return (Inr ''syt'')),
      mo_set_display_name = (\<lambda>a b c. State_Monad.return None), mo_admin_command = (\<lambda>a. State_Monad.return None),
      mo_joined_rooms = (\<lambda>a. State_Monad.return (Inr [])), mo_members = (\<lambda>a. State_Monad.return (Inr [])),
      mo_members_as = (\<lambda>a b. State_Monad.return (Inr [])), mo_invite = (\<lambda>a b. State_Monad.return None),
      mo_invite_as = (\<lambda>a b c. State_Monad.return None), mo_kick = (\<lambda>a b c. State_Monad.return None),
      mo_kick_as = (\<lambda>a b c d. State_Monad.return None), mo_user_id = (\<lambda>n. ''@'' @ n @ '':hs'')\<rparr>"

definition sample_gateway :: "unit gateway_ops" where
  "sample_gateway =
     \<lparr>go_ensure_consumer = (\<lambda>r. State_Monad.return (Inr \<lparr>cso_status = ''created'', cso_api_key = ''key'',
        cso_consumer_id = []\<rparr>)),
      go_delete_consumer = (\<lambda>a. State_Monad.return None), go_authorize = (\<lambda>a b. State_Monad.return None),
      go_deauthorize = (\<lambda>a b. State_Monad.return None),
      go_ports = \<lparr>eg_expose = (\<lambda>r. State_Monad.return None), eg_unexpose = (\<lambda>r. State_Monad.return None)\<rparr>\<rparr>"

definition sample_services :: "unit provisioner" where
  "sample_services =
     \<lparr>pv_matrix = sample_matrix, pv_gateway = sample_gateway, pv_oss_admin = None,
      pv_creds = \<lparr>cs_load = (\<lambda>n. State_Monad.return (None, None)), cs_save = (\<lambda>n c. State_Monad.return None),
        cs_delete = (\<lambda>n. State_Monad.return None)\<rparr>,
      pv_random = (\<lambda>n. State_Monad.return (Inr ''a'')), pv_accounts = None, pv_namespace = ''default'',
      pv_auth_audience = [], pv_matrix_domain = ''hs'', pv_admin_user = ''admin'', pv_prefix = ''hiclaw'',
      pv_controller_name = ''ctl'', pv_manager_password = [], pv_manager_gateway_key = [],
      pv_manager_enabled = True\<rparr>"

definition sample_secrets :: secret_store_config where
  "sample_secrets = \<lparr>ssc_namespace = ''default'', ssc_controller_name = ''ctl'', ssc_prefix = ''hiclaw''\<rparr>"

definition sample_provision :: worker_provision_request where
  "sample_provision = \<lparr>wq_name = ''alice'', wq_credential_name = ''cr'', wq_model_provider_id = [],
     wq_role = ''standalone'', wq_team_name = [], wq_team_leader_name = []\<rparr>"

abbreviation sample_provisioner :: "((string \<times> secret) list \<times> unit) provisioner" where
  "sample_provisioner \<equiv> with_secrets sample_secrets sample_services"

lemma no_secrets [simp]: "secrets_named []" "stored_secrets [] n = None"
  by (simp_all add: secrets_named_def stored_secrets_def)

lemmas sample_defs = with_secrets_def matrix_alongside_def gateway_alongside_def sample_services_def
  sample_matrix_def sample_gateway_def run_on_second

lemma sample_load:
  "secrets_named m \<Longrightarrow> run_state (cs_load (pv_creds sample_provisioner) n) (m, x) = ((stored_secrets m n, None), (m, x))"
  using kubernetes.load_run [of "(m, x)" sample_secrets sample_services n] by simp

lemma unit_world [simp]: "(fst w, ()) = w"
  by (cases w) simp

lemma sample_generated:
  "run_state (generate_credentials (pv_random sample_provisioner)) w =
     (Inr \<lparr>wc_matrix_password = hex_encode ''a'', wc_minio_password = hex_encode ''a'',
        wc_gateway_key = hex_encode ''a'', wc_matrix_token = []\<rparr>, w)"
  by (simp add: generate_credentials_def generate_random_hex_def sample_defs)

lemma sample_key: "hex_encode ''a'' \<noteq> ''key''" "''key'' \<noteq> hex_encode ''a''"
  by (simp_all add: hex_encode_def)

lemma sample_save:
  "run_state (cs_save (pv_creds sample_provisioner) n c) ([], ()) =
     (None, ([(secret_name n, credentials_secret sample_secrets n c)], ()))"
  by (simp add: with_secrets_def secrets_alongside_def run_on_first secret_save_def namespace_secrets_def
      is_api_not_found_def Let_def)

lemma sample_save_again:
  "run_state (cs_save (pv_creds sample_provisioner) n c') ([(secret_name n, credentials_secret sample_secrets n c)], ()) =
     (None, ([(secret_name n, credentials_secret sample_secrets n c')], ()))"
  by (simp add: with_secrets_def secrets_alongside_def run_on_first secret_save_def namespace_secrets_def
      is_api_not_found_def credentials_secret_def Let_def)

lemma sample_services_run:
  "run_state (mo_ensure_user (pv_matrix sample_provisioner) er) w = (Inr \<lparr>uc_user_id = ''@w:hs'',
     uc_access_token = ''syt'', uc_password = eu_password er, uc_created = True\<rparr>, w)"
  "run_state (mo_create_room (pv_matrix sample_provisioner) cr) w = (Inr \<lparr>ri_room_id = ''!r:hs'', ri_created = True\<rparr>, w)"
  "run_state (mo_join (pv_matrix sample_provisioner) room tok) w = (None, w)"
  "run_state (mo_login (pv_matrix sample_provisioner) u pw) w = (Inr ''syt'', w)"
  "run_state (go_ensure_consumer (pv_gateway sample_provisioner) csr) w =
     (Inr \<lparr>cso_status = ''created'', cso_api_key = ''key'', cso_consumer_id = []\<rparr>, w)"
  "run_state (go_authorize (pv_gateway sample_provisioner) c pr) w = (None, w)"
  "pv_oss_admin sample_provisioner = None"
  by (simp_all add: sample_defs)

lemma sample_provisioned:
  "\<exists>pr w'. run_state (provision_worker sample_provisioner sample_provision) ([], ()) = (Inr pr, w') \<and>
     pr_matrix_token pr = ''syt'' \<and> pr_gateway_key pr = ''key''"
  by (simp add: provision_worker_def sample_provision_def provision_credentials_def step_or_fail_def
      check_or_fail_def load_result_def load_worker_credentials_def sample_load sample_generated sample_save
      sample_save_again sample_services_run provision_storage_def settle_worker_room_def
      provision_consumer_def provision_result_def with_user_def sample_key Let_def)


lemma worker_refresh_stable_witness:
  "\<exists>r w'. run_state (refresh_worker_credentials sample_provisioner ''cr'' ''alice'')
       ([(secret_name ''cr'', credentials_secret sample_secrets ''cr'' no_credentials)], ()) = (Inr r, w') \<and>
     rr_matrix_token r = ''syt'' \<and>
     run_state (refresh_worker_credentials sample_provisioner ''cr'' ''alice'') w' = (Inr r, w')"
proof -
  let ?w = "([(secret_name ''cr'', credentials_secret sample_secrets ''cr'' no_credentials)], ())"
  have n: "secrets_named (fst ?w)" by (simp add: secrets_named_def)
  have l: "stored_secrets (fst ?w) ''cr'' = Some no_credentials" by (simp add: stored_secrets_def)
  have t: "wc_matrix_token no_credentials = []" by (simp add: no_credentials_def)
  have "\<exists>r w'. run_state (refresh_worker_credentials sample_provisioner ''cr'' ''alice'') ?w = (Inr r, w') \<and>
      rr_matrix_token r = ''syt''"
    using n l by (simp add: refresh_worker_credentials_def load_worker_credentials_def sample_load refresh_token_def
        ensure_matrix_token_def sample_services_run sample_save_again t refresh_of_def Let_def)
  then obtain r w' where r: "run_state (refresh_worker_credentials sample_provisioner ''cr'' ''alice'') ?w = (Inr r, w')"
      "rr_matrix_token r = ''syt''"
    by blast
  with worker_refresh_stable [OF n r(1)] show ?thesis by auto
qed

end
