(* ===== verification/Package_Deploy.thy ===== *)
theory Package_Deploy
  imports Storage Agents_Md
begin

text \<open>
  \<open>internal/executor/package.go\<close>: seeding the files of an extracted package into the agent's object
  prefix and its local directory, and writing the inline configuration files. Whether a file was
  seeded is only logged and not returned here. The object store is never nil where the deployer
  calls it, so the branches for a nil store are left out.
\<close>

record config_file =
  cf_name :: string
  cf_data :: string

definition package_builtin_block :: string where
  "package_builtin_block =
     ''<!-- hiclaw-builtin-start -->'' @ newline @
     ''> '' @ warning_sign @ '' **DO NOT EDIT** this section. It is managed by HiClaw and will be automatically'' @ newline @
     ''> replaced on upgrade. To customize, add your content **after** the'' @ newline @
     ''> `<!-- hiclaw-builtin-end -->` marker below.'' @ newline @
     newline @
     ''<!-- hiclaw-builtin-end -->'' @ newline @ newline"

definition package_frontmatter :: "string \<Rightarrow> string \<times> string" where
  "package_frontmatter content =
     (if has_prefix content (''---'' @ newline)
      then (case str_index (drop 4 content) (newline @ ''---'' @ newline) of
              Some e \<Rightarrow> (take (4 + e + 4) content, drop (4 + e + 4) content)
            | None \<Rightarrow> ([], content))
      else ([], content))"

definition wrap_with_builtin_markers :: "string \<Rightarrow> string" where
  "wrap_with_builtin_markers content =
     (if str_contains content builtin_start then content
      else let (frontmatter, body) = package_frontmatter content in
        (if frontmatter \<noteq> [] then frontmatter @ newline else []) @ package_builtin_block @ body)"

section \<open>Seed-only writes\<close>

definition put_package_object_seed_only ::
  "'w agent_storage \<Rightarrow> string \<Rightarrow> string \<Rightarrow> ('w, go_error option) state" where
  "put_package_object_seed_only s target data = do {
     e \<leftarrow> so_stat s target;
     (case e of
        None \<Rightarrow> State_Monad.return None
      | Some err \<Rightarrow> if \<not> is_os_not_exist err then State_Monad.return (Some err) else so_put s target data) }"

definition put_package_file_seed_only ::
  "'w agent_storage \<Rightarrow> string \<Rightarrow> string \<Rightarrow> ('w, go_error option) state" where
  "put_package_file_seed_only s local_path target = do {
     e \<leftarrow> so_stat s target;
     (case e of
        None \<Rightarrow> State_Monad.return None
      | Some err \<Rightarrow>
          if \<not> is_os_not_exist err then State_Monad.return (Some err) else so_put_file s local_path target) }"

definition seed_dir_to_storage ::
  "'w local_files \<Rightarrow> 'w agent_storage \<Rightarrow> string \<Rightarrow> string \<Rightarrow> ('w, go_error option) state" where
  "seed_dir_to_storage lf s src_dir dst_prefix =
     walk_dir lf src_dir (on_file (\<lambda>rel. put_package_file_seed_only s (path_join src_dir rel)
       (trim_suffix dst_prefix ''/'' @ ''/'' @ rel)))"

definition write_file_seed_only :: "'w local_files \<Rightarrow> string \<Rightarrow> string \<Rightarrow> ('w, go_error option) state" where
  "write_file_seed_only lf path data = do {
     r \<leftarrow> lf_is_dir lf path;
     (case r of
        Inr _ \<Rightarrow> State_Monad.return None
      | Inl err \<Rightarrow>
          if \<not> is_os_not_exist err then State_Monad.return (Some err)
          else then_step (lf_mkdir_all lf (path_dir path)) (lf_write lf path data)) }"

definition copy_entry :: "'w local_files \<Rightarrow> string \<Rightarrow> string \<Rightarrow> walk_item \<Rightarrow> ('w, go_error option) state" where
  "copy_entry lf src_dir dst_dir i =
     (case i of
        Walk_Dir rel \<Rightarrow> lf_mkdir_all lf (path_join dst_dir rel)
      | Walk_File rel \<Rightarrow> do {
          r \<leftarrow> lf_read lf (path_join src_dir rel);
          (case r of
             Inl e \<Rightarrow> State_Monad.return (Some e)
           | Inr data \<Rightarrow> write_file_seed_only lf (path_join dst_dir rel) data) }
      | _ \<Rightarrow> State_Monad.return None)"

definition copy_dir_seed_only :: "'w local_files \<Rightarrow> string \<Rightarrow> string \<Rightarrow> ('w, go_error option) state" where
  "copy_dir_seed_only lf src_dir dst_dir = walk_dir lf src_dir (copy_entry lf src_dir dst_dir)"

section \<open>The content of a package\<close>

definition is_directory :: "'w local_files \<Rightarrow> string \<Rightarrow> ('w, bool) state" where
  "is_directory lf dir = do { r \<leftarrow> lf_is_dir lf dir; State_Monad.return (r = Inr True) }"

text \<open>The files of the configuration directory and the names of its directories.\<close>

fun collect_config ::
  "'w local_files \<Rightarrow> string \<Rightarrow> bool \<Rightarrow> (string \<times> bool) list \<Rightarrow> config_file list \<Rightarrow> string list \<Rightarrow>
   ('w, config_file list \<times> string list) state" where
  "collect_config lf config_dir exclude_memory [] files subdirs = State_Monad.return (files, subdirs)"
| "collect_config lf config_dir exclude_memory ((name, dir) # es) files subdirs =
     (if dir then collect_config lf config_dir exclude_memory es files (subdirs @ [name])
      else if exclude_memory \<and> name = ''MEMORY.md'' then collect_config lf config_dir exclude_memory es files subdirs
      else do {
        r \<leftarrow> lf_read lf (path_join config_dir name);
        (case r of
           Inl e \<Rightarrow> collect_config lf config_dir exclude_memory es files subdirs
         | Inr data \<Rightarrow>
             collect_config lf config_dir exclude_memory es
               (files @ [\<lparr>cf_name = name,
                  cf_data = (if name = ''AGENTS.md'' then wrap_with_builtin_markers data else data)\<rparr>]) subdirs) })"

definition package_config ::
  "'w local_files \<Rightarrow> string \<Rightarrow> bool \<Rightarrow> ('w, config_file list \<times> string list) state" where
  "package_config lf extracted exclude_memory =
     (let config_dir = path_join extracted ''config'' in do {
        d \<leftarrow> is_directory lf config_dir;
        (if d then do {
           es \<leftarrow> lf_read_dir lf config_dir;
           collect_config lf config_dir exclude_memory (case es of Inl _ \<Rightarrow> [] | Inr l \<Rightarrow> l) [] [] }
         else do {
           r \<leftarrow> lf_read lf (path_join extracted ''SOUL.md'');
           State_Monad.return
             (case r of Inl _ \<Rightarrow> ([], []) | Inr data \<Rightarrow> ([\<lparr>cf_name = ''SOUL.md'', cf_data = data\<rparr>], [])) }) })"

definition cron_data :: "'w local_files \<Rightarrow> string \<Rightarrow> ('w, string option) state" where
  "cron_data lf extracted =
     (let crons_dir = path_join extracted ''crons'' in do {
        d \<leftarrow> is_directory lf crons_dir;
        (if \<not> d then State_Monad.return None
         else do {
           r \<leftarrow> lf_read lf (path_join crons_dir ''jobs.json'');
           State_Monad.return
             (case r of
                Inl _ \<Rightarrow> None
              | Inr raw \<Rightarrow>
                  let trimmed = trim_space raw in
                  if has_prefix trimmed ''['' then
                    Some ([CHR ''{'', dquote] @ ''version'' @ [dquote] @ '':1,'' @ [dquote] @ ''jobs'' @ [dquote] @
                      '':'' @ trimmed @ ''}'')
                  else Some raw) }) })"

section \<open>Deploying a package\<close>

text \<open>On an update the deployer writes \<open>SOUL.md\<close> and \<open>AGENTS.md\<close> itself.\<close>

definition deployed_files :: "bool \<Rightarrow> config_file list \<Rightarrow> config_file list" where
  "deployed_files exclude_memory files =
     filter (\<lambda>f. \<not> (exclude_memory \<and> (cf_name f = ''SOUL.md'' \<or> cf_name f = ''AGENTS.md''))) files"

definition push_config_files ::
  "'w agent_storage \<Rightarrow> string \<Rightarrow> config_file list \<Rightarrow> ('w, go_error option) state" where
  "push_config_files s agent_prefix files =
     each_step (\<lambda>f. wrap_error (''push '' @ cf_name f @ '' to MinIO'')
       (put_package_object_seed_only s (agent_prefix @ ''/'' @ cf_name f) (cf_data f))) files"

definition seed_config_subdirs ::
  "'w local_files \<Rightarrow> 'w agent_storage \<Rightarrow> string \<Rightarrow> string \<Rightarrow> string list \<Rightarrow> ('w, go_error option) state" where
  "seed_config_subdirs lf s config_dir agent_prefix subdirs =
     each_step (\<lambda>dir. wrap_error (''seed config directory '' @ dir @ '' to storage'')
       (walk_dir lf (path_join config_dir dir) (on_file (\<lambda>rel.
          put_package_file_seed_only s (path_join (path_join config_dir dir) rel)
            (agent_prefix @ ''/'' @ dir @ ''/'' @ rel))))) subdirs"

definition seed_skills ::
  "'w local_files \<Rightarrow> 'w agent_storage \<Rightarrow> string \<Rightarrow> string \<Rightarrow> ('w, go_error option) state" where
  "seed_skills lf s skills_dir agent_prefix = do {
     d \<leftarrow> is_directory lf skills_dir;
     (if d then wrap_error ''seed skills to storage'' (seed_dir_to_storage lf s skills_dir (agent_prefix @ ''/skills''))
      else State_Monad.return None) }"

definition push_package ::
  "'w local_files \<Rightarrow> 'w agent_storage \<Rightarrow> string \<Rightarrow> string \<Rightarrow> config_file list \<Rightarrow> string list \<Rightarrow> string option \<Rightarrow>
   ('w, go_error option) state" where
  "push_package lf s extracted agent_prefix files subdirs crons =
     (let config_dir = path_join extracted ''config'' in
      then_step (push_config_files s agent_prefix files)
     (then_step (seed_config_subdirs lf s config_dir agent_prefix subdirs)
     (then_step (seed_config_subdirs lf s config_dir agent_prefix subdirs)
     (then_step (seed_skills lf s (path_join extracted ''skills'') agent_prefix)
        (case crons of
           None \<Rightarrow> State_Monad.return None
         | Some data \<Rightarrow> wrap_error ''seed crons to storage''
             (put_package_object_seed_only s (agent_prefix @ ''/.openclaw/cron/jobs.json'') data))))))"

definition copy_package ::
  "'w local_files \<Rightarrow> string \<Rightarrow> string \<Rightarrow> config_file list \<Rightarrow> string list \<Rightarrow> string option \<Rightarrow>
   ('w, go_error option) state" where
  "copy_package lf extracted agent_dir files subdirs crons =
     then_step (each_step (\<lambda>f. wrap_error (''seed local '' @ cf_name f)
        (write_file_seed_only lf (path_join agent_dir (cf_name f)) (cf_data f))) files)
     (then_step (each_step (\<lambda>dir. wrap_error (''seed local config directory '' @ dir)
        (copy_dir_seed_only lf (path_join (path_join extracted ''config'') dir) (path_join agent_dir dir))) subdirs)
     (then_step (do {
        d \<leftarrow> is_directory lf (path_join extracted ''skills'');
        (if d then wrap_error ''seed local skills''
           (copy_dir_seed_only lf (path_join extracted ''skills'') (path_join agent_dir ''skills''))
         else State_Monad.return None) })
        (case crons of
           None \<Rightarrow> State_Monad.return None
         | Some data \<Rightarrow> wrap_error ''seed local crons''
             (write_file_seed_only lf (path_join agent_dir ''.openclaw/cron/jobs.json'') data))))"

definition deploy_to_minio ::
  "'w local_files \<Rightarrow> 'w agent_storage \<Rightarrow> string \<Rightarrow> string \<Rightarrow> bool \<Rightarrow> ('w, go_error option) state" where
  "deploy_to_minio lf s extracted worker_name exclude_memory =
     (let agent_dir = ''/root/hiclaw-fs/agents/'' @ worker_name;
          agent_prefix = ''agents/'' @ worker_name
      in then_step (wrap_error ''create agent dir'' (lf_mkdir_all lf agent_dir)) (do {
        c \<leftarrow> package_config lf extracted exclude_memory;
        crons \<leftarrow> cron_data lf extracted;
        (let files = deployed_files exclude_memory (fst c); subdirs = sort_strings (snd c) in
         then_step (push_package lf s extracted agent_prefix files subdirs crons)
           (copy_package lf extracted agent_dir files subdirs crons)) }))"

section \<open>Inline configuration\<close>

definition merges_identity :: "string \<Rightarrow> bool" where
  "merges_identity runtime \<longleftrightarrow> equal_fold runtime ''copaw'' \<or> equal_fold runtime ''hermes''"

definition merged_soul :: "string \<Rightarrow> string \<Rightarrow> string" where
  "merged_soul identity soul =
     (if identity \<noteq> [] then trim_space identity @ newline @ newline else []) @
     (if soul \<noteq> [] then trim_space soul else [])"

definition write_if :: "bool \<Rightarrow> 'w local_files \<Rightarrow> string \<Rightarrow> string \<Rightarrow> string \<Rightarrow> ('w, go_error option) state" where
  "write_if c lf dir name data =
     (if c then wrap_error (''write '' @ name) (lf_write lf (path_join dir name) data) else State_Monad.return None)"

definition write_inline_files ::
  "'w local_files \<Rightarrow> string \<Rightarrow> string \<Rightarrow> string \<Rightarrow> string \<Rightarrow> string \<Rightarrow> ('w, go_error option) state" where
  "write_inline_files lf agent_dir runtime identity soul agents =
     then_step (wrap_error (''create agent dir '' @ agent_dir) (lf_mkdir_all lf agent_dir))
     (then_step
        (if merges_identity runtime
         then write_if (merged_soul identity soul \<noteq> []) lf agent_dir ''SOUL.md'' (merged_soul identity soul @ newline)
         else then_step (write_if (identity \<noteq> []) lf agent_dir ''IDENTITY.md'' (trim_space identity @ newline))
                (write_if (soul \<noteq> []) lf agent_dir ''SOUL.md'' (trim_space soul @ newline)))
        (write_if (agents \<noteq> []) lf agent_dir ''AGENTS.md'' (wrap_with_builtin_markers (trim_space agents))))"

end
