(* ===== verification/Plugin_Merge.thy ===== *)
theory Plugin_Merge
  imports Legacy_Registry
begin

text \<open>
  The merge that keeps a user's plugin settings when \<open>openclaw.json\<close> is generated again
  (\<open>mergeUserPluginConfig\<close> and its helpers in \<open>internal/service/deployer.go\<close>) and its use for the
  Manager (\<open>PutManagerConfig\<close> in \<open>legacy.go\<close>). A JSON object is the list of its members; the code
  has maps, so the lemmas ask for distinct keys.
\<close>

section \<open>Slices\<close>

definition jstrs :: "string list \<Rightarrow> json" where
  "jstrs xs = JArr (map JStr xs)"

text \<open>The strings of a value; a slice that was only declared is nil and marshalled as null.\<close>

definition to_string_slice :: "json \<Rightarrow> string list" where
  "to_string_slice v = slice (extract_string_slice v)"

definition declared_slice :: "string list \<Rightarrow> json" where
  "declared_slice xs = (if xs = [] then JNull else jstrs xs)"

lemma to_string_slice_strings [simp]:
  "to_string_slice (jstrs xs) = xs" "to_string_slice (declared_slice xs) = xs" "to_string_slice JNull = []"
  by (simp_all add: to_string_slice_def declared_slice_def jstrs_def slice_def List.map_filter_def comp_def)

section \<open>Merging objects\<close>

text \<open>\<open>deepMergeMap\<close> on two maps: the override wins unless both values are maps.\<close>

function deep_merge_map :: "(string \<times> json) list \<Rightarrow> (string \<times> json) list \<Rightarrow> (string \<times> json) list"
  and merge_value :: "json option \<Rightarrow> json \<Rightarrow> json" where
  "deep_merge_map base [] = base"
| "deep_merge_map base ((k, ov) # rest) =
     deep_merge_map (json_put k (merge_value (map_of base k) ov) base) rest"
| "merge_value bv ov =
     (case (bv, ov) of
        (Some (JObj b), JObj o1) \<Rightarrow> JObj (deep_merge_map b o1)
      | _ \<Rightarrow> ov)"
  by pat_completeness auto

termination
  by (relation "measure (case_sum (\<lambda>(b, kvs). 2 * size (JObj kvs)) (\<lambda>(b, v). 2 * size v + 1))") simp_all

declare merge_value.simps [simp del]

text \<open>With nil maps, as \<open>None\<close>.\<close>

definition deep_merge :: "(string \<times> json) list option \<Rightarrow> (string \<times> json) list option \<Rightarrow> (string \<times> json) list option" where
  "deep_merge base override =
     (case (base, override) of
        (None, _) \<Rightarrow> override
      | (Some b, None) \<Rightarrow> Some b
      | (Some b, Some o1) \<Rightarrow> Some (deep_merge_map b o1))"

definition map_json :: "(string \<times> json) list option \<Rightarrow> json" where
  "map_json m = (case m of None \<Rightarrow> JNull | Some kvs \<Rightarrow> JObj kvs)"

section \<open>The plugin section\<close>

definition merge_entry :: "string \<times> json \<Rightarrow> (string \<times> json) list \<Rightarrow> (string \<times> json) list" where
  "merge_entry kv merged =
     (let (k, v) = kv in
      json_put k
        (case map_of merged k of
           Some gv \<Rightarrow> map_json (deep_merge (json_obj gv) (json_obj v))
         | None \<Rightarrow> v) merged)"

definition merge_entries :: "(string \<times> json) list \<Rightarrow> (string \<times> json) list \<Rightarrow> (string \<times> json) list" where
  "merge_entries gen existing = fold merge_entry existing gen"

definition union_paths :: "json \<Rightarrow> json \<Rightarrow> json" where
  "union_paths gen_paths exist_paths =
     declared_slice (dedup_loop (\<lambda>x. False) [] (to_string_slice gen_paths @ to_string_slice exist_paths))"

text \<open>A member of the section that is an object in both documents is merged, otherwise left alone.\<close>

definition merge_member ::
  "string \<Rightarrow> ((string \<times> json) list \<Rightarrow> (string \<times> json) list \<Rightarrow> (string \<times> json) list) \<Rightarrow>
   (string \<times> json) list \<Rightarrow> (string \<times> json) list \<Rightarrow> (string \<times> json) list" where
  "merge_member key f existing gen =
     (case (json_obj (json_get gen key), json_obj (json_get existing key)) of
        (Some g, Some e) \<Rightarrow> json_put key (JObj (f g e)) gen
      | _ \<Rightarrow> gen)"

definition merge_load :: "(string \<times> json) list \<Rightarrow> (string \<times> json) list \<Rightarrow> (string \<times> json) list" where
  "merge_load g e = json_put ''paths'' (union_paths (json_get g ''paths'') (json_get e ''paths'')) g"

definition merge_plugins :: "(string \<times> json) list \<Rightarrow> (string \<times> json) list \<Rightarrow> (string \<times> json) list" where
  "merge_plugins gen existing =
     merge_member ''load'' merge_load existing (merge_member ''entries'' merge_entries existing gen)"

text \<open>\<open>None\<close> when one document has no plugin section: the generated bytes stay as they are.\<close>

definition merge_documents :: "(string \<times> json) list \<Rightarrow> (string \<times> json) list \<Rightarrow> (string \<times> json) list option" where
  "merge_documents gen existing =
     (case (json_obj (json_get gen ''plugins''), json_obj (json_get existing ''plugins'')) of
        (Some g, Some e) \<Rightarrow> Some (json_put ''plugins'' (JObj (merge_plugins g e)) gen)
      | _ \<Rightarrow> None)"

text \<open>The members of a document that decodes to a map; null is the nil map.\<close>

definition document :: "json \<Rightarrow> (string \<times> json) list" where
  "document v = (case json_obj v of Some kvs \<Rightarrow> kvs | None \<Rightarrow> [])"

definition merge_user_plugin_config :: "json codec \<Rightarrow> string \<Rightarrow> string \<Rightarrow> string result" where
  "merge_user_plugin_config c generated existing =
     (case cd_unmarshal c generated of
        Inl e \<Rightarrow> Inl e
      | Inr g \<Rightarrow>
          (case cd_unmarshal c existing of
             Inl e \<Rightarrow> Inl e
           | Inr x \<Rightarrow>
               (case merge_documents (document g) (document x) of
                  None \<Rightarrow> Inr generated
                | Some merged \<Rightarrow> cd_marshal c (JObj merged))))"

section \<open>The Manager's configuration\<close>

definition merged_manager_config :: "json codec \<Rightarrow> string \<Rightarrow> string \<Rightarrow> string" where
  "merged_manager_config c existing config0 =
     (let config =
        (case (cd_unmarshal c existing, cd_unmarshal c config0) of
           (Inr old, Inr new) \<Rightarrow>
             (case cd_marshal c (merge_group_allow_from old new) of Inr merged \<Rightarrow> merged | Inl _ \<Rightarrow> config0)
         | _ \<Rightarrow> config0)
      in case merge_user_plugin_config c config existing of Inl _ \<Rightarrow> config | Inr merged \<Rightarrow> merged)"

definition put_manager_config :: "'w legacy_compat \<Rightarrow> string \<Rightarrow> ('w, go_error option) state" where
  "put_manager_config l config0 = when_enabled l (\<lambda>s. do {
     r \<leftarrow> so_get s (manager_config_key l);
     let config = (case r of
         Inr existing \<Rightarrow>
           if existing \<noteq> [] then merged_manager_config (lc_config_codec l) existing config0 else config0
       | Inl _ \<Rightarrow> config0);
     p \<leftarrow> so_put s (manager_config_key l) config;
     (case p of
        Some e \<Rightarrow> State_Monad.return (Some e)
      | None \<Rightarrow> do {
          _ \<leftarrow> write_manager_local_config l config;
          State_Monad.return None }) })"

section \<open>Documents with distinct keys\<close>

fun distinct_keys :: "json \<Rightarrow> bool" where
  "distinct_keys (JObj kvs) \<longleftrightarrow> distinct (map fst kvs) \<and> list_all (\<lambda>kv. distinct_keys (snd kv)) kvs"
| "distinct_keys _ \<longleftrightarrow> True"

lemma distinct_keys_value: "distinct_keys (JObj kvs) \<Longrightarrow> map_of kvs k = Some v \<Longrightarrow> distinct_keys v"
  by (auto simp: list_all_iff dest: map_of_SomeD)

lemma keys_put: "map fst (json_put k v kvs) = map fst kvs @ (if k \<in> fst ` set kvs then [] else [k])"
  by (induction kvs) (auto simp: json_put_def)

lemma map_of_put [simp]: "map_of (json_put k v kvs) = (map_of kvs)(k \<mapsto> v)"
  by (simp add: json_put_def update_conv')

text \<open>A map built by putting members one by one has the old keys first, then the new ones.\<close>

locale putting =
  fixes f :: "string \<times> json \<Rightarrow> (string \<times> json) list \<Rightarrow> (string \<times> json) list"
    and g :: "json option \<Rightarrow> json \<Rightarrow> json"
  assumes puts: "f (k, v) m = json_put k (g (map_of m k) v) m"
begin

lemma keys_fold:
  "distinct (map fst kvs) \<Longrightarrow>
   map fst (fold f kvs m) = map fst m @ filter (\<lambda>k. k \<notin> fst ` set m) (map fst kvs)"
proof (induction kvs arbitrary: m)
  case (Cons kv kvs)
  obtain k v where kv: "kv = (k, v)" by (cases kv)
  have "filter (\<lambda>j. j \<notin> fst ` set (f kv m)) (map fst kvs) = filter (\<lambda>j. j \<notin> fst ` set m) (map fst kvs)"
  proof (rule filter_cong [OF refl])
    fix j
    assume "j \<in> set (map fst kvs)"
    then have "j \<noteq> k" using Cons.prems kv by auto
    moreover have "fst ` set (f kv m) = insert k (fst ` set m)"
      using arg_cong [OF keys_put, of set k "g (map_of m k) v" m] by (auto simp: kv puts)
    ultimately show "(j \<notin> fst ` set (f kv m)) = (j \<notin> fst ` set m)" by simp
  qed
  then show ?case
    using Cons.IH [of "f kv m"] Cons.prems keys_put [of k "g (map_of m k) v" m] by (simp add: kv puts)
qed simp

lemma lookup_fold:
  "distinct (map fst kvs) \<Longrightarrow>
   map_of (fold f kvs m) k = (case map_of kvs k of None \<Rightarrow> map_of m k | Some v \<Rightarrow> Some (g (map_of m k) v))"
proof (induction kvs arbitrary: m)
  case (Cons kv kvs)
  obtain j v where kv: "kv = (j, v)" by (cases kv)
  have "map_of kvs j = None" using Cons.prems kv by (simp add: map_of_eq_None_iff)
  moreover have "map_of (f kv m) = (map_of m)(j \<mapsto> g (map_of m j) v)" by (simp add: kv puts)
  ultimately show ?case
    using Cons.IH [of "f kv m"] Cons.prems by (cases "k = j"; cases "map_of kvs k") (simp_all add: kv)
qed simp

lemma distinct_fold:
  "distinct (map fst m) \<Longrightarrow> distinct (map fst kvs) \<Longrightarrow> distinct (map fst (fold f kvs m))"
  by (auto simp: keys_fold simp flip: set_map)

end

interpretation deep: putting "\<lambda>kv m. json_put (fst kv) (merge_value (map_of m (fst kv)) (snd kv)) m" merge_value
  by unfold_locales simp

definition entry_value :: "json option \<Rightarrow> json \<Rightarrow> json" where
  "entry_value gv v =
     (case gv of None \<Rightarrow> v | Some g \<Rightarrow> map_json (deep_merge (json_obj g) (json_obj v)))"

interpretation entries: putting merge_entry entry_value
  by unfold_locales (simp add: merge_entry_def entry_value_def split: option.splits)

lemma deep_merge_fold:
  "deep_merge_map b kvs = fold (\<lambda>kv m. json_put (fst kv) (merge_value (map_of m (fst kv)) (snd kv)) m) kvs b"
  by (induction kvs arbitrary: b) auto

lemma same_members:
  "map fst xs = map fst ys \<Longrightarrow> distinct (map fst xs) \<Longrightarrow> (\<And>k. map_of xs k = map_of ys k) \<Longrightarrow> xs = ys"
proof (induction xs arbitrary: ys)
  case (Cons x xs)
  then obtain y zs where ys: "ys = y # zs" by (cases ys) auto
  have "map fst xs = map fst zs" using Cons.prems(1) by (simp add: ys)
  then have "fst ` set xs = fst ` set zs" by (metis list.set_map)
  then have k: "fst x = fst y" "fst x \<notin> fst ` set xs" "fst x \<notin> fst ` set zs"
    using Cons.prems(1,2) by (auto simp: ys)
  have "snd x = snd y" using Cons.prems(3) [of "fst x"] k by (simp add: ys map_of_Cons_code)
  moreover have "map_of xs j = map_of zs j" for j
  proof (cases "j = fst x")
    case True
    then show ?thesis using k by (simp add: map_of_eq_None_iff [THEN iffD2])
  next
    case False
    then show ?thesis using Cons.prems(3) [of j] k(1) by (simp add: ys map_of_Cons_code)
  qed
  ultimately show ?case
    using Cons.IH [of zs] Cons.prems(1,2) k(1) by (simp add: ys prod_eq_iff)
qed simp

section \<open>Merging twice\<close>

lemmas deep_keys = deep.keys_fold [folded deep_merge_fold]
lemmas deep_lookup = deep.lookup_fold [folded deep_merge_fold]

lemmas distinct_deep = deep.distinct_fold [folded deep_merge_fold]

lemma merge_self: "distinct_keys v \<Longrightarrow> merge_value (Some v) v = v"
proof (induction v)
  case (JObj kvs)
  have d: "distinct (map fst kvs)" using JObj.prems by simp
  have "deep_merge_map kvs kvs = kvs"
  proof (rule same_members)
    show "map fst (deep_merge_map kvs kvs) = map fst kvs"
      using d by (simp add: deep_keys)
    show "distinct (map fst (deep_merge_map kvs kvs))" by (rule distinct_deep [OF d d])
    show "map_of (deep_merge_map kvs kvs) k = map_of kvs k" for k
      using JObj.IH distinct_keys_value [OF JObj.prems] d
      by (auto simp: deep_lookup split: option.splits dest!: map_of_SomeD) 
  qed
  then show ?case by (simp add: merge_value.simps)
qed (simp_all add: merge_value.simps)

lemma distinct_keys_obj:
  "distinct_keys (JObj kvs) \<longleftrightarrow> distinct (map fst kvs) \<and> (\<forall>k v. map_of kvs k = Some v \<longrightarrow> distinct_keys v)"
proof -
  have "distinct (map fst kvs) \<Longrightarrow> list_all (\<lambda>kv. distinct_keys (snd kv)) kvs \<longleftrightarrow>
      (\<forall>k v. map_of kvs k = Some v \<longrightarrow> distinct_keys v)"
    by (auto simp: list_all_iff dest: map_of_SomeD)
  then show ?thesis by auto
qed

declare distinct_keys.simps(1) [simp del]

lemma merge_distinct:
  "distinct_keys v \<Longrightarrow> (\<And>b. bv = Some b \<Longrightarrow> distinct_keys b) \<Longrightarrow> distinct_keys (merge_value bv v)"
proof (induction v arbitrary: bv)
  case (JObj kvs)
  show ?case
  proof (cases "\<exists>b. bv = Some (JObj b)")
    case True
    then obtain b where b: "bv = Some (JObj b)" by blast
    then have db: "distinct_keys (JObj b)" using JObj.prems(2) by simp
    have "distinct_keys v" if "map_of (deep_merge_map b kvs) k = Some v" for k v
    proof (cases "map_of kvs k")
      case None
      then show ?thesis using that db JObj.prems(1) by (auto simp: deep_lookup distinct_keys_obj)
    next
      case (Some ov)
      then have v: "v = merge_value (map_of b k) ov" using that JObj.prems(1) by (simp add: deep_lookup distinct_keys_obj)
      have "(k, ov) \<in> set kvs" using Some by (rule map_of_SomeD)
      then have "distinct_keys (merge_value (map_of b k) ov)"
        using JObj.prems(1) db Some by (intro JObj.IH [of "(k, ov)"]) (auto simp: distinct_keys_obj)
      then show ?thesis by (simp add: v)
    qed
    moreover have "distinct (map fst (deep_merge_map b kvs))"
      using JObj.prems(1) db by (intro distinct_deep) (simp_all add: distinct_keys_obj)
    ultimately show ?thesis by (auto simp: b merge_value.simps distinct_keys_obj)
  next
    case False
    then have "merge_value bv (JObj kvs) = JObj kvs"
      by (auto simp: merge_value.simps split: option.splits json.splits)
    then show ?thesis using JObj.prems(1) by simp
  qed
qed (simp_all add: merge_value.simps split: option.splits json.splits)

lemma deep_merge_settles:
  assumes "distinct_keys (JObj b)" "distinct (map fst o1)"
    "\<And>k v. map_of o1 k = Some v \<Longrightarrow>
       merge_value (map_of b k) (merge_value (map_of b k) v) = merge_value (map_of b k) v"
  shows "deep_merge_map b (deep_merge_map b o1) = deep_merge_map b o1"
proof (rule same_members)
  have d: "distinct (map fst b)" "distinct (map fst (deep_merge_map b o1))"
    using assms(1,2) distinct_deep by (auto simp: distinct_keys_obj)
  show "map fst (deep_merge_map b (deep_merge_map b o1)) = map fst (deep_merge_map b o1)"
    using d assms(2) by (simp add: deep_keys filter_empty_conv)
  show "distinct (map fst (deep_merge_map b (deep_merge_map b o1)))"
    using d by (rule distinct_deep)
  show "map_of (deep_merge_map b (deep_merge_map b o1)) k = map_of (deep_merge_map b o1) k" for k
  proof (cases "map_of o1 k")
    case None
    then show ?thesis
      using assms(1,2) d merge_self
      by (cases "map_of b k") (auto simp: deep_lookup distinct_keys_obj)
  next
    case (Some v)
    then show ?thesis using assms d by (simp add: deep_lookup)
  qed
qed

lemma merge_settles:
  "distinct_keys v \<Longrightarrow> (\<And>b. bv = Some b \<Longrightarrow> distinct_keys b) \<Longrightarrow>
   merge_value bv (merge_value bv v) = merge_value bv v"
proof (induction v arbitrary: bv)
  case (JObj kvs)
  show ?case
  proof (cases "\<exists>b. bv = Some (JObj b)")
    case True
    then obtain b where b: "bv = Some (JObj b)" by blast
    then have db: "distinct_keys (JObj b)" using JObj.prems(2) by simp
    have "merge_value (map_of b k) (merge_value (map_of b k) v) = merge_value (map_of b k) v"
      if "map_of kvs k = Some v" for k v
    proof (rule JObj.IH [OF map_of_SomeD [OF that]])
      show "distinct_keys v" using that JObj.prems(1) by (auto simp: distinct_keys_obj)
      show "distinct_keys b'" if "map_of b k = Some b'" for b' using that db by (auto simp: distinct_keys_obj)
    qed simp
    then have "deep_merge_map b (deep_merge_map b kvs) = deep_merge_map b kvs"
      using JObj.prems(1) db by (intro deep_merge_settles) (auto simp: distinct_keys_obj)
    then show ?thesis by (simp add: b merge_value.simps)
  next
    case False
    then show ?thesis by (auto simp: merge_value.simps split: option.splits json.splits)
  qed
qed (simp_all add: merge_value.simps split: option.splits json.splits)

section \<open>The load paths\<close>

lemma dedup_seen: "set seen = set seen' \<Longrightarrow> dedup_loop p seen xs = dedup_loop p seen' xs"
proof (induction p seen xs arbitrary: seen' rule: dedup_loop.induct)
  case (2 skip seen x xs)
  then show ?case using "2.IH"(3) [of "x # seen'"] by auto
qed simp

lemma dedup_append:
  "dedup_loop (\<lambda>x. False) seen (xs @ ys) =
     dedup_loop (\<lambda>x. False) seen xs @ dedup_loop (\<lambda>x. False) (xs @ seen) ys"
proof (induction xs arbitrary: seen)
  case (Cons x xs)
  then show ?case by (cases "x \<in> set seen") (auto intro!: dedup_seen)
qed simp

lemma dedup_nothing: "set xs \<subseteq> set seen \<Longrightarrow> dedup_loop (\<lambda>x. False) seen xs = []"
  by (induction xs) auto

lemma dedup_fresh: "distinct xs \<Longrightarrow> set xs \<inter> set seen = {} \<Longrightarrow> dedup_loop (\<lambda>x. False) seen xs = xs"
  by (induction xs arbitrary: seen) auto

lemma union_paths_settles: "union_paths g (union_paths g e) = union_paths g e"
proof -
  let ?g = "to_string_slice g" and ?e = "to_string_slice e"
  let ?n = "dedup_loop (\<lambda>x. False) ?g ?e"
  have "dedup_loop (\<lambda>x. False) [] (?g @ dedup_loop (\<lambda>x. False) [] (?g @ ?e)) = dedup_loop (\<lambda>x. False) [] (?g @ ?e)"
    using dedup_nothing [of "dedup_loop (\<lambda>x. False) [] ?g" ?g] dedup_seen [of "dedup_loop (\<lambda>x. False) [] ?g @ ?g" ?g]
      dedup_fresh [of ?n ?g]
    by (auto simp: dedup_append dedup_loop_set dedup_loop_distinct)
  then show ?thesis by (simp add: union_paths_def)
qed

section \<open>Paths into a document\<close>

text \<open>The value under a path of keys.\<close>

fun value_at :: "json \<Rightarrow> string list \<Rightarrow> json option" where
  "value_at v [] = Some v"
| "value_at (JObj kvs) (k # ks) = (case map_of kvs k of None \<Rightarrow> None | Some v \<Rightarrow> value_at v ks)"
| "value_at _ (k # ks) = None"

definition setting :: "json \<Rightarrow> bool" where
  "setting v \<longleftrightarrow> json_obj v = None"

lemma not_setting: "\<not> setting v \<longleftrightarrow> (\<exists>kvs. v = JObj kvs)"
  by (cases v) (simp_all add: setting_def)

lemma value_in_object: "value_at v (k # ks) = Some x \<Longrightarrow> \<exists>kvs. v = JObj kvs"
  by (cases v) simp_all

lemma merge_setting: "setting v \<Longrightarrow> merge_value bv v = v"
  by (cases v) (auto simp: setting_def merge_value.simps split: option.splits json.splits)

text \<open>A setting of the user stays, in an object at any depth.\<close>

lemma setting_survives:
  "distinct_keys v \<Longrightarrow> value_at v ks = Some x \<Longrightarrow> setting x \<Longrightarrow> value_at (merge_value bv v) ks = Some x"
proof (induction ks arbitrary: v bv)
  case Nil
  then show ?case by (simp add: merge_setting)
next
  case (Cons k ks)
  then obtain kvs where v: "v = JObj kvs" using value_in_object by blast
  then obtain y where y: "map_of kvs k = Some y" "value_at y ks = Some x"
    using Cons.prems(2) by (auto split: option.splits)
  show ?case
  proof (cases "\<exists>b. bv = Some (JObj b)")
    case True
    then obtain b where b: "bv = Some (JObj b)" by blast
    have "value_at (merge_value (map_of b k) y) ks = Some x"
      using Cons.IH y Cons.prems(1,3) by (auto simp: v distinct_keys_obj)
    then show ?thesis
      using Cons.prems(1) y by (simp add: v b merge_value.simps deep_lookup distinct_keys_obj)
  next
    case False
    then have "merge_value bv v = v"
      by (auto simp: v merge_value.simps split: option.splits json.splits)
    then show ?thesis using Cons.prems(2) by simp
  qed
qed

text \<open>A generated value stays where the user has nothing on its path.\<close>

lemma default_survives:
  "distinct_keys (JObj kvs) \<Longrightarrow> map_of kvs k = None \<Longrightarrow>
   value_at (JObj (deep_merge_map b kvs)) (k # ks) = value_at (JObj b) (k # ks)"
  by (simp add: deep_lookup distinct_keys_obj)

section \<open>Documents\<close>

lemma json_get_distinct: "distinct_keys (JObj kvs) \<Longrightarrow> distinct_keys (json_get kvs k)"
  by (cases "map_of kvs k") (auto simp: json_get_def distinct_keys_obj)

lemma json_obj_Some [simp]: "json_obj v = Some kvs \<longleftrightarrow> v = JObj kvs"
  by (cases v) simp_all

lemma json_put_same: "map_of kvs k = Some v \<Longrightarrow> distinct (map fst kvs) \<Longrightarrow> json_put k v kvs = kvs"
  unfolding json_put_def by (induction kvs) (auto simp: rev_image_eqI dest: map_of_SomeD)

lemma json_put_put [simp]: "json_put k v (json_put k v' kvs) = json_put k v kvs"
  by (induction kvs) (auto simp: json_put_def)

lemma json_put_swap:
  "j \<noteq> k \<Longrightarrow> k \<in> fst ` set kvs \<Longrightarrow> json_put j v (json_put k w kvs) = json_put k w (json_put j v kvs)"
  by (induction kvs) (auto simp: json_put_def)

lemma entry_value_settles:
  assumes "distinct_keys v" "\<And>b. gv = Some b \<Longrightarrow> distinct_keys b \<and> \<not> setting b"
  shows "entry_value gv (entry_value gv v) = entry_value gv v"
proof (cases gv)
  case (Some g)
  then obtain b where b: "g = JObj b" "distinct_keys (JObj b)" using assms(2) not_setting by auto
  have m: "entry_value gv (JObj o1) = merge_value (Some g) (JObj o1)" for o1
    by (simp add: entry_value_def Some b deep_merge_def map_json_def merge_value.simps)
  show ?thesis
  proof (cases "setting v")
    case True
    then have "entry_value gv v = g"
      by (cases v) (simp_all add: entry_value_def Some b deep_merge_def map_json_def setting_def)
    then show ?thesis using merge_self [OF b(2)] m [of b] by (simp add: b)
  next
    case False
    then obtain o1 where v: "v = JObj o1" using not_setting by auto
    have "merge_value (Some g) (JObj o1) = JObj (deep_merge_map b o1)"
      by (simp add: b merge_value.simps)
    then show ?thesis
      using merge_settles [of "JObj o1" "Some g"] assms(1) b m by (auto simp: v)
  qed
qed (simp add: entry_value_def)

lemma entries_settle:
  assumes "distinct_keys (JObj g)" "list_all (\<lambda>kv. \<not> setting (snd kv)) g" "distinct_keys (JObj e)"
  shows "merge_entries g (merge_entries g e) = merge_entries g e"
proof (rule same_members)
  have d: "distinct (map fst g)" "distinct (map fst e)" using assms by (auto simp: distinct_keys_obj)
  have k: "map fst (merge_entries g e) = map fst g @ filter (\<lambda>k. k \<notin> fst ` set g) (map fst e)"
    using d by (simp add: merge_entries_def entries.keys_fold)
  have d1: "distinct (map fst (merge_entries g e))"
    using d by (simp add: merge_entries_def entries.distinct_fold)
  then show "distinct (map fst (merge_entries g (merge_entries g e)))"
    using d by (simp add: merge_entries_def entries.distinct_fold)
  show "map fst (merge_entries g (merge_entries g e)) = map fst (merge_entries g e)"
    using d1 k entries.keys_fold [of "merge_entries g e" g]
    by (simp add: merge_entries_def [of g "merge_entries g e"] filter_empty_conv)
  have l: "map_of (merge_entries g x) k =
      (case map_of x k of None \<Rightarrow> map_of g k | Some v \<Rightarrow> Some (entry_value (map_of g k) v))"
    if "distinct (map fst x)" for x k
    using that by (simp add: merge_entries_def entries.lookup_fold)
  have gv: "distinct_keys b \<and> \<not> setting b" if "map_of g k = Some b" for k b
    using that assms(1,2) by (auto simp: distinct_keys_obj list_all_iff dest: map_of_SomeD)
  have self: "entry_value (Some b) b = b" if "map_of g k = Some b" for k b
    using entry_value_settles [of JNull "Some b"] gv [OF that]
    by (auto simp: not_setting entry_value_def deep_merge_def map_json_def)
  show "map_of (merge_entries g (merge_entries g e)) k = map_of (merge_entries g e) k" for k
    using d d1 l [of e] l [of "merge_entries g e"] self [of k] entry_value_settles [of _ "map_of g k"] gv [of k] assms(3)
    by (cases "map_of e k"; cases "map_of g k") (auto simp: distinct_keys_obj)
qed

lemma get_not_null: "json_get kvs k = JObj v \<Longrightarrow> map_of kvs k = Some (JObj v)"
  by (simp add: json_get_def split: option.splits)

lemma merge_member_settles:
  assumes "distinct (map fst gen)"
    "\<And>g. json_get gen key = JObj g \<Longrightarrow> f g g = g"
    "\<And>g e. json_get gen key = JObj g \<Longrightarrow> json_get x key = JObj e \<Longrightarrow> f g (f g e) = f g e"
    "json_get y key = json_get (merge_member key f x gen) key"
  shows "merge_member key f y gen = merge_member key f x gen"
proof (cases "\<exists>g. json_get gen key = JObj g")
  case True
  then obtain g where g: "json_get gen key = JObj g" by blast
  show ?thesis
  proof (cases "\<exists>e. json_get x key = JObj e")
    case True
    then show ?thesis using assms(3,4) g by (auto simp: merge_member_def)
  next
    case False
    then have "merge_member key f x gen = gen"
      by (auto simp: merge_member_def split: option.splits)
    then show ?thesis
      using assms(1,2,4) g json_put_same [OF get_not_null [OF g]] by (simp add: merge_member_def)
  qed
next
  case False
  then have "\<And>z. merge_member key f z gen = gen"
    by (auto simp: merge_member_def split: option.splits)
  then show ?thesis by simp
qed

lemma merge_member_get:
  "k \<noteq> key \<Longrightarrow> json_get (merge_member key f e g) k = json_get g k"
  by (simp add: merge_member_def split: option.splits)

lemma merge_member_keys:
  "distinct (map fst g) \<Longrightarrow> distinct (map fst (merge_member key f e g))"
  using keys_put [of key _ g] by (auto simp: merge_member_def split: option.splits simp flip: set_map)

text \<open>Generated plugin sections: distinct keys, entries that are objects, and load paths as strings.\<close>

definition plugin_defaults :: "(string \<times> json) list \<Rightarrow> bool" where
  "plugin_defaults gen \<longleftrightarrow> distinct_keys (json_get gen ''plugins'') \<and>
     (case json_obj (json_get gen ''plugins'') of
        None \<Rightarrow> True
      | Some g \<Rightarrow>
          (case json_obj (json_get g ''entries'') of
             None \<Rightarrow> True
           | Some es \<Rightarrow> list_all (\<lambda>kv. \<not> setting (snd kv)) es) \<and>
          (case json_obj (json_get g ''load'') of
             None \<Rightarrow> True
           | Some l \<Rightarrow> merge_load l l = l))"

lemma merge_plugins_settles:
  assumes "distinct_keys (JObj g)" "distinct_keys (JObj e)"
    "\<And>es. json_get g ''entries'' = JObj es \<Longrightarrow> list_all (\<lambda>kv. \<not> setting (snd kv)) es"
    "\<And>l. json_get g ''load'' = JObj l \<Longrightarrow> merge_load l l = l"
  shows "merge_plugins g (merge_plugins g e) = merge_plugins g e"
proof -
  let ?h = "merge_member ''entries'' merge_entries e g"
  have dg: "distinct (map fst g)" using assms(1) by (simp add: distinct_keys_obj)
  have ent: "merge_entries a (merge_entries a b) = merge_entries a b"
    if "json_get g ''entries'' = JObj a" "distinct_keys (JObj b)" for a b
    using entries_settle [of a b] that assms(3) json_get_distinct [OF assms(1), of "''entries''"] by simp
  have self: "merge_entries a a = a" if a: "json_get g ''entries'' = JObj a" for a
    using ent [OF a, of "[]"] by (simp add: merge_entries_def distinct_keys_obj)
  have 1: "merge_member ''entries'' merge_entries (merge_plugins g e) g = ?h"
  proof (rule merge_member_settles [OF dg])
    show "merge_entries a a = a" if "json_get g ''entries'' = JObj a" for a
      using that by (rule self)
    show "merge_entries a (merge_entries a b) = merge_entries a b"
      if "json_get g ''entries'' = JObj a" "json_get e ''entries'' = JObj b" for a b
      using ent that json_get_distinct [OF assms(2), of "''entries''"] by simp
    show "json_get (merge_plugins g e) ''entries'' = json_get ?h ''entries''"
      by (simp add: merge_plugins_def merge_member_get)
  qed
  have "merge_member ''load'' merge_load (merge_plugins g e) ?h = merge_member ''load'' merge_load e ?h"
  proof (rule merge_member_settles [OF merge_member_keys [OF dg]])
    show "merge_load a a = a" if "json_get ?h ''load'' = JObj a" for a
      using assms(4) that by (simp add: merge_member_get)
    show "merge_load a (merge_load a b) = merge_load a b" for a b
      by (simp add: merge_load_def union_paths_settles)
    show "json_get (merge_plugins g e) ''load'' = json_get (merge_member ''load'' merge_load e ?h) ''load''"
      by (simp add: merge_plugins_def)
  qed
  with 1 show ?thesis by (simp add: merge_plugins_def)
qed

lemma merge_documents_settles:
  assumes "plugin_defaults gen" "distinct_keys (JObj x)" "merge_documents gen x = Some m"
  shows "merge_documents gen m = Some m"
proof -
  from assms(3) obtain g e where p: "json_get gen ''plugins'' = JObj g" "json_get x ''plugins'' = JObj e"
      "m = json_put ''plugins'' (JObj (merge_plugins g e)) gen"
    by (auto simp: merge_documents_def split: option.splits)
  have "merge_plugins g (merge_plugins g e) = merge_plugins g e"
  proof (rule merge_plugins_settles)
    show "distinct_keys (JObj g)" "distinct_keys (JObj e)"
      using json_get_distinct [OF assms(2), of "''plugins''"] assms(1)
      by (simp_all add: p plugin_defaults_def)
  qed (use assms(1) in \<open>auto simp: plugin_defaults_def p\<close>)
  then show ?thesis by (simp add: merge_documents_def p)
qed

lemma user_setting_survives:
  assumes "distinct_keys (JObj x)" "merge_documents gen x = Some m"
    "value_at (JObj gen) [''plugins'', ''entries''] = Some (JObj ge)"
    "value_at (JObj x) (''plugins'' # ''entries'' # n # k # ks) = Some v" "setting v"
  shows "value_at (JObj m) (''plugins'' # ''entries'' # n # k # ks) = Some v"
proof -
  from assms(2) obtain g e where p: "json_get gen ''plugins'' = JObj g" "json_get x ''plugins'' = JObj e"
      "m = json_put ''plugins'' (JObj (merge_plugins g e)) gen"
    by (auto simp: merge_documents_def split: option.splits)
  from p(1) assms(3) have ge: "json_get g ''entries'' = JObj ge"
    by (auto simp: json_get_def split: option.splits)
  have "value_at (JObj e) (''entries'' # n # k # ks) = Some v"
    using assms(4) get_not_null [OF p(2)] by simp
  then obtain w where w: "map_of e ''entries'' = Some w" "value_at w (n # k # ks) = Some v"
    by (cases "map_of e ''entries''") simp_all
  then obtain ee where ee: "map_of e ''entries'' = Some (JObj ee)" "value_at (JObj ee) (n # k # ks) = Some v"
    using value_in_object by blast
  then obtain ve where ve: "map_of ee n = Some ve" "value_at ve (k # ks) = Some v"
    by (cases "map_of ee n") simp_all
  then obtain o1 where o1: "ve = JObj o1" using value_in_object by blast
  have de: "distinct_keys (JObj e)" using json_get_distinct [OF assms(1), of "''plugins''"] by (simp add: p)
  then have dee: "distinct_keys (JObj ee)" using ee(1) by (rule distinct_keys_value)
  then have dve: "distinct_keys ve" using ve(1) by (rule distinct_keys_value)
  have "map_of (merge_plugins g e) ''entries'' = Some (JObj (merge_entries ge ee))"
    using ge ee(1) by (simp add: merge_plugins_def merge_member_def json_get_def split: option.splits)
  moreover have "map_of (merge_entries ge ee) n = Some (entry_value (map_of ge n) ve)"
    using entries.lookup_fold [of ee ge n] dee ve(1) by (simp add: merge_entries_def distinct_keys_obj)
  moreover have "value_at (entry_value (map_of ge n) ve) (k # ks) = Some v"
  proof (cases "map_of ge n")
    case (Some b)
    then show ?thesis
      using setting_survives [OF dve ve(2) assms(5), of "map_of ge n"] ve(2)
      by (cases b) (simp_all add: entry_value_def deep_merge_def map_json_def o1 merge_value.simps)
  qed (simp add: entry_value_def ve(2))
  ultimately show ?thesis by (simp add: p)
qed

section \<open>Properties\<close>

text \<open>Regenerating \<open>openclaw.json\<close> over the stored document keeps what the user set for a plugin:
  a setting (anything but an object) at any depth inside a plugin's object is found in the
  merged document with the user's value, whatever the generated defaults are; outside the
  plugin section the document is the generated one; and the load paths are the union of both.\<close>

theorem plugin_settings_kept:
  assumes "distinct_keys (JObj x)" "merge_documents gen x = Some m"
    "value_at (JObj gen) [''plugins'', ''entries''] = Some (JObj ge)"
    "value_at (JObj x) (''plugins'' # ''entries'' # n # k # ks) = Some v" "setting v"
    "value_at (JObj gen) [''plugins'', ''load''] = Some (JObj gl)"
    "value_at (JObj x) [''plugins'', ''load''] = Some (JObj xl)" "s \<noteq> ''plugins''"
  shows "value_at (JObj m) (''plugins'' # ''entries'' # n # k # ks) = Some v \<and>
    value_at (JObj m) (s # ss) = value_at (JObj gen) (s # ss) \<and>
    (\<exists>ps. value_at (JObj m) [''plugins'', ''load'', ''paths''] = Some ps \<and>
       set (to_string_slice ps) = set (to_string_slice (json_get gl ''paths'')) \<union>
         set (to_string_slice (json_get xl ''paths'')))"
proof (intro conjI)
  show "value_at (JObj m) (''plugins'' # ''entries'' # n # k # ks) = Some v"
    by (rule user_setting_survives [OF assms(1-5)])
  obtain g e where p: "json_get gen ''plugins'' = JObj g" "json_get x ''plugins'' = JObj e"
      "m = json_put ''plugins'' (JObj (merge_plugins g e)) gen"
    using assms(2) by (auto simp: merge_documents_def split: option.splits)
  then show "value_at (JObj m) (s # ss) = value_at (JObj gen) (s # ss)"
    using assms(8) by simp
  have "json_get g ''load'' = JObj gl" "json_get e ''load'' = JObj xl"
    using assms(6,7) get_not_null [OF p(1)] get_not_null [OF p(2)]
    by (auto simp: json_get_def split: option.splits)
  then have "map_of (merge_plugins g e) ''load'' = Some (JObj (merge_load gl xl))"
    by (simp add: merge_plugins_def merge_member_def json_get_def split: option.splits)
  then show "\<exists>ps. value_at (JObj m) [''plugins'', ''load'', ''paths''] = Some ps \<and>
       set (to_string_slice ps) = set (to_string_slice (json_get gl ''paths'')) \<union>
         set (to_string_slice (json_get xl ''paths''))"
    by (simp add: p(3) merge_load_def union_paths_def dedup_loop_set Un_def)
qed

definition sample_generated_doc :: "(string \<times> json) list" where
  "sample_generated_doc =
     [(''gateway'', JObj []),
      (''plugins'', JObj [(''load'', JObj [(''paths'', jstrs [''/opt/matrix''])]),
         (''entries'', JObj [(''memory-core'', JObj [(''enabled'', JBool True),
            (''config'', JObj [(''dreaming'', JObj [(''enabled'', JBool True)])])])])])]"

definition sample_stored_doc :: "(string \<times> json) list" where
  "sample_stored_doc =
     [(''plugins'', JObj [(''load'', JObj [(''paths'', jstrs [''/home/ext''])]),
         (''entries'', JObj [(''memory-core'', JObj [(''config'',
            JObj [(''dreaming'', JObj [(''enabled'', JBool False)])])])])])]"

lemma plugin_settings_kept_witness:
  "\<exists>m. merge_documents sample_generated_doc sample_stored_doc = Some m \<and>
     value_at (JObj m) [''plugins'', ''entries'', ''memory-core'', ''config'', ''dreaming'', ''enabled''] =
       Some (JBool False) \<and>
     value_at (JObj m) [''gateway''] = Some (JObj [])"
proof -
  obtain m where m: "merge_documents sample_generated_doc sample_stored_doc = Some m"
    by (simp add: merge_documents_def sample_generated_doc_def sample_stored_doc_def json_get_def)
  have d: "distinct_keys (JObj sample_stored_doc)"
    by (simp add: sample_stored_doc_def distinct_keys.simps jstrs_def)
  show ?thesis
    using plugin_settings_kept [OF d m, where n = "''memory-core''" and k = "''config''" and
        ks = "[''dreaming'', ''enabled'']" and v = "JBool False" and s = "''gateway''" and ss = "[]"] m
    by (simp add: sample_generated_doc_def sample_stored_doc_def setting_def)
qed

text \<open>
  An entry that is no object is not kept: when both documents have a value for it, the merged
  document has null.
\<close>

lemma scalar_entry_lost: "setting g \<Longrightarrow> setting v \<Longrightarrow> entry_value (Some g) v = JNull"
  by (simp add: entry_value_def deep_merge_def map_json_def setting_def)

end
