(* ===== verification/Openclaw_Config.thy ===== *)
theory Openclaw_Config
  imports Team_Policy Plugin_Merge
begin

text \<open>
  \<open>internal/agentconfig/generator.go\<close> and \<open>mcporter.go\<close>: the \<open>openclaw.json\<close> and
  \<open>mcporter-servers.json\<close> of an agent, as JSON documents; \<open>json.MarshalIndent\<close> is left to the
  deployer. A Go map is the list of its members in the order of the source.
\<close>

section \<open>Configuration and requests\<close>

record agent_config =
  ac_matrix_domain :: string
  ac_matrix_server_url :: string
  ac_ai_gateway_url :: string
  ac_admin_user :: string
  ac_default_model :: string
  ac_embedding_model :: string
  ac_e2ee_enabled :: bool
  ac_model_context_window :: int
  ac_model_max_tokens :: int
  ac_model_vision :: "bool option"
  ac_model_reasoning :: "bool option"

record worker_config_request =
  wr_worker_name :: string
  wr_matrix_token :: string
  wr_gateway_key :: string
  wr_model_name :: string
  wr_ai_gateway_url :: string
  wr_team_leader_name :: string
  wr_channel_policy :: "channel_policy_spec option"
  wr_heartbeat :: "heartbeat_config option"

record model_spec =
  msp_id :: string
  msp_name :: string
  msp_context_window :: int
  msp_max_tokens :: int
  msp_reasoning :: bool
  msp_input :: "string list"

definition new_generator :: "agent_config \<Rightarrow> agent_config" where
  "new_generator cfg =
     cfg\<lparr>ac_admin_user := (if ac_admin_user cfg = [] then ''admin'' else ac_admin_user cfg),
         ac_default_model := (if ac_default_model cfg = [] then ''qwen3.6-plus'' else ac_default_model cfg)\<rparr>"

definition or_default :: "string \<Rightarrow> string \<Rightarrow> string" where
  "or_default d s = (if s = [] then d else s)"

section \<open>Models\<close>

definition model_presets :: "(string \<times> int \<times> int \<times> bool \<times> bool) list" where
  "model_presets =
     [(''gpt-5.3-codex'', 400000, 128000, True, True),
      (''gpt-5-mini'', 400000, 128000, True, True),
      (''gpt-5-nano'', 400000, 128000, True, True),
      (''claude-opus-4-6'', 1000000, 128000, True, True),
      (''claude-sonnet-4-6'', 1000000, 64000, True, True),
      (''claude-haiku-4-5'', 200000, 64000, True, True),
      (''qwen3.6-plus'', 200000, 64000, True, True),
      (''qwen3.5-plus'', 200000, 64000, True, True),
      (''deepseek-chat'', 256000, 128000, False, True),
      (''deepseek-reasoner'', 256000, 128000, False, True),
      (''kimi-k2.5'', 256000, 128000, True, True),
      (''glm-5'', 200000, 128000, False, True),
      (''MiniMax-M2.7'', 200000, 128000, False, True),
      (''MiniMax-M2.7-highspeed'', 200000, 128000, False, True),
      (''MiniMax-M2.5'', 200000, 128000, False, True)]"

definition default_model_spec :: "string \<Rightarrow> model_spec" where
  "default_model_spec model_name =
     (let (ctx, mx, vision, reason) =
        (case map_of model_presets model_name of Some p \<Rightarrow> p | None \<Rightarrow> (150000, 128000, False, True))
      in \<lparr>msp_id = model_name, msp_name = model_name, msp_context_window = ctx, msp_max_tokens = mx,
          msp_reasoning = reason, msp_input = (if vision then [''text'', ''image''] else [''text''])\<rparr>)"

definition resolve_model_spec :: "agent_config \<Rightarrow> string \<Rightarrow> model_spec" where
  "resolve_model_spec g model_name =
     (let s0 = default_model_spec model_name;
          s1 = (if ac_model_context_window g > 0 then s0\<lparr>msp_context_window := ac_model_context_window g\<rparr> else s0);
          s2 = (if ac_model_max_tokens g > 0 then s1\<lparr>msp_max_tokens := ac_model_max_tokens g\<rparr> else s1);
          s3 = (case ac_model_vision g of
                  None \<Rightarrow> s2
                | Some True \<Rightarrow> s2\<lparr>msp_input := [''text'', ''image'']\<rparr>
                | Some False \<Rightarrow> s2\<lparr>msp_input := [''text'']\<rparr>)
      in case ac_model_reasoning g of None \<Rightarrow> s3 | Some r \<Rightarrow> s3\<lparr>msp_reasoning := r\<rparr>)"

definition all_models :: "string list" where
  "all_models =
     [''gpt-5.4'', ''gpt-5.3-codex'', ''gpt-5-mini'', ''gpt-5-nano'',
      ''claude-opus-4-6'', ''claude-sonnet-4-6'', ''claude-haiku-4-5'',
      ''qwen3.6-plus'', ''qwen3.5-plus'',
      ''deepseek-chat'', ''deepseek-reasoner'',
      ''kimi-k2.5'', ''glm-5'',
      ''MiniMax-M2.7'', ''MiniMax-M2.7-highspeed'', ''MiniMax-M2.5'']"

definition all_model_specs :: "agent_config \<Rightarrow> string \<Rightarrow> model_spec list" where
  "all_model_specs g selected =
     map (resolve_model_spec g) (all_models @ (if selected \<in> set all_models then [] else [selected]))"

definition gateway_model :: "string \<Rightarrow> string" where
  "gateway_model name = ''hiclaw-gateway/'' @ name"

definition model_alias :: "string \<Rightarrow> string \<times> json" where
  "model_alias name = (gateway_model name, JObj [(''alias'', JStr name)])"

definition all_model_aliases :: "string \<Rightarrow> (string \<times> json) list" where
  "all_model_aliases selected =
     (let base = map model_alias all_models in
      if gateway_model selected \<in> fst ` set base then base else base @ [model_alias selected])"

definition model_spec_json :: "model_spec \<Rightarrow> json" where
  "model_spec_json m =
     JObj [(''id'', JStr (msp_id m)), (''name'', JStr (msp_name m)),
       (''contextWindow'', JNum (msp_context_window m)), (''maxTokens'', JNum (msp_max_tokens m)),
       (''reasoning'', JBool (msp_reasoning m)), (''input'', jstrs (msp_input m))]"

section \<open>The Matrix channel\<close>

definition matrix_id :: "string \<Rightarrow> string \<Rightarrow> string" where
  "matrix_id localpart domain = ''@'' @ localpart @ '':'' @ domain"

text \<open>Who may talk to the agent by default: the Manager, or the leader of its team, and the admin.\<close>

definition default_allow_from :: "worker_config_request \<Rightarrow> string \<Rightarrow> string \<Rightarrow> string list" where
  "default_allow_from req domain admin_id =
     [if wr_team_leader_name req \<noteq> [] then matrix_id (wr_team_leader_name req) domain
      else matrix_id ''manager'' domain, admin_id]"

definition build_matrix_channel_config ::
  "agent_config \<Rightarrow> worker_config_request \<Rightarrow> string \<Rightarrow> string \<Rightarrow> string \<Rightarrow> (string \<times> json) list" where
  "build_matrix_channel_config g req server_url domain admin_id =
     [(''homeserver'', JStr server_url),
      (''enabled'', JBool True),
      (''userId'', JStr (matrix_id (wr_worker_name req) domain)),
      (''accessToken'', JStr (wr_matrix_token req)),
      (''encryption'', JBool (ac_e2ee_enabled g)),
      (''dm'', JObj [(''policy'', JStr ''allowlist''),
         (''allowFrom'', jstrs (default_allow_from req domain admin_id))]),
      (''groupPolicy'', JStr ''allowlist''),
      (''groupAllowFrom'', jstrs (default_allow_from req domain admin_id)),
      (''groups'', JObj [(''*'', JObj [(''allow'', JBool True), (''requireMention'', JBool True)])]),
      (''streaming'', JStr ''partial''),
      (''blockStreaming'', JBool True),
      (''network'', JObj [(''dangerouslyAllowPrivateNetwork'', JBool True)]),
      (''autoJoin'', JStr ''always'')]"

section \<open>Channel policy\<close>

definition resolve_id :: "string \<Rightarrow> string \<Rightarrow> string" where
  "resolve_id domain s = (if has_prefix s ''@'' then s else matrix_id s domain)"

fun append_missing :: "string list \<Rightarrow> string list \<Rightarrow> string list" where
  "append_missing existing [] = existing"
| "append_missing existing (x # xs) =
     append_missing (if x \<in> set existing then existing else existing @ [x]) xs"

text \<open>The additions to and removals from the allow list under a key.\<close>

definition allow_extra :: "string \<Rightarrow> string list \<Rightarrow> string \<Rightarrow> (string \<times> json) list \<Rightarrow> (string \<times> json) list" where
  "allow_extra domain extra key m =
     (if extra = [] then m
      else json_put key
        (jstrs (append_missing (to_string_slice (json_get m key)) (map (resolve_id domain) extra))) m)"

definition deny_extra :: "string \<Rightarrow> string list \<Rightarrow> string \<Rightarrow> (string \<times> json) list \<Rightarrow> (string \<times> json) list" where
  "deny_extra domain extra key m =
     (if extra = [] then m
      else json_put key
        (declared_slice (filter (\<lambda>i. i \<notin> set (map (resolve_id domain) extra)) (to_string_slice (json_get m key)))) m)"

definition on_dm :: "((string \<times> json) list \<Rightarrow> (string \<times> json) list) \<Rightarrow> (string \<times> json) list \<Rightarrow> (string \<times> json) list" where
  "on_dm f m = (case json_obj (json_get m ''dm'') of None \<Rightarrow> m | Some dm \<Rightarrow> json_put ''dm'' (JObj (f dm)) m)"

definition apply_channel_policy :: "json \<Rightarrow> channel_policy_spec \<Rightarrow> string \<Rightarrow> json" where
  "apply_channel_policy config policy domain =
     (case matrix_section config of
        None \<Rightarrow> config
      | Some (root, channels, m0) \<Rightarrow>
          let m1 = allow_extra domain (cp_group_allow policy) ''groupAllowFrom'' m0;
              m2 = (if cp_dm_allow policy = [] then m1
                    else on_dm (allow_extra domain (cp_dm_allow policy) ''allowFrom'') m1);
              m3 = deny_extra domain (cp_group_deny policy) ''groupAllowFrom'' m2;
              m4 = (if cp_dm_deny policy = [] then m3
                    else on_dm (deny_extra domain (cp_dm_deny policy) ''allowFrom'') m3)
          in JObj (json_put ''channels'' (JObj (json_put ''matrix'' (JObj m4) channels)) root))"

section \<open>The document\<close>

definition selected_model :: "agent_config \<Rightarrow> worker_config_request \<Rightarrow> string" where
  "selected_model g req = trim_prefix (or_default (ac_default_model g) (wr_model_name req)) ''hiclaw-gateway/''"

definition gateway_url :: "agent_config \<Rightarrow> worker_config_request \<Rightarrow> string" where
  "gateway_url g req =
     or_default ''http://aigw-local.hiclaw.io:8080''
       (if wr_ai_gateway_url req \<noteq> [] then wr_ai_gateway_url req else ac_ai_gateway_url g)"

definition config_domain :: "agent_config \<Rightarrow> string" where
  "config_domain g = or_default ''matrix-local.hiclaw.io:8080'' (ac_matrix_domain g)"

definition heartbeat_entry :: "worker_config_request \<Rightarrow> (string \<times> json) list" where
  "heartbeat_entry req =
     (case wr_heartbeat req of
        Some h \<Rightarrow>
          if hc_enabled h then
            [(''heartbeat'', JObj ((''enabled'', JBool True) #
               (if hc_every h \<noteq> [] then [(''every'', JStr (hc_every h))] else [])))]
          else []
      | None \<Rightarrow> [])"

definition memory_search_entry :: "agent_config \<Rightarrow> worker_config_request \<Rightarrow> (string \<times> json) list" where
  "memory_search_entry g req =
     (if ac_embedding_model g = [] then []
      else [(''memorySearch'', JObj [(''provider'', JStr ''openai''), (''model'', JStr (ac_embedding_model g)),
              (''remote'', JObj [(''baseUrl'', JStr (gateway_url g req @ ''/v1'')),
                 (''apiKey'', JStr (wr_gateway_key req))])])])"

definition gateway_section :: "worker_config_request \<Rightarrow> json" where
  "gateway_section req =
     JObj [(''mode'', JStr ''local''), (''port'', JNum 18799), (''bind'', JStr ''lan''),
       (''auth'', JObj [(''token'', JStr (wr_gateway_key req))]),
       (''remote'', JObj [(''token'', JStr (wr_gateway_key req))]),
       (''controlUi'', JObj [(''dangerouslyDisableDeviceAuth'', JBool True),
          (''allowInsecureAuth'', JBool True), (''allowedOrigins'', jstrs [''*''])])]"

definition agent_defaults :: "agent_config \<Rightarrow> worker_config_request \<Rightarrow> (string \<times> json) list" where
  "agent_defaults g req =
     [(''timeoutSeconds'', JNum 1800), (''workspace'', JStr ''~''),
      (''model'', JObj [(''primary'', JStr (gateway_model (selected_model g req)))]),
      (''models'', JObj (all_model_aliases (selected_model g req))),
      (''maxConcurrent'', JNum 4), (''subagents'', JObj [(''maxConcurrent'', JNum 8)])] @
     heartbeat_entry req @ memory_search_entry g req"

definition session_section :: json where
  "session_section =
     (let daily = JObj [(''mode'', JStr ''daily''), (''atHour'', JNum 4)]
      in JObj [(''resetByType'', JObj [(''dm'', daily), (''group'', daily)])])"

definition plugins_section :: json where
  "plugins_section =
     JObj [(''load'', JObj [(''paths'', jstrs [''/opt/openclaw/extensions/matrix''])]),
       (''entries'', JObj [(''matrix'', JObj [(''enabled'', JBool True)]),
          (''memory-core'', JObj [(''enabled'', JBool True),
             (''config'', JObj [(''dreaming'', JObj [(''enabled'', JBool True)])])])])]"

definition base_config :: "agent_config \<Rightarrow> worker_config_request \<Rightarrow> json" where
  "base_config g req =
     (let domain = config_domain g;
          admin_id = matrix_id (ac_admin_user g) domain;
          server = or_default ''http://matrix-local.hiclaw.io:8080'' (ac_matrix_server_url g)
      in JObj
        [(''gateway'', gateway_section req),
         (''channels'', JObj [(''matrix'', JObj (build_matrix_channel_config g req server domain admin_id))]),
         (''models'', JObj [(''mode'', JStr ''merge''),
            (''providers'', JObj [(''hiclaw-gateway'', JObj
               [(''baseUrl'', JStr (gateway_url g req @ ''/v1'')), (''apiKey'', JStr (wr_gateway_key req)),
                (''api'', JStr ''openai-completions''),
                (''models'', JArr (map model_spec_json (all_model_specs g (selected_model g req))))])])]),
         (''agents'', JObj [(''defaults'', JObj (agent_defaults g req))]),
         (''session'', session_section),
         (''plugins'', plugins_section)])"

definition generate_openclaw_config :: "agent_config \<Rightarrow> worker_config_request \<Rightarrow> json" where
  "generate_openclaw_config g req =
     (case wr_channel_policy req of
        None \<Rightarrow> base_config g req
      | Some policy \<Rightarrow> apply_channel_policy (base_config g req) policy (config_domain g))"

section \<open>MCP servers\<close>

definition mcp_entry :: "string \<Rightarrow> mcp_server \<Rightarrow> (string \<times> json) list \<Rightarrow> (string \<times> json) list" where
  "mcp_entry gateway_key s servers =
     (let name = trim_space (mcp_name s);
          url = trim_space (mcp_url s);
          transport = trim_space (mcp_transport s)
      in if name = [] \<or> url = [] then servers
         else json_put name (JObj [(''url'', JStr url), (''transport'', JStr (or_default ''http'' transport)),
           (''headers'', JObj [(''Authorization'', JStr (''Bearer '' @ gateway_key))])]) servers)"

text \<open>\<open>None\<close> as the nil bytes: there is no file to write.\<close>

definition generate_mcporter_config :: "string \<Rightarrow> mcp_server list \<Rightarrow> json option" where
  "generate_mcporter_config gateway_key mcp_servers =
     (let servers = fold (mcp_entry gateway_key) mcp_servers [] in
      if servers = [] then None else Some (JObj [(''mcpServers'', JObj servers)]))"

section \<open>Properties\<close>

definition dm_allow :: "json \<Rightarrow> string list" where
  "dm_allow cfg =
     (case matrix_section cfg of
        None \<Rightarrow> []
      | Some (root, channels, matrix) \<Rightarrow>
          (case json_obj (json_get matrix ''dm'') of
             None \<Rightarrow> []
           | Some dm \<Rightarrow> to_string_slice (json_get dm ''allowFrom'')))"

lemma set_append_missing [simp]: "set (append_missing xs ys) = set xs \<union> set ys"
  by (induction xs ys rule: append_missing.induct) auto

lemma distinct_append_missing: "distinct xs \<Longrightarrow> distinct (append_missing xs ys)"
  by (induction xs ys rule: append_missing.induct) auto

lemma extra_lists [simp]:
  "to_string_slice (json_get (allow_extra domain extra key m) key) =
     append_missing (to_string_slice (json_get m key)) (map (resolve_id domain) extra)"
  "to_string_slice (json_get (deny_extra domain extra key m) key) =
     filter (\<lambda>i. i \<notin> set (map (resolve_id domain) extra)) (to_string_slice (json_get m key))"
  by (simp_all add: allow_extra_def deny_extra_def)

lemma extra_other [simp]:
  "k \<noteq> key \<Longrightarrow> json_get (allow_extra domain extra key m) k = json_get m k"
  "k \<noteq> key \<Longrightarrow> json_get (deny_extra domain extra key m) k = json_get m k"
  by (simp_all add: allow_extra_def deny_extra_def)

lemma on_dm_other [simp]: "k \<noteq> ''dm'' \<Longrightarrow> json_get (on_dm f m) k = json_get m k"
  by (simp add: on_dm_def split: option.splits)

lemma on_dm_dm [simp]: "json_get m ''dm'' = JObj dm \<Longrightarrow> json_get (on_dm f m) ''dm'' = JObj (f dm)"
  by (simp add: on_dm_def)

lemma matrix_section_put [simp]:
  "matrix_section (JObj (json_put ''channels'' (JObj (json_put ''matrix'' (JObj m) c)) r)) =
     Some (json_put ''channels'' (JObj (json_put ''matrix'' (JObj m) c)) r, json_put ''matrix'' (JObj m) c, m)"
  by (simp add: matrix_section_def)

lemma allow_lists_of:
  assumes "matrix_section cfg = Some (r, c, m)" "json_get m ''dm'' = JObj dm"
  shows "group_allow cfg = to_string_slice (json_get m ''groupAllowFrom'')"
    "dm_allow cfg = to_string_slice (json_get dm ''allowFrom'')"
  using assms by (simp_all add: group_allow_def dm_allow_def to_string_slice_def)

lemma allow_lists_after_policy:
  assumes "matrix_section cfg = Some (r, c, m)" "json_get m ''dm'' = JObj dm"
  shows "set (group_allow (apply_channel_policy cfg p d)) =
      (set (group_allow cfg) \<union> resolve_id d ` set (cp_group_allow p)) - resolve_id d ` set (cp_group_deny p)"
    "set (dm_allow (apply_channel_policy cfg p d)) =
      (set (dm_allow cfg) \<union> resolve_id d ` set (cp_dm_allow p)) - resolve_id d ` set (cp_dm_deny p)"
  unfolding allow_lists_of [OF assms]
  using assms by (auto simp: apply_channel_policy_def Let_def group_allow_def dm_allow_def
      to_string_slice_def [symmetric])

lemma base_matrix_section:
  "\<exists>r c m dm. matrix_section (base_config g req) = Some (r, c, m) \<and> json_get m ''dm'' = JObj dm \<and>
     group_allow (base_config g req) = default_allow_from req (config_domain g)
       (matrix_id (ac_admin_user g) (config_domain g)) \<and>
     dm_allow (base_config g req) = default_allow_from req (config_domain g)
       (matrix_id (ac_admin_user g) (config_domain g))"
  by (simp add: base_config_def matrix_section_def json_get_def build_matrix_channel_config_def Let_def
      group_allow_def dm_allow_def to_string_slice_def [symmetric])

text \<open>The allow lists of a generated configuration are exact, for group rooms and for direct
  messages: the leader of the agent's team (the Manager without one) and the admin, and the ids
  the channel policy adds, less those it denies; ids without an @ are those of the own domain,
  and a denied id is out even if it is a default or is allowed as well.\<close>

theorem generated_allow_lists:
  "(let d = config_domain g;
        defaults = set (default_allow_from req d (matrix_id (ac_admin_user g) d));
        policy = (case wr_channel_policy req of Some p \<Rightarrow> p
          | None \<Rightarrow> \<lparr>cp_group_allow = [], cp_group_deny = [], cp_dm_allow = [], cp_dm_deny = []\<rparr>);
        ids = (\<lambda>xs. resolve_id d ` set xs)
    in set (group_allow (generate_openclaw_config g req)) =
         (defaults \<union> ids (cp_group_allow policy)) - ids (cp_group_deny policy) \<and>
       set (dm_allow (generate_openclaw_config g req)) =
         (defaults \<union> ids (cp_dm_allow policy)) - ids (cp_dm_deny policy))"
proof -
  obtain r c m dm where m: "matrix_section (base_config g req) = Some (r, c, m)" "json_get m ''dm'' = JObj dm"
      "group_allow (base_config g req) = default_allow_from req (config_domain g)
         (matrix_id (ac_admin_user g) (config_domain g))"
      "dm_allow (base_config g req) = default_allow_from req (config_domain g)
         (matrix_id (ac_admin_user g) (config_domain g))"
    using base_matrix_section [of g req] by blast
  show ?thesis
    using m(3,4) allow_lists_after_policy [OF m(1,2)]
    by (cases "wr_channel_policy req") (simp_all add: generate_openclaw_config_def Let_def)
qed

text \<open>The model an agent is told to use is offered by the provider it is told to use, once.\<close>

lemma primary_model_offered:
  "distinct (map msp_id (all_model_specs g (selected_model g req))) \<and>
   selected_model g req \<in> set (map msp_id (all_model_specs g (selected_model g req))) \<and>
   gateway_model (selected_model g req) \<in> fst ` set (all_model_aliases (selected_model g req))"
proof -
  have i: "msp_id (resolve_model_spec g n) = n" for n
    by (simp add: resolve_model_spec_def default_model_spec_def Let_def split: prod.splits option.splits bool.splits)
  have m: "map msp_id (map (resolve_model_spec g) xs) = xs" for xs
    by (induction xs) (simp_all add: i)
  have "distinct all_models" by (simp add: all_models_def)
  then show ?thesis
    unfolding all_model_specs_def m by (auto simp: all_model_aliases_def model_alias_def Let_def)
qed

lemma generated_plugins: "json_get (document (generate_openclaw_config g req)) ''plugins'' = plugins_section"
  by (auto simp: generate_openclaw_config_def apply_channel_policy_def matrix_section_def document_def
      base_config_def json_get_def Let_def split: option.splits)

text \<open>C19. Redeploying the configuration of an agent settles at once: merging the generated document
  over a stored one, and the result over again as the next reconcile does, gives the same
  document, for every agent, configuration and stored document with a plugin section; so the
  agent, which restarts its gateway when the file changes, sees no change from the merge.\<close>

theorem openclaw_redeploy_settles:
  assumes "distinct_keys (JObj x)"
    "merge_documents (document (generate_openclaw_config g req)) x = Some m"
  shows "merge_documents (document (generate_openclaw_config g req)) m = Some m"
proof (rule merge_documents_settles [OF _ assms])
  show "plugin_defaults (document (generate_openclaw_config g req))"
    by (simp add: plugin_defaults_def generated_plugins)
      (simp add: plugins_section_def json_get_def distinct_keys.simps jstrs_def setting_def merge_load_def
        union_paths_def declared_slice_def to_string_slice_def Legacy_Registry.slice_def
        List.map_filter_def json_put_def)
qed

lemma openclaw_redeploy_settles_witness:
  "\<forall>g req. \<exists>m. merge_documents (document (generate_openclaw_config g req)) sample_stored_doc = Some m \<and>
     merge_documents (document (generate_openclaw_config g req)) m = Some m"
proof (intro allI)
  fix g req
  obtain m where m: "merge_documents (document (generate_openclaw_config g req)) sample_stored_doc = Some m"
    unfolding merge_documents_def generated_plugins
    by (simp add: plugins_section_def sample_stored_doc_def json_get_def)
  have "distinct_keys (JObj sample_stored_doc)"
    by (simp add: sample_stored_doc_def distinct_keys.simps jstrs_def)
  from openclaw_redeploy_settles [OF this m] m
  show "\<exists>m. merge_documents (document (generate_openclaw_config g req)) sample_stored_doc = Some m \<and>
     merge_documents (document (generate_openclaw_config g req)) m = Some m" by blast
qed

end
