(* ===== verification/Deployer.thy ===== *)
theory Deployer
  imports Package_Deploy Openclaw_Config Team_Reconcile
begin

text \<open>
  \<open>internal/service/deployer.go\<close>: deploying packages, inline files, the generated configuration,
  \<open>SOUL.md\<close>, \<open>AGENTS.md\<close> and skills of an agent to the object store. The local file system, the
  object store, the package resolver, the Nacos registries and the skill script are records of
  operations; \<open>url.Parse\<close> is an operation of the deployer. Errors that are only logged are dropped.
\<close>

section \<open>Collaborators\<close>

record 'w package_resolver =
  pk_resolve_and_extract :: "string \<Rightarrow> string \<Rightarrow> ('w, string result) state"

record nacos_client_key =
  nk_addr :: string
  nk_namespace :: string
  nk_auth_type :: string
  nk_resources :: string

text \<open>A client is what its key says; \<open>STS\<close> resources are given when it is connected.\<close>

record 'w nacos_registries =
  nx_connect :: "nacos_client_key \<Rightarrow> string list option \<Rightarrow> ('w, go_error option) state"
  nx_get_skill :: "nacos_client_key \<Rightarrow> string \<Rightarrow> string \<Rightarrow> string \<Rightarrow> string \<Rightarrow> ('w, go_error option) state"

record parsed_url =
  pu_user :: "string option"
  pu_host :: string
  pu_path :: string

text \<open>\<open>None\<close> as the package resolver, the script executor or the legacy registry is nil.\<close>

record 'w deployer =
  dp_agent_config :: agent_config
  dp_oss :: "'w agent_storage"
  dp_files :: "'w local_files"
  dp_packages :: "'w package_resolver option"
  dp_push_skills :: "(string \<Rightarrow> ('w, go_error option) state) option"
  dp_legacy :: "'w legacy_compat option"
  dp_agent_fs_dir :: string
  dp_worker_agent_dir :: string
  dp_matrix_domain :: string
  dp_nacos :: "'w nacos_registries"
  dp_codec :: "json codec"
  dp_parse_url :: "string \<Rightarrow> parsed_url result"

definition agent_prefix_of :: "string \<Rightarrow> string" where
  "agent_prefix_of name = ''agents/'' @ name"

definition local_agent_dir :: "'w deployer \<Rightarrow> string \<Rightarrow> string" where
  "local_agent_dir d name = dp_agent_fs_dir d @ ''/'' @ name"

text \<open>A step whose error is only logged.\<close>

definition non_fatal :: "('w, 'a) state \<Rightarrow> ('w, unit) state" where
  "non_fatal m = do { _ \<leftarrow> m; State_Monad.return () }"

section \<open>Packages and inline files\<close>

definition deploy_package :: "'w deployer \<Rightarrow> string \<Rightarrow> string \<Rightarrow> bool \<Rightarrow> ('w, go_error option) state" where
  "deploy_package d name uri is_update =
     (if uri = [] then State_Monad.return None
      else (case dp_packages d of
         None \<Rightarrow> State_Monad.return None
       | Some pk \<Rightarrow> do {
           r \<leftarrow> pk_resolve_and_extract pk uri name;
           (case r of
              Inl e \<Rightarrow> State_Monad.return (Some (Wrap ''package resolve/extract failed'' e))
            | Inr extracted \<Rightarrow>
                if extracted = [] then State_Monad.return None
                else wrap_error ''package deploy failed''
                  (deploy_to_minio (dp_files d) (dp_oss d) extracted name is_update)) }))"

definition write_inline_configs :: "'w deployer \<Rightarrow> string \<Rightarrow> worker_spec \<Rightarrow> ('w, go_error option) state" where
  "write_inline_configs d name spec =
     (if ws_identity spec = [] \<and> ws_soul spec = [] \<and> ws_agents spec = [] then State_Monad.return None
      else write_inline_files (dp_files d) (local_agent_dir d name) (ws_runtime spec) (ws_identity spec)
             (ws_soul spec) (ws_agents spec))"

section \<open>Local files of an agent\<close>

definition seed_file :: "'w deployer \<Rightarrow> string \<Rightarrow> string \<Rightarrow> string list \<Rightarrow> string \<Rightarrow> ('w, go_error option) state" where
  "seed_file d local_dir agent_prefix excluded rel =
     (if rel \<in> set excluded then State_Monad.return None
      else let key = agent_prefix @ ''/'' @ rel in do {
        r \<leftarrow> so_get (dp_oss d) key;
        (case r of
           Inr _ \<Rightarrow> State_Monad.return None
         | Inl e \<Rightarrow>
             if \<not> is_os_not_exist e then State_Monad.return (Some e)
             else so_put_file (dp_oss d) (path_join local_dir rel) key) })"

definition seed_local_agent_files ::
  "'w deployer \<Rightarrow> string \<Rightarrow> string \<Rightarrow> string list \<Rightarrow> ('w, go_error option) state" where
  "seed_local_agent_files d local_dir agent_prefix excluded = do {
     st \<leftarrow> lf_is_dir (dp_files d) local_dir;
     (case st of
        Inl e \<Rightarrow> State_Monad.return (if is_os_not_exist e then None else Some e)
      | Inr False \<Rightarrow> State_Monad.return None
      | Inr True \<Rightarrow> walk_dir (dp_files d) local_dir (on_file (seed_file d local_dir agent_prefix excluded))) }"

definition seed_excludes :: "string list" where
  "seed_excludes = [''SOUL.md'', ''AGENTS.md'', ''HEARTBEAT.md'']"

section \<open>Templates of the image\<close>

definition builtin_agent_dir :: "'w deployer \<Rightarrow> string \<Rightarrow> string \<Rightarrow> string" where
  "builtin_agent_dir d role runtime =
     (let base_dir = path_dir (dp_worker_agent_dir d) in
      if role = ''team_leader'' then path_join base_dir ''team-leader-agent''
      else if runtime = ''copaw'' then path_join base_dir ''copaw-worker-agent''
      else if runtime = ''hermes'' then path_join base_dir ''hermes-worker-agent''
      else if runtime = ''openhuman'' then path_join base_dir ''openhuman-worker-agent''
      else dp_worker_agent_dir d)"

definition push_builtin_top_level_files ::
  "'w deployer \<Rightarrow> string \<Rightarrow> string \<Rightarrow> string \<Rightarrow> ('w, go_error option) state" where
  "push_builtin_top_level_files d agent_prefix role runtime =
     (let key = agent_prefix @ ''/HEARTBEAT.md'' in do {
        r \<leftarrow> so_get (dp_oss d) key;
        (case r of
           Inr _ \<Rightarrow> State_Monad.return None
         | Inl _ \<Rightarrow> do {
             c \<leftarrow> lf_read (dp_files d) (path_join (builtin_agent_dir d role runtime) ''HEARTBEAT.md'');
             (case c of
                Inl e \<Rightarrow> State_Monad.return (if is_os_not_exist e then None else Some e)
              | Inr content \<Rightarrow> so_put (dp_oss d) key content) }) })"

definition push_builtin_skills ::
  "'w deployer \<Rightarrow> string \<Rightarrow> string \<Rightarrow> string \<Rightarrow> ('w, go_error option) state" where
  "push_builtin_skills d agent_prefix role runtime =
     (let skills_dir = path_join (builtin_agent_dir d role runtime) ''skills'' in do {
        r \<leftarrow> lf_read_dir (dp_files d) skills_dir;
        (case r of
           Inl e \<Rightarrow> State_Monad.return (if is_os_not_exist e then None else Some e)
         | Inr es \<Rightarrow>
             each_step (\<lambda>skill. wrap_error (''push skill '' @ skill)
               (so_mirror (dp_oss d) (skills_dir @ ''/'' @ skill @ ''/'')
                  (agent_prefix @ ''/skills/'' @ skill @ ''/'')))
               (map fst (filter snd es))) })"

section \<open>AGENTS.md\<close>

definition agent_coordination ::
  "'w deployer \<Rightarrow> string \<Rightarrow> string \<Rightarrow> string \<Rightarrow> string \<Rightarrow> string list \<Rightarrow> coordination_context" where
  "agent_coordination d worker_name team_name leader_name admin_id coordinator_ids =
     \<lparr>cc_worker_name = worker_name,
      cc_role = (if leader_name \<noteq> [] then ''worker'' else ''standalone''),
      cc_matrix_domain = dp_matrix_domain d, cc_team_name = team_name, cc_team_leader_name = leader_name,
      cc_team_admin_id = admin_id, cc_team_coordinator_ids = coordinator_ids, cc_team_room_id = [],
      cc_leader_dm_room_id = [], cc_heartbeat_every = [], cc_worker_idle_timeout = [], cc_team_workers = []\<rparr>"

text \<open>The document that is written, from the template (empty if there is none) and the source.\<close>

definition prepared_agents :: "string \<Rightarrow> string \<Rightarrow> coordination_context \<Rightarrow> string \<Rightarrow> string" where
  "prepared_agents builtin role ctx content0 =
     (let content = (if builtin \<noteq> [] then merge_builtin_section content0 builtin else content0)
      in if role \<noteq> ''team_leader'' then inject_coordination_context content ctx else content)"

definition agents_source :: "'w deployer \<Rightarrow> string \<Rightarrow> string \<Rightarrow> ('w, string) state" where
  "agents_source d agent_prefix inline_agents =
     (if inline_agents \<noteq> [] then State_Monad.return inline_agents
      else do {
        r \<leftarrow> so_get (dp_oss d) (agent_prefix @ ''/AGENTS.md'');
        State_Monad.return (case r of Inl _ \<Rightarrow> [] | Inr existing \<Rightarrow> existing) })"

text \<open>The content of a file of the image, empty if there is none.\<close>

definition read_template :: "'w deployer \<Rightarrow> string \<Rightarrow> ('w, string result) state" where
  "read_template d path = do {
     r \<leftarrow> lf_read (dp_files d) path;
     State_Monad.return (case r of Inl e \<Rightarrow> if is_os_not_exist e then Inr [] else Inl e | Inr c \<Rightarrow> Inr c) }"

definition prepare_and_push_agents_md ::
  "'w deployer \<Rightarrow> string \<Rightarrow> worker_deploy_request \<Rightarrow> ('w, go_error option) state" where
  "prepare_and_push_agents_md d agent_prefix req = do {
     b \<leftarrow> read_template d
            (path_join (builtin_agent_dir d (yq_role req) (ws_runtime (yq_spec req))) ''AGENTS.md'');
     (case b of
        Inl e \<Rightarrow> State_Monad.return (Some (Wrap ''read builtin AGENTS.md'' e))
      | Inr builtin \<Rightarrow> do {
          content \<leftarrow> agents_source d agent_prefix (ws_agents (yq_spec req));
          so_put (dp_oss d) (agent_prefix @ ''/AGENTS.md'')
            (prepared_agents builtin (yq_role req)
              (agent_coordination d (yq_name req) (yq_team_name req) (yq_team_leader_name req)
                (yq_team_admin_matrix_id req) (yq_team_coordinator_ids req)) content) }) }"

section \<open>Worker configuration\<close>

definition worker_openclaw_request :: "worker_deploy_request \<Rightarrow> worker_config_request" where
  "worker_openclaw_request req =
     \<lparr>wr_worker_name = yq_name req, wr_matrix_token = yq_matrix_token req, wr_gateway_key = yq_gateway_key req,
      wr_model_name = ws_model (yq_spec req), wr_ai_gateway_url = yq_ai_gateway_url req,
      wr_team_leader_name = yq_team_leader_name req, wr_channel_policy = ws_channel_policy (yq_spec req),
      wr_heartbeat = yq_heartbeat req\<rparr>"

text \<open>On an update the stored plugin settings are merged in; a failed merge keeps the generated bytes.\<close>

definition merged_config :: "'w deployer \<Rightarrow> string \<Rightarrow> string result \<Rightarrow> string" where
  "merged_config d config existing =
     (case existing of
        Inl _ \<Rightarrow> config
      | Inr old \<Rightarrow>
          if old = [] then config
          else (case merge_user_plugin_config (dp_codec d) config old of Inl _ \<Rightarrow> config | Inr merged \<Rightarrow> merged))"

definition push_openclaw_config ::
  "'w deployer \<Rightarrow> string \<Rightarrow> worker_deploy_request \<Rightarrow> ('w, go_error option) state" where
  "push_openclaw_config d agent_prefix req =
     (let key = agent_prefix @ ''/openclaw.json'' in
      case cd_marshal (dp_codec d) (generate_openclaw_config (dp_agent_config d) (worker_openclaw_request req)) of
        Inl e \<Rightarrow> State_Monad.return (Some (Wrap ''config generation failed'' e))
      | Inr config \<Rightarrow> do {
          config' \<leftarrow> (if yq_is_update req
                      then do { r \<leftarrow> so_get (dp_oss d) key; State_Monad.return (merged_config d config r) }
                      else State_Monad.return config);
          wrap_error ''config push to storage failed'' (so_put (dp_oss d) key config') })"

definition inline_owns_soul :: "worker_spec \<Rightarrow> bool" where
  "inline_owns_soul spec \<longleftrightarrow> ws_soul spec \<noteq> [] \<or> (merges_identity (ws_runtime spec) \<and> ws_identity spec \<noteq> [])"

definition default_soul :: "string \<Rightarrow> string" where
  "default_soul name =
     ''# '' @ name @ newline @ newline @ ''You are '' @ name @ '', an AI worker agent.'' @ newline"

definition put_unless_empty :: "'w deployer \<Rightarrow> string \<Rightarrow> string \<Rightarrow> ('w, unit) state" where
  "put_unless_empty d key content =
     (if content = [] then State_Monad.return () else non_fatal (so_put (dp_oss d) key content))"

definition push_soul :: "'w deployer \<Rightarrow> string \<Rightarrow> worker_deploy_request \<Rightarrow> ('w, unit) state" where
  "push_soul d agent_prefix req =
     (let key = agent_prefix @ ''/SOUL.md'';
          path = path_join (local_agent_dir d (yq_name req)) ''SOUL.md''
      in if inline_owns_soul (yq_spec req) then do {
           r \<leftarrow> lf_read (dp_files d) path;
           put_unless_empty d key (case r of Inr c \<Rightarrow> c | Inl _ \<Rightarrow> ws_soul (yq_spec req)) }
         else do {
           g \<leftarrow> so_get (dp_oss d) key;
           (case g of
              Inr _ \<Rightarrow> State_Monad.return ()
            | Inl e \<Rightarrow>
                if \<not> is_os_not_exist e then State_Monad.return ()
                else do {
                  r \<leftarrow> lf_read (dp_files d) path;
                  put_unless_empty d key
                    (case r of
                       Inr c \<Rightarrow> c
                     | Inl _ \<Rightarrow> if \<not> yq_is_update req then default_soul (yq_name req) else []) }) })"

definition push_mcporter ::
  "'w deployer \<Rightarrow> string \<Rightarrow> string \<Rightarrow> mcp_server list \<Rightarrow> ('w, unit) state" where
  "push_mcporter d agent_prefix gateway_key servers =
     (case generate_mcporter_config gateway_key servers of
        None \<Rightarrow> State_Monad.return ()
      | Some config \<Rightarrow>
          (case cd_marshal (dp_codec d) config of
             Inl _ \<Rightarrow> State_Monad.return ()
           | Inr data \<Rightarrow> non_fatal (so_put (dp_oss d) (agent_prefix @ ''/mcporter-servers.json'') data)))"

definition push_password :: "'w deployer \<Rightarrow> string \<Rightarrow> string \<Rightarrow> ('w, unit) state" where
  "push_password d agent_prefix password =
     (if password = [] then State_Monad.return ()
      else non_fatal (so_put (dp_oss d) (agent_prefix @ ''/credentials/matrix/password'') password))"

definition deploy_worker_config ::
  "'w deployer \<Rightarrow> worker_deploy_request \<Rightarrow> ('w, go_error option) state" where
  "deploy_worker_config d req =
     (let prefix = agent_prefix_of (yq_name req);
          local_dir = local_agent_dir d (yq_name req);
          runtime = ws_runtime (yq_spec req)
      in then_step (wrap_error ''create agent dir'' (lf_mkdir_all (dp_files d) local_dir)) (do {
        _ \<leftarrow> non_fatal (seed_local_agent_files d local_dir prefix seed_excludes);
        then_step (push_openclaw_config d prefix req) (do {
          _ \<leftarrow> (if yq_role req \<noteq> ''team_leader'' then push_soul d prefix req else State_Monad.return ());
          _ \<leftarrow> push_mcporter d prefix (yq_gateway_key req) (yq_mcp_servers req);
          _ \<leftarrow> push_password d prefix (yq_matrix_password req);
          _ \<leftarrow> non_fatal (push_builtin_top_level_files d prefix (yq_role req) runtime);
          _ \<leftarrow> non_fatal (prepare_and_push_agents_md d prefix req);
          _ \<leftarrow> non_fatal (push_builtin_skills d prefix (yq_role req) runtime);
          State_Monad.return None }) }))"

section \<open>Coordination of a leader\<close>

definition leader_coordination :: "'w deployer \<Rightarrow> coordination_deploy_request \<Rightarrow> coordination_context" where
  "leader_coordination d req =
     \<lparr>cc_worker_name = cd_leader_name req, cc_role = cd_role req, cc_matrix_domain = dp_matrix_domain d,
      cc_team_name = cd_team_name req, cc_team_leader_name = [], cc_team_admin_id = cd_team_admin_id req,
      cc_team_coordinator_ids = cd_team_coordinator_ids req, cc_team_room_id = cd_team_room_id req,
      cc_leader_dm_room_id = cd_leader_dm_room_id req, cc_heartbeat_every = cd_heartbeat_every req,
      cc_worker_idle_timeout = cd_worker_idle_timeout req,
      cc_team_workers = map (\<lambda>n. \<lparr>twi_name = n, twi_room_id = []\<rparr>) (cd_team_workers req)\<rparr>"

definition rendered_soul :: "coordination_deploy_request \<Rightarrow> string \<Rightarrow> string" where
  "rendered_soul req template =
     (let r1 = replace_all template ''${TEAM_LEADER_NAME}'' (cd_leader_name req);
          r2 = replace_all r1 ''${TEAM_NAME}'' (cd_team_name req)
      in replace_all r2 ''${TEAM_WORKERS}'' (join_with '', '' (cd_team_workers req)))"

definition render_and_push_soul_template ::
  "'w deployer \<Rightarrow> string \<Rightarrow> coordination_deploy_request \<Rightarrow> ('w, go_error option) state" where
  "render_and_push_soul_template d agent_prefix req =
     (let key = agent_prefix @ ''/SOUL.md'' in do {
        g \<leftarrow> so_get (dp_oss d) key;
        (case g of
           Inr _ \<Rightarrow> State_Monad.return None
         | Inl e \<Rightarrow>
             if \<not> is_os_not_exist e then State_Monad.return None
             else if cd_leader_soul req \<noteq> [] then so_put (dp_oss d) key (cd_leader_soul req)
             else do {
               t \<leftarrow> lf_read (dp_files d) (path_join (builtin_agent_dir d ''team_leader'' []) ''SOUL.md.tmpl'');
               (case t of
                  Inl te \<Rightarrow> State_Monad.return
                    (if is_os_not_exist te then None else Some (Wrap ''read SOUL.md.tmpl'' te))
                | Inr template \<Rightarrow> so_put (dp_oss d) key (rendered_soul req template)) }) })"

definition deploy_coordination ::
  "'w deployer \<Rightarrow> coordination_deploy_request \<Rightarrow> ('w, go_error option) state" where
  "deploy_coordination d req =
     (let prefix = agent_prefix_of (cd_leader_name req); key = prefix @ ''/AGENTS.md'' in do {
        existing \<leftarrow> agents_source d prefix [];
        then_step (so_put (dp_oss d) key (inject_coordination_context existing (leader_coordination d req))) (do {
          _ \<leftarrow> non_fatal (render_and_push_soul_template d prefix req);
          State_Monad.return None }) })"

section \<open>Skills\<close>

definition map_remote_skill_auth_type :: "string \<Rightarrow> string result" where
  "map_remote_skill_auth_type raw =
     (let auth = trim_space raw in
      if auth \<in> {[], ''sts-hiclaw'', ''nacos'', ''none''} then Inr auth
      else Inl (Err (''unsupported authType '' @ go_quote raw)))"

definition remote_skill_sts_resources :: "remote_skill list \<Rightarrow> string list" where
  "remote_skill_sts_resources skills =
     sort_strings (remdups (map (\<lambda>n. ''skill/'' @ n)
       (filter (\<lambda>n. n \<noteq> []) (map (\<lambda>s. trim_space (rs_name s)) skills))))"

definition parse_nacos_remote_source ::
  "(string \<Rightarrow> parsed_url result) \<Rightarrow> string \<Rightarrow> (string \<times> string) result" where
  "parse_nacos_remote_source parse_url raw =
     (if \<not> has_prefix raw ''nacos://'' then Inl (Err ''source must use nacos:// scheme'')
      else (case parse_url (''http://'' @ trim_prefix raw ''nacos://'') of
         Inl e \<Rightarrow> Inl e
       | Inr u \<Rightarrow>
           if pu_host u = [] then Inl (Err ''missing host'')
           else (case split_on (CHR ''/'') (trim_both (\<lambda>c. c = CHR ''/'') (pu_path u)) of
              [part] \<Rightarrow>
                if part = [] then Inl (Err ''expected nacos://host:port/{namespace-id}'')
                else Inr (case pu_user u of None \<Rightarrow> pu_host u | Some usr \<Rightarrow> usr @ ''@'' @ pu_host u, part)
            | _ \<Rightarrow> Inl (Err ''expected nacos://host:port/{namespace-id}''))))"

fun check_skills :: "string \<Rightarrow> remote_skill list \<Rightarrow> go_error option" where
  "check_skills source [] = None"
| "check_skills source (s # ss) =
     (if trim_space (rs_name s) = [] then
        Some (Err (''remoteSkills source '' @ go_quote source @ '' has an entry with empty name''))
      else if rs_version s \<noteq> [] \<and> rs_label s \<noteq> [] then
        Some (Err (''remote skill '' @ go_quote (rs_name s) @ '' in source '' @ go_quote source @
          '' cannot set both version and label''))
      else check_skills source ss)"

text \<open>What the code works out of a source before it connects: the client key and the resources.\<close>

definition source_client :: "(string \<Rightarrow> parsed_url result) \<Rightarrow> remote_skill_source \<Rightarrow> (nacos_client_key \<times> string list option) result" where
  "source_client parse_url src =
     (if rss_skills src = [] then
        Inl (Err (''remoteSkills source '' @ go_quote (rss_source src) @ '' has empty skills list''))
      else (case check_skills (rss_source src) (rss_skills src) of
         Some e \<Rightarrow> Inl e
       | None \<Rightarrow>
           (case parse_nacos_remote_source parse_url (rss_source src) of
              Inl e \<Rightarrow> Inl (Wrap (''invalid remoteSkills.source '' @ go_quote (rss_source src)) e)
            | Inr (addr, ns) \<Rightarrow>
                (case map_remote_skill_auth_type (rss_auth_type src) of
                   Inl e \<Rightarrow> Inl (Wrap (''invalid remoteSkills.authType for source '' @ go_quote (rss_source src)) e)
                 | Inr auth \<Rightarrow>
                     let resources = remote_skill_sts_resources (rss_skills src);
                         sts = (auth = ''sts-hiclaw'')
                     in Inr (\<lparr>nk_addr = addr, nk_namespace = ns, nk_auth_type = auth,
                           nk_resources = (if sts then join_with '','' resources else [])\<rparr>,
                         if sts then Some resources else None)))))"

text \<open>The skills of one source; the temporary directories are removed when the whole push returns.\<close>

fun push_skills ::
  "'w deployer \<Rightarrow> string \<Rightarrow> string \<Rightarrow> nacos_client_key \<Rightarrow> remote_skill list \<Rightarrow> string list \<Rightarrow>
   ('w, string list \<times> go_error option) state" where
  "push_skills d agent_prefix source key [] tmps = State_Monad.return (tmps, None)"
| "push_skills d agent_prefix source key (s # ss) tmps = do {
     t \<leftarrow> lf_temp_dir (dp_files d) ''nacos-skill-'';
     (case t of
        Inl e \<Rightarrow> State_Monad.return (tmps, Some (Wrap (''create temp dir for skill '' @ go_quote (rs_name s)) e))
      | Inr tmp \<Rightarrow> do {
          e \<leftarrow> nx_get_skill (dp_nacos d) key (rs_name s) tmp (rs_version s) (rs_label s);
          (case e of
             Some err \<Rightarrow> State_Monad.return (tmp # tmps,
               Some (Wrap (''fetch remote skill '' @ go_quote (rs_name s) @ '' from '' @ go_quote source) err))
           | None \<Rightarrow> do {
               m \<leftarrow> so_mirror (dp_oss d) (path_join tmp (rs_name s) @ ''/'')
                 (agent_prefix @ ''/skills/'' @ rs_name s @ ''/'');
               (case m of
                  Some err \<Rightarrow> State_Monad.return (tmp # tmps,
                    Some (Wrap (''mirror remote skill '' @ go_quote (rs_name s) @ '' from '' @ go_quote source @
                      '' to OSS'') err))
                | None \<Rightarrow> push_skills d agent_prefix source key ss (tmp # tmps)) }) }) }"

fun push_sources ::
  "'w deployer \<Rightarrow> string \<Rightarrow> nacos_client_key list \<Rightarrow> remote_skill_source list \<Rightarrow> string list \<Rightarrow>
   ('w, string list \<times> go_error option) state" where
  "push_sources d agent_prefix clients [] tmps = State_Monad.return (tmps, None)"
| "push_sources d agent_prefix clients (src # srcs) tmps =
     (case source_client (dp_parse_url d) src of
        Inl e \<Rightarrow> State_Monad.return (tmps, Some e)
      | Inr (key, resources) \<Rightarrow> do {
          c \<leftarrow> (if key \<in> set clients then State_Monad.return None else nx_connect (dp_nacos d) key resources);
          (case c of
             Some e \<Rightarrow> State_Monad.return (tmps,
               Some (Wrap (''connect to nacos source '' @ go_quote (rss_source src)) e))
           | None \<Rightarrow> do {
               r \<leftarrow> push_skills d agent_prefix (rss_source src) key (rss_skills src) tmps;
               (case r of
                  (ts, Some e) \<Rightarrow> State_Monad.return (ts, Some e)
                | (ts, None) \<Rightarrow> push_sources d agent_prefix (key # clients) srcs ts) }) })"

fun remove_dirs :: "'w local_files \<Rightarrow> string list \<Rightarrow> ('w, unit) state" where
  "remove_dirs lf [] = State_Monad.return ()"
| "remove_dirs lf (t # ts) = do { _ \<leftarrow> lf_remove_all lf t; remove_dirs lf ts }"

definition push_remote_skills ::
  "'w deployer \<Rightarrow> string \<Rightarrow> remote_skill_source list \<Rightarrow> ('w, go_error option) state" where
  "push_remote_skills d agent_prefix sources =
     (if sources = [] then State_Monad.return None
      else do {
        r \<leftarrow> push_sources d agent_prefix [] sources [];
        _ \<leftarrow> remove_dirs (dp_files d) (fst r);
        State_Monad.return (snd r) })"

text \<open>The script's absence is part of the operation \<open>dp_push_skills\<close>.\<close>

definition push_on_demand_skills ::
  "'w deployer \<Rightarrow> string \<Rightarrow> string list \<Rightarrow> remote_skill_source list \<Rightarrow> ('w, go_error option) state" where
  "push_on_demand_skills d worker_name skills remote_skills =
     (if skills = [] \<and> remote_skills = [] then State_Monad.return None
      else then_step (push_remote_skills d (agent_prefix_of worker_name) remote_skills)
        (case dp_push_skills d of
           None \<Rightarrow> State_Monad.return None
         | Some run \<Rightarrow> if skills = [] then State_Monad.return None else run worker_name))"

section \<open>Storage of agents and teams\<close>

definition cleanup_oss_data :: "'w deployer \<Rightarrow> string \<Rightarrow> ('w, go_error option) state" where
  "cleanup_oss_data d worker_name = so_delete_prefix (dp_oss d) (''agents/'' @ worker_name @ ''/'')"

definition ensure_team_storage :: "'w deployer \<Rightarrow> string \<Rightarrow> ('w, go_error option) state" where
  "ensure_team_storage d team_name =
     (let pfx = ''teams/'' @ team_name @ ''/'' in
      each_step (\<lambda>subdir. wrap_error (''create '' @ pfx @ subdir)
        (so_put (dp_oss d) (pfx @ subdir @ ''.keep'') []))
        [''shared/tasks/'', ''shared/projects/'', ''shared/knowledge/''])"

section \<open>The Manager\<close>

record manager_deploy_request =
  mdr_name :: string
  mdr_spec :: manager_spec
  mdr_matrix_token :: string
  mdr_gateway_key :: string
  mdr_matrix_password :: string
  mdr_mcp_servers :: "mcp_server list"
  mdr_ai_gateway_url :: string
  mdr_is_update :: bool

definition manager_openclaw_request :: "manager_deploy_request \<Rightarrow> worker_config_request" where
  "manager_openclaw_request req =
     \<lparr>wr_worker_name = ''manager'', wr_matrix_token = mdr_matrix_token req,
      wr_gateway_key = mdr_gateway_key req, wr_model_name = mgs_model (mdr_spec req),
      wr_ai_gateway_url = mdr_ai_gateway_url req, wr_team_leader_name = [], wr_channel_policy = None,
      wr_heartbeat = None\<rparr>"

definition push_manager_openclaw :: "'w deployer \<Rightarrow> string \<Rightarrow> string \<Rightarrow> ('w, go_error option) state" where
  "push_manager_openclaw d agent_prefix config =
     wrap_error ''config push to storage failed''
       (case dp_legacy d of
          Some l \<Rightarrow>
            if lc_oss l \<noteq> None then put_manager_config l config
            else so_put (dp_oss d) (agent_prefix @ ''/openclaw.json'') config
        | None \<Rightarrow> so_put (dp_oss d) (agent_prefix @ ''/openclaw.json'') config)"

definition deploy_manager_config ::
  "'w deployer \<Rightarrow> manager_deploy_request \<Rightarrow> ('w, go_error option) state" where
  "deploy_manager_config d req =
     (let prefix = agent_prefix_of (mdr_name req) in
      case cd_marshal (dp_codec d) (generate_openclaw_config (dp_agent_config d) (manager_openclaw_request req)) of
        Inl e \<Rightarrow> State_Monad.return (Some (Wrap ''config generation failed'' e))
      | Inr config \<Rightarrow>
          then_step (push_manager_openclaw d prefix config) (do {
            _ \<leftarrow> put_unless_empty d (prefix @ ''/SOUL.md'') (mgs_soul (mdr_spec req));
            _ \<leftarrow> put_unless_empty d (prefix @ ''/AGENTS.md'') (mgs_agents (mdr_spec req));
            _ \<leftarrow> push_mcporter d prefix (mdr_gateway_key req) (mdr_mcp_servers req);
            _ \<leftarrow> push_password d prefix (mdr_matrix_password req);
            State_Monad.return None }))"

section \<open>The deployer of the member reconciler\<close>

definition member_deployer :: "'w deployer \<Rightarrow> 'w worker_deployer" where
  "member_deployer d =
     \<lparr>wy_deploy_package = deploy_package d, wy_write_inline_configs = write_inline_configs d,
      wy_deploy_worker_config = deploy_worker_config d,
      wy_push_on_demand_skills = push_on_demand_skills d, wy_cleanup_oss_data = cleanup_oss_data d\<rparr>"

end
