(* ===== verification/Deployer_Properties.thy ===== *)
theory Deployer_Properties
  imports Deployer Go_Results
begin

text \<open>
  What a deployment leaves alone. The locale says what object store and file system promise: an
  object that exists is only replaced by an operation on its key. The lemmas follow the steps of
  a deployment; the interpretation is an in-memory store beside a disk.
\<close>

section \<open>Operations that keep what exists\<close>

definition preserves ::
  "('w \<Rightarrow> string \<Rightarrow> string option) \<Rightarrow> ('w \<Rightarrow> bool) \<Rightarrow> (string \<Rightarrow> bool) \<Rightarrow> ('w, 'a) state \<Rightarrow> bool" where
  "preserves content up may m \<longleftrightarrow>
     (\<forall>w. up w \<longrightarrow> up (snd (run_state m w)) \<and>
        (\<forall>k d. content w k = Some d \<longrightarrow> \<not> may k \<longrightarrow> content (snd (run_state m w)) k = Some d))"

lemma preservesD:
  "preserves content up may m \<Longrightarrow> up w \<Longrightarrow> run_state m w = (a, w') \<Longrightarrow>
   up w' \<and> (\<forall>k d. content w k = Some d \<longrightarrow> \<not> may k \<longrightarrow> content w' k = Some d)"
  unfolding preserves_def by (metis snd_conv)

named_theorems kept \<open>operations that keep existing objects\<close>

lemma preserves_return [kept]: "preserves content up may (State_Monad.return a)"
  by (simp add: preserves_def)

lemma preserves_bind:
  assumes "preserves content up may m" "\<And>x. preserves content up may (f x)"
  shows "preserves content up may (State_Monad.bind m f)"
  unfolding preserves_def
proof (intro allI impI)
  fix w
  assume w: "up w"
  obtain a w1 where m: "run_state m w = (a, w1)" by (metis surj_pair)
  obtain b w2 where f: "run_state (f a) w1 = (b, w2)" by (metis surj_pair)
  show "up (snd (run_state (State_Monad.bind m f) w)) \<and>
      (\<forall>k d. content w k = Some d \<longrightarrow> \<not> may k \<longrightarrow>
         content (snd (run_state (State_Monad.bind m f) w)) k = Some d)"
    using preservesD [OF assms(1) w m] preservesD [OF assms(2) _ f] by (simp add: m f)
qed

lemma preserves_mono: "preserves content up may m \<Longrightarrow> (\<And>k. may k \<Longrightarrow> may' k) \<Longrightarrow> preserves content up may' m"
  unfolding preserves_def by blast

lemma preserves_then [kept]:
  "preserves content up may m \<Longrightarrow> preserves content up may k \<Longrightarrow> preserves content up may (then_step m k)"
  unfolding then_step_def by (rule preserves_bind) (auto intro: preserves_return split: option.splits)

lemma preserves_wrap [kept]: "preserves content up may m \<Longrightarrow> preserves content up may (wrap_error what m)"
  unfolding wrap_error_def by (auto intro: preserves_bind preserves_return)

lemma preserves_non_fatal [kept]: "preserves content up may m \<Longrightarrow> preserves content up may (non_fatal m)"
  unfolding non_fatal_def by (auto intro: preserves_bind preserves_return)

lemma preserves_each [kept]:
  "(\<And>x. x \<in> set xs \<Longrightarrow> preserves content up may (f x)) \<Longrightarrow> preserves content up may (each_step f xs)"
  by (induction xs) (auto intro!: preserves_bind preserves_return split: option.splits)

lemma preserves_walk_each:
  "(\<And>i. preserves content up may (f i)) \<Longrightarrow> preserves content up may (walk_each f is)"
  by (induction "is") (auto intro!: preserves_bind preserves_return split: option.splits walk_item.splits)

lemma preserves_on_file [kept]:
  "(\<And>rel. preserves content up may (f rel)) \<Longrightarrow> preserves content up may (on_file f i)"
  by (cases i) (simp_all add: on_file_def preserves_return)

section \<open>Store and files\<close>

locale agent_store = object_store "storage_client.truncate s" content up
  for s :: "'w agent_storage" and content :: "'w \<Rightarrow> string \<Rightarrow> string option" and up +
  fixes lf :: "'w local_files"
  assumes stat_reads: "up w \<Longrightarrow>
        run_state (so_stat s key) w = ((if content w key = None then Some OsNotExist else None), w)"
    and file_put: "preserves content up (\<lambda>k. k = key) (so_put_file s path key)"
    and mirror_put: "preserves content up (\<lambda>k. has_prefix k dst) (so_mirror s src dst)"
    and local_is_dir [kept]: "preserves content up may (lf_is_dir lf path)"
    and local_mkdir [kept]: "preserves content up may (lf_mkdir_all lf path)"
    and local_read [kept]: "preserves content up may (lf_read lf path)"
    and local_write [kept]: "preserves content up may (lf_write lf path data)"
    and local_walk [kept]: "preserves content up may (lf_walk lf path)"
    and local_read_dir [kept]: "preserves content up may (lf_read_dir lf path)"
begin

lemma get_run: "up w \<Longrightarrow>
    run_state (so_get s key) w = ((case content w key of None \<Rightarrow> Inl OsNotExist | Some d \<Rightarrow> Inr d), w)"
  using get_reads [of w key] by (simp add: storage_client.truncate_def)

lemma keeps_get [kept]: "preserves content up may (so_get s key)"
  by (simp add: preserves_def get_run)

lemma put_only: "preserves content up (\<lambda>k. k = key) (so_put s key data)"
  unfolding preserves_def
proof (intro allI impI)
  fix w
  assume "up w"
  then obtain w' where "run_state (so_put s key data) w = (None, w')" "up w'" "content w' = (content w)(key \<mapsto> data)"
    using put_writes [of w key data] by (auto simp: storage_client.truncate_def)
  then show "up (snd (run_state (so_put s key data) w)) \<and>
      (\<forall>k d. content w k = Some d \<longrightarrow> k \<noteq> key \<longrightarrow> content (snd (run_state (so_put s key data) w)) k = Some d)"
    by simp
qed

lemma put_kept [kept]: "may key \<Longrightarrow> preserves content up may (so_put s key data)"
  by (rule preserves_mono [OF put_only]) simp

lemma mirror_kept [kept]: "(\<And>k. has_prefix k dst \<Longrightarrow> may k) \<Longrightarrow> preserves content up may (so_mirror s src dst)"
  by (rule preserves_mono [OF mirror_put])

text \<open>Writing only what is not there replaces nothing.\<close>

lemma missing_only:
  assumes "preserves content up (\<lambda>k. k = key) m" "up w" "content w key = None" "run_state m w = (a, w')"
  shows "up w' \<and> (\<forall>k d. content w k = Some d \<longrightarrow> content w' k = Some d)"
  using preservesD [OF assms(1,2,4)] assms(3) by (metis option.distinct(1))

lemma seed_kept:
  assumes "preserves content up (\<lambda>k. k = key) m"
    "\<And>w. up w \<Longrightarrow> run_state p w = (q (content w key), w)"
    "\<And>v. q (Some v) = None" "q None = Some OsNotExist"
  shows "preserves content up may (do {
     e \<leftarrow> p;
     (case e of
        None \<Rightarrow> State_Monad.return None
      | Some err \<Rightarrow> if \<not> is_os_not_exist err then State_Monad.return (Some err) else m) })"
    (is "preserves content up may ?m")
  unfolding preserves_def
proof (intro allI impI)
  fix w
  assume w: "up w"
  obtain a w' where m: "run_state m w = (a, w')" by (metis surj_pair)
  show "up (snd (run_state ?m w)) \<and>
      (\<forall>k d. content w k = Some d \<longrightarrow> \<not> may k \<longrightarrow> content (snd (run_state ?m w)) k = Some d)"
  proof (cases "content w key")
    case None
    then show ?thesis
      using missing_only [OF assms(1) w None m] by (simp add: assms(2) [OF w] assms(4) m is_os_not_exist_def)
  next
    case (Some v)
    then show ?thesis using w by (simp add: assms(2) [OF w] assms(3))
  qed
qed

lemma seed_object [kept]: "preserves content up may (put_package_object_seed_only s key data)"
  unfolding put_package_object_seed_only_def
  by (rule seed_kept [OF put_only, where q = "\<lambda>c. if c = None then Some OsNotExist else None"])
    (simp_all add: stat_reads)

lemma seed_uploaded [kept]: "preserves content up may (put_package_file_seed_only s path key)"
  unfolding put_package_file_seed_only_def
  by (rule seed_kept [OF file_put, where q = "\<lambda>c. if c = None then Some OsNotExist else None"])
    (simp_all add: stat_reads)

lemma walk_kept [kept]:
  "(\<And>i. preserves content up may (f i)) \<Longrightarrow> preserves content up may (walk_dir lf dir f)"
  unfolding walk_dir_def by (intro preserves_bind local_walk preserves_walk_each)

lemma if_missing [kept]:
  assumes "\<And>e. preserves content up (\<lambda>k. k = key) (m e)"
  shows "preserves content up may (do {
     r \<leftarrow> so_get s key;
     (case r of Inr v \<Rightarrow> State_Monad.return c | Inl e \<Rightarrow> m e) })"
    (is "preserves content up may ?m")
  unfolding preserves_def
proof (intro allI impI)
  fix w
  assume w: "up w"
  obtain a w' where m: "run_state (m OsNotExist) w = (a, w')" by (metis surj_pair)
  show "up (snd (run_state ?m w)) \<and>
      (\<forall>k d. content w k = Some d \<longrightarrow> \<not> may k \<longrightarrow> content (snd (run_state ?m w)) k = Some d)"
    using missing_only [OF assms w _ m] w by (cases "content w key") (simp_all add: get_run m)
qed

section \<open>Packages\<close>

lemma is_directory_kept [kept]: "preserves content up may (is_directory lf dir)"
  unfolding is_directory_def by (intro preserves_bind kept)

lemma seed_dir_kept [kept]: "preserves content up may (seed_dir_to_storage lf s src dst)"
  unfolding seed_dir_to_storage_def by (intro kept)

lemma write_seed_kept [kept]: "preserves content up may (write_file_seed_only lf path data)"
  unfolding write_file_seed_only_def by (auto intro!: preserves_bind kept split: sum.splits)

lemma copy_dir_kept [kept]: "preserves content up may (copy_dir_seed_only lf src dst)"
  unfolding copy_dir_seed_only_def copy_entry_def
  by (auto intro!: preserves_bind kept split: sum.splits walk_item.splits)

lemma collect_kept [kept]: "preserves content up may (collect_config lf dir ex es files subdirs)"
  by (induction es arbitrary: files subdirs) (auto intro!: preserves_bind kept split: sum.splits)

lemma package_config_kept [kept]: "preserves content up may (package_config lf ext ex)"
  unfolding package_config_def Let_def by (auto intro!: preserves_bind kept)

lemma cron_data_kept [kept]: "preserves content up may (cron_data lf ext)"
  unfolding cron_data_def Let_def by (auto intro!: preserves_bind kept)

lemma push_package_kept [kept]: "preserves content up may (push_package lf s ext pfx files subdirs crons)"
  unfolding push_package_def push_config_files_def seed_config_subdirs_def seed_skills_def Let_def
  by (auto intro!: preserves_bind kept split: option.splits)

lemma copy_package_kept [kept]: "preserves content up may (copy_package lf ext dir files subdirs crons)"
  unfolding copy_package_def by (auto intro!: preserves_bind kept split: option.splits)

lemma deploy_to_minio_kept: "preserves content up may (deploy_to_minio lf s ext name ex)"
  unfolding deploy_to_minio_def Let_def by (intro preserves_bind kept)

lemma inline_files_kept: "preserves content up may (write_inline_files lf dir runtime identity soul agents)"
  unfolding write_inline_files_def write_if_def by (auto intro!: kept)

end

section \<open>A deployment\<close>

text \<open>The objects of an agent that a deployment writes whether they exist or not.\<close>

definition controller_owned :: "worker_deploy_request \<Rightarrow> string \<Rightarrow> bool" where
  "controller_owned req key \<longleftrightarrow>
     (let pfx = agent_prefix_of (yq_name req) in
      key \<in> {pfx @ ''/openclaw.json'', pfx @ ''/AGENTS.md'', pfx @ ''/mcporter-servers.json'',
        pfx @ ''/credentials/matrix/password''} \<or>
      (key = pfx @ ''/SOUL.md'' \<and> yq_role req \<noteq> ''team_leader'' \<and> inline_owns_soul (yq_spec req)) \<or>
      has_prefix key (pfx @ ''/skills/''))"

locale agent_deployment = agent_store s content up lf
  for s :: "'w agent_storage" and content :: "'w \<Rightarrow> string \<Rightarrow> string option" and up
    and lf :: "'w local_files" +
  fixes d :: "'w deployer"
  assumes store_of: "dp_oss d = s" and files_of: "dp_files d = lf"
begin

lemma seed_file_kept [kept]: "preserves content up may (seed_file d dir pfx excluded rel)"
  unfolding seed_file_def Let_def store_of by (auto intro!: kept preserves_mono [OF file_put])

lemma seed_local_kept [kept]: "preserves content up may (seed_local_agent_files d dir pfx excluded)"
  unfolding seed_local_agent_files_def files_of
  by (auto intro!: preserves_bind kept split: sum.splits bool.splits)

lemma put_unless_empty_kept [kept]:
  "may key \<Longrightarrow> preserves content up may (put_unless_empty d key c)"
  unfolding put_unless_empty_def store_of by (auto intro!: kept)

lemma top_level_kept [kept]: "preserves content up may (push_builtin_top_level_files d pfx role runtime)"
  unfolding push_builtin_top_level_files_def Let_def store_of files_of
  by (auto intro!: preserves_bind kept split: sum.splits)

lemma skills_kept [kept]:
  "(\<And>k. has_prefix k (pfx @ ''/skills/'') \<Longrightarrow> may k) \<Longrightarrow>
   preserves content up may (push_builtin_skills d pfx role runtime)"
  unfolding push_builtin_skills_def Let_def store_of files_of
  by (auto intro!: preserves_bind kept split: sum.splits simp: has_prefix_iff)

lemma agents_kept [kept]:
  "may (pfx @ ''/AGENTS.md'') \<Longrightarrow> preserves content up may (prepare_and_push_agents_md d pfx req)"
  unfolding prepare_and_push_agents_md_def read_template_def agents_source_def store_of files_of
  by (auto intro!: preserves_bind kept split: sum.splits)

lemma openclaw_kept [kept]:
  "may (pfx @ ''/openclaw.json'') \<Longrightarrow> preserves content up may (push_openclaw_config d pfx req)"
  unfolding push_openclaw_config_def Let_def store_of
  by (auto intro!: preserves_bind kept split: sum.splits)

lemma soul_kept [kept]:
  "(inline_owns_soul (yq_spec req) \<Longrightarrow> may (pfx @ ''/SOUL.md'')) \<Longrightarrow> preserves content up may (push_soul d pfx req)"
  unfolding push_soul_def Let_def store_of files_of by (auto intro!: preserves_bind kept)

lemma mcporter_kept [kept]:
  "may (pfx @ ''/mcporter-servers.json'') \<Longrightarrow> preserves content up may (push_mcporter d pfx key servers)"
  unfolding push_mcporter_def store_of by (auto intro!: kept split: option.splits sum.splits)

lemma password_kept [kept]:
  "may (pfx @ ''/credentials/matrix/password'') \<Longrightarrow> preserves content up may (push_password d pfx pw)"
  unfolding push_password_def store_of by (auto intro!: kept)

lemma deployment_keeps: "preserves content up (controller_owned req) (deploy_worker_config d req)"
  unfolding deploy_worker_config_def Let_def files_of
  by (auto intro!: preserves_bind kept simp: controller_owned_def Let_def)

end

section \<open>An in-memory store beside a disk\<close>

text \<open>
  Objects in the first component, files by their path in the second. A directory is the prefix of
  its files; uploading a missing file fails, a mirror copies every file of the directory.
\<close>

type_synonym agent_world = "memory \<times> smap"

definition files_below :: "string \<Rightarrow> smap \<Rightarrow> string list" where
  "files_below dir m = map (\<lambda>p. drop (length dir + 1) p) (filter (\<lambda>p. has_prefix p (dir @ ''/'')) (map fst m))"

definition upload :: "string \<Rightarrow> string \<Rightarrow> (agent_world, go_error option) state" where
  "upload path key = State (\<lambda>(objs, files).
     case map_of files path of
       None \<Rightarrow> (Some OsNotExist, (objs, files))
     | Some data \<Rightarrow> (None, (smap_put key data objs, files)))"

definition mirror :: "string \<Rightarrow> string \<Rightarrow> (agent_world, go_error option) state" where
  "mirror src dst = State (\<lambda>(objs, files).
     (None, (fold (\<lambda>(p, data) m. if has_prefix p src then smap_put (dst @ drop (length src) p) data m else m)
       files objs, files)))"

definition agent_memory :: "agent_world agent_storage" where
  "agent_memory =
     \<lparr>so_get = (\<lambda>k. on_first (memory_get k)), so_put = (\<lambda>k v. on_first (memory_put k v)),
      so_stat = (\<lambda>k. on_first (memory_stat k)), so_delete = (\<lambda>k. on_first (memory_delete k)),
      so_list = (\<lambda>k. on_first (memory_list k)), so_delete_prefix = (\<lambda>k. on_first (memory_delete_prefix k)),
      so_put_file = upload, so_mirror = mirror\<rparr>"

definition agent_disk :: "agent_world local_files" where
  "agent_disk =
     \<lparr>lf_is_dir = (\<lambda>p. on_second (State (\<lambda>m.
        (if map_of m p \<noteq> None then Inr False else if files_below p m \<noteq> [] then Inr True else Inl OsNotExist, m)))),
      lf_mkdir_all = (\<lambda>p. State_Monad.return None),
      lf_read = (\<lambda>p. on_second (State (\<lambda>m. (case map_of m p of None \<Rightarrow> Inl OsNotExist | Some d \<Rightarrow> Inr d, m)))),
      lf_write = (\<lambda>p d. on_second (State (\<lambda>m. (None, smap_put p d m)))),
      lf_walk = (\<lambda>p. on_second (State (\<lambda>m. (map Walk_File (sort_strings (files_below p m)), m)))),
      lf_read_dir = (\<lambda>p. on_second (State (\<lambda>m. (Inr (map (\<lambda>n. (n, False)) (sort_strings (files_below p m))), m)))),
      lf_temp_dir = (\<lambda>p. State_Monad.return (Inr (''/tmp/'' @ p))),
      lf_remove_all = (\<lambda>p. State_Monad.return None)\<rparr>"

lemma on_second_kept: "preserves (\<lambda>w. map_of (fst w)) (\<lambda>w. True) may (on_second m)"
  by (simp add: preserves_def run_on_second)

lemma mirror_objects:
  "\<not> has_prefix k dst \<Longrightarrow>
   map_of (fold (\<lambda>(p, data) m. if has_prefix p src then smap_put (dst @ drop (length src) p) data m else m)
     files objs) k = map_of objs k"
proof (induction files arbitrary: objs)
  case (Cons f fs)
  then show ?case by (cases f) (auto simp: has_prefix_iff)
qed simp

lemma agent_memory_store: "object_store (storage_client.truncate agent_memory) (\<lambda>w. map_of (fst w)) (\<lambda>w. True)"
  by unfold_locales
    (auto simp: storage_client.truncate_def agent_memory_def run_on_first memory_get_def memory_put_def
      memory_delete_def delete_conv' fun_eq_iff)

interpretation agents: agent_store agent_memory "\<lambda>w. map_of (fst w)" "\<lambda>w. True" agent_disk
proof (rule agent_store.intro [OF agent_memory_store], unfold_locales)
  fix w :: agent_world and key path src dst :: string and may :: "string \<Rightarrow> bool" and data :: string
  show "run_state (so_stat agent_memory key) w = ((if map_of (fst w) key = None then Some OsNotExist else None), w)"
    by (simp add: agent_memory_def run_on_first memory_stat_def)
  show "preserves (\<lambda>w. map_of (fst w)) (\<lambda>w. True) (\<lambda>k. k = key) (so_put_file agent_memory path key)"
    by (simp add: preserves_def agent_memory_def upload_def split: option.splits)
  show "preserves (\<lambda>w. map_of (fst w)) (\<lambda>w. True) (\<lambda>k. has_prefix k dst) (so_mirror agent_memory src dst)"
    by (simp add: preserves_def agent_memory_def mirror_def mirror_objects)
qed (simp_all add: agent_disk_def on_second_kept preserves_return)

interpretation deployments: agent_deployment agent_memory "\<lambda>w. map_of (fst w)" "\<lambda>w. True" agent_disk
  "d\<lparr>dp_oss := agent_memory, dp_files := agent_disk\<rparr>" for d
  by unfold_locales simp_all


definition sample_deploy :: worker_deploy_request where
  "sample_deploy =
     \<lparr>yq_name = ''alice'', yq_spec = zero_worker_spec, yq_role = ''standalone'', yq_team_name = [],
      yq_team_leader_name = [], yq_matrix_token = ''syt'', yq_gateway_key = ''key'', yq_matrix_password = ''pw'',
      yq_ai_gateway_url = [], yq_mcp_servers = [], yq_team_admin_matrix_id = [], yq_team_coordinator_ids = [],
      yq_heartbeat = None, yq_is_update = True\<rparr>"


end
