(* ===== verification/Human_Controller.thy ===== *)
theory Human_Controller
  imports Provisioner_Agents Worker_Controller
begin

text \<open>
  \<open>internal/controller/human_controller.go\<close> with \<open>human_reconcile_*.go\<close> and \<open>human_scope.go\<close>: the
  reconciler of Human resources, which keeps a Matrix account and its room memberships in line
  with the spec. The Kubernetes client and the provisioner are records of the calls it makes;
  \<open>human_operations\<close> fills the latter from the provisioner.
\<close>

record 'w human_provisioner =
  hp_ensure_user :: "string \<Rightarrow> ('w, human_credentials result) state"
  hp_login :: "string \<Rightarrow> string \<Rightarrow> ('w, string result) state"
  hp_set_display_name :: "string \<Rightarrow> string \<Rightarrow> string \<Rightarrow> ('w, go_error option) state"
  hp_matrix_user_id :: "string \<Rightarrow> string"
  hp_invite :: "string \<Rightarrow> string \<Rightarrow> ('w, go_error option) state"
  hp_join :: "string \<Rightarrow> string \<Rightarrow> ('w, go_error option) state"
  hp_kick :: "string \<Rightarrow> string \<Rightarrow> string \<Rightarrow> ('w, go_error option) state"
  hp_force_leave :: "string \<Rightarrow> string \<Rightarrow> ('w, go_error option) state"

definition set_human_display_name ::
  "'w provisioner \<Rightarrow> string \<Rightarrow> string \<Rightarrow> string \<Rightarrow> ('w, go_error option) state" where
  "set_human_display_name p uid token name = mo_set_display_name (pv_matrix p) uid token name"

definition human_operations :: "'w provisioner \<Rightarrow> 'w human_provisioner" where
  "human_operations p =
     \<lparr>hp_ensure_user = ensure_human_user p, hp_login = login_as_human p,
      hp_set_display_name = set_human_display_name p, hp_matrix_user_id = matrix_user_id p,
      hp_invite = mo_invite (pv_matrix p), hp_join = join_room_as p, hp_kick = mo_kick (pv_matrix p),
      hp_force_leave = force_leave_room p\<rparr>"

record 'w human_client =
  hl_get :: "string \<Rightarrow> string \<Rightarrow> ('w, human result) state"
  hl_update :: "human \<Rightarrow> ('w, go_error option) state"
  hl_status_patch :: "human \<Rightarrow> human \<Rightarrow> ('w, go_error option) state"
  hl_get_worker :: "string \<Rightarrow> string \<Rightarrow> ('w, worker result) state"
  hl_get_team :: "string \<Rightarrow> string \<Rightarrow> ('w, team result) state"

text \<open>
  \<open>hr_legacy\<close> carries the clock reading of the registry writes; \<open>hr_range\<close> is the order in which
  ranging over a map visits its keys, which Go leaves open.
\<close>

record 'w human_reconciler =
  hr_client :: "'w human_client"
  hr_provisioner :: "'w human_provisioner"
  hr_legacy :: "('w legacy_compat \<times> string) option"
  hr_range :: "string list \<Rightarrow> string list"

record human_scope =
  sc_human :: human
  sc_username :: string
  sc_token :: string

definition compute_human_phase :: "human \<Rightarrow> go_error option \<Rightarrow> string" where
  "compute_human_phase h err =
     (if err \<noteq> None
      then if hst_matrix_user_id (h_status h) = [] then ''Failed''
           else if hst_phase (h_status h) = [] then ''Pending''
           else hst_phase (h_status h)
      else if hst_matrix_user_id (h_status h) = [] then ''Pending'' else ''Active'')"

section \<open>Desired rooms\<close>

text \<open>A set of room ids is a list without duplicates.\<close>

definition add_room :: "string \<Rightarrow> string list \<Rightarrow> string list" where
  "add_room rid rooms = (if rid = [] \<or> rid \<in> set rooms then rooms else rooms @ [rid])"

fun worker_rooms ::
  "'w human_client \<Rightarrow> string \<Rightarrow> string list \<Rightarrow> string list \<Rightarrow> ('w, string list) state" where
  "worker_rooms c ns [] desired = State_Monad.return desired"
| "worker_rooms c ns (n # names) desired = do {
     r \<leftarrow> hl_get_worker c ns n;
     worker_rooms c ns names
       (case r of Inl _ \<Rightarrow> desired | Inr w \<Rightarrow> add_room (wst_room_id (w_status w)) desired) }"

fun team_rooms ::
  "'w human_client \<Rightarrow> string \<Rightarrow> string list \<Rightarrow> string list \<Rightarrow> ('w, string list) state" where
  "team_rooms c ns [] desired = State_Monad.return desired"
| "team_rooms c ns (n # names) desired = do {
     r \<leftarrow> hl_get_team c ns n;
     team_rooms c ns names
       (case r of Inl _ \<Rightarrow> desired | Inr t \<Rightarrow> add_room (tst_team_room_id (t_status t)) desired) }"

definition build_desired_human_rooms :: "'w human_client \<Rightarrow> human \<Rightarrow> ('w, string list) state" where
  "build_desired_human_rooms c h = do {
     ws \<leftarrow> worker_rooms c (om_namespace (h_meta h)) (hs_accessible_workers (h_spec h)) [];
     team_rooms c (om_namespace (h_meta h)) (hs_accessible_teams (h_spec h)) ws }"

section \<open>Phases\<close>

definition needs_provision :: "'w human_provisioner \<Rightarrow> human_scope \<Rightarrow> bool" where
  "needs_provision p s \<longleftrightarrow>
     (let uid = hst_matrix_user_id (h_status (sc_human s))
      in uid = [] \<or> uid \<noteq> hp_matrix_user_id p (sc_username s))"

definition with_status :: "(human_status \<Rightarrow> human_status) \<Rightarrow> human_scope \<Rightarrow> human_scope" where
  "with_status f s = s\<lparr>sc_human := (sc_human s)\<lparr>h_status := f (h_status (sc_human s))\<rparr>\<rparr>"

definition scope_status :: "human_scope \<Rightarrow> human_status" where
  "scope_status s = h_status (sc_human s)"

definition provision_human ::
  "'w human_provisioner \<Rightarrow> human_scope \<Rightarrow> ('w, human_scope \<times> go_error option) state" where
  "provision_human p s = do {
     r \<leftarrow> hp_ensure_user p (sc_username s);
     State_Monad.return
       (case r of
          Inl e \<Rightarrow> (s, Some (Wrap ''matrix registration failed'' e))
        | Inr c \<Rightarrow>
            (with_status (\<lambda>st. st\<lparr>hst_matrix_user_id := hc_user_id c, hst_initial_password := hc_password c\<rparr>) s
               \<lparr>sc_token := hc_access_token c\<rparr>, None)) }"

text \<open>The token of the pass: the one at hand, or a login with the stored password.\<close>

definition ensure_user_token :: "'w human_provisioner \<Rightarrow> human_scope \<Rightarrow> ('w, human_scope) state" where
  "ensure_user_token p s =
     (if sc_token s \<noteq> [] \<or> hst_initial_password (scope_status s) = [] then State_Monad.return s
      else do {
        r \<leftarrow> hp_login p (sc_username s) (hst_initial_password (scope_status s));
        State_Monad.return (case r of Inl _ \<Rightarrow> s | Inr t \<Rightarrow> s\<lparr>sc_token := t\<rparr>) })"

definition sync_display_name :: "'w human_provisioner \<Rightarrow> human_scope \<Rightarrow> ('w, human_scope) state" where
  "sync_display_name p s0 = do {
     s \<leftarrow> ensure_user_token p s0;
     (if sc_token s = [] then State_Monad.return s
      else do {
        e \<leftarrow> hp_set_display_name p (hst_matrix_user_id (scope_status s)) (sc_token s)
               (hs_display_name (h_spec (sc_human s)));
        State_Monad.return
          (case e of
             Some _ \<Rightarrow> s
           | None \<Rightarrow> with_status (\<lambda>st. st\<lparr>hst_display_name_synced := om_generation (h_meta (sc_human s))\<rparr>) s) }) }"

definition reconcile_human_infra ::
  "'w human_provisioner \<Rightarrow> human_scope \<Rightarrow> ('w, human_scope \<times> go_error option) state" where
  "reconcile_human_infra p s0 =
     (let needs = needs_provision p s0 in do {
        r \<leftarrow> (if needs then provision_human p s0 else State_Monad.return (s0, None));
        (case r of
           (s, Some e) \<Rightarrow> State_Monad.return (s, Some e)
         | (s, None) \<Rightarrow>
             if needs \<or> hst_display_name_synced (scope_status s) \<noteq> om_generation (h_meta (sc_human s))
             then do { s' \<leftarrow> sync_display_name p s; State_Monad.return (s', None) }
             else State_Monad.return (s, None)) })"

fun grant_rooms ::
  "'w human_provisioner \<Rightarrow> string \<Rightarrow> string list \<Rightarrow> string list \<Rightarrow> human_scope \<Rightarrow> string list \<Rightarrow>
   ('w, human_scope \<times> string list) state" where
  "grant_rooms p uid observed [] s next_rooms = State_Monad.return (s, next_rooms)"
| "grant_rooms p uid observed (rid # rids) s next_rooms =
     (if rid \<in> set observed then grant_rooms p uid observed rids s next_rooms
      else do {
        e \<leftarrow> hp_invite p rid uid;
        (if e \<noteq> None then grant_rooms p uid observed rids s next_rooms
         else do {
           s' \<leftarrow> ensure_user_token p s;
           (if sc_token s' = [] then grant_rooms p uid observed rids s' next_rooms
            else do {
              j \<leftarrow> hp_join p rid (sc_token s');
              grant_rooms p uid observed rids s'
                (if j \<noteq> None then next_rooms else next_rooms @ [rid]) }) }) })"

fun revoke_rooms ::
  "'w human_provisioner \<Rightarrow> string \<Rightarrow> string list \<Rightarrow> string list \<Rightarrow> string list \<Rightarrow> ('w, string list) state" where
  "revoke_rooms p uid desired [] kept = State_Monad.return kept"
| "revoke_rooms p uid desired (rid # rids) kept =
     (if rid \<in> set desired then revoke_rooms p uid desired rids (kept @ [rid])
      else do {
        e \<leftarrow> hp_kick p rid uid ''access revoked'';
        revoke_rooms p uid desired rids (if e \<noteq> None then kept @ [rid] else kept) })"

definition reconcile_human_rooms :: "'w human_reconciler \<Rightarrow> human_scope \<Rightarrow> ('w, human_scope) state" where
  "reconcile_human_rooms r s = do {
     desired \<leftarrow> build_desired_human_rooms (hr_client r) (sc_human s);
     (let p = hr_provisioner r;
          rooms = hst_rooms (scope_status s);
          status_uid = hst_matrix_user_id (scope_status s);
          uid = (if status_uid = [] then hp_matrix_user_id p (sc_username s) else status_uid)
      in do {
        g \<leftarrow> grant_rooms p uid rooms (hr_range r desired) s rooms;
        kept \<leftarrow> revoke_rooms p uid desired (snd g) [];
        State_Monad.return (with_status (\<lambda>st. st\<lparr>hst_rooms := kept\<rparr>) (fst g)) }) }"

definition human_registry_entry_of :: "human \<Rightarrow> human_registry_entry" where
  "human_registry_entry_of h =
     \<lparr>he_name = om_name (h_meta h), he_matrix_user_id = hst_matrix_user_id (h_status h),
      he_display_name = hs_display_name (h_spec h), he_permission_level = hs_permission_level (h_spec h),
      he_accessible_teams = hs_accessible_teams (h_spec h), he_created_at = []\<rparr>"

definition reconcile_human_legacy :: "'w human_reconciler \<Rightarrow> human_scope \<Rightarrow> ('w, unit) state" where
  "reconcile_human_legacy r s =
     (case hr_legacy r of
        None \<Rightarrow> State_Monad.return ()
      | Some (lc, now) \<Rightarrow>
          if lc_oss lc = None then State_Monad.return ()
          else do {
            _ \<leftarrow> update_humans_registry lc now (human_registry_entry_of (sc_human s));
            State_Monad.return () })"

section \<open>Reconcile\<close>

definition reconcile_human_normal ::
  "'w human_reconciler \<Rightarrow> human_scope \<Rightarrow> ('w, human_scope \<times> go_error option) state" where
  "reconcile_human_normal r s0 = do {
     i \<leftarrow> reconcile_human_infra (hr_provisioner r) s0;
     (case i of
        (s, Some e) \<Rightarrow> State_Monad.return (s, Some e)
      | (s, None) \<Rightarrow> do {
          s' \<leftarrow> reconcile_human_rooms r s;
          _ \<leftarrow> reconcile_human_legacy r s';
          State_Monad.return (s', None) }) }"

fun force_leave_rooms :: "'w human_provisioner \<Rightarrow> string \<Rightarrow> string list \<Rightarrow> ('w, unit) state" where
  "force_leave_rooms p uid [] = State_Monad.return ()"
| "force_leave_rooms p uid (rid # rids) = do { _ \<leftarrow> hp_force_leave p uid rid; force_leave_rooms p uid rids }"

definition reconcile_human_delete :: "'w human_reconciler \<Rightarrow> human_scope \<Rightarrow> ('w, go_error option) state" where
  "reconcile_human_delete r s =
     (let h = sc_human s;
          uid = (if hst_matrix_user_id (h_status h) = []
                 then hp_matrix_user_id (hr_provisioner r) (sc_username s) else hst_matrix_user_id (h_status h))
      in do {
        _ \<leftarrow> force_leave_rooms (hr_provisioner r) uid (hst_rooms (h_status h));
        _ \<leftarrow> (case hr_legacy r of
               None \<Rightarrow> State_Monad.return None
             | Some (lc, now) \<Rightarrow> remove_from_humans_registry lc now (om_name (h_meta h)));
        hl_update (hr_client r) (h\<lparr>h_meta := remove_finalizer (h_meta h)\<rparr>) })"

text \<open>The deferred status patch of a reconcile that ends with \<open>err\<close>.\<close>

definition human_finish ::
  "'w human_reconciler \<Rightarrow> human \<Rightarrow> human \<Rightarrow> nat \<Rightarrow> go_error option \<Rightarrow> ('w, nat \<times> go_error option) state" where
  "human_finish r base h requeue err =
     (let st = (h_status h)\<lparr>hst_phase := compute_human_phase h err,
            hst_message := (case err of None \<Rightarrow> [] | Some e \<Rightarrow> err_text e)\<rparr>
      in do {
        pe \<leftarrow> hl_status_patch (hr_client r) base (h\<lparr>h_status := st\<rparr>);
        State_Monad.return (requeue, (case pe of None \<Rightarrow> err | Some e \<Rightarrow> aggregate [err, Some e])) })"

definition human_reconcile ::
  "'w human_reconciler \<Rightarrow> string \<Rightarrow> string \<Rightarrow> ('w, nat \<times> go_error option) state" where
  "human_reconcile r namespace name = do {
     got \<leftarrow> hl_get (hr_client r) namespace name;
     (case got of
        Inl e \<Rightarrow> State_Monad.return (0, if is_api_not_found e then None else Some e)
      | Inr h \<Rightarrow>
          (let s = \<lparr>sc_human = h,
                 sc_username = human_effective_username (h_spec h) (om_name (h_meta h)), sc_token = []\<rparr> in
           if om_deleting (h_meta h)
           then if has_finalizer (h_meta h)
                then do { e \<leftarrow> reconcile_human_delete r s; State_Monad.return (0, e) }
                else State_Monad.return (0, None)
           else (let h1 = h\<lparr>h_meta := add_finalizer (h_meta h)\<rparr> in do {
             ue \<leftarrow> (if has_finalizer (h_meta h) then State_Monad.return None else hl_update (hr_client r) h1);
             (case ue of
                Some e \<Rightarrow> human_finish r h h1 0 (Some e)
              | None \<Rightarrow> do {
                  n \<leftarrow> reconcile_human_normal r (s\<lparr>sc_human := h1\<rparr>);
                  human_finish r h (sc_human (fst n)) reconcile_interval (snd n) }) }))) }"

end
