(* ===== verification/Human_Properties.thy ===== *)
theory Human_Properties
  imports Human_Controller
begin

text \<open>
  What the Human reconciler guarantees: a human whose rooms and profile are in line is left
  alone, the recorded rooms stay between what was recorded and what is desired whatever the
  homeserver answers, and equal what is desired when it answers.
\<close>

section \<open>The rooms phase\<close>

lemma status_with_status [simp]: "scope_status (with_status f s) = f (scope_status s)"
  by (simp add: scope_status_def with_status_def)

lemma human_with_status [simp]:
  "h_meta (sc_human (with_status f s)) = h_meta (sc_human s)"
  "h_spec (sc_human (with_status f s)) = h_spec (sc_human s)"
  "sc_username (with_status f s) = sc_username s" "sc_token (with_status f s) = sc_token s"
  by (simp_all add: with_status_def)

lemma status_token [simp]: "scope_status (s\<lparr>sc_token := t\<rparr>) = scope_status s"
  by (simp add: scope_status_def)

text \<open>Granting touches the token of the scope only.\<close>

definition same_human :: "human_scope \<Rightarrow> human_scope \<Rightarrow> bool" where
  "same_human s s' \<longleftrightarrow> sc_human s' = sc_human s \<and> sc_username s' = sc_username s"

lemma same_human_refl [simp]: "same_human s s"
  by (simp add: same_human_def)

lemma same_human_trans: "same_human s t \<Longrightarrow> same_human t u \<Longrightarrow> same_human s u"
  by (simp add: same_human_def)

lemma ensure_user_token_same: "same_human s (fst (run_state (ensure_user_token p s) w))"
  by (cases "run_state (hp_login p (sc_username s) (hst_initial_password (scope_status s))) w")
    (auto simp: ensure_user_token_def same_human_def split: sum.splits)

lemma grant_rooms_bounds:
  assumes "run_state (grant_rooms p uid observed rids s next_rooms) w = ((s', rooms), w')"
  shows "same_human s s' \<and> set next_rooms \<subseteq> set rooms \<and> set rooms \<subseteq> set next_rooms \<union> set rids"
  using assms
proof (induction rids arbitrary: s next_rooms w)
  case (Cons rid rids)
  obtain e w1 where i: "run_state (hp_invite p rid uid) w = (e, w1)" by fastforce
  obtain s1 w2 where t: "run_state (ensure_user_token p s) w1 = (s1, w2)" by fastforce
  obtain j w3 where j: "run_state (hp_join p rid (sc_token s1)) w2 = (j, w3)" by fastforce
  have same: "same_human s s1" using ensure_user_token_same [of s p w1] t by simp
  from Cons.prems consider
      "run_state (grant_rooms p uid observed rids s next_rooms) w = ((s', rooms), w')"
    | "run_state (grant_rooms p uid observed rids s next_rooms) w1 = ((s', rooms), w')"
    | "run_state (grant_rooms p uid observed rids s1 next_rooms) w2 = ((s', rooms), w')"
    | "run_state (grant_rooms p uid observed rids s1 (if j \<noteq> None then next_rooms else next_rooms @ [rid])) w3 =
        ((s', rooms), w')"
    using i t j by (simp split: if_splits)
  then show ?case
  proof cases
    case 4
    then show ?thesis using Cons.IH [OF 4] same_human_trans [OF same] by (auto split: if_splits)
  next
    case 3
    then show ?thesis using Cons.IH [OF 3] same_human_trans [OF same] by auto
  qed (use Cons.IH in fastforce)+
qed simp

lemma grant_rooms_nothing:
  "set rids \<subseteq> set observed \<Longrightarrow> grant_rooms p uid observed rids s next_rooms = State_Monad.return (s, next_rooms)"
  by (induction rids) auto

lemma revoke_rooms_bounds:
  assumes "run_state (revoke_rooms p uid desired rids kept) w = (rooms, w')"
  shows "set kept \<union> (set rids \<inter> set desired) \<subseteq> set rooms \<and> set rooms \<subseteq> set kept \<union> set rids"
  using assms
proof (induction rids arbitrary: kept w)
  case (Cons rid rids)
  show ?case
  proof (cases "rid \<in> set desired")
    case True
    then show ?thesis using Cons.IH [of "kept @ [rid]" w] Cons.prems by auto
  next
    case False
    obtain e w1 where e: "run_state (hp_kick p rid uid ''access revoked'') w = (e, w1)" by fastforce
    then have "run_state (revoke_rooms p uid desired rids (if e \<noteq> None then kept @ [rid] else kept)) w1 = (rooms, w')"
      using Cons.prems False by simp
    then show ?thesis using Cons.IH False by (fastforce split: if_splits)
  qed
qed simp

lemma revoke_rooms_nothing:
  "set rids \<subseteq> set desired \<Longrightarrow> revoke_rooms p uid desired rids kept = State_Monad.return (kept @ rids)"
  by (induction rids arbitrary: kept) auto

text \<open>With a homeserver that answers.\<close>

definition answers :: "('w, go_error option) state \<Rightarrow> bool" where
  "answers m \<longleftrightarrow> (\<forall>w. fst (run_state m w) = None)"

lemma answersD: "answers m \<Longrightarrow> \<exists>w'. run_state m w = (None, w')"
  by (metis answers_def prod.collapse)

lemma grant_rooms_all:
  assumes "\<And>rid. answers (hp_invite p rid uid)" "\<And>rid t. answers (hp_join p rid t)" "sc_token s \<noteq> []"
    and "run_state (grant_rooms p uid observed rids s next_rooms) w = ((s', rooms), w')"
  shows "set rooms = set next_rooms \<union> (set rids - set observed)"
  using assms(3,4)
proof (induction rids arbitrary: next_rooms w)
  case (Cons rid rids)
  show ?case
  proof (cases "rid \<in> set observed")
    case True
    then show ?thesis using Cons.IH [of next_rooms w] Cons.prems by simp
  next
    case False
    obtain w1 where i: "run_state (hp_invite p rid uid) w = (None, w1)"
      using answersD [OF assms(1)] by blast
    obtain w2 where j: "run_state (hp_join p rid (sc_token s)) w1 = (None, w2)"
      using answersD [OF assms(2)] by blast
    have "run_state (grant_rooms p uid observed rids s (next_rooms @ [rid])) w2 = ((s', rooms), w')"
      using Cons.prems False i j by (simp add: ensure_user_token_def)
    then show ?thesis using Cons.IH [OF Cons.prems(1)] False by auto
  qed
qed simp

text \<open>A login is needed for the first new room only, and the token of the scope then serves the rest.\<close>

lemma grant_rooms_login:
  assumes "\<And>rid. answers (hp_invite p rid uid)" "\<And>rid t. answers (hp_join p rid t)"
    and login: "\<And>w. \<exists>t w'. run_state (hp_login p (sc_username s) (hst_initial_password (scope_status s))) w = (Inr t, w') \<and> t \<noteq> []"
    and pw: "sc_token s \<noteq> [] \<or> hst_initial_password (scope_status s) \<noteq> []"
    and "run_state (grant_rooms p uid observed rids s next_rooms) w = ((s', rooms), w')"
  shows "set rooms = set next_rooms \<union> (set rids - set observed)"
  using assms(5)
proof (induction rids arbitrary: w)
  case (Cons rid rids)
  consider "rid \<in> set observed" | "rid \<notin> set observed" "sc_token s \<noteq> []" | "rid \<notin> set observed" "sc_token s = []"
    by blast
  then show ?case
  proof cases
    case 1
    then show ?thesis using Cons.IH [of w] Cons.prems by simp
  next
    case 2
    show ?thesis using grant_rooms_all [OF assms(1,2) 2(2) Cons.prems] .
  next
    case 3
    obtain w1 where i: "run_state (hp_invite p rid uid) w = (None, w1)"
      using answersD [OF assms(1)] by blast
    obtain t w2 where t: "run_state (hp_login p (sc_username s) (hst_initial_password (scope_status s))) w1 = (Inr t, w2)"
        "t \<noteq> []"
      using login by blast
    obtain w3 where j: "run_state (hp_join p rid t) w2 = (None, w3)"
      using answersD [OF assms(2)] by blast
    have "run_state (grant_rooms p uid observed rids (s\<lparr>sc_token := t\<rparr>) (next_rooms @ [rid])) w3 = ((s', rooms), w')"
      using Cons.prems 3 i t j pw by (simp add: ensure_user_token_def)
    then show ?thesis
      using grant_rooms_all [OF assms(1,2), of "s\<lparr>sc_token := t\<rparr>" observed rids "next_rooms @ [rid]" w3] t(2) 3(1) by auto
  qed
qed simp

lemma revoke_rooms_all:
  assumes "\<And>rid. answers (hp_kick p rid uid ''access revoked'')"
    and "run_state (revoke_rooms p uid desired rids kept) w = (rooms, w')"
  shows "set rooms = set kept \<union> (set rids \<inter> set desired)"
  using assms(2)
proof (induction rids arbitrary: kept w)
  case (Cons rid rids)
  obtain w1 where "run_state (hp_kick p rid uid ''access revoked'') w = (None, w1)"
    using answersD [OF assms(1)] by blast
  then show ?case
    using Cons.IH Cons.prems by (cases "rid \<in> set desired") fastforce+
qed simp

text \<open>The rooms phase as one run.\<close>

definition room_user :: "'w human_reconciler \<Rightarrow> human_scope \<Rightarrow> string" where
  "room_user r s =
     (if hst_matrix_user_id (scope_status s) = [] then hp_matrix_user_id (hr_provisioner r) (sc_username s)
      else hst_matrix_user_id (scope_status s))"

lemma rooms_run:
  assumes "run_state (build_desired_human_rooms (hr_client r) (sc_human s)) w = (desired, v)"
    "run_state (grant_rooms (hr_provisioner r) (room_user r s) (hst_rooms (scope_status s)) (hr_range r desired) s
       (hst_rooms (scope_status s))) v = ((t, granted), x)"
    "run_state (revoke_rooms (hr_provisioner r) (room_user r s) desired granted []) x = (kept, y)"
  shows "run_state (reconcile_human_rooms r s) w = (with_status (\<lambda>st. st\<lparr>hst_rooms := kept\<rparr>) t, y)"
  using assms by (simp add: reconcile_human_rooms_def room_user_def Let_def)

text \<open>C11. The rooms recorded for a human are safe from the homeserver: whatever it answers to
  invitations, logins, joins and kicks, and in whatever order the rooms are visited, a room that
  was recorded and is still desired stays recorded, and only recorded or desired rooms are
  recorded; if it answers and the human can log in, exactly the desired rooms are.\<close>

theorem human_rooms_reconciled:
  assumes desired: "run_state (build_desired_human_rooms (hr_client r) (sc_human s)) w = (desired, v)"
    and range: "set (hr_range r desired) = set desired"
    and run: "run_state (reconcile_human_rooms r s) w = (s', w')"
  shows "set (hst_rooms (scope_status s)) \<inter> set desired \<subseteq> set (hst_rooms (scope_status s')) \<and>
    set (hst_rooms (scope_status s')) \<subseteq> set (hst_rooms (scope_status s)) \<union> set desired \<and>
    ((\<forall>rid u t. answers (hp_invite (hr_provisioner r) rid u) \<and> answers (hp_join (hr_provisioner r) rid t) \<and>
        answers (hp_kick (hr_provisioner r) rid u ''access revoked'')) \<and>
     (sc_token s \<noteq> [] \<or> hst_initial_password (scope_status s) \<noteq> [] \<and>
       (\<forall>x. \<exists>t y. run_state (hp_login (hr_provisioner r) (sc_username s) (hst_initial_password (scope_status s))) x =
          (Inr t, y) \<and> t \<noteq> [])) \<longrightarrow>
     set (hst_rooms (scope_status s')) = set desired)"
proof -
  let ?p = "hr_provisioner r" and ?u = "room_user r s" and ?old = "hst_rooms (scope_status s)"
  obtain t granted x where g: "run_state (grant_rooms ?p ?u ?old (hr_range r desired) s ?old) v = ((t, granted), x)"
    by (metis prod.collapse)
  obtain kept y where k: "run_state (revoke_rooms ?p ?u desired granted []) x = (kept, y)"
    by fastforce
  have s': "hst_rooms (scope_status s') = kept"
    using rooms_run [OF desired g k] run by simp
  note gb = grant_rooms_bounds [OF g] and kb = revoke_rooms_bounds [OF k]
  have "set kept = set desired"
    if a: "\<forall>rid u t. answers (hp_invite ?p rid u) \<and> answers (hp_join ?p rid t) \<and> answers (hp_kick ?p rid u ''access revoked'')"
      and l: "sc_token s \<noteq> [] \<or> hst_initial_password (scope_status s) \<noteq> [] \<and>
        (\<forall>x. \<exists>t y. run_state (hp_login ?p (sc_username s) (hst_initial_password (scope_status s))) x = (Inr t, y) \<and> t \<noteq> [])"
  proof -
    have "set granted = set ?old \<union> (set (hr_range r desired) - set ?old)"
    proof (cases "sc_token s = []")
      case True
      then show ?thesis using a l by (intro grant_rooms_login [OF _ _ _ _ g]) auto
    next
      case False
      then show ?thesis using a by (intro grant_rooms_all [OF _ _ _ g]) auto
    qed
    then show ?thesis using revoke_rooms_all [OF _ k] a range by auto
  qed
  then show ?thesis using gb kb range unfolding s' by auto
qed

section \<open>Quiescence\<close>

text \<open>A human in line with its spec costs nothing: when its account is provisioned, its profile
  synced at this generation and its recorded rooms are the desired ones, a pass only reads the
  workers and teams of the spec; it logs in nowhere, calls no operation of the provisioner and
  leaves the human as it was.\<close>

theorem quiescent_human_untouched:
  assumes "\<not> needs_provision (hr_provisioner r) s"
    "hst_display_name_synced (scope_status s) = om_generation (h_meta (sc_human s))"
    "run_state (build_desired_human_rooms (hr_client r) (sc_human s)) w = (desired, v)"
    "set desired = set (hst_rooms (scope_status s))" "set (hr_range r desired) = set desired"
    "hr_legacy r = None"
  shows "run_state (reconcile_human_normal r s) w = ((s, None), v)"
proof -
  have "grant_rooms (hr_provisioner r) (room_user r s) (hst_rooms (scope_status s)) (hr_range r desired) s
      (hst_rooms (scope_status s)) = State_Monad.return (s, hst_rooms (scope_status s))"
    using assms by (intro grant_rooms_nothing) simp
  moreover have "revoke_rooms (hr_provisioner r) (room_user r s) desired (hst_rooms (scope_status s)) [] =
      State_Monad.return (hst_rooms (scope_status s))"
    using assms by (simp add: revoke_rooms_nothing)
  ultimately have "run_state (reconcile_human_rooms r s) w =
      (with_status (\<lambda>st. st\<lparr>hst_rooms := hst_rooms (scope_status s)\<rparr>) s, v)"
    using assms(3) rooms_run [of r s w desired v s "hst_rooms (scope_status s)" v "hst_rooms (scope_status s)" v] by simp
  moreover have "with_status (\<lambda>st. st\<lparr>hst_rooms := hst_rooms (scope_status s)\<rparr>) s = s"
    by (simp add: with_status_def scope_status_def)
  ultimately show ?thesis
    using assms(1,2,6)
    by (simp add: reconcile_human_normal_def reconcile_human_infra_def reconcile_human_legacy_def)
qed

text \<open>
  After a change of the username the rooms that are recorded count as joined, although the new
  account is in none of them: whatever inviting and joining would do, they are not tried.
\<close>

lemma desired_of_status [simp]:
  "build_desired_human_rooms c (sc_human (with_status f s)) = build_desired_human_rooms c (sc_human s)"
  by (simp add: build_desired_human_rooms_def)

lemma desired_of_human:
  "h_meta h = h_meta h' \<Longrightarrow> h_spec h = h_spec h' \<Longrightarrow> build_desired_human_rooms c h = build_desired_human_rooms c h'"
  by (simp add: build_desired_human_rooms_def)

lemma recorded_rooms_not_granted:
  assumes "\<And>v. fst (run_state (build_desired_human_rooms (hr_client r) (sc_human s)) v) = desired"
    "set desired \<subseteq> set (hst_rooms (scope_status s))" "set (hr_range r desired) = set desired"
  shows "run_state (reconcile_human_rooms (r\<lparr>hr_provisioner := (hr_provisioner r)\<lparr>hp_invite := i, hp_join := j\<rparr>\<rparr>) s) w =
    run_state (reconcile_human_rooms r s) w"
proof -
  have revoke: "revoke_rooms ((hr_provisioner r)\<lparr>hp_invite := i, hp_join := j\<rparr>) u d rids kept =
      revoke_rooms (hr_provisioner r) u d rids kept" for u d rids kept
    by (induction rids arbitrary: kept) auto
  obtain v where v: "run_state (build_desired_human_rooms (hr_client r) (sc_human s)) w = (desired, v)"
    using assms(1) by (metis prod.collapse)
  have sub: "set (hr_range r desired) \<subseteq> set (hst_rooms (scope_status s))" using assms(2,3) by simp
  show ?thesis
    using v by (simp add: reconcile_human_rooms_def Let_def revoke grant_rooms_nothing [OF sub])
qed

section \<open>Deletion\<close>

text \<open>Nothing the homeserver or the registry answers keeps a deleted human: the finalizer goes.\<close>

lemma human_delete_ends:
  assumes "run_state (hl_get (hr_client r) ns n) w = (Inr h, v)" "om_deleting (h_meta h)" "has_finalizer (h_meta h)"
    "answers (hl_update (hr_client r) (h\<lparr>h_meta := remove_finalizer (h_meta h)\<rparr>))"
  shows "\<exists>w'. run_state (human_reconcile r ns n) w = ((0, None), w')"
proof -
  have "answers (hl_update (hr_client r) (h\<lparr>h_meta := remove_finalizer (h_meta h)\<rparr>)) \<Longrightarrow>
      fst (run_state (reconcile_human_delete r \<lparr>sc_human = h, sc_username = u, sc_token = []\<rparr>) x) = None" for u x
    by (auto simp: reconcile_human_delete_def Let_def answers_def split: prod.splits option.splits)
  from this [OF assms(4)] obtain w' where
    "run_state (reconcile_human_delete r \<lparr>sc_human = h,
       sc_username = human_effective_username (h_spec h) (om_name (h_meta h)), sc_token = []\<rparr>) v = (None, w')"
    by (metis prod.collapse)
  then show ?thesis using assms(1-3) by (simp add: human_reconcile_def Let_def)
qed

section \<open>Example\<close>

definition quiet_human_provisioner :: "'w human_provisioner" where
  "quiet_human_provisioner =
     \<lparr>hp_ensure_user = (\<lambda>u. State_Monad.return (Inl (Err ''down''))), hp_login = (\<lambda>u p. State_Monad.return (Inr ''tok'')),
      hp_set_display_name = (\<lambda>u t n. State_Monad.return None), hp_matrix_user_id = (\<lambda>n. CHR 0x40 # n @ '':hs''),
      hp_invite = (\<lambda>r u. State_Monad.return None), hp_join = (\<lambda>r t. State_Monad.return None),
      hp_kick = (\<lambda>r u m. State_Monad.return None), hp_force_leave = (\<lambda>u r. State_Monad.return None)\<rparr>"

definition sample_human :: human where
  "sample_human =
     \<lparr>h_meta = zero_meta\<lparr>om_name := ''eve'', om_generation := 3\<rparr>,
      h_spec = \<lparr>hs_display_name = ''Eve'', hs_username = [], hs_email = [], hs_permission_level = 1,
        hs_accessible_teams = [], hs_accessible_workers = [''alice'', ''bob''], hs_note = []\<rparr>,
      h_status = \<lparr>hst_phase = ''Active'', hst_matrix_user_id = CHR 0x40 # ''eve:hs'', hst_initial_password = ''pw'',
        hst_display_name_synced = 3, hst_rooms = [''!old:hs''], hst_email_sent = False, hst_message = []\<rparr>\<rparr>"

definition sample_human_client :: "unit human_client" where
  "sample_human_client =
     \<lparr>hl_get = (\<lambda>ns n. State_Monad.return (Inr sample_human)), hl_update = (\<lambda>h. State_Monad.return None),
      hl_status_patch = (\<lambda>b h. State_Monad.return None),
      hl_get_worker = (\<lambda>ns n. State_Monad.return (if n = ''alice'' then
         Inr (zero_worker\<lparr>w_status := zero_worker_status\<lparr>wst_room_id := ''!alice:hs''\<rparr>\<rparr>) else Inl (Err ''not found''))),
      hl_get_team = (\<lambda>ns n. State_Monad.return (Inl (Err ''not found'')))\<rparr>"

definition sample_human_reconciler :: "unit human_reconciler" where
  "sample_human_reconciler =
     \<lparr>hr_client = sample_human_client, hr_provisioner = quiet_human_provisioner, hr_legacy = None, hr_range = rev\<rparr>"

definition sample_scope :: "string list \<Rightarrow> human_scope" where
  "sample_scope rooms =
     \<lparr>sc_human = sample_human\<lparr>h_status := (h_status sample_human)\<lparr>hst_rooms := rooms\<rparr>\<rparr>, sc_username = ''eve'', sc_token = []\<rparr>"

lemmas sample_human_defs = sample_human_def sample_human_client_def sample_human_reconciler_def
  quiet_human_provisioner_def sample_scope_def scope_status_def zero_defs

lemma sample_desired:
  "run_state (build_desired_human_rooms (hr_client sample_human_reconciler) (sc_human (sample_scope rooms))) () =
     ([''!alice:hs''], ())"
  by (simp add: build_desired_human_rooms_def sample_human_defs add_room_def)

lemma human_rooms_reconciled_witness:
  "\<exists>s' w'. run_state (reconcile_human_rooms sample_human_reconciler (sample_scope [''!old:hs''])) () = (s', w') \<and>
     set (hst_rooms (scope_status s')) = {''!alice:hs''}"
proof -
  obtain s' w' where run: "run_state (reconcile_human_rooms sample_human_reconciler (sample_scope [''!old:hs''])) () = (s', w')"
    by (metis prod.collapse)
  have "set (hst_rooms (scope_status s')) = set [''!alice:hs'']"
    using human_rooms_reconciled [OF sample_desired _ run]
    by (simp add: sample_human_defs answers_def)
  then show ?thesis using run by auto
qed

lemma quiescent_human_untouched_witness:
  "run_state (reconcile_human_normal sample_human_reconciler (sample_scope [''!alice:hs''])) () =
     ((sample_scope [''!alice:hs''], None), ())"
  by (rule quiescent_human_untouched [OF _ _ sample_desired])
    (simp_all add: sample_human_defs needs_provision_def)

end
