(* ===== verification/Manager_Controller.thy ===== *)
theory Manager_Controller
  imports Provisioner_Agents Deployer Worker_Controller
begin

text \<open>
  \<open>internal/controller/manager_controller.go\<close> with \<open>manager_reconcile_*.go\<close> and \<open>manager_scope.go\<close>: the
  reconciler of Manager resources. The Kubernetes client, the provisioner, the deployer and the
  gateway are records of the calls it makes; \<open>manager_operations\<close> and \<open>manager_deployer_of\<close> fill
  two of them from the services. Logging and metrics are left out.
\<close>

section \<open>Collaborators\<close>

record 'w manager_provisioner =
  mp_provision :: "manager_provision_request \<Rightarrow> ('w, worker_provision_result result) state"
  mp_deprovision :: "string \<Rightarrow> ('w, go_error option) state"
  mp_refresh_credentials :: "string \<Rightarrow> ('w, refresh_result result) state"
  mp_ensure_gateway_auth :: "string \<Rightarrow> string \<Rightarrow> string \<Rightarrow> ('w, go_error option) state"
  mp_ensure_account :: "string \<Rightarrow> ('w, go_error option) state"
  mp_delete_account :: "string \<Rightarrow> ('w, go_error option) state"
  mp_delete_credentials :: "string \<Rightarrow> ('w, go_error option) state"
  mp_request_token :: "string \<Rightarrow> ('w, string \<times> go_error option) state"
  mp_leave_rooms :: "string \<Rightarrow> ('w, go_error option) state"
  mp_delete_room :: "string \<Rightarrow> ('w, go_error option) state"
  mp_delete_alias :: "string \<Rightarrow> ('w, go_error option) state"
  mp_joined_dm :: "string \<Rightarrow> ('w, bool result) state"
  mp_llm_ready :: "string \<Rightarrow> ('w, bool result) state"
  mp_send_welcome :: "manager_welcome_request \<Rightarrow> ('w, go_error option) state"

record 'w manager_deployer =
  my_deploy_package :: "string \<Rightarrow> string \<Rightarrow> bool \<Rightarrow> ('w, go_error option) state"
  my_deploy_config :: "manager_deploy_request \<Rightarrow> ('w, go_error option) state"
  my_push_skills :: "string \<Rightarrow> string list \<Rightarrow> ('w, go_error option) state"
  my_cleanup :: "string \<Rightarrow> ('w, go_error option) state"

record 'w model_gateway =
  mg_resolve :: "string \<Rightarrow> ('w, model_provider_info result) state"
  mg_authorize :: "string \<Rightarrow> string \<Rightarrow> ('w, go_error option) state"

record 'w manager_client =
  mk_get :: "string \<Rightarrow> string \<Rightarrow> ('w, manager result) state"
  mk_update :: "manager \<Rightarrow> ('w, go_error option) state"
  mk_status_patch :: "manager \<Rightarrow> manager \<Rightarrow> ('w, go_error option) state"

text \<open>The registered backends with the type the code switches on.\<close>

datatype 'w any_backend =
    Docker_Backend "'w docker_backend"
  | K8s_Backend "'w k8s_backend"
  | Other_Backend "'w worker_backend"

fun as_worker_backend :: "'w any_backend \<Rightarrow> 'w worker_backend" where
  "as_worker_backend (Docker_Backend d) = docker_worker_backend d"
| "as_worker_backend (K8s_Backend k) = k8s_worker_backend k"
| "as_worker_backend (Other_Backend b) = b"

fun detect_any_backend :: "'w any_backend list \<Rightarrow> ('w, 'w any_backend option) state" where
  "detect_any_backend [] = State_Monad.return None"
| "detect_any_backend (b # bs) = do {
     ok \<leftarrow> wb_available (as_worker_backend b);
     if ok then State_Monad.return (Some b) else detect_any_backend bs }"

fun without_prefix :: "'w any_backend \<Rightarrow> 'w worker_backend" where
  "without_prefix (Docker_Backend d) = docker_worker_backend (docker_with_prefix d [])"
| "without_prefix (K8s_Backend k) = k8s_worker_backend (k8s_with_prefix k [])"
| "without_prefix (Other_Backend b) = b"

record manager_embedded_config =
  mec_workspace_dir :: string
  mec_host_share_dir :: string
  mec_extra_env :: smap
  mec_console_port :: string

record 'w manager_reconciler =
  mr_client :: "'w manager_client"
  mr_provisioner :: "'w manager_provisioner"
  mr_deployer :: "'w manager_deployer"
  mr_backends :: "'w any_backend list option"
  mr_env_build :: "string \<Rightarrow> worker_provision_result \<Rightarrow> manager_spec \<Rightarrow> smap"
  mr_resources :: "resource_overrides option"
  mr_prefix :: resource_prefix
  mr_embedded :: "manager_embedded_config option"
  mr_gateway :: "'w model_gateway option"
  mr_default_runtime :: string
  mr_controller_name :: string
  mr_user_language :: string
  mr_user_timezone :: string

record manager_scope =
  ms_manager :: manager
  ms_prov :: "worker_provision_result option"
  ms_provider :: "model_provider_info option"

definition manager_operations ::
  "'w provisioner \<Rightarrow> (string \<Rightarrow> string \<Rightarrow> string \<Rightarrow> ('w, nat result) state) \<Rightarrow> string \<Rightarrow> string \<Rightarrow>
   'w manager_provisioner" where
  "manager_operations p post probe_url model =
     \<lparr>mp_provision = provision_manager p, mp_deprovision = deprovision_manager p,
      mp_refresh_credentials = refresh_manager_credentials p,
      mp_ensure_gateway_auth = (\<lambda>name. ensure_manager_gateway_auth p),
      mp_ensure_account = ensure_manager_service_account p,
      mp_delete_account = delete_manager_service_account p,
      mp_delete_credentials = delete_worker_credentials p,
      mp_request_token = request_manager_sa_token p,
      mp_leave_rooms = leave_all_manager_rooms p, mp_delete_room = delete_room p,
      mp_delete_alias = delete_manager_room_alias p, mp_joined_dm = is_manager_joined_dm p,
      mp_llm_ready = is_manager_llm_auth_ready post probe_url model,
      mp_send_welcome = send_manager_welcome_message p\<rparr>"

definition manager_deployer_of :: "'w deployer \<Rightarrow> 'w manager_deployer" where
  "manager_deployer_of d =
     \<lparr>my_deploy_package = deploy_package d, my_deploy_config = deploy_manager_config d,
      my_push_skills = (\<lambda>name skills. push_on_demand_skills d name skills []),
      my_cleanup = cleanup_oss_data d\<rparr>"

definition manager_container_name :: "'w manager_reconciler \<Rightarrow> string \<Rightarrow> string" where
  "manager_container_name r name = manager_pod_name (mr_prefix r) name"

definition compute_manager_phase :: "manager \<Rightarrow> go_error option \<Rightarrow> string" where
  "compute_manager_phase m err =
     (if err \<noteq> None
      then if mst_matrix_user_id (m_status m) = [] then ''Failed''
           else if mst_phase (m_status m) = [] then ''Pending''
           else mst_phase (m_status m)
      else manager_desired_state (m_spec m))"

definition manager_backend :: "'w manager_reconciler \<Rightarrow> ('w, 'w worker_backend option) state" where
  "manager_backend r =
     (case mr_backends r of
        None \<Rightarrow> State_Monad.return None
      | Some bs \<Rightarrow> do {
          b \<leftarrow> detect_any_backend bs;
          State_Monad.return (map_option without_prefix b) })"

section \<open>Infrastructure and configuration\<close>

definition prov_of_status :: "manager \<Rightarrow> refresh_result \<Rightarrow> worker_provision_result" where
  "prov_of_status m rr =
     \<lparr>pr_matrix_user_id = mst_matrix_user_id (m_status m), pr_matrix_token = rr_matrix_token rr,
      pr_room_id = mst_room_id (m_status m), pr_gateway_key = rr_gateway_key rr,
      pr_minio_password = rr_minio_password rr, pr_matrix_password = rr_matrix_password rr\<rparr>"

definition reconcile_manager_infrastructure ::
  "'w manager_reconciler \<Rightarrow> manager_scope \<Rightarrow> ('w, manager_scope \<times> go_error option) state" where
  "reconcile_manager_infrastructure r s =
     (let m = ms_manager s; name = om_name (m_meta m); p = mr_provisioner r;
          provider = (case ms_provider s of None \<Rightarrow> [] | Some i \<Rightarrow> mpi_http_api_id i)
      in if mst_matrix_user_id (m_status m) \<noteq> [] then do {
           rr \<leftarrow> mp_refresh_credentials p name;
           (case rr of
              Inl e \<Rightarrow> State_Monad.return (s, Some (Wrap ''refresh credentials'' e))
            | Inr c \<Rightarrow> do {
                e \<leftarrow> mp_ensure_gateway_auth p name (rr_gateway_key c) provider;
                State_Monad.return
                  (case e of
                     Some err \<Rightarrow> (s, Some (Wrap ''restore manager gateway auth'' err))
                   | None \<Rightarrow> (s\<lparr>ms_prov := Some (prov_of_status m c)\<rparr>, None)) }) }
         else do {
           pr \<leftarrow> mp_provision p \<lparr>mpq_name = name, mpq_model_provider_id = provider\<rparr>;
           State_Monad.return
             (case pr of
                Inl e \<Rightarrow> (s, Some (Wrap ''provision manager'' e))
              | Inr v \<Rightarrow>
                  (s\<lparr>ms_manager := m\<lparr>m_status := (m_status m)\<lparr>mst_matrix_user_id := pr_matrix_user_id v,
                        mst_room_id := pr_room_id v\<rparr>\<rparr>, ms_prov := Some v\<rparr>, None)) })"

definition manager_is_update :: "manager \<Rightarrow> bool" where
  "manager_is_update m \<longleftrightarrow>
     mst_phase (m_status m) \<noteq> [] \<and> mst_phase (m_status m) \<noteq> ''Pending'' \<and> mst_phase (m_status m) \<noteq> ''Failed''"

definition manager_deploy_request_of :: "manager_scope \<Rightarrow> worker_provision_result \<Rightarrow> manager_deploy_request" where
  "manager_deploy_request_of s prov =
     (let m = ms_manager s in
      \<lparr>mdr_name = om_name (m_meta m), mdr_spec = m_spec m, mdr_matrix_token = pr_matrix_token prov,
       mdr_gateway_key = pr_gateway_key prov, mdr_matrix_password = pr_matrix_password prov,
       mdr_mcp_servers = mgs_mcp_servers (m_spec m),
       mdr_ai_gateway_url = (case ms_provider s of None \<Rightarrow> [] | Some i \<Rightarrow> mpi_intranet_url i),
       mdr_is_update = manager_is_update m\<rparr>)"

definition reconcile_manager_config :: "'w manager_reconciler \<Rightarrow> manager_scope \<Rightarrow> ('w, go_error option) state" where
  "reconcile_manager_config r s =
     (case ms_prov s of
        None \<Rightarrow> State_Monad.return None
      | Some prov \<Rightarrow>
          let m = ms_manager s; name = om_name (m_meta m); d = mr_deployer r
          in then_step (wrap_error ''deploy package''
                 (my_deploy_package d name (mgs_package (m_spec m)) (manager_is_update m)))
               (then_step (wrap_error ''deploy manager config'' (my_deploy_config d (manager_deploy_request_of s prov)))
                  (do {
                     _ \<leftarrow> my_push_skills d name (mgs_skills (m_spec m));
                     State_Monad.return None })))"

section \<open>The container\<close>

definition manager_env :: "'w manager_reconciler \<Rightarrow> manager_scope \<Rightarrow> worker_provision_result \<Rightarrow> smap" where
  "manager_env r s prov =
     (let m = ms_manager s;
          e1 = mr_env_build r (om_name (m_meta m)) prov (m_spec m);
          e2 = (case ms_provider s of
                  Some i \<Rightarrow> if mpi_intranet_url i \<noteq> []
                             then smap_put ''HICLAW_AI_GATEWAY_URL'' (mpi_intranet_url i) e1 else e1
                | None \<Rightarrow> e1)
      in fst (merge_user_env e2 (mgs_env (m_spec m))))"

definition manager_labels :: "'w manager_reconciler \<Rightarrow> manager \<Rightarrow> smap" where
  "manager_labels r m =
     merge_labels [om_labels (m_meta m), mgs_labels (m_spec m),
       [(''app'', manager_app_label (mr_prefix r)), (''hiclaw.io/manager'', om_name (m_meta m)),
        (''hiclaw.io/role'', ''manager''),
        (''hiclaw.io/runtime'', resolve_runtime (mgs_runtime (m_spec m)) (mr_default_runtime r)),
        (''hiclaw.io/controller'', mr_controller_name r)]]"

definition manager_create_request ::
  "'w manager_reconciler \<Rightarrow> manager_scope \<Rightarrow> worker_provision_result \<Rightarrow> string \<Rightarrow> create_request" where
  "manager_create_request r s prov auth_token =
     (let m = ms_manager s; name = om_name (m_meta m) in zero_create_request
        \<lparr>cq_name := name, cq_container_name := manager_container_name r name,
         cq_image := mgs_image (m_spec m), cq_runtime := mgs_runtime (m_spec m),
         cq_runtime_fallback := mr_default_runtime r, cq_env := Some (manager_env r s prov),
         cq_service_account := sa_name (mr_prefix r) role_manager name,
         cq_resources := merge_agent_resources_with_backend_defaults (mr_resources r) (mgs_resources (m_spec m)),
         cq_labels := manager_labels r m, cq_owner := Some (''Manager'', name), cq_auth_token := auth_token\<rparr>)"

definition bind_mount :: "string \<Rightarrow> string \<Rightarrow> volume_mount list" where
  "bind_mount host path =
     (if host = [] then [] else [\<lparr>vm_host_path = host, vm_container_path = path, vm_read_only = False\<rparr>])"

definition apply_embedded_config ::
  "'w manager_reconciler \<Rightarrow> string \<Rightarrow> create_request \<Rightarrow> create_request" where
  "apply_embedded_config r backend_name req =
     (case mr_embedded r of
        None \<Rightarrow> req
      | Some c \<Rightarrow>
          if backend_name \<noteq> ''docker'' then req
          else req\<lparr>cq_volumes := cq_volumes req @ bind_mount (mec_workspace_dir c) ''/root/manager-workspace'' @
                     bind_mount (mec_host_share_dir c) ''/host-share'',
                   cq_restart_policy := ''unless-stopped'',
                   cq_ports := cq_ports req @ [\<lparr>pm_host_ip = ''127.0.0.1'',
                     pm_host_port = (if mec_console_port c = [] then ''18888'' else mec_console_port c),
                     pm_container_port = ''18799'', pm_protocol = []\<rparr>],
                   cq_env := map_option (\<lambda>env. fold (\<lambda>(k, v) e. if map_of e k = None then smap_put k v e else e)
                     (mec_extra_env c) env) (cq_env req)\<rparr>)"

definition create_manager_container ::
  "'w manager_reconciler \<Rightarrow> manager_scope \<Rightarrow> worker_provision_result \<Rightarrow> 'w worker_backend \<Rightarrow>
   ('w, go_error option) state" where
  "create_manager_container r s prov0 wb =
     (let m = ms_manager s; name = om_name (m_meta m) in do {
        pr \<leftarrow> (if pr_matrix_token prov0 = []
              then do {
                rr \<leftarrow> mp_refresh_credentials (mr_provisioner r) name;
                State_Monad.return (map_sum (Wrap ''refresh credentials for container'') (prov_of_status m) rr) }
              else State_Monad.return (Inr prov0));
        (case pr of
           Inl e \<Rightarrow> State_Monad.return (Some e)
         | Inr prov \<Rightarrow> do {
             token \<leftarrow> (if wb_name wb \<noteq> ''k8s''
                      then do { t \<leftarrow> mp_request_token (mr_provisioner r) name; State_Monad.return (fst t) }
                      else State_Monad.return []);
             c \<leftarrow> wb_create wb (apply_embedded_config r (wb_name wb) (manager_create_request r s prov token));
             State_Monad.return
               (case c of
                  Inr _ \<Rightarrow> None
                | Inl e \<Rightarrow> if is_err_conflict e then None else Some (Wrap ''create container'' e)) }) })"

definition replace_manager_container ::
  "'w manager_reconciler \<Rightarrow> manager_scope \<Rightarrow> worker_provision_result \<Rightarrow> 'w worker_backend \<Rightarrow> string \<Rightarrow>
   ('w, go_error option) state" where
  "replace_manager_container r s prov wb what = do {
     e \<leftarrow> wb_delete wb (manager_container_name r (om_name (m_meta (ms_manager s))));
     (case e of
        Some x \<Rightarrow> if is_err_not_found x then create_manager_container r s prov wb
                  else State_Monad.return (Some (Wrap what x))
      | None \<Rightarrow> create_manager_container r s prov wb) }"

definition manager_spec_changed :: "manager \<Rightarrow> bool" where
  "manager_spec_changed m \<longleftrightarrow> om_generation (m_meta m) \<noteq> mst_observed_generation (m_status m)"

definition ensure_manager_container_present ::
  "'w manager_reconciler \<Rightarrow> manager_scope \<Rightarrow> worker_provision_result \<Rightarrow> ('w, go_error option) state" where
  "ensure_manager_container_present r s prov = do {
     b \<leftarrow> manager_backend r;
     (case b of
        None \<Rightarrow> State_Monad.return None
      | Some wb \<Rightarrow>
          let name = manager_container_name r (om_name (m_meta (ms_manager s)));
              changed = manager_spec_changed (ms_manager s)
          in do {
            st \<leftarrow> wb_status wb name;
            (case st of
               Inl e \<Rightarrow> State_Monad.return (Some (Wrap ''query container status'' e))
             | Inr res \<Rightarrow>
                 if wr_status res \<in> {Status_Running, Status_Starting, Status_Ready}
                 then if \<not> changed then State_Monad.return None
                      else replace_manager_container r s prov wb ''delete container for recreate''
                 else if wr_status res = Status_Stopped
                 then if wb_name wb = ''docker'' \<and> \<not> changed
                      then wrap_error ''start container'' (wb_start wb name)
                      else replace_manager_container r s prov wb ''delete stale container''
                 else if wr_status res = Status_NotFound
                 then create_manager_container r s prov wb
                 else replace_manager_container r s prov wb ''delete container in unknown state'') }) }"

definition ignore_not_found :: "string \<Rightarrow> ('w, go_error option) state \<Rightarrow> ('w, go_error option) state" where
  "ignore_not_found what step = do {
     e \<leftarrow> step;
     State_Monad.return
       (case e of None \<Rightarrow> None | Some x \<Rightarrow> if is_err_not_found x then None else Some (Wrap what x)) }"

definition ensure_manager_container_absent ::
  "'w manager_reconciler \<Rightarrow> manager_scope \<Rightarrow> bool \<Rightarrow> ('w, go_error option) state" where
  "ensure_manager_container_absent r s remove = do {
     b \<leftarrow> manager_backend r;
     (case b of
        None \<Rightarrow> State_Monad.return None
      | Some wb \<Rightarrow>
          let name = manager_container_name r (om_name (m_meta (ms_manager s)))
          in if remove then do {
               _ \<leftarrow> wb_stop wb name;
               ignore_not_found ''delete container'' (wb_delete wb name) }
             else ignore_not_found ''stop container'' (wb_stop wb name)) }"

definition reconcile_manager_container ::
  "'w manager_reconciler \<Rightarrow> manager_scope \<Rightarrow> ('w, go_error option) state" where
  "reconcile_manager_container r s =
     (case ms_prov s of
        None \<Rightarrow> State_Monad.return None
      | Some prov \<Rightarrow>
          let desired = manager_desired_state (m_spec (ms_manager s)) in
          if desired = ''Stopped'' then ensure_manager_container_absent r s True
          else if desired = ''Sleeping'' then ensure_manager_container_absent r s False
          else ensure_manager_container_present r s prov)"

section \<open>The welcome message\<close>

definition welcome_requeue_interval :: nat where "welcome_requeue_interval = 5"

definition set_welcome :: "manager \<Rightarrow> manager" where
  "set_welcome m = m\<lparr>m_status := (m_status m)\<lparr>mst_welcome_sent := True\<rparr>\<rparr>"

text \<open>The container is live, or its state cannot be told.\<close>

definition welcome_container_live :: "'w manager_reconciler \<Rightarrow> manager \<Rightarrow> ('w, bool) state" where
  "welcome_container_live r m = do {
     b \<leftarrow> manager_backend r;
     (case b of
        None \<Rightarrow> State_Monad.return True
      | Some wb \<Rightarrow> do {
          st \<leftarrow> wb_status wb (manager_container_name r (om_name (m_meta m)));
          State_Monad.return
            (case st of Inl _ \<Rightarrow> True | Inr res \<Rightarrow> wr_status res \<in> {Status_Running, Status_Ready}) }) }"

text \<open>Claiming and sending; the result is the seconds to the next attempt and the manager.\<close>

definition claim_and_send :: "'w manager_reconciler \<Rightarrow> manager \<Rightarrow> ('w, nat \<times> manager) state" where
  "claim_and_send r m = do {
     c \<leftarrow> mk_status_patch (mr_client r) m (set_welcome m);
     (case c of
        Some e \<Rightarrow> State_Monad.return (if is_api_conflict e then 0 else welcome_requeue_interval, m)
      | None \<Rightarrow> do {
          _ \<leftarrow> mp_send_welcome (mr_provisioner r)
                 \<lparr>mwr_room_id = mst_room_id (m_status m), mwr_language = mr_user_language r,
                  mwr_timezone = mr_user_timezone r\<rparr>;
          State_Monad.return (0, set_welcome m) }) }"

definition reconcile_manager_welcome :: "'w manager_reconciler \<Rightarrow> manager_scope \<Rightarrow> ('w, nat \<times> manager_scope) state" where
  "reconcile_manager_welcome r s =
     (let m = ms_manager s; p = mr_provisioner r; later = (welcome_requeue_interval, s) in
      if mst_welcome_sent (m_status m) \<or> mst_room_id (m_status m) = [] then State_Monad.return (0, s)
      else do {
        live \<leftarrow> welcome_container_live r m;
        (if \<not> live then State_Monad.return (0, s)
         else do {
           joined \<leftarrow> mp_joined_dm p (mst_room_id (m_status m));
           (if joined \<noteq> Inr True then State_Monad.return later
            else do {
              ready \<leftarrow> mp_llm_ready p (case ms_prov s of None \<Rightarrow> [] | Some v \<Rightarrow> pr_gateway_key v);
              (if ready \<noteq> Inr True then State_Monad.return later
               else do {
                 q \<leftarrow> claim_and_send r m;
                 State_Monad.return (fst q, s\<lparr>ms_manager := snd q\<rparr>) }) }) }) })"

section \<open>Reconcile\<close>

definition resolve_manager_provider ::
  "'w manager_reconciler \<Rightarrow> manager_scope \<Rightarrow> ('w, manager_scope result) state" where
  "resolve_manager_provider r s =
     (let provider = mgs_model_provider (m_spec (ms_manager s)) in
      case mr_gateway r of
        None \<Rightarrow> State_Monad.return (Inr s)
      | Some g \<Rightarrow>
          if provider = [] then State_Monad.return (Inr s)
          else do {
            i \<leftarrow> mg_resolve g provider;
            State_Monad.return
              (map_sum (Wrap (''resolve model provider '' @ go_quote provider)) (\<lambda>v. s\<lparr>ms_provider := Some v\<rparr>) i) })"

definition authorize_manager_provider ::
  "'w manager_reconciler \<Rightarrow> manager_scope \<Rightarrow> ('w, go_error option) state" where
  "authorize_manager_provider r s =
     (case (ms_provider s, mr_gateway r, ms_prov s) of
        (Some i, Some g, Some _) \<Rightarrow>
          wrap_error (''authorize model provider '' @ mpi_http_api_id i @ '' for manager'')
            (mg_authorize g ''manager'' (mpi_http_api_id i))
      | _ \<Rightarrow> State_Monad.return None)"

text \<open>The phases; the first error or requeue ends the pass with the scope reached so far.\<close>

definition reconcile_manager_normal ::
  "'w manager_reconciler \<Rightarrow> manager_scope \<Rightarrow> ('w, manager_scope \<times> nat \<times> go_error option) state" where
  "reconcile_manager_normal r s0 = do {
     res \<leftarrow> resolve_manager_provider r s0;
     (case res of
        Inl e \<Rightarrow> State_Monad.return (s0, 0, Some e)
      | Inr s1 \<Rightarrow> do {
          i \<leftarrow> reconcile_manager_infrastructure r s1;
          (case i of
             (s, Some e) \<Rightarrow> State_Monad.return (s, 0, Some e)
           | (s, None) \<Rightarrow> do {
               e \<leftarrow> then_step (authorize_manager_provider r s)
                     (then_step (wrap_error ''ServiceAccount''
                         (mp_ensure_account (mr_provisioner r) (om_name (m_meta (ms_manager s)))))
                       (then_step (reconcile_manager_config r s) (reconcile_manager_container r s)));
               (case e of
                  Some err \<Rightarrow> State_Monad.return (s, 0, Some err)
                | None \<Rightarrow> do {
                    w \<leftarrow> reconcile_manager_welcome r s;
                    State_Monad.return
                      (snd w, (if fst w > 0 then fst w else reconcile_interval), None) }) }) }) }"

definition reconcile_manager_delete :: "'w manager_reconciler \<Rightarrow> manager \<Rightarrow> ('w, go_error option) state" where
  "reconcile_manager_delete r m =
     (let name = om_name (m_meta m); p = mr_provisioner r in do {
        _ \<leftarrow> mp_leave_rooms p name;
        _ \<leftarrow> (if mst_room_id (m_status m) \<noteq> [] then mp_delete_room p (mst_room_id (m_status m))
             else State_Monad.return None);
        _ \<leftarrow> mp_deprovision p name;
        b \<leftarrow> manager_backend r;
        _ \<leftarrow> (case b of
               None \<Rightarrow> State_Monad.return None
             | Some wb \<Rightarrow> wb_delete wb (manager_container_name r name));
        _ \<leftarrow> my_cleanup (mr_deployer r) name;
        _ \<leftarrow> mp_delete_credentials p name;
        _ \<leftarrow> mp_delete_account p name;
        _ \<leftarrow> mp_delete_alias p name;
        mk_update (mr_client r) (m\<lparr>m_meta := remove_finalizer (m_meta m)\<rparr>) })"

text \<open>The deferred status patch of a reconcile that ends with \<open>err\<close>.\<close>

definition manager_finish ::
  "'w manager_reconciler \<Rightarrow> manager \<Rightarrow> manager \<Rightarrow> nat \<Rightarrow> go_error option \<Rightarrow> ('w, nat \<times> go_error option) state" where
  "manager_finish r base m requeue err =
     (let s1 = (m_status m)\<lparr>mst_phase := compute_manager_phase m err\<rparr>;
          s2 = (case err of
                  None \<Rightarrow> s1\<lparr>mst_observed_generation := om_generation (m_meta m), mst_message := []\<rparr>
                | Some e \<Rightarrow> s1\<lparr>mst_message := err_text e\<rparr>);
          s3 = (if mgs_image (m_spec m) \<noteq> [] then s2\<lparr>mst_version := mgs_image (m_spec m)\<rparr> else s2)
      in do {
        pe \<leftarrow> mk_status_patch (mr_client r) base (m\<lparr>m_status := s3\<rparr>);
        State_Monad.return (requeue, (case pe of None \<Rightarrow> err | Some e \<Rightarrow> aggregate [err, Some e])) })"

definition manager_reconcile ::
  "'w manager_reconciler \<Rightarrow> string \<Rightarrow> string \<Rightarrow> ('w, nat \<times> go_error option) state" where
  "manager_reconcile r namespace name = do {
     got \<leftarrow> mk_get (mr_client r) namespace name;
     (case got of
        Inl e \<Rightarrow> State_Monad.return (0, if is_api_not_found e then None else Some e)
      | Inr m \<Rightarrow>
          if om_deleting (m_meta m)
          then if has_finalizer (m_meta m)
               then do { e \<leftarrow> reconcile_manager_delete r m; State_Monad.return (0, e) }
               else State_Monad.return (0, None)
          else (let m1 = m\<lparr>m_meta := add_finalizer (m_meta m)\<rparr> in do {
            ue \<leftarrow> (if has_finalizer (m_meta m) then State_Monad.return None else mk_update (mr_client r) m1);
            (case ue of
               Some e \<Rightarrow> manager_finish r m m1 0 (Some e)
             | None \<Rightarrow> do {
                 n \<leftarrow> reconcile_manager_normal r \<lparr>ms_manager = m1, ms_prov = None, ms_provider = None\<rparr>;
                 manager_finish r m (ms_manager (fst n)) (fst (snd n)) (snd (snd n)) }) })) }"

text \<open>The mapping of a pod to the Manager to reconcile.\<close>

definition manager_pod_request :: "smap \<Rightarrow> string \<Rightarrow> (string \<times> string) option" where
  "manager_pod_request labels namespace =
     (if smap_get labels ''hiclaw.io/manager'' = [] then None
      else Some (namespace, smap_get labels ''hiclaw.io/manager''))"

end
