(* ===== verification/Manager_Properties.thy ===== *)
theory Manager_Properties
  imports Manager_Controller Human_Controller
begin

text \<open>
  What the Manager reconciler guarantees: its container phase reaches the desired lifecycle state
  by the contract of the backends, the onboarding message is only sent by a pass that passed every
  gate and claimed the slot, and what that claim does not exclude.
\<close>

section \<open>The container phase\<close>

context worker_backend_contract
begin

lemma manager_backend_found:
  assumes "mr_backends r = Some (a # as)" "without_prefix a = b"
    "run_state (wb_available (as_worker_backend a)) w = (True, w)"
  shows "run_state (manager_backend r) w = (Some b, w)"
  using assms by (simp add: manager_backend_def)

lemma create_manager_active:
  assumes w: "reachable w" "\<not> present w" and prov: "pr_matrix_token p \<noteq> []"
    and good: "\<And>tok. good (apply_embedded_config r (wb_name b) (manager_create_request r s p tok))"
    and token: "\<And>v. wb_name b \<noteq> ''k8s'' \<Longrightarrow>
      \<exists>t. run_state (mp_request_token (mr_provisioner r) (om_name (m_meta (ms_manager s)))) v = (t, v)"
  shows "\<exists>w'. run_state (create_manager_container r s p b) w = (None, w') \<and> reachable w' \<and> active w'"
proof -
  obtain t where t: "run_state (if wb_name b \<noteq> ''k8s''
      then do { t \<leftarrow> mp_request_token (mr_provisioner r) (om_name (m_meta (ms_manager s))); State_Monad.return (fst t) }
      else State_Monad.return []) w = (t, w)"
    using token [of w] by fastforce
  obtain x w' where "run_state (wb_create b (apply_embedded_config r (wb_name b) (manager_create_request r s p t))) w =
      (Inr x, w')" "reachable w'" "active w'"
    using create_ok [OF w good] by blast
  then show ?thesis using t prov by (simp add: create_manager_container_def Let_def)
qed

lemma replace_manager_active:
  assumes w: "reachable w" and name: "manager_container_name r (om_name (m_meta (ms_manager s))) = n"
    and prov: "pr_matrix_token p \<noteq> []"
    and good: "\<And>tok. good (apply_embedded_config r (wb_name b) (manager_create_request r s p tok))"
    and token: "\<And>v. wb_name b \<noteq> ''k8s'' \<Longrightarrow>
      \<exists>t. run_state (mp_request_token (mr_provisioner r) (om_name (m_meta (ms_manager s)))) v = (t, v)"
  shows "\<exists>w'. run_state (replace_manager_container r s p b what) w = (None, w') \<and> reachable w' \<and> active w'"
proof -
  obtain w1 where "run_state (wb_delete b n) w = (None, w1)" "reachable w1" "\<not> present w1"
    using delete_ok [OF w] by blast
  then show ?thesis
    using create_manager_active [OF _ _ prov good token, of w1] by (simp add: replace_manager_container_def name)
qed

lemma manager_present_active:
  assumes found: "run_state (manager_backend r) w = (Some b, w)" and w: "reachable w"
    and name: "manager_container_name r (om_name (m_meta (ms_manager s))) = n"
    and prov: "pr_matrix_token p \<noteq> []"
    and good: "\<And>tok. good (apply_embedded_config r (wb_name b) (manager_create_request r s p tok))"
    and token: "\<And>v. wb_name b \<noteq> ''k8s'' \<Longrightarrow>
      \<exists>t. run_state (mp_request_token (mr_provisioner r) (om_name (m_meta (ms_manager s)))) v = (t, v)"
  shows "\<exists>w'. run_state (ensure_manager_container_present r s p) w = (None, w') \<and> active w'"
proof -
  obtain res where res: "run_state (wb_status b n) w = (Inr res, w)"
      "wr_status res = Status_NotFound \<longleftrightarrow> \<not> present w"
      "wr_status res \<in> {Status_Running, Status_Starting, Status_Ready} \<longrightarrow> active w"
    using status_ok [OF w] by blast
  have replace: "\<exists>w'. run_state (replace_manager_container r s p b what) w = (None, w') \<and> active w'" for what
    using replace_manager_active [OF w name prov good token] by blast
  have create: "wr_status res = Status_NotFound \<Longrightarrow>
      \<exists>w'. run_state (create_manager_container r s p b) w = (None, w') \<and> active w'"
    using create_manager_active [OF w _ prov good token] res(2) by blast
  have start: "wb_name b = ''docker'' \<Longrightarrow> wr_status res = Status_Stopped \<Longrightarrow>
      \<exists>w'. run_state (wb_start b n) w = (None, w') \<and> active w'"
    using start_ok [OF w] res(2) by auto
  have "run_state (ensure_manager_container_present r s p) w =
      run_state
        (if wr_status res \<in> {Status_Running, Status_Starting, Status_Ready}
         then if \<not> manager_spec_changed (ms_manager s) then State_Monad.return None
              else replace_manager_container r s p b ''delete container for recreate''
         else if wr_status res = Status_Stopped
         then if wb_name b = ''docker'' \<and> \<not> manager_spec_changed (ms_manager s)
              then wrap_error ''start container'' (wb_start b n)
              else replace_manager_container r s p b ''delete stale container''
         else if wr_status res = Status_NotFound then create_manager_container r s p b
         else replace_manager_container r s p b ''delete container in unknown state'') w"
    using found res(1) by (simp add: ensure_manager_container_present_def name Let_def)
  then show ?thesis using replace create start res(3) by (auto simp: wrap_error_def)
qed

lemma manager_absent_done:
  assumes found: "run_state (manager_backend r) w = (Some b, w)" and w: "reachable w"
    and name: "manager_container_name r (om_name (m_meta (ms_manager s))) = n"
  shows "\<exists>w'. run_state (ensure_manager_container_absent r s remove) w = (None, w') \<and>
    (if remove then \<not> present w' else \<not> active w')"
proof -
  obtain e w1 where stop: "run_state (wb_stop b n) w = (e, w1)" "reachable w1" "\<not> active w1"
      "case e of None \<Rightarrow> True | Some x \<Rightarrow> is_err_not_found x"
    using stop_ok [OF w] by blast
  obtain w2 where "run_state (wb_delete b n) w1 = (None, w2)" "\<not> present w2"
    using delete_ok [OF stop(2)] by blast
  then show ?thesis
    using stop found
    by (auto simp: ensure_manager_container_absent_def ignore_not_found_def name split: option.splits)
qed

lemma manager_phase_converges:
  assumes backends: "mr_backends r = Some (a # as)" "without_prefix a = b"
      "run_state (wb_available (as_worker_backend a)) w = (True, w)"
    and w: "reachable w" and name: "manager_container_name r (om_name (m_meta (ms_manager s))) = n"
    and prov: "ms_prov s = Some p" "pr_matrix_token p \<noteq> []"
    and good: "\<And>tok. good (apply_embedded_config r (wb_name b) (manager_create_request r s p tok))"
    and token: "\<And>v. wb_name b \<noteq> ''k8s'' \<Longrightarrow>
      \<exists>t. run_state (mp_request_token (mr_provisioner r) (om_name (m_meta (ms_manager s)))) v = (t, v)"
  shows "\<exists>w'. run_state (reconcile_manager_container r s) w = (None, w') \<and>
    lifecycle_reached (manager_desired_state (m_spec (ms_manager s))) (present w') (active w')"
  using manager_present_active [OF manager_backend_found [OF backends] w name prov(2) good token]
    manager_absent_done [OF manager_backend_found [OF backends] w name, of True]
    manager_absent_done [OF manager_backend_found [OF backends] w name, of False] prov(1)
  by (fastforce simp: reconcile_manager_container_def Let_def lifecycle_reached_def)

end

lemma manager_name_nonempty [simp]: "manager_container_name r n \<noteq> []"
  by (simp add: manager_container_name_def manager_pod_name_def manager_default_name_def manager_name_prefix_def)

lemma embedded_create_request [simp]:
  "cq_container_name (apply_embedded_config r bn q) = cq_container_name q"
  "cq_env (apply_embedded_config r bn q) = None \<longleftrightarrow> cq_env q = None"
  by (simp_all add: apply_embedded_config_def split: option.splits)

text \<open>In the embedded deployment one pass of the container phase brings the Manager's container
  into the desired state: from any engine state, with or without a change of the spec, a stopped
  Manager ends without a container, a sleeping one without a running one, and any other with a
  container that runs or is about to; the container is the one named for the Manager, without
  the prefix of workers.\<close>

theorem docker_manager_converges:
  assumes "mr_backends r = Some (Docker_Backend (engine_backend cfg pfx getenv) # bs)"
    "ms_prov s = Some p" "pr_matrix_token p \<noteq> []"
    "\<And>v. \<exists>t. run_state (mp_request_token (mr_provisioner r) (om_name (m_meta (ms_manager s)))) v = (t, v)"
  shows "let name = manager_container_name r (om_name (m_meta (ms_manager s))) in
    \<exists>w'. run_state (reconcile_manager_container r s) w = (None, w') \<and>
      lifecycle_reached (manager_desired_state (m_spec (ms_manager s))) (map_of w' name \<noteq> None)
        (case map_of w' name of None \<Rightarrow> False
         | Some status \<Rightarrow> normalize_docker_status status \<in> {Status_Running, Status_Starting})"
proof -
  let ?n = "manager_container_name r (om_name (m_meta (ms_manager s)))"
  have bare: "docker_with_prefix (engine_backend cfg pfx getenv) [] = engine_backend cfg [] getenv"
    by (simp add: docker_with_prefix_def engine_backend_def)
  have prefix: "db_prefix (engine_backend cfg [] getenv) = []"
    by (simp add: engine_backend_def)
  have good: "docker_request_ok (\<lambda>i. True) (engine_backend cfg [] getenv) ?n
      (apply_embedded_config r bn (manager_create_request r s p tok))" for bn tok
    by (simp add: docker_request_ok_def docker_container_name_def prefix)
      (simp add: manager_create_request_def Let_def)
  have up: "run_state (wb_available (docker_worker_backend (engine_backend cfg pfx getenv))) w = (True, w)"
    by (rule docker.available_ok) simp
  show ?thesis
    using docker.manager_phase_converges [where cfg = cfg and pfx = "[]" and getenv = getenv and n = ?n, OF assms(1) _ _ TrueI refl assms(2,3) good] assms(4) up bare
    unfolding docker.container_present_def docker.container_active_def by (simp add: prefix Let_def)
qed

section \<open>The welcome message\<close>

definition sending :: "(manager_welcome_request \<Rightarrow> ('w, go_error option) state) \<Rightarrow> 'w manager_reconciler \<Rightarrow> 'w manager_reconciler" where
  "sending f r = r\<lparr>mr_provisioner := (mr_provisioner r)\<lparr>mp_send_welcome := f\<rparr>\<rparr>"

lemma sending_sels [simp]:
  "mr_client (sending f r) = mr_client r" "mr_backends (sending f r) = mr_backends r"
  "mr_prefix (sending f r) = mr_prefix r" "mr_user_language (sending f r) = mr_user_language r"
  "mr_user_timezone (sending f r) = mr_user_timezone r"
  "mp_joined_dm (mr_provisioner (sending f r)) = mp_joined_dm (mr_provisioner r)"
  "mp_llm_ready (mr_provisioner (sending f r)) = mp_llm_ready (mr_provisioner r)"
  "mp_send_welcome (mr_provisioner (sending f r)) = f"
  by (simp_all add: sending_def)

lemma live_sending [simp]: "welcome_container_live (sending f r) m = welcome_container_live r m"
  unfolding welcome_container_live_def manager_backend_def manager_container_name_def sending_sels ..

text \<open>The gates before the claim: what a pass needs to reach it, and the world it reaches it in.\<close>

definition welcome_gates :: "'w manager_reconciler \<Rightarrow> manager_scope \<Rightarrow> 'w \<Rightarrow> 'w \<Rightarrow> bool" where
  "welcome_gates r s w v \<longleftrightarrow>
     \<not> mst_welcome_sent (m_status (ms_manager s)) \<and> mst_room_id (m_status (ms_manager s)) \<noteq> [] \<and>
     (\<exists>x y. run_state (welcome_container_live r (ms_manager s)) w = (True, x) \<and>
        run_state (mp_joined_dm (mr_provisioner r) (mst_room_id (m_status (ms_manager s)))) x = (Inr True, y) \<and>
        run_state (mp_llm_ready (mr_provisioner r) (case ms_prov s of None \<Rightarrow> [] | Some p \<Rightarrow> pr_gateway_key p)) y =
          (Inr True, v))"

lemma welcome_gates_open:
  assumes "welcome_gates r s w v"
  shows "run_state (reconcile_manager_welcome r s) w =
    (case run_state (claim_and_send r (ms_manager s)) v of (q, x) \<Rightarrow> ((fst q, s\<lparr>ms_manager := snd q\<rparr>), x))"
  using assms by (auto simp: welcome_gates_def reconcile_manager_welcome_def Let_def)

lemma welcome_gates_closed:
  assumes "\<nexists>v. welcome_gates r s w v"
  shows "\<exists>n x. \<forall>f. run_state (reconcile_manager_welcome (sending f r) s) w = ((n, s), x)"
proof (cases "mst_welcome_sent (m_status (ms_manager s)) \<or> mst_room_id (m_status (ms_manager s)) = []")
  case True
  then show ?thesis by (auto simp: reconcile_manager_welcome_def Let_def)
next
  case False
  obtain live x where x: "run_state (welcome_container_live r (ms_manager s)) w = (live, x)" by fastforce
  obtain j y where y: "run_state (mp_joined_dm (mr_provisioner r) (mst_room_id (m_status (ms_manager s)))) x = (j, y)"
    by fastforce
  obtain k z where z: "run_state (mp_llm_ready (mr_provisioner r)
      (case ms_prov s of None \<Rightarrow> [] | Some p \<Rightarrow> pr_gateway_key p)) y = (k, z)" by fastforce
  have "\<not> live \<or> j \<noteq> Inr True \<or> k \<noteq> Inr True"
    using assms False x y z by (auto simp: welcome_gates_def)
  then show ?thesis using False x y z by (auto simp: reconcile_manager_welcome_def Let_def)
qed

text \<open>C12. The onboarding message is sent by a pass only after every gate and the claim: unless the
  Manager is not yet welcomed, has its room, its container is live or cannot be told, its user has
  joined, the gateway accepts its key, and then the status patch that claims the message was
  accepted, the pass runs as if sending did not exist; and a pass that may have sent it returns
  the Manager marked as welcomed, so that no later pass that sees this sends it again.\<close>

theorem welcome_gated:
  "(\<forall>f. run_state (reconcile_manager_welcome (sending f r) s) w = run_state (reconcile_manager_welcome r s) w) \<or>
   (\<exists>v x. welcome_gates r s w v \<and>
      run_state (mk_status_patch (mr_client r) (ms_manager s) (set_welcome (ms_manager s))) v = (None, x) \<and>
      mst_welcome_sent (m_status (ms_manager (snd (fst (run_state (reconcile_manager_welcome r s) w))))) \<and>
      (\<forall>f. fst (run_state (reconcile_manager_welcome (sending f r)
        (snd (fst (run_state (reconcile_manager_welcome r s) w)))) x) =
        (0, snd (fst (run_state (reconcile_manager_welcome r s) w)))))"
proof (cases "\<exists>v. welcome_gates r s w v")
  case False
  have same: "sending (mp_send_welcome (mr_provisioner r)) r = r" by (simp add: sending_def)
  obtain n x where "\<forall>f. run_state (reconcile_manager_welcome (sending f r) s) w = ((n, s), x)"
    using welcome_gates_closed [OF False] by blast
  then show ?thesis using same by metis
next
  case True
  then obtain v where v: "welcome_gates r s w v" by blast
  have gates: "welcome_gates (sending f r) s w v" for f using v by (simp add: welcome_gates_def)
  obtain c x where c: "run_state (mk_status_patch (mr_client r) (ms_manager s) (set_welcome (ms_manager s))) v = (c, x)"
    by fastforce
  show ?thesis
  proof (cases c)
    case (Some e)
    then have "run_state (claim_and_send (sending f r) (ms_manager s)) v = run_state (claim_and_send r (ms_manager s)) v" for f
      using c by (simp add: claim_and_send_def)
    then show ?thesis using welcome_gates_open [OF v] welcome_gates_open [OF gates] by simp
  next
    case None
    obtain e q where "run_state (mp_send_welcome (mr_provisioner r) \<lparr>mwr_room_id = mst_room_id (m_status (ms_manager s)),
        mwr_language = mr_user_language r, mwr_timezone = mr_user_timezone r\<rparr>) x = (e, q)" by fastforce
    then have "run_state (reconcile_manager_welcome r s) w = ((0, s\<lparr>ms_manager := set_welcome (ms_manager s)\<rparr>), q)"
      using welcome_gates_open [OF v] c None by (simp add: claim_and_send_def)
    then show ?thesis
      using v c None by (auto simp: set_welcome_def reconcile_manager_welcome_def)
  qed
qed

text \<open>
  What the claim does not exclude. A merge patch made by \<open>client.MergeFrom\<close> carries the changed
  fields only and no resource version, so the API server applies it to whatever it holds and
  reports no conflict. Against such a server a second pass that still works on a copy from before
  the first claim sends the message again.
\<close>

record welcome_world =
  ww_welcomed :: bool
  ww_messages :: "string list"

definition merge_patch_status :: "manager \<Rightarrow> manager \<Rightarrow> (welcome_world, go_error option) state" where
  "merge_patch_status base m = State (\<lambda>w.
     (None, if mst_welcome_sent (m_status m) = mst_welcome_sent (m_status base) then w
            else w\<lparr>ww_welcomed := mst_welcome_sent (m_status m)\<rparr>))"

definition log_welcome :: "manager_welcome_request \<Rightarrow> (welcome_world, go_error option) state" where
  "log_welcome req = State (\<lambda>w. (None, w\<lparr>ww_messages := mwr_room_id req # ww_messages w\<rparr>))"

text \<open>The claim of the onboarding message does not make it exactly once: with the merge patch the
  code uses, two passes of a ready Manager that work on the same copy, as a cache that lags behind
  the first claim gives it to the second, both claim and both send.\<close>

theorem welcome_claim_not_exclusive:
  assumes "\<And>v. welcome_gates r s v v" "mk_status_patch (mr_client r) = merge_patch_status"
    "mp_send_welcome (mr_provisioner r) = log_welcome"
  shows "let w1 = snd (run_state (reconcile_manager_welcome r s) w);
        w2 = snd (run_state (reconcile_manager_welcome r s) w1);
        room = mst_room_id (m_status (ms_manager s))
    in ww_welcomed w1 \<and> ww_messages w2 = room # room # ww_messages w"
proof -
  have unsent: "\<not> mst_welcome_sent (m_status (ms_manager s))"
    using assms(1) [of w] by (simp add: welcome_gates_def)
  have "snd (run_state (reconcile_manager_welcome r s) v) =
      v\<lparr>ww_welcomed := True, ww_messages := mst_room_id (m_status (ms_manager s)) # ww_messages v\<rparr>" for v
    using welcome_gates_open [OF assms(1)] unsent
    by (simp add: claim_and_send_def assms(2,3) merge_patch_status_def log_welcome_def set_welcome_def)
  then show ?thesis by (simp add: Let_def)
qed

section \<open>Examples\<close>

definition quiet_manager_provisioner :: "'w manager_provisioner" where
  "quiet_manager_provisioner =
     \<lparr>mp_provision = (\<lambda>q. State_Monad.return (Inl (Err ''down''))), mp_deprovision = (\<lambda>n. State_Monad.return None),
      mp_refresh_credentials = (\<lambda>n. State_Monad.return (Inl (Err ''down''))),
      mp_ensure_gateway_auth = (\<lambda>n k p. State_Monad.return None), mp_ensure_account = (\<lambda>n. State_Monad.return None),
      mp_delete_account = (\<lambda>n. State_Monad.return None), mp_delete_credentials = (\<lambda>n. State_Monad.return None),
      mp_request_token = (\<lambda>n. State_Monad.return (''sa'', None)), mp_leave_rooms = (\<lambda>n. State_Monad.return None),
      mp_delete_room = (\<lambda>n. State_Monad.return None), mp_delete_alias = (\<lambda>n. State_Monad.return None),
      mp_joined_dm = (\<lambda>n. State_Monad.return (Inr True)), mp_llm_ready = (\<lambda>n. State_Monad.return (Inr True)),
      mp_send_welcome = (\<lambda>q. State_Monad.return None)\<rparr>"

definition sample_manager_reconciler :: "'w any_backend list option \<Rightarrow> 'w manager_reconciler" where
  "sample_manager_reconciler bs =
     \<lparr>mr_client = \<lparr>mk_get = (\<lambda>ns n. State_Monad.return (Inl ApiNotFound)), mk_update = (\<lambda>m. State_Monad.return None),
        mk_status_patch = (\<lambda>b m. State_Monad.return None)\<rparr>,
      mr_provisioner = quiet_manager_provisioner,
      mr_deployer = \<lparr>my_deploy_package = (\<lambda>n u b. State_Monad.return None), my_deploy_config = (\<lambda>q. State_Monad.return None),
        my_push_skills = (\<lambda>n s. State_Monad.return None), my_cleanup = (\<lambda>n. State_Monad.return None)\<rparr>,
      mr_backends = bs, mr_env_build = (\<lambda>n p s. []), mr_resources = None, mr_prefix = [],
      mr_embedded = Some \<lparr>mec_workspace_dir = ''/ws'', mec_host_share_dir = [], mec_extra_env = [], mec_console_port = []\<rparr>,
      mr_gateway = None, mr_default_runtime = [], mr_controller_name = [], mr_user_language = [], mr_user_timezone = []\<rparr>"

definition sample_manager_scope :: manager_scope where
  "sample_manager_scope =
     \<lparr>ms_manager = zero_manager\<lparr>m_meta := zero_meta\<lparr>om_name := ''default''\<rparr>,
        m_status := (m_status zero_manager)\<lparr>mst_room_id := ''!dm:hs''\<rparr>\<rparr>,
      ms_prov = Some example_prov, ms_provider = None\<rparr>"

lemma docker_manager_converges_witness:
  "\<exists>w'. run_state (reconcile_manager_container
      (sample_manager_reconciler (Some [Docker_Backend (engine_backend example_docker_config ''hiclaw-worker-'' (\<lambda>_. []))]))
      sample_manager_scope) [(''hiclaw-manager'', ''exited'')] = (None, w') \<and>
    map_of w' ''hiclaw-manager'' \<noteq> None"
proof -
  let ?r = "sample_manager_reconciler (Some [Docker_Backend (engine_backend example_docker_config ''hiclaw-worker-'' (\<lambda>_. []))])"
  have b: "mr_backends ?r = Some (Docker_Backend (engine_backend example_docker_config ''hiclaw-worker-'' (\<lambda>_. [])) # [])"
    by (simp add: sample_manager_reconciler_def)
  have p: "ms_prov sample_manager_scope = Some example_prov" "pr_matrix_token example_prov \<noteq> []"
    by (simp_all add: sample_manager_scope_def example_prov_def)
  have t: "\<exists>t. run_state (mp_request_token (mr_provisioner ?r) (om_name (m_meta (ms_manager sample_manager_scope)))) v = (t, v)" for v
    by (simp add: sample_manager_reconciler_def quiet_manager_provisioner_def)
  have n: "manager_container_name ?r (om_name (m_meta (ms_manager sample_manager_scope))) = ''hiclaw-manager''"
    "manager_desired_state (m_spec (ms_manager sample_manager_scope)) = ''Running''"
    by code_simp+
  show ?thesis
    using docker_manager_converges [OF b p t, of "[(''hiclaw-manager'', ''exited'')]"]
    unfolding n Let_def lifecycle_reached_def by (auto split: option.splits)
qed

definition racing_reconciler :: "welcome_world manager_reconciler" where
  "racing_reconciler = (let r = sample_manager_reconciler None in
     r\<lparr>mr_client := (mr_client r)\<lparr>mk_status_patch := merge_patch_status\<rparr>,
       mr_provisioner := (mr_provisioner r)\<lparr>mp_send_welcome := log_welcome\<rparr>\<rparr>)"

lemma welcome_claim_not_exclusive_witness:
  "ww_messages (snd (run_state (reconcile_manager_welcome racing_reconciler sample_manager_scope)
      (snd (run_state (reconcile_manager_welcome racing_reconciler sample_manager_scope)
        \<lparr>ww_welcomed = False, ww_messages = []\<rparr>)))) = [''!dm:hs'', ''!dm:hs'']"
proof -
  have "welcome_gates racing_reconciler sample_manager_scope v v" for v
    by (simp add: welcome_gates_def racing_reconciler_def sample_manager_reconciler_def quiet_manager_provisioner_def
        sample_manager_scope_def welcome_container_live_def manager_backend_def zero_defs Let_def)
  moreover have "mk_status_patch (mr_client racing_reconciler) = merge_patch_status"
    "mp_send_welcome (mr_provisioner racing_reconciler) = log_welcome"
    by (simp_all add: racing_reconciler_def Let_def)
  ultimately show ?thesis
    using welcome_claim_not_exclusive [of racing_reconciler sample_manager_scope "\<lparr>ww_welcomed = False, ww_messages = []\<rparr>"]
    by (simp add: Let_def sample_manager_scope_def)
qed

end
