(* ===== verification/Cred_Provider.thy ===== *)
theory Cred_Provider
  imports Access_Resolver Matrix_Client Go_Results "HOL-Library.Word"
begin

text \<open>
  \<open>internal/credprovider/\<close> and \<open>internal/credentials/sts.go\<close>: the client of the credential-provider
  sidecar, the token manager that caches its answers, the adapter the cloud SDK calls, and the
  service that issues tokens to workers and managers. The sidecar is reached through an HTTP
  transport parameter, the clock and the random session name are parameters too. Logging is left
  out; the mutex of the token manager makes its operations atomic steps.
\<close>

section \<open>Requests and answers\<close>

record issue_request =
  ir_session_name :: string
  ir_duration_seconds :: int
  ir_entries :: "resolved_entry list"

record issue_response =
  ip_access_key_id :: string
  ip_access_key_secret :: string
  ip_security_token :: string
  ip_expiration :: string
  ip_expires_in_sec :: int

text \<open>The JSON body: fields marked \<open>omitempty\<close> are left out when empty.\<close>

definition omit_text :: "string \<Rightarrow> string \<Rightarrow> (string \<times> json) list" where
  "omit_text k v = (if v = [] then [] else [(k, JStr v)])"

definition omit_texts :: "string \<Rightarrow> string list \<Rightarrow> (string \<times> json) list" where
  "omit_texts k vs = (if vs = [] then [] else [(k, JArr (map JStr vs))])"

definition scope_json :: "access_scope \<Rightarrow> json" where
  "scope_json s = JObj (omit_text ''bucket'' (as_bucket s) @ omit_texts ''prefixes'' (as_prefixes s) @
     omit_text ''gatewayId'' (as_gateway_id s) @ omit_texts ''resources'' (as_resources s) @
     omit_text ''namespaceId'' (as_namespace_id s))"

definition entry_json :: "resolved_entry \<Rightarrow> json" where
  "entry_json e = JObj ((''service'', JStr (re_service e)) # omit_texts ''permissions'' (re_permissions e) @
     [(''scope'', scope_json (re_scope e))])"

definition issue_json :: "issue_request \<Rightarrow> json" where
  "issue_json r = JObj ((''session_name'', JStr (ir_session_name r)) #
     (if ir_duration_seconds r = 0 then [] else [(''duration_seconds'', JNum (ir_duration_seconds r))]) @
     [(''entries'', JArr (map entry_json (ir_entries r)))])"

fun decode_number :: "string \<Rightarrow> int \<Rightarrow> (string \<times> json) list \<Rightarrow> int result" where
  "decode_number field acc [] = Inr acc"
| "decode_number field acc ((k, v) # kvs) =
     (if \<not> equal_fold k field then decode_number field acc kvs
      else (case v of
              JNum n \<Rightarrow> if - (2 ^ 63) \<le> n \<and> n < 2 ^ 63 then decode_number field n kvs else Inl json_mismatch
            | JNull \<Rightarrow> decode_number field acc kvs
            | _ \<Rightarrow> Inl json_mismatch))"

definition decode_issue_response :: "(string \<times> json) list \<Rightarrow> issue_response result" where
  "decode_issue_response kvs = try_result (decode_string ''access_key_id'' [] kvs) (\<lambda>ak.
     try_result (decode_string ''access_key_secret'' [] kvs) (\<lambda>sk.
     try_result (decode_string ''security_token'' [] kvs) (\<lambda>tok.
     try_result (decode_string ''expiration'' [] kvs) (\<lambda>ex.
     try_result (decode_number ''expires_in_sec'' 0 kvs) (\<lambda>n.
     Inr \<lparr>ip_access_key_id = ak, ip_access_key_secret = sk, ip_security_token = tok,
          ip_expiration = ex, ip_expires_in_sec = n\<rparr>)))))"

section \<open>The sidecar client\<close>

text \<open>
  \<open>cx_build\<close> is the error of \<open>http.NewRequestWithContext\<close> for a malformed URL, \<open>cx_post\<close> the HTTP
  exchange. Marshalling a request cannot fail.
\<close>

record 'w cred_transport =
  cx_base_url :: string
  cx_build :: "string \<Rightarrow> go_error option"
  cx_post :: "string \<Rightarrow> json \<Rightarrow> ('w, http_reply result) state"

definition new_http_client :: "string \<Rightarrow> (string \<Rightarrow> go_error option) \<Rightarrow>
   (string \<Rightarrow> json \<Rightarrow> ('w, http_reply result) state) \<Rightarrow> 'w cred_transport" where
  "new_http_client base_url build post =
     \<lparr>cx_base_url = trim_right (\<lambda>c. c = CHR ''/'') base_url, cx_build = build, cx_post = post\<rparr>"

definition incomplete_credentials :: go_error where
  "incomplete_credentials = Err (''credential-provider returned incomplete credentials '' @
     ''(missing access_key_id or access_key_secret)'')"

definition read_issue_reply :: "http_reply \<Rightarrow> issue_response result" where
  "read_issue_reply rep =
     (if rp_status rep < 200 \<or> rp_status rep \<ge> 300
      then Inl (Err (''credential-provider returned '' @ show_nat (rp_status rep) @ '': '' @
             trim_space (rp_body rep)))
      else try_result (map_sum (Wrap ''parse issue response'') id
                         (try_result (decode_raw (rp_json rep)) decode_issue_response)) (\<lambda>out.
             if ip_access_key_id out = [] \<or> ip_access_key_secret out = []
             then Inl incomplete_credentials else Inr out))"

definition http_issue :: "'w cred_transport \<Rightarrow> issue_request \<Rightarrow> ('w, issue_response result) state" where
  "http_issue c req =
     (if cx_base_url c = []
      then State_Monad.return (Inl (Err
        ''credprovider: base URL not configured (HICLAW_CREDENTIAL_PROVIDER_URL)''))
      else (case cx_build c (cx_base_url c @ ''/issue'') of
              Some e \<Rightarrow> State_Monad.return (Inl (Wrap ''build request'' e))
            | None \<Rightarrow>
                try_state (wrap_result ''call credential-provider''
                    (cx_post c (cx_base_url c @ ''/issue'') (issue_json req)))
                  (\<lambda>rep. State_Monad.return (read_issue_reply rep))))"

section \<open>The token manager\<close>

text \<open>
  Times and durations are nanoseconds; a duration is an \<open>int64\<close>, so the lifetime of a token wraps
  around. The clock is read with \<open>tm_now\<close>.
\<close>

record 'w token_manager =
  tm_issue :: "issue_request \<Rightarrow> ('w, issue_response result) state"
  tm_request :: issue_request
  tm_margin :: int
  tm_now :: "('w, int) state"

record 'w token_state =
  tks_world :: 'w
  tks_cached :: "issue_response option"
  tks_expires_at :: int

definition on_sidecar :: "('w, 'a) state \<Rightarrow> ('w token_state, 'a) state" where
  "on_sidecar m = State (\<lambda>s. case run_state m (tks_world s) of (a, w) \<Rightarrow> (a, s\<lparr>tks_world := w\<rparr>))"

definition zero_time :: int where "zero_time = 0"

definition second_nanos :: "64 word" where "second_nanos = 1000000000"

definition token_lifetime :: "issue_response \<Rightarrow> int" where
  "token_lifetime tok = sint (word_of_int (ip_expires_in_sec tok) * second_nanos)"

definition default_margin :: int where "default_margin = 600000000000"

definition new_token_manager ::
  "(issue_request \<Rightarrow> ('w, issue_response result) state) \<Rightarrow> issue_request \<Rightarrow> ('w, int) state \<Rightarrow> 'w token_manager" where
  "new_token_manager issue req now =
     \<lparr>tm_issue = issue, tm_request = req, tm_margin = default_margin, tm_now = now\<rparr>"

definition with_refresh_margin :: "'w token_manager \<Rightarrow> int \<Rightarrow> 'w token_manager" where
  "with_refresh_margin m d = m\<lparr>tm_margin := d\<rparr>"

definition refresh_cached :: "'w token_manager \<Rightarrow> ('w token_state, issue_response result) state" where
  "refresh_cached m =
     try_state (wrap_result (''refresh '' @ ir_session_name (tm_request m) @ '' token'')
         (on_sidecar (tm_issue m (tm_request m)))) (\<lambda>tok. do {
       now \<leftarrow> on_sidecar (tm_now m);
       _ \<leftarrow> modify_state (\<lambda>s. s\<lparr>tks_cached := Some tok, tks_expires_at := now + token_lifetime tok\<rparr>);
       State_Monad.return (Inr tok) })"

definition current_token :: "'w token_manager \<Rightarrow> ('w token_state, issue_response result) state" where
  "current_token m = do {
     s \<leftarrow> State_Monad.get;
     (case tks_cached s of
        None \<Rightarrow> refresh_cached m
      | Some tok \<Rightarrow> do {
          now \<leftarrow> on_sidecar (tm_now m);
          (if now + tm_margin m < tks_expires_at s then State_Monad.return (Inr tok)
           else refresh_cached m) }) }"

definition invalidate_token :: "('w token_state, unit) state" where
  "invalidate_token = modify_state (\<lambda>s. s\<lparr>tks_cached := None, tks_expires_at := zero_time\<rparr>)"

section \<open>The cloud SDK adapter\<close>

record credential_model =
  cm_access_key_id :: string
  cm_access_key_secret :: string
  cm_security_token :: string
  cm_type :: string
  cm_provider_name :: string

definition credential_type :: string where "credential_type = ''sts''"

definition token_part :: "(issue_response \<Rightarrow> 'a) \<Rightarrow> 'w token_manager \<Rightarrow> ('w token_state, 'a result) state" where
  "token_part f m = try_state (current_token m) (\<lambda>t. State_Monad.return (Inr (f t)))"

definition get_access_key_id :: "'w token_manager \<Rightarrow> ('w token_state, string result) state" where
  "get_access_key_id = token_part ip_access_key_id"

definition get_access_key_secret :: "'w token_manager \<Rightarrow> ('w token_state, string result) state" where
  "get_access_key_secret = token_part ip_access_key_secret"

definition get_security_token :: "'w token_manager \<Rightarrow> ('w token_state, string result) state" where
  "get_security_token = token_part ip_security_token"

definition get_credential :: "'w token_manager \<Rightarrow> ('w token_state, credential_model result) state" where
  "get_credential = token_part (\<lambda>t.
     \<lparr>cm_access_key_id = ip_access_key_id t, cm_access_key_secret = ip_access_key_secret t,
      cm_security_token = ip_security_token t, cm_type = credential_type,
      cm_provider_name = ''hiclaw-credential-provider''\<rparr>)"

section \<open>Tokens for callers\<close>

record sts_token =
  stt_access_key_id :: string
  stt_access_key_secret :: string
  stt_security_token :: string
  stt_expiration :: string
  stt_expires_in_sec :: int
  stt_oss_endpoint :: string
  stt_oss_bucket :: string

record 'w sts_service =
  sts_oss_bucket :: string
  sts_oss_endpoint :: string
  sts_resolve :: "(caller_identity option \<Rightarrow> ('w, (string \<times> resolved_entry list) result) state) option"
  sts_provider :: "(issue_request \<Rightarrow> ('w, issue_response result) state) option"
  sts_new_uuid :: "('w, string) state"

definition sts_configured :: "'w sts_service option \<Rightarrow> bool" where
  "sts_configured s = (case s of None \<Rightarrow> False | Some v \<Rightarrow> sts_provider v \<noteq> None \<and> sts_resolve v \<noteq> None)"

text \<open>The resolver on what the Kubernetes reads return in a world.\<close>

definition resolver_on ::
  "resolver \<Rightarrow> ('w \<Rightarrow> string \<Rightarrow> worker result) \<Rightarrow> ('w \<Rightarrow> string \<Rightarrow> team result) \<Rightarrow> ('w \<Rightarrow> string \<Rightarrow> manager result) \<Rightarrow>
   caller_identity option \<Rightarrow> ('w, (string \<times> resolved_entry list) result) state" where
  "resolver_on r workers teams managers caller =
     State (\<lambda>w. (resolve_for_caller r (workers w) (teams w) (managers w) caller, w))"

definition sts_token_of :: "'w sts_service \<Rightarrow> issue_response \<Rightarrow> sts_token" where
  "sts_token_of s resp =
     \<lparr>stt_access_key_id = ip_access_key_id resp, stt_access_key_secret = ip_access_key_secret resp,
      stt_security_token = ip_security_token resp, stt_expiration = ip_expiration resp,
      stt_expires_in_sec = ip_expires_in_sec resp, stt_oss_endpoint = sts_oss_endpoint s,
      stt_oss_bucket = sts_oss_bucket s\<rparr>"

definition issue_for_caller :: "'w sts_service \<Rightarrow> caller_identity option \<Rightarrow> ('w, sts_token result) state" where
  "issue_for_caller s caller =
     (case (sts_resolve s, sts_provider s) of
        (Some resolve, Some issue) \<Rightarrow>
          try_state (wrap_result ''resolve access entries'' (resolve caller)) (\<lambda>(session, entries). do {
            uuid \<leftarrow> sts_new_uuid s;
            try_state (issue \<lparr>ir_session_name = uuid, ir_duration_seconds = 0, ir_entries = entries\<rparr>)
              (\<lambda>resp. State_Monad.return (Inr (sts_token_of s resp))) })
      | _ \<Rightarrow> State_Monad.return (Inl (Err ''STS service not configured: no credential provider URL set'')))"

section \<open>Decoding whole answers\<close>

text \<open>
  \<open>json.Unmarshal\<close> into boolean fields and into slices of structs, for the clients that decode whole
  answers. The rules for names, null and duplicates are those of \<open>Go_Json\<close>.
\<close>

fun decode_bool :: "string \<Rightarrow> bool \<Rightarrow> (string \<times> json) list \<Rightarrow> bool result" where
  "decode_bool field acc [] = Inr acc"
| "decode_bool field acc ((k, v) # kvs) =
     (if \<not> equal_fold k field then decode_bool field acc kvs
      else (case v of
              JBool b \<Rightarrow> decode_bool field b kvs
            | JNull \<Rightarrow> decode_bool field acc kvs
            | _ \<Rightarrow> Inl json_mismatch))"

text \<open>A struct, and a slice of them: null is the zero value, respectively the nil slice.\<close>

definition decode_struct :: "((string \<times> json) list \<Rightarrow> 'a result) \<Rightarrow> json \<Rightarrow> 'a result" where
  "decode_struct decode v = try_result (decode_object v) decode"

fun decode_structs :: "((string \<times> json) list \<Rightarrow> 'a result) \<Rightarrow> json list \<Rightarrow> 'a list result" where
  "decode_structs decode [] = Inr []"
| "decode_structs decode (v # vs) =
     try_result (decode_struct decode v) (\<lambda>x. try_result (decode_structs decode vs) (\<lambda>xs. Inr (x # xs)))"

definition decode_slice ::
  "((string \<times> json) list \<Rightarrow> 'a result) \<Rightarrow> string \<Rightarrow> (string \<times> json) list \<Rightarrow> 'a list result" where
  "decode_slice decode field kvs =
     (case decode_member field JNull kvs of
        JNull \<Rightarrow> Inr [] | JArr vs \<Rightarrow> decode_structs decode vs | _ \<Rightarrow> Inl json_mismatch)"

lemma decode_structs_map:
  "(\<And>x. x \<in> set xs \<Longrightarrow> decode_struct decode (enc x) = Inr x) \<Longrightarrow> decode_structs decode (map enc xs) = Inr xs"
  by (induction xs) simp_all

lemma decode_structs_error:
  "x \<in> set vs \<Longrightarrow> decode_struct decode x = Inl json_mismatch \<Longrightarrow> (\<And>v e. decode_struct decode v = Inl e \<Longrightarrow> e = json_mismatch) \<Longrightarrow>
   decode_structs decode vs = Inl json_mismatch"
proof (induction vs)
  case (Cons v vs)
  then show ?case by (cases "decode_struct decode v") auto
qed simp

section \<open>Guarantees\<close>

text \<open>
  What the token manager and the token service guarantee: every token handed out was issued by the
  sidecar for the request of the manager and is not about to expire, and a caller gets a token for
  exactly the access entries resolved for it. The states of a token manager are those its
  operations reach while the world outside changes freely.
\<close>

section \<open>Histories of a token manager\<close>

inductive token_reachable :: "'w token_manager \<Rightarrow> 'w token_state \<Rightarrow> bool" for m where
  fresh: "tks_cached s = None \<Longrightarrow> token_reachable m s"
| outside: "token_reachable m s \<Longrightarrow> token_reachable m (s\<lparr>tks_world := w\<rparr>)"
| asked: "token_reachable m s \<Longrightarrow> run_state (current_token m) s = (r, s') \<Longrightarrow> token_reachable m s'"
| dropped: "token_reachable m s \<Longrightarrow> run_state invalidate_token s = (u, s') \<Longrightarrow> token_reachable m s'"

text \<open>\<open>issued_at m tok t v\<close>: the sidecar issued the token for the request of the manager, the clock
  read \<open>t\<close> right after, and the world was then \<open>v\<close>.\<close>

definition issued_at :: "'w token_manager \<Rightarrow> issue_response \<Rightarrow> int \<Rightarrow> 'w \<Rightarrow> bool" where
  "issued_at m tok t v \<longleftrightarrow>
     (\<exists>w u. run_state (tm_issue m (tm_request m)) w = (Inr tok, u) \<and> run_state (tm_now m) u = (t, v))"

definition cache_vouched :: "'w token_manager \<Rightarrow> 'w token_state \<Rightarrow> bool" where
  "cache_vouched m s \<longleftrightarrow>
     (\<forall>tok. tks_cached s = Some tok \<longrightarrow>
        (\<exists>t v. issued_at m tok t v \<and> tks_expires_at s = t + token_lifetime tok))"

lemma vouched_outside [simp]: "cache_vouched m (s\<lparr>tks_world := w\<rparr>) = cache_vouched m s"
  by (simp add: cache_vouched_def)

lemma run_on_sidecar:
  "run_state (on_sidecar m) s = (fst (run_state m (tks_world s)), s\<lparr>tks_world := snd (run_state m (tks_world s))\<rparr>)"
  by (simp add: on_sidecar_def split_beta)

lemma run_modify [simp]: "run_state (modify_state f) s = ((), f s)"
  by (simp add: modify_state_def)

lemma refresh_cases:
  assumes "run_state (refresh_cached m) s = (r, s')"
  obtains e w where "r = Inl e" "s' = s\<lparr>tks_world := w\<rparr>"
  | tok t v where "r = Inr tok" "issued_at m tok t v"
      "s' = s\<lparr>tks_world := v, tks_cached := Some tok, tks_expires_at := t + token_lifetime tok\<rparr>"
proof -
  obtain q u where i: "run_state (tm_issue m (tm_request m)) (tks_world s) = (q, u)" by fastforce
  obtain t v where n: "run_state (tm_now m) u = (t, v)" by fastforce
  show thesis
  proof (cases q)
    case (Inl e)
    then show thesis
      using assms i that(1) by (auto simp: refresh_cached_def run_results run_on_sidecar)
  next
    case (Inr tok)
    moreover have "issued_at m tok t v"
      using i n Inr by (auto simp: issued_at_def)
    ultimately show thesis
      using assms i n that(2) by (auto simp: refresh_cached_def run_results run_on_sidecar)
  qed
qed

lemma refresh_vouched:
  "run_state (refresh_cached m) s = (r, s') \<Longrightarrow> cache_vouched m s \<Longrightarrow> cache_vouched m s'"
  by (erule refresh_cases) (simp, auto simp: cache_vouched_def)

lemma current_token_cases:
  assumes "run_state (current_token m) s = (r, s')"
  obtains (cached) tok where "tks_cached s = Some tok" "r = Inr tok"
      "fst (run_state (tm_now m) (tks_world s)) + tm_margin m < tks_expires_at s"
      "s' = s\<lparr>tks_world := snd (run_state (tm_now m) (tks_world s))\<rparr>"
  | (issued) w where "run_state (refresh_cached m) (s\<lparr>tks_world := w\<rparr>) = (r, s')"
proof (cases "tks_cached s")
  case None
  then have "run_state (refresh_cached m) (s\<lparr>tks_world := tks_world s\<rparr>) = (r, s')"
    using assms by (simp add: current_token_def)
  then show thesis using issued by blast
next
  case (Some tok)
  then show thesis
    using assms cached issued by (auto simp: current_token_def run_on_sidecar split: if_splits)
qed

lemma token_vouched_step:
  "run_state (current_token m) s = (r, s') \<Longrightarrow> cache_vouched m s \<Longrightarrow> cache_vouched m s'"
  by (erule current_token_cases) (simp, metis refresh_vouched vouched_outside)

lemma reachable_vouched: "token_reachable m s \<Longrightarrow> cache_vouched m s"
proof (induction rule: token_reachable.induct)
  case (asked s r s')
  then show ?case using token_vouched_step by blast
next
  case (outside s w)
  then show ?case by simp
qed (auto simp: cache_vouched_def invalidate_token_def)

text \<open>C24. Every token the token manager hands out was issued by the sidecar for the manager's own
  request: it was issued by this very call, or, when it comes from the cache, the clock read now
  plus the margin lies before the time of its issue plus its lifetime. This holds after any
  history of calls and invalidations, however the world and the clock change in between.\<close>

theorem token_fresh_and_vouched:
  assumes "token_reachable m s" "run_state (current_token m) s = (Inr tok, s')"
  shows "\<exists>t v. issued_at m tok t v \<and>
    (tks_world s' = v \<or>
     fst (run_state (tm_now m) (tks_world s)) + tm_margin m < t + token_lifetime tok)"
  using assms(2)
proof (cases rule: current_token_cases)
  case (cached tok')
  then show ?thesis
    using reachable_vouched [OF assms(1)] unfolding cache_vouched_def by (metis sum.inject(2))
next
  case (issued w)
  then show ?thesis by (cases rule: refresh_cases) auto
qed

text \<open>The lifetime is exact up to 292 years; beyond, it wraps around and the token counts as expired.\<close>

lemma token_lifetime_exact:
  assumes "0 \<le> ip_expires_in_sec tok" "ip_expires_in_sec tok \<le> 9223372036"
  shows "token_lifetime tok = ip_expires_in_sec tok * 1000000000"
proof -
  have "word_of_int (ip_expires_in_sec tok) * second_nanos = (word_of_int (ip_expires_in_sec tok * 1000000000) :: 64 word)"
    by (simp add: second_nanos_def)
  then have "token_lifetime tok = signed_take_bit 63 (ip_expires_in_sec tok * 1000000000)"
    by (simp add: token_lifetime_def sint_sbintrunc' del: of_int_mult)
  also have "\<dots> = ip_expires_in_sec tok * 1000000000"
    using assms by (intro signed_take_bit_int_eq_self) auto
  finally show ?thesis .
qed

lemma token_lifetime_wraps: "ip_expires_in_sec tok = 9223372037 \<Longrightarrow> token_lifetime tok < 0"
  by (simp add: token_lifetime_def second_nanos_def)

section \<open>The sidecar client\<close>

lemma http_issue_complete:
  assumes "run_state (http_issue c req) w = (Inr tok, w')"
  shows "ip_access_key_id tok \<noteq> [] \<and> ip_access_key_secret tok \<noteq> []"
  using assms
  by (auto simp: http_issue_def run_results read_issue_reply_def try_result_Inr split: if_splits option.splits
      prod.splits sum.splits)

section \<open>Tokens for callers\<close>

text \<open>A caller of the token endpoint that gets a token is a worker, a team leader or a manager, and
  the token was issued by the sidecar for exactly the access entries that the resolver determines
  for this caller from the resources at that moment, under a session name of its own; the keys,
  lifetime and security token are those the sidecar returned.\<close>

theorem sts_token_scoped:
  assumes "sts_resolve s = Some (resolver_on r workers teams managers)" "sts_provider s = Some issue"
    "run_state (issue_for_caller s caller) w = (Inr tok, w')"
  shows "\<exists>c session entries uuid w1 resp. caller = Some c \<and>
    ci_role c \<in> {role_worker, role_team_leader, role_manager} \<and>
    resolve_for_caller r (workers w) (teams w) (managers w) caller = Inr (session, entries) \<and>
    run_state (sts_new_uuid s) w = (uuid, w1) \<and>
    run_state (issue \<lparr>ir_session_name = uuid, ir_duration_seconds = 0, ir_entries = entries\<rparr>) w1 = (Inr resp, w') \<and>
    tok = sts_token_of s resp"
proof -
  obtain session entries where resolved:
      "resolve_for_caller r (workers w) (teams w) (managers w) caller = Inr (session, entries)"
    using assms by (auto simp: issue_for_caller_def run_results resolver_on_def split: sum.splits)
  then obtain c where c: "caller = Some c" "ci_role c \<in> {role_worker, role_team_leader, role_manager}"
    by (auto simp: resolve_for_caller_def split: option.splits if_splits)
  obtain uuid w1 where uuid: "run_state (sts_new_uuid s) w = (uuid, w1)" by fastforce
  obtain q v where q: "run_state (issue \<lparr>ir_session_name = uuid, ir_duration_seconds = 0, ir_entries = entries\<rparr>) w1 = (q, v)"
    by fastforce
  show ?thesis
    using assms resolved c uuid q
    by (cases q) (auto simp: issue_for_caller_def run_results resolver_on_def)
qed

section \<open>Examples\<close>

text \<open>A sidecar whose world is the clock: its tokens live an hour, its clock advances at each reading.\<close>

definition hour_token :: issue_response where
  "hour_token = \<lparr>ip_access_key_id = ''AK'', ip_access_key_secret = ''SK'', ip_security_token = ''T'',
     ip_expiration = [], ip_expires_in_sec = 3600\<rparr>"

definition clock_manager :: "int token_manager" where
  "clock_manager = new_token_manager (\<lambda>q. State_Monad.return (Inr hour_token))
     \<lparr>ir_session_name = ''hiclaw-controller'', ir_duration_seconds = 0, ir_entries = []\<rparr>
     (State (\<lambda>t. (t, t + 1)))"

definition cold_cache :: "int token_state" where
  "cold_cache = \<lparr>tks_world = 5, tks_cached = None, tks_expires_at = zero_time\<rparr>"

lemma token_fresh_and_vouched_witness:
  "\<exists>s1 s2 t v. run_state (current_token clock_manager) cold_cache = (Inr hour_token, s1) \<and>
     run_state (current_token clock_manager) s1 = (Inr hour_token, s2) \<and> tks_world s2 = 7 \<and>
     issued_at clock_manager hour_token t v \<and> (tks_world s2 = v \<or> 6 + default_margin < t + token_lifetime hour_token)"
proof -
  let ?s1 = "\<lparr>tks_world = 6, tks_cached = Some hour_token, tks_expires_at = 5 + token_lifetime hour_token\<rparr>"
  let ?s2 = "\<lparr>tks_world = 7, tks_cached = Some hour_token, tks_expires_at = 5 + token_lifetime hour_token\<rparr>"
  have life: "token_lifetime hour_token = 3600000000000"
    by (subst token_lifetime_exact) (simp_all add: hour_token_def)
  have one: "run_state (current_token clock_manager) cold_cache = (Inr hour_token, ?s1)"
    by (simp add: current_token_def refresh_cached_def cold_cache_def clock_manager_def new_token_manager_def
        run_results run_on_sidecar)
  have two: "run_state (current_token clock_manager) ?s1 = (Inr hour_token, ?s2)"
    by (simp add: current_token_def clock_manager_def new_token_manager_def default_margin_def run_on_sidecar life)
  have reach: "token_reachable clock_manager ?s1"
    using token_reachable.asked [OF token_reachable.fresh one] by (simp add: cold_cache_def)
  have now: "fst (run_state (tm_now clock_manager) (tks_world ?s1)) + tm_margin clock_manager = 6 + default_margin"
    by (simp add: clock_manager_def new_token_manager_def)
  show ?thesis
    using token_fresh_and_vouched [OF reach two] one two unfolding now by auto
qed

definition echo_service :: "issue_request list sts_service" where
  "echo_service =
     \<lparr>sts_oss_bucket = ''hiclaw'', sts_oss_endpoint = ''https://oss'',
      sts_resolve = Some (resolver_on (new_resolver ''hiclaw'' ''gw'' ''ns'' ''hiclaw-'')
        (\<lambda>w n. Inl ApiNotFound) (\<lambda>w n. Inl ApiNotFound) (\<lambda>w n. Inl ApiNotFound)),
      sts_provider = Some (\<lambda>q. State (\<lambda>log. (Inr hour_token, log @ [q]))),
      sts_new_uuid = State_Monad.return ''u-1''\<rparr>"

lemma sts_token_scoped_witness:
  "\<exists>session entries. resolve_for_caller (new_resolver ''hiclaw'' ''gw'' ''ns'' ''hiclaw-'')
      (\<lambda>n. Inl ApiNotFound) (\<lambda>n. Inl ApiNotFound) (\<lambda>n. Inl ApiNotFound)
      (Some \<lparr>ci_role = role_worker, ci_username = ''alice'', ci_team = [], ci_worker_name = []\<rparr>) = Inr (session, entries) \<and>
    snd (run_state (issue_for_caller echo_service
      (Some \<lparr>ci_role = role_worker, ci_username = ''alice'', ci_team = [], ci_worker_name = []\<rparr>)) []) =
      [\<lparr>ir_session_name = ''u-1'', ir_duration_seconds = 0, ir_entries = entries\<rparr>]"
proof -
  let ?c = "Some \<lparr>ci_role = role_worker, ci_username = ''alice'', ci_team = [], ci_worker_name = []\<rparr>"
  have parts: "sts_resolve echo_service = Some (resolver_on (new_resolver ''hiclaw'' ''gw'' ''ns'' ''hiclaw-'')
        (\<lambda>w n. Inl ApiNotFound) (\<lambda>w n. Inl ApiNotFound) (\<lambda>w n. Inl ApiNotFound))"
    "sts_provider echo_service = Some (\<lambda>q. State (\<lambda>log. (Inr hour_token, log @ [q])))"
    "sts_new_uuid echo_service = State_Monad.return ''u-1''"
    by (simp_all add: echo_service_def)
  have "case fst (run_state (issue_for_caller echo_service ?c) []) of Inr x \<Rightarrow> True | Inl e \<Rightarrow> False"
    by code_simp
  then obtain tok w' where "run_state (issue_for_caller echo_service ?c) [] = (Inr tok, w')"
    by (metis prod.collapse old.sum.exhaust sum.case(1))
  from sts_token_scoped [OF parts(1,2) this] show ?thesis
    unfolding parts(3) by (auto simp: \<open>run_state _ _ = _\<close>)
qed

end
