(* ===== verification/Go_Url.thy ===== *)
theory Go_Url
  imports Go_Strings Go_Results
begin

text \<open>
  \<open>url.Parse\<close> of the standard library and the methods of \<open>url.URL\<close> the controller uses: \<open>Hostname\<close>,
  \<open>Port\<close> and \<open>String\<close>. The zone of a bracketed address is not treated apart.
\<close>

section \<open>Escapes\<close>

definition is_ctl :: "char \<Rightarrow> bool" where
  "is_ctl c \<longleftrightarrow> (let n = (of_char c :: nat) in n < 32 \<or> n = 127)"

definition is_alnum :: "char \<Rightarrow> bool" where
  "is_alnum c \<longleftrightarrow>
     (let n = (of_char c :: nat) in (97 \<le> n \<and> n \<le> 122) \<or> (65 \<le> n \<and> n \<le> 90) \<or> (48 \<le> n \<and> n \<le> 57))"

definition is_digit_char :: "char \<Rightarrow> bool" where
  "is_digit_char c \<longleftrightarrow> c \<in> set decimal_digits"

definition hex_value :: "char \<Rightarrow> nat option" where
  "hex_value c =
     (let n = (of_char c :: nat) in
      if 48 \<le> n \<and> n \<le> 57 then Some (n - 48)
      else if 97 \<le> n \<and> n \<le> 102 then Some (n - 87)
      else if 65 \<le> n \<and> n \<le> 70 then Some (n - 55) else None)"

definition host_char :: "char \<Rightarrow> bool" where
  "host_char c \<longleftrightarrow> is_alnum c \<or> (of_char c :: nat) \<ge> 128 \<or> c \<in> set (dquote # squote # ''-_.~!$&()*+,;=:[]<>'')"

definition userinfo_char :: "char \<Rightarrow> bool" where
  "userinfo_char c \<longleftrightarrow> is_alnum c \<or> c \<in> set (squote # ''-._:~!$&()*+,;=%@'')"

fun unescape_host :: "string \<Rightarrow> string option" where
  "unescape_host [] = Some []"
| "unescape_host (c # cs) =
     (if c = CHR ''%'' then
        (case cs of
           a # b # rest \<Rightarrow>
             (case (hex_value a, hex_value b) of
                (Some x, Some y) \<Rightarrow>
                  if x \<ge> 8 \<or> (x = 2 \<and> y = 5)
                  then map_option (Cons (char_of (16 * x + y))) (unescape_host rest) else None
              | _ \<Rightarrow> None)
         | _ \<Rightarrow> None)
      else if host_char c then map_option (Cons c) (unescape_host cs) else None)"

fun escapes_ok :: "string \<Rightarrow> bool" where
  "escapes_ok [] = True"
| "escapes_ok (c # cs) =
     (if c = CHR ''%'' then
        (case cs of
           a # b # rest \<Rightarrow> hex_value a \<noteq> None \<and> hex_value b \<noteq> None \<and> escapes_ok rest
         | _ \<Rightarrow> False)
      else escapes_ok cs)"

definition port_ok :: "string \<Rightarrow> bool" where
  "port_ok s \<longleftrightarrow> s = [] \<or> (hd s = CHR '':'' \<and> list_all is_digit_char (tl s))"

definition parse_host :: "string \<Rightarrow> string option" where
  "parse_host host =
     (if has_prefix host ''['' then
        (case str_last_index host '']'' of
           None \<Rightarrow> None
         | Some i \<Rightarrow> if port_ok (drop (Suc i) host) then unescape_host host else None)
      else
        (case str_last_index host '':'' of
           None \<Rightarrow> unescape_host host
         | Some i \<Rightarrow> if port_ok (drop i host) then unescape_host host else None))"

definition scheme_start :: "char \<Rightarrow> bool" where
  "scheme_start c \<longleftrightarrow> is_alnum c \<and> \<not> is_digit_char c"

fun unescape_text :: "string \<Rightarrow> string option" where
  "unescape_text [] = Some []"
| "unescape_text (c # cs) =
     (if c = CHR ''%'' then
        (case cs of
           a # b # rest \<Rightarrow>
             (case (hex_value a, hex_value b) of
                (Some x, Some y) \<Rightarrow> map_option (Cons (char_of (16 * x + y))) (unescape_text rest)
              | _ \<Rightarrow> None)
         | _ \<Rightarrow> None)
      else map_option (Cons c) (unescape_text cs))"

datatype url_part = Part_Path | Part_User | Part_Host | Part_Fragment

definition should_escape :: "url_part \<Rightarrow> char \<Rightarrow> bool" where
  "should_escape p c =
     (if is_alnum c \<or> c \<in> set ''-_.~'' then False
      else if p = Part_Host \<and> c \<in> set (dquote # squote # ''!$&()*+,;=:[]<>'') then False
      else if c \<in> set ''$&+,/:;=?@'' then
        (case p of
           Part_Path \<Rightarrow> c = CHR ''?''
         | Part_User \<Rightarrow> c \<in> set ''@/?:''
         | Part_Host \<Rightarrow> True
         | Part_Fragment \<Rightarrow> False)
      else \<not> (p = Part_Fragment \<and> c \<in> set ''!()*''))"

definition upper_hex :: "nat \<Rightarrow> char" where
  "upper_hex n = ''0123456789ABCDEF'' ! n"

definition escape_char :: "url_part \<Rightarrow> char \<Rightarrow> string" where
  "escape_char p c =
     (if should_escape p c
      then let n = (of_char c :: nat) in [CHR ''%'', upper_hex (n div 16), upper_hex (n mod 16)] else [c])"

definition escape_text :: "url_part \<Rightarrow> string \<Rightarrow> string" where
  "escape_text p s = concat (map (escape_char p) s)"

definition valid_encoded :: "url_part \<Rightarrow> string \<Rightarrow> bool" where
  "valid_encoded p s \<longleftrightarrow> list_all (\<lambda>c. c \<in> set (squote # ''!$&()*+,;=:@[]%'') \<or> \<not> should_escape p c) s"

text \<open>The text a part is written as, given the text it was read from.\<close>

definition rewritten :: "url_part \<Rightarrow> string \<Rightarrow> string \<Rightarrow> string" where
  "rewritten p raw decoded =
     (if valid_encoded p raw \<and> unescape_text raw = Some decoded then raw else escape_text p decoded)"

section \<open>Parsing\<close>

text \<open>\<open>gu_path\<close> and \<open>gu_fragment\<close> are the texts as read.\<close>

record go_url =
  gu_scheme :: string
  gu_opaque :: string
  gu_user :: "(string \<times> string option) option"
  gu_host :: string
  gu_path :: string
  gu_omit_host :: bool
  gu_force_query :: bool
  gu_query :: string
  gu_fragment :: string

definition cut_at :: "char \<Rightarrow> string \<Rightarrow> string \<times> string option" where
  "cut_at c s =
     (let a = takeWhile (\<lambda>x. x \<noteq> c) s in (a, if length a < length s then Some (drop (Suc (length a)) s) else None))"

text \<open>The scheme and the rest; \<open>None\<close> for a missing scheme name.\<close>

definition get_scheme :: "string \<Rightarrow> (string \<times> string) option" where
  "get_scheme s =
     (let a = takeWhile (\<lambda>c. is_alnum c \<or> c \<in> set ''+-.'') s; rest = drop (length a) s
      in if has_prefix rest '':'' then
           (if a = [] then None else if scheme_start (hd a) then Some (a, tl rest) else Some ([], s))
         else Some ([], s))"

definition parse_user :: "string \<Rightarrow> (string \<times> string option) option" where
  "parse_user s =
     (if \<not> list_all userinfo_char s then None
      else case cut_at (CHR '':'') s of
        (u, None) \<Rightarrow> map_option (\<lambda>x. (x, None)) (unescape_text u)
      | (u, Some p) \<Rightarrow>
          (case (unescape_text u, unescape_text p) of
             (Some x, Some y) \<Rightarrow> Some (x, Some y) | _ \<Rightarrow> None))"

definition parse_authority :: "string \<Rightarrow> ((string \<times> string option) option \<times> string) option" where
  "parse_authority auth =
     (case str_last_index auth ''@'' of
        None \<Rightarrow> map_option (Pair None) (parse_host auth)
      | Some i \<Rightarrow>
          (case (parse_user (take i auth), parse_host (drop (Suc i) auth)) of
             (Some u, Some h) \<Rightarrow> Some (Some u, h) | _ \<Rightarrow> None))"

definition url_error :: "string \<Rightarrow> go_error" where
  "url_error raw = Err (''parse '' @ go_quote raw)"

definition parse_url :: "string \<Rightarrow> go_url result" where
  "parse_url raw =
     (let bad = Inl (url_error raw); (main, frag) = cut_at (CHR ''#'') raw; fragment = (case frag of None \<Rightarrow> [] | Some f \<Rightarrow> f)
      in if list_ex is_ctl main \<or> \<not> escapes_ok fragment then bad
         else if main = ''*'' then Inr \<lparr>gu_scheme = [], gu_opaque = [], gu_user = None, gu_host = [], gu_path = main,
           gu_omit_host = False, gu_force_query = False, gu_query = [], gu_fragment = fragment\<rparr>
         else (case get_scheme main of
           None \<Rightarrow> bad
         | Some (sch, body) \<Rightarrow>
             let scheme = to_lower sch;
                 forced = has_suffix body ''?'' \<and> length (filter (\<lambda>c. c = CHR ''?'') body) = 1;
                 (rest, q) = (if forced then (butlast body, None) else cut_at (CHR ''?'') body);
                 u = \<lparr>gu_scheme = scheme, gu_opaque = [], gu_user = None, gu_host = [], gu_path = rest,
                      gu_omit_host = False, gu_force_query = forced,
                      gu_query = (case q of None \<Rightarrow> [] | Some x \<Rightarrow> x), gu_fragment = fragment\<rparr>
             in if \<not> has_prefix rest ''/'' \<and> scheme \<noteq> [] then Inr (u\<lparr>gu_opaque := rest, gu_path := []\<rparr>)
                else if \<not> has_prefix rest ''/'' \<and> CHR '':'' \<in> set (fst (cut_at (CHR ''/'') rest)) then bad
                else if (scheme \<noteq> [] \<or> \<not> has_prefix rest ''///'') \<and> has_prefix rest ''//'' then
                  (let auth = fst (cut_at (CHR ''/'') (drop 2 rest)); path = drop (2 + length auth) rest
                   in case parse_authority auth of
                        None \<Rightarrow> bad
                      | Some (user, host) \<Rightarrow>
                          if escapes_ok path then Inr (u\<lparr>gu_user := user, gu_host := host, gu_path := path\<rparr>) else bad)
                else if escapes_ok rest then Inr (u\<lparr>gu_omit_host := scheme \<noteq> [] \<and> has_prefix rest ''/''\<rparr>) else bad))"

section \<open>Methods\<close>

definition split_host_port :: "string \<Rightarrow> string \<times> string" where
  "split_host_port hp =
     (let (host, port) = (case str_last_index hp '':'' of
            Some i \<Rightarrow> if port_ok (drop i hp) then (take i hp, drop (Suc i) hp) else (hp, [])
          | None \<Rightarrow> (hp, []))
      in (if has_prefix host ''['' \<and> has_suffix host '']'' then butlast (tl host) else host, port))"

definition url_hostname :: "go_url \<Rightarrow> string" where
  "url_hostname u = fst (split_host_port (gu_host u))"

definition url_port :: "go_url \<Rightarrow> string" where
  "url_port u = snd (split_host_port (gu_host u))"

definition unescaped :: "string \<Rightarrow> string" where
  "unescaped s = (case unescape_text s of None \<Rightarrow> s | Some x \<Rightarrow> x)"

definition escaped_path :: "go_url \<Rightarrow> string" where
  "escaped_path u = (if gu_path u = ''*'' then ''*'' else rewritten Part_Path (gu_path u) (unescaped (gu_path u)))"

definition user_text :: "string \<times> string option \<Rightarrow> string" where
  "user_text p = escape_text Part_User (fst p) @
     (case snd p of None \<Rightarrow> [] | Some w \<Rightarrow> '':'' @ escape_text Part_User w)"

definition url_authority :: "go_url \<Rightarrow> string" where
  "url_authority u =
     (if gu_scheme u = [] \<and> gu_host u = [] \<and> gu_user u = None then []
      else if gu_omit_host u \<and> gu_host u = [] \<and> gu_user u = None then []
      else (if gu_host u \<noteq> [] \<or> gu_path u \<noteq> [] \<or> gu_user u \<noteq> None then ''//'' else []) @
           (case gu_user u of None \<Rightarrow> [] | Some p \<Rightarrow> user_text p @ ''@'') @ escape_text Part_Host (gu_host u))"

definition url_text :: "go_url \<Rightarrow> string" where
  "url_text u =
     (let head = (if gu_scheme u \<noteq> [] then gu_scheme u @ '':'' else []);
          path = escaped_path u;
          lead = head @ url_authority u;
          body = (if gu_opaque u \<noteq> [] then head @ gu_opaque u
                  else lead @
                    (if path \<noteq> [] \<and> hd path \<noteq> CHR ''/'' \<and> gu_host u \<noteq> [] then ''/''
                     else if lead = [] \<and> CHR '':'' \<in> set (fst (cut_at (CHR ''/'') path)) then ''./'' else []) @ path)
      in body @ (if gu_force_query u \<or> gu_query u \<noteq> [] then ''?'' @ gu_query u else []) @
         (if gu_fragment u \<noteq> [] then ''#'' @ rewritten Part_Fragment (gu_fragment u) (unescaped (gu_fragment u)) else []))"

section \<open>Queries and addresses\<close>

text \<open>
  \<open>url.Values\<close>, \<open>net.JoinHostPort\<close> and \<open>base64.StdEncoding\<close> of the standard library, as far as the
  Nacos client and the command line use them.
\<close>

section \<open>Query strings\<close>

definition query_escape_char :: "char \<Rightarrow> string" where
  "query_escape_char c =
     (if is_alnum c \<or> c \<in> set ''-_.~'' then [c]
      else if c = CHR '' '' then ''+''
      else let n = (of_char c :: nat) in [CHR ''%'', upper_hex (n div 16), upper_hex (n mod 16)])"

definition query_escape :: "string \<Rightarrow> string" where
  "query_escape s = concat (map query_escape_char s)"

text \<open>\<open>Encode\<close>, for values with one entry for each key.\<close>

definition encode_values :: "(string \<times> string) list \<Rightarrow> string" where
  "encode_values kvs = join_with ''&'' (map (\<lambda>(k, v). query_escape k @ ''='' @ query_escape v) (sort_key fst kvs))"

definition query_unescape :: "string \<Rightarrow> string option" where
  "query_unescape s = unescape_text (concat (map (\<lambda>c. if c = CHR ''+'' then ''%20'' else [c]) s))"

definition query_pair :: "string \<Rightarrow> (string \<times> string) option" where
  "query_pair part =
     (if part = [] \<or> CHR '';'' \<in> set part then None
      else (case cut_at (CHR ''='') part of
        (k, v) \<Rightarrow>
          (case (query_unescape k, query_unescape (case v of None \<Rightarrow> [] | Some x \<Rightarrow> x)) of
             (Some a, Some b) \<Rightarrow> Some (a, b) | _ \<Rightarrow> None)))"

text \<open>\<open>u.Query().Get(key)\<close>: malformed parts are skipped, the first value counts.\<close>

definition query_get :: "string \<Rightarrow> string \<Rightarrow> string" where
  "query_get query key =
     (case map_of (List.map_filter query_pair (split_on (CHR ''&'') query)) key of None \<Rightarrow> [] | Some v \<Rightarrow> v)"

section \<open>Addresses\<close>

definition join_host_port :: "string \<Rightarrow> string \<Rightarrow> string" where
  "join_host_port host port =
     (if CHR '':'' \<in> set host then ''['' @ host @ '']:'' @ port else host @ '':'' @ port)"

section \<open>Base64\<close>

definition b64_alphabet :: string where
  "b64_alphabet = ''ABCDEFGHIJKLMNOPQRSTUVWXYZabcdefghijklmnopqrstuvwxyz0123456789+/''"

definition b64_digit :: "nat \<Rightarrow> char" where
  "b64_digit n = b64_alphabet ! n"

definition b64_value :: "char \<Rightarrow> nat option" where
  "b64_value c = map_of (zip b64_alphabet [0..<64]) c"

fun b64_encode :: "string \<Rightarrow> string" where
  "b64_encode [] = []"
| "b64_encode [a] =
     (let x = (of_char a :: nat) in [b64_digit (x div 4), b64_digit (x mod 4 * 16), CHR ''='', CHR ''=''])"
| "b64_encode [a, b] =
     (let x = (of_char a :: nat); y = of_char b in
      [b64_digit (x div 4), b64_digit (x mod 4 * 16 + y div 16), b64_digit (y mod 16 * 4), CHR ''=''])"
| "b64_encode (a # b # c # rest) =
     (let x = (of_char a :: nat); y = of_char b; z = of_char c in
      [b64_digit (x div 4), b64_digit (x mod 4 * 16 + y div 16), b64_digit (y mod 16 * 4 + z div 64),
       b64_digit (z mod 64)] @ b64_encode rest)"

fun b64_groups :: "string \<Rightarrow> string option" where
  "b64_groups [] = Some []"
| "b64_groups (a # b # c # d # rest) =
     (case (b64_value a, b64_value b) of
        (Some x, Some y) \<Rightarrow>
          if rest = [] \<and> c = CHR ''='' \<and> d = CHR ''='' then Some [char_of (x * 4 + y div 16)]
          else (case b64_value c of
             None \<Rightarrow> None
           | Some z \<Rightarrow>
               if rest = [] \<and> d = CHR ''=''
               then Some [char_of (x * 4 + y div 16), char_of (y mod 16 * 16 + z div 4)]
               else (case (b64_value d, b64_groups rest) of
                  (Some w, Some out) \<Rightarrow>
                    Some ([char_of (x * 4 + y div 16), char_of (y mod 16 * 16 + z div 4),
                           char_of (z mod 4 * 64 + w)] @ out)
                | _ \<Rightarrow> None))
      | _ \<Rightarrow> None)"
| "b64_groups _ = None"

definition b64_decode :: "string \<Rightarrow> string option" where
  "b64_decode s = b64_groups (filter (\<lambda>c. c \<noteq> CHR 0x0A \<and> c \<noteq> CHR 0x0D) s)"

end
