(* ===== verification/Minio_Client.thy ===== *)
theory Minio_Client
  imports Go_Url Minio_Policy Deployer Go_Results
begin

text \<open>
  \<open>internal/oss/minio.go\<close>: the object store client on the \<open>mc\<close> command line. The tool and the
  temporary files are a record of operations; the state is the flag \<open>aliasReady\<close> beside the world
  of the tool, as in \<open>minio_admin.go\<close>. \<open>minio_storage\<close> fills the store interface the deployer uses.
\<close>

section \<open>Configuration\<close>

record mc_config = oss_config +
  mcf_binary :: string
  mcf_storage_prefix :: string

record oss_credentials =
  ok_access_key_id :: string
  ok_access_key_secret :: string
  ok_security_token :: string

text \<open>
  A run of the tool gets its binary, the additional environment binding and its arguments; it
  ends with its standard output, or with the text of the error (such as \<open>exit status 1\<close>) and its
  error output.
\<close>

record 'w mc_tool =
  mt_run :: "string \<Rightarrow> string option \<Rightarrow> string list \<Rightarrow> ('w, string \<times> string + string) state"
  mt_create_temp :: "('w, string result) state"
  mt_write :: "string \<Rightarrow> string \<Rightarrow> ('w, go_error option) state"
  mt_remove :: "string \<Rightarrow> ('w, unit) state"

record 'w minio_client =
  mi_config :: mc_config
  mi_credentials :: "('w, oss_credentials result) state option"
  mi_tool :: "'w mc_tool"

definition new_minio_client :: "mc_config \<Rightarrow> 'w mc_tool \<Rightarrow> 'w minio_client" where
  "new_minio_client cfg tool =
     (let cfg1 = (if mcf_binary cfg = [] then cfg\<lparr>mcf_binary := ''mc''\<rparr> else cfg);
          cfg2 = (if oc_alias cfg1 = [] then cfg1\<lparr>oc_alias := ''hiclaw''\<rparr> else cfg1)
      in \<lparr>mi_config = cfg2, mi_credentials = None, mi_tool = tool\<rparr>)"

definition with_credential_source :: "('w, oss_credentials result) state \<Rightarrow> 'w minio_client \<Rightarrow> 'w minio_client" where
  "with_credential_source src c = c\<lparr>mi_credentials := Some src\<rparr>"

section \<open>The host binding\<close>

text \<open>
  \<open>url.Parse\<close> of a text that starts with a scheme \<open>http\<close> or \<open>https\<close>, as far as scheme and host are
  concerned; the zone of a bracketed address is not treated apart.
\<close>

definition parse_endpoint :: "string \<Rightarrow> (string \<times> string) result" where
  "parse_endpoint url =
     (let scheme = (if has_prefix url ''https://'' then ''https'' else ''http'');
          rest = drop (length scheme + 3) url;
          auth = takeWhile (\<lambda>c. c \<notin> set ''/?#'') rest;
          tail = drop (length auth) rest;
          path = takeWhile (\<lambda>c. c \<notin> set ''?#'') tail;
          frag = drop 1 (dropWhile (\<lambda>c. c \<noteq> CHR ''#'') tail);
          bad = Inl (Err (''parse '' @ go_quote url))
      in if list_ex is_ctl url \<or> \<not> escapes_ok path \<or> \<not> escapes_ok frag then bad
         else (case (case str_last_index auth ''@'' of
                       None \<Rightarrow> parse_host auth
                     | Some i \<Rightarrow>
                         if list_all userinfo_char (take i auth) \<and> escapes_ok (take i auth)
                         then parse_host (drop (Suc i) auth) else None) of
                 None \<Rightarrow> bad
               | Some host \<Rightarrow> Inr (scheme, host)))"

definition build_mc_host_env :: "string \<Rightarrow> string \<Rightarrow> oss_credentials \<Rightarrow> string result" where
  "build_mc_host_env al endpoint c =
     (if endpoint = []
      then Inl (Err ''storage endpoint is not configured (HICLAW_FS_ENDPOINT is empty)'')
      else
        let normalized = (if \<not> has_prefix endpoint ''http://'' \<and> \<not> has_prefix endpoint ''https://''
                          then ''https://'' @ endpoint else endpoint)
        in (case parse_endpoint normalized of
              Inl e \<Rightarrow> Inl (Wrap (''parse endpoint '' @ go_quote endpoint) e)
            | Inr (scheme, host) \<Rightarrow>
                if scheme = [] \<or> host = []
                then Inl (Err (''endpoint '' @ go_quote endpoint @ '' must include scheme and host''))
                else
                  let userinfo = ok_access_key_id c @ '':'' @ ok_access_key_secret c @
                        (if ok_security_token c \<noteq> [] then '':'' @ ok_security_token c else [])
                  in Inr (''MC_HOST_'' @ al @ ''='' @ scheme @ ''://'' @ userinfo @ ''@'' @ host)))"

section \<open>Running the tool\<close>

definition mc_error :: "string list \<Rightarrow> string \<Rightarrow> string \<Rightarrow> go_error" where
  "mc_error args what err_out =
     Err (''mc '' @ join_with '' '' args @ '': '' @ what @ '' (stderr: '' @ trim_space err_out @ '')'')"

definition run_mc_with :: "'w minio_client \<Rightarrow> string option \<Rightarrow> string list \<Rightarrow> ('w, string result) state" where
  "run_mc_with c env args = do {
     r \<leftarrow> mt_run (mi_tool c) (mcf_binary (mi_config c)) env args;
     State_Monad.return
       (case r of
          Inr out \<Rightarrow> Inr out
        | Inl (what, err_out) \<Rightarrow> Inl (mc_error args what err_out)) }"

definition run_mc :: "'w minio_client \<Rightarrow> string list \<Rightarrow> ('w, string result) state" where
  "run_mc c args =
     (case mi_credentials c of
        None \<Rightarrow> run_mc_with c None args
      | Some src \<Rightarrow>
          try_state (wrap_result ''resolve oss credentials'' src) (\<lambda>creds.
            (case build_mc_host_env (oc_alias (mi_config c)) (oc_endpoint (mi_config c)) creds of
               Inl e \<Rightarrow> State_Monad.return (Inl e)
             | Inr env \<Rightarrow> run_mc_with c (Some env) args)))"

text \<open>A run whose output is not used.\<close>

definition run_mc_only :: "'w minio_client \<Rightarrow> string list \<Rightarrow> ('w, go_error option) state" where
  "run_mc_only c args = use_state (run_mc c args) (\<lambda>_. State_Monad.return None)"

definition ensure_mc_alias :: "'w minio_client \<Rightarrow> (bool \<times> 'w, go_error option) state" where
  "ensure_mc_alias c =
     (if mi_credentials c \<noteq> None then State_Monad.return None
      else do {
        s \<leftarrow> State_Monad.get;
        (if fst s \<or> oc_endpoint (mi_config c) = [] then State_Monad.return None
         else do {
           r \<leftarrow> on_second (run_mc c [''alias'', ''set'', oc_alias (mi_config c), oc_endpoint (mi_config c),
                  oc_access_key (mi_config c), oc_secret_key (mi_config c)]);
           (case r of
              Inl e \<Rightarrow> State_Monad.return (Some (Wrap ''mc alias set'' e))
            | Inr _ \<Rightarrow> do {
                s' \<leftarrow> State_Monad.get;
                _ \<leftarrow> State_Monad.set (True, snd s');
                State_Monad.return None }) }) })"

definition mc_full_path :: "'w minio_client \<Rightarrow> string \<Rightarrow> string" where
  "mc_full_path c key = mcf_storage_prefix (mi_config c) @ ''/'' @ trim_prefix key ''/''"

section \<open>Operations\<close>

definition mc_missing :: "go_error \<Rightarrow> bool" where
  "mc_missing e \<longleftrightarrow> str_contains (err_text e) ''Object does not exist'' \<or> str_contains (err_text e) ''exit status''"

definition mc_put_file :: "'w minio_client \<Rightarrow> string \<Rightarrow> string \<Rightarrow> (bool \<times> 'w, go_error option) state" where
  "mc_put_file c local_path key =
     then_step (ensure_mc_alias c) (on_second (run_mc_only c [''cp'', local_path, mc_full_path c key]))"

definition mc_put_object :: "'w minio_client \<Rightarrow> string \<Rightarrow> string \<Rightarrow> (bool \<times> 'w, go_error option) state" where
  "mc_put_object c key data =
     then_step (ensure_mc_alias c)
       (use_state (wrap_result ''create temp file'' (on_second (mt_create_temp (mi_tool c)))) (\<lambda>tmp. do {
          e \<leftarrow> then_step (wrap_error ''write temp file'' (on_second (mt_write (mi_tool c) tmp data)))
                 (mc_put_file c tmp key);
          _ \<leftarrow> on_second (mt_remove (mi_tool c) tmp);
          State_Monad.return e }))"

definition mc_get_object :: "'w minio_client \<Rightarrow> string \<Rightarrow> (bool \<times> 'w, string result) state" where
  "mc_get_object c key =
     check_state (ensure_mc_alias c) (do {
       r \<leftarrow> on_second (run_mc c [''cat'', mc_full_path c key]);
       State_Monad.return
         (case r of Inl e \<Rightarrow> if mc_missing e then Inl OsNotExist else Inl e | Inr out \<Rightarrow> Inr out) })"

definition mc_stat :: "'w minio_client \<Rightarrow> string \<Rightarrow> (bool \<times> 'w, go_error option) state" where
  "mc_stat c key =
     then_step (ensure_mc_alias c) (do {
       r \<leftarrow> on_second (run_mc c [''stat'', mc_full_path c key]);
       State_Monad.return
         (case r of Inl e \<Rightarrow> Some (if mc_missing e then OsNotExist else e) | Inr out \<Rightarrow> None) })"

definition mc_delete_object :: "'w minio_client \<Rightarrow> string \<Rightarrow> (bool \<times> 'w, go_error option) state" where
  "mc_delete_object c key =
     then_step (ensure_mc_alias c) (on_second (run_mc_only c [''rm'', mc_full_path c key]))"

definition mc_mirror_args :: "'w minio_client \<Rightarrow> string \<Rightarrow> string \<Rightarrow> bool \<Rightarrow> string list \<Rightarrow> string list" where
  "mc_mirror_args c src dst overwrite exclude =
     (let at = (\<lambda>p. if has_prefix p ''/'' then p else mc_full_path c p)
      in [''mirror'', at src, at dst] @ (if overwrite then [''--overwrite''] else []) @
         concat (map (\<lambda>p. [''--exclude'', p]) exclude))"

definition mc_mirror :: "'w minio_client \<Rightarrow> string \<Rightarrow> string \<Rightarrow> bool \<Rightarrow> string list \<Rightarrow> (bool \<times> 'w, go_error option) state" where
  "mc_mirror c src dst overwrite exclude =
     then_step (ensure_mc_alias c) (on_second (run_mc_only c (mc_mirror_args c src dst overwrite exclude)))"

definition mc_delete_prefix :: "'w minio_client \<Rightarrow> string \<Rightarrow> (bool \<times> 'w, go_error option) state" where
  "mc_delete_prefix c pfx =
     then_step (ensure_mc_alias c) (on_second (run_mc_only c [''rm'', ''--recursive'', ''--force'', mc_full_path c pfx]))"

text \<open>\<open>strings.Fields\<close>, and the name at the end of a line \<open>mc ls\<close> prints.\<close>

definition text_fields :: "string \<Rightarrow> string list" where
  "text_fields s = filter (\<lambda>w. w \<noteq> []) (split_on (CHR 0x20) (map (\<lambda>c. if is_space c then CHR 0x20 else c) s))"

definition listed_names :: "string \<Rightarrow> string list" where
  "listed_names out =
     List.map_filter (\<lambda>l. let line = trim_space l; parts = text_fields line in
       if line = [] \<or> parts = [] then None else Some (last parts)) (split_on (CHR 0x0A) out)"

definition mc_list_objects :: "'w minio_client \<Rightarrow> string \<Rightarrow> (bool \<times> 'w, string list result) state" where
  "mc_list_objects c pfx =
     check_state (ensure_mc_alias c)
       (try_state (on_second (run_mc c [''ls'', mc_full_path c pfx]))
          (\<lambda>out. State_Monad.return (Inr (listed_names out))))"

definition mc_ensure_bucket :: "'w minio_client \<Rightarrow> (bool \<times> 'w, go_error option) state" where
  "mc_ensure_bucket c =
     then_step (ensure_mc_alias c)
       (on_second (run_mc_only c [''mb'', oc_alias (mi_config c) @ ''/'' @ oc_bucket (mi_config c), ''--ignore-existing'']))"

definition minio_storage :: "'w minio_client \<Rightarrow> (bool \<times> 'w) agent_storage" where
  "minio_storage c =
     \<lparr>so_get = mc_get_object c, so_put = mc_put_object c, so_stat = mc_stat c, so_delete = mc_delete_object c,
      so_list = mc_list_objects c, so_delete_prefix = mc_delete_prefix c, so_put_file = mc_put_file c,
      so_mirror = (\<lambda>src dst. mc_mirror c src dst True [])\<rparr>"

end
