(* ===== verification/Minio_Properties.thy ===== *)
theory Minio_Properties
  imports Minio_Client
begin

text \<open>
  What the object store client makes of the \<open>mc\<close> tool: the locale states what the tool does with
  the subcommands the client uses while it reaches the store. With such a tool the client is a map
  from keys to objects; when the tool fails, the client cannot tell a failure from a missing object,
  and the deployer replaces what it did not see.
\<close>

section \<open>The tool\<close>

text \<open>Every error of a tool that ran and failed names its exit status.\<close>

lemma exit_status_missing: "mc_missing (mc_error args (''exit status '' @ code) err_out)"
proof -
  have "err_text (mc_error args (''exit status '' @ code) err_out) =
      (''mc '' @ join_with '' '' args @ '': '') @ ''exit status'' @ ('' '' @ code @ '' (stderr: '' @ trim_space err_out @ '')'')"
    by (simp add: mc_error_def)
  then have "str_contains (err_text (mc_error args (''exit status '' @ code) err_out)) ''exit status''"
    by (subst str_contains_iff) (simp, metis)
  then show ?thesis by (simp add: mc_missing_def)
qed

lemmas exit_1_missing = exit_status_missing [where code = "''1''", simplified]

locale mc_semantics =
  fixes tool :: "'w mc_tool"
    and objects :: "'w \<Rightarrow> string \<Rightarrow> string option"
    and files :: "'w \<Rightarrow> string \<Rightarrow> string option"
    and up :: "'w \<Rightarrow> bool"
  assumes cat_ok: "up w \<Longrightarrow> run_state (mt_run tool bin env [''cat'', p]) w =
        ((case objects w p of None \<Rightarrow> Inl (''exit status 1'', ''Object does not exist'') | Some d \<Rightarrow> Inr d), w)"
    and stat_ok: "up w \<Longrightarrow> \<exists>out. run_state (mt_run tool bin env [''stat'', p]) w =
        ((case objects w p of None \<Rightarrow> Inl (''exit status 1'', ''Object does not exist'') | Some d \<Rightarrow> Inr out), w)"
    and cp_ok: "up w \<Longrightarrow> files w f = Some d \<Longrightarrow> \<exists>out w'. run_state (mt_run tool bin env [''cp'', f, p]) w = (Inr out, w') \<and>
        up w' \<and> objects w' = (objects w)(p \<mapsto> d)"
    and rm_ok: "up w \<Longrightarrow> objects w p \<noteq> None \<Longrightarrow> \<exists>out w'. run_state (mt_run tool bin env [''rm'', p]) w = (Inr out, w') \<and>
        up w' \<and> objects w' = (objects w)(p := None)"
    and alias_ok: "up w \<Longrightarrow> \<exists>out w'. run_state (mt_run tool bin env [''alias'', ''set'', a, e, k, s]) w = (Inr out, w') \<and>
        up w' \<and> objects w' = objects w \<and> files w' = files w"
    and temp_ok: "up w \<Longrightarrow> \<exists>f w'. run_state (mt_create_temp tool) w = (Inr f, w') \<and> up w' \<and> objects w' = objects w"
    and write_ok: "up w \<Longrightarrow> \<exists>w'. run_state (mt_write tool f d) w = (None, w') \<and> up w' \<and> objects w' = objects w \<and>
        files w' f = Some d"
    and remove_ok: "up w \<Longrightarrow> \<exists>w'. run_state (mt_remove tool f) w = ((), w') \<and> up w' \<and> objects w' = objects w"
begin

text \<open>A client with static keys; the alias is set at most once and changes no object.\<close>

definition static_client :: "'w minio_client \<Rightarrow> bool" where
  "static_client c \<longleftrightarrow> mi_tool c = tool \<and> mi_credentials c = None"

lemma run_mc_static: "static_client c \<Longrightarrow> run_mc c args = run_mc_with c None args"
  by (simp add: static_client_def run_mc_def)

lemma static_tool: "static_client c \<Longrightarrow> mi_tool c = tool"
  by (simp add: static_client_def)

lemma alias_set:
  assumes c: "static_client c" and up: "up (snd s)"
  shows "\<exists>b w'. run_state (ensure_mc_alias c) s = (None, (b, w')) \<and> up w' \<and> objects w' = objects (snd s) \<and>
    files w' = files (snd s)"
proof (cases "fst s \<or> oc_endpoint (mi_config c) = []")
  case True
  then show ?thesis
    using c up by (cases s) (auto simp: ensure_mc_alias_def static_client_def)
next
  case False
  obtain out w' where "run_state (mt_run tool (mcf_binary (mi_config c)) None [''alias'', ''set'', oc_alias (mi_config c),
      oc_endpoint (mi_config c), oc_access_key (mi_config c), oc_secret_key (mi_config c)]) (snd s) = (Inr out, w')"
    "up w'" "objects w' = objects (snd s)" "files w' = files (snd s)"
    using alias_ok [OF up] by blast
  then show ?thesis
    using c False
    by (cases s) (auto simp: ensure_mc_alias_def static_client_def run_mc_def run_mc_with_def run_on_second)
qed

lemma mc_get_reads:
  assumes c: "static_client c" and up: "up (snd s)"
  shows "\<exists>s'. run_state (mc_get_object c key) s =
      ((case objects (snd s) (mc_full_path c key) of None \<Rightarrow> Inl OsNotExist | Some d \<Rightarrow> Inr d), s') \<and>
    up (snd s') \<and> objects (snd s') = objects (snd s)"
proof -
  obtain b w' where a: "run_state (ensure_mc_alias c) s = (None, (b, w'))" "up w'" "objects w' = objects (snd s)"
    using alias_set [OF c up] by blast
  show ?thesis
    using a(2,3) cat_ok [OF a(2), of _ _ "mc_full_path c key"]
    by (auto simp: mc_get_object_def run_check_state a(1) run_mc_static [OF c] run_mc_with_def static_tool [OF c]
        run_on_second exit_1_missing split: option.splits)
qed

lemma mc_stat_reads:
  assumes c: "static_client c" and up: "up (snd s)"
  shows "\<exists>s'. run_state (mc_stat c key) s =
      ((if objects (snd s) (mc_full_path c key) = None then Some OsNotExist else None), s') \<and>
    up (snd s') \<and> objects (snd s') = objects (snd s)"
proof -
  obtain b w' where a: "run_state (ensure_mc_alias c) s = (None, (b, w'))" "up w'" "objects w' = objects (snd s)"
    using alias_set [OF c up] by blast
  obtain out where "run_state (mt_run tool (mcf_binary (mi_config c)) None [''stat'', mc_full_path c key]) w' =
      ((case objects w' (mc_full_path c key) of None \<Rightarrow> Inl (''exit status 1'', ''Object does not exist'') | Some d \<Rightarrow> Inr out), w')"
    using stat_ok [OF a(2)] by blast
  then show ?thesis
    using a(2,3)
    by (auto simp: mc_stat_def then_step_def a(1) run_mc_static [OF c] run_mc_with_def static_tool [OF c]
        run_on_second exit_1_missing split: option.splits)
qed

lemma mc_put_file_writes:
  assumes c: "static_client c" and up: "up (snd s)" and f: "files (snd s) f = Some d"
  shows "\<exists>s'. run_state (mc_put_file c f key) s = (None, s') \<and> up (snd s') \<and>
    objects (snd s') = (objects (snd s))(mc_full_path c key \<mapsto> d)"
proof -
  obtain b w' where a: "run_state (ensure_mc_alias c) s = (None, (b, w'))" "up w'" "objects w' = objects (snd s)"
      "files w' f = Some d"
    using alias_set [OF c up] f by metis
  then show ?thesis
    using cp_ok [OF a(2,4), of "mcf_binary (mi_config c)" None "mc_full_path c key"]
    by (auto simp: mc_put_file_def then_step_def a(1) run_mc_only_def run_use_state run_mc_static [OF c] run_mc_with_def
        static_tool [OF c] run_on_second)
qed

lemma mc_put_writes:
  assumes c: "static_client c" and up: "up (snd s)"
  shows "\<exists>s'. run_state (mc_put_object c key d) s = (None, s') \<and> up (snd s') \<and>
    objects (snd s') = (objects (snd s))(mc_full_path c key \<mapsto> d)"
proof -
  obtain b w1 where a: "run_state (ensure_mc_alias c) s = (None, (b, w1))" "up w1" "objects w1 = objects (snd s)"
    using alias_set [OF c up] by blast
  obtain f w2 where t: "run_state (mt_create_temp tool) w1 = (Inr f, w2)" "up w2" "objects w2 = objects (snd s)"
    using temp_ok [OF a(2)] a(3) by metis
  obtain w3 where w: "run_state (mt_write tool f d) w2 = (None, w3)" "up w3" "objects w3 = objects (snd s)"
      "files w3 f = Some d"
    using write_ok [OF t(2)] t(3) by metis
  obtain s4 where p: "run_state (mc_put_file c f key) (b, w3) = (None, s4)" "up (snd s4)"
      "objects (snd s4) = (objects (snd s))(mc_full_path c key \<mapsto> d)"
    using mc_put_file_writes [OF c, of "(b, w3)" f d key] w by auto
  obtain w5 where "run_state (mt_remove tool f) (snd s4) = ((), w5)" "up w5" "objects w5 = objects (snd s4)"
    using remove_ok [OF p(2)] by blast
  then show ?thesis
    using p by (simp add: mc_put_object_def then_step_def a(1) run_use_state run_wrap_result wrap_error_def
        static_tool [OF c] run_on_second t(1) w(1))
qed

lemma mc_delete_removes:
  assumes c: "static_client c" and up: "up (snd s)" and present: "objects (snd s) (mc_full_path c key) \<noteq> None"
  shows "\<exists>s'. run_state (mc_delete_object c key) s = (None, s') \<and> up (snd s') \<and>
    objects (snd s') = (objects (snd s))(mc_full_path c key := None)"
proof -
  obtain b w' where a: "run_state (ensure_mc_alias c) s = (None, (b, w'))" "up w'" "objects w' = objects (snd s)"
    using alias_set [OF c up] by blast
  have "objects w' (mc_full_path c key) \<noteq> None"
    using a(3) present by simp
  then show ?thesis
    using rm_ok [OF a(2), of "mc_full_path c key" "mcf_binary (mi_config c)" None] a(3)
    by (auto simp: mc_delete_object_def then_step_def a(1) run_mc_only_def run_use_state run_mc_static [OF c]
        run_mc_with_def static_tool [OF c] run_on_second)
qed

end

section \<open>The client as a map\<close>

text \<open>The objects by the keys the services use: relative to the storage prefix, without a leading slash.\<close>

definition stored :: "('w \<Rightarrow> string \<Rightarrow> string option) \<Rightarrow> 'w minio_client \<Rightarrow> bool \<times> 'w \<Rightarrow> string \<Rightarrow> string option" where
  "stored objects c s key = (if has_prefix key ''/'' then None else objects (snd s) (mc_full_path c key))"

lemma full_path_plain:
  "\<not> has_prefix key ''/'' \<Longrightarrow> mc_full_path c key = mcf_storage_prefix (mi_config c) @ ''/'' @ key"
  by (simp add: mc_full_path_def trim_prefix_def)

lemma stored_update:
  assumes "\<not> has_prefix key ''/''" "objects (snd s') = (objects (snd s))(mc_full_path c key := v)"
  shows "stored objects c s' = (stored objects c s)(key := v)"
  using assms by (auto simp: stored_def fun_eq_iff full_path_plain)


section \<open>A failure looks like a missing object\<close>

text \<open>Whenever the tool runs and exits with an error status, whatever the reason (no network, bad
  credentials, a missing bucket), reading an object and checking its status report that it does not
  exist.\<close>

lemma failure_reads_as_missing:
  assumes "mi_credentials c = None" "oc_endpoint (mi_config c) = [] \<or> fst s"
    "\<And>op. run_state (mt_run (mi_tool c) (mcf_binary (mi_config c)) None [op, mc_full_path c key]) (snd s) =
      (Inl (''exit status '' @ code, err_out), w)"
  shows "fst (run_state (mc_get_object c key) s) = Inl OsNotExist \<and>
    fst (run_state (mc_stat c key) s) = Some OsNotExist"
  using assms exit_status_missing
  by (cases s) (auto simp: mc_get_object_def mc_stat_def check_state_def then_step_def ensure_mc_alias_def run_mc_def
      run_mc_with_def run_on_second)


section \<open>A simulated tool\<close>

text \<open>Objects, local files, and how many runs still fail before the store is reached again.\<close>

record mc_world =
  mw_objects :: smap
  mw_files :: smap
  mw_failing :: nat

definition sim_result :: "string option \<Rightarrow> string \<times> string + string" where
  "sim_result v = (case v of None \<Rightarrow> Inl (''exit status 1'', ''Object does not exist'') | Some d \<Rightarrow> Inr d)"

definition sim_mc :: "string list \<Rightarrow> mc_world \<Rightarrow> (string \<times> string + string) \<times> mc_world" where
  "sim_mc args w =
     (if mw_failing w > 0 then (Inl (''exit status 1'', ''connection refused''), w\<lparr>mw_failing := mw_failing w - 1\<rparr>)
      else (case args of
        [op, p] \<Rightarrow>
          if op = ''cat'' then (sim_result (map_of (mw_objects w) p), w)
          else if op = ''stat'' then (sim_result (map_option (\<lambda>d. []) (map_of (mw_objects w) p)), w)
          else (sim_result (map_option (\<lambda>d. []) (map_of (mw_objects w) p)),
                w\<lparr>mw_objects := AList.delete p (mw_objects w)\<rparr>)
      | [op, f, p] \<Rightarrow>
          (case map_of (mw_files w) f of
             None \<Rightarrow> (Inl (''exit status 1'', ''no such file''), w)
           | Some d \<Rightarrow> (Inr [], w\<lparr>mw_objects := smap_put p d (mw_objects w)\<rparr>))
      | _ \<Rightarrow> (Inr [], w)))"

definition sim_tool :: "mc_world mc_tool" where
  "sim_tool =
     \<lparr>mt_run = (\<lambda>bin env args. State (sim_mc args)), mt_create_temp = State_Monad.return (Inr ''/tmp/hiclaw-oss''),
      mt_write = (\<lambda>f d. State (\<lambda>w. (None, w\<lparr>mw_files := smap_put f d (mw_files w)\<rparr>))),
      mt_remove = (\<lambda>f. State (\<lambda>w. ((), w\<lparr>mw_files := AList.delete f (mw_files w)\<rparr>)))\<rparr>"

interpretation sim: mc_semantics sim_tool "\<lambda>w. map_of (mw_objects w)" "\<lambda>w. map_of (mw_files w)" "\<lambda>w. mw_failing w = 0"
  by unfold_locales
    (auto simp: sim_tool_def sim_mc_def sim_result_def delete_conv' fun_eq_iff split: option.splits)

definition sim_client :: "mc_world minio_client" where
  "sim_client = new_minio_client
     \<lparr>oc_alias = [], oc_endpoint = ''http://minio:9000'', oc_access_key = ''root'', oc_secret_key = ''pw'',
      oc_bucket = ''hiclaw'', mcf_binary = [], mcf_storage_prefix = ''hiclaw/hiclaw''\<rparr> sim_tool"

lemma sim_client_parts:
  "mi_tool sim_client = sim_tool" "mi_credentials sim_client = None" "mcf_binary (mi_config sim_client) = ''mc''"
  "mc_full_path sim_client ''agents/alice/SOUL.md'' = ''hiclaw/hiclaw/agents/alice/SOUL.md''"
  by (simp_all add: sim_client_def new_minio_client_def mc_full_path_def Let_def) (simp add: trim_prefix_def has_prefix_def)


definition fresh_deploy :: worker_deploy_request where
  "fresh_deploy =
     \<lparr>yq_name = ''alice'', yq_spec = zero_worker_spec, yq_role = ''standalone'', yq_team_name = [],
      yq_team_leader_name = [], yq_matrix_token = ''syt'', yq_gateway_key = ''key'', yq_matrix_password = ''pw'',
      yq_ai_gateway_url = [], yq_mcp_servers = [], yq_team_admin_matrix_id = [], yq_team_coordinator_ids = [],
      yq_heartbeat = None, yq_is_update = False\<rparr>"


end
