(* ===== verification/Api_Server.thy ===== *)
theory Api_Server
  imports Auth_Middleware Backend_Core
begin

text \<open>
  \<open>internal/server/types.go\<close> and \<open>internal/server/resource_handler.go\<close>: the handlers of the REST API
  that create, read, update and delete the four resources. A handler gets the request decoded
  into its struct (or the decoding error), the name in the path and the caller, and returns the
  response it writes. Pointers and slices that may be nil in an update are options. The pauses
  between update attempts are left out.
\<close>

section \<open>Requests and responses\<close>

record create_worker_request =
  cwr_name :: string
  cwr_worker_name :: string
  cwr_model :: string
  cwr_model_provider :: string
  cwr_runtime :: string
  cwr_image :: string
  cwr_identity :: string
  cwr_soul :: string
  cwr_agents :: string
  cwr_skills :: "string list"
  cwr_mcp_servers :: "mcp_server list"
  cwr_package :: string
  cwr_expose :: "expose_port list"
  cwr_channel_policy :: "channel_policy_spec option"
  cwr_resources :: "agent_resource_requirements option"
  cwr_container_managed :: "bool option"
  cwr_state :: "string option"
  cwr_team :: string
  cwr_team_leader :: string
  cwr_role :: string

record update_worker_request =
  uwr_worker_name :: string
  uwr_model :: string
  uwr_model_provider :: string
  uwr_runtime :: string
  uwr_image :: string
  uwr_identity :: string
  uwr_soul :: string
  uwr_agents :: string
  uwr_skills :: "string list option"
  uwr_mcp_servers :: "mcp_server list option"
  uwr_package :: string
  uwr_expose :: "expose_port list option"
  uwr_channel_policy :: "channel_policy_spec option"
  uwr_resources :: "agent_resource_requirements option"
  uwr_container_managed :: "bool option"
  uwr_state :: "string option"

record worker_response =
  wrs_name :: string
  wrs_phase :: string
  wrs_container_managed :: bool
  wrs_state :: string
  wrs_model :: string
  wrs_runtime :: string
  wrs_image :: string
  wrs_container_state :: string
  wrs_matrix_user_id :: string
  wrs_room_id :: string
  wrs_message :: string
  wrs_exposed_ports :: "exposed_port_status list"
  wrs_team :: string
  wrs_role :: string

text \<open>\<open>ExposedPortInfo\<close> has the two fields of \<open>exposed_port_status\<close>.\<close>

record heartbeat_request =
  hbr_enabled :: "bool option"
  hbr_every :: string

record team_leader_request =
  tlr_name :: string
  tlr_worker_name :: string
  tlr_model :: string
  tlr_model_provider :: string
  tlr_identity :: string
  tlr_soul :: string
  tlr_agents :: string
  tlr_package :: string
  tlr_mcp_servers :: "mcp_server list option"
  tlr_heartbeat :: "heartbeat_request option"
  tlr_worker_idle_timeout :: string
  tlr_channel_policy :: "channel_policy_spec option"
  tlr_state :: "string option"
  tlr_resources :: "agent_resource_requirements option"

record team_worker_request =
  twr_name :: string
  twr_worker_name :: string
  twr_model :: string
  twr_model_provider :: string
  twr_runtime :: string
  twr_image :: string
  twr_identity :: string
  twr_soul :: string
  twr_agents :: string
  twr_skills :: "string list"
  twr_mcp_servers :: "mcp_server list"
  twr_package :: string
  twr_expose :: "expose_port list"
  twr_channel_policy :: "channel_policy_spec option"
  twr_state :: "string option"
  twr_resources :: "agent_resource_requirements option"

record create_team_request =
  ctr_name :: string
  ctr_team_name :: string
  ctr_description :: string
  ctr_admin :: "team_admin_spec option"
  ctr_human_members :: "team_member_spec list"
  ctr_leader :: team_leader_request
  ctr_workers :: "team_worker_request list"
  ctr_peer_mentions :: "bool option"
  ctr_channel_policy :: "channel_policy_spec option"

record update_team_request =
  utr_team_name :: string
  utr_description :: string
  utr_admin :: "team_admin_spec option"
  utr_human_members :: "team_member_spec list option"
  utr_leader :: "team_leader_request option"
  utr_workers :: "team_worker_request list option"
  utr_peer_mentions :: "bool option"
  utr_channel_policy :: "channel_policy_spec option"

record team_response =
  trs_name :: string
  trs_team_name :: string
  trs_phase :: string
  trs_description :: string
  trs_admin :: "team_admin_spec option"
  trs_human_members :: "team_member_spec list"
  trs_leader_name :: string
  trs_leader_heartbeat :: "team_leader_heartbeat option"
  trs_worker_idle_timeout :: string
  trs_team_room_id :: string
  trs_leader_dm_room_id :: string
  trs_leader_ready :: bool
  trs_ready_workers :: int
  trs_total_workers :: int
  trs_message :: string
  trs_worker_names :: "string list"
  trs_worker_exposed_ports :: "(string \<times> exposed_port_status list) list"

record create_human_request =
  chr_name :: string
  chr_display_name :: string
  chr_email :: string
  chr_permission_level :: int
  chr_accessible_teams :: "string list"
  chr_accessible_workers :: "string list"
  chr_note :: string

record human_response =
  hrs_name :: string
  hrs_phase :: string
  hrs_display_name :: string
  hrs_matrix_user_id :: string
  hrs_initial_password :: string
  hrs_rooms :: "string list"
  hrs_message :: string

record create_manager_request =
  cmr_name :: string
  cmr_model :: string
  cmr_model_provider :: string
  cmr_runtime :: string
  cmr_image :: string
  cmr_soul :: string
  cmr_agents :: string
  cmr_skills :: "string list"
  cmr_mcp_servers :: "mcp_server list"
  cmr_package :: string
  cmr_config :: "manager_config option"
  cmr_state :: "string option"
  cmr_resources :: "agent_resource_requirements option"

record update_manager_request =
  umr_model :: string
  umr_model_provider :: string
  umr_runtime :: string
  umr_image :: string
  umr_soul :: string
  umr_agents :: string
  umr_skills :: "string list option"
  umr_mcp_servers :: "mcp_server list option"
  umr_package :: string
  umr_config :: "manager_config option"
  umr_state :: "string option"
  umr_resources :: "agent_resource_requirements option"

record manager_response =
  mrs_name :: string
  mrs_phase :: string
  mrs_state :: string
  mrs_model :: string
  mrs_runtime :: string
  mrs_image :: string
  mrs_matrix_user_id :: string
  mrs_room_id :: string
  mrs_version :: string
  mrs_message :: string
  mrs_welcome_sent :: bool

text \<open>
  What a handler writes: a JSON body, the error body with its message, a bare status, or nothing.
  The list responses are the list; their total is its length.
\<close>

datatype 'b api_response = Api_Json nat 'b | Api_Error nat string | Api_Status nat | Api_Silent

section \<open>The Kubernetes client\<close>

text \<open>
  The typed client for one kind, by namespace and name; the operations that write return the
  object as the server answered it.
\<close>

record ('w, 'r) kind_client =
  kc_get :: "string \<Rightarrow> string \<Rightarrow> ('w, 'r result) state"
  kc_list :: "string \<Rightarrow> ('w, 'r list result) state"
  kc_create :: "'r \<Rightarrow> ('w, 'r result) state"
  kc_update :: "'r \<Rightarrow> ('w, 'r result) state"
  kc_status_update :: "'r \<Rightarrow> ('w, 'r result) state"
  kc_delete :: "string \<Rightarrow> string \<Rightarrow> ('w, go_error option) state"

record 'w resource_handler =
  rh_workers :: "('w, worker) kind_client"
  rh_teams :: "('w, team) kind_client"
  rh_humans :: "('w, human) kind_client"
  rh_managers :: "('w, manager) kind_client"
  rh_namespace :: string
  rh_backends :: "'w worker_backend list option"
  rh_controller_name :: string

definition write_k8s_error :: "string \<Rightarrow> go_error \<Rightarrow> 'b api_response" where
  "write_k8s_error op err =
     (if is_api_not_found err then Api_Error 404 (op @ '': not found'')
      else if is_api_exists err then Api_Error 409 (op @ '': already exists'')
      else if is_api_conflict err then Api_Error 409 (op @ '': conflict (object modified, retry)'')
      else Api_Error 500 (op @ '': '' @ err_text err))"

definition stamp_controller_label :: "'w resource_handler \<Rightarrow> object_meta \<Rightarrow> object_meta" where
  "stamp_controller_label h meta =
     (if rh_controller_name h = [] then meta
      else meta\<lparr>om_labels := smap_put ''hiclaw.io/controller'' (rh_controller_name h) (om_labels meta)\<rparr>)"

definition new_meta :: "'w resource_handler \<Rightarrow> string \<Rightarrow> object_meta" where
  "new_meta h name =
     stamp_controller_label h (zero_meta\<lparr>om_name := name, om_namespace := rh_namespace h\<rparr>)"

text \<open>The shapes the handlers share: decoding, a required name, creation, update, deletion.\<close>

definition with_body :: "'q result \<Rightarrow> ('q \<Rightarrow> ('w, 'b api_response) state) \<Rightarrow> ('w, 'b api_response) state" where
  "with_body body k =
     (case body of
        Inl e \<Rightarrow> State_Monad.return (Api_Error 400 (''invalid JSON: '' @ err_text e))
      | Inr req \<Rightarrow> k req)"

definition require_field :: "string \<Rightarrow> string \<Rightarrow> ('w, 'b api_response) state \<Rightarrow> ('w, 'b api_response) state" where
  "require_field v message k = (if v = [] then State_Monad.return (Api_Error 400 message) else k)"

definition create_object ::
  "('w, 'r) kind_client \<Rightarrow> string \<Rightarrow> ('r \<Rightarrow> 'b) \<Rightarrow> 'r \<Rightarrow> ('w, 'b api_response) state" where
  "create_object c op resp x = do {
     r \<leftarrow> kc_create c x;
     State_Monad.return (case r of Inl e \<Rightarrow> write_k8s_error op e | Inr y \<Rightarrow> Api_Json 201 (resp y)) }"

definition get_object ::
  "('w, 'r) kind_client \<Rightarrow> string \<Rightarrow> string \<Rightarrow> ('r \<Rightarrow> 'b) \<Rightarrow> string \<Rightarrow> ('w, 'b api_response) state" where
  "get_object c ns op resp name = do {
     r \<leftarrow> kc_get c ns name;
     State_Monad.return (case r of Inl e \<Rightarrow> write_k8s_error op e | Inr y \<Rightarrow> Api_Json 200 (resp y)) }"

definition list_objects ::
  "('w, 'r) kind_client \<Rightarrow> string \<Rightarrow> string \<Rightarrow> ('r \<Rightarrow> 'b) \<Rightarrow> ('w, 'b list api_response) state" where
  "list_objects c ns op resp = do {
     r \<leftarrow> kc_list c ns;
     State_Monad.return (case r of Inl e \<Rightarrow> write_k8s_error op e | Inr ys \<Rightarrow> Api_Json 200 (map resp ys)) }"

definition delete_object ::
  "('w, 'r) kind_client \<Rightarrow> string \<Rightarrow> string \<Rightarrow> string \<Rightarrow> ('w, 'b api_response) state" where
  "delete_object c ns op name = do {
     e \<leftarrow> kc_delete c ns name;
     State_Monad.return (case e of Some err \<Rightarrow> write_k8s_error op err | None \<Rightarrow> Api_Status 204) }"

definition k8s_update_max_retries :: nat where "k8s_update_max_retries = 3"

fun update_attempts ::
  "nat \<Rightarrow> ('w, 'r) kind_client \<Rightarrow> string \<Rightarrow> string \<Rightarrow> ('r \<Rightarrow> 'r) \<Rightarrow> ('r \<Rightarrow> 'b) \<Rightarrow> string \<Rightarrow> ('w, 'b api_response) state" where
  "update_attempts 0 c ns kind change resp name = State_Monad.return Api_Silent"
| "update_attempts (Suc left) c ns kind change resp name = do {
     g \<leftarrow> kc_get c ns name;
     (case g of
        Inl e \<Rightarrow> State_Monad.return (write_k8s_error (''get '' @ kind @ '' for update'') e)
      | Inr x \<Rightarrow> do {
          u \<leftarrow> kc_update c (change x);
          (case u of
             Inl e \<Rightarrow>
               if is_api_conflict e \<and> left > 0 then update_attempts left c ns kind change resp name
               else State_Monad.return (write_k8s_error (''update '' @ kind) e)
           | Inr y \<Rightarrow> State_Monad.return (Api_Json 200 (resp y))) }) }"

text \<open>A field of an update: kept when the request leaves it empty or nil.\<close>

definition set_text :: "string \<Rightarrow> string \<Rightarrow> string" where
  "set_text new old = (if new = [] then old else new)"

definition set_pointer :: "'a option \<Rightarrow> 'a option \<Rightarrow> 'a option" where
  "set_pointer new old = (if new = None then old else new)"

definition set_slice :: "'a option \<Rightarrow> 'a \<Rightarrow> 'a" where
  "set_slice new old = (case new of None \<Rightarrow> old | Some v \<Rightarrow> v)"

lemmas set_field_defs = set_text_def set_pointer_def set_slice_def

section \<open>Responses\<close>

definition or_pending :: "string \<Rightarrow> string" where
  "or_pending phase = (if phase = [] then ''Pending'' else phase)"

definition worker_to_response :: "worker \<Rightarrow> worker_response" where
  "worker_to_response w =
     \<lparr>wrs_name = om_name (w_meta w), wrs_phase = or_pending (wst_phase (w_status w)),
      wrs_container_managed = (case ws_container_managed (w_spec w) of None \<Rightarrow> False | Some b \<Rightarrow> b),
      wrs_state = worker_desired_state (w_spec w), wrs_model = ws_model (w_spec w),
      wrs_runtime = ws_runtime (w_spec w), wrs_image = ws_image (w_spec w),
      wrs_container_state = wst_container_state (w_status w),
      wrs_matrix_user_id = wst_matrix_user_id (w_status w), wrs_room_id = wst_room_id (w_status w),
      wrs_message = wst_message (w_status w),
      wrs_exposed_ports = (case wst_exposed_ports (w_status w) of None \<Rightarrow> [] | Some ps \<Rightarrow> ps),
      wrs_team = smap_get (om_annotations (w_meta w)) ''hiclaw.io/team'',
      wrs_role = smap_get (om_annotations (w_meta w)) ''hiclaw.io/role''\<rparr>"

text \<open>Ports of members by name: entries of one name are appended to what it has.\<close>

definition add_member_ports ::
  "team_member_status \<Rightarrow> (string \<times> exposed_port_status list) list \<Rightarrow> (string \<times> exposed_port_status list) list" where
  "add_member_ports m ports =
     (case ms_exposed_ports m of
        Some (p # ps) \<Rightarrow>
          AList.update (ms_name m) ((case map_of ports (ms_name m) of None \<Rightarrow> [] | Some qs \<Rightarrow> qs) @ p # ps) ports
      | _ \<Rightarrow> ports)"

definition team_to_response :: "team \<Rightarrow> team_response" where
  "team_to_response t =
     \<lparr>trs_name = om_name (t_meta t), trs_team_name = effective_team_name (t_spec t) (om_name (t_meta t)),
      trs_phase = or_pending (tst_phase (t_status t)), trs_description = ts_description (t_spec t),
      trs_admin = ts_admin (t_spec t), trs_human_members = ts_human_members (t_spec t),
      trs_leader_name = ls_name (ts_leader (t_spec t)),
      trs_leader_heartbeat = ls_heartbeat (ts_leader (t_spec t)),
      trs_worker_idle_timeout = ls_worker_idle_timeout (ts_leader (t_spec t)),
      trs_team_room_id = tst_team_room_id (t_status t), trs_leader_dm_room_id = tst_leader_dm_room_id (t_status t),
      trs_leader_ready = tst_leader_ready (t_status t), trs_ready_workers = tst_ready_workers (t_status t),
      trs_total_workers = tst_total_workers (t_status t), trs_message = tst_message (t_status t),
      trs_worker_names = map tw_name (ts_workers (t_spec t)),
      trs_worker_exposed_ports = fold add_member_ports (tst_members (t_status t)) []\<rparr>"

definition manager_to_response :: "manager \<Rightarrow> manager_response" where
  "manager_to_response m =
     \<lparr>mrs_name = om_name (m_meta m), mrs_phase = or_pending (mst_phase (m_status m)),
      mrs_state = manager_desired_state (m_spec m), mrs_model = mgs_model (m_spec m),
      mrs_runtime = mgs_runtime (m_spec m), mrs_image = mgs_image (m_spec m),
      mrs_matrix_user_id = mst_matrix_user_id (m_status m), mrs_room_id = mst_room_id (m_status m),
      mrs_version = mst_version (m_status m), mrs_message = mst_message (m_status m),
      mrs_welcome_sent = mst_welcome_sent (m_status m)\<rparr>"

definition human_to_response :: "human \<Rightarrow> human_response" where
  "human_to_response h =
     \<lparr>hrs_name = om_name (h_meta h), hrs_phase = or_pending (hst_phase (h_status h)),
      hrs_display_name = hs_display_name (h_spec h), hrs_matrix_user_id = hst_matrix_user_id (h_status h),
      hrs_initial_password = hst_initial_password (h_status h), hrs_rooms = hst_rooms (h_status h),
      hrs_message = hst_message (h_status h)\<rparr>"

definition to_heartbeat_spec :: "heartbeat_request option \<Rightarrow> team_leader_heartbeat option" where
  "to_heartbeat_spec req =
     (case req of
        None \<Rightarrow> None
      | Some r \<Rightarrow>
          let enabled = (case hbr_enabled r of None \<Rightarrow> False | Some b \<Rightarrow> b)
          in if \<not> enabled \<and> hbr_every r = [] then None
             else Some \<lparr>hb_enabled = enabled, hb_every = hbr_every r\<rparr>)"

section \<open>Members of teams\<close>

fun find_member_in :: "string \<Rightarrow> team list \<Rightarrow> (team \<times> string) option" where
  "find_member_in name [] = None"
| "find_member_in name (t # ts) =
     (if ls_name (ts_leader (t_spec t)) = name then Some (t, name)
      else if list_ex (\<lambda>w. tw_name w = name) (ts_workers (t_spec t)) then Some (t, name)
      else find_member_in name ts)"

definition find_team_member :: "'w resource_handler \<Rightarrow> string \<Rightarrow> ('w, (team \<times> string) option result) state" where
  "find_team_member h name = do {
     r \<leftarrow> kc_list (rh_teams h) (rh_namespace h);
     State_Monad.return (map_sum id (find_member_in name) r) }"

definition find_team_for_member :: "'w resource_handler \<Rightarrow> string \<Rightarrow> ('w, string option result) state" where
  "find_team_for_member h name = do {
     r \<leftarrow> find_team_member h name;
     State_Monad.return (map_sum id (map_option (\<lambda>p. om_name (t_meta (fst p)))) r) }"

text \<open>The writing handlers refuse a name that belongs to a team.\<close>

definition unless_member ::
  "'w resource_handler \<Rightarrow> string \<Rightarrow> string \<Rightarrow> (string \<Rightarrow> string) \<Rightarrow> ('w, 'b api_response) state \<Rightarrow>
   ('w, 'b api_response) state" where
  "unless_member h op name message k = do {
     r \<leftarrow> find_team_for_member h name;
     (case r of
        Inl e \<Rightarrow> State_Monad.return (write_k8s_error op e)
      | Inr (Some team) \<Rightarrow> State_Monad.return (Api_Error 409 (message team))
      | Inr None \<Rightarrow> k) }"

definition status_phase :: "backend_status \<Rightarrow> string \<Rightarrow> string" where
  "status_phase st phase =
     (case st of
        Status_Running \<Rightarrow> ''Running''
      | Status_Ready \<Rightarrow> ''Running''
      | Status_Starting \<Rightarrow> ''Pending''
      | Status_Stopped \<Rightarrow> ''Stopped''
      | _ \<Rightarrow> phase)"

definition member_response :: "team \<Rightarrow> string \<Rightarrow> worker_response" where
  "member_response t name =
     (let leader = ts_leader (t_spec t);
          ms = member_by_name (t_status t) name;
          base = \<lparr>wrs_name = name, wrs_phase = ''Pending'', wrs_container_managed = False, wrs_state = ''Running'',
            wrs_model = [], wrs_runtime = [], wrs_image = [], wrs_container_state = [],
            wrs_matrix_user_id = (case ms of None \<Rightarrow> [] | Some m \<Rightarrow> ms_matrix_user_id m),
            wrs_room_id = (case ms of None \<Rightarrow> [] | Some m \<Rightarrow> ms_room_id m), wrs_message = [],
            wrs_exposed_ports = [], wrs_team = om_name (t_meta t), wrs_role = []\<rparr>
      in if ls_name leader = name
         then base\<lparr>wrs_role := ''team_leader'', wrs_runtime := ''copaw'', wrs_model := ls_model leader,
                wrs_state := (case ls_state leader of None \<Rightarrow> ''Running'' | Some s \<Rightarrow> s)\<rparr>
         else (case List.find (\<lambda>wk. tw_name wk = name) (ts_workers (t_spec t)) of
                 None \<Rightarrow> base\<lparr>wrs_role := ''worker''\<rparr>
               | Some wk \<Rightarrow>
                   base\<lparr>wrs_role := ''worker'', wrs_model := tw_model wk, wrs_image := tw_image wk,
                     wrs_runtime := tw_runtime wk,
                     wrs_state := (case tw_state wk of None \<Rightarrow> ''Running'' | Some s \<Rightarrow> s),
                     wrs_exposed_ports :=
                       (case ms of None \<Rightarrow> []
                        | Some m \<Rightarrow> (case ms_exposed_ports m of None \<Rightarrow> [] | Some ps \<Rightarrow> ps))\<rparr>))"

definition team_member_to_response :: "'w resource_handler \<Rightarrow> team \<Rightarrow> string \<Rightarrow> ('w, worker_response) state" where
  "team_member_to_response h t name = do {
     live \<leftarrow> (case rh_backends h of
               None \<Rightarrow> State_Monad.return None
             | Some bs \<Rightarrow> do {
                 b \<leftarrow> detect_worker_backend bs;
                 (case b of
                    None \<Rightarrow> State_Monad.return None
                  | Some wb \<Rightarrow> do {
                      r \<leftarrow> wb_status wb name;
                      State_Monad.return (case r of Inl _ \<Rightarrow> None | Inr res \<Rightarrow> Some (wr_status res)) }) });
     State_Monad.return
       (let resp = member_response t name;
            resp' = (case live of
                       None \<Rightarrow> resp
                     | Some st \<Rightarrow> resp\<lparr>wrs_container_state := status_text st,
                                       wrs_phase := status_phase st (wrs_phase resp)\<rparr>)
        in if ls_name (ts_leader (t_spec t)) = name \<and> tst_leader_ready (t_status t)
           then resp'\<lparr>wrs_phase := ''Running''\<rparr> else resp') }"

section \<open>Workers\<close>

definition new_worker :: "'w resource_handler \<Rightarrow> create_worker_request \<Rightarrow> worker" where
  "new_worker h req =
     \<lparr>w_meta = new_meta h (cwr_name req),
      w_spec = zero_worker_spec
        \<lparr>ws_model := cwr_model req, ws_model_provider := cwr_model_provider req,
         ws_worker_name := cwr_worker_name req, ws_runtime := cwr_runtime req, ws_image := cwr_image req,
         ws_identity := cwr_identity req, ws_soul := cwr_soul req, ws_agents := cwr_agents req,
         ws_skills := cwr_skills req, ws_mcp_servers := cwr_mcp_servers req, ws_package := cwr_package req,
         ws_expose := cwr_expose req, ws_channel_policy := cwr_channel_policy req,
         ws_resources := cwr_resources req,
         ws_container_managed := Some (case cwr_container_managed req of None \<Rightarrow> True | Some b \<Rightarrow> b),
         ws_state := cwr_state req\<rparr>,
      w_status = zero_worker_status\<rparr>"

definition create_worker ::
  "'w resource_handler \<Rightarrow> caller_identity option \<Rightarrow> create_worker_request result \<Rightarrow>
   ('w, worker_response api_response) state" where
  "create_worker h caller body = with_body body (\<lambda>req.
     require_field (cwr_name req) ''name is required'' (
     unless_member h ''create worker'' (cwr_name req)
       (\<lambda>team. ''worker name is a member of team '' @ team @ ''; manage via PUT /api/v1/teams/'' @ team) (
     (case caller of
        Some c \<Rightarrow>
          if ci_role c = role_team_leader
          then State_Monad.return (Api_Error 409
            (''team leaders must manage members via PUT /api/v1/teams/'' @ ci_team c))
          else if cwr_team req \<noteq> [] \<or> cwr_role req \<noteq> [] \<or> cwr_team_leader req \<noteq> []
          then State_Monad.return (Api_Error 400
            ''worker.team / worker.role / worker.teamLeader are reserved for team members; use /api/v1/teams'')
          else create_object (rh_workers h) ''create worker'' worker_to_response (new_worker h req)
      | None \<Rightarrow>
          if cwr_team req \<noteq> [] \<or> cwr_role req \<noteq> [] \<or> cwr_team_leader req \<noteq> []
          then State_Monad.return (Api_Error 400
            ''worker.team / worker.role / worker.teamLeader are reserved for team members; use /api/v1/teams'')
          else create_object (rh_workers h) ''create worker'' worker_to_response (new_worker h req)))))"

definition get_worker :: "'w resource_handler \<Rightarrow> string \<Rightarrow> ('w, worker_response api_response) state" where
  "get_worker h name = require_field name ''worker name is required'' (do {
     r \<leftarrow> kc_get (rh_workers h) (rh_namespace h) name;
     (case r of
        Inr w \<Rightarrow> State_Monad.return (Api_Json 200 (worker_to_response w))
      | Inl e \<Rightarrow>
          if \<not> is_api_not_found e then State_Monad.return (write_k8s_error ''get worker'' e)
          else do {
            m \<leftarrow> find_team_member h name;
            (case m of
               Inl te \<Rightarrow> State_Monad.return (write_k8s_error ''get worker'' te)
             | Inr None \<Rightarrow> State_Monad.return (Api_Error 404 ''get worker: not found'')
             | Inr (Some (t, member)) \<Rightarrow> do {
                 resp \<leftarrow> team_member_to_response h t member;
                 State_Monad.return (Api_Json 200 resp) }) }) })"

definition is_team_member_worker :: "worker \<Rightarrow> bool" where
  "is_team_member_worker w \<longleftrightarrow>
     (let a = smap_get (om_annotations (w_meta w)) in
      a ''hiclaw.io/team'' \<noteq> [] \<or> a ''hiclaw.io/team-leader'' \<noteq> [] \<or> a ''hiclaw.io/role'' = ''team_leader'')"

fun member_responses :: "'w resource_handler \<Rightarrow> (team \<times> string) list \<Rightarrow> ('w, worker_response list) state" where
  "member_responses h [] = State_Monad.return []"
| "member_responses h ((t, n) # ms) = do {
     r \<leftarrow> team_member_to_response h t n;
     rs \<leftarrow> member_responses h ms;
     State_Monad.return (r # rs) }"

definition team_members :: "team \<Rightarrow> (team \<times> string) list" where
  "team_members t = map (Pair t) (ls_name (ts_leader (t_spec t)) # map tw_name (ts_workers (t_spec t)))"

definition list_workers :: "'w resource_handler \<Rightarrow> string \<Rightarrow> ('w, worker_response list api_response) state" where
  "list_workers h team_filter = do {
     ws \<leftarrow> (if team_filter = [] then kc_list (rh_workers h) (rh_namespace h) else State_Monad.return (Inr []));
     (case ws of
        Inl e \<Rightarrow> State_Monad.return (write_k8s_error ''list workers'' e)
      | Inr workers \<Rightarrow> do {
          ts \<leftarrow> kc_list (rh_teams h) (rh_namespace h);
          (case ts of
             Inl e \<Rightarrow> State_Monad.return (write_k8s_error ''list workers: list teams'' e)
           | Inr teams \<Rightarrow> do {
               ms \<leftarrow> member_responses h (concat (map team_members
                 (filter (\<lambda>t. team_filter = [] \<or> om_name (t_meta t) = team_filter) teams)));
               State_Monad.return (Api_Json 200
                 (map worker_to_response (filter (\<lambda>w. \<not> is_team_member_worker w) workers) @ ms)) }) }) }"

definition apply_worker_update :: "update_worker_request \<Rightarrow> worker \<Rightarrow> worker" where
  "apply_worker_update req w =
     (let s = w_spec w in w\<lparr>w_spec := s
        \<lparr>ws_model := set_text (uwr_model req) (ws_model s),
         ws_model_provider := set_text (uwr_model_provider req) (ws_model_provider s),
         ws_worker_name := set_text (uwr_worker_name req) (ws_worker_name s),
         ws_runtime := set_text (uwr_runtime req) (ws_runtime s),
         ws_image := set_text (uwr_image req) (ws_image s),
         ws_identity := set_text (uwr_identity req) (ws_identity s),
         ws_soul := set_text (uwr_soul req) (ws_soul s),
         ws_agents := set_text (uwr_agents req) (ws_agents s),
         ws_skills := set_slice (uwr_skills req) (ws_skills s),
         ws_mcp_servers := set_slice (uwr_mcp_servers req) (ws_mcp_servers s),
         ws_package := set_text (uwr_package req) (ws_package s),
         ws_expose := set_slice (uwr_expose req) (ws_expose s),
         ws_channel_policy := set_pointer (uwr_channel_policy req) (ws_channel_policy s),
         ws_resources := set_pointer (uwr_resources req) (ws_resources s),
         ws_container_managed := set_pointer (uwr_container_managed req) (ws_container_managed s),
         ws_state := set_pointer (uwr_state req) (ws_state s)\<rparr>\<rparr>)"

definition update_worker ::
  "'w resource_handler \<Rightarrow> string \<Rightarrow> update_worker_request result \<Rightarrow> ('w, worker_response api_response) state" where
  "update_worker h name body = require_field name ''worker name is required'' (with_body body (\<lambda>req.
     unless_member h ''update worker'' name
       (\<lambda>team. ''worker is a member of team '' @ team @ ''; update via PUT /api/v1/teams/'' @ team)
       (update_attempts k8s_update_max_retries (rh_workers h) (rh_namespace h) ''worker''
          (apply_worker_update req) worker_to_response name)))"

definition delete_worker :: "'w resource_handler \<Rightarrow> string \<Rightarrow> ('w, worker_response api_response) state" where
  "delete_worker h name = require_field name ''worker name is required'' (
     unless_member h ''delete worker'' name
       (\<lambda>team. ''worker is a member of team '' @ team @ ''; remove via PUT/DELETE /api/v1/teams/'' @ team)
       (delete_object (rh_workers h) (rh_namespace h) ''delete worker'' name))"

section \<open>Teams\<close>

definition new_team_worker :: "team_worker_request \<Rightarrow> team_worker_spec" where
  "new_team_worker tw = zero_team_worker
     \<lparr>tw_name := twr_name tw, tw_worker_name := twr_worker_name tw, tw_model := twr_model tw,
      tw_model_provider := twr_model_provider tw, tw_runtime := twr_runtime tw, tw_image := twr_image tw,
      tw_identity := twr_identity tw, tw_soul := twr_soul tw, tw_agents := twr_agents tw,
      tw_skills := twr_skills tw, tw_mcp_servers := twr_mcp_servers tw, tw_package := twr_package tw,
      tw_expose := twr_expose tw, tw_channel_policy := twr_channel_policy tw, tw_state := twr_state tw,
      tw_resources := twr_resources tw\<rparr>"

definition new_leader :: "team_leader_request \<Rightarrow> leader_spec" where
  "new_leader l = zero_leader
     \<lparr>ls_name := tlr_name l, ls_worker_name := tlr_worker_name l, ls_model := tlr_model l,
      ls_model_provider := tlr_model_provider l, ls_identity := tlr_identity l, ls_soul := tlr_soul l,
      ls_agents := tlr_agents l, ls_package := tlr_package l, ls_mcp_servers := set_slice (tlr_mcp_servers l) [],
      ls_heartbeat := to_heartbeat_spec (tlr_heartbeat l), ls_worker_idle_timeout := tlr_worker_idle_timeout l,
      ls_channel_policy := tlr_channel_policy l, ls_state := tlr_state l, ls_resources := tlr_resources l\<rparr>"

definition new_team :: "'w resource_handler \<Rightarrow> create_team_request \<Rightarrow> team" where
  "new_team h req =
     \<lparr>t_meta = new_meta h (ctr_name req),
      t_spec = zero_team_spec
        \<lparr>ts_description := ctr_description req, ts_team_name := ctr_team_name req, ts_admin := ctr_admin req,
         ts_human_members := ctr_human_members req, ts_peer_mentions := ctr_peer_mentions req,
         ts_channel_policy := ctr_channel_policy req, ts_leader := new_leader (ctr_leader req),
         ts_workers := map new_team_worker (ctr_workers req)\<rparr>,
      t_status = zero_team_status\<rparr>"

definition create_team ::
  "'w resource_handler \<Rightarrow> create_team_request result \<Rightarrow> ('w, team_response api_response) state" where
  "create_team h body = with_body body (\<lambda>req.
     require_field (ctr_name req) ''name is required'' (
     require_field (tlr_name (ctr_leader req)) ''leader.name is required'' (
     create_object (rh_teams h) ''create team'' team_to_response (new_team h req))))"

definition get_team :: "'w resource_handler \<Rightarrow> string \<Rightarrow> ('w, team_response api_response) state" where
  "get_team h name = require_field name ''team name is required''
     (get_object (rh_teams h) (rh_namespace h) ''get team'' team_to_response name)"

definition list_teams :: "'w resource_handler \<Rightarrow> ('w, team_response list api_response) state" where
  "list_teams h = list_objects (rh_teams h) (rh_namespace h) ''list teams'' team_to_response"

definition apply_leader_update :: "team_leader_request \<Rightarrow> leader_spec \<Rightarrow> leader_spec" where
  "apply_leader_update l s = s
     \<lparr>ls_worker_name := set_text (tlr_worker_name l) (ls_worker_name s),
      ls_model := set_text (tlr_model l) (ls_model s),
      ls_model_provider := set_text (tlr_model_provider l) (ls_model_provider s),
      ls_identity := set_text (tlr_identity l) (ls_identity s),
      ls_soul := set_text (tlr_soul l) (ls_soul s),
      ls_agents := set_text (tlr_agents l) (ls_agents s),
      ls_package := set_text (tlr_package l) (ls_package s),
      ls_heartbeat := (if tlr_heartbeat l = None then ls_heartbeat s else to_heartbeat_spec (tlr_heartbeat l)),
      ls_worker_idle_timeout := set_text (tlr_worker_idle_timeout l) (ls_worker_idle_timeout s),
      ls_mcp_servers := set_slice (tlr_mcp_servers l) (ls_mcp_servers s),
      ls_channel_policy := set_pointer (tlr_channel_policy l) (ls_channel_policy s),
      ls_state := set_pointer (tlr_state l) (ls_state s),
      ls_resources := set_pointer (tlr_resources l) (ls_resources s)\<rparr>"

definition apply_team_update :: "update_team_request \<Rightarrow> team \<Rightarrow> team" where
  "apply_team_update req t =
     (let s = t_spec t in t\<lparr>t_spec := s
        \<lparr>ts_description := set_text (utr_description req) (ts_description s),
         ts_team_name := set_text (utr_team_name req) (ts_team_name s),
         ts_admin := set_pointer (utr_admin req) (ts_admin s),
         ts_peer_mentions := set_pointer (utr_peer_mentions req) (ts_peer_mentions s),
         ts_channel_policy := set_pointer (utr_channel_policy req) (ts_channel_policy s),
         ts_leader := (case utr_leader req of None \<Rightarrow> ts_leader s | Some l \<Rightarrow> apply_leader_update l (ts_leader s)),
         ts_workers := (case utr_workers req of None \<Rightarrow> ts_workers s | Some ws \<Rightarrow> map new_team_worker ws)\<rparr>\<rparr>)"

definition update_team ::
  "'w resource_handler \<Rightarrow> string \<Rightarrow> update_team_request result \<Rightarrow> ('w, team_response api_response) state" where
  "update_team h name body = require_field name ''team name is required'' (with_body body (\<lambda>req.
     update_attempts k8s_update_max_retries (rh_teams h) (rh_namespace h) ''team''
       (apply_team_update req) team_to_response name))"

definition delete_team :: "'w resource_handler \<Rightarrow> string \<Rightarrow> ('w, team_response api_response) state" where
  "delete_team h name = require_field name ''team name is required''
     (delete_object (rh_teams h) (rh_namespace h) ''delete team'' name)"

section \<open>Humans\<close>

definition new_human :: "'w resource_handler \<Rightarrow> create_human_request \<Rightarrow> human" where
  "new_human h req =
     \<lparr>h_meta = new_meta h (chr_name req),
      h_spec = \<lparr>hs_display_name = chr_display_name req, hs_username = [], hs_email = chr_email req,
        hs_permission_level = chr_permission_level req, hs_accessible_teams = chr_accessible_teams req,
        hs_accessible_workers = chr_accessible_workers req, hs_note = chr_note req\<rparr>,
      h_status = \<lparr>hst_phase = [], hst_matrix_user_id = [], hst_initial_password = [],
        hst_display_name_synced = 0, hst_rooms = [], hst_email_sent = False, hst_message = []\<rparr>\<rparr>"

definition create_human ::
  "'w resource_handler \<Rightarrow> create_human_request result \<Rightarrow> ('w, human_response api_response) state" where
  "create_human h body = with_body body (\<lambda>req.
     require_field (chr_name req) ''name is required''
       (create_object (rh_humans h) ''create human'' human_to_response (new_human h req)))"

definition get_human :: "'w resource_handler \<Rightarrow> string \<Rightarrow> ('w, human_response api_response) state" where
  "get_human h name = require_field name ''human name is required''
     (get_object (rh_humans h) (rh_namespace h) ''get human'' human_to_response name)"

definition list_humans :: "'w resource_handler \<Rightarrow> ('w, human_response list api_response) state" where
  "list_humans h = list_objects (rh_humans h) (rh_namespace h) ''list humans'' human_to_response"

definition delete_human :: "'w resource_handler \<Rightarrow> string \<Rightarrow> ('w, human_response api_response) state" where
  "delete_human h name = require_field name ''human name is required''
     (delete_object (rh_humans h) (rh_namespace h) ''delete human'' name)"

section \<open>Managers\<close>

definition new_manager :: "'w resource_handler \<Rightarrow> create_manager_request \<Rightarrow> manager" where
  "new_manager h req =
     zero_manager\<lparr>m_meta := new_meta h (cmr_name req),
       m_spec := zero_manager_spec
         \<lparr>mgs_model := cmr_model req, mgs_model_provider := cmr_model_provider req,
          mgs_runtime := cmr_runtime req, mgs_image := cmr_image req, mgs_soul := cmr_soul req,
          mgs_agents := cmr_agents req, mgs_skills := cmr_skills req, mgs_mcp_servers := cmr_mcp_servers req,
          mgs_package := cmr_package req, mgs_state := cmr_state req, mgs_resources := cmr_resources req,
          mgs_config := set_slice (cmr_config req) (mgs_config zero_manager_spec)\<rparr>\<rparr>"

definition create_manager ::
  "'w resource_handler \<Rightarrow> create_manager_request result \<Rightarrow> ('w, manager_response api_response) state" where
  "create_manager h body = with_body body (\<lambda>req.
     require_field (cmr_name req) ''name is required'' (
     require_field (cmr_model req) ''model is required'' (
     create_object (rh_managers h) ''create manager'' manager_to_response (new_manager h req))))"

definition get_manager :: "'w resource_handler \<Rightarrow> string \<Rightarrow> ('w, manager_response api_response) state" where
  "get_manager h name = require_field name ''manager name is required''
     (get_object (rh_managers h) (rh_namespace h) ''get manager'' manager_to_response name)"

definition list_managers :: "'w resource_handler \<Rightarrow> ('w, manager_response list api_response) state" where
  "list_managers h = list_objects (rh_managers h) (rh_namespace h) ''list managers'' manager_to_response"

definition apply_manager_update :: "update_manager_request \<Rightarrow> manager \<Rightarrow> manager" where
  "apply_manager_update req m =
     (let s = m_spec m in m\<lparr>m_spec := s
        \<lparr>mgs_model := set_text (umr_model req) (mgs_model s),
         mgs_model_provider := set_text (umr_model_provider req) (mgs_model_provider s),
         mgs_runtime := set_text (umr_runtime req) (mgs_runtime s),
         mgs_image := set_text (umr_image req) (mgs_image s),
         mgs_soul := set_text (umr_soul req) (mgs_soul s),
         mgs_agents := set_text (umr_agents req) (mgs_agents s),
         mgs_skills := set_slice (umr_skills req) (mgs_skills s),
         mgs_mcp_servers := set_slice (umr_mcp_servers req) (mgs_mcp_servers s),
         mgs_package := set_text (umr_package req) (mgs_package s),
         mgs_config := set_slice (umr_config req) (mgs_config s),
         mgs_state := set_pointer (umr_state req) (mgs_state s),
         mgs_resources := set_pointer (umr_resources req) (mgs_resources s)\<rparr>\<rparr>)"

definition update_manager ::
  "'w resource_handler \<Rightarrow> string \<Rightarrow> update_manager_request result \<Rightarrow> ('w, manager_response api_response) state" where
  "update_manager h name body = require_field name ''manager name is required'' (with_body body (\<lambda>req.
     update_attempts k8s_update_max_retries (rh_managers h) (rh_namespace h) ''manager''
       (apply_manager_update req) manager_to_response name))"

definition delete_manager :: "'w resource_handler \<Rightarrow> string \<Rightarrow> ('w, manager_response api_response) state" where
  "delete_manager h name = require_field name ''manager name is required''
     (delete_object (rh_managers h) (rh_namespace h) ''delete manager'' name)"

end
