(* ===== verification/Api_Lifecycle.thy ===== *)
theory Api_Lifecycle
  imports Api_Server Cred_Provider Provisioner_Rooms
begin

text \<open>
  The other handlers of \<open>internal/server/\<close>: \<open>lifecycle_handler.go\<close> with its readiness flags,
  \<open>status_handler.go\<close>, \<open>gateway_handler.go\<close>, \<open>credentials_handler.go\<close> and \<open>package_handler.go\<close>. The
  state of the lifecycle handler is the set of names that reported ready, beside the world; the
  mutex makes each access to it one step. Logging is left out.
\<close>

section \<open>Readiness flags\<close>

record 'w lifecycle_state =
  lfs_world :: 'w
  lfs_ready :: "string list"

definition on_cluster :: "('w, 'a) state \<Rightarrow> ('w lifecycle_state, 'a) state" where
  "on_cluster m = State (\<lambda>s. case run_state m (lfs_world s) of (a, w) \<Rightarrow> (a, s\<lparr>lfs_world := w\<rparr>))"

definition set_ready :: "string \<Rightarrow> bool \<Rightarrow> ('w lifecycle_state, unit) state" where
  "set_ready name r = modify_state (\<lambda>s. s\<lparr>lfs_ready :=
     (if r then List.insert name (lfs_ready s) else removeAll name (lfs_ready s))\<rparr>)"

definition is_ready :: "string \<Rightarrow> ('w lifecycle_state, bool) state" where
  "is_ready name = State (\<lambda>s. (name \<in> set (lfs_ready s), s))"

section \<open>Lifecycle of a worker\<close>

record 'w lifecycle_handler =
  lh_workers :: "('w, worker) kind_client"
  lh_backends :: "'w worker_backend list"
  lh_namespace :: string

record lifecycle_response =
  lr_name :: string
  lr_phase :: string

definition with_lifecycle_worker ::
  "'w lifecycle_handler \<Rightarrow> string \<Rightarrow> (worker \<Rightarrow> ('w lifecycle_state, 'b api_response) state) \<Rightarrow>
   ('w lifecycle_state, 'b api_response) state" where
  "with_lifecycle_worker h name k =
     require_field name ''worker name is required'' (do {
       g \<leftarrow> on_cluster (kc_get (lh_workers h) (lh_namespace h) name);
       (case g of
          Inl e \<Rightarrow> State_Monad.return (write_k8s_error ''get worker'' e)
        | Inr w \<Rightarrow> k w) })"

text \<open>The operation on the detected backend, if there is one; its error is ignored.\<close>

definition act_on_backend ::
  "'w lifecycle_handler \<Rightarrow> ('w worker_backend \<Rightarrow> ('w, go_error option) state) \<Rightarrow> ('w, unit) state" where
  "act_on_backend h act = do {
     b \<leftarrow> detect_worker_backend (lh_backends h);
     (case b of
        None \<Rightarrow> State_Monad.return ()
      | Some wb \<Rightarrow> do { _ \<leftarrow> act wb; State_Monad.return () }) }"

definition got_or :: "'a \<Rightarrow> 'a result \<Rightarrow> 'a" where
  "got_or x r = (case r of Inl _ \<Rightarrow> x | Inr y \<Rightarrow> y)"

definition with_phase :: "string \<Rightarrow> worker \<Rightarrow> worker" where
  "with_phase p w = w\<lparr>w_status := (w_status w)\<lparr>wst_phase := p, wst_message := []\<rparr>\<rparr>"

text \<open>
  Setting the desired state, acting on the backend at once, dropping the readiness flag and
  refreshing the status: the answer is the worker after the last call that returned one.
\<close>

definition drive_worker ::
  "'w lifecycle_handler \<Rightarrow> string \<Rightarrow> string \<Rightarrow> ('w worker_backend \<Rightarrow> ('w, go_error option) state) \<Rightarrow> worker \<Rightarrow>
   (worker \<Rightarrow> ('w lifecycle_state, 'b api_response) state) \<Rightarrow> ('w lifecycle_state, 'b api_response) state" where
  "drive_worker h name desired act w k = do {
     u \<leftarrow> on_cluster (kc_update (lh_workers h) (w\<lparr>w_spec := (w_spec w)\<lparr>ws_state := Some desired\<rparr>\<rparr>));
     (case u of
        Inl e \<Rightarrow> State_Monad.return (write_k8s_error ''update worker spec.state'' e)
      | Inr w1 \<Rightarrow> do {
          _ \<leftarrow> on_cluster (act_on_backend h act);
          _ \<leftarrow> set_ready name False;
          g \<leftarrow> on_cluster (kc_get (lh_workers h) (lh_namespace h) name);
          (let w2 = with_phase desired (got_or w1 g) in do {
            r \<leftarrow> on_cluster (kc_status_update (lh_workers h) w2);
            k (got_or w2 r) }) }) }"

definition wake_worker ::
  "'w lifecycle_handler \<Rightarrow> string \<Rightarrow> ('w lifecycle_state, lifecycle_response api_response) state" where
  "wake_worker h name = with_lifecycle_worker h name (\<lambda>w.
     drive_worker h name ''Running'' (\<lambda>b. wb_start b name) w
       (\<lambda>_. State_Monad.return (Api_Json 200 \<lparr>lr_name = name, lr_phase = ''Running''\<rparr>)))"

definition sleep_worker ::
  "'w lifecycle_handler \<Rightarrow> string \<Rightarrow> ('w lifecycle_state, lifecycle_response api_response) state" where
  "sleep_worker h name = with_lifecycle_worker h name (\<lambda>w.
     drive_worker h name ''Sleeping'' (\<lambda>b. wb_stop b name) w
       (\<lambda>_. State_Monad.return (Api_Json 200 \<lparr>lr_name = name, lr_phase = ''Sleeping''\<rparr>)))"

definition ready_answer ::
  "string \<Rightarrow> worker \<Rightarrow> ('w lifecycle_state, lifecycle_response api_response) state" where
  "ready_answer name w = do {
     r \<leftarrow> is_ready name;
     State_Monad.return (Api_Json 200 \<lparr>lr_name = name,
       lr_phase = (if wst_phase (w_status w) = ''Running'' \<and> r then ''Ready'' else wst_phase (w_status w))\<rparr>) }"

definition ensure_ready ::
  "'w lifecycle_handler \<Rightarrow> string \<Rightarrow> ('w lifecycle_state, lifecycle_response api_response) state" where
  "ensure_ready h name = with_lifecycle_worker h name (\<lambda>w.
     if wst_phase (w_status w) = ''Stopped'' \<or> wst_phase (w_status w) = ''Sleeping''
     then drive_worker h name ''Running'' (\<lambda>b. wb_start b name) w (ready_answer name)
     else ready_answer name w)"

definition report_ready :: "string \<Rightarrow> ('w lifecycle_state, lifecycle_response api_response) state" where
  "report_ready name = require_field name ''worker name is required'' (do {
     _ \<leftarrow> set_ready name True;
     State_Monad.return (Api_Status 204) })"

definition with_backend_status :: "worker_result \<Rightarrow> bool \<Rightarrow> worker_response \<Rightarrow> worker_response" where
  "with_backend_status res r resp =
     resp\<lparr>wrs_message := ''backend='' @ wr_backend res @ '' status='' @ status_text (wr_status res),
       wrs_container_state := status_text (wr_status res),
       wrs_phase := (if wr_status res = Status_Running \<and> r then ''Ready'' else wrs_phase resp)\<rparr>"

definition get_worker_runtime_status ::
  "'w lifecycle_handler \<Rightarrow> string \<Rightarrow> ('w lifecycle_state, worker_response api_response) state" where
  "get_worker_runtime_status h name = with_lifecycle_worker h name (\<lambda>w. do {
     b \<leftarrow> on_cluster (detect_worker_backend (lh_backends h));
     (case b of
        None \<Rightarrow> State_Monad.return (Api_Json 200 (worker_to_response w))
      | Some wb \<Rightarrow> do {
          st \<leftarrow> on_cluster (wb_status wb name);
          (case st of
             Inl _ \<Rightarrow> State_Monad.return (Api_Json 200 (worker_to_response w))
           | Inr res \<Rightarrow> do {
               r \<leftarrow> is_ready name;
               State_Monad.return (Api_Json 200 (with_backend_status res r (worker_to_response w))) }) }) })"

definition write_backend_error :: "go_error \<Rightarrow> 'b api_response" where
  "write_backend_error err =
     (if is_err_not_found err then Api_Error 404 (err_text err)
      else if is_err_conflict err then Api_Error 409 (err_text err)
      else Api_Error 500 (err_text err))"

section \<open>Cluster status\<close>

record 'w status_handler =
  sh_workers :: "('w, worker) kind_client"
  sh_teams :: "('w, team) kind_client"
  sh_humans :: "('w, human) kind_client"
  sh_namespace :: string
  sh_kube_mode :: string

record cluster_status =
  cls_kube_mode :: string
  cls_total_workers :: nat
  cls_total_teams :: nat
  cls_total_humans :: nat

record version_response =
  vr_controller :: string
  vr_kube_mode :: string

text \<open>Counting one kind; a failed list is an internal error that names the kind.\<close>

definition count_kind ::
  "('w, 'r) kind_client \<Rightarrow> string \<Rightarrow> string \<Rightarrow> (nat \<Rightarrow> ('w, 'b api_response) state) \<Rightarrow> ('w, 'b api_response) state" where
  "count_kind c ns kind k = do {
     r \<leftarrow> kc_list c ns;
     (case r of
        Inl e \<Rightarrow> State_Monad.return (Api_Error 500 (''failed to list '' @ kind @ '': '' @ err_text e))
      | Inr xs \<Rightarrow> k (length xs)) }"

definition cluster_status_of :: "'w status_handler \<Rightarrow> ('w, cluster_status api_response) state" where
  "cluster_status_of h =
     count_kind (sh_workers h) (sh_namespace h) ''workers'' (\<lambda>ws.
     count_kind (sh_teams h) (sh_namespace h) ''teams'' (\<lambda>ts.
     count_kind (sh_humans h) (sh_namespace h) ''humans'' (\<lambda>hs.
       State_Monad.return (Api_Json 200
         \<lparr>cls_kube_mode = sh_kube_mode h, cls_total_workers = ws, cls_total_teams = ts, cls_total_humans = hs\<rparr>))))"

definition version_of :: "'w status_handler \<Rightarrow> version_response api_response" where
  "version_of h = Api_Json 200 \<lparr>vr_controller = ''dev'', vr_kube_mode = sh_kube_mode h\<rparr>"

section \<open>Gateway consumers\<close>

record create_consumer_request =
  ccr_name :: string
  ccr_credential_key :: string

record consumer_response =
  cor_name :: string
  cor_consumer_id :: string
  cor_api_key :: string
  cor_status :: string

definition with_gateway ::
  "'w gateway_ops option \<Rightarrow> ('w gateway_ops \<Rightarrow> ('w, 'b api_response) state) \<Rightarrow> ('w, 'b api_response) state" where
  "with_gateway gw k =
     (case gw of
        None \<Rightarrow> State_Monad.return (Api_Error 501 ''no gateway backend available'')
      | Some g \<Rightarrow> k g)"

definition create_consumer ::
  "'w gateway_ops option \<Rightarrow> create_consumer_request result \<Rightarrow> ('w, consumer_response api_response) state" where
  "create_consumer gw body = with_gateway gw (\<lambda>g. with_body body (\<lambda>req.
     require_field (ccr_name req) ''name is required'' (do {
       r \<leftarrow> go_ensure_consumer g \<lparr>csr_name = ccr_name req, csr_credential_key = ccr_credential_key req,
              csr_consumer_id = []\<rparr>;
       State_Monad.return
         (case r of
            Inl e \<Rightarrow> Api_Error 500 (err_text e)
          | Inr c \<Rightarrow> Api_Json 201 \<lparr>cor_name = ccr_name req, cor_consumer_id = cso_consumer_id c,
                        cor_api_key = cso_api_key c, cor_status = cso_status c\<rparr>) })))"

text \<open>The two operations on a named consumer.\<close>

definition on_consumer ::
  "'w gateway_ops option \<Rightarrow> string \<Rightarrow> ('w gateway_ops \<Rightarrow> ('w, go_error option) state) \<Rightarrow>
   ('w, consumer_response api_response) state" where
  "on_consumer gw name act = with_gateway gw (\<lambda>g.
     require_field name ''consumer name is required'' (do {
       e \<leftarrow> act g;
       State_Monad.return (case e of Some err \<Rightarrow> Api_Error 500 (err_text err) | None \<Rightarrow> Api_Status 204) }))"

definition bind_consumer :: "'w gateway_ops option \<Rightarrow> string \<Rightarrow> ('w, consumer_response api_response) state" where
  "bind_consumer gw name = on_consumer gw name (\<lambda>g. go_authorize g name [])"

definition delete_consumer :: "'w gateway_ops option \<Rightarrow> string \<Rightarrow> ('w, consumer_response api_response) state" where
  "delete_consumer gw name = on_consumer gw name (\<lambda>g. go_delete_consumer g name)"

section \<open>Credentials\<close>

definition refresh_sts ::
  "'w sts_service option \<Rightarrow> caller_identity option \<Rightarrow> ('w, sts_token api_response) state" where
  "refresh_sts sts caller =
     (case sts of
        None \<Rightarrow> State_Monad.return (Api_Error 503 ''STS service not available (not in cloud mode)'')
      | Some s \<Rightarrow>
          if (case caller of None \<Rightarrow> True | Some c \<Rightarrow> ci_username c = [])
          then State_Monad.return (Api_Error 400 ''caller identity not found in request context'')
          else do {
            r \<leftarrow> issue_for_caller s caller;
            State_Monad.return
              (case r of
                 Inl e \<Rightarrow> Api_Error 500 (''failed to issue STS token: '' @ err_text e)
               | Inr tok \<Rightarrow> Api_Json 200 tok) })"

section \<open>Package upload\<close>

text \<open>
  A multipart upload: the error of parsing the form, the field \<open>name\<close>, and the file with the error
  of finding or of reading it. \<open>sha256_hex\<close> is the digest in hexadecimal.
\<close>

record upload_request =
  up_form_error :: "go_error option"
  up_name :: string
  up_file :: "string result result"

definition package_key :: "(string \<Rightarrow> string) \<Rightarrow> string \<Rightarrow> string \<Rightarrow> string" where
  "package_key sha256_hex name data =
     ''hiclaw-config/packages/'' @ name @ ''-'' @ take 16 (sha256_hex data) @ ''.zip''"

definition upload_package ::
  "(string \<Rightarrow> string) \<Rightarrow> 'w storage_client option \<Rightarrow> upload_request \<Rightarrow> ('w, string api_response) state" where
  "upload_package sha256_hex store r =
     (case store of
        None \<Rightarrow> State_Monad.return (Api_Error 503 ''OSS client not configured'')
      | Some s \<Rightarrow>
          (case up_form_error r of
             Some e \<Rightarrow> State_Monad.return (Api_Error 400 (''parse multipart form: '' @ err_text e))
           | None \<Rightarrow>
               require_field (up_name r) ''name field is required''
                 (case up_file r of
                    Inl e \<Rightarrow> State_Monad.return (Api_Error 400 (''file field is required: '' @ err_text e))
                  | Inr (Inl e) \<Rightarrow> State_Monad.return (Api_Error 500 (''read uploaded file: '' @ err_text e))
                  | Inr (Inr data) \<Rightarrow> do {
                      p \<leftarrow> so_put s (package_key sha256_hex (up_name r) data) data;
                      State_Monad.return
                        (case p of
                           Some e \<Rightarrow> Api_Error 500 (''upload to OSS: '' @ err_text e)
                         | None \<Rightarrow> Api_Json 200 (''oss://'' @ package_key sha256_hex (up_name r) data)) })))"

end
