(* ===== verification/Api_Routes.thy ===== *)
theory Api_Routes
  imports Api_Lifecycle Auth_Middleware Proxy_Security
begin

text \<open>
  \<open>internal/server/http.go\<close>: the route table of the API with the guard of each route, and the
  server that composes the multiplexer, the middleware and the handlers. A path is the list of its
  unescaped segments, after the multiplexer's redirect to the clean path; a wildcard matches one
  non-empty segment. The request bodies are decoded by parameters.
\<close>

section \<open>The route table\<close>

datatype endpoint =
    Ep_Healthz | Ep_Cluster_Status | Ep_Version
  | Ep_Create_Worker | Ep_List_Workers | Ep_Get_Worker | Ep_Update_Worker | Ep_Delete_Worker
  | Ep_Create_Team | Ep_List_Teams | Ep_Get_Team | Ep_Update_Team | Ep_Delete_Team
  | Ep_Create_Human | Ep_List_Humans | Ep_Get_Human | Ep_Delete_Human
  | Ep_Create_Manager | Ep_List_Managers | Ep_Get_Manager | Ep_Update_Manager | Ep_Delete_Manager
  | Ep_Upload_Package
  | Ep_Wake | Ep_Sleep | Ep_Ensure_Ready | Ep_Ready | Ep_Runtime_Status
  | Ep_Create_Consumer | Ep_Bind_Consumer | Ep_Delete_Consumer
  | Ep_Refresh_STS | Ep_Docker_Proxy

text \<open>\<open>Guard_Authz action kind named\<close>: \<open>named\<close> says whether the name of the path is authorised.\<close>

datatype guard = Guard_None | Guard_Authenticate | Guard_Authz string string bool

datatype segment = Seg string | Wild

record route =
  rt_method :: string
  rt_pattern :: "segment list"
  rt_guard :: guard
  rt_endpoint :: endpoint

definition api_path :: "segment list \<Rightarrow> segment list" where
  "api_path segs = Seg ''api'' # Seg ''v1'' # segs"

definition route_of :: "string \<Rightarrow> segment list \<Rightarrow> guard \<Rightarrow> endpoint \<Rightarrow> route" where
  "route_of m p g e = \<lparr>rt_method = m, rt_pattern = p, rt_guard = g, rt_endpoint = e\<rparr>"

definition status_routes :: "route list" where
  "status_routes =
     [route_of ''GET'' [Seg ''healthz''] Guard_None Ep_Healthz,
      route_of ''GET'' (api_path [Seg ''status'']) (Guard_Authz action_get ''status'' False) Ep_Cluster_Status,
      route_of ''GET'' (api_path [Seg ''version'']) Guard_Authenticate Ep_Version]"

text \<open>The declarative routes of one kind; a human has no update.\<close>

definition worker_routes :: "route list" where
  "worker_routes =
     [route_of ''POST'' (api_path [Seg ''workers'']) (Guard_Authz action_create ''worker'' False) Ep_Create_Worker,
      route_of ''GET'' (api_path [Seg ''workers'']) (Guard_Authz action_list ''worker'' False) Ep_List_Workers,
      route_of ''GET'' (api_path [Seg ''workers'', Wild]) (Guard_Authz action_get ''worker'' True) Ep_Get_Worker,
      route_of ''PUT'' (api_path [Seg ''workers'', Wild]) (Guard_Authz action_update ''worker'' True) Ep_Update_Worker,
      route_of ''DELETE'' (api_path [Seg ''workers'', Wild]) (Guard_Authz action_delete ''worker'' True) Ep_Delete_Worker]"

definition team_routes :: "route list" where
  "team_routes =
     [route_of ''POST'' (api_path [Seg ''teams'']) (Guard_Authz action_create ''team'' False) Ep_Create_Team,
      route_of ''GET'' (api_path [Seg ''teams'']) (Guard_Authz action_list ''team'' False) Ep_List_Teams,
      route_of ''GET'' (api_path [Seg ''teams'', Wild]) (Guard_Authz action_get ''team'' True) Ep_Get_Team,
      route_of ''PUT'' (api_path [Seg ''teams'', Wild]) (Guard_Authz action_update ''team'' True) Ep_Update_Team,
      route_of ''DELETE'' (api_path [Seg ''teams'', Wild]) (Guard_Authz action_delete ''team'' True) Ep_Delete_Team]"

definition human_routes :: "route list" where
  "human_routes =
     [route_of ''POST'' (api_path [Seg ''humans'']) (Guard_Authz action_create ''human'' False) Ep_Create_Human,
      route_of ''GET'' (api_path [Seg ''humans'']) (Guard_Authz action_list ''human'' False) Ep_List_Humans,
      route_of ''GET'' (api_path [Seg ''humans'', Wild]) (Guard_Authz action_get ''human'' True) Ep_Get_Human,
      route_of ''DELETE'' (api_path [Seg ''humans'', Wild]) (Guard_Authz action_delete ''human'' True) Ep_Delete_Human]"

definition manager_routes :: "route list" where
  "manager_routes =
     [route_of ''POST'' (api_path [Seg ''managers'']) (Guard_Authz action_create ''manager'' False) Ep_Create_Manager,
      route_of ''GET'' (api_path [Seg ''managers'']) (Guard_Authz action_list ''manager'' False) Ep_List_Managers,
      route_of ''GET'' (api_path [Seg ''managers'', Wild]) (Guard_Authz action_get ''manager'' True) Ep_Get_Manager,
      route_of ''PUT'' (api_path [Seg ''managers'', Wild]) (Guard_Authz action_update ''manager'' True) Ep_Update_Manager,
      route_of ''DELETE'' (api_path [Seg ''managers'', Wild]) (Guard_Authz action_delete ''manager'' True) Ep_Delete_Manager]"

definition lifecycle_routes :: "route list" where
  "lifecycle_routes =
     [route_of ''POST'' (api_path [Seg ''packages'']) (Guard_Authz action_create ''worker'' False) Ep_Upload_Package,
      route_of ''POST'' (api_path [Seg ''workers'', Wild, Seg ''wake'']) (Guard_Authz action_wake ''worker'' True) Ep_Wake,
      route_of ''POST'' (api_path [Seg ''workers'', Wild, Seg ''sleep'']) (Guard_Authz action_sleep ''worker'' True) Ep_Sleep,
      route_of ''POST'' (api_path [Seg ''workers'', Wild, Seg ''ensure-ready'']) (Guard_Authz action_ensure_ready ''worker'' True)
        Ep_Ensure_Ready,
      route_of ''POST'' (api_path [Seg ''workers'', Wild, Seg ''ready'']) (Guard_Authz action_ready ''worker'' True) Ep_Ready,
      route_of ''GET'' (api_path [Seg ''workers'', Wild, Seg ''status'']) (Guard_Authz action_status ''worker'' True)
        Ep_Runtime_Status]"

definition gateway_routes :: "route list" where
  "gateway_routes =
     [route_of ''POST'' (api_path [Seg ''gateway'', Seg ''consumers'']) (Guard_Authz action_create ''gateway'' False)
        Ep_Create_Consumer,
      route_of ''POST'' (api_path [Seg ''gateway'', Seg ''consumers'', Wild, Seg ''bind''])
        (Guard_Authz action_update ''gateway'' False) Ep_Bind_Consumer,
      route_of ''DELETE'' (api_path [Seg ''gateway'', Seg ''consumers'', Wild]) (Guard_Authz action_delete ''gateway'' False)
        Ep_Delete_Consumer,
      route_of ''POST'' (api_path [Seg ''credentials'', Seg ''sts'']) (Guard_Authz action_sts ''credentials'' False)
        Ep_Refresh_STS]"

definition api_routes :: "route list" where
  "api_routes = status_routes @ worker_routes @ team_routes @ human_routes @ manager_routes @
     lifecycle_routes @ gateway_routes"

text \<open>The guard of the Docker passthrough, registered for every method under \<open>/docker/\<close>.\<close>

definition docker_guard :: guard where
  "docker_guard = Guard_Authz action_gateway ''gateway'' False"

section \<open>The multiplexer\<close>

fun matches :: "segment list \<Rightarrow> string list \<Rightarrow> bool" where
  "matches [] [] = True"
| "matches (Seg s # ps) (v # vs) = (s = v \<and> matches ps vs)"
| "matches (Wild # ps) (v # vs) = (v \<noteq> [] \<and> matches ps vs)"
| "matches _ _ = False"

fun wild_value :: "segment list \<Rightarrow> string list \<Rightarrow> string" where
  "wild_value (Wild # ps) (v # vs) = v"
| "wild_value (Seg s # ps) (v # vs) = wild_value ps vs"
| "wild_value _ _ = []"

text \<open>A route for GET serves HEAD as well.\<close>

definition method_matches :: "string \<Rightarrow> string \<Rightarrow> bool" where
  "method_matches rm m \<longleftrightarrow> rm = m \<or> (rm = ''GET'' \<and> m = ''HEAD'')"

datatype mux_result =
    Mux_Route guard endpoint string
  | Mux_Not_Allowed
  | Mux_Not_Found

definition find_route :: "bool \<Rightarrow> string \<Rightarrow> string list \<Rightarrow> mux_result" where
  "find_route docker m path =
     (case List.find (\<lambda>r. method_matches (rt_method r) m \<and> matches (rt_pattern r) path) api_routes of
        Some r \<Rightarrow> Mux_Route (rt_guard r) (rt_endpoint r) (wild_value (rt_pattern r) path)
      | None \<Rightarrow>
          if docker \<and> path \<noteq> [] \<and> hd path = ''docker'' \<and> tl path \<noteq> [] then Mux_Route docker_guard Ep_Docker_Proxy []
          else if list_ex (\<lambda>r. matches (rt_pattern r) path) api_routes then Mux_Not_Allowed
          else Mux_Not_Found)"

section \<open>The guarded dispatch\<close>

text \<open>
  A request: what the multiplexer and the middleware read, the body as bytes, the query parameter
  \<open>team\<close>, and the views of the upload and of the Docker proxy on it.
\<close>

record api_request =
  aq_method :: string
  aq_path :: "string list"
  aq_authorization :: string
  aq_body :: string
  aq_team :: string
  aq_upload :: upload_request
  aq_docker :: proxy_request

datatype dispatch =
    Refused nat string
  | Run_Endpoint endpoint "caller_identity option" string

definition run_guard ::
  "'s middleware \<Rightarrow> guard \<Rightarrow> api_request \<Rightarrow> string \<Rightarrow> 's \<Rightarrow> outcome \<times> 's" where
  "run_guard mw g q name s =
     (let r = \<lparr>rq_authorization = aq_authorization q, rq_path_name = name\<rparr> in
      (case g of
         Guard_None \<Rightarrow> (PassedUnauthenticated, s)
       | Guard_Authenticate \<Rightarrow> mw_authenticate mw r s
       | Guard_Authz action kind named \<Rightarrow>
           require_authz mw action kind (if named then Some name_from_path else None) r s))"

text \<open>\<open>docker\<close> says whether the passthrough is registered: embedded mode with a socket path.\<close>

definition docker_registered :: "string \<Rightarrow> string \<Rightarrow> bool" where
  "docker_registered kube_mode socket_path \<longleftrightarrow> kube_mode = ''embedded'' \<and> socket_path \<noteq> []"

definition dispatch_request :: "'s middleware \<Rightarrow> bool \<Rightarrow> api_request \<Rightarrow> 's \<Rightarrow> dispatch \<times> 's" where
  "dispatch_request mw docker q s =
     (case find_route docker (aq_method q) (aq_path q) of
        Mux_Not_Found \<Rightarrow> (Refused 404 ''404 page not found'', s)
      | Mux_Not_Allowed \<Rightarrow> (Refused 405 ''Method Not Allowed'', s)
      | Mux_Route g ep name \<Rightarrow>
          (case run_guard mw g q name s of
             (Rejected code msg, s') \<Rightarrow> (Refused code msg, s')
           | (PassedUnauthenticated, s') \<Rightarrow> (Run_Endpoint ep None name, s')
           | (Passed identity, s') \<Rightarrow> (Run_Endpoint ep (Some identity) name, s')))"

section \<open>The server\<close>

record api_decoders =
  de_create_worker :: "string \<Rightarrow> create_worker_request result"
  de_update_worker :: "string \<Rightarrow> update_worker_request result"
  de_create_team :: "string \<Rightarrow> create_team_request result"
  de_update_team :: "string \<Rightarrow> update_team_request result"
  de_create_human :: "string \<Rightarrow> create_human_request result"
  de_create_manager :: "string \<Rightarrow> create_manager_request result"
  de_update_manager :: "string \<Rightarrow> update_manager_request result"
  de_create_consumer :: "string \<Rightarrow> create_consumer_request result"
  de_container :: "string \<Rightarrow> container_create_request result"

record 'w server_deps =
  sd_workers :: "('w, worker) kind_client"
  sd_teams :: "('w, team) kind_client"
  sd_humans :: "('w, human) kind_client"
  sd_managers :: "('w, manager) kind_client"
  sd_backends :: "'w worker_backend list"
  sd_gateway :: "'w gateway_ops option"
  sd_oss :: "'w storage_client option"
  sd_sts :: "'w sts_service option"
  sd_kube_mode :: string
  sd_namespace :: string
  sd_controller_name :: string
  sd_socket_path :: string

record 'w http_server =
  hs_resources :: "'w resource_handler"
  hs_status :: "'w status_handler"
  hs_lifecycle :: "'w lifecycle_handler"
  hs_gateway :: "'w gateway_ops option"
  hs_oss :: "'w storage_client option"
  hs_sts :: "'w sts_service option"
  hs_docker :: bool
  hs_validator :: security_validator

definition new_http_server :: "(string \<Rightarrow> string) \<Rightarrow> 'w server_deps \<Rightarrow> 'w http_server" where
  "new_http_server getenv d =
     \<lparr>hs_resources = \<lparr>rh_workers = sd_workers d, rh_teams = sd_teams d, rh_humans = sd_humans d,
        rh_managers = sd_managers d, rh_namespace = sd_namespace d, rh_backends = Some (sd_backends d),
        rh_controller_name = sd_controller_name d\<rparr>,
      hs_status = \<lparr>sh_workers = sd_workers d, sh_teams = sd_teams d, sh_humans = sd_humans d,
        sh_namespace = sd_namespace d, sh_kube_mode = sd_kube_mode d\<rparr>,
      hs_lifecycle = \<lparr>lh_workers = sd_workers d, lh_backends = sd_backends d, lh_namespace = sd_namespace d\<rparr>,
      hs_gateway = sd_gateway d, hs_oss = sd_oss d, hs_sts = sd_sts d,
      hs_docker = docker_registered (sd_kube_mode d) (sd_socket_path d),
      hs_validator = new_security_validator getenv\<rparr>"

text \<open>What is written to the client, by the type of the body.\<close>

datatype api_answer =
    Ans_Text nat string
  | Ans_Worker "worker_response api_response"
  | Ans_Workers "worker_response list api_response"
  | Ans_Team "team_response api_response"
  | Ans_Teams "team_response list api_response"
  | Ans_Human "human_response api_response"
  | Ans_Humans "human_response list api_response"
  | Ans_Manager "manager_response api_response"
  | Ans_Managers "manager_response list api_response"
  | Ans_Lifecycle "lifecycle_response api_response"
  | Ans_Cluster "cluster_status api_response"
  | Ans_Version "version_response api_response"
  | Ans_Consumer "consumer_response api_response"
  | Ans_Token "sts_token api_response"
  | Ans_Package "string api_response"
  | Ans_Docker proxy_outcome

definition answer :: "('b \<Rightarrow> api_answer) \<Rightarrow> ('s, 'b) state \<Rightarrow> ('s, api_answer) state" where
  "answer f m = do { r \<leftarrow> m; State_Monad.return (f r) }"

fun run_resource ::
  "api_decoders \<Rightarrow> 'w resource_handler \<Rightarrow> endpoint \<Rightarrow> caller_identity option \<Rightarrow> string \<Rightarrow> api_request \<Rightarrow>
   ('w, api_answer) state option" where
  "run_resource de h Ep_Create_Worker c n q = Some (answer Ans_Worker (create_worker h c (de_create_worker de (aq_body q))))"
| "run_resource de h Ep_List_Workers c n q = Some (answer Ans_Workers (list_workers h (aq_team q)))"
| "run_resource de h Ep_Get_Worker c n q = Some (answer Ans_Worker (get_worker h n))"
| "run_resource de h Ep_Update_Worker c n q = Some (answer Ans_Worker (update_worker h n (de_update_worker de (aq_body q))))"
| "run_resource de h Ep_Delete_Worker c n q = Some (answer Ans_Worker (delete_worker h n))"
| "run_resource de h Ep_Create_Team c n q = Some (answer Ans_Team (create_team h (de_create_team de (aq_body q))))"
| "run_resource de h Ep_List_Teams c n q = Some (answer Ans_Teams (list_teams h))"
| "run_resource de h Ep_Get_Team c n q = Some (answer Ans_Team (get_team h n))"
| "run_resource de h Ep_Update_Team c n q = Some (answer Ans_Team (update_team h n (de_update_team de (aq_body q))))"
| "run_resource de h Ep_Delete_Team c n q = Some (answer Ans_Team (delete_team h n))"
| "run_resource de h Ep_Create_Human c n q = Some (answer Ans_Human (create_human h (de_create_human de (aq_body q))))"
| "run_resource de h Ep_List_Humans c n q = Some (answer Ans_Humans (list_humans h))"
| "run_resource de h Ep_Get_Human c n q = Some (answer Ans_Human (get_human h n))"
| "run_resource de h Ep_Delete_Human c n q = Some (answer Ans_Human (delete_human h n))"
| "run_resource de h Ep_Create_Manager c n q = Some (answer Ans_Manager (create_manager h (de_create_manager de (aq_body q))))"
| "run_resource de h Ep_List_Managers c n q = Some (answer Ans_Managers (list_managers h))"
| "run_resource de h Ep_Get_Manager c n q = Some (answer Ans_Manager (get_manager h n))"
| "run_resource de h Ep_Update_Manager c n q = Some (answer Ans_Manager (update_manager h n (de_update_manager de (aq_body q))))"
| "run_resource de h Ep_Delete_Manager c n q = Some (answer Ans_Manager (delete_manager h n))"
| "run_resource de h _ c n q = None"

fun run_service ::
  "(string \<Rightarrow> string) \<Rightarrow> api_decoders \<Rightarrow> 'w http_server \<Rightarrow> endpoint \<Rightarrow> caller_identity option \<Rightarrow> string \<Rightarrow> api_request \<Rightarrow>
   ('w lifecycle_state, api_answer) state" where
  "run_service sha de s Ep_Wake c n q = answer Ans_Lifecycle (wake_worker (hs_lifecycle s) n)"
| "run_service sha de s Ep_Sleep c n q = answer Ans_Lifecycle (sleep_worker (hs_lifecycle s) n)"
| "run_service sha de s Ep_Ensure_Ready c n q = answer Ans_Lifecycle (ensure_ready (hs_lifecycle s) n)"
| "run_service sha de s Ep_Ready c n q = answer Ans_Lifecycle (report_ready n)"
| "run_service sha de s Ep_Runtime_Status c n q = answer Ans_Worker (get_worker_runtime_status (hs_lifecycle s) n)"
| "run_service sha de s Ep_Cluster_Status c n q = on_cluster (answer Ans_Cluster (cluster_status_of (hs_status s)))"
| "run_service sha de s Ep_Version c n q = State_Monad.return (Ans_Version (version_of (hs_status s)))"
| "run_service sha de s Ep_Upload_Package c n q = on_cluster (answer Ans_Package (upload_package sha (hs_oss s) (aq_upload q)))"
| "run_service sha de s Ep_Create_Consumer c n q =
     on_cluster (answer Ans_Consumer (create_consumer (hs_gateway s) (de_create_consumer de (aq_body q))))"
| "run_service sha de s Ep_Bind_Consumer c n q = on_cluster (answer Ans_Consumer (bind_consumer (hs_gateway s) n))"
| "run_service sha de s Ep_Delete_Consumer c n q = on_cluster (answer Ans_Consumer (delete_consumer (hs_gateway s) n))"
| "run_service sha de s Ep_Refresh_STS c n q = on_cluster (answer Ans_Token (refresh_sts (hs_sts s) c))"
| "run_service sha de s Ep_Docker_Proxy c n q =
     State_Monad.return (Ans_Docker (serve_docker_http (hs_validator s) (de_container de) (aq_docker q)))"
| "run_service sha de s _ c n q = State_Monad.return (Ans_Text 200 ''ok'')"

definition run_endpoint ::
  "(string \<Rightarrow> string) \<Rightarrow> api_decoders \<Rightarrow> 'w http_server \<Rightarrow> endpoint \<Rightarrow> caller_identity option \<Rightarrow> string \<Rightarrow> api_request \<Rightarrow>
   ('w lifecycle_state, api_answer) state" where
  "run_endpoint sha de s ep c n q =
     (case run_resource de (hs_resources s) ep c n q of
        Some m \<Rightarrow> on_cluster m
      | None \<Rightarrow> run_service sha de s ep c n q)"

text \<open>One request against the server: the reads of the middleware see the cluster of the moment.\<close>

definition serve_api ::
  "('w \<Rightarrow> 's middleware) \<Rightarrow> (string \<Rightarrow> string) \<Rightarrow> api_decoders \<Rightarrow> 'w http_server \<Rightarrow> api_request \<Rightarrow>
   'w lifecycle_state \<Rightarrow> 's \<Rightarrow> api_answer \<times> 'w lifecycle_state \<times> 's" where
  "serve_api mw sha de s q l a =
     (case dispatch_request (mw (lfs_world l)) (hs_docker s) q a of
        (Refused code msg, a') \<Rightarrow> (Ans_Text code msg, l, a')
      | (Run_Endpoint ep c n, a') \<Rightarrow>
          (case run_state (run_endpoint sha de s ep c n q) l of (r, l') \<Rightarrow> (r, l', a')))"

end
