(* ===== verification/Api_Properties.thy ===== *)
theory Api_Properties
  imports Api_Routes
begin

text \<open>
  What the HTTP API guarantees as a whole: which endpoints a caller of each role reaches through
  multiplexer and middleware, and what the handlers of workers and teams do on a store that keeps
  what it is given. The locale states what the handlers rely on of the typed Kubernetes client.
\<close>

section \<open>The route table\<close>

fun same_segment :: "segment \<Rightarrow> segment \<Rightarrow> bool" where
  "same_segment (Seg a) (Seg b) = (a = b)"
| "same_segment _ _ = True"

definition overlap :: "segment list \<Rightarrow> segment list \<Rightarrow> bool" where
  "overlap p q \<longleftrightarrow> list_all2 same_segment p q"

lemma matches_Cons: "matches (p # ps) v \<longleftrightarrow> (\<exists>x xs. v = x # xs \<and> (p = Seg x \<or> (p = Wild \<and> x \<noteq> [])) \<and> matches ps xs)"
  by (cases p; cases v) auto

lemma matches_Nil: "matches [] v \<longleftrightarrow> v = []"
  by (cases v) auto

lemma same_segment_refl: "p = Seg x \<or> p = Wild \<Longrightarrow> q = Seg x \<or> q = Wild \<Longrightarrow> same_segment p q"
  by auto

lemma matches_overlap: "matches p v \<Longrightarrow> matches q v \<Longrightarrow> overlap p q"
proof (induction v arbitrary: p q)
  case Nil
  then show ?case by (cases p; cases q) (auto simp: overlap_def matches_Cons)
next
  case (Cons x v)
  then obtain p' ps q' qs where "p = p' # ps" "q = q' # qs"
    by (metis list.exhaust list.distinct(1) matches_Nil)
  with Cons show ?case
    by (simp add: overlap_def matches_Cons) (metis same_segment_refl)
qed

fun pairwise :: "('a \<Rightarrow> 'a \<Rightarrow> bool) \<Rightarrow> 'a list \<Rightarrow> bool" where
  "pairwise P [] = True"
| "pairwise P (x # xs) = (list_all (P x) xs \<and> pairwise P xs)"

definition exclusive :: "route \<Rightarrow> route \<Rightarrow> bool" where
  "exclusive r s \<longleftrightarrow> rt_method r \<noteq> rt_method s \<or> \<not> overlap (rt_pattern r) (rt_pattern s)"

text \<open>No request matches two routes, so the order of the table does not matter.\<close>

lemma routes_exclusive: "pairwise exclusive api_routes"
  by code_simp

lemma no_head_route: "list_all (\<lambda>r. rt_method r \<in> {''GET'', ''POST'', ''PUT'', ''DELETE''}) api_routes"
  by code_simp

definition guard_of :: "endpoint \<Rightarrow> guard" where
  "guard_of ep =
     (case List.find (\<lambda>r. rt_endpoint r = ep) api_routes of Some r \<Rightarrow> rt_guard r | None \<Rightarrow> docker_guard)"

lemma routes_guarded: "list_all (\<lambda>r. guard_of (rt_endpoint r) = rt_guard r) api_routes"
  by code_simp

lemma named_routes_wild:
  "list_all (\<lambda>r. case rt_guard r of Guard_Authz a k named \<Rightarrow> named \<longrightarrow> Wild \<in> set (rt_pattern r) | _ \<Rightarrow> True) api_routes"
  by code_simp

lemma wild_value_nonempty: "matches p v \<Longrightarrow> Wild \<in> set p \<Longrightarrow> wild_value p v \<noteq> []"
proof (induction p arbitrary: v)
  case (Cons s p)
  then show ?case by (cases s) (auto simp: matches_Cons)
qed simp

lemma find_SomeD: "List.find P xs = Some x \<Longrightarrow> x \<in> set xs \<and> P x"
  by (auto simp: find_Some_iff)

lemma find_route_guard:
  assumes "find_route docker m path = Mux_Route g ep n"
  shows "g = guard_of ep" "(\<exists>a k. g = Guard_Authz a k True) \<Longrightarrow> n \<noteq> []"
proof -
  consider r where "r \<in> set api_routes" "matches (rt_pattern r) path" "g = rt_guard r" "ep = rt_endpoint r"
      "n = wild_value (rt_pattern r) path"
    | "g = docker_guard" "ep = Ep_Docker_Proxy"
    using assms
    by (auto simp: find_route_def split: option.splits if_splits dest!: find_SomeD)
  then have "g = guard_of ep \<and> ((\<exists>a k. g = Guard_Authz a k True) \<longrightarrow> n \<noteq> [])"
  proof cases
    case 1
    then show ?thesis
      using routes_guarded named_routes_wild wild_value_nonempty unfolding list_all_iff by fastforce
  next
    case 2
    moreover have "guard_of Ep_Docker_Proxy = docker_guard" by code_simp
    ultimately show ?thesis by (simp add: docker_guard_def)
  qed
  then show "g = guard_of ep" "(\<exists>a k. g = Guard_Authz a k True) \<Longrightarrow> n \<noteq> []" by blast+
qed

text \<open>The reach of an authenticated caller, stated by role instead of by route and permission.\<close>

definition leader_free :: "endpoint list" where
  "leader_free = [Ep_Cluster_Status, Ep_List_Workers, Ep_Get_Team, Ep_List_Teams, Ep_Refresh_STS]"

definition leader_team_bound :: "endpoint list" where
  "leader_team_bound = [Ep_Create_Worker, Ep_Get_Worker, Ep_Update_Worker, Ep_Upload_Package, Ep_Wake, Ep_Sleep,
     Ep_Ensure_Ready, Ep_Ready, Ep_Runtime_Status]"

definition worker_free :: "endpoint list" where
  "worker_free = [Ep_Cluster_Status, Ep_Refresh_STS]"

definition worker_self_bound :: "endpoint list" where
  "worker_self_bound = [Ep_Get_Worker, Ep_Ready, Ep_Runtime_Status]"

definition may_reach :: "caller_identity \<Rightarrow> endpoint \<Rightarrow> string \<Rightarrow> string \<Rightarrow> bool" where
  "may_reach c ep name team \<longleftrightarrow>
     ep = Ep_Version \<or> ci_role c \<in> {role_admin, role_manager} \<or>
     (ci_role c = role_team_leader \<and>
        (ep \<in> set leader_free \<or> (ep \<in> set leader_team_bound \<and> ci_team c \<noteq> [] \<and> team \<in> {[], ci_team c}))) \<or>
     (ci_role c = role_worker \<and>
        (ep \<in> set worker_free \<or> (ep \<in> set worker_self_bound \<and> name = ci_username c)))"

text \<open>The team of the worker an endpoint names, as the middleware finds it.\<close>

definition named_team :: "'s middleware \<Rightarrow> endpoint \<Rightarrow> string \<Rightarrow> string" where
  "named_team mw ep name =
     (case guard_of ep of
        Guard_Authz a k named \<Rightarrow> resolve_resource_team mw k (if named then name else [])
      | _ \<Rightarrow> [])"

lemma role_names_distinct [simp]:
  "role_admin \<noteq> role_worker" "role_admin \<noteq> role_team_leader" "role_manager \<noteq> role_worker"
  "role_manager \<noteq> role_team_leader" "role_worker \<noteq> role_team_leader"
  "role_worker \<noteq> role_admin" "role_team_leader \<noteq> role_admin" "role_worker \<noteq> role_manager"
  "role_team_leader \<noteq> role_manager" "role_team_leader \<noteq> role_worker"
  by code_simp+

text \<open>The conditions of the authorizer for the two restricted roles, as classes of access.\<close>

datatype access = Always | Same_Team | Self | Never

definition leader_access :: "string \<Rightarrow> string \<Rightarrow> access" where
  "leader_access a k =
     (if k = ''status'' then Always
      else if k = ''worker'' then
        (if a = action_list then Always else if a \<in> set leader_worker_actions then Same_Team else Never)
      else if k = ''team'' then (if a = action_get \<or> a = action_list then Always else Never)
      else if k = ''credentials'' \<and> a = action_sts then Always else Never)"

definition worker_access :: "string \<Rightarrow> string \<Rightarrow> access" where
  "worker_access a k =
     (if k = ''status'' then Always
      else if k = ''worker'' then (if a \<in> set worker_self_actions then Self else Never)
      else if k = ''credentials'' \<and> a = action_sts then Always else Never)"

lemma authorize_leader_access:
  "ci_role c = role_team_leader \<Longrightarrow> authorize (Some c) req = None \<longleftrightarrow>
     (case leader_access (ar_action req) (ar_kind req) of
        Always \<Rightarrow> True | Same_Team \<Rightarrow> ci_team c \<noteq> [] \<and> ar_team req \<in> {[], ci_team c} | _ \<Rightarrow> False)"
  by (auto simp: authz leader_access_def)

lemma authorize_worker_access:
  "ci_role c = role_worker \<Longrightarrow> authorize (Some c) req = None \<longleftrightarrow>
     (case worker_access (ar_action req) (ar_kind req) of
        Always \<Rightarrow> True | Self \<Rightarrow> ar_name req \<in> {[], ci_username c} | _ \<Rightarrow> False)"
  by (auto simp: authz worker_access_def)

definition all_endpoints :: "endpoint list" where
  "all_endpoints =
     [Ep_Healthz, Ep_Cluster_Status, Ep_Version, Ep_Create_Worker, Ep_List_Workers, Ep_Get_Worker, Ep_Update_Worker,
      Ep_Delete_Worker, Ep_Create_Team, Ep_List_Teams, Ep_Get_Team, Ep_Update_Team, Ep_Delete_Team, Ep_Create_Human,
      Ep_List_Humans, Ep_Get_Human, Ep_Delete_Human, Ep_Create_Manager, Ep_List_Managers, Ep_Get_Manager,
      Ep_Update_Manager, Ep_Delete_Manager, Ep_Upload_Package, Ep_Wake, Ep_Sleep, Ep_Ensure_Ready, Ep_Ready,
      Ep_Runtime_Status, Ep_Create_Consumer, Ep_Bind_Consumer, Ep_Delete_Consumer, Ep_Refresh_STS, Ep_Docker_Proxy]"

lemma in_all_endpoints: "ep \<in> set all_endpoints"
  by (cases ep) (simp_all add: all_endpoints_def)

lemma access_table:
  "list_all (\<lambda>ep. case guard_of ep of
      Guard_Authz a k named \<Rightarrow>
        ep \<noteq> Ep_Version \<and>
        leader_access a k = (if ep \<in> set leader_free then Always
          else if ep \<in> set leader_team_bound then Same_Team else Never) \<and>
        worker_access a k = (if ep \<in> set worker_free then Always
          else if ep \<in> set worker_self_bound then Self else Never) \<and>
        (worker_access a k = Self \<longrightarrow> named)
    | Guard_Authenticate \<Rightarrow> ep = Ep_Version
    | Guard_None \<Rightarrow> ep = Ep_Healthz) all_endpoints"
  by code_simp

lemma endpoint_access:
  assumes "guard_of ep = Guard_Authz a k named"
  shows "ep \<noteq> Ep_Version"
    "leader_access a k = (if ep \<in> set leader_free then Always
       else if ep \<in> set leader_team_bound then Same_Team else Never)"
    "worker_access a k = (if ep \<in> set worker_free then Always
       else if ep \<in> set worker_self_bound then Self else Never)"
    "worker_access a k = Self \<Longrightarrow> named"
  using access_table in_all_endpoints [of ep] assms unfolding list_all_iff by fastforce+

lemma guard_of_healthz: "guard_of Ep_Healthz = Guard_None"
  by code_simp

lemma unguarded_endpoints:
  "guard_of ep = Guard_Authenticate \<Longrightarrow> ep = Ep_Version" "guard_of ep = Guard_None \<Longrightarrow> ep = Ep_Healthz"
  using access_table in_all_endpoints [of ep] unfolding list_all_iff by fastforce+

lemma authorize_reach:
  assumes g: "guard_of ep = Guard_Authz a k named" and name: "named \<Longrightarrow> name \<noteq> []"
  shows "authorize (Some c) \<lparr>ar_action = a, ar_kind = k, ar_name = (if named then name else []), ar_team = team\<rparr> = None
    \<longleftrightarrow> may_reach c ep name team"
proof -
  consider "ci_role c \<in> {role_admin, role_manager}" | "ci_role c = role_team_leader" | "ci_role c = role_worker"
    | "ci_role c \<notin> {role_admin, role_manager, role_team_leader, role_worker}" by blast
  then show ?thesis
  proof cases
    case 1
    then show ?thesis by (auto simp: authorize_def may_reach_def)
  next
    case 2
    then show ?thesis
      using endpoint_access(1,2) [OF g] by (auto simp: authorize_leader_access may_reach_def)
  next
    case 3
    then show ?thesis
      using endpoint_access(1,3,4) [OF g] name by (auto simp: authorize_worker_access may_reach_def)
  next
    case 4
    then show ?thesis
      using endpoint_access(1) [OF g] by (auto simp: authorize_def may_reach_def)
  qed
qed

text \<open>C21. The endpoints a caller reaches, decided by role: with authentication on, a request that matches
  a route is answered by its handler exactly when the route is the health check, or the token
  belongs to an identity that may reach the endpoint. Admin and manager reach everything; a team
  leader the status, lists, teams and its own credentials, and the endpoints of a worker that is
  not known to belong to another team; a worker the status, its credentials, and reading itself and
  reporting itself ready; any other role only the version. No team leader or worker deletes
  anything, or reaches humans, managers, the gateway or the Docker socket.\<close>

theorem api_reach_by_role:
  assumes on: "mw_authenticator mw = Some auth"
    and route: "find_route docker (aq_method q) (aq_path q) = Mux_Route g ep name"
    and auth: "authenticate_and_enrich mw auth \<lparr>rq_authorization = aq_authorization q, rq_path_name = name\<rparr> s = (who, s')"
  shows "(\<exists>c s''. dispatch_request mw docker q s = (Run_Endpoint ep c name, s'')) \<longleftrightarrow>
    ep = Ep_Healthz \<or> (\<exists>c. who = Some c \<and> may_reach c ep name (named_team mw ep name))"
proof -
  have g: "g = guard_of ep" and name: "(\<exists>a k. g = Guard_Authz a k True) \<Longrightarrow> name \<noteq> []"
    using find_route_guard [OF route] by blast+
  show ?thesis
  proof (cases g)
    case Guard_None
    then show ?thesis
      using unguarded_endpoints(2) g by (simp add: dispatch_request_def route run_guard_def)
  next
    case Guard_Authenticate
    then have "ep = Ep_Version" using unguarded_endpoints(1) g by simp
    then show ?thesis
      using Guard_Authenticate on auth
      by (auto simp: dispatch_request_def route run_guard_def mw_authenticate_def may_reach_def Let_def split: option.splits)
  next
    case (Guard_Authz a k named)
    then have ep: "guard_of ep = Guard_Authz a k named" and named: "named \<Longrightarrow> name \<noteq> []"
      using g name by auto
    have team: "named_team mw ep name = resolve_resource_team mw k (if named then name else [])"
      by (simp add: named_team_def ep)
    have healthz: "ep \<noteq> Ep_Healthz"
      using ep access_table in_all_endpoints [of ep] unfolding list_all_iff by (metis guard.distinct(3) guard_of_healthz)
    show ?thesis
    proof (cases who)
      case None
      then show ?thesis
        using Guard_Authz on auth healthz by (simp add: dispatch_request_def route run_guard_def require_authz_def Let_def)
    next
      case (Some c)
      have "fst (run_guard mw g q name s) =
          (case authorize (Some c) \<lparr>ar_action = a, ar_kind = k, ar_name = (if named then name else []),
              ar_team = named_team mw ep name\<rparr> of Some e \<Rightarrow> Rejected 403 (err_text e) | None \<Rightarrow> Passed c)"
        using Guard_Authz on auth Some
        by (auto simp: run_guard_def require_authz_def Let_def name_from_path_def team split: option.splits)
      then show ?thesis
        using authorize_reach [OF ep named, of c "named_team mw ep name"] Some healthz
        by (auto simp: dispatch_request_def route split: option.splits prod.splits outcome.splits)
    qed
  qed
qed

definition alice_worker :: caller_identity where
  "alice_worker = \<lparr>ci_role = role_worker, ci_username = ''alice'', ci_team = [], ci_worker_name = []\<rparr>"

definition alice_middleware :: "nat middleware" where
  "alice_middleware = \<lparr>mw_authenticator = Some (\<lambda>t n. (if t = ''tok'' then Inr alice_worker else Inl (Err ''no''), Suc n)),
     mw_enricher = None, mw_get_worker = None\<rparr>"

definition sample_request :: "string \<Rightarrow> string list \<Rightarrow> api_request" where
  "sample_request m path = \<lparr>aq_method = m, aq_path = path, aq_authorization = ''Bearer tok'', aq_body = [], aq_team = [],
     aq_upload = \<lparr>up_form_error = None, up_name = [], up_file = Inr (Inr [])\<rparr>,
     aq_docker = \<lparr>px_method = m, px_path = [], px_name_param = [], px_body = Inr []\<rparr>\<rparr>"

lemma api_reach_by_role_witness:
  "(\<exists>c s. dispatch_request alice_middleware True
      (sample_request ''POST'' [''api'', ''v1'', ''workers'', ''alice'', ''ready'']) 0 = (Run_Endpoint Ep_Ready c ''alice'', s)) \<and>
   \<not> may_reach alice_worker Ep_Ready ''bob'' []"
proof -
  have route: "find_route True (aq_method (sample_request ''POST'' [''api'', ''v1'', ''workers'', ''alice'', ''ready'']))
      (aq_path (sample_request ''POST'' [''api'', ''v1'', ''workers'', ''alice'', ''ready''])) =
      Mux_Route (Guard_Authz ''ready'' ''worker'' True) Ep_Ready ''alice''"
    by code_simp
  have on: "mw_authenticator alice_middleware = Some (\<lambda>t n. (if t = ''tok'' then Inr alice_worker else Inl (Err ''no''), Suc n))"
    by (simp add: alice_middleware_def)
  have who: "authenticate_and_enrich alice_middleware (\<lambda>t n. (if t = ''tok'' then Inr alice_worker else Inl (Err ''no''), Suc n))
      \<lparr>rq_authorization = aq_authorization (sample_request ''POST'' [''api'', ''v1'', ''workers'', ''alice'', ''ready'']),
       rq_path_name = ''alice''\<rparr> 0 = (Some alice_worker, Suc 0)"
    by (simp add: authenticate_and_enrich_def alice_middleware_def sample_request_def extract_bearer_token_def
        trim_prefix_def has_prefix_def)
  have reach: "may_reach alice_worker Ep_Ready ''alice'' team" "\<not> may_reach alice_worker Ep_Ready ''bob'' team" for team
    by (simp_all add: may_reach_def alice_worker_def worker_self_bound_def worker_free_def)
  show ?thesis
    using api_reach_by_role [OF on route who] reach by blast
qed

section \<open>Handlers on a store\<close>

text \<open>
  What the handlers rely on of the typed client for one kind in its namespace: reads return what is
  stored and change nothing, a created or updated object is stored as it was sent, deletion
  removes it. \<open>at w n\<close> is the object stored under a name; the other kinds are left alone, as \<open>rest\<close>.
\<close>

locale kind_store =
  fixes c :: "('w, 'r) kind_client"
    and ns :: string
    and name_of :: "'r \<Rightarrow> string"
    and at :: "'w \<Rightarrow> string \<Rightarrow> 'r option"
    and rest :: "'w \<Rightarrow> 'v"
  assumes get_ok: "run_state (kc_get c ns n) w = ((case at w n of None \<Rightarrow> Inl ApiNotFound | Some x \<Rightarrow> Inr x), w)"
    and list_ok: "\<exists>xs. run_state (kc_list c ns) w = (Inr xs, w) \<and> set xs = ran (at w)"
    and named: "at w n = Some x \<Longrightarrow> name_of x = n"
    and create_ok: "at w (name_of x) = None \<Longrightarrow> \<exists>w'. run_state (kc_create c x) w = (Inr x, w') \<and>
        at w' = (at w)(name_of x \<mapsto> x) \<and> rest w' = rest w"
    and create_taken: "at w (name_of x) \<noteq> None \<Longrightarrow> run_state (kc_create c x) w = (Inl ApiAlreadyExists, w)"
    and update_ok: "at w (name_of x) \<noteq> None \<Longrightarrow> \<exists>w'. run_state (kc_update c x) w = (Inr x, w') \<and>
        at w' = (at w)(name_of x \<mapsto> x) \<and> rest w' = rest w"
    and delete_ok: "at w n \<noteq> None \<Longrightarrow> \<exists>w'. run_state (kc_delete c ns n) w = (None, w') \<and>
        at w' = (at w)(n := None) \<and> rest w' = rest w"
begin

lemma create_object_new:
  "at w (name_of x) = None \<Longrightarrow> \<exists>w'. run_state (create_object c op resp x) w = (Api_Json 201 (resp x), w') \<and>
     at w' = (at w)(name_of x \<mapsto> x) \<and> rest w' = rest w"
  using create_ok [of w x] by (auto simp: create_object_def)

lemma create_object_taken:
  "at w (name_of x) \<noteq> None \<Longrightarrow> run_state (create_object c op resp x) w = (Api_Error 409 (op @ '': already exists''), w)"
  using create_taken [of w x] by (simp add: create_object_def write_k8s_error_def err_kind_defs)

lemma get_object_reads:
  "run_state (get_object c ns op resp n) w =
     ((case at w n of None \<Rightarrow> Api_Error 404 (op @ '': not found'') | Some x \<Rightarrow> Api_Json 200 (resp x)), w)"
  by (simp add: get_object_def get_ok write_k8s_error_def err_kind_defs split: option.splits)

lemma delete_object_removes:
  "at w n \<noteq> None \<Longrightarrow> \<exists>w'. run_state (delete_object c ns op n) w = (Api_Status 204, w') \<and>
     at w' = (at w)(n := None) \<and> rest w' = rest w"
  using delete_ok [of w n] by (auto simp: delete_object_def)

text \<open>Without conflicts the first attempt of an update writes the changed object.\<close>

lemma update_attempts_writes:
  assumes "at w n = Some x" "name_of (change x) = n"
  shows "\<exists>w'. run_state (update_attempts (Suc left) c ns kind change resp n) w = (Api_Json 200 (resp (change x)), w') \<and>
    at w' = (at w)(n \<mapsto> change x) \<and> rest w' = rest w"
  using update_ok [of w "change x"] assms by (auto simp: get_ok)

lemma update_attempts_missing:
  "at w n = None \<Longrightarrow> run_state (update_attempts (Suc left) c ns kind change resp n) w =
     (Api_Error 404 (''get '' @ kind @ '' for update'' @ '': not found''), w)"
  by (simp add: get_ok write_k8s_error_def err_kind_defs)

end

text \<open>A cluster held in memory, one list of objects for each kind, satisfies the laws.\<close>

record memory_cluster =
  mem_workers :: "worker list"
  mem_teams :: "team list"

definition stored :: "('r \<Rightarrow> string) \<Rightarrow> 'r list \<Rightarrow> string \<Rightarrow> 'r option" where
  "stored name_of xs n = List.find (\<lambda>x. name_of x = n) xs"

definition memory_get :: "('r \<Rightarrow> string) \<Rightarrow> string \<Rightarrow> 'r list \<Rightarrow> 'r result" where
  "memory_get name_of n xs = (case stored name_of xs n of None \<Rightarrow> Inl ApiNotFound | Some x \<Rightarrow> Inr x)"

definition memory_kind ::
  "('w \<Rightarrow> 'r list) \<Rightarrow> ('r list \<Rightarrow> 'w \<Rightarrow> 'w) \<Rightarrow> ('r \<Rightarrow> string) \<Rightarrow> ('w, 'r) kind_client" where
  "memory_kind get put name_of =
     (let upd = \<lambda>x. State (\<lambda>w. if stored name_of (get w) (name_of x) = None then (Inl ApiNotFound, w)
                else (Inr x, put (x # get w) w))
      in \<lparr>kc_get = \<lambda>_ n. State (\<lambda>w. (memory_get name_of n (get w), w)),
        kc_list = \<lambda>_. State (\<lambda>w. (Inr [x \<leftarrow> get w. stored name_of (get w) (name_of x) = Some x], w)),
        kc_create = \<lambda>x. State (\<lambda>w. if stored name_of (get w) (name_of x) \<noteq> None then (Inl ApiAlreadyExists, w)
          else (Inr x, put (x # get w) w)),
        kc_update = upd, kc_status_update = upd,
        kc_delete = \<lambda>_ n. State (\<lambda>w. if stored name_of (get w) n = None then (Some ApiNotFound, w)
          else (None, put [x \<leftarrow> get w. name_of x \<noteq> n] w))\<rparr>)"

lemma stored_Cons: "stored name_of (x # xs) = (stored name_of xs)(name_of x \<mapsto> x)"
  by (auto simp: stored_def fun_eq_iff)

lemma stored_named: "stored name_of xs n = Some x \<Longrightarrow> name_of x = n"
  by (auto simp: stored_def find_Some_iff)

lemma stored_mem: "stored name_of xs n = Some x \<Longrightarrow> x \<in> set xs"
  by (auto simp: stored_def find_Some_iff)

lemma stored_filter: "stored name_of [x \<leftarrow> xs. name_of x \<noteq> n] = (stored name_of xs)(n := None)"
  by (induction xs) (auto simp: stored_def fun_eq_iff)

lemma memory_kind_store:
  assumes "\<And>xs w. get (put xs w) = xs" "\<And>xs w. rest (put xs w) = rest w"
  shows "kind_store (memory_kind get put name_of) ns name_of (\<lambda>w. stored name_of (get w)) rest"
proof
  fix w
  have "set [x \<leftarrow> get w. stored name_of (get w) (name_of x) = Some x] = ran (stored name_of (get w))"
    by (auto simp: ran_def dest: stored_mem) (metis stored_named)
  then show "\<exists>xs. run_state (kc_list (memory_kind get put name_of) ns) w = (Inr xs, w) \<and> set xs = ran (stored name_of (get w))"
    by (simp add: memory_kind_def Let_def)
qed (auto simp: memory_kind_def memory_get_def Let_def stored_Cons stored_filter assms dest: stored_named)

definition worker_key :: "worker \<Rightarrow> string" where
  "worker_key x = om_name (w_meta x)"

definition team_key :: "team \<Rightarrow> string" where
  "team_key x = om_name (t_meta x)"

definition memory_workers :: "(memory_cluster, worker) kind_client" where
  "memory_workers = memory_kind mem_workers (\<lambda>xs. mem_workers_update (\<lambda>_. xs)) worker_key"

definition memory_teams :: "(memory_cluster, team) kind_client" where
  "memory_teams = memory_kind mem_teams (\<lambda>xs. mem_teams_update (\<lambda>_. xs)) team_key"

interpretation worker_store: kind_store memory_workers ns worker_key
    "\<lambda>w. stored worker_key (mem_workers w)" "\<lambda>w. stored team_key (mem_teams w)" for ns
  unfolding memory_workers_def by (rule memory_kind_store) simp_all

interpretation team_store: kind_store memory_teams ns team_key
    "\<lambda>w. stored team_key (mem_teams w)" "\<lambda>w. stored worker_key (mem_workers w)" for ns
  unfolding memory_teams_def by (rule memory_kind_store) simp_all

section \<open>Workers and teams\<close>

definition member_names :: "team \<Rightarrow> string set" where
  "member_names t = insert (ls_name (ts_leader (t_spec t))) (tw_name ` set (ts_workers (t_spec t)))"

lemma find_member_in_cases:
  "find_member_in n ts = None \<longleftrightarrow> (\<forall>t \<in> set ts. n \<notin> member_names t)"
  "find_member_in n ts = Some (t, m) \<Longrightarrow> m = n \<and> t \<in> set ts \<and> n \<in> member_names t"
  by (induction ts) (auto simp: member_names_def list_ex_iff split: if_splits)

text \<open>The typed clients of workers and teams on one cluster.\<close>

definition keeps_objects ::
  "'w resource_handler \<Rightarrow> ('w \<Rightarrow> string \<Rightarrow> worker option) \<Rightarrow> ('w \<Rightarrow> string \<Rightarrow> team option) \<Rightarrow> bool" where
  "keeps_objects h workers teams \<longleftrightarrow>
     kind_store (rh_workers h) (rh_namespace h) worker_key workers teams \<and>
     kind_store (rh_teams h) (rh_namespace h) team_key teams workers"

lemma find_team_for_member_run:
  assumes "keeps_objects h workers teams"
  shows "(\<forall>t \<in> ran (teams w). n \<notin> member_names t) \<Longrightarrow> run_state (find_team_for_member h n) w = (Inr None, w)"
    "t \<in> ran (teams w) \<Longrightarrow> n \<in> member_names t \<Longrightarrow> \<exists>name. run_state (find_team_for_member h n) w = (Inr (Some name), w)"
proof -
  obtain ts where ts: "run_state (kc_list (rh_teams h) (rh_namespace h)) w = (Inr ts, w)" "set ts = ran (teams w)"
    using assms kind_store.list_ok [of "rh_teams h"] unfolding keeps_objects_def by blast
  show "(\<forall>t \<in> ran (teams w). n \<notin> member_names t) \<Longrightarrow> run_state (find_team_for_member h n) w = (Inr None, w)"
    using ts find_member_in_cases(1) [of n ts] by (simp add: find_team_for_member_def find_team_member_def)
  assume "t \<in> ran (teams w)" "n \<in> member_names t"
  then have "find_member_in n ts \<noteq> None" using find_member_in_cases(1) [of n ts] ts(2) by blast
  then show "\<exists>name. run_state (find_team_for_member h n) w = (Inr (Some name), w)"
    using ts(1) by (auto simp: find_team_for_member_def find_team_member_def)
qed

lemma unless_member_run:
  assumes "keeps_objects h workers teams"
  shows "(\<forall>t \<in> ran (teams w). n \<notin> member_names t) \<Longrightarrow> run_state (unless_member h op n msg k) w = run_state k w"
    "t \<in> ran (teams w) \<Longrightarrow> n \<in> member_names t \<Longrightarrow> \<exists>name. run_state (unless_member h op n msg k) w = (Api_Error 409 (msg name), w)"
proof -
  show "(\<forall>t \<in> ran (teams w). n \<notin> member_names t) \<Longrightarrow> run_state (unless_member h op n msg k) w = run_state k w"
    using find_team_for_member_run(1) [OF assms] by (simp add: unless_member_def)
  assume "t \<in> ran (teams w)" "n \<in> member_names t"
  then obtain name where "run_state (find_team_for_member h n) w = (Inr (Some name), w)"
    using find_team_for_member_run(2) [OF assms] by blast
  then show "\<exists>name. run_state (unless_member h op n msg k) w = (Api_Error 409 (msg name), w)"
    by (auto simp: unless_member_def)
qed

lemma new_worker_meta: "worker_key (new_worker h req) = cwr_name req"
  by (simp add: worker_key_def new_worker_def new_meta_def stamp_controller_label_def zero_meta_def)

lemma new_team_parts:
  "team_key (new_team h req) = ctr_name req"
  "member_names (new_team h req) = insert (tlr_name (ctr_leader req)) (twr_name ` set (ctr_workers req))"
  by (simp_all add: team_key_def new_team_def new_meta_def stamp_controller_label_def zero_meta_def zero_team_spec_def zero_leader_def
      zero_team_worker_def member_names_def new_leader_def new_team_worker_def image_image)

definition standalone_request :: "create_worker_request \<Rightarrow> bool" where
  "standalone_request req \<longleftrightarrow> cwr_name req \<noteq> [] \<and> cwr_team req = [] \<and> cwr_role req = [] \<and> cwr_team_leader req = []"


definition memory_handler :: "memory_cluster resource_handler" where
  "memory_handler = \<lparr>rh_workers = memory_workers, rh_teams = memory_teams,
     rh_humans = memory_kind (\<lambda>_. []) (\<lambda>_ w. w) (\<lambda>_. []), rh_managers = memory_kind (\<lambda>_. []) (\<lambda>_ w. w) (\<lambda>_. []),
     rh_namespace = ''default'', rh_backends = None, rh_controller_name = ''ctl''\<rparr>"

lemma memory_handler_keeps:
  "keeps_objects memory_handler (\<lambda>w. stored worker_key (mem_workers w)) (\<lambda>w. stored team_key (mem_teams w))"
  using worker_store.kind_store_axioms team_store.kind_store_axioms by (simp add: keeps_objects_def memory_handler_def)

definition empty_cluster :: memory_cluster where
  "empty_cluster = \<lparr>mem_workers = [], mem_teams = []\<rparr>"

definition alice_request :: create_worker_request where
  "alice_request = \<lparr>cwr_name = ''alice'', cwr_worker_name = [], cwr_model = ''m'', cwr_model_provider = [],
     cwr_runtime = [], cwr_image = [], cwr_identity = [], cwr_soul = [], cwr_agents = [], cwr_skills = [],
     cwr_mcp_servers = [], cwr_package = [], cwr_expose = [], cwr_channel_policy = None, cwr_resources = None,
     cwr_container_managed = None, cwr_state = None, cwr_team = [], cwr_team_leader = [], cwr_role = []\<rparr>"


text \<open>The name of a standalone worker is not protected against teams: a team may be created with a
  member of that name. The worker then still exists, but every update and every deletion of it is
  answered 409 and changes nothing, so that it can no longer be changed or removed through the API
  while the team has that member.\<close>

theorem team_member_shadows_worker:
  assumes store: "keeps_objects h workers teams" and x: "workers w n = Some x" "n \<noteq> []"
    and team: "teams w (ctr_name req) = None" "ctr_name req \<noteq> []" "tlr_name (ctr_leader req) \<noteq> []"
    and member: "n = tlr_name (ctr_leader req) \<or> n \<in> twr_name ` set (ctr_workers req)"
  shows "\<exists>w1 resp. run_state (create_team h (Inr req)) w = (Api_Json 201 resp, w1) \<and> workers w1 n = Some x \<and>
    (\<forall>change. \<exists>msg. run_state (update_worker h n (Inr change)) w1 = (Api_Error 409 msg, w1)) \<and>
    (\<exists>msg. run_state (delete_worker h n) w1 = (Api_Error 409 msg, w1))"
proof -
  let ?t = "new_team h req"
  have kt: "kind_store (rh_teams h) (rh_namespace h) team_key teams workers"
    using store by (simp add: keeps_objects_def)
  obtain w1 where c: "run_state (create_team h (Inr req)) w = (Api_Json 201 (team_to_response ?t), w1)"
      "teams w1 = (teams w)(ctr_name req \<mapsto> ?t)" "workers w1 = workers w"
    using kind_store.create_object_new [OF kt, of w ?t "''create team''" team_to_response] team
    by (auto simp: create_team_def with_body_def require_field_def new_team_parts)
  have t: "?t \<in> ran (teams w1)" "n \<in> member_names ?t"
    using c(2) member by (auto simp: ran_def new_team_parts)
  have "\<exists>msg. run_state (update_worker h n (Inr change)) w1 = (Api_Error 409 msg, w1)" for change
    using unless_member_run(2) [OF store t] x(2) by (simp add: update_worker_def with_body_def require_field_def) blast
  moreover have "\<exists>msg. run_state (delete_worker h n) w1 = (Api_Error 409 msg, w1)"
    using unless_member_run(2) [OF store t] x(2) by (simp add: delete_worker_def require_field_def) blast
  ultimately show ?thesis using c x(1) by auto
qed

definition shadow_request :: create_team_request where
  "shadow_request = \<lparr>ctr_name = ''team'', ctr_team_name = [], ctr_description = [], ctr_admin = None, ctr_human_members = [],
     ctr_leader = \<lparr>tlr_name = ''alice'', tlr_worker_name = [], tlr_model = [], tlr_model_provider = [], tlr_identity = [],
       tlr_soul = [], tlr_agents = [], tlr_package = [], tlr_mcp_servers = None, tlr_heartbeat = None,
       tlr_worker_idle_timeout = [], tlr_channel_policy = None, tlr_state = None, tlr_resources = None\<rparr>,
     ctr_workers = [], ctr_peer_mentions = None, ctr_channel_policy = None\<rparr>"

lemma team_member_shadows_worker_witness:
  "\<exists>w1 msg. mem_workers w1 \<noteq> [] \<and> run_state (delete_worker memory_handler ''alice'') w1 = (Api_Error 409 msg, w1)"
proof -
  let ?x = "new_worker memory_handler alice_request"
  let ?w = "\<lparr>mem_workers = [?x], mem_teams = []\<rparr>"
  have "stored worker_key (mem_workers ?w) ''alice'' = Some ?x" "stored team_key (mem_teams ?w) n = None" for n
    by (simp_all add: stored_def new_worker_meta) (simp add: alice_request_def)
  then obtain w1 msg where "stored worker_key (mem_workers w1) ''alice'' = Some ?x"
      "run_state (delete_worker memory_handler ''alice'') w1 = (Api_Error 409 msg, w1)"
    using team_member_shadows_worker [OF memory_handler_keeps, of ?w "''alice''" ?x shadow_request]
    by (auto simp: shadow_request_def)
  moreover have "mem_workers w1 \<noteq> []" using calculation(1) by (auto simp: stored_def)
  ultimately show ?thesis by blast
qed

text \<open>An update of a team does not touch its human members, although the request can name them.\<close>

lemma team_update_keeps_humans:
  "ts_human_members (t_spec (apply_team_update req t)) = ts_human_members (t_spec t)"
  by (simp add: apply_team_update_def Let_def)

text \<open>Replacing the workers of a team drops what the request cannot express.\<close>

lemma team_update_drops_worker_settings:
  assumes "utr_workers req = Some ws" "tw \<in> set (ts_workers (t_spec (apply_team_update req t)))"
  shows "tw_remote_skills tw = [] \<and> tw_access_entries tw = [] \<and> tw_env tw = [] \<and> tw_labels tw = []"
  using assms by (auto simp: apply_team_update_def Let_def new_team_worker_def zero_team_worker_def)

end
