(* ===== verification/Higress_Client.thy ===== *)
theory Higress_Client
  imports Provisioner_Rooms Plugin_Merge Manager_Controller Go_Results
begin

text \<open>
  \<open>internal/gateway/higress.go\<close>: the client of the Higress console, with its session, and the gateway
  interfaces it fills. The state is the session cookie beside the world; the console is a
  transport record. The mutexes make a session check, and a whole run over the AI routes, one
  step; the pauses between attempts are left out, as is logging.
\<close>

section \<open>Transport and session\<close>

record higress_config =
  hg_console_url :: string
  hg_admin_user :: string
  hg_admin_password :: string
  hg_allow_default_admin :: bool
  hg_data_plane_url :: string

datatype console_body = Body_None | Body_Text string | Body_Json json

record console_request =
  cq_method :: string
  cq_url :: string
  cq_cookies :: "string list"
  cq_body :: console_body

record console_reply = http_reply +
  cr_cookies :: "string list"

text \<open>\<open>hx_build\<close> is the error of \<open>http.NewRequestWithContext\<close>, \<open>hx_cancelled\<close> is \<open>ctx.Err\<close>.\<close>

record 'w higress_client =
  hx_config :: higress_config
  hx_build :: "string \<Rightarrow> go_error option"
  hx_send :: "console_request \<Rightarrow> ('w, console_reply result) state"
  hx_cancelled :: "('w, go_error option) state"

record 'w higress_state =
  hgs_world :: 'w
  hgs_cookies :: "string list"

definition on_console :: "('w, 'a) state \<Rightarrow> ('w higress_state, 'a) state" where
  "on_console m = State (\<lambda>s. case run_state m (hgs_world s) of (a, w) \<Rightarrow> (a, s\<lparr>hgs_world := w\<rparr>))"

definition current_cookies :: "('w higress_state, string list) state" where
  "current_cookies = State (\<lambda>s. (hgs_cookies s, s))"

definition set_cookies :: "string list \<Rightarrow> ('w higress_state, unit) state" where
  "set_cookies cs = modify_state (\<lambda>s. s\<lparr>hgs_cookies := cs\<rparr>)"

text \<open>One exchange: an error of building the request is returned as it is, one of sending it wrapped.\<close>

definition exchange ::
  "'w higress_client \<Rightarrow> (go_error \<Rightarrow> go_error) \<Rightarrow> string \<Rightarrow> string \<Rightarrow> string list \<Rightarrow> console_body \<Rightarrow>
   ('w higress_state, console_reply result) state" where
  "exchange c wrap m url cookies body =
     (case hx_build c url of
        Some e \<Rightarrow> State_Monad.return (Inl e)
      | None \<Rightarrow> do {
          r \<leftarrow> on_console (hx_send c \<lparr>cq_method = m, cq_url = url, cq_cookies = cookies, cq_body = body\<rparr>);
          State_Monad.return (map_sum wrap id r) })"

definition quoted_pair :: "string \<Rightarrow> string \<Rightarrow> string" where
  "quoted_pair k v = go_quote k @ '':'' @ go_quote v"

definition login_locked :: "'w higress_client \<Rightarrow> string \<Rightarrow> string \<Rightarrow> ('w higress_state, go_error option) state" where
  "login_locked c username password =
     use_state (exchange c (Wrap ''higress login'') ''POST'' (hg_console_url (hx_config c) @ ''/session/login'') []
         (Body_Text (''{'' @ quoted_pair ''username'' username @ '','' @ quoted_pair ''password'' password @ ''}''))) (\<lambda>r.
       if status_ok (rp_status r) then do { _ \<leftarrow> set_cookies (cr_cookies r); State_Monad.return None }
       else State_Monad.return (Some (Err (''higress login failed for user '' @ go_quote username @ '': HTTP '' @
              show_nat (rp_status r) @ '' (check higress-console state/secret)''))))"

definition change_password_locked ::
  "'w higress_client \<Rightarrow> string \<Rightarrow> string \<Rightarrow> ('w higress_state, go_error option) state" where
  "change_password_locked c old_password new_password = do {
     cookies \<leftarrow> current_cookies;
     use_state (exchange c (Wrap ''higress change password'') ''POST''
         (hg_console_url (hx_config c) @ ''/user/changePassword'') cookies
         (Body_Text (''{'' @ quoted_pair ''oldPassword'' old_password @ '','' @
            quoted_pair ''newPassword'' new_password @ ''}''))) (\<lambda>r.
       State_Monad.return
         (if status_ok (rp_status r) then None
          else Some (Err (''higress change password failed: HTTP '' @ show_nat (rp_status r) @ '': '' @
                 trim_space (rp_body r))))) }"

definition init_body :: "higress_config \<Rightarrow> string" where
  "init_body cfg = ''{'' @ go_quote ''adminUser'' @ '':{'' @ quoted_pair ''name'' (hg_admin_user cfg) @ '','' @
     quoted_pair ''password'' (hg_admin_password cfg) @ '','' @ quoted_pair ''displayName'' (hg_admin_user cfg) @ ''}}''"

text \<open>The recovery when the console initialised itself with the default account.\<close>

definition recover_default_admin :: "'w higress_client \<Rightarrow> ('w higress_state, go_error option) state" where
  "recover_default_admin c =
     (let cfg = hx_config c in
      then_step (wrap_error (''higress login with configured credentials failed; '' @
          ''fallback admin/admin login also failed'') (login_locked c ''admin'' ''admin''))
        (then_step (wrap_error (''higress default admin/admin login succeeded but '' @
             ''password convergence failed'') (change_password_locked c ''admin'' (hg_admin_password cfg)))
          (do {
             _ \<leftarrow> set_cookies [];
             wrap_error (''higress password converged but relogin with configured '' @ ''credentials failed'')
               (login_locked c (hg_admin_user cfg) (hg_admin_password cfg)) })))"

definition ensure_session :: "'w higress_client \<Rightarrow> ('w higress_state, go_error option) state" where
  "ensure_session c = do {
     cookies \<leftarrow> current_cookies;
     (if cookies \<noteq> [] then State_Monad.return None
      else
        let cfg = hx_config c in
        use_state (exchange c (Wrap ''higress init'') ''POST'' (hg_console_url cfg @ ''/system/init'') []
            (Body_Text (init_body cfg))) (\<lambda>_. do {
          e \<leftarrow> login_locked c (hg_admin_user cfg) (hg_admin_password cfg);
          (case e of
             None \<Rightarrow> State_Monad.return None
           | Some err \<Rightarrow>
               if \<not> hg_allow_default_admin cfg \<or> hg_admin_user cfg \<noteq> ''admin'' \<or> hg_admin_password cfg = ''admin''
               then State_Monad.return (Some err) else recover_default_admin c) })) }"

text \<open>\<open>doJSON\<close>: the session cookie is dropped on 401 and 403. Marshalling the bodies cannot fail.\<close>

definition console_do ::
  "'w higress_client \<Rightarrow> string \<Rightarrow> string \<Rightarrow> json option \<Rightarrow> ('w higress_state, console_reply result) state" where
  "console_do c m path body =
     check_state (ensure_session c) (do {
       cookies \<leftarrow> current_cookies;
       try_state (exchange c id m (trim_right (\<lambda>x. x = CHR ''/'') (hg_console_url (hx_config c)) @ path) cookies
           (case body of None \<Rightarrow> Body_None | Some j \<Rightarrow> Body_Json j)) (\<lambda>r. do {
         _ \<leftarrow> (if rp_status r = 401 \<or> rp_status r = 403 then set_cookies [] else State_Monad.return ());
         State_Monad.return (Inr r) }) })"

section \<open>Requests that create\<close>

definition http_failure :: "string \<Rightarrow> nat \<Rightarrow> go_error" where
  "http_failure what st = Err (what @ '': HTTP '' @ show_nat st)"

text \<open>A request that succeeds with one of the statuses of a list.\<close>

definition expect ::
  "'w higress_client \<Rightarrow> string \<Rightarrow> string \<Rightarrow> string \<Rightarrow> json option \<Rightarrow> nat list \<Rightarrow> ('w higress_state, go_error option) state" where
  "expect c what m path body ok =
     use_state (wrap_result what (console_do c m path body)) (\<lambda>r.
       State_Monad.return (if rp_status r \<in> set ok then None else Some (http_failure what (rp_status r))))"

definition ensure_domain :: "'w higress_client \<Rightarrow> string \<Rightarrow> ('w higress_state, go_error option) state" where
  "ensure_domain c name =
     expect c (''ensure domain '' @ name) ''POST'' ''/v1/domains''
       (Some (JObj [(''name'', JStr name), (''enableHttps'', JStr ''off'')])) [200, 201, 409]"

definition service_source_json :: "string \<Rightarrow> string \<Rightarrow> string \<Rightarrow> int \<Rightarrow> string \<Rightarrow> json" where
  "service_source_json kind name domain port protocol =
     JObj [(''type'', JStr kind), (''name'', JStr name), (''domain'', JStr domain), (''port'', JNum port),
       (''protocol'', JStr protocol), (''properties'', JObj []), (''authN'', JObj [(''enabled'', JBool False)])]"

definition ensure_service_source ::
  "'w higress_client \<Rightarrow> string \<Rightarrow> string \<Rightarrow> int \<Rightarrow> string \<Rightarrow> ('w higress_state, go_error option) state" where
  "ensure_service_source c name dns_domain port protocol =
     expect c (''ensure service source '' @ name) ''POST'' ''/v1/service-sources''
       (Some (service_source_json ''dns'' name dns_domain port (if protocol = [] then ''http'' else protocol)))
       [200, 201, 409]"

definition ensure_static_service_source ::
  "'w higress_client \<Rightarrow> string \<Rightarrow> string \<Rightarrow> int \<Rightarrow> ('w higress_state, go_error option) state" where
  "ensure_static_service_source c name address port =
     expect c (''ensure static service source '' @ name) ''POST'' ''/v1/service-sources''
       (Some (service_source_json ''static'' name (address @ '':'' @ show_int port) port ''http'')) [200, 201, 409]"

text \<open>No domains are the nil slice, which is encoded as null.\<close>

definition ensure_route ::
  "'w higress_client \<Rightarrow> string \<Rightarrow> string list \<Rightarrow> string \<Rightarrow> int \<Rightarrow> string \<Rightarrow> ('w higress_state, go_error option) state" where
  "ensure_route c name domains service_name port path_prefix =
     expect c (''ensure route '' @ name) ''POST'' ''/v1/routes''
       (Some (JObj [(''name'', JStr name), (''domains'', if domains = [] then JNull else JArr (map JStr domains)),
          (''path'', JObj [(''matchType'', JStr ''PRE''),
             (''matchValue'', JStr (if path_prefix = [] then ''/'' else path_prefix)), (''caseSensitive'', JBool False)]),
          (''services'', JArr [JObj [(''name'', JStr service_name), (''port'', JNum port), (''weight'', JNum 100)]])]))
       [200, 201, 409]"

text \<open>A deletion whose outcome is ignored.\<close>

definition delete_quietly :: "'w higress_client \<Rightarrow> string \<Rightarrow> ('w higress_state, unit) state" where
  "delete_quietly c path = do { _ \<leftarrow> console_do c ''DELETE'' path None; State_Monad.return () }"

definition delete_route :: "'w higress_client \<Rightarrow> string \<Rightarrow> ('w higress_state, unit) state" where
  "delete_route c name = delete_quietly c (''/v1/routes/'' @ name)"

definition delete_service_source :: "'w higress_client \<Rightarrow> string \<Rightarrow> ('w higress_state, unit) state" where
  "delete_service_source c name = delete_quietly c (''/v1/service-sources/'' @ name)"

definition delete_domain :: "'w higress_client \<Rightarrow> string \<Rightarrow> ('w higress_state, unit) state" where
  "delete_domain c name = delete_quietly c (''/v1/domains/'' @ name)"

section \<open>Exposed ports\<close>

definition port_resource :: "port_expose_request \<Rightarrow> string" where
  "port_resource req = ''worker-'' @ px_worker_name req @ ''-'' @ show_int (px_port req)"

definition port_domain :: "port_expose_request \<Rightarrow> string" where
  "port_domain req =
     (if px_domain req = [] then port_resource req @ ''-local.hiclaw.io'' else px_domain req)"

definition expose_port :: "'w higress_client \<Rightarrow> port_expose_request \<Rightarrow> ('w higress_state, go_error option) state" where
  "expose_port c req =
     (let name = port_resource req;
          host = (if px_service_host req = [] then px_worker_name req @ ''.local'' else px_service_host req)
      in wrap_error (''expose port '' @ show_int (px_port req))
           (then_step (ensure_domain c (port_domain req))
             (then_step (ensure_service_source c name host (px_port req) ''http'')
               (ensure_route c name [port_domain req] (name @ ''.dns'') (px_port req) ''/''))))"

definition unexpose_port :: "'w higress_client \<Rightarrow> port_expose_request \<Rightarrow> ('w higress_state, go_error option) state" where
  "unexpose_port c req = do {
     _ \<leftarrow> delete_route c (port_resource req);
     _ \<leftarrow> delete_service_source c (port_resource req);
     _ \<leftarrow> delete_domain c (port_domain req);
     State_Monad.return None }"

section \<open>Consumers\<close>

definition higress_ensure_consumer ::
  "'w higress_client \<Rightarrow> consumer_request \<Rightarrow> ('w higress_state, consumer_result result) state" where
  "higress_ensure_consumer c req =
     (let what = ''ensure consumer '' @ csr_name req in
      try_state (wrap_result what (console_do c ''POST'' ''/v1/consumers''
          (Some (JObj [(''name'', JStr (csr_name req)),
             (''credentials'', JArr [JObj [(''type'', JStr ''key-auth''), (''source'', JStr ''BEARER''),
                (''values'', JArr [JStr (csr_credential_key req)])]])])))) (\<lambda>r.
        State_Monad.return
          (if rp_status r = 409 \<or> status_ok (rp_status r)
           then Inr \<lparr>cso_status = (if rp_status r = 409 then ''exists'' else ''created''),
                     cso_api_key = csr_credential_key req, cso_consumer_id = []\<rparr>
           else Inl (http_failure what (rp_status r)))))"

definition higress_delete_consumer :: "'w higress_client \<Rightarrow> string \<Rightarrow> ('w higress_state, go_error option) state" where
  "higress_delete_consumer c name =
     expect c (''delete consumer '' @ name) ''DELETE'' (''/v1/consumers/'' @ name) None [200, 204, 404]"

definition healthy :: "'w higress_client \<Rightarrow> ('w higress_state, go_error option) state" where
  "healthy c =
     use_state (console_do c ''GET'' ''/v1/consumers'' None) (\<lambda>r.
       State_Monad.return (if rp_status r = 200 then None else Some (http_failure ''higress health check'' (rp_status r))))"

end
