(* ===== verification/Higress_Routes.thy ===== *)
theory Higress_Routes
  imports Higress_Client
begin

text \<open>
  \<open>internal/gateway/higress.go\<close>, second part: the AI routes with their allowed consumers, the model
  providers, the idle timeout of the gateway configuration, and the interface of the package. An
  attempt loop is a recursion over the attempts left.
\<close>

section \<open>Documents\<close>

text \<open>A field of a struct that may be missing, as \<open>json.RawMessage\<close> tells it from null.\<close>

fun decode_field :: "string \<Rightarrow> json option \<Rightarrow> (string \<times> json) list \<Rightarrow> json option" where
  "decode_field field acc [] = acc"
| "decode_field field acc ((k, v) # kvs) = decode_field field (if equal_fold k field then Some v else acc) kvs"

text \<open>\<open>json.Unmarshal\<close> into a map: of repeated keys the last one counts; null gives the nil map.\<close>

definition decode_map :: "json \<Rightarrow> (string \<times> json) list option result" where
  "decode_map v =
     (case v of
        JObj kvs \<Rightarrow> Inr (Some (fold (\<lambda>(k, x) m. json_put k x m) kvs []))
      | JNull \<Rightarrow> Inr None
      | _ \<Rightarrow> Inl json_mismatch)"

definition decode_reply :: "console_reply \<Rightarrow> (string \<times> json) list result" where
  "decode_reply r = decode_raw (rp_json r)"

text \<open>The elements of the list under \<open>data\<close>, and the route a single reply carries.\<close>

definition listed_routes :: "console_reply \<Rightarrow> json list result" where
  "listed_routes r = try_result (decode_reply r) (\<lambda>kvs.
     case decode_member ''data'' JNull kvs of
       JArr vs \<Rightarrow> Inr vs
     | JNull \<Rightarrow> Inr []
     | _ \<Rightarrow> Inl json_mismatch)"

definition route_name :: "json \<Rightarrow> string option" where
  "route_name v =
     (case try_result (decode_object v) (decode_string ''name'' []) of
        Inl _ \<Rightarrow> None
      | Inr n \<Rightarrow> if n = [] then None else Some n)"

definition route_data :: "console_reply \<Rightarrow> json result" where
  "route_data r = try_result (decode_reply r) (\<lambda>kvs.
     Inr (case decode_field ''data'' None kvs of Some v \<Rightarrow> v | None \<Rightarrow> JObj kvs))"

definition ai_route_path :: "string \<Rightarrow> string" where
  "ai_route_path name = ''/v1/ai/routes/'' @ name"

section \<open>Allowed consumers\<close>

fun json_strings :: "json \<Rightarrow> string list" where
  "json_strings (JArr vs) = List.map_filter (\<lambda>v. case v of JStr s \<Rightarrow> Some s | _ \<Rightarrow> None) vs"
| "json_strings _ = []"

definition remove_string :: "string list \<Rightarrow> string \<Rightarrow> string list" where
  "remove_string xs s = filter (\<lambda>x. x \<noteq> s) xs"

definition route_matches_provider :: "(string \<times> json) list \<Rightarrow> string \<Rightarrow> bool" where
  "route_matches_provider route provider =
     (case json_get route ''upstreams'' of
        JArr ups \<Rightarrow>
          list_ex (\<lambda>u. case json_obj u of
              None \<Rightarrow> False
            | Some o1 \<Rightarrow> (case json_get o1 ''provider'' of JStr p \<Rightarrow> p | _ \<Rightarrow> []) = provider) ups
      | _ \<Rightarrow> False)"

definition auth_config :: "(string \<times> json) list \<Rightarrow> (string \<times> json) list" where
  "auth_config route = (case json_obj (json_get route ''authConfig'') of None \<Rightarrow> [] | Some a \<Rightarrow> a)"

definition allowed_consumers :: "(string \<times> json) list \<Rightarrow> string list" where
  "allowed_consumers route = json_strings (json_get (auth_config route) ''allowedConsumers'')"

text \<open>A nil slice of consumers is written as null.\<close>

definition consumers_json :: "string list \<Rightarrow> json" where
  "consumers_json cs = (if cs = [] then JNull else JArr (map JStr cs))"

definition with_consumers :: "string list \<Rightarrow> (string \<times> json) list \<Rightarrow> (string \<times> json) list" where
  "with_consumers cs route =
     json_put ''authConfig'' (JObj (json_put ''allowedConsumers'' (consumers_json cs) (auth_config route))) route"

text \<open>The route to write, or \<open>None\<close> where the code leaves the route alone.\<close>

definition changed_route ::
  "string \<Rightarrow> string \<Rightarrow> bool \<Rightarrow> (string \<times> json) list \<Rightarrow> (string \<times> json) list option" where
  "changed_route consumer provider add route =
     (let matches = provider = [] \<or> route_matches_provider route provider;
          cs = allowed_consumers route
      in if provider \<noteq> [] \<and> \<not> add \<and> \<not> matches then None
         else if add \<and> matches
         then Some (with_consumers (if consumer \<in> set cs then cs else cs @ [consumer]) route)
         else if length (remove_string cs consumer) = length cs then None
         else Some (with_consumers (remove_string cs consumer) route))"

text \<open>What ends the attempts on one route: leaving the whole operation, or the last error.\<close>

datatype attempt_end = Abort go_error | Done "go_error option"

definition nil_map_write :: go_error where
  "nil_map_write = Panic ''assignment to entry in nil map''"

fun route_attempts ::
  "nat \<Rightarrow> 'w higress_client \<Rightarrow> string \<Rightarrow> string \<Rightarrow> bool \<Rightarrow> string \<Rightarrow> go_error option \<Rightarrow>
   ('w higress_state, attempt_end) state" where
  "route_attempts 0 c consumer provider add name last_err = State_Monad.return (Done last_err)"
| "route_attempts (Suc left) c consumer provider add name last_err = do {
     cancelled \<leftarrow> on_console (hx_cancelled c);
     (case cancelled of
        Some e \<Rightarrow> State_Monad.return (Abort e)
      | None \<Rightarrow> do {
          g \<leftarrow> console_do c ''GET'' (ai_route_path name) None;
          (case g of
             Inl e \<Rightarrow> State_Monad.return (Done (Some (Wrap (''get AI route '' @ name) e)))
           | Inr r \<Rightarrow>
               if rp_status r \<noteq> 200
               then State_Monad.return (Done (Some (http_failure (''get AI route '' @ name) (rp_status r))))
               else (case route_data r of
                  Inl e \<Rightarrow> State_Monad.return (Done (Some (Wrap (''decode AI route '' @ name @ '' envelope'') e)))
                | Inr v \<Rightarrow>
                    (case decode_map v of
                       Inl e \<Rightarrow> State_Monad.return (Done (Some (Wrap (''decode AI route '' @ name) e)))
                     | Inr m \<Rightarrow>
                         (case changed_route consumer provider add (case m of None \<Rightarrow> [] | Some kvs \<Rightarrow> kvs) of
                            None \<Rightarrow> State_Monad.return (Done last_err)
                          | Some new_route \<Rightarrow>
                              if m = None then State_Monad.return (Abort nil_map_write)
                              else do {
                                p \<leftarrow> console_do c ''PUT'' (ai_route_path name) (Some (JObj new_route));
                                (case p of
                                   Inl e \<Rightarrow> State_Monad.return (Done (Some (Wrap (''put AI route '' @ name) e)))
                                 | Inr q \<Rightarrow>
                                     if rp_status q = 200 then State_Monad.return (Done None)
                                     else if rp_status q = 409
                                     then route_attempts left c consumer provider add name
                                       (Some (Err (''put AI route '' @ name @ '': HTTP 409 (conflict)'')))
                                     else State_Monad.return
                                       (Done (Some (http_failure (''put AI route '' @ name) (rp_status q))))) })))) }) }"

definition route_max_retries :: nat where "route_max_retries = 5"

fun modify_each ::
  "'w higress_client \<Rightarrow> string \<Rightarrow> string \<Rightarrow> bool \<Rightarrow> json list \<Rightarrow> go_error option \<Rightarrow>
   ('w higress_state, go_error option) state" where
  "modify_each c consumer provider add [] first_err = State_Monad.return first_err"
| "modify_each c consumer provider add (v # vs) first_err =
     (case route_name v of
        None \<Rightarrow> modify_each c consumer provider add vs first_err
      | Some name \<Rightarrow> do {
          r \<leftarrow> route_attempts route_max_retries c consumer provider add name None;
          (case r of
             Abort e \<Rightarrow> State_Monad.return (Some e)
           | Done e \<Rightarrow> modify_each c consumer provider add vs (if first_err = None then e else first_err)) })"

definition modify_ai_routes ::
  "'w higress_client \<Rightarrow> string \<Rightarrow> string \<Rightarrow> bool \<Rightarrow> ('w higress_state, go_error option) state" where
  "modify_ai_routes c consumer provider add =
     use_state (wrap_result ''list AI routes'' (console_do c ''GET'' ''/v1/ai/routes'' None)) (\<lambda>r.
       if rp_status r \<noteq> 200 then State_Monad.return (Some (http_failure ''list AI routes'' (rp_status r)))
       else (case listed_routes r of
               Inl e \<Rightarrow> State_Monad.return (Some (Wrap ''decode AI routes list'' e))
             | Inr vs \<Rightarrow> modify_each c consumer provider add vs None))"

definition authorize_ai_routes :: "'w higress_client \<Rightarrow> string \<Rightarrow> string \<Rightarrow> ('w higress_state, go_error option) state" where
  "authorize_ai_routes c consumer model_api_id = modify_ai_routes c consumer model_api_id True"

definition deauthorize_ai_routes :: "'w higress_client \<Rightarrow> string \<Rightarrow> string \<Rightarrow> ('w higress_state, go_error option) state" where
  "deauthorize_ai_routes c consumer model_api_id = modify_ai_routes c consumer model_api_id False"

section \<open>Providers and route skeletons\<close>

record ai_provider_request =
  apr_name :: string
  apr_type :: string
  apr_tokens :: "string list"
  apr_protocol :: string
  apr_raw :: "(string \<times> json) list option"

record ai_route_request =
  arr_name :: string
  arr_path_prefix :: string
  arr_provider :: string

definition ensure_ai_provider :: "'w higress_client \<Rightarrow> ai_provider_request \<Rightarrow> ('w higress_state, go_error option) state" where
  "ensure_ai_provider c req =
     expect c (''ensure AI provider '' @ apr_name req) ''POST'' ''/v1/ai/providers''
       (Some (JObj ([(''name'', JStr (apr_name req)), (''type'', JStr (apr_type req)),
          (''tokens'', JArr (map JStr (apr_tokens req))), (''protocol'', JStr (apr_protocol req))] @
          (case apr_raw req of None \<Rightarrow> [] | Some raw \<Rightarrow> [(''rawConfigs'', JObj raw)])))) [200, 201, 409]"

definition ai_route_skeleton :: "ai_route_request \<Rightarrow> json" where
  "ai_route_skeleton req =
     JObj [(''name'', JStr (arr_name req)), (''domains'', JArr []),
       (''pathPredicate'', JObj [(''matchType'', JStr ''PRE''), (''matchValue'', JStr (arr_path_prefix req)),
          (''caseSensitive'', JBool False)]),
       (''upstreams'', JArr [JObj [(''provider'', JStr (arr_provider req)), (''weight'', JNum 100),
          (''modelMapping'', JObj [])]]),
       (''authConfig'', JObj [(''enabled'', JBool True), (''allowedCredentialTypes'', JArr [JStr ''key-auth''])])]"

text \<open>An existing route is left alone; that it differs is only logged.\<close>

definition ensure_ai_route :: "'w higress_client \<Rightarrow> ai_route_request \<Rightarrow> ('w higress_state, go_error option) state" where
  "ensure_ai_route c req =
     (let what = ''ensure AI route '' @ arr_name req in
      use_state (wrap_result (what @ '': check existence'') (console_do c ''GET'' (ai_route_path (arr_name req)) None))
        (\<lambda>r. if rp_status r = 200 then State_Monad.return None
             else if rp_status r = 404
             then expect c (what @ '': create'') ''POST'' ''/v1/ai/routes'' (Some (ai_route_skeleton req)) [200, 201, 409]
             else State_Monad.return (Some (http_failure (what @ '': check existence'') (rp_status r)))))"

text \<open>The path prefix and the providers of a route, decoded into a struct.\<close>

fun decode_providers :: "json list \<Rightarrow> string list result" where
  "decode_providers [] = Inr []"
| "decode_providers (v # vs) =
     try_result (try_result (decode_object v) (decode_string ''provider'' [])) (\<lambda>p.
     try_result (decode_providers vs) (\<lambda>ps. Inr (p # ps)))"

definition decode_route :: "json \<Rightarrow> (string \<times> string list) result" where
  "decode_route v =
     try_result (decode_object v) (\<lambda>kvs.
     try_result (try_result (decode_object (decode_member ''pathPredicate'' JNull kvs)) (decode_string ''matchValue'' []))
       (\<lambda>path. try_result (case decode_member ''upstreams'' JNull kvs of
                             JArr vs \<Rightarrow> decode_providers vs
                           | JNull \<Rightarrow> Inr []
                           | _ \<Rightarrow> Inl json_mismatch) (\<lambda>ps. Inr (path, ps))))"

definition provider_info :: "'w higress_client \<Rightarrow> string \<Rightarrow> string \<Rightarrow> model_provider_info" where
  "provider_info c name base_path =
     \<lparr>mpi_http_api_id = name, mpi_base_path = base_path,
      mpi_intranet_url = trim_right (\<lambda>x. x = CHR ''/'') (hg_data_plane_url (hx_config c)) @ base_path\<rparr>"

fun find_provider_route ::
  "'w higress_client \<Rightarrow> string \<Rightarrow> json list \<Rightarrow> ('w higress_state, model_provider_info result) state" where
  "find_provider_route c name [] =
     State_Monad.return (Inl (Err (''higress: no AI route found for model provider '' @ go_quote name)))"
| "find_provider_route c name (v # vs) =
     (case route_name v of
        None \<Rightarrow> find_provider_route c name vs
      | Some n \<Rightarrow> do {
          g \<leftarrow> console_do c ''GET'' (ai_route_path n) None;
          (case g of
             Inl _ \<Rightarrow> find_provider_route c name vs
           | Inr r \<Rightarrow>
               if rp_status r \<noteq> 200 then find_provider_route c name vs
               else (case try_result (route_data r) decode_route of
                       Inl _ \<Rightarrow> find_provider_route c name vs
                     | Inr (path, ps) \<Rightarrow>
                         if name \<in> set ps then State_Monad.return (Inr (provider_info c name path))
                         else find_provider_route c name vs)) })"

definition resolve_model_provider :: "'w higress_client \<Rightarrow> string \<Rightarrow> ('w higress_state, model_provider_info result) state" where
  "resolve_model_provider c name =
     try_state (wrap_result (''higress: get AI provider '' @ go_quote name)
         (console_do c ''GET'' (''/v1/ai/providers/'' @ name) None)) (\<lambda>r.
       if rp_status r = 404
       then State_Monad.return (Inl (Err (''higress: model provider '' @ go_quote name @ '' not found'')))
       else if rp_status r \<noteq> 200
       then State_Monad.return (Inl (http_failure (''higress: get AI provider '' @ go_quote name) (rp_status r)))
       else try_state (wrap_result ''higress: list AI routes'' (console_do c ''GET'' ''/v1/ai/routes'' None)) (\<lambda>l.
         if rp_status l \<noteq> 200 then State_Monad.return (Inl (http_failure ''higress: list AI routes'' (rp_status l)))
         else (case listed_routes l of
                 Inl e \<Rightarrow> State_Monad.return (Inl (Wrap ''higress: decode AI routes list'' e))
               | Inr vs \<Rightarrow> find_provider_route c name vs)))"

section \<open>The idle timeout\<close>

definition idle_line :: "string \<Rightarrow> bool" where
  "idle_line l \<longleftrightarrow> has_prefix (trim_space l) ''idleTimeout:''"

definition block_end :: "string \<Rightarrow> bool" where
  "block_end l \<longleftrightarrow> has_prefix l ''    '' \<and> \<not> has_prefix l ''      ''"

text \<open>The lines of the result: \<open>inside\<close> the block, \<open>patched\<close> already.\<close>

fun patch_lines :: "string \<Rightarrow> bool \<Rightarrow> bool \<Rightarrow> string list \<Rightarrow> string list" where
  "patch_lines v inside patched [] = (if inside \<and> \<not> patched then [v] else [])"
| "patch_lines v inside patched (l # ls) =
     (if l = ''    downstream:'' then l # patch_lines v True patched ls
      else if inside \<and> block_end l
      then (if patched then [] else [v]) @ l # patch_lines v False True ls
      else if inside \<and> idle_line l then v # patch_lines v inside True ls
      else l # patch_lines v inside patched ls)"

definition idle_value :: "int \<Rightarrow> string" where
  "idle_value seconds = ''      idleTimeout: '' @ show_int seconds"

definition patch_downstream_idle_timeout :: "string \<Rightarrow> int \<Rightarrow> string" where
  "patch_downstream_idle_timeout config seconds =
     join_with newline (patch_lines (idle_value seconds) False False (split_on (CHR 0x0A) config))"

definition ensure_stream_idle_timeout :: "'w higress_client \<Rightarrow> int \<Rightarrow> ('w higress_state, go_error option) state" where
  "ensure_stream_idle_timeout c seconds =
     (let s = (if seconds \<le> 0 then 900 else seconds);
          what = (\<lambda>t. ''ensure stream idle timeout: '' @ t)
      in use_state (wrap_result (what ''read higress config'') (console_do c ''GET'' ''/system/higress-config'' None)) (\<lambda>r.
        if rp_status r \<noteq> 200
        then State_Monad.return (Some (Err (what (''read higress config HTTP '' @ show_nat (rp_status r)))))
        else (case decode_reply r of
           Inl e \<Rightarrow> State_Monad.return (Some (Wrap (what ''parse higress config response'') e))
         | Inr kvs \<Rightarrow>
             (case decode_member ''success'' (JBool False) kvs of
                JBool True \<Rightarrow>
                  (case decode_member ''data'' JNull kvs of
                     JStr config \<Rightarrow>
                       use_state (wrap_result (what ''update higress config'')
                           (console_do c ''PUT'' ''/system/higress-config''
                             (Some (JObj [(''config'', JStr (patch_downstream_idle_timeout config s))])))) (\<lambda>p.
                         State_Monad.return
                           (if rp_status p \<in> {200, 201, 204} then None
                            else Some (Err (what (''update higress config HTTP '' @ show_nat (rp_status p))))))
                   | _ \<Rightarrow> State_Monad.return (Some (Err (what ''higress config data was not a string''))))
              | JBool False \<Rightarrow> State_Monad.return (Some (Err (what ''higress config response was unsuccessful'')))
              | JNull \<Rightarrow> State_Monad.return (Some (Err (what ''higress config response was unsuccessful'')))
              | _ \<Rightarrow> State_Monad.return (Some (Wrap (what ''parse higress config response'') json_mismatch))))))"

section \<open>The interfaces\<close>

definition higress_gateway :: "'w higress_client \<Rightarrow> 'w higress_state gateway_ops" where
  "higress_gateway c =
     \<lparr>go_ensure_consumer = higress_ensure_consumer c, go_delete_consumer = higress_delete_consumer c,
      go_authorize = authorize_ai_routes c, go_deauthorize = deauthorize_ai_routes c,
      go_ports = \<lparr>eg_expose = expose_port c, eg_unexpose = unexpose_port c\<rparr>\<rparr>"

definition higress_models :: "'w higress_client \<Rightarrow> 'w higress_state model_gateway" where
  "higress_models c = \<lparr>mg_resolve = resolve_model_provider c, mg_authorize = authorize_ai_routes c\<rparr>"

end
