(* ===== verification/Higress_Properties.thy ===== *)
theory Higress_Properties
  imports Higress_Routes Go_Strings
begin

text \<open>
  What the Higress client does to a console that keeps its routes: the locale states the answers of
  the console, the lemmas carry one route, then the whole list, to the settled routes. The idle
  timeout of the gateway configuration is a matter of lines.
\<close>

section \<open>One route\<close>

definition covers :: "string \<Rightarrow> (string \<times> json) list \<Rightarrow> bool" where
  "covers provider kvs \<longleftrightarrow> provider = [] \<or> route_matches_provider kvs provider"

definition settled :: "string \<Rightarrow> string \<Rightarrow> bool \<Rightarrow> (string \<times> json) list \<Rightarrow> (string \<times> json) list" where
  "settled consumer provider add kvs =
     (case changed_route consumer provider add kvs of None \<Rightarrow> kvs | Some kvs' \<Rightarrow> kvs')"

definition same_otherwise :: "(string \<times> json) list \<Rightarrow> (string \<times> json) list \<Rightarrow> bool" where
  "same_otherwise kvs kvs' \<longleftrightarrow>
     (\<forall>k. k \<noteq> ''authConfig'' \<longrightarrow> map_of kvs' k = map_of kvs k) \<and>
     (\<forall>k. k \<noteq> ''allowedConsumers'' \<longrightarrow> map_of (auth_config kvs') k = map_of (auth_config kvs) k)"

lemma json_strings_consumers [simp]: "json_strings (consumers_json cs) = cs"
  by (simp add: consumers_json_def map_filter_def) (simp add: comp_def)

lemma with_consumers_parts:
  "allowed_consumers (with_consumers cs kvs) = cs"
  "same_otherwise kvs (with_consumers cs kvs)"
  "distinct (map fst kvs) \<Longrightarrow> distinct (map fst (with_consumers cs kvs))"
  by (auto simp: with_consumers_def allowed_consumers_def auth_config_def same_otherwise_def keys_put)

lemma same_otherwise_refl [simp]: "same_otherwise kvs kvs"
  by (simp add: same_otherwise_def)

lemma remove_string_same: "length (remove_string cs x) = length cs \<Longrightarrow> x \<notin> set cs"
proof
  assume l: "length (remove_string cs x) = length cs" and "x \<in> set cs"
  then have "length (filter (\<lambda>y. y \<noteq> x) cs) < length cs"
    by (intro length_filter_less) auto
  then show False using l by (simp add: remove_string_def)
qed

text \<open>The consumers allowed on a settled route; of the route nothing else changes.\<close>

definition settled_consumers :: "string \<Rightarrow> bool \<Rightarrow> bool \<Rightarrow> string set \<Rightarrow> string set" where
  "settled_consumers consumer add covered cs =
     (if add then (if covered then insert consumer cs else cs - {consumer})
      else if covered then cs - {consumer} else cs)"

lemma settled_parts:
  "set (allowed_consumers (settled consumer provider add kvs)) =
     settled_consumers consumer add (covers provider kvs) (set (allowed_consumers kvs))"
  "same_otherwise kvs (settled consumer provider add kvs)"
  "distinct (map fst kvs) \<Longrightarrow> distinct (map fst (settled consumer provider add kvs))"
  by (auto simp: settled_def changed_route_def settled_consumers_def covers_def with_consumers_parts
      remove_string_same Let_def split: option.splits if_splits) (auto simp: remove_string_def)

section \<open>A console that keeps its routes\<close>

definition console_call ::
  "'w higress_client \<Rightarrow> string \<Rightarrow> string \<Rightarrow> string list \<Rightarrow> console_body \<Rightarrow> console_request" where
  "console_call c m path cookies body =
     \<lparr>cq_method = m, cq_url = trim_right (\<lambda>x. x = CHR ''/'') (hg_console_url (hx_config c)) @ path,
      cq_cookies = cookies, cq_body = body\<rparr>"

locale route_console =
  fixes c :: "'w higress_client"
    and names :: "'w \<Rightarrow> string list"
    and route :: "'w \<Rightarrow> string \<Rightarrow> (string \<times> json) list option"
  assumes builds: "hx_build c url = None"
    and runs: "run_state (hx_cancelled c) w = (None, w)"
    and lists: "\<exists>r vs. run_state (hx_send c (console_call c ''GET'' ''/v1/ai/routes'' cookies Body_None)) w = (Inr r, w) \<and>
        rp_status r = 200 \<and> listed_routes r = Inr vs \<and> map route_name vs = map Some (names w)"
    and reads: "route w n = Some kvs \<Longrightarrow>
        \<exists>r v. run_state (hx_send c (console_call c ''GET'' (ai_route_path n) cookies Body_None)) w = (Inr r, w) \<and>
          rp_status r = 200 \<and> route_data r = Inr v \<and> decode_map v = Inr (Some kvs)"
    and writes: "route w n \<noteq> None \<Longrightarrow> distinct (map fst kvs) \<Longrightarrow>
        \<exists>r w'. run_state (hx_send c (console_call c ''PUT'' (ai_route_path n) cookies (Body_Json (JObj kvs)))) w = (Inr r, w') \<and>
          rp_status r = 200 \<and> route w' = (route w)(n \<mapsto> kvs) \<and> names w' = names w"
    and keys: "route w n = Some kvs \<Longrightarrow> distinct (map fst kvs)"
    and listed: "n \<in> set (names w) \<Longrightarrow> route w n \<noteq> None"
begin

lemma console_do_answer:
  assumes "hgs_cookies s \<noteq> []"
    "run_state (hx_send c (console_call c m path (hgs_cookies s) (case body of None \<Rightarrow> Body_None | Some j \<Rightarrow> Body_Json j)))
       (hgs_world s) = (Inr r, w')" "rp_status r = 200"
  shows "run_state (console_do c m path body) s = (Inr r, s\<lparr>hgs_world := w'\<rparr>)"
  using assms
  by (simp add: console_do_def run_results ensure_session_def current_cookies_def exchange_def builds on_console_def
      console_call_def)

lemma world_same: "s\<lparr>hgs_world := hgs_world s\<rparr> = (s :: 'w higress_state)"
  by simp

lemma one_route:
  assumes s: "hgs_cookies s \<noteq> []" and r: "route (hgs_world s) n = Some kvs"
  shows "\<exists>w'. run_state (route_attempts (Suc left) c consumer provider add n None) s = (Done None, s\<lparr>hgs_world := w'\<rparr>) \<and>
    route w' = (route (hgs_world s))(n \<mapsto> settled consumer provider add kvs) \<and> names w' = names (hgs_world s)"
proof -
  obtain q v where g: "run_state (console_do c ''GET'' (ai_route_path n) None) s = (Inr q, s)" "rp_status q = 200"
      "route_data q = Inr v" "decode_map v = Inr (Some kvs)"
    using reads [OF r, of "hgs_cookies s"] console_do_answer [OF s, of "''GET''" "ai_route_path n" None]
    by (auto simp: world_same)
  have cancelled: "run_state (on_console (hx_cancelled c)) s = (None, s)"
    by (simp add: on_console_def runs)
  show ?thesis
  proof (cases "changed_route consumer provider add kvs")
    case None
    then show ?thesis
      using g r by (intro exI [of _ "hgs_world s"]) (simp add: cancelled settled_def fun_upd_idem)
  next
    case (Some kvs')
    then have k: "kvs' = settled consumer provider add kvs" by (simp add: settled_def)
    obtain p w' where p: "run_state (console_do c ''PUT'' (ai_route_path n) (Some (JObj kvs'))) s = (Inr p, s\<lparr>hgs_world := w'\<rparr>)"
        "rp_status p = 200" "route w' = (route (hgs_world s))(n \<mapsto> kvs')" "names w' = names (hgs_world s)"
      using writes [of "hgs_world s" n kvs' "hgs_cookies s"] r settled_parts(3) [OF keys [OF r]] k
        console_do_answer [OF s, of "''PUT''" "ai_route_path n" "Some (JObj kvs')"] by auto
    then show ?thesis
      using g Some k by (intro exI [of _ w']) (simp add: cancelled)
  qed
qed

lemma retries_Suc: "route_max_retries = Suc 4"
  by (simp add: route_max_retries_def)

lemma each_route:
  assumes "hgs_cookies s \<noteq> []" "map route_name vs = map Some ns" "distinct ns" "\<forall>n \<in> set ns. route (hgs_world s) n \<noteq> None"
  shows "\<exists>w'. run_state (modify_each c consumer provider add vs None) s = (None, s\<lparr>hgs_world := w'\<rparr>) \<and>
    route w' = (\<lambda>n. if n \<in> set ns then map_option (settled consumer provider add) (route (hgs_world s) n)
      else route (hgs_world s) n)"
  using assms
proof (induction vs arbitrary: ns s)
  case Nil
  then show ?case by (intro exI [of _ "hgs_world s"]) simp
next
  case (Cons v vs)
  then obtain n ms kvs where ns: "ns = n # ms" and v: "route_name v = Some n" and kvs: "route (hgs_world s) n = Some kvs"
    by (cases ns) auto
  obtain w1 where w1: "run_state (route_attempts route_max_retries c consumer provider add n None) s =
      (Done None, s\<lparr>hgs_world := w1\<rparr>)" "route w1 = (route (hgs_world s))(n \<mapsto> settled consumer provider add kvs)"
    using one_route [OF Cons.prems(1) kvs, of 4] unfolding retries_Suc by blast
  have "\<forall>m \<in> set ms. route w1 m \<noteq> None"
    using Cons.prems(4) by (simp add: ns w1(2))
  then obtain w' where "run_state (modify_each c consumer provider add vs None) (s\<lparr>hgs_world := w1\<rparr>) =
      (None, s\<lparr>hgs_world := w'\<rparr>)"
      "route w' = (\<lambda>m. if m \<in> set ms then map_option (settled consumer provider add) (route w1 m) else route w1 m)"
  proof -
    have "hgs_cookies (s\<lparr>hgs_world := w1\<rparr>) \<noteq> []" "map route_name vs = map Some ms" "distinct ms"
      using Cons.prems(1-3) ns by simp_all
    from Cons.IH [OF this] \<open>\<forall>m \<in> set ms. route w1 m \<noteq> None\<close> show thesis
      using that by fastforce
  qed
  then show ?case
    using w1 v kvs Cons.prems(3) by (intro exI [of _ w']) (auto simp: ns)
qed

lemma all_routes:
  assumes s: "hgs_cookies s \<noteq> []" and d: "distinct (names (hgs_world s))"
  shows "\<exists>w'. run_state (modify_ai_routes c consumer provider add) s = (None, s\<lparr>hgs_world := w'\<rparr>) \<and>
    route w' = (\<lambda>n. if n \<in> set (names (hgs_world s)) then map_option (settled consumer provider add) (route (hgs_world s) n)
      else route (hgs_world s) n)"
proof -
  obtain r vs where r: "run_state (console_do c ''GET'' ''/v1/ai/routes'' None) s = (Inr r, s)" "rp_status r = 200"
      "listed_routes r = Inr vs" "map route_name vs = map Some (names (hgs_world s))"
    using lists [of "hgs_cookies s" "hgs_world s"] console_do_answer [OF s, of "''GET''" "''/v1/ai/routes''" None]
    by (auto simp: world_same)
  show ?thesis
    using each_route [OF s r(4) d] listed r(1-3) by (simp add: modify_ai_routes_def run_results)
qed

end
text \<open>A console held in memory: the routes with their names, each kept with distinct keys.\<close>

definition tidy :: "(string \<times> json) list \<Rightarrow> (string \<times> json) list" where
  "tidy kvs = fold (\<lambda>(k, x) m. json_put k x m) kvs []"

lemma fold_put_distinct: "distinct (map fst m) \<Longrightarrow> distinct (map fst (fold (\<lambda>(k, x) m. json_put k x m) kvs m))"
  by (induction kvs arbitrary: m) (auto simp: keys_put)

lemma json_put_fresh: "k \<notin> fst ` set m \<Longrightarrow> json_put k v m = m @ [(k, v)]"
  by (induction m) (auto simp: json_put_def)

lemma fold_put_append:
  "distinct (map fst (m @ kvs)) \<Longrightarrow> fold (\<lambda>(k, x) m. json_put k x m) kvs m = m @ kvs"
proof (induction kvs arbitrary: m)
  case (Cons p kvs)
  moreover have "json_put (fst p) (snd p) m = m @ [p]"
    using Cons.prems by (simp add: json_put_fresh)
  ultimately show ?case by (simp add: case_prod_beta)
qed simp

lemma tidy_distinct [simp]: "distinct (map fst (tidy kvs))"
  by (simp add: tidy_def fold_put_distinct)

lemma tidy_same: "distinct (map fst kvs) \<Longrightarrow> tidy kvs = kvs"
  using fold_put_append [of "[]" kvs] by (simp add: tidy_def)

type_synonym memory_routes = "(string \<times> (string \<times> json) list) list"

definition memory_names :: "memory_routes \<Rightarrow> string list" where
  "memory_names w = filter (\<lambda>n. n \<noteq> []) (map fst w)"

definition memory_route :: "memory_routes \<Rightarrow> string \<Rightarrow> (string \<times> json) list option" where
  "memory_route w n = map_option tidy (map_of w n)"

definition console_ok :: "json \<Rightarrow> console_reply" where
  "console_ok v = \<lparr>rp_status = 200, rp_body = [], rp_json = RawJson v, cr_cookies = []\<rparr>"

definition memory_url :: string where
  "memory_url = ''http://console''"

definition memory_send :: "console_request \<Rightarrow> memory_routes \<Rightarrow> console_reply result \<times> memory_routes" where
  "memory_send q w =
     (let url = cq_url q; n = drop (length (memory_url @ ''/v1/ai/routes/'')) url
      in case cq_body q of
           Body_Json (JObj kvs) \<Rightarrow>
             (Inr (console_ok (JObj [])), map (\<lambda>(k, v). (k, if k = n then kvs else v)) w)
         | _ \<Rightarrow>
             if url = memory_url @ ''/v1/ai/routes''
             then (Inr (console_ok (JObj [(''data'', JArr (map (\<lambda>n. JObj [(''name'', JStr n)]) (memory_names w)))])), w)
             else (case memory_route w n of
                     Some kvs \<Rightarrow> (Inr (console_ok (JObj [(''data'', JObj kvs)])), w)
                   | None \<Rightarrow> (Inr ((console_ok (JObj []))\<lparr>rp_status := 404\<rparr>), w)))"

definition memory_console :: "memory_routes higress_client" where
  "memory_console =
     \<lparr>hx_config = \<lparr>hg_console_url = memory_url, hg_admin_user = ''admin'', hg_admin_password = ''pw'',
        hg_allow_default_admin = True, hg_data_plane_url = memory_url\<rparr>,
      hx_build = (\<lambda>_. None), hx_send = (\<lambda>q. State (memory_send q)), hx_cancelled = State_Monad.return None\<rparr>"

lemma memory_trim: "trim_right (\<lambda>x. x = CHR ''/'') (hg_console_url (hx_config memory_console)) = memory_url"
  by code_simp

lemma memory_path: "ai_route_path n = ''/v1/ai/routes/'' @ n"
  by (simp add: ai_route_path_def)

lemma equal_fold_same: "equal_fold ''data'' ''data''" "equal_fold ''name'' ''name''"
  by code_simp+

lemma map_of_replace: "map_of (map (\<lambda>(k, v). (k, if k = n then x else v)) w) m =
    (if m = n then map_option (\<lambda>_. x) (map_of w n) else map_of w m)"
  by (induction w) auto

interpretation memory: route_console memory_console memory_names memory_route
proof
  fix cookies :: "string list" and w :: memory_routes and n kvs
  let ?call = "\<lambda>m path. hx_send memory_console (console_call memory_console m path cookies Body_None)"
  let ?vs = "map (\<lambda>n. JObj [(''name'', JStr n)]) (memory_names w)"
  let ?r = "console_ok (JObj [(''data'', JArr ?vs)])"
  have call: "run_state (?call ''GET'' path) w = memory_send \<lparr>cq_method = ''GET'', cq_url = memory_url @ path,
      cq_cookies = cookies, cq_body = Body_None\<rparr> w" for path
    unfolding console_call_def memory_trim by (simp add: memory_console_def)
  have "run_state (?call ''GET'' ''/v1/ai/routes'') w = (Inr ?r, w)"
    unfolding call by (simp add: memory_send_def Let_def)
  moreover have "listed_routes ?r = Inr ?vs"
    by (simp add: listed_routes_def decode_reply_def console_ok_def decode_raw_def decode_object_def equal_fold_same)
  moreover have "map route_name ?vs = map Some (memory_names w)"
    by (auto simp: route_name_def decode_object_def equal_fold_same memory_names_def)
  ultimately show "\<exists>r vs. run_state (?call ''GET'' ''/v1/ai/routes'') w = (Inr r, w) \<and> rp_status r = 200 \<and>
      listed_routes r = Inr vs \<and> map route_name vs = map Some (memory_names w)"
    by (intro exI [of _ ?r] exI [of _ ?vs]) (simp add: console_ok_def)
  assume r: "memory_route w n = Some kvs"
  then have d: "distinct (map fst kvs)" by (auto simp: memory_route_def)
  then show "distinct (map fst kvs)" .
  have "run_state (?call ''GET'' (ai_route_path n)) w = (Inr (console_ok (JObj [(''data'', JObj kvs)])), w)"
    unfolding call memory_path by (simp add: memory_send_def Let_def r)
  moreover have "route_data (console_ok (JObj [(''data'', JObj kvs)])) = Inr (JObj kvs)"
    by (simp add: route_data_def decode_reply_def console_ok_def decode_raw_def decode_object_def equal_fold_same)
  moreover have "decode_map (JObj kvs) = Inr (Some kvs)"
    using tidy_same [OF d] by (simp add: decode_map_def tidy_def)
  ultimately show "\<exists>r v. run_state (?call ''GET'' (ai_route_path n)) w = (Inr r, w) \<and> rp_status r = 200 \<and>
      route_data r = Inr v \<and> decode_map v = Inr (Some kvs)"
    by (intro exI [of _ "console_ok (JObj [(''data'', JObj kvs)])"] exI [of _ "JObj kvs"]) (simp add: console_ok_def)
next
  fix cookies :: "string list" and w :: memory_routes and n and kvs :: "(string \<times> json) list"
  assume r: "memory_route w n \<noteq> None" and d: "distinct (map fst kvs)"
  let ?w = "map (\<lambda>(k, v). (k, if k = n then kvs else v)) w"
  have "run_state (hx_send memory_console (console_call memory_console ''PUT'' (ai_route_path n) cookies (Body_Json (JObj kvs)))) w
      = (Inr (console_ok (JObj [])), ?w)"
    unfolding console_call_def memory_trim memory_path by (simp add: memory_console_def memory_send_def Let_def)
  moreover have "memory_route ?w = (memory_route w)(n \<mapsto> kvs)"
    using r tidy_same [OF d] by (auto simp: memory_route_def map_of_replace fun_eq_iff)
  moreover have "memory_names ?w = memory_names w"
    by (simp add: memory_names_def comp_def case_prod_beta)
  ultimately show "\<exists>r w'. run_state (hx_send memory_console
      (console_call memory_console ''PUT'' (ai_route_path n) cookies (Body_Json (JObj kvs)))) w = (Inr r, w') \<and>
      rp_status r = 200 \<and> memory_route w' = (memory_route w)(n \<mapsto> kvs) \<and> memory_names w' = memory_names w"
    by (intro exI [of _ "console_ok (JObj [])"] exI [of _ ?w]) (simp add: console_ok_def)
next
  fix w n assume "n \<in> set (memory_names w)"
  then show "memory_route w n \<noteq> None"
    by (auto simp: memory_names_def memory_route_def map_of_eq_None_iff image_iff)
qed (simp_all add: memory_console_def)

section \<open>Authorization\<close>

definition keeps_routes ::
  "'w higress_client \<Rightarrow> ('w \<Rightarrow> string list) \<Rightarrow> ('w \<Rightarrow> string \<Rightarrow> (string \<times> json) list option) \<Rightarrow> bool" where
  "keeps_routes c names route \<longleftrightarrow> route_console c names route"

text \<open>C22. Authorizing and revoking a consumer settle every AI route of a console that keeps its routes:
  the operation succeeds; after authorizing, the consumer is allowed on every listed route of the
  given provider (of any, if none is given) and on no other listed route; after revoking it is
  allowed on no listed route of the provider and the others are as they were. No other consumer
  gains or loses a route, no other field of a route changes, and no unlisted route is touched.\<close>

theorem ai_routes_settled:
  assumes console: "keeps_routes c names route" and s: "hgs_cookies s \<noteq> []" and d: "distinct (names (hgs_world s))"
  shows "\<exists>w'. run_state (if add then authorize_ai_routes c consumer provider else deauthorize_ai_routes c consumer provider) s =
      (None, s\<lparr>hgs_world := w'\<rparr>) \<and>
    (\<forall>n. if n \<in> set (names (hgs_world s))
         then \<exists>kvs kvs'. route (hgs_world s) n = Some kvs \<and> route w' n = Some kvs' \<and> same_otherwise kvs kvs' \<and>
           set (allowed_consumers kvs') = settled_consumers consumer add (covers provider kvs) (set (allowed_consumers kvs))
         else route w' n = route (hgs_world s) n)"
proof -
  have rc: "route_console c names route" using console by (simp add: keeps_routes_def)
  obtain w' where w': "run_state (modify_ai_routes c consumer provider add) s = (None, s\<lparr>hgs_world := w'\<rparr>)"
    "route w' = (\<lambda>n. if n \<in> set (names (hgs_world s)) then map_option (settled consumer provider add) (route (hgs_world s) n)
      else route (hgs_world s) n)"
    using route_console.all_routes [OF rc s d] by blast
  have "\<forall>n. if n \<in> set (names (hgs_world s))
      then \<exists>kvs kvs'. route (hgs_world s) n = Some kvs \<and> route w' n = Some kvs' \<and> same_otherwise kvs kvs' \<and>
        set (allowed_consumers kvs') = settled_consumers consumer add (covers provider kvs) (set (allowed_consumers kvs))
      else route w' n = route (hgs_world s) n"
    using route_console.listed [OF rc, of _ "hgs_world s"] settled_parts(1,2) by (fastforce simp: w'(2))
  moreover have "(if add then authorize_ai_routes c consumer provider else deauthorize_ai_routes c consumer provider) =
      modify_ai_routes c consumer provider add"
    by (simp add: authorize_ai_routes_def deauthorize_ai_routes_def)
  ultimately show ?thesis
    using w'(1) by (intro exI [of _ w'] conjI) simp_all
qed

definition sample_routes :: memory_routes where
  "sample_routes = [(''qwen'', [(''authConfig'', JObj [(''allowedConsumers'', JArr [JStr ''manager''])])])]"

definition sample_state :: "memory_routes higress_state" where
  "sample_state = \<lparr>hgs_world = sample_routes, hgs_cookies = [''c'']\<rparr>"

lemma ai_routes_settled_witness:
  "\<exists>w' kvs. run_state (authorize_ai_routes memory_console ''worker-alice'' []) sample_state = (None, sample_state\<lparr>hgs_world := w'\<rparr>) \<and>
    memory_route w' ''qwen'' = Some kvs \<and> set (allowed_consumers kvs) = {''manager'', ''worker-alice''}"
proof -
  have names: "memory_names (hgs_world sample_state) = [''qwen'']" "hgs_cookies sample_state \<noteq> []" by code_simp+
  have old: "map_option (\<lambda>kvs. set (allowed_consumers kvs)) (memory_route (hgs_world sample_state) ''qwen'') = Some {''manager''}"
    by code_simp
  have "keeps_routes memory_console memory_names memory_route"
    using memory.route_console_axioms by (simp add: keeps_routes_def)
  moreover have "distinct (memory_names (hgs_world sample_state))" by (simp add: names)
  ultimately obtain w' where
      run: "run_state (authorize_ai_routes memory_console ''worker-alice'' []) sample_state = (None, sample_state\<lparr>hgs_world := w'\<rparr>)"
    and each: "\<forall>n. if n \<in> set (memory_names (hgs_world sample_state))
      then \<exists>kvs kvs'. memory_route (hgs_world sample_state) n = Some kvs \<and> memory_route w' n = Some kvs' \<and>
        same_otherwise kvs kvs' \<and>
        set (allowed_consumers kvs') = settled_consumers ''worker-alice'' True (covers [] kvs) (set (allowed_consumers kvs))
      else memory_route w' n = memory_route (hgs_world sample_state) n"
    using ai_routes_settled [of memory_console memory_names memory_route sample_state True "''worker-alice''" "[]"] names(2)
    unfolding if_True by blast
  have "''qwen'' \<in> set (memory_names (hgs_world sample_state))" by (simp add: names)
  then obtain kvs kvs' where "memory_route (hgs_world sample_state) ''qwen'' = Some kvs" "memory_route w' ''qwen'' = Some kvs'"
      "set (allowed_consumers kvs') = settled_consumers ''worker-alice'' True (covers [] kvs) (set (allowed_consumers kvs))"
    using spec [OF each, of "''qwen''"] by (simp only: if_True simp_thms) blast
  moreover have "set (allowed_consumers kvs) = {''manager''}"
    using old calculation(1) by (simp only: option.map option.inject)
  ultimately show ?thesis
    using run by (intro exI [of _ w'] exI [of _ kvs'] conjI) (simp_all only: settled_consumers_def covers_def simp_thms if_True insert_commute)
qed

section \<open>The idle timeout\<close>

lemma split_on_last: "c \<notin> set x \<Longrightarrow> split_on c x = [x]"
  by (induction x) auto

lemma split_join: "ls \<noteq> [] \<Longrightarrow> \<forall>l \<in> set ls. c \<notin> set l \<Longrightarrow> split_on c (join_with [c] ls) = ls"
  by (induction "[c]" ls rule: join_with.induct) (simp_all add: split_on_line split_on_last)

lemma split_on_lines: "split_on c s \<noteq> [] \<and> (\<forall>l \<in> set (split_on c s). c \<notin> set l)"
  by (induction s) (auto split: list.splits)

definition value_line :: "string \<Rightarrow> bool" where
  "value_line v \<longleftrightarrow> idle_line v \<and> \<not> block_end v \<and> v \<noteq> ''    downstream:''"

lemma patch_lines_settle:
  "value_line v \<Longrightarrow> patch_lines v' inside patched (patch_lines v inside patched ls) = patch_lines v' inside patched ls"
  by (induction ls arbitrary: inside patched) (simp_all add: value_line_def)

lemma patch_lines_others:
  "idle_line v \<Longrightarrow> filter (\<lambda>l. \<not> idle_line l) (patch_lines v inside patched ls) = filter (\<lambda>l. \<not> idle_line l) ls"
  by (induction ls arbitrary: inside patched) simp_all

lemma patch_lines_value: "\<not> patched \<Longrightarrow> inside \<or> ''    downstream:'' \<in> set ls \<Longrightarrow> v \<in> set (patch_lines v inside patched ls)"
  by (induction ls arbitrary: inside patched) (auto simp del: patch_lines.simps(2) simp: patch_lines.simps(2) [of v])

lemma patch_lines_set: "set (patch_lines v inside patched ls) \<subseteq> insert v (set ls)"
  by (induction ls arbitrary: inside patched) auto

lemma patch_lines_nonempty: "ls \<noteq> [] \<Longrightarrow> patch_lines v inside patched ls \<noteq> []"
  by (cases ls) simp_all

lemma show_int_chars: "set (show_int n) \<subseteq> insert (CHR ''-'') (set decimal_digits)" "show_int n \<noteq> []"
proof -
  show "set (show_int n) \<subseteq> insert (CHR ''-'') (set decimal_digits)"
    using show_nat_digits [of "nat n"] show_nat_digits [of "nat (- n)"] by (auto simp: show_int_def)
  have "show_nat m \<noteq> []" for m by (subst show_nat.simps) simp
  then show "show_int n \<noteq> []" by (simp add: show_int_def)
qed

lemma digits_plain: "\<forall>x \<in> insert (CHR ''-'') (set decimal_digits). \<not> is_space x \<and> x \<noteq> CHR 0x0A"
  by code_simp

lemma idle_value_trim: "trim_space (idle_value n) = ''idleTimeout: '' @ show_int n"
proof -
  have "\<not> is_space (last (show_int n))"
    using show_int_chars [of n] digits_plain last_in_set by blast
  then have "trim_right is_space (''idleTimeout: '' @ show_int n) = ''idleTimeout: '' @ show_int n"
    using show_int_chars(2) by (rule trim_right_append [rotated])
  moreover have "trim_left is_space (idle_value n) = ''idleTimeout: '' @ show_int n"
    by (simp add: trim_left_def idle_value_def is_space_def)
  ultimately show ?thesis by (simp only: trim_space_def trim_both_def)
qed

lemma idle_value_line: "value_line (idle_value n)"
proof -
  have "idle_line (idle_value n)"
    unfolding idle_line_def idle_value_trim by (simp add: has_prefix_def)
  moreover have "\<not> block_end (idle_value n)" "idle_value n \<noteq> ''    downstream:''"
    by (simp_all add: block_end_def has_prefix_def idle_value_def)
  ultimately show ?thesis by (simp add: value_line_def)
qed

lemma idle_value_no_newline: "CHR 0x0A \<notin> set (idle_value n)"
  using show_int_chars(1) [of n] digits_plain by (auto simp: idle_value_def)

definition config_lines :: "string \<Rightarrow> string list" where
  "config_lines s = split_on (CHR 0x0A) s"

lemma patched_lines:
  "config_lines (patch_downstream_idle_timeout s n) = patch_lines (idle_value n) False False (config_lines s)"
proof -
  let ?ls = "patch_lines (idle_value n) False False (split_on (CHR 0x0A) s)"
  have "?ls \<noteq> []" "\<forall>l \<in> set ?ls. CHR 0x0A \<notin> set l"
    using split_on_lines [of "CHR 0x0A" s] patch_lines_nonempty patch_lines_set idle_value_no_newline by blast+
  then show ?thesis
    unfolding config_lines_def patch_downstream_idle_timeout_def newline_def by (rule split_join)
qed

text \<open>The idle timeout written into the gateway configuration is the last one asked for: patching a
  configuration twice is patching it once with the second value, so that every pass of the
  controller leaves the same text. A configuration with a downstream section gets the line, and all
  lines that do not set an idle timeout stay as they were, in their order.\<close>

theorem idle_timeout_settles:
  "patch_downstream_idle_timeout (patch_downstream_idle_timeout config m) n = patch_downstream_idle_timeout config n \<and>
   filter (\<lambda>l. \<not> idle_line l) (config_lines (patch_downstream_idle_timeout config n)) =
     filter (\<lambda>l. \<not> idle_line l) (config_lines config) \<and>
   (''    downstream:'' \<notin> set (config_lines config) \<or>
      idle_value n \<in> set (config_lines (patch_downstream_idle_timeout config n)))"
proof (intro conjI)
  have "patch_lines (idle_value n) False False (split_on (CHR 0x0A) (patch_downstream_idle_timeout config m)) =
      patch_lines (idle_value n) False False (split_on (CHR 0x0A) config)"
    using patched_lines [of config m] idle_value_line by (simp add: config_lines_def patch_lines_settle)
  then show "patch_downstream_idle_timeout (patch_downstream_idle_timeout config m) n = patch_downstream_idle_timeout config n"
    by (simp add: patch_downstream_idle_timeout_def [of _ n])
  show "filter (\<lambda>l. \<not> idle_line l) (config_lines (patch_downstream_idle_timeout config n)) =
      filter (\<lambda>l. \<not> idle_line l) (config_lines config)"
    using idle_value_line by (simp only: patched_lines patch_lines_others value_line_def)
  show "''    downstream:'' \<notin> set (config_lines config) \<or>
      idle_value n \<in> set (config_lines (patch_downstream_idle_timeout config n))"
    using patch_lines_value unfolding patched_lines by blast
qed

lemma idle_timeout_settles_witness:
  "idle_value 900 \<in> set (config_lines (patch_downstream_idle_timeout (join_with newline [''mesh:'', ''    downstream:'']) 900))"
proof -
  have "''    downstream:'' \<in> set (config_lines (join_with newline [''mesh:'', ''    downstream:'']))" by code_simp
  then show ?thesis using idle_timeout_settles by blast
qed

section \<open>Errors that are lost or kept\<close>

text \<open>Withdrawing a port reports success whatever the console answers.\<close>

lemma unexpose_never_fails: "fst (run_state (unexpose_port c req) s) = None"
  by (simp add: unexpose_port_def split: prod.splits)

text \<open>
  After a conflict, a revocation that finds the consumer already gone on the next read still reports
  the conflict: \<open>lastErr\<close> is not cleared on the way out.
\<close>

lemma settled_conflict_reported:
  assumes "run_state (on_console (hx_cancelled c)) s = (None, s)"
    and "run_state (console_do c ''GET'' (ai_route_path n) None) s = (Inr r, s')" "rp_status r = 200"
    and "route_data r = Inr v" "decode_map v = Inr (Some kvs)" "consumer \<notin> set (allowed_consumers kvs)"
  shows "run_state (route_attempts (Suc left) c consumer provider False n (Some e)) s = (Done (Some e), s')"
proof -
  have "length (remove_string (allowed_consumers kvs) consumer) = length (allowed_consumers kvs)"
    using assms(6) by (auto simp: remove_string_def intro!: arg_cong [where f = length] filter_True)
  then have "changed_route consumer provider False kvs = None"
    by (simp add: changed_route_def Let_def)
  then show ?thesis using assms by simp
qed

text \<open>A route that exists is never written by the skeleton, so its authorization survives a restart.\<close>

lemma existing_route_untouched:
  assumes "run_state (console_do c ''GET'' (ai_route_path (arr_name req)) None) s = (Inr r, s')" "rp_status r = 200"
  shows "run_state (ensure_ai_route c req) s = (None, s')"
  using assms by (simp add: ensure_ai_route_def run_results Let_def)

end
