(* ===== verification/Ai_Gateway.thy ===== *)
theory Ai_Gateway
  imports Provisioner_Rooms Manager_Controller Go_Results
begin

text \<open>
  \<open>internal/gateway/aigateway.go\<close>: the gateway client of Alibaba Cloud APIG. The part of the SDK it
  uses is a record of calls; pointers that may be nil are options, and a response whose body or data
  is nil is \<open>None\<close>. The searches over pages have no bound in the code; here they read at most
  \<open>agw_pages\<close> pages, and \<open>find_consumer_enough\<close> says when that is enough.
\<close>

section \<open>The SDK\<close>

record ai_gateway_config =
  agc_region :: string
  agc_gateway_id :: string
  agc_model_api_id :: string
  agc_env_id :: string

record apig_consumer =
  apc_name :: "string option"
  apc_id :: "string option"

record apig_subdomain =
  aps_network :: "string option"
  aps_name :: "string option"
  aps_protocol :: "string option"

record apig_api =
  apa_name :: "string option"
  apa_id :: "string option"
  apa_base_path :: "string option"
  apa_deploys :: "apig_subdomain option list option list"

record rule_key =
  rk_consumer :: string
  rk_resource :: string
  rk_environment :: string

record 'w apig_client =
  ag_create_consumer :: "string \<Rightarrow> string \<Rightarrow> ('w, string option result) state"
  ag_get_consumer :: "string \<Rightarrow> ('w, string option list option result) state"
  ag_delete_consumer :: "string \<Rightarrow> ('w, go_error option) state"
  ag_list_consumers :: "string option \<Rightarrow> 32 word \<Rightarrow> nat \<Rightarrow> ('w, apig_consumer option list option result) state"
  ag_create_rule :: "rule_key \<Rightarrow> ('w, go_error option) state"
  ag_query_rules :: "rule_key \<Rightarrow> ('w, string option list option result) state"
  ag_delete_rule :: "string \<Rightarrow> string \<Rightarrow> ('w, go_error option) state"
  ag_list_apis :: "string \<Rightarrow> string \<Rightarrow> 32 word \<Rightarrow> ('w, apig_api option list option list option result) state"

record 'w ai_gateway_client =
  agw_config :: ai_gateway_config
  agw_client :: "'w apig_client"
  agw_pages :: nat

definition unsupported_op :: go_error where
  "unsupported_op = Err ''operation not supported on ai-gateway provider''"

text \<open>\<open>sdk\<close> is \<open>apig.NewClient\<close> with the credential, region and endpoint.\<close>

definition new_ai_gateway_client ::
  "('c \<Rightarrow> string \<Rightarrow> string \<Rightarrow> 'w apig_client result) \<Rightarrow> nat \<Rightarrow> ai_gateway_config \<Rightarrow> 'c option \<Rightarrow>
   'w ai_gateway_client result" where
  "new_ai_gateway_client sdk pages cfg cred =
     (if agc_region cfg = [] then Inl (Err ''ai-gateway: region is required'')
      else if agc_gateway_id cfg = [] then Inl (Err ''ai-gateway: gateway id is required'')
      else (case cred of
              None \<Rightarrow> Inl (Err ''ai-gateway: credential is required'')
            | Some c \<Rightarrow>
                (case sdk c (agc_region cfg) (''apig.'' @ agc_region cfg @ ''.aliyuncs.com'') of
                   Inl e \<Rightarrow> Inl (Wrap ''ai-gateway: create APIG client'' e)
                 | Inr cli \<Rightarrow> Inr \<lparr>agw_config = cfg, agw_client = cli, agw_pages = pages\<rparr>)))"

section \<open>Consumers\<close>

definition gateway_consumer_name :: "'w ai_gateway_client \<Rightarrow> string \<Rightarrow> string" where
  "gateway_consumer_name a name =
     (let g = agc_gateway_id (agw_config a) in if g = [] then name else g @ ''-'' @ name)"

text \<open>\<open>tea.StringValue\<close>.\<close>

definition string_value :: "string option \<Rightarrow> string" where
  "string_value v = (case v of None \<Rightarrow> [] | Some s \<Rightarrow> s)"

definition get_consumer_api_key :: "'w ai_gateway_client \<Rightarrow> string \<Rightarrow> ('w, string result) state" where
  "get_consumer_api_key a consumer =
     (if consumer = [] then State_Monad.return (Inr [])
      else try_state (ag_get_consumer (agw_client a) consumer) (\<lambda>creds.
        State_Monad.return (Inr (case creds of Some (Some key # _) \<Rightarrow> key | _ \<Rightarrow> []))))"

text \<open>The key read for a consumer; an error leaves it empty.\<close>

definition consumer_key_or_empty :: "'w ai_gateway_client \<Rightarrow> string \<Rightarrow> ('w, string) state" where
  "consumer_key_or_empty a consumer = do {
     r \<leftarrow> get_consumer_api_key a consumer;
     State_Monad.return (case r of Inl _ \<Rightarrow> [] | Inr key \<Rightarrow> key) }"

definition consumer_named :: "string \<Rightarrow> apig_consumer option \<Rightarrow> bool" where
  "consumer_named name v = (case v of None \<Rightarrow> False | Some c \<Rightarrow> apc_name c = Some name)"

definition page_size :: nat where "page_size = 100"

text \<open>The pages from one on; \<open>None\<close> when the pages allowed are used up.\<close>

fun find_consumer_from ::
  "nat \<Rightarrow> 'w ai_gateway_client \<Rightarrow> string \<Rightarrow> 32 word \<Rightarrow> ('w, (string \<times> string) result option) state" where
  "find_consumer_from 0 a name page = State_Monad.return None"
| "find_consumer_from (Suc left) a name page = do {
     r \<leftarrow> ag_list_consumers (agw_client a) (Some name) page page_size;
     (case r of
        Inl e \<Rightarrow> State_Monad.return (Some (Inl (Wrap ''ai-gateway: ListConsumers'' e)))
      | Inr None \<Rightarrow> State_Monad.return (Some (Inr ([], [])))
      | Inr (Some items) \<Rightarrow>
          (case List.find (consumer_named name) items of
             Some (Some c) \<Rightarrow> do {
               key \<leftarrow> consumer_key_or_empty a (string_value (apc_id c));
               State_Monad.return (Some (Inr (string_value (apc_id c), key))) }
           | _ \<Rightarrow>
               if length items < page_size then State_Monad.return (Some (Inr ([], [])))
               else find_consumer_from left a name (page + 1))) }"

definition page_limit :: go_error where
  "page_limit = Err ''more pages than allowed''"

definition find_consumer :: "'w ai_gateway_client \<Rightarrow> string \<Rightarrow> ('w, (string \<times> string) result) state" where
  "find_consumer a name = do {
     r \<leftarrow> find_consumer_from (agw_pages a) a name 1;
     State_Monad.return (case r of None \<Rightarrow> Inl page_limit | Some x \<Rightarrow> x) }"

definition is_duplicate_err :: "go_error \<Rightarrow> bool" where
  "is_duplicate_err e \<longleftrightarrow> str_contains (err_text e) ''ConsumerNameDuplicate'' \<or> str_contains (err_text e) ''409''"

definition existing_consumer :: "string \<times> string \<Rightarrow> consumer_result" where
  "existing_consumer p = \<lparr>cso_status = ''exists'', cso_api_key = snd p, cso_consumer_id = fst p\<rparr>"

definition cloud_ensure_consumer ::
  "'w ai_gateway_client \<Rightarrow> consumer_request \<Rightarrow> ('w, consumer_result result) state" where
  "cloud_ensure_consumer a req =
     (let name = gateway_consumer_name a (csr_name req) in
      try_state (find_consumer a name) (\<lambda>found.
        if fst found \<noteq> [] then State_Monad.return (Inr (existing_consumer found))
        else do {
          r \<leftarrow> ag_create_consumer (agw_client a) name (''HiClaw consumer: '' @ csr_name req);
          (case r of
             Inl e \<Rightarrow> do {
               again \<leftarrow> (if is_duplicate_err e then find_consumer a name else State_Monad.return (Inl e));
               State_Monad.return
                 (case again of
                    Inr p \<Rightarrow> if fst p \<noteq> [] then Inr (existing_consumer p)
                             else Inl (Wrap ''ai-gateway: CreateConsumer'' e)
                  | Inl _ \<Rightarrow> Inl (Wrap ''ai-gateway: CreateConsumer'' e)) }
           | Inr cid \<Rightarrow> do {
               key \<leftarrow> consumer_key_or_empty a (string_value cid);
               State_Monad.return (Inr \<lparr>cso_status = ''created'', cso_api_key = key,
                 cso_consumer_id = string_value cid\<rparr>) }) }))"

definition cloud_delete_consumer :: "'w ai_gateway_client \<Rightarrow> string \<Rightarrow> ('w, go_error option) state" where
  "cloud_delete_consumer a name =
     use_state (find_consumer a (gateway_consumer_name a name)) (\<lambda>found.
       if fst found = [] then State_Monad.return None
       else wrap_error ''ai-gateway: DeleteConsumer'' (ag_delete_consumer (agw_client a) (fst found)))"

section \<open>Authorization\<close>

definition effective_model :: "'w ai_gateway_client \<Rightarrow> string \<Rightarrow> string" where
  "effective_model a model = (if model \<noteq> [] then model else agc_model_api_id (agw_config a))"

definition rule_of :: "'w ai_gateway_client \<Rightarrow> string \<Rightarrow> string \<Rightarrow> rule_key" where
  "rule_of a cid model =
     \<lparr>rk_consumer = cid, rk_resource = effective_model a model, rk_environment = agc_env_id (agw_config a)\<rparr>"

definition unconfigured :: "'w ai_gateway_client \<Rightarrow> string \<Rightarrow> bool" where
  "unconfigured a model \<longleftrightarrow> effective_model a model = [] \<or> agc_env_id (agw_config a) = []"

definition cloud_authorize :: "'w ai_gateway_client \<Rightarrow> string \<Rightarrow> string \<Rightarrow> ('w, go_error option) state" where
  "cloud_authorize a consumer model =
     (if unconfigured a model
      then State_Monad.return (Some (Err ''ai-gateway: ModelAPIID and EnvID must be configured to authorize consumers''))
      else
        let full = gateway_consumer_name a consumer in
        use_state (find_consumer a full) (\<lambda>found.
          if fst found = []
          then State_Monad.return (Some (Err (''ai-gateway: consumer '' @ full @ '' not found'')))
          else do {
            q \<leftarrow> ag_query_rules (agw_client a) (rule_of a (fst found) model);
            (case q of
               Inr (Some (_ # _)) \<Rightarrow> State_Monad.return None
             | _ \<Rightarrow> wrap_error ''ai-gateway: CreateConsumerAuthorizationRules''
                      (ag_create_rule (agw_client a) (rule_of a (fst found) model))) }))"

fun delete_rules :: "'w ai_gateway_client \<Rightarrow> string \<Rightarrow> string option list \<Rightarrow> ('w, go_error option) state" where
  "delete_rules a cid [] = State_Monad.return None"
| "delete_rules a cid (None # items) = delete_rules a cid items"
| "delete_rules a cid (Some rid # items) =
     then_step (wrap_error (''ai-gateway: delete auth rule '' @ rid) (ag_delete_rule (agw_client a) rid cid))
       (delete_rules a cid items)"

definition cloud_deauthorize :: "'w ai_gateway_client \<Rightarrow> string \<Rightarrow> string \<Rightarrow> ('w, go_error option) state" where
  "cloud_deauthorize a consumer model =
     (if unconfigured a model then State_Monad.return None
      else use_state (find_consumer a (gateway_consumer_name a consumer)) (\<lambda>found.
        if fst found = [] then State_Monad.return None
        else use_state (wrap_result ''ai-gateway: query auth rules''
            (ag_query_rules (agw_client a) (rule_of a (fst found) model))) (\<lambda>items.
          case items of None \<Rightarrow> State_Monad.return None | Some rs \<Rightarrow> delete_rules a (fst found) rs)))"

definition cloud_expose_port :: "port_expose_request \<Rightarrow> ('w, go_error option) state" where
  "cloud_expose_port req = State_Monad.return (Some unsupported_op)"

definition cloud_unexpose_port :: "port_expose_request \<Rightarrow> ('w, go_error option) state" where
  "cloud_unexpose_port req = State_Monad.return (Some unsupported_op)"

definition cloud_healthy :: "'w ai_gateway_client \<Rightarrow> ('w, go_error option) state" where
  "cloud_healthy a =
     use_state (wrap_result ''ai-gateway: list consumers'' (ag_list_consumers (agw_client a) None 1 1))
       (\<lambda>_. State_Monad.return None)"

section \<open>Model providers\<close>

text \<open>The address of the first intranet subdomain that has a name.\<close>

fun subdomain_url :: "string \<Rightarrow> apig_subdomain option list \<Rightarrow> string option" where
  "subdomain_url base_path [] = None"
| "subdomain_url base_path (None # sds) = subdomain_url base_path sds"
| "subdomain_url base_path (Some sd # sds) =
     (if aps_network sd \<noteq> Some ''Intranet'' \<or> string_value (aps_name sd) = [] then subdomain_url base_path sds
      else Some ((case aps_protocol sd of Some p \<Rightarrow> if equal_fold p ''HTTPS'' then ''https'' else ''http''
                     | None \<Rightarrow> ''http'') @
             ''://'' @ string_value (aps_name sd) @ base_path))"

fun resolve_intranet_url :: "apig_subdomain option list option list \<Rightarrow> string \<Rightarrow> string" where
  "resolve_intranet_url [] base_path = []"
| "resolve_intranet_url (None # dcs) base_path = resolve_intranet_url dcs base_path"
| "resolve_intranet_url (Some sds # dcs) base_path =
     (case subdomain_url base_path sds of Some u \<Rightarrow> u | None \<Rightarrow> resolve_intranet_url dcs base_path)"

text \<open>The first API of the name in the items of a page.\<close>

fun find_api :: "string \<Rightarrow> apig_api option list option list \<Rightarrow> apig_api option" where
  "find_api name [] = None"
| "find_api name (None # items) = find_api name items"
| "find_api name (Some apis # items) =
     (case List.find (\<lambda>v. map_option apa_name v = Some (Some name)) apis of
        Some (Some api) \<Rightarrow> Some api
      | _ \<Rightarrow> find_api name items)"

definition api_provider_info :: "string \<Rightarrow> apig_api \<Rightarrow> model_provider_info result" where
  "api_provider_info name api =
     (let base = string_value (apa_base_path api);
          url = resolve_intranet_url (apa_deploys api) base
      in if url = []
         then Inl (Err (''ai-gateway: model provider '' @ go_quote name @ '' has no Intranet subdomain''))
         else Inr \<lparr>mpi_http_api_id = string_value (apa_id api), mpi_base_path = base, mpi_intranet_url = url\<rparr>)"

definition provider_not_found :: "string \<Rightarrow> go_error" where
  "provider_not_found name = Err (''ai-gateway: model provider '' @ go_quote name @ '' not found'')"

fun resolve_provider_from ::
  "nat \<Rightarrow> 'w ai_gateway_client \<Rightarrow> string \<Rightarrow> 32 word \<Rightarrow> ('w, model_provider_info result) state" where
  "resolve_provider_from 0 a name page = State_Monad.return (Inl page_limit)"
| "resolve_provider_from (Suc left) a name page =
     try_state (wrap_result ''ai-gateway: ListHttpApis''
         (ag_list_apis (agw_client a) (agc_gateway_id (agw_config a)) name page)) (\<lambda>data.
       (case data of
          None \<Rightarrow> State_Monad.return (Inl (provider_not_found name))
        | Some items \<Rightarrow>
            (case find_api name items of
               Some api \<Rightarrow> State_Monad.return (api_provider_info name api)
             | None \<Rightarrow>
                 if length items < page_size then State_Monad.return (Inl (provider_not_found name))
                 else resolve_provider_from left a name (page + 1))))"

definition cloud_resolve_provider :: "'w ai_gateway_client \<Rightarrow> string \<Rightarrow> ('w, model_provider_info result) state" where
  "cloud_resolve_provider a name =
     (if agc_gateway_id (agw_config a) = []
      then State_Monad.return (Inl (Err ''ai-gateway: gateway ID is required to resolve model provider''))
      else resolve_provider_from (agw_pages a) a name 1)"

section \<open>The interfaces\<close>

definition cloud_gateway :: "'w ai_gateway_client \<Rightarrow> 'w gateway_ops" where
  "cloud_gateway a =
     \<lparr>go_ensure_consumer = cloud_ensure_consumer a, go_delete_consumer = cloud_delete_consumer a,
      go_authorize = cloud_authorize a, go_deauthorize = cloud_deauthorize a,
      go_ports = \<lparr>eg_expose = cloud_expose_port, eg_unexpose = cloud_unexpose_port\<rparr>\<rparr>"

definition cloud_models :: "'w ai_gateway_client \<Rightarrow> 'w model_gateway" where
  "cloud_models a = \<lparr>mg_resolve = cloud_resolve_provider a, mg_authorize = cloud_authorize a\<rparr>"

section \<open>Against an account\<close>

text \<open>
  The cloud gateway client against an account that keeps consumers and authorization rules: the
  locale states what the client relies on of the service: consumers come in pages, the rules of one
  grant fit into one page. Searching pages, granting and revoking follow.
\<close>

section \<open>Pages\<close>

text \<open>Every page but the last is full.\<close>

definition paged :: "'a list list \<Rightarrow> bool" where
  "paged ps \<longleftrightarrow> ps \<noteq> [] \<and> (\<forall>p \<in> set (butlast ps). page_size \<le> length p) \<and> length (last ps) < page_size"

definition found_id :: "string \<Rightarrow> apig_consumer option list \<Rightarrow> string option" where
  "found_id name items =
     (case List.find (consumer_named name) items of
        Some (Some c) \<Rightarrow> Some (string_value (apc_id c)) | _ \<Rightarrow> None)"

lemma find_named: "List.find (consumer_named name) items \<noteq> Some None"
  by (auto simp: find_Some_iff consumer_named_def)

lemma found_id_append:
  "found_id name (p @ q) = (case found_id name p of None \<Rightarrow> found_id name q | Some i \<Rightarrow> Some i)"
  by (induction p) (auto simp: found_id_def consumer_named_def split: option.splits)

lemma find_found: "List.find (consumer_named name) items =
    (case found_id name items of None \<Rightarrow> None | Some i \<Rightarrow> List.find (consumer_named name) items)"
  using find_named [of name items] by (auto simp: found_id_def split: option.splits)

lemma ran_without: "ran (\<lambda>r. if m r = Some q then None else m r) = ran m - {q}"
  by (auto simp: ran_def split: if_splits) (metis option.inject)

locale apig_account =
  fixes a :: "'w ai_gateway_client"
    and consumers :: "'w \<Rightarrow> string \<Rightarrow> string option"
    and rules :: "'w \<Rightarrow> string \<Rightarrow> rule_key option"
  assumes lists: "\<exists>ps. paged ps \<and> length ps \<le> agw_pages a \<and> found_id name (concat ps) = consumers w name \<and>
        (\<forall>k < length ps. run_state (ag_list_consumers (agw_client a) (Some name) (word_of_nat (Suc k)) page_size) w =
           (Inr (Some (ps ! k)), w))"
    and ids: "consumers w name = Some cid \<Longrightarrow> cid \<noteq> []"
    and gets: "\<exists>r. run_state (ag_get_consumer (agw_client a) cid) w = (r, w)"
    and queries: "\<exists>rs. run_state (ag_query_rules (agw_client a) q) w = (Inr (Some (map Some rs)), w) \<and> distinct rs \<and>
        set rs = {r. rules w r = Some q}"
    and creates: "\<exists>r w'. run_state (ag_create_rule (agw_client a) q) w = (None, w') \<and> rules w r = None \<and>
        rules w' = (rules w)(r \<mapsto> q)"
    and deletes: "rules w r = Some q \<Longrightarrow> \<exists>w'. run_state (ag_delete_rule (agw_client a) r (rk_consumer q)) w = (None, w') \<and>
        rules w' = (rules w)(r := None)"
begin

lemma key_run: "\<exists>key. run_state (consumer_key_or_empty a cid) w = (key, w)"
  using gets [of cid w]
  by (auto simp: consumer_key_or_empty_def get_consumer_api_key_def run_results split: sum.splits)

text \<open>As many pages as there are is enough to find the consumer or to know that there is none.\<close>

lemma find_consumer_enough:
  assumes "\<forall>k < length ps. run_state (ag_list_consumers (agw_client a) (Some name) (word_of_nat (m + Suc k)) page_size) w =
      (Inr (Some (ps ! k)), w)" "paged ps" "length ps \<le> left"
  shows "\<exists>key. run_state (find_consumer_from left a name (word_of_nat (Suc m))) w =
    (Some (Inr (string_value (found_id name (concat ps)), key)), w)"
  using assms
proof (induction ps arbitrary: left m)
  case Nil
  then show ?case by (simp add: paged_def)
next
  case (Cons p ps)
  obtain l where left: "left = Suc l" using Cons.prems(3) by (cases left) auto
  have page: "run_state (ag_list_consumers (agw_client a) (Some name) (word_of_nat (Suc m)) page_size) w = (Inr (Some p), w)"
    using Cons.prems(1) by (metis length_greater_0_conv list.distinct(1) nth_Cons_0 add_Suc_right add.right_neutral)
  show ?case
  proof (cases "found_id name p")
    case (Some i)
    then obtain c where c: "List.find (consumer_named name) p = Some (Some c)" "i = string_value (apc_id c)"
      using find_named by (auto simp: found_id_def split: option.splits)
    then show ?thesis
      using key_run [of i w] page Some by (auto simp: left found_id_append string_value_def)
  next
    case None
    then have none: "List.find (consumer_named name) p = None" using find_found [of name p] by simp
    show ?thesis
    proof (cases "ps = []")
      case True
      then show ?thesis using Cons.prems(2) page none None by (simp add: left paged_def string_value_def)
    next
      case False
      then have full: "page_size \<le> length p" and rest: "paged ps" using Cons.prems(2) by (auto simp: paged_def)
      have "\<forall>k < length ps. run_state (ag_list_consumers (agw_client a) (Some name) (word_of_nat (Suc m + Suc k)) page_size) w =
          (Inr (Some (ps ! k)), w)"
        using Cons.prems(1) by (metis Suc_less_eq add_Suc_shift length_Cons nth_Cons_Suc)
      then have "\<exists>key. run_state (find_consumer_from l a name (word_of_nat (Suc (Suc m)))) w =
          (Some (Inr (string_value (found_id name (concat ps)), key)), w)"
        by (rule Cons.IH) (use rest Cons.prems(3) left in auto)
      then show ?thesis using page none None full by (simp add: left found_id_append add.commute)
    qed
  qed
qed

lemma find_consumer_run:
  "\<exists>key. run_state (find_consumer a name) w = (Inr (string_value (consumers w name), key), w)"
proof -
  obtain ps where ps: "paged ps" "length ps \<le> agw_pages a" "found_id name (concat ps) = consumers w name"
      "\<forall>k < length ps. run_state (ag_list_consumers (agw_client a) (Some name) (word_of_nat (Suc k)) page_size) w =
        (Inr (Some (ps ! k)), w)"
    using lists by blast
  then show ?thesis
    using find_consumer_enough [of ps name 0 w "agw_pages a"] by (auto simp: find_consumer_def)
qed

lemma authorize_run:
  assumes "\<not> unconfigured a model" "consumers w (gateway_consumer_name a n) = Some cid"
  shows "\<exists>w'. run_state (cloud_authorize a n model) w = (None, w') \<and>
    ran (rules w') = insert (rule_of a cid model) (ran (rules w))"
proof -
  let ?q = "rule_of a cid model"
  obtain key where f: "run_state (find_consumer a (gateway_consumer_name a n)) w = (Inr (cid, key), w)"
    using find_consumer_run [of "gateway_consumer_name a n" w] assms(2) by (auto simp: string_value_def)
  obtain rs where rs: "run_state (ag_query_rules (agw_client a) ?q) w = (Inr (Some (map Some rs)), w)"
      "set rs = {r. rules w r = Some ?q}"
    using queries by blast
  show ?thesis
  proof (cases rs)
    case Nil
    obtain r w' where "run_state (ag_create_rule (agw_client a) ?q) w = (None, w')" "rules w r = None"
        "rules w' = (rules w)(r \<mapsto> ?q)"
      using creates by blast
    then show ?thesis
      using f rs Nil assms(1) ids [OF assms(2)]
      by (auto simp: cloud_authorize_def run_use_state Let_def wrap_error_def)
  next
    case (Cons r rs')
    then have "?q \<in> ran (rules w)" using rs(2) by (auto simp: ran_def)
    then show ?thesis
      using f rs Cons assms(1) ids [OF assms(2)] by (auto simp: cloud_authorize_def run_use_state Let_def)
  qed
qed

lemma delete_rules_run:
  assumes "distinct rs" "\<forall>r \<in> set rs. rules w r = Some q"
  shows "\<exists>w'. run_state (delete_rules a (rk_consumer q) (map Some rs)) w = (None, w') \<and>
    rules w' = (\<lambda>r. if r \<in> set rs then None else rules w r)"
  using assms
proof (induction rs arbitrary: w)
  case (Cons r rs)
  obtain w1 where w1: "run_state (ag_delete_rule (agw_client a) r (rk_consumer q)) w = (None, w1)"
      "rules w1 = (rules w)(r := None)"
    using deletes [of w r q] Cons.prems(2) by auto
  then have "\<forall>r' \<in> set rs. rules w1 r' = Some q" using Cons.prems by auto
  then obtain w' where "run_state (delete_rules a (rk_consumer q) (map Some rs)) w1 = (None, w')"
      "rules w' = (\<lambda>r. if r \<in> set rs then None else rules w1 r)"
    using Cons.IH [of w1] Cons.prems(1) by auto
  then show ?case using w1 by (auto simp: then_step_def wrap_error_def)
qed simp

lemma deauthorize_run:
  assumes "\<not> unconfigured a model" "consumers w (gateway_consumer_name a n) = Some cid"
  shows "\<exists>w'. run_state (cloud_deauthorize a n model) w = (None, w') \<and>
    ran (rules w') = ran (rules w) - {rule_of a cid model}"
proof -
  let ?q = "rule_of a cid model"
  obtain key where f: "run_state (find_consumer a (gateway_consumer_name a n)) w = (Inr (cid, key), w)"
    using find_consumer_run [of "gateway_consumer_name a n" w] assms(2) by (auto simp: string_value_def)
  obtain rs where rs: "run_state (ag_query_rules (agw_client a) ?q) w = (Inr (Some (map Some rs)), w)" "distinct rs"
      "set rs = {r. rules w r = Some ?q}"
    using queries by blast
  obtain w' where w': "run_state (delete_rules a (rk_consumer ?q) (map Some rs)) w = (None, w')"
      "rules w' = (\<lambda>r. if r \<in> set rs then None else rules w r)"
    using delete_rules_run [OF rs(2), of w ?q] rs(3) by auto
  have "rules w' = (\<lambda>r. if rules w r = Some ?q then None else rules w r)" using w'(2) rs(3) by simp
  then have "ran (rules w') = ran (rules w) - {?q}" by (simp add: ran_without)
  moreover have "rk_consumer ?q = cid" by (simp add: rule_of_def)
  ultimately show ?thesis
    using f rs(1) w'(1) assms(1) ids [OF assms(2)]
    by (simp add: cloud_deauthorize_def run_use_state run_wrap_result)
qed

end

section \<open>An account held in memory\<close>

record memory_account =
  acc_consumers :: "(string \<times> string) list"
  acc_rules :: "(string \<times> rule_key) list"

definition memory_consumer :: "memory_account \<Rightarrow> string \<Rightarrow> string option" where
  "memory_consumer w name = (case map_of (acc_consumers w) name of Some (c # cs) \<Rightarrow> Some (c # cs) | _ \<Rightarrow> None)"

definition fresh_rule :: "(string \<times> rule_key) list \<Rightarrow> string" where
  "fresh_rule rs = replicate (Suc (sum_list (map (length \<circ> fst) rs))) (CHR ''r'')"

definition rule_ids :: "(string \<times> rule_key) list \<Rightarrow> rule_key \<Rightarrow> string list" where
  "rule_ids rs q = remdups (map fst [p \<leftarrow> rs. map_of rs (fst p) = Some q])"

definition memory_apig :: "memory_account apig_client" where
  "memory_apig =
     \<lparr>ag_create_consumer = (\<lambda>n _. State (\<lambda>w. (Inr (Some n), w\<lparr>acc_consumers := (n, n) # acc_consumers w\<rparr>))),
      ag_get_consumer = (\<lambda>_. State_Monad.return (Inr None)),
      ag_delete_consumer = (\<lambda>i. State (\<lambda>w. (None, w\<lparr>acc_consumers := [p \<leftarrow> acc_consumers w. snd p \<noteq> i]\<rparr>))),
      ag_list_consumers = (\<lambda>n page _. State (\<lambda>w. (Inr (Some (case n of
          Some name \<Rightarrow> (case memory_consumer w name of
             Some i \<Rightarrow> if page = 1 then [Some \<lparr>apc_name = n, apc_id = Some i\<rparr>] else []
           | None \<Rightarrow> [])
        | None \<Rightarrow> [])), w))),
      ag_create_rule = (\<lambda>q. State (\<lambda>w. (None, w\<lparr>acc_rules := (fresh_rule (acc_rules w), q) # acc_rules w\<rparr>))),
      ag_query_rules = (\<lambda>q. State (\<lambda>w. (Inr (Some (map Some (rule_ids (acc_rules w) q))), w))),
      ag_delete_rule = (\<lambda>r _. State (\<lambda>w. (None, w\<lparr>acc_rules := [p \<leftarrow> acc_rules w. fst p \<noteq> r]\<rparr>))),
      ag_list_apis = (\<lambda>_ _ _. State_Monad.return (Inr None))\<rparr>"

definition memory_cloud :: "memory_account ai_gateway_client" where
  "memory_cloud = \<lparr>agw_config = \<lparr>agc_region = ''cn'', agc_gateway_id = ''gw'', agc_model_api_id = ''m1'', agc_env_id = ''env''\<rparr>,
     agw_client = memory_apig, agw_pages = 1\<rparr>"

lemma fresh_rule_new: "map_of rs (fresh_rule rs) = None"
proof -
  have "length r \<le> sum_list (map (length \<circ> fst) rs)" if "(r, q) \<in> set rs" for r q
    using member_le_sum_list [of "length r" "map (length \<circ> fst) rs"] that by force
  then show ?thesis
    by (force simp: fresh_rule_def map_of_eq_None_iff)
qed

lemma set_rule_ids: "set (rule_ids rs q) = {r. map_of rs r = Some q}"
  using map_of_SomeD [of rs] by (force simp: rule_ids_def)

lemma map_of_filter_key: "map_of [p \<leftarrow> rs. fst p \<noteq> r] = (map_of rs)(r := None)"
  by (induction rs) (auto simp: fun_eq_iff)

lemma distinct_rule_ids: "distinct (rule_ids rs q)"
  by (simp add: rule_ids_def)

interpretation memory_apig: apig_account memory_cloud memory_consumer "\<lambda>w. map_of (acc_rules w)"
proof
  fix name and w :: memory_account
  let ?ps = "[case memory_consumer w name of Some i \<Rightarrow> [Some \<lparr>apc_name = Some name, apc_id = Some i\<rparr>] | None \<Rightarrow> []]"
  show "\<exists>ps. paged ps \<and> length ps \<le> agw_pages memory_cloud \<and> found_id name (concat ps) = memory_consumer w name \<and>
      (\<forall>k < length ps. run_state (ag_list_consumers (agw_client memory_cloud) (Some name) (word_of_nat (Suc k)) page_size) w =
         (Inr (Some (ps ! k)), w))"
    by (intro exI [of _ ?ps])
      (auto simp: paged_def page_size_def found_id_def consumer_named_def string_value_def memory_cloud_def memory_apig_def
        split: option.splits)
qed (auto simp: memory_cloud_def memory_apig_def memory_consumer_def map_of_filter_key set_rule_ids
      intro: fresh_rule_new distinct_rule_ids split: option.splits list.splits)

section \<open>Authorization\<close>

definition keeps_account ::
  "'w ai_gateway_client \<Rightarrow> ('w \<Rightarrow> string \<Rightarrow> string option) \<Rightarrow> ('w \<Rightarrow> string \<Rightarrow> rule_key option) \<Rightarrow> bool" where
  "keeps_account a consumers rules \<longleftrightarrow> apig_account a consumers rules"

text \<open>On the cloud gateway, authorizing a consumer that exists grants it exactly the model asked for (the
  configured one when none is given) in the configured environment, whether it had it before or
  not, and revoking takes exactly this grant away, however many pages of consumers the
  account lists; the grants of other consumers and for other models stay as they are.\<close>

theorem cloud_authorization_exact:
  assumes "keeps_account a consumers rules" "\<not> unconfigured a model"
    and "consumers w (gateway_consumer_name a n) = Some cid"
  shows "\<exists>w1 w2. run_state (cloud_authorize a n model) w = (None, w1) \<and>
    ran (rules w1) = insert (rule_of a cid model) (ran (rules w)) \<and>
    run_state (cloud_deauthorize a n model) w = (None, w2) \<and> ran (rules w2) = ran (rules w) - {rule_of a cid model}"
proof -
  have account: "apig_account a consumers rules" using assms(1) by (simp add: keeps_account_def)
  show ?thesis
    using apig_account.authorize_run [OF account assms(2,3)] apig_account.deauthorize_run [OF account assms(2,3)] by blast
qed

text \<open>So a consumer that moves to another provider keeps the grant for the first one.\<close>

lemma old_model_stays_authorized:
  assumes "keeps_account a consumers rules" "\<not> unconfigured a model" "consumers w (gateway_consumer_name a n) = Some cid"
    and "rule_of a cid old \<in> ran (rules w)"
  shows "\<exists>w'. run_state (cloud_authorize a n model) w = (None, w') \<and> rule_of a cid old \<in> ran (rules w')"
proof -
  have account: "apig_account a consumers rules" using assms(1) by (simp add: keeps_account_def)
  show ?thesis using apig_account.authorize_run [OF account assms(2,3)] assms(4) by blast
qed

lemma cloud_authorization_exact_witness:
  "\<exists>w1. run_state (cloud_authorize memory_cloud ''alice'' []) \<lparr>acc_consumers = [(''gw-alice'', ''c1'')], acc_rules = []\<rparr> = (None, w1) \<and>
    ran (map_of (acc_rules w1)) = {\<lparr>rk_consumer = ''c1'', rk_resource = ''m1'', rk_environment = ''env''\<rparr>}"
proof -
  let ?w = "\<lparr>acc_consumers = [(''gw-alice'', ''c1'')], acc_rules = []\<rparr>"
  have "keeps_account memory_cloud memory_consumer (\<lambda>w. map_of (acc_rules w))"
    using memory_apig.apig_account_axioms by (simp add: keeps_account_def)
  moreover have "\<not> unconfigured memory_cloud []" by code_simp
  moreover have "memory_consumer ?w (gateway_consumer_name memory_cloud ''alice'') = Some ''c1''" by code_simp
  moreover have "rule_of memory_cloud ''c1'' [] = \<lparr>rk_consumer = ''c1'', rk_resource = ''m1'', rk_environment = ''env''\<rparr>" by code_simp
  moreover have "ran (map_of (acc_rules ?w)) = {}" by (simp add: ran_def)
  ultimately show ?thesis
    using cloud_authorization_exact [of memory_cloud memory_consumer "\<lambda>w. map_of (acc_rules w)" "[]" ?w "''alice''" "''c1''"]
    by auto
qed

end
