(* ===== verification/Config_Load.thy ===== *)
theory Config_Load
  imports Go_Url Worker_Env Backend_Docker Backend_Kubernetes Openclaw_Config Ai_Gateway
    Higress_Client Minio_Client
begin

text \<open>
  \<open>internal/config/config.go\<close>: the configuration of the controller from its environment and the
  configurations of the components derived from it. The environment is the function \<open>os.Getenv\<close>; the
  fields of \<open>Config\<close> are grouped by the sections of the struct.
\<close>

section \<open>Standard library\<close>

definition int_range :: "int \<Rightarrow> bool" where
  "int_range n \<longleftrightarrow> - (2 ^ 63) \<le> n \<and> n < 2 ^ 63"

text \<open>\<open>strconv.Atoi\<close>.\<close>

definition atoi :: "string \<Rightarrow> int option" where
  "atoi s =
     (let digits = (if s \<noteq> [] \<and> (hd s = CHR ''-'' \<or> hd s = CHR ''+'') then tl s else s);
          n = int (digits_value digits);
          v = (if s \<noteq> [] \<and> hd s = CHR ''-'' then - n else n)
      in if digits = [] \<or> \<not> list_all is_digit_char digits \<or> \<not> int_range v then None else Some v)"

text \<open>\<open>filepath.Clean\<close> of an absolute path.\<close>

fun clean_segments :: "string list \<Rightarrow> string list \<Rightarrow> string list" where
  "clean_segments acc [] = rev acc"
| "clean_segments acc (s # ss) =
     (if s = [] \<or> s = ''.'' then clean_segments acc ss
      else if s = ''..'' then clean_segments (tl acc) ss
      else clean_segments (s # acc) ss)"

definition clean_absolute :: "string \<Rightarrow> string" where
  "clean_absolute p = ''/'' @ join_with ''/'' (clean_segments [] (split_on (CHR ''/'') p))"

section \<open>The configuration\<close>

record config_core =
  cc_kube_mode :: string
  cc_data_dir :: string
  cc_http_addr :: string
  cc_config_dir :: string
  cc_crd_dir :: string
  cc_skills_dir :: string
  cc_resource_prefix :: string
  cc_resource_auto_prefix :: bool
  cc_socket_path :: string
  cc_container_prefix :: string
  cc_auth_audience :: string
  cc_worker_backend :: string
  cc_controller_url :: string
  cc_controller_name :: string
  cc_user_language :: string
  cc_user_timezone :: string

record config_providers =
  cg_gateway_provider :: string
  cg_storage_provider :: string
  cg_higress_base_url :: string
  cg_higress_cookie_file :: string
  cg_higress_admin_user :: string
  cg_higress_admin_password :: string
  cg_region :: string
  cg_gateway_id :: string
  cg_model_api_id :: string
  cg_env_id :: string
  cg_oss_bucket :: string
  cg_oss_storage_prefix :: string
  cg_credential_provider_url :: string

record config_agents =
  ca_k8s_namespace :: string
  ca_worker_cpu :: string
  ca_worker_memory :: string
  ca_default_worker_runtime :: string
  ca_manager_enabled :: bool
  ca_manager_model :: string
  ca_manager_runtime :: string
  ca_manager_image :: string
  ca_manager_spec_resources :: "agent_resource_requirements option"
  ca_manager_cpu_request :: string
  ca_manager_memory_request :: string
  ca_manager_cpu :: string
  ca_manager_memory :: string
  ca_workspace_dir :: string
  ca_host_share_dir :: string
  ca_console_port :: string
  ca_manager_password :: string
  ca_manager_gateway_key :: string

record config_models =
  cm_default_model :: string
  cm_embedding_model :: string
  cm_runtime :: string
  cm_context_window :: int
  cm_max_tokens :: int
  cm_llm_provider :: string
  cm_llm_api_key :: string
  cm_openai_base_url :: string
  cm_stream_idle_timeout :: int
  cm_element_web_url :: string

record config_cms =
  cx_traces_enabled :: bool
  cx_metrics_enabled :: bool
  cx_endpoint :: string
  cx_license_key :: string
  cx_project :: string
  cx_workspace :: string
  cx_service_name :: string

record config =
  cf_core :: config_core
  cf_providers :: config_providers
  cf_agents :: config_agents
  cf_matrix :: matrix_config
  cf_models :: config_models
  cf_cms :: config_cms
  cf_worker_env :: worker_env_defaults

record manager_spec_env =
  mse_model :: string
  mse_runtime :: string
  mse_image :: string
  mse_resources :: agent_resource_requirements

section \<open>Reading the environment\<close>

type_synonym environment = "string \<Rightarrow> string"

definition env_or_default :: "environment \<Rightarrow> string \<Rightarrow> string \<Rightarrow> string" where
  "env_or_default env key d = (if env key \<noteq> [] then env key else d)"

definition env_or_default_int :: "environment \<Rightarrow> string \<Rightarrow> int \<Rightarrow> int" where
  "env_or_default_int env key d = (case atoi (env key) of Some n \<Rightarrow> n | None \<Rightarrow> d)"

definition truthy :: "string \<Rightarrow> bool" where
  "truthy v \<longleftrightarrow> v = ''1'' \<or> v = ''true'' \<or> v = ''True'' \<or> v = ''TRUE''"

definition env_bool :: "environment \<Rightarrow> string \<Rightarrow> bool" where
  "env_bool env key = truthy (env key)"

definition env_bool_default :: "environment \<Rightarrow> string \<Rightarrow> bool \<Rightarrow> bool" where
  "env_bool_default env key d = (if env key = [] then d else truthy (env key))"

fun first_set :: "string list \<Rightarrow> string" where
  "first_set [] = []"
| "first_set (v # vs) = (if v \<noteq> [] then v else first_set vs)"

section \<open>Addresses\<close>

definition extract_host :: "string \<Rightarrow> string" where
  "extract_host raw = (case parse_url raw of Inl _ \<Rightarrow> [] | Inr u \<Rightarrow> url_hostname u)"

definition replace_host :: "string \<Rightarrow> string \<Rightarrow> string" where
  "replace_host raw host =
     (if raw = [] \<or> host = [] then raw
      else case parse_url raw of
        Inl _ \<Rightarrow> raw
      | Inr u \<Rightarrow> url_text (u\<lparr>gu_host := (if url_port u \<noteq> [] then host @ '':'' @ url_port u else host)\<rparr>))"

definition normalize_s3_endpoint :: "string \<Rightarrow> string" where
  "normalize_s3_endpoint raw =
     (if raw = [] then raw
      else case parse_url raw of
        Inl _ \<Rightarrow> raw
      | Inr u \<Rightarrow>
          if url_port u \<noteq> ''8080'' then raw
          else if url_hostname u = [] then raw
          else url_text (u\<lparr>gu_host := url_hostname u @ '':9000''\<rparr>))"

section \<open>Loading\<close>

definition agent_resources_empty :: "agent_resource_requirements \<Rightarrow> bool" where
  "agent_resources_empty r \<longleftrightarrow>
     arv_cpu (arr_requests r) = [] \<and> arv_memory (arr_requests r) = [] \<and>
     arv_cpu (arr_limits r) = [] \<and> arv_memory (arr_limits r) = []"

definition set_if :: "string \<Rightarrow> string \<Rightarrow> string" where
  "set_if new old = (if new \<noteq> [] then new else old)"

definition apply_manager_spec :: "manager_spec_env \<Rightarrow> config_agents \<Rightarrow> config_agents" where
  "apply_manager_spec s c =
     (let r = mse_resources s in
      c\<lparr>ca_manager_model := set_if (mse_model s) (ca_manager_model c),
        ca_manager_runtime := set_if (mse_runtime s) (ca_manager_runtime c),
        ca_manager_image := set_if (mse_image s) (ca_manager_image c),
        ca_manager_spec_resources := (if agent_resources_empty r then ca_manager_spec_resources c else Some r),
        ca_manager_cpu_request := set_if (arv_cpu (arr_requests r)) (ca_manager_cpu_request c),
        ca_manager_memory_request := set_if (arv_memory (arr_requests r)) (ca_manager_memory_request c),
        ca_manager_cpu := set_if (arv_cpu (arr_limits r)) (ca_manager_cpu c),
        ca_manager_memory := set_if (arv_memory (arr_limits r)) (ca_manager_memory c)\<rparr>)"

text \<open>\<open>cwd\<close> is the working directory, \<open>None\<close> where \<open>os.Getwd\<close> fails.\<close>

definition load_data_dir :: "environment \<Rightarrow> string option \<Rightarrow> string" where
  "load_data_dir env cwd =
     (let dir = env_or_default env ''HICLAW_DATA_DIR'' ''/data/hiclaw-controller'' in
      if has_prefix dir ''/'' then dir
      else case cwd of None \<Rightarrow> dir | Some wd \<Rightarrow> clean_absolute (wd @ ''/'' @ dir))"

definition load_core :: "environment \<Rightarrow> string option \<Rightarrow> config_core" where
  "load_core env cwd =
     (let auto_prefix = env_bool_default env ''HICLAW_RESOURCE_AUTOPREFIX'' True;
          prefix = (if auto_prefix then env_or_default env ''HICLAW_RESOURCE_PREFIX'' ''hiclaw-'' else []);
          given = env ''HICLAW_PROXY_CONTAINER_PREFIX''
      in \<lparr>cc_kube_mode = env_or_default env ''HICLAW_KUBE_MODE'' ''embedded'',
          cc_data_dir = load_data_dir env cwd,
          cc_http_addr = env_or_default env ''HICLAW_HTTP_ADDR'' '':8090'',
          cc_config_dir = env_or_default env ''HICLAW_CONFIG_DIR'' ''/root/hiclaw-fs/hiclaw-config'',
          cc_crd_dir = env_or_default env ''HICLAW_CRD_DIR'' ''/opt/hiclaw/config/crd'',
          cc_skills_dir = env_or_default env ''HICLAW_SKILLS_DIR'' ''/opt/hiclaw/agent/skills'',
          cc_resource_prefix = prefix,
          cc_resource_auto_prefix = auto_prefix,
          cc_socket_path = env_or_default env ''HICLAW_PROXY_SOCKET'' ''/var/run/docker.sock'',
          cc_container_prefix = (if given = [] \<and> auto_prefix then prefix @ ''worker-'' else given),
          cc_auth_audience = env_or_default env ''HICLAW_AUTH_AUDIENCE'' ''hiclaw-controller'',
          cc_worker_backend = first_set [env ''HICLAW_WORKER_BACKEND'', env ''HICLAW_ALIYUN_WORKER_BACKEND''],
          cc_controller_url = env ''HICLAW_CONTROLLER_URL'',
          cc_controller_name = env ''HICLAW_CONTROLLER_NAME'',
          cc_user_language = env_or_default env ''HICLAW_LANGUAGE'' ''zh'',
          cc_user_timezone = env_or_default env ''TZ'' ''Asia/Shanghai''\<rparr>)"

definition load_providers :: "environment \<Rightarrow> config_providers" where
  "load_providers env =
     \<lparr>cg_gateway_provider = env_or_default env ''HICLAW_GATEWAY_PROVIDER'' ''higress'',
      cg_storage_provider = env_or_default env ''HICLAW_STORAGE_PROVIDER'' ''minio'',
      cg_higress_base_url = env_or_default env ''HICLAW_AI_GATEWAY_ADMIN_URL'' ''http://127.0.0.1:8001'',
      cg_higress_cookie_file = env ''HIGRESS_COOKIE_FILE'',
      cg_higress_admin_user = env ''HICLAW_ADMIN_USER'',
      cg_higress_admin_password = env ''HICLAW_ADMIN_PASSWORD'',
      cg_region = env_or_default env ''HICLAW_REGION'' ''cn-hangzhou'',
      cg_gateway_id = env ''HICLAW_GW_GATEWAY_ID'',
      cg_model_api_id = env ''HICLAW_GW_MODEL_API_ID'',
      cg_env_id = env ''HICLAW_GW_ENV_ID'',
      cg_oss_bucket = env_or_default env ''HICLAW_FS_BUCKET'' ''hiclaw-storage'',
      cg_oss_storage_prefix = env_or_default env ''HICLAW_STORAGE_PREFIX'' ''hiclaw/hiclaw-storage'',
      cg_credential_provider_url = env ''HICLAW_CREDENTIAL_PROVIDER_URL''\<rparr>"

definition load_agents :: "environment \<Rightarrow> config_agents" where
  "load_agents env =
     \<lparr>ca_k8s_namespace = env ''HICLAW_K8S_NAMESPACE'',
      ca_worker_cpu = env_or_default env ''HICLAW_K8S_WORKER_CPU'' ''1000m'',
      ca_worker_memory = env_or_default env ''HICLAW_K8S_WORKER_MEMORY'' ''2Gi'',
      ca_default_worker_runtime = env ''HICLAW_DEFAULT_WORKER_RUNTIME'',
      ca_manager_enabled = (env_or_default env ''HICLAW_MANAGER_ENABLED'' ''true'' = ''true''),
      ca_manager_model = first_set [env ''HICLAW_MANAGER_MODEL'', env_or_default env ''HICLAW_DEFAULT_MODEL'' ''qwen3.6-plus''],
      ca_manager_runtime = env_or_default env ''HICLAW_MANAGER_RUNTIME'' ''openclaw'',
      ca_manager_image = env ''HICLAW_MANAGER_IMAGE'',
      ca_manager_spec_resources = None,
      ca_manager_cpu_request = env_or_default env ''HICLAW_K8S_MANAGER_CPU_REQUEST'' ''500m'',
      ca_manager_memory_request = env_or_default env ''HICLAW_K8S_MANAGER_MEMORY_REQUEST'' ''1Gi'',
      ca_manager_cpu = env_or_default env ''HICLAW_K8S_MANAGER_CPU'' ''2'',
      ca_manager_memory = env_or_default env ''HICLAW_K8S_MANAGER_MEMORY'' ''4Gi'',
      ca_workspace_dir = env ''HICLAW_WORKSPACE_DIR'',
      ca_host_share_dir = env ''HICLAW_HOST_SHARE_DIR'',
      ca_console_port = env_or_default env ''HICLAW_PORT_MANAGER_CONSOLE'' ''18888'',
      ca_manager_password = env ''HICLAW_MANAGER_PASSWORD'',
      ca_manager_gateway_key = env ''HICLAW_MANAGER_GATEWAY_KEY''\<rparr>"

definition load_matrix :: "environment \<Rightarrow> matrix_config" where
  "load_matrix env =
     \<lparr>mcf_server_url = env_or_default env ''HICLAW_MATRIX_URL'' ''http://matrix-local.hiclaw.io:8080'',
      mcf_domain = env_or_default env ''HICLAW_MATRIX_DOMAIN'' ''matrix-local.hiclaw.io:8080'',
      mcf_registration_token = env_or_default env ''HICLAW_MATRIX_REGISTRATION_TOKEN'' (env ''HICLAW_REGISTRATION_TOKEN''),
      mcf_admin_user = env ''HICLAW_ADMIN_USER'',
      mcf_admin_password = env ''HICLAW_ADMIN_PASSWORD'',
      mcf_e2ee = (env ''HICLAW_MATRIX_E2EE'' = ''1'' \<or> env ''HICLAW_MATRIX_E2EE'' = ''true'')\<rparr>"

definition load_models :: "environment \<Rightarrow> config_models" where
  "load_models env =
     \<lparr>cm_default_model = env_or_default env ''HICLAW_DEFAULT_MODEL'' ''qwen3.6-plus'',
      cm_embedding_model = env ''HICLAW_EMBEDDING_MODEL'',
      cm_runtime = env_or_default env ''HICLAW_RUNTIME'' ''docker'',
      cm_context_window = env_or_default_int env ''HICLAW_MODEL_CONTEXT_WINDOW'' 0,
      cm_max_tokens = env_or_default_int env ''HICLAW_MODEL_MAX_TOKENS'' 0,
      cm_llm_provider = env_or_default env ''HICLAW_LLM_PROVIDER'' ''qwen'',
      cm_llm_api_key = env ''HICLAW_LLM_API_KEY'',
      cm_openai_base_url = env ''HICLAW_OPENAI_BASE_URL'',
      cm_stream_idle_timeout = env_or_default_int env ''HICLAW_AI_STREAM_IDLE_TIMEOUT_SECONDS'' 900,
      cm_element_web_url = env ''HICLAW_ELEMENT_WEB_URL''\<rparr>"

definition load_cms :: "environment \<Rightarrow> config_cms" where
  "load_cms env =
     \<lparr>cx_traces_enabled = env_bool env ''HICLAW_CMS_TRACES_ENABLED'',
      cx_metrics_enabled = env_bool env ''HICLAW_CMS_METRICS_ENABLED'',
      cx_endpoint = env ''HICLAW_CMS_ENDPOINT'', cx_license_key = env ''HICLAW_CMS_LICENSE_KEY'',
      cx_project = env ''HICLAW_CMS_PROJECT'', cx_workspace = env ''HICLAW_CMS_WORKSPACE'',
      cx_service_name = env_or_default env ''HICLAW_CMS_SERVICE_NAME'' ''hiclaw-manager''\<rparr>"

text \<open>The literal leaves \<open>Runtime\<close> out, so it is empty.\<close>

definition load_worker_env :: "environment \<Rightarrow> worker_env_defaults" where
  "load_worker_env env =
     \<lparr>wd_matrix_domain = env_or_default env ''HICLAW_MATRIX_DOMAIN'' ''matrix-local.hiclaw.io:8080'',
      wd_fs_endpoint = env ''HICLAW_FS_ENDPOINT'',
      wd_fs_bucket = env_or_default env ''HICLAW_FS_BUCKET'' ''hiclaw-storage'',
      wd_storage_prefix = env_or_default env ''HICLAW_STORAGE_PREFIX'' ''hiclaw/hiclaw-storage'',
      wd_controller_url = env ''HICLAW_CONTROLLER_URL'',
      wd_ai_gateway_url = env_or_default env ''HICLAW_AI_GATEWAY_URL'' ''http://aigw-local.hiclaw.io:8080'',
      wd_matrix_url = env_or_default env ''HICLAW_MATRIX_URL'' ''http://matrix-local.hiclaw.io:8080'',
      wd_admin_user = env ''HICLAW_ADMIN_USER'',
      wd_runtime = [],
      wd_default_worker_runtime = env ''HICLAW_DEFAULT_WORKER_RUNTIME'',
      wd_yolo_mode = env_bool env ''HICLAW_YOLO'',
      wd_matrix_debug = env_bool env ''HICLAW_MATRIX_DEBUG'',
      wd_cms_traces_enabled = env_bool env ''HICLAW_CMS_TRACES_ENABLED'',
      wd_cms_metrics_enabled = env_bool env ''HICLAW_CMS_METRICS_ENABLED'',
      wd_cms_endpoint = env ''HICLAW_CMS_ENDPOINT'', wd_cms_license_key = env ''HICLAW_CMS_LICENSE_KEY'',
      wd_cms_project = env ''HICLAW_CMS_PROJECT'', wd_cms_workspace = env ''HICLAW_CMS_WORKSPACE'',
      wd_skills_api_url = env_or_default env ''SKILLS_API_URL'' (env ''HICLAW_SKILLS_API_URL''),
      wd_nacos_auth_type = env ''NACOS_AUTH_TYPE''\<rparr>"

text \<open>In embedded mode the agents reach the services of the controller under its network name.\<close>

definition reachable_worker_env :: "string \<Rightarrow> worker_env_defaults \<Rightarrow> worker_env_defaults" where
  "reachable_worker_env mode e =
     (let host = extract_host (wd_controller_url e);
          e1 = (if mode = ''embedded'' \<and> host \<noteq> []
                then e\<lparr>wd_matrix_url := replace_host (wd_matrix_url e) host,
                       wd_fs_endpoint := replace_host (wd_fs_endpoint e) host\<rparr> else e)
      in e1\<lparr>wd_fs_endpoint := normalize_s3_endpoint (wd_fs_endpoint e1)\<rparr>)"

text \<open>\<open>decode\<close> is \<open>json.Unmarshal\<close> into \<open>managerSpecEnv\<close>; a malformed value panics.\<close>

definition load_config :: "(string \<Rightarrow> manager_spec_env result) \<Rightarrow> environment \<Rightarrow> string option \<Rightarrow> config result" where
  "load_config decode env cwd =
     (let core = load_core env cwd;
          cfg = \<lparr>cf_core = core, cf_providers = load_providers env, cf_agents = load_agents env,
            cf_matrix = load_matrix env, cf_models = load_models env, cf_cms = load_cms env,
            cf_worker_env = reachable_worker_env (cc_kube_mode core) (load_worker_env env)\<rparr>;
          spec = env ''HICLAW_MANAGER_SPEC''
      in if spec = [] then Inr cfg
         else (case decode spec of
                 Inl e \<Rightarrow> Inl (Panic (''invalid HICLAW_MANAGER_SPEC: '' @ err_text e))
               | Inr s \<Rightarrow> Inr (cfg\<lparr>cf_agents := apply_manager_spec s (cf_agents cfg)\<rparr>)))"

section \<open>Derived configurations\<close>

definition config_namespace :: "config \<Rightarrow> string" where
  "config_namespace c = (let ns = ca_k8s_namespace (cf_agents c) in if ns \<noteq> [] then ns else ''default'')"

definition has_minio_admin :: "config \<Rightarrow> bool" where
  "has_minio_admin c \<longleftrightarrow> wd_fs_endpoint (cf_worker_env c) \<noteq> []"

definition creds_dir :: "environment \<Rightarrow> string" where
  "creds_dir env = env_or_default env ''HICLAW_CREDS_DIR'' ''/data/worker-creds''"

definition agent_fs_dir :: "environment \<Rightarrow> string" where
  "agent_fs_dir env = env_or_default env ''HICLAW_AGENT_FS_DIR'' ''/root/hiclaw-fs/agents''"

definition worker_agent_dir :: "environment \<Rightarrow> string" where
  "worker_agent_dir env = env_or_default env ''HICLAW_WORKER_AGENT_DIR'' ''/opt/hiclaw/agent/worker-agent''"

definition manager_config_path :: "environment \<Rightarrow> string" where
  "manager_config_path env = env_or_default env ''HICLAW_MANAGER_CONFIG_PATH'' ''/root/openclaw.json''"

definition registry_path :: "environment \<Rightarrow> string" where
  "registry_path env = env_or_default env ''HICLAW_REGISTRY_PATH'' ''/root/workers-registry.json''"

definition manager_resources :: "config \<Rightarrow> resource_overrides" where
  "manager_resources c =
     \<lparr>ro_cpu_request = ca_manager_cpu_request (cf_agents c), ro_cpu_limit = ca_manager_cpu (cf_agents c),
      ro_memory_request = ca_manager_memory_request (cf_agents c), ro_memory_limit = ca_manager_memory (cf_agents c)\<rparr>"

definition docker_config_of :: "environment \<Rightarrow> config \<Rightarrow> docker_config" where
  "docker_config_of env c =
     \<lparr>df_socket_path = cc_socket_path (cf_core c),
      df_worker_image = env_or_default env ''HICLAW_WORKER_IMAGE'' ''hiclaw/worker-agent:latest'',
      df_copaw_worker_image = env_or_default env ''HICLAW_COPAW_WORKER_IMAGE'' ''hiclaw/copaw-worker:latest'',
      df_hermes_worker_image = env_or_default env ''HICLAW_HERMES_WORKER_IMAGE'' ''hiclaw/hermes-worker:latest'',
      df_openhuman_worker_image = env_or_default env ''HICLAW_OPENHUMAN_WORKER_IMAGE'' ''hiclaw/openhuman-worker:latest'',
      df_default_network = env_or_default env ''HICLAW_DOCKER_NETWORK'' ''hiclaw-net''\<rparr>"

definition k8s_config_of :: "environment \<Rightarrow> config \<Rightarrow> k8s_config" where
  "k8s_config_of env c =
     \<lparr>kf_namespace = ca_k8s_namespace (cf_agents c),
      kf_worker_image = env_or_default env ''HICLAW_WORKER_IMAGE'' ''hiclaw/worker-agent:latest'',
      kf_copaw_worker_image = env_or_default env ''HICLAW_COPAW_WORKER_IMAGE'' ''hiclaw/copaw-worker:latest'',
      kf_hermes_worker_image = env_or_default env ''HICLAW_HERMES_WORKER_IMAGE'' ''hiclaw/hermes-worker:latest'',
      kf_openhuman_worker_image = env_or_default env ''HICLAW_OPENHUMAN_WORKER_IMAGE'' ''hiclaw/openhuman-worker:latest'',
      kf_worker_cpu = ca_worker_cpu (cf_agents c), kf_worker_memory = ca_worker_memory (cf_agents c),
      kf_controller_name = cc_controller_name (cf_core c), kf_resource_prefix = cc_resource_prefix (cf_core c)\<rparr>"

text \<open>Bucket and endpoint of \<open>STSConfig\<close>.\<close>

definition sts_config_of :: "environment \<Rightarrow> config \<Rightarrow> string \<times> string" where
  "sts_config_of env c =
     (cg_oss_bucket (cf_providers c), first_set [env ''HICLAW_FS_ENDPOINT'', wd_fs_endpoint (cf_worker_env c)])"

definition ai_gateway_config_of :: "config \<Rightarrow> ai_gateway_config" where
  "ai_gateway_config_of c =
     (let p = cf_providers c in
      \<lparr>agc_region = cg_region p, agc_gateway_id = cg_gateway_id p, agc_model_api_id = cg_model_api_id p,
       agc_env_id = cg_env_id p\<rparr>)"

definition uses_ai_gateway :: "config \<Rightarrow> bool" where
  "uses_ai_gateway c \<longleftrightarrow> cg_gateway_provider (cf_providers c) = ''ai-gateway''"

definition uses_external_oss :: "config \<Rightarrow> bool" where
  "uses_external_oss c \<longleftrightarrow> cg_storage_provider (cf_providers c) = ''oss''"

definition gateway_config_of :: "config \<Rightarrow> higress_config" where
  "gateway_config_of c =
     (let p = cf_providers c in
      \<lparr>hg_console_url = cg_higress_base_url p, hg_admin_user = cg_higress_admin_user p,
       hg_admin_password = cg_higress_admin_password p,
       hg_allow_default_admin = (cc_kube_mode (cf_core c) = ''embedded''),
       hg_data_plane_url = wd_ai_gateway_url (cf_worker_env c)\<rparr>)"

definition fs_access_key :: "environment \<Rightarrow> string" where
  "fs_access_key env = first_set [env ''HICLAW_FS_ACCESS_KEY'', env ''HICLAW_MINIO_USER'']"

definition fs_secret_key :: "environment \<Rightarrow> string" where
  "fs_secret_key env = first_set [env ''HICLAW_FS_SECRET_KEY'', env ''HICLAW_MINIO_PASSWORD'']"

definition oss_config_of :: "environment \<Rightarrow> config \<Rightarrow> mc_config" where
  "oss_config_of env c =
     \<lparr>oc_alias = [],
      oc_endpoint = normalize_s3_endpoint (first_set [env ''HICLAW_FS_ENDPOINT'', wd_fs_endpoint (cf_worker_env c)]),
      oc_access_key = fs_access_key env, oc_secret_key = fs_secret_key env,
      oc_bucket = cg_oss_bucket (cf_providers c), mcf_binary = [],
      mcf_storage_prefix = cg_oss_storage_prefix (cf_providers c)\<rparr>"

definition manager_agent_env :: "environment \<Rightarrow> config \<Rightarrow> smap" where
  "manager_agent_env env c =
     (let p = cf_providers c; w = cf_worker_env c; m = cf_matrix c; o1 = cf_models c; x = cf_cms c;
          e1 = fold put_nonempty
            [(''HICLAW_MINIO_USER'', env ''HICLAW_MINIO_USER''),
             (''HICLAW_MINIO_PASSWORD'', env ''HICLAW_MINIO_PASSWORD''),
             (''HICLAW_ADMIN_USER'', mcf_admin_user m),
             (''HICLAW_ADMIN_PASSWORD'', mcf_admin_password m),
             (''HICLAW_REGISTRATION_TOKEN'', mcf_registration_token m),
             (''HICLAW_AI_GATEWAY_ADMIN_URL'', cg_higress_base_url p),
             (''HICLAW_MATRIX_URL'', wd_matrix_url w),
             (''HICLAW_AI_GATEWAY_URL'', wd_ai_gateway_url w),
             (''HICLAW_FS_ENDPOINT'', wd_fs_endpoint w),
             (''HICLAW_FS_BUCKET'', wd_fs_bucket w),
             (''HICLAW_FS_ACCESS_KEY'', fs_access_key env),
             (''HICLAW_FS_SECRET_KEY'', fs_secret_key env),
             (''HICLAW_STORAGE_PREFIX'', cg_oss_storage_prefix p),
             (''HICLAW_MATRIX_DOMAIN'', mcf_domain m),
             (''HICLAW_DEFAULT_MODEL'', cm_default_model o1),
             (''HICLAW_EMBEDDING_MODEL'', cm_embedding_model o1),
             (''HICLAW_LLM_PROVIDER'', cm_llm_provider o1),
             (''HICLAW_LLM_API_KEY'', cm_llm_api_key o1)] [];
          e2 = put_flag (cm_stream_idle_timeout o1 > 0) ''HICLAW_AI_STREAM_IDLE_TIMEOUT_SECONDS''
                 (show_int (cm_stream_idle_timeout o1)) e1;
          e3 = put_nonempty (''HICLAW_ELEMENT_WEB_URL'', cm_element_web_url o1) e2;
          e4 = put_flag (mcf_e2ee m) ''HICLAW_MATRIX_E2EE'' ''1'' e3;
          e5 = put_flag (wd_matrix_debug w) ''HICLAW_MATRIX_DEBUG'' ''1'' e4;
          e6 = put_flag (cx_traces_enabled x) ''HICLAW_CMS_TRACES_ENABLED'' ''1'' e5;
          e7 = put_flag (cx_metrics_enabled x) ''HICLAW_CMS_METRICS_ENABLED'' ''1'' e6
      in fold put_nonempty
           [(''HICLAW_CMS_ENDPOINT'', cx_endpoint x), (''HICLAW_CMS_LICENSE_KEY'', cx_license_key x),
            (''HICLAW_CMS_PROJECT'', cx_project x), (''HICLAW_CMS_WORKSPACE'', cx_workspace x),
            (''HICLAW_CMS_SERVICE_NAME'', cx_service_name x)] e7)"

text \<open>The fields of \<open>agentconfig.Config\<close> the generator reads.\<close>

definition agent_config_of :: "environment \<Rightarrow> config \<Rightarrow> agent_config" where
  "agent_config_of env c =
     (let w = cf_worker_env c; embedded = (cc_kube_mode (cf_core c) = ''embedded'') in
      \<lparr>ac_matrix_domain = mcf_domain (cf_matrix c),
       ac_matrix_server_url =
         (if embedded \<and> wd_matrix_url w \<noteq> [] then wd_matrix_url w else mcf_server_url (cf_matrix c)),
       ac_ai_gateway_url =
         (if embedded \<and> wd_ai_gateway_url w \<noteq> [] then wd_ai_gateway_url w
          else env_or_default env ''HICLAW_AI_GATEWAY_URL'' ''http://aigw-local.hiclaw.io:8080''),
       ac_admin_user = mcf_admin_user (cf_matrix c),
       ac_default_model = cm_default_model (cf_models c),
       ac_embedding_model = cm_embedding_model (cf_models c),
       ac_e2ee_enabled = mcf_e2ee (cf_matrix c),
       ac_model_context_window = cm_context_window (cf_models c),
       ac_model_max_tokens = cm_max_tokens (cf_models c),
       ac_model_vision = None, ac_model_reasoning = None\<rparr>)"

end
