(* ===== verification/Registry_Migration.thy ===== *)
theory Registry_Migration
  imports Legacy_Registry Storage Go_Results Go_Json
begin

text \<open>
  \<open>internal/migration/registry_migration.go\<close>: at every start of an embedded controller the registry
  files are read back and a custom resource is created for each entry that has none. The dynamic
  client, the file system and the decoding of JSON are operations of the migrator; a Go map is the
  list of its entries in the order in which the loop visits them.
\<close>

section \<open>Registry entries\<close>

record worker_reg_entry =
  wre_matrix_user_id :: string
  wre_room_id :: string
  wre_runtime :: string
  wre_deployment :: string
  wre_skills :: "string list"
  wre_role :: string
  wre_team_id :: "string option"
  wre_image :: "string option"
  wre_created_at :: string
  wre_skills_updated_at :: string

record team_reg_entry =
  tre_leader :: string
  tre_workers :: "string list"
  tre_team_room_id :: string
  tre_leader_dm_room_id :: string
  tre_admin :: "team_admin_entry option"
  tre_created_at :: string

record human_reg_entry =
  hre_matrix_user_id :: string
  hre_display_name :: string
  hre_permission_level :: int
  hre_accessible_teams :: "string list"
  hre_created_at :: string

datatype cr_kind = Kind_Worker | Kind_Team | Kind_Human

record 'w migrator =
  mgt_oss_get :: "string \<Rightarrow> ('w, string result) state"
  mgt_read_file :: "string \<Rightarrow> ('w, string result) state"
  mgt_connect :: "go_error option"
  mgt_get :: "cr_kind \<Rightarrow> string \<Rightarrow> string \<Rightarrow> ('w, go_error option) state"
  mgt_create :: "cr_kind \<Rightarrow> string \<Rightarrow> json \<Rightarrow> ('w, go_error option) state"
  mgt_decode_workers :: "string \<Rightarrow> (string \<times> worker_reg_entry) list result"
  mgt_decode_teams :: "string \<Rightarrow> (string \<times> team_reg_entry) list result"
  mgt_decode_humans :: "string \<Rightarrow> (string \<times> human_reg_entry) list result"
  mgt_json :: "string \<Rightarrow> raw_json"
  mgt_namespace :: string
  mgt_default_model :: string
  mgt_manager_name :: string
  mgt_agent_fs_dir :: string

definition migrator_manager_name :: "'w migrator \<Rightarrow> string" where
  "migrator_manager_name m = (if mgt_manager_name m \<noteq> [] then mgt_manager_name m else ''manager'')"

section \<open>Reading\<close>

definition local_agent_file :: "'w migrator \<Rightarrow> string \<Rightarrow> string \<Rightarrow> string" where
  "local_agent_file m agent file = path_join (path_join (mgt_agent_fs_dir m) agent) file"

definition agent_object :: "string \<Rightarrow> string \<Rightarrow> string" where
  "agent_object agent file = ''agents/'' @ agent @ ''/'' @ file"

definition read_registry_file :: "'w migrator \<Rightarrow> string \<Rightarrow> ('w, string result) state" where
  "read_registry_file m file =
     (let stored = mgt_oss_get m (agent_object (migrator_manager_name m) file) in
      if mgt_agent_fs_dir m = [] then stored
      else do {
        r \<leftarrow> mgt_read_file m (local_agent_file m (migrator_manager_name m) file);
        (case r of
           Inr d \<Rightarrow> State_Monad.return (Inr d)
         | Inl e \<Rightarrow> if is_os_not_exist e then stored else State_Monad.return (Inl e)) })"

text \<open>A missing file is an empty registry.\<close>

definition load_reg_file ::
  "'w migrator \<Rightarrow> string \<Rightarrow> (string \<Rightarrow> 'e list result) \<Rightarrow> ('w, 'e list result) state" where
  "load_reg_file m file decode = do {
     r \<leftarrow> read_registry_file m file;
     State_Monad.return
       (case r of
          Inl e \<Rightarrow> if is_os_not_exist e then Inr [] else Inl e
        | Inr d \<Rightarrow> map_sum (Wrap (''parse '' @ file)) id (decode d)) }"

definition load_workers_registry :: "'w migrator \<Rightarrow> ('w, (string \<times> worker_reg_entry) list result) state" where
  "load_workers_registry m = load_reg_file m ''workers-registry.json'' (mgt_decode_workers m)"

definition load_teams_registry :: "'w migrator \<Rightarrow> ('w, (string \<times> team_reg_entry) list result) state" where
  "load_teams_registry m = load_reg_file m ''teams-registry.json'' (mgt_decode_teams m)"

definition load_humans_registry :: "'w migrator \<Rightarrow> ('w, (string \<times> human_reg_entry) list result) state" where
  "load_humans_registry m = load_reg_file m ''humans-registry.json'' (mgt_decode_humans m)"

definition read_agent_file :: "'w migrator \<Rightarrow> string \<Rightarrow> string \<Rightarrow> ('w, string option) state" where
  "read_agent_file m agent file =
     (let stored = do {
            r \<leftarrow> mgt_oss_get m (agent_object agent file);
            State_Monad.return (case r of Inl _ \<Rightarrow> None | Inr d \<Rightarrow> Some d) } in
      if mgt_agent_fs_dir m = [] then stored
      else do {
        r \<leftarrow> mgt_read_file m (local_agent_file m agent file);
        (case r of Inr d \<Rightarrow> State_Monad.return (Some d) | Inl _ \<Rightarrow> stored) })"

text \<open>The model a document names; an absent or empty name gives the default.\<close>

definition model_in :: "string \<Rightarrow> raw_json \<Rightarrow> string" where
  "model_in d raw =
     (case document_map raw of
        None \<Rightarrow> d
      | Some cfg \<Rightarrow>
          (case json_get cfg ''models'' of
             JObj models \<Rightarrow>
               let name = text_member models ''default'' in
               if name = [] then d else trim_prefix name ''hiclaw-gateway/''
           | _ \<Rightarrow> d))"

definition extract_model :: "'w migrator \<Rightarrow> string \<Rightarrow> ('w, string) state" where
  "extract_model m name = do {
     d \<leftarrow> read_agent_file m name ''openclaw.json'';
     State_Monad.return
       (case d of None \<Rightarrow> mgt_default_model m | Some text \<Rightarrow> model_in (mgt_default_model m) (mgt_json m text)) }"

definition mcp_entry :: "string \<times> json \<Rightarrow> json" where
  "mcp_entry p =
     (let o1 = (case snd p of JObj kvs \<Rightarrow> kvs | _ \<Rightarrow> []); url = text_member o1 ''url''; t = text_member o1 ''transport''
      in JObj ([(''name'', JStr (fst p))] @ (if url \<noteq> [] then [(''url'', JStr url)] else []) @
           [(''transport'', JStr (if t \<noteq> [] then t else ''http''))]))"

definition mcp_entries :: "raw_json \<Rightarrow> json list" where
  "mcp_entries raw =
     (case document_map raw of
        None \<Rightarrow> []
      | Some doc \<Rightarrow> map mcp_entry (case json_get doc ''mcpServers'' of JObj w \<Rightarrow> w | _ \<Rightarrow> doc))"

definition extract_mcp_servers :: "'w migrator \<Rightarrow> string \<Rightarrow> ('w, json list) state" where
  "extract_mcp_servers m name = do {
     d \<leftarrow> read_agent_file m name ''mcporter-servers.json'';
     State_Monad.return (case d of None \<Rightarrow> [] | Some text \<Rightarrow> mcp_entries (mgt_json m text)) }"

section \<open>Creating\<close>

definition api_version :: string where
  "api_version = ''hiclaw.io/v1beta1''"

definition cr_object :: "string \<Rightarrow> string \<Rightarrow> string \<Rightarrow> (string \<times> json) list \<Rightarrow> json" where
  "cr_object kind ns name spec =
     JObj [(''apiVersion'', JStr api_version), (''kind'', JStr kind),
       (''metadata'', JObj [(''name'', JStr name), (''namespace'', JStr ns)]), (''spec'', JObj spec)]"

definition unless_exists ::
  "'w migrator \<Rightarrow> cr_kind \<Rightarrow> string \<Rightarrow> ('w, go_error option) state \<Rightarrow> ('w, go_error option) state" where
  "unless_exists m kind name create = do {
     e \<leftarrow> mgt_get m kind (mgt_namespace m) name;
     (case e of None \<Rightarrow> State_Monad.return None | Some _ \<Rightarrow> create) }"

definition put_text :: "string \<Rightarrow> string \<Rightarrow> (string \<times> json) list" where
  "put_text k v = (if v = [] then [] else [(k, JStr v)])"

definition put_list :: "string \<Rightarrow> json list \<Rightarrow> (string \<times> json) list" where
  "put_list k vs = (if vs = [] then [] else [(k, JArr vs)])"

definition image_of :: "worker_reg_entry \<Rightarrow> string" where
  "image_of e = (case wre_image e of None \<Rightarrow> [] | Some i \<Rightarrow> i)"

definition create_standalone_worker :: "'w migrator \<Rightarrow> string \<Rightarrow> worker_reg_entry \<Rightarrow> ('w, go_error option) state" where
  "create_standalone_worker m name e = unless_exists m Kind_Worker name (do {
     model \<leftarrow> extract_model m name;
     servers \<leftarrow> extract_mcp_servers m name;
     wrap_error (''create Worker CR '' @ name)
       (mgt_create m Kind_Worker (mgt_namespace m) (cr_object ''Worker'' (mgt_namespace m) name
         ([(''model'', JStr model), (''runtime'', JStr (wre_runtime e))] @ put_text ''image'' (image_of e) @
          put_list ''skills'' (map JStr (wre_skills e)) @ put_list ''mcpServers'' servers))) })"

definition team_worker_document ::
  "'w migrator \<Rightarrow> (string \<times> worker_reg_entry) list \<Rightarrow> string \<Rightarrow> ('w, json) state" where
  "team_worker_document m workers name = do {
     model \<leftarrow> extract_model m name;
     (case map_of workers name of
        None \<Rightarrow> State_Monad.return (JObj [(''name'', JStr name), (''model'', JStr model)])
      | Some e \<Rightarrow> do {
          servers \<leftarrow> extract_mcp_servers m name;
          State_Monad.return (JObj ([(''name'', JStr name), (''model'', JStr model)] @
            put_text ''runtime'' (wre_runtime e) @ put_list ''skills'' (map JStr (wre_skills e)) @
            put_list ''mcpServers'' servers @ put_text ''image'' (image_of e))) }) }"

fun team_worker_documents ::
  "'w migrator \<Rightarrow> (string \<times> worker_reg_entry) list \<Rightarrow> string list \<Rightarrow> ('w, json list) state" where
  "team_worker_documents m workers [] = State_Monad.return []"
| "team_worker_documents m workers (n # ns) = do {
     d \<leftarrow> team_worker_document m workers n;
     ds \<leftarrow> team_worker_documents m workers ns;
     State_Monad.return (d # ds) }"

definition admin_document :: "team_admin_entry \<Rightarrow> json" where
  "admin_document a = JObj ([(''name'', JStr (tae_name a))] @ put_text ''matrixUserId'' (tae_matrix_user_id a))"

definition create_team_cr ::
  "'w migrator \<Rightarrow> (string \<times> worker_reg_entry) list \<Rightarrow> string \<Rightarrow> team_reg_entry \<Rightarrow> ('w, go_error option) state" where
  "create_team_cr m workers name e = unless_exists m Kind_Team name (do {
     model \<leftarrow> extract_model m (tre_leader e);
     ws \<leftarrow> team_worker_documents m workers (tre_workers e);
     wrap_error (''create Team CR '' @ name)
       (mgt_create m Kind_Team (mgt_namespace m) (cr_object ''Team'' (mgt_namespace m) name
         ([(''leader'', JObj [(''name'', JStr (tre_leader e)), (''model'', JStr model)]), (''workers'', JArr ws)] @
          (case tre_admin e of None \<Rightarrow> [] | Some a \<Rightarrow> [(''admin'', admin_document a)])))) })"

definition create_human_cr :: "'w migrator \<Rightarrow> string \<Rightarrow> human_reg_entry \<Rightarrow> ('w, go_error option) state" where
  "create_human_cr m name e = unless_exists m Kind_Human name
     (wrap_error (''create Human CR '' @ name)
       (mgt_create m Kind_Human (mgt_namespace m) (cr_object ''Human'' (mgt_namespace m) name
         ([(''displayName'', JStr (hre_display_name e)), (''permissionLevel'', JNum (hre_permission_level e))] @
          put_list ''accessibleTeams'' (map JStr (hre_accessible_teams e))))))"

section \<open>The pass\<close>

text \<open>The team of each agent the teams name; a later team wins.\<close>

definition team_by_worker :: "(string \<times> team_reg_entry) list \<Rightarrow> (string \<times> string) list" where
  "team_by_worker teams =
     fold (\<lambda>(t, e) m. fold (\<lambda>w m'. AList.update w t m') (tre_leader e # tre_workers e) m) teams []"

text \<open>Every entry is tried; an error is only logged.\<close>

fun each_entry :: "(string \<Rightarrow> 'e \<Rightarrow> ('w, go_error option) state) \<Rightarrow> (string \<times> 'e) list \<Rightarrow> ('w, unit) state" where
  "each_entry f [] = State_Monad.return ()"
| "each_entry f ((name, e) # es) = do { _ \<leftarrow> f name e; each_entry f es }"

definition standalone_entries ::
  "(string \<times> worker_reg_entry) list \<Rightarrow> (string \<times> team_reg_entry) list \<Rightarrow> (string \<times> worker_reg_entry) list" where
  "standalone_entries workers teams = filter (\<lambda>p. map_of (team_by_worker teams) (fst p) = None) workers"

definition run_migration :: "'w migrator \<Rightarrow> ('w, go_error option) state" where
  "run_migration m =
     (case mgt_connect m of
        Some e \<Rightarrow> State_Monad.return (Some (Wrap ''create dynamic client'' e))
      | None \<Rightarrow>
          use_state (wrap_result ''load workers registry'' (load_workers_registry m)) (\<lambda>workers.
          use_state (wrap_result ''load teams registry'' (load_teams_registry m)) (\<lambda>teams.
          use_state (wrap_result ''load humans registry'' (load_humans_registry m)) (\<lambda>humans. do {
            _ \<leftarrow> each_entry (create_standalone_worker m) (standalone_entries workers teams);
            _ \<leftarrow> each_entry (create_team_cr m workers) teams;
            _ \<leftarrow> each_entry (create_human_cr m) humans;
            State_Monad.return None }))))"

end
