(* ===== verification/Initializer.thy ===== *)
theory Initializer
  imports Go_Url Config_Load Registry_Migration Higress_Routes Ai_Gateway Matrix_Client
begin

text \<open>
  \<open>internal/initializer/initializer.go\<close>: the bootstrap a controller runs once it is the leader. It waits
  for the object store, Matrix and the gateway, lays out the bucket, registers the admin, sets up the
  gateway's routes, and creates the Manager resource. The clock and the waiting are operations of the
  world, in milliseconds; an endless wait is \<open>None\<close>.
\<close>

section \<open>The gateway's infrastructure operations\<close>

record 'w gateway_infra =
  gi_healthy :: "('w, go_error option) state"
  gi_ensure_service_source :: "string \<Rightarrow> string \<Rightarrow> int \<Rightarrow> string \<Rightarrow> ('w, go_error option) state"
  gi_ensure_static_source :: "string \<Rightarrow> string \<Rightarrow> int \<Rightarrow> ('w, go_error option) state"
  gi_ensure_route :: "string \<Rightarrow> string list \<Rightarrow> string \<Rightarrow> int \<Rightarrow> string \<Rightarrow> ('w, go_error option) state"
  gi_delete_route :: "string \<Rightarrow> ('w, go_error option) state"
  gi_ensure_ai_provider :: "ai_provider_request \<Rightarrow> ('w, go_error option) state"
  gi_ensure_idle_timeout :: "int \<Rightarrow> ('w, go_error option) state"
  gi_ensure_ai_route :: "ai_route_request \<Rightarrow> ('w, go_error option) state"

definition higress_delete_route :: "'w higress_client \<Rightarrow> string \<Rightarrow> ('w higress_state, go_error option) state" where
  "higress_delete_route c name = do { _ \<leftarrow> delete_route c name; State_Monad.return None }"

definition higress_infra :: "'w higress_client \<Rightarrow> 'w higress_state gateway_infra" where
  "higress_infra c =
     \<lparr>gi_healthy = healthy c, gi_ensure_service_source = ensure_service_source c,
      gi_ensure_static_source = ensure_static_service_source c, gi_ensure_route = ensure_route c,
      gi_delete_route = higress_delete_route c, gi_ensure_ai_provider = ensure_ai_provider c,
      gi_ensure_idle_timeout = ensure_stream_idle_timeout c, gi_ensure_ai_route = ensure_ai_route c\<rparr>"

text \<open>The cloud gateway's routes are not the controller's.\<close>

definition unsupported :: "('w, go_error option) state" where
  "unsupported = State_Monad.return (Some unsupported_op)"

definition cloud_infra :: "'w ai_gateway_client \<Rightarrow> 'w gateway_infra" where
  "cloud_infra a =
     \<lparr>gi_healthy = cloud_healthy a, gi_ensure_service_source = \<lambda>n d p q. unsupported,
      gi_ensure_static_source = \<lambda>n d p. unsupported, gi_ensure_route = \<lambda>n ds s p q. unsupported,
      gi_delete_route = \<lambda>n. unsupported, gi_ensure_ai_provider = \<lambda>r. unsupported,
      gi_ensure_idle_timeout = \<lambda>n. unsupported, gi_ensure_ai_route = \<lambda>r. unsupported\<rparr>"

section \<open>Configuration\<close>

record init_config =
  ic_manager_enabled :: bool
  ic_manager_model :: string
  ic_manager_runtime :: string
  ic_manager_image :: string
  ic_manager_resources :: "agent_resource_requirements option"
  ic_admin_user :: string
  ic_admin_password :: string
  ic_namespace :: string
  ic_embedded :: bool
  ic_agent_fs_dir :: string
  ic_controller_name :: string
  ic_gateway_provider :: string
  ic_storage_provider :: string
  ic_llm_provider :: string
  ic_llm_api_key :: string
  ic_openai_base_url :: string
  ic_stream_idle_timeout :: int
  ic_tuwunel_url :: string
  ic_element_web_url :: string

definition manages_gateway_routes :: "init_config \<Rightarrow> bool" where
  "manages_gateway_routes c \<longleftrightarrow> ic_gateway_provider c = [] \<or> ic_gateway_provider c = ''higress''"

definition manages_storage :: "init_config \<Rightarrow> bool" where
  "manages_storage c \<longleftrightarrow> ic_storage_provider c = [] \<or> ic_storage_provider c = ''minio''"

text \<open>\<open>ini_ensure_bucket\<close> is present where the store manages buckets, \<open>ini_gateway\<close> where there is a gateway;
  \<open>ini_wait\<close> is the wait for a timer or the end of the context, \<open>ini_sleep\<close> a plain sleep, \<open>ini_migrator\<close> the
  cluster's part of the migrator.\<close>

record 'w initializer =
  ini_oss :: "'w storage_client"
  ini_ensure_bucket :: "('w, go_error option) state option"
  ini_matrix :: "'w matrix_ops"
  ini_gateway :: "'w gateway_infra option"
  ini_now :: "('w, int) state"
  ini_wait :: "int \<Rightarrow> ('w, go_error option) state"
  ini_sleep :: "int \<Rightarrow> ('w, unit) state"
  ini_connect :: "go_error option"
  ini_get_manager :: "string \<Rightarrow> string \<Rightarrow> ('w, go_error option) state"
  ini_create_manager :: "string \<Rightarrow> json \<Rightarrow> ('w, go_error option) state"
  ini_migrator :: "'w migrator"
  ini_config :: init_config

section \<open>Waiting\<close>

definition retry_interval :: int where "retry_interval = 3000"
definition retry_timeout :: int where "retry_timeout = 300000"

text \<open>As many rounds as fit into the timeout, the first, and the one after the deadline.\<close>

definition retry_rounds :: nat where
  "retry_rounds = nat (retry_timeout div retry_interval) + 2"

fun retry_until ::
  "nat \<Rightarrow> 'w initializer \<Rightarrow> int \<Rightarrow> ('w, go_error option) state \<Rightarrow> ('w, go_error option option) state" where
  "retry_until 0 i deadline f = State_Monad.return None"
| "retry_until (Suc n) i deadline f = do {
     r \<leftarrow> f;
     (case r of
        None \<Rightarrow> State_Monad.return (Some None)
      | Some e \<Rightarrow> do {
          now \<leftarrow> ini_now i;
          if now > deadline then State_Monad.return (Some (Some (Wrap ''timed out after 5m0s'' e)))
          else do {
            c \<leftarrow> ini_wait i retry_interval;
            (case c of
               Some x \<Rightarrow> State_Monad.return (Some (Some x))
             | None \<Rightarrow> retry_until n i deadline f) } }) }"

definition retry :: "'w initializer \<Rightarrow> ('w, go_error option) state \<Rightarrow> ('w, go_error option option) state" where
  "retry i f = do {
     now \<leftarrow> ini_now i;
     retry_until retry_rounds i (now + retry_timeout) f }"

definition list_bucket :: "'w initializer \<Rightarrow> ('w, go_error option) state" where
  "list_bucket i = use_state (so_list (ini_oss i) []) (\<lambda>_. State_Monad.return None)"

definition oss_check :: "'w initializer \<Rightarrow> ('w, go_error option) state" where
  "oss_check i =
     (case ini_ensure_bucket i of
        Some ensure \<Rightarrow> if manages_storage (ini_config i) then ensure else list_bucket i
      | None \<Rightarrow> list_bucket i)"

definition wait_for_oss :: "'w initializer \<Rightarrow> ('w, go_error option option) state" where
  "wait_for_oss i = retry i (oss_check i)"

definition is_matrix_conn_error :: "go_error \<Rightarrow> bool" where
  "is_matrix_conn_error e \<longleftrightarrow> list_ex (str_contains (err_text e))
     [''connection refused'', ''no such host'', ''dial tcp'', ''i/o timeout'', ''EOF'']"

definition matrix_check :: "'w initializer \<Rightarrow> ('w, go_error option) state" where
  "matrix_check i = do {
     r \<leftarrow> mo_login (ini_matrix i) ''__healthcheck__'' ''invalid'';
     State_Monad.return
       (case r of Inl e \<Rightarrow> if is_matrix_conn_error e then Some e else None | Inr _ \<Rightarrow> None) }"

definition wait_for_matrix :: "'w initializer \<Rightarrow> ('w, go_error option option) state" where
  "wait_for_matrix i = retry i (matrix_check i)"

definition wait_for_gateway :: "'w initializer \<Rightarrow> 'w gateway_infra \<Rightarrow> ('w, go_error option option) state" where
  "wait_for_gateway i g = retry i (gi_healthy g)"

section \<open>The bucket and the admin\<close>

definition oss_dirs :: "string list" where
  "oss_dirs = [''shared/knowledge/'', ''shared/tasks/'', ''workers/'', ''hiclaw-config/workers/'',
     ''hiclaw-config/teams/'', ''hiclaw-config/humans/'', ''agents/'']"

fun create_dirs :: "'w storage_client \<Rightarrow> string list \<Rightarrow> ('w, go_error option) state" where
  "create_dirs s [] = State_Monad.return None"
| "create_dirs s (d # ds) = do {
     r \<leftarrow> so_put s (d @ ''.gitkeep'') [];
     (case r of
        Some e \<Rightarrow> State_Monad.return (Some (Wrap (''create '' @ d) e))
      | None \<Rightarrow> create_dirs s ds) }"

definition ensure_oss_structure :: "'w initializer \<Rightarrow> ('w, go_error option) state" where
  "ensure_oss_structure i = create_dirs (ini_oss i) oss_dirs"

definition register_admin :: "'w initializer \<Rightarrow> ('w, go_error option) state" where
  "register_admin i =
     use_state (mo_ensure_user (ini_matrix i)
         \<lparr>eu_username = ic_admin_user (ini_config i), eu_password = ic_admin_password (ini_config i)\<rparr>)
       (\<lambda>_. State_Monad.return None)"

section \<open>Gateway routes\<close>

definition parse_host_port :: "string \<Rightarrow> (string \<times> int) result" where
  "parse_host_port raw =
     try_result (parse_url raw) (\<lambda>u.
       if url_port u = [] then Inr (url_hostname u, if gu_scheme u = ''https'' then 443 else 80)
       else (case atoi (url_port u) of
               Some p \<Rightarrow> Inr (url_hostname u, p)
             | None \<Rightarrow> Inl (Wrap (''invalid port '' @ go_quote (url_port u))
                 (Err (''strconv.Atoi: parsing '' @ go_quote (url_port u) @ '': value out of range'')))))"

text \<open>An error of these steps is only logged.\<close>

definition logged :: "('w, go_error option) state \<Rightarrow> ('w, unit) state" where
  "logged f = do { _ \<leftarrow> f; State_Monad.return () }"

definition service_routes ::
  "'w gateway_infra \<Rightarrow> bool \<Rightarrow> string \<Rightarrow> string \<Rightarrow> string \<Rightarrow> int \<Rightarrow> string \<Rightarrow> ('w, unit) state" where
  "service_routes g embedded source route host port path = do {
     _ \<leftarrow> logged (if embedded then gi_ensure_static_source g source host port
                else gi_ensure_service_source g source host port ''http'');
     logged (gi_ensure_route g route [] (source @ (if embedded then ''.static'' else ''.dns'')) port path) }"

definition llm_request :: "string \<Rightarrow> string \<Rightarrow> string \<Rightarrow> (string \<times> json) list \<Rightarrow> ai_provider_request" where
  "llm_request name type key raw =
     \<lparr>apr_name = name, apr_type = type, apr_tokens = [key], apr_protocol = ''openai/v1'', apr_raw = Some raw\<rparr>"

definition qwen_raw :: "(string \<times> json) list" where
  "qwen_raw = [(''hiclawMode'', JBool True), (''qwenEnableSearch'', JBool False), (''qwenEnableCompatible'', JBool True),
     (''qwenFileIds'', JArr [])]"

text \<open>A provider of type \<open>openai\<close>, behind a service source of its own when a base URL is given.\<close>

definition openai_provider :: "'w initializer \<Rightarrow> 'w gateway_infra \<Rightarrow> string \<Rightarrow> ('w, unit) state" where
  "openai_provider i g provider =
     (let c = ini_config i; base = ic_openai_base_url c; key = ic_llm_api_key c in
      if base = [] then logged (gi_ensure_ai_provider g (llm_request provider ''openai'' key [(''hiclawMode'', JBool True)]))
      else case parse_host_port base of
        Inl e \<Rightarrow> State_Monad.return ()
      | Inr (host, port) \<Rightarrow> do {
          _ \<leftarrow> logged (gi_ensure_service_source g provider host port
                 (if has_prefix base ''http://'' then ''http'' else ''https''));
          _ \<leftarrow> ini_sleep i 2000;
          logged (gi_ensure_ai_provider g (llm_request provider ''openai'' key
            [(''hiclawMode'', JBool True), (''openaiCustomUrl'', JStr base),
             (''openaiCustomServiceName'', JStr (provider @ ''.dns'')), (''openaiCustomServicePort'', JNum port)])) })"

definition llm_provider :: "init_config \<Rightarrow> string" where
  "llm_provider c = (if ic_llm_provider c = [] then ''qwen'' else ic_llm_provider c)"

definition init_llm :: "'w initializer \<Rightarrow> 'w gateway_infra \<Rightarrow> ('w, unit) state" where
  "init_llm i g =
     (let c = ini_config i; provider = llm_provider c in do {
        _ \<leftarrow> logged (gi_ensure_idle_timeout g (if ic_stream_idle_timeout c \<le> 0 then 900 else ic_stream_idle_timeout c));
        _ \<leftarrow> (if provider = ''qwen''
             then logged (gi_ensure_ai_provider g (llm_request ''qwen'' ''qwen'' (ic_llm_api_key c) qwen_raw))
             else openai_provider i g provider);
        logged (gi_ensure_ai_route g
          \<lparr>arr_name = ''default-ai-route'', arr_path_prefix = ''/v1'', arr_provider = provider\<rparr>) })"

definition init_element :: "'w initializer \<Rightarrow> 'w gateway_infra \<Rightarrow> ('w, unit) state" where
  "init_element i g =
     (case parse_host_port (ic_element_web_url (ini_config i)) of
        Inl e \<Rightarrow> State_Monad.return ()
      | Inr (host, port) \<Rightarrow> service_routes g (ic_embedded (ini_config i)) ''element-web'' ''element-web'' host port ''/'')"

definition init_gateway_routes :: "'w initializer \<Rightarrow> 'w gateway_infra \<Rightarrow> ('w, go_error option) state" where
  "init_gateway_routes i g =
     (let c = ini_config i;
          rest = (do {
            _ \<leftarrow> (if ic_element_web_url c \<noteq> [] then init_element i g else State_Monad.return ());
            _ \<leftarrow> (if ic_llm_api_key c \<noteq> [] then init_llm i g else State_Monad.return ());
            _ \<leftarrow> logged (gi_delete_route g ''default'');
            State_Monad.return None })
      in if ic_tuwunel_url c = [] then rest
         else case parse_host_port (ic_tuwunel_url c) of
           Inl e \<Rightarrow> State_Monad.return (Some (Wrap ''parse Tuwunel URL'' e))
         | Inr (host, port) \<Rightarrow> do {
             _ \<leftarrow> service_routes g (ic_embedded c) ''tuwunel'' ''matrix-homeserver'' host port ''/_matrix'';
             rest })"

section \<open>The Manager resource\<close>

definition resource_values_json :: "agent_resource_values \<Rightarrow> json" where
  "resource_values_json v = JObj (put_text ''cpu'' (arv_cpu v) @ put_text ''memory'' (arv_memory v))"

definition agent_resources_json :: "agent_resource_requirements \<Rightarrow> json" where
  "agent_resources_json r =
     JObj [(''requests'', resource_values_json (arr_requests r)), (''limits'', resource_values_json (arr_limits r))]"

definition manager_object :: "init_config \<Rightarrow> json" where
  "manager_object c =
     JObj [(''apiVersion'', JStr api_version), (''kind'', JStr ''Manager''),
       (''metadata'', JObj ([(''name'', JStr ''default''), (''namespace'', JStr (ic_namespace c))] @
          (if ic_controller_name c = [] then []
           else [(''labels'', JObj [(''hiclaw.io/controller'', JStr (ic_controller_name c))])]))),
       (''spec'', JObj ([(''model'', JStr (ic_manager_model c)), (''runtime'', JStr (ic_manager_runtime c))] @
          put_text ''image'' (ic_manager_image c) @
          (case ic_manager_resources c of None \<Rightarrow> [] | Some r \<Rightarrow> [(''resources'', agent_resources_json r)])))]"

definition ensure_manager_cr :: "'w initializer \<Rightarrow> ('w, go_error option) state" where
  "ensure_manager_cr i =
     (let c = ini_config i in
      case ini_connect i of
        Some e \<Rightarrow> State_Monad.return (Some (Wrap ''create dynamic client'' e))
      | None \<Rightarrow> do {
          r \<leftarrow> ini_get_manager i (ic_namespace c) ''default'';
          (case r of
             None \<Rightarrow> State_Monad.return None
           | Some _ \<Rightarrow> wrap_error ''create Manager CR'' (ini_create_manager i (ic_namespace c) (manager_object c))) })"

section \<open>The bootstrap\<close>

definition migrator_of :: "'w initializer \<Rightarrow> 'w migrator" where
  "migrator_of i =
     (let c = ini_config i in
      (ini_migrator i)\<lparr>mgt_oss_get := so_get (ini_oss i), mgt_connect := ini_connect i, mgt_namespace := ic_namespace c,
        mgt_default_model := ic_manager_model c, mgt_manager_name := [], mgt_agent_fs_dir := ic_agent_fs_dir c\<rparr>)"

text \<open>A step that may fail or never end, before the rest.\<close>

definition step ::
  "string \<Rightarrow> ('w, go_error option option) state \<Rightarrow> ('w, go_error option option) state \<Rightarrow>
   ('w, go_error option option) state" where
  "step what f k = do {
     r \<leftarrow> f;
     (case r of
        None \<Rightarrow> State_Monad.return None
      | Some (Some e) \<Rightarrow> State_Monad.return (Some (Some (Wrap what e)))
      | Some None \<Rightarrow> k) }"

definition ends :: "('w, go_error option) state \<Rightarrow> ('w, go_error option option) state" where
  "ends f = do { r \<leftarrow> f; State_Monad.return (Some r) }"

definition init_gateway :: "'w initializer \<Rightarrow> ('w, go_error option option) state \<Rightarrow> ('w, go_error option option) state" where
  "init_gateway i rest =
     (case ini_gateway i of
        None \<Rightarrow> rest
      | Some g \<Rightarrow> step ''Gateway not ready'' (wait_for_gateway i g)
          (if manages_gateway_routes (ini_config i)
           then step ''Gateway route init failed'' (ends (init_gateway_routes i g)) rest else rest))"

definition init_resources :: "'w initializer \<Rightarrow> ('w, go_error option option) state" where
  "init_resources i =
     (let migrate = (if ic_embedded (ini_config i)
                     then do { _ \<leftarrow> run_migration (migrator_of i); State_Monad.return (Some None) }
                     else State_Monad.return (Some None))
      in if ic_manager_enabled (ini_config i)
         then step ''Manager CR creation failed'' (ends (ensure_manager_cr i)) migrate else migrate)"

definition run_initializer :: "'w initializer \<Rightarrow> ('w, go_error option option) state" where
  "run_initializer i =
     step ''OSS not ready'' (wait_for_oss i)
       (step ''OSS structure init failed'' (ends (ensure_oss_structure i))
         (step ''Matrix not ready'' (wait_for_matrix i)
           (step ''admin registration failed'' (ends (register_admin i))
             (init_gateway i (init_resources i)))))"

end
