(* ===== verification/App_Wiring.thy ===== *)
theory App_Wiring
  imports Config_Load Initializer Cred_Provider Manager_Controller Human_Controller Provisioner_Agents
    Auth_Middleware Team_Reconcile Api_Routes
begin

text \<open>
  \<open>internal/app/app.go\<close>: which components a configuration builds and with which parameters. The
  constructors are steps whose order and errors are kept; of a component the model keeps the choice
  and the configuration it is built with. The servers of the embedded mode are in \<open>Embedded_Server\<close>;
  the informers and the HTTP listener are left to parameters. \<open>cmd/controller/main.go\<close> stands at the end.
\<close>

section \<open>Infrastructure clients\<close>

datatype gateway_choice =
    Gateway_Higress higress_config
  | Gateway_Cloud ai_gateway_config issue_request

datatype storage_choice =
    Storage_Minio mc_config bool
  | Storage_Oss mc_config issue_request

text \<open>\<open>inf_credentials\<close> is the address of the credential provider, \<open>Storage_Minio\<close> carries whether there is an
  admin client.\<close>

record infra_clients =
  inf_matrix :: matrix_config
  inf_agents :: agent_config
  inf_skills_dir :: string
  inf_credentials :: "string option"
  inf_gateway :: gateway_choice
  inf_storage :: storage_choice

definition controller_request :: "string \<Rightarrow> string \<Rightarrow> issue_request" where
  "controller_request bucket gateway =
     \<lparr>ir_session_name = ''hiclaw-controller'', ir_duration_seconds = 0, ir_entries = controller_defaults bucket gateway\<rparr>"

definition gateway_id_of :: "config \<Rightarrow> string" where
  "gateway_id_of c = (if uses_ai_gateway c then cg_gateway_id (cf_providers c) else [])"

definition credentials_of :: "config \<Rightarrow> string option" where
  "credentials_of c = (let u = cg_credential_provider_url (cf_providers c) in if u = [] then None else Some u)"

text \<open>\<open>build\<close> is \<open>NewAIGatewayClient\<close> as far as it fails.\<close>

definition choose_gateway :: "(ai_gateway_config \<Rightarrow> go_error option) \<Rightarrow> config \<Rightarrow> gateway_choice result" where
  "choose_gateway build c =
     (if \<not> uses_ai_gateway c then Inr (Gateway_Higress (gateway_config_of c))
      else if credentials_of c = None
      then Inl (Err ''ai-gateway provider requires HICLAW_CREDENTIAL_PROVIDER_URL to be set'')
      else (case build (ai_gateway_config_of c) of
              Some e \<Rightarrow> Inl (Wrap ''create ai-gateway client'' e)
            | None \<Rightarrow> Inr (Gateway_Cloud (ai_gateway_config_of c)
                (controller_request (cg_oss_bucket (cf_providers c)) (cg_gateway_id (cf_providers c))))))"

definition choose_storage :: "environment \<Rightarrow> config \<Rightarrow> storage_choice result" where
  "choose_storage env c =
     (if \<not> uses_external_oss c then Inr (Storage_Minio (oss_config_of env c) (has_minio_admin c))
      else if credentials_of c = None
      then Inl (Err ''oss provider requires HICLAW_CREDENTIAL_PROVIDER_URL to be set'')
      else if oc_endpoint (oss_config_of env c) = []
      then Inl (Err (''oss provider requires HICLAW_FS_ENDPOINT to be set (endpoint is no longer '' @
             ''returned by the credential-provider sidecar)''))
      else Inr (Storage_Oss (oss_config_of env c)
             (controller_request (cg_oss_bucket (cf_providers c)) (gateway_id_of c))))"

definition init_infra_clients ::
  "(ai_gateway_config \<Rightarrow> go_error option) \<Rightarrow> environment \<Rightarrow> config \<Rightarrow> infra_clients result" where
  "init_infra_clients build env c =
     try_result (choose_gateway build c) (\<lambda>g.
     try_result (choose_storage env c) (\<lambda>s.
       Inr \<lparr>inf_matrix = cf_matrix c, inf_agents = agent_config_of env c, inf_skills_dir = cc_skills_dir (cf_core c),
         inf_credentials = credentials_of c, inf_gateway = g, inf_storage = s\<rparr>))"

text \<open>The credentials of the controller's own runs of the storage tool.\<close>

definition oss_controller_resolve :: "'w token_manager \<Rightarrow> ('w token_state, oss_credentials result) state" where
  "oss_controller_resolve m = try_state (current_token m) (\<lambda>t. State_Monad.return (Inr
     \<lparr>ok_access_key_id = ip_access_key_id t, ok_access_key_secret = ip_access_key_secret t,
      ok_security_token = ip_security_token t\<rparr>))"

section \<open>Backends\<close>

definition effective_worker_backend :: "config \<Rightarrow> string" where
  "effective_worker_backend c =
     (let b = cc_worker_backend (cf_core c) in
      if b = [] \<and> cc_kube_mode (cf_core c) = ''incluster'' then ''k8s'' else b)"

text \<open>\<open>docker\<close> and \<open>k8s\<close> are the constructors, of which the second may fail; the failure is only logged.\<close>

definition build_worker_backends ::
  "environment \<Rightarrow> (docker_config \<Rightarrow> string \<Rightarrow> 'w docker_backend) \<Rightarrow> (k8s_config \<Rightarrow> string \<Rightarrow> 'w k8s_backend result) \<Rightarrow>
   config \<Rightarrow> 'w any_backend list" where
  "build_worker_backends env docker k8s c =
     (let pfx = cc_container_prefix (cf_core c) in
      (if cc_kube_mode (cf_core c) = ''embedded'' then [Docker_Backend (docker (docker_config_of env c) pfx)] else []) @
      (if effective_worker_backend c = ''k8s''
       then (case k8s (k8s_config_of env c) pfx of Inl e \<Rightarrow> [] | Inr k \<Rightarrow> [K8s_Backend k])
       else []))"

section \<open>The controller manager\<close>

text \<open>What an in-cluster manager elects its leader by and which objects its caches hold: \<open>lo_namespaces\<close>
  is empty for all namespaces, \<open>lo_selector\<close> the labels of the cached resources.\<close>

record leader_options =
  lo_lease :: string
  lo_namespaces :: "string list"
  lo_election_namespace :: string
  lo_selector :: smap

definition in_cluster_options :: "config \<Rightarrow> leader_options result" where
  "in_cluster_options c =
     (let name = cc_controller_name (cf_core c); ns = ca_k8s_namespace (cf_agents c) in
      if name = [] then Inl (Err ''HICLAW_CONTROLLER_NAME is required in incluster mode'')
      else Inr \<lparr>lo_lease = name @ ''-leader'', lo_namespaces = (if ns \<noteq> [] then [ns] else []),
        lo_election_namespace = ns, lo_selector = [(''hiclaw.io/controller'', name)]\<rparr>)"

text \<open>\<open>start\<close> is what follows the options: the embedded servers or the connection to the cluster.\<close>

definition init_controller_manager ::
  "(leader_options option \<Rightarrow> go_error option) \<Rightarrow> config \<Rightarrow> leader_options option result" where
  "init_controller_manager start c =
     (if cc_kube_mode (cf_core c) = ''embedded''
      then (case start None of Some e \<Rightarrow> Inl e | None \<Rightarrow> Inr None)
      else try_result (in_cluster_options c) (\<lambda>o1.
        (case start (Some o1) of Some e \<Rightarrow> Inl (Wrap ''create controller manager'' e) | None \<Rightarrow> Inr (Some o1))))"

section \<open>Field indexers\<close>

definition unique_non_empty :: "string list \<Rightarrow> string list" where
  "unique_non_empty vs = fold (\<lambda>v out. if v = [] \<or> v \<in> set out then out else out @ [v]) vs []"

definition team_leader_index :: "team \<Rightarrow> string list" where
  "team_leader_index t =
     (let l = ts_leader (t_spec t) in unique_non_empty [ls_name l, ls_worker_name l])"

definition team_worker_index :: "team \<Rightarrow> string list" where
  "team_worker_index t = concat (map (\<lambda>w. unique_non_empty [tw_name w, tw_worker_name w]) (ts_workers (t_spec t)))"

text \<open>A list by field returns the teams whose index has the value.\<close>

definition indexed_teams :: "team list \<Rightarrow> string \<Rightarrow> string \<Rightarrow> team list result" where
  "indexed_teams teams field v =
     (if field = team_leader_name_field then Inr (filter (\<lambda>t. v \<in> set (team_leader_index t)) teams)
      else if field = team_worker_name_field then Inr (filter (\<lambda>t. v \<in> set (team_worker_index t)) teams)
      else Inl (Err ''no index''))"

section \<open>Services\<close>

datatype store_choice =
    Store_Secrets secret_store_config
  | Store_Files string

definition choose_credential_store :: "environment \<Rightarrow> config \<Rightarrow> bool \<Rightarrow> store_choice" where
  "choose_credential_store env c has_client =
     (if cc_kube_mode (cf_core c) = ''incluster'' \<and> has_client
      then Store_Secrets \<lparr>ssc_namespace = config_namespace c, ssc_controller_name = cc_controller_name (cf_core c),
             ssc_prefix = cc_resource_prefix (cf_core c)\<rparr>
      else Store_Files (creds_dir env))"

text \<open>The token service exists where there is a credential provider.\<close>

definition sts_resolver_of :: "config \<Rightarrow> resolver option" where
  "sts_resolver_of c = map_option (\<lambda>_. new_resolver (config_namespace c) (cg_oss_bucket (cf_providers c)) (gateway_id_of c)
     (cc_resource_prefix (cf_core c))) (credentials_of c)"

text \<open>The configuration's part of the provisioner; the clients come from \<open>p\<close>.\<close>

definition provisioner_of :: "config \<Rightarrow> 'w provisioner \<Rightarrow> 'w provisioner" where
  "provisioner_of c p = p
     \<lparr>pv_namespace := config_namespace c, pv_auth_audience := cc_auth_audience (cf_core c),
      pv_matrix_domain := mcf_domain (cf_matrix c), pv_admin_user := mcf_admin_user (cf_matrix c),
      pv_prefix := cc_resource_prefix (cf_core c), pv_controller_name := cc_controller_name (cf_core c),
      pv_manager_password := ca_manager_password (cf_agents c),
      pv_manager_gateway_key := ca_manager_gateway_key (cf_agents c),
      pv_manager_enabled := ca_manager_enabled (cf_agents c)\<rparr>"

definition legacy_fs_dir :: "environment \<Rightarrow> config \<Rightarrow> string" where
  "legacy_fs_dir env c = (if cc_kube_mode (cf_core c) = ''embedded'' then agent_fs_dir env else [])"

definition embedded_manager :: "environment \<Rightarrow> config \<Rightarrow> manager_embedded_config option" where
  "embedded_manager env c =
     (if cc_kube_mode (cf_core c) \<noteq> ''embedded'' then None
      else Some \<lparr>mec_workspace_dir = ca_workspace_dir (cf_agents c), mec_host_share_dir = ca_host_share_dir (cf_agents c),
             mec_extra_env = manager_agent_env env c, mec_console_port = ca_console_port (cf_agents c)\<rparr>)"

definition manager_reconciler_of :: "environment \<Rightarrow> config \<Rightarrow> 'w manager_reconciler \<Rightarrow> 'w manager_reconciler" where
  "manager_reconciler_of env c r = r
     \<lparr>mr_env_build := build_manager_env (cf_worker_env c), mr_resources := Some (manager_resources c),
      mr_prefix := cc_resource_prefix (cf_core c), mr_embedded := embedded_manager env c,
      mr_default_runtime := ca_manager_runtime (cf_agents c), mr_controller_name := cc_controller_name (cf_core c),
      mr_user_language := cc_user_language (cf_core c), mr_user_timezone := cc_user_timezone (cf_core c)\<rparr>"

text \<open>Every reconciler and the HTTP server get the prefix, the controller name and the runtime of the one
  configuration; the clients come with the argument.\<close>

definition member_deps_of :: "config \<Rightarrow> 'w member_deps \<Rightarrow> 'w member_deps" where
  "member_deps_of c d = d
     \<lparr>md_env_build := build_worker_env (cf_worker_env c), md_resource_prefix := cc_resource_prefix (cf_core c),
      md_default_runtime := ca_default_worker_runtime (cf_agents c)\<rparr>"

definition worker_reconciler_of :: "config \<Rightarrow> 'w worker_reconciler \<Rightarrow> 'w worker_reconciler" where
  "worker_reconciler_of c r = r
     \<lparr>wr_deps := member_deps_of c (wr_deps r), wr_controller_name := cc_controller_name (cf_core c)\<rparr>"

definition team_reconciler_of :: "environment \<Rightarrow> config \<Rightarrow> 'w team_reconciler \<Rightarrow> 'w team_reconciler" where
  "team_reconciler_of env c r = r
     \<lparr>tr_deps := member_deps_of c (tr_deps r), tr_agent_fs_dir := agent_fs_dir env,
      tr_controller_name := cc_controller_name (cf_core c)\<rparr>"

definition deployer_of :: "environment \<Rightarrow> config \<Rightarrow> 'w deployer \<Rightarrow> 'w deployer" where
  "deployer_of env c d = d
     \<lparr>dp_agent_fs_dir := agent_fs_dir env, dp_worker_agent_dir := worker_agent_dir env,
      dp_matrix_domain := mcf_domain (cf_matrix c)\<rparr>"

definition server_deps_of :: "config \<Rightarrow> 'w server_deps \<Rightarrow> 'w server_deps" where
  "server_deps_of c d = d
     \<lparr>sd_kube_mode := cc_kube_mode (cf_core c), sd_namespace := config_namespace c,
      sd_controller_name := cc_controller_name (cf_core c), sd_socket_path := cc_socket_path (cf_core c)\<rparr>"

text \<open>\<open>registered\<close> is \<open>SetupWithManager\<close> of a reconciler.\<close>

definition init_reconcilers :: "(string \<Rightarrow> go_error option) \<Rightarrow> go_error option" where
  "init_reconcilers registered =
     (case List.find (\<lambda>n. registered n \<noteq> None) [''Worker'', ''Team'', ''Human'', ''Manager''] of
        None \<Rightarrow> None
      | Some n \<Rightarrow> map_option (Wrap (''setup '' @ n @ ''Reconciler'')) (registered n))"

text \<open>Without a connection to the cluster there is no authentication; \<open>connect\<close> is \<open>kubernetes.NewForConfig\<close>.\<close>

definition init_auth :: "go_error option option \<Rightarrow> config \<Rightarrow> 'k authenticator option result" where
  "init_auth connect c =
     (case connect of
        None \<Rightarrow> Inr None
      | Some (Some e) \<Rightarrow> Inl (Wrap ''create kubernetes client'' e)
      | Some None \<Rightarrow> Inr (Some (new_authenticator (cc_auth_audience (cf_core c)) (cc_resource_prefix (cf_core c)))))"

section \<open>The start\<close>

definition init_config_of :: "environment \<Rightarrow> config \<Rightarrow> init_config" where
  "init_config_of env c =
     \<lparr>ic_manager_enabled = ca_manager_enabled (cf_agents c), ic_manager_model = ca_manager_model (cf_agents c),
      ic_manager_runtime = ca_manager_runtime (cf_agents c), ic_manager_image = ca_manager_image (cf_agents c),
      ic_manager_resources = ca_manager_spec_resources (cf_agents c),
      ic_admin_user = mcf_admin_user (cf_matrix c), ic_admin_password = mcf_admin_password (cf_matrix c),
      ic_namespace = config_namespace c, ic_embedded = (cc_kube_mode (cf_core c) = ''embedded''),
      ic_agent_fs_dir = agent_fs_dir env, ic_controller_name = cc_controller_name (cf_core c),
      ic_gateway_provider = cg_gateway_provider (cf_providers c), ic_storage_provider = cg_storage_provider (cf_providers c),
      ic_llm_provider = cm_llm_provider (cf_models c), ic_llm_api_key = cm_llm_api_key (cf_models c),
      ic_openai_base_url = cm_openai_base_url (cf_models c), ic_stream_idle_timeout = cm_stream_idle_timeout (cf_models c),
      ic_tuwunel_url = mcf_server_url (cf_matrix c), ic_element_web_url = cm_element_web_url (cf_models c)\<rparr>"

definition admin_cli_token_path :: string where
  "admin_cli_token_path = ''/var/run/hiclaw/cli-token''"

definition bootstrap_admin_cli_token :: "'w file_ops \<Rightarrow> 'w provisioner option \<Rightarrow> ('w, go_error option) state" where
  "bootstrap_admin_cli_token fo prov =
     (case prov of
        None \<Rightarrow> State_Monad.return None
      | Some p \<Rightarrow> then_step (wrap_error ''ensure admin SA'' (ensure_admin_service_account p)) (do {
          (token, e) \<leftarrow> request_admin_sa_token p;
          (case e of
             Some err \<Rightarrow> State_Monad.return (Some (Wrap ''mint admin SA token'' err))
           | None \<Rightarrow>
               if token = [] then State_Monad.return None
               else then_step (wrap_error ''mkdir /var/run/hiclaw'' (fo_mkdir_all fo (path_dir admin_cli_token_path)))
                 (wrap_error (''write '' @ admin_cli_token_path)
                    (fo_write fo admin_cli_token_path (token @ [CHR 0x0A])))) }))"

text \<open>What runs once the process is the leader; errors are only logged.\<close>

definition on_elected ::
  "'w initializer \<Rightarrow> 'w file_ops \<Rightarrow> 'w provisioner option \<Rightarrow> config \<Rightarrow> ('w, unit option) state" where
  "on_elected i fo prov c = do {
     r \<leftarrow> run_initializer i;
     (case r of
        None \<Rightarrow> State_Monad.return None
      | Some _ \<Rightarrow> do {
          _ \<leftarrow> (if cc_kube_mode (cf_core c) = ''embedded'' then bootstrap_admin_cli_token fo prov
               else State_Monad.return None);
          State_Monad.return (Some ()) }) }"

text \<open>The application: the steps of \<open>New\<close> in order, the first error ends it under the name of its step.
  \<open>ext\<close> are the steps whose outcome lies outside: the scheme, the indexers, the clients.\<close>

record application =
  ap_infra :: infra_clients
  ap_leader :: "leader_options option"
  ap_namespace :: string

definition named :: "string \<Rightarrow> 'a result \<Rightarrow> 'a result" where
  "named stage r = map_sum (Wrap stage) id r"

definition outside :: "(string \<Rightarrow> go_error option) \<Rightarrow> string \<Rightarrow> 'a result \<Rightarrow> 'a result" where
  "outside ext stage k = (case ext stage of Some e \<Rightarrow> Inl (Wrap stage e) | None \<Rightarrow> k)"

definition new_app ::
  "(string \<Rightarrow> go_error option) \<Rightarrow> (ai_gateway_config \<Rightarrow> go_error option) \<Rightarrow> (leader_options option \<Rightarrow> go_error option) \<Rightarrow>
   environment \<Rightarrow> config \<Rightarrow> application result" where
  "new_app ext build start env c =
     outside ext ''scheme'' (
     try_result (named ''infra-clients'' (init_infra_clients build env c)) (\<lambda>infra.
     try_result (named ''controller-manager'' (init_controller_manager start c)) (\<lambda>leader.
     outside ext ''field-indexers'' (outside ext ''auth'' (outside ext ''service-layer'' (outside ext ''reconcilers'' (
     outside ext ''http-server'' (
       Inr \<lparr>ap_infra = infra, ap_leader = leader, ap_namespace = config_namespace c\<rparr>))))))))"

section \<open>The end\<close>

text \<open>\<open>Stop\<close>: the server is shut down if there is one, then the background work is awaited.\<close>

definition app_stop :: "('w, go_error option) state option \<Rightarrow> ('w, unit) state \<Rightarrow> ('w, go_error option) state" where
  "app_stop shutdown drained = do {
     e \<leftarrow> (case shutdown of None \<Rightarrow> State_Monad.return None | Some stop \<Rightarrow> stop);
     _ \<leftarrow> drained;
     State_Monad.return e }"

text \<open>\<open>main\<close> of \<open>cmd/controller\<close>: what is printed, by stream, and the exit code.\<close>

datatype controller_print =
    Printed string
  | Complained string

definition controller_main ::
  "application result \<Rightarrow> ('w, go_error option) state \<Rightarrow> ('w, go_error option) state \<Rightarrow>
   (controller_print \<Rightarrow> ('w, unit) state) \<Rightarrow> ('w, nat) state" where
  "controller_main app start stop print =
     (case app of
        Inl e \<Rightarrow> do { _ \<leftarrow> print (Complained (''failed to initialize: '' @ err_text e)); State_Monad.return 1 }
      | Inr _ \<Rightarrow> do {
          _ \<leftarrow> print (Printed ''hiclaw-controller is running. Press Ctrl+C to stop.'');
          started \<leftarrow> start;
          stopped \<leftarrow> stop;
          _ \<leftarrow> (case stopped of None \<Rightarrow> State_Monad.return ()
               | Some e \<Rightarrow> print (Complained (''graceful shutdown error: '' @ err_text e)));
          (case started of
             None \<Rightarrow> State_Monad.return 0
           | Some e \<Rightarrow> do {
               _ \<leftarrow> print (Complained (''controller exited with error: '' @ err_text e));
               State_Monad.return 1 }) })"

end
