(* ===== verification/App_Properties.thy ===== *)
theory App_Properties
  imports App_Wiring Proxy_Security
begin

text \<open>
  What a start demands of the configuration, and how the parts that are wired together fit: the Manager
  the bootstrap creates is one the controller sees, and the team indexers serve the enrichment of
  callers under either name of a member.
\<close>

section \<open>Starting\<close>

lemma named_Inr: "named stage r = Inr x \<longleftrightarrow> r = Inr x"
  by (simp add: named_def)

lemma outside_Inr: "outside ext stage k = Inr x \<longleftrightarrow> ext stage = None \<and> k = Inr x"
  by (simp add: outside_def split: option.splits)

lemma choose_gateway_Inr:
  "(\<exists>g. choose_gateway build c = Inr g) \<longleftrightarrow>
     (uses_ai_gateway c \<longrightarrow> credentials_of c \<noteq> None \<and> build (ai_gateway_config_of c) = None)"
  by (auto simp: choose_gateway_def split: option.splits)

lemma choose_storage_Inr:
  "(\<exists>s. choose_storage env c = Inr s) \<longleftrightarrow>
     (uses_external_oss c \<longrightarrow> credentials_of c \<noteq> None \<and> oc_endpoint (oss_config_of env c) \<noteq> [])"
  by (auto simp: choose_storage_def)

text \<open>What the configuration must have for a start.\<close>

definition startable :: "environment \<Rightarrow> config \<Rightarrow> bool" where
  "startable env c \<longleftrightarrow>
     ((uses_ai_gateway c \<or> uses_external_oss c) \<longrightarrow> cg_credential_provider_url (cf_providers c) \<noteq> []) \<and>
     (uses_external_oss c \<longrightarrow> oc_endpoint (oss_config_of env c) \<noteq> []) \<and>
     (cc_kube_mode (cf_core c) \<noteq> ''embedded'' \<longrightarrow> cc_controller_name (cf_core c) \<noteq> [])"

definition manager_labels :: "json \<Rightarrow> smap" where
  "manager_labels d =
     (case document_map (RawJson d) of
        None \<Rightarrow> []
      | Some kvs \<Rightarrow>
          (case json_get kvs ''metadata'' of
             JObj meta \<Rightarrow>
               (case json_get meta ''labels'' of
                  JObj ls \<Rightarrow> map (\<lambda>(k, v). (k, case v of JStr s \<Rightarrow> s | _ \<Rightarrow> [])) ls
                | _ \<Rightarrow> [])
           | _ \<Rightarrow> []))"

lemma manager_object_labels:
  "ic_controller_name c \<noteq> [] \<Longrightarrow> manager_labels (manager_object c) = [(''hiclaw.io/controller'', ic_controller_name c)]"
  by (simp add: manager_labels_def manager_object_def document_map_def json_get_def)


text \<open>Two environments: one of a cluster installation with a name, one without.\<close>

definition cluster_env :: "string \<Rightarrow> environment" where
  "cluster_env name k =
     (if k = ''HICLAW_KUBE_MODE'' then ''incluster'' else if k = ''HICLAW_CONTROLLER_NAME'' then name else [])"

definition cluster_config :: "string \<Rightarrow> config" where
  "cluster_config name = projr (load_config (\<lambda>d. Inl (Err ''malformed'')) (cluster_env name) None)"

lemma cluster_config_parts:
  "cc_kube_mode (cf_core (cluster_config name)) = ''incluster''" "cc_controller_name (cf_core (cluster_config name)) = name"
  "uses_ai_gateway (cluster_config name) = False" "uses_external_oss (cluster_config name) = False"
  by (simp_all add: cluster_config_def load_config_def cluster_env_def load_core_def load_providers_def env_or_default_def
      uses_ai_gateway_def uses_external_oss_def Let_def)


text \<open>Without a namespace in the environment the resources and the pods part: the ServiceAccounts are
  made in \<open>default\<close>, the pods where the controller runs.\<close>

lemma namespaces_part:
  assumes "ca_k8s_namespace (cf_agents c) = []" "trim_space (getenv ''HICLAW_K8S_NAMESPACE'') = []"
  shows "pv_namespace (provisioner_of c p) = ''default'' \<and>
    kf_namespace (kb_config (new_k8s_backend_with_client client (k8s_config_of env c) pfx scheme getenv (Some d) pq pt)) = trim_space d"
  using assms
  by (simp add: provisioner_of_def config_namespace_def new_k8s_backend_with_client_def k8s_config_of_def Let_def
      detect_k8s_namespace_def)

section \<open>Team members as callers\<close>

lemma set_unique_non_empty: "set (unique_non_empty vs) = set vs - {[]}"
proof -
  have "set (fold (\<lambda>v out. if v = [] \<or> v \<in> set out then out else out @ [v]) vs out) = set out \<union> (set vs - {[]})" for out
    by (induction vs arbitrary: out) auto
  then show ?thesis by (simp add: unique_non_empty_def)
qed

lemma set_indexes:
  "v \<in> set (team_leader_index t) \<longleftrightarrow> v \<noteq> [] \<and> (v = ls_name (ts_leader (t_spec t)) \<or> v = ls_worker_name (ts_leader (t_spec t)))"
  "v \<in> set (team_worker_index t) \<longleftrightarrow>
     v \<noteq> [] \<and> (\<exists>w \<in> set (ts_workers (t_spec t)). v = tw_name w \<or> v = tw_worker_name w)"
  by (auto simp: team_leader_index_def team_worker_index_def set_unique_non_empty Let_def)

text \<open>\<open>names u w\<close>: the caller \<open>u\<close> is the team worker \<open>w\<close>, by its name or by its runtime name.\<close>

definition names :: "string \<Rightarrow> team_worker_spec \<Rightarrow> bool" where
  "names u w \<longleftrightarrow> u \<noteq> [] \<and> (u = tw_name w \<or> u = tw_worker_name w)"

lemma only_in:
  assumes "t \<in> set ts" "P t" "\<And>t'. t' \<in> set ts \<Longrightarrow> P t' \<Longrightarrow> t' = t"
  shows "\<exists>r. filter P ts = t # r"
proof -
  have "filter P ts \<noteq> []" using assms(1,2) by (auto simp: filter_empty_conv)
  then obtain x r where "filter P ts = x # r" by (cases "filter P ts") auto
  moreover from this have "x \<in> {y \<in> set ts. P y}" by (metis list.set_intros(1) set_filter)
  ultimately show ?thesis using assms(3) by auto
qed

text \<open>A team worker that calls the API under its name or under its runtime name is recognized either way: with the
  indexers the application registers, the enricher gives the caller its team and its runtime name,
  unless the name is a resource of its own or also names a leader, and as long as no other member has
  it. The role stays that of a worker.\<close>

theorem team_worker_recognized:
  assumes "t \<in> set teams" "w \<in> set (ts_workers (t_spec t))" "names (ci_username i) w"
    and "\<And>t' w'. t' \<in> set teams \<Longrightarrow> w' \<in> set (ts_workers (t_spec t')) \<Longrightarrow> names (ci_username i) w' \<Longrightarrow> t' = t \<and> w' = w"
    and "\<And>t'. t' \<in> set teams \<Longrightarrow> ci_username i \<notin> set (team_leader_index t')"
    and "find_worker (ci_username i) = Inl e" "is_api_not_found e"
    and "ci_role i = role_worker" "ci_worker_name i = ci_username i"
  shows "enrich_identity find_worker (indexed_teams teams) (Some i) =
    (None, Some (i\<lparr>ci_team := om_name (t_meta t), ci_worker_name := team_worker_effective_name w\<rparr>))"
proof -
  let ?u = "ci_username i"
  have "filter (\<lambda>t. ?u \<in> set (team_leader_index t)) teams = []"
    using assms(5) by (simp add: filter_empty_conv)
  then have leader: "lookup_team_by_field (indexed_teams teams) team_leader_name_field ?u = Inr None"
    by (simp add: lookup_team_by_field_def indexed_teams_def)
  have "?u \<in> set (team_worker_index t)"
    using assms(2,3) by (auto simp: set_indexes names_def)
  moreover have "t' = t" if "t' \<in> set teams" "?u \<in> set (team_worker_index t')" for t'
    using that assms(4) by (fastforce simp: set_indexes names_def)
  ultimately obtain r where "filter (\<lambda>t. ?u \<in> set (team_worker_index t)) teams = t # r"
    using only_in [of t teams "\<lambda>t. ?u \<in> set (team_worker_index t)"] assms(1) by blast
  then have worker: "lookup_team_by_field (indexed_teams teams) team_worker_name_field ?u = Inr (Some t)"
    by (simp add: lookup_team_by_field_def indexed_teams_def team_leader_name_field_def team_worker_name_field_def)
  have found: "(case List.find (\<lambda>w. tw_name w = ?u) (ts_workers (t_spec t)) of
        Some w \<Rightarrow> i\<lparr>ci_team := om_name (t_meta t), ci_worker_name := team_worker_effective_name w\<rparr>
      | None \<Rightarrow> i\<lparr>ci_team := om_name (t_meta t)\<rparr>) =
      i\<lparr>ci_team := om_name (t_meta t), ci_worker_name := team_worker_effective_name w\<rparr>"
  proof (cases "List.find (\<lambda>w. tw_name w = ?u) (ts_workers (t_spec t))")
    case None
    then have "tw_name w \<noteq> ?u" using assms(2) by (auto simp: find_None_iff)
    then have "team_worker_effective_name w = ?u"
      using assms(3) by (auto simp: names_def team_worker_effective_name_def)
    then show ?thesis using None assms(9) by (cases i) simp
  next
    case (Some v)
    then have "v \<in> set (ts_workers (t_spec t))" "names ?u v"
      using assms(3) by (auto simp: find_Some_iff names_def)
    then have "v = w" using assms(1,4) by blast
    then show ?thesis using Some by simp
  qed
  have role: "ci_role i \<noteq> role_admin" "ci_role i \<noteq> role_manager" using assms(8) by (simp_all add: role_defs)
  show ?thesis
    by (simp add: enrich_identity_def role assms(6,7) leader worker found)
qed

definition dev_worker :: team_worker_spec where
  "dev_worker = zero_team_worker\<lparr>tw_name := ''dev'', tw_worker_name := ''blue-dev''\<rparr>"

definition two_names_team :: team where
  "two_names_team = zero_team\<lparr>t_meta := zero_meta\<lparr>om_name := ''blue''\<rparr>,
     t_spec := (t_spec zero_team)\<lparr>ts_leader := (ts_leader (t_spec zero_team))\<lparr>ls_name := ''lea''\<rparr>,
       ts_workers := [dev_worker]\<rparr>\<rparr>"

definition dev_caller :: caller_identity where
  "dev_caller = \<lparr>ci_role = role_worker, ci_username = ''blue-dev'', ci_team = [], ci_worker_name = ''blue-dev''\<rparr>"

lemma team_worker_recognized_witness:
  "enrich_identity (\<lambda>n. Inl ApiNotFound) (indexed_teams [two_names_team]) (Some dev_caller) =
     (None, Some (dev_caller\<lparr>ci_team := ''blue'', ci_worker_name := ''blue-dev''\<rparr>))"
proof -
  have workers: "ts_workers (t_spec two_names_team) = [dev_worker]" "om_name (t_meta two_names_team) = ''blue''"
    by (simp_all add: two_names_team_def)
  have w: "team_worker_effective_name dev_worker = ''blue-dev''" by code_simp
  have "enrich_identity (\<lambda>n. Inl ApiNotFound) (indexed_teams [two_names_team]) (Some dev_caller) =
      (None, Some (dev_caller\<lparr>ci_team := om_name (t_meta two_names_team),
         ci_worker_name := team_worker_effective_name dev_worker\<rparr>))"
  proof (rule team_worker_recognized)
    show "two_names_team \<in> set [two_names_team]" "dev_worker \<in> set (ts_workers (t_spec two_names_team))"
      by (simp_all add: workers)
    show "names (ci_username dev_caller) dev_worker" by (simp add: names_def dev_caller_def dev_worker_def)
    show "t' = two_names_team \<and> w' = dev_worker"
      if "t' \<in> set [two_names_team]" "w' \<in> set (ts_workers (t_spec t'))" for t' w'
      using that workers by simp
    show "ci_username dev_caller \<notin> set (team_leader_index t')" if "t' \<in> set [two_names_team]" for t'
    proof -
      have "ci_username dev_caller \<notin> set (team_leader_index two_names_team)" by code_simp
      then show ?thesis using that by simp
    qed
    show "is_api_not_found ApiNotFound" by code_simp
  qed (simp_all add: dev_caller_def)
  then show ?thesis by (simp only: workers w)
qed

section \<open>Tokens of agents\<close>

text \<open>C40. What the provisioner issues the controller accepts: a token it requests for the ServiceAccount of a worker
  is authenticated as this worker by the authenticator the same configuration builds, whatever its
  prefix and audience (given or default), and whichever cluster answers the request and the review, as
  long as its review of a token it issued for an audience names the account of the token.\<close>

theorem issued_tokens_accepted:
  assumes "\<And>name aud secs w t v. run_state (sv_token api name aud secs) w = (Inr t, v) \<Longrightarrow> t \<noteq> [] \<and>
      review t [aud] = Inr \<lparr>rv_authenticated = True, rv_error = [], rv_username = sa_user_prefix @ ns @ [colon] @ name\<rparr>"
    and "colon \<notin> set ns" "pv_accounts p = Some api" "init_auth connect c = Inr (Some a)"
    and "run_state (request_sa_token (provisioner_of c p) worker) w = ((t, None), v)"
  shows "fst (authenticate sha review clock t a) =
    Inr \<lparr>ci_role = role_worker, ci_username = worker, ci_team = [], ci_worker_name = worker\<rparr>"
proof -
  let ?pfx = "cc_resource_prefix (cf_core c)" and ?aud = "cc_auth_audience (cf_core c)"
  have a: "a = new_authenticator ?aud ?pfx" using assms(4) by (auto simp: init_auth_def split: option.splits)
  have "run_state (sv_token api (sa_name ?pfx role_worker worker) (au_audience a) sa_token_seconds) w = (Inr t, v)"
    using assms(3,5) by (auto simp: request_sa_token_def request_token_def provisioner_of_def a new_authenticator_def
        split: prod.splits sum.splits if_splits)
  note issued = assms(1) [OF this]
  have same: "effective_prefix (au_prefix a) = effective_prefix ?pfx"
    by (simp add: a new_authenticator_def prefix_or_def effective_prefix_def default_resource_prefix_def)
  have "parse_sa_username (au_prefix a) (sa_user_prefix @ ns @ [colon] @ sa_name ?pfx role_worker worker) =
      parse_sa_username (au_prefix a) (sa_user_prefix @ ns @ [colon] @ sa_name (au_prefix a) role_worker worker)"
    by (simp add: sa_name_def prefix_name_defs same)
  then show ?thesis using issued sa_username_roundtrip [OF assms(2), of "au_prefix a" role_worker worker]
    by (cases clock) (simp add: authenticate_def Let_def get_from_cache_def a new_authenticator_def role_defs)
qed

definition minting_accounts :: "unit service_accounts" where
  "minting_accounts =
     \<lparr>sv_get = \<lambda>n. State_Monad.return None, sv_create = \<lambda>x. State_Monad.return None, sv_delete = \<lambda>n. State_Monad.return None,
      sv_token = \<lambda>n aud secs. State_Monad.return (Inr (''minted:'' @ n))\<rparr>"

definition minted_review :: "string \<Rightarrow> string list \<Rightarrow> review_status result" where
  "minted_review t auds =
     Inr \<lparr>rv_authenticated = True, rv_error = [], rv_username = sa_user_prefix @ ''default'' @ [colon] @ drop 7 t\<rparr>"

lemma issued_tokens_accepted_witness:
  "\<forall>p. \<exists>t. run_state (request_sa_token (provisioner_of (cluster_config ''c1'') (p\<lparr>pv_accounts := Some minting_accounts\<rparr>)) ''bob'') () =
      ((t, None), ()) \<and>
    fst (authenticate id minted_review (0, 0, 0) t (the (projr (init_auth (Some None) (cluster_config ''c1''))))) =
    Inr \<lparr>ci_role = role_worker, ci_username = ''bob'', ci_team = [], ci_worker_name = ''bob''\<rparr>"
proof
  fix p :: "unit provisioner"
  let ?p = "p\<lparr>pv_accounts := Some minting_accounts\<rparr>"
  have laws: "t \<noteq> [] \<and> minted_review t [aud] =
      Inr \<lparr>rv_authenticated = True, rv_error = [], rv_username = sa_user_prefix @ ''default'' @ [colon] @ name\<rparr>"
    if "run_state (sv_token minting_accounts name aud secs) w = (Inr t, v)" for name aud secs w t v
    using that by (auto simp: minting_accounts_def minted_review_def)
  have ns: "colon \<notin> set ''default''" by (simp add: colon_def)
  have run: "run_state (request_sa_token (provisioner_of (cluster_config ''c1'') ?p) ''bob'') () =
      ((''minted:'' @ sa_name (cc_resource_prefix (cf_core (cluster_config ''c1''))) role_worker ''bob'', None), ())"
    by (simp add: request_sa_token_def request_token_def provisioner_of_def minting_accounts_def)
  have auth: "(init_auth (Some None) (cluster_config ''c1'') :: string authenticator option result) = Inr (Some (new_authenticator
      (cc_auth_audience (cf_core (cluster_config ''c1''))) (cc_resource_prefix (cf_core (cluster_config ''c1'')))))"
    by (simp add: init_auth_def)
  let ?t = "''minted:'' @ sa_name (cc_resource_prefix (cf_core (cluster_config ''c1''))) role_worker ''bob''"
  let ?a = "new_authenticator (cc_auth_audience (cf_core (cluster_config ''c1''))) (cc_resource_prefix (cf_core (cluster_config ''c1'')))"
  have "fst (authenticate id minted_review (0, 0, 0) ?t ?a) =
      Inr \<lparr>ci_role = role_worker, ci_username = ''bob'', ci_team = [], ci_worker_name = ''bob''\<rparr>"
  proof (rule issued_tokens_accepted [where api = minting_accounts and ns = "''default''" and p = ?p, OF _ ns _ auth run])
    show "pv_accounts ?p = Some minting_accounts" by simp
  qed (rule laws)
  then show "\<exists>t. run_state (request_sa_token (provisioner_of (cluster_config ''c1'') ?p) ''bob'') () = ((t, None), ()) \<and>
      fst (authenticate id minted_review (0, 0, 0) t (the (projr (init_auth (Some None) (cluster_config ''c1''))))) =
      Inr \<lparr>ci_role = role_worker, ci_username = ''bob'', ci_team = [], ci_worker_name = ''bob''\<rparr>"
    using run auth by (intro exI [of _ ?t]) (simp del: append.simps)
qed

section \<open>One environment\<close>

text \<open>
  What the components derive from one environment, compared: the controller and the security
  validator of the container proxy agree on the name prefix of worker containers, and the
  Manager's container is told the same runtime in every mode.
\<close>

section \<open>Names\<close>

text \<open>The controller and the container proxy, which read the environment each on its own, derive the same
  prefix of worker containers, so that the proxy admits the containers the controller creates. Unless
  it is given, this is the prefix of the workers' ServiceAccounts; with automatic prefixes off it is
  empty, but the ServiceAccounts (and the app labels and session names) keep the \<open>hiclaw-\<close> default.\<close>

theorem container_prefix_agrees:
  assumes "load_config decode env cwd = Inr c"
  shows "sv_container_prefix (new_security_validator env) = cc_container_prefix (cf_core c) \<and>
    cc_container_prefix (cf_core c) =
      (if env ''HICLAW_PROXY_CONTAINER_PREFIX'' \<noteq> [] then env ''HICLAW_PROXY_CONTAINER_PREFIX''
       else if cc_resource_auto_prefix (cf_core c) then worker_name_prefix (cc_resource_prefix (cf_core c))
       else []) \<and>
    worker_name_prefix (cc_resource_prefix (cf_core c)) =
      (if cc_resource_auto_prefix (cf_core c) \<and> env ''HICLAW_RESOURCE_PREFIX'' \<noteq> []
       then env ''HICLAW_RESOURCE_PREFIX'' @ ''worker-'' else ''hiclaw-worker-'')"
proof -
  have core: "cf_core c = load_core env cwd"
    using assms by (auto simp: load_config_def Let_def split: if_splits sum.splits)
  have truthy: "truthy v = true_word v" for v by (simp add: truthy_def true_word_def)
  show ?thesis
    by (simp add: core load_core_def new_security_validator_def Let_def env_bool_default_def truthy env_or_default_def
        worker_name_prefix_def effective_prefix_def default_resource_prefix_def)
qed

definition example_env :: environment where
  "example_env k =
     (if k = ''HICLAW_RESOURCE_AUTOPREFIX'' then ''false''
      else if k = ''HICLAW_KUBE_MODE'' then ''embedded'' else [])"

definition no_spec :: "string \<Rightarrow> manager_spec_env result" where
  "no_spec d = Inl (Err ''malformed'')"

definition example_loaded :: config where
  "example_loaded = projr (load_config no_spec example_env None)"

lemma example_loaded: "load_config no_spec example_env None = Inr example_loaded"
  by (simp add: example_loaded_def load_config_def example_env_def Let_def)

lemma container_prefix_agrees_witness:
  "sv_container_prefix (new_security_validator example_env) = [] \<and>
     worker_name_prefix (cc_resource_prefix (cf_core example_loaded)) = ''hiclaw-worker-''"
proof -
  have "env_bool_default example_env ''HICLAW_RESOURCE_AUTOPREFIX'' True = False" by code_simp
  then have "\<not> cc_resource_auto_prefix (cf_core example_loaded)"
    by (simp add: example_loaded_def load_config_def example_env_def Let_def load_core_def)
  moreover have "example_env ''HICLAW_PROXY_CONTAINER_PREFIX'' = []" by code_simp
  ultimately show ?thesis
    using container_prefix_agrees [OF example_loaded] by simp
qed

section \<open>The runtime of the Manager\<close>

text \<open>Whatever the environment, the runtime the Manager's container is told is \<open>k8s\<close>, also where the
  controller runs embedded on Docker: the loaded worker environment never has a runtime, and the
  extra environment of the embedded Manager has no such key.\<close>

theorem manager_runtime_always_k8s:
  assumes "load_config decode env cwd = Inr c"
  shows "map_of (build_manager_env (cf_worker_env c) name prov spec) ''HICLAW_RUNTIME'' = Some ''k8s'' \<and>
    map_of (manager_agent_env env c) ''HICLAW_RUNTIME'' = None"
proof -
  have "wd_runtime (reachable_worker_env mode (load_worker_env env)) = []" for mode
    by (simp add: reachable_worker_env_def load_worker_env_def Let_def)
  then have runtime: "wd_runtime (cf_worker_env c) = []"
    using assms by (auto simp: load_config_def Let_def split: if_splits sum.splits)
  have "map_of (build_manager_env (cf_worker_env c) name prov spec) ''HICLAW_RUNTIME'' = Some ''k8s''"
    unfolding build_manager_env_def Let_def runtime if_True simp_thms
    by (subst apply_cluster_defaults_other, simp add: cluster_keys_def)
      (subst map_of_fold_put_nonempty_other; simp)
  moreover have "map_of (manager_agent_env env c) ''HICLAW_RUNTIME'' = None"
    unfolding manager_agent_env_def Let_def
    by (simp add: map_of_put_flag map_of_put_nonempty)
  ultimately show ?thesis by simp
qed

lemma manager_runtime_always_k8s_witness:
  "cc_kube_mode (cf_core example_loaded) = ''embedded'' \<and>
   map_of (build_manager_env (cf_worker_env example_loaded) ''default'' prov spec) ''HICLAW_RUNTIME'' = Some ''k8s''"
proof -
  have "env_or_default example_env ''HICLAW_KUBE_MODE'' ''embedded'' = ''embedded''" by code_simp
  then have "cc_kube_mode (cf_core example_loaded) = ''embedded''"
    by (simp add: example_loaded_def load_config_def example_env_def Let_def load_core_def)
  then show ?thesis using manager_runtime_always_k8s [OF example_loaded] by simp
qed

section \<open>Addresses\<close>

text \<open>The host name of an IPv6 address has no brackets, and the address made of it is not one.\<close>

lemma replaced_ipv6_host_is_garbled:
  "replace_host ''http://matrix:8080'' (extract_host ''http://[::1]:8090'') = ''http://::1:8080''"
  by code_simp

end
