(* ===== verification/Migration_Properties.thy ===== *)
theory Migration_Properties
  imports Registry_Migration Worker_Controller Openclaw_Config
begin

text \<open>
  What a start of an embedded controller does to the custom resources: the migration creates what the
  registries list and the cluster lacks, touches nothing else, and a second pass changes nothing.
  The registries are keyed by runtime name and the resources by resource name, so that the pass
  duplicates what has both.
\<close>

section \<open>The cluster\<close>

text \<open>\<open>obj w (k, n)\<close> is the resource of that kind and name in the migrator's namespace; \<open>admits\<close> says
  which names the API server admits.\<close>

locale cr_cluster =
  fixes m :: "'w migrator"
    and obj :: "'w \<Rightarrow> cr_kind \<times> string \<Rightarrow> json option"
    and admits :: "cr_kind \<Rightarrow> string \<Rightarrow> bool"
  assumes oss_pure: "snd (run_state (mgt_oss_get m key) w) = w"
    and file_pure: "snd (run_state (mgt_read_file m path) w) = w"
    and get_reads: "\<exists>e. run_state (mgt_get m k (mgt_namespace m) n) w = (e, w) \<and> (e = None \<longleftrightarrow> obj w (k, n) \<noteq> None)"
    and create_stores: "obj w (k, n) = None \<Longrightarrow> admits k n \<Longrightarrow> \<exists>w'.
        run_state (mgt_create m k (mgt_namespace m) (cr_object t (mgt_namespace m) n spec)) w = (None, w') \<and>
        obj w' = (obj w)((k, n) \<mapsto> cr_object t (mgt_namespace m) n spec)"
    and create_refuses: "obj w (k, n) \<noteq> None \<or> \<not> admits k n \<Longrightarrow> \<exists>e w'.
        run_state (mgt_create m k (mgt_namespace m) (cr_object t (mgt_namespace m) n spec)) w = (Some e, w') \<and>
        obj w' = obj w"
    and create_keeps_oss: "fst (run_state (mgt_oss_get m key) (snd (run_state (mgt_create m k ns d) w))) =
        fst (run_state (mgt_oss_get m key) w)"
    and create_keeps_files: "fst (run_state (mgt_read_file m path) (snd (run_state (mgt_create m k ns d) w))) =
        fst (run_state (mgt_read_file m path) w)"
begin

definition same_files :: "'w \<Rightarrow> 'w \<Rightarrow> bool" where
  "same_files w v \<longleftrightarrow>
     (\<forall>k. fst (run_state (mgt_oss_get m k) w) = fst (run_state (mgt_oss_get m k) v)) \<and>
     (\<forall>p. fst (run_state (mgt_read_file m p) w) = fst (run_state (mgt_read_file m p) v))"

text \<open>The step from \<open>w\<close> to \<open>v\<close> adds the resources \<open>new\<close> as far as they are missing and keeps the others.\<close>

definition adds :: "(cr_kind \<times> string) set \<Rightarrow> 'w \<Rightarrow> 'w \<Rightarrow> bool" where
  "adds new w v \<longleftrightarrow> same_files w v \<and> obj w \<subseteq>\<^sub>m obj v \<and> dom (obj v) = dom (obj w) \<union> new"

lemma adds_refl [simp]: "adds {} w w"
  by (simp add: adds_def same_files_def)

lemma adds_trans: "adds a u v \<Longrightarrow> adds b v w \<Longrightarrow> adds (a \<union> b) u w"
  by (auto simp: adds_def same_files_def intro: map_le_trans)

lemma oss_run: "run_state (mgt_oss_get m k) w = (fst (run_state (mgt_oss_get m k) w), w)"
  using oss_pure by (metis prod.collapse)

lemma file_run: "run_state (mgt_read_file m k) w = (fst (run_state (mgt_read_file m k) w), w)"
  using file_pure by (metis prod.collapse)

text \<open>Reads: the world stays, and the result depends on the files only.\<close>

definition reads :: "('w, 'a) state \<Rightarrow> bool" where
  "reads f \<longleftrightarrow> (\<forall>w. snd (run_state f w) = w) \<and> (\<forall>w v. same_files w v \<longrightarrow> fst (run_state f w) = fst (run_state f v))"

lemma reads_bind: "reads f \<Longrightarrow> (\<And>x. reads (g x)) \<Longrightarrow> reads (f \<bind> g)"
  by (simp add: reads_def split_beta)

lemma reads_world [simp]: "reads f \<Longrightarrow> snd (run_state f w) = w"
  by (simp add: reads_def)

lemma reads_return [simp]: "reads (State_Monad.return x)"
  by (simp add: reads_def)

lemma reads_oss [simp]: "reads (mgt_oss_get m k)"
  using oss_pure by (simp add: reads_def same_files_def)

lemma reads_file [simp]: "reads (mgt_read_file m p)"
  using file_pure by (simp add: reads_def same_files_def)

lemma reads_registry_file [simp]: "reads (read_registry_file m f)"
  by (auto simp: read_registry_file_def Let_def intro!: reads_bind split: sum.splits)

lemma reads_reg_file [simp]: "reads (load_reg_file m f d)"
  by (auto simp: load_reg_file_def intro!: reads_bind)

lemma reads_agent_file [simp]: "reads (read_agent_file m a f)"
  by (auto simp: read_agent_file_def Let_def intro!: reads_bind split: sum.splits)

lemma reads_model [simp]: "reads (extract_model m n)"
  by (auto simp: extract_model_def intro!: reads_bind)

lemma reads_servers [simp]: "reads (extract_mcp_servers m n)"
  by (auto simp: extract_mcp_servers_def intro!: reads_bind)

lemma reads_documents [simp]: "reads (team_worker_documents m ws ns)"
  by (induction ns) (auto simp: team_worker_document_def intro!: reads_bind split: option.splits)

lemma reads_run: "reads f \<Longrightarrow> run_state f w = (fst (run_state f w), w)"
  by (metis prod.collapse reads_def)

lemma reads_same: "reads f \<Longrightarrow> same_files w v \<Longrightarrow> run_state f v = (fst (run_state f w), v)"
  using reads_run by (metis reads_def)

section \<open>One entry\<close>

definition wanted :: "cr_kind \<Rightarrow> string list \<Rightarrow> (cr_kind \<times> string) set" where
  "wanted k ns = {(k, n) | n. n \<in> set ns \<and> admits k n}"

definition settles :: "cr_kind \<Rightarrow> string \<Rightarrow> ('w, 'a) state \<Rightarrow> bool" where
  "settles k n f \<longleftrightarrow> (\<forall>w. adds (wanted k [n]) w (snd (run_state f w)))"

lemma create_settles:
  assumes "obj w (k, n) = None"
  shows "adds (wanted k [n]) w
    (snd (run_state (mgt_create m k (mgt_namespace m) (cr_object t (mgt_namespace m) n spec)) w))"
proof -
  let ?d = "cr_object t (mgt_namespace m) n spec"
  have files: "same_files w (snd (run_state (mgt_create m k (mgt_namespace m) ?d) w))"
    by (simp add: same_files_def create_keeps_oss create_keeps_files)
  show ?thesis
  proof (cases "admits k n")
    case True
    then show ?thesis
      using create_stores [OF assms True, of t spec] files assms by (auto simp: adds_def wanted_def map_le_def)
  next
    case False
    then show ?thesis
      using create_refuses [of w k n t spec] files by (auto simp: adds_def wanted_def)
  qed
qed

lemma unless_exists_settles:
  assumes "\<And>w. obj w (k, n) = None \<Longrightarrow> adds (wanted k [n]) w (snd (run_state f w))"
  shows "settles k n (unless_exists m k n f)"
proof -
  have "adds (wanted k [n]) w (snd (run_state (unless_exists m k n f) w))" for w
  proof (cases "obj w (k, n)")
    case None
    then show ?thesis using get_reads [of k n w] assms by (auto simp: unless_exists_def)
  next
    case (Some d)
    then have "dom (obj w) = dom (obj w) \<union> wanted k [n]" by (auto simp: wanted_def)
    then show ?thesis
      using get_reads [of k n w] Some by (auto simp: unless_exists_def adds_def same_files_def)
  qed
  then show ?thesis by (simp add: settles_def)
qed

lemma reads_then: "reads f \<Longrightarrow> run_state (f \<bind> g) w = run_state (g (fst (run_state f w))) w"
  using reads_run [of f w] by (metis case_prod_conv run_state_bind)

lemma worker_settles: "settles Kind_Worker n (create_standalone_worker m n e)"
  unfolding create_standalone_worker_def
  by (rule unless_exists_settles) (simp add: reads_then wrap_error_def split_beta create_settles)

lemma team_settles: "settles Kind_Team n (create_team_cr m ws n e)"
  unfolding create_team_cr_def
  by (rule unless_exists_settles) (simp add: reads_then wrap_error_def split_beta create_settles)

lemma human_settles: "settles Kind_Human n (create_human_cr m n e)"
  unfolding create_human_cr_def
  by (rule unless_exists_settles) (simp add: wrap_error_def split_beta create_settles)

section \<open>The pass\<close>

lemma each_entry_adds:
  "(\<And>n e. settles k n (f n e)) \<Longrightarrow> adds (wanted k (map fst es)) w (snd (run_state (each_entry f es) w))"
proof (induction es arbitrary: w)
  case Nil
  then show ?case by (simp add: wanted_def)
next
  case (Cons p es)
  obtain n e where p: "p = (n, e)" by fastforce
  have "wanted k (n # map fst es) = wanted k [n] \<union> wanted k (map fst es)" by (auto simp: wanted_def)
  moreover have "adds (wanted k [n]) w (snd (run_state (f n e) w))" using Cons.prems by (simp add: settles_def)
  ultimately show ?case using adds_trans Cons p by (simp add: split_beta)
qed

lemma migration_run:
  assumes "mgt_connect m = None"
    and "fst (run_state (load_workers_registry m) w) = Inr workers"
    and "fst (run_state (load_teams_registry m) w) = Inr teams"
    and "fst (run_state (load_humans_registry m) w) = Inr humans"
    and "same_files w v"
  shows "\<exists>v'. run_state (run_migration m) v = (None, v') \<and>
    adds (wanted Kind_Worker (map fst (standalone_entries workers teams)) \<union>
      wanted Kind_Team (map fst teams) \<union> wanted Kind_Human (map fst humans)) v v'"
proof -
  have "reads (load_workers_registry m)" "reads (load_teams_registry m)" "reads (load_humans_registry m)"
    by (simp_all add: load_workers_registry_def load_teams_registry_def load_humans_registry_def)
  then have loads: "run_state (load_workers_registry m) v = (Inr workers, v)"
    "run_state (load_teams_registry m) v = (Inr teams, v)"
    "run_state (load_humans_registry m) v = (Inr humans, v)"
    by (simp_all add: assms(2-4) reads_same [OF _ assms(5)])
  let ?v1 = "snd (run_state (each_entry (create_standalone_worker m) (standalone_entries workers teams)) v)"
  let ?v2 = "snd (run_state (each_entry (create_team_cr m workers) teams) ?v1)"
  let ?v3 = "snd (run_state (each_entry (create_human_cr m) humans) ?v2)"
  have "run_state (run_migration m) v = (None, ?v3)"
    using assms(1) loads by (simp add: run_migration_def run_results split_beta)
  then show ?thesis
    using adds_trans [OF adds_trans [OF each_entry_adds each_entry_adds] each_entry_adds]
      worker_settles team_settles human_settles by blast
qed

lemma same_files_refl [simp]: "same_files w w"
  by (simp add: same_files_def)

lemma adds_files: "adds new w v \<Longrightarrow> same_files w v"
  by (simp add: adds_def)

lemma addsD: "adds new w v \<Longrightarrow> obj w \<subseteq>\<^sub>m obj v \<and> dom (obj v) = dom (obj w) \<union> new"
  by (simp add: adds_def)

lemma wanted_iff: "(k', n) \<in> wanted k ns \<longleftrightarrow> k' = k \<and> n \<in> set ns \<and> admits k n"
  by (auto simp: wanted_def)

lemma adds_again: "adds new w v \<Longrightarrow> adds new v u \<Longrightarrow> obj u = obj v"
  unfolding adds_def map_le_def by (intro ext) (metis UnI1 Un_absorb Un_assoc domIff)

end

section \<open>A cluster in memory\<close>

record cluster_world =
  cw_store :: smap
  cw_objects :: "((cr_kind \<times> string) \<times> json) list"

definition in_store :: "(smap, 'a) state \<Rightarrow> (cluster_world, 'a) state" where
  "in_store f = State (\<lambda>w. (case run_state f (cw_store w) of (x, s) \<Rightarrow> (x, w\<lparr>cw_store := s\<rparr>)))"

definition cluster_store :: "cluster_world storage_client" where
  "cluster_store = \<lparr>so_get = \<lambda>k. in_store (memory_get k), so_put = \<lambda>k d. in_store (memory_put k d),
     so_stat = \<lambda>k. in_store (memory_stat k), so_delete = \<lambda>k. in_store (memory_delete k),
     so_list = \<lambda>k. in_store (memory_list k), so_delete_prefix = \<lambda>k. in_store (memory_delete_prefix k)\<rparr>"

definition document_name :: "json \<Rightarrow> string" where
  "document_name d =
     (case d of JObj kvs \<Rightarrow> (case json_get kvs ''metadata'' of JObj o1 \<Rightarrow> text_member o1 ''name'' | _ \<Rightarrow> []) | _ \<Rightarrow> [])"

definition memory_migrator ::
  "(string \<Rightarrow> (string \<times> worker_reg_entry) list result) \<Rightarrow> (string \<Rightarrow> (string \<times> team_reg_entry) list result) \<Rightarrow>
   (string \<Rightarrow> (string \<times> human_reg_entry) list result) \<Rightarrow> cluster_world migrator" where
  "memory_migrator ws ts hs =
     \<lparr>mgt_oss_get = so_get cluster_store,
      mgt_read_file = \<lambda>p. State_Monad.return (Inl OsNotExist),
      mgt_connect = None,
      mgt_get = \<lambda>k ns n. State (\<lambda>w.
        ((case map_of (cw_objects w) (k, n) of Some d \<Rightarrow> None | None \<Rightarrow> Some ApiNotFound), w)),
      mgt_create = \<lambda>k ns d. State (\<lambda>w.
        if document_name d = [] \<or> map_of (cw_objects w) (k, document_name d) \<noteq> None then (Some (Err ''refused''), w)
        else (None, w\<lparr>cw_objects := ((k, document_name d), d) # cw_objects w\<rparr>)),
      mgt_decode_workers = ws, mgt_decode_teams = ts, mgt_decode_humans = hs,
      mgt_json = \<lambda>d. RawMalformed, mgt_namespace = ''hiclaw'', mgt_default_model = ''qwen'',
      mgt_manager_name = [], mgt_agent_fs_dir = []\<rparr>"

lemma document_name_object [simp]: "document_name (cr_object t ns n spec) = n"
  by (simp add: document_name_def cr_object_def json_get_def text_member_def)

interpretation memory_cluster: cr_cluster "memory_migrator ws ts hs" "\<lambda>w. map_of (cw_objects w)" "\<lambda>k n. n \<noteq> []"
  by unfold_locales
    (auto simp: memory_migrator_def cluster_store_def in_store_def memory_get_def fun_eq_iff split: option.splits)

section \<open>Properties\<close>

text \<open>Which resources a pass over the three registries asks for, as far as the API server admits them.\<close>

definition registry_resources ::
  "(cr_kind \<Rightarrow> string \<Rightarrow> bool) \<Rightarrow> (string \<times> worker_reg_entry) list \<Rightarrow> (string \<times> team_reg_entry) list \<Rightarrow>
   (string \<times> human_reg_entry) list \<Rightarrow> (cr_kind \<times> string) set" where
  "registry_resources admits workers teams humans = {(k, n). admits k n \<and>
     (case k of
        Kind_Worker \<Rightarrow> n \<in> fst ` set workers \<and> (\<forall>e \<in> snd ` set teams. n \<noteq> tre_leader e \<and> n \<notin> set (tre_workers e))
      | Kind_Team \<Rightarrow> n \<in> fst ` set teams
      | Kind_Human \<Rightarrow> n \<in> fst ` set humans)}"

lemma map_of_team_updates:
  "map_of (fold (\<lambda>w m'. AList.update w t m') ws m) n = (if n \<in> set ws then Some t else map_of m n)"
  by (induction ws arbitrary: m) (auto simp: update_conv')

lemma team_by_worker_none:
  "map_of (team_by_worker teams) n = None \<longleftrightarrow>
     (\<forall>e \<in> snd ` set teams. n \<noteq> tre_leader e \<and> n \<notin> set (tre_workers e))"
proof -
  have "map_of (fold (\<lambda>(t, e) m. fold (\<lambda>w m'. AList.update w t m') (tre_leader e # tre_workers e) m) teams acc) n = None \<longleftrightarrow>
      map_of acc n = None \<and> (\<forall>e \<in> snd ` set teams. n \<noteq> tre_leader e \<and> n \<notin> set (tre_workers e))" for acc
    by (induction teams arbitrary: acc) (auto simp: map_of_team_updates update_conv' simp del: fold.simps
        simp add: fold_simps split: if_splits)
  then show ?thesis by (simp add: team_by_worker_def)
qed

lemma set_standalone:
  "fst ` set (standalone_entries workers teams) =
     {n \<in> fst ` set workers. \<forall>e \<in> snd ` set teams. n \<noteq> tre_leader e \<and> n \<notin> set (tre_workers e)}"
  unfolding standalone_entries_def team_by_worker_none by force

lemma migration_creates:
  assumes "cr_cluster m obj admits" "mgt_connect m = None"
    and "fst (run_state (load_workers_registry m) w) = Inr workers"
    and "fst (run_state (load_teams_registry m) w) = Inr teams"
    and "fst (run_state (load_humans_registry m) w) = Inr humans"
  shows "\<exists>w1 w2. run_state (run_migration m) w = (None, w1) \<and> obj w \<subseteq>\<^sub>m obj w1 \<and>
    dom (obj w1) = dom (obj w) \<union> registry_resources admits workers teams humans \<and>
    run_state (run_migration m) w1 = (None, w2) \<and> obj w2 = obj w1"
proof -
  note c = assms(1)
  let ?new = "cr_cluster.wanted admits Kind_Worker (map fst (standalone_entries workers teams)) \<union>
    cr_cluster.wanted admits Kind_Team (map fst teams) \<union> cr_cluster.wanted admits Kind_Human (map fst humans)"
  have "p \<in> ?new \<longleftrightarrow> p \<in> registry_resources admits workers teams humans" for p
  proof (cases p)
    case (Pair k n)
    then show ?thesis
      by (cases k) (auto simp: cr_cluster.wanted_iff [OF c] registry_resources_def set_standalone)
  qed
  then have new: "?new = registry_resources admits workers teams humans" by blast
  obtain w1 where w1: "run_state (run_migration m) w = (None, w1)" "cr_cluster.adds m obj ?new w w1"
    using cr_cluster.migration_run [OF c assms(2-5)] cr_cluster.same_files_refl [OF c] by blast
  moreover obtain w2 where w2: "run_state (run_migration m) w1 = (None, w2)" "cr_cluster.adds m obj ?new w1 w2"
    using cr_cluster.migration_run [OF c assms(2-5)] cr_cluster.adds_files [OF c w1(2)] by blast
  ultimately show ?thesis
    using cr_cluster.adds_again [OF c w1(2) w2(2)] cr_cluster.addsD [OF c w1(2)] new by auto
qed

text \<open>C28. A pass of the migration over a cluster creates exactly the resources the three registries list
  and the cluster lacks, as far as the API server admits them: every team and human, and the
  workers no team names. What exists stays as it is, one refused resource does not keep the others
  from being created, and a second pass (the next start) changes nothing.\<close>

theorem migration_creates_missing:
  assumes "cr_cluster m obj admits" "mgt_connect m = None"
    and "fst (run_state (load_workers_registry m) w) = Inr workers"
    and "fst (run_state (load_teams_registry m) w) = Inr teams"
    and "fst (run_state (load_humans_registry m) w) = Inr humans"
  shows "\<exists>w1 w2. run_state (run_migration m) w = (None, w1) \<and> obj w \<subseteq>\<^sub>m obj w1 \<and>
    dom (obj w1) = dom (obj w) \<union> registry_resources admits workers teams humans \<and>
    run_state (run_migration m) w1 = (None, w2) \<and> obj w2 = obj w1"
  by (rule migration_creates [OF assms])

text \<open>The two readers of one registry file, and the world the two work on.\<close>

definition worker_view :: "worker_registry_entry \<Rightarrow> worker_reg_entry" where
  "worker_view e =
     \<lparr>wre_matrix_user_id = re_matrix_user_id e, wre_room_id = re_room_id e, wre_runtime = re_runtime e,
      wre_deployment = re_deployment e, wre_skills = re_skills e, wre_role = re_role e,
      wre_team_id = re_team_id e, wre_image = re_image e, wre_created_at = re_created_at e,
      wre_skills_updated_at = re_skills_updated_at e\<rparr>"

definition registry_object :: "'w migrator \<Rightarrow> string \<Rightarrow> string" where
  "registry_object m file = agent_object (migrator_manager_name m) file"

definition shares_registries ::
  "'w migrator \<Rightarrow> ('w \<Rightarrow> cr_kind \<times> string \<Rightarrow> json option) \<Rightarrow> 'w legacy_compat \<Rightarrow> 'w storage_client \<Rightarrow>
   ('w \<Rightarrow> string \<Rightarrow> string option) \<Rightarrow> ('w \<Rightarrow> bool) \<Rightarrow> bool" where
  "shares_registries m obj l s content up \<longleftrightarrow>
     object_store s content up \<and> lc_oss l = Some s \<and> mgt_oss_get m = so_get s \<and>
     lc_manager_name l = migrator_manager_name m \<and> mgt_agent_fs_dir m = [] \<and> lc_agent_fs_dir l = [] \<and>
     (\<forall>k d w. obj (snd (run_state (so_put s k d) w)) = obj w) \<and>
     (\<forall>d reg. cd_unmarshal (lc_workers_codec l) d = Inr reg \<longrightarrow>
        mgt_decode_workers m d = Inr (map (\<lambda>(n, e). (n, worker_view e)) (rg_entries reg)))"

definition registry_row :: "'w worker_reconciler \<Rightarrow> worker \<Rightarrow> worker_registry_entry" where
  "registry_row r wk =
     (let n = worker_effective_name (w_spec wk) (om_name (w_meta wk)) in
      \<lparr>re_name = n, re_matrix_user_id = wr_matrix_user_id r n, re_room_id = wst_room_id (w_status wk),
       re_runtime = ws_runtime (w_spec wk), re_deployment = ''local'', re_skills = ws_skills (w_spec wk),
       re_role = worker_annotation wk ''hiclaw.io/role'',
       re_team_id = nil_if_empty (worker_annotation wk ''hiclaw.io/team''),
       re_image = nil_if_empty (ws_image (w_spec wk)), re_created_at = [], re_skills_updated_at = []\<rparr>)"

lemma shares_put:
  assumes "shares_registries m obj l s content up" "up w"
  shows "\<exists>w'. run_state (so_put s k d) w = (None, w') \<and> up w' \<and> content w' = (content w)(k \<mapsto> d) \<and> obj w' = obj w"
proof -
  have "object_store s content up" "\<forall>k d w. obj (snd (run_state (so_put s k d) w)) = obj w"
    using assms(1) by (simp_all add: shares_registries_def)
  then show ?thesis using object_store.put_writes [of s content up w k d] assms(2) by (metis snd_conv)
qed

text \<open>Changing the allow list touches the Manager's configuration at most.\<close>

lemma allow_list_frame:
  assumes "shares_registries m obj l s content up" "up w"
  shows "\<exists>e w'. run_state (update_manager_group_allow_from l i add) w = (e, w') \<and> up w' \<and> obj w' = obj w \<and>
    (\<forall>k. k \<noteq> manager_config_key l \<longrightarrow> content w' k = content w k)"
proof -
  have store: "object_store s content up" "lc_oss l = Some s" "lc_agent_fs_dir l = []"
    using assms(1) by (simp_all add: shares_registries_def)
  note get = object_store.get_reads [OF store(1)]
  note defs = update_manager_group_allow_from_def when_enabled_def store get [OF assms(2)]
    write_manager_local_config_def manager_local_config_path_def
  let ?same = "\<lambda>e w'. up w' \<and> obj w' = obj w \<and> (\<forall>k. k \<noteq> manager_config_key l \<longrightarrow> content w' k = content w k)"
  have same: "?same e w" for e :: "go_error option" using assms(2) by simp
  consider (none) e where "run_state (update_manager_group_allow_from l i add) w = (e, w)"
    | (put) d cfg cfg' out where "content w (manager_config_key l) = Some d" "cd_unmarshal (lc_config_codec l) d = Inr cfg"
        "change_group_allow cfg i add = Some cfg'" "cd_marshal (lc_config_codec l) cfg' = Inr out"
  proof (cases "content w (manager_config_key l)")
    case None
    then show ?thesis using none by (simp add: defs)
  next
    case (Some d)
    show ?thesis
    proof (cases "cd_unmarshal (lc_config_codec l) d")
      case (Inl e)
      then show ?thesis using none Some by (simp add: defs)
    next
      case (Inr cfg)
      show ?thesis
      proof (cases "change_group_allow cfg i add")
        case None
        then show ?thesis using none Some Inr by (simp add: defs)
      next
        case (Some cfg')
        then show ?thesis
          using none put \<open>content w (manager_config_key l) = Some d\<close> Inr
          by (cases "cd_marshal (lc_config_codec l) cfg'") (simp_all add: defs)
      qed
    qed
  qed
  then show ?thesis
  proof cases
    case none
    then show ?thesis using same by blast
  next
    case (put d cfg cfg' out)
    obtain w' where "run_state (so_put s (manager_config_key l) out) w = (None, w')" "up w'" "obj w' = obj w"
        "content w' = (content w)(manager_config_key l \<mapsto> out)"
      using shares_put [OF assms] by metis
    then show ?thesis using put by (simp add: defs)
  qed
qed

lemma legacy_run:
  assumes "shares_registries m obj l s content up" "up w" "wr_legacy r = Some (l, now)"
    and "content w (registry_object m ''workers-registry.json'') = Some d0" "cd_unmarshal (lc_workers_codec l) d0 = Inr reg"
    and "cd_marshal (lc_workers_codec l) (upsert_worker_entry now (registry_row r wk) reg) = Inr d1"
  shows "\<exists>w'. run_state (worker_reconcile_legacy r wk st) w = ((), w') \<and> up w' \<and> obj w' = obj w \<and>
    content w' (registry_object m ''workers-registry.json'') = Some d1 \<and>
    (\<forall>f \<in> {''teams-registry.json'', ''humans-registry.json''}. content w' (registry_object m f) = content w (registry_object m f))"
proof -
  have store: "object_store s content up" "lc_oss l = Some s" "lc_manager_name l = migrator_manager_name m"
    using assms(1) by (simp_all add: shares_registries_def)
  note get = object_store.get_reads [OF store(1)]
  have key: "manager_agent_prefix l @ ''/workers-registry.json'' = registry_object m ''workers-registry.json''"
    by (simp add: manager_agent_prefix_def store registry_object_def agent_object_def)
  have config: "registry_object m f \<noteq> manager_config_key l"
    if "f \<in> {''workers-registry.json'', ''teams-registry.json'', ''humans-registry.json''}" for f
    using that by (auto simp: registry_object_def agent_object_def manager_config_key_def manager_agent_prefix_def store)
  have row: "worker_reconcile_legacy r wk st = do {
      _ \<leftarrow> (case mt_prov_result st of
             Some prov \<Rightarrow>
               if role_for_annotations (worker_annotation wk ''hiclaw.io/role'') (worker_annotation wk ''hiclaw.io/team-leader'') =
                   Role_Standalone
               then update_manager_group_allow_from l (pr_matrix_user_id prov) True
               else State_Monad.return None
           | None \<Rightarrow> State_Monad.return None);
      _ \<leftarrow> update_workers_registry l now (registry_row r wk);
      State_Monad.return () }"
    by (simp add: worker_reconcile_legacy_def assms(3) store registry_row_def Let_def)
  let ?first = "case mt_prov_result st of
      Some prov \<Rightarrow>
        if role_for_annotations (worker_annotation wk ''hiclaw.io/role'') (worker_annotation wk ''hiclaw.io/team-leader'') =
            Role_Standalone
        then update_manager_group_allow_from l (pr_matrix_user_id prov) True
        else State_Monad.return None
    | None \<Rightarrow> State_Monad.return None"
  obtain e w1 where first: "run_state ?first w = (e, w1)" "up w1" "obj w1 = obj w"
      "\<forall>k. k \<noteq> manager_config_key l \<longrightarrow> content w1 k = content w k"
  proof (cases "mt_prov_result st")
    case None
    then show ?thesis using that [of None w] assms(2) by simp
  next
    case (Some prov)
    obtain e w1 where "run_state (update_manager_group_allow_from l (pr_matrix_user_id prov) True) w = (e, w1)"
        "up w1" "obj w1 = obj w" "\<forall>k. k \<noteq> manager_config_key l \<longrightarrow> content w1 k = content w k"
      using allow_list_frame [OF assms(1,2), of "pr_matrix_user_id prov" True] by auto
    note list_run = this
    show ?thesis
    proof (cases "role_for_annotations (worker_annotation wk ''hiclaw.io/role'') (worker_annotation wk ''hiclaw.io/team-leader'') =
        Role_Standalone")
      case True
      show ?thesis by (rule that [of e w1, OF _ list_run(2-4)]) (simp only: Some option.case True if_True refl list_run(1))
    next
      case False
      show ?thesis
        by (rule that [of None w])
          (simp_all only: Some option.case False if_False run_state_return assms(2) simp_thms)
    qed
  qed
  obtain w2 where w2: "run_state (so_put s (registry_object m ''workers-registry.json'') d1) w1 = (None, w2)" "up w2"
      "obj w2 = obj w1" "content w2 = (content w1)(registry_object m ''workers-registry.json'' \<mapsto> d1)"
    using shares_put [OF assms(1) first(2)] by metis
  have "content w1 (registry_object m ''workers-registry.json'') = Some d0"
    using first(4) config [of "''workers-registry.json''"] assms(4) by simp
  then have "run_state (update_workers_registry l now (registry_row r wk)) w1 = (None, w2)"
    using w2(1) assms(5,6)
    by (simp add: update_workers_registry_def when_enabled_def store(2) modify_registry_def load_registry_def
        save_registry_def get [OF first(2)] key)
  then have "run_state (worker_reconcile_legacy r wk st) w = ((), w2)"
    by (simp add: row first(1))
  moreover have "registry_object m f \<noteq> registry_object m ''workers-registry.json''"
    if "f \<in> {''teams-registry.json'', ''humans-registry.json''}" for f
    using that by (auto simp: registry_object_def agent_object_def)
  ultimately show ?thesis using w2 first config by auto
qed


section \<open>Concrete runs\<close>

definition example_row :: worker_reg_entry where
  "example_row = \<lparr>wre_matrix_user_id = ''@bob'', wre_room_id = ''!r'', wre_runtime = [], wre_deployment = ''local'',
     wre_skills = [], wre_role = ''worker'', wre_team_id = None, wre_image = None, wre_created_at = [],
     wre_skills_updated_at = []\<rparr>"

definition example_team :: team_reg_entry where
  "example_team = \<lparr>tre_leader = ''lea'', tre_workers = [''tim''], tre_team_room_id = [], tre_leader_dm_room_id = [],
     tre_admin = None, tre_created_at = []\<rparr>"

definition example_migrator :: "cluster_world migrator" where
  "example_migrator = memory_migrator (\<lambda>d. Inr [(''bob'', example_row), (''tim'', example_row)])
     (\<lambda>d. Inr [(''blue'', example_team)]) (\<lambda>d. Inr [])"

definition example_cluster :: cluster_world where
  "example_cluster = \<lparr>cw_store = [(''agents/manager/workers-registry.json'', ''w''), (''agents/manager/teams-registry.json'', ''t'')],
     cw_objects = []\<rparr>"

lemma migration_creates_missing_witness:
  "\<exists>w1. run_state (run_migration example_migrator) example_cluster = (None, w1) \<and>
     dom (map_of (cw_objects w1)) = {(Kind_Worker, ''bob''), (Kind_Team, ''blue'')}"
proof -
  have c: "cr_cluster example_migrator (\<lambda>w. map_of (cw_objects w)) (\<lambda>k n. n \<noteq> [])"
    using memory_cluster.cr_cluster_axioms by (simp add: example_migrator_def)
  have loads: "mgt_connect example_migrator = None"
    "fst (run_state (load_workers_registry example_migrator) example_cluster) =
      Inr [(''bob'', example_row), (''tim'', example_row)]"
    "fst (run_state (load_teams_registry example_migrator) example_cluster) = Inr [(''blue'', example_team)]"
    "fst (run_state (load_humans_registry example_migrator) example_cluster) = Inr []"
    by code_simp+
  have "registry_resources (\<lambda>k n. n \<noteq> []) [(''bob'', example_row), (''tim'', example_row)] [(''blue'', example_team)] [] =
      {(Kind_Worker, ''bob''), (Kind_Team, ''blue'')}"
  proof (intro set_eqI)
    fix p :: "cr_kind \<times> string"
    obtain k n where p: "p = (k, n)" by fastforce
    show "p \<in> registry_resources (\<lambda>k n. n \<noteq> []) [(''bob'', example_row), (''tim'', example_row)] [(''blue'', example_team)] [] \<longleftrightarrow>
        p \<in> {(Kind_Worker, ''bob''), (Kind_Team, ''blue'')}"
      by (cases k; cases "n = ''bob''"; cases "n = ''tim''"; cases "n = ''blue''")
        (simp_all add: p registry_resources_def example_team_def)
  qed
  then show ?thesis
    using migration_creates_missing [OF c loads] by (auto simp: example_cluster_def)
qed

text \<open>A worker whose runtime name is not its resource name, and the registry after it is reconciled.\<close>

definition renamed_worker :: worker where
  "renamed_worker = zero_worker\<lparr>w_meta := zero_meta\<lparr>om_name := ''w1''\<rparr>, w_spec := zero_worker_spec\<lparr>ws_worker_name := ''bob''\<rparr>\<rparr>"

definition example_reconciler :: "cluster_world legacy_compat \<Rightarrow> cluster_world worker_reconciler" where
  "example_reconciler l = \<lparr>wr_client = undefined, wr_deps = undefined, wr_legacy = Some (l, ''t''),
     wr_resolve_model_provider = None, wr_matrix_user_id = \<lambda>n. n, wr_controller_name = []\<rparr>"

definition renamed_row :: worker_registry_entry where
  "renamed_row = \<lparr>re_name = ''bob'', re_matrix_user_id = ''bob'', re_room_id = [], re_runtime = [], re_deployment = ''local'',
     re_skills = [], re_role = [], re_team_id = None, re_image = None, re_created_at = [], re_skills_updated_at = []\<rparr>"

definition renamed_registry :: "worker_registry_entry registry" where
  "renamed_registry = upsert_worker_entry ''t'' renamed_row empty_registry"

definition cluster_legacy :: "cluster_world legacy_compat" where
  "cluster_legacy = \<lparr>lc_oss = Some cluster_store, lc_matrix_domain = [], lc_manager_name = ''manager'', lc_agent_fs_dir = [],
     lc_write_file = \<lambda>p d. State_Monad.return None,
     lc_workers_codec = \<lparr>cd_unmarshal = \<lambda>d. Inr (if d = ''new'' then renamed_registry else empty_registry),
       cd_marshal = \<lambda>r. Inr ''new''\<rparr>,
     lc_teams_codec = \<lparr>cd_unmarshal = \<lambda>d. Inr empty_registry, cd_marshal = \<lambda>r. Inr []\<rparr>,
     lc_humans_codec = \<lparr>cd_unmarshal = \<lambda>d. Inr empty_registry, cd_marshal = \<lambda>r. Inr []\<rparr>,
     lc_config_codec = \<lparr>cd_unmarshal = \<lambda>d. Inr JNull, cd_marshal = \<lambda>r. Inr []\<rparr>\<rparr>"

definition renamed_migrator :: "cluster_world migrator" where
  "renamed_migrator = memory_migrator
     (\<lambda>d. Inr (map (\<lambda>(n, e). (n, worker_view e))
        (rg_entries (if d = ''new'' then renamed_registry else empty_registry))))
     (\<lambda>d. Inr []) (\<lambda>d. Inr [])"

definition renamed_cluster :: cluster_world where
  "renamed_cluster = \<lparr>cw_store = [(''agents/manager/workers-registry.json'', ''old'')],
     cw_objects = [((Kind_Worker, ''w1''), JNull)]\<rparr>"

lemma renamed_shares:
  "shares_registries renamed_migrator (\<lambda>w. map_of (cw_objects w)) cluster_legacy cluster_store
     (\<lambda>w. map_of (cw_store w)) (\<lambda>w. True)"
proof -
  have "object_store cluster_store (\<lambda>w. map_of (cw_store w)) (\<lambda>w. True)"
    by unfold_locales
      (auto simp: cluster_store_def in_store_def memory_get_def memory_put_def memory_delete_def delete_conv' fun_eq_iff)
  moreover have "map_of (cw_objects (snd (run_state (so_put cluster_store k d) w))) = map_of (cw_objects w)" for k d w
    by (simp add: cluster_store_def in_store_def memory_put_def)
  moreover have "mgt_decode_workers renamed_migrator d = Inr (map (\<lambda>(n, e). (n, worker_view e)) (rg_entries reg))"
    if "cd_unmarshal (lc_workers_codec cluster_legacy) d = Inr reg" for d reg
    using that by (auto simp: cluster_legacy_def renamed_migrator_def memory_migrator_def)
  ultimately show ?thesis
    by (simp add: shares_registries_def cluster_legacy_def renamed_migrator_def memory_migrator_def migrator_manager_name_def)
qed


section \<open>Models\<close>

text \<open>The model a configuration names for its agent.\<close>

definition object_member :: "string \<Rightarrow> json \<Rightarrow> json" where
  "object_member k v = (case v of JObj kvs \<Rightarrow> json_get kvs k | _ \<Rightarrow> JNull)"

definition primary_model :: "json \<Rightarrow> json" where
  "primary_model cfg =
     object_member ''primary'' (object_member ''model'' (object_member ''defaults'' (object_member ''agents'' cfg)))"

lemma map_of_fold_put:
  "map_of (fold (\<lambda>(k, x) m. json_put k x m) kvs m) = map_of m ++ map_of (rev kvs)"
  by (induction kvs arbitrary: m) (auto simp: json_put_def update_conv' map_add_def fun_eq_iff split: option.splits)

lemma document_map_distinct:
  "distinct (map fst kvs) \<Longrightarrow> \<exists>m. document_map (RawJson (JObj kvs)) = Some m \<and> json_get m = json_get kvs"
  by (simp add: document_map_def map_of_fold_put json_get_def fun_eq_iff)
    (metis distinct_map distinct_rev inj_on_rev map_add_empty map_of_inject_set rev_map set_rev)

lemma generated_shape:
  "\<exists>kvs. generate_openclaw_config g req = JObj kvs \<and> distinct (map fst kvs) \<and>
     object_member ''default'' (json_get kvs ''models'') = JNull \<and>
     json_get kvs ''agents'' = JObj [(''defaults'', JObj (agent_defaults g req))]"
proof -
  obtain kvs where base: "base_config g req = JObj kvs"
      "map fst kvs = [''gateway'', ''channels'', ''models'', ''agents'', ''session'', ''plugins'']"
      "object_member ''default'' (json_get kvs ''models'') = JNull"
      "json_get kvs ''agents'' = JObj [(''defaults'', JObj (agent_defaults g req))]"
    by (simp add: base_config_def Let_def object_member_def json_get_def)
  have keys: "map fst (json_put ''channels'' v kvs) = map fst kvs" for v
    using base(2) by (cases kvs) (auto simp: json_put_def)
  show ?thesis
    using base keys
    by (auto simp: generate_openclaw_config_def apply_channel_policy_def matrix_section_def Let_def split: option.splits)
qed

text \<open>The migration never finds the model of an agent: in no document the configuration generator writes is
  there a default below the models, which is where the migration looks (the generator names the model
  below the defaults of the agents), so that every resource the migration creates gets the default
  model, whatever model the agent runs with.\<close>

theorem migrated_model_is_default:
  "model_in d (RawJson (generate_openclaw_config g req)) = d \<and>
   primary_model (generate_openclaw_config g req) = JStr (gateway_model (selected_model g req))"
proof -
  obtain kvs where kvs: "generate_openclaw_config g req = JObj kvs" "distinct (map fst kvs)"
      "object_member ''default'' (json_get kvs ''models'') = JNull"
      "json_get kvs ''agents'' = JObj [(''defaults'', JObj (agent_defaults g req))]"
    using generated_shape by blast
  obtain m where m: "document_map (RawJson (JObj kvs)) = Some m" "json_get m = json_get kvs"
    using document_map_distinct [OF kvs(2)] by blast
  have "model_in d (RawJson (JObj kvs)) = d"
    using kvs(3) m by (cases "json_get kvs ''models''") (simp_all add: model_in_def object_member_def text_member_def)
  moreover have "object_member ''agents'' (JObj kvs) = JObj [(''defaults'', JObj (agent_defaults g req))]"
    by (simp add: object_member_def kvs(4))
  ultimately show ?thesis
    unfolding primary_model_def kvs(1) by (simp add: object_member_def json_get_def agent_defaults_def)
qed

end
