(* ===== verification/Initializer_Properties.thy ===== *)
theory Initializer_Properties
  imports Initializer Higress_Properties
begin

text \<open>
  The bootstrap comes to an end whatever the services do, and leaves the authorizations of an existing
  AI route alone.
\<close>

section \<open>Time\<close>

definition steady :: "('w \<Rightarrow> int) \<Rightarrow> ('w, 'a) state \<Rightarrow> bool" where
  "steady now f \<longleftrightarrow> (\<forall>w. now w \<le> now (snd (run_state f w)))"

definition returns :: "('w, 'a option) state \<Rightarrow> bool" where
  "returns f \<longleftrightarrow> (\<forall>w. fst (run_state f w) \<noteq> None)"

text \<open>A wait that is not cancelled takes as long as asked for.\<close>

locale running_clock =
  fixes i :: "'w initializer" and now :: "'w \<Rightarrow> int"
  assumes clock: "run_state (ini_now i) w = (now w, w)"
    and waits: "run_state (ini_wait i d) w = (None, w') \<Longrightarrow> now w + d \<le> now w'"
begin

lemma retry_until_ends:
  assumes "steady now f" "deadline < now w + retry_interval * int n"
  shows "fst (run_state (retry_until (Suc n) i deadline f) w) \<noteq> None"
  using assms(2)
proof (induction n arbitrary: w)
  case 0
  obtain r v where r: "run_state f w = (r, v)" by fastforce
  then have "deadline < now v" using 0 assms(1) by (auto simp: steady_def dest: spec [of _ w])
  then show ?case using r by (simp add: clock split: option.split)
next
  case (Suc n)
  obtain r v where r: "run_state f w = (r, v)" by fastforce
  then have v: "now w \<le> now v" using assms(1) by (auto simp: steady_def dest: spec [of _ w])
  obtain c u where c: "run_state (ini_wait i retry_interval) v = (c, u)" by fastforce
  have "deadline < now u + retry_interval * int n" if "c = None"
    using waits [of retry_interval v u] c that v Suc.prems by (simp add: algebra_simps)
  then show ?case
    using r c Suc.IH [of u] by (auto simp del: retry_until.simps simp: retry_until.simps(2) [of "Suc n"] clock split: option.split)
qed

lemma retry_ends: "steady now f \<Longrightarrow> returns (retry i f)"
proof -
  assume f: "steady now f"
  have n: "retry_rounds = Suc 101" by (simp add: retry_rounds_def retry_timeout_def retry_interval_def)
  have "now w + retry_timeout < now w + retry_interval * int 101" for w
    by (simp add: retry_timeout_def retry_interval_def)
  from retry_until_ends [OF f this] show ?thesis by (simp add: returns_def retry_def clock n del: retry_until.simps)
qed

text \<open>A check that always fails is given up, but not before the timeout.\<close>

lemma retry_until_gives_up:
  assumes "\<And>v. fst (run_state f v) = Some e" "\<And>v d. fst (run_state (ini_wait i d) v) = None"
    and "run_state (retry_until n i deadline f) w = (Some r, w')"
  shows "r = Some (Wrap ''timed out after 5m0s'' e) \<and> deadline < now w'"
  using assms(3)
proof (induction n arbitrary: w)
  case (Suc n)
  obtain v where v: "run_state f w = (Some e, v)" using assms(1) [of w] by (metis prod.collapse)
  obtain u where u: "run_state (ini_wait i retry_interval) v = (None, u)"
    using assms(2) [of retry_interval v] by (metis prod.collapse)
  show ?case using Suc v u by (auto simp: clock split: if_splits)
qed simp

end

lemma run_step:
  "run_state (step what f k) w = (case run_state f w of
     (None, v) \<Rightarrow> (None, v) | (Some (Some e), v) \<Rightarrow> (Some (Some (Wrap what e)), v) | (Some None, v) \<Rightarrow> run_state k v)"
  by (auto simp: step_def split: prod.splits option.splits)

lemma returns_step: "returns f \<Longrightarrow> returns k \<Longrightarrow> returns (step what f k)"
  by (simp add: returns_def run_step split: prod.splits option.splits) (metis fst_conv option.distinct(1))

lemma returns_ends: "returns (ends f)"
  by (simp add: returns_def ends_def split_beta)

lemma returns_bind: "(\<And>x. returns (g x)) \<Longrightarrow> returns (f \<bind> g)"
  by (simp add: returns_def split_beta)

lemma returns_return: "returns (State_Monad.return (Some x))"
  by (simp add: returns_def)

lemma returns_resources: "returns (init_resources i)"
  by (simp add: init_resources_def Let_def returns_step returns_ends returns_bind returns_return)

text \<open>A clock counted up by the waits, and services that are down for good.\<close>

definition tick_state :: "int \<Rightarrow> (int, unit) state" where
  "tick_state d = State (\<lambda>t. ((), t + max 0 d))"

definition down_store :: "int storage_client" where
  "down_store = \<lparr>so_get = \<lambda>k. State_Monad.return (Inl (Err ''down'')), so_put = \<lambda>k d. State_Monad.return (Some (Err ''down'')),
     so_stat = \<lambda>k. State_Monad.return (Some (Err ''down'')), so_delete = \<lambda>k. State_Monad.return (Some (Err ''down'')),
     so_list = \<lambda>k. State_Monad.return (Inl (Err ''down'')), so_delete_prefix = \<lambda>k. State_Monad.return (Some (Err ''down''))\<rparr>"

definition ticking :: "int storage_client \<Rightarrow> int matrix_ops \<Rightarrow> int migrator \<Rightarrow> init_config \<Rightarrow> int initializer" where
  "ticking s m g c =
     \<lparr>ini_oss = s, ini_ensure_bucket = None, ini_matrix = m, ini_gateway = None, ini_now = State (\<lambda>t. (t, t)),
      ini_wait = \<lambda>d. do { _ \<leftarrow> tick_state d; State_Monad.return None }, ini_sleep = tick_state, ini_connect = None,
      ini_get_manager = \<lambda>ns n. State_Monad.return None, ini_create_manager = \<lambda>ns d. State_Monad.return None,
      ini_migrator = g, ini_config = c\<rparr>"

interpretation ticking: running_clock "ticking s m g c" "\<lambda>t. t"
  by unfold_locales (auto simp: ticking_def tick_state_def)

text \<open>C29. The bootstrap always comes to an end, with a result or an error, whatever the object store, Matrix, the
  gateway and the cluster answer: as long as the clock is not turned back, the 102 rounds the model
  allows a wait for a service are enough. A store that never answers makes it fail with the last error
  of the store, after more than five minutes.\<close>

theorem bootstrap_ends:
  assumes "running_clock i now" "steady now (oss_check i)" "steady now (matrix_check i)"
    and "\<And>g. ini_gateway i = Some g \<Longrightarrow> steady now (gi_healthy g)"
  shows "\<exists>r w'. run_state (run_initializer i) w = (Some r, w') \<and>
    ((\<forall>v. fst (run_state (oss_check i) v) = Some e) \<and> (\<forall>v d. fst (run_state (ini_wait i d) v) = None) \<longrightarrow>
       r = Some (Wrap ''OSS not ready'' (Wrap ''timed out after 5m0s'' e)) \<and> now w + retry_timeout < now w')"
proof -
  note ends = running_clock.retry_ends [OF assms(1)]
  have gateway: "returns (init_gateway i (init_resources i))"
  proof (cases "ini_gateway i")
    case None
    then show ?thesis by (simp add: init_gateway_def returns_resources)
  next
    case (Some g)
    then show ?thesis
      by (simp add: init_gateway_def wait_for_gateway_def returns_step returns_ends returns_resources ends assms(4))
  qed
  have oss: "returns (wait_for_oss i)" and matrix: "returns (wait_for_matrix i)"
    using assms(2,3) by (simp_all add: wait_for_oss_def wait_for_matrix_def ends)
  have "returns (run_initializer i)"
    unfolding run_initializer_def by (intro returns_step returns_ends gateway oss matrix)
  then have rest: "fst (run_state (run_initializer i) w) \<noteq> None" by (simp add: returns_def)
  obtain r v where r: "run_state (wait_for_oss i) w = (Some r, v)"
    using oss unfolding returns_def by (metis not_None_eq prod.collapse)
  have "r = Some (Wrap ''timed out after 5m0s'' e) \<and> now w + retry_timeout < now v"
    if "\<forall>v. fst (run_state (oss_check i) v) = Some e" "\<forall>v d. fst (run_state (ini_wait i d) v) = None"
    using running_clock.retry_until_gives_up [OF assms(1), of "oss_check i" e retry_rounds "now w + retry_timeout" w r v] that r
    by (simp add: wait_for_oss_def retry_def running_clock.clock [OF assms(1)])
  moreover have "run_state (run_initializer i) w = (Some (Some (Wrap ''OSS not ready'' x)), v)" if "r = Some x" for x
    using r that unfolding run_initializer_def run_step [of "''OSS not ready''"] by simp
  moreover obtain r1 u where "run_state (run_initializer i) w = (Some r1, u)"
    using rest by (metis not_None_eq prod.collapse)
  ultimately show ?thesis by auto
qed

definition idle_config :: init_config where
  "idle_config = \<lparr>ic_manager_enabled = False, ic_manager_model = [], ic_manager_runtime = [], ic_manager_image = [],
     ic_manager_resources = None, ic_admin_user = [], ic_admin_password = [], ic_namespace = [], ic_embedded = False,
     ic_agent_fs_dir = [], ic_controller_name = [], ic_gateway_provider = [], ic_storage_provider = [], ic_llm_provider = [],
     ic_llm_api_key = [], ic_openai_base_url = [], ic_stream_idle_timeout = 0, ic_tuwunel_url = [], ic_element_web_url = []\<rparr>"

definition down_matrix :: "int matrix_ops" where
  "down_matrix = undefined\<lparr>mo_login := \<lambda>n p. State_Monad.return (Inl (Err ''down''))\<rparr>"

definition down_bootstrap :: "int initializer" where
  "down_bootstrap = ticking down_store down_matrix undefined idle_config"

lemma bootstrap_ends_witness:
  "\<exists>w'. run_state (run_initializer down_bootstrap) 0 =
    (Some (Some (Wrap ''OSS not ready'' (Wrap ''timed out after 5m0s'' (Err ''down'')))), w') \<and> 300000 < w'"
proof -
  have clock: "running_clock down_bootstrap (\<lambda>t. t)"
    using ticking.running_clock_axioms by (simp add: down_bootstrap_def)
  have down: "run_state (oss_check down_bootstrap) w = (Some (Err ''down''), w)" for w
    by (simp add: down_bootstrap_def oss_check_def list_bucket_def ticking_def down_store_def run_results)
  have waits: "fst (run_state (ini_wait down_bootstrap d) w) = None" for d w
    by (simp add: down_bootstrap_def ticking_def tick_state_def)
  have "steady (\<lambda>t. t) (oss_check down_bootstrap)" using down by (simp add: steady_def)
  moreover have "steady (\<lambda>t. t) (matrix_check down_bootstrap)"
    by (simp add: steady_def matrix_check_def ticking_def down_bootstrap_def down_matrix_def)
  moreover have "ini_gateway down_bootstrap = None"
    by (simp add: ticking_def down_bootstrap_def)
  ultimately show ?thesis
    using bootstrap_ends [OF clock, where e = "Err ''down''" and w = 0] down waits by (auto simp: retry_timeout_def)
qed

section \<open>Routes\<close>

text \<open>A console keeps AI routes: only writes below their path change them, and it answers 404 for
  a route that does not exist only.\<close>

definition writes_ai_routes :: "'w higress_client \<Rightarrow> console_request \<Rightarrow> bool" where
  "writes_ai_routes c q \<longleftrightarrow> cq_method q \<noteq> ''GET'' \<and>
     (\<exists>n. cq_url q = trim_right (\<lambda>x. x = CHR ''/'') (hg_console_url (hx_config c)) @ ''/v1/ai/routes'' @ n)"

lemma trim_right_split: "\<exists>t. u = trim_right f u @ t \<and> (\<forall>y \<in> set t. f y)"
proof (intro exI [of _ "rev (takeWhile f (rev u))"] conjI ballI)
  show "u = trim_right f u @ rev (takeWhile f (rev u))"
    unfolding trim_right_def by (metis rev_append rev_rev_ident takeWhile_dropWhile_id)
qed (auto dest: set_takeWhileD)

locale ai_route_console =
  fixes c :: "'w higress_client" and route :: "'w \<Rightarrow> string \<Rightarrow> json option"
  assumes others: "\<not> writes_ai_routes c q \<Longrightarrow> route (snd (run_state (hx_send c q) w)) = route w"
    and not_found: "run_state (hx_send c (console_call c ''GET'' (ai_route_path n) cookies Body_None)) w = (Inr r, w') \<Longrightarrow>
        rp_status r = 404 \<Longrightarrow> route w n = None"
begin

definition at :: "'w higress_state \<Rightarrow> string \<Rightarrow> json option" where
  "at s = route (hgs_world s)"

text \<open>With the route \<open>n\<close> in place, all routes stay as they are.\<close>

definition keeps :: "string \<Rightarrow> ('w higress_state, 'a) state \<Rightarrow> bool" where
  "keeps n f \<longleftrightarrow> (\<forall>s. at s n \<noteq> None \<longrightarrow> at (snd (run_state f s)) = at s)"

lemma console_return [simp]: "keeps n (State_Monad.return x)"
  by (simp add: keeps_def)

lemma console_bind: "keeps n f \<Longrightarrow> (\<And>x. keeps n (g x)) \<Longrightarrow> keeps n (f \<bind> g)"
  unfolding keeps_def by (simp add: split_beta)

lemma keeps_results:
  "keeps n f \<Longrightarrow> (\<And>x. keeps n (g x)) \<Longrightarrow> keeps n (use_state f g)"
  "keeps n f \<Longrightarrow> (\<And>x. keeps n (k x)) \<Longrightarrow> keeps n (try_state f k)"
  "keeps n e \<Longrightarrow> keeps n h \<Longrightarrow> keeps n (check_state e h)"
  "keeps n f \<Longrightarrow> keeps n (wrap_result what f)"
  by (auto simp: use_state_def try_state_def check_state_def wrap_result_def intro!: console_bind split: sum.splits option.splits)

lemma keeps_error: "keeps n e \<Longrightarrow> keeps n (wrap_error what e)"
  by (auto simp: wrap_error_def intro!: console_bind)

lemma keeps_cookies [simp]: "keeps n current_cookies" "keeps n (set_cookies cs)"
  by (simp_all add: keeps_def at_def current_cookies_def set_cookies_def modify_state_def)

lemma keeps_exchange:
  assumes "m \<noteq> ''GET'' \<Longrightarrow> \<forall>k. url \<noteq> trim_right (\<lambda>x. x = CHR ''/'') (hg_console_url (hx_config c)) @ ''/v1/ai/routes'' @ k"
  shows "keeps n (exchange c w m url cookies body)"
proof -
  have "route (snd (run_state (hx_send c \<lparr>cq_method = m, cq_url = url, cq_cookies = cookies, cq_body = body\<rparr>) v)) = route v" for v
    by (rule others) (use assms in \<open>auto simp: writes_ai_routes_def\<close>)
  then show ?thesis
    by (auto simp: exchange_def keeps_def at_def on_console_def split_beta split: option.splits)
qed

lemma keeps_then: "keeps n e \<Longrightarrow> keeps n h \<Longrightarrow> keeps n (then_step e h)"
  by (auto simp: then_step_def intro!: console_bind split: option.splits)

text \<open>The paths of the session, which follow the console's address as it is written.\<close>

lemma session_url:
  assumes "x \<noteq> CHR ''v''" "x \<noteq> CHR ''/''"
  shows "u @ CHR ''/'' # x # p \<noteq> trim_right (\<lambda>x. x = CHR ''/'') u @ CHR ''/'' # CHR ''v'' # k"
proof
  assume eq: "u @ CHR ''/'' # x # p = trim_right (\<lambda>x. x = CHR ''/'') u @ CHR ''/'' # CHR ''v'' # k"
  obtain b t where u: "trim_right (\<lambda>x. x = CHR ''/'') u = b" "u = b @ t" "\<forall>y \<in> set t. y = CHR ''/''"
    using trim_right_split [of u "\<lambda>x. x = CHR ''/''"] by blast
  have "t @ CHR ''/'' # x # p = CHR ''/'' # CHR ''v'' # k"
    using eq unfolding u(1) unfolding u(2) by simp
  then show False using u(3) assms by (cases t; cases "tl t") auto
qed

lemma keeps_login: "keeps n (login_locked c u p)"
  unfolding login_locked_def
  by (intro keeps_results keeps_exchange) (auto simp: session_url intro!: console_bind)

lemma keeps_change: "keeps n (change_password_locked c a b)"
  unfolding change_password_locked_def
  by (intro keeps_results console_bind keeps_exchange keeps_cookies console_return) (simp add: session_url)

lemma keeps_session: "keeps n (ensure_session c)"
  unfolding ensure_session_def recover_default_admin_def Let_def
  by (auto intro!: console_bind keeps_results keeps_exchange keeps_then keeps_error keeps_login keeps_change simp: session_url
      split: option.splits)

lemma keeps_do:
  assumes "m \<noteq> ''GET'' \<Longrightarrow> \<forall>k. path \<noteq> ''/v1/ai/routes'' @ k"
  shows "keeps n (console_do c m path body)"
  unfolding console_do_def
  by (intro keeps_results keeps_session console_bind keeps_cookies keeps_exchange) (use assms in auto)

lemma keeps_expect:
  "(m \<noteq> ''GET'' \<Longrightarrow> \<forall>k. path \<noteq> ''/v1/ai/routes'' @ k) \<Longrightarrow> keeps n (expect c what m path body ok)"
  unfolding expect_def by (intro keeps_results keeps_do console_return)

lemma keeps_infra:
  "keeps n (ensure_service_source c a b p q)" "keeps n (ensure_static_service_source c a b p)"
  "keeps n (ensure_route c a ds b p q)" "keeps n (higress_delete_route c a)" "keeps n (ensure_ai_provider c r)"
  by (auto simp: ensure_service_source_def ensure_static_service_source_def ensure_route_def higress_delete_route_def
      delete_route_def delete_quietly_def ensure_ai_provider_def intro!: keeps_expect console_bind keeps_do)

lemma keeps_idle: "keeps n (ensure_stream_idle_timeout c t)"
  unfolding ensure_stream_idle_timeout_def Let_def
  by (auto intro!: keeps_results keeps_do split: sum.splits json.splits bool.splits)

lemma keeps_ai_route: "keeps (arr_name r) (ensure_ai_route c r)"
proof -
  let ?get = "console_do c ''GET'' (ai_route_path (arr_name r)) None"
  have get: "at (snd (run_state ?get s)) = at s" if "at s (arr_name r) \<noteq> None" for s
    using keeps_do [of "''GET''" "ai_route_path (arr_name r)" "arr_name r" None] that by (simp add: keeps_def)
  have found: "rp_status q \<noteq> 404" if there: "at s (arr_name r) \<noteq> None" and got: "run_state ?get s = (Inr q, s')" for s s' q
  proof
    assume missing: "rp_status q = 404"
    obtain e v where v: "run_state (ensure_session c) s = (e, v)" by fastforce
    then have "at v = at s" using keeps_session [of "arr_name r"] there by (metis keeps_def snd_conv)
    then have "route (hgs_world v) (arr_name r) \<noteq> None" using there by (simp add: at_def)
    moreover obtain w where sent: "run_state (hx_send c (console_call c ''GET'' (ai_route_path (arr_name r)) (hgs_cookies v) Body_None)) (hgs_world v) = (Inr q, w)"
      using got v
      by (auto simp: console_do_def run_results current_cookies_def exchange_def on_console_def console_call_def
          split: option.splits sum.splits prod.splits if_splits)
    ultimately show False using not_found [OF sent missing] by simp
  qed
  show ?thesis
    unfolding keeps_def
  proof (intro allI impI)
    fix s assume s: "at s (arr_name r) \<noteq> None"
    obtain q s' where q: "run_state ?get s = (q, s')" by fastforce
    then show "at (snd (run_state (ensure_ai_route c r) s)) = at s"
      using get [OF s] found [OF s, of _ s'] by (cases q) (auto simp: ensure_ai_route_def run_results Let_def)
  qed
qed

lemma keeps_logged: "keeps n f \<Longrightarrow> keeps n (logged f)"
  by (simp add: logged_def console_bind)

lemma keeps_services: "keeps n (service_routes (higress_infra c) b source name host port path)"
  by (simp add: service_routes_def higress_infra_def keeps_infra keeps_logged console_bind)

lemma keeps_openai:
  assumes "\<And>d. keeps n (ini_sleep i d)"
  shows "keeps n (openai_provider i (higress_infra c) p)"
  using assms
  by (auto simp: openai_provider_def Let_def higress_infra_def intro!: console_bind keeps_logged keeps_infra split: sum.splits)

lemma keeps_llm:
  assumes "\<And>d. keeps ''default-ai-route'' (ini_sleep i d)"
  shows "keeps ''default-ai-route'' (init_llm i (higress_infra c))"
proof -
  have "keeps ''default-ai-route'' (logged (gi_ensure_ai_route (higress_infra c)
      \<lparr>arr_name = ''default-ai-route'', arr_path_prefix = ''/v1'', arr_provider = p\<rparr>))" for p
    using keeps_ai_route [of "\<lparr>arr_name = ''default-ai-route'', arr_path_prefix = ''/v1'', arr_provider = p\<rparr>"]
    by (simp add: keeps_logged higress_infra_def)
  moreover have "keeps n (logged (gi_ensure_idle_timeout (higress_infra c) t))"
    "keeps n (logged (gi_ensure_ai_provider (higress_infra c) q))" for n t q
    by (simp_all add: keeps_logged keeps_idle keeps_infra higress_infra_def)
  ultimately show ?thesis
    using keeps_openai [of "''default-ai-route''", OF assms] by (simp add: init_llm_def Let_def console_bind)
qed

lemma keeps_routes:
  assumes "\<And>d. keeps ''default-ai-route'' (ini_sleep i d)"
  shows "keeps ''default-ai-route'' (init_gateway_routes i (higress_infra c))"
proof -
  have "keeps n (logged (gi_delete_route (higress_infra c) a))" for n a
    by (simp add: keeps_logged keeps_infra higress_infra_def)
  moreover have "keeps n (init_element i (higress_infra c))" for n
    by (auto simp: init_element_def keeps_services split: sum.splits)
  ultimately show ?thesis
    using keeps_llm [OF assms]
    by (auto simp: init_gateway_routes_def Let_def intro!: console_bind keeps_services split: sum.splits)
qed

end

text \<open>C30. A restart never takes an authorization away: on a console where the default AI route exists, the
  gateway part of the bootstrap (service sources, routes, LLM provider, idle timeout, the route's
  skeleton, the removal of the landing page, with a login where the session has none) leaves every
  AI route, and with it every list of allowed consumers, as it is, whatever the console answers.\<close>

theorem bootstrap_keeps_authorizations:
  assumes "ai_route_console c route" "\<And>d s. hgs_world (snd (run_state (ini_sleep i d) s)) = hgs_world s"
    and "route (hgs_world s) ''default-ai-route'' \<noteq> None"
  shows "route (hgs_world (snd (run_state (init_gateway_routes i (higress_infra c)) s))) = route (hgs_world s)"
proof -
  have "ai_route_console.keeps route ''default-ai-route'' (ini_sleep i d)" for d
    using assms(2) by (simp add: ai_route_console.keeps_def [OF assms(1)] ai_route_console.at_def [OF assms(1)])
  from ai_route_console.keeps_routes [OF assms(1) this] show ?thesis
    using assms(3) by (simp add: ai_route_console.keeps_def [OF assms(1)] ai_route_console.at_def [OF assms(1)])
qed

text \<open>A console in memory that keeps the AI routes created on it.\<close>

definition route_store_send :: "console_request \<Rightarrow> (string \<times> json) list \<Rightarrow> console_reply result \<times> (string \<times> json) list" where
  "route_store_send q w =
     (let n = drop (length (memory_url @ ''/v1/ai/routes/'')) (cq_url q);
          ok = (console_ok (JObj []))\<lparr>cr_cookies := [''session'']\<rparr>
      in if cq_method q = ''GET''
         then (Inr (if map_of w n = None then ok\<lparr>rp_status := 404\<rparr> else ok), w)
         else (case (has_prefix (cq_url q) (memory_url @ ''/v1/ai/routes''), cq_body q) of
                 (True, Body_Json (JObj kvs)) \<Rightarrow> (Inr ok, AList.update (text_member kvs ''name'') (JObj kvs) w)
               | _ \<Rightarrow> (Inr ok, w)))"

definition route_store_console :: "(string \<times> json) list higress_client" where
  "route_store_console =
     \<lparr>hx_config = hx_config memory_console, hx_build = \<lambda>_. None, hx_send = \<lambda>q. State (route_store_send q),
      hx_cancelled = State_Monad.return None\<rparr>"

lemma memory_base: "trim_right (\<lambda>x. x = CHR ''/'') (hg_console_url (hx_config route_store_console)) = memory_url"
  by code_simp

interpretation route_store: ai_route_console route_store_console map_of
proof
  fix q :: console_request and w :: "(string \<times> json) list"
  assume "\<not> writes_ai_routes route_store_console q"
  then have "cq_method q = ''GET'' \<or> \<not> has_prefix (cq_url q) (memory_url @ ''/v1/ai/routes'')"
    unfolding writes_ai_routes_def memory_base by (auto simp: has_prefix_conv)
  then show "map_of (snd (run_state (hx_send route_store_console q) w)) = map_of w"
    by (auto simp: route_store_console_def route_store_send_def Let_def)
next
  fix n cookies r and w w' :: "(string \<times> json) list"
  assume "run_state (hx_send route_store_console (console_call route_store_console ''GET'' (ai_route_path n) cookies Body_None)) w =
      (Inr r, w')" "rp_status r = 404"
  then show "map_of w n = None"
    unfolding console_call_def memory_base memory_path
    by (auto simp: route_store_console_def route_store_send_def console_ok_def Let_def split: if_splits)
qed

definition local_bootstrap :: "(string \<times> json) list higress_state initializer" where
  "local_bootstrap = undefined\<lparr>ini_sleep := \<lambda>d. State_Monad.return (), ini_config := idle_config
     \<lparr>ic_llm_api_key := ''key'', ic_tuwunel_url := ''http://10.0.0.1:6167''\<rparr>\<rparr>"

lemma bootstrap_keeps_authorizations_witness:
  "map_of (hgs_world (snd (run_state (init_gateway_routes local_bootstrap (higress_infra route_store_console))
     \<lparr>hgs_world = [(''default-ai-route'', JObj [(''allowed'', JStr ''bob'')])], hgs_cookies = []\<rparr>))) ''default-ai-route'' =
   Some (JObj [(''allowed'', JStr ''bob'')])"
proof -
  have "hgs_world (snd (run_state (ini_sleep local_bootstrap d) s)) = hgs_world s" for d s
    by (simp add: local_bootstrap_def)
  from bootstrap_keeps_authorizations [OF route_store.ai_route_console_axioms this,
    of "\<lparr>hgs_world = [(''default-ai-route'', JObj [(''allowed'', JStr ''bob'')])], hgs_cookies = []\<rparr>"] show ?thesis by simp
qed

end
