(* ===== verification/File_Watcher.thy ===== *)
theory File_Watcher
  imports Api_Types Storage Go_Results Matrix_Client "HOL-Library.Word"
begin

text \<open>
  \<open>internal/watcher/file_watcher.go\<close>: the directory of YAML files that an embedded controller mirrors
  into the cluster. Decoding YAML, the hash and the typed client are operations of the watcher; the
  file system notifications are a list of events. The state is the world with the hashes.
\<close>

unbundle bit_operations_syntax

section \<open>The watcher\<close>

text \<open>What the watcher needs of one kind of resource.\<close>

record ('w, 'r) watched_kind =
  wk_decode :: "string \<Rightarrow> 'r result"
  wk_get :: "string \<Rightarrow> string \<Rightarrow> ('w, 'r result) state"
  wk_create :: "'r \<Rightarrow> ('w, go_error option) state"
  wk_update :: "'r \<Rightarrow> ('w, go_error option) state"
  wk_delete :: "string \<Rightarrow> string \<Rightarrow> ('w, go_error option) state"

record 'w file_watcher =
  fw_dir :: string
  fw_read :: "string \<Rightarrow> ('w, string result) state"
  fw_walk :: "('w, walk_item list) state"
  fw_mkdir_all :: "string \<Rightarrow> ('w, go_error option) state"
  fw_notify :: "('w, go_error option) state"
  fw_hash :: "string \<Rightarrow> string"
  fw_workers :: "('w, worker) watched_kind"
  fw_teams :: "('w, team) watched_kind"
  fw_humans :: "('w, human) watched_kind"

record 'w watch_state =
  ws_world :: 'w
  ws_hashes :: smap

definition on_cluster :: "('w, 'a) state \<Rightarrow> ('w watch_state, 'a) state" where
  "on_cluster m = State (\<lambda>s. case run_state m (ws_world s) of (a, w) \<Rightarrow> (a, s\<lparr>ws_world := w\<rparr>))"

section \<open>Paths and contents\<close>

text \<open>\<open>filepath.Rel\<close> for paths below the directory; outside it the first part would be \<open>..\<close>.\<close>

definition path_below :: "string \<Rightarrow> string \<Rightarrow> string option" where
  "path_below dir path =
     (if has_prefix path (dir @ ''/'') then Some (drop (length dir + 1) path) else None)"

text \<open>\<open>filepath.Ext\<close> of a name without slashes.\<close>

definition file_ext :: "string \<Rightarrow> string" where
  "file_ext name = (case str_last_index name ''.'' of None \<Rightarrow> [] | Some i \<Rightarrow> drop i name)"

definition kind_of_dir :: "string \<Rightarrow> string" where
  "kind_of_dir d =
     (if d = ''workers'' then ''worker'' else if d = ''teams'' then ''team''
      else if d = ''humans'' then ''human'' else [])"

definition parse_path_kind_name :: "string \<Rightarrow> string \<Rightarrow> string \<times> string" where
  "parse_path_kind_name path dir =
     (case path_below dir path of
        None \<Rightarrow> ([], [])
      | Some rel \<Rightarrow>
          (case split_on (CHR ''/'') rel of
             [d, f] \<Rightarrow>
               (if kind_of_dir d = [] then ([], []) else (kind_of_dir d, trim_suffix f (file_ext f)))
           | _ \<Rightarrow> ([], [])))"

definition is_yaml_file :: "string \<Rightarrow> bool" where
  "is_yaml_file path \<longleftrightarrow> has_suffix path ''.yaml'' \<or> has_suffix path ''.yml''"

text \<open>The lines outside the status block.\<close>

fun spec_lines :: "bool \<Rightarrow> string list \<Rightarrow> string list" where
  "spec_lines in_status [] = []"
| "spec_lines in_status (l # ls) =
     (if has_prefix l ''status:'' then spec_lines True ls
      else if in_status \<and> (l = [] \<or> hd l = CHR '' '' \<or> hd l = CHR 0x09) then spec_lines True ls
      else l # spec_lines False ls)"

definition hash_spec_portion :: "(string \<Rightarrow> string) \<Rightarrow> string \<Rightarrow> string" where
  "hash_spec_portion hash data =
     hash (join_with [CHR 0x0A] (spec_lines False (split_on (CHR 0x0A) data)))"

section \<open>One file\<close>

definition default_namespace :: "object_meta \<Rightarrow> object_meta" where
  "default_namespace m = (if om_namespace m = [] then m\<lparr>om_namespace := ''default''\<rparr> else m)"

text \<open>Any error of the read leads to a creation; an existing resource gets the specification only.\<close>

definition upsert_resource ::
  "('w, 'r) watched_kind \<Rightarrow> ('r \<Rightarrow> object_meta) \<Rightarrow> (object_meta \<Rightarrow> 'r \<Rightarrow> 'r) \<Rightarrow> ('r \<Rightarrow> 'r \<Rightarrow> 'r) \<Rightarrow> string \<Rightarrow>
   string \<Rightarrow> string \<Rightarrow> ('w, go_error option) state" where
  "upsert_resource k meta with_meta with_spec what name data =
     (case wk_decode k data of
        Inl e \<Rightarrow> State_Monad.return (Some (Wrap (''parse '' @ what @ '' YAML'') e))
      | Inr r0 \<Rightarrow>
          (let r = with_meta (default_namespace ((meta r0)\<lparr>om_name := name\<rparr>)) r0 in do {
             got \<leftarrow> wk_get k (om_namespace (meta r)) name;
             (case got of
                Inl e \<Rightarrow> wk_create k r
              | Inr existing \<Rightarrow> wk_update k (with_spec r existing)) }))"

definition upsert_worker :: "'w file_watcher \<Rightarrow> string \<Rightarrow> string \<Rightarrow> ('w, go_error option) state" where
  "upsert_worker w = upsert_resource (fw_workers w) w_meta (\<lambda>m r. r\<lparr>w_meta := m\<rparr>) (\<lambda>r x. x\<lparr>w_spec := w_spec r\<rparr>) ''worker''"

definition upsert_team :: "'w file_watcher \<Rightarrow> string \<Rightarrow> string \<Rightarrow> ('w, go_error option) state" where
  "upsert_team w = upsert_resource (fw_teams w) t_meta (\<lambda>m r. r\<lparr>t_meta := m\<rparr>) (\<lambda>r x. x\<lparr>t_spec := t_spec r\<rparr>) ''team''"

definition upsert_human :: "'w file_watcher \<Rightarrow> string \<Rightarrow> string \<Rightarrow> ('w, go_error option) state" where
  "upsert_human w = upsert_resource (fw_humans w) h_meta (\<lambda>m r. r\<lparr>h_meta := m\<rparr>) (\<lambda>r x. x\<lparr>h_spec := h_spec r\<rparr>) ''human''"

definition upsert_kind :: "'w file_watcher \<Rightarrow> string \<Rightarrow> string \<Rightarrow> string \<Rightarrow> ('w, go_error option) state" where
  "upsert_kind w kind name data =
     (if kind = ''worker'' then upsert_worker w name data
      else if kind = ''team'' then upsert_team w name data
      else upsert_human w name data)"

text \<open>The hash is remembered before the resource is written.\<close>

definition sync_file :: "'w file_watcher \<Rightarrow> string \<Rightarrow> ('w watch_state, go_error option) state" where
  "sync_file w path =
     use_state (wrap_result (''read '' @ path) (on_cluster (fw_read w path))) (\<lambda>data. do {
       s \<leftarrow> State_Monad.get;
       (let h = hash_spec_portion (fw_hash w) data; (kind, name) = parse_path_kind_name path (fw_dir w) in
        if smap_get (ws_hashes s) path = h then State_Monad.return None
        else do {
          _ \<leftarrow> modify_state (\<lambda>s. s\<lparr>ws_hashes := smap_put path h (ws_hashes s)\<rparr>);
          (if kind = [] then State_Monad.return (Some (Err (''cannot determine resource kind from path: '' @ path)))
           else on_cluster (upsert_kind w kind name data)) }) })"

definition ignore_not_found :: "go_error option \<Rightarrow> go_error option" where
  "ignore_not_found e = (case e of Some x \<Rightarrow> if is_api_not_found x then None else e | None \<Rightarrow> None)"

definition handle_delete :: "'w file_watcher \<Rightarrow> string \<Rightarrow> ('w watch_state, go_error option) state" where
  "handle_delete w path = do {
     _ \<leftarrow> modify_state (\<lambda>s. s\<lparr>ws_hashes := AList.delete path (ws_hashes s)\<rparr>);
     (case parse_path_kind_name path (fw_dir w) of
        (kind, name) \<Rightarrow>
          if kind = [] then State_Monad.return None
          else do {
            e \<leftarrow> on_cluster
              (if kind = ''worker'' then wk_delete (fw_workers w) ''default'' name
               else if kind = ''team'' then wk_delete (fw_teams w) ''default'' name
               else wk_delete (fw_humans w) ''default'' name);
            State_Monad.return (ignore_not_found e) }) }"

section \<open>The initial scan\<close>

text \<open>An error of a file is only logged; the scan itself does not fail.\<close>

definition scan_item :: "'w file_watcher \<Rightarrow> walk_item \<Rightarrow> ('w watch_state, unit) state" where
  "scan_item w i =
     (case i of
        Walk_File p \<Rightarrow> if is_yaml_file p then do { _ \<leftarrow> sync_file w p; State_Monad.return () } else State_Monad.return ()
      | Walk_Link p \<Rightarrow> if is_yaml_file p then do { _ \<leftarrow> sync_file w p; State_Monad.return () } else State_Monad.return ()
      | _ \<Rightarrow> State_Monad.return ())"

fun scan_items :: "'w file_watcher \<Rightarrow> walk_item list \<Rightarrow> ('w watch_state, unit) state" where
  "scan_items w [] = State_Monad.return ()"
| "scan_items w (i # is) = do { _ \<leftarrow> scan_item w i; scan_items w is }"

definition initial_sync :: "'w file_watcher \<Rightarrow> ('w watch_state, go_error option) state" where
  "initial_sync w = do {
     is \<leftarrow> on_cluster (fw_walk w);
     _ \<leftarrow> scan_items w is;
     State_Monad.return None }"

section \<open>Notifications\<close>

type_synonym fs_op = "32 word"

definition op_create :: fs_op where "op_create = 1"
definition op_write :: fs_op where "op_write = 2"
definition op_remove :: fs_op where "op_remove = 4"
definition op_rename :: fs_op where "op_rename = 8"
definition op_chmod :: fs_op where "op_chmod = 16"

lemmas op_defs = op_create_def op_write_def op_remove_def op_rename_def op_chmod_def

text \<open>An entry of the map in the order in which the loop visits them; errors are only logged.\<close>

definition process_one :: "'w file_watcher \<Rightarrow> string \<times> fs_op \<Rightarrow> ('w watch_state, unit) state" where
  "process_one w p = do {
     _ \<leftarrow> (if snd p AND (op_remove OR op_rename) \<noteq> 0 then handle_delete w (fst p)
          else if snd p AND (op_create OR op_write) \<noteq> 0 then sync_file w (fst p)
          else State_Monad.return None);
     State_Monad.return () }"

fun process_pending :: "'w file_watcher \<Rightarrow> (string \<times> fs_op) list \<Rightarrow> ('w watch_state, unit) state" where
  "process_pending w [] = State_Monad.return ()"
| "process_pending w (p # ps) = do { _ \<leftarrow> process_one w p; process_pending w ps }"

datatype watch_event =
    Fs_Event string fs_op
  | Debounced
  | Fs_Error go_error
  | Events_Closed
  | Cancelled go_error

text \<open>The loop over the events: the pending operations, of which the latest of a path counts, wait for the
  timer; without a timer \<open>Debounced\<close> cannot happen. The result is that of \<open>Watch\<close>, or \<open>None\<close> while it runs.\<close>

fun watch_loop ::
  "'w file_watcher \<Rightarrow> (string \<times> fs_op) list \<Rightarrow> bool \<Rightarrow> watch_event list \<Rightarrow> ('w watch_state, go_error option option) state" where
  "watch_loop w pending armed [] = State_Monad.return None"
| "watch_loop w pending armed (e # es) =
     (case e of
        Cancelled x \<Rightarrow> State_Monad.return (Some (Some x))
      | Events_Closed \<Rightarrow> State_Monad.return (Some None)
      | Fs_Error x \<Rightarrow> watch_loop w pending armed es
      | Fs_Event path op1 \<Rightarrow>
          if is_yaml_file path then watch_loop w (AList.update path op1 pending) True es
          else watch_loop w pending armed es
      | Debounced \<Rightarrow>
          if armed then do { _ \<leftarrow> process_pending w pending; watch_loop w [] False es }
          else watch_loop w pending armed es)"

definition watched_subdirs :: "string list" where
  "watched_subdirs = ['''', ''workers'', ''teams'', ''humans'']"

definition watch_dirs :: "'w file_watcher \<Rightarrow> string \<Rightarrow> ('w, go_error option) state" where
  "watch_dirs w sub =
     (let dir = (if sub = [] then fw_dir w else fw_dir w @ ''/'' @ sub) in
      wrap_error (''failed to create dir '' @ dir) (fw_mkdir_all w dir))"

definition watch :: "'w file_watcher \<Rightarrow> watch_event list \<Rightarrow> ('w watch_state, go_error option option) state" where
  "watch w es = do {
     e \<leftarrow> on_cluster (then_step (wrap_error ''failed to create fsnotify watcher'' (fw_notify w))
            (each_step (watch_dirs w) watched_subdirs));
     (case e of Some x \<Rightarrow> State_Monad.return (Some (Some x)) | None \<Rightarrow> watch_loop w [] False es) }"

end
