(* ===== verification/Watcher_Properties.thy ===== *)
theory Watcher_Properties
  imports File_Watcher
begin

text \<open>
  What the file watcher does to a cluster that keeps its resources: a synced file carries its
  specification over; a sync that failed is not repeated; of the notifications that arrive for a
  file within the debounce only the last one counts.
\<close>

section \<open>A cluster that keeps one kind of resource\<close>

locale kept_resources =
  fixes k :: "('w, 'r) watched_kind" and meta :: "'r \<Rightarrow> object_meta" and res :: "'w \<Rightarrow> string \<times> string \<Rightarrow> 'r option"
  assumes gets: "\<exists>r. run_state (wk_get k ns n) w = (r, w) \<and> (case res w (ns, n) of Some x \<Rightarrow> r = Inr x | None \<Rightarrow> \<exists>e. r = Inl e)"
    and creates: "res w (om_namespace (meta r), om_name (meta r)) = None \<Longrightarrow>
        \<exists>w'. run_state (wk_create k r) w = (None, w') \<and> res w' = (res w)((om_namespace (meta r), om_name (meta r)) \<mapsto> r)"
    and updates: "res w (om_namespace (meta r), om_name (meta r)) \<noteq> None \<Longrightarrow>
        \<exists>w'. run_state (wk_update k r) w = (None, w') \<and> res w' = (res w)((om_namespace (meta r), om_name (meta r)) \<mapsto> r)"
    and deletes: "\<exists>e w'. run_state (wk_delete k ns n) w = (e, w') \<and> ignore_not_found e = None \<and> res w' = (res w)((ns, n) := None)"
    and keyed: "res w (ns, n) = Some x \<Longrightarrow> om_namespace (meta x) = ns \<and> om_name (meta x) = n"
begin

text \<open>The resource a file asks for, given the one that is there.\<close>

definition applied :: "(object_meta \<Rightarrow> 'r \<Rightarrow> 'r) \<Rightarrow> ('r \<Rightarrow> 'r \<Rightarrow> 'r) \<Rightarrow> string \<Rightarrow> 'r \<Rightarrow> 'r option \<Rightarrow> 'r" where
  "applied with_meta with_spec name r0 old =
     (case old of
        None \<Rightarrow> with_meta (default_namespace ((meta r0)\<lparr>om_name := name\<rparr>)) r0
      | Some x \<Rightarrow> with_spec (with_meta (default_namespace ((meta r0)\<lparr>om_name := name\<rparr>)) r0) x)"

lemma upsert_run:
  assumes "wk_decode k data = Inr r0" "\<And>m r. meta (with_meta m r) = m" "\<And>r x. meta (with_spec r x) = meta x"
  shows "\<exists>w'. run_state (upsert_resource k meta with_meta with_spec what name data) w = (None, w') \<and>
    (let key = (om_namespace (default_namespace (meta r0)), name)
     in res w' = (res w)(key \<mapsto> applied with_meta with_spec name r0 (res w key)))"
proof -
  let ?m = "default_namespace ((meta r0)\<lparr>om_name := name\<rparr>)"
  let ?r = "with_meta ?m r0"
  have key: "om_namespace ?m = om_namespace (default_namespace (meta r0))" "om_name ?m = name"
    by (simp_all add: default_namespace_def)
  show ?thesis
  proof (cases "res w (om_namespace ?m, name)")
    case None
    then obtain w' where "run_state (wk_create k ?r) w = (None, w')" "res w' = (res w)((om_namespace ?m, name) \<mapsto> ?r)"
      using creates [of w ?r] assms(2) key by auto
    then show ?thesis
      using gets [of "om_namespace ?m" name w] None assms key
      by (auto simp: upsert_resource_def Let_def applied_def)
  next
    case (Some x)
    have "om_namespace (meta (with_spec ?r x)) = om_namespace ?m" "om_name (meta (with_spec ?r x)) = name"
      using keyed [OF Some] assms(3) by simp_all
    then obtain w' where "run_state (wk_update k (with_spec ?r x)) w = (None, w')"
        "res w' = (res w)((om_namespace ?m, name) \<mapsto> with_spec ?r x)"
      using updates [of w "with_spec ?r x"] Some by auto
    then show ?thesis
      using gets [of "om_namespace ?m" name w] Some assms key
      by (auto simp: upsert_resource_def Let_def applied_def)
  qed
qed

end

text \<open>A list of resources as a cluster.\<close>

definition meta_key :: "('r \<Rightarrow> object_meta) \<Rightarrow> 'r \<Rightarrow> string \<times> string" where
  "meta_key meta r = (om_namespace (meta r), om_name (meta r))"

definition find_resource :: "('r \<Rightarrow> object_meta) \<Rightarrow> 'r list \<Rightarrow> string \<times> string \<Rightarrow> 'r option" where
  "find_resource meta rs key = List.find (\<lambda>r. meta_key meta r = key) rs"

definition memory_kind :: "('r \<Rightarrow> object_meta) \<Rightarrow> (string \<Rightarrow> 'r result) \<Rightarrow> ('r list, 'r) watched_kind" where
  "memory_kind meta decode =
     \<lparr>wk_decode = decode,
      wk_get = \<lambda>ns n. State (\<lambda>rs. ((case find_resource meta rs (ns, n) of Some r \<Rightarrow> Inr r | None \<Rightarrow> Inl ApiNotFound), rs)),
      wk_create = \<lambda>r. State (\<lambda>rs. if find_resource meta rs (meta_key meta r) = None then (None, r # rs) else (Some ApiAlreadyExists, rs)),
      wk_update = \<lambda>r. State (\<lambda>rs. if find_resource meta rs (meta_key meta r) = None then (Some ApiNotFound, rs) else (None, r # rs)),
      wk_delete = \<lambda>ns n. State (\<lambda>rs.
        ((if find_resource meta rs (ns, n) = None then Some ApiNotFound else None), filter (\<lambda>r. meta_key meta r \<noteq> (ns, n)) rs))\<rparr>"

lemma find_filtered:
  "find_resource meta (filter (\<lambda>r. meta_key meta r \<noteq> key) rs) key' = (if key' = key then None else find_resource meta rs key')"
  by (induction rs) (auto simp: find_resource_def)

interpretation memory_kind: kept_resources "memory_kind meta decode" meta "find_resource meta"
proof
  show "\<exists>r. run_state (wk_get (memory_kind meta decode) ns n) w = (r, w) \<and>
      (case find_resource meta w (ns, n) of Some x \<Rightarrow> r = Inr x | None \<Rightarrow> \<exists>e. r = Inl e)" for ns n w
    by (simp add: memory_kind_def split: option.splits)
  show "\<exists>w'. run_state (wk_create (memory_kind meta decode) r) w = (None, w') \<and>
      find_resource meta w' = (find_resource meta w)((om_namespace (meta r), om_name (meta r)) \<mapsto> r)"
    if "find_resource meta w (om_namespace (meta r), om_name (meta r)) = None" for r w
    using that by (auto simp: memory_kind_def meta_key_def find_resource_def fun_eq_iff)
  show "\<exists>w'. run_state (wk_update (memory_kind meta decode) r) w = (None, w') \<and>
      find_resource meta w' = (find_resource meta w)((om_namespace (meta r), om_name (meta r)) \<mapsto> r)"
    if "find_resource meta w (om_namespace (meta r), om_name (meta r)) \<noteq> None" for r w
    using that by (auto simp: memory_kind_def meta_key_def find_resource_def fun_eq_iff)
  show "\<exists>e w'. run_state (wk_delete (memory_kind meta decode) ns n) w = (e, w') \<and> ignore_not_found e = None \<and>
      find_resource meta w' = (find_resource meta w)((ns, n) := None)" for ns n w
    by (auto simp: memory_kind_def ignore_not_found_def is_api_not_found_def find_filtered fun_eq_iff)
  show "om_namespace (meta x) = ns \<and> om_name (meta x) = n" if "find_resource meta w (ns, n) = Some x" for w ns n x
    using that by (auto simp: find_resource_def meta_key_def find_Some_iff)
qed

section \<open>Paths\<close>

lemma last_index_append: "str_last_index s sub = Some j \<Longrightarrow> str_last_index (n @ s) sub = Some (length n + j)"
  by (induction n) auto

lemma split_one: "c \<notin> set x \<Longrightarrow> split_on c x = [x]"
  by (induction x) auto

definition worker_file :: "string \<Rightarrow> string \<Rightarrow> string" where
  "worker_file dir n = dir @ ''/workers/'' @ n @ ''.yaml''"

lemma parse_worker_path:
  assumes "CHR ''/'' \<notin> set n"
  shows "parse_path_kind_name (worker_file dir n) dir = (''worker'', n)"
proof -
  have "str_last_index ''.yaml'' ''.'' = Some 0" by code_simp
  then have ext: "file_ext (n @ ''.yaml'') = ''.yaml''"
    using last_index_append [of "''.yaml''" "''.''" 0 n] by (simp add: file_ext_def)
  have "path_below dir (dir @ ''/workers/'' @ n @ ''.yaml'') = Some (''workers'' @ CHR ''/'' # n @ ''.yaml'')"
    using has_prefix_conv [of "dir @ ''/workers/'' @ n @ ''.yaml''" "dir @ ''/''"] by (simp add: path_below_def)
  moreover have "split_on (CHR ''/'') (''workers'' @ CHR ''/'' # n @ ''.yaml'') = [''workers'', n @ ''.yaml'']"
    by (subst split_on_line) (use assms in \<open>simp_all add: split_one\<close>)
  moreover have "trim_suffix (n @ ''.yaml'') ''.yaml'' = n" by (simp add: trim_suffix_def has_suffix_def)
  ultimately show ?thesis by (simp add: worker_file_def parse_path_kind_name_def kind_of_dir_def ext)
qed

section \<open>Syncing\<close>

lemma run_modify_state [simp]: "run_state (modify_state f) s = ((), f s)"
  by (simp add: modify_state_def)

lemma run_on_cluster [simp]:
  "run_state (on_cluster m) s = (fst (run_state m (ws_world s)), s\<lparr>ws_world := snd (run_state m (ws_world s))\<rparr>)"
  by (simp add: on_cluster_def split_beta)

lemma run_sync:
  assumes "run_state (fw_read w path) (ws_world s) = (Inr data, v)"
  shows "run_state (sync_file w path) s =
    (let h = hash_spec_portion (fw_hash w) data; s1 = s\<lparr>ws_world := v, ws_hashes := smap_put path h (ws_hashes s)\<rparr> in
     if smap_get (ws_hashes s) path = h then (None, s\<lparr>ws_world := v\<rparr>)
     else case parse_path_kind_name path (fw_dir w) of (kind, name) \<Rightarrow>
       if kind = [] then (Some (Err (''cannot determine resource kind from path: '' @ path)), s1)
       else run_state (on_cluster (upsert_kind w kind name data)) s1)"
  using assms by (simp add: sync_file_def run_results Let_def split: prod.split)

text \<open>A changed file of a worker reaches the cluster: syncing it, when what it says besides its status is new, leaves
  the Worker of the file's name (in the file's namespace or \<open>default\<close>) with the specification of the
  file; an existing Worker keeps everything else, no other resource changes, and the content is
  remembered.\<close>

theorem synced_worker_file:
  assumes "kept_resources (fw_workers w) w_meta res" "CHR ''/'' \<notin> set n"
    and "run_state (fw_read w (worker_file (fw_dir w) n)) v = (Inr data, v)"
    and "wk_decode (fw_workers w) data = Inr r"
    and "smap_get hashes (worker_file (fw_dir w) n) \<noteq> hash_spec_portion (fw_hash w) data"
    and "key = (om_namespace (default_namespace (w_meta r)), n)"
  shows "\<exists>v' x. run_state (sync_file w (worker_file (fw_dir w) n)) \<lparr>ws_world = v, ws_hashes = hashes\<rparr> =
      (None, \<lparr>ws_world = v', ws_hashes = smap_put (worker_file (fw_dir w) n)
         (hash_spec_portion (fw_hash w) data) hashes\<rparr>) \<and>
    res v' = (res v)(key \<mapsto> x) \<and> w_spec x = w_spec r \<and>
    (\<forall>old. res v key = Some old \<longrightarrow> x = old\<lparr>w_spec := w_spec r\<rparr>)"
proof -
  let ?s = "\<lparr>ws_world = v, ws_hashes = hashes\<rparr>"
  obtain v' where v': "run_state (upsert_worker w n data) v = (None, v')"
      "res v' = (res v)(key \<mapsto> kept_resources.applied w_meta (\<lambda>m r. r\<lparr>w_meta := m\<rparr>) (\<lambda>r x. x\<lparr>w_spec := w_spec r\<rparr>) n r (res v key))"
    using kept_resources.upsert_run [OF assms(1,4), of "\<lambda>m r. r\<lparr>w_meta := m\<rparr>" "\<lambda>r x. x\<lparr>w_spec := w_spec r\<rparr>" "''worker''" n v] assms(6)
    by (auto simp: upsert_worker_def Let_def)
  have "run_state (sync_file w (worker_file (fw_dir w) n)) ?s =
      (None, \<lparr>ws_world = v', ws_hashes = smap_put (worker_file (fw_dir w) n)
         (hash_spec_portion (fw_hash w) data) hashes\<rparr>)"
    using run_sync [of w "worker_file (fw_dir w) n" ?s data v] assms(3,5) v'(1)
    by (simp add: parse_worker_path [OF assms(2)] upsert_kind_def Let_def)
  then show ?thesis
    using v'(2) by (auto simp: kept_resources.applied_def [OF assms(1)] split: option.splits)
qed

text \<open>A sync that fails is not made up for: once a file was read, its content counts as synced whatever became of it
  (a malformed document, an unreachable API server, a refused write), and every later sync of the same
  content reports success without touching the cluster, until the file changes or the controller starts
  again.\<close>

theorem failed_sync_not_retried:
  assumes "run_state (fw_read w path) (ws_world s) = (Inr data, v)" "run_state (sync_file w path) s = (Some e, s1)"
    and "ws_hashes s2 = ws_hashes s1" "run_state (fw_read w path) (ws_world s2) = (Inr data2, ws_world s2)"
    and "hash_spec_portion (fw_hash w) data2 = hash_spec_portion (fw_hash w) data"
  shows "run_state (sync_file w path) s2 = (None, s2)"
proof -
  let ?h = "hash_spec_portion (fw_hash w) data"
  have "ws_hashes s1 = smap_put path ?h (ws_hashes s)"
    using assms(2) unfolding run_sync [OF assms(1)] by (auto simp: Let_def split: prod.splits if_splits)
  then have "smap_get (ws_hashes s2) path = ?h" by (simp add: assms(3))
  then show ?thesis using run_sync [OF assms(4)] assms(5) by (simp add: Let_def)
qed

text \<open>
  The first scan runs before the caches are started: reading an existing resource fails, the creation
  is refused, and an edit made while the controller was down is lost, since its content is remembered.
\<close>

lemma start_loses_offline_edit:
  assumes "CHR ''/'' \<notin> set n" "path = worker_file (fw_dir w) n"
    and "\<And>u. run_state (fw_read w path) u = (Inr data, u)" "wk_decode (fw_workers w) data = Inr r"
    and "smap_get hashes path \<noteq> hash_spec_portion (fw_hash w) data"
    and "\<And>ns. run_state (wk_get (fw_workers w) ns n) v = (Inl e, v)"
    and "\<And>q. run_state (wk_create (fw_workers w) q) v = (Some ApiAlreadyExists, v)"
  shows "\<exists>hs. run_state (sync_file w path) \<lparr>ws_world = v, ws_hashes = hashes\<rparr> =
      (Some ApiAlreadyExists, \<lparr>ws_world = v, ws_hashes = hs\<rparr>) \<and>
    (\<forall>u. run_state (sync_file w path) \<lparr>ws_world = u, ws_hashes = hs\<rparr> = (None, \<lparr>ws_world = u, ws_hashes = hs\<rparr>))"
proof -
  let ?h = "hash_spec_portion (fw_hash w) data"
  have "run_state (upsert_worker w n data) v = (Some ApiAlreadyExists, v)"
    by (simp add: upsert_worker_def upsert_resource_def assms(4,6,7) Let_def)
  then have "run_state (sync_file w path) \<lparr>ws_world = v, ws_hashes = hashes\<rparr> =
      (Some ApiAlreadyExists, \<lparr>ws_world = v, ws_hashes = smap_put path ?h hashes\<rparr>)"
    using run_sync [of w path "\<lparr>ws_world = v, ws_hashes = hashes\<rparr>" data v] assms(3,5)
    by (simp add: parse_worker_path [OF assms(1)] assms(2) upsert_kind_def Let_def)
  moreover have "run_state (sync_file w path) \<lparr>ws_world = u, ws_hashes = smap_put path ?h hashes\<rparr> =
      (None, \<lparr>ws_world = u, ws_hashes = smap_put path ?h hashes\<rparr>)" for u
    using run_sync [of w path "\<lparr>ws_world = u, ws_hashes = smap_put path ?h hashes\<rparr>" data u] assms(3) by (simp add: Let_def)
  ultimately show ?thesis by blast
qed

text \<open>The resource of a file that names a namespace outlives its file.\<close>

lemma deletion_misses_namespace:
  assumes "kept_resources (fw_workers w) w_meta res" "CHR ''/'' \<notin> set n" "res (ws_world s) (ns, n) = Some x" "ns \<noteq> ''default''"
  shows "res (ws_world (snd (run_state (handle_delete w (worker_file (fw_dir w) n)) s))) (ns, n) = Some x"
proof -
  obtain e v where "run_state (wk_delete (fw_workers w) ''default'' n) (ws_world s) = (e, v)"
      "res v = (res (ws_world s))((''default'', n) := None)"
    using kept_resources.deletes [OF assms(1)] by blast
  then show ?thesis
    using assms(3,4) by (simp add: handle_delete_def parse_worker_path [OF assms(2)])
qed

section \<open>Notifications\<close>

lemma loop_events:
  assumes "is_yaml_file p" "ops \<noteq> []" "\<forall>q. AList.update p q pending = [(p, q)]"
  shows "run_state (watch_loop w pending armed (map (Fs_Event p) ops @ [Debounced])) s =
    (None, snd (run_state (process_one w (p, last ops)) s))"
  using assms(2,3)
proof (induction ops arbitrary: pending armed)
  case (Cons o1 ops)
  show ?case
  proof (cases "ops = []")
    case True
    then show ?thesis using Cons.prems assms(1) by (simp add: split_beta)
  next
    case False
    then show ?thesis using Cons.IH [of "[(p, o1)]" True] Cons.prems assms(1) by simp
  qed
qed simp

text \<open>Of the notifications for a file that arrive before the debounce timer fires only the last one counts: the
  result is that of processing this one alone. A change of the file's attributes that follows a write
  therefore hides the write, and the changed specification never reaches the cluster.\<close>

theorem last_notification_wins:
  assumes "is_yaml_file p" "ops \<noteq> []"
  shows "run_state (watch_loop w [] False (map (Fs_Event p) ops @ [Debounced])) s =
      (None, snd (run_state (process_one w (p, last ops)) s)) \<and>
    (last ops = op_chmod \<longrightarrow> snd (run_state (process_one w (p, last ops)) s) = s)"
proof -
  have "op_chmod AND (op_remove OR op_rename) = 0" "op_chmod AND (op_create OR op_write) = 0"
    by (simp_all add: op_defs)
  then show ?thesis
    using loop_events [OF assms, of "[]" w False s] by (auto simp: process_one_def)
qed

section \<open>Concrete runs\<close>

definition wanted_worker :: worker where
  "wanted_worker = zero_worker\<lparr>w_spec := zero_worker_spec\<lparr>ws_model := ''qwen''\<rparr>\<rparr>"

definition no_kind :: "('w, 'r) watched_kind" where
  "no_kind = \<lparr>wk_decode = \<lambda>d. Inl (Err ''no''), wk_get = \<lambda>ns n. State_Monad.return (Inl ApiNotFound),
     wk_create = \<lambda>r. State_Monad.return (Some (Err ''no'')), wk_update = \<lambda>r. State_Monad.return (Some (Err ''no'')),
     wk_delete = \<lambda>ns n. State_Monad.return None\<rparr>"

definition memory_watcher :: "(string \<Rightarrow> worker result) \<Rightarrow> (worker list) file_watcher" where
  "memory_watcher decode =
     \<lparr>fw_dir = ''/cfg'', fw_read = \<lambda>p. State_Monad.return (Inr ''spec''), fw_walk = State_Monad.return [],
      fw_mkdir_all = \<lambda>d. State_Monad.return None, fw_notify = State_Monad.return None, fw_hash = \<lambda>x. x,
      fw_workers = memory_kind w_meta decode, fw_teams = no_kind, fw_humans = no_kind\<rparr>"

lemma hash_example: "hash_spec_portion (\<lambda>x. x) ''spec'' = ''spec''"
  by code_simp

lemma synced_worker_file_witness:
  "\<exists>v' x. run_state (sync_file (memory_watcher (\<lambda>d. Inr wanted_worker)) (worker_file ''/cfg'' ''bob'')) \<lparr>ws_world = [], ws_hashes = []\<rparr> =
      (None, \<lparr>ws_world = v', ws_hashes = smap_put (worker_file ''/cfg'' ''bob'') ''spec'' []\<rparr>) \<and>
    find_resource w_meta v' (''default'', ''bob'') = Some x \<and> ws_model (w_spec x) = ''qwen''"
proof -
  let ?w = "memory_watcher (\<lambda>d. Inr wanted_worker)"
  have k: "kept_resources (fw_workers ?w) w_meta (find_resource w_meta)"
    using memory_kind.kept_resources_axioms by (simp add: memory_watcher_def)
  have parts: "run_state (fw_read ?w (worker_file (fw_dir ?w) ''bob'')) [] = (Inr ''spec'', [])"
    "wk_decode (fw_workers ?w) ''spec'' = Inr wanted_worker" "fw_dir ?w = ''/cfg''" "fw_hash ?w = (\<lambda>x. x)"
    by (simp_all add: memory_watcher_def memory_kind_def)
  have key: "(''default'', ''bob'') = (om_namespace (default_namespace (w_meta wanted_worker)), ''bob'')"
    by (simp add: wanted_worker_def default_namespace_def zero_worker_def zero_meta_def)
  have plain: "CHR ''/'' \<notin> set ''bob''" by simp
  have new: "smap_get [] (worker_file (fw_dir ?w) ''bob'') \<noteq> hash_spec_portion (fw_hash ?w) ''spec''"
    by (simp add: parts hash_example smap_get_def)
  have model: "ws_model (w_spec wanted_worker) = ''qwen''" by (simp add: wanted_worker_def)
  obtain v' x where "run_state (sync_file ?w (worker_file (fw_dir ?w) ''bob'')) \<lparr>ws_world = [], ws_hashes = []\<rparr> =
      (None, \<lparr>ws_world = v', ws_hashes = smap_put (worker_file (fw_dir ?w) ''bob'') (hash_spec_portion (fw_hash ?w) ''spec'') []\<rparr>)"
      "find_resource w_meta v' = (find_resource w_meta [])((''default'', ''bob'') \<mapsto> x)" "w_spec x = w_spec wanted_worker"
    using synced_worker_file [OF k plain parts(1,2) new key] by blast
  then show ?thesis
    by (intro exI [of _ v'] exI [of _ x]) (simp only: parts hash_example model fun_upd_same simp_thms)
qed

lemma failed_sync_not_retried_witness:
  "\<exists>s1. run_state (sync_file (memory_watcher (\<lambda>d. Inl (Err ''bad''))) (worker_file ''/cfg'' ''bob'')) \<lparr>ws_world = [], ws_hashes = []\<rparr> =
      (Some (Wrap ''parse worker YAML'' (Err ''bad'')), s1) \<and>
    run_state (sync_file (memory_watcher (\<lambda>d. Inl (Err ''bad''))) (worker_file ''/cfg'' ''bob'')) s1 = (None, s1)"
proof -
  let ?w = "memory_watcher (\<lambda>d. Inl (Err ''bad''))" and ?p = "worker_file ''/cfg'' ''bob''"
  have read: "run_state (fw_read ?w ?p) v = (Inr ''spec'', v)" for v
    by (simp add: memory_watcher_def)
  have path: "parse_path_kind_name ?p (fw_dir ?w) = (''worker'', ''bob'')"
    using parse_worker_path [of "''bob''" "''/cfg''"] by (simp add: memory_watcher_def)
  let ?s1 = "\<lparr>ws_world = [], ws_hashes = smap_put ?p ''spec'' []\<rparr>"
  have upsert: "run_state (upsert_kind ?w ''worker'' ''bob'' ''spec'') [] = (Some (Wrap ''parse worker YAML'' (Err ''bad'')), [])"
    by (simp add: upsert_kind_def upsert_worker_def upsert_resource_def memory_watcher_def memory_kind_def)
  have hash: "hash_spec_portion (fw_hash ?w) ''spec'' = ''spec''"
    using hash_example by (simp add: memory_watcher_def)
  have first: "run_state (sync_file ?w ?p) \<lparr>ws_world = [], ws_hashes = []\<rparr> = (Some (Wrap ''parse worker YAML'' (Err ''bad'')), ?s1)"
    using run_sync [of ?w ?p "\<lparr>ws_world = [], ws_hashes = []\<rparr>" "''spec''" "[]"] read
    by (simp add: path hash Let_def smap_get_def upsert)
  have "run_state (sync_file ?w ?p) ?s1 = (None, ?s1)"
    by (rule failed_sync_not_retried [OF _ first, of "''spec''" "[]" _ "''spec''"]) (simp_all add: read)
  then show ?thesis using first by blast
qed

lemma last_notification_wins_witness:
  "run_state (watch_loop (memory_watcher (\<lambda>d. Inr wanted_worker)) [] False
     (map (Fs_Event ''/cfg/workers/bob.yaml'') [op_write, op_chmod] @ [Debounced])) s = (None, s)"
proof -
  have "is_yaml_file ''/cfg/workers/bob.yaml''" by code_simp
  from last_notification_wins [OF this, of "[op_write, op_chmod]" "memory_watcher (\<lambda>d. Inr wanted_worker)" s]
  show ?thesis by simp
qed

end
