(* ===== verification/Go_Path.thy ===== *)
theory Go_Path
  imports Go_Results Go_Strings "HOL-Library.Sublist"
begin

text \<open>
  \<open>path.Clean\<close> of the standard library, and \<open>Join\<close>, \<open>Base\<close>, \<open>Abs\<close> and \<open>Rel\<close> of \<open>path/filepath\<close> on a
  Unix system, by the elements of a path; \<open>path_rel\<close> is meant for two absolute paths.
\<close>

section \<open>Operations\<close>

text \<open>The elements without empty ones and dots, the last one first in \<open>acc\<close>.\<close>

fun resolve_dots :: "bool \<Rightarrow> string list \<Rightarrow> string list \<Rightarrow> string list" where
  "resolve_dots rooted acc [] = rev acc"
| "resolve_dots rooted acc (e # es) =
     (if e = [] \<or> e = ''.'' then resolve_dots rooted acc es
      else if e = ''..'' then
        (if acc = [] then resolve_dots rooted (if rooted then [] else [''..'']) es
         else if hd acc = ''..'' then resolve_dots rooted (''..'' # acc) es
         else resolve_dots rooted (tl acc) es)
      else resolve_dots rooted (e # acc) es)"

definition is_rooted :: "string \<Rightarrow> bool" where
  "is_rooted p \<longleftrightarrow> has_prefix p ''/''"

definition path_elements :: "string \<Rightarrow> string list" where
  "path_elements p = resolve_dots (is_rooted p) [] (split_on (CHR ''/'') p)"

definition path_text :: "bool \<Rightarrow> string list \<Rightarrow> string" where
  "path_text rooted es =
     (if rooted then CHR ''/'' # join_with ''/'' es else if es = [] then ''.'' else join_with ''/'' es)"

definition path_clean :: "string \<Rightarrow> string" where
  "path_clean p = path_text (is_rooted p) (path_elements p)"

definition filepath_join :: "string list \<Rightarrow> string" where
  "filepath_join ps =
     (let parts = filter (\<lambda>p. p \<noteq> []) ps in if parts = [] then [] else path_clean (join_with ''/'' parts))"

definition path_base :: "string \<Rightarrow> string" where
  "path_base p =
     (if p = [] then ''.''
      else let q = trim_right (\<lambda>c. c = CHR ''/'') p in if q = [] then ''/'' else last (split_on (CHR ''/'') q))"

text \<open>\<open>wd\<close> is the outcome of \<open>os.Getwd\<close>.\<close>

definition path_abs :: "string result \<Rightarrow> string \<Rightarrow> string result" where
  "path_abs wd p =
     (if is_rooted p then Inr (path_clean p) else try_result wd (\<lambda>d. Inr (filepath_join [d, p])))"

fun strip_common :: "string list \<Rightarrow> string list \<Rightarrow> string list \<times> string list" where
  "strip_common (x # xs) (y # ys) = (if x = y then strip_common xs ys else (x # xs, y # ys))"
| "strip_common xs ys = (xs, ys)"

definition path_rel :: "string \<Rightarrow> string \<Rightarrow> string result" where
  "path_rel base targ =
     (let bad = Inl (Err (''Rel: can't make '' @ targ @ '' relative to '' @ base)) in
      if path_clean base = path_clean targ then Inr ''.''
      else if is_rooted base \<noteq> is_rooted targ then bad
      else case strip_common (path_elements base) (path_elements targ) of
        (up, down) \<Rightarrow>
          if up \<noteq> [] \<and> hd up = ''..'' then bad
          else Inr (join_with ''/'' (replicate (length up) ''..'' @ down)))"

section \<open>Splitting and joining\<close>

lemma split_on_nonempty [simp]: "split_on c x \<noteq> []"
  by (induction x) (auto split: list.splits)

lemma split_on_append: "split_on c (x @ c # y) = split_on c x @ split_on c y"
proof (induction x)
  case (Cons a x)
  obtain w ws where "split_on c x = w # ws" by (metis list.exhaust split_on_nonempty)
  then show ?case using Cons by simp
qed simp

lemma split_on_plain: "c \<notin> set x \<Longrightarrow> split_on c x = [x]"
  by (induction x) auto

lemma split_on_parts: "p \<in> set (split_on c x) \<Longrightarrow> c \<notin> set p"
proof (induction x arbitrary: p)
  case (Cons a x)
  obtain w ws where "split_on c x = w # ws" by (metis list.exhaust split_on_nonempty)
  then show ?case using Cons by (auto split: if_splits)
qed simp

lemma join_with_append:
  "xs \<noteq> [] \<Longrightarrow> ys \<noteq> [] \<Longrightarrow> join_with sep (xs @ ys) = join_with sep xs @ sep @ join_with sep ys"
  by (induction sep xs rule: join_with.induct) (auto simp: neq_Nil_conv)

lemma split_join_with:
  "es \<noteq> [] \<Longrightarrow> \<forall>e \<in> set es. c \<notin> set e \<Longrightarrow> split_on c (join_with [c] es) = es"
  by (induction "[c]" es rule: join_with.induct) (simp_all add: split_on_plain split_on_append)

section \<open>Elements of clean paths\<close>

text \<open>An element of a clean path that is not a step up.\<close>

definition plain_element :: "string \<Rightarrow> bool" where
  "plain_element e \<longleftrightarrow> e \<noteq> [] \<and> e \<noteq> ''.'' \<and> e \<noteq> ''..'' \<and> CHR ''/'' \<notin> set e"

lemma resolve_dots_append:
  "resolve_dots r acc (xs @ ys) = resolve_dots r (rev (resolve_dots r acc xs)) ys"
  by (induction r acc xs rule: resolve_dots.induct) simp_all

lemma resolve_plain: "\<forall>e \<in> set es. plain_element e \<Longrightarrow> resolve_dots r acc es = rev acc @ es"
  by (induction es arbitrary: acc) (auto simp: plain_element_def)

lemma resolve_rooted_plain:
  "list_all plain_element acc \<Longrightarrow> list_all (\<lambda>e. CHR ''/'' \<notin> set e) es \<Longrightarrow>
    list_all plain_element (resolve_dots True acc es)"
proof (induction es arbitrary: acc)
  case (Cons e es)
  have tl: "list_all plain_element (tl acc)" using Cons.prems(1) by (cases acc) simp_all
  consider "e = [] \<or> e = ''.''" | "e = ''..''" "acc = []" | "e = ''..''" "acc \<noteq> []" "hd acc \<noteq> ''..''"
    | "e = ''..''" "acc \<noteq> []" "hd acc = ''..''" | "plain_element e"
    using Cons.prems(2) unfolding plain_element_def by auto
  then show ?case
  proof cases
    case 4
    then show ?thesis using Cons.prems(1) by (cases acc) (simp_all add: plain_element_def)
  next
    case 5
    then have "resolve_dots True acc (e # es) = resolve_dots True (e # acc) es" by (simp add: plain_element_def)
    then show ?thesis using 5 Cons.prems Cons.IH [of "e # acc"] by simp
  qed (use Cons tl in simp_all)
qed simp

lemma rooted_elements:
  assumes "is_rooted p" "e \<in> set (path_elements p)"
  shows "plain_element e"
proof -
  have "list_all plain_element (path_elements p)"
    unfolding path_elements_def using assms(1)
    by (simp add: resolve_rooted_plain list_all_iff [of "\<lambda>e. CHR ''/'' \<notin> set e"] split_on_parts)
  then show ?thesis using assms(2) by (simp add: list_all_iff)
qed

lemma plain_no_slash: "plain_element e \<Longrightarrow> CHR ''/'' \<notin> set e"
  by (simp add: plain_element_def)

lemma path_text_rooted:
  assumes "\<forall>e \<in> set es. plain_element e"
  shows "is_rooted (path_text True es)" "path_elements (path_text True es) = es"
proof -
  show root: "is_rooted (path_text True es)" by (simp add: path_text_def is_rooted_def has_prefix_def)
  have "split_on (CHR ''/'') (path_text True es) = [] # (if es = [] then [[]] else es)"
    using assms by (simp add: path_text_def split_join_with plain_no_slash)
  then show "path_elements (path_text True es) = es"
    using root resolve_plain [OF assms, of True "[]"] by (simp add: path_elements_def)
qed

lemma clean_rooted:
  assumes "is_rooted p"
  shows "is_rooted (path_clean p)" "path_elements (path_clean p) = path_elements p"
  using path_text_rooted [of "path_elements p"] rooted_elements [OF assms] assms by (simp_all add: path_clean_def)

lemma clean_inject:
  assumes "is_rooted p" "is_rooted q"
  shows "path_clean p = path_clean q \<longleftrightarrow> path_elements p = path_elements q"
proof
  assume "path_clean p = path_clean q"
  then show "path_elements p = path_elements q" using clean_rooted(2) assms by metis
qed (use assms in \<open>simp add: path_clean_def\<close>)

section \<open>Joining\<close>

lemma rooted_append: "is_rooted d \<Longrightarrow> is_rooted (d @ x)"
  by (cases d) (simp_all add: is_rooted_def has_prefix_def)

lemma rooted_nonempty: "is_rooted d \<Longrightarrow> d \<noteq> []"
  by (auto simp: is_rooted_def has_prefix_def)

lemma elements_append:
  assumes "is_rooted d"
  shows "path_elements (d @ CHR ''/'' # x) = resolve_dots True (rev (path_elements d)) (split_on (CHR ''/'') x)"
  using assms rooted_append [OF assms, of "CHR ''/'' # x"]
  by (simp add: path_elements_def split_on_append resolve_dots_append)

lemma join_rooted:
  assumes "is_rooted d"
  shows "is_rooted (filepath_join [d, x])"
    and "path_elements (filepath_join [d, x]) =
      resolve_dots True (rev (path_elements d)) (split_on (CHR ''/'') x)"
proof -
  have d: "d \<noteq> []" using assms by (rule rooted_nonempty)
  have "resolve_dots True (rev (path_elements d)) [[]] = path_elements d" by simp
  then have "is_rooted (filepath_join [d, x]) \<and> path_elements (filepath_join [d, x]) =
      resolve_dots True (rev (path_elements d)) (split_on (CHR ''/'') x)"
    using d assms clean_rooted [of d] clean_rooted [of "d @ CHR ''/'' # x"] rooted_append [OF assms]
    by (auto simp: filepath_join_def elements_append)
  then show "is_rooted (filepath_join [d, x])" "path_elements (filepath_join [d, x]) =
      resolve_dots True (rev (path_elements d)) (split_on (CHR ''/'') x)" by simp_all
qed

text \<open>A name of a single element stays below its directory.\<close>

lemma join_element:
  assumes "is_rooted d" "plain_element n"
  shows "path_elements (filepath_join [d, n]) = path_elements d @ [n]"
  using assms join_rooted [OF assms(1), of n] by (simp add: split_on_plain plain_element_def)

lemma join_up: "is_rooted d \<Longrightarrow> path_elements (filepath_join [d, ''..'']) = butlast (path_elements d)"
proof -
  assume d: "is_rooted d"
  have up: "split_on (CHR ''/'') ''..'' = [''..'']" by simp
  have "path_elements d = [] \<or> last (path_elements d) \<noteq> ''..''"
    using rooted_elements [OF d] last_in_set by (fastforce simp: plain_element_def)
  then show ?thesis
    using join_rooted(2) [OF d, of "''..''"] unfolding up
    by (cases "path_elements d" rule: rev_cases) simp_all
qed

section \<open>Containment\<close>

lemma strip_common_prefix: "fst (strip_common xs ys) = [] \<longleftrightarrow> prefix xs ys"
  by (induction xs ys rule: strip_common.induct) auto

lemma strip_common_rest: "strip_common xs ys = (us, ds) \<Longrightarrow> \<exists>p. xs = p @ us \<and> ys = p @ ds"
proof (induction xs ys rule: strip_common.induct)
  case (1 x xs y ys)
  then show ?case by (fastforce split: if_splits intro: exI [of _ "x # p" for p])
qed auto

lemma join_hd_prefix: "join_with ''/'' (e # es) = e @ (if es = [] then [] else CHR ''/'' # join_with ''/'' es)"
  by (cases es) simp_all

end
