(* ===== verification/Nacos_Specs.thy ===== *)
theory Nacos_Specs
  imports Nacos_Client Go_Path Cred_Provider
begin

text \<open>
  \<open>internal/executor/nacos_ai_service.go\<close>: fetching skills and agent specifications from Nacos into the
  local file system. Of the answers the fields the client reads are decoded; \<open>pretty\<close> is \<open>json.Indent\<close>,
  \<open>None\<close> for a text that is no JSON; the position in the error of the base64 decoder is left out.
  A Go map is visited in the order of the list.
\<close>

section \<open>Answers\<close>

record agent_spec_resource =
  asr_name :: string
  asr_type :: string
  asr_content :: string
  asr_metadata :: "(string \<times> json) list"

record nacos_agent_spec =
  nas_content :: string
  nas_resource :: "(string \<times> agent_spec_resource option) list"

record agent_spec_summary =
  ass_name :: string
  ass_enable :: bool
  ass_online :: int

text \<open>\<open>json.Unmarshal\<close> of an empty text is an error, also for a \<open>json.RawMessage\<close> that is missing.\<close>

definition empty_json :: go_error where
  "empty_json = Err ''unexpected end of JSON input''"

definition raw_field :: "string \<Rightarrow> (string \<times> json) list \<Rightarrow> json option" where
  "raw_field field kvs =
     (case rev (filter (\<lambda>p. equal_fold (fst p) field) kvs) of [] \<Rightarrow> None | p # _ \<Rightarrow> Some (snd p))"

definition v3_response :: "raw_json \<Rightarrow> (int \<times> string \<times> json option) result" where
  "v3_response raw =
     (if raw = RawEmpty then Inl empty_json
      else try_result (decode_raw raw) (\<lambda>kvs.
        try_result (decode_number ''code'' 0 kvs) (\<lambda>code.
        try_result (decode_string ''message'' [] kvs) (\<lambda>message.
          Inr (code, message, raw_field ''data'' kvs)))))"

definition decode_resource :: "json \<Rightarrow> agent_spec_resource option result" where
  "decode_resource v =
     (case v of
        JNull \<Rightarrow> Inr None
      | _ \<Rightarrow>
          try_result (decode_object v) (\<lambda>kvs.
          try_result (decode_string ''name'' [] kvs) (\<lambda>name.
          try_result (decode_string ''type'' [] kvs) (\<lambda>type.
          try_result (decode_string ''content'' [] kvs) (\<lambda>content.
          try_result (decode_object (decode_member ''metadata'' JNull kvs)) (\<lambda>meta.
            Inr (Some \<lparr>asr_name = name, asr_type = type, asr_content = content, asr_metadata = meta\<rparr>)))))))"

fun decode_resources :: "(string \<times> json) list \<Rightarrow> (string \<times> agent_spec_resource option) list result" where
  "decode_resources [] = Inr []"
| "decode_resources ((k, v) # kvs) =
     try_result (decode_resource v) (\<lambda>r. try_result (decode_resources kvs) (\<lambda>rs. Inr ((k, r) # rs)))"

definition decode_spec :: "json \<Rightarrow> nacos_agent_spec result" where
  "decode_spec v =
     try_result (decode_object v) (\<lambda>kvs.
     try_result (decode_string ''content'' [] kvs) (\<lambda>content.
     try_result (try_result (decode_object (decode_member ''resource'' JNull kvs)) decode_resources) (\<lambda>rs.
       Inr \<lparr>nas_content = content, nas_resource = fold (\<lambda>(k, r). AList.update k r) rs []\<rparr>)))"

definition decode_summary :: "(string \<times> json) list \<Rightarrow> agent_spec_summary result" where
  "decode_summary kvs =
     try_result (decode_string ''name'' [] kvs) (\<lambda>name.
     try_result (decode_bool ''enable'' False kvs) (\<lambda>enable.
     try_result (decode_number ''onlineCnt'' 0 kvs) (\<lambda>online.
       Inr \<lparr>ass_name = name, ass_enable = enable, ass_online = online\<rparr>)))"

definition decode_page :: "json \<Rightarrow> agent_spec_summary list result" where
  "decode_page v = try_result (decode_object v) (decode_slice decode_summary ''pageItems'')"

section \<open>Errors\<close>

definition http_failed :: "string \<Rightarrow> nat \<Rightarrow> string option \<Rightarrow> go_error" where
  "http_failed op st what =
     Err (op @ '' failed (HTTP '' @ show_nat st @ '')'' @ (case what of None \<Rightarrow> [] | Some x \<Rightarrow> '': '' @ x))"

definition format_nacos_http_error :: "string \<Rightarrow> nat \<Rightarrow> string \<Rightarrow> string \<Rightarrow> go_error" where
  "format_nacos_http_error op st message hint =
     http_failed op st (Some (if message \<noteq> [] then message @ ''; hint: '' @ hint else hint))"

definition parse_nacos_http_error :: "string \<Rightarrow> nacos_reply \<Rightarrow> go_error" where
  "parse_nacos_http_error op rep =
     (let st = rp_status rep;
          message = (if rp_body rep = [] then []
                     else (case v3_response (rp_json rep) of Inl _ \<Rightarrow> [] | Inr (_, m, _) \<Rightarrow> m));
          hinted = format_nacos_http_error op st message
      in if st = 401 then hinted (''authentication required; check username:password in the nacos URL or set '' @
             ''HICLAW_NACOS_USERNAME/HICLAW_NACOS_PASSWORD'')
         else if st = 403 then hinted ''access denied; token may be expired or permissions may be missing''
         else if st = 404 then hinted ''resource not found; check the namespace, name, version, or label''
         else if st = 500 then hinted ''server internal error; inspect Nacos logs for details''
         else http_failed op st
           (if message \<noteq> [] then Some message
            else if rp_body rep \<noteq> [] then Some (truncate_body (trim_space (rp_body rep)) 200) else None))"

definition is_nacos_http_status :: "go_error \<Rightarrow> nat \<Rightarrow> bool" where
  "is_nacos_http_status e st \<longleftrightarrow> str_contains (err_text e) (''(HTTP '' @ show_nat st @ '')'')"

section \<open>Requests\<close>

definition nacos_get :: "'w nacos_client \<Rightarrow> string \<Rightarrow> string \<Rightarrow> ('w nacos_state, nacos_reply result) state" where
  "nacos_get c what url =
     (case nn_build (nac_net c) url of
        Some e \<Rightarrow> State_Monad.return (Inl (Wrap ''failed to build request'' e))
      | None \<Rightarrow>
          try_state (prepare_request c) (\<lambda>headers.
            wrap_result what (on_net (nn_do (nac_net c)
              \<lparr>nq_method = ''GET'', nq_url = url, nq_body = [], nq_headers = headers\<rparr>))))"

definition read_v3 :: "string \<Rightarrow> nacos_reply \<Rightarrow> json option result" where
  "read_v3 op rep =
     (case np_read_error rep of
        Some e \<Rightarrow> Inl (Wrap ''failed to read response'' e)
      | None \<Rightarrow>
          if rp_status rep \<noteq> 200 then Inl (parse_nacos_http_error op rep)
          else (case v3_response (rp_json rep) of
             Inl e \<Rightarrow> Inl (Wrap ''failed to parse response'' e)
           | Inr (code, message, data) \<Rightarrow>
               if code \<noteq> 0
               then Inl (Err (op @ '' failed: code='' @ show_int code @ '', message='' @ message))
               else Inr data))"

definition decode_data :: "(json \<Rightarrow> 'a result) \<Rightarrow> json option \<Rightarrow> 'a result" where
  "decode_data decode data = (case data of None \<Rightarrow> Inl empty_json | Some v \<Rightarrow> decode v)"

definition version_params :: "string \<Rightarrow> string \<Rightarrow> (string \<times> string) list" where
  "version_params version label =
     (if version \<noteq> [] then [(''version'', version)] else []) @ (if label \<noteq> [] then [(''label'', label)] else [])"

definition spec_url :: "'w nacos_client \<Rightarrow> string \<Rightarrow> string \<Rightarrow> string \<Rightarrow> string \<Rightarrow> string" where
  "spec_url c endpoint name version label =
     ''http://'' @ nac_server c @ ''/nacos/v3/client/ai/'' @ endpoint @ ''?'' @
     encode_values ([(''namespaceId'', nac_namespace c), (''name'', name)] @ version_params version label)"

definition fetch_agent_spec ::
  "'w nacos_client \<Rightarrow> string \<Rightarrow> string \<Rightarrow> string \<Rightarrow> ('w nacos_state, nacos_agent_spec result) state" where
  "fetch_agent_spec c name version label =
     try_state (nacos_get c ''failed to get agentspec'' (spec_url c ''agentspecs'' name version label)) (\<lambda>rep.
       State_Monad.return (try_result (read_v3 ''get agentspec'' rep) (\<lambda>data.
         map_sum (Wrap ''failed to parse agentspec'') id (decode_data decode_spec data))))"

definition summary_url :: "'w nacos_client \<Rightarrow> string \<Rightarrow> string" where
  "summary_url c name =
     ''http://'' @ nac_server c @ ''/nacos/v3/admin/ai/agentspecs/list?'' @
     encode_values [(''namespaceId'', nac_namespace c), (''agentSpecName'', name), (''search'', ''accurate''),
       (''pageNo'', ''1''), (''pageSize'', ''1'')]"

definition fetch_agent_spec_summary ::
  "'w nacos_client \<Rightarrow> string \<Rightarrow> ('w nacos_state, agent_spec_summary result) state" where
  "fetch_agent_spec_summary c name =
     try_state (nacos_get c ''failed to get agentspec meta'' (summary_url c name)) (\<lambda>rep.
       State_Monad.return (try_result (read_v3 ''check agentspec'' rep) (\<lambda>data.
         try_result (map_sum (Wrap ''failed to parse agentspec list'') id (decode_data decode_page data)) (\<lambda>items.
           (case List.find (\<lambda>s. ass_name s = name) items of
              Some s \<Rightarrow> Inr s
            | None \<Rightarrow> Inl (format_nacos_http_error ''check agentspec'' 404 []
                (''agentspec '' @ go_quote name @ '' not found'')))))))"

definition check_agent_spec_exists ::
  "'w nacos_client \<Rightarrow> string \<Rightarrow> string \<Rightarrow> string \<Rightarrow> ('w nacos_state, go_error option) state" where
  "check_agent_spec_exists c name version label =
     (let missing = (\<lambda>what. Some (format_nacos_http_error ''check agentspec'' 404 [] what)) in
      use_state (fetch_agent_spec_summary c name) (\<lambda>summary.
        if \<not> ass_enable summary
        then State_Monad.return (missing (''agentspec '' @ go_quote name @ '' is disabled''))
        else if ass_online summary \<le> 0
        then State_Monad.return (missing (''agentspec '' @ go_quote name @ '' has no online version''))
        else if version = [] \<and> label = [] then State_Monad.return None
        else do {
          r \<leftarrow> fetch_agent_spec c name version label;
          State_Monad.return
            (case r of
               Inr _ \<Rightarrow> None
             | Inl e \<Rightarrow>
                 if is_nacos_http_status e 404
                 then if version \<noteq> []
                      then missing (''online version '' @ go_quote version @ '' not found for agentspec '' @ go_quote name)
                      else missing (''label '' @ go_quote label @ '' for agentspec '' @ go_quote name @
                             '' does not point to an online version'')
                 else Some e) }))"

section \<open>Agent specifications\<close>

definition build_agent_spec_resource_path :: "agent_spec_resource \<Rightarrow> string" where
  "build_agent_spec_resource_path res =
     (let type = trim_space (asr_type res); name = trim_space (asr_name res) in
      if type = [] then name
      else if has_prefix name (type @ ''/'') then name else type @ ''/'' @ name)"

definition resource_data :: "agent_spec_resource \<Rightarrow> string result" where
  "resource_data res =
     (if text_member (asr_metadata res) ''encoding'' = ''base64''
      then (case b64_decode (asr_content res) of
              None \<Rightarrow> Inl (Wrap (''failed to decode base64 resource '' @ asr_name res) (Err ''illegal base64 data''))
            | Some d \<Rightarrow> Inr d)
      else Inr (asr_content res))"

definition write_resource :: "'w local_files \<Rightarrow> string \<Rightarrow> agent_spec_resource option \<Rightarrow> ('w, go_error option) state" where
  "write_resource lf spec_dir entry =
     (case entry of
        None \<Rightarrow> State_Monad.return None
      | Some res \<Rightarrow>
          let rel = build_agent_spec_resource_path res; path = filepath_join [spec_dir, rel] in
          if asr_content res = [] \<or> rel = [] then State_Monad.return None
          else then_step (wrap_error ''failed to create resource directory'' (lf_mkdir_all lf (path_dir path)))
            (case resource_data res of
               Inl e \<Rightarrow> State_Monad.return (Some e)
             | Inr data \<Rightarrow> wrap_error (''failed to write resource file '' @ asr_name res) (lf_write lf path data)))"

definition write_agent_spec_manifest ::
  "(string \<Rightarrow> string option) \<Rightarrow> 'w local_files \<Rightarrow> string \<Rightarrow> string \<Rightarrow> ('w, go_error option) state" where
  "write_agent_spec_manifest pretty lf spec_dir content =
     lf_write lf (filepath_join [spec_dir, ''manifest.json''])
       (case pretty content of None \<Rightarrow> content | Some text \<Rightarrow> text)"

definition write_spec ::
  "(string \<Rightarrow> string option) \<Rightarrow> 'w local_files \<Rightarrow> string \<Rightarrow> nacos_agent_spec \<Rightarrow> ('w, go_error option) state" where
  "write_spec pretty lf spec_dir spec =
     then_step (wrap_error ''failed to create directory'' (lf_mkdir_all lf spec_dir))
     (then_step (each_step (\<lambda>p. write_resource lf spec_dir (snd p)) (nas_resource spec))
       (write_agent_spec_manifest pretty lf spec_dir (nas_content spec)))"

definition get_agent_spec ::
  "(string \<Rightarrow> string option) \<Rightarrow> 'w local_files \<Rightarrow> 'w nacos_client \<Rightarrow> string \<Rightarrow> string \<Rightarrow> string \<Rightarrow> string \<Rightarrow>
   ('w nacos_state, go_error option) state" where
  "get_agent_spec pretty lf c name output_dir version label =
     use_state (fetch_agent_spec c name version label) (\<lambda>spec.
       on_net (write_spec pretty lf (filepath_join [output_dir, name]) spec))"

section \<open>Skills\<close>

text \<open>The mode bits of an entry the code looks at; reading a body may end with an error.\<close>

record zip_entry =
  ze_name :: string
  ze_link :: bool
  ze_special :: bool
  ze_dir :: bool
  ze_body :: "(string \<times> go_error option) result"

record 'w archive_files = "'w local_files" +
  af_create_temp :: "string \<Rightarrow> ('w, string result) state"
  af_remove :: "string \<Rightarrow> ('w, unit) state"
  af_open_zip :: "string \<Rightarrow> ('w, zip_entry list result) state"
  af_getwd :: "('w, string result) state"

definition clean_zip_entry_name :: "string \<Rightarrow> string result" where
  "clean_zip_entry_name name =
     (if name = [] \<or> backslash \<in> set name \<or> is_rooted name then Inl (Err ''invalid path'')
      else let clean = path_clean name in
        if clean = ''.'' \<or> clean = ''..'' \<or> has_prefix clean ''../''
        then Inl (Err ''path traversal is not allowed'') else Inr clean)"

definition is_path_inside :: "string \<Rightarrow> string \<Rightarrow> bool" where
  "is_path_inside path root \<longleftrightarrow>
     path = root \<or>
     (case path_rel root path of Inl _ \<Rightarrow> False | Inr rel \<Rightarrow> rel \<noteq> ''..'' \<and> \<not> has_prefix rel ''../'')"

definition absolute_path :: "'w archive_files \<Rightarrow> string \<Rightarrow> ('w, string result) state" where
  "absolute_path af p =
     (if is_rooted p then State_Monad.return (path_abs (Inr []) p)
      else do { wd \<leftarrow> af_getwd af; State_Monad.return (path_abs wd p) })"

definition write_zip_file :: "'w archive_files \<Rightarrow> zip_entry \<Rightarrow> string \<Rightarrow> ('w, go_error option) state" where
  "write_zip_file af e dest =
     (case ze_body e of
        Inl err \<Rightarrow> State_Monad.return (Some err)
      | Inr (data, stopped) \<Rightarrow> then_step (lf_write (local_files.truncate af) dest data) (State_Monad.return stopped))"

definition unsafe_entry :: "zip_entry \<Rightarrow> string \<Rightarrow> go_error" where
  "unsafe_entry e what = Err (''unsafe ZIP entry '' @ go_quote (ze_name e) @ '': '' @ what)"

definition extract_entry :: "'w archive_files \<Rightarrow> string \<Rightarrow> string \<Rightarrow> zip_entry \<Rightarrow> ('w, go_error option) state" where
  "extract_entry af output_dir output_abs e =
     (case clean_zip_entry_name (ze_name e) of
        Inl err \<Rightarrow> State_Monad.return (Some (Wrap (''unsafe ZIP entry '' @ go_quote (ze_name e)) err))
      | Inr rel \<Rightarrow>
          if ze_link e then State_Monad.return (Some (unsafe_entry e ''symlinks are not allowed''))
          else if ze_special e then State_Monad.return (Some (unsafe_entry e ''special files are not allowed''))
          else use_state (absolute_path af (filepath_join [output_dir, rel])) (\<lambda>dest.
            if \<not> is_path_inside dest output_abs
            then State_Monad.return (Some (unsafe_entry e ''escapes destination''))
            else if ze_dir e then lf_mkdir_all (local_files.truncate af) dest
            else then_step (lf_mkdir_all (local_files.truncate af) (path_dir dest)) (write_zip_file af e dest)))"

definition extract_skill_zip :: "'w archive_files \<Rightarrow> string \<Rightarrow> string \<Rightarrow> ('w, go_error option) state" where
  "extract_skill_zip af zip_path output_dir =
     use_state (af_open_zip af zip_path) (\<lambda>entries.
     use_state (absolute_path af output_dir) (\<lambda>output_abs.
       each_step (extract_entry af output_dir output_abs) entries))"

text \<open>What is left of \<open>GetSkill\<close> once the temporary file exists; the file is removed in any case.\<close>

definition unpack_skill :: "'w archive_files \<Rightarrow> string \<Rightarrow> string \<Rightarrow> string \<Rightarrow> nacos_reply \<Rightarrow> ('w, go_error option) state" where
  "unpack_skill af tmp name output_dir rep =
     then_step (wrap_error ''failed to download skill ZIP''
         (then_step (lf_write (local_files.truncate af) tmp (rp_body rep)) (State_Monad.return (np_read_error rep))))
     (then_step (wrap_error ''failed to create skill directory'' (lf_mkdir_all (local_files.truncate af) output_dir))
       (wrap_error (''failed to extract skill ZIP for '' @ name) (extract_skill_zip af tmp output_dir)))"

definition save_skill :: "'w archive_files \<Rightarrow> string \<Rightarrow> string \<Rightarrow> nacos_reply \<Rightarrow> ('w, go_error option) state" where
  "save_skill af name output_dir rep =
     use_state (wrap_result ''failed to create temp file'' (af_create_temp af ''nacos-skill-*.zip'')) (\<lambda>tmp. do {
       e \<leftarrow> unpack_skill af tmp name output_dir rep;
       _ \<leftarrow> af_remove af tmp;
       State_Monad.return e })"

definition get_skill ::
  "'w archive_files \<Rightarrow> 'w nacos_client \<Rightarrow> string \<Rightarrow> string \<Rightarrow> string \<Rightarrow> string \<Rightarrow> ('w nacos_state, go_error option) state" where
  "get_skill af c name output_dir version label =
     use_state (nacos_get c ''failed to get skill'' (spec_url c ''skills'' name version label)) (\<lambda>rep.
       if rp_status rep \<noteq> 200 then State_Monad.return (Some (parse_nacos_http_error ''get skill'' rep))
       else on_net (save_skill af name output_dir rep))"

end
