(* ===== verification/Package_Resolve.thy ===== *)
theory Package_Resolve
  imports Nacos_Specs Deployer
begin

text \<open>
  \<open>internal/executor/package.go\<close>, first and last part: finding or downloading a package by its URI,
  extracting it, and the check of a \<open>nacos\<close> URI. The local files, the \<open>mc\<close> and \<open>unzip\<close> commands, the
  HTTP download and the hash are operations of the resolver. The script runner of the same package
  (\<open>shell.go\<close>) stands at the end.
\<close>

section \<open>The resolver\<close>

text \<open>
  A failed command ends with the text of its error and its output. A download has a status, the
  body read, and the error that ended reading early.
\<close>

record download =
  dl_status :: nat
  dl_body :: string
  dl_read_error :: "go_error option"

record 'w package_io = "'w archive_files" +
  pi_create :: "string \<Rightarrow> ('w, go_error option) state"
  pi_mc :: "string list \<Rightarrow> ('w, string \<times> string + string) state"
  pi_unzip :: "string \<Rightarrow> string \<Rightarrow> ('w, (string \<times> string) option) state"
  pi_http_build :: "string \<Rightarrow> go_error option"
  pi_http_get :: "string \<Rightarrow> ('w, download result) state"
  pi_getenv :: "string \<Rightarrow> string"
  pi_short_hash :: "string \<Rightarrow> string"
  pi_pretty_json :: "string \<Rightarrow> string option"

record 'w package_source =
  ps_import_dir :: string
  ps_extract_dir :: string
  ps_provider :: "(issue_request \<Rightarrow> ('w, issue_response result) state) option"
  ps_io :: "'w package_io"
  ps_net :: "'w nacos_net"

abbreviation ps_files :: "'w package_source \<Rightarrow> 'w local_files" where
  "ps_files p \<equiv> local_files.truncate (ps_io p)"

text \<open>The result of creating the directory is ignored; the credential provider is set afterwards.\<close>

definition new_package_resolver ::
  "'w package_io \<Rightarrow> 'w nacos_net \<Rightarrow> string \<Rightarrow> ('w, 'w package_source) state" where
  "new_package_resolver io net import_dir =
     (let extract_dir = filepath_join [import_dir, ''extracted''] in do {
        _ \<leftarrow> lf_mkdir_all (local_files.truncate io) extract_dir;
        State_Monad.return \<lparr>ps_import_dir = import_dir, ps_extract_dir = extract_dir, ps_provider = None,
          ps_io = io, ps_net = net\<rparr> })"

text \<open>\<open>os.Stat\<close> succeeds.\<close>

definition file_exists :: "'w package_source \<Rightarrow> string \<Rightarrow> ('w, bool) state" where
  "file_exists p path = do {
     r \<leftarrow> lf_is_dir (ps_files p) path;
     State_Monad.return (case r of Inl _ \<Rightarrow> False | Inr _ \<Rightarrow> True) }"

definition storage_prefix_of :: "'w package_source \<Rightarrow> string" where
  "storage_prefix_of p =
     (let v = pi_getenv (ps_io p) ''HICLAW_STORAGE_PREFIX'' in if v = [] then ''hiclaw/hiclaw-storage'' else v)"

definition url_path :: "go_url \<Rightarrow> string" where
  "url_path u = unescaped (gu_path u)"

section \<open>Logged texts\<close>

definition safe_package_uri :: "string \<Rightarrow> string" where
  "safe_package_uri raw =
     (case parse_url raw of
        Inl _ \<Rightarrow> raw
      | Inr u \<Rightarrow>
          (case gu_user u of
             None \<Rightarrow> raw
           | Some (name, _) \<Rightarrow> url_text (u\<lparr>gu_user := if name \<noteq> [] then Some (name, None) else None\<rparr>)))"

definition package_path_format :: "'w package_source \<Rightarrow> string \<Rightarrow> ('w, string) state" where
  "package_path_format p path = do {
     r \<leftarrow> lf_is_dir (ps_files p) path;
     State_Monad.return
       (case r of
          Inl _ \<Rightarrow> ''unknown''
        | Inr dir \<Rightarrow>
            if dir then ''directory''
            else if has_suffix (to_lower path) ''.zip'' then ''zip'' else ''file'') }"

section \<open>Files and object storage\<close>

definition resolve_file :: "'w package_source \<Rightarrow> go_url \<Rightarrow> ('w, string result) state" where
  "resolve_file p u =
     (let local = filepath_join [ps_import_dir p, path_base (url_path u)] in do {
        here \<leftarrow> file_exists p local;
        (if here then State_Monad.return (Inr local)
         else do {
           there \<leftarrow> file_exists p (url_path u);
           State_Monad.return
             (if there then Inr (url_path u)
              else Inl (Err (''file package not found at '' @ local @ '' or '' @ url_path u))) }) })"

text \<open>\<open>mc cp\<close>, with what the error message calls the source.\<close>

definition mc_copy :: "'w package_source \<Rightarrow> string \<Rightarrow> string \<Rightarrow> string \<Rightarrow> ('w, string result) state" where
  "mc_copy p shown source dest = do {
     r \<leftarrow> pi_mc (ps_io p) [''cp'', source, dest];
     State_Monad.return
       (case r of
          Inr _ \<Rightarrow> Inr dest
        | Inl (what, out) \<Rightarrow> Inl (Wrap (''failed to download '' @ shown @ '' from MinIO: '' @ out) (Err what))) }"

text \<open>A file that exists under the name of the package is taken for the package.\<close>

definition unless_cached ::
  "'w package_source \<Rightarrow> string \<Rightarrow> ('w, string result) state \<Rightarrow> ('w, string result) state" where
  "unless_cached p dest pull = do {
     here \<leftarrow> file_exists p dest;
     (if here then State_Monad.return (Inr dest) else pull) }"

definition resolve_oss :: "'w package_source \<Rightarrow> go_url \<Rightarrow> ('w, string result) state" where
  "resolve_oss p u =
     (let path = trim_prefix (gu_host u @ url_path u) ''/'';
          dest = filepath_join [ps_import_dir p, path_base path]
      in unless_cached p dest (mc_copy p (''oss://'' @ path) (storage_prefix_of p @ ''/'' @ path) dest))"

definition etag_in :: "string \<Rightarrow> string" where
  "etag_in out =
     (let key = [dquote] @ ''etag'' @ [dquote, CHR '':'', dquote] in
      case str_index out key of
        None \<Rightarrow> []
      | Some i \<Rightarrow>
          (case str_index (drop (i + 8) out) [dquote] of
             None \<Rightarrow> []
           | Some n \<Rightarrow> filter (\<lambda>c. c \<noteq> CHR ''-'') (take n (drop (i + 8) out))))"

definition get_minio_etag :: "'w package_source \<Rightarrow> string \<Rightarrow> ('w, string) state" where
  "get_minio_etag p path = do {
     r \<leftarrow> pi_mc (ps_io p) [''stat'', ''--json'', path];
     State_Monad.return (case r of Inl _ \<Rightarrow> [] | Inr out \<Rightarrow> etag_in out) }"

definition resolve_storage :: "'w package_source \<Rightarrow> string \<Rightarrow> ('w, string result) state" where
  "resolve_storage p uri =
     (let path = storage_prefix_of p @ ''/hiclaw-config/'' @ uri in do {
        found \<leftarrow> get_minio_etag p path;
        (let etag = (if found = [] then pi_short_hash (ps_io p) uri else found);
             dest = filepath_join [ps_import_dir p, etag @ ''.zip'']
         in unless_cached p dest (mc_copy p path path dest)) })"

section \<open>HTTP\<close>

definition http_file :: "'w package_source \<Rightarrow> string \<Rightarrow> string" where
  "http_file p uri =
     (let name = path_base uri in
      filepath_join [ps_import_dir p, if has_suffix name ''.zip'' then name else name @ ''.zip''])"

definition store_download :: "'w package_source \<Rightarrow> string \<Rightarrow> download \<Rightarrow> ('w, string result) state" where
  "store_download p dest d =
     check_state (wrap_error (''failed to create '' @ dest) (pi_create (ps_io p) dest)) (do {
       e \<leftarrow> then_step (lf_write (ps_files p) dest (dl_body d)) (State_Monad.return (dl_read_error d));
       (case e of
          None \<Rightarrow> State_Monad.return (Inr dest)
        | Some err \<Rightarrow> do {
            _ \<leftarrow> af_remove (archive_files.truncate (ps_io p)) dest;
            State_Monad.return (Inl (Wrap (''failed to write '' @ dest) err)) }) })"

definition resolve_http :: "'w package_source \<Rightarrow> string \<Rightarrow> ('w, string result) state" where
  "resolve_http p uri =
     (let dest = http_file p uri in
      unless_cached p dest
        (case pi_http_build (ps_io p) uri of
           Some e \<Rightarrow> State_Monad.return (Inl (Wrap (''failed to create request for '' @ uri) e))
         | None \<Rightarrow>
             try_state (wrap_result (''failed to download '' @ uri) (pi_http_get (ps_io p) uri)) (\<lambda>d.
               if dl_status d \<noteq> 200
               then State_Monad.return (Inl (Err (''download '' @ uri @ '' returned status '' @ show_nat (dl_status d))))
               else store_download p dest d)))"

section \<open>Nacos\<close>

definition in_session :: "('w nacos_state, 'a) state \<Rightarrow> ('w, 'a) state" where
  "in_session m = State (\<lambda>w. case run_state m (fresh_session w) of (a, s) \<Rightarrow> (a, session_world s))"

text \<open>\<open>/{namespace}/{agentspec-name}[/{version}]\<close>; a version \<open>label:x\<close> is the label \<open>x\<close>.\<close>

record nacos_reference =
  nr_addr :: string
  nr_namespace :: string
  nr_spec :: string
  nr_version :: string
  nr_label :: string
  nr_auth_type :: string

definition nacos_reference_of :: "go_url \<Rightarrow> nacos_reference option" where
  "nacos_reference_of u =
     (case split_on (CHR ''/'') (trim_both (\<lambda>c. c = CHR ''/'') (url_path u)) of
        namespace # spec # rest \<Rightarrow>
          (let version = (case rest of [] \<Rightarrow> [] | v # _ \<Rightarrow> v);
               labelled = has_prefix version ''label:''
           in Some \<lparr>nr_addr = (case gu_user u of None \<Rightarrow> [] | Some i \<Rightarrow> Go_Url.user_text i @ ''@'') @ gu_host u,
                nr_namespace = namespace, nr_spec = spec,
                nr_version = (if labelled then [] else version),
                nr_label = (if labelled then drop 6 version else []),
                nr_auth_type = trim_space (query_get (gu_query u) ''authType'')\<rparr>)
      | _ \<Rightarrow> None)"

definition connect_reference ::
  "'w nacos_net \<Rightarrow> (issue_request \<Rightarrow> ('w, issue_response result) state) option \<Rightarrow> nacos_reference \<Rightarrow>
   ('w nacos_state, 'w nacos_client result) state" where
  "connect_reference net provider r =
     new_nacos_ai_client net provider [] (nr_addr r) (nr_namespace r) (nr_auth_type r)"

definition fetch_reference ::
  "'w package_source \<Rightarrow> nacos_reference \<Rightarrow> string \<Rightarrow> ('w, go_error option) state" where
  "fetch_reference p r output_dir = in_session
     (use_state (connect_reference (ps_net p) (ps_provider p) r) (\<lambda>c.
        wrap_error (''fetch agentspec '' @ nr_spec r @ '' from nacos failed'')
          (get_agent_spec (pi_pretty_json (ps_io p)) (ps_files p) c (nr_spec r) output_dir (nr_version r)
            (nr_label r))))"

definition resolve_nacos :: "'w package_source \<Rightarrow> go_url \<Rightarrow> ('w, string result) state" where
  "resolve_nacos p u =
     (case nacos_reference_of u of
        None \<Rightarrow> State_Monad.return (Inl (Err (''invalid nacos URI: expected nacos://[user:pass@]host:port/'' @
          ''{namespace}/{agentspec-name}[/{version}], got '' @ url_text u)))
      | Some r \<Rightarrow>
          let output_dir = filepath_join [ps_import_dir p, ''nacos'']; dest = filepath_join [output_dir, nr_spec r] in
          check_state (wrap_error (''failed to create nacos import dir '' @ output_dir)
            (lf_mkdir_all (ps_files p) output_dir))
          (check_state (wrap_error (''failed to clean previous nacos package '' @ dest)
            (lf_remove_all (ps_files p) dest))
          (check_state (fetch_reference p r output_dir)
          (do {
            d \<leftarrow> lf_is_dir (ps_files p) dest;
            State_Monad.return
              (case d of
                 Inl e \<Rightarrow> Inl (Wrap (''agentspec download finished but '' @ dest @ '' was not created'') e)
               | Inr dir \<Rightarrow>
                   if dir then Inr dest
                   else Inl (Err (''agentspec output '' @ dest @ '' is not a directory''))) }))))"

definition validate_nacos_uri ::
  "'w nacos_net \<Rightarrow> (issue_request \<Rightarrow> ('w, issue_response result) state) option \<Rightarrow> string \<Rightarrow>
   ('w, go_error option) state" where
  "validate_nacos_uri net provider raw =
     (let invalid = ''invalid nacos URI '' @ go_quote raw; failed = ''nacos preflight check failed for '' @ go_quote raw in
      case parse_url raw of
        Inl e \<Rightarrow> State_Monad.return (Some (Wrap invalid e))
      | Inr u \<Rightarrow>
          if gu_scheme u \<noteq> ''nacos''
          then State_Monad.return (Some (Err (invalid @ '': scheme must be nacos://'')))
          else if gu_host u = [] then State_Monad.return (Some (Err (invalid @ '': missing host'')))
          else (case nacos_reference_of u of
             None \<Rightarrow> State_Monad.return (Some (Err (invalid @ '': expected nacos://[user:pass@]host:port/'' @
               ''{namespace}/{agentspec-name}[/{version}]'')))
           | Some r \<Rightarrow> in_session
               (use_state (wrap_result failed (connect_reference net provider r)) (\<lambda>c.
                  wrap_error failed (check_agent_spec_exists c (nr_spec r) (nr_version r) (nr_label r))))))"

section \<open>Resolving\<close>

definition resolve_package :: "'w package_source \<Rightarrow> string \<Rightarrow> ('w, string result) state" where
  "resolve_package p uri =
     (if uri = [] then State_Monad.return (Inr [])
      else (case parse_url uri of
         Inl e \<Rightarrow> State_Monad.return (Inl (Wrap (''invalid package URI '' @ go_quote uri) e))
       | Inr u \<Rightarrow>
           if gu_scheme u = ''file'' then resolve_file p u
           else if gu_scheme u = ''http'' \<or> gu_scheme u = ''https'' then resolve_http p uri
           else if gu_scheme u = ''nacos'' then resolve_nacos p u
           else if gu_scheme u = ''oss'' then resolve_oss p u
           else resolve_storage p uri))"

definition extract_package :: "'w package_source \<Rightarrow> string \<Rightarrow> string \<Rightarrow> ('w, string result) state" where
  "extract_package p archive name =
     (let dest = filepath_join [ps_extract_dir p, name] in do {
        _ \<leftarrow> lf_remove_all (ps_files p) dest;
        check_state (wrap_error ''create extract dir'' (lf_mkdir_all (ps_files p) dest)) (do {
          r \<leftarrow> pi_unzip (ps_io p) archive dest;
          State_Monad.return
            (case r of
               None \<Rightarrow> Inr dest
             | Some (what, out) \<Rightarrow> Inl (Wrap (''extract ZIP '' @ archive @ '': '' @ out) (Err what))) }) })"

definition resolve_and_extract :: "'w package_source \<Rightarrow> string \<Rightarrow> string \<Rightarrow> ('w, string result) state" where
  "resolve_and_extract p uri name =
     (if uri = [] then State_Monad.return (Inr [])
      else try_state (wrap_result ''resolve package'' (resolve_package p uri)) (\<lambda>resolved. do {
        d \<leftarrow> lf_is_dir (ps_files p) resolved;
        (case d of
           Inr True \<Rightarrow> State_Monad.return (Inr resolved)
         | _ \<Rightarrow> extract_package p resolved name) }))"

text \<open>What the deployer calls.\<close>

definition package_resolver_of :: "'w package_source \<Rightarrow> 'w package_resolver" where
  "package_resolver_of p = \<lparr>pk_resolve_and_extract = resolve_and_extract p\<rparr>"

section \<open>Scripts\<close>

text \<open>
  \<open>internal/executor/shell.go\<close>: running a script of the installation and reading the result block it
  prints, and the operation of the deployer that pushes built-in skills with such a script. Running a
  command within a time limit (nanoseconds) and parsing JSON are operations of the shell.
\<close>

record command_outcome =
  co_stdout :: string
  co_stderr :: string
  co_error :: "go_error option"

record 'w shell =
  sl_scripts_dir :: string
  sl_timeout :: int
  sl_exec :: "int \<Rightarrow> string list \<Rightarrow> ('w, command_outcome) state"
  sl_parse :: "string \<Rightarrow> raw_json"

record script_result =
  sr_raw :: string
  sr_json :: "(string \<times> json) list"
  sr_matrix_user_id :: string
  sr_room_id :: string

definition new_shell ::
  "(int \<Rightarrow> string list \<Rightarrow> ('w, command_outcome) state) \<Rightarrow> (string \<Rightarrow> raw_json) \<Rightarrow> string \<Rightarrow> 'w shell" where
  "new_shell exec parse dir =
     \<lparr>sl_scripts_dir = dir, sl_timeout = 600000000000, sl_exec = exec, sl_parse = parse\<rparr>"

definition result_marker :: string where
  "result_marker = ''---RESULT---''"

text \<open>The block after the first marker; without one, or if it is no JSON object, only the raw output is set.\<close>

definition read_script_result :: "(string \<Rightarrow> raw_json) \<Rightarrow> string \<Rightarrow> script_result" where
  "read_script_result parse out =
     (let plain = \<lparr>sr_raw = out, sr_json = [], sr_matrix_user_id = [], sr_room_id = []\<rparr> in
      case str_index out result_marker of
        None \<Rightarrow> plain
      | Some i \<Rightarrow>
          (case document_map (parse (trim_space (drop (i + length result_marker) out))) of
             None \<Rightarrow> plain
           | Some doc \<Rightarrow> plain\<lparr>sr_json := doc, sr_matrix_user_id := text_member doc ''matrix_user_id'',
               sr_room_id := text_member doc ''room_id''\<rparr>))"

definition script_failed :: "string \<Rightarrow> go_error \<Rightarrow> string \<Rightarrow> string" where
  "script_failed script e err = ''script '' @ script @ '' failed: '' @ err_text e @ newline @ ''stderr: '' @ err"

definition run_script :: "'w shell \<Rightarrow> string \<Rightarrow> string list \<Rightarrow> ('w, script_result result) state" where
  "run_script s script args = do {
     r \<leftarrow> sl_exec s (sl_timeout s) ([''bash'', script] @ args);
     State_Monad.return
       (case co_error r of
          Some e \<Rightarrow> Inl (Err (script_failed script e (co_stderr r) @ newline @ ''stdout: '' @ co_stdout r))
        | None \<Rightarrow> Inr (read_script_result (sl_parse s) (co_stdout r))) }"

definition run_simple :: "'w shell \<Rightarrow> string \<Rightarrow> string list \<Rightarrow> ('w, string result) state" where
  "run_simple s script args = do {
     r \<leftarrow> sl_exec s (sl_timeout s) ([''bash'', script] @ args);
     State_Monad.return
       (case co_error r of
          Some e \<Rightarrow> Inl (Err (script_failed script e (co_stderr r)))
        | None \<Rightarrow> Inr (co_stdout r)) }"

text \<open>\<open>dp_push_skills\<close> of the deployer: nothing is done where the script is not installed.\<close>

definition push_skills_script :: string where
  "push_skills_script = ''/opt/hiclaw/agent/skills/worker-management/scripts/push-worker-skills.sh''"

definition push_builtin_skills :: "'w local_files \<Rightarrow> 'w shell \<Rightarrow> string \<Rightarrow> ('w, go_error option) state" where
  "push_builtin_skills lf s worker = do {
     found \<leftarrow> lf_is_dir lf push_skills_script;
     (case found of
        Inl OsNotExist \<Rightarrow> State_Monad.return None
      | _ \<Rightarrow> use_state (run_simple s push_skills_script [''--worker'', worker, ''--no-notify''])
               (\<lambda>_. State_Monad.return None)) }"

text \<open>What a script prints before its result does not disturb the result.\<close>

lemma result_after_output:
  assumes "\<not> str_contains (out @ butlast result_marker) result_marker"
  shows "read_script_result parse (out @ result_marker @ text) =
    (case document_map (parse (trim_space text)) of
       None \<Rightarrow> \<lparr>sr_raw = out @ result_marker @ text, sr_json = [], sr_matrix_user_id = [], sr_room_id = []\<rparr>
     | Some doc \<Rightarrow> \<lparr>sr_raw = out @ result_marker @ text, sr_json = doc,
         sr_matrix_user_id = text_member doc ''matrix_user_id'', sr_room_id = text_member doc ''room_id''\<rparr>)"
proof -
  have "str_index (out @ result_marker @ text) result_marker = Some (length out)"
  proof -
    have ne: "result_marker \<noteq> []" by (simp add: result_marker_def)
    have "\<not> has_prefix (drop j (out @ result_marker @ text)) result_marker" if j: "j < length out" for j
    proof
      assume "has_prefix (drop j (out @ result_marker @ text)) result_marker"
      then have "take (length result_marker) (drop j (out @ result_marker @ text)) = result_marker"
        by (simp add: has_prefix_def)
      moreover have "take (length result_marker) (drop j (out @ result_marker @ text)) =
          take (length result_marker) (drop j (out @ butlast result_marker))"
        using j ne by (simp add: butlast_conv_take)
      ultimately have "take j (out @ butlast result_marker) @ result_marker @
          drop (length result_marker) (drop j (out @ butlast result_marker)) = out @ butlast result_marker"
        by (metis append_take_drop_id)
      then show False using assms str_contains_iff [OF ne] by metis
    qed
    then show ?thesis using str_index_iff [OF ne] by (simp add: has_prefix_def)
  qed
  then show ?thesis by (simp add: read_script_result_def split: option.split)
qed

end
