(* ===== verification/Nacos_Properties.thy ===== *)
theory Nacos_Properties
  imports Package_Resolve
begin

text \<open>
  What fetching from a registry does to the local file system: an archive of a skill stays inside its
  directory whatever its entries are called, the resources of an agent specification do not, a
  specification called \<open>..\<close> removes every package; and packages of the same file name are confused.
\<close>

section \<open>Archives\<close>

lemma resolve_relative_shape:
  assumes "\<exists>k ps. acc = rev (replicate k ''..'' @ ps) \<and> list_all plain_element ps"
    and "list_all (\<lambda>e. CHR ''/'' \<notin> set e) es"
  shows "\<exists>k ps. resolve_dots False acc es = replicate k ''..'' @ ps \<and> list_all plain_element ps"
  using assms
proof (induction es arbitrary: acc)
  case Nil
  then obtain k ps where "acc = rev (replicate k ''..'' @ ps)" "list_all plain_element ps" by blast
  then have "resolve_dots False acc [] = replicate k ''..'' @ ps" by simp
  then show ?case using \<open>list_all plain_element ps\<close> by blast
next
  case (Cons e es)
  obtain k ps where acc: "acc = rev (replicate k ''..'' @ ps)" and ps: "list_all plain_element ps"
    using Cons.prems(1) by blast
  have es: "list_all (\<lambda>e. CHR ''/'' \<notin> set e) es" using Cons.prems(2) by simp
  note IH = Cons.IH [OF _ es]
  have "e = [] \<or> e = ''.'' \<or> e = ''..'' \<or> plain_element e"
    using Cons.prems(2) unfolding plain_element_def by auto
  then consider "e = [] \<or> e = ''.''" | "e = ''..''" "ps = []" | p qs where "e = ''..''" "ps = qs @ [p]" | "plain_element e"
    by (metis rev_exhaust)
  then show ?case
  proof cases
    case 1
    then show ?thesis using IH [of acc] Cons.prems(1) by auto
  next
    case 2
    then have acc': "acc = replicate k ''..''" using acc by simp
    have "resolve_dots False acc (e # es) = resolve_dots False (replicate (Suc k) ''..'') es"
      using 2(1) unfolding acc' by (cases k) simp_all
    moreover have "\<exists>k' ps'. replicate (Suc k) ''..'' = rev (replicate k' ''..'' @ ps') \<and> list_all plain_element ps'"
      by (rule exI [of _ "Suc k"], rule exI [of _ "[]"]) (simp add: replicate_append_same)
    ultimately show ?thesis using IH [of "replicate (Suc k) ''..''"] by simp
  next
    case 3
    then have p: "plain_element p" and qs: "list_all plain_element qs" using ps by simp_all
    have acc': "acc = p # rev (replicate k ''..'' @ qs)" using acc 3(2) by simp
    have "p \<noteq> ''..''" using p by (simp add: plain_element_def)
    then have "resolve_dots False acc (e # es) = resolve_dots False (rev (replicate k ''..'' @ qs)) es"
      using 3(1) unfolding acc' by simp
    then show ?thesis using IH [of "rev (replicate k ''..'' @ qs)"] qs by metis
  next
    case 4
    then have "resolve_dots False acc (e # es) = resolve_dots False (e # acc) es" by (simp add: plain_element_def)
    moreover have "\<exists>k' ps'. e # acc = rev (replicate k' ''..'' @ ps') \<and> list_all plain_element ps'"
      using 4 acc ps by (intro exI [of _ k] exI [of _ "ps @ [e]"]) simp
    ultimately show ?thesis using IH [of "e # acc"] by simp
  qed
qed

text \<open>The accepted names are those of plain elements.\<close>

lemma accepted_entry:
  assumes "clean_zip_entry_name name = Inr rel"
  obtains es where "es \<noteq> []" "list_all plain_element es" "rel = join_with ''/'' es"
proof -
  have rel: "\<not> is_rooted name" "rel = path_clean name" "rel \<noteq> ''.''" "rel \<noteq> ''..''" "\<not> has_prefix rel ''../''"
    using assms by (auto simp: clean_zip_entry_name_def Let_def split: if_splits)
  have parts: "list_all (\<lambda>e. CHR ''/'' \<notin> set e) (split_on (CHR ''/'') name)"
    by (simp add: list_all_iff split_on_parts)
  have "\<exists>k ps. [] = rev (replicate k ''..'' @ ps) \<and> list_all plain_element ps"
    by (rule exI [of _ 0], rule exI [of _ "[]"]) simp
  then obtain k ps where es: "path_elements name = replicate k ''..'' @ ps" "list_all plain_element ps"
    using resolve_relative_shape [OF _ parts, of "[]"] rel(1) by (auto simp: path_elements_def)
  then have shown: "rel = (if replicate k ''..'' @ ps = [] then ''.'' else join_with ''/'' (replicate k ''..'' @ ps))"
    using rel(1,2) by (simp add: path_clean_def path_text_def)
  have "k = 0"
  proof (rule ccontr)
    assume "k \<noteq> 0"
    then obtain j where "k = Suc j" by (cases k) auto
    then have "rel = ''..'' @ (if replicate j ''..'' @ ps = [] then [] else CHR ''/'' # join_with ''/'' (replicate j ''..'' @ ps))"
      using shown by (simp add: join_hd_prefix)
    then show False using rel(4,5) by (simp add: has_prefix_def split: if_splits)
  qed
  then show ?thesis using that [of ps] es shown rel(3) by (simp split: if_splits)
qed

lemma entry_destination:
  assumes "is_rooted out" "clean_zip_entry_name name = Inr rel" "path_abs wd (filepath_join [out, rel]) = Inr dest"
  shows "\<exists>es. es \<noteq> [] \<and> list_all plain_element es \<and> dest = path_text True (path_elements out @ es)"
proof -
  obtain es where es: "es \<noteq> []" "list_all plain_element es" "rel = join_with ''/'' es"
    using accepted_entry [OF assms(2)] by blast
  have "split_on (CHR ''/'') rel = es"
    using es by (simp add: split_join_with list_all_iff plain_no_slash)
  then have "path_elements (filepath_join [out, rel]) = path_elements out @ es"
    using join_rooted(2) [OF assms(1), of rel] resolve_plain [of es True "rev (path_elements out)"] es(2)
    by (simp add: list_all_iff)
  then have "dest = path_text True (path_elements out @ es)"
    using assms(3) join_rooted(1) [OF assms(1), of rel] by (simp add: path_abs_def path_clean_def)
  then show ?thesis using es by blast
qed

text \<open>The directory of a path of plain elements.\<close>

lemma path_dir_text:
  assumes "list_all plain_element es" "plain_element e"
  shows "path_dir (path_text True (es @ [e])) = path_text True es"
proof -
  have m: "marker ''/''" by (simp add: marker_def)
  have no: "\<not> str_contains e ''/''"
  proof
    assume "str_contains e ''/''"
    then obtain x y where "e = x @ ''/'' @ y" using str_contains_iff [of "''/''" e] by auto
    then show False using assms(2) by (simp add: plain_element_def)
  qed
  show ?thesis
  proof (cases es)
    case Nil
    then have "path_text True (es @ [e]) = [] @ ''/'' @ e" by (simp add: path_text_def)
    then show ?thesis using str_last_index_marker [OF m no, of "[]"] Nil
      by (simp add: path_dir_def path_text_def)
  next
    case (Cons a as)
    then have "path_text True (es @ [e]) = path_text True es @ ''/'' @ e"
      using join_with_append [of es "[e]" "''/''"] by (simp add: path_text_def)
    then show ?thesis using str_last_index_marker [OF m no, of "path_text True es"]
      by (simp add: path_dir_def path_text_def)
  qed
qed

definition below :: "string \<Rightarrow> string \<Rightarrow> bool" where
  "below dir path \<longleftrightarrow> prefix (path_elements dir) (path_elements path)"

lemma below_text:
  assumes "is_rooted out" "list_all plain_element es"
  shows "below out (path_text True (path_elements out @ es))"
proof -
  have "\<forall>e \<in> set (path_elements out @ es). plain_element e"
    using assms rooted_elements [OF assms(1)] by (auto simp: list_all_iff)
  then show ?thesis by (simp add: below_def path_text_rooted(2))
qed

text \<open>\<open>touched w\<close> are the paths that were created or written so far.\<close>

locale recording_files =
  fixes af :: "'w archive_files" and touched :: "'w \<Rightarrow> string set"
  assumes mkdir_touches: "touched (snd (run_state (lf_mkdir_all (local_files.truncate af) p) w)) \<subseteq> insert p (touched w)"
    and write_touches: "touched (snd (run_state (lf_write (local_files.truncate af) p d) w)) \<subseteq> insert p (touched w)"
    and open_touches: "touched (snd (run_state (af_open_zip af p) w)) = touched w"
    and wd_touches: "touched (snd (run_state (af_getwd af) w)) = touched w"
begin

definition inside :: "string \<Rightarrow> ('w, go_error option) state \<Rightarrow> bool" where
  "inside dir m \<longleftrightarrow> (\<forall>w. touched (snd (run_state m w)) \<subseteq> touched w \<union> Collect (below dir))"

lemma inside_return [simp]: "inside dir (State_Monad.return x)"
  by (simp add: inside_def)

lemma inside_then:
  assumes "inside dir m" "inside dir k"
  shows "inside dir (then_step m k)"
  unfolding inside_def
proof
  fix w
  obtain r v where v: "run_state m w = (r, v)" by fastforce
  then have "touched v \<subseteq> touched w \<union> Collect (below dir)" using assms(1) unfolding inside_def by (metis snd_conv)
  moreover have "touched (snd (run_state k v)) \<subseteq> touched v \<union> Collect (below dir)" using assms(2) unfolding inside_def by blast
  ultimately show "touched (snd (run_state (then_step m k) w)) \<subseteq> touched w \<union> Collect (below dir)"
    using v by (cases r) (auto simp: then_step_def)
qed

lemma inside_mkdir: "below dir p \<Longrightarrow> inside dir (lf_mkdir_all (local_files.truncate af) p)"
  using mkdir_touches by (fastforce simp: inside_def)

lemma inside_write: "below dir p \<Longrightarrow> inside dir (lf_write (local_files.truncate af) p d)"
  using write_touches by (fastforce simp: inside_def)

lemma inside_each: "(\<And>x. x \<in> set xs \<Longrightarrow> inside dir (f x)) \<Longrightarrow> inside dir (each_step f xs)"
proof (induction xs)
  case (Cons x xs)
  have "each_step f (x # xs) = then_step (f x) (each_step f xs)" by (simp add: then_step_def)
  then show ?case using Cons inside_then by simp
qed simp

lemma absolute_touches: "touched (snd (run_state (absolute_path af p) w)) = touched w"
  using wd_touches [of w] by (cases "run_state (af_getwd af) w") (simp add: absolute_path_def)

lemma inside_use:
  assumes "\<And>w. touched (snd (run_state m w)) = touched w" "\<And>x w. fst (run_state m w) = Inr x \<Longrightarrow> inside dir (k x)"
  shows "inside dir (use_state m k)"
  unfolding inside_def
proof
  fix w
  show "touched (snd (run_state (use_state m k) w)) \<subseteq> touched w \<union> Collect (below dir)"
    using assms(1) [of w] assms(2) [of w] unfolding inside_def
    by (cases "run_state m w") (auto simp: run_use_state split: sum.splits)
qed

lemma entry_inside:
  assumes "is_rooted out"
  shows "inside out (extract_entry af out root e)"
proof (cases "clean_zip_entry_name (ze_name e)")
  case (Inl x)
  then show ?thesis by (simp add: extract_entry_def)
next
  case (Inr rel)
  have step: "inside out (if \<not> is_path_inside dest root then State_Monad.return (Some (unsafe_entry e ''escapes destination''))
        else if ze_dir e then lf_mkdir_all (local_files.truncate af) dest
        else then_step (lf_mkdir_all (local_files.truncate af) (path_dir dest)) (write_zip_file af e dest))"
    if d: "fst (run_state (absolute_path af (filepath_join [out, rel])) w) = Inr dest" for dest w
  proof -
    have "path_abs (Inr []) (filepath_join [out, rel]) = Inr dest"
      using d join_rooted(1) [OF assms, of rel] by (simp add: absolute_path_def)
    then obtain es where es: "es \<noteq> []" "list_all plain_element es" "dest = path_text True (path_elements out @ es)"
      using entry_destination [OF assms Inr] by blast
    obtain as a where a: "es = as @ [a]" using es(1) by (cases es rule: rev_cases) auto
    have out: "list_all plain_element (path_elements out)" using rooted_elements [OF assms] by (simp add: list_all_iff)
    have "path_dir dest = path_text True (path_elements out @ as)"
      using path_dir_text [of "path_elements out @ as" a] out es a by simp
    then have "below out dest" "below out (path_dir dest)"
      using below_text [OF assms] es a by simp_all
    then show ?thesis
      by (auto simp: write_zip_file_def intro!: inside_then inside_mkdir inside_write split: sum.splits prod.splits)
  qed
  have *: "inside out (use_state (absolute_path af (filepath_join [out, rel])) (\<lambda>dest.
      if \<not> is_path_inside dest root then State_Monad.return (Some (unsafe_entry e ''escapes destination''))
      else if ze_dir e then lf_mkdir_all (local_files.truncate af) dest
      else then_step (lf_mkdir_all (local_files.truncate af) (path_dir dest)) (write_zip_file af e dest)))"
    by (rule inside_use [OF absolute_touches]) (rule step)
  then show ?thesis using Inr by (simp add: extract_entry_def)
qed

lemma archive_inside: "is_rooted out \<Longrightarrow> inside out (extract_skill_zip af archive out)"
  unfolding extract_skill_zip_def
  by (intro inside_use inside_each entry_inside open_touches absolute_touches)

end

section \<open>A disk\<close>

text \<open>What the resolver relies on of the local files: a map from paths to contents.\<close>

locale disk_semantics =
  fixes lf :: "'w local_files" and content :: "'w \<Rightarrow> string \<Rightarrow> string option"
  assumes mkdir_ok: "\<exists>v. run_state (lf_mkdir_all lf p) w = (None, v) \<and> content v = content w"
    and write_ok: "\<exists>v. run_state (lf_write lf p d) w = (None, v) \<and> content v = (content w)(p \<mapsto> d)"
    and remove_ok: "\<exists>v. run_state (lf_remove_all lf p) w = (None, v) \<and>
      content v = (\<lambda>q. if below p q then None else content w q)"
    and stat_file: "content w p \<noteq> None \<Longrightarrow> run_state (lf_is_dir lf p) w = (Inr False, w)"
    and stat_reads: "snd (run_state (lf_is_dir lf p) w) = w"
begin

lemma write_resource_ok:
  assumes "asr_content res \<noteq> []" "build_agent_spec_resource_path res \<noteq> []" "resource_data res = Inr d"
  shows "\<exists>v. run_state (write_resource lf dir (Some res)) w = (None, v) \<and>
    content v = (content w)(filepath_join [dir, build_agent_spec_resource_path res] \<mapsto> d)"
proof -
  let ?p = "filepath_join [dir, build_agent_spec_resource_path res]"
  obtain v where v: "run_state (lf_mkdir_all lf (path_dir ?p)) w = (None, v)" "content v = content w"
    using mkdir_ok by blast
  obtain x where "run_state (lf_write lf ?p d) v = (None, x)" "content x = (content v)(?p \<mapsto> d)"
    using write_ok by blast
  then show ?thesis using assms v
    by (simp add: write_resource_def Let_def then_step_def wrap_error_def)
qed

lemma write_spec_ok:
  assumes "asr_content res \<noteq> []" "build_agent_spec_resource_path res \<noteq> []" "resource_data res = Inr d"
  shows "\<exists>v m. run_state (write_spec pretty lf dir \<lparr>nas_content = c, nas_resource = [(k, Some res)]\<rparr>) w = (None, v) \<and>
    content v = (content w)(filepath_join [dir, build_agent_spec_resource_path res] \<mapsto> d,
      filepath_join [dir, ''manifest.json''] \<mapsto> m)"
proof -
  obtain w1 where w1: "run_state (lf_mkdir_all lf dir) w = (None, w1)" "content w1 = content w" using mkdir_ok by blast
  obtain w2 where w2: "run_state (write_resource lf dir (Some res)) w1 = (None, w2)"
      "content w2 = (content w1)(filepath_join [dir, build_agent_spec_resource_path res] \<mapsto> d)"
    using write_resource_ok [OF assms] by blast
  let ?m = "case pretty c of None \<Rightarrow> c | Some text \<Rightarrow> text"
  obtain w3 where "run_state (lf_write lf (filepath_join [dir, ''manifest.json'']) ?m) w2 = (None, w3)"
      "content w3 = (content w2)(filepath_join [dir, ''manifest.json''] \<mapsto> ?m)" using write_ok by blast
  then show ?thesis using w1 w2
    by (intro exI [of _ w3] exI [of _ ?m])
       (simp add: write_spec_def write_agent_spec_manifest_def then_step_def wrap_error_def)
qed

end

text \<open>An executable disk, with the archive that \<open>zip.OpenReader\<close> finds in every file.\<close>

record disk =
  dk_files :: "(string \<times> string) list"
  dk_dirs :: "string list"

definition disk_stat :: "string \<Rightarrow> disk \<Rightarrow> bool result" where
  "disk_stat p w =
     (if map_of (dk_files w) p \<noteq> None then Inr False else if p \<in> set (dk_dirs w) then Inr True else Inl OsNotExist)"

definition disk_io :: "zip_entry list \<Rightarrow> (string \<Rightarrow> download result) \<Rightarrow> disk package_io" where
  "disk_io entries web =
     \<lparr>lf_is_dir = \<lambda>p. State (\<lambda>w. (disk_stat p w, w)),
      lf_mkdir_all = \<lambda>p. State (\<lambda>w. (None, w\<lparr>dk_dirs := p # dk_dirs w\<rparr>)),
      lf_read = \<lambda>p. State (\<lambda>w. (case map_of (dk_files w) p of None \<Rightarrow> Inl OsNotExist | Some d \<Rightarrow> Inr d, w)),
      lf_write = \<lambda>p d. State (\<lambda>w. (None, w\<lparr>dk_files := AList.update p d (dk_files w)\<rparr>)),
      lf_walk = \<lambda>p. State_Monad.return [],
      lf_read_dir = \<lambda>p. State_Monad.return (Inr []),
      lf_temp_dir = \<lambda>p. State_Monad.return (Inr ''/tmp/x''),
      lf_remove_all = \<lambda>p. State (\<lambda>w. (None, w\<lparr>dk_files := filter (\<lambda>(q, d). \<not> below p q) (dk_files w),
        dk_dirs := filter (\<lambda>q. \<not> below p q) (dk_dirs w)\<rparr>)),
      af_create_temp = \<lambda>p. State_Monad.return (Inr ''/tmp/y''),
      af_remove = \<lambda>p. State (\<lambda>w. ((), w\<lparr>dk_files := AList.delete p (dk_files w)\<rparr>)),
      af_open_zip = \<lambda>p. State_Monad.return (Inr entries),
      af_getwd = State_Monad.return (Inr ''/''),
      pi_create = \<lambda>p. State (\<lambda>w. (None, w\<lparr>dk_files := AList.update p [] (dk_files w)\<rparr>)),
      pi_mc = \<lambda>args. State_Monad.return (Inl (''exit status 1'', [])),
      pi_unzip = \<lambda>a d. State_Monad.return None,
      pi_http_build = \<lambda>u. None,
      pi_http_get = \<lambda>u. State_Monad.return (web u),
      pi_getenv = \<lambda>k. [],
      pi_short_hash = \<lambda>u. u,
      pi_pretty_json = \<lambda>t. Some t\<rparr>"

lemma map_of_filter_name: "map_of (filter (\<lambda>(q, d). P q) xs) k = (if P k then map_of xs k else None)"
  by (induction xs) auto

interpretation disk: disk_semantics "local_files.truncate (disk_io entries web)" "\<lambda>w. map_of (dk_files w)"
proof
  fix p d w
  show "\<exists>v. run_state (lf_remove_all (local_files.truncate (disk_io entries web)) p) w = (None, v) \<and>
      map_of (dk_files v) = (\<lambda>q. if below p q then None else map_of (dk_files w) q)"
    by (auto simp: disk_io_def local_files.defs map_of_filter_name [of "\<lambda>q. \<not> below p q"])
qed (auto simp: disk_io_def local_files.defs disk_stat_def update_conv')

interpretation disk_log: recording_files "archive_files.truncate (disk_io entries web)"
  "\<lambda>w. set (map fst (dk_files w)) \<union> set (dk_dirs w)"
  by unfold_locales (auto simp: disk_io_def local_files.defs archive_files.defs dom_update
      dest: set_mp [OF equalityD1 [OF dom_update]])

section \<open>Skills\<close>

text \<open>C32. Extracting the archive of a skill creates and writes nothing outside the directory it is extracted to,
  whatever the archive contains: entries with absolute names, with steps up or with backslashes,
  links and special files, and archives that turn out bad half-way.\<close>

theorem skill_archive_contained:
  assumes "recording_files af touched" "is_rooted out"
  shows "touched (snd (run_state (extract_skill_zip af archive out) w)) \<subseteq> touched w \<union> {q. below out q}"
  using recording_files.archive_inside [OF assms, of archive] recording_files.inside_def [OF assms(1)] by blast

definition sample_entry :: "string \<Rightarrow> zip_entry" where
  "sample_entry name = \<lparr>ze_name = name, ze_link = False, ze_special = False, ze_dir = False, ze_body = Inr (''x'', None)\<rparr>"

definition empty_disk :: disk where
  "empty_disk = \<lparr>dk_files = [], dk_dirs = []\<rparr>"

definition sample_archive :: "disk archive_files" where
  "sample_archive = archive_files.truncate (disk_io [sample_entry ''s/a'', sample_entry ''../b''] (\<lambda>u. Inl OsNotExist))"

lemma skill_archive_contained_witness:
  "set (map fst (dk_files (snd (run_state (extract_skill_zip sample_archive ''/t/z'' ''/t/o'') empty_disk)))) \<union>
     set (dk_dirs (snd (run_state (extract_skill_zip sample_archive ''/t/z'' ''/t/o'') empty_disk))) \<subseteq> {q. below ''/t/o'' q} \<and>
   dk_files (snd (run_state (extract_skill_zip sample_archive ''/t/z'' ''/t/o'') empty_disk)) = [(''/t/o/s/a'', ''x'')]"
proof
  have "recording_files sample_archive (\<lambda>w. set (map fst (dk_files w)) \<union> set (dk_dirs w))"
    unfolding sample_archive_def by (rule disk_log.recording_files_axioms)
  from skill_archive_contained [OF this, of "''/t/o''" "''/t/z''" empty_disk]
  show "set (map fst (dk_files (snd (run_state (extract_skill_zip sample_archive ''/t/z'' ''/t/o'') empty_disk)))) \<union>
     set (dk_dirs (snd (run_state (extract_skill_zip sample_archive ''/t/z'' ''/t/o'') empty_disk))) \<subseteq> {q. below ''/t/o'' q}"
    by (simp add: empty_disk_def is_rooted_def has_prefix_def)
qed code_simp

section \<open>Agent specifications\<close>

text \<open>The name of a resource whose file is \<open>target\<close>, given the directory of its specification.\<close>

definition escaping_name :: "string \<Rightarrow> string \<Rightarrow> string" where
  "escaping_name dir target = join_with ''/'' (replicate (length (path_elements dir)) ''..'' @ path_elements target)"

definition escaping_resource :: "string \<Rightarrow> string \<Rightarrow> string \<Rightarrow> agent_spec_resource" where
  "escaping_resource dir target data =
     \<lparr>asr_name = escaping_name dir target, asr_type = [], asr_content = data, asr_metadata = []\<rparr>"

lemma resolve_ups:
  assumes "list_all plain_element ps"
  shows "resolve_dots True (rev ps) (replicate (length ps) ''..'' @ es) = resolve_dots True [] es"
  using assms
proof (induction ps arbitrary: es rule: rev_induct)
  case (snoc p ps)
  then have "p \<noteq> ''..''" by (simp add: plain_element_def)
  then show ?case using snoc by simp
qed simp

lemma escaping_path:
  assumes "is_rooted dir" "is_rooted target" "path_elements target \<noteq> []"
  shows "filepath_join [dir, escaping_name dir target] = path_clean target"
proof -
  let ?ups = "replicate (length (path_elements dir)) ''..''"
  have plain: "list_all plain_element (path_elements dir)" "list_all plain_element (path_elements target)"
    using rooted_elements [OF assms(1)] rooted_elements [OF assms(2)] by (simp_all add: list_all_iff)
  have "CHR ''/'' \<notin> set e" if "e \<in> set ?ups" for e using that by (simp add: in_set_replicate)
  moreover have "CHR ''/'' \<notin> set e" if "e \<in> set (path_elements target)" for e
    using plain_no_slash [OF rooted_elements [OF assms(2) that]] .
  ultimately have "\<forall>e \<in> set (?ups @ path_elements target). CHR ''/'' \<notin> set e" by (simp add: ball_Un)
  then have "split_on (CHR ''/'') (escaping_name dir target) = ?ups @ path_elements target"
    unfolding escaping_name_def using assms(3) by (intro split_join_with) auto
  then have "path_elements (filepath_join [dir, escaping_name dir target]) = path_elements target"
    using join_rooted(2) [OF assms(1)] resolve_ups [OF plain(1)] resolve_plain [of "path_elements target" True "[]"] plain(2)
    by (simp add: list_all_iff)
  moreover have "filepath_join [dir, escaping_name dir target] = path_clean (dir @ CHR ''/'' # escaping_name dir target)"
  proof -
    have "escaping_name dir target \<noteq> []"
    proof
      assume "escaping_name dir target = []"
      then have "path_elements target = [[]]"
        using \<open>split_on (CHR ''/'') _ = _\<close> assms(3) by (cases "path_elements dir") simp_all
      then show False using plain(2) by (simp add: plain_element_def)
    qed
    then show ?thesis using rooted_nonempty [OF assms(1)] by (simp add: filepath_join_def)
  qed
  moreover have "is_rooted (dir @ CHR ''/'' # escaping_name dir target)" by (rule rooted_append [OF assms(1)])
  ultimately show ?thesis using assms(2) clean_rooted(2) by (simp add: path_clean_def)
qed

lemma trim_space_plain: "s \<noteq> [] \<Longrightarrow> \<not> is_space (hd s) \<Longrightarrow> \<not> is_space (last s) \<Longrightarrow> trim_space s = s"
  using trim_right_append [of s is_space "[]"]
  by (cases s) (simp_all add: trim_space_def trim_both_def trim_left_def)


text \<open>A registry with fixed answers, reached under every address unless \<open>dial\<close> says otherwise.\<close>

definition fixed_registry :: "(string \<Rightarrow> nacos_reply result) \<Rightarrow> go_error option \<Rightarrow> 'w nacos_net" where
  "fixed_registry answer dial =
     \<lparr>nn_build = \<lambda>u. None, nn_do = \<lambda>q. State_Monad.return (answer (nq_url q)), nn_dial = \<lambda>a. State_Monad.return dial,
      nn_now = State_Monad.return 0, nn_uuid = State_Monad.return ''uuid'', nn_hmac_sha1 = \<lambda>k d. d,
      nn_getenv = \<lambda>k. []\<rparr>"

definition json_reply :: "json \<Rightarrow> nacos_reply" where
  "json_reply v = \<lparr>rp_status = 200, rp_body = ''x'', rp_json = RawJson v, np_read_error = None\<rparr>"

definition escaping_reply :: nacos_reply where
  "escaping_reply = json_reply (JObj [(''code'', JNum 0), (''data'', JObj [(''content'', JStr ''{}''),
     (''resource'', JObj [(''r'', JObj [(''name'', JStr ''../../../../etc/passwd''), (''content'', JStr ''root'')])])])])"

definition escaping_client :: "disk nacos_client" where
  "escaping_client = \<lparr>nac_server = ''r:8848'', nac_namespace = ''public'', nac_auth = Auth_None,
     nac_net = fixed_registry (\<lambda>u. Inr escaping_reply) None\<rparr>"

lemma escaping_fetch:
  "run_state (fetch_agent_spec escaping_client ''w'' [] []) (fresh_session empty_disk) =
     (Inr \<lparr>nas_content = ''{}'', nas_resource = [(''r'', Some (escaping_resource (filepath_join [''/tmp/import/nacos'', ''w''])
        ''/etc/passwd'' ''root''))]\<rparr>, fresh_session empty_disk)"
  by code_simp


section \<open>Packages\<close>

definition empty_url :: go_url where
  "empty_url = \<lparr>gu_scheme = [], gu_opaque = [], gu_user = None, gu_host = [], gu_path = [], gu_omit_host = False,
     gu_force_query = False, gu_query = [], gu_fragment = []\<rparr>"

lemma parse_empty: "parse_url [] = Inr empty_url"
  by code_simp

text \<open>Resolving a package whose agent specification is called \<open>..\<close> removes the whole import directory, with the
  packages of every other worker, before the registry is even contacted: here it cannot be reached,
  and the resolution reports that.\<close>

theorem dotdot_package_clears_imports:
  assumes "disk_semantics (ps_files p) content" "is_rooted (ps_import_dir p)"
    and "parse_url uri = Inr u" "gu_scheme u = ''nacos''" "nacos_reference_of u = Some r" "nr_spec r = ''..''"
    and "\<And>dir v. \<exists>v'. run_state (fetch_reference p r dir) v = (Some e, v') \<and> content v' = content v"
  shows "\<exists>w'. run_state (resolve_package p uri) w = (Inl e, w') \<and>
    content w' = (\<lambda>q. if below (ps_import_dir p) q then None else content w q)"
proof -
  let ?out = "filepath_join [ps_import_dir p, ''nacos'']" and ?dest = "filepath_join [filepath_join [ps_import_dir p, ''nacos''], ''..'']"
  have nacos: "path_elements ?out = path_elements (ps_import_dir p) @ [''nacos'']"
    by (rule join_element [OF assms(2)]) (simp add: plain_element_def)
  have "path_elements ?dest = path_elements (ps_import_dir p)"
    using join_up [OF join_rooted(1) [OF assms(2), of "''nacos''"]] nacos by simp
  then have dest: "below ?dest = below (ps_import_dir p)" by (simp add: below_def fun_eq_iff)
  obtain w1 where w1: "run_state (lf_mkdir_all (ps_files p) ?out) w = (None, w1)" "content w1 = content w"
    using disk_semantics.mkdir_ok [OF assms(1)] by blast
  obtain w2 where w2: "run_state (lf_remove_all (ps_files p) ?dest) w1 = (None, w2)"
      "content w2 = (\<lambda>q. if below ?dest q then None else content w1 q)"
    using disk_semantics.remove_ok [OF assms(1)] by blast
  obtain w3 where w3: "run_state (fetch_reference p r ?out) w2 = (Some e, w3)" "content w3 = content w2"
    using assms(7) by blast
  have "uri \<noteq> []" using assms(3,4) parse_empty by (auto simp: empty_url_def)
  then have "run_state (resolve_package p uri) w = (Inl e, w3)"
    using w1(1) w2(1) w3(1) assms(3-6)
    by (simp add: resolve_package_def resolve_nacos_def Let_def run_check_state wrap_error_def)
  then show ?thesis using w1(2) w2(2) w3(2) dest by (simp cong: if_cong)
qed

definition unreachable_source :: "disk package_source" where
  "unreachable_source = \<lparr>ps_import_dir = ''/tmp/import'', ps_extract_dir = ''/tmp/import/extracted'', ps_provider = None,
     ps_io = disk_io [] (\<lambda>u. Inl OsNotExist), ps_net = fixed_registry (\<lambda>u. Inl OsNotExist) (Some OsNotExist)\<rparr>"

definition dotdot_reference :: nacos_reference where
  "dotdot_reference = \<lparr>nr_addr = ''registry'', nr_namespace = ''public'', nr_spec = ''..'', nr_version = [], nr_label = [],
     nr_auth_type = []\<rparr>"

lemma dotdot_parsed:
  "parse_url ''nacos://registry/public/..'' =
     Inr \<lparr>gu_scheme = ''nacos'', gu_opaque = [], gu_user = None, gu_host = ''registry'', gu_path = ''/public/..'',
       gu_omit_host = False, gu_force_query = False, gu_query = [], gu_fragment = []\<rparr>"
  "nacos_reference_of \<lparr>gu_scheme = ''nacos'', gu_opaque = [], gu_user = None, gu_host = ''registry'', gu_path = ''/public/..'',
       gu_omit_host = False, gu_force_query = False, gu_query = [], gu_fragment = []\<rparr> = Some dotdot_reference"
  by code_simp+

lemma unreachable_fetch:
  "run_state (fetch_reference unreachable_source dotdot_reference dir) v =
     (Some (Wrap ''failed to connect to registry:8848'' OsNotExist), v)"
proof -
  have addr: "parse_nacos_addr (\<lambda>k. []) ''registry'' = Inr (''registry'', ''8848'', [], [])" by code_simp
  have host: "join_host_port ''registry'' ''8848'' = ''registry:8848''" by code_simp
  show ?thesis
    by (simp add: fetch_reference_def in_session_def connect_reference_def new_nacos_ai_client_def unreachable_source_def
        dotdot_reference_def fixed_registry_def addr host detect_auth_type_def nacos_auth_of_def preflight_connect_def
        run_use_state run_try_state run_check_state wrap_error_def on_net_def fresh_session_def session_world_def Let_def)
qed

lemma dotdot_package_clears_imports_witness:
  "\<exists>w'. run_state (resolve_package unreachable_source ''nacos://registry/public/..'')
       \<lparr>dk_files = [(''/tmp/import/a.zip'', ''x''), (''/tmp/b'', ''y'')], dk_dirs = []\<rparr> =
       (Inl (Wrap ''failed to connect to registry:8848'' OsNotExist), w') \<and>
     map_of (dk_files w') ''/tmp/import/a.zip'' = None \<and> map_of (dk_files w') ''/tmp/b'' = Some ''y''"
proof -
  have files: "disk_semantics (ps_files unreachable_source) (\<lambda>w. map_of (dk_files w))"
    unfolding unreachable_source_def by (simp add: disk.disk_semantics_axioms)
  have dir: "is_rooted (ps_import_dir unreachable_source)" by code_simp
  have inside: "below (ps_import_dir unreachable_source) ''/tmp/import/a.zip''"
      "\<not> below (ps_import_dir unreachable_source) ''/tmp/b''"
    by code_simp+
  show ?thesis
    using dotdot_package_clears_imports [OF files dir dotdot_parsed(1) _ dotdot_parsed(2), of
        "Wrap ''failed to connect to registry:8848'' OsNotExist"
        "\<lparr>dk_files = [(''/tmp/import/a.zip'', ''x''), (''/tmp/b'', ''y'')], dk_dirs = []\<rparr>"]
      unreachable_fetch inside by (auto simp: dotdot_reference_def)
qed

text \<open>A package taken by its file name.\<close>

lemma unless_cached_here:
  assumes "run_state (lf_is_dir (ps_files p) dest) w = (Inr d, w)"
  shows "run_state (unless_cached p dest pull) w = (Inr dest, w)"
  using assms by (simp add: unless_cached_def file_exists_def)

lemma store_download_there:
  assumes "disk_semantics (ps_files p) content" "run_state (store_download p dest d) w = (Inr f, w1)"
  shows "f = dest \<and> run_state (lf_is_dir (ps_files p) dest) w1 = (Inr False, w1)"
proof -
  obtain e v where create: "run_state (pi_create (ps_io p) dest) w = (e, v)" by fastforce
  then have e: "e = None" using assms(2) by (auto simp: store_download_def run_check_state wrap_error_def split: option.splits)
  obtain x where x: "run_state (lf_write (ps_files p) dest (dl_body d)) v = (None, x)"
      "content x = (content v)(dest \<mapsto> dl_body d)"
    using disk_semantics.write_ok [OF assms(1)] by blast
  have "dl_read_error d = None \<and> f = dest \<and> w1 = x"
    using assms(2) create e x(1)
    by (auto simp: store_download_def run_check_state wrap_error_def then_step_def split: option.splits prod.splits)
  moreover have "content x dest \<noteq> None" using x(2) by simp
  ultimately show ?thesis using disk_semantics.stat_file [OF assms(1)] by blast
qed

text \<open>Packages are remembered by the last element of their address: once a package was resolved over HTTP, every
  address that ends in the same file name, of whatever host and directory and with whatever content
  by now, resolves to the same local file without a request.\<close>

theorem same_named_packages_confused:
  assumes "disk_semantics (ps_files p) content"
    and "parse_url uri = Inr u" "gu_scheme u \<in> {''http'', ''https''}"
    and "parse_url uri' = Inr u'" "gu_scheme u' \<in> {''http'', ''https''}"
    and "path_base uri' = path_base uri" "run_state (resolve_package p uri) w = (Inr f, w1)"
  shows "run_state (resolve_package p uri') w1 = (Inr f, w1)"
proof -
  let ?dest = "http_file p uri"
  have ne: "uri \<noteq> []" "uri' \<noteq> []" using assms(2-5) parse_empty by (auto simp: empty_url_def)
  have run: "run_state (resolve_http p uri) w = (Inr f, w1)"
    using assms(2,3,7) ne(1) by (auto simp: resolve_package_def)
  have "f = ?dest \<and> (\<exists>d. run_state (lf_is_dir (ps_files p) ?dest) w1 = (Inr d, w1))"
  proof (cases "run_state (lf_is_dir (ps_files p) ?dest) w")
    case (Pair r v)
    have v: "v = w" using disk_semantics.stat_reads [OF assms(1), of ?dest w] Pair by simp
    show ?thesis
    proof (cases r)
      case (Inr d)
      then show ?thesis using unless_cached_here [of p ?dest w d] Pair v run by (simp add: resolve_http_def Let_def)
    next
      case (Inl e)
      then obtain d x where "run_state (store_download p ?dest d) x = (Inr f, w1)"
        using Pair v run
        by (auto simp: resolve_http_def Let_def unless_cached_def file_exists_def run_try_state wrap_result_def
            split: option.splits sum.splits if_splits prod.splits)
      then show ?thesis using store_download_there [OF assms(1)] by blast
    qed
  qed
  moreover have "http_file p uri' = ?dest" using assms(6) by (simp add: http_file_def)
  ultimately show ?thesis
    using unless_cached_here assms(4,5) ne(2) by (auto simp: resolve_package_def resolve_http_def Let_def)
qed

definition two_hosts :: "string \<Rightarrow> download result" where
  "two_hosts url = Inr \<lparr>dl_status = 200, dl_body = (if has_prefix url ''https://a'' then ''a'' else ''b''), dl_read_error = None\<rparr>"

definition web_source :: "disk package_source" where
  "web_source = \<lparr>ps_import_dir = ''/tmp/import'', ps_extract_dir = ''/tmp/import/extracted'', ps_provider = None,
     ps_io = disk_io [] two_hosts, ps_net = fixed_registry (\<lambda>u. Inl OsNotExist) (Some OsNotExist)\<rparr>"

lemma same_named_packages_confused_witness:
  "fst (run_state (resolve_package web_source ''http://b.io/y/w.zip'')
     \<lparr>dk_files = [(''/tmp/import/w.zip'', ''a'')], dk_dirs = []\<rparr>) = Inr ''/tmp/import/w.zip'' \<and>
   dl_body (case two_hosts ''http://b.io/y/w.zip'' of Inr d \<Rightarrow> d) = ''b''"
proof -
  have files: "disk_semantics (ps_files web_source) (\<lambda>w. map_of (dk_files w))"
    unfolding web_source_def by (simp add: disk.disk_semantics_axioms)
  have run: "run_state (resolve_package web_source ''https://a.io/x/w.zip'') empty_disk =
      (Inr ''/tmp/import/w.zip'', \<lparr>dk_files = [(''/tmp/import/w.zip'', ''a'')], dk_dirs = []\<rparr>)"
    by code_simp
  have urls: "map_sum id gu_scheme (parse_url ''https://a.io/x/w.zip'') = Inr ''https''"
      "map_sum id gu_scheme (parse_url ''http://b.io/y/w.zip'') = Inr ''http''"
      "path_base ''http://b.io/y/w.zip'' = path_base ''https://a.io/x/w.zip''"
    by code_simp+
  obtain u where u: "parse_url ''https://a.io/x/w.zip'' = Inr u" "gu_scheme u = ''https''"
    using urls(1) by (cases "parse_url ''https://a.io/x/w.zip''") auto
  obtain u' where u': "parse_url ''http://b.io/y/w.zip'' = Inr u'" "gu_scheme u' = ''http''"
    using urls(2) by (cases "parse_url ''http://b.io/y/w.zip''") auto
  show ?thesis
    using same_named_packages_confused [OF files u(1) _ u'(1) _ urls(3) run] u(2) u'(2)
    by (simp add: two_hosts_def has_prefix_def)
qed

text \<open>A login whose answer has no lifetime is never repeated, whatever the registry says later.\<close>

lemma token_without_lifetime_kept:
  assumes "ncs_access_token s \<noteq> []" "ncs_expire_at s = None"
  shows "run_state (refresh_user net server user password) s = (None, s)"
  using assms by (simp add: refresh_user_def)

end
