(* ===== verification/Cli_Client.thy ===== *)
theory Cli_Client
  imports Go_Url Cred_Provider Storage
begin

text \<open>
  \<open>cmd/hiclaw/client.go\<close> and \<open>output.go\<close>: the HTTP client of the command line and its output. The
  environment, files, the network, the clock and the terminal are a record of operations. Times are
  nanoseconds. The text layout of tables is that of \<open>text/tabwriter\<close>, which is not modelled.
\<close>

section \<open>The outside\<close>

text \<open>A form has its fields, the field and name of the file, and the data of the file.\<close>

datatype cli_body =
    No_Body
  | Json_Body json
  | Form_Body "(string \<times> string) list" string string string

record cli_request =
  clq_method :: string
  clq_url :: string
  clq_token :: string
  clq_body :: cli_body

record cli_reply = http_reply +
  clp_read_error :: "go_error option"

datatype cli_output =
    Out_Line string
  | Out_Table "string list" "string list list"
  | Out_Json json
  | Out_Error string

text \<open>An archive is the list of its entries, each with the document it holds if it is JSON.\<close>

record 'w cli_io =
  ci_getenv :: "string \<Rightarrow> string"
  ci_read_file :: "string \<Rightarrow> ('w, string result) state"
  ci_build :: "string \<Rightarrow> go_error option"
  ci_send :: "cli_request \<Rightarrow> ('w, cli_reply result) state"
  ci_now :: "('w, int) state"
  ci_sleep :: "int \<Rightarrow> ('w, unit) state"
  ci_print :: "cli_output \<Rightarrow> ('w, unit) state"
  ci_yaml :: "string \<Rightarrow> json result"
  ci_unzip :: "string \<Rightarrow> (string \<times> raw_json) list option"
  ci_duration :: "int \<Rightarrow> string"

section \<open>Errors\<close>

text \<open>An answer other than 2xx is told apart from other failures; \<open>Error()\<close> gives its text.\<close>

datatype call_failure =
    Status_Failure nat string
  | Call_Failure go_error

definition failure_error :: "call_failure \<Rightarrow> go_error" where
  "failure_error f =
     (case f of Status_Failure code msg \<Rightarrow> Err (''HTTP '' @ show_nat code @ '': '' @ msg) | Call_Failure e \<Rightarrow> e)"

section \<open>The client\<close>

record 'w api_client =
  acl_base :: string
  acl_token :: string
  acl_io :: "'w cli_io"

definition discover_token :: "'w cli_io \<Rightarrow> ('w, string) state" where
  "discover_token io =
     (let token = ci_getenv io ''HICLAW_AUTH_TOKEN''; path = ci_getenv io ''HICLAW_AUTH_TOKEN_FILE'' in
      if token \<noteq> [] then State_Monad.return token
      else if path \<noteq> [] then do {
        r \<leftarrow> ci_read_file io path;
        State_Monad.return (case r of Inl _ \<Rightarrow> [] | Inr d \<Rightarrow> trim_space d) }
      else State_Monad.return [])"

definition controller_url :: "(string \<Rightarrow> string) \<Rightarrow> string" where
  "controller_url getenv =
     (let url = getenv ''HICLAW_CONTROLLER_URL'' in
      trim_right (\<lambda>c. c = CHR ''/'') (if url = [] then ''http://localhost:8090'' else url))"

definition new_api_client :: "'w cli_io \<Rightarrow> ('w, 'w api_client) state" where
  "new_api_client io = do {
     token \<leftarrow> discover_token io;
     State_Monad.return \<lparr>acl_base = controller_url (ci_getenv io), acl_token = token, acl_io = io\<rparr> }"

definition api_do :: "'w api_client \<Rightarrow> string \<Rightarrow> string \<Rightarrow> cli_body \<Rightarrow> ('w, cli_reply result) state" where
  "api_do c verb path body =
     (let url = acl_base c @ path in
      case ci_build (acl_io c) url of
        Some e \<Rightarrow> State_Monad.return (Inl (Wrap ''create request'' e))
      | None \<Rightarrow> ci_send (acl_io c) \<lparr>clq_method = verb, clq_url = url, clq_token = acl_token c, clq_body = body\<rparr>)"

definition success_status :: "nat \<Rightarrow> bool" where
  "success_status st \<longleftrightarrow> 200 \<le> st \<and> st < 300"

definition error_message :: "cli_reply \<Rightarrow> string" where
  "error_message rep =
     (let plain = trim_space (rp_body rep) in
      case decode_raw (rp_json rep) of
        Inl _ \<Rightarrow> plain
      | Inr kvs \<Rightarrow> (case decode_string ''error'' [] kvs of Inl _ \<Rightarrow> plain | Inr msg \<Rightarrow> if msg \<noteq> [] then msg else plain))"

text \<open>The decoder is that of the result; without a body the result stays \<open>zero\<close>.\<close>

definition read_reply :: "(raw_json \<Rightarrow> 'a result) \<Rightarrow> 'a \<Rightarrow> cli_reply \<Rightarrow> call_failure + 'a" where
  "read_reply decode zero rep =
     (case clp_read_error rep of
        Some e \<Rightarrow> Inl (Call_Failure (Wrap ''read response'' e))
      | None \<Rightarrow>
          if \<not> success_status (rp_status rep) then Inl (Status_Failure (rp_status rep) (error_message rep))
          else if rp_body rep = [] then Inr zero
          else map_sum (\<lambda>e. Call_Failure (Wrap ''decode response'' e)) id (decode (rp_json rep)))"

definition do_json ::
  "'w api_client \<Rightarrow> string \<Rightarrow> string \<Rightarrow> cli_body \<Rightarrow> (raw_json \<Rightarrow> 'a result) \<Rightarrow> 'a \<Rightarrow> ('w, call_failure + 'a) state" where
  "do_json c verb path body decode zero = do {
     r \<leftarrow> api_do c verb path body;
     State_Monad.return (case r of Inl e \<Rightarrow> Inl (Call_Failure e) | Inr rep \<Rightarrow> read_reply decode zero rep) }"

definition do_multipart ::
  "'w api_client \<Rightarrow> string \<Rightarrow> string \<Rightarrow> string \<Rightarrow> string \<Rightarrow> (string \<times> string) list \<Rightarrow> (raw_json \<Rightarrow> 'a result) \<Rightarrow> 'a \<Rightarrow>
   ('w, call_failure + 'a) state" where
  "do_multipart c path field_name file_name data rows decode zero =
     do_json c ''POST'' path (Form_Body rows field_name file_name data) decode zero"

definition resource_exists :: "'w api_client \<Rightarrow> string \<Rightarrow> ('w, call_failure + bool) state" where
  "resource_exists c path = do {
     r \<leftarrow> api_do c ''GET'' path No_Body;
     State_Monad.return
       (case r of
          Inl e \<Rightarrow> Inl (Call_Failure e)
        | Inr rep \<Rightarrow>
            if success_status (rp_status rep) then Inr True
            else if rp_status rep = 404 then Inr False
            else Inl (Status_Failure (rp_status rep) ''unexpected status checking resource'')) }"

text \<open>Results: none, a map, null for the nil map, a struct.\<close>

definition decode_nothing :: "raw_json \<Rightarrow> unit result" where
  "decode_nothing raw = Inr ()"

definition decode_map :: "raw_json \<Rightarrow> json result" where
  "decode_map raw =
     (if raw = RawJson JNull then Inr JNull
      else (case document_map raw of None \<Rightarrow> Inl json_mismatch | Some doc \<Rightarrow> Inr (JObj doc)))"

definition decode_body :: "((string \<times> json) list \<Rightarrow> 'a result) \<Rightarrow> raw_json \<Rightarrow> 'a result" where
  "decode_body decode raw = try_result (decode_raw raw) decode"

section \<open>Output\<close>

definition or_text :: "string \<Rightarrow> string \<Rightarrow> string" where
  "or_text s fallback = (if s = [] then fallback else s)"

definition print_line :: "'w cli_io \<Rightarrow> string \<Rightarrow> ('w, unit) state" where
  "print_line io s = ci_print io (Out_Line s)"

definition pad_right :: "nat \<Rightarrow> string \<Rightarrow> string" where
  "pad_right n s = s @ replicate (n - length s) (CHR '' '')"

definition detail_lines :: "(string \<times> string) list \<Rightarrow> string list" where
  "detail_lines rows =
     (let width = foldr (\<lambda>(k, v). max (length k)) rows 0 in
      map (\<lambda>(k, v). pad_right (width + 1) (k @ '':'') @ ''  '' @ v) (filter (\<lambda>(k, v). v \<noteq> []) rows))"

fun print_lines :: "'w cli_io \<Rightarrow> string list \<Rightarrow> ('w, unit) state" where
  "print_lines io [] = State_Monad.return ()"
| "print_lines io (l # ls) = do { _ \<leftarrow> print_line io l; print_lines io ls }"

definition print_detail :: "'w cli_io \<Rightarrow> (string \<times> string) list \<Rightarrow> ('w, unit) state" where
  "print_detail io rows = print_lines io (detail_lines rows)"

definition print_table :: "'w cli_io \<Rightarrow> string list \<Rightarrow> string list list \<Rightarrow> ('w, unit) state" where
  "print_table io headers rows = ci_print io (Out_Table headers rows)"

definition print_json :: "'w cli_io \<Rightarrow> json \<Rightarrow> ('w, unit) state" where
  "print_json io v = ci_print io (Out_Json v)"

section \<open>Commands\<close>

text \<open>The shape of a call in a command: a failure ends it with \<open>fmt.Errorf("what: %w", err)\<close>.\<close>

definition expect ::
  "string \<Rightarrow> ('w, call_failure + 'a) state \<Rightarrow> ('a \<Rightarrow> ('w, go_error option) state) \<Rightarrow> ('w, go_error option) state" where
  "expect what m k = do {
     r \<leftarrow> m;
     (case r of Inl f \<Rightarrow> State_Monad.return (Some (Wrap what (failure_error f))) | Inr x \<Rightarrow> k x) }"

definition finish :: "('w, unit) state \<Rightarrow> ('w, go_error option) state" where
  "finish m = do { _ \<leftarrow> m; State_Monad.return None }"

definition with_client :: "'w cli_io \<Rightarrow> ('w api_client \<Rightarrow> ('w, go_error option) state) \<Rightarrow> ('w, go_error option) state" where
  "with_client io k = do { c \<leftarrow> new_api_client io; k c }"

definition require_flag :: "string \<Rightarrow> string \<Rightarrow> ('w, go_error option) state \<Rightarrow> ('w, go_error option) state" where
  "require_flag flag value k =
     (if value = [] then State_Monad.return (Some (Err (flag @ '' is required''))) else k)"

lemma run_expect:
  "run_state (expect what m k) w =
     (case run_state m w of (Inl f, v) \<Rightarrow> (Some (Wrap what (failure_error f)), v) | (Inr x, v) \<Rightarrow> run_state (k x) v)"
  by (auto simp: expect_def split: sum.splits prod.splits)

text \<open>What a call is made of, for a controller that answers requests.\<close>

lemma run_do_json:
  assumes "ci_build (acl_io c) (acl_base c @ path) = None"
    and "run_state (ci_send (acl_io c) \<lparr>clq_method = verb, clq_url = acl_base c @ path, clq_token = acl_token c,
      clq_body = body\<rparr>) w = (Inr rep, v)"
  shows "run_state (do_json c verb path body decode zero) w = (read_reply decode zero rep, v)"
  using assms by (simp add: do_json_def api_do_def)

lemma run_resource_exists:
  assumes "ci_build (acl_io c) (acl_base c @ path) = None"
    and "run_state (ci_send (acl_io c) \<lparr>clq_method = ''GET'', clq_url = acl_base c @ path, clq_token = acl_token c,
      clq_body = No_Body\<rparr>) w = (Inr rep, v)"
  shows "run_state (resource_exists c path) w =
    (if success_status (rp_status rep) then Inr True
     else if rp_status rep = 404 then Inr False
     else Inl (Status_Failure (rp_status rep) ''unexpected status checking resource''), v)"
  using assms by (simp add: resource_exists_def api_do_def)

end
