(* ===== verification/Cli_Get.thy ===== *)
theory Cli_Get
  imports Cli_Client
begin

text \<open>
  \<open>cmd/hiclaw/get.go\<close> and \<open>status_cmd.go\<close>: the answers the command line decodes, how it shows them, and
  the commands \<open>get\<close>, \<open>status\<close> and \<open>version\<close>. A command without an argument has the argument \<open>None\<close>.
\<close>

section \<open>Answers\<close>

record worker_resp =
  cw_name :: string
  cw_phase :: string
  cw_model :: string
  cw_runtime :: string
  cw_image :: string
  cw_container_state :: string
  cw_matrix_user_id :: string
  cw_room_id :: string
  cw_message :: string
  cw_team :: string
  cw_role :: string

record team_heartbeat_resp =
  ch_enabled :: bool
  ch_every :: string

record team_resp =
  ct_name :: string
  ct_team_name :: string
  ct_phase :: string
  ct_description :: string
  ct_leader_name :: string
  ct_leader_heartbeat :: "team_heartbeat_resp option"
  ct_worker_idle_timeout :: string
  ct_team_room_id :: string
  ct_leader_dm_room_id :: string
  ct_leader_ready :: bool
  ct_ready_workers :: int
  ct_total_workers :: int
  ct_message :: string
  ct_worker_names :: "string list"

record human_resp =
  cu_name :: string
  cu_phase :: string
  cu_display_name :: string
  cu_matrix_user_id :: string
  cu_initial_password :: string
  cu_rooms :: "string list"
  cu_message :: string

record manager_resp =
  cm_name :: string
  cm_phase :: string
  cm_model :: string
  cm_runtime :: string
  cm_image :: string
  cm_matrix_user_id :: string
  cm_room_id :: string
  cm_version :: string
  cm_message :: string
  cm_welcome_sent :: bool

text \<open>A list, \<open>None\<close> for the nil slice, with the count the server reports beside it.\<close>

type_synonym 'a listing = "'a list option \<times> int"

record cluster_status_resp =
  cc_kube_mode :: string
  cc_total_workers :: int
  cc_total_teams :: int
  cc_total_humans :: int

record version_resp =
  cv_controller :: string
  cv_kube_mode :: string

subsection \<open>Decoding\<close>

definition decode_worker_resp :: "(string \<times> json) list \<Rightarrow> worker_resp result" where
  "decode_worker_resp kvs =
     try_result (decode_string ''name'' [] kvs) (\<lambda>name.
     try_result (decode_string ''phase'' [] kvs) (\<lambda>phase.
     try_result (decode_string ''model'' [] kvs) (\<lambda>model.
     try_result (decode_string ''runtime'' [] kvs) (\<lambda>runtime.
     try_result (decode_string ''image'' [] kvs) (\<lambda>image.
     try_result (decode_string ''containerState'' [] kvs) (\<lambda>container.
     try_result (decode_string ''matrixUserID'' [] kvs) (\<lambda>user.
     try_result (decode_string ''roomID'' [] kvs) (\<lambda>room.
     try_result (decode_string ''message'' [] kvs) (\<lambda>message.
     try_result (decode_string ''team'' [] kvs) (\<lambda>team.
     try_result (decode_string ''role'' [] kvs) (\<lambda>role.
       Inr \<lparr>cw_name = name, cw_phase = phase, cw_model = model, cw_runtime = runtime, cw_image = image,
         cw_container_state = container, cw_matrix_user_id = user, cw_room_id = room, cw_message = message,
         cw_team = team, cw_role = role\<rparr>)))))))))))"

definition decode_heartbeat_resp :: "json \<Rightarrow> team_heartbeat_resp option result" where
  "decode_heartbeat_resp v =
     (if v = JNull then Inr None
      else decode_struct (\<lambda>kvs.
        try_result (decode_bool ''enabled'' False kvs) (\<lambda>enabled.
        try_result (decode_string ''every'' [] kvs) (\<lambda>every.
          Inr (Some \<lparr>ch_enabled = enabled, ch_every = every\<rparr>)))) v)"

definition decode_team_resp :: "(string \<times> json) list \<Rightarrow> team_resp result" where
  "decode_team_resp kvs =
     try_result (decode_string ''name'' [] kvs) (\<lambda>name.
     try_result (decode_string ''teamName'' [] kvs) (\<lambda>team_name.
     try_result (decode_string ''phase'' [] kvs) (\<lambda>phase.
     try_result (decode_string ''description'' [] kvs) (\<lambda>description.
     try_result (decode_string ''leaderName'' [] kvs) (\<lambda>leader.
     try_result (decode_heartbeat_resp (decode_member ''leaderHeartbeat'' JNull kvs)) (\<lambda>heartbeat.
     try_result (decode_string ''workerIdleTimeout'' [] kvs) (\<lambda>idle.
     try_result (decode_string ''teamRoomID'' [] kvs) (\<lambda>room.
     try_result (decode_string ''leaderDMRoomID'' [] kvs) (\<lambda>dm.
     try_result (decode_bool ''leaderReady'' False kvs) (\<lambda>leader_ready.
     try_result (decode_number ''readyWorkers'' 0 kvs) (\<lambda>ready.
     try_result (decode_number ''totalWorkers'' 0 kvs) (\<lambda>total.
     try_result (decode_string ''message'' [] kvs) (\<lambda>message.
     try_result (decode_strings ''workerNames'' [] kvs) (\<lambda>workers.
       Inr \<lparr>ct_name = name, ct_team_name = team_name, ct_phase = phase, ct_description = description,
         ct_leader_name = leader, ct_leader_heartbeat = heartbeat, ct_worker_idle_timeout = idle,
         ct_team_room_id = room, ct_leader_dm_room_id = dm, ct_leader_ready = leader_ready,
         ct_ready_workers = ready, ct_total_workers = total, ct_message = message,
         ct_worker_names = workers\<rparr>))))))))))))))"

definition decode_human_resp :: "(string \<times> json) list \<Rightarrow> human_resp result" where
  "decode_human_resp kvs =
     try_result (decode_string ''name'' [] kvs) (\<lambda>name.
     try_result (decode_string ''phase'' [] kvs) (\<lambda>phase.
     try_result (decode_string ''displayName'' [] kvs) (\<lambda>display.
     try_result (decode_string ''matrixUserID'' [] kvs) (\<lambda>user.
     try_result (decode_string ''initialPassword'' [] kvs) (\<lambda>password.
     try_result (decode_strings ''rooms'' [] kvs) (\<lambda>rooms.
     try_result (decode_string ''message'' [] kvs) (\<lambda>message.
       Inr \<lparr>cu_name = name, cu_phase = phase, cu_display_name = display, cu_matrix_user_id = user,
         cu_initial_password = password, cu_rooms = rooms, cu_message = message\<rparr>)))))))"

definition decode_manager_resp :: "(string \<times> json) list \<Rightarrow> manager_resp result" where
  "decode_manager_resp kvs =
     try_result (decode_string ''name'' [] kvs) (\<lambda>name.
     try_result (decode_string ''phase'' [] kvs) (\<lambda>phase.
     try_result (decode_string ''model'' [] kvs) (\<lambda>model.
     try_result (decode_string ''runtime'' [] kvs) (\<lambda>runtime.
     try_result (decode_string ''image'' [] kvs) (\<lambda>image.
     try_result (decode_string ''matrixUserID'' [] kvs) (\<lambda>user.
     try_result (decode_string ''roomID'' [] kvs) (\<lambda>room.
     try_result (decode_string ''version'' [] kvs) (\<lambda>version.
     try_result (decode_string ''message'' [] kvs) (\<lambda>message.
     try_result (decode_bool ''welcomeSent'' False kvs) (\<lambda>welcome.
       Inr \<lparr>cm_name = name, cm_phase = phase, cm_model = model, cm_runtime = runtime, cm_image = image,
         cm_matrix_user_id = user, cm_room_id = room, cm_version = version, cm_message = message,
         cm_welcome_sent = welcome\<rparr>))))))))))"

definition decode_listing ::
  "((string \<times> json) list \<Rightarrow> 'a result) \<Rightarrow> string \<Rightarrow> (string \<times> json) list \<Rightarrow> 'a listing result" where
  "decode_listing decode field kvs =
     try_result (decode_slice decode field kvs) (\<lambda>items.
     try_result (decode_number ''total'' 0 kvs) (\<lambda>total.
       Inr (if decode_member field JNull kvs = JNull then None else Some items, total)))"

definition listed :: "'a listing \<Rightarrow> 'a list" where
  "listed l = (case fst l of None \<Rightarrow> [] | Some xs \<Rightarrow> xs)"

definition decode_cluster_status_resp :: "(string \<times> json) list \<Rightarrow> cluster_status_resp result" where
  "decode_cluster_status_resp kvs =
     try_result (decode_string ''kubeMode'' [] kvs) (\<lambda>mode.
     try_result (decode_number ''totalWorkers'' 0 kvs) (\<lambda>workers.
     try_result (decode_number ''totalTeams'' 0 kvs) (\<lambda>teams.
     try_result (decode_number ''totalHumans'' 0 kvs) (\<lambda>humans.
       Inr \<lparr>cc_kube_mode = mode, cc_total_workers = workers, cc_total_teams = teams, cc_total_humans = humans\<rparr>))))"

definition decode_version_resp :: "(string \<times> json) list \<Rightarrow> version_resp result" where
  "decode_version_resp kvs =
     try_result (decode_string ''controller'' [] kvs) (\<lambda>controller.
     try_result (decode_string ''kubeMode'' [] kvs) (\<lambda>mode.
       Inr \<lparr>cv_controller = controller, cv_kube_mode = mode\<rparr>))"

text \<open>The zero values a call starts from.\<close>

definition zero_worker_resp :: worker_resp where
  "zero_worker_resp = \<lparr>cw_name = [], cw_phase = [], cw_model = [], cw_runtime = [], cw_image = [],
     cw_container_state = [], cw_matrix_user_id = [], cw_room_id = [], cw_message = [], cw_team = [], cw_role = []\<rparr>"

definition zero_team_resp :: team_resp where
  "zero_team_resp = \<lparr>ct_name = [], ct_team_name = [], ct_phase = [], ct_description = [], ct_leader_name = [],
     ct_leader_heartbeat = None, ct_worker_idle_timeout = [], ct_team_room_id = [], ct_leader_dm_room_id = [],
     ct_leader_ready = False, ct_ready_workers = 0, ct_total_workers = 0, ct_message = [], ct_worker_names = []\<rparr>"

definition zero_human_resp :: human_resp where
  "zero_human_resp = \<lparr>cu_name = [], cu_phase = [], cu_display_name = [], cu_matrix_user_id = [],
     cu_initial_password = [], cu_rooms = [], cu_message = []\<rparr>"

definition zero_manager_resp :: manager_resp where
  "zero_manager_resp = \<lparr>cm_name = [], cm_phase = [], cm_model = [], cm_runtime = [], cm_image = [],
     cm_matrix_user_id = [], cm_room_id = [], cm_version = [], cm_message = [], cm_welcome_sent = False\<rparr>"

subsection \<open>Encoding\<close>

definition worker_resp_json :: "worker_resp \<Rightarrow> json" where
  "worker_resp_json w = JObj ([(''name'', JStr (cw_name w)), (''phase'', JStr (cw_phase w))] @
     omit_text ''model'' (cw_model w) @ omit_text ''runtime'' (cw_runtime w) @ omit_text ''image'' (cw_image w) @
     omit_text ''containerState'' (cw_container_state w) @ omit_text ''matrixUserID'' (cw_matrix_user_id w) @
     omit_text ''roomID'' (cw_room_id w) @ omit_text ''message'' (cw_message w) @ omit_text ''team'' (cw_team w) @
     omit_text ''role'' (cw_role w))"

definition heartbeat_resp_json :: "team_heartbeat_resp option \<Rightarrow> (string \<times> json) list" where
  "heartbeat_resp_json hb =
     (case hb of
        None \<Rightarrow> []
      | Some h \<Rightarrow> [(''leaderHeartbeat'', JObj ((if ch_enabled h then [(''enabled'', JBool True)] else []) @
          omit_text ''every'' (ch_every h)))])"

definition team_resp_json :: "team_resp \<Rightarrow> json" where
  "team_resp_json t = JObj ([(''name'', JStr (ct_name t))] @ omit_text ''teamName'' (ct_team_name t) @
     [(''phase'', JStr (ct_phase t))] @ omit_text ''description'' (ct_description t) @
     [(''leaderName'', JStr (ct_leader_name t))] @ heartbeat_resp_json (ct_leader_heartbeat t) @
     omit_text ''workerIdleTimeout'' (ct_worker_idle_timeout t) @ omit_text ''teamRoomID'' (ct_team_room_id t) @
     omit_text ''leaderDMRoomID'' (ct_leader_dm_room_id t) @
     [(''leaderReady'', JBool (ct_leader_ready t)), (''readyWorkers'', JNum (ct_ready_workers t)),
      (''totalWorkers'', JNum (ct_total_workers t))] @
     omit_text ''message'' (ct_message t) @ omit_texts ''workerNames'' (ct_worker_names t))"

definition human_resp_json :: "human_resp \<Rightarrow> json" where
  "human_resp_json h = JObj ([(''name'', JStr (cu_name h)), (''phase'', JStr (cu_phase h)),
     (''displayName'', JStr (cu_display_name h))] @ omit_text ''matrixUserID'' (cu_matrix_user_id h) @
     omit_text ''initialPassword'' (cu_initial_password h) @ omit_texts ''rooms'' (cu_rooms h) @
     omit_text ''message'' (cu_message h))"

definition manager_resp_json :: "manager_resp \<Rightarrow> json" where
  "manager_resp_json m = JObj ([(''name'', JStr (cm_name m)), (''phase'', JStr (cm_phase m))] @
     omit_text ''model'' (cm_model m) @ omit_text ''runtime'' (cm_runtime m) @ omit_text ''image'' (cm_image m) @
     omit_text ''matrixUserID'' (cm_matrix_user_id m) @ omit_text ''roomID'' (cm_room_id m) @
     omit_text ''version'' (cm_version m) @ omit_text ''message'' (cm_message m) @
     [(''welcomeSent'', JBool (cm_welcome_sent m))])"

definition listing_json :: "('a \<Rightarrow> json) \<Rightarrow> string \<Rightarrow> 'a listing \<Rightarrow> json" where
  "listing_json enc field l = JObj [(field, case fst l of None \<Rightarrow> JNull | Some xs \<Rightarrow> JArr (map enc xs)), (''total'', JNum (snd l))]"

definition cluster_status_resp_json :: "cluster_status_resp \<Rightarrow> json" where
  "cluster_status_resp_json s = JObj [(''kubeMode'', JStr (cc_kube_mode s)), (''totalWorkers'', JNum (cc_total_workers s)),
     (''totalTeams'', JNum (cc_total_teams s)), (''totalHumans'', JNum (cc_total_humans s))]"

definition version_resp_json :: "version_resp \<Rightarrow> json" where
  "version_resp_json v = JObj [(''controller'', JStr (cv_controller v)), (''kubeMode'', JStr (cv_kube_mode v))]"

section \<open>Details\<close>

definition worker_detail :: "worker_resp \<Rightarrow> (string \<times> string) list" where
  "worker_detail w = [(''Name'', cw_name w), (''Phase'', or_text (cw_phase w) ''Pending''), (''Model'', cw_model w),
     (''Runtime'', or_text (cw_runtime w) ''openclaw''), (''ContainerState'', cw_container_state w),
     (''Image'', cw_image w), (''Team'', cw_team w), (''Role'', cw_role w), (''MatrixUserID'', cw_matrix_user_id w),
     (''RoomID'', cw_room_id w), (''Message'', cw_message w)]"

definition team_heartbeat_text :: "team_heartbeat_resp option \<Rightarrow> string" where
  "team_heartbeat_text hb =
     (case hb of
        None \<Rightarrow> []
      | Some h \<Rightarrow>
          if ch_every h \<noteq> [] then ch_every h else if ch_enabled h then ''enabled'' else ''disabled'')"

definition bool_text :: "bool \<Rightarrow> string" where
  "bool_text b = (if b then ''true'' else ''false'')"

definition ready_text :: "team_resp \<Rightarrow> string" where
  "ready_text t = show_int (ct_ready_workers t) @ ''/'' @ show_int (ct_total_workers t)"

definition team_detail :: "team_resp \<Rightarrow> (string \<times> string) list" where
  "team_detail t = [(''Name'', ct_name t), (''TeamName'', ct_team_name t), (''Phase'', or_text (ct_phase t) ''Pending''),
     (''Description'', ct_description t), (''Leader'', ct_leader_name t),
     (''LeaderHeartbeat'', team_heartbeat_text (ct_leader_heartbeat t)),
     (''WorkerIdleTimeout'', ct_worker_idle_timeout t), (''LeaderReady'', bool_text (ct_leader_ready t)),
     (''Workers'', join_with '', '' (ct_worker_names t)), (''ReadyWorkers'', ready_text t),
     (''TeamRoomID'', ct_team_room_id t), (''LeaderDMRoomID'', ct_leader_dm_room_id t), (''Message'', ct_message t)]"

definition human_detail :: "human_resp \<Rightarrow> (string \<times> string) list" where
  "human_detail h = [(''Name'', cu_name h), (''Phase'', or_text (cu_phase h) ''Pending''),
     (''DisplayName'', cu_display_name h), (''MatrixUserID'', cu_matrix_user_id h),
     (''InitialPassword'', cu_initial_password h), (''Rooms'', join_with '', '' (cu_rooms h)), (''Message'', cu_message h)]"

definition manager_detail :: "manager_resp \<Rightarrow> (string \<times> string) list" where
  "manager_detail m = [(''Name'', cm_name m), (''Phase'', or_text (cm_phase m) ''Pending''), (''Model'', cm_model m),
     (''Runtime'', or_text (cm_runtime m) ''openclaw''), (''Image'', cm_image m), (''MatrixUserID'', cm_matrix_user_id m),
     (''RoomID'', cm_room_id m), (''Version'', cm_version m), (''WelcomeSent'', bool_text (cm_welcome_sent m)),
     (''Message'', cm_message m)]"

section \<open>Commands\<close>

text \<open>One resource, and a list of them, fetched and shown as JSON or as text.\<close>

definition show_resource ::
  "'w api_client \<Rightarrow> string \<Rightarrow> string \<Rightarrow> string \<Rightarrow> ((string \<times> json) list \<Rightarrow> 'a result) \<Rightarrow> 'a \<Rightarrow> ('a \<Rightarrow> json) \<Rightarrow>
   ('a \<Rightarrow> (string \<times> string) list) \<Rightarrow> ('w, go_error option) state" where
  "show_resource c output what path decode zero enc detail =
     expect what (do_json c ''GET'' path No_Body (decode_body decode) zero) (\<lambda>r.
       finish (if output = ''json'' then print_json (acl_io c) (enc r) else print_detail (acl_io c) (detail r)))"

definition show_listing ::
  "'w api_client \<Rightarrow> string \<Rightarrow> string \<Rightarrow> string \<Rightarrow> string \<Rightarrow> ((string \<times> json) list \<Rightarrow> 'a result) \<Rightarrow> ('a \<Rightarrow> json) \<Rightarrow>
   string list \<Rightarrow> ('a \<Rightarrow> string list) \<Rightarrow> ('w, go_error option) state" where
  "show_listing c output what path field decode enc headers row =
     expect what (do_json c ''GET'' path No_Body (decode_body (decode_listing decode field)) (None, 0)) (\<lambda>l.
       finish (if output = ''json'' then print_json (acl_io c) (listing_json enc field l)
               else if snd l = 0 then print_line (acl_io c) (''No '' @ field @ '' found.'')
               else print_table (acl_io c) headers (map row (listed l))))"

definition get_workers_cmd :: "'w cli_io \<Rightarrow> string \<Rightarrow> string \<Rightarrow> string option \<Rightarrow> ('w, go_error option) state" where
  "get_workers_cmd io team output arg = with_client io (\<lambda>c.
     case arg of
       Some name \<Rightarrow> show_resource c output ''get worker'' (''/api/v1/workers/'' @ name) decode_worker_resp
         zero_worker_resp worker_resp_json worker_detail
     | None \<Rightarrow> show_listing c output ''list workers''
         (''/api/v1/workers'' @ (if team \<noteq> [] then ''?team='' @ team else [])) ''workers'' decode_worker_resp worker_resp_json
         [''NAME'', ''PHASE'', ''MODEL'', ''TEAM'', ''RUNTIME'']
         (\<lambda>w. [cw_name w, or_text (cw_phase w) ''Pending'', cw_model w, or_text (cw_team w) ''-'',
           or_text (cw_runtime w) ''openclaw'']))"

definition get_teams_cmd :: "'w cli_io \<Rightarrow> string \<Rightarrow> string option \<Rightarrow> ('w, go_error option) state" where
  "get_teams_cmd io output arg = with_client io (\<lambda>c.
     case arg of
       Some name \<Rightarrow> show_resource c output ''get team'' (''/api/v1/teams/'' @ name) decode_team_resp
         zero_team_resp team_resp_json team_detail
     | None \<Rightarrow> show_listing c output ''list teams'' ''/api/v1/teams'' ''teams'' decode_team_resp team_resp_json
         [''NAME'', ''PHASE'', ''LEADER'', ''WORKERS'', ''READY'']
         (\<lambda>t. [ct_name t, or_text (ct_phase t) ''Pending'', ct_leader_name t, join_with '','' (ct_worker_names t),
           ready_text t]))"

definition get_humans_cmd :: "'w cli_io \<Rightarrow> string \<Rightarrow> string option \<Rightarrow> ('w, go_error option) state" where
  "get_humans_cmd io output arg = with_client io (\<lambda>c.
     case arg of
       Some name \<Rightarrow> show_resource c output ''get human'' (''/api/v1/humans/'' @ name) decode_human_resp
         zero_human_resp human_resp_json human_detail
     | None \<Rightarrow> show_listing c output ''list humans'' ''/api/v1/humans'' ''humans'' decode_human_resp human_resp_json
         [''NAME'', ''PHASE'', ''DISPLAY-NAME'', ''MATRIX-ID'']
         (\<lambda>h. [cu_name h, or_text (cu_phase h) ''Pending'', cu_display_name h, or_text (cu_matrix_user_id h) ''-'']))"

definition get_managers_cmd :: "'w cli_io \<Rightarrow> string \<Rightarrow> string option \<Rightarrow> ('w, go_error option) state" where
  "get_managers_cmd io output arg = with_client io (\<lambda>c.
     case arg of
       Some name \<Rightarrow> show_resource c output ''get manager'' (''/api/v1/managers/'' @ name) decode_manager_resp
         zero_manager_resp manager_resp_json manager_detail
     | None \<Rightarrow> show_listing c output ''list managers'' ''/api/v1/managers'' ''managers'' decode_manager_resp
         manager_resp_json [''NAME'', ''PHASE'', ''MODEL'', ''RUNTIME'']
         (\<lambda>m. [cm_name m, or_text (cm_phase m) ''Pending'', cm_model m, or_text (cm_runtime m) ''openclaw'']))"

definition status_cmd :: "'w cli_io \<Rightarrow> string \<Rightarrow> ('w, go_error option) state" where
  "status_cmd io output = with_client io (\<lambda>c.
     show_resource c output ''get status'' ''/api/v1/status'' decode_cluster_status_resp
       \<lparr>cc_kube_mode = [], cc_total_workers = 0, cc_total_teams = 0, cc_total_humans = 0\<rparr> cluster_status_resp_json
       (\<lambda>s. [(''Mode'', cc_kube_mode s), (''Total Workers'', show_int (cc_total_workers s)),
         (''Total Teams'', show_int (cc_total_teams s)), (''Total Humans'', show_int (cc_total_humans s))]))"

definition version_cmd :: "'w cli_io \<Rightarrow> string \<Rightarrow> ('w, go_error option) state" where
  "version_cmd io output = with_client io (\<lambda>c.
     show_resource c output ''get version'' ''/api/v1/version'' decode_version_resp
       \<lparr>cv_controller = [], cv_kube_mode = []\<rparr> version_resp_json
       (\<lambda>v. [(''Controller'', cv_controller v), (''Mode'', cv_kube_mode v)]))"

end
