(* ===== verification/Cli_Create.thy ===== *)
theory Cli_Create
  imports Cli_Get
begin

text \<open>
  \<open>cmd/hiclaw/create.go\<close>: the commands that create resources, and the helpers the other commands share.
  The flags of a command are a record; a request body is a map, kept as a list of members. The poll
  for a ready worker has a bound on its rounds; \<open>None\<close> means it was not enough.
\<close>

section \<open>Helpers\<close>

definition default_worker_model :: "'w cli_io \<Rightarrow> string" where
  "default_worker_model io = or_text (trim_space (ci_getenv io ''HICLAW_DEFAULT_MODEL'')) ''qwen3.6-plus''"

definition name_char :: "char \<Rightarrow> bool" where
  "name_char c \<longleftrightarrow> c \<in> set ''abcdefghijklmnopqrstuvwxyz0123456789''"

fun worker_name_pattern :: "string \<Rightarrow> bool" where
  "worker_name_pattern [] = False"
| "worker_name_pattern (c # cs) = (name_char c \<and> list_all (\<lambda>d. name_char d \<or> d = CHR ''-'') cs)"

definition validate_worker_name :: "string \<Rightarrow> go_error option" where
  "validate_worker_name raw =
     (let name = trim_space raw in
      if name = [] then Some (Err ''invalid worker name: name is required'')
      else if \<not> worker_name_pattern name
      then Some (Err (''invalid worker name '' @ go_quote name @ '': must start with a lowercase letter or digit and '' @
        ''contain only lowercase letters, digits, and hyphens''))
      else None)"

definition segment_escape_char :: "char \<Rightarrow> string" where
  "segment_escape_char c =
     (if is_alnum c \<or> c \<in> set ''-_.~$&+:=@'' then [c]
      else let n = (of_char c :: nat) in [CHR ''%'', Go_Url.upper_hex (n div 16), Go_Url.upper_hex (n mod 16)])"

definition segment_escape :: "string \<Rightarrow> string" where
  "segment_escape s = concat (map segment_escape_char s)"

fun encode_segments :: "string \<Rightarrow> string list \<Rightarrow> string list result" where
  "encode_segments raw [] = Inr []"
| "encode_segments raw (p # ps) =
     (if trim_space p = [] then Inl (Err (''invalid package shorthand '' @ go_quote raw @ '': empty path segment''))
      else try_result (encode_segments raw ps) (\<lambda>es. Inr (segment_escape (trim_space p) # es)))"

definition registry_base :: "'w cli_io \<Rightarrow> string result" where
  "registry_base io =
     (let base = or_text (trim_space (ci_getenv io ''HICLAW_NACOS_REGISTRY_URI'')) ''nacos://market.hiclaw.io:80/public'';
          bare = trim_right (\<lambda>c. c = CHR ''/'') base
      in if \<not> has_prefix base ''nacos://''
         then Inl (Err (''invalid HICLAW_NACOS_REGISTRY_URI '' @ go_quote base @ '': must start with nacos://''))
         else if bare \<in> {''nacos:'', ''nacos:/'', ''nacos://''}
         then Inl (Err (''invalid HICLAW_NACOS_REGISTRY_URI '' @ go_quote bare @ '': missing host/namespace''))
         else Inr bare)"

definition expand_package_uri :: "'w cli_io \<Rightarrow> string \<Rightarrow> string result" where
  "expand_package_uri io raw =
     (let uri = trim_space raw in
      if uri = [] \<or> str_contains uri ''://'' then Inr uri
      else try_result (registry_base io) (\<lambda>base.
        try_result (encode_segments uri (split_on (CHR ''/'') uri)) (\<lambda>es.
          Inr (base @ ''/'' @ join_with ''/'' es))))"

definition split_csv :: "string \<Rightarrow> string list" where
  "split_csv s = filter (\<lambda>x. x \<noteq> []) (map trim_space (split_on (CHR '','') s))"

definition parse_expose_ports :: "string \<Rightarrow> json" where
  "parse_expose_ports s =
     (if split_csv s = [] then JNull else JArr (map (\<lambda>p. JObj [(''port'', JStr p)]) (split_csv s)))"

definition set_if_not_empty :: "string \<Rightarrow> string \<Rightarrow> (string \<times> json) list \<Rightarrow> (string \<times> json) list" where
  "set_if_not_empty k v m = (if v = [] then m else json_put k (JStr v) m)"

text \<open>A nil slice marshals to null.\<close>

definition csv_json :: "string \<Rightarrow> json" where
  "csv_json s = (if split_csv s = [] then JNull else JArr (map JStr (split_csv s)))"

definition set_csv :: "string \<Rightarrow> string \<Rightarrow> (string \<times> json) list \<Rightarrow> (string \<times> json) list" where
  "set_csv k v m = (if v = [] then m else json_put k (csv_json v) m)"

definition set_ports :: "string \<Rightarrow> (string \<times> json) list \<Rightarrow> (string \<times> json) list" where
  "set_ports v m = (if v = [] then m else json_put ''expose'' (parse_expose_ports v) m)"

definition expand_flag :: "'w cli_io \<Rightarrow> string \<Rightarrow> string result" where
  "expand_flag io uri = (if uri = [] then Inr [] else expand_package_uri io uri)"

section \<open>Workers\<close>

record worker_flags =
  wf_name :: string
  wf_model :: string
  wf_runtime :: string
  wf_image :: string
  wf_identity :: string
  wf_soul :: string
  wf_soul_file :: string
  wf_skills :: string
  wf_package :: string
  wf_expose :: string
  wf_team :: string
  wf_role :: string
  wf_container_managed :: bool
  wf_output :: string
  wf_wait_timeout :: int
  wf_no_wait :: bool

definition read_soul :: "'w cli_io \<Rightarrow> worker_flags \<Rightarrow> ('w, string result) state" where
  "read_soul io f =
     (if wf_soul_file f = [] then State_Monad.return (Inr (wf_soul f))
      else wrap_result (''read --soul-file '' @ go_quote (wf_soul_file f)) (ci_read_file io (wf_soul_file f)))"

text \<open>The members \<open>create\<close> and \<open>apply\<close> share; \<open>managed\<close> is what \<open>create\<close> adds in between.\<close>

definition worker_members ::
  "worker_flags \<Rightarrow> string \<Rightarrow> string \<Rightarrow> (string \<times> json) list \<Rightarrow> (string \<times> json) list" where
  "worker_members f soul package m =
     set_ports (wf_expose f) (set_csv ''skills'' (wf_skills f) (set_if_not_empty ''role'' (wf_role f)
       (set_if_not_empty ''team'' (wf_team f) (set_if_not_empty ''package'' package (set_if_not_empty ''soul'' soul
         (set_if_not_empty ''identity'' (wf_identity f) (set_if_not_empty ''image'' (wf_image f)
           (set_if_not_empty ''runtime'' (wf_runtime f) m))))))))"

definition unmanaged :: "bool \<Rightarrow> (string \<times> json) list \<Rightarrow> (string \<times> json) list" where
  "unmanaged managed m = (if managed then m else json_put ''containerManaged'' (JBool False) m)"

definition create_worker_body :: "worker_flags \<Rightarrow> string \<Rightarrow> string \<Rightarrow> string \<Rightarrow> (string \<times> json) list" where
  "create_worker_body f model soul package =
     worker_members f soul package
       (unmanaged (wf_container_managed f) [(''name'', JStr (wf_name f)), (''model'', JStr model)])"

subsection \<open>Waiting\<close>

definition render_worker_status_summary :: "worker_resp \<Rightarrow> string" where
  "render_worker_status_summary r =
     (let shown = (\<lambda>key v. if trim_space v = [] then [] else [key @ trim_space v]) in
      or_text (join_with '', '' (shown ''phase='' (cw_phase r) @ shown ''state='' (cw_container_state r) @
        shown ''message='' (cw_message r))) ''unknown'')"

definition is_retryable_worker_status_error :: "call_failure \<Rightarrow> bool" where
  "is_retryable_worker_status_error f =
     (case f of Status_Failure code _ \<Rightarrow> code = 404 \<or> code \<ge> 500 | Call_Failure _ \<Rightarrow> False)"

text \<open>What one answer means: the end of the wait, or the last status known from then on.\<close>

definition judge_status ::
  "string \<Rightarrow> worker_resp \<Rightarrow> call_failure + worker_resp \<Rightarrow> worker_resp result + worker_resp" where
  "judge_status name prior r =
     (case r of
        Inr resp \<Rightarrow>
          if cw_phase resp = ''Ready'' then Inl (Inr resp)
          else if cw_phase resp = ''Failed''
          then Inl (Inl (Err (''worker/'' @ name @ '' failed during startup: '' @ render_worker_status_summary resp)))
          else Inr resp
      | Inl f \<Rightarrow>
          if is_retryable_worker_status_error f then Inr prior
          else Inl (Inl (Wrap (''wait for worker/'' @ name @ '' ready'') (failure_error f))))"

definition not_ready_error :: "'w cli_io \<Rightarrow> string \<Rightarrow> int \<Rightarrow> worker_resp \<Rightarrow> go_error" where
  "not_ready_error io name timeout prior =
     Err (''worker/'' @ name @ '' did not become ready within '' @ ci_duration io timeout @ '' (last status: '' @
       render_worker_status_summary prior @ '')'')"

definition poll_interval :: int where "poll_interval = 2000000000"

definition worker_status_call :: "'w api_client \<Rightarrow> string \<Rightarrow> ('w, call_failure + worker_resp) state" where
  "worker_status_call c name =
     do_json c ''GET'' (''/api/v1/workers/'' @ name @ ''/status'') No_Body (decode_body decode_worker_resp) zero_worker_resp"

fun poll_worker ::
  "nat \<Rightarrow> 'w api_client \<Rightarrow> string \<Rightarrow> int \<Rightarrow> int \<Rightarrow> worker_resp \<Rightarrow> ('w, worker_resp result option) state" where
  "poll_worker 0 c name timeout deadline prior = State_Monad.return None"
| "poll_worker (Suc n) c name timeout deadline prior = do {
     r \<leftarrow> worker_status_call c name;
     (case judge_status name prior r of
        Inl done \<Rightarrow> State_Monad.return (Some done)
      | Inr known \<Rightarrow> do {
          now \<leftarrow> ci_now (acl_io c);
          if now > deadline then State_Monad.return (Some (Inl (not_ready_error (acl_io c) name timeout known)))
          else do {
            _ \<leftarrow> ci_sleep (acl_io c) poll_interval;
            poll_worker n c name timeout deadline known } }) }"

text \<open>As many rounds as pauses fit into the timeout, the first, and the one after the deadline.\<close>

definition poll_rounds :: "int \<Rightarrow> nat" where
  "poll_rounds timeout = nat (timeout div poll_interval) + 2"

definition wait_for_worker_ready :: "'w api_client \<Rightarrow> string \<Rightarrow> int \<Rightarrow> ('w, worker_resp result option) state" where
  "wait_for_worker_ready c name timeout = do {
     now \<leftarrow> ci_now (acl_io c);
     poll_worker (poll_rounds timeout) c name timeout (now + timeout)
       (zero_worker_resp\<lparr>cw_name := name, cw_phase := ''Pending''\<rparr>) }"

subsection \<open>The command\<close>

text \<open>The outcome of the command: \<open>None\<close> if the rounds of the wait were not enough.\<close>

definition await_created ::
  "'w api_client \<Rightarrow> worker_flags \<Rightarrow> json \<Rightarrow> ('w, go_error option option) state" where
  "await_created c f created =
     (if wf_no_wait f then do {
        _ \<leftarrow> (if wf_output f = ''json'' then print_json (acl_io c) created
             else print_line (acl_io c) (''worker/'' @ wf_name f @
               '' create accepted (poll `hiclaw get workers -o json` for phase=Running)''));
        State_Monad.return (Some None) }
      else do {
        r \<leftarrow> wait_for_worker_ready c (wf_name f) (wf_wait_timeout f);
        (case r of
           None \<Rightarrow> State_Monad.return None
         | Some (Inl e) \<Rightarrow> State_Monad.return (Some (Some e))
         | Some (Inr final) \<Rightarrow> do {
             _ \<leftarrow> (if wf_output f = ''json'' then print_json (acl_io c) (worker_resp_json final)
                  else print_line (acl_io c) (''worker/'' @ wf_name f @ '' ready''));
             State_Monad.return (Some None) }) })"

definition create_worker_cmd :: "'w cli_io \<Rightarrow> worker_flags \<Rightarrow> ('w, go_error option option) state" where
  "create_worker_cmd io f =
     (if wf_name f = [] then State_Monad.return (Some (Some (Err ''--name is required'')))
      else case validate_worker_name (wf_name f) of
        Some e \<Rightarrow> State_Monad.return (Some (Some e))
      | None \<Rightarrow> do {
          s \<leftarrow> read_soul io f;
          (case try_result s (\<lambda>soul. map_sum id (Pair soul) (expand_flag io (wf_package f))) of
             Inl e \<Rightarrow> State_Monad.return (Some (Some e))
           | Inr (soul, package) \<Rightarrow> do {
               c \<leftarrow> new_api_client io;
               r \<leftarrow> do_json c ''POST'' ''/api/v1/workers''
                 (Json_Body (JObj (create_worker_body f (or_text (wf_model f) (default_worker_model io)) soul package)))
                 decode_map JNull;
               (case r of
                  Inl e \<Rightarrow> State_Monad.return (Some (Some (Wrap ''create worker'' (failure_error e))))
                | Inr created \<Rightarrow> await_created c f created) }) })"

section \<open>Teams, humans and managers\<close>

text \<open>The call the other commands end with, and the line they print.\<close>

definition send_and_say ::
  "'w cli_io \<Rightarrow> string \<Rightarrow> string \<Rightarrow> string \<Rightarrow> (string \<times> json) list \<Rightarrow> string \<Rightarrow> ('w, go_error option) state" where
  "send_and_say io what verb path body said = with_client io (\<lambda>c.
     expect what (do_json c verb path (Json_Body (JObj body)) decode_map JNull) (\<lambda>_. finish (print_line io said)))"

record team_flags =
  tf_name :: string
  tf_team_name :: string
  tf_leader_name :: string
  tf_leader_model :: string
  tf_heartbeat_every :: string
  tf_idle_timeout :: string
  tf_workers :: string
  tf_description :: string

definition set_heartbeat :: "string \<Rightarrow> (string \<times> json) list \<Rightarrow> (string \<times> json) list" where
  "set_heartbeat every m =
     (if every = [] then m
      else json_put ''heartbeat'' (JObj [(''enabled'', JBool True), (''every'', JStr every)]) m)"

definition leader_members :: "team_flags \<Rightarrow> (string \<times> json) list \<Rightarrow> (string \<times> json) list" where
  "leader_members f m =
     set_if_not_empty ''workerIdleTimeout'' (tf_idle_timeout f)
       (set_heartbeat (tf_heartbeat_every f) (set_if_not_empty ''model'' (tf_leader_model f) m))"

definition create_team_body :: "team_flags \<Rightarrow> (string \<times> json) list" where
  "create_team_body f =
     set_if_not_empty ''description'' (tf_description f) (set_if_not_empty ''teamName'' (tf_team_name f)
       [(''name'', JStr (tf_name f)), (''leader'', JObj (leader_members f [(''name'', JStr (tf_leader_name f))])),
        (''workers'', JArr (map (\<lambda>w. JObj [(''name'', JStr w)]) (split_csv (tf_workers f))))])"

definition create_team_cmd :: "'w cli_io \<Rightarrow> team_flags \<Rightarrow> ('w, go_error option) state" where
  "create_team_cmd io f =
     require_flag ''--name'' (tf_name f) (require_flag ''--leader-name'' (tf_leader_name f)
       (send_and_say io ''create team'' ''POST'' ''/api/v1/teams'' (create_team_body f)
         (''team/'' @ tf_name f @ '' created'')))"

record human_flags =
  hf_name :: string
  hf_display_name :: string
  hf_email :: string
  hf_permission_level :: int
  hf_teams :: string
  hf_workers :: string
  hf_note :: string

definition create_human_body :: "human_flags \<Rightarrow> (string \<times> json) list" where
  "create_human_body f =
     set_csv ''accessibleWorkers'' (hf_workers f) (set_csv ''accessibleTeams'' (hf_teams f)
       (set_if_not_empty ''note'' (hf_note f) (set_if_not_empty ''email'' (hf_email f)
         [(''name'', JStr (hf_name f)), (''displayName'', JStr (hf_display_name f)),
          (''permissionLevel'', JNum (hf_permission_level f))])))"

definition create_human_cmd :: "'w cli_io \<Rightarrow> human_flags \<Rightarrow> ('w, go_error option) state" where
  "create_human_cmd io f =
     require_flag ''--name'' (hf_name f) (require_flag ''--display-name'' (hf_display_name f)
       (send_and_say io ''create human'' ''POST'' ''/api/v1/humans'' (create_human_body f)
         (''human/'' @ hf_name f @ '' created'')))"

record manager_flags =
  gf_name :: string
  gf_model :: string
  gf_runtime :: string
  gf_image :: string
  gf_soul :: string

definition manager_members :: "manager_flags \<Rightarrow> (string \<times> json) list \<Rightarrow> (string \<times> json) list" where
  "manager_members f m =
     set_if_not_empty ''soul'' (gf_soul f) (set_if_not_empty ''image'' (gf_image f)
       (set_if_not_empty ''runtime'' (gf_runtime f) m))"

definition create_manager_cmd :: "'w cli_io \<Rightarrow> manager_flags \<Rightarrow> ('w, go_error option) state" where
  "create_manager_cmd io f =
     require_flag ''--name'' (gf_name f) (require_flag ''--model'' (gf_model f)
       (send_and_say io ''create manager'' ''POST'' ''/api/v1/managers''
         (manager_members f [(''name'', JStr (gf_name f)), (''model'', JStr (gf_model f))])
         (''manager/'' @ gf_name f @ '' created'')))"

end
