(* ===== verification/Cli_Apply.thy ===== *)
theory Cli_Apply
  imports Cli_Create Go_Path Storage
begin

text \<open>
  \<open>cmd/hiclaw/apply.go\<close>: applying documents of a YAML file, a ZIP package, and the flags of a worker.
  Parsing a document into the JSON form of a resource is \<open>ci_yaml\<close>. The commands that update, delete
  and operate workers (\<open>update.go\<close>, \<open>delete.go\<close>, \<open>worker_cmd.go\<close>) follow.
\<close>

section \<open>Documents\<close>

record yaml_resource =
  yr_api_version :: string
  yr_kind :: string
  yr_name :: string
  yr_spec :: "(string \<times> json) list"

definition decode_yaml_resource :: "(string \<times> json) list \<Rightarrow> yaml_resource result" where
  "decode_yaml_resource kvs =
     try_result (decode_string ''apiVersion'' [] kvs) (\<lambda>version.
     try_result (decode_string ''kind'' [] kvs) (\<lambda>kind.
     try_result (decode_struct (decode_string ''name'' []) (decode_member ''metadata'' JNull kvs)) (\<lambda>name.
     try_result (decode_object (decode_member ''spec'' JNull kvs)) (\<lambda>spec.
       Inr \<lparr>yr_api_version = version, yr_kind = kind, yr_name = name, yr_spec = spec\<rparr>))))"

fun collect_docs :: "string \<Rightarrow> string list \<Rightarrow> string list" where
  "collect_docs current [] = (if trim_space current = [] then [] else [current])"
| "collect_docs current (l # ls) =
     (if trim_space l = ''---''
      then (if trim_space current = [] then [] else [current]) @ collect_docs [] ls
      else collect_docs (current @ l @ newline) ls)"

definition split_yaml_docs :: "string \<Rightarrow> string list" where
  "split_yaml_docs content = collect_docs [] (split_on (CHR 0x0A) content)"

text \<open>Members of the specification replace the name.\<close>

definition build_apply_body :: "yaml_resource \<Rightarrow> bool \<Rightarrow> (string \<times> json) list" where
  "build_apply_body res include_name =
     fold (\<lambda>(k, v). json_put k v) (yr_spec res) (if include_name then [(''name'', JStr (yr_name res))] else [])"

text \<open>Update what exists, create what does not.\<close>

definition upsert ::
  "'w api_client \<Rightarrow> string \<Rightarrow> string \<Rightarrow> string \<Rightarrow> string \<Rightarrow> (string \<times> json) list \<Rightarrow> (string \<times> json) list \<Rightarrow>
   ('w, go_error option) state" where
  "upsert c endpoint shown name updated update_body create_body =
     expect (''check '' @ shown) (resource_exists c (endpoint @ ''/'' @ name)) (\<lambda>exists.
       if exists
       then expect (''update '' @ shown) (do_json c ''PUT'' (endpoint @ ''/'' @ name) (Json_Body (JObj update_body))
              decode_map JNull) (\<lambda>_. finish (print_line (acl_io c) (''  '' @ shown @ '' '' @ updated)))
       else expect (''create '' @ shown) (do_json c ''POST'' endpoint (Json_Body (JObj create_body)) decode_map JNull)
              (\<lambda>_. finish (print_line (acl_io c) (''  '' @ shown @ '' created''))))"

definition apply_one_resource :: "'w api_client \<Rightarrow> yaml_resource \<Rightarrow> ('w, go_error option) state" where
  "apply_one_resource c res =
     (let kind = to_lower (yr_kind res) in
      upsert c (''/api/v1/'' @ kind @ ''s'') (kind @ ''/'' @ yr_name res) (yr_name res) ''configured''
        (build_apply_body res False) (build_apply_body res True))"

definition apply_doc :: "'w api_client \<Rightarrow> string \<Rightarrow> string \<Rightarrow> ('w, go_error option) state" where
  "apply_doc c file raw =
     (let doc = trim_space raw in
      if doc = [] then State_Monad.return None
      else (case try_result (ci_yaml (acl_io c) doc) (decode_struct decode_yaml_resource) of
         Inl e \<Rightarrow> State_Monad.return (Some (Wrap (''parse YAML in '' @ file) e))
       | Inr res \<Rightarrow>
           if yr_kind res = [] \<or> yr_name res = [] then State_Monad.return None else apply_one_resource c res))"

definition apply_file :: "'w api_client \<Rightarrow> string \<Rightarrow> ('w, go_error option) state" where
  "apply_file c file =
     use_state (wrap_result (''read '' @ file) (ci_read_file (acl_io c) file))
       (\<lambda>data. each_step (apply_doc c file) (split_yaml_docs data))"

definition apply_from_files :: "'w cli_io \<Rightarrow> string list \<Rightarrow> ('w, go_error option) state" where
  "apply_from_files io files = with_client io (\<lambda>c. each_step (apply_file c) files)"

section \<open>Packages\<close>

text \<open>The two fields at the top of the manifest, overridden by its worker block.\<close>

definition manifest_field :: "(string \<times> json) list \<Rightarrow> string \<Rightarrow> string" where
  "manifest_field manifest k =
     (let inner = (case json_get manifest ''worker'' of JObj w \<Rightarrow> text_member w k | _ \<Rightarrow> []) in
      if inner \<noteq> [] then inner else text_member manifest k)"

definition extract_worker_fields :: "'w cli_io \<Rightarrow> string \<Rightarrow> string \<times> string" where
  "extract_worker_fields io data =
     (case ci_unzip io data of
        None \<Rightarrow> ([], [])
      | Some entries \<Rightarrow>
          (case map_of entries ''manifest.json'' of
             None \<Rightarrow> ([], [])
           | Some raw \<Rightarrow>
               (case document_map raw of
                  None \<Rightarrow> ([], [])
                | Some m \<Rightarrow> (manifest_field m ''model'', manifest_field m ''runtime''))))"

definition decode_package_uri :: "(string \<times> json) list \<Rightarrow> string result" where
  "decode_package_uri kvs = decode_string ''packageUri'' [] kvs"

definition package_body :: "string \<Rightarrow> string \<Rightarrow> string \<Rightarrow> (string \<times> json) list \<Rightarrow> (string \<times> json) list" where
  "package_body model uri runtime m =
     set_if_not_empty ''runtime'' runtime (json_put ''package'' (JStr uri) (json_put ''model'' (JStr model) m))"

definition apply_worker_zip :: "'w cli_io \<Rightarrow> string \<Rightarrow> string \<Rightarrow> string \<Rightarrow> ('w, go_error option) state" where
  "apply_worker_zip io name zip_path override =
     use_state (wrap_result (''read ZIP '' @ zip_path) (ci_read_file io zip_path)) (\<lambda>data.
       case extract_worker_fields io data of
         (found, declared) \<Rightarrow>
           (let model = or_text found (default_worker_model io); runtime = or_text override declared in
            with_client io (\<lambda>c.
              expect ''upload package'' (do_multipart c ''/api/v1/packages'' ''file'' (path_base zip_path) data
                [(''name'', name)] (decode_body decode_package_uri) []) (\<lambda>uri.
                upsert c ''/api/v1/workers'' (''worker/'' @ name) name ''updated'' (package_body model uri runtime [])
                  (package_body model uri runtime [(''name'', JStr name)])))))"

section \<open>Flags\<close>

definition apply_worker_params :: "'w cli_io \<Rightarrow> worker_flags \<Rightarrow> ('w, go_error option) state" where
  "apply_worker_params io f = do {
     s \<leftarrow> read_soul io f;
     (case try_result s (\<lambda>soul. map_sum id (Pair soul) (expand_flag io (wf_package f))) of
        Inl e \<Rightarrow> State_Monad.return (Some e)
      | Inr (soul, package) \<Rightarrow>
          (let body = worker_members f soul package [(''model'', JStr (or_text (wf_model f) (default_worker_model io)))] in
           with_client io (\<lambda>c.
             upsert c ''/api/v1/workers'' (''worker/'' @ wf_name f) (wf_name f) ''configured'' body
               (json_put ''name'' (JStr (wf_name f)) body)))) }"

definition apply_worker_cmd :: "'w cli_io \<Rightarrow> worker_flags \<Rightarrow> string \<Rightarrow> ('w, go_error option) state" where
  "apply_worker_cmd io f zip_file =
     require_flag ''--name'' (wf_name f)
       (case validate_worker_name (wf_name f) of
          Some e \<Rightarrow> State_Monad.return (Some e)
        | None \<Rightarrow>
            if zip_file \<noteq> [] then apply_worker_zip io (wf_name f) zip_file (wf_runtime f)
            else apply_worker_params io f)"

section \<open>Other commands\<close>

text \<open>
  \<open>cmd/hiclaw/update.go\<close>, \<open>delete.go\<close> and \<open>worker_cmd.go\<close>: changing and deleting resources, and the
  lifecycle commands of workers. The heartbeat of \<open>report-ready\<close> has no end; the model runs a given
  number of beats, and \<open>None\<close> means that the command is still beating.
\<close>

section \<open>Updates\<close>

definition update_resource ::
  "'w cli_io \<Rightarrow> string \<Rightarrow> string \<Rightarrow> (string \<times> json) list \<Rightarrow> ('w, go_error option) state" where
  "update_resource io kind name body =
     (if body = [] then State_Monad.return (Some (Err ''at least one field must be specified for update''))
      else send_and_say io (''update '' @ kind) ''PUT'' (''/api/v1/'' @ kind @ ''s/'' @ name) body
        (kind @ ''/'' @ name @ '' configured''))"

definition update_worker_body :: "worker_flags \<Rightarrow> string \<Rightarrow> (string \<times> json) list" where
  "update_worker_body f package =
     set_ports (wf_expose f) (set_csv ''skills'' (wf_skills f) (unmanaged (wf_container_managed f)
       (set_if_not_empty ''package'' package (set_if_not_empty ''soul'' (wf_soul f)
         (set_if_not_empty ''identity'' (wf_identity f) (set_if_not_empty ''image'' (wf_image f)
           (set_if_not_empty ''runtime'' (wf_runtime f) (set_if_not_empty ''model'' (wf_model f) []))))))))"

definition update_worker_cmd :: "'w cli_io \<Rightarrow> worker_flags \<Rightarrow> ('w, go_error option) state" where
  "update_worker_cmd io f =
     require_flag ''--name'' (wf_name f)
       (case expand_flag io (wf_package f) of
          Inl e \<Rightarrow> State_Monad.return (Some e)
        | Inr package \<Rightarrow> update_resource io ''worker'' (wf_name f) (update_worker_body f package))"

definition update_team_body :: "team_flags \<Rightarrow> (string \<times> json) list" where
  "update_team_body f =
     (let leader = leader_members f [];
          body = set_if_not_empty ''description'' (tf_description f) (set_if_not_empty ''teamName'' (tf_team_name f) [])
      in if leader = [] then body else json_put ''leader'' (JObj leader) body)"

definition update_team_cmd :: "'w cli_io \<Rightarrow> team_flags \<Rightarrow> ('w, go_error option) state" where
  "update_team_cmd io f =
     require_flag ''--name'' (tf_name f) (update_resource io ''team'' (tf_name f) (update_team_body f))"

definition update_manager_cmd :: "'w cli_io \<Rightarrow> manager_flags \<Rightarrow> ('w, go_error option) state" where
  "update_manager_cmd io f =
     require_flag ''--name'' (gf_name f) (update_resource io ''manager'' (gf_name f)
       (manager_members f (set_if_not_empty ''model'' (gf_model f) [])))"

section \<open>Deletion\<close>

definition delete_resource :: "'w cli_io \<Rightarrow> string \<Rightarrow> string \<Rightarrow> ('w, go_error option) state" where
  "delete_resource io kind name = with_client io (\<lambda>c.
     expect (''delete '' @ kind) (do_json c ''DELETE'' (''/api/v1/'' @ kind @ ''s/'' @ name) No_Body decode_nothing ())
       (\<lambda>_. finish (print_line io (kind @ ''/'' @ name @ '' deleted''))))"

section \<open>Lifecycle\<close>

record lifecycle_resp =
  cl_name :: string
  cl_phase :: string

definition decode_lifecycle_resp :: "(string \<times> json) list \<Rightarrow> lifecycle_resp result" where
  "decode_lifecycle_resp kvs =
     try_result (decode_string ''name'' [] kvs) (\<lambda>name.
     try_result (decode_string ''phase'' [] kvs) (\<lambda>phase. Inr \<lparr>cl_name = name, cl_phase = phase\<rparr>))"

definition lifecycle_cmd :: "'w cli_io \<Rightarrow> string \<Rightarrow> string \<Rightarrow> string \<Rightarrow> ('w, go_error option) state" where
  "lifecycle_cmd io action what name =
     require_flag ''--name'' name (with_client io (\<lambda>c.
       expect what (do_json c ''POST'' (''/api/v1/workers/'' @ name @ ''/'' @ action) No_Body
           (decode_body decode_lifecycle_resp) \<lparr>cl_name = [], cl_phase = []\<rparr>) (\<lambda>r.
         finish (print_line io (''worker/'' @ cl_name r @ '' phase='' @ cl_phase r)))))"

definition worker_wake_cmd :: "'w cli_io \<Rightarrow> string \<Rightarrow> ('w, go_error option) state" where
  "worker_wake_cmd io name = lifecycle_cmd io ''wake'' ''wake worker'' name"

definition worker_sleep_cmd :: "'w cli_io \<Rightarrow> string \<Rightarrow> ('w, go_error option) state" where
  "worker_sleep_cmd io name = lifecycle_cmd io ''sleep'' ''sleep worker'' name"

definition worker_ensure_ready_cmd :: "'w cli_io \<Rightarrow> string \<Rightarrow> ('w, go_error option) state" where
  "worker_ensure_ready_cmd io name = lifecycle_cmd io ''ensure-ready'' ''ensure-ready'' name"

subsection \<open>Status\<close>

definition status_row :: "worker_resp \<Rightarrow> string list" where
  "status_row w = [cw_name w, or_text (cw_phase w) ''Pending'', or_text (cw_container_state w) ''unknown'', cw_model w,
     or_text (cw_runtime w) ''openclaw'']"

fun status_rows :: "'w api_client \<Rightarrow> worker_resp list \<Rightarrow> ('w, string list list result) state" where
  "status_rows c [] = State_Monad.return (Inr [])"
| "status_rows c (w # ws) = do {
     r \<leftarrow> do_json c ''GET'' (''/api/v1/workers/'' @ cw_name w @ ''/status'') No_Body (decode_body decode_worker_resp)
            zero_worker_resp;
     (case r of
        Inl f \<Rightarrow> State_Monad.return (Inl (Wrap (''worker '' @ cw_name w @ '' status'') (failure_error f)))
      | Inr detail \<Rightarrow> do {
          rows \<leftarrow> status_rows c ws;
          State_Monad.return (map_sum id ((#) (status_row detail)) rows) }) }"

definition team_status :: "'w api_client \<Rightarrow> string \<Rightarrow> string \<Rightarrow> ('w, go_error option) state" where
  "team_status c team output =
     expect ''list team workers'' (do_json c ''GET'' (''/api/v1/workers?team='' @ team) No_Body
         (decode_body (decode_listing decode_worker_resp ''workers'')) (None, 0)) (\<lambda>l.
       if output = ''json'' then finish (print_json (acl_io c) (listing_json worker_resp_json ''workers'' l))
       else if snd l = 0 then finish (print_line (acl_io c) (''No workers found in team '' @ team @ ''.''))
       else use_state (status_rows c (listed l)) (\<lambda>rows.
         finish (print_table (acl_io c) [''NAME'', ''PHASE'', ''STATE'', ''MODEL'', ''RUNTIME''] rows)))"

definition worker_status_cmd :: "'w cli_io \<Rightarrow> string \<Rightarrow> string \<Rightarrow> string \<Rightarrow> ('w, go_error option) state" where
  "worker_status_cmd io name team output =
     (if name = [] \<and> team = [] then State_Monad.return (Some (Err ''--name or --team is required''))
      else with_client io (\<lambda>c.
        if name \<noteq> []
        then show_resource c output ''worker status'' (''/api/v1/workers/'' @ name @ ''/status'') decode_worker_resp
          zero_worker_resp worker_resp_json worker_detail
        else team_status c team output))"

subsection \<open>Reporting readiness\<close>

definition print_error :: "'w cli_io \<Rightarrow> string \<Rightarrow> ('w, unit) state" where
  "print_error io s = ci_print io (Out_Error s)"

definition ready_call :: "'w api_client \<Rightarrow> string \<Rightarrow> ('w, call_failure + unit) state" where
  "ready_call c name = do_json c ''POST'' (''/api/v1/workers/'' @ name @ ''/ready'') No_Body decode_nothing ()"

text \<open>\<open>k\<close> attempts are left; the pause grows with their number, and a new client reads the token again.\<close>

fun report_attempts ::
  "nat \<Rightarrow> 'w cli_io \<Rightarrow> 'w api_client \<Rightarrow> string \<Rightarrow> go_error option \<Rightarrow> ('w, 'w api_client result) state" where
  "report_attempts 0 io c name prior =
     State_Monad.return (case prior of
        None \<Rightarrow> Inr c | Some e \<Rightarrow> Inl (Wrap ''report-ready failed after 5 attempts'' e))"
| "report_attempts (Suc k) io c name prior = do {
     r \<leftarrow> ready_call c name;
     (case r of
        Inr _ \<Rightarrow> do {
          _ \<leftarrow> print_error io (''worker/'' @ name @ '' reported ready'');
          State_Monad.return (Inr c) }
      | Inl f \<Rightarrow> do {
          _ \<leftarrow> print_error io (''report-ready attempt '' @ show_nat (5 - k) @ ''/5 failed: '' @ err_text (failure_error f));
          _ \<leftarrow> ci_sleep io (int (5 - k) * 2000000000);
          next \<leftarrow> new_api_client io;
          report_attempts k io next name (Some (failure_error f)) }) }"

definition heartbeat :: "'w cli_io \<Rightarrow> int \<Rightarrow> string \<Rightarrow> 'w api_client \<Rightarrow> ('w, 'w api_client) state" where
  "heartbeat io interval name c = do {
     _ \<leftarrow> ci_sleep io interval;
     r \<leftarrow> ready_call c name;
     (case r of
        Inr _ \<Rightarrow> State_Monad.return c
      | Inl f \<Rightarrow> do {
          _ \<leftarrow> print_error io (''heartbeat failed: '' @ err_text (failure_error f) @ '' (will retry)'');
          new_api_client io }) }"

fun heartbeats :: "nat \<Rightarrow> 'w cli_io \<Rightarrow> int \<Rightarrow> string \<Rightarrow> 'w api_client \<Rightarrow> ('w, 'w api_client) state" where
  "heartbeats 0 io interval name c = State_Monad.return c"
| "heartbeats (Suc n) io interval name c = do {
     d \<leftarrow> heartbeat io interval name c;
     heartbeats n io interval name d }"

definition report_name :: "'w cli_io \<Rightarrow> string \<Rightarrow> string" where
  "report_name io name =
     or_text (or_text name (ci_getenv io ''HICLAW_WORKER_CR_NAME'')) (ci_getenv io ''HICLAW_WORKER_NAME'')"

text \<open>The last flags: whether \<open>--heartbeat\<close> and \<open>--interval\<close> were given, with whatever value.\<close>

definition report_ready_cmd ::
  "nat \<Rightarrow> 'w cli_io \<Rightarrow> string \<Rightarrow> int \<Rightarrow> bool \<Rightarrow> bool \<Rightarrow> ('w, go_error option option) state" where
  "report_ready_cmd beats io flag interval heartbeat_given interval_given =
     (let name = report_name io flag in
      if name = []
      then State_Monad.return (Some (Some (Err ''--name, HICLAW_WORKER_CR_NAME, or HICLAW_WORKER_NAME is required'')))
      else do {
        c \<leftarrow> new_api_client io;
        r \<leftarrow> report_attempts 5 io c name None;
        (case r of
           Inl e \<Rightarrow> State_Monad.return (Some (Some e))
         | Inr d \<Rightarrow>
             if \<not> (heartbeat_given \<or> interval_given) then State_Monad.return (Some None)
             else do {
               _ \<leftarrow> heartbeats beats io interval name d;
               State_Monad.return None }) })"

end
