(* ===== verification/Cli_Controller.thy ===== *)
theory Cli_Controller
  imports Cli_Apply Api_Properties
begin

text \<open>
  The command line against the HTTP API of the controller: a session in which every request a command
  sends is served by \<open>serve_api\<close>. What JSON texts look like is left open (\<open>ctl_marshal\<close>, \<open>ctl_render\<close>);
  what the API's decoders make of a request body is a hypothesis where it matters. The theorems are on
  flags and resources the API refuses.
\<close>

section \<open>A session\<close>

record ('w, 's) cli_session =
  cse_cluster :: "'w lifecycle_state"
  cse_auth :: 's
  cse_out :: "cli_output list"
  cse_now :: int

record ('w, 's) controller =
  ctl_middleware :: "'w \<Rightarrow> 's middleware"
  ctl_server :: "'w http_server"
  ctl_decoders :: api_decoders
  ctl_sha256 :: "string \<Rightarrow> string"
  ctl_marshal :: "json \<Rightarrow> string"
  ctl_render :: "api_answer \<Rightarrow> string \<times> raw_json"

fun response_status :: "'b api_response \<Rightarrow> nat" where
  "response_status (Api_Json code b) = code"
| "response_status (Api_Error code m) = code"
| "response_status (Api_Status code) = code"
| "response_status Api_Silent = 200"

text \<open>A forwarded Docker call has the status of the engine; no command makes one.\<close>

fun answer_status :: "api_answer \<Rightarrow> nat" where
  "answer_status (Ans_Text code m) = code"
| "answer_status (Ans_Worker r) = response_status r"
| "answer_status (Ans_Workers r) = response_status r"
| "answer_status (Ans_Team r) = response_status r"
| "answer_status (Ans_Teams r) = response_status r"
| "answer_status (Ans_Human r) = response_status r"
| "answer_status (Ans_Humans r) = response_status r"
| "answer_status (Ans_Manager r) = response_status r"
| "answer_status (Ans_Managers r) = response_status r"
| "answer_status (Ans_Lifecycle r) = response_status r"
| "answer_status (Ans_Cluster r) = response_status r"
| "answer_status (Ans_Version r) = response_status r"
| "answer_status (Ans_Consumer r) = response_status r"
| "answer_status (Ans_Token r) = response_status r"
| "answer_status (Ans_Package r) = response_status r"
| "answer_status (Ans_Docker p) = (case p of Forward \<Rightarrow> 200 | Reject code m \<Rightarrow> code)"

definition reply_of :: "('w, 's) controller \<Rightarrow> api_answer \<Rightarrow> cli_reply" where
  "reply_of ctl a = \<lparr>rp_status = answer_status a, rp_body = fst (ctl_render ctl a), rp_json = snd (ctl_render ctl a),
     clp_read_error = None\<rparr>"

text \<open>The path below the address of the controller, by its segments, and the query after it.\<close>

definition path_segments :: "string \<Rightarrow> string list" where
  "path_segments path = tl (split_on (CHR ''/'') (fst (cut_at (CHR ''?'') path)))"

definition path_team :: "string \<Rightarrow> string" where
  "path_team path = (case snd (cut_at (CHR ''?'') path) of None \<Rightarrow> [] | Some q \<Rightarrow> query_get q ''team'')"

definition upload_of :: "cli_body \<Rightarrow> upload_request" where
  "upload_of body =
     (case body of
        Form_Body kvs field name data \<Rightarrow>
          \<lparr>up_form_error = None, up_name = (case map_of kvs ''name'' of None \<Rightarrow> [] | Some v \<Rightarrow> v),
           up_file = (if field = ''file'' then Inr (Inr data) else Inl (Err ''http: no such file''))\<rparr>
      | _ \<Rightarrow> \<lparr>up_form_error = Some (Err ''request Content-Type isn't multipart/form-data''), up_name = [],
           up_file = Inl (Err ''http: no such file'')\<rparr>)"

definition request_of :: "('w, 's) controller \<Rightarrow> string \<Rightarrow> cli_request \<Rightarrow> api_request" where
  "request_of ctl url q =
     (let path = drop (length url) (clq_url q);
          body = (case clq_body q of Json_Body j \<Rightarrow> ctl_marshal ctl j | _ \<Rightarrow> [])
      in \<lparr>aq_method = clq_method q, aq_path = path_segments path,
          aq_authorization = (if clq_token q = [] then [] else ''Bearer '' @ clq_token q),
          aq_body = body, aq_team = path_team path, aq_upload = upload_of (clq_body q),
          aq_docker = \<lparr>px_method = clq_method q, px_path = path, px_name_param = [], px_body = Inr body\<rparr>\<rparr>)"

definition served :: "('w, 's) controller \<Rightarrow> api_request \<Rightarrow> (('w, 's) cli_session, cli_reply result) state" where
  "served ctl q = State (\<lambda>s.
     case serve_api (ctl_middleware ctl) (ctl_sha256 ctl) (ctl_decoders ctl) (ctl_server ctl) q (cse_cluster s) (cse_auth s) of
       (a, l, au) \<Rightarrow> (Inr (reply_of ctl a), s\<lparr>cse_cluster := l, cse_auth := au\<rparr>))"

record cli_setting =
  cst_env :: "string \<Rightarrow> string"
  cst_files :: "string \<Rightarrow> string result"
  cst_yaml :: "string \<Rightarrow> json result"
  cst_unzip :: "string \<Rightarrow> (string \<times> raw_json) list option"

definition controller_io :: "('w, 's) controller \<Rightarrow> cli_setting \<Rightarrow> ('w, 's) cli_session cli_io" where
  "controller_io ctl cs =
     \<lparr>ci_getenv = cst_env cs, ci_read_file = (\<lambda>p. State_Monad.return (cst_files cs p)), ci_build = (\<lambda>u. None),
      ci_send = (\<lambda>q. served ctl (request_of ctl (controller_url (cst_env cs)) q)),
      ci_now = State (\<lambda>s. (cse_now s, s)), ci_sleep = (\<lambda>d. State (\<lambda>s. ((), s\<lparr>cse_now := cse_now s + d\<rparr>))),
      ci_print = (\<lambda>x. State (\<lambda>s. ((), s\<lparr>cse_out := cse_out s @ [x]\<rparr>))), ci_yaml = cst_yaml cs,
      ci_unzip = cst_unzip cs, ci_duration = show_int\<rparr>"

text \<open>A client of a session, and what a call of it does.\<close>

definition session_client :: "('w, 's) controller \<Rightarrow> cli_setting \<Rightarrow> string \<Rightarrow> ('w, 's) cli_session api_client" where
  "session_client ctl cs token =
     \<lparr>acl_base = controller_url (cst_env cs), acl_token = token, acl_io = controller_io ctl cs\<rparr>"

lemma session_new_client: "\<exists>token. \<forall>s. run_state (new_api_client (controller_io ctl cs)) s = (session_client ctl cs token, s)"
  by (auto simp: new_api_client_def discover_token_def controller_io_def session_client_def Let_def split: sum.splits)

definition session_request ::
  "('w, 's) controller \<Rightarrow> cli_setting \<Rightarrow> string \<Rightarrow> string \<Rightarrow> string \<Rightarrow> cli_body \<Rightarrow> api_request" where
  "session_request ctl cs token verb path body = request_of ctl (controller_url (cst_env cs))
     \<lparr>clq_method = verb, clq_url = controller_url (cst_env cs) @ path, clq_token = token, clq_body = body\<rparr>"

lemma session_request_parts [simp]:
  "aq_method (session_request ctl cs token verb path body) = verb"
  "aq_path (session_request ctl cs token verb path body) = path_segments path"
  "aq_body (session_request ctl cs token verb path (Json_Body j)) = ctl_marshal ctl j"
  by (simp_all add: session_request_def request_of_def Let_def)

lemma session_api_do:
  "api_do (session_client ctl cs token) verb path body = served ctl (session_request ctl cs token verb path body)"
  by (simp add: api_do_def session_client_def controller_io_def session_request_def Let_def)

lemma session_do_json:
  "run_state (do_json (session_client ctl cs token) verb path body decode zero) s =
     (case serve_api (ctl_middleware ctl) (ctl_sha256 ctl) (ctl_decoders ctl) (ctl_server ctl)
        (session_request ctl cs token verb path body) (cse_cluster s) (cse_auth s) of
      (a, l, au) \<Rightarrow> (read_reply decode zero (reply_of ctl a), s\<lparr>cse_cluster := l, cse_auth := au\<rparr>))"
  by (simp add: do_json_def session_api_do served_def split: prod.split)

lemma read_reply_failure:
  "\<not> success_status (answer_status a) \<Longrightarrow>
   read_reply decode zero (reply_of ctl a) = Inl (Status_Failure (answer_status a) (error_message (reply_of ctl a)))"
  by (simp add: read_reply_def reply_of_def)

section \<open>Messages\<close>

text \<open>The API writes its messages into the member \<open>message\<close>, the client looks for \<open>error\<close>: it shows the whole body.\<close>

lemma server_message_not_found:
  assumes "rp_json rep = RawJson (JObj [(''message'', JStr m)])"
  shows "error_message rep = trim_space (rp_body rep)"
proof -
  have "\<not> equal_fold ''message'' ''error''" by code_simp
  then show ?thesis using assms by (simp add: error_message_def decode_raw_def decode_object_def)
qed

section \<open>Applying an existing human\<close>

definition plain_name :: "string \<Rightarrow> bool" where
  "plain_name n \<longleftrightarrow> n \<noteq> [] \<and> CHR ''/'' \<notin> set n \<and> CHR ''?'' \<notin> set n"

lemma cut_at_absent: "c \<notin> set s \<Longrightarrow> cut_at c s = (s, None)"
proof -
  assume "c \<notin> set s"
  then have "takeWhile (\<lambda>x. x \<noteq> c) s = s" by (auto simp: takeWhile_eq_all_conv)
  then show ?thesis by (simp only: cut_at_def Let_def less_irrefl if_False)
qed

lemma resource_path_segments:
  assumes "plain_name k" "plain_name n"
  shows "path_segments (''/api/v1/'' @ k @ ''/'' @ n) = [''api'', ''v1'', k, n]"
proof -
  have "''/api/v1/'' @ k @ ''/'' @ n = join_with ''/'' [[], ''api'', ''v1'', k, n]" by simp
  moreover have "split_on (CHR ''/'') (join_with ''/'' [[], ''api'', ''v1'', k, n]) = [[], ''api'', ''v1'', k, n]"
    using assms by (intro split_join_with) (auto simp: plain_name_def)
  moreover have "cut_at (CHR ''?'') (''/api/v1/'' @ k @ ''/'' @ n) = (''/api/v1/'' @ k @ ''/'' @ n, None)"
    using assms by (intro cut_at_absent) (auto simp: plain_name_def)
  ultimately show ?thesis by (simp add: path_segments_def)
qed

text \<open>The requests \<open>apply\<close> sends for a resource: the API has no update of a human.\<close>

lemmas route_tables = api_routes_def status_routes_def worker_routes_def team_routes_def human_routes_def
  manager_routes_def lifecycle_routes_def gateway_routes_def route_of_def api_path_def method_matches_def

lemma human_put_route: "n \<noteq> [] \<Longrightarrow> find_route docker ''PUT'' [''api'', ''v1'', ''humans'', n] = Mux_Not_Allowed"
  by (simp add: find_route_def route_tables)

lemma refused_request:
  assumes "find_route (hs_docker (ctl_server ctl)) verb (path_segments path) = Mux_Not_Allowed"
  shows "run_state (do_json (session_client ctl cs token) verb path body decode zero) s =
    (Inl (Status_Failure 405 (error_message (reply_of ctl (Ans_Text 405 ''Method Not Allowed'')))), s)"
  using assms read_reply_failure [of "Ans_Text 405 ''Method Not Allowed''"]
  by (simp add: session_do_json serve_api_def dispatch_request_def success_status_def)

lemma status_405: "show_nat 405 = ''405''"
  by code_simp

text \<open>C34. The command line cannot apply a human a second time: whenever \<open>apply\<close> finds that the human exists it sends
  an update, for which the API has no route, so the command ends with the status 405, nothing is
  printed, and the rest of the file is not applied.\<close>

theorem human_reapply_refused:
  assumes "to_lower (yr_kind res) = ''human''" "plain_name (yr_name res)"
    and "run_state (resource_exists (session_client ctl cs token) (''/api/v1/humans/'' @ yr_name res)) s = (Inr True, s1)"
  shows "\<exists>msg. run_state (each_step (apply_one_resource (session_client ctl cs token)) (res # rest)) s =
    (Some (Wrap (''update human/'' @ yr_name res) (Err (''HTTP 405: '' @ msg))), s1)"
proof -
  let ?path = "''/api/v1/humans/'' @ yr_name res"
  have "path_segments ?path = [''api'', ''v1'', ''humans'', yr_name res]"
    using resource_path_segments [of "''humans''" "yr_name res"] assms(2) by (simp add: plain_name_def)
  then have put: "find_route (hs_docker (ctl_server ctl)) ''PUT'' (path_segments ?path) = Mux_Not_Allowed"
    using human_put_route assms(2) by (simp add: plain_name_def)
  define path where "path = ?path"
  have endpoint: "''/api/v1/humans'' @ ''/'' @ yr_name res = path" by (simp add: path_def)
  have check: "run_state (resource_exists (session_client ctl cs token) path) s = (Inr True, s1)"
    using assms(3) unfolding path_def .
  have update: "run_state (do_json (session_client ctl cs token) ''PUT'' path body decode_map JNull) s1 =
      (Inl (Status_Failure 405 (error_message (reply_of ctl (Ans_Text 405 ''Method Not Allowed'')))), s1)" for body
    using refused_request [OF put] unfolding path_def .
  have "run_state (apply_one_resource (session_client ctl cs token) res) s =
      (Some (Wrap (''update human/'' @ yr_name res) (Err (''HTTP 405: '' @
        error_message (reply_of ctl (Ans_Text 405 ''Method Not Allowed''))))), s1)"
    using assms(1) endpoint check update
    by (simp add: apply_one_resource_def upsert_def run_expect failure_error_def Let_def status_405)
  then show ?thesis by simp
qed

text \<open>A controller without authentication, over a cluster in memory in which there is a human bob.\<close>

definition bob :: human where
  "bob = \<lparr>h_meta = zero_meta\<lparr>om_name := ''bob''\<rparr>, 
     h_spec = \<lparr>hs_display_name = ''Bob'', hs_username = [], hs_email = [], hs_permission_level = 0, hs_accessible_teams = [],
       hs_accessible_workers = [], hs_note = []\<rparr>,
     h_status = \<lparr>hst_phase = [], hst_matrix_user_id = [], hst_initial_password = [], hst_display_name_synced = 0,
       hst_rooms = [], hst_email_sent = False, hst_message = []\<rparr>\<rparr>"

definition demo_deps :: "memory_cluster server_deps" where
  "demo_deps = \<lparr>sd_workers = memory_workers, sd_teams = memory_teams,
     sd_humans = memory_kind (\<lambda>_. [bob]) (\<lambda>_ w. w) (\<lambda>h. om_name (h_meta h)),
     sd_managers = memory_kind (\<lambda>_. []) (\<lambda>_ w. w) (\<lambda>m. []), sd_backends = [], sd_gateway = None, sd_oss = None,
     sd_sts = None, sd_kube_mode = ''incluster'', sd_namespace = ''default'', sd_controller_name = ''ctl'',
     sd_socket_path = []\<rparr>"

definition no_decoders :: api_decoders where
  "no_decoders = \<lparr>de_create_worker = \<lambda>_. Inl (Err ''no''), de_update_worker = \<lambda>_. Inl (Err ''no''),
     de_create_team = \<lambda>_. Inl (Err ''no''), de_update_team = \<lambda>_. Inl (Err ''no''), de_create_human = \<lambda>_. Inl (Err ''no''),
     de_create_manager = \<lambda>_. Inl (Err ''no''), de_update_manager = \<lambda>_. Inl (Err ''no''),
     de_create_consumer = \<lambda>_. Inl (Err ''no''), de_container = \<lambda>_. Inl (Err ''no'')\<rparr>"

definition demo_controller :: "api_decoders \<Rightarrow> (memory_cluster, unit) controller" where
  "demo_controller de = \<lparr>ctl_middleware = \<lambda>_. \<lparr>mw_authenticator = None, mw_enricher = None, mw_get_worker = None\<rparr>,
     ctl_server = new_http_server (\<lambda>_. []) demo_deps, ctl_decoders = de, ctl_sha256 = \<lambda>d. d,
     ctl_marshal = \<lambda>j. ''x'', ctl_render = \<lambda>a. (''{}'', RawJson (JObj []))\<rparr>"

definition demo_setting :: cli_setting where
  "demo_setting = \<lparr>cst_env = \<lambda>_. [], cst_files = \<lambda>_. Inl OsNotExist, cst_yaml = \<lambda>_. Inl (Err ''no yaml''),
     cst_unzip = \<lambda>_. None\<rparr>"

definition demo_session :: "(memory_cluster, unit) cli_session" where
  "demo_session = \<lparr>cse_cluster = \<lparr>lfs_world = empty_cluster, lfs_ready = []\<rparr>, cse_auth = (), cse_out = [], cse_now = 0\<rparr>"

lemma bob_found:
  "fst (run_state (resource_exists (session_client (demo_controller no_decoders) demo_setting []) ''/api/v1/humans/bob'')
     demo_session) = Inr True"
  by code_simp

definition bob_resource :: yaml_resource where
  "bob_resource = \<lparr>yr_api_version = [], yr_kind = ''Human'', yr_name = ''bob'', yr_spec = []\<rparr>"

lemma human_reapply_refused_witness:
  "\<exists>msg s. run_state (each_step (apply_one_resource (session_client (demo_controller no_decoders) demo_setting []))
      [bob_resource]) demo_session = (Some (Wrap ''update human/bob'' (Err (''HTTP 405: '' @ msg))), s)"
proof -
  have parts: "to_lower (yr_kind bob_resource) = ''human''" "plain_name (yr_name bob_resource)" "yr_name bob_resource = ''bob''"
    by code_simp+
  obtain s1 where s1: "run_state (resource_exists (session_client (demo_controller no_decoders) demo_setting [])
      (''/api/v1/humans/'' @ yr_name bob_resource)) demo_session = (Inr True, s1)"
    using bob_found parts(3) by (cases "run_state (resource_exists (session_client (demo_controller no_decoders) demo_setting [])
      ''/api/v1/humans/bob'') demo_session") simp
  show ?thesis using human_reapply_refused [OF parts(1,2) s1, of "[]"] unfolding parts(3) by auto
qed

section \<open>Flags the API refuses\<close>

text \<open>What the theorem relies on of the decoder of the API: it decodes these members as Go decodes them.\<close>

definition decode_expose_port :: "(string \<times> json) list \<Rightarrow> expose_port result" where
  "decode_expose_port kvs =
     try_result (decode_number ''port'' 0 kvs) (\<lambda>port.
     try_result (decode_string ''protocol'' [] kvs) (\<lambda>protocol. Inr \<lparr>ep_port = port, ep_protocol = protocol\<rparr>))"

definition decodes_workers :: "('w, 's) controller \<Rightarrow> bool" where
  "decodes_workers ctl \<longleftrightarrow>
     (\<forall>kvs req. de_create_worker (ctl_decoders ctl) (ctl_marshal ctl (JObj kvs)) = Inr req \<longrightarrow>
        decode_string ''team'' [] kvs = Inr (cwr_team req) \<and> decode_string ''role'' [] kvs = Inr (cwr_role req) \<and>
        decode_slice decode_expose_port ''expose'' kvs = Inr (cwr_expose req))"

subsection \<open>The members of a body\<close>

definition worker_keys :: "string list" where
  "worker_keys = [''name'', ''model'', ''containerManaged'', ''runtime'', ''image'', ''identity'', ''soul'', ''package'', ''team'',
     ''role'', ''skills'', ''expose'']"

lemma set_get [simp]:
  "json_get (set_if_not_empty k v m) k' = (if k' = k \<and> v \<noteq> [] then JStr v else json_get m k')"
  "json_get (set_csv k v m) k' = (if k' = k \<and> v \<noteq> [] then csv_json v else json_get m k')"
  "json_get (set_ports v m) k' = (if k' = ''expose'' \<and> v \<noteq> [] then parse_expose_ports v else json_get m k')"
  "json_get (unmanaged b m) k' = (if k' = ''containerManaged'' \<and> \<not> b then JBool False else json_get m k')"
  by (auto simp: set_if_not_empty_def set_csv_def set_ports_def unmanaged_def)

lemma json_get_Cons: "json_get ((k, v) # m) k' = (if k' = k then v else json_get m k')" "json_get [] k' = JNull"
  by (simp_all add: json_get_def)

lemma json_put_keys: "fst ` set (json_put k v m) \<subseteq> insert k (fst ` set m)"
  by (auto simp: json_put_def update_conv' split: if_splits simp flip: dom_map_of_conv_image_fst)

lemma set_keys:
  "fst ` set (set_if_not_empty k v m) \<subseteq> insert k (fst ` set m)"
  "fst ` set (set_csv k v m) \<subseteq> insert k (fst ` set m)"
  "fst ` set (set_ports v m) \<subseteq> insert ''expose'' (fst ` set m)"
  "fst ` set (unmanaged b m) \<subseteq> insert ''containerManaged'' (fst ` set m)"
  using json_put_keys by (auto simp: set_if_not_empty_def set_csv_def set_ports_def unmanaged_def)

lemma set_distinct:
  assumes "distinct (map fst m)"
  shows "distinct (map fst (set_if_not_empty k v m))" "distinct (map fst (set_csv k v m))"
    "distinct (map fst (set_ports v m))" "distinct (map fst (unmanaged b m))"
  using assms by (auto simp: set_if_not_empty_def set_csv_def set_ports_def unmanaged_def json_put_def distinct_update)

lemma keys_trans: "fst ` set m' \<subseteq> insert k (fst ` set m) \<Longrightarrow> fst ` set m \<subseteq> K \<Longrightarrow> k \<in> K \<Longrightarrow> fst ` set m' \<subseteq> K"
  by blast

lemma worker_body_keys:
  "fst ` set (create_worker_body f model soul package) \<subseteq> set worker_keys"
  "distinct (map fst (create_worker_body f model soul package))"
  unfolding create_worker_body_def worker_members_def worker_keys_def
  by (intro keys_trans [OF set_keys(1)] keys_trans [OF set_keys(2)] keys_trans [OF set_keys(3)] keys_trans [OF set_keys(4)]; simp)
     (intro set_distinct, simp)

lemma keys_exact:
  assumes "field \<in> {''team'', ''role'', ''expose''}" "k \<in> set worker_keys" "equal_fold k field"
  shows "k = field"
proof -
  have "list_all (\<lambda>k. \<forall>field \<in> {''team'', ''role'', ''expose''}. equal_fold k field \<longrightarrow> k = field) worker_keys" by code_simp
  then show ?thesis using assms unfolding list_all_iff by blast
qed

lemma decode_exact:
  assumes "\<forall>k \<in> fst ` set kvs. equal_fold k field \<longrightarrow> k = field" "distinct (map fst kvs)"
  shows "decode_string field [] kvs =
      (case json_get kvs field of JStr s \<Rightarrow> Inr s | JNull \<Rightarrow> Inr [] | _ \<Rightarrow> Inl json_mismatch)"
    and "decode_member field JNull kvs = json_get kvs field"
proof -
  have fold: "equal_fold field field" by (simp add: equal_fold_def)
  have none: "decode_string field acc kvs = Inr acc \<and> decode_member field v kvs = v"
    if "field \<notin> fst ` set kvs" "\<forall>k \<in> fst ` set kvs. equal_fold k field \<longrightarrow> k = field" for acc v kvs
    using that by (induction kvs) auto
  have "decode_string field [] kvs =
      (case json_get kvs field of JStr s \<Rightarrow> Inr s | JNull \<Rightarrow> Inr [] | _ \<Rightarrow> Inl json_mismatch) \<and>
    decode_member field JNull kvs = json_get kvs field"
    using assms
  proof (induction kvs)
    case (Cons p kvs)
    obtain k v where p: "p = (k, v)" by fastforce
    show ?case
    proof (cases "k = field")
      case True
      then show ?thesis using none [of kvs] Cons.prems p fold by (auto simp: json_get_def split: json.split)
    next
      case False
      then show ?thesis using Cons p by (auto simp: json_get_def)
    qed
  qed (simp add: json_get_def)
  then show "decode_string field [] kvs =
      (case json_get kvs field of JStr s \<Rightarrow> Inr s | JNull \<Rightarrow> Inr [] | _ \<Rightarrow> Inl json_mismatch)"
    "decode_member field JNull kvs = json_get kvs field" by blast+
qed

text \<open>No update makes the controller manage a container again.\<close>

lemma update_never_managed: "json_get (update_worker_body f package) ''containerManaged'' \<in> {JNull, JBool False}"
  by (simp add: update_worker_body_def json_get_Cons)

text \<open>A port goes out as a text, which is no port number.\<close>

lemma exposed_port_mismatch:
  assumes "split_csv v \<noteq> []"
  shows "\<exists>e. decode_structs decode_expose_port (map (\<lambda>p. JObj [(''port'', JStr p)]) (split_csv v)) = Inl e"
proof -
  have "equal_fold ''port'' ''port''" by code_simp
  then have "decode_struct decode_expose_port (JObj [(''port'', JStr p)]) = Inl json_mismatch" for p
    by (simp add: decode_struct_def decode_object_def decode_expose_port_def)
  then show ?thesis using assms by (cases "split_csv v") simp_all
qed

lemma worker_body_refused:
  assumes "wf_team f \<noteq> [] \<or> wf_role f \<noteq> [] \<or> split_csv (wf_expose f) \<noteq> []" "decodes_workers ctl"
    and "de_create_worker (ctl_decoders ctl) (ctl_marshal ctl (JObj (create_worker_body f model soul package))) = Inr req"
  shows "cwr_team req \<noteq> [] \<or> cwr_role req \<noteq> []"
proof -
  let ?b = "create_worker_body f model soul package"
  have exact: "\<forall>k \<in> fst ` set ?b. equal_fold k field \<longrightarrow> k = field" if "field \<in> {''team'', ''role'', ''expose''}" for field
    using keys_exact [OF that] worker_body_keys(1) [of f model soul package] by blast
  have got: "json_get ?b ''team'' = (if wf_team f = [] then JNull else JStr (wf_team f))"
      "json_get ?b ''role'' = (if wf_role f = [] then JNull else JStr (wf_role f))"
      "json_get ?b ''expose'' = (if wf_expose f = [] then JNull else parse_expose_ports (wf_expose f))"
    by (simp_all add: create_worker_body_def worker_members_def json_get_Cons)
  have decoded: "decode_string ''team'' [] ?b = Inr (cwr_team req)" "decode_string ''role'' [] ?b = Inr (cwr_role req)"
      "decode_slice decode_expose_port ''expose'' ?b = Inr (cwr_expose req)"
    using assms(2,3) unfolding decodes_workers_def by blast+
  have "split_csv (wf_expose f) = []"
  proof (rule ccontr)
    assume ports: "split_csv (wf_expose f) \<noteq> []"
    then have "wf_expose f \<noteq> []" by (auto simp: split_csv_def trim_space_def trim_both_def trim_left_def trim_right_def)
    then have "decode_slice decode_expose_port ''expose'' ?b =
        decode_structs decode_expose_port (map (\<lambda>p. JObj [(''port'', JStr p)]) (split_csv (wf_expose f)))"
      using got(3) ports decode_exact(2) [OF exact worker_body_keys(2), of "''expose''"]
      by (simp add: decode_slice_def parse_expose_ports_def)
    then show False using exposed_port_mismatch [OF ports] decoded(3) by auto
  qed
  then show ?thesis
    using assms(1) decoded(1,2) got(1,2) decode_exact(1) [OF exact worker_body_keys(2), of "''team''"]
      decode_exact(1) [OF exact worker_body_keys(2), of "''role''"]
    by (auto split: if_splits)
qed

subsection \<open>The answer\<close>

lemma create_worker_refused:
  assumes "keeps_objects h workers teams" "\<And>req. body = Inr req \<Longrightarrow> cwr_team req \<noteq> [] \<or> cwr_role req \<noteq> []"
  shows "\<exists>code msg. run_state (create_worker h caller body) w = (Api_Error code msg, w) \<and> code \<in> {400, 409}"
proof (cases body)
  case (Inr req)
  then have reserved: "cwr_team req \<noteq> [] \<or> cwr_role req \<noteq> []" using assms(2) by blast
  show ?thesis
  proof (cases "\<forall>t \<in> ran (teams w). cwr_name req \<notin> member_names t")
    case True
    then show ?thesis using Inr reserved
      by (auto simp: create_worker_def with_body_def require_field_def unless_member_run(1) [OF assms(1)] split: option.split)
  next
    case False
    then obtain t where t: "t \<in> ran (teams w)" "cwr_name req \<in> member_names t" by blast
    have "\<exists>msg k. create_worker h caller (Inr req) = (if cwr_name req = [] then State_Monad.return (Api_Error 400 ''name is required'')
        else unless_member h ''create worker'' (cwr_name req) msg k)"
      unfolding create_worker_def with_body_def require_field_def sum.case by (intro exI) (rule refl)
    then obtain msg k where shape: "create_worker h caller (Inr req) = (if cwr_name req = []
        then State_Monad.return (Api_Error 400 ''name is required'') else unless_member h ''create worker'' (cwr_name req) msg k)"
      by blast
    obtain name where "run_state (unless_member h ''create worker'' (cwr_name req) msg k) w = (Api_Error 409 (msg name), w)"
      using unless_member_run(2) [OF assms(1) t] by blast
    then have "\<exists>code msg. run_state (create_worker h caller (Inr req)) w = (Api_Error code msg, w) \<and> code \<in> {400, 409}"
      unfolding shape by simp
    then show ?thesis using Inr by blast
  qed
qed (simp add: create_worker_def with_body_def)

lemma guard_rejects: "run_guard mw g q name s = (Rejected code msg, s') \<Longrightarrow> code \<in> {401, 403}"
  by (auto simp: run_guard_def mw_authenticate_def require_authz_def Let_def
      split: guard.splits option.splits prod.splits if_splits)

lemma workers_post_route: "find_route docker ''POST'' [''api'', ''v1'', ''workers''] =
    Mux_Route (Guard_Authz action_create ''worker'' False) Ep_Create_Worker []"
  by (simp add: find_route_def route_tables)

lemma serve_refused_worker:
  assumes "keeps_objects (hs_resources (ctl_server ctl)) workers teams"
    and "aq_method q = ''POST''" "aq_path q = [''api'', ''v1'', ''workers'']"
    and "\<And>req. de_create_worker (ctl_decoders ctl) (aq_body q) = Inr req \<Longrightarrow> cwr_team req \<noteq> [] \<or> cwr_role req \<noteq> []"
  shows "\<exists>a au. serve_api mw sha (ctl_decoders ctl) (ctl_server ctl) q l s = (a, l, au) \<and> answer_status a \<in> {400, 401, 403, 409}"
proof -
  let ?d = "dispatch_request (mw (lfs_world l)) (hs_docker (ctl_server ctl)) q s"
  have "(\<exists>code msg au. ?d = (Refused code msg, au) \<and> code \<in> {401, 403}) \<or> (\<exists>c n au. ?d = (Run_Endpoint Ep_Create_Worker c n, au))"
  proof (cases "run_guard (mw (lfs_world l)) (Guard_Authz action_create ''worker'' False) q [] s")
    case (Pair r au)
    then show ?thesis
      by (cases r) (auto simp: dispatch_request_def assms(2,3) workers_post_route dest: guard_rejects)
  qed
  then consider code msg au where "?d = (Refused code msg, au)" "code \<in> {401, 403}"
    | c n au where "?d = (Run_Endpoint Ep_Create_Worker c n, au)" by blast
  moreover have runs: "\<exists>code msg. run_state (run_endpoint sha (ctl_decoders ctl) (ctl_server ctl) Ep_Create_Worker c n q) l =
      (Ans_Worker (Api_Error code msg), l) \<and> code \<in> {400, 409}" for c n
  proof -
    obtain code msg where "run_state (create_worker (hs_resources (ctl_server ctl)) c (de_create_worker (ctl_decoders ctl) (aq_body q)))
        (lfs_world l) = (Api_Error code msg, lfs_world l)" "code \<in> {400, 409}"
      using create_worker_refused [OF assms(1,4)] by blast
    then show ?thesis by (simp add: run_endpoint_def answer_def on_cluster_def)
  qed
  ultimately show ?thesis
  proof cases
    case 1
    then show ?thesis by (auto simp: serve_api_def)
  next
    case 2
    obtain code msg where "run_state (run_endpoint sha (ctl_decoders ctl) (ctl_server ctl) Ep_Create_Worker c n q) l =
        (Ans_Worker (Api_Error code msg), l)" "code \<in> {400, 409}" using runs by blast
    then show ?thesis using 2 by (auto simp: serve_api_def)
  qed
qed

text \<open>C35. The flags \<open>--team\<close>, \<open>--role\<close> and \<open>--expose\<close> of \<open>create worker\<close> cannot be used: whoever calls, a command with
  one of them ends with an error and creates nothing, because the API reserves the first two for the
  members of teams and expects port numbers where the command sends texts.\<close>

theorem create_worker_flags_refused:
  assumes "keeps_objects (hs_resources (ctl_server ctl)) workers teams" "decodes_workers ctl"
    and "wf_team f \<noteq> [] \<or> wf_role f \<noteq> [] \<or> split_csv (wf_expose f) \<noteq> []"
  shows "\<exists>e s'. run_state (create_worker_cmd (controller_io ctl cs) f) s = (Some (Some e), s') \<and>
    cse_cluster s' = cse_cluster s \<and> cse_out s' = cse_out s"
proof -
  let ?io = "controller_io ctl cs"
  obtain token where client: "\<And>s. run_state (new_api_client ?io) s = (session_client ctl cs token, s)"
    using session_new_client [of ctl cs] by blast
  have "\<exists>r. \<forall>s. run_state (read_soul ?io f) s = (r, s)"
    by (cases "wf_soul_file f = []") (auto simp: read_soul_def wrap_result_def controller_io_def)
  then obtain r where read: "\<And>s. run_state (read_soul ?io f) s = (r, s)" by blast
  have post: "\<exists>e s'. run_state (do_json (session_client ctl cs token) ''POST'' ''/api/v1/workers''
        (Json_Body (JObj (create_worker_body f model soul package))) decode_map JNull) s = (Inl e, s') \<and>
      cse_cluster s' = cse_cluster s \<and> cse_out s' = cse_out s" for model soul package
  proof -
    define q where "q = session_request ctl cs token ''POST'' ''/api/v1/workers'' (Json_Body (JObj (create_worker_body f model soul package)))"
    have path: "path_segments ''/api/v1/workers'' = [''api'', ''v1'', ''workers'']" by code_simp
    have body: "cwr_team req \<noteq> [] \<or> cwr_role req \<noteq> []"
      if "de_create_worker (ctl_decoders ctl) (aq_body q) = Inr req" for req
      using worker_body_refused [OF assms(3,2)] that by (simp add: q_def)
    have parts: "aq_method q = ''POST''" "aq_path q = [''api'', ''v1'', ''workers'']" by (simp_all add: q_def path)
    obtain a au where "serve_api (ctl_middleware ctl) (ctl_sha256 ctl) (ctl_decoders ctl) (ctl_server ctl) q
        (cse_cluster s) (cse_auth s) = (a, cse_cluster s, au)" "answer_status a \<in> {400, 401, 403, 409}"
      using serve_refused_worker [OF assms(1) parts, of "ctl_middleware ctl" "ctl_sha256 ctl" "cse_cluster s" "cse_auth s"] body
      by blast
    moreover from this(2) have "\<not> success_status (answer_status a)" by (auto simp: success_status_def)
    ultimately show ?thesis unfolding session_do_json q_def [symmetric] by (simp add: read_reply_failure)
  qed
  show ?thesis
  proof (cases "wf_name f = [] \<or> validate_worker_name (wf_name f) \<noteq> None")
    case True
    then show ?thesis by (auto simp: create_worker_cmd_def)
  next
    case False
    then show ?thesis
    proof (cases "try_result r (\<lambda>soul. map_sum id (Pair soul) (expand_flag ?io (wf_package f)))")
      case (Inl e)
      then show ?thesis using False read by (auto simp: create_worker_cmd_def)
    next
      case (Inr p)
      obtain soul package where p: "p = (soul, package)" by fastforce
      obtain e s' where "run_state (do_json (session_client ctl cs token) ''POST'' ''/api/v1/workers''
          (Json_Body (JObj (create_worker_body f (or_text (wf_model f) (default_worker_model ?io)) soul package))) decode_map JNull) s =
          (Inl e, s')" "cse_cluster s' = cse_cluster s" "cse_out s' = cse_out s"
        using post by blast
      then show ?thesis using False read Inr p client by (auto simp: create_worker_cmd_def)
    qed
  qed
qed

text \<open>A worker created with \<open>--team alpha\<close>; the decoder knows the body of this command.\<close>

definition team_flag :: worker_flags where
  "team_flag = \<lparr>wf_name = ''alice'', wf_model = ''m'', wf_runtime = [], wf_image = [], wf_identity = [], wf_soul = [],
     wf_soul_file = [], wf_skills = [], wf_package = [], wf_expose = [], wf_team = ''alpha'', wf_role = [],
     wf_container_managed = True, wf_output = [], wf_wait_timeout = 0, wf_no_wait = True\<rparr>"

definition team_body :: "(string \<times> json) list" where
  "team_body = create_worker_body team_flag ''m'' [] []"

definition knowing_controller :: "(memory_cluster, unit) controller" where
  "knowing_controller = (demo_controller (no_decoders\<lparr>de_create_worker := \<lambda>s. if s = ''x''
       then Inr (alice_request\<lparr>cwr_team := ''alpha''\<rparr>) else Inl (Err ''no'')\<rparr>))
     \<lparr>ctl_marshal := \<lambda>j. if j = JObj team_body then ''x'' else []\<rparr>"

lemma create_worker_flags_refused_witness:
  "\<exists>e s'. run_state (create_worker_cmd (controller_io knowing_controller demo_setting) team_flag) demo_session =
      (Some (Some e), s') \<and> lfs_world (cse_cluster s') = empty_cluster"
proof -
  have store: "keeps_objects (hs_resources (ctl_server knowing_controller)) (\<lambda>w. stored worker_key (mem_workers w))
      (\<lambda>w. stored team_key (mem_teams w))"
    using worker_store.kind_store_axioms team_store.kind_store_axioms
    by (simp add: keeps_objects_def knowing_controller_def demo_controller_def new_http_server_def demo_deps_def)
  have body: "decode_string ''team'' [] team_body = Inr ''alpha''" "decode_string ''role'' [] team_body = Inr []"
      "decode_slice decode_expose_port ''expose'' team_body = Inr []"
    by code_simp+
  have "decodes_workers knowing_controller"
    using body by (auto simp: decodes_workers_def knowing_controller_def demo_controller_def alice_request_def split: if_splits)
  moreover have "wf_team team_flag \<noteq> []" by (simp add: team_flag_def)
  ultimately show ?thesis
    using create_worker_flags_refused [OF store, of team_flag demo_setting demo_session]
    by (auto simp: demo_session_def)
qed

end
