(* ===== verification/Cli_Properties.thy ===== *)
theory Cli_Properties
  imports Cli_Controller Package_Resolve
begin

text \<open>
  The command line on its own: waiting for a worker and reporting it ready come to an end, package
  shorthands name the package they say.
\<close>

section \<open>Waiting\<close>

text \<open>No answer decides: the worker is unknown, starting or asleep, or the controller fails.\<close>

definition undecided :: "'w api_client \<Rightarrow> string \<Rightarrow> bool" where
  "undecided c name \<longleftrightarrow>
     (\<forall>w prior. \<exists>known. judge_status name prior (fst (run_state (worker_status_call c name) w)) = Inr known)"

locale cli_clock =
  fixes io :: "'w cli_io" and now :: "'w \<Rightarrow> int"
  assumes clock: "run_state (ci_now io) w = (now w, w)"
    and sleeps: "now w + d \<le> now (snd (run_state (ci_sleep io d) w))"
    and sends: "now w \<le> now (snd (run_state (ci_send io q) w))"
begin

lemma call_takes_time:
  assumes "acl_io c = io"
  shows "now w \<le> now (snd (run_state (do_json c verb path body decode zero) w))"
proof (cases "ci_build io (acl_base c @ path)")
  case None
  then show ?thesis
    using assms sends [of w "\<lparr>clq_method = verb, clq_url = acl_base c @ path, clq_token = acl_token c, clq_body = body\<rparr>"]
    by (auto simp: do_json_def api_do_def Let_def split: prod.split)
qed (simp add: assms do_json_def api_do_def Let_def)

lemma poll_step:
  assumes "run_state (worker_status_call c name) w = (r, v)"
  shows "run_state (poll_worker (Suc n) c name timeout deadline prior) w =
    (case judge_status name prior r of
       Inl done \<Rightarrow> (Some done, v)
     | Inr known \<Rightarrow> run_state (do {
         now \<leftarrow> ci_now (acl_io c);
         if now > deadline then State_Monad.return (Some (Inl (not_ready_error (acl_io c) name timeout known)))
         else do {
           _ \<leftarrow> ci_sleep (acl_io c) poll_interval;
           poll_worker n c name timeout deadline known } }) v)"
  using assms by (simp split: sum.split)

text \<open>One more round than pauses fit before the deadline is enough.\<close>

lemma poll_ends:
  assumes "acl_io c = io" "deadline < now w + poll_interval * int n"
  shows "\<exists>r. fst (run_state (poll_worker (Suc n) c name timeout deadline prior) w) = Some r \<and>
    (\<forall>resp. r = Inr resp \<longrightarrow> cw_phase resp = ''Ready'') \<and>
    (undecided c name \<longrightarrow>
       (\<exists>known. r = Inl (not_ready_error io name timeout known)) \<and>
       deadline < now (snd (run_state (poll_worker (Suc n) c name timeout deadline prior) w)))"
  using assms(2)
  supply poll_worker.simps [simp del]
proof (induction n arbitrary: w prior)
  case 0
  obtain r v where rv: "run_state (worker_status_call c name) w = (r, v)" by fastforce
  have "now w \<le> now v" using call_takes_time [OF assms(1), of w] rv unfolding worker_status_call_def by (metis snd_conv)
  then have late: "deadline < now v" using 0 by simp
  show ?case
  proof (cases "judge_status name prior r")
    case (Inl d)
    have "\<not> undecided c name" using Inl rv unfolding undecided_def by (metis Inl_Inr_False fst_conv)
    moreover have "\<forall>resp. d = Inr resp \<longrightarrow> cw_phase resp = ''Ready''"
      using Inl by (auto simp: judge_status_def split: sum.splits if_splits)
    ultimately show ?thesis using poll_step [OF rv] Inl by simp
  next
    case (Inr known)
    then show ?thesis using poll_step [OF rv] late assms(1) clock by auto
  qed
next
  case (Suc n)
  obtain r v where rv: "run_state (worker_status_call c name) w = (r, v)" by fastforce
  have v: "now w \<le> now v" using call_takes_time [OF assms(1), of w] rv unfolding worker_status_call_def by (metis snd_conv)
  show ?case
  proof (cases "judge_status name prior r")
    case (Inl d)
    have "\<not> undecided c name" using Inl rv unfolding undecided_def by (metis Inl_Inr_False fst_conv)
    moreover have "\<forall>resp. d = Inr resp \<longrightarrow> cw_phase resp = ''Ready''"
      using Inl by (auto simp: judge_status_def split: sum.splits if_splits)
    ultimately show ?thesis using poll_step [OF rv] Inl by simp
  next
    case (Inr known)
    show ?thesis
    proof (cases "now v > deadline")
      case True
      then show ?thesis using poll_step [OF rv] Inr assms(1) clock by auto
    next
      case False
      obtain x where x: "run_state (ci_sleep io poll_interval) v = ((), x)"
        by (cases "run_state (ci_sleep io poll_interval) v") auto
      have "now v + poll_interval \<le> now x" using sleeps [of v poll_interval] x by simp
      then have "deadline < now x + poll_interval * int n"
        using Suc.prems v by (simp add: algebra_simps)
      then show ?thesis
        using Suc.IH [of x known] poll_step [OF rv, of "Suc n"] Inr False assms(1) clock x by simp
    qed
  qed
qed

end

interpretation session: cli_clock "controller_io ctl cs" cse_now
  by unfold_locales (auto simp: controller_io_def served_def split: prod.split)

text \<open>C36. Waiting for a worker ends, whatever the controller answers, as long as the clock is not turned back: with
  the worker only if it was reported Ready; and if the answers decide nothing (unknown or starting
  workers, a controller that fails), with the message that it did not become ready, and not before
  the timeout has passed.\<close>

theorem worker_wait_ends:
  assumes "cli_clock (acl_io c) now"
  shows "\<exists>r w'. run_state (wait_for_worker_ready c name timeout) w = (Some r, w') \<and>
    (\<forall>resp. r = Inr resp \<longrightarrow> cw_phase resp = ''Ready'') \<and>
    (undecided c name \<longrightarrow>
       (\<exists>known. r = Inl (not_ready_error (acl_io c) name timeout known)) \<and> now w + timeout < now w')"
proof -
  have "timeout < poll_interval * (timeout div poll_interval) + poll_interval"
    using pos_mod_bound [of poll_interval timeout] mult_div_mod_eq [of poll_interval timeout]
    by (simp add: poll_interval_def)
  moreover have "timeout div poll_interval \<le> int (nat (timeout div poll_interval))" by simp
  ultimately have "now w + timeout < now w + poll_interval * int (Suc (nat (timeout div poll_interval)))"
    by (simp add: poll_interval_def algebra_simps)
  from cli_clock.poll_ends [OF assms refl this, of name timeout "zero_worker_resp\<lparr>cw_name := name, cw_phase := ''Pending''\<rparr>"]
  obtain r w' where "run_state (poll_worker (poll_rounds timeout) c name timeout (now w + timeout)
        (zero_worker_resp\<lparr>cw_name := name, cw_phase := ''Pending''\<rparr>)) w = (Some r, w')"
      "\<forall>resp. r = Inr resp \<longrightarrow> cw_phase resp = ''Ready''"
      "undecided c name \<longrightarrow>
        (\<exists>known. r = Inl (not_ready_error (acl_io c) name timeout known)) \<and> now w + timeout < now w'"
    unfolding poll_rounds_def by (metis add_2_eq_Suc' prod.collapse)
  then show ?thesis
    by (intro exI [of _ r] exI [of _ w'])
       (simp add: wait_for_worker_ready_def cli_clock.clock [OF assms] del: poll_worker.simps)
qed

text \<open>A worker the controller does not know: every answer is 404, in every session of the demonstration.\<close>

lemma unknown_worker_undecided:
  assumes "ci_send (acl_io c) = (\<lambda>q. State_Monad.return (Inr \<lparr>rp_status = 404, rp_body = [], rp_json = RawEmpty, clp_read_error = None\<rparr>))"
    and "ci_build (acl_io c) = (\<lambda>u. None)"
  shows "undecided c name"
  using assms
  by (simp add: undecided_def worker_status_call_def do_json_def api_do_def Let_def read_reply_def success_status_def
      judge_status_def is_retryable_worker_status_error_def)

definition missing_worker_client :: "(memory_cluster, unit) cli_session api_client" where
  "missing_worker_client = \<lparr>acl_base = [], acl_token = [], acl_io = (controller_io (demo_controller no_decoders) demo_setting)
     \<lparr>ci_send := \<lambda>q. State_Monad.return (Inr \<lparr>rp_status = 404, rp_body = [], rp_json = RawEmpty, clp_read_error = None\<rparr>)\<rparr>\<rparr>"

lemma worker_wait_ends_witness:
  "\<exists>known w'. run_state (wait_for_worker_ready missing_worker_client ''ghost'' 180000000000) demo_session =
      (Some (Inl (not_ready_error (acl_io missing_worker_client) ''ghost'' 180000000000 known)), w') \<and> 180000000000 < cse_now w'"
proof -
  have clock: "cli_clock (acl_io missing_worker_client) cse_now"
    by unfold_locales (simp_all add: missing_worker_client_def controller_io_def)
  have none: "undecided missing_worker_client ''ghost''"
    by (rule unknown_worker_undecided) (simp_all add: missing_worker_client_def controller_io_def)
  show ?thesis
    using worker_wait_ends [OF clock, of "''ghost''" 180000000000 demo_session] none
    by (auto simp: demo_session_def)
qed

section \<open>Package shorthands\<close>

text \<open>
  Package shorthands of the command line, read by the resolver of the controller: the URI a shorthand is
  expanded to names the registry, namespace, specification and version it says.
\<close>

section \<open>Escapes\<close>

definition url_safe :: "char \<Rightarrow> bool" where
  "url_safe c \<longleftrightarrow> \<not> is_ctl c \<and> c \<notin> set ''#?''"

definition escaped_right :: "char \<Rightarrow> bool" where
  "escaped_right c \<longleftrightarrow>
     (case segment_escape_char c of
        [d] \<Rightarrow> d = c \<and> c \<noteq> CHR ''%'' \<and> url_safe d \<and> d \<noteq> CHR ''/''
      | [p, a, b] \<Rightarrow> p = CHR ''%'' \<and> list_all (\<lambda>d. url_safe d \<and> d \<noteq> CHR ''/'') [p, a, b] \<and>
          (case (hex_value a, hex_value b) of (Some x, Some y) \<Rightarrow> char_of (16 * x + y) = c | _ \<Rightarrow> False)
      | _ \<Rightarrow> False)"

lemma hex_digits:
  assumes "n < 16"
  shows "hex_value (Go_Url.upper_hex n) = Some n \<and> url_safe (Go_Url.upper_hex n) \<and> Go_Url.upper_hex n \<noteq> CHR ''/''"
proof -
  have "list_all (\<lambda>n. hex_value (Go_Url.upper_hex n) = Some n \<and> url_safe (Go_Url.upper_hex n) \<and> Go_Url.upper_hex n \<noteq> CHR ''/'')
      [0, 1, 2, 3, 4, 5, 6, 7, 8, 9, 10, 11, 12, 13, 14, 15]"
    by (simp add: Go_Url.upper_hex_def hex_value_def url_safe_def is_ctl_def)
  moreover have "n \<in> set [0, 1, 2, 3, 4, 5, 6, 7, 8, 9, 10, 11, 12, 13, 14, 15]" using assms by (simp, arith)
  ultimately show ?thesis unfolding list_all_iff by blast
qed

lemma all_escaped_right: "escaped_right c"
proof (cases "is_alnum c \<or> c \<in> set ''-_.~$&+:=@''")
  case True
  have "list_all (\<lambda>d. \<not> is_alnum d) ''%#?/''" "list_all (\<lambda>d. d \<noteq> CHR ''%'' \<and> url_safe d \<and> d \<noteq> CHR ''/'') ''-_.~$&+:=@''"
    by code_simp+
  moreover have "\<not> is_ctl c" if "is_alnum c" using that by (auto simp: is_alnum_def is_ctl_def Let_def)
  ultimately have "c \<noteq> CHR ''%'' \<and> url_safe c \<and> c \<noteq> CHR ''/''"
    using True unfolding url_safe_def list_all_iff by auto
  then show ?thesis using True by (simp add: escaped_right_def segment_escape_char_def)
next
  case False
  have n: "(of_char c :: nat) < 256" by (rule nat_of_char_less_256)
  have "segment_escape_char c = [CHR ''%'', Go_Url.upper_hex (of_char c div 16), Go_Url.upper_hex (of_char c mod 16)]"
    using False unfolding segment_escape_char_def Let_def by simp
  moreover have "url_safe (CHR ''%'')" by code_simp
  ultimately show ?thesis
    using hex_digits [of "of_char c div 16"] hex_digits [of "of_char c mod 16"] less_mult_imp_div_less [of "of_char c" 16 16] n
    by (simp add: escaped_right_def mult_div_mod_eq)
qed

lemma escape_char_cases:
  obtains "segment_escape_char c = [c]" "c \<noteq> CHR ''%''"
  | a b x y where "segment_escape_char c = [CHR ''%'', a, b]" "hex_value a = Some x" "hex_value b = Some y"
      "char_of (16 * x + y) = c"
  using all_escaped_right [of c] unfolding escaped_right_def
  by (auto split: list.splits option.splits)

lemma segment_escape_safe: "d \<in> set (segment_escape s) \<Longrightarrow> url_safe d \<and> d \<noteq> CHR ''/''"
proof -
  assume "d \<in> set (segment_escape s)"
  then obtain c where "d \<in> set (segment_escape_char c)" by (auto simp: segment_escape_def)
  then show ?thesis using all_escaped_right [of c] unfolding escaped_right_def by (auto split: list.splits)
qed

lemma map_option_append [simp]:
  "map_option ((@) []) x = x" "map_option (\<lambda>y. a # s @ y) x = map_option ((@) (a # s)) x"
  by (cases x; simp)+

lemma unescape_escaped:
  "unescape_text (segment_escape s @ rest) = map_option ((@) s) (unescape_text rest)"
  "escapes_ok (segment_escape s @ rest) = escapes_ok rest"
proof (induction s)
  case (Cons c s)
  have split: "segment_escape (c # s) @ rest = segment_escape_char c @ segment_escape s @ rest"
    by (simp add: segment_escape_def)
  {
    case 1
    show ?case unfolding split by (rule escape_char_cases [of c]) (simp_all add: Cons.IH option.map_comp comp_def)
  next
    case 2
    show ?case unfolding split by (rule escape_char_cases [of c]) (simp_all add: Cons.IH)
  }
qed (simp_all add: segment_escape_def)

lemma unescape_plain:
  "CHR ''%'' \<notin> set s \<Longrightarrow> unescape_text (s @ rest) = map_option ((@) s) (unescape_text rest)"
  "CHR ''%'' \<notin> set s \<Longrightarrow> escapes_ok (s @ rest) = escapes_ok rest"
  by (induction s) (auto simp: option.map_comp comp_def)

lemma unescape_segments:
  "unescape_text (join_with ''/'' (map segment_escape ps)) = Some (join_with ''/'' ps)"
  "escapes_ok (join_with ''/'' (map segment_escape ps))"
proof (induction "''/''" ps rule: join_with.induct)
  case (2 p)
  {
    case 1
    show ?case using unescape_escaped(1) [of p "[]"] by simp
  next
    case 2
    show ?case using unescape_escaped(2) [of p "[]"] by simp
  }
next
  case (3 p q ps)
  {
    case 1
    show ?case using 3 by (simp add: unescape_escaped)
  next
    case 2
    show ?case using 3 by (simp add: unescape_escaped)
  }
qed simp_all

section \<open>Parsing\<close>

lemma cut_at_none: "c \<notin> set s \<Longrightarrow> cut_at c s = (s, None)"
proof -
  assume "c \<notin> set s"
  then have "takeWhile (\<lambda>x. x \<noteq> c) s = s" by (auto simp: takeWhile_eq_all_conv)
  then show ?thesis by (simp only: cut_at_def Let_def less_irrefl if_False)
qed

lemma cut_at_first: "c \<notin> set x \<Longrightarrow> fst (cut_at c (x @ c # y)) = x"
  by (induction x) (auto simp: cut_at_def Let_def)

lemma nacos_scheme: "get_scheme (''nacos:'' @ body) = Some (''nacos'', body)"
proof -
  have "list_all (\<lambda>c. is_alnum c \<or> c \<in> set ''+-.'') ''nacos''" "\<not> (is_alnum (CHR '':'') \<or> CHR '':'' \<in> set ''+-.'')"
      "scheme_start (CHR ''n'')"
    by code_simp+
  then have "takeWhile (\<lambda>c. is_alnum c \<or> c \<in> set ''+-.'') (''nacos:'' @ body) = ''nacos''" by simp
  then show ?thesis using \<open>scheme_start (CHR ''n'')\<close> by (simp add: get_scheme_def Let_def has_prefix_def)
qed

lemma parse_with_authority:
  assumes "cut_at (CHR ''#'') raw = (raw, None)" "\<not> list_ex is_ctl raw" "raw \<noteq> ''*''" "get_scheme raw = Some (sch, body)"
    and "to_lower sch = sch" "sch \<noteq> []" "\<not> has_suffix body ''?''" "cut_at (CHR ''?'') body = (body, None)"
    and "has_prefix body ''/''" "has_prefix body ''//''" "fst (cut_at (CHR ''/'') (drop 2 body)) = auth"
    and "drop (2 + length auth) body = p" "parse_authority auth = Some (user, host)" "escapes_ok p"
  shows "parse_url raw = Inr \<lparr>gu_scheme = sch, gu_opaque = [], gu_user = user, gu_host = host, gu_path = p,
      gu_omit_host = False, gu_force_query = False, gu_query = [], gu_fragment = []\<rparr>"
  using assms by (simp add: parse_url_def Let_def)

lemma parse_nacos_url:
  assumes "parse_authority auth = Some (user, host)" "\<forall>c \<in> set auth. url_safe c \<and> c \<noteq> CHR ''/''"
    and "\<forall>c \<in> set path. url_safe c" "escapes_ok (CHR ''/'' # path)"
  shows "parse_url (''nacos://'' @ auth @ CHR ''/'' # path) =
    Inr \<lparr>gu_scheme = ''nacos'', gu_opaque = [], gu_user = user, gu_host = host, gu_path = CHR ''/'' # path,
      gu_omit_host = False, gu_force_query = False, gu_query = [], gu_fragment = []\<rparr>"
proof -
  define body where "body = ''//'' @ auth @ CHR ''/'' # path"
  define raw where "raw = ''nacos:'' @ body"
  have body_safe: "\<forall>c \<in> set body. url_safe c"
  proof -
    have "url_safe (CHR ''/'')" by code_simp
    then show ?thesis using assms(2,3) by (auto simp: body_def)
  qed
  have raw_safe: "\<forall>c \<in> set raw. url_safe c"
  proof -
    have "list_all url_safe ''nacos:''" by code_simp
    then show ?thesis using body_safe unfolding raw_def set_append list_all_iff by blast
  qed
  have other: "url_safe c \<Longrightarrow> c \<noteq> CHR ''#'' \<and> c \<noteq> CHR ''?'' \<and> \<not> is_ctl c" for c by (simp add: url_safe_def)
  have absent: "CHR ''?'' \<notin> set body" "CHR ''#'' \<notin> set raw" using other body_safe raw_safe by metis+
  have ctl: "\<not> list_ex is_ctl raw" using other raw_safe by (metis list_ex_iff)
  have forced: "\<not> has_suffix body ''?''"
  proof
    assume "has_suffix body ''?''"
    then have "CHR ''?'' \<in> set body" by (metis has_suffix_def in_set_dropD list.set_intros(1))
    then show False using absent(1) by blast
  qed
  have auth: "fst (cut_at (CHR ''/'') (drop 2 body)) = auth" "drop (2 + length auth) body = CHR ''/'' # path"
    using cut_at_first [of "CHR ''/''" auth path] assms(2) by (auto simp: body_def)
  have slash: "has_prefix body ''/''" "has_prefix body ''//''" by (simp_all add: body_def has_prefix_def)
  have lower: "to_lower ''nacos'' = ''nacos''" by code_simp
  have star: "raw \<noteq> ''*''" "''nacos'' \<noteq> []" by (simp_all add: raw_def)
  have sch: "get_scheme raw = Some (''nacos'', body)" unfolding raw_def by (rule nacos_scheme)
  have "parse_url raw =
    Inr \<lparr>gu_scheme = ''nacos'', gu_opaque = [], gu_user = user, gu_host = host, gu_path = CHR ''/'' # path,
      gu_omit_host = False, gu_force_query = False, gu_query = [], gu_fragment = []\<rparr>"
    by (rule parse_with_authority [OF cut_at_none [OF absent(2)] ctl star(1) sch lower star(2) forced cut_at_none [OF absent(1)]
          slash auth assms(1,4)])
  moreover have "raw = ''nacos://'' @ auth @ CHR ''/'' # path" by (simp add: raw_def body_def)
  ultimately show ?thesis by simp
qed

section \<open>Shorthands\<close>

lemma set_join_with: "c \<in> set (join_with sep es) \<Longrightarrow> c \<in> set sep \<or> (\<exists>e \<in> set es. c \<in> set e)"
  by (induction sep es rule: join_with.induct) auto

lemma last_join_with: "sep \<noteq> [] \<Longrightarrow> es \<noteq> [] \<Longrightarrow> last es \<noteq> [] \<Longrightarrow> last (join_with sep es) = last (last es)"
proof (induction sep es rule: join_with.induct)
  case (3 sep w v ws)
  then have "join_with sep (v # ws) \<noteq> []" by (cases ws) auto
  then show ?case using 3 by simp
qed simp_all

lemma trim_space_set: "set (trim_space s) \<subseteq> set s"
proof -
  have "set (dropWhile f xs) \<subseteq> set xs" for f :: "char \<Rightarrow> bool" and xs by (meson set_dropWhileD subsetI)
  then show ?thesis unfolding trim_space_def trim_both_def trim_left_def trim_right_def set_rev by (metis set_rev subset_trans)
qed

lemma encode_segments_ok:
  "\<forall>p \<in> set ps. trim_space p \<noteq> [] \<Longrightarrow> encode_segments raw ps = Inr (map segment_escape (map trim_space ps))"
  by (induction ps) simp_all

lemma trim_slashes:
  assumes "ns \<noteq> []" "\<forall>q \<in> set (ns # qs). q \<noteq> [] \<and> CHR ''/'' \<notin> set q"
  shows "trim_both (\<lambda>c. c = CHR ''/'') (CHR ''/'' # join_with ''/'' (ns # qs)) = join_with ''/'' (ns # qs)"
proof -
  let ?t = "join_with ''/'' (ns # qs)"
  obtain c cs where ns: "ns = c # cs" "c \<noteq> CHR ''/''" using assms by (cases ns) auto
  then have "\<exists>rest. ?t = c # rest" by (cases qs) auto
  then have left: "trim_left (\<lambda>c. c = CHR ''/'') (CHR ''/'' # ?t) = ?t" using ns(2) by (auto simp: trim_left_def)
  have "last (ns # qs) \<in> set (ns # qs)" by (rule last_in_set) simp
  then have final: "last (ns # qs) \<noteq> []" "CHR ''/'' \<notin> set (last (ns # qs))" using assms(2) by blast+
  have "last ?t = last (last (ns # qs))" by (rule last_join_with [OF _ _ final(1)]) simp_all
  then have "last ?t \<noteq> CHR ''/''" using final last_in_set by metis
  moreover have "?t \<noteq> []" using ns by (cases qs) auto
  ultimately have "trim_right (\<lambda>c. c = CHR ''/'') ?t = ?t" using trim_right_append [of ?t "\<lambda>c. c = CHR ''/''" "[]"] by simp
  then show ?thesis unfolding trim_both_def left .
qed

text \<open>C37. A package shorthand names what it says: expanded by the command line and read by the resolver of the
  controller it is the agent specification of the first segment, in the version or under the label of
  the second, from the host and in the namespace of the configured registry, whatever characters
  the segments contain. (Further segments are dropped by the resolver.)\<close>

theorem shorthand_names_package:
  assumes "registry_base io = Inr (''nacos://'' @ auth @ ''/'' @ ns)" "parse_authority auth = Some (user, host)"
    and "\<forall>c \<in> set auth. url_safe c \<and> c \<noteq> CHR ''/''" "ns \<noteq> []" "\<forall>c \<in> set ns. url_safe c \<and> c \<notin> set ''/%''"
    and "\<not> str_contains (trim_space raw) ''://''" "split_on (CHR ''/'') (trim_space raw) = p # ps"
    and "\<forall>q \<in> set (p # ps). trim_space q \<noteq> []"
  shows "\<exists>uri u r. expand_package_uri io raw = Inr uri \<and> parse_url uri = Inr u \<and> gu_host u = host \<and>
    (\<forall>src. resolve_package src uri = resolve_nacos src u) \<and> nacos_reference_of u = Some r \<and>
    nr_namespace r = ns \<and> nr_spec r = trim_space p \<and> nr_auth_type r = [] \<and>
    (let v = (case ps of [] \<Rightarrow> [] | q # _ \<Rightarrow> trim_space q) in
     (nr_version r, nr_label r) = (if has_prefix v ''label:'' then ([], drop 6 v) else (v, [])))"
proof -
  define qs where "qs = map trim_space (p # ps)"
  define path where "path = ns @ CHR ''/'' # join_with ''/'' (map segment_escape qs)"
  define uri where "uri = ''nacos://'' @ auth @ CHR ''/'' # path"
  have nonempty: "trim_space raw \<noteq> []"
  proof
    assume "trim_space raw = []"
    then have "p = []" using assms(7) by simp
    moreover have "trim_space [] = []" by code_simp
    ultimately show False using assms(8) by simp
  qed
  have expand: "expand_package_uri io raw = Inr uri"
    using assms(1,6) nonempty encode_segments_ok [OF assms(8)] unfolding expand_package_uri_def Let_def assms(7)
    by (simp add: uri_def path_def qs_def)
  have qs: "\<forall>q \<in> set qs. q \<noteq> [] \<and> CHR ''/'' \<notin> set q"
  proof
    fix q
    assume "q \<in> set qs"
    then obtain x where "x \<in> set (p # ps)" "q = trim_space x" by (auto simp: qs_def)
    then show "q \<noteq> [] \<and> CHR ''/'' \<notin> set q"
      using assms(8) split_on_parts [of x "CHR ''/''" "trim_space raw"] trim_space_set [of x] unfolding assms(7) by auto
  qed
  have slash: "url_safe (CHR ''/'')" by code_simp
  have "url_safe c" if c: "c \<in> set (join_with ''/'' (map segment_escape qs))" for c
    using set_join_with [OF c] slash segment_escape_safe by auto
  then have path_safe: "\<forall>c \<in> set path. url_safe c" using assms(5) slash by (auto simp: path_def)
  have plain: "CHR ''%'' \<notin> set (CHR ''/'' # ns @ ''/'')" using assms(5) by auto
  have split: "CHR ''/'' # path = (CHR ''/'' # ns @ ''/'') @ join_with ''/'' (map segment_escape qs)" by (simp add: path_def)
  have ok: "escapes_ok (CHR ''/'' # path)" unfolding split using unescape_plain(2) [OF plain] unescape_segments(2) by blast
  have "unescape_text (CHR ''/'' # path) = Some ((CHR ''/'' # ns @ ''/'') @ join_with ''/'' qs)"
    unfolding split using unescape_plain(1) [OF plain] unescape_segments(1) by (metis option.map(2))
  moreover have "(CHR ''/'' # ns @ ''/'') @ join_with ''/'' qs = CHR ''/'' # join_with ''/'' (ns # qs)"
    by (simp add: qs_def)
  ultimately have decoded: "unescaped (CHR ''/'' # path) = CHR ''/'' # join_with ''/'' (ns # qs)" by (simp add: unescaped_def)
  have "CHR ''/'' \<notin> set ns" using assms(5) by auto
  then have parts: "\<forall>q \<in> set (ns # qs). q \<noteq> [] \<and> CHR ''/'' \<notin> set q" using qs assms(4) by simp
  have elements: "split_on (CHR ''/'') (trim_both (\<lambda>c. c = CHR ''/'') (unescaped (CHR ''/'' # path))) = ns # qs"
    unfolding decoded trim_slashes [OF assms(4) parts] using parts by (intro split_join_with) auto
  let ?u = "\<lparr>gu_scheme = ''nacos'', gu_opaque = [], gu_user = user, gu_host = host, gu_path = CHR ''/'' # path,
      gu_omit_host = False, gu_force_query = False, gu_query = [], gu_fragment = []\<rparr>"
  have parsed: "parse_url uri = Inr ?u" unfolding uri_def by (rule parse_nacos_url [OF assms(2,3) path_safe ok])
  have "resolve_package src uri = resolve_nacos src ?u" for src
    using parsed by (simp add: resolve_package_def uri_def)
  moreover have "trim_space (query_get [] ''authType'') = []" by code_simp
  ultimately show ?thesis
    using expand parsed elements
    by (intro exI [of _ uri] exI [of _ ?u] exI conjI)
      (auto simp: nacos_reference_of_def url_path_def qs_def Let_def split: list.split)
qed

definition quiet_io :: "unit cli_io" where
  "quiet_io = \<lparr>ci_getenv = \<lambda>k. [], ci_read_file = \<lambda>p. State_Monad.return (Inl OsNotExist), ci_build = \<lambda>u. None,
     ci_send = \<lambda>q. State_Monad.return (Inl OsNotExist), ci_now = State_Monad.return 0, ci_sleep = \<lambda>d. State_Monad.return (),
     ci_print = \<lambda>x. State_Monad.return (), ci_yaml = \<lambda>t. Inl OsNotExist, ci_unzip = \<lambda>d. None, ci_duration = show_int\<rparr>"

lemma shorthand_names_package_witness:
  "\<exists>u r. parse_url ''nacos://market.hiclaw.io:80/public/team%20lead/label:stable'' = Inr u \<and> nacos_reference_of u = Some r \<and>
     nr_spec r = ''team lead'' \<and> nr_label r = ''stable''"
proof -
  have base: "registry_base quiet_io = Inr (''nacos://'' @ ''market.hiclaw.io:80'' @ ''/'' @ ''public'')"
    and auth: "parse_authority ''market.hiclaw.io:80'' = Some (None, ''market.hiclaw.io:80'')"
    and safe: "\<forall>c \<in> set ''market.hiclaw.io:80''. url_safe c \<and> c \<noteq> CHR ''/''" "''public'' \<noteq> []"
      "\<forall>c \<in> set ''public''. url_safe c \<and> c \<notin> set ''/%''"
    and raw: "\<not> str_contains (trim_space '' team lead/label:stable'') ''://''"
      "split_on (CHR ''/'') (trim_space '' team lead/label:stable'') = [''team lead'', ''label:stable'']"
      "\<forall>q \<in> set [''team lead'', ''label:stable'']. trim_space q \<noteq> []"
    and expanded: "expand_package_uri quiet_io '' team lead/label:stable'' =
      Inr ''nacos://market.hiclaw.io:80/public/team%20lead/label:stable''"
    and label: "trim_space ''team lead'' = ''team lead''" "has_prefix (trim_space ''label:stable'') ''label:''"
      "drop 6 (trim_space ''label:stable'') = ''stable''"
    by code_simp+
  show ?thesis
    using shorthand_names_package [OF base auth safe raw] label unfolding expanded by auto
qed

end
