(* ===== verification/Cli_Commands.thy ===== *)
theory Cli_Commands
  imports Cli_Apply
begin

text \<open>
  The command table of \<open>cmd/hiclaw\<close>: the commands with the flags they declare, the arguments they accept, and
  what they run. Reading the words of a command line into the path of a command, its arguments and the
  values of its flags is \<open>cobra\<close>'s: an \<open>invocation\<close> holds its result, help texts are left out.
\<close>

section \<open>Flags\<close>

datatype flag_value =
    Flag_Text string
  | Flag_Bool bool
  | Flag_Int int
  | Flag_Duration int
  | Flag_Texts "string list"

record flag_decl =
  fd_name :: string
  fd_short :: string
  fd_default :: flag_value

text \<open>\<open>StringVar\<close> and \<open>StringVarP\<close>.\<close>

definition text_flag :: "string \<Rightarrow> flag_decl" where
  "text_flag n = \<lparr>fd_name = n, fd_short = [], fd_default = Flag_Text []\<rparr>"

definition short_flag :: "string \<Rightarrow> string \<Rightarrow> flag_decl" where
  "short_flag n s = (text_flag n)\<lparr>fd_short := s\<rparr>"

text \<open>The arguments behind the flags, and the flags that were given.\<close>

record invocation =
  inv_args :: "string list"
  inv_given :: "(string \<times> flag_value) list"

definition flag_value_of :: "flag_decl list \<Rightarrow> invocation \<Rightarrow> string \<Rightarrow> flag_value option" where
  "flag_value_of ds call n =
     (case map_of (inv_given call) n of
        Some v \<Rightarrow> Some v
      | None \<Rightarrow> map_of (map (\<lambda>d. (fd_name d, fd_default d)) ds) n)"

definition text_of :: "flag_decl list \<Rightarrow> invocation \<Rightarrow> string \<Rightarrow> string" where
  "text_of ds call n = (case flag_value_of ds call n of Some (Flag_Text s) \<Rightarrow> s | _ \<Rightarrow> [])"

definition bool_of :: "flag_decl list \<Rightarrow> invocation \<Rightarrow> string \<Rightarrow> bool" where
  "bool_of ds call n = (case flag_value_of ds call n of Some (Flag_Bool b) \<Rightarrow> b | _ \<Rightarrow> False)"

definition int_of_flag :: "flag_decl list \<Rightarrow> invocation \<Rightarrow> string \<Rightarrow> int" where
  "int_of_flag ds call n = (case flag_value_of ds call n of Some (Flag_Int i) \<Rightarrow> i | Some (Flag_Duration i) \<Rightarrow> i | _ \<Rightarrow> 0)"

definition texts_of :: "flag_decl list \<Rightarrow> invocation \<Rightarrow> string \<Rightarrow> string list" where
  "texts_of ds call n = (case flag_value_of ds call n of Some (Flag_Texts ss) \<Rightarrow> ss | _ \<Rightarrow> [])"

definition flag_given :: "invocation \<Rightarrow> string \<Rightarrow> bool" where
  "flag_given call n \<longleftrightarrow> map_of (inv_given call) n \<noteq> None"

section \<open>Commands\<close>

datatype args_rule =
    Any_Args
  | At_Most nat
  | Exactly nat

text \<open>A command that runs ends with an error or without one, or (\<open>None\<close>) goes on for ever.\<close>

type_synonym 'w cli_run = "invocation \<Rightarrow> ('w, go_error option option) state"

datatype 'w cli_command =
  Command (cm_use: string) (cm_rule: args_rule) (cm_flags: "flag_decl list") (cm_run: "'w cli_run option")
    (cm_subs: "'w cli_command list")

definition ending :: "('w, go_error option) state \<Rightarrow> ('w, go_error option option) state" where
  "ending m = do { e \<leftarrow> m; State_Monad.return (Some e) }"

definition leaf :: "string \<Rightarrow> args_rule \<Rightarrow> flag_decl list \<Rightarrow> (invocation \<Rightarrow> ('w, go_error option) state) \<Rightarrow> 'w cli_command" where
  "leaf use rule flags run = Command use rule flags (Some (\<lambda>call. ending (run call))) []"

definition group :: "string \<Rightarrow> 'w cli_command list \<Rightarrow> 'w cli_command" where
  "group use subs = Command use Any_Args [] None subs"

section \<open>The flags of the commands\<close>

definition create_worker_flag_table :: "flag_decl list" where
  "create_worker_flag_table =
     [text_flag ''name'', text_flag ''model'', text_flag ''runtime'', text_flag ''image'',
      text_flag ''identity'', text_flag ''soul'', text_flag ''soul-file'', text_flag ''skills'',
      text_flag ''package'', text_flag ''expose'', text_flag ''team'', text_flag ''role'',
      \<lparr>fd_name = ''container-managed'', fd_short = '''', fd_default = Flag_Bool True\<rparr>,
      short_flag ''output'' ''o'',
      \<lparr>fd_name = ''wait-timeout'', fd_short = '''', fd_default = Flag_Duration (180 * 1000000000)\<rparr>,
      \<lparr>fd_name = ''no-wait'', fd_short = '''', fd_default = Flag_Bool False\<rparr>]"

definition create_team_flag_table :: "flag_decl list" where
  "create_team_flag_table =
     [text_flag ''name'', text_flag ''team-name'', text_flag ''leader-name'', text_flag ''leader-model'',
      text_flag ''leader-heartbeat-every'', text_flag ''worker-idle-timeout'', text_flag ''workers'',
      text_flag ''description'']"

definition create_human_flag_table :: "flag_decl list" where
  "create_human_flag_table =
     [text_flag ''name'', text_flag ''display-name'', text_flag ''email'',
      \<lparr>fd_name = ''permission-level'', fd_short = '''', fd_default = Flag_Int 0\<rparr>,
      text_flag ''accessible-teams'', text_flag ''accessible-workers'', text_flag ''note'']"

definition create_manager_flag_table :: "flag_decl list" where
  "create_manager_flag_table =
     [text_flag ''name'', text_flag ''model'', text_flag ''runtime'', text_flag ''image'',
      text_flag ''soul'']"

definition get_workers_flag_table :: "flag_decl list" where
  "get_workers_flag_table =
     [text_flag ''team'', short_flag ''output'' ''o'']"

definition get_one_flag_table :: "flag_decl list" where
  "get_one_flag_table =
     [short_flag ''output'' ''o'']"

definition apply_flag_table :: "flag_decl list" where
  "apply_flag_table =
     [\<lparr>fd_name = ''file'', fd_short = ''f'', fd_default = Flag_Texts []\<rparr>]"

definition apply_worker_flag_table :: "flag_decl list" where
  "apply_worker_flag_table =
     [text_flag ''name'', text_flag ''model'', text_flag ''zip'', text_flag ''runtime'',
      text_flag ''image'', text_flag ''identity'', text_flag ''soul'', text_flag ''soul-file'',
      text_flag ''skills'', text_flag ''package'', text_flag ''expose'', text_flag ''team'',
      text_flag ''role'']"

definition update_worker_flag_table :: "flag_decl list" where
  "update_worker_flag_table =
     [text_flag ''name'', text_flag ''model'', text_flag ''runtime'', text_flag ''image'',
      text_flag ''identity'', text_flag ''soul'', text_flag ''skills'', text_flag ''package'',
      text_flag ''expose'',
      \<lparr>fd_name = ''container-managed'', fd_short = '''', fd_default = Flag_Bool True\<rparr>]"

definition update_team_flag_table :: "flag_decl list" where
  "update_team_flag_table =
     [text_flag ''name'', text_flag ''team-name'', text_flag ''description'', text_flag ''leader-model'',
      text_flag ''leader-heartbeat-every'', text_flag ''worker-idle-timeout'']"

definition update_manager_flag_table :: "flag_decl list" where
  "update_manager_flag_table =
     [text_flag ''name'', text_flag ''model'', text_flag ''runtime'', text_flag ''image'',
      text_flag ''soul'']"

definition lifecycle_flag_table :: "flag_decl list" where
  "lifecycle_flag_table =
     [text_flag ''name'', text_flag ''team'']"

definition worker_status_flag_table :: "flag_decl list" where
  "worker_status_flag_table =
     [text_flag ''name'', text_flag ''team'', short_flag ''output'' ''o'']"

definition report_ready_flag_table :: "flag_decl list" where
  "report_ready_flag_table =
     [text_flag ''name'',
      \<lparr>fd_name = ''heartbeat'', fd_short = '''', fd_default = Flag_Bool False\<rparr>,
      \<lparr>fd_name = ''interval'', fd_short = '''', fd_default = Flag_Duration (60 * 1000000000)\<rparr>]"

section \<open>The commands\<close>

definition create_worker_values :: "invocation \<Rightarrow> worker_flags" where
  "create_worker_values call =
     (let s = text_of create_worker_flag_table call; b = bool_of create_worker_flag_table call in
      \<lparr>wf_name = s ''name'', wf_model = s ''model'', wf_runtime = s ''runtime'', wf_image = s ''image'',
       wf_identity = s ''identity'', wf_soul = s ''soul'', wf_soul_file = s ''soul-file'', wf_skills = s ''skills'',
       wf_package = s ''package'', wf_expose = s ''expose'', wf_team = s ''team'', wf_role = s ''role'',
       wf_container_managed = b ''container-managed'', wf_output = s ''output'',
       wf_wait_timeout = int_of_flag create_worker_flag_table call ''wait-timeout'', wf_no_wait = b ''no-wait''\<rparr>)"

definition create_worker_command :: "'w cli_io \<Rightarrow> 'w cli_command" where
  "create_worker_command io =
     Command ''worker'' Any_Args create_worker_flag_table (Some (\<lambda>call. create_worker_cmd io (create_worker_values call))) []"

definition create_team_command :: "'w cli_io \<Rightarrow> 'w cli_command" where
  "create_team_command io = leaf ''team'' Any_Args create_team_flag_table (\<lambda>call.
     let s = text_of create_team_flag_table call in create_team_cmd io
       \<lparr>tf_name = s ''name'', tf_team_name = s ''team-name'', tf_leader_name = s ''leader-name'',
        tf_leader_model = s ''leader-model'', tf_heartbeat_every = s ''leader-heartbeat-every'',
        tf_idle_timeout = s ''worker-idle-timeout'', tf_workers = s ''workers'', tf_description = s ''description''\<rparr>)"

definition create_human_command :: "'w cli_io \<Rightarrow> 'w cli_command" where
  "create_human_command io = leaf ''human'' Any_Args create_human_flag_table (\<lambda>call.
     let s = text_of create_human_flag_table call in create_human_cmd io
       \<lparr>hf_name = s ''name'', hf_display_name = s ''display-name'', hf_email = s ''email'',
        hf_permission_level = int_of_flag create_human_flag_table call ''permission-level'',
        hf_teams = s ''accessible-teams'', hf_workers = s ''accessible-workers'', hf_note = s ''note''\<rparr>)"

definition manager_values :: "flag_decl list \<Rightarrow> invocation \<Rightarrow> manager_flags" where
  "manager_values ds call =
     \<lparr>gf_name = text_of ds call ''name'', gf_model = text_of ds call ''model'', gf_runtime = text_of ds call ''runtime'',
      gf_image = text_of ds call ''image'', gf_soul = text_of ds call ''soul''\<rparr>"

definition create_manager_command :: "'w cli_io \<Rightarrow> 'w cli_command" where
  "create_manager_command io = leaf ''manager'' Any_Args create_manager_flag_table
     (\<lambda>call. create_manager_cmd io (manager_values create_manager_flag_table call))"

definition create_command :: "'w cli_io \<Rightarrow> 'w cli_command" where
  "create_command io = group ''create''
     [create_worker_command io, create_team_command io, create_human_command io, create_manager_command io]"

definition first_arg :: "invocation \<Rightarrow> string option" where
  "first_arg call = (case inv_args call of [] \<Rightarrow> None | a # _ \<Rightarrow> Some a)"

definition get_workers_command :: "'w cli_io \<Rightarrow> 'w cli_command" where
  "get_workers_command io = leaf ''workers'' (At_Most 1) get_workers_flag_table (\<lambda>call.
     get_workers_cmd io (text_of get_workers_flag_table call ''team'') (text_of get_workers_flag_table call ''output'') (first_arg call))"

definition get_teams_command :: "'w cli_io \<Rightarrow> 'w cli_command" where
  "get_teams_command io = leaf ''teams'' (At_Most 1) get_one_flag_table
     (\<lambda>call. get_teams_cmd io (text_of get_one_flag_table call ''output'') (first_arg call))"

definition get_humans_command :: "'w cli_io \<Rightarrow> 'w cli_command" where
  "get_humans_command io = leaf ''humans'' (At_Most 1) get_one_flag_table
     (\<lambda>call. get_humans_cmd io (text_of get_one_flag_table call ''output'') (first_arg call))"

definition get_managers_command :: "'w cli_io \<Rightarrow> 'w cli_command" where
  "get_managers_command io = leaf ''managers'' (At_Most 1) get_one_flag_table
     (\<lambda>call. get_managers_cmd io (text_of get_one_flag_table call ''output'') (first_arg call))"

definition get_command :: "'w cli_io \<Rightarrow> 'w cli_command" where
  "get_command io = group ''get''
     [get_workers_command io, get_teams_command io, get_humans_command io, get_managers_command io]"

text \<open>\<open>apply worker\<close> has no flags for the wait and the container; the record is the one of \<open>create worker\<close>.\<close>

definition apply_worker_values :: "invocation \<Rightarrow> worker_flags" where
  "apply_worker_values call =
     (let s = text_of apply_worker_flag_table call in
      \<lparr>wf_name = s ''name'', wf_model = s ''model'', wf_runtime = s ''runtime'', wf_image = s ''image'',
       wf_identity = s ''identity'', wf_soul = s ''soul'', wf_soul_file = s ''soul-file'', wf_skills = s ''skills'',
       wf_package = s ''package'', wf_expose = s ''expose'', wf_team = s ''team'', wf_role = s ''role'',
       wf_container_managed = True, wf_output = [], wf_wait_timeout = 0, wf_no_wait = False\<rparr>)"

definition apply_worker_command :: "'w cli_io \<Rightarrow> 'w cli_command" where
  "apply_worker_command io = leaf ''worker'' Any_Args apply_worker_flag_table
     (\<lambda>call. apply_worker_cmd io (apply_worker_values call) (text_of apply_worker_flag_table call ''zip''))"

text \<open>Without files the command prints its help.\<close>

definition apply_command :: "('w, unit) state \<Rightarrow> 'w cli_io \<Rightarrow> 'w cli_command" where
  "apply_command help io = Command ''apply'' Any_Args apply_flag_table (Some (\<lambda>call. ending
     (let files = texts_of apply_flag_table call ''file'' in
      if files \<noteq> [] then apply_from_files io files else do { _ \<leftarrow> help; State_Monad.return None })))
     [apply_worker_command io]"

definition update_worker_values :: "invocation \<Rightarrow> worker_flags" where
  "update_worker_values call =
     (let s = text_of update_worker_flag_table call in
      \<lparr>wf_name = s ''name'', wf_model = s ''model'', wf_runtime = s ''runtime'', wf_image = s ''image'',
       wf_identity = s ''identity'', wf_soul = s ''soul'', wf_soul_file = [], wf_skills = s ''skills'',
       wf_package = s ''package'', wf_expose = s ''expose'', wf_team = [], wf_role = [],
       wf_container_managed = bool_of update_worker_flag_table call ''container-managed'',
       wf_output = [], wf_wait_timeout = 0, wf_no_wait = False\<rparr>)"

definition update_worker_command :: "'w cli_io \<Rightarrow> 'w cli_command" where
  "update_worker_command io = leaf ''worker'' Any_Args update_worker_flag_table
     (\<lambda>call. update_worker_cmd io (update_worker_values call))"

definition update_team_command :: "'w cli_io \<Rightarrow> 'w cli_command" where
  "update_team_command io = leaf ''team'' Any_Args update_team_flag_table (\<lambda>call.
     let s = text_of update_team_flag_table call in update_team_cmd io
       \<lparr>tf_name = s ''name'', tf_team_name = s ''team-name'', tf_leader_name = [], tf_leader_model = s ''leader-model'',
        tf_heartbeat_every = s ''leader-heartbeat-every'', tf_idle_timeout = s ''worker-idle-timeout'', tf_workers = [],
        tf_description = s ''description''\<rparr>)"

definition update_manager_command :: "'w cli_io \<Rightarrow> 'w cli_command" where
  "update_manager_command io = leaf ''manager'' Any_Args update_manager_flag_table
     (\<lambda>call. update_manager_cmd io (manager_values update_manager_flag_table call))"

definition update_command :: "'w cli_io \<Rightarrow> 'w cli_command" where
  "update_command io = group ''update'' [update_worker_command io, update_team_command io, update_manager_command io]"

text \<open>The four commands of \<open>delete\<close> differ in the kind only; an argument is there.\<close>

definition delete_kind_command :: "string \<Rightarrow> 'w cli_io \<Rightarrow> 'w cli_command" where
  "delete_kind_command kind io = leaf kind (Exactly 1) [] (\<lambda>call. delete_resource io kind (hd (inv_args call)))"

definition delete_command :: "'w cli_io \<Rightarrow> 'w cli_command" where
  "delete_command io = group ''delete''
     (map (\<lambda>kind. delete_kind_command kind io) [''worker'', ''team'', ''human'', ''manager''])"

definition wake_command :: "'w cli_io \<Rightarrow> 'w cli_command" where
  "wake_command io = leaf ''wake'' Any_Args lifecycle_flag_table
     (\<lambda>call. worker_wake_cmd io (text_of lifecycle_flag_table call ''name''))"

definition sleep_command :: "'w cli_io \<Rightarrow> 'w cli_command" where
  "sleep_command io = leaf ''sleep'' Any_Args lifecycle_flag_table
     (\<lambda>call. worker_sleep_cmd io (text_of lifecycle_flag_table call ''name''))"

definition ensure_ready_command :: "'w cli_io \<Rightarrow> 'w cli_command" where
  "ensure_ready_command io = leaf ''ensure-ready'' Any_Args lifecycle_flag_table
     (\<lambda>call. worker_ensure_ready_cmd io (text_of lifecycle_flag_table call ''name''))"

definition worker_status_command :: "'w cli_io \<Rightarrow> 'w cli_command" where
  "worker_status_command io = leaf ''status'' Any_Args worker_status_flag_table (\<lambda>call.
     let s = text_of worker_status_flag_table call in worker_status_cmd io (s ''name'') (s ''team'') (s ''output''))"

definition report_ready_command :: "nat \<Rightarrow> 'w cli_io \<Rightarrow> 'w cli_command" where
  "report_ready_command beats io = Command ''report-ready'' Any_Args report_ready_flag_table (Some (\<lambda>call.
     report_ready_cmd beats io (text_of report_ready_flag_table call ''name'')
       (int_of_flag report_ready_flag_table call ''interval'') (flag_given call ''heartbeat'') (flag_given call ''interval''))) []"

definition worker_command :: "nat \<Rightarrow> 'w cli_io \<Rightarrow> 'w cli_command" where
  "worker_command beats io = group ''worker''
     [wake_command io, sleep_command io, ensure_ready_command io, worker_status_command io, report_ready_command beats io]"

definition status_command :: "'w cli_io \<Rightarrow> 'w cli_command" where
  "status_command io = leaf ''status'' Any_Args get_one_flag_table (\<lambda>call. status_cmd io (text_of get_one_flag_table call ''output''))"

definition version_command :: "'w cli_io \<Rightarrow> 'w cli_command" where
  "version_command io = leaf ''version'' Any_Args get_one_flag_table
     (\<lambda>call. version_cmd io (text_of get_one_flag_table call ''output''))"

definition hiclaw_commands :: "nat \<Rightarrow> ('w, unit) state \<Rightarrow> 'w cli_io \<Rightarrow> 'w cli_command" where
  "hiclaw_commands beats help io = group ''hiclaw''
     [apply_command help io, create_command io, get_command io, update_command io, delete_command io,
      worker_command beats io, status_command io, version_command io]"

section \<open>Running\<close>

text \<open>The command a path names, and whether it accepts its arguments and flags; otherwise nothing runs.\<close>

fun find_command :: "string list \<Rightarrow> 'w cli_command \<Rightarrow> 'w cli_command option" where
  "find_command [] c = Some c"
| "find_command (n # ns) c =
     (case find (\<lambda>d. cm_use d = n) (cm_subs c) of None \<Rightarrow> None | Some d \<Rightarrow> find_command ns d)"

fun same_kind :: "flag_value \<Rightarrow> flag_value \<Rightarrow> bool" where
  "same_kind (Flag_Text _) (Flag_Text _) = True"
| "same_kind (Flag_Bool _) (Flag_Bool _) = True"
| "same_kind (Flag_Int _) (Flag_Int _) = True"
| "same_kind (Flag_Duration _) (Flag_Duration _) = True"
| "same_kind (Flag_Texts _) (Flag_Texts _) = True"
| "same_kind _ _ = False"

definition flags_known :: "flag_decl list \<Rightarrow> invocation \<Rightarrow> bool" where
  "flags_known ds call \<longleftrightarrow>
     list_all (\<lambda>(n, v). list_ex (\<lambda>d. fd_name d = n \<and> same_kind (fd_default d) v) ds) (inv_given call)"

fun args_accepted :: "args_rule \<Rightarrow> string list \<Rightarrow> bool" where
  "args_accepted Any_Args args = True"
| "args_accepted (At_Most n) args = (length args \<le> n)"
| "args_accepted (Exactly n) args = (length args = n)"

definition run_invocation :: "'w cli_command \<Rightarrow> invocation \<Rightarrow> ('w, go_error option option) state option" where
  "run_invocation c call =
     (if flags_known (cm_flags c) call \<and> args_accepted (cm_rule c) (inv_args call)
      then map_option (\<lambda>run. run call) (cm_run c) else None)"

text \<open>The exit code: 1 for an error of the command or of its use. A group prints its help.\<close>

definition hiclaw_main ::
  "nat \<Rightarrow> ('w, unit) state \<Rightarrow> 'w cli_io \<Rightarrow> string list \<Rightarrow> invocation \<Rightarrow> ('w, nat option) state" where
  "hiclaw_main beats help io path call =
     (case find_command path (hiclaw_commands beats help io) of
        None \<Rightarrow> State_Monad.return (Some 1)
      | Some c \<Rightarrow>
          (case run_invocation c call of
             Some run \<Rightarrow> do {
               r \<leftarrow> run;
               State_Monad.return (map_option (\<lambda>e. if e = None then 0 else 1) r) }
           | None \<Rightarrow>
               if cm_run c = None \<and> flags_known (cm_flags c) call
               then do { _ \<leftarrow> help; State_Monad.return (Some 0) } else State_Monad.return (Some 1)))"

section \<open>Properties of the table\<close>

text \<open>Registering a flag or a shorthand twice panics, and of two commands with one name the second is lost.\<close>

fun well_declared :: "'w cli_command \<Rightarrow> bool" where
  "well_declared (Command use rule flags run subs) \<longleftrightarrow>
     distinct (map fd_name flags) \<and> distinct (filter (\<lambda>s. s \<noteq> []) (map fd_short flags)) \<and>
     list_all (\<lambda>f. length (fd_short f) \<le> 1 \<and> fd_name f \<noteq> ''help'' \<and> fd_short f \<noteq> ''h'') flags \<and>
     distinct (map cm_use subs) \<and> list_all well_declared subs"

lemmas flag_tables = create_worker_flag_table_def create_team_flag_table_def create_human_flag_table_def
  create_manager_flag_table_def get_workers_flag_table_def get_one_flag_table_def apply_flag_table_def
  apply_worker_flag_table_def update_worker_flag_table_def update_team_flag_table_def update_manager_flag_table_def
  lifecycle_flag_table_def worker_status_flag_table_def report_ready_flag_table_def text_flag_def short_flag_def

lemmas command_groups = hiclaw_commands_def create_command_def get_command_def update_command_def delete_command_def
  worker_command_def group_def leaf_def apply_command_def apply_worker_command_def delete_kind_command_def

lemmas commands = create_worker_command_def create_team_command_def create_human_command_def create_manager_command_def
  get_workers_command_def get_teams_command_def get_humans_command_def get_managers_command_def
  update_worker_command_def update_team_command_def update_manager_command_def wake_command_def sleep_command_def
  ensure_ready_command_def worker_status_command_def report_ready_command_def status_command_def version_command_def

lemma hiclaw_well_declared: "well_declared (hiclaw_commands beats help io)"
  by (simp add: command_groups commands flag_tables)

text \<open>Every flag with its default counts as not given; so \<open>--container-managed\<close> of \<open>update worker\<close>, given to set a
  worker managed again, leaves nothing to update.\<close>

lemma managed_flag_is_no_update:
  assumes "n \<noteq> []" "acts = \<lparr>inv_args = [], inv_given = [(''name'', Flag_Text n), (''container-managed'', Flag_Bool True)]\<rparr>"
  shows "run_invocation (update_worker_command io) acts =
    Some (State_Monad.return (Some (Some (Err ''at least one field must be specified for update''))))"
proof -
  have "update_worker_body (update_worker_values acts) [] = []" "wf_name (update_worker_values acts) = n"
      "wf_package (update_worker_values acts) = []"
    by (simp_all add: assms(2) update_worker_values_def update_worker_body_def set_ports_def set_csv_def unmanaged_def
        set_if_not_empty_def text_of_def bool_of_def flag_value_of_def flag_tables Let_def)
  then show ?thesis
    using assms
    by (simp add: run_invocation_def update_worker_command_def leaf_def flags_known_def flag_tables update_worker_cmd_def
        require_flag_def expand_flag_def update_resource_def ending_def)
qed

text \<open>The lifecycle commands take a team and do not look at it.\<close>

lemma wake_ignores_team:
  "run_invocation (wake_command io) \<lparr>inv_args = as, inv_given = [(''name'', Flag_Text n), (''team'', Flag_Text t)]\<rparr> =
    run_invocation (wake_command io) \<lparr>inv_args = as, inv_given = [(''name'', Flag_Text n)]\<rparr>"
  by (simp add: run_invocation_def wake_command_def leaf_def flags_known_def flag_tables text_of_def flag_value_of_def)

text \<open>The exit code is 0 or 1, and 1 for paths that name no command.\<close>

lemma hiclaw_exit_code:
  "case fst (run_state (hiclaw_main beats help io path acts) w) of Some code \<Rightarrow> code \<le> 1 | None \<Rightarrow> True"
  by (auto simp: hiclaw_main_def split: option.splits prod.splits)

end
