(* ===== verification/Embedded_Server.thy ===== *)
theory Embedded_Server
  imports App_Wiring File_Watcher Go_Path
begin

text \<open>
  \<open>internal/store/kine.go\<close>, \<open>internal/apiserver/embedded.go\<close> and \<open>startEmbedded\<close> of \<open>internal/app/app.go\<close>: the
  storage and API server of the embedded mode. Running \<open>kine\<close> and \<open>kube-apiserver\<close>, probing a URL, keys and
  certificates, the polling helper of \<open>apimachinery\<close> and the client of custom resource definitions are
  operations of the server; a key is an opaque text.
\<close>

section \<open>Configuration\<close>

record server_config =
  sc_data_dir :: string
  sc_etcd_url :: string
  sc_bind_addr :: string
  sc_secure_port :: string
  sc_crd_dir :: string

record rest_config =
  rc_host :: string
  rc_bearer_token :: string
  rc_ca_file :: string

definition with_server_defaults :: "server_config \<Rightarrow> server_config" where
  "with_server_defaults c =
     (let or_else = (\<lambda>v d. if v = [] then d else v) in
      c\<lparr>sc_etcd_url := or_else (sc_etcd_url c) ''http://127.0.0.1:2379'',
        sc_bind_addr := or_else (sc_bind_addr c) ''127.0.0.1'',
        sc_secure_port := or_else (sc_secure_port c) ''6443'',
        sc_crd_dir := or_else (sc_crd_dir c) ''/opt/hiclaw/config/crd''\<rparr>)"

section \<open>Operations\<close>

text \<open>A certificate before it is signed; times are nanoseconds.\<close>

record certificate =
  ct_serial :: int
  ct_common_name :: string
  ct_not_before :: int
  ct_not_after :: int
  ct_usage :: "string list"
  ct_is_ca :: bool
  ct_ext_usage :: "string list"
  ct_ips :: "string list"
  ct_dns :: "string list"

text \<open>Signing takes the template, the certificate of the issuer (\<open>None\<close> for itself), the key certified and the
  key of the issuer.\<close>

record 'w key_ops =
  ky_generate :: "('w, string result) state"
  ky_now :: "('w, int) state"
  ky_sign :: "certificate \<Rightarrow> string option \<Rightarrow> string \<Rightarrow> string \<Rightarrow> ('w, string result) state"
  ky_parse :: "string \<Rightarrow> go_error option"
  ky_private :: "string \<Rightarrow> string result"
  ky_public :: "string \<Rightarrow> string result"
  ky_pem :: "string \<Rightarrow> string \<Rightarrow> string"

text \<open>A custom resource definition: what the code reads of it, and the rest.\<close>

record crd =
  cd_name :: string
  cd_resource_version :: string
  cd_conditions :: "(string \<times> string) list"
  cd_body :: json

record 'w crd_client =
  cc_get :: "string \<Rightarrow> ('w, crd result) state"
  cc_update :: "crd \<Rightarrow> ('w, go_error option) state"
  cc_create :: "crd \<Rightarrow> ('w, go_error option) state"

text \<open>
  \<open>se_poll\<close> is \<open>wait.PollUntilContextTimeout\<close> with the interval and the timeout, \<open>se_probe\<close> says whether any
  answer came from a URL over a connection that trusts the given certificate.
\<close>

record 'w server_env =
  se_files :: "'w local_files"
  se_keys :: "'w key_ops"
  se_random :: "nat \<Rightarrow> ('w, string result) state"
  se_launch :: "string list \<Rightarrow> ('w, go_error option) state"
  se_kill :: "('w, unit) state"
  se_probe :: "string \<Rightarrow> string \<Rightarrow> ('w, bool) state"
  se_poll :: "int \<Rightarrow> int \<Rightarrow> ('w, bool) state \<Rightarrow> ('w, go_error option) state"
  se_decode_crd :: "string \<Rightarrow> crd result"
  se_crds :: "rest_config \<Rightarrow> 'w crd_client result"

section \<open>Certificates\<close>

definition write_pem :: "'w server_env \<Rightarrow> string \<Rightarrow> string \<Rightarrow> string \<Rightarrow> ('w, go_error option) state" where
  "write_pem e path type data = lf_write (se_files e) path (ky_pem (se_keys e) type data)"

definition write_ec_key :: "'w server_env \<Rightarrow> string \<Rightarrow> string \<Rightarrow> ('w, go_error option) state" where
  "write_ec_key e path key =
     (case ky_private (se_keys e) key of
        Inl x \<Rightarrow> State_Monad.return (Some x)
      | Inr data \<Rightarrow> write_pem e path ''EC PRIVATE KEY'' data)"

definition write_ec_pub_key :: "'w server_env \<Rightarrow> string \<Rightarrow> string \<Rightarrow> ('w, go_error option) state" where
  "write_ec_pub_key e path key =
     (case ky_public (se_keys e) key of
        Inl x \<Rightarrow> State_Monad.return (Some x)
      | Inr data \<Rightarrow> write_pem e path ''PUBLIC KEY'' data)"

definition ten_years :: int where "ten_years = 10 * 365 * 24 * 3600 * 1000000000"

definition ca_template :: "int \<Rightarrow> int \<Rightarrow> certificate" where
  "ca_template since now =
     \<lparr>ct_serial = 1, ct_common_name = ''hiclaw-ca'', ct_not_before = since, ct_not_after = now + ten_years,
      ct_usage = [''CertSign'', ''CRLSign''], ct_is_ca = True, ct_ext_usage = [], ct_ips = [], ct_dns = []\<rparr>"

definition serving_template :: "string \<Rightarrow> int \<Rightarrow> int \<Rightarrow> certificate" where
  "serving_template bind_addr since now =
     \<lparr>ct_serial = 2, ct_common_name = ''kube-apiserver'', ct_not_before = since, ct_not_after = now + ten_years,
      ct_usage = [''DigitalSignature'', ''KeyEncipherment''], ct_is_ca = False, ct_ext_usage = [''ServerAuth''],
      ct_ips = [''127.0.0.1'', bind_addr], ct_dns = [''localhost'', ''kube-apiserver'']\<rparr>"

definition signed ::
  "'w server_env \<Rightarrow> (int \<Rightarrow> int \<Rightarrow> certificate) \<Rightarrow> string option \<Rightarrow> string \<Rightarrow> string \<Rightarrow> ('w, string result) state" where
  "signed e template parent key issuer_key = do {
     since \<leftarrow> ky_now (se_keys e);
     now \<leftarrow> ky_now (se_keys e);
     ky_sign (se_keys e) (template since now) parent key issuer_key }"

text \<open>The files in the order in which they are written.\<close>

definition write_certs :: "'w server_env \<Rightarrow> string \<Rightarrow> string \<Rightarrow> string \<Rightarrow> string \<Rightarrow> string \<Rightarrow> string \<Rightarrow> ('w, go_error option) state" where
  "write_certs e dir ca ca_key serving serving_key sa_key =
     then_step (write_pem e (filepath_join [dir, ''ca.crt'']) ''CERTIFICATE'' ca)
     (then_step (write_ec_key e (filepath_join [dir, ''ca.key'']) ca_key)
     (then_step (write_pem e (filepath_join [dir, ''apiserver.crt'']) ''CERTIFICATE'' serving)
     (then_step (write_ec_key e (filepath_join [dir, ''apiserver.key'']) serving_key)
     (then_step (write_ec_key e (filepath_join [dir, ''sa.key'']) sa_key)
       (write_ec_pub_key e (filepath_join [dir, ''sa.pub'']) sa_key)))))"

definition generate_certs :: "'w server_env \<Rightarrow> string \<Rightarrow> string \<Rightarrow> ('w, go_error option) state" where
  "generate_certs e dir bind_addr =
     use_state (ky_generate (se_keys e)) (\<lambda>ca_key.
     use_state (signed e ca_template None ca_key ca_key) (\<lambda>ca.
     (case ky_parse (se_keys e) ca of
        Some x \<Rightarrow> State_Monad.return (Some x)
      | None \<Rightarrow>
          use_state (ky_generate (se_keys e)) (\<lambda>serving_key.
          use_state (signed e (serving_template bind_addr) (Some ca) serving_key ca_key) (\<lambda>serving.
          use_state (ky_generate (se_keys e)) (\<lambda>sa_key.
            write_certs e dir ca ca_key serving serving_key sa_key))))))"

section \<open>The admin token\<close>

definition admin_token_file :: "string \<Rightarrow> string" where
  "admin_token_file dir = filepath_join [dir, ''admin-token'']"

definition new_admin_token :: "'w server_env \<Rightarrow> string \<Rightarrow> ('w, string result) state" where
  "new_admin_token e dir =
     (let path = admin_token_file dir in
      try_state (wrap_result ''crypto/rand'' (generate_random_hex (se_random e) 32)) (\<lambda>token.
      check_state (wrap_error (''mkdir '' @ dir) (lf_mkdir_all (se_files e) dir))
      (check_state (wrap_error (''write '' @ path) (lf_write (se_files e) path (token @ [CHR 0x0A])))
        (State_Monad.return (Inr token)))))"

definition generate_or_load_admin_token :: "'w server_env \<Rightarrow> string \<Rightarrow> ('w, string result) state" where
  "generate_or_load_admin_token e dir = do {
     r \<leftarrow> lf_read (se_files e) (admin_token_file dir);
     (case r of
        Inr data \<Rightarrow> if trim_space data \<noteq> [] then State_Monad.return (Inr (trim_space data)) else new_admin_token e dir
      | Inl _ \<Rightarrow> new_admin_token e dir) }"

section \<open>Custom resource definitions\<close>

text \<open>One entry of the directory; errors are only logged.\<close>

definition register_crd :: "'w crd_client \<Rightarrow> crd \<Rightarrow> ('w, unit) state" where
  "register_crd c d = do {
     got \<leftarrow> cc_get c (cd_name d);
     _ \<leftarrow> (case got of
            Inr existing \<Rightarrow> cc_update c (d\<lparr>cd_resource_version := cd_resource_version existing\<rparr>)
          | Inl _ \<Rightarrow> cc_create c d);
     State_Monad.return () }"

definition register_entry :: "'w server_env \<Rightarrow> 'w crd_client \<Rightarrow> string \<Rightarrow> string \<times> bool \<Rightarrow> ('w, unit) state" where
  "register_entry e c dir entry =
     (case entry of (name, is_dir) \<Rightarrow>
        if is_dir \<or> file_ext name \<notin> {''.yaml'', ''.yml''} then State_Monad.return ()
        else do {
          r \<leftarrow> lf_read (se_files e) (filepath_join [dir, name]);
          (case r of
             Inl _ \<Rightarrow> State_Monad.return ()
           | Inr data \<Rightarrow>
               (case se_decode_crd e data of
                  Inl _ \<Rightarrow> State_Monad.return ()
                | Inr d \<Rightarrow> register_crd c d)) })"

fun register_entries :: "'w server_env \<Rightarrow> 'w crd_client \<Rightarrow> string \<Rightarrow> (string \<times> bool) list \<Rightarrow> ('w, unit) state" where
  "register_entries e c dir [] = State_Monad.return ()"
| "register_entries e c dir (x # xs) = do { _ \<leftarrow> register_entry e c dir x; register_entries e c dir xs }"

definition crd_established :: "crd \<Rightarrow> bool" where
  "crd_established d \<longleftrightarrow> (''Established'', ''True'') \<in> set (cd_conditions d)"

fun all_established :: "'w crd_client \<Rightarrow> string list \<Rightarrow> ('w, bool) state" where
  "all_established c [] = State_Monad.return True"
| "all_established c (n # ns) = do {
     r \<leftarrow> cc_get c n;
     (case r of
        Inl _ \<Rightarrow> State_Monad.return False
      | Inr d \<Rightarrow> if crd_established d then all_established c ns else State_Monad.return False) }"

definition seconds :: "int \<Rightarrow> int" where "seconds n = n * 1000000000"

definition wait_for_crds_established :: "'w server_env \<Rightarrow> 'w crd_client \<Rightarrow> string list \<Rightarrow> ('w, go_error option) state" where
  "wait_for_crds_established e c names = se_poll e (seconds 1) (seconds 30) (all_established c names)"

definition crd_names :: "string list" where
  "crd_names = [''workers.hiclaw.io'', ''teams.hiclaw.io'', ''humans.hiclaw.io'', ''managers.hiclaw.io'']"

definition register_crds :: "'w server_env \<Rightarrow> rest_config \<Rightarrow> string \<Rightarrow> ('w, go_error option) state" where
  "register_crds e rc dir =
     (case se_crds e rc of
        Inl x \<Rightarrow> State_Monad.return (Some (Wrap ''failed to create apiextensions client'' x))
      | Inr c \<Rightarrow>
          use_state (wrap_result (''failed to read CRD dir '' @ dir) (lf_read_dir (se_files e) dir)) (\<lambda>entries. do {
            _ \<leftarrow> register_entries e c dir entries;
            wait_for_crds_established e c crd_names }))"

section \<open>The API server\<close>

definition wait_for_ready :: "'w server_env \<Rightarrow> rest_config \<Rightarrow> ('w, go_error option) state" where
  "wait_for_ready e rc =
     use_state (wrap_result ''failed to read CA cert'' (lf_read (se_files e) (rc_ca_file rc))) (\<lambda>ca.
       se_poll e (seconds 1) (seconds 60) (se_probe e (rc_host rc @ ''/healthz'') ca))"

definition cert_dir :: "server_config \<Rightarrow> string" where
  "cert_dir c = filepath_join [sc_data_dir c, ''pki'']"

definition token_file :: "server_config \<Rightarrow> string" where
  "token_file c = filepath_join [cert_dir c, ''token.csv'']"

definition ca_file :: "server_config \<Rightarrow> string" where
  "ca_file c = filepath_join [cert_dir c, ''ca.crt'']"

definition server_args :: "server_config \<Rightarrow> string list" where
  "server_args c =
     (let file = (\<lambda>n. filepath_join [cert_dir c, n]) in
      [''--etcd-servers='' @ sc_etcd_url c,
       ''--bind-address='' @ sc_bind_addr c,
       ''--secure-port='' @ sc_secure_port c,
       ''--tls-cert-file='' @ file ''apiserver.crt'',
       ''--tls-private-key-file='' @ file ''apiserver.key'',
       ''--client-ca-file='' @ ca_file c,
       ''--service-account-key-file='' @ file ''sa.pub'',
       ''--service-account-signing-key-file='' @ file ''sa.key'',
       ''--service-account-issuer=https://hiclaw.local'',
       ''--token-auth-file='' @ token_file c,
       ''--authorization-mode=AlwaysAllow'',
       ''--anonymous-auth=true'',
       ''--disable-admission-plugins=ServiceAccount'',
       ''--etcd-prefix=/registry'',
       ''--v=0''])"

text \<open>\<open>os.Stat\<close> says that the file does not exist.\<close>

definition when_missing :: "'w server_env \<Rightarrow> string \<Rightarrow> ('w, go_error option) state \<Rightarrow> ('w, go_error option) state" where
  "when_missing e path m = do {
     r \<leftarrow> lf_is_dir (se_files e) path;
     (case r of
        Inl x \<Rightarrow> if is_os_not_exist x then m else State_Monad.return None
      | Inr _ \<Rightarrow> State_Monad.return None) }"

definition token_line :: "string \<Rightarrow> string" where
  "token_line token = token @ '',admin,admin,'' @ [dquote] @ ''system:masters'' @ [dquote, CHR 0x0A]"

definition rest_config_of :: "server_config \<Rightarrow> string \<Rightarrow> rest_config" where
  "rest_config_of c token =
     \<lparr>rc_host = ''https://'' @ sc_bind_addr c @ '':'' @ sc_secure_port c, rc_bearer_token = token,
      rc_ca_file = ca_file c\<rparr>"

text \<open>What \<open>Start\<close> does with the token: it fills the token file, runs the server and waits for it. A server that
  does not answer is killed; a failed registration is only logged.\<close>

definition await_server :: "'w server_env \<Rightarrow> server_config \<Rightarrow> rest_config \<Rightarrow> ('w, rest_config result) state" where
  "await_server e c rc = do {
     r \<leftarrow> wait_for_ready e rc;
     (case r of
        Some x \<Rightarrow> do {
          _ \<leftarrow> se_kill e;
          State_Monad.return (Inl (Wrap ''kube-apiserver failed to become ready'' x)) }
      | None \<Rightarrow> do {
          _ \<leftarrow> (if sc_crd_dir c \<noteq> [] then register_crds e rc (sc_crd_dir c) else State_Monad.return None);
          State_Monad.return (Inr rc) }) }"

definition run_server :: "'w server_env \<Rightarrow> server_config \<Rightarrow> string \<Rightarrow> ('w, rest_config result) state" where
  "run_server e c token =
     check_state (when_missing e (token_file c)
       (wrap_error ''failed to create token file'' (lf_write (se_files e) (token_file c) (token_line token))))
     (check_state (wrap_error ''failed to start kube-apiserver'' (se_launch e (server_args c)))
       (await_server e c (rest_config_of c token)))"

definition start_server :: "'w server_env \<Rightarrow> server_config \<Rightarrow> ('w, rest_config result) state" where
  "start_server e c0 =
     (let c = with_server_defaults c0 in
      check_state (wrap_error ''failed to create cert dir'' (lf_mkdir_all (se_files e) (cert_dir c)))
      (check_state (when_missing e (ca_file c)
         (wrap_error ''failed to generate certs'' (generate_certs e (cert_dir c) (sc_bind_addr c))))
      (try_state (wrap_result ''failed to generate admin token'' (generate_or_load_admin_token e (sc_data_dir c)))
        (run_server e c))))"

section \<open>Storage\<close>

record kine_config =
  kc_data_dir :: string
  kc_listen_address :: string

text \<open>\<open>listen\<close> is \<open>endpoint.Listen\<close> with the address, the database and the interval of notifications.\<close>

definition start_kine ::
  "'w local_files \<Rightarrow> (string \<Rightarrow> string \<Rightarrow> int \<Rightarrow> ('w, 'k result) state) \<Rightarrow> kine_config \<Rightarrow> ('w, 'k result) state" where
  "start_kine lf listen c =
     (let dir = (if kc_data_dir c = [] then ''/data/hiclaw-controller'' else kc_data_dir c);
          addr = (if kc_listen_address c = [] then ''127.0.0.1:2379'' else kc_listen_address c)
      in check_state (wrap_error (''failed to create data dir '' @ dir) (lf_mkdir_all lf dir))
        (wrap_result ''failed to start kine''
          (listen addr (''sqlite://'' @ filepath_join [dir, ''hiclaw.db''] @
            ''?_journal=WAL&cache=shared&_busy_timeout=30000'') (seconds 1))))"

section \<open>The embedded mode\<close>

text \<open>A fresh file watcher; its errors are only logged.\<close>

definition sync_once :: "'w file_watcher \<Rightarrow> ('w, unit) state" where
  "sync_once fw = State (\<lambda>w. ((), ws_world (snd (run_state (initial_sync fw) \<lparr>ws_world = w, ws_hashes = []\<rparr>))))"

text \<open>\<open>manager\<close> is \<open>ctrl.NewManager\<close>; the watch over the directory goes on in the background (\<open>watch\<close>).\<close>

definition start_embedded ::
  "'w server_env \<Rightarrow> (string \<Rightarrow> string \<Rightarrow> int \<Rightarrow> ('w, 'k result) state) \<Rightarrow> (rest_config \<Rightarrow> go_error option) \<Rightarrow>
   (rest_config \<Rightarrow> 'w file_watcher) \<Rightarrow> config \<Rightarrow> ('w, rest_config result) state" where
  "start_embedded e listen manager watcher c =
     (let dir = cc_data_dir (cf_core c) in
      try_state (wrap_result ''start kine''
        (start_kine (se_files e) listen \<lparr>kc_data_dir = dir, kc_listen_address = ''127.0.0.1:2379''\<rparr>)) (\<lambda>_.
      try_state (wrap_result ''start embedded kube-apiserver'' (start_server e
        \<lparr>sc_data_dir = dir, sc_etcd_url = ''http://127.0.0.1:2379'', sc_bind_addr = ''127.0.0.1'',
         sc_secure_port = ''6443'', sc_crd_dir = cc_crd_dir (cf_core c)\<rparr>)) (\<lambda>rc.
        (case manager rc of
           Some x \<Rightarrow> State_Monad.return (Inl (Wrap ''create controller manager'' x))
         | None \<Rightarrow> do {
             _ \<leftarrow> sync_once (watcher rc);
             State_Monad.return (Inr rc) }))))"

end
