(* ===== verification/Embedded_Properties.thy ===== *)
theory Embedded_Properties
  imports Embedded_Server
begin

text \<open>
  What the files of the embedded API server go through when it is started again: credentials once
  made are kept, also incomplete ones. The file system may fail at any call.
\<close>

section \<open>Steps that touch certain files only\<close>

named_theorems touching

definition touches ::
  "('w \<Rightarrow> string \<Rightarrow> string option) \<Rightarrow> ('w \<Rightarrow> string set) \<Rightarrow> string set \<Rightarrow> ('w, 'a) state \<Rightarrow> bool" where
  "touches content dirs S m \<longleftrightarrow>
     (\<forall>w r v. run_state m w = (r, v) \<longrightarrow> dirs w \<subseteq> dirs v \<and> (\<forall>q. q \<notin> S \<longrightarrow> content v q = content w q))"

lemma touchesD:
  assumes "touches content dirs S m" "run_state m w = (r, v)"
  shows "dirs w \<subseteq> dirs v" "q \<notin> S \<Longrightarrow> content v q = content w q"
  using assms by (auto simp: touches_def)

lemma touches_less: "touches content dirs S m \<Longrightarrow> S \<subseteq> T \<Longrightarrow> touches content dirs T m"
  unfolding touches_def by (meson subsetD)

lemma touches_return [touching]: "touches content dirs S (State_Monad.return x)"
  by (simp add: touches_def State_Monad.return_def)

lemma touches_bind [touching]:
  assumes "touches content dirs S m" "\<And>x. touches content dirs S (k x)"
  shows "touches content dirs S (State_Monad.bind m k)"
  unfolding touches_def
proof (intro allI impI)
  fix w r v
  assume run: "run_state (State_Monad.bind m k) w = (r, v)"
  obtain x u where m: "run_state m w = (x, u)" by (metis surj_pair)
  then have k: "run_state (k x) u = (r, v)" using run by simp
  show "dirs w \<subseteq> dirs v \<and> (\<forall>q. q \<notin> S \<longrightarrow> content v q = content w q)"
    using touchesD [OF assms(1) m] touchesD [OF assms(2) k] by auto
qed

lemma touches_cases [touching]:
  "(\<And>x. a = Inl x \<Longrightarrow> touches content dirs S (f x)) \<Longrightarrow> (\<And>y. a = Inr y \<Longrightarrow> touches content dirs S (g y)) \<Longrightarrow>
    touches content dirs S (case a of Inl x \<Rightarrow> f x | Inr y \<Rightarrow> g y)"
  "(b = None \<Longrightarrow> touches content dirs S h) \<Longrightarrow> (\<And>z. b = Some z \<Longrightarrow> touches content dirs S (i z)) \<Longrightarrow>
    touches content dirs S (case b of None \<Rightarrow> h | Some z \<Rightarrow> i z)"
  "(c \<Longrightarrow> touches content dirs S t) \<Longrightarrow> (\<not> c \<Longrightarrow> touches content dirs S u) \<Longrightarrow> touches content dirs S (if c then t else u)"
  by (auto split: sum.splits option.splits)

lemma touches_steps [touching]:
  "touches content dirs S m \<Longrightarrow> touches content dirs S (wrap_result what m)"
  "touches content dirs S n \<Longrightarrow> touches content dirs S (wrap_error what n)"
  "touches content dirs S m \<Longrightarrow> (\<And>x. touches content dirs S (f x)) \<Longrightarrow> touches content dirs S (try_state m f)"
  "touches content dirs S n \<Longrightarrow> touches content dirs S p \<Longrightarrow> touches content dirs S (check_state n p)"
  "touches content dirs S m \<Longrightarrow> (\<And>x. touches content dirs S (g x)) \<Longrightarrow> touches content dirs S (use_state m g)"
  "touches content dirs S n \<Longrightarrow> touches content dirs S n' \<Longrightarrow> touches content dirs S (then_step n n')"
  unfolding wrap_result_def wrap_error_def try_state_def check_state_def use_state_def then_step_def
  by (intro touching; assumption)+

lemma trim_line:
  assumes "list_all (\<lambda>c. \<not> is_space c) s"
  shows "trim_space (s @ [CHR 0x0A]) = s"
proof (cases s)
  case (Cons c cs)
  have nl: "is_space (CHR 0x0A)" by (simp add: is_space_def)
  have "dropWhile is_space (rev s) = rev s"
    using assms by (cases s rule: rev_cases) simp_all
  then have "dropWhile is_space (rev (s @ [CHR 0x0A])) = rev s" using nl by simp
  moreover have "dropWhile is_space (s @ [CHR 0x0A]) = s @ [CHR 0x0A]" using assms Cons by simp
  ultimately show ?thesis by (simp only: trim_space_def trim_both_def trim_left_def trim_right_def rev_rev_ident)
qed (simp add: trim_space_def trim_both_def trim_left_def trim_right_def is_space_def)

lemma hex_digit_no_space: "n < 16 \<Longrightarrow> \<not> is_space (hex_digit n)"
proof -
  have "\<forall>n \<in> set [0..<16]. \<not> is_space (hex_digit n)" by code_simp
  then show "n < 16 \<Longrightarrow> \<not> is_space (hex_digit n)" by simp
qed

lemma trim_hex_line: "trim_space (hex_encode b @ [CHR 0x0A]) = hex_encode b"
proof -
  have "list_all (\<lambda>c. \<not> is_space c) (hex_encode b)"
  proof (induction b)
    case (Cons c b)
    have "(of_char c :: nat) < 256" by (rule nat_of_char_less_256)
    then have "of_char c div 16 < (16::nat)" by linarith
    then show ?case using Cons by (simp add: hex_encode_def hex_digit_no_space)
  qed (simp add: hex_encode_def)
  then show ?thesis by (rule trim_line)
qed

text \<open>The files of the certificates.\<close>

definition cert_names :: "string list" where
  "cert_names = [''ca.crt'', ''ca.key'', ''apiserver.crt'', ''apiserver.key'', ''sa.key'', ''sa.pub'']"

definition pki_files :: "string \<Rightarrow> string set" where
  "pki_files dir = (\<lambda>n. filepath_join [dir, n]) ` set cert_names"

lemma cert_name_in:
  "''ca.crt'' \<in> set cert_names" "''ca.key'' \<in> set cert_names" "''apiserver.crt'' \<in> set cert_names"
  "''apiserver.key'' \<in> set cert_names" "''sa.key'' \<in> set cert_names" "''sa.pub'' \<in> set cert_names"
  by (simp_all add: cert_names_def)

section \<open>A file system that may fail\<close>

text \<open>
  \<open>content\<close> are the files and \<open>dirs\<close> the directories of a world. A write that fails may leave anything in its
  file. The other operations of the server touch no file, and neither does polling for a condition
  that does not. Random bytes come as many as asked for.
\<close>

locale server_files =
  fixes e :: "'w server_env" and content :: "'w \<Rightarrow> string \<Rightarrow> string option" and dirs :: "'w \<Rightarrow> string set"
  assumes stat_says: "run_state (lf_is_dir (se_files e) p) w =
      ((if content w p \<noteq> None then Inr False else if p \<in> dirs w then Inr True else Inl OsNotExist), w)"
    and read_gives: "\<exists>x. run_state (lf_read (se_files e) p) w = ((case content w p of Some d \<Rightarrow> Inr d | None \<Rightarrow> Inl x), w)"
    and write_gives: "run_state (lf_write (se_files e) p d) w = (None, v) \<Longrightarrow> content v p = Some d"
    and write_touches: "touches content dirs {p} (lf_write (se_files e) p d)"
    and mkdir_touches: "touches content dirs {} (lf_mkdir_all (se_files e) p)"
    and list_touches: "touches content dirs {} (lf_read_dir (se_files e) p)"
    and keys_touch: "touches content dirs {} (ky_generate (se_keys e))" "touches content dirs {} (ky_now (se_keys e))"
      "touches content dirs {} (ky_sign (se_keys e) t i k k')"
    and random_touches: "touches content dirs {} (se_random e n)"
    and random_length: "run_state (se_random e n) w = (Inr b, v) \<Longrightarrow> length b = n"
    and process_touches: "touches content dirs {} (se_launch e args)" "touches content dirs {} (se_kill e)"
      "touches content dirs {} (se_probe e url ca)"
    and poll_touches: "touches content dirs {} cond \<Longrightarrow> touches content dirs {} (se_poll e every timeout cond)"
    and crds_touch: "se_crds e rc = Inr cl \<Longrightarrow> touches content dirs {} (cc_get cl name)"
      "se_crds e rc = Inr cl \<Longrightarrow> touches content dirs {} (cc_update cl x)"
      "se_crds e rc = Inr cl \<Longrightarrow> touches content dirs {} (cc_create cl x)"
begin

lemma stat_touches: "touches content dirs {} (lf_is_dir (se_files e) p)"
  by (simp add: touches_def stat_says)

lemma read_touches: "touches content dirs {} (lf_read (se_files e) p)"
  unfolding touches_def using read_gives by (metis order_refl prod.inject)

lemmas quiet = stat_touches read_touches mkdir_touches list_touches keys_touch random_touches process_touches

lemma register_touches: "touches content dirs {} (register_crds e rc dir)"
proof (cases "se_crds e rc")
  case (Inr cl)
  note crds = crds_touch [OF Inr]
  have entry: "touches content dirs {} (register_entry e cl dir x)" for x
    unfolding register_entry_def register_crd_def by (cases x) (auto intro!: touching quiet crds)
  have entries: "touches content dirs {} (register_entries e cl dir xs)" for xs
    by (induction xs) (auto intro!: touching entry)
  have "touches content dirs {} (all_established cl ns)" for ns
    by (induction ns) (auto intro!: touching crds)
  then show ?thesis
    by (auto simp: register_crds_def wait_for_crds_established_def Inr intro!: touching quiet entries poll_touches)
qed (simp add: register_crds_def touching)

lemma await_touches: "touches content dirs {} (await_server e c rc)"
  unfolding await_server_def wait_for_ready_def
  by (intro touching quiet register_touches poll_touches)

lemma when_missing_touches:
  "touches content dirs S m \<Longrightarrow> touches content dirs S (when_missing e p m)"
  unfolding when_missing_def by (intro touching touches_less [OF stat_touches]) simp_all

lemma when_present:
  "content w p \<noteq> None \<or> p \<in> dirs w \<Longrightarrow> run_state (when_missing e p m) w = (None, w)"
  by (auto simp: when_missing_def stat_says)

lemma cert_files_touched: "touches content dirs (pki_files dir) (generate_certs e dir addr)" (is "touches _ _ ?S _")
proof -
  have pem: "touches content dirs ?S (write_pem e (filepath_join [dir, n]) type d)" if "n \<in> set cert_names" for n type d
    unfolding write_pem_def pki_files_def by (rule touches_less [OF write_touches]) (use that in blast)
  have q: "touches content dirs {} m \<Longrightarrow> touches content dirs ?S m" for m :: "('w, 'b) state"
    by (erule touches_less) simp
  have certs: "touches content dirs ?S (write_certs e dir ca ca_key serving serving_key sa_key)" for ca ca_key serving serving_key sa_key
    unfolding write_certs_def write_ec_key_def write_ec_pub_key_def by (intro touching pem cert_name_in)
  show ?thesis
    unfolding generate_certs_def signed_def
    by (intro touching certs q [OF keys_touch(1)] q [OF keys_touch(2)] q [OF keys_touch(3)])
qed

lemma token_touched:
  "touches content dirs {admin_token_file dir} (generate_or_load_admin_token e dir)" (is "touches _ _ ?S _")
proof -
  have q: "touches content dirs {} m \<Longrightarrow> touches content dirs ?S m" for m :: "('w, 'b) state"
    by (erule touches_less) simp
  show ?thesis
    unfolding generate_or_load_admin_token_def new_admin_token_def generate_random_hex_def Let_def
    by (intro touching q [OF quiet(1)] q [OF quiet(2)] q [OF quiet(3)] q [OF random_touches] write_touches)
qed

text \<open>A token that was returned is in its file, and is read from there again.\<close>

lemma token_read:
  assumes "content w (admin_token_file dir) = Some d" "trim_space d = t" "t \<noteq> []"
  shows "run_state (generate_or_load_admin_token e dir) w = (Inr t, w)"
  using assms read_gives [of "admin_token_file dir" w]
  by (auto simp: generate_or_load_admin_token_def)

lemma token_stored:
  assumes "run_state (generate_or_load_admin_token e dir) w = (Inr t, v)"
  shows "t \<noteq> [] \<and> (\<exists>d. content v (admin_token_file dir) = Some d \<and> trim_space d = t)"
proof (cases "\<exists>d. content w (admin_token_file dir) = Some d \<and> trim_space d \<noteq> []")
  case True
  then show ?thesis using token_read assms by fastforce
next
  case False
  then have new: "run_state (new_admin_token e dir) w = (Inr t, v)"
    using assms read_gives [of "admin_token_file dir" w]
    by (auto simp: generate_or_load_admin_token_def split: option.splits if_splits)
  then obtain b w1 w2 where b: "run_state (se_random e 32) w = (Inr b, w1)" "t = hex_encode b"
      and wr: "run_state (lf_write (se_files e) (admin_token_file dir) (t @ [CHR 0x0A])) w2 = (None, v)"
    by (auto simp: new_admin_token_def Let_def run_results generate_random_hex_def wrap_error_def
        split: prod.splits sum.splits option.splits)
  have "length t = 64" using random_length [OF b(1)] b(2) by (simp add: length_hex_encode)
  moreover have "trim_space (t @ [CHR 0x0A]) = t" using b(2) by (simp add: trim_hex_line)
  ultimately show ?thesis using write_gives [OF wr] by auto
qed

section \<open>Starting again\<close>

text \<open>What is there after a start that got as far as the token, and after one that succeeded.\<close>

lemma run_server_leaves:
  assumes "run_state (run_server e c t) w = (r, v)" "q \<noteq> (token_file c)"
  shows "content v q = content w q"
proof -
  have q: "touches content dirs {} m \<Longrightarrow> touches content dirs {token_file c} m" for m :: "('w, 'b) state"
    by (erule touches_less) simp
  have t: "touches content dirs {token_file c} (run_server e c t)"
    unfolding run_server_def
    by (intro touching when_missing_touches write_touches q [OF process_touches(1)] q [OF await_touches])
  show ?thesis using assms(2) by (intro touchesD(2) [OF t assms(1)]) simp
qed

lemma launch_touches:
  "touches content dirs {} (check_state (wrap_error what (se_launch e (server_args c))) (await_server e c rc))"
  by (intro touching process_touches await_touches)

lemma run_server_again:
  assumes "content w (token_file c) \<noteq> None \<or> token_file c \<in> dirs w"
  shows "run_state (run_server e c t) w = run_state (check_state (wrap_error ''failed to start kube-apiserver''
      (se_launch e (server_args c))) (await_server e c (rest_config_of c t))) w"
  by (simp add: run_server_def run_check_state when_present [OF assms])

lemma run_server_done:
  assumes "run_state (run_server e c t) w = (Inr rc, v)"
  shows "rc = rest_config_of c t" "content v (ca_file c) \<noteq> None"
    "content v (token_file c) \<noteq> None \<or> (token_file c) \<in> dirs v"
proof -
  let ?p = "token_file c"
  obtain w1 w2 where w1: "run_state (when_missing e ?p (wrap_error ''failed to create token file'' (lf_write (se_files e) ?p (token_line t)))) w = (None, w1)"
      and w2: "run_state (se_launch e (server_args c)) w1 = (None, w2)"
      and aw: "run_state (await_server e c (rest_config_of c t)) w2 = (Inr rc, v)"
    using assms by (auto simp: run_server_def run_check_state wrap_error_def split: prod.splits option.splits)
  have p: "content w1 ?p \<noteq> None \<or> ?p \<in> dirs w1"
  proof (cases "content w ?p \<noteq> None \<or> ?p \<in> dirs w")
    case True
    then show ?thesis using w1 when_present [OF True] by simp
  next
    case False
    then have "run_state (lf_write (se_files e) ?p (token_line t)) w = (None, w1)"
      using w1 by (auto simp: when_missing_def stat_says is_os_not_exist_def wrap_error_def split: prod.splits)
    then show ?thesis using write_gives by simp
  qed
  then have p2: "content w2 ?p \<noteq> None \<or> ?p \<in> dirs w2" using touchesD [OF process_touches(1) w2] by auto
  obtain w3 where ready: "run_state (wait_for_ready e (rest_config_of c t)) w2 = (None, w3)"
      and rc: "rc = rest_config_of c t"
    using aw by (auto simp: await_server_def split: prod.splits option.splits)
  show "rc = rest_config_of c t" by (rule rc)
  have same: "content v = content w2" "dirs w2 \<subseteq> dirs v"
    using touchesD [OF await_touches aw] by auto
  have "content w2 (rc_ca_file (rest_config_of c t)) \<noteq> None"
    using ready read_gives [of "rc_ca_file (rest_config_of c t)" w2]
    by (auto simp: wait_for_ready_def run_results split: option.splits)
  then show "content v (ca_file c) \<noteq> None" using same by (simp add: rest_config_of_def)
  show "content v ?p \<noteq> None \<or> ?p \<in> dirs v" using p2 same by auto
qed

lemma defaults_dir [simp]: "sc_data_dir (with_server_defaults c) = sc_data_dir c"
  by (simp add: with_server_defaults_def)

lemma start_kept:
  assumes "content w (ca_file (with_server_defaults c)) \<noteq> None \<or> ca_file (with_server_defaults c) \<in> dirs w"
  shows "\<exists>r1 w1. content w1 = content w \<and> dirs w \<subseteq> dirs w1 \<and>
      (case r1 of
         Some x \<Rightarrow> run_state (start_server e c) w = (Inl x, w1)
       | None \<Rightarrow> run_state (start_server e c) w = run_state
           (try_state (wrap_result ''failed to generate admin token'' (generate_or_load_admin_token e (sc_data_dir c)))
             (run_server e (with_server_defaults c))) w1)"
proof -
  let ?c = "with_server_defaults c"
  obtain m w1 where m: "run_state (lf_mkdir_all (se_files e) (cert_dir ?c)) w = (m, w1)" by (metis surj_pair)
  have w1: "content w1 = content w" "dirs w \<subseteq> dirs w1" using touchesD [OF mkdir_touches m] by auto
  then have "content w1 (ca_file ?c) \<noteq> None \<or> ca_file ?c \<in> dirs w1" using assms by auto
  note skip = when_present [OF this]
  show "\<exists>r1 w1. content w1 = content w \<and> dirs w \<subseteq> dirs w1 \<and>
      (case r1 of
         Some x \<Rightarrow> run_state (start_server e c) w = (Inl x, w1)
       | None \<Rightarrow> run_state (start_server e c) w = run_state
           (try_state (wrap_result ''failed to generate admin token'' (generate_or_load_admin_token e (sc_data_dir c)))
             (run_server e ?c)) w1)"
    using m w1 skip
    by (intro exI [of _ "map_option (Wrap ''failed to create cert dir'') m"] exI [of _ w1])
       (cases m; simp add: start_server_def Let_def run_check_state wrap_error_def)
qed

text \<open>Once the certificate of the authority is there, nothing but the two token files changes.\<close>

lemma certificates_stay:
  assumes "content w (ca_file (with_server_defaults c)) \<noteq> None \<or> ca_file (with_server_defaults c) \<in> dirs w"
    and "q \<notin> {admin_token_file (sc_data_dir c), token_file (with_server_defaults c)}"
  shows "content (snd (run_state (start_server e c) w)) q = content w q"
proof -
  obtain r1 w1 where w1: "content w1 = content w" "(case r1 of
         Some x \<Rightarrow> run_state (start_server e c) w = (Inl x, w1)
       | None \<Rightarrow> run_state (start_server e c) w = run_state
           (try_state (wrap_result ''failed to generate admin token'' (generate_or_load_admin_token e (sc_data_dir c)))
             (run_server e (with_server_defaults c))) w1)"
    using start_kept [OF assms(1)] by blast
  obtain t w2 where t: "run_state (generate_or_load_admin_token e (sc_data_dir c)) w1 = (t, w2)" by (metis surj_pair)
  then have w2: "content w2 q = content w q" using touchesD(2) [OF token_touched t] w1(1) assms(2) by simp
  show ?thesis
  proof (cases t)
    case (Inr x)
    obtain r w3 where r: "run_state (run_server e (with_server_defaults c) x) w2 = (r, w3)" by (metis surj_pair)
    have "content w3 q = content w2 q" using run_server_leaves [OF r] assms(2) by simp
    then show ?thesis using w1 w2 t Inr r by (auto simp: run_results split: option.splits)
  qed (use w1 w2 t in \<open>auto simp: run_results split: option.splits\<close>)
qed

text \<open>A start that succeeded leaves what the next one needs.\<close>

definition settled :: "server_config \<Rightarrow> string \<Rightarrow> 'w \<Rightarrow> bool" where
  "settled c t w \<longleftrightarrow>
     content w (ca_file c) \<noteq> None \<and>
     (content w (token_file c) \<noteq> None \<or> token_file c \<in> dirs w) \<and> t \<noteq> [] \<and>
     (\<exists>d. content w (admin_token_file (sc_data_dir c)) = Some d \<and> trim_space d = t)"

lemma started_settled:
  assumes "run_state (start_server e c) w = (Inr rc, v)"
    and "admin_token_file (sc_data_dir c) \<noteq> token_file (with_server_defaults c)"
  shows "\<exists>t. rc = rest_config_of (with_server_defaults c) t \<and> settled (with_server_defaults c) t v"
proof -
  let ?c = "with_server_defaults c"
  obtain t w1 w2 where t: "run_state (generate_or_load_admin_token e (sc_data_dir c)) w1 = (Inr t, w2)"
      and r: "run_state (run_server e ?c t) w2 = (Inr rc, v)"
    using assms(1)
    by (auto simp: start_server_def Let_def run_results wrap_error_def map_sum_id_Inr split: prod.splits sum.splits option.splits)
  have "content v (admin_token_file (sc_data_dir c)) = content w2 (admin_token_file (sc_data_dir c))"
    by (rule run_server_leaves [OF r assms(2)])
  then show ?thesis using token_stored [OF t] run_server_done [OF r] by (auto simp: settled_def)
qed

lemma settled_start:
  assumes "settled (with_server_defaults c) t w" "run_state (start_server e c) w = (r, v)"
  shows "content v = content w" "\<And>rc. r = Inr rc \<Longrightarrow> rc = rest_config_of (with_server_defaults c) t"
proof -
  let ?c = "with_server_defaults c"
  have ca: "content w (ca_file ?c) \<noteq> None \<or> ca_file ?c \<in> dirs w" using assms(1) by (simp add: settled_def)
  obtain r1 w1 where w1: "content w1 = content w" "dirs w \<subseteq> dirs w1" "(case r1 of
         Some x \<Rightarrow> run_state (start_server e c) w = (Inl x, w1)
       | None \<Rightarrow> run_state (start_server e c) w = run_state
           (try_state (wrap_result ''failed to generate admin token'' (generate_or_load_admin_token e (sc_data_dir c)))
             (run_server e ?c)) w1)"
    using start_kept [OF ca] by blast
  have "content v = content w \<and> (\<forall>rc. r = Inr rc \<longrightarrow> rc = rest_config_of ?c t)"
  proof (cases r1)
    case None
    obtain d where "content w1 (admin_token_file (sc_data_dir c)) = Some d" "trim_space d = t" "t \<noteq> []"
      using assms(1) w1(1) by (auto simp: settled_def)
    then have tok: "run_state (generate_or_load_admin_token e (sc_data_dir c)) w1 = (Inr t, w1)" by (rule token_read)
    have tf: "content w1 (token_file ?c) \<noteq> None \<or> token_file ?c \<in> dirs w1"
      using assms(1) w1 by (auto simp: settled_def)
    have run: "run_state (check_state (wrap_error ''failed to start kube-apiserver'' (se_launch e (server_args ?c)))
        (await_server e ?c (rest_config_of ?c t))) w1 = (r, v)"
      using w1(3) None tok assms(2) run_server_again [OF tf] by (simp add: run_results)
    have "content v = content w1"
      using touchesD(2) [OF launch_touches run] by (simp add: fun_eq_iff)
    moreover have "rc = rest_config_of ?c t" if "r = Inr rc" for rc
    proof -
      have "run_state (run_server e ?c t) w1 = (Inr rc, v)" using run run_server_again [OF tf] that by simp
      then show ?thesis by (rule run_server_done(1))
    qed
    ultimately show ?thesis using w1(1) by simp
  qed (use w1 assms(2) in auto)
  then show "content v = content w" "\<And>rc. r = Inr rc \<Longrightarrow> rc = rest_config_of (with_server_defaults c) t" by auto
qed

lemma new_token_unused:
  assumes "content w (ca_file (with_server_defaults c)) \<noteq> None" "content w (token_file (with_server_defaults c)) \<noteq> None"
    and "content w (admin_token_file (sc_data_dir c)) = None" "run_state (start_server e c) w = (Inr rc, v)"
    and "admin_token_file (sc_data_dir c) \<noteq> token_file (with_server_defaults c)"
  shows "content v (token_file (with_server_defaults c)) = content w (token_file (with_server_defaults c)) \<and>
    (\<exists>b u u'. run_state (se_random e 32) u = (Inr b, u') \<and> rc_bearer_token rc = hex_encode b)"
proof -
  let ?c = "with_server_defaults c"
  obtain w1 where w1: "content w1 = content w" and run: "run_state (start_server e c) w = run_state
      (try_state (wrap_result ''failed to generate admin token'' (generate_or_load_admin_token e (sc_data_dir c)))
        (run_server e ?c)) w1"
    using start_kept [of w c] assms(1,4) by (auto split: option.splits)
  obtain t w2 where t: "run_state (generate_or_load_admin_token e (sc_data_dir c)) w1 = (Inr t, w2)"
      and r: "run_state (run_server e ?c t) w2 = (Inr rc, v)"
    using run assms(4) by (auto simp: run_results split: prod.splits sum.splits)
  have "run_state (new_admin_token e (sc_data_dir c)) w1 = (Inr t, w2)"
    using t assms(3) w1 read_gives [of "admin_token_file (sc_data_dir c)" w1]
    by (auto simp: generate_or_load_admin_token_def)
  then obtain b u' where b: "run_state (se_random e 32) w1 = (Inr b, u')" "t = hex_encode b"
    by (auto simp: new_admin_token_def Let_def run_results generate_random_hex_def wrap_error_def
        split: prod.splits sum.splits option.splits)
  have kept: "content w2 (token_file ?c) = content w (token_file ?c)"
    using touchesD(2) [OF token_touched t] assms(5) w1 by simp
  then have "run_state (check_state (wrap_error ''failed to start kube-apiserver'' (se_launch e (server_args ?c)))
      (await_server e ?c (rest_config_of ?c t))) w2 = (Inr rc, v)"
    using run_server_again [of w2 ?c t] r assms(2) by simp
  then have "content v (token_file ?c) = content w2 (token_file ?c)"
    by (rule touchesD(2) [OF launch_touches]) simp
  then show ?thesis using b kept run_server_done(1) [OF r] by (auto simp: rest_config_of_def)
qed

end

section \<open>Names of files\<close>

lemma cert_dir_elements:
  assumes "is_rooted (sc_data_dir c)"
  shows "is_rooted (cert_dir c)" "path_elements (cert_dir c) = path_elements (sc_data_dir c) @ [''pki'']"
proof -
  have "plain_element ''pki''" by (simp add: plain_element_def)
  then show "is_rooted (cert_dir c)" "path_elements (cert_dir c) = path_elements (sc_data_dir c) @ [''pki'']"
    using join_rooted(1) [OF assms] join_element [OF assms] by (simp_all add: cert_dir_def)
qed

lemma pki_elements:
  assumes "is_rooted (sc_data_dir c)" "plain_element n"
  shows "path_elements (filepath_join [cert_dir c, n]) = path_elements (sc_data_dir c) @ [''pki'', n]"
  using join_element [OF cert_dir_elements(1) [OF assms(1)] assms(2)] cert_dir_elements(2) [OF assms(1)] by simp

lemma admin_token_elements:
  assumes "is_rooted dir"
  shows "path_elements (admin_token_file dir) = path_elements dir @ [''admin-token'']"
proof -
  have "plain_element ''admin-token''" by (simp add: plain_element_def)
  then show ?thesis using join_element [OF assms] by (simp add: admin_token_file_def)
qed

lemma token_plain: "plain_element ''token.csv''"
  by (simp add: plain_element_def)

lemma token_files_apart:
  assumes "is_rooted (sc_data_dir c)"
  shows "admin_token_file (sc_data_dir c) \<noteq> token_file c"
proof
  assume "admin_token_file (sc_data_dir c) = token_file c"
  then have "path_elements (sc_data_dir c) @ [''admin-token''] = path_elements (sc_data_dir c) @ [''pki'', ''token.csv'']"
    using admin_token_elements [OF assms] pki_elements [OF assms token_plain] by (simp add: token_file_def)
  then show False by simp
qed

lemma certs_apart:
  assumes "is_rooted (sc_data_dir c)" "n \<in> set cert_names"
  shows "filepath_join [cert_dir c, n] \<notin> {admin_token_file (sc_data_dir c), token_file c}"
proof -
  have names: "\<forall>n \<in> set cert_names. plain_element n \<and> n \<noteq> ''token.csv''" by code_simp
  then have n: "plain_element n" "n \<noteq> ''token.csv''" using assms(2) by auto
  have "path_elements (filepath_join [cert_dir c, n]) = path_elements (sc_data_dir c) @ [''pki'', n]"
    by (rule pki_elements [OF assms(1) n(1)])
  moreover have "path_elements (token_file c) = path_elements (sc_data_dir c) @ [''pki'', ''token.csv'']"
    unfolding token_file_def by (rule pki_elements [OF assms(1) token_plain])
  ultimately show ?thesis using n(2) admin_token_elements [OF assms(1)] by force
qed

section \<open>The server on a disk\<close>

text \<open>An environment that can be run: files are a list, keys and certificates are texts, random bytes depend on
  the number of directories, polling looks once, and no custom resource can be registered.\<close>

record server_disk =
  sk_files :: "(string \<times> string) list"
  sk_dirs :: "string list"

definition server_disk_files :: "server_disk local_files" where
  "server_disk_files =
     \<lparr>lf_is_dir = \<lambda>p. State (\<lambda>w. (if map_of (sk_files w) p \<noteq> None then Inr False
        else if p \<in> set (sk_dirs w) then Inr True else Inl OsNotExist, w)),
      lf_mkdir_all = \<lambda>p. State (\<lambda>w. (None, w\<lparr>sk_dirs := p # sk_dirs w\<rparr>)),
      lf_read = \<lambda>p. State (\<lambda>w. (case map_of (sk_files w) p of None \<Rightarrow> Inl OsNotExist | Some d \<Rightarrow> Inr d, w)),
      lf_write = \<lambda>p d. State (\<lambda>w. (None, w\<lparr>sk_files := AList.update p d (sk_files w)\<rparr>)),
      lf_walk = \<lambda>p. State_Monad.return [],
      lf_read_dir = \<lambda>p. State_Monad.return (Inr []),
      lf_temp_dir = \<lambda>p. State_Monad.return (Inr ''/tmp/x''),
      lf_remove_all = \<lambda>p. State_Monad.return None\<rparr>"

definition plain_keys :: "server_disk key_ops" where
  "plain_keys =
     \<lparr>ky_generate = State_Monad.return (Inr ''key''), ky_now = State_Monad.return 0,
      ky_sign = \<lambda>t i k k'. State_Monad.return (Inr (ct_common_name t)), ky_parse = \<lambda>c. None,
      ky_private = Inr, ky_public = Inr, ky_pem = \<lambda>t d. t @ '' '' @ d\<rparr>"

definition server_on_disk :: "server_disk server_env" where
  "server_on_disk =
     \<lparr>se_files = server_disk_files, se_keys = plain_keys,
      se_random = \<lambda>n. State (\<lambda>w. (Inr (replicate n (if length (sk_dirs w) < 2 then CHR ''a'' else CHR ''b'')), w)),
      se_launch = \<lambda>args. State_Monad.return None, se_kill = State_Monad.return (),
      se_probe = \<lambda>url ca. State_Monad.return True,
      se_poll = \<lambda>every timeout cond. do {
        b \<leftarrow> cond; State_Monad.return (if b then None else Some (Err ''context deadline exceeded'')) },
      se_decode_crd = \<lambda>data. Inl (Err ''yaml''),
      se_crds = \<lambda>rc. Inl (Err ''no configuration'')\<rparr>"

interpretation server_disk: server_files server_on_disk "\<lambda>w. map_of (sk_files w)" "\<lambda>w. set (sk_dirs w)"
proof
  fix cond :: "(server_disk, bool) state" and every timeout
  assume "touches (\<lambda>w. map_of (sk_files w)) (\<lambda>w. set (sk_dirs w)) {} cond"
  then show "touches (\<lambda>w. map_of (sk_files w)) (\<lambda>w. set (sk_dirs w)) {} (se_poll server_on_disk every timeout cond)"
    by (simp add: server_on_disk_def touching)
qed (auto simp: server_on_disk_def server_disk_files_def plain_keys_def touches_def update_conv' split: option.splits)

definition demo_config :: server_config where
  "demo_config = \<lparr>sc_data_dir = ''/data'', sc_etcd_url = [], sc_bind_addr = [], sc_secure_port = [], sc_crd_dir = []\<rparr>"

lemma demo_rooted: "is_rooted (sc_data_dir demo_config)"
  by (simp add: demo_config_def is_rooted_def has_prefix_def)

text \<open>On this disk a start succeeds unless a directory has the name of the certificate.\<close>

lemmas disk_simps = server_on_disk_def server_disk_files_def plain_keys_def run_results then_step_def wrap_error_def
  update_conv' is_os_not_exist_def

lemma disk_certs:
  "\<exists>v. run_state (generate_certs server_on_disk dir addr) w = (None, v) \<and>
    map_of (sk_files v) (filepath_join [dir, ''ca.crt'']) \<noteq> None"
  by (simp add: generate_certs_def signed_def write_certs_def write_ec_key_def write_ec_pub_key_def write_pem_def disk_simps)

lemma disk_token:
  "\<exists>t v. run_state (generate_or_load_admin_token server_on_disk dir) w = (Inr t, v) \<and>
    (map_of (sk_files w) p \<noteq> None \<longrightarrow> map_of (sk_files v) p \<noteq> None)"
  by (auto simp: generate_or_load_admin_token_def new_admin_token_def generate_random_hex_def Let_def disk_simps
      split: option.splits)

lemma disk_run:
  assumes "map_of (sk_files w) (ca_file c) \<noteq> None"
  shows "\<exists>v. run_state (run_server server_on_disk c t) w = (Inr (rest_config_of c t), v)"
  using assms
  by (auto simp: run_server_def when_missing_def await_server_def wait_for_ready_def register_crds_def rest_config_of_def
      disk_simps)

lemma disk_start:
  assumes "map_of (sk_files w) (ca_file (with_server_defaults c)) \<noteq> None \<or>
    ca_file (with_server_defaults c) \<notin> set (cert_dir (with_server_defaults c) # sk_dirs w)"
  shows "\<exists>t v. run_state (start_server server_on_disk c) w = (Inr (rest_config_of (with_server_defaults c) t), v)"
proof -
  let ?c = "with_server_defaults c"
  let ?w = "w\<lparr>sk_dirs := cert_dir ?c # sk_dirs w\<rparr>"
  have mk: "run_state (lf_mkdir_all (se_files server_on_disk) (cert_dir ?c)) w = (None, ?w)" by (simp add: disk_simps)
  obtain w1 where w1: "run_state (when_missing server_on_disk (ca_file ?c) (wrap_error ''failed to generate certs''
      (generate_certs server_on_disk (cert_dir ?c) (sc_bind_addr ?c)))) ?w = (None, w1)" "map_of (sk_files w1) (ca_file ?c) \<noteq> None"
  proof (cases "map_of (sk_files w) (ca_file ?c)")
    case None
    obtain v where v: "run_state (generate_certs server_on_disk (cert_dir ?c) (sc_bind_addr ?c)) ?w = (None, v)"
        "map_of (sk_files v) (filepath_join [cert_dir ?c, ''ca.crt'']) \<noteq> None"
      using disk_certs by blast
    have "run_state (lf_is_dir (se_files server_on_disk) (ca_file ?c)) ?w = (Inl OsNotExist, ?w)"
      using None assms by (simp add: disk_simps)
    then show ?thesis
      using that [of v] v by (simp add: when_missing_def wrap_error_def is_os_not_exist_def ca_file_def)
  next
    case (Some d)
    then have "run_state (when_missing server_on_disk (ca_file ?c) m) ?w = (None, ?w)" for m
      by (intro server_disk.when_present) simp
    then show ?thesis using that [of ?w] Some by simp
  qed
  obtain t w2 where w2: "run_state (generate_or_load_admin_token server_on_disk (sc_data_dir c)) w1 = (Inr t, w2)"
      "map_of (sk_files w2) (ca_file ?c) \<noteq> None"
    using disk_token w1(2) by blast
  obtain v where "run_state (run_server server_on_disk ?c t) w2 = (Inr (rest_config_of ?c t), v)"
    using disk_run [OF w2(2)] by blast
  then show ?thesis using mk w1 w2 by (auto simp: start_server_def Let_def run_results wrap_error_def server_disk.defaults_dir)
qed

lemma demo_ca_file: "ca_file (with_server_defaults demo_config) \<noteq> cert_dir (with_server_defaults demo_config)"
  by code_simp

section \<open>Restarts\<close>



text \<open>A lost administrator token is never accepted again: where the server was started before (its certificates
  and its token file exist) but the file with the controller's own copy of the token is gone, a start
  that succeeds makes a new token for the controller and leaves the token file, which is all the API
  server reads, as it is, so that the server still expects the old one.\<close>

theorem lost_admin_token_locks_out:
  assumes "server_files e content dirs" "is_rooted (sc_data_dir c)"
    and "content w (ca_file (with_server_defaults c)) \<noteq> None"
    and "content w (token_file (with_server_defaults c)) = Some (token_line old)"
    and "content w (admin_token_file (sc_data_dir c)) = None"
    and "run_state (start_server e c) w = (Inr rc, v)"
  shows "content v (token_file (with_server_defaults c)) = Some (token_line old) \<and>
    (\<exists>b u u'. run_state (se_random e 32) u = (Inr b, u') \<and> rc_bearer_token rc = hex_encode b)"
proof -
  let ?c = "with_server_defaults c"
  have dir: "sc_data_dir ?c = sc_data_dir c" by (rule server_files.defaults_dir [OF assms(1)])
  then have apart: "admin_token_file (sc_data_dir c) \<noteq> token_file ?c" using token_files_apart [of ?c] assms(2) by simp
  show ?thesis using server_files.new_token_unused [OF assms(1) _ _ assms(5,6) apart] assms(3,4) by auto
qed

definition stale_disk :: server_disk where
  "stale_disk = \<lparr>sk_files = [(ca_file (with_server_defaults demo_config), ''ca''),
     (token_file (with_server_defaults demo_config), token_line ''0a'')], sk_dirs = []\<rparr>"

lemma stale_disk_files:
  "map_of (sk_files stale_disk) (ca_file (with_server_defaults demo_config)) = Some ''ca''"
  "map_of (sk_files stale_disk) (token_file (with_server_defaults demo_config)) = Some (token_line ''0a'')"
  "map_of (sk_files stale_disk) (admin_token_file (sc_data_dir demo_config)) = None"
  "map_of (sk_files stale_disk) (filepath_join [cert_dir (with_server_defaults demo_config), ''apiserver.key'']) = None"
  by code_simp+

lemma lost_admin_token_locks_out_witness:
  "\<exists>rc v b. run_state (start_server server_on_disk demo_config) stale_disk = (Inr rc, v) \<and>
    map_of (sk_files v) (token_file (with_server_defaults demo_config)) = Some (token_line ''0a'') \<and>
    rc_bearer_token rc = hex_encode b"
proof -
  obtain t v where 1: "run_state (start_server server_on_disk demo_config) stale_disk =
      (Inr (rest_config_of (with_server_defaults demo_config) t), v)"
    using disk_start [of stale_disk demo_config] stale_disk_files(1) by auto
  show ?thesis
    using lost_admin_token_locks_out [OF server_disk.server_files_axioms demo_rooted _ stale_disk_files(2,3) 1]
      stale_disk_files(1) 1 by auto
qed

text \<open>C39. Certificates that were written only in part are never completed: once the certificate of the authority,
  the first of the files, exists, none of the other key and certificate files that is missing comes
  into being, however often the server is started and whatever else works or fails.\<close>

theorem partial_certificates_stay:
  assumes "server_files e content dirs" "is_rooted (sc_data_dir c)"
    and "content w (ca_file (with_server_defaults c)) \<noteq> None"
    and "n \<in> set cert_names" "content w (filepath_join [cert_dir (with_server_defaults c), n]) = None"
  shows "content (((\<lambda>u. snd (run_state (start_server e c) u)) ^^ k) w)
    (filepath_join [cert_dir (with_server_defaults c), n]) = None"
proof -
  let ?c = "with_server_defaults c"
  have dir: "sc_data_dir ?c = sc_data_dir c" by (rule server_files.defaults_dir [OF assms(1)])
  have apart: "filepath_join [cert_dir ?c, m] \<notin> {admin_token_file (sc_data_dir c), token_file ?c}" if "m \<in> set cert_names" for m
    using certs_apart [of ?c m] dir assms(2) that by simp
  have "content (((\<lambda>u. snd (run_state (start_server e c) u)) ^^ k) w) (ca_file ?c) \<noteq> None \<and>
      content (((\<lambda>u. snd (run_state (start_server e c) u)) ^^ k) w) (filepath_join [cert_dir ?c, n]) = None"
  proof (induction k)
    case (Suc k)
    then show ?case
      using server_files.certificates_stay [OF assms(1) _ apart [OF assms(4)]]
        server_files.certificates_stay [OF assms(1) _ apart [OF cert_name_in(1)]]
      by (simp add: ca_file_def)
  qed (use assms(3,5) in simp)
  then show ?thesis by blast
qed

lemma partial_certificates_stay_witness:
  "map_of (sk_files (((\<lambda>u. snd (run_state (start_server server_on_disk demo_config) u)) ^^ 3) stale_disk))
    (filepath_join [cert_dir (with_server_defaults demo_config), ''apiserver.key'']) = None"
  using partial_certificates_stay [OF server_disk.server_files_axioms demo_rooted _ cert_name_in(4), of stale_disk 3]
    stale_disk_files(1,4) by simp

end
