(* ===== verification/Spec2Isabelle.thy ===== *)
theory Spec2Isabelle
  imports Auth_Authenticator Auth_Middleware Member_Convergence Provisioner_Expose Team_Properties
    Proxy_Security Agents_Md Minio_Policy Credentials Provisioner_Properties Deployer_Properties
    Human_Properties Manager_Properties Cred_Provider Minio_Properties Api_Properties
    Higress_Properties Ai_Gateway App_Properties Migration_Properties Initializer_Properties
    Watcher_Properties Nacos_Properties Package_Resolve Cli_Properties Cli_Commands
    Embedded_Properties
begin

text \<open>
  HiClaw: a verification library for the controller of the agent platform
  (\<open>hiclaw-controller/\<close>, Go). The paths below are relative to \<open>hiclaw-controller/\<close>.

  \<^bold>\<open>The program.\<close> The controller reconciles four custom resources (Worker, Team, Human, Manager) into
  containers, Matrix accounts and rooms, gateway consumers and routes, object store prefixes and
  configuration files. Beside the reconcilers it has an HTTP API that workers, managers and humans
  call with ServiceAccount tokens, a proxy in front of the Docker socket, and, in the embedded
  deployment, a file watcher and a registry migration that feed the resources. One process
  (\<open>internal/app\<close>) builds the components from the environment (\<open>internal/config\<close>); once it is the
  leader the initializer bootstraps the shared services. The reconcilers call the provisioner
  (Matrix, gateway, credentials, ServiceAccounts), the deployer (packages and files in the object
  store), the environment builder and a backend (Docker or Kubernetes).

  \<^bold>\<open>Conventions.\<close> A struct is a \<open>record\<close>, an enumeration a \<open>datatype\<close> or its strings, a Go string a list of
  bytes, a Go map an association list in the order in which a loop visits it. A function that
  calls the outside is a computation of the state monad over a world \<open>'w\<close> no theorem looks into; the
  outside itself (Kubernetes API, Docker engine, homeserver, gateway consoles, \<open>mc\<close>, file system,
  clock, random source, JSON and YAML codecs, hashes) is a record of operations over that world, the
  interface of the Go code. An error is a value of \<open>go_error\<close>, with wrapping kept, and a fallible
  call ends in \<open>go_error option\<close> or \<open>go_error + 'a\<close>; a run-time panic is the error \<open>Panic\<close>. Integers
  that can wrap (durations, sizes, hashes, page numbers) are words or written with the wrap-around.
  What the code relies on of the outside is an assumption of a \<open>locale\<close>; each locale is interpreted, on
  the definitions of the component that provides the operations or on an executable model of the
  service in question, so that its assumptions are seen to be satisfiable. Logging, metrics and events
  are left out everywhere.

  \<^bold>\<open>Theories.\<close>
  \<^item> Prelude: \<open>Go_Prelude\<close> (strings, errors, maps, numerals), \<open>Go_Strings\<close> (substring search), \<open>Go_Results\<close>
    (the shapes of error handling, pairs of states, the de-duplication loop several packages repeat),
    \<open>Go_Json\<close> (decoding), \<open>Go_Url\<close> (\<open>net/url\<close>, query strings, base64), \<open>Go_Path\<close> (\<open>path/filepath\<close>), \<open>Storage\<close>
    (object store, documents, local files).
  \<^item> \<open>Api_Types\<close>: \<open>api/v1beta1/types.go\<close>.
  \<^item> \<open>Auth_Prefix\<close>, \<open>Auth_Authenticator\<close>, \<open>Auth_Authorizer\<close>, \<open>Auth_Middleware\<close>: \<open>internal/auth\<close>: names of
    ServiceAccounts and their parser, the bounded TokenReview cache, the permission matrix, the
    enricher and the middleware.
  \<^item> \<open>Backend_Core\<close>, \<open>Pod_Template\<close>, \<open>Backend_Kubernetes\<close>, \<open>Backend_Docker\<close>: \<open>internal/backend\<close>. The locale
    \<open>worker_backend_contract\<close> is what every backend promises of create, delete, start, stop and
    status; both backends are sublocales of it.
  \<^item> \<open>Worker_Env\<close>, \<open>Member_Reconcile\<close>, \<open>Member_Convergence\<close>: the member phases shared by the Worker and Team
    reconcilers (\<open>internal/controller/member_reconcile.go\<close>) and their convergence on every backend.
  \<^item> \<open>Worker_Controller\<close>, \<open>Worker_Properties\<close>; \<open>Team_Policy\<close>, \<open>Team_Reconcile\<close>, \<open>Team_Properties\<close>;
    \<open>Human_Controller\<close>, \<open>Human_Properties\<close>; \<open>Manager_Controller\<close>, \<open>Manager_Properties\<close>: the reconcilers.
  \<^item> \<open>Provisioner_Rooms\<close>, \<open>Provisioner_Agents\<close>, \<open>Provisioner_Expose\<close>, \<open>Room_Membership\<close>,
    \<open>Provisioner_Properties\<close>, \<open>Credentials\<close>, \<open>Legacy_Registry\<close>: \<open>internal/service\<close>, provisioning.
  \<^item> \<open>Package_Deploy\<close>, \<open>Agents_Md\<close>, \<open>Openclaw_Config\<close>, \<open>Plugin_Merge\<close>, \<open>Deployer\<close>, \<open>Deployer_Properties\<close>:
    \<open>internal/service/deployer.go\<close>, \<open>internal/agentconfig\<close>, \<open>internal/executor/package.go\<close>.
  \<^item> \<open>Nacos_Client\<close>, \<open>Nacos_Specs\<close>, \<open>Package_Resolve\<close>, \<open>Nacos_Properties\<close>: the rest of \<open>internal/executor\<close>: logins
    and calls of the Nacos registry, writing specifications, unpacking skills, resolving packages of
    every scheme, running scripts. A session of the Nacos client is a state of its own (\<open>nacos_state\<close>:
    the world, the tokens and credentials), entered and left by \<open>in_session\<close>.
  \<^item> \<open>Matrix_Client\<close>: \<open>internal/matrix\<close>; \<open>Storage\<close>, \<open>Minio_Client\<close>, \<open>Minio_Properties\<close>, \<open>Minio_Policy\<close>,
    \<open>Access_Resolver\<close>: \<open>internal/oss\<close> and \<open>internal/accessresolver\<close>; \<open>Cred_Provider\<close>:
    \<open>internal/credprovider\<close> and \<open>internal/credentials\<close>; \<open>Higress_Client\<close>, \<open>Higress_Routes\<close>,
    \<open>Higress_Properties\<close>, \<open>Ai_Gateway\<close>: \<open>internal/gateway\<close>.
  \<^item> \<open>Api_Server\<close>, \<open>Api_Lifecycle\<close>, \<open>Api_Routes\<close>, \<open>Api_Properties\<close>: \<open>internal/server\<close>; \<open>Proxy_Security\<close>:
    \<open>internal/proxy\<close>.
  \<^item> \<open>Cli_Client\<close>, \<open>Cli_Get\<close>, \<open>Cli_Create\<close>, \<open>Cli_Apply\<close>: the command line \<open>cmd/hiclaw\<close>, over a record of its
    transport, clock, environment and output; \<open>Cli_Commands\<close>: the table of commands and flags. \<open>Cli_Controller\<close>
    puts the client and the model of the HTTP API together: a request of the command line is served by
    \<open>serve_api\<close>, its answer read by the client; \<open>Cli_Properties\<close>: the wait for a worker, package shorthands.
  \<^item> \<open>Config_Load\<close>, \<open>Registry_Migration\<close>, \<open>Migration_Properties\<close>, \<open>Initializer\<close>, \<open>Initializer_Properties\<close>,
    \<open>App_Wiring\<close>, \<open>App_Properties\<close>, \<open>File_Watcher\<close>, \<open>Watcher_Properties\<close>: configuration, migration, bootstrap,
    wiring and file watcher; \<open>Embedded_Server\<close>, \<open>Embedded_Properties\<close>: kine and the API server of the embedded
    mode (\<open>internal/store\<close>, \<open>internal/apiserver\<close>) with the files they keep.

  Within a theory the definitions follow the order of the code and carry its names in snake case,
  record fields a prefix of their record.

  \<^bold>\<open>What is shown.\<close> Reconciling converges: a pass of the container phase reaches the desired lifecycle
  state from any state of the engine or the cluster, a team pass leaves nothing to recreate, a room
  pass reaches the desired members, statuses say what happened. Access is what the matrix says: tokens
  are vouched for by a TokenReview, tenants with independent prefixes are apart, roles reach exactly
  their endpoints, the Docker proxy forwards exactly the permitted requests, store and gateway
  permissions are those resolved for the agent. State survives: credentials, plugin settings, agent
  documents, AI route authorizations, objects of a deployed agent and existing custom resources are
  kept by repeated passes and restarts, of the embedded API server too. Several theorems state what the code does where this differs
  from what its comments say or from what it means to do, for instance that a restart duplicates
  renamed workers, that a failed sync is not retried and that an outage lets a deployment replace
  \<open>SOUL.md\<close>, that agent specifications write outside their directory and that the command line cannot
  apply a human twice; their text says so.

  \<^bold>\<open>Bounds and fuel.\<close> Loops the code bounds keep its bound: 10 port retries (\<open>max_port_retries\<close>), 3 update
  attempts of the API (\<open>k8s_update_max_retries\<close>), 5 of an AI route (\<open>route_max_retries\<close>), the login
  attempts of the Matrix client. The polling loop of the initializer has no bound but the clock; the
  model allows \<open>retry_rounds\<close> = 102 rounds and \<open>bootstrap_ends\<close> shows that they suffice while the clock
  is not turned back. The page loops of the cloud gateway read at most \<open>agw_pages\<close> pages, a parameter
  that \<open>find_consumer_enough\<close> shows sufficient when it is at least the number of pages of the account.
  The wait of the command line for a worker has \<open>poll_rounds\<close> rounds, as many as pauses of two seconds fit
  into the timeout and two more; \<open>worker_wait_ends\<close> shows that they suffice. Heartbeats of \<open>report-ready\<close>
  never end in the code; the model takes their number as an argument.
  Polling of the embedded API server is a helper of a library and a parameter.
  The other loops are structural or have a measure (\<open>remove_coordination_block\<close>, \<open>replace_all\<close>,
  \<open>deep_merge_map\<close>).

  \<^bold>\<open>Parameters.\<close> JSON and YAML text, SHA-256 and HMAC, quantities and owner references of Kubernetes,
  regular HTTP transport, TLS and the Alibaba Cloud SDK are code outside the repository: what the
  program uses of them is an argument of the definitions. JSON documents are values of \<open>json\<close>, with
  the decoding into structs written out where the field rules matter.

  \<^bold>\<open>Concurrency.\<close> The operations of an object behind a mutex (authenticator cache, token manager,
  readiness flags) are atomic steps, and the invariants of those objects hold after every sequence
  of them. A reconcile of one resource is one run; controller-runtime never runs two for one key.

  \<^bold>\<open>Not modelled.\<close> \<open>zz_generated.deepcopy.go\<close> (generated copies), \<open>internal/metrics\<close> (counters) and
  \<open>internal/mail\<close> (a text handed to SMTP, which nothing calls), the goroutines, listeners and signals of
  \<open>internal/app\<close> and \<open>cmd/controller\<close>, the programs \<open>internal/apiserver\<close> and \<open>internal/store\<close> start,
  \<open>SetupWithManager\<close> registrations beyond the predicates and mappings of events, and the test doubles
  under \<open>test/\<close> and \<open>*fake/\<close> other than the in-memory store. Of the command line the splitting of words
  into flags (cobra), the help texts and the widths of printed columns are left out. What remains of
  the mapped files are imports, struct tags, log lines and constructors that copy their arguments.
\<close>

end
